(* ===== verification/Prelude.thy ===== *)
theory Prelude
  imports Complex_Main
begin

text \<open>
  Shared vocabulary of the development: the exceptions the Python code raises as a
  datatype, the result type of a routine that may raise, sequencing of such routines,
  and the few list facts several components need.

  A Python routine that may raise is a function into \<open>'a res\<close>; \<open>Inl e\<close> is the
  raised exception, \<open>Inr v\<close> the returned value. \<open>bindR\<close> is sequencing: the rest of
  the routine does not run after a raise.
\<close>

named_theorems res_simps \<open>evaluation of routines that may raise\<close>

datatype exc =
    ValueError string
  | TypeErrorExc string
  | DivisionByZero
  | InvalidOperation
  | KeyErrorExc string
  | RuntimeErrorExc string
  | IntegrityViolation string
  | ProjectionEvidence string
  | HoldError string
  | LeaseLost string
  | PreconditionFailed "string list"
  | PaginationError
  | SellableEvidence string
  | SellEvidenceDamaged string
  | PositionEvidenceDamaged string
  | BrokerError string
  | ProviderErr string
  | DatabaseErr string
  | AccountingEpochPending string
  | HorizonExceeded string
  | HistoryIncomplete string
  | LeaseUnavailable string
  | QuarantineRefused string
  | AdoptionGate string
  | EvidenceChanged string

type_synonym 'a res = "exc + 'a"

definition bindR :: "'a res \<Rightarrow> ('a \<Rightarrow> 'b res) \<Rightarrow> 'b res" where
  "bindR m f = (case m of Inl e \<Rightarrow> Inl e | Inr v \<Rightarrow> f v)"

definition guardR :: "bool \<Rightarrow> exc \<Rightarrow> unit res" where
  "guardR ok e = (if ok then Inr () else Inl e)"

lemma bindR_simps [simp, res_simps]:
  "bindR (Inl e) f = Inl e"
  "bindR (Inr v) f = f v"
  by (simp_all add: bindR_def)

lemma bindR_Inr_iff: "bindR m f = Inr w \<longleftrightarrow> (\<exists>v. m = Inr v \<and> f v = Inr w)"
  by (cases m) simp_all

lemma bindR_Inl_iff: "bindR m f = Inl e \<longleftrightarrow> m = Inl e \<or> (\<exists>v. m = Inr v \<and> f v = Inl e)"
  by (cases m) simp_all

lemma bindRE: "bindR m f = Inr w \<Longrightarrow> (\<And>v. m = Inr v \<Longrightarrow> f v = Inr w \<Longrightarrow> P) \<Longrightarrow> P"
  by (cases m) simp_all

lemma guardR_simps [simp, res_simps]:
  "guardR True e = Inr ()"
  "guardR False e = Inl e"
  by (simp_all add: guardR_def)

lemma guardR_Inr_iff: "guardR b e = Inr u \<longleftrightarrow> b"
  by (simp add: guardR_def)

lemma guardR_Inl_iff: "guardR b e = Inl x \<longleftrightarrow> \<not> b \<and> x = e"
  by (auto simp: guardR_def)

lemmas res_iffs = bindR_Inr_iff bindR_Inl_iff guardR_Inr_iff guardR_Inl_iff

text \<open>The value of a transaction that evaluation shows not to raise.\<close>

lemma result_of: "\<not> isl m \<Longrightarrow> m = Inr (fst (projr m), snd (projr m))"
  by (cases m) auto

text \<open>A loop over a list whose body may raise: the first raise ends the loop.\<close>

fun foldR :: "('s \<Rightarrow> 'a \<Rightarrow> 's res) \<Rightarrow> 's \<Rightarrow> 'a list \<Rightarrow> 's res" where
  "foldR f s [] = Inr s"
| "foldR f s (x # xs) = bindR (f s x) (\<lambda>s'. foldR f s' xs)"

lemma foldR_invariant:
  assumes "foldR f s xs = Inr s'" and "P s"
    and "\<And>s x s'. x \<in> set xs \<Longrightarrow> P s \<Longrightarrow> f s x = Inr s' \<Longrightarrow> P s'"
  shows "P s'"
  using assms
proof (induction xs arbitrary: s)
  case Nil
  then show ?case by simp
next
  case (Cons x xs)
  then obtain t where t: "f s x = Inr t" "foldR f t xs = Inr s'"
    by (auto simp: bindR_Inr_iff)
  have "P t" using Cons.prems(2,3) t(1) by auto
  with Cons.IH [OF t(2)] Cons.prems(3) show ?case by auto
qed

subsection \<open>Routines with effects\<close>

text \<open>
  A routine over a store \<open>'s\<close> that may raise. The effects committed before a raise stay,
  as the code's separate database transactions do, so a raise also carries the store.
\<close>

type_synonym ('s, 'a) prog = "'s \<Rightarrow> 'a res \<times> 's"

definition retP :: "'a \<Rightarrow> ('s, 'a) prog" where
  "retP v s = (Inr v, s)"

definition raiseP :: "exc \<Rightarrow> ('s, 'a) prog" where
  "raiseP e s = (Inl e, s)"

definition liftP :: "'a res \<Rightarrow> ('s, 'a) prog" where
  "liftP r s = (r, s)"

definition readP :: "('s \<Rightarrow> 'a) \<Rightarrow> ('s, 'a) prog" where
  "readP f s = (Inr (f s), s)"

text \<open>One write transaction: a raise rolls it back.\<close>

definition writeP :: "('s \<Rightarrow> ('a \<times> 's) res) \<Rightarrow> ('s, 'a) prog" where
  "writeP f s = (case f s of Inl e \<Rightarrow> (Inl e, s) | Inr (v, s') \<Rightarrow> (Inr v, s'))"

definition bindP :: "('s, 'a) prog \<Rightarrow> ('a \<Rightarrow> ('s, 'b) prog) \<Rightarrow> ('s, 'b) prog" where
  "bindP m f s = (case m s of (Inl e, s') \<Rightarrow> (Inl e, s') | (Inr v, s') \<Rightarrow> f v s')"

lemma prog_simps [simp, res_simps]:
  "retP v s = (Inr v, s)" "raiseP e s = (Inl e, s)" "liftP r s = (r, s)" "readP f s = (Inr (f s), s)"
  by (simp_all add: retP_def raiseP_def liftP_def readP_def)

lemma bindP_Inr_iff: "bindP m f s = (Inr w, t) \<longleftrightarrow> (\<exists>v u. m s = (Inr v, u) \<and> f v u = (Inr w, t))"
  by (auto simp: bindP_def split: prod.splits sum.splits)

lemma bindP_Inr [simp]: "m s = (Inr v, s') \<Longrightarrow> bindP m f s = f v s'"
  by (simp add: bindP_def)

lemma bindP_Inl [simp]: "m s = (Inl e, s') \<Longrightarrow> bindP m f s = (Inl e, s')"
  by (simp add: bindP_def)

lemma bindP_basic [simp]:
  "bindP (retP v) f s = f v s" "bindP (raiseP e) f s = (Inl e, s)" "bindP (readP g) f s = f (g s) s"
  "bindP (liftP (Inr v)) f s = f v s" "bindP (liftP (Inl e)) f s = (Inl e, s)"
  by (simp_all add: bindP_def)

lemma bindP_retP [simp]: "bindP (retP v) f = f v"
  by (simp add: bindP_def retP_def fun_eq_iff)

lemma bindP_assoc: "bindP (bindP m f) g = bindP m (\<lambda>v. bindP (f v) g)"
  by (auto simp: bindP_def fun_eq_iff split: prod.splits sum.splits)

text \<open>A property of the store that every step of a routine keeps, whatever the outcome.\<close>

definition keeps :: "('s \<Rightarrow> bool) \<Rightarrow> ('s, 'a) prog \<Rightarrow> bool" where
  "keeps P m \<longleftrightarrow> (\<forall>s. P s \<longrightarrow> P (snd (m s)))"

lemma keepsI: "(\<And>s. P s \<Longrightarrow> P (snd (m s))) \<Longrightarrow> keeps P m"
  by (simp add: keeps_def)

lemma keepsD: "keeps P m \<Longrightarrow> P s \<Longrightarrow> P (snd (m s))"
  by (simp add: keeps_def)

lemma keeps_basic [intro]:
  "keeps P (retP v)" "keeps P (raiseP e)" "keeps P (liftP r)" "keeps P (readP f)"
  by (simp_all add: keeps_def)

lemma writeP_Inr_iff: "writeP f s = (Inr v, s') \<longleftrightarrow> f s = Inr (v, s')"
  by (auto simp: writeP_def split: sum.splits)

lemma writeP_Inl: "writeP f s = (Inl e, s') \<Longrightarrow> s' = s"
  by (auto simp: writeP_def split: sum.splits)

lemma keeps_writeP: "(\<And>s v s'. P s \<Longrightarrow> f s = Inr (v, s') \<Longrightarrow> P s') \<Longrightarrow> keeps P (writeP f)"
  by (auto simp: keeps_def writeP_def split: sum.splits prod.splits)

lemma keeps_bindP [intro]:
  assumes "keeps P m" "\<And>v. keeps P (f v)"
  shows "keeps P (bindP m f)"
proof (rule keepsI)
  fix s assume "P s"
  then have "P (snd (m s))" by (rule keepsD [OF assms(1)])
  then show "P (snd (bindP m f s))"
    using assms(2) by (auto simp: bindP_def keeps_def split: prod.splits sum.splits)
qed

fun forP :: "('a \<Rightarrow> ('s, unit) prog) \<Rightarrow> 'a list \<Rightarrow> ('s, unit) prog" where
  "forP f [] = retP ()"
| "forP f (x # xs) = bindP (f x) (\<lambda>_. forP f xs)"

lemma keeps_forP: "(\<And>x. x \<in> set xs \<Longrightarrow> keeps P (f x)) \<Longrightarrow> keeps P (forP f xs)"
  by (induction xs) auto

text \<open>Python's \<open>str.startswith\<close>.\<close>

fun starts_with :: "string \<Rightarrow> string \<Rightarrow> bool" where
  "starts_with [] s = True"
| "starts_with (c # cs) [] = False"
| "starts_with (c # cs) (d # ds) = (c = d \<and> starts_with cs ds)"

lemma starts_with_append [simp]: "starts_with p (p @ s)"
  by (induction p) auto

lemma starts_with_iff: "starts_with p s \<longleftrightarrow> (\<exists>t. s = p @ t)"
  by (induction p s rule: starts_with.induct) auto

text \<open>
  Python's \<open>min(xs, key=...)\<close> on a non-empty list: the first of the least elements.
\<close>

fun min_by :: "('a \<Rightarrow> 'b::linorder) \<Rightarrow> 'a \<Rightarrow> 'a list \<Rightarrow> 'a" where
  "min_by k x [] = x"
| "min_by k x (y # ys) = min_by k (if k y < k x then y else x) ys"

lemma min_by_in: "min_by k x ys \<in> set (x # ys)"
  by (induction k x ys rule: min_by.induct) (auto split: if_splits)

lemma min_by_le: "z \<in> set (x # ys) \<Longrightarrow> k (min_by k x ys) \<le> k z"
proof (induction ys arbitrary: x z)
  case Nil
  then show ?case by simp
next
  case (Cons y ys)
  let ?x = "if k y < k x then y else x"
  have "k (min_by k ?x ys) \<le> k ?x" by (rule Cons.IH) simp
  moreover have "k ?x \<le> k x" "k ?x \<le> k y" by auto
  moreover have "z \<in> set ys \<Longrightarrow> k (min_by k ?x ys) \<le> k z" by (rule Cons.IH) simp
  ultimately show ?case using Cons.prems by (fastforce split: if_splits)
qed

lemma sum_list_nonneg_le_member:
  fixes f :: "'a \<Rightarrow> 'b::linordered_ab_group_add"
  assumes "x \<in> set xs" and "\<And>y. y \<in> set xs \<Longrightarrow> 0 \<le> f y"
  shows "f x \<le> (\<Sum>y\<leftarrow>xs. f y)"
  using assms
proof (induction xs)
  case Nil
  then show ?case by simp
next
  case (Cons y ys)
  have "0 \<le> (\<Sum>z\<leftarrow>ys. f z)"
    by (rule sum_list_nonneg) (use Cons.prems(2) in auto)
  then show ?case using Cons by (auto intro: add_increasing add_increasing2)
qed

end
