(* ===== verification/Decimals.thy ===== *)
theory Decimals
  imports Prelude "HOL-Library.Log_Nat"
begin

text \<open>
  Python's \<open>decimal.Decimal\<close> under the default context, on values. A finite Decimal is
  the rational it denotes. The constructor is exact; every arithmetic operation returns
  the exact result rounded to 28 significant digits, ties to even (\<open>ctx\<close>). Comparisons,
  \<open>min\<close> and \<open>max\<close> are exact. A division by zero, a floor division whose quotient needs
  more than 28 digits and a \<open>quantize\<close> whose result needs more than 28 digits raise.
  The exponent range (a million digits either way) is not modelled.

  Values that the code has not yet proved finite are of the type \<open>xdec\<close>.
\<close>

type_synonym dec = rat

definition half_even :: "rat \<Rightarrow> int" where
  "half_even q =
     (let f = \<lfloor>q\<rfloor>; r = q - of_int f
      in if r < 1 / 2 then f else if 1 / 2 < r then f + 1 else if even f then f else f + 1)"

text \<open>The exponent of the leading digit: \<open>10 powi e \<le> \<bar>x\<bar> < 10 powi (e + 1)\<close>.\<close>

definition adjusted :: "rat \<Rightarrow> int" where
  "adjusted x =
     (let a = \<bar>x\<bar>
      in if 1 \<le> a then int (floorlog 10 (nat \<lfloor>a\<rfloor>)) - 1
         else - int (floorlog 10 (nat (\<lceil>1 / a\<rceil> - 1))))"

definition ctx :: "rat \<Rightarrow> dec" where
  "ctx x =
     (if x = 0 then 0
      else let e = adjusted x - 27 in of_int (half_even (x / 10 powi e)) * 10 powi e)"

definition dadd :: "dec \<Rightarrow> dec \<Rightarrow> dec" where "dadd a b = ctx (a + b)"
definition dsub :: "dec \<Rightarrow> dec \<Rightarrow> dec" where "dsub a b = ctx (a - b)"
definition dmul :: "dec \<Rightarrow> dec \<Rightarrow> dec" where "dmul a b = ctx (a * b)"

text \<open>Division where the code has established a non-zero divisor, and the general one.\<close>

definition dquot :: "dec \<Rightarrow> dec \<Rightarrow> dec" where "dquot a b = ctx (a / b)"

definition ddiv :: "dec \<Rightarrow> dec \<Rightarrow> dec res" where
  "ddiv a b = (if b = 0 then Inl (if a = 0 then InvalidOperation else DivisionByZero) else Inr (dquot a b))"

text \<open>\<open>abs\<close> and unary minus also round to the context.\<close>

definition dabs :: "dec \<Rightarrow> dec" where "dabs a = ctx \<bar>a\<bar>"
definition dneg :: "dec \<Rightarrow> dec" where "dneg a = ctx (- a)"

text \<open>\<open>sum(xs, Decimal(0))\<close>.\<close>

fun dsum_from :: "dec \<Rightarrow> dec list \<Rightarrow> dec" where
  "dsum_from acc [] = acc"
| "dsum_from acc (x # xs) = dsum_from (dadd acc x) xs"

definition dsum :: "dec list \<Rightarrow> dec" where
  "dsum xs = dsum_from 0 xs"

datatype xdec = Fin dec | PosInf | NegInf | NaN

fun is_finite :: "xdec \<Rightarrow> bool" where
  "is_finite (Fin _) = True"
| "is_finite _ = False"

subsection \<open>Rounding to an integer, ties to even\<close>

lemma half_even_cases:
  "half_even q = \<lfloor>q\<rfloor> \<and> q - of_int \<lfloor>q\<rfloor> \<le> 1 / 2 \<or> half_even q = \<lfloor>q\<rfloor> + 1 \<and> 1 / 2 \<le> q - of_int \<lfloor>q\<rfloor>"
  by (auto simp: half_even_def Let_def)

lemma half_even_of_int [simp]: "half_even (of_int n) = n"
  by (simp add: half_even_def)

lemma half_even_error: "\<bar>of_int (half_even q) - q\<bar> \<le> 1 / 2"
  using half_even_cases [of q] floor_correct [of q] by auto

lemma half_even_mono:
  assumes "p \<le> q"
  shows "half_even p \<le> half_even q"
proof (cases "\<lfloor>p\<rfloor> = \<lfloor>q\<rfloor>")
  case True
  then show ?thesis using assms by (auto simp: half_even_def Let_def)
next
  case False
  with floor_mono [OF assms] have "\<lfloor>p\<rfloor> + 1 \<le> \<lfloor>q\<rfloor>" by linarith
  moreover have "half_even p \<le> \<lfloor>p\<rfloor> + 1" "\<lfloor>q\<rfloor> \<le> half_even q"
    using half_even_cases [of p] half_even_cases [of q] by auto
  ultimately show ?thesis by linarith
qed

lemma half_even_minus: "half_even (- q) = - half_even q"
proof (cases "q = of_int \<lfloor>q\<rfloor>")
  case True
  then show ?thesis by (metis half_even_of_int of_int_minus)
next
  case False
  then have "of_int \<lfloor>q\<rfloor> < q"
    using of_int_floor_le [of q] by linarith
  then have *: "\<lfloor>- q\<rfloor> = - \<lfloor>q\<rfloor> - 1"
    using floor_correct [of q] by (intro floor_unique) auto
  show ?thesis
    by (auto simp: half_even_def Let_def *)
qed

lemma half_even_le_of_int: "q \<le> of_int n \<Longrightarrow> half_even q \<le> n"
  using half_even_mono [of q "of_int n"] by simp

lemma half_even_ge_of_int: "of_int n \<le> q \<Longrightarrow> n \<le> half_even q"
  using half_even_mono [of "of_int n" q] by simp

subsection \<open>The leading digit\<close>


lemma floorlog_10: "0 < n \<Longrightarrow> 10 ^ (floorlog 10 n - 1) \<le> n \<and> n + 1 \<le> 10 ^ floorlog 10 n"
  using floorlog_bounds [of n 10] by (simp add: Suc_le_eq)

lemma floorlog_10_pos: "0 < n \<Longrightarrow> 0 < floorlog 10 n"
  by (simp add: floorlog_def)

lemma powi_of_nat_minus_1: "0 < k \<Longrightarrow> (10::rat) powi (int k - 1) = 10 ^ (k - 1)"
  by (metis of_nat_1 of_nat_diff One_nat_def Suc_leI power_int_of_nat)

lemma adjusted_ge_1:
  assumes "1 \<le> \<bar>x\<bar>"
  shows "10 powi adjusted x \<le> \<bar>x\<bar> \<and> \<bar>x\<bar> < 10 powi (adjusted x + 1)"
proof -
  let ?m = "nat \<lfloor>\<bar>x\<bar>\<rfloor>" let ?k = "floorlog 10 ?m"
  from assms have m: "0 < ?m" by linarith
  have k: "0 < ?k" by (rule floorlog_10_pos [OF m])
  have adj: "adjusted x = int ?k - 1" using assms by (simp add: adjusted_def Let_def)
  from floorlog_10 [OF m] have lo: "10 ^ (?k - 1) \<le> ?m" and hi: "?m + 1 \<le> 10 ^ ?k" by blast+
  have fl: "rat_of_nat ?m = of_int \<lfloor>\<bar>x\<bar>\<rfloor>" using assms by (simp add: of_nat_nat)
  have "(10::rat) ^ (?k - 1) \<le> of_nat ?m" using lo by (metis of_nat_le_iff of_nat_numeral of_nat_power)
  also have "\<dots> \<le> \<bar>x\<bar>" unfolding fl by simp
  finally have 1: "(10::rat) ^ (?k - 1) \<le> \<bar>x\<bar>" .
  have "\<bar>x\<bar> < of_nat ?m + 1" unfolding fl by linarith
  also have "\<dots> \<le> 10 ^ ?k" using hi by (metis of_nat_Suc Suc_eq_plus1 add.commute of_nat_le_iff of_nat_numeral of_nat_power)
  finally have 2: "\<bar>x\<bar> < 10 ^ ?k" .
  show ?thesis using 1 2 k by (simp add: adj powi_of_nat_minus_1)
qed

lemma adjusted_lt_1:
  assumes "x \<noteq> 0" and "\<bar>x\<bar> < 1"
  shows "10 powi adjusted x \<le> \<bar>x\<bar> \<and> \<bar>x\<bar> < 10 powi (adjusted x + 1)"
proof -
  let ?y = "1 / \<bar>x\<bar>" let ?m = "nat (\<lceil>?y\<rceil> - 1)" let ?k = "floorlog 10 ?m"
  have y: "1 < ?y" using assms by simp
  then have c: "1 < \<lceil>?y\<rceil>" by (simp add: less_ceiling_iff)
  then have m: "0 < ?m" by simp
  have k: "0 < ?k" by (rule floorlog_10_pos [OF m])
  have adj: "adjusted x = - int ?k" using assms by (simp add: adjusted_def Let_def)
  from floorlog_10 [OF m] have lo: "10 ^ (?k - 1) \<le> ?m" and hi: "?m + 1 \<le> 10 ^ ?k" by blast+
  have cl: "rat_of_nat ?m = of_int \<lceil>?y\<rceil> - 1" using c by linarith
  have "?y \<le> of_nat ?m + 1" unfolding cl by simp
  also have "\<dots> \<le> 10 ^ ?k" using hi by (metis of_nat_Suc Suc_eq_plus1 add.commute of_nat_le_iff of_nat_numeral of_nat_power)
  finally have "?y \<le> 10 ^ ?k" .
  then have 1: "inverse (10 ^ ?k) \<le> \<bar>x\<bar>" using assms by (simp add: field_simps)
  have "(10::rat) ^ (?k - 1) \<le> of_nat ?m" using lo by (metis of_nat_le_iff of_nat_numeral of_nat_power)
  also have "\<dots> < ?y" unfolding cl by linarith
  finally have 2: "\<bar>x\<bar> < inverse (10 ^ (?k - 1))" using assms by (simp add: field_simps)
  have "(10::rat) powi (- int ?k + 1) = inverse (10 ^ (?k - 1))"
    using powi_of_nat_minus_1 [OF k] by (metis add_uminus_conv_diff minus_diff_eq power_int_minus uminus_add_conv_diff)
  with 1 2 show ?thesis by (simp add: adj power_int_minus)
qed

lemma adjusted_bounds:
  "x \<noteq> 0 \<Longrightarrow> 10 powi adjusted x \<le> \<bar>x\<bar> \<and> \<bar>x\<bar> < 10 powi (adjusted x + 1)"
  using adjusted_ge_1 adjusted_lt_1 by fastforce

lemma adjusted_mono:
  assumes "x \<noteq> 0" and "\<bar>x\<bar> \<le> \<bar>y\<bar>"
  shows "adjusted x \<le> adjusted y"
proof (rule ccontr)
  assume "\<not> ?thesis"
  then have "(10::rat) powi (adjusted y + 1) \<le> 10 powi adjusted x"
    by (intro power_int_increasing) auto
  moreover have "\<bar>y\<bar> < 10 powi (adjusted y + 1)" "10 powi adjusted x \<le> \<bar>x\<bar>"
    using adjusted_bounds [of y] adjusted_bounds [of x] assms by auto
  ultimately show False using assms(2) by linarith
qed

lemma adjusted_abs [simp]: "adjusted \<bar>x\<bar> = adjusted x"
  by (simp add: adjusted_def)

lemma adjusted_minus [simp]: "adjusted (- x) = adjusted x"
  by (simp add: adjusted_def)


subsection \<open>Context rounding\<close>

lemma ctx_0 [simp]: "ctx 0 = 0"
  by (simp add: ctx_def)

lemma ctx_minus: "ctx (- x) = - ctx x"
  by (simp add: ctx_def Let_def half_even_minus)

lemma scaled_lower:
  assumes "x \<noteq> 0"
  shows "10 ^ 27 \<le> \<bar>x\<bar> / 10 powi (adjusted x - 27)"
proof -
  have "(10::rat) ^ 27 * 10 powi (adjusted x - 27) = 10 powi adjusted x"
    by (simp add: power_int_diff)
  then show ?thesis using adjusted_bounds [OF assms] by (simp add: pos_le_divide_eq)
qed

lemma scaled_upper:
  assumes "x \<noteq> 0"
  shows "\<bar>x\<bar> / 10 powi (adjusted x - 27) \<le> 10 ^ 28"
proof -
  have "(10::rat) ^ 28 * 10 powi (adjusted x - 27) = 10 powi (adjusted x + 1)"
    by (simp add: power_int_diff power_int_add)
  then show ?thesis using adjusted_bounds [OF assms] by (simp add: pos_divide_le_eq)
qed

lemma ctx_pos_form:
  "0 < x \<Longrightarrow> ctx x = of_int (half_even (x / 10 powi (adjusted x - 27))) * 10 powi (adjusted x - 27)"
  by (simp add: ctx_def Let_def)

lemma of_int_le_pow10: "n \<le> 10 ^ k \<Longrightarrow> rat_of_int n \<le> 10 ^ k"
  by (metis of_int_le_iff of_int_numeral of_int_power)

lemma of_int_ge_pow10: "10 ^ k \<le> n \<Longrightarrow> 10 ^ k \<le> rat_of_int n"
  by (metis of_int_le_iff of_int_numeral of_int_power)

lemma ctx_coeff_bounds:
  assumes "0 < x"
  shows "10 ^ 27 \<le> half_even (x / 10 powi (adjusted x - 27))"
    and "half_even (x / 10 powi (adjusted x - 27)) \<le> 10 ^ 28"
  using scaled_lower [of x] scaled_upper [of x] assms
  by (auto intro!: half_even_ge_of_int half_even_le_of_int)

lemma ctx_ge_leading: "0 < x \<Longrightarrow> 10 powi adjusted x \<le> ctx x"
proof -
  assume x: "0 < x"
  have "10 powi adjusted x = (10::rat) ^ 27 * 10 powi (adjusted x - 27)"
    by (simp add: power_int_diff)
  also have "\<dots> \<le> ctx x"
    unfolding ctx_pos_form [OF x]
    by (intro mult_right_mono of_int_ge_pow10 ctx_coeff_bounds(1) [OF x]) simp
  finally show ?thesis .
qed

lemma ctx_le_next: "0 < x \<Longrightarrow> ctx x \<le> 10 powi (adjusted x + 1)"
proof -
  assume x: "0 < x"
  have "ctx x \<le> (10::rat) ^ 28 * 10 powi (adjusted x - 27)"
    unfolding ctx_pos_form [OF x]
    by (intro mult_right_mono of_int_le_pow10 ctx_coeff_bounds(2) [OF x]) simp
  also have "\<dots> = 10 powi (adjusted x + 1)"
    by (simp add: power_int_diff power_int_add)
  finally show ?thesis .
qed

lemma ctx_pos: "0 < x \<Longrightarrow> 0 < ctx x"
  using ctx_ge_leading [of x] by (meson less_le_trans zero_less_numeral zero_less_power_int)

lemma ctx_mono_pos:
  assumes "0 < x" and "x \<le> y"
  shows "ctx x \<le> ctx y"
proof (cases "adjusted x = adjusted y")
  case True
  from assms have y: "0 < y" by simp
  let ?p = "(10::rat) powi (adjusted y - 27)"
  have "x / ?p \<le> y / ?p" using assms(2) by (simp add: divide_right_mono)
  then have "half_even (x / ?p) \<le> half_even (y / ?p)" by (rule half_even_mono)
  then show ?thesis
    unfolding ctx_pos_form [OF assms(1)] ctx_pos_form [OF y] True
    by (simp add: mult_right_mono)
next
  case False
  have "adjusted x \<le> adjusted y" using assms by (intro adjusted_mono) auto
  with False have "(10::rat) powi (adjusted x + 1) \<le> 10 powi adjusted y"
    by (intro power_int_increasing) auto
  moreover have "ctx x \<le> 10 powi (adjusted x + 1)" using assms(1) by (rule ctx_le_next)
  moreover have "10 powi adjusted y \<le> ctx y" using assms by (intro ctx_ge_leading) simp
  ultimately show ?thesis by linarith
qed

lemma ctx_mono: "x \<le> y \<Longrightarrow> ctx x \<le> ctx y"
proof (cases "0 < x")
  case True
  assume "x \<le> y"
  with True show ?thesis by (rule ctx_mono_pos)
next
  case False
  assume xy: "x \<le> y"
  show ?thesis
  proof (cases "y < 0")
    case True
    then have "ctx (- y) \<le> ctx (- x)" using xy by (intro ctx_mono_pos) auto
    then show ?thesis by (simp add: ctx_minus)
  next
    case nneg: False
    have "ctx x \<le> 0" using False ctx_pos [of "- x"] by (cases "x = 0") (auto simp: ctx_minus)
    moreover have "0 \<le> ctx y" using nneg ctx_pos [of y] by (cases "y = 0") auto
    ultimately show ?thesis by linarith
  qed
qed

text \<open>A value with at most 28 significant digits is not changed.\<close>

definition representable :: "rat \<Rightarrow> bool" where
  "representable x \<longleftrightarrow> (\<exists>n k. x = of_int n * 10 powi k \<and> \<bar>n\<bar> \<le> 10 ^ 28)"

lemma scaled_integral:
  assumes "x = of_int n * 10 powi k" and "\<bar>n\<bar> \<le> 10 ^ 28" and "x \<noteq> 0"
  shows "\<exists>m. x / 10 powi (adjusted x - 27) = of_int m"
proof -
  let ?e = "adjusted x - 27"
  have *: "x / 10 powi ?e = of_int n * 10 powi (k - ?e)"
    using assms(1) by (simp add: power_int_diff)
  show ?thesis
  proof (cases "?e \<le> k")
    case True
    then have "of_int n * (10::rat) powi (k - ?e) = of_int (n * 10 ^ nat (k - ?e))"
      by (simp add: power_int_def)
    with * show ?thesis by metis
  next
    case False
    have le: "\<bar>rat_of_int n\<bar> \<le> 10 ^ 28"
      using of_int_le_pow10 [OF assms(2)] by simp
    have "10 powi adjusted x \<le> \<bar>x\<bar>" using adjusted_bounds [OF assms(3)] by simp
    also have x: "\<bar>x\<bar> = \<bar>rat_of_int n\<bar> * 10 powi k" using assms(1) by (simp add: abs_mult)
    also have "\<dots> \<le> 10 ^ 28 * 10 powi k" using le by (intro mult_right_mono) auto
    also have "\<dots> = 10 powi (28 + k)" by (simp add: power_int_add)
    finally have "(10::rat) powi adjusted x \<le> 10 powi (28 + k)" .
    then have "adjusted x \<le> 28 + k"
      by (meson linorder_not_le one_less_numeral_iff power_int_strict_increasing semiring_norm(76))
    with False have adj: "adjusted x = 28 + k" and k: "?e = k + 1" by linarith+
    have "10 ^ 28 * 10 powi k \<le> \<bar>rat_of_int n\<bar> * 10 powi k"
      using adjusted_bounds [OF assms(3)] by (simp add: adj power_int_add x)
    then have "10 ^ 28 \<le> \<bar>rat_of_int n\<bar>" by simp
    with le have "\<bar>rat_of_int n\<bar> = 10 ^ 28" by linarith
    have m1: "k - ?e = - 1" using k by linarith
    have e: "x / 10 powi ?e = of_int n / 10"
      unfolding * m1 by simp
    from \<open>\<bar>rat_of_int n\<bar> = 10 ^ 28\<close> have "rat_of_int n = of_int (10 ^ 28) \<or> rat_of_int n = of_int (- (10 ^ 28))" by (auto simp: abs_if split: if_splits)
    then have "n = 10 ^ 28 \<or> n = - (10 ^ 28)" by (simp only: of_int_eq_iff)
    then have "x / 10 powi ?e = of_int (10 ^ 27) \<or> x / 10 powi ?e = of_int (- (10 ^ 27))"
      unfolding e by auto
    then show ?thesis by metis
  qed
qed

lemma ctx_representable: "representable x \<Longrightarrow> ctx x = x"
proof -
  assume "representable x"
  then obtain n k where nk: "x = of_int n * 10 powi k" "\<bar>n\<bar> \<le> 10 ^ 28"
    by (auto simp: representable_def)
  show ?thesis
  proof (cases "x = 0")
    case False
    from scaled_integral [OF nk False] obtain m where "x / 10 powi (adjusted x - 27) = of_int m" by blast
    with False show ?thesis by (simp add: ctx_def Let_def) (simp add: field_simps)
  qed simp
qed

lemma representable_ctx: "representable (ctx x)"
proof -
  have pos: "representable (ctx y)" if "0 < y" for y
  proof -
    let ?h = "half_even (y / 10 powi (adjusted y - 27))"
    have "0 \<le> ?h" using ctx_coeff_bounds(1) [OF that] order_trans [of 0 "10 ^ 27" ?h] by simp
    then have "\<bar>?h\<bar> \<le> 10 ^ 28" using ctx_coeff_bounds(2) [OF that] by simp
    then show ?thesis unfolding representable_def ctx_pos_form [OF that] by blast
  qed
  have neg: "representable (- y)" if "representable y" for y
    using that unfolding representable_def by (metis abs_minus_cancel mult_minus_left of_int_minus)
  consider "0 < x" | "x = 0" | "0 < - x" by linarith
  then show ?thesis
  proof cases
    case 2
    have "0 = rat_of_int 0 * 10 powi 0" by simp
    then show ?thesis unfolding representable_def 2 ctx_0 by (metis abs_zero zero_le_numeral zero_le_power)
  next
    case 3
    from neg [OF pos [OF 3]] show ?thesis by (simp add: ctx_minus)
  qed (rule pos)
qed


text \<open>Evaluation on literals: integers and quotients by a power of ten are kept.\<close>

lemma ctx_frac:
  assumes "\<bar>n\<bar> \<le> 10 ^ 28"
  shows "ctx (of_int n / 10 ^ k) = of_int n / 10 ^ k"
proof (rule ctx_representable)
  have "of_int n / 10 ^ k = rat_of_int n * 10 powi (- int k)"
    by (simp add: power_int_minus divide_inverse)
  with assms show "representable (of_int n / 10 ^ k)" unfolding representable_def by blast
qed

lemma ctx_of_int: "\<bar>n\<bar> \<le> 10 ^ 28 \<Longrightarrow> ctx (of_int n) = of_int n"
  using ctx_frac [of n 0] by simp

lemma ctx_1 [simp]: "ctx 1 = 1"
  using ctx_of_int [of 1] by simp

lemma ctx_numeral [simp]: "numeral n \<le> (10 ^ 28 :: int) \<Longrightarrow> ctx (numeral n) = numeral n"
  using ctx_of_int [of "numeral n"] by simp

lemma ctx_neg_numeral [simp]: "numeral n \<le> (10 ^ 28 :: int) \<Longrightarrow> ctx (- numeral n) = - numeral n"
  by (simp add: ctx_minus)

text \<open>\<open>a / b\<close> in lowest terms is kept when \<open>b\<close> divides a power of ten.\<close>

lemma ctx_dvd:
  assumes "b * c = 10 ^ k" and "\<bar>a * c\<bar> \<le> 10 ^ 28"
  shows "ctx (of_int a / of_int b) = of_int a / of_int b"
proof -
  have b: "rat_of_int b * of_int c = 10 ^ k"
    using assms(1) by (metis of_int_mult of_int_numeral of_int_power)
  then have "rat_of_int b \<noteq> 0" "rat_of_int c \<noteq> 0" by auto
  then have "rat_of_int a / of_int b = of_int (a * c) / (of_int b * of_int c)" by simp
  then show ?thesis using ctx_frac [OF assms(2), of k] b by simp
qed

subsection \<open>The interface of a rounding\<close>

text \<open>
  What the components rely on when they reason about rounded arithmetic: the rounding is
  monotone, odd, keeps zero and keeps its own results. Sizing, funding and inventory
  lemmas are proved from these laws alone.
\<close>

locale rounding =
  fixes rnd :: "rat \<Rightarrow> rat"
  assumes rnd_mono: "x \<le> y \<Longrightarrow> rnd x \<le> rnd y"
    and rnd_zero: "rnd 0 = 0"
    and rnd_odd: "rnd (- x) = - rnd x"
    and rnd_idem: "rnd (rnd x) = rnd x"
    and rnd_strict: "0 < x \<Longrightarrow> 0 < rnd x"
begin

lemma nonneg: "0 \<le> x \<Longrightarrow> 0 \<le> rnd x"
  using rnd_mono [of 0 x] by (simp add: rnd_zero)

lemma nonpos: "x \<le> 0 \<Longrightarrow> rnd x \<le> 0"
  using rnd_mono [of x 0] by (simp add: rnd_zero)

lemma neg: "x < 0 \<Longrightarrow> rnd x < 0"
  using rnd_strict [of "- x"] by (simp add: rnd_odd)

lemma pos_iff: "0 < rnd x \<longleftrightarrow> 0 < x"
  using rnd_strict [of x] nonpos [of x] by (cases "0 < x") auto

lemma nonneg_iff: "0 \<le> rnd x \<longleftrightarrow> 0 \<le> x"
  using neg [of x] nonneg [of x] by (cases "0 \<le> x") auto

lemma zero_iff: "rnd x = 0 \<longleftrightarrow> x = 0"
  using pos_iff [of x] pos_iff [of "- x"] by (auto simp: rnd_zero rnd_odd)

lemma le_fixed: "x \<le> y \<Longrightarrow> rnd y = y \<Longrightarrow> rnd x \<le> y"
  using rnd_mono [of x y] by simp

lemma ge_fixed: "x \<le> y \<Longrightarrow> rnd x = x \<Longrightarrow> x \<le> rnd y"
  using rnd_mono [of x y] by simp

lemma sub_le_fixed: "0 \<le> b \<Longrightarrow> rnd a = a \<Longrightarrow> rnd (a - b) \<le> a"
  by (rule le_fixed) simp_all

lemma add_ge_fixed: "0 \<le> b \<Longrightarrow> rnd a = a \<Longrightarrow> a \<le> rnd (a + b)"
  by (rule ge_fixed) simp_all

end

interpretation dctx: rounding ctx
proof unfold_locales
  show "ctx (ctx x) = ctx x" for x by (rule ctx_representable [OF representable_ctx])
qed (auto simp: ctx_mono ctx_minus ctx_pos)

lemmas dec_defs = dadd_def dsub_def dmul_def dquot_def dabs_def dneg_def

lemma ctx_idem [simp]: "ctx (ctx x) = ctx x"
  by (rule dctx.rnd_idem)

lemma dec_ops_fixed [simp]:
  "ctx (dadd a b) = dadd a b" "ctx (dsub a b) = dsub a b" "ctx (dmul a b) = dmul a b"
  "ctx (dquot a b) = dquot a b" "ctx (dabs a) = dabs a"
  by (simp_all add: dec_defs)

lemma dmul_nonneg: "0 \<le> a \<Longrightarrow> 0 \<le> b \<Longrightarrow> 0 \<le> dmul a b"
  by (simp add: dmul_def dctx.nonneg)

lemma dmul_pos: "0 < a \<Longrightarrow> 0 < b \<Longrightarrow> 0 < dmul a b"
  by (simp add: dmul_def ctx_pos)

lemma dadd_nonneg: "0 \<le> a \<Longrightarrow> 0 \<le> b \<Longrightarrow> 0 \<le> dadd a b"
  by (simp add: dadd_def dctx.nonneg)

lemma dquot_nonneg: "0 \<le> a \<Longrightarrow> 0 \<le> b \<Longrightarrow> 0 \<le> dquot a b"
  by (simp add: dquot_def dctx.nonneg)

lemma dmul_mono: "a \<le> a' \<Longrightarrow> b \<le> b' \<Longrightarrow> 0 \<le> a' \<Longrightarrow> 0 \<le> b \<Longrightarrow> dmul a b \<le> dmul a' b'"
  unfolding dmul_def by (rule ctx_mono) (rule mult_mono)

lemma dadd_mono: "a \<le> a' \<Longrightarrow> b \<le> b' \<Longrightarrow> dadd a b \<le> dadd a' b'"
  unfolding dadd_def by (rule ctx_mono) simp

lemma dsub_mono: "a \<le> a' \<Longrightarrow> b' \<le> b \<Longrightarrow> dsub a b \<le> dsub a' b'"
  unfolding dsub_def by (rule ctx_mono) simp

lemma dquot_mono: "a \<le> a' \<Longrightarrow> 0 < b \<Longrightarrow> dquot a b \<le> dquot a' b"
  unfolding dquot_def by (rule ctx_mono) (simp add: divide_right_mono)

lemma dabs_nonneg [simp]: "0 \<le> dabs a"
  by (simp add: dabs_def dctx.nonneg)

lemma dsum_from_mono: "acc \<le> acc' \<Longrightarrow> list_all2 (\<le>) xs ys \<Longrightarrow> dsum_from acc xs \<le> dsum_from acc' ys"
proof (induction xs arbitrary: acc acc' ys)
  case Nil
  then show ?case by simp
next
  case (Cons x xs)
  from Cons.prems(2) obtain y ys' where ys: "ys = y # ys'" "x \<le> y" "list_all2 (\<le>) xs ys'"
    by (auto simp: list_all2_Cons1)
  have "dadd acc x \<le> dadd acc' y" using Cons.prems(1) ys(2) by (rule dadd_mono)
  then show ?case using Cons.IH ys by simp
qed

lemma dsum_from_nonneg: "0 \<le> acc \<Longrightarrow> \<forall>x\<in>set xs. 0 \<le> x \<Longrightarrow> 0 \<le> dsum_from acc xs"
  by (induction xs arbitrary: acc) (auto simp: dadd_nonneg)

lemma dsum_nonneg: "\<forall>x\<in>set xs. 0 \<le> x \<Longrightarrow> 0 \<le> dsum xs"
  by (simp add: dsum_def dsum_from_nonneg)

lemma dsum_Nil [simp]: "dsum [] = 0"
  by (simp add: dsum_def)

text \<open>\<open>exact xs\<close>: no partial sum of \<open>xs\<close> from \<open>acc\<close> needs more than 28 digits.\<close>

fun exact_from :: "dec \<Rightarrow> dec list \<Rightarrow> bool" where
  "exact_from acc [] = True"
| "exact_from acc (x # xs) = (ctx (acc + x) = acc + x \<and> exact_from (acc + x) xs)"

lemma dsum_from_exact: "exact_from acc xs \<Longrightarrow> dsum_from acc xs = acc + sum_list xs"
  by (induction xs arbitrary: acc) (auto simp: dadd_def)

text \<open>
  The grid of \<open>k\<close> decimal places within 28 digits: the quantities of one venue lie on one
  grid, and sums and differences that stay within its bounds are exact.
\<close>

definition grid :: "nat \<Rightarrow> dec \<Rightarrow> bool" where
  "grid k x \<longleftrightarrow> (\<exists>n. x = of_int n / 10 ^ k \<and> \<bar>n\<bar> \<le> 10 ^ 28)"

lemma grid_ctx: "grid k x \<Longrightarrow> ctx x = x"
  by (auto simp: grid_def ctx_frac)

lemma gridI: "x * 10 ^ k = of_int n \<Longrightarrow> \<bar>n\<bar> \<le> 10 ^ 28 \<Longrightarrow> grid k x"
  unfolding grid_def by (rule exI [of _ n]) (simp add: field_simps)

lemma grid_0 [simp]: "grid k 0"
  by (rule gridI [of _ _ 0]) simp_all

lemma grid_add:
  assumes "grid k a" "grid k b" "grid k c" "\<bar>a + b\<bar> \<le> \<bar>c\<bar>"
  shows "grid k (a + b)"
proof -
  obtain n m j where *: "a = of_int n / 10 ^ k" "b = of_int m / 10 ^ k" "c = of_int j / 10 ^ k" "\<bar>j\<bar> \<le> 10 ^ 28"
    using assms(1-3) by (auto simp: grid_def)
  have "\<bar>rat_of_int (n + m)\<bar> \<le> \<bar>of_int j\<bar>"
    using assms(4) unfolding * by (simp add: add_divide_distrib [symmetric] abs_divide divide_le_cancel)
  then have "\<bar>n + m\<bar> \<le> \<bar>j\<bar>" by (metis of_int_abs of_int_le_iff)
  with *(4) have "\<bar>n + m\<bar> \<le> 10 ^ 28" by linarith
  moreover have "(a + b) * 10 ^ k = of_int (n + m)" unfolding * by (simp add: add_divide_distrib [symmetric])
  ultimately show ?thesis using gridI by blast
qed

lemma grid_minus: "grid k a \<Longrightarrow> grid k (- a)"
  unfolding grid_def by (metis abs_minus_cancel minus_divide_left of_int_minus)

lemma grid_sub: "grid k a \<Longrightarrow> grid k b \<Longrightarrow> 0 \<le> b \<Longrightarrow> b \<le> a \<Longrightarrow> grid k (a - b)"
  using grid_add [of k a "- b" a] grid_minus [of k b] by simp

lemma grid_min: "grid k a \<Longrightarrow> grid k b \<Longrightarrow> grid k (min a b)"
  by (simp add: min_def)

lemma dsub_grid: "grid k a \<Longrightarrow> grid k b \<Longrightarrow> 0 \<le> b \<Longrightarrow> b \<le> a \<Longrightarrow> dsub a b = a - b"
  unfolding dsub_def by (rule grid_ctx [OF grid_sub])

lemma dadd_grid: "grid k a \<Longrightarrow> grid k b \<Longrightarrow> grid k c \<Longrightarrow> \<bar>a + b\<bar> \<le> \<bar>c\<bar> \<Longrightarrow> dadd a b = a + b"
  unfolding dadd_def by (rule grid_ctx [OF grid_add])

text \<open>A sum of non-negative grid values below a grid value is exact.\<close>

lemma dsum_from_grid:
  assumes "grid k acc" "0 \<le> acc" "\<forall>x\<in>set xs. grid k x \<and> 0 \<le> x" "grid k c" "acc + sum_list xs \<le> c"
  shows "dsum_from acc xs = acc + sum_list xs \<and> grid k (acc + sum_list xs)"
  using assms
proof (induction xs arbitrary: acc)
  case Nil
  then show ?case by simp
next
  case (Cons x xs)
  have s: "0 \<le> sum_list xs" using Cons.prems(3) by (intro sum_list_nonneg) auto
  have le: "\<bar>acc + x\<bar> \<le> \<bar>c\<bar>" using Cons.prems s by auto
  have g: "grid k (acc + x)" using Cons.prems le by (intro grid_add [of k acc x c]) auto
  have "dadd acc x = acc + x" using g by (simp add: dadd_def grid_ctx)
  then show ?case using Cons.IH [OF g] Cons.prems by (simp add: add.assoc)
qed

lemma dsum_grid:
  assumes "\<forall>x\<in>set xs. grid k x \<and> 0 \<le> x" "grid k c" "sum_list xs \<le> c"
  shows "dsum xs = sum_list xs" and "grid k (sum_list xs)"
  using dsum_from_grid [of k 0 xs c] assms by (simp_all add: dsum_def)

subsection \<open>Quantization\<close>

text \<open>
  \<open>to_integral_value(rounding=ROUND_FLOOR)\<close> is exact. \<open>quantize\<close> to \<open>k\<close> decimal places
  rounds half to even and raises when the result needs more than 28 digits.
\<close>

definition to_integral_floor :: "dec \<Rightarrow> dec" where
  "to_integral_floor x = of_int \<lfloor>x\<rfloor>"

definition quantize_places :: "nat \<Rightarrow> dec \<Rightarrow> dec res" where
  "quantize_places k x =
     (let n = half_even (x * 10 ^ k)
      in if \<bar>n\<bar> < 10 ^ 28 then Inr (of_int n / 10 ^ k) else Inl InvalidOperation)"

subsection \<open>The rounding error\<close>

text \<open>A rounded value differs from the exact one by at most one part in \<open>10 ^ 27\<close>.\<close>

definition rel_eps :: rat where "rel_eps = 1 / 10 ^ 27"

lemma ctx_rel_error: "\<bar>ctx x - x\<bar> \<le> \<bar>x\<bar> * rel_eps"
proof (cases "x = 0")
  case False
  define u where "u = (10::rat) powi (adjusted x - 27)"
  have u: "0 < u" by (simp add: u_def)
  have "ctx x - x = (of_int (half_even (x / u)) - x / u) * u"
    using False u by (simp add: ctx_def Let_def u_def left_diff_distrib)
  then have "\<bar>ctx x - x\<bar> = \<bar>of_int (half_even (x / u)) - x / u\<bar> * u" using u by (simp add: abs_mult)
  also have "\<dots> \<le> 1 / 2 * u" using half_even_error u by (intro mult_right_mono) auto
  also have "\<dots> \<le> u" using u by simp
  also have "u \<le> \<bar>x\<bar> * rel_eps"
    using scaled_lower [OF False] u by (simp add: u_def [symmetric] rel_eps_def field_simps)
  finally show ?thesis .
qed (simp add: rel_eps_def)

lemma rel_eps_pos: "0 < rel_eps" "rel_eps < 1"
  by (simp_all add: rel_eps_def)

lemma ctx_upper: "0 \<le> x \<Longrightarrow> ctx x \<le> x * (1 + rel_eps)"
  using ctx_rel_error [of x] by (simp add: algebra_simps abs_le_iff)

lemma ctx_lower: "0 \<le> x \<Longrightarrow> x * (1 - rel_eps) \<le> ctx x"
  using ctx_rel_error [of x] by (simp add: algebra_simps abs_le_iff)

lemma ctx_scale10: "ctx x = x \<Longrightarrow> ctx (x * 10 ^ n) = x * 10 ^ n"
proof -
  assume "ctx x = x"
  then have "representable x" using representable_ctx [of x] by simp
  then obtain m k where x: "x = of_int m * 10 powi k" and m: "\<bar>m\<bar> \<le> 10 ^ 28" by (auto simp: representable_def)
  have "x * 10 ^ n = of_int m * 10 powi (k + int n)"
    by (simp add: x power_int_add)
  with m have "representable (x * 10 ^ n)" unfolding representable_def by blast
  then show ?thesis by (rule ctx_representable)
qed

end
