(* ===== verification/Market.thy ===== *)
theory Market
  imports Decimals
begin

text \<open>
  \<open>models/enums.py\<close>, \<open>models/base.py\<close> and \<open>models/market.py\<close>: the enumerations, field
  validation, and instrument identity. The identity key is what every table, lock and
  reservation is keyed by, so its injectivity is what the rest of the system relies on.

  Text is ASCII here: \<open>upper\<close>, \<open>lower\<close> and \<open>strip\<close> act on ASCII letters and blanks.
  A metadata value is \<open>MNum d\<close> when \<open>Decimal(str(v))\<close> is \<open>d\<close>, \<open>MMap m\<close> for a nested
  mapping, \<open>MText t\<close> otherwise.
  A timestamp is an integer count of microseconds on the UTC line: every persisted value
  has passed \<open>require_aware\<close>.
\<close>

type_synonym time = int

datatype asset_class = EQUITY | CRYPTO | OPTION | FOREX | COMMODITY | FIXED_INCOME

fun asset_class_value :: "asset_class \<Rightarrow> string" where
  "asset_class_value EQUITY = ''equity''"
| "asset_class_value CRYPTO = ''crypto''"
| "asset_class_value OPTION = ''option''"
| "asset_class_value FOREX = ''forex''"
| "asset_class_value COMMODITY = ''commodity''"
| "asset_class_value FIXED_INCOME = ''fixed_income''"

datatype side = BUY | SELL

datatype execution_mode = PAPER | LIVE

datatype settlement_status =
  PENDING | PROCESSING | COMPLETED | RETRYABLE_FAILED | TERMINAL_FAILED | INTEGRITY_BLOCKED

datatype hold_type = VERIFICATION_PENDING | FILL_QUANTITY_DISPUTED | SHORT_EXPOSURE | MIXED_LOT_ORIGIN

datatype intent_status =
  TI_PROPOSED | TI_RISK_APPROVED | TI_SUBMITTED | TI_ACCEPTED | TI_PARTIALLY_FILLED | TI_FILLED
| TI_REJECTED | TI_CANCELED | TI_EXPIRED | TI_FAILED | TI_SUBMISSION_UNKNOWN

datatype session_state =
  DISABLED | ACTIVE | RISK_STOPPED | SYSTEM_DEGRADED | BROKER_UNAVAILABLE | MARKET_CLOSED
| MANUALLY_STOPPED | FINANCIAL_INTEGRITY_BLOCKED

subsection \<open>Text\<close>

definition py_lower_char :: "char \<Rightarrow> char" where
  "py_lower_char c = (let n = of_char c :: nat in if 65 \<le> n \<and> n \<le> 90 then char_of (n + 32) else c)"

definition py_upper_char :: "char \<Rightarrow> char" where
  "py_upper_char c = (let n = of_char c :: nat in if 97 \<le> n \<and> n \<le> 122 then char_of (n - 32) else c)"

definition py_lower :: "string \<Rightarrow> string" where
  "py_lower s = map py_lower_char s"

definition py_upper :: "string \<Rightarrow> string" where
  "py_upper s = map py_upper_char s"

definition is_blank :: "char \<Rightarrow> bool" where
  "is_blank c = (let n = of_char c :: nat in n = 32 \<or> (9 \<le> n \<and> n \<le> 13) \<or> (28 \<le> n \<and> n \<le> 31))"

definition py_strip :: "string \<Rightarrow> string" where
  "py_strip s = rev (dropWhile is_blank (rev (dropWhile is_blank s)))"

definition require_text :: "string option \<Rightarrow> string res" where
  "require_text v =
     (let normalized = py_strip (case v of None \<Rightarrow> [] | Some s \<Rightarrow> s)
      in if normalized = [] then Inl (ValueError ''field is required'') else Inr normalized)"

definition decimal_value :: "xdec \<Rightarrow> bool \<Rightarrow> bool \<Rightarrow> dec res" where
  "decimal_value v positive nonnegative =
     (case v of
        Fin q \<Rightarrow>
          if positive \<and> q \<le> 0 then Inl (ValueError ''must be positive'')
          else if nonnegative \<and> q < 0 then Inl (ValueError ''must be nonnegative'')
          else Inr q
      | _ \<Rightarrow> Inl (ValueError ''must be finite''))"

lemma decimal_value_Inr_iff:
  "decimal_value v p n = Inr q \<longleftrightarrow> v = Fin q \<and> (p \<longrightarrow> 0 < q) \<and> (n \<longrightarrow> 0 \<le> q)"
  by (auto simp: decimal_value_def split: xdec.splits)

lemma require_text_nonempty: "require_text v = Inr s \<Longrightarrow> s \<noteq> []"
  by (auto simp: require_text_def Let_def split: if_splits)

subsection \<open>Instrument identity\<close>

datatype meta_value = MNum dec | MText string | MMap "(string \<times> meta_value) list"

record asset_identity =
  a_symbol :: string
  a_class :: asset_class
  a_native_id :: string
  a_venue :: "string option"
  a_metadata :: "string \<Rightarrow> meta_value option"

text \<open>\<open>AssetIdentity.__post_init__\<close>: the multiplier argument is written into the metadata.\<close>

definition make_asset ::
  "string option \<Rightarrow> asset_class \<Rightarrow> string option \<Rightarrow> string option \<Rightarrow> (string \<Rightarrow> meta_value option)
   \<Rightarrow> xdec option \<Rightarrow> asset_identity res" where
  "make_asset symbol cls native venue metadata multiplier =
     bindR (require_text symbol) (\<lambda>sym.
     bindR (require_text native) (\<lambda>nat_id.
     bindR (case multiplier of
              None \<Rightarrow> Inr metadata
            | Some m \<Rightarrow> bindR (decimal_value m True False)
                         (\<lambda>d. Inr (metadata(''contract_multiplier'' \<mapsto> MNum d))))
       (\<lambda>md. Inr \<lparr>a_symbol = py_upper sym, a_class = cls, a_native_id = nat_id, a_venue = venue, a_metadata = md\<rparr>)))"

text \<open>\<open>asset.venue or "default"\<close>: an empty venue counts as absent.\<close>

definition venue_part :: "asset_identity \<Rightarrow> string" where
  "venue_part a = py_lower (case a_venue a of None \<Rightarrow> ''default'' | Some v \<Rightarrow> if v = [] then ''default'' else v)"

definition asset_identity_key :: "asset_identity \<Rightarrow> string" where
  "asset_identity_key a = asset_class_value (a_class a) @ '':'' @ venue_part a @ '':'' @ a_native_id a"

definition is_continuous_market :: "asset_class \<Rightarrow> bool" where
  "is_continuous_market c = (c = CRYPTO)"

definition contract_multiplier_of :: "asset_identity \<Rightarrow> dec res" where
  "contract_multiplier_of a =
     (case a_metadata a ''contract_multiplier'' of
        None \<Rightarrow> if a_class a = OPTION then Inl (ValueError ''option contract multiplier missing'') else Inr 1
      | Some (MNum d) \<Rightarrow> Inr d
      | Some _ \<Rightarrow> Inl InvalidOperation)"

definition VENUES :: "string list" where
  "VENUES = [''alpaca'', ''ibkr'']"

definition canonical_venue :: "string option \<Rightarrow> string res" where
  "canonical_venue v =
     (case v of
        None \<Rightarrow> Inl (ValueError ''unknown venue'')
      | Some s \<Rightarrow> (let c = py_lower (py_strip s) in if c \<in> set VENUES then Inr c else Inl (ValueError ''unknown venue'')))"

definition asset_key_from_broker_symbol :: "asset_class \<Rightarrow> string \<Rightarrow> string \<Rightarrow> string res" where
  "asset_key_from_broker_symbol cls symbol venue =
     bindR (canonical_venue (Some venue)) (\<lambda>v.
       if v = ''alpaca''
       then bindR (make_asset (Some symbol) cls (Some (''alpaca:'' @ py_upper symbol)) None Map.empty None)
              (\<lambda>a. Inr (asset_identity_key a))
       else bindR (make_asset (Some symbol) cls (Some (v @ '':'' @ py_upper symbol)) (Some v) Map.empty None)
              (\<lambda>a. Inr (asset_identity_key a)))"

text \<open>
  The SQL filter of \<open>RecordRepository.exists_with_status_and_asset\<close> and \<open>list_by_asset\<close>
  (persistence/repositories.py): the stored row's three components against the
  parameters computed from the requested asset.
\<close>

definition asset_matches_sql :: "asset_identity \<Rightarrow> asset_identity \<Rightarrow> bool" where
  "asset_matches_sql stored wanted =
     (asset_class_value (a_class stored) = asset_class_value (a_class wanted)
      \<and> py_lower (case a_venue stored of None \<Rightarrow> ''default'' | Some v \<Rightarrow> v) = venue_part wanted
      \<and> a_native_id stored = a_native_id wanted)"

subsection \<open>Facts about identity\<close>

lemma asset_class_value_inj: "asset_class_value c = asset_class_value d \<longleftrightarrow> c = d"
  by (cases c; cases d) auto

lemma asset_class_value_no_colon: "CHR '':'' \<notin> set (asset_class_value c)"
  by (cases c) auto

lemma append_colon_inj:
  assumes "xs @ CHR '':'' # ys = xs' @ CHR '':'' # ys'" and "CHR '':'' \<notin> set xs" and "CHR '':'' \<notin> set xs'"
  shows "xs = xs' \<and> ys = ys'"
  using assms
proof (induction xs arbitrary: xs')
  case Nil
  then show ?case by (cases xs') auto
next
  case (Cons x xs)
  then show ?case by (cases xs') auto
qed

lemma asset_identity_key_inj:
  assumes "CHR '':'' \<notin> set (venue_part a)" and "CHR '':'' \<notin> set (venue_part b)"
  shows "asset_identity_key a = asset_identity_key b
     \<longleftrightarrow> a_class a = a_class b \<and> venue_part a = venue_part b \<and> a_native_id a = a_native_id b"
proof
  assume "asset_identity_key a = asset_identity_key b"
  then have "asset_class_value (a_class a) @ CHR '':'' # venue_part a @ CHR '':'' # a_native_id a
      = asset_class_value (a_class b) @ CHR '':'' # venue_part b @ CHR '':'' # a_native_id b"
    by (simp add: asset_identity_key_def)
  from append_colon_inj [OF this asset_class_value_no_colon asset_class_value_no_colon]
  have "a_class a = a_class b" and *: "venue_part a @ CHR '':'' # a_native_id a = venue_part b @ CHR '':'' # a_native_id b"
    by (simp_all add: asset_class_value_inj)
  with append_colon_inj [OF * assms]
  show "a_class a = a_class b \<and> venue_part a = venue_part b \<and> a_native_id a = a_native_id b" by simp
qed (simp add: asset_identity_key_def)

lemma asset_matches_sql_key:
  assumes "CHR '':'' \<notin> set (venue_part a)" and "CHR '':'' \<notin> set (venue_part b)" and "a_venue a \<noteq> Some []"
  shows "asset_matches_sql a b \<longleftrightarrow> asset_identity_key a = asset_identity_key b"
  unfolding asset_identity_key_inj [OF assms(1,2)] asset_matches_sql_def asset_class_value_inj
  using assms(3) by (auto simp: venue_part_def split: option.splits)

subsection \<open>Properties\<close>

text \<open>Two instruments share an identity key exactly when they agree on asset class, venue
  (case folded, an absent or empty one being \<open>default\<close>) and native identifier, for venues
  without a colon, as every registered venue is; and then the repository's SQL filter, which
  compares the three components, selects exactly the rows with the requested key.\<close>

theorem identity_key_exact:
  assumes "CHR '':'' \<notin> set (venue_part a)" and "CHR '':'' \<notin> set (venue_part b)" and "a_venue a \<noteq> Some []"
  shows "(asset_identity_key a = asset_identity_key b
      \<longleftrightarrow> a_class a = a_class b \<and> venue_part a = venue_part b \<and> a_native_id a = a_native_id b)
    \<and> (asset_matches_sql a b \<longleftrightarrow> asset_identity_key a = asset_identity_key b)"
  using asset_identity_key_inj [OF assms(1,2)] asset_matches_sql_key [OF assms] by blast

definition demo_asset :: "asset_class \<Rightarrow> string option \<Rightarrow> string \<Rightarrow> asset_identity" where
  "demo_asset cls v nm = \<lparr>a_symbol = nm, a_class = cls, a_native_id = ''alpaca:'' @ nm, a_venue = v, a_metadata = Map.empty\<rparr>"

theorem identity_key_exact_witness:
  "asset_identity_key (demo_asset EQUITY None ''A'') = asset_identity_key (demo_asset EQUITY (Some ''DEFAULT'') ''A'')
    \<and> \<not> asset_matches_sql (demo_asset EQUITY None ''A'') (demo_asset OPTION None ''A'')"
proof -
  have "CHR '':'' \<notin> set (venue_part (demo_asset EQUITY None ''A''))" "CHR '':'' \<notin> set (venue_part (demo_asset EQUITY (Some ''DEFAULT'') ''A''))"
    "CHR '':'' \<notin> set (venue_part (demo_asset OPTION None ''A''))" by code_simp+
  moreover have "venue_part (demo_asset EQUITY None ''A'') = venue_part (demo_asset EQUITY (Some ''DEFAULT'') ''A'')" by code_simp
  moreover have "a_venue (demo_asset EQUITY None ''A'') \<noteq> Some []" by (simp add: demo_asset_def)
  ultimately show ?thesis
    using identity_key_exact [of "demo_asset EQUITY None ''A''" "demo_asset EQUITY (Some ''DEFAULT'') ''A''"]
      identity_key_exact [of "demo_asset EQUITY None ''A''" "demo_asset OPTION None ''A''"]
    by (simp add: demo_asset_def)
qed

text \<open>
  The SQL filter and the key differ on a stored empty venue: the key reads it as \<open>default\<close>,
  the filter as the empty text.
\<close>

theorem sql_filter_misses_empty_venue:
  "asset_identity_key (demo_asset EQUITY (Some []) ''A'') = asset_identity_key (demo_asset EQUITY None ''A'')
    \<and> \<not> asset_matches_sql (demo_asset EQUITY (Some []) ''A'') (demo_asset EQUITY None ''A'')"
  by code_simp

end
