(* ===== verification/Portfolio.thy ===== *)
theory Portfolio
  imports Market "HOL-Library.AList"
begin

text \<open>
  \<open>models/portfolio.py\<close>, \<open>models/fill.py\<close> and \<open>models/settlement.py\<close>: holdings, lots,
  fills and settlement events as records, their construction checks, and the derived
  properties of a lot. A Python dict is an association list in insertion order, without
  repeated keys; \<open>AList.update\<close> is item assignment.
\<close>

datatype position_side = Long | Short

datatype lot_status = LotOpen | LotPartiallyClosed | LotClosed

datatype lot_origin = FromFill | Adopted

record holding =
  h_asset :: asset_identity
  h_quantity :: dec
  h_average_price :: dec
  h_updated_at :: time
  h_sector :: "string option"
  h_stop_loss :: "dec option"
  h_target_price :: "dec option"
  h_current_stop :: "dec option"
  h_scaled_out :: bool

record position_lot =
  l_lot_id :: string
  l_originating_fill_id :: string
  l_asset :: asset_identity
  l_side :: position_side
  l_opened_quantity :: dec
  l_remaining_quantity :: dec
  l_acquisition_price :: dec
  l_opened_at :: time
  l_closures :: "(string \<times> dec) list"
  l_realized_pnl :: dec
  l_mfe_price :: "dec option"
  l_mae_price :: "dec option"
  l_asset_fees :: "(string \<times> dec) list"

text \<open>The stages' completion flags of a settlement event, in the order they run.\<close>

datatype stage = LotStage | AttributionStage | CashStage | HoldingStage | TradeStage | IntegrityStage | LiabilityHoldStage

record settlement_event =
  e_id :: string
  e_fill_id :: string
  e_trade_intent_id :: string
  e_asset :: asset_identity
  e_side :: side
  e_mode :: execution_mode
  e_quantity :: dec
  e_price :: dec
  e_occurred_at :: time
  e_status :: settlement_status
  e_fees :: dec
  e_sector :: "string option"
  e_broker_order_id :: "string option"
  e_broker_fill_id :: "string option"
  e_client_order_id :: "string option"
  e_flags :: "stage \<Rightarrow> bool"
  e_realized_pnl :: "dec option"
  e_attempt_count :: nat
  e_error :: "string option"
  e_next_retry_at :: "time option"
  e_processing_owner :: "string option"
  e_processing_started_at :: "time option"

record fill =
  f_id :: string
  f_trade_intent_id :: string
  f_order_id :: string
  f_asset :: asset_identity
  f_side :: side
  f_mode :: execution_mode
  f_quantity :: dec
  f_price :: dec
  f_fees :: dec
  f_slippage :: dec
  f_filled_at :: time
  f_broker_fill_id :: "string option"
  f_reference_price :: "dec option"
  f_reference_bid :: "dec option"
  f_reference_ask :: "dec option"
  f_reference_observed_at :: "time option"
  f_submitted_at :: "time option"
  f_order_type :: "string option"
  f_fee_currency :: "string option"
  f_fee_source :: string

record cash_entry =
  ce_id :: string
  ce_idempotency_key :: string
  ce_amount :: dec
  ce_currency :: string
  ce_occurred_at :: time
  ce_reason :: string

record pnl_record =
  pr_id :: string
  pr_asset :: asset_identity
  pr_realized :: dec
  pr_unrealized :: dec
  pr_as_of :: time

record integrity_hold =
  ih_broker_order_id :: string
  ih_trade_intent_id :: string
  ih_type :: hold_type
  ih_reason :: string
  ih_created_at :: time
  ih_attempt_count :: nat
  ih_next_retry_at :: "time option"

subsection \<open>Construction checks\<close>

definition opt_positive :: "dec option \<Rightarrow> dec option res" where
  "opt_positive v = (case v of None \<Rightarrow> Inr None | Some q \<Rightarrow> bindR (decimal_value (Fin q) True False) (\<lambda>r. Inr (Some r)))"

lemma opt_positive_Inr_iff: "opt_positive v = Inr w \<longleftrightarrow> w = v \<and> (\<forall>q. v = Some q \<longrightarrow> 0 < q)"
  by (auto simp: opt_positive_def bindR_Inr_iff decimal_value_Inr_iff split: option.splits)

definition holding_post_init :: "holding \<Rightarrow> holding res" where
  "holding_post_init h =
     bindR (decimal_value (Fin (h_quantity h)) False False) (\<lambda>q.
     bindR (decimal_value (Fin (h_average_price h)) True False) (\<lambda>ap.
     bindR (guardR (q \<noteq> 0) (ValueError ''zero quantity is not an open holding'')) (\<lambda>_.
     bindR (opt_positive (h_stop_loss h)) (\<lambda>sl.
     bindR (opt_positive (h_target_price h)) (\<lambda>tp.
     bindR (opt_positive (h_current_stop h)) (\<lambda>cs.
       Inr (h\<lparr>h_quantity := q, h_average_price := ap, h_stop_loss := sl, h_target_price := tp, h_current_stop := cs\<rparr>)))))))"

definition holding_wf :: "holding \<Rightarrow> bool" where
  "holding_wf h \<longleftrightarrow>
     h_quantity h \<noteq> 0 \<and> 0 < h_average_price h
     \<and> (\<forall>q. h_stop_loss h = Some q \<longrightarrow> 0 < q) \<and> (\<forall>q. h_target_price h = Some q \<longrightarrow> 0 < q)
     \<and> (\<forall>q. h_current_stop h = Some q \<longrightarrow> 0 < q)"

lemma holding_post_init_Inr_iff: "holding_post_init h = Inr h' \<longleftrightarrow> h' = h \<and> holding_wf h"
  by (auto simp: holding_post_init_def holding_wf_def res_iffs opt_positive_Inr_iff decimal_value_Inr_iff)

definition ADOPTED_LOT_PREFIX :: string where "ADOPTED_LOT_PREFIX = ''adopted:''"
definition ADOPTION_FILL_PREFIX :: string where "ADOPTION_FILL_PREFIX = ''adoption:''"

definition dict_sum :: "(string \<times> dec) list \<Rightarrow> dec" where
  "dict_sum d = dsum (map snd d)"

text \<open>The three-term sum of the conservation check, left to right.\<close>

definition lot_total :: "position_lot \<Rightarrow> dec" where
  "lot_total l = dadd (dadd (l_remaining_quantity l) (dict_sum (l_closures l))) (dict_sum (l_asset_fees l))"

fun check_fees :: "(string \<times> dec) list \<Rightarrow> (string \<times> dec) list \<Rightarrow> (string \<times> dec) list res" where
  "check_fees acc [] = Inr acc"
| "check_fees acc ((k, v) # kvs) =
     bindR (require_text (Some k)) (\<lambda>k'.
     bindR (decimal_value (Fin v) True False) (\<lambda>v'.
       check_fees (AList.update k' v' acc) kvs))"

definition adopted_identity_ok :: "string \<Rightarrow> string \<Rightarrow> bool" where
  "adopted_identity_ok lot_id fill_id =
     (let al = starts_with ADOPTED_LOT_PREFIX lot_id; af = starts_with ADOPTION_FILL_PREFIX fill_id
      in al = af \<and> (al \<longrightarrow> drop (length ADOPTED_LOT_PREFIX) lot_id = drop (length ADOPTION_FILL_PREFIX) fill_id))"

text \<open>
  \<open>PositionLot.__post_init__\<close>, with its checks in the source's order. The fee dict is
  rebuilt item by item, as the dict comprehension of the source does.
\<close>

definition lot_post_init :: "position_lot \<Rightarrow> position_lot res" where
  "lot_post_init l =
     bindR (require_text (Some (l_lot_id l))) (\<lambda>lid.
     bindR (require_text (Some (l_originating_fill_id l))) (\<lambda>ofid.
     bindR (decimal_value (Fin (l_opened_quantity l)) True False) (\<lambda>oq.
     bindR (decimal_value (Fin (l_remaining_quantity l)) False True) (\<lambda>rq.
     bindR (decimal_value (Fin (l_acquisition_price l)) True False) (\<lambda>ap.
     bindR (check_fees [] (l_asset_fees l)) (\<lambda>fees.
     bindR (guardR (fees = [] \<or> dadd (dadd rq (dict_sum (l_closures l))) (dict_sum fees) = oq)
              (ValueError ''asset fee lot quantity is not conserved'')) (\<lambda>_.
     bindR (opt_positive (l_mfe_price l)) (\<lambda>mfe.
     bindR (opt_positive (l_mae_price l)) (\<lambda>mae.
     bindR (guardR (rq \<le> oq) (ValueError ''remaining_quantity cannot exceed opened_quantity'')) (\<lambda>_.
     bindR (guardR (adopted_identity_ok lid ofid) (ValueError ''adopted lot identity'')) (\<lambda>_.
     bindR (guardR (starts_with ADOPTED_LOT_PREFIX lid \<longrightarrow> l_side l = Long) (ValueError ''only long positions are adopted'')) (\<lambda>_.
       Inr (l\<lparr>l_lot_id := lid, l_originating_fill_id := ofid, l_opened_quantity := oq, l_remaining_quantity := rq,
              l_acquisition_price := ap, l_asset_fees := fees, l_mfe_price := mfe, l_mae_price := mae\<rparr>)))))))))))))"

definition lot_wf :: "position_lot \<Rightarrow> bool" where
  "lot_wf l \<longleftrightarrow>
     0 < l_opened_quantity l \<and> 0 \<le> l_remaining_quantity l \<and> l_remaining_quantity l \<le> l_opened_quantity l
     \<and> 0 < l_acquisition_price l \<and> (l_asset_fees l \<noteq> [] \<longrightarrow> lot_total l = l_opened_quantity l)
     \<and> adopted_identity_ok (l_lot_id l) (l_originating_fill_id l)
     \<and> (starts_with ADOPTED_LOT_PREFIX (l_lot_id l) \<longrightarrow> l_side l = Long)"

lemma lot_post_init_wf: "lot_post_init l = Inr l' \<Longrightarrow> lot_wf l'"
  by (auto simp: lot_post_init_def lot_wf_def lot_total_def res_iffs opt_positive_Inr_iff decimal_value_Inr_iff Let_def)

text \<open>\<open>SettlementEvent.__post_init__\<close>.\<close>

definition event_post_init :: "settlement_event \<Rightarrow> settlement_event res" where
  "event_post_init e =
     bindR (require_text (Some (e_id e))) (\<lambda>i.
     bindR (require_text (Some (e_fill_id e))) (\<lambda>fi.
     bindR (require_text (Some (e_trade_intent_id e))) (\<lambda>ti.
     bindR (decimal_value (Fin (e_quantity e)) True False) (\<lambda>q.
     bindR (decimal_value (Fin (e_price e)) True False) (\<lambda>p.
     bindR (decimal_value (Fin (e_fees e)) False True) (\<lambda>fs.
     bindR (guardR (e_status e = COMPLETED \<longrightarrow> e_flags e IntegrityStage)
              (ValueError ''completed settlement must be integrity_verified'')) (\<lambda>_.
       Inr (e\<lparr>e_id := i, e_fill_id := fi, e_trade_intent_id := ti, e_quantity := q, e_price := p, e_fees := fs\<rparr>))))))))"

definition opt_text :: "string option \<Rightarrow> string option res" where
  "opt_text v = (case v of None \<Rightarrow> Inr None | Some t \<Rightarrow> bindR (require_text (Some t)) (\<lambda>r. Inr (Some r)))"

text \<open>\<open>Fill.__post_init__\<close>.\<close>

definition fill_post_init :: "fill \<Rightarrow> fill res" where
  "fill_post_init f =
     bindR (require_text (Some (f_id f))) (\<lambda>i.
     bindR (require_text (Some (f_trade_intent_id f))) (\<lambda>ti.
     bindR (require_text (Some (f_order_id f))) (\<lambda>oi.
     bindR (decimal_value (Fin (f_quantity f)) True False) (\<lambda>q.
     bindR (decimal_value (Fin (f_price f)) True False) (\<lambda>p.
     bindR (decimal_value (Fin (f_fees f)) False True) (\<lambda>fs.
     bindR (decimal_value (Fin (f_slippage f)) False True) (\<lambda>sl.
     bindR (opt_positive (f_reference_price f)) (\<lambda>rp.
     bindR (opt_positive (f_reference_bid f)) (\<lambda>rb.
     bindR (opt_positive (f_reference_ask f)) (\<lambda>ra.
     bindR (opt_text (f_order_type f)) (\<lambda>ot.
     bindR (opt_text (f_fee_currency f)) (\<lambda>fc.
     bindR (require_text (Some (f_fee_source f))) (\<lambda>src.
     bindR (guardR (case (rb, ra) of (Some b, Some a) \<Rightarrow> b \<le> a | _ \<Rightarrow> True) (ValueError ''reference_ask cannot be below reference_bid'')) (\<lambda>_.
       Inr (f\<lparr>f_id := i, f_trade_intent_id := ti, f_order_id := oi, f_quantity := q, f_price := p, f_fees := fs, f_slippage := sl,
              f_reference_price := rp, f_reference_bid := rb, f_reference_ask := ra, f_order_type := ot,
              f_fee_currency := map_option py_upper fc, f_fee_source := src\<rparr>)))))))))))))))"

definition fill_notional :: "fill \<Rightarrow> dec" where
  "fill_notional f = dmul (f_quantity f) (f_price f)"

definition cash_post_init :: "cash_entry \<Rightarrow> cash_entry res" where
  "cash_post_init c =
     bindR (require_text (Some (ce_id c))) (\<lambda>i.
     bindR (require_text (Some (ce_idempotency_key c))) (\<lambda>k.
     bindR (require_text (Some (ce_currency c))) (\<lambda>cur.
     bindR (require_text (Some (ce_reason c))) (\<lambda>rs.
       Inr (c\<lparr>ce_id := i, ce_idempotency_key := k, ce_currency := cur, ce_reason := rs\<rparr>)))))"

definition pnl_post_init :: "pnl_record \<Rightarrow> pnl_record res" where
  "pnl_post_init p = bindR (require_text (Some (pr_id p))) (\<lambda>i. Inr (p\<lparr>pr_id := i\<rparr>))"

definition hold_post_init :: "integrity_hold \<Rightarrow> integrity_hold res" where
  "hold_post_init h =
     bindR (require_text (Some (ih_broker_order_id h))) (\<lambda>b.
     bindR (require_text (Some (ih_trade_intent_id h))) (\<lambda>t.
     bindR (require_text (Some (ih_reason h))) (\<lambda>r.
       Inr (h\<lparr>ih_broker_order_id := b, ih_trade_intent_id := t, ih_reason := r\<rparr>))))"

subsection \<open>Derived properties of a lot\<close>

definition lot_status_of :: "position_lot \<Rightarrow> lot_status" where
  "lot_status_of l =
     (if l_remaining_quantity l \<le> 0 then LotClosed
      else if l_remaining_quantity l < l_opened_quantity l then LotPartiallyClosed
      else LotOpen)"

definition lot_is_open :: "position_lot \<Rightarrow> bool" where
  "lot_is_open l = (lot_status_of l \<in> {LotOpen, LotPartiallyClosed})"

definition signed_quantity :: "position_lot \<Rightarrow> dec" where
  "signed_quantity l = (if l_side l = Short then dneg (l_remaining_quantity l) else l_remaining_quantity l)"

definition lot_origin_of :: "position_lot \<Rightarrow> lot_origin" where
  "lot_origin_of l = (if starts_with ADOPTED_LOT_PREFIX (l_lot_id l) then Adopted else FromFill)"

definition adoption_id :: "position_lot \<Rightarrow> string option" where
  "adoption_id l = (if lot_origin_of l = Adopted then Some (drop (length ADOPTED_LOT_PREFIX) (l_lot_id l)) else None)"

lemma lot_is_open_iff: "lot_is_open l \<longleftrightarrow> 0 < l_remaining_quantity l"
  by (auto simp: lot_is_open_def lot_status_of_def)

definition fold_price_extremum :: "position_side \<Rightarrow> dec option \<Rightarrow> dec option \<Rightarrow> dec \<Rightarrow> dec \<times> dec" where
  "fold_price_extremum ps mfe mae price =
     (case ps of
        Long \<Rightarrow> ((case mfe of None \<Rightarrow> price | Some m \<Rightarrow> max m price), (case mae of None \<Rightarrow> price | Some m \<Rightarrow> min m price))
      | Short \<Rightarrow> ((case mfe of None \<Rightarrow> price | Some m \<Rightarrow> min m price), (case mae of None \<Rightarrow> price | Some m \<Rightarrow> max m price)))"

text \<open>The extremes after folding a list of observed prices, one cycle after another.\<close>

fun fold_prices :: "position_side \<Rightarrow> dec option \<Rightarrow> dec option \<Rightarrow> dec list \<Rightarrow> dec option \<times> dec option" where
  "fold_prices ps mfe mae [] = (mfe, mae)"
| "fold_prices ps mfe mae (p # pz) =
     (let (m, a) = fold_price_extremum ps mfe mae p in fold_prices ps (Some m) (Some a) pz)"

lemma fold_prices_long:
  "fold_prices Long (Some m) (Some a) pz = (Some (Max (set (m # pz))), Some (Min (set (a # pz))))"
proof (induction pz arbitrary: m a)
  case Nil
  then show ?case by simp
next
  case (Cons p pz)
  show ?case
    by (cases "pz = []") (simp_all add: fold_price_extremum_def Cons.IH Max_insert Min_insert max.assoc min.assoc max.commute min.commute max.left_commute min.left_commute)
qed

lemma fold_prices_short:
  "fold_prices Short (Some m) (Some a) pz = (Some (Min (set (m # pz))), Some (Max (set (a # pz))))"
proof (induction pz arbitrary: m a)
  case Nil
  then show ?case by simp
next
  case (Cons p pz)
  show ?case
    by (cases "pz = []") (simp_all add: fold_price_extremum_def Cons.IH Max_insert Min_insert max.assoc min.assoc max.commute min.commute max.left_commute min.left_commute)
qed

end
