(* ===== verification/Risk_Limits.thy ===== *)
theory Risk_Limits
  imports Portfolio
begin

text \<open>
  \<open>models/risk.py\<close>: a risk profile's numeric limits, the construction checks in the
  source's order, and the per-class spread and slippage limits. \<open>limits_wf\<close> is what a
  constructed profile satisfies; the risk engine's properties start from it.
\<close>

record risk_limits =
  rl_profile_id :: string
  rl_max_position_pct :: dec
  rl_max_sector_pct :: dec
  rl_min_confidence :: dec
  rl_max_daily_trades :: int
  rl_stop_loss_pct :: dec
  rl_max_drawdown_pct :: dec
  rl_max_open_positions :: int
  rl_max_daily_loss_pct :: dec
  rl_spread_limit_pct :: dec
  rl_slippage_limit_pct :: dec
  rl_max_risk_per_trade_pct :: dec
  rl_max_total_exposure_pct :: dec
  rl_max_simultaneous_orders :: int
  rl_min_lot_notional :: dec
  rl_min_position_size_multiplier :: dec
  rl_atr_stop_multiplier :: dec
  rl_min_stop_distance_pct :: dec
  rl_max_stop_distance_pct :: dec
  rl_break_even_trigger_pct :: dec
  rl_trailing_atr_multiplier :: dec
  rl_max_hold_days :: int
  rl_max_correlation_threshold :: dec
  rl_max_correlation_threshold_crypto :: dec
  rl_options_premium_stop_pct :: dec
  rl_options_expiry_min_days :: int
  rl_options_expiry_max_days :: int
  rl_options_target_otm_pct :: dec
  rl_options_forced_close_days_before_expiry :: int
  rl_options_spread_limit_pct :: "dec option"
  rl_options_slippage_limit_pct :: "dec option"
  rl_scale_out_r :: dec
  rl_scale_out_fraction :: dec
  rl_final_target_r :: dec
  rl_single_unit_target_r :: dec
  rl_stall_exit_days :: int
  rl_stall_min_r :: dec
  rl_max_open_risk_pct :: dec
  rl_max_entries_per_symbol_per_day :: int
  rl_max_cost_to_risk_pct :: dec

text \<open>A profile as the source's defaults complete it; the fields without a default are arguments.\<close>

definition default_limits ::
  "string \<Rightarrow> dec \<Rightarrow> dec \<Rightarrow> dec \<Rightarrow> int \<Rightarrow> dec \<Rightarrow> dec \<Rightarrow> int \<Rightarrow> dec \<Rightarrow> dec \<Rightarrow> dec \<Rightarrow> dec \<Rightarrow> dec \<Rightarrow> int \<Rightarrow> risk_limits" where
  "default_limits pid pos_pct sector_pct min_conf trades stop_pct drawdown positions loss_pct spread slippage risk_pct exposure orders =
     \<lparr>rl_profile_id = pid, rl_max_position_pct = pos_pct, rl_max_sector_pct = sector_pct, rl_min_confidence = min_conf,
      rl_max_daily_trades = trades, rl_stop_loss_pct = stop_pct, rl_max_drawdown_pct = drawdown, rl_max_open_positions = positions,
      rl_max_daily_loss_pct = loss_pct, rl_spread_limit_pct = spread, rl_slippage_limit_pct = slippage,
      rl_max_risk_per_trade_pct = risk_pct, rl_max_total_exposure_pct = exposure, rl_max_simultaneous_orders = orders,
      rl_min_lot_notional = 1, rl_min_position_size_multiplier = 1 / 2, rl_atr_stop_multiplier = 2,
      rl_min_stop_distance_pct = 1 / 2, rl_max_stop_distance_pct = 25, rl_break_even_trigger_pct = 4,
      rl_trailing_atr_multiplier = 5 / 2, rl_max_hold_days = 15, rl_max_correlation_threshold = 3 / 4,
      rl_max_correlation_threshold_crypto = 4 / 5, rl_options_premium_stop_pct = 35, rl_options_expiry_min_days = 21,
      rl_options_expiry_max_days = 45, rl_options_target_otm_pct = 3, rl_options_forced_close_days_before_expiry = 2,
      rl_options_spread_limit_pct = None, rl_options_slippage_limit_pct = None, rl_scale_out_r = 1,
      rl_scale_out_fraction = 1 / 2, rl_final_target_r = 3, rl_single_unit_target_r = 3 / 2, rl_stall_exit_days = 7,
      rl_stall_min_r = 1 / 2, rl_max_open_risk_pct = 0, rl_max_entries_per_symbol_per_day = 0, rl_max_cost_to_risk_pct = 0\<rparr>"

definition nonnegative_limits :: "risk_limits \<Rightarrow> dec list" where
  "nonnegative_limits l =
     [rl_max_position_pct l, rl_max_sector_pct l, rl_min_confidence l, rl_stop_loss_pct l, rl_max_drawdown_pct l,
      rl_max_daily_loss_pct l, rl_spread_limit_pct l, rl_slippage_limit_pct l, rl_max_risk_per_trade_pct l,
      rl_max_total_exposure_pct l, rl_min_lot_notional l, rl_atr_stop_multiplier l, rl_min_stop_distance_pct l,
      rl_max_stop_distance_pct l, rl_options_premium_stop_pct l, rl_options_target_otm_pct l, rl_break_even_trigger_pct l,
      rl_trailing_atr_multiplier l, rl_max_correlation_threshold l, rl_max_correlation_threshold_crypto l,
      rl_scale_out_r l, rl_final_target_r l, rl_single_unit_target_r l, rl_stall_min_r l]"

definition require_each :: "bool \<Rightarrow> bool \<Rightarrow> dec list \<Rightarrow> unit res" where
  "require_each positive nonnegative xs = foldR (\<lambda>_ x. bindR (decimal_value (Fin x) positive nonnegative) (\<lambda>_. Inr ())) () xs"

lemma require_each_Inr_iff: "require_each p n xs = Inr u \<longleftrightarrow> (\<forall>x\<in>set xs. (p \<longrightarrow> 0 < x) \<and> (n \<longrightarrow> 0 \<le> x))"
  unfolding require_each_def by (induction xs) (auto simp: bindR_Inr_iff decimal_value_Inr_iff)

definition limits_post_init :: "risk_limits \<Rightarrow> risk_limits res" where
  "limits_post_init l =
     bindR (require_text (Some (rl_profile_id l))) (\<lambda>pid.
     bindR (require_each False True (nonnegative_limits l)) (\<lambda>_.
     bindR (require_each False True (case rl_options_spread_limit_pct l of None \<Rightarrow> [] | Some x \<Rightarrow> [x])) (\<lambda>_.
     bindR (require_each False True (case rl_options_slippage_limit_pct l of None \<Rightarrow> [] | Some x \<Rightarrow> [x])) (\<lambda>_.
     bindR (guardR (1 \<le> rl_max_daily_trades l) (ValueError ''max_daily_trades must be at least 1'')) (\<lambda>_.
     bindR (guardR (1 \<le> rl_max_open_positions l) (ValueError ''max_open_positions must be at least 1'')) (\<lambda>_.
     bindR (guardR (1 \<le> rl_max_simultaneous_orders l) (ValueError ''max_simultaneous_orders must be at least 1'')) (\<lambda>_.
     bindR (guardR (0 \<le> rl_min_confidence l \<and> rl_min_confidence l \<le> 100) (ValueError ''min_confidence must be between 0 and 100'')) (\<lambda>_.
     bindR (guardR (0 < rl_min_position_size_multiplier l \<and> rl_min_position_size_multiplier l \<le> 1)
              (ValueError ''min_position_size_multiplier must be between 0 (exclusive) and 1 (inclusive)'')) (\<lambda>_.
     bindR (guardR (0 < rl_scale_out_fraction l \<and> rl_scale_out_fraction l < 1)
              (ValueError ''scale_out_fraction must be between 0 and 1 (both exclusive)'')) (\<lambda>_.
     bindR (guardR (0 \<le> rl_options_expiry_min_days l \<and> 0 \<le> rl_options_expiry_max_days l
                    \<and> 0 \<le> rl_options_forced_close_days_before_expiry l \<and> 0 \<le> rl_max_hold_days l \<and> 0 \<le> rl_stall_exit_days l)
              (ValueError ''days must be nonnegative'')) (\<lambda>_.
     bindR (guardR (rl_options_expiry_min_days l \<le> rl_options_expiry_max_days l)
              (ValueError ''options_expiry_min_days must not exceed options_expiry_max_days'')) (\<lambda>_.
     bindR (guardR (rl_max_correlation_threshold l \<le> 1) (ValueError ''max_correlation_threshold must not exceed 1'')) (\<lambda>_.
     bindR (guardR (rl_max_correlation_threshold_crypto l \<le> 1) (ValueError ''max_correlation_threshold_crypto must not exceed 1'')) (\<lambda>_.
     bindR (require_each True False [rl_max_open_risk_pct l, rl_max_cost_to_risk_pct l]) (\<lambda>_.
     bindR (guardR (1 \<le> rl_max_entries_per_symbol_per_day l)
              (ValueError ''max_entries_per_symbol_per_day must be an integer of at least 1'')) (\<lambda>_.
     bindR (guardR (0 < rl_scale_out_r l \<longrightarrow>
                      \<not> (0 < rl_single_unit_target_r l \<and> rl_single_unit_target_r l < rl_scale_out_r l)
                      \<and> \<not> (0 < rl_final_target_r l \<and> rl_final_target_r l < rl_scale_out_r l))
              (ValueError ''must be at least scale_out_r when both are enabled'')) (\<lambda>_.
       Inr (l\<lparr>rl_profile_id := pid\<rparr>))))))))))))))))))"

definition limits_wf :: "risk_limits \<Rightarrow> bool" where
  "limits_wf l \<longleftrightarrow> (\<forall>x\<in>set (nonnegative_limits l). 0 \<le> x)
     \<and> (\<forall>x. rl_options_spread_limit_pct l = Some x \<longrightarrow> 0 \<le> x) \<and> (\<forall>x. rl_options_slippage_limit_pct l = Some x \<longrightarrow> 0 \<le> x)
     \<and> 1 \<le> rl_max_daily_trades l \<and> 1 \<le> rl_max_open_positions l \<and> 1 \<le> rl_max_simultaneous_orders l
     \<and> rl_min_confidence l \<le> 100
     \<and> 0 < rl_min_position_size_multiplier l \<and> rl_min_position_size_multiplier l \<le> 1
     \<and> 0 < rl_scale_out_fraction l \<and> rl_scale_out_fraction l < 1
     \<and> 0 \<le> rl_options_expiry_min_days l \<and> rl_options_expiry_min_days l \<le> rl_options_expiry_max_days l
     \<and> 0 \<le> rl_options_forced_close_days_before_expiry l \<and> 0 \<le> rl_max_hold_days l \<and> 0 \<le> rl_stall_exit_days l
     \<and> rl_max_correlation_threshold l \<le> 1 \<and> rl_max_correlation_threshold_crypto l \<le> 1
     \<and> 0 < rl_max_open_risk_pct l \<and> 0 < rl_max_cost_to_risk_pct l \<and> 1 \<le> rl_max_entries_per_symbol_per_day l
     \<and> (0 < rl_scale_out_r l \<longrightarrow> (rl_single_unit_target_r l \<le> 0 \<or> rl_scale_out_r l \<le> rl_single_unit_target_r l)
                              \<and> (rl_final_target_r l \<le> 0 \<or> rl_scale_out_r l \<le> rl_final_target_r l))"

definition spread_limit_for :: "risk_limits \<Rightarrow> asset_class \<Rightarrow> dec" where
  "spread_limit_for l c = (case (c, rl_options_spread_limit_pct l) of (OPTION, Some x) \<Rightarrow> x | _ \<Rightarrow> rl_spread_limit_pct l)"

definition slippage_limit_for :: "risk_limits \<Rightarrow> asset_class \<Rightarrow> dec" where
  "slippage_limit_for l c = (case (c, rl_options_slippage_limit_pct l) of (OPTION, Some x) \<Rightarrow> x | _ \<Rightarrow> rl_slippage_limit_pct l)"

lemma limits_post_init_wf:
  assumes "limits_post_init l = Inr l'"
  shows "limits_wf l \<and> rl_profile_id l' \<noteq> [] \<and> l' = l\<lparr>rl_profile_id := rl_profile_id l'\<rparr>"
proof -
  have nn: "rl_min_confidence l \<in> set (nonnegative_limits l)" by (simp add: nonnegative_limits_def)
  from assms obtain pid where *: "require_text (Some (rl_profile_id l)) = Inr pid" "l' = l\<lparr>rl_profile_id := pid\<rparr>"
    and "limits_wf l"
    unfolding limits_post_init_def bindR_Inr_iff guardR_Inr_iff require_each_Inr_iff limits_wf_def
    by (force split: option.splits)
  then show ?thesis using require_text_nonempty by auto
qed

lemma limits_wf_nonneg:
  assumes "limits_wf l"
  shows "0 \<le> rl_max_position_pct l" "0 \<le> rl_max_sector_pct l" "0 \<le> rl_min_confidence l" "0 \<le> rl_max_risk_per_trade_pct l"
    "0 \<le> rl_max_total_exposure_pct l" "0 \<le> rl_min_lot_notional l" "0 \<le> rl_max_daily_loss_pct l"
  using assms by (simp_all add: limits_wf_def nonnegative_limits_def)

end
