(* ===== verification/Risk.thy ===== *)
theory Risk
  imports Risk_Limits
begin

text \<open>
  \<open>risk/engine.py\<close>, the decision: \<open>evaluate_risk\<close> with its gates and its chain of sizing
  caps, \<open>check_cash_sufficiency\<close>, quantity rounding and the drawdown check. A rejection
  reason is a constructor with the numbers its message prints. The caps are a chain of
  steps on the approved quantity; \<open>sizing_cap\<close> is the contract every one of them keeps,
  that the quantity only shrinks and stays within the cap's headroom.
\<close>

datatype reason =
    KILL_SWITCH_ACTIVE
  | NO_QUOTE_DATA_FOR_SPREAD_CHECK
  | SPREAD_EXCEEDS_LIMIT dec dec
  | NO_SLIPPAGE_ESTIMATE
  | SLIPPAGE_EXCEEDS_LIMIT dec dec
  | MAX_DRAWDOWN_BREACHED
  | COST_EXCEEDS_RISK_FRACTION dec dec dec
  | PROTECTIVE_EXIT
  | INSUFFICIENT_POSITION_TO_SELL dec dec
  | REASON_OK
  | CONFIDENCE_BELOW_MIN dec dec
  | INVALID_REGIME_MULTIPLIER xdec
  | MAX_DAILY_TRADES_REACHED int int
  | MAX_OPEN_POSITIONS_REACHED int int
  | MAX_DAILY_LOSS_EXCEEDED dec dec
  | MAX_ENTRIES_PER_SYMBOL_REACHED int int
  | MAX_SIMULTANEOUS_ORDERS_REACHED int int
  | RISK_BUDGET_SCALED_BY_CONFIDENCE dec
  | RISK_BUDGET_SCALED_BY_REGIME dec
  | CAPPED_BY_RISK_BASED_SIZING dec
  | CAPPED_BY_MAX_OPEN_RISK dec
  | CAPPED_BY_MAX_POSITION_PCT dec
  | CAPPED_BY_MAX_SECTOR_PCT dec
  | CAPPED_BY_MAX_TOTAL_EXPOSURE dec
  | CAPPED_BY_AVAILABLE_CASH dec
  | INSUFFICIENT_CAPACITY_FOR_MINIMUM_LOT

record risk_check_input =
  ri_symbol :: string
  ri_class :: asset_class
  ri_side :: side
  ri_quantity :: dec
  ri_price :: dec
  ri_confidence :: "dec option"
  ri_stop_loss :: "dec option"
  ri_sector :: string
  ri_multiplier :: dec
  ri_regime :: "xdec option"

record risk_eval_options =
  ro_kill_switch :: bool
  ro_protective_exit :: bool
  ro_bid :: "dec option"
  ro_ask :: "dec option"
  ro_slippage_pct :: "dec option"
  ro_drawdown_breached :: bool
  ro_skip_market_data :: bool
  ro_held_quantity :: dec
  ro_held_notional :: dec
  ro_available_cash :: "dec option"
  ro_estimated_fees :: dec
  ro_open_risk :: dec
  ro_symbol_entries :: int
  ro_holds_slot :: bool

record risk_decision =
  rd_approved :: bool
  rd_quantity :: dec
  rd_reasons :: "reason list"

record cash_check =
  cc_approved :: bool
  cc_required :: dec
  cc_available :: dec
  cc_affordable :: dec

record drawdown_check =
  dc_breached :: bool
  dc_pct :: "dec option"
  dc_peak :: "dec option"
  dc_limit :: dec

record portfolio_snapshot =
  sn_id :: string
  sn_as_of :: time
  sn_total_equity :: dec
  sn_cash_balance :: dec
  sn_holdings_value :: dec
  sn_sector_exposure :: "(string \<times> dec) list"
  sn_open_positions :: int
  sn_outstanding_orders :: int
  sn_trades_today :: int
  sn_daily_pnl_pct :: dec
  sn_source :: string

text \<open>The construction checks of a version-1 snapshot.\<close>

definition snapshot_post_init :: "portfolio_snapshot \<Rightarrow> portfolio_snapshot res" where
  "snapshot_post_init s =
     bindR (require_text (Some (sn_id s))) (\<lambda>i.
     bindR (decimal_value (Fin (sn_total_equity s)) False True) (\<lambda>_.
     bindR (decimal_value (Fin (sn_cash_balance s)) False True) (\<lambda>_.
     bindR (decimal_value (Fin (sn_holdings_value s)) False True) (\<lambda>_.
     bindR (guardR (0 \<le> sn_open_positions s \<and> 0 \<le> sn_outstanding_orders s \<and> 0 \<le> sn_trades_today s)
              (ValueError ''must be nonnegative'')) (\<lambda>_.
     bindR (guardR (sn_source s \<in> {''broker'', ''holdings''}) (ValueError ''source'')) (\<lambda>_.
       Inr (s\<lparr>sn_id := i\<rparr>)))))))"

definition UNMANAGED_SECTOR :: string where "UNMANAGED_SECTOR = ''Unmanaged''"

definition precision_of :: "asset_class \<Rightarrow> dec" where
  "precision_of c = (if c = CRYPTO then 100000000 else if c = OPTION then 1 else 1000)"

definition round_qty :: "dec \<Rightarrow> asset_class \<Rightarrow> dec" where
  "round_qty q c = dquot (to_integral_floor (dmul (max q 0) (precision_of c))) (precision_of c)"

definition minimum_quantity :: "asset_class \<Rightarrow> dec" where
  "minimum_quantity c = (if c = CRYPTO then 1 / 100000000 else if c = OPTION then 1 else 1 / 1000)"

definition FEE_PCT_PER_SIDE :: "asset_class \<Rightarrow> dec" where
  "FEE_PCT_PER_SIDE c = (if c = CRYPTO then 1 / 4 else 0)"

definition confidence_multiplier :: "dec option \<Rightarrow> dec \<Rightarrow> dec \<Rightarrow> dec" where
  "confidence_multiplier confidence min_confidence floor_multiplier =
     (case confidence of
        None \<Rightarrow> 1
      | Some c \<Rightarrow>
          let span = dsub 100 min_confidence
          in if span \<le> 0 \<or> 100 \<le> c then 1
             else dadd floor_multiplier (dmul (dsub 1 floor_multiplier) (dquot (dsub c min_confidence) span)))"

definition check_cash_sufficiency :: "dec \<Rightarrow> dec \<Rightarrow> dec \<Rightarrow> dec \<Rightarrow> cash_check" where
  "check_cash_sufficiency cash_balance requested_notional estimated_fees buffer_pct =
     (let buffered = dmul cash_balance (dsub 1 (dquot buffer_pct 100));
          affordable = max 0 (dsub buffered estimated_fees);
          required = dadd requested_notional estimated_fees
      in \<lparr>cc_approved = (required \<le> buffered), cc_required = required, cc_available = buffered, cc_affordable = affordable\<rparr>)"

subsection \<open>Gates\<close>

definition spread_reasons :: "risk_check_input \<Rightarrow> risk_limits \<Rightarrow> risk_eval_options \<Rightarrow> reason list" where
  "spread_reasons i l ev =
     (let limit = spread_limit_for l (ri_class i)
      in if ri_side i = BUY \<and> limit \<noteq> 0 \<and> \<not> ro_skip_market_data ev
         then (case (ro_bid ev, ro_ask ev) of
                 (Some bid, Some ask) \<Rightarrow>
                   (let mid = dquot (dadd bid ask) 2
                    in if 0 < mid
                       then (let pct = dmul (dquot (dsub ask bid) mid) 100
                             in if limit < pct then [SPREAD_EXCEEDS_LIMIT pct limit] else [])
                       else [])
               | _ \<Rightarrow> [NO_QUOTE_DATA_FOR_SPREAD_CHECK])
         else [])"

definition slippage_reasons :: "risk_check_input \<Rightarrow> risk_limits \<Rightarrow> risk_eval_options \<Rightarrow> reason list" where
  "slippage_reasons i l ev =
     (let limit = slippage_limit_for l (ri_class i)
      in if ri_side i = BUY \<and> limit \<noteq> 0 \<and> \<not> ro_skip_market_data ev
         then (case ro_slippage_pct ev of
                 None \<Rightarrow> [NO_SLIPPAGE_ESTIMATE]
               | Some s \<Rightarrow> if limit < s then [SLIPPAGE_EXCEEDS_LIMIT s limit] else [])
         else [])"

definition drawdown_reasons :: "risk_check_input \<Rightarrow> risk_eval_options \<Rightarrow> reason list" where
  "drawdown_reasons i ev =
     (if ri_side i = BUY \<and> \<not> ro_protective_exit ev \<and> ro_drawdown_breached ev then [MAX_DRAWDOWN_BREACHED] else [])"

definition cost_reasons :: "risk_check_input \<Rightarrow> risk_limits \<Rightarrow> risk_eval_options \<Rightarrow> reason list" where
  "cost_reasons i l ev =
     (case (ri_stop_loss i, ro_bid ev, ro_ask ev) of
        (Some stop, Some bid, Some ask) \<Rightarrow>
          if ri_side i = BUY \<and> \<not> ro_protective_exit ev \<and> 0 < ri_price i \<and> stop < ri_price i \<and> \<not> ro_skip_market_data ev
          then (let mid = dquot (dadd bid ask) 2
                in if 0 < mid
                   then (let cost = dadd (dmul (dquot (dsub ask bid) mid) 100) (dmul 2 (FEE_PCT_PER_SIDE (ri_class i)));
                             risk = dmul (dquot (dsub (ri_price i) stop) (ri_price i)) 100
                         in if dmul (dquot (rl_max_cost_to_risk_pct l) 100) risk < cost
                            then [COST_EXCEEDS_RISK_FRACTION cost (rl_max_cost_to_risk_pct l) risk] else [])
                   else [])
          else []
      | _ \<Rightarrow> [])"

definition quote_reasons :: "risk_check_input \<Rightarrow> risk_limits \<Rightarrow> risk_eval_options \<Rightarrow> reason list" where
  "quote_reasons i l ev = spread_reasons i l ev @ slippage_reasons i l ev @ drawdown_reasons i ev @ cost_reasons i l ev"

definition regime_valid :: "xdec \<Rightarrow> bool" where
  "regime_valid r = (case r of Fin q \<Rightarrow> 0 \<le> q \<and> q \<le> 1 | _ \<Rightarrow> False)"

definition entry_reasons :: "risk_check_input \<Rightarrow> portfolio_snapshot \<Rightarrow> risk_limits \<Rightarrow> risk_eval_options \<Rightarrow> reason list" where
  "entry_reasons i sn l ev =
     (case ri_confidence i of None \<Rightarrow> []
      | Some c \<Rightarrow> if c < rl_min_confidence l then [CONFIDENCE_BELOW_MIN c (rl_min_confidence l)] else [])
     @ (case ri_regime i of None \<Rightarrow> [] | Some r \<Rightarrow> if regime_valid r then [] else [INVALID_REGIME_MULTIPLIER r])
     @ (if rl_max_daily_trades l \<le> sn_trades_today sn then [MAX_DAILY_TRADES_REACHED (sn_trades_today sn) (rl_max_daily_trades l)] else [])
     @ (if rl_max_open_positions l \<le> sn_open_positions sn \<and> \<not> ro_holds_slot ev
        then [MAX_OPEN_POSITIONS_REACHED (sn_open_positions sn) (rl_max_open_positions l)] else [])
     @ (if sn_daily_pnl_pct sn \<le> dneg (rl_max_daily_loss_pct l)
        then [MAX_DAILY_LOSS_EXCEEDED (sn_daily_pnl_pct sn) (rl_max_daily_loss_pct l)] else [])
     @ (if rl_max_entries_per_symbol_per_day l \<le> ro_symbol_entries ev
        then [MAX_ENTRIES_PER_SYMBOL_REACHED (ro_symbol_entries ev) (rl_max_entries_per_symbol_per_day l)] else [])
     @ (if rl_max_simultaneous_orders l \<noteq> 0 \<and> rl_max_simultaneous_orders l \<le> sn_outstanding_orders sn
        then [MAX_SIMULTANEOUS_ORDERS_REACHED (sn_outstanding_orders sn) (rl_max_simultaneous_orders l)] else [])"

subsection \<open>Sizing\<close>

text \<open>The state of the sizing block: the approved quantity and the reasons so far.\<close>

type_synonym sizing = "dec \<times> reason list"

definition shrink_to :: "dec \<Rightarrow> (dec \<Rightarrow> reason) \<Rightarrow> sizing \<Rightarrow> sizing" where
  "shrink_to capped why s = (if capped < fst s then (capped, snd s @ [why capped]) else s)"

definition scaled_budget :: "risk_check_input \<Rightarrow> risk_limits \<Rightarrow> dec \<Rightarrow> reason list \<Rightarrow> (dec \<times> reason list) res" where
  "scaled_budget i l equity rs =
     (let budget = dmul (dquot (rl_max_risk_per_trade_pct l) 100) equity;
          cm = confidence_multiplier (ri_confidence i) (rl_min_confidence l) (rl_min_position_size_multiplier l)
      in bindR (if cm < 1 then bindR (quantize_places 1 (dmul cm 100)) (\<lambda>p. Inr (dmul budget cm, rs @ [RISK_BUDGET_SCALED_BY_CONFIDENCE p]))
                else Inr (budget, rs)) (\<lambda>(b, rs').
         (case ri_regime i of
            Some (Fin r) \<Rightarrow> if r < 1 then bindR (quantize_places 1 (dmul r 100)) (\<lambda>p. Inr (dmul b r, rs' @ [RISK_BUDGET_SCALED_BY_REGIME p]))
                            else Inr (b, rs')
          | _ \<Rightarrow> Inr (b, rs'))))"

definition size_by_risk :: "risk_check_input \<Rightarrow> risk_limits \<Rightarrow> risk_eval_options \<Rightarrow> dec \<Rightarrow> sizing \<Rightarrow> sizing res" where
  "size_by_risk i l ev equity s =
     (case ri_stop_loss i of
        None \<Rightarrow> Inr s
      | Some stop \<Rightarrow>
          if 0 < stop \<and> rl_max_risk_per_trade_pct l \<noteq> 0
          then bindR (scaled_budget i l equity (snd s)) (\<lambda>(budget, rs).
            (let unit_risk = dmul (dabs (dsub (ri_price i) stop)) (ri_multiplier i)
             in if 0 < unit_risk
                then (let s1 = shrink_to (round_qty (dquot budget unit_risk) (ri_class i)) CAPPED_BY_RISK_BASED_SIZING (fst s, rs);
                          remaining_risk = dsub (dmul (dquot (rl_max_open_risk_pct l) 100) equity) (ro_open_risk ev)
                      in Inr (shrink_to (round_qty (dquot (max remaining_risk 0) unit_risk) (ri_class i)) CAPPED_BY_MAX_OPEN_RISK s1))
                else Inr (fst s, rs)))
          else Inr s)"

definition unit_notional :: "risk_check_input \<Rightarrow> dec" where
  "unit_notional i = dmul (ri_price i) (ri_multiplier i)"

text \<open>The quantity a headroom allows, where the code guards the division.\<close>

definition capped_at :: "dec \<Rightarrow> dec \<Rightarrow> asset_class \<Rightarrow> dec" where
  "capped_at headroom npu c = (if 0 < npu then round_qty (dquot headroom npu) c else 0)"

definition position_headroom :: "risk_limits \<Rightarrow> risk_eval_options \<Rightarrow> dec \<Rightarrow> dec" where
  "position_headroom l ev equity = dsub (dmul (dquot (rl_max_position_pct l) 100) equity) (ro_held_notional ev)"

definition cap_position :: "risk_check_input \<Rightarrow> risk_limits \<Rightarrow> risk_eval_options \<Rightarrow> dec \<Rightarrow> sizing \<Rightarrow> sizing res" where
  "cap_position i l ev equity s =
     (let headroom = position_headroom l ev equity
      in if headroom < dmul (fst s) (unit_notional i)
         then bindR (ddiv (max headroom 0) (unit_notional i)) (\<lambda>q.
                let capped = round_qty q (ri_class i) in Inr (capped, snd s @ [CAPPED_BY_MAX_POSITION_PCT capped]))
         else Inr s)"

definition sector_value :: "portfolio_snapshot \<Rightarrow> string \<Rightarrow> dec" where
  "sector_value sn k = (case map_of (sn_sector_exposure sn) k of None \<Rightarrow> 0 | Some v \<Rightarrow> v)"

definition sector_headroom :: "risk_check_input \<Rightarrow> portfolio_snapshot \<Rightarrow> risk_limits \<Rightarrow> dec" where
  "sector_headroom i sn l =
     (let current = (if ri_sector i \<noteq> UNMANAGED_SECTOR
                     then dadd (sector_value sn (ri_sector i)) (sector_value sn UNMANAGED_SECTOR)
                     else sector_value sn (ri_sector i))
      in dsub (dmul (dquot (rl_max_sector_pct l) 100) (sn_total_equity sn)) current)"

definition cap_headroom :: "dec \<Rightarrow> (dec \<Rightarrow> reason) \<Rightarrow> risk_check_input \<Rightarrow> sizing \<Rightarrow> sizing" where
  "cap_headroom headroom why i s =
     (if headroom < dmul (fst s) (unit_notional i) then shrink_to (capped_at headroom (unit_notional i) (ri_class i)) why s else s)"

definition exposure_headroom :: "portfolio_snapshot \<Rightarrow> risk_limits \<Rightarrow> dec" where
  "exposure_headroom sn l = dsub (dmul (dquot (rl_max_total_exposure_pct l) 100) (sn_total_equity sn)) (sn_holdings_value sn)"

definition cap_exposure :: "risk_check_input \<Rightarrow> portfolio_snapshot \<Rightarrow> risk_limits \<Rightarrow> sizing \<Rightarrow> sizing" where
  "cap_exposure i sn l s =
     (if rl_max_total_exposure_pct l \<noteq> 0 then cap_headroom (exposure_headroom sn l) CAPPED_BY_MAX_TOTAL_EXPOSURE i s else s)"

definition cap_cash :: "risk_check_input \<Rightarrow> risk_eval_options \<Rightarrow> sizing \<Rightarrow> sizing" where
  "cap_cash i ev s =
     (case ro_available_cash ev of
        None \<Rightarrow> s
      | Some cash \<Rightarrow>
          let check = check_cash_sufficiency cash (dmul (fst s) (unit_notional i)) (ro_estimated_fees ev) 1
          in if cc_approved check then s
             else shrink_to (capped_at (cc_affordable check) (unit_notional i) (ri_class i)) CAPPED_BY_AVAILABLE_CASH s)"

definition size_entry :: "risk_check_input \<Rightarrow> portfolio_snapshot \<Rightarrow> risk_limits \<Rightarrow> risk_eval_options \<Rightarrow> sizing res" where
  "size_entry i sn l ev =
     (if 0 < sn_total_equity sn \<and> 0 < ri_price i
      then bindR (size_by_risk i l ev (sn_total_equity sn) (ri_quantity i, [])) (\<lambda>s1.
           bindR (cap_position i l ev (sn_total_equity sn) s1) (\<lambda>s2.
             Inr (cap_cash i ev (cap_exposure i sn l (cap_headroom (sector_headroom i sn l) CAPPED_BY_MAX_SECTOR_PCT i s2)))))
      else Inr (ri_quantity i, []))"

definition denied :: "reason list \<Rightarrow> risk_decision" where
  "denied rs = \<lparr>rd_approved = False, rd_quantity = 0, rd_reasons = rs\<rparr>"

definition evaluate_risk :: "risk_check_input \<Rightarrow> portfolio_snapshot option \<Rightarrow> risk_limits \<Rightarrow> risk_eval_options \<Rightarrow> risk_decision res" where
  "evaluate_risk i snapshot l ev =
     (if ro_kill_switch ev \<and> \<not> ro_protective_exit ev then Inr (denied [KILL_SWITCH_ACTIVE])
      else let reasons = quote_reasons i l ev in
      if ro_protective_exit ev
        then Inr (if reasons \<noteq> [] then denied reasons
                  else \<lparr>rd_approved = True, rd_quantity = ri_quantity i, rd_reasons = [PROTECTIVE_EXIT]\<rparr>)
      else if ri_side i = SELL
        then Inr (if ro_held_quantity ev < ri_quantity i
                  then denied [INSUFFICIENT_POSITION_TO_SELL (ro_held_quantity ev) (ri_quantity i)]
                  else \<lparr>rd_approved = True, rd_quantity = ri_quantity i, rd_reasons = [REASON_OK]\<rparr>)
      else (case snapshot of
          None \<Rightarrow> Inl (ValueError ''RISK_SNAPSHOT_REQUIRED: new exposure is evaluated against a portfolio snapshot'')
        | Some sn \<Rightarrow>
            let reasons = reasons @ entry_reasons i sn l ev in
            if reasons \<noteq> [] then Inr (denied reasons)
            else bindR (size_entry i sn l ev) (\<lambda>(q, rs).
              Inr (if q < minimum_quantity (ri_class i)
                      \<or> (0 < unit_notional i \<and> dmul q (unit_notional i) < rl_min_lot_notional l)
                   then denied (rs @ [INSUFFICIENT_CAPACITY_FOR_MINIMUM_LOT])
                   else \<lparr>rd_approved = True, rd_quantity = max 0 q,
                         rd_reasons = (if ri_quantity i \<le> q then rs @ [REASON_OK] else rs)\<rparr>))))"

text \<open>\<open>check_max_drawdown\<close>; the peak row is the largest recorded equity.\<close>

definition check_max_drawdown :: "dec option \<Rightarrow> dec \<Rightarrow> risk_limits \<Rightarrow> drawdown_check" where
  "check_max_drawdown historical_peak current_equity l =
     (let limit = rl_max_drawdown_pct l in
      if limit \<le> 0 then \<lparr>dc_breached = False, dc_pct = None, dc_peak = None, dc_limit = limit\<rparr>
      else let peak = (case historical_peak of None \<Rightarrow> current_equity | Some p \<Rightarrow> if current_equity < p then p else current_equity)
           in if peak \<le> 0 then \<lparr>dc_breached = False, dc_pct = None, dc_peak = Some peak, dc_limit = limit\<rparr>
              else let pct = dmul (dquot (dsub peak current_equity) peak) 100
                   in \<lparr>dc_breached = (limit \<le> pct), dc_pct = Some pct, dc_peak = Some peak, dc_limit = limit\<rparr>)"

subsection \<open>Rounding a quantity\<close>

lemma precision_of_cases: "precision_of c = 10 ^ (if c = CRYPTO then 8 else if c = OPTION then 0 else 3)"
  by (simp add: precision_of_def)

lemma precision_pos: "0 < precision_of c"
  by (simp add: precision_of_def)

lemma round_qty_nonneg: "0 \<le> round_qty q c"
proof -
  have "0 \<le> dmul (max q 0) (precision_of c)" using precision_pos [of c] by (intro dmul_nonneg) auto
  then show ?thesis using precision_pos [of c] unfolding round_qty_def to_integral_floor_def by (intro dquot_nonneg) auto
qed

lemma round_qty_fixed [simp]: "ctx (round_qty q c) = round_qty q c"
  by (simp add: round_qty_def)

text \<open>Flooring never increases a quantity of at most 28 digits.\<close>

lemma round_qty_le:
  assumes "ctx q = q"
  shows "round_qty q c \<le> max q 0"
proof -
  let ?p = "precision_of c" let ?m = "max q 0"
  have m: "ctx ?m = ?m" using assms by (simp add: max_def)
  have "dmul ?m ?p = ?m * ?p" unfolding dmul_def precision_of_cases by (rule ctx_scale10 [OF m])
  then have "to_integral_floor (dmul ?m ?p) / ?p \<le> ?m"
    using precision_pos [of c] by (simp add: to_integral_floor_def divide_le_eq)
  then show ?thesis unfolding round_qty_def dquot_def by (rule dctx.le_fixed [OF _ m])
qed

lemma round_dquot_le: "0 < b \<Longrightarrow> round_qty (dquot a b) c \<le> max a 0 / b * (1 + rel_eps)"
proof -
  assume b: "0 < b"
  have "round_qty (dquot a b) c \<le> max (dquot a b) 0" by (rule round_qty_le) simp
  also have "\<dots> \<le> dquot (max a 0) b" using b by (auto simp: dquot_nonneg intro: dquot_mono)
  also have "\<dots> \<le> max a 0 / b * (1 + rel_eps)" unfolding dquot_def using b by (intro ctx_upper) simp
  finally show ?thesis .
qed

subsection \<open>The contract of a cap\<close>

definition qty_ok :: "dec \<Rightarrow> bool" where
  "qty_ok q \<longleftrightarrow> ctx q = q \<and> 0 \<le> q"

text \<open>
  A sizing step either raises or returns a quantity that is not larger, still nonnegative
  with at most 28 digits, and stays within the step's bound; the bound also admits every
  smaller quantity, so later steps keep it.
\<close>

locale sizing_cap =
  fixes cap :: "sizing \<Rightarrow> sizing res"
    and bound :: "dec \<Rightarrow> bool"
  assumes cap_le: "qty_ok (fst s) \<Longrightarrow> cap s = Inr s' \<Longrightarrow> fst s' \<le> fst s"
    and cap_ok: "qty_ok (fst s) \<Longrightarrow> cap s = Inr s' \<Longrightarrow> qty_ok (fst s')"
    and cap_bound: "qty_ok (fst s) \<Longrightarrow> cap s = Inr s' \<Longrightarrow> bound (fst s')"
    and bound_down: "bound q \<Longrightarrow> q' \<le> q \<Longrightarrow> bound q'"
begin

lemma cap_then:
  assumes "qty_ok (fst s)" and "cap s = Inr s1" and "q \<le> fst s1"
  shows "bound q \<and> q \<le> fst s"
  using assms(3) cap_le [OF assms(1,2)] bound_down [OF cap_bound [OF assms(1,2)]] by auto

end

definition within_cap :: "dec \<Rightarrow> dec \<Rightarrow> asset_class \<Rightarrow> dec \<Rightarrow> bool" where
  "within_cap headroom npu c q \<longleftrightarrow> dmul q npu \<le> headroom \<or> q \<le> capped_at headroom npu c"

lemma within_cap_down: "0 \<le> npu \<Longrightarrow> within_cap h npu c q \<Longrightarrow> q' \<le> q \<Longrightarrow> within_cap h npu c q'"
  unfolding within_cap_def dmul_def using ctx_mono [OF mult_right_mono, of q' q npu] by (meson order_trans)

lemma fst_shrink_to [simp]: "fst (shrink_to c w s) = min c (fst s)"
  by (auto simp: shrink_to_def min_def)

lemma capped_at_ok: "qty_ok (capped_at h npu c)"
  by (simp add: qty_ok_def capped_at_def round_qty_nonneg)

lemma qty_ok_min: "qty_ok a \<Longrightarrow> qty_ok b \<Longrightarrow> qty_ok (min a b)"
  by (simp add: min_def)

lemma round_qty_ok: "qty_ok (round_qty q c)"
  by (simp add: qty_ok_def round_qty_nonneg)

lemma capped_at_max:
  assumes "0 < npu"
  shows "capped_at h npu c = round_qty (dquot (max h 0) npu) c"
proof (cases "0 \<le> h")
  case False
  then have "dquot h npu \<le> 0" using assms by (simp add: dquot_def dctx.nonpos divide_nonpos_pos)
  then have "round_qty (dquot h npu) c = round_qty 0 c" by (simp add: round_qty_def)
  then show ?thesis using False assms by (simp add: capped_at_def dquot_def)
qed (use assms in \<open>simp add: capped_at_def\<close>)

text \<open>The division of a headroom that the quantity exceeds yields no larger quantity.\<close>

lemma capped_at_le:
  assumes "qty_ok q" and "0 < npu" and "h < dmul q npu" and "ctx h = h"
  shows "capped_at h npu c \<le> q"
proof -
  have "\<not> q * npu \<le> h" using assms(3,4) dctx.le_fixed unfolding dmul_def by (meson not_le)
  then have "h / npu \<le> q" using assms(2) by (simp add: pos_divide_le_eq)
  then have "dquot h npu \<le> q" unfolding dquot_def using assms(1) by (intro dctx.le_fixed) (simp_all add: qty_ok_def)
  moreover have "round_qty (dquot h npu) c \<le> max (dquot h npu) 0" by (rule round_qty_le) simp
  ultimately show ?thesis using assms(1,2) by (simp add: capped_at_def qty_ok_def max_def split: if_splits)
qed

lemma sizing_cap_pure:
  assumes f: "\<And>s. fst (f s) = g (fst s)" and "\<And>q. qty_ok q \<Longrightarrow> g q \<le> q \<and> qty_ok (g q) \<and> bnd (g q)"
    and "\<And>q q'. bnd q \<Longrightarrow> q' \<le> q \<Longrightarrow> bnd q'"
  shows "sizing_cap (\<lambda>s. Inr (f s)) bnd"
proof
  fix s s' :: sizing
  assume q: "qty_ok (fst s)" and "Inr (f s) = (Inr s' :: sizing res)"
  then have "s' = f s" by blast
  then have "fst s' = g (fst s)" using f [of s] by (simp only:)
  with assms(2) [OF q] show "fst s' \<le> fst s" "qty_ok (fst s')" "bnd (fst s')" by auto
qed (use assms(3) in blast)

lemma fst_cap_headroom:
  "fst (cap_headroom h w i s) = (if h < dmul (fst s) (unit_notional i) then min (capped_at h (unit_notional i) (ri_class i)) (fst s) else fst s)"
  by (simp add: cap_headroom_def)

lemma within_cap_shrink: "0 < npu \<longrightarrow> within_cap h npu c q \<Longrightarrow> q' \<le> q \<Longrightarrow> 0 < npu \<longrightarrow> within_cap h npu c q'"
  using within_cap_down [of npu h c q q'] by auto

interpretation headroom_cap: sizing_cap "\<lambda>s. Inr (cap_headroom h w i s)"
    "\<lambda>q. 0 < unit_notional i \<longrightarrow> within_cap h (unit_notional i) (ri_class i) q" for h w i
  by (rule sizing_cap_pure [where g = "\<lambda>q. if h < dmul q (unit_notional i) then min (capped_at h (unit_notional i) (ri_class i)) q else q",
        OF fst_cap_headroom _ within_cap_shrink])
    (auto simp: within_cap_def qty_ok_min capped_at_ok)

lemma fst_cap_position:
  assumes "cap_position i l ev eq s = Inr s'"
  shows "fst s' = (if position_headroom l ev eq < dmul (fst s) (unit_notional i)
    then if 0 < unit_notional i then capped_at (position_headroom l ev eq) (unit_notional i) (ri_class i) else 0 else fst s)"
proof -
  have neg: "round_qty (dquot (max h 0) (unit_notional i)) (ri_class i) = 0" if "unit_notional i < 0" for h
  proof -
    have "dquot (max h 0) (unit_notional i) \<le> 0" using that by (simp add: dquot_def dctx.nonpos divide_nonneg_neg)
    then show ?thesis by (simp add: round_qty_def dmul_def dquot_def to_integral_floor_def max_def)
  qed
  show ?thesis
    using assms neg by (auto simp: cap_position_def Let_def ddiv_def capped_at_max not_less split: if_splits)
qed

interpretation position_cap: sizing_cap "cap_position i l ev eq"
    "\<lambda>q. 0 < unit_notional i \<longrightarrow> within_cap (position_headroom l ev eq) (unit_notional i) (ri_class i) q" for i l ev eq
proof
  fix s s' :: sizing
  let ?h = "position_headroom l ev eq"
  assume q: "qty_ok (fst s)" and c: "cap_position i l ev eq s = Inr s'"
  have h: "ctx ?h = ?h" by (simp add: position_headroom_def)
  have "capped_at ?h (unit_notional i) (ri_class i) \<le> fst s" if "?h < dmul (fst s) (unit_notional i)" "0 < unit_notional i"
    using capped_at_le [OF q that(2,1) h] .
  with q show "fst s' \<le> fst s" "qty_ok (fst s')"
    "0 < unit_notional i \<longrightarrow> within_cap ?h (unit_notional i) (ri_class i) (fst s')"
    unfolding fst_cap_position [OF c] using capped_at_ok by (auto simp: within_cap_def qty_ok_def)
qed (rule within_cap_shrink)

definition within_cash :: "dec \<Rightarrow> dec \<Rightarrow> dec \<Rightarrow> asset_class \<Rightarrow> dec \<Rightarrow> bool" where
  "within_cash cash fees npu c q \<longleftrightarrow>
     cc_approved (check_cash_sufficiency cash (dmul q npu) fees 1)
     \<or> q \<le> capped_at (cc_affordable (check_cash_sufficiency cash (dmul q npu) fees 1)) npu c"

definition cash_fits :: "dec \<Rightarrow> dec \<Rightarrow> dec \<Rightarrow> dec \<Rightarrow> bool" where
  "cash_fits cash fees npu q \<longleftrightarrow> cc_approved (check_cash_sufficiency cash (dmul q npu) fees 1)"

definition cash_cap :: "dec \<Rightarrow> dec \<Rightarrow> dec \<Rightarrow> asset_class \<Rightarrow> dec" where
  "cash_cap cash fees npu c = capped_at (cc_affordable (check_cash_sufficiency cash 0 fees 1)) npu c"

lemma affordable_const: "cc_affordable (check_cash_sufficiency cash n fees b) = cc_affordable (check_cash_sufficiency cash 0 fees b)"
  by (simp add: check_cash_sufficiency_def Let_def)

lemma within_cash_iff: "within_cash cash fees npu c q \<longleftrightarrow> cash_fits cash fees npu q \<or> q \<le> cash_cap cash fees npu c"
  unfolding within_cash_def cash_fits_def cash_cap_def affordable_const [of cash "dmul q npu"] by (rule refl)

lemma cash_fits_down:
  assumes "0 \<le> npu" and "cash_fits cash fees npu q" and "q' \<le> q"
  shows "cash_fits cash fees npu q'"
proof -
  have "dmul q' npu \<le> dmul q npu" unfolding dmul_def using assms(1,3) by (intro ctx_mono mult_right_mono) auto
  then have "dadd (dmul q' npu) fees \<le> dadd (dmul q npu) fees" by (rule dadd_mono) simp
  then show ?thesis using assms(2) by (simp add: cash_fits_def check_cash_sufficiency_def Let_def)
qed

lemma fst_cap_cash:
  assumes "ro_available_cash ev = Some cash"
  shows "fst (cap_cash i ev s) =
    (if cash_fits cash (ro_estimated_fees ev) (unit_notional i) (fst s) then fst s
     else min (cash_cap cash (ro_estimated_fees ev) (unit_notional i) (ri_class i)) (fst s))"
  unfolding cap_cash_def assms cash_fits_def cash_cap_def option.case Let_def
    affordable_const [of cash "dmul (fst s) (unit_notional i)"] by simp

definition cash_bound :: "risk_check_input \<Rightarrow> risk_eval_options \<Rightarrow> dec \<Rightarrow> bool" where
  "cash_bound i ev q \<longleftrightarrow> (\<forall>cash. ro_available_cash ev = Some cash \<longrightarrow> 0 < unit_notional i
     \<longrightarrow> within_cash cash (ro_estimated_fees ev) (unit_notional i) (ri_class i) q)"

interpretation cash_cap: sizing_cap "\<lambda>s. Inr (cap_cash i ev s)" "cash_bound i ev" for i ev
proof (cases "ro_available_cash ev")
  case None
  then show "sizing_cap (\<lambda>s. Inr (cap_cash i ev s)) (cash_bound i ev)"
    by unfold_locales (auto simp: cap_cash_def cash_bound_def)
next
  case (Some cash)
  let ?c = "cash_cap cash (ro_estimated_fees ev) (unit_notional i) (ri_class i)"
  have c: "qty_ok ?c" by (simp add: cash_cap_def capped_at_ok)
  have down: "cash_bound i ev q'" if "cash_bound i ev q" "q' \<le> q" for q q'
    using that cash_fits_down [of "unit_notional i" cash "ro_estimated_fees ev" q q'] Some
    unfolding cash_bound_def within_cash_iff by (auto intro: order_trans)
  show "sizing_cap (\<lambda>s. Inr (cap_cash i ev s)) (cash_bound i ev)"
    by (rule sizing_cap_pure [where f = "cap_cash i ev", OF fst_cap_cash [OF Some] _ down])
      (auto simp: cash_bound_def within_cash_iff qty_ok_min c Some)
qed

text \<open>The risk budget a trade may use, without the reasons recorded on the way.\<close>

definition risk_budget :: "risk_check_input \<Rightarrow> risk_limits \<Rightarrow> dec \<Rightarrow> dec" where
  "risk_budget i l equity =
     (let base = dmul (dquot (rl_max_risk_per_trade_pct l) 100) equity;
          cm = confidence_multiplier (ri_confidence i) (rl_min_confidence l) (rl_min_position_size_multiplier l);
          b = (if cm < 1 then dmul base cm else base)
      in case ri_regime i of Some (Fin r) \<Rightarrow> if r < 1 then dmul b r else b | _ \<Rightarrow> b)"

lemma scaled_budget_fst: "scaled_budget i l equity rs = Inr (b, rs') \<Longrightarrow> b = risk_budget i l equity"
  by (auto simp: scaled_budget_def risk_budget_def Let_def bindR_Inr_iff split: if_splits option.splits xdec.splits)

definition unit_risk :: "risk_check_input \<Rightarrow> dec \<Rightarrow> dec" where
  "unit_risk i stop = dmul (dabs (dsub (ri_price i) stop)) (ri_multiplier i)"

definition open_risk_headroom :: "risk_limits \<Rightarrow> risk_eval_options \<Rightarrow> dec \<Rightarrow> dec" where
  "open_risk_headroom l ev equity = dsub (dmul (dquot (rl_max_open_risk_pct l) 100) equity) (ro_open_risk ev)"

definition risk_bound :: "risk_check_input \<Rightarrow> risk_limits \<Rightarrow> risk_eval_options \<Rightarrow> dec \<Rightarrow> dec \<Rightarrow> bool" where
  "risk_bound i l ev equity q \<longleftrightarrow> (\<forall>stop. ri_stop_loss i = Some stop \<longrightarrow> 0 < stop \<longrightarrow> rl_max_risk_per_trade_pct l \<noteq> 0
     \<longrightarrow> 0 < unit_risk i stop
     \<longrightarrow> q \<le> round_qty (dquot (risk_budget i l equity) (unit_risk i stop)) (ri_class i)
       \<and> q \<le> round_qty (dquot (max (open_risk_headroom l ev equity) 0) (unit_risk i stop)) (ri_class i))"

interpretation risk_cap: sizing_cap "size_by_risk i l ev equity" "risk_bound i l ev equity" for i l ev equity
proof
  fix s s' :: sizing
  assume q: "qty_ok (fst s)" and c: "size_by_risk i l ev equity s = Inr s'"
  show "fst s' \<le> fst s"
    using c by (auto simp: size_by_risk_def bindR_Inr_iff Let_def split: option.splits if_splits)
  show "qty_ok (fst s')"
    using c q by (auto simp: size_by_risk_def bindR_Inr_iff Let_def qty_ok_min round_qty_ok split: option.splits if_splits)
  show "risk_bound i l ev equity (fst s')"
    using c unfolding risk_bound_def unit_risk_def open_risk_headroom_def
    by (auto simp: size_by_risk_def bindR_Inr_iff Let_def dest!: scaled_budget_fst split: if_splits)
qed (auto simp: risk_bound_def)

text \<open>What a bound means for the exact notional: it is exceeded by rounding only.\<close>

lemma within_cap_notional:
  assumes "within_cap h npu c q" and "0 < npu" and "0 < q"
  shows "0 \<le> h \<and> q * npu * (1 - rel_eps) \<le> h * (1 + rel_eps)"
proof (cases "dmul q npu \<le> h")
  case True
  have "q * npu * (1 - rel_eps) \<le> dmul q npu" unfolding dmul_def using assms by (intro ctx_lower) simp
  moreover have h: "0 \<le> h" using True dmul_nonneg [of q npu] assms by simp
  moreover have "h \<le> h * (1 + rel_eps)" using h rel_eps_pos by (simp add: algebra_simps)
  ultimately show ?thesis using True by linarith
next
  case False
  then have "q \<le> round_qty (dquot h npu) c" using assms by (simp add: within_cap_def capped_at_def)
  also have "\<dots> \<le> max h 0 / npu * (1 + rel_eps)" by (rule round_dquot_le [OF assms(2)])
  finally have *: "q * npu \<le> max h 0 * (1 + rel_eps)" using assms(2) by (simp add: field_simps)
  have "0 < q * npu" using assms by simp
  then have "0 < max h 0 * (1 + rel_eps)" using * by linarith
  then have "0 < h" by (auto simp: max_def split: if_splits)
  moreover have "q * npu * (1 - rel_eps) \<le> q * npu" using assms rel_eps_pos by (simp add: algebra_simps)
  ultimately show ?thesis using * by (simp add: max_def)
qed

subsection \<open>The sizing block\<close>

text \<open>The chain keeps every cap's bound.\<close>

lemma size_entry_bounds:
  assumes "size_entry i sn l ev = Inr (q, rs)" and "qty_ok (ri_quantity i)" and "0 < sn_total_equity sn" and "0 < ri_price i"
    and npu: "0 < unit_notional i"
  shows "q \<le> ri_quantity i \<and> risk_bound i l ev (sn_total_equity sn) q
    \<and> within_cap (position_headroom l ev (sn_total_equity sn)) (unit_notional i) (ri_class i) q
    \<and> within_cap (sector_headroom i sn l) (unit_notional i) (ri_class i) q
    \<and> (rl_max_total_exposure_pct l \<noteq> 0 \<longrightarrow> within_cap (exposure_headroom sn l) (unit_notional i) (ri_class i) q)
    \<and> cash_bound i ev q"
proof -
  let ?eq = "sn_total_equity sn"
  from assms(1,3,4) obtain s1 s2 where s1: "size_by_risk i l ev ?eq (ri_quantity i, []) = Inr s1"
    and s2: "cap_position i l ev ?eq s1 = Inr s2"
    and q: "(q, rs) = cap_cash i ev (cap_exposure i sn l (cap_headroom (sector_headroom i sn l) CAPPED_BY_MAX_SECTOR_PCT i s2))"
    by (auto simp: size_entry_def bindR_Inr_iff)
  define s3 where "s3 = cap_headroom (sector_headroom i sn l) CAPPED_BY_MAX_SECTOR_PCT i s2"
  define s4 where "s4 = cap_exposure i sn l s3"
  have q0: "qty_ok (fst (ri_quantity i, [] :: reason list))" using assms(2) by simp
  have ok1: "qty_ok (fst s1)" by (rule risk_cap.cap_ok [OF q0 s1])
  have ok2: "qty_ok (fst s2)" by (rule position_cap.cap_ok [OF ok1 s2])
  have ok3: "qty_ok (fst s3)" unfolding s3_def by (rule headroom_cap.cap_ok [OF ok2 refl])
  have s4: "s4 = (if rl_max_total_exposure_pct l \<noteq> 0 then cap_headroom (exposure_headroom sn l) CAPPED_BY_MAX_TOTAL_EXPOSURE i s3 else s3)"
    by (simp add: s4_def cap_exposure_def)
  have ok4: "qty_ok (fst s4)" unfolding s4 using headroom_cap.cap_ok [OF ok3 refl] ok3 by simp
  have q5: "q = fst (cap_cash i ev s4)" using q by (metis fst_conv s3_def s4_def)
  have le4: "q \<le> fst s4" and cash: "cash_bound i ev q"
    using cash_cap.cap_then [OF ok4 refl order_refl] unfolding q5 by auto
  have le3: "q \<le> fst s3" "rl_max_total_exposure_pct l \<noteq> 0 \<longrightarrow> within_cap (exposure_headroom sn l) (unit_notional i) (ri_class i) q"
    using headroom_cap.cap_then [OF ok3 refl, of q "exposure_headroom sn l" CAPPED_BY_MAX_TOTAL_EXPOSURE i] le4 npu
    unfolding s4 by (auto split: if_splits)
  from headroom_cap.cap_then [OF ok2 refl le3(1) [unfolded s3_def]] npu
  have le2: "q \<le> fst s2" "within_cap (sector_headroom i sn l) (unit_notional i) (ri_class i) q" by auto
  from position_cap.cap_then [OF ok1 s2 le2(1)] npu
  have le1: "q \<le> fst s1" "within_cap (position_headroom l ev ?eq) (unit_notional i) (ri_class i) q" by auto
  from risk_cap.cap_then [OF q0 s1 le1(1)] cash le1(2) le2(2) le3(2) show ?thesis by auto
qed

lemma evaluate_entry_cases:
  assumes "evaluate_risk i (Some sn) l ev = Inr d" and "rd_approved d" and "ri_side i = BUY" and "\<not> ro_protective_exit ev"
  obtains q rs where "\<not> ro_kill_switch ev" "quote_reasons i l ev = []" "entry_reasons i sn l ev = []"
    "size_entry i sn l ev = Inr (q, rs)" "minimum_quantity (ri_class i) \<le> q"
    "0 < unit_notional i \<longrightarrow> rl_min_lot_notional l \<le> dmul q (unit_notional i)" "rd_quantity d = max 0 q"
  using assms by (auto simp: evaluate_risk_def denied_def Let_def bindR_Inr_iff split: if_splits)

lemma minimum_quantity_pos: "0 < minimum_quantity c"
  by (simp add: minimum_quantity_def)

subsection \<open>Properties\<close>

text \<open>A decision never approves more than was requested, and a denial approves nothing: zero
  units; an approved entry is at least the minimum lot of its asset class.\<close>

theorem risk_approves_at_most_requested:
  assumes "evaluate_risk i sn l ev = Inr d" and "ctx (ri_quantity i) = ri_quantity i" and "0 \<le> ri_quantity i"
    and "0 < ri_multiplier i"
  shows "(\<not> rd_approved d \<longrightarrow> rd_quantity d = 0) \<and> 0 \<le> rd_quantity d \<and> rd_quantity d \<le> ri_quantity i
    \<and> (rd_approved d \<longrightarrow> ri_side i = BUY \<longrightarrow> \<not> ro_protective_exit ev \<longrightarrow> minimum_quantity (ri_class i) \<le> rd_quantity d)"
proof -
  have qok: "qty_ok (ri_quantity i)" using assms(2,3) by (simp add: qty_ok_def)
  have entry: "0 \<le> rd_quantity d \<and> rd_quantity d \<le> ri_quantity i \<and> minimum_quantity (ri_class i) \<le> rd_quantity d"
    if "rd_approved d" "ri_side i = BUY" "\<not> ro_protective_exit ev"
  proof -
    from assms(1) that obtain s where s: "sn = Some s"
      by (auto simp: evaluate_risk_def denied_def Let_def split: if_splits option.splits)
    from evaluate_entry_cases [OF assms(1) [unfolded s] that] obtain q rs where
      se: "size_entry i s l ev = Inr (q, rs)" and q: "minimum_quantity (ri_class i) \<le> q" "rd_quantity d = max 0 q" by blast
    have "q \<le> ri_quantity i"
    proof (cases "0 < sn_total_equity s \<and> 0 < ri_price i")
      case True
      then have "0 < unit_notional i" using assms(4) by (simp add: unit_notional_def dmul_pos)
      with size_entry_bounds [OF se qok] True show ?thesis by blast
    qed (use se in \<open>auto simp: size_entry_def\<close>)
    with q assms(3) minimum_quantity_pos [of "ri_class i"] show ?thesis by (simp add: max_def)
  qed
  have side: "ri_side i = BUY \<or> ri_side i = SELL" by (cases "ri_side i") auto
  show ?thesis
  proof (cases "rd_approved d \<and> ri_side i = BUY \<and> \<not> ro_protective_exit ev")
    case True
    with entry show ?thesis by simp
  next
    case False
    with assms(1,3) side show ?thesis
      by (auto simp: evaluate_risk_def denied_def Let_def bindR_Inr_iff split: if_splits option.splits)
  qed
qed



text \<open>Exits are never sized down and need no portfolio snapshot: a protective sell is approved in
  full even under the kill switch, and any other sell is approved in full exactly when the
  kill switch is off and the position covers it.\<close>

theorem risk_sell_exact:
  assumes "ri_side i = SELL"
  shows "(ro_protective_exit ev \<longrightarrow>
      evaluate_risk i snapshot l ev = Inr \<lparr>rd_approved = True, rd_quantity = ri_quantity i, rd_reasons = [PROTECTIVE_EXIT]\<rparr>)
    \<and> (\<not> ro_protective_exit ev \<longrightarrow> (\<exists>d. evaluate_risk i snapshot l ev = Inr d
      \<and> (rd_approved d \<longleftrightarrow> \<not> ro_kill_switch ev \<and> ri_quantity i \<le> ro_held_quantity ev)
      \<and> rd_quantity d = (if rd_approved d then ri_quantity i else 0)))"
  using assms by (auto simp: evaluate_risk_def denied_def Let_def quote_reasons_def spread_reasons_def slippage_reasons_def
      drawdown_reasons_def cost_reasons_def split: option.splits)

lemma confidence_multiplier_range:
  assumes "0 < f" and "f \<le> 1" and "0 \<le> m" and "m \<le> 100" and "\<And>c. conf = Some c \<Longrightarrow> m \<le> c"
  shows "0 \<le> confidence_multiplier conf m f"
proof (cases "conf = None \<or> dsub 100 m \<le> 0 \<or> 100 \<le> the conf")
  case True
  then show ?thesis by (cases conf) (auto simp: confidence_multiplier_def Let_def)
next
  case False
  then obtain c where c: "conf = Some c" "0 < dsub 100 m" "c < 100" by auto
  have "0 \<le> dsub c m" using assms(5) [OF c(1)] by (simp add: dsub_def dctx.nonneg)
  then have "0 \<le> dquot (dsub c m) (dsub 100 m)" using c by (intro dquot_nonneg) auto
  moreover have "0 \<le> dsub 1 f" using assms by (simp add: dsub_def dctx.nonneg)
  ultimately have "0 \<le> dadd f (dmul (dsub 1 f) (dquot (dsub c m) (dsub 100 m)))"
    using assms by (intro dadd_nonneg dmul_nonneg) auto
  then show ?thesis using c by (simp add: confidence_multiplier_def Let_def)
qed

lemma quantize_pct: "0 \<le> x \<Longrightarrow> x < 1 \<Longrightarrow> \<exists>p. quantize_places 1 (dmul x 100) = Inr p"
proof -
  assume x: "0 \<le> x" "x < 1"
  have "0 \<le> dmul x 100" "dmul x 100 \<le> 100"
    using x by (auto simp: dmul_def intro: dctx.nonneg dctx.le_fixed)
  then have "0 \<le> half_even (dmul x 100 * 10 ^ 1)" "half_even (dmul x 100 * 10 ^ 1) \<le> 1000"
    by (auto intro!: half_even_ge_of_int half_even_le_of_int)
  then have "quantize_places 1 (dmul x 100) = Inr (of_int (half_even (dmul x 100 * 10 ^ 1)) / 10 ^ 1)"
    by (simp add: quantize_places_def Let_def)
  then show ?thesis by blast
qed

lemma scaled_budget_total:
  assumes cm: "0 \<le> confidence_multiplier (ri_confidence i) (rl_min_confidence l) (rl_min_position_size_multiplier l)"
    and reg: "\<And>r. ri_regime i = Some (Fin r) \<Longrightarrow> 0 \<le> r"
  shows "\<exists>r. scaled_budget i l equity rs = Inr r"
proof -
  have reg_step: "\<exists>r. (case ri_regime i of
            Some (Fin r) \<Rightarrow> if r < 1 then bindR (quantize_places 1 (dmul r 100)) (\<lambda>p. Inr (dmul b r, rs' @ [RISK_BUDGET_SCALED_BY_REGIME p]))
                            else Inr (b, rs')
          | _ \<Rightarrow> Inr (b, rs')) = Inr r" for b rs'
  proof (cases "\<exists>r. ri_regime i = Some (Fin r) \<and> r < 1")
    case True
    then obtain r where r: "ri_regime i = Some (Fin r)" "r < 1" by blast
    with quantize_pct [OF reg [OF r(1)] r(2)] show ?thesis by auto
  qed (auto split: option.splits xdec.splits)
  let ?cm = "confidence_multiplier (ri_confidence i) (rl_min_confidence l) (rl_min_position_size_multiplier l)"
  show ?thesis
  proof (cases "?cm < 1")
    case True
    with quantize_pct [OF cm True] reg_step show ?thesis by (auto simp: scaled_budget_def Let_def)
  qed (use reg_step in \<open>auto simp: scaled_budget_def Let_def\<close>)
qed

text \<open>With a constructed profile, a snapshot and a positive contract multiplier the decision is
  always returned, whatever the price, quote, confidence, regime or stop: nothing raises.\<close>

theorem risk_decision_total:
  assumes "limits_wf l" and "0 < ri_multiplier i"
  shows "\<exists>d. evaluate_risk i (Some sn) l ev = Inr d"
proof (cases "quote_reasons i l ev @ entry_reasons i sn l ev = []")
  case False
  then show ?thesis by (auto simp: evaluate_risk_def Let_def)
next
  case True
  then have er: "entry_reasons i sn l ev = []" by simp
  have conf: "\<And>c. ri_confidence i = Some c \<Longrightarrow> rl_min_confidence l \<le> c"
    using er by (auto simp: entry_reasons_def split: if_splits)
  have reg: "\<And>r. ri_regime i = Some (Fin r) \<Longrightarrow> 0 \<le> r"
    using er by (auto simp: entry_reasons_def regime_valid_def split: if_splits)
  have lim: "0 < rl_min_position_size_multiplier l" "rl_min_position_size_multiplier l \<le> 1" "rl_min_confidence l \<le> 100"
    using assms(1) by (auto simp: limits_wf_def)
  note cm = confidence_multiplier_range [OF lim(1,2) limits_wf_nonneg(3) [OF assms(1)] lim(3), of "ri_confidence i"]
  have "\<exists>r. size_by_risk i l ev (sn_total_equity sn) s = Inr r" for s
  proof -
    obtain b where "scaled_budget i l (sn_total_equity sn) (snd s) = Inr b"
      using scaled_budget_total [OF cm reg] conf by blast
    then show ?thesis by (auto simp: size_by_risk_def Let_def split: option.splits prod.splits)
  qed
  moreover have "\<exists>r. cap_position i l ev (sn_total_equity sn) s = Inr r" if "0 < ri_price i" for s
  proof -
    have "unit_notional i \<noteq> 0" using assms(2) that dmul_pos [of "ri_price i" "ri_multiplier i"] by (simp add: unit_notional_def)
    then show ?thesis by (simp add: cap_position_def Let_def ddiv_def)
  qed
  ultimately have "\<exists>r. size_entry i sn l ev = Inr r"
    unfolding size_entry_def by (metis bindR_simps(2))
  then show ?thesis by (auto simp: evaluate_risk_def Let_def split: prod.splits)
qed

subsection \<open>Witnesses\<close>

definition demo_limits :: risk_limits where
  "demo_limits = (default_limits ''demo'' 100 100 50 5 5 20 10 5 1 1 100 100 5)
     \<lparr>rl_max_open_risk_pct := 100, rl_max_entries_per_symbol_per_day := 2, rl_max_cost_to_risk_pct := 100\<rparr>"

definition demo_input :: "side \<Rightarrow> risk_check_input" where
  "demo_input sd = \<lparr>ri_symbol = ''X'', ri_class = EQUITY, ri_side = sd, ri_quantity = 30, ri_price = 100, ri_confidence = None,
     ri_stop_loss = Some 95, ri_sector = ''Tech'', ri_multiplier = 1, ri_regime = None\<rparr>"

definition demo_options :: "bool \<Rightarrow> bool \<Rightarrow> risk_eval_options" where
  "demo_options kill pe = \<lparr>ro_kill_switch = kill, ro_protective_exit = pe, ro_bid = None, ro_ask = None, ro_slippage_pct = None,
     ro_drawdown_breached = False, ro_skip_market_data = True, ro_held_quantity = 40, ro_held_notional = 0, ro_available_cash = None,
     ro_estimated_fees = 0, ro_open_risk = 0, ro_symbol_entries = 0, ro_holds_slot = False\<rparr>"

definition demo_snapshot :: portfolio_snapshot where
  "demo_snapshot = \<lparr>sn_id = ''s'', sn_as_of = 0, sn_total_equity = 2000, sn_cash_balance = 2000, sn_holdings_value = 0,
     sn_sector_exposure = [], sn_open_positions = 0, sn_outstanding_orders = 0, sn_trades_today = 0, sn_daily_pnl_pct = 0, sn_source = ''broker''\<rparr>"

lemma demo_limits_wf: "limits_wf demo_limits"
  by (simp add: limits_wf_def demo_limits_def default_limits_def nonnegative_limits_def)

lemmas demo_risk_defs = demo_limits_def default_limits_def demo_input_def demo_options_def demo_snapshot_def

lemma demo_reasons:
  "quote_reasons (demo_input BUY) demo_limits (demo_options False False) = []"
  "entry_reasons (demo_input BUY) demo_snapshot demo_limits (demo_options False False) = []"
  by (simp_all add: quote_reasons_def spread_reasons_def slippage_reasons_def drawdown_reasons_def cost_reasons_def entry_reasons_def
      Let_def demo_risk_defs dneg_def)

lemma demo_size: "size_entry (demo_input BUY) demo_snapshot demo_limits (demo_options False False) = Inr (20, [CAPPED_BY_MAX_POSITION_PCT 20])"
  by (simp add: size_entry_def size_by_risk_def scaled_budget_def confidence_multiplier_def shrink_to_def round_qty_def precision_of_def
      cap_position_def position_headroom_def cap_headroom_def sector_headroom_def sector_value_def cap_exposure_def exposure_headroom_def
      cap_cash_def unit_notional_def capped_at_def ddiv_def to_integral_floor_def Let_def demo_risk_defs dec_defs)

lemma demo_decision: "evaluate_risk (demo_input BUY) (Some demo_snapshot) demo_limits (demo_options False False)
    = Inr \<lparr>rd_approved = True, rd_quantity = 20, rd_reasons = [CAPPED_BY_MAX_POSITION_PCT 20]\<rparr>"
  by (simp add: evaluate_risk_def demo_reasons demo_size)
    (simp add: demo_risk_defs minimum_quantity_def unit_notional_def dec_defs)

lemma demo_input_sel: "ri_side (demo_input BUY) = BUY" "\<not> ro_protective_exit (demo_options False False)" "0 < ri_multiplier (demo_input BUY)"
  "ctx (ri_quantity (demo_input BUY)) = ri_quantity (demo_input BUY)" "0 \<le> ri_quantity (demo_input BUY)"
  "0 < sn_total_equity demo_snapshot" "0 < ri_price (demo_input BUY)" "ri_side (demo_input SELL) = SELL"
  by (simp_all add: demo_risk_defs)

theorem risk_approves_at_most_requested_witness: "(20 :: dec) \<le> ri_quantity (demo_input BUY)"
  using risk_approves_at_most_requested [OF demo_decision demo_input_sel(4,5,3)] by simp



theorem risk_sell_exact_witness:
  "evaluate_risk (demo_input SELL) None demo_limits (demo_options True True)
     = Inr \<lparr>rd_approved = True, rd_quantity = 30, rd_reasons = [PROTECTIVE_EXIT]\<rparr>"
  using risk_sell_exact [OF demo_input_sel(8), of "demo_options True True" None demo_limits] by (simp add: demo_risk_defs)

theorem risk_decision_total_witness:
  "\<exists>d. evaluate_risk (demo_input BUY) (Some demo_snapshot) demo_limits (demo_options True False) = Inr d"
  by (rule risk_decision_total [OF demo_limits_wf demo_input_sel(3)])

end
