(* ===== verification/Repository.thy ===== *)
theory Repository
  imports Portfolio "HOL-Library.List_Lexorder" "HOL-Library.Char_ord" "HOL-Library.Product_Lexorder" "HOL-Library.Multiset"
begin

text \<open>
  \<open>persistence/repositories.py\<close>: a record table as a list of rows, the operations of
  \<open>RecordRepository\<close> with their guards, and unbounded keyset pagination.

  Every write is one \<open>BEGIN IMMEDIATE\<close> transaction on the whole database
  (\<open>AsyncSQLiteDatabase.run(write=True)\<close>): a raise rolls back. A write is therefore a
  function from the table to a result and a new table, and an exception leaves the table
  as it was. The interface \<open>record_store\<close> is what settlement and the session rely on,
  \<open>keyset_source\<close> is what the pagination loop relies on.
\<close>

record 'p row =
  r_id :: string
  r_status :: "string option"
  r_unique :: "string option"
  r_payload :: 'p
  r_created :: time

type_synonym 'p tbl = "'p row list"

definition STATUS_TABLES :: "string list" where
  "STATUS_TABLES = [''trade_intents'', ''orders'', ''settlements'', ''trading_sessions'', ''scan_runs'', ''integrity_holds'',
                    ''accounting_epochs'', ''broker_activity_cursors'']"

definition UNIQUE_FIELDS :: "(string \<times> string) list" where
  "UNIQUE_FIELDS =
     [(''trade_intents'', ''idempotency_key''), (''orders'', ''idempotency_key''), (''fills'', ''broker_fill_id''),
      (''settlements'', ''fill_id''), (''position_lots'', ''originating_fill_id''), (''cash_ledger'', ''idempotency_key''),
      (''short_exposure_liabilities'', ''fill_id''), (''unmanaged_long_inventory'', ''cover_activity_id''),
      (''quarantine_resolutions'', ''resolution_key''), (''quarantine_fee_allocations'', ''allocation_key''),
      (''quarantine_fee_recognitions'', ''recognition_key''), (''legacy_lot_conversions'', ''lot_id''),
      (''fill_cursor_bootstrap'', ''account_ref'')]"

subsection \<open>Fences on a write\<close>

text \<open>
  A guard names the order whose integrity hold must be absent: \<open>None\<close> no guard at all,
  \<open>Some None\<close> a guard on a missing broker order ID, which matches no row.
\<close>

type_synonym guard = "string option option"

definition hold_message_prefix :: "string \<Rightarrow> string" where
  "hold_message_prefix status = (if status = ''fill_quantity_disputed'' then ''INTEGRITY_VIOLATION'' else ''VERIFICATION_PENDING'')"

definition check_integrity_hold :: "(string \<Rightarrow> string option) \<Rightarrow> guard \<Rightarrow> unit res" where
  "check_integrity_hold holds g =
     (case g of
        None \<Rightarrow> Inr ()
      | Some None \<Rightarrow> Inr ()
      | Some (Some k) \<Rightarrow> (case holds k of
           None \<Rightarrow> Inr ()
         | Some status \<Rightarrow> Inl (HoldError (hold_message_prefix status @ '': order-level integrity hold (''  @ status @ '') active for '' @ k))))"

text \<open>A lease row is its owner and expiry; the fence is checked at the time of the write.\<close>

definition check_lease :: "(string \<Rightarrow> (string \<times> time) option) \<Rightarrow> time \<Rightarrow> (string \<times> string) option \<Rightarrow> unit res" where
  "check_lease locks now lease =
     (case lease of
        None \<Rightarrow> Inr ()
      | Some (key, token) \<Rightarrow> (case locks key of
           None \<Rightarrow> Inl (LeaseLost key)
         | Some (owner, expires) \<Rightarrow> if owner \<noteq> token \<or> expires \<le> now then Inl (LeaseLost key) else Inr ()))"

definition check_precondition :: "string list option \<Rightarrow> unit res" where
  "check_precondition reasons = (case reasons of None \<Rightarrow> Inr () | Some [] \<Rightarrow> Inr () | Some rs \<Rightarrow> Inl (PreconditionFailed rs))"

subsection \<open>Operations on a table\<close>

fun get_row :: "'p tbl \<Rightarrow> string \<Rightarrow> 'p row option" where
  "get_row [] i = None"
| "get_row (r # rs) i = (if r_id r = i then Some r else get_row rs i)"

fun find_by_unique :: "'p tbl \<Rightarrow> string \<Rightarrow> 'p row option" where
  "find_by_unique [] u = None"
| "find_by_unique (r # rs) u = (if r_unique r = Some u then Some r else find_by_unique rs u)"

text \<open>\<open>INSERT OR IGNORE\<close>: a repeated primary key or unique value leaves the table as it is.\<close>

definition insert_or_ignore :: "'p row \<Rightarrow> 'p tbl \<Rightarrow> bool \<times> 'p tbl" where
  "insert_or_ignore r rows =
     (if get_row rows (r_id r) \<noteq> None \<or> (case r_unique r of None \<Rightarrow> False | Some u \<Rightarrow> find_by_unique rows u \<noteq> None)
      then (False, rows) else (True, rows @ [r]))"

definition create_once ::
  "string \<Rightarrow> (string \<Rightarrow> string option) \<Rightarrow> guard \<Rightarrow> 'p row \<Rightarrow> 'p tbl \<Rightarrow> (bool \<times> 'p tbl) res" where
  "create_once table holds g r rows =
     bindR (guardR (r_id r \<noteq> []) (ValueError ''record_id is required'')) (\<lambda>_.
     bindR (guardR (table \<in> set STATUS_TABLES \<longrightarrow> r_status r \<noteq> None \<and> r_status r \<noteq> Some []) (ValueError ''status is required'')) (\<lambda>_.
     bindR (guardR (map_of UNIQUE_FIELDS table \<noteq> None \<and> r_unique r = None \<longrightarrow> table = ''fills'')
              (ValueError ''unique_value is required'')) (\<lambda>_.
     bindR (check_integrity_hold holds g) (\<lambda>_.
       Inr (insert_or_ignore r rows)))))"

fun set_row :: "string \<Rightarrow> ('p row \<Rightarrow> 'p row) \<Rightarrow> 'p tbl \<Rightarrow> 'p tbl" where
  "set_row i f [] = []"
| "set_row i f (r # rs) = (if r_id r = i then f r # rs else r # set_row i f rs)"

definition update_row ::
  "string \<Rightarrow> (string \<Rightarrow> string option) \<Rightarrow> guard \<Rightarrow> (string \<Rightarrow> (string \<times> time) option) \<Rightarrow> time \<Rightarrow> (string \<times> string) option
   \<Rightarrow> string list option \<Rightarrow> string \<Rightarrow> 'p \<Rightarrow> string option \<Rightarrow> 'p tbl \<Rightarrow> (bool \<times> 'p tbl) res" where
  "update_row table holds g locks now lease pre i p status rows =
     bindR (if table \<in> set STATUS_TABLES then guardR (status \<noteq> None) (ValueError ''status is required'')
            else guardR (table = ''holdings'' \<or> table = ''position_lots'') (ValueError ''immutable repository cannot update'')) (\<lambda>_.
     bindR (check_lease locks now lease) (\<lambda>_.
     bindR (check_precondition pre) (\<lambda>_.
     bindR (check_integrity_hold holds g) (\<lambda>_.
       Inr (get_row rows i \<noteq> None,
            set_row i (\<lambda>r. if table \<in> set STATUS_TABLES then r\<lparr>r_payload := p, r_status := status\<rparr> else r\<lparr>r_payload := p\<rparr>) rows)))))"

fun remove_row :: "string \<Rightarrow> 'p tbl \<Rightarrow> 'p tbl" where
  "remove_row i [] = []"
| "remove_row i (r # rs) = (if r_id r = i then rs else r # remove_row i rs)"

definition delete_row ::
  "string \<Rightarrow> (string \<Rightarrow> string option) \<Rightarrow> guard \<Rightarrow> string \<Rightarrow> 'p tbl \<Rightarrow> (bool \<times> 'p tbl) res" where
  "delete_row table holds g i rows =
     bindR (guardR (table = ''holdings'' \<or> table = ''integrity_holds'') (ValueError ''delete is not permitted'')) (\<lambda>_.
     bindR (check_integrity_hold holds g) (\<lambda>_.
       Inr (get_row rows i \<noteq> None, remove_row i rows)))"

text \<open>
  \<open>claim_if_processable\<close> and \<open>mutate\<close>: read, decide and write in one transaction. The
  decision sees the row as it is inside the transaction, and may raise (a dataclass
  constructor that refuses the new value), which rolls the transaction back.
\<close>

definition claim_if_processable ::
  "string \<Rightarrow> ('p \<Rightarrow> string) \<Rightarrow> string \<Rightarrow> ('p \<Rightarrow> 'p option res) \<Rightarrow> 'p tbl \<Rightarrow> ('p option \<times> 'p tbl) res" where
  "claim_if_processable table status_of i decide rows =
     bindR (guardR (table \<in> set STATUS_TABLES) (ValueError ''claim_if_processable requires a status column'')) (\<lambda>_.
       (case get_row rows i of
          None \<Rightarrow> Inr (None, rows)
        | Some r \<Rightarrow> bindR (decide (r_payload r)) (\<lambda>v. case v of
            None \<Rightarrow> Inr (None, rows)
          | Some p \<Rightarrow> Inr (Some p, set_row i (\<lambda>r. r\<lparr>r_payload := p, r_status := Some (status_of p)\<rparr>) rows))))"

definition mutate ::
  "string \<Rightarrow> (string \<Rightarrow> string option) \<Rightarrow> guard \<Rightarrow> string \<Rightarrow> ('p \<Rightarrow> 'p option res) \<Rightarrow> 'p tbl \<Rightarrow> ('p option \<times> 'p tbl) res" where
  "mutate table holds g i decide rows =
     bindR (guardR (table = ''holdings'' \<or> table = ''position_lots'') (ValueError ''mutate requires an updatable table'')) (\<lambda>_.
     bindR (check_integrity_hold holds g) (\<lambda>_.
       (case get_row rows i of
          None \<Rightarrow> Inr (None, rows)
        | Some r \<Rightarrow> bindR (decide (r_payload r)) (\<lambda>v. case v of
            None \<Rightarrow> Inr (None, rows)
          | Some p \<Rightarrow> Inr (Some p, set_row i (\<lambda>r. r\<lparr>r_payload := p\<rparr>) rows)))))"

subsection \<open>The table invariant\<close>

definition tbl_ok :: "'p tbl \<Rightarrow> bool" where
  "tbl_ok rows \<longleftrightarrow> distinct (map r_id rows) \<and> distinct (filter (\<lambda>u. u \<noteq> None) (map r_unique rows))"

lemma get_row_None_iff: "get_row rows i = None \<longleftrightarrow> i \<notin> r_id ` set rows"
  by (induction rows) auto

lemma get_row_Some_in: "get_row rows i = Some r \<Longrightarrow> r \<in> set rows \<and> r_id r = i"
  by (induction rows) (auto split: if_splits)

lemma get_row_in: "distinct (map r_id rows) \<Longrightarrow> r \<in> set rows \<Longrightarrow> get_row rows (r_id r) = Some r"
  by (induction rows) (auto simp: image_iff)

lemma find_by_unique_None_iff: "find_by_unique rows u = None \<longleftrightarrow> (\<forall>r\<in>set rows. r_unique r \<noteq> Some u)"
  by (induction rows) auto

lemma find_by_unique_Some: "find_by_unique rows u = Some r \<Longrightarrow> r \<in> set rows \<and> r_unique r = Some u"
  by (induction rows) (auto split: if_splits)

lemma get_row_append [simp]: "get_row (rows @ [r]) i = (case get_row rows i of Some x \<Rightarrow> Some x | None \<Rightarrow> if r_id r = i then Some r else None)"
  by (induction rows) auto

lemma map_id_set_row:
  assumes "\<And>r. r_id (f r) = r_id r"
  shows "map r_id (set_row i f rows) = map r_id rows"
  by (induction rows) (auto simp: assms)

lemma get_set_row:
  assumes "\<And>r. r_id (f r) = r_id r"
  shows "get_row (set_row i f rows) j = (if i = j then map_option f (get_row rows j) else get_row rows j)"
  by (induction rows) (auto simp: assms)

lemma set_remove_row: "set (remove_row i rows) \<subseteq> set rows"
  by (induction rows) auto

lemma get_remove_row: "distinct (map r_id rows) \<Longrightarrow> get_row (remove_row i rows) j = (if i = j then None else get_row rows j)"
  by (induction rows) (auto simp: get_row_None_iff)

lemma distinct_remove_row: "distinct (map r_id rows) \<Longrightarrow> distinct (map r_id (remove_row i rows))"
proof (induction rows)
  case Nil
  then show ?case by simp
next
  case (Cons r rows)
  then show ?case using set_remove_row [of i rows] by auto
qed

lemma set_row_map: "distinct (map r_id rows) \<Longrightarrow> set_row i f rows = map (\<lambda>r. if r_id r = i then f r else r) rows"
proof (induction rows)
  case Nil
  then show ?case by simp
next
  case (Cons r rows)
  moreover have "map (\<lambda>r. if r_id r = i then f r else r) rows = rows" if "i \<notin> r_id ` set rows"
    using that by (induction rows) auto
  ultimately show ?case by auto
qed

lemma tbl_ok_insert: "tbl_ok rows \<Longrightarrow> tbl_ok (snd (insert_or_ignore r rows))"
  by (auto simp: tbl_ok_def insert_or_ignore_def get_row_None_iff find_by_unique_None_iff split: option.splits)

lemma tbl_ok_remove: "tbl_ok rows \<Longrightarrow> tbl_ok (remove_row i rows)"
proof (induction rows)
  case Nil
  then show ?case by simp
next
  case (Cons r rows)
  then have "tbl_ok rows" by (auto simp: tbl_ok_def split: if_splits)
  moreover have "set (remove_row i rows) \<subseteq> set rows" by (rule set_remove_row)
  ultimately show ?case using Cons by (auto simp: tbl_ok_def image_iff split: if_splits)
qed

lemma tbl_ok_set_row:
  assumes "tbl_ok rows" and f: "\<And>r. r_id (f r) = r_id r \<and> r_unique (f r) = r_unique r"
  shows "tbl_ok (set_row i f rows)"
proof -
  have "map r_id (set_row i f rows) = map r_id rows" "map r_unique (set_row i f rows) = map r_unique rows"
    by (induction rows) (auto simp: f)
  with assms(1) show ?thesis by (simp add: tbl_ok_def)
qed

subsection \<open>The interface of a record store\<close>

text \<open>
  What the callers rely on: a create is visible afterwards unless the identity is taken,
  never replaces a row, and a replacement touches exactly one row.
\<close>

locale record_store =
  fixes lookup :: "'t \<Rightarrow> string \<Rightarrow> 'r option"
    and insert_new :: "'r \<Rightarrow> 't \<Rightarrow> bool \<times> 't"
    and replace_at :: "string \<Rightarrow> ('r \<Rightarrow> 'r) \<Rightarrow> 't \<Rightarrow> 't"
    and ident :: "'r \<Rightarrow> string"
    and good :: "'t \<Rightarrow> bool"
  assumes insert_hit: "fst (insert_new r t) \<Longrightarrow> lookup (snd (insert_new r t)) i = (if i = ident r then Some r else lookup t i)"
    and insert_fresh: "fst (insert_new r t) \<Longrightarrow> lookup t (ident r) = None"
    and insert_miss: "\<not> fst (insert_new r t) \<Longrightarrow> snd (insert_new r t) = t"
    and insert_taken: "lookup t (ident r) \<noteq> None \<Longrightarrow> \<not> fst (insert_new r t)"
    and replace_lookup: "(\<And>r. ident (f r) = ident r) \<Longrightarrow>
           lookup (replace_at i f t) j = (if i = j then map_option f (lookup t j) else lookup t j)"
    and good_insert: "good t \<Longrightarrow> good (snd (insert_new r t))"
begin

lemma insert_keeps: "lookup t i = Some x \<Longrightarrow> lookup (snd (insert_new r t)) i = Some x"
  using insert_hit [of r t i] insert_fresh [of r t] insert_miss [of r t] by (cases "fst (insert_new r t)") auto

lemma insert_twice:
  assumes "ident r' = ident r" and "fst (insert_new r t)"
  shows "snd (insert_new r' (snd (insert_new r t))) = snd (insert_new r t)"
proof -
  have "lookup (snd (insert_new r t)) (ident r') \<noteq> None" using assms insert_hit by simp
  then show ?thesis using insert_taken insert_miss by blast
qed

lemma insert_all_keeps: "lookup t i = Some x \<Longrightarrow> lookup (fold (\<lambda>r t. snd (insert_new r t)) rs t) i = Some x"
  by (induction rs arbitrary: t) (auto simp: insert_keeps)

lemma insert_all_good: "good t \<Longrightarrow> good (fold (\<lambda>r t. snd (insert_new r t)) rs t)"
  by (induction rs arbitrary: t) (auto simp: good_insert)

end

lemma insert_or_ignore_hit: "fst (insert_or_ignore r rows) \<longleftrightarrow>
    get_row rows (r_id r) = None \<and> (\<forall>u. r_unique r = Some u \<longrightarrow> find_by_unique rows u = None)"
  by (auto simp: insert_or_ignore_def split: option.splits)

interpretation store: record_store get_row insert_or_ignore set_row r_id "tbl_ok :: 'p tbl \<Rightarrow> bool"
proof unfold_locales
  fix f :: "'p row \<Rightarrow> 'p row" and i j and t :: "'p tbl"
  assume "\<And>r. r_id (f r) = r_id r"
  then show "get_row (set_row i f t) j = (if i = j then map_option f (get_row t j) else get_row t j)"
    by (rule get_set_row)
next
  fix r :: "'p row" and t :: "'p tbl"
  assume "tbl_ok t"
  then show "tbl_ok (snd (insert_or_ignore r t))" by (rule tbl_ok_insert)
qed (auto simp: insert_or_ignore_hit insert_or_ignore_def split: option.splits if_splits)

subsection \<open>Keyset pagination\<close>

text \<open>
  A page read returns at most \<open>limit\<close> rows after the cursor, in \<open>(created_at, record_id)\<close>
  order. \<open>_paginate_all\<close> reads pages until one is short. The loop is a
  \<open>partial_function\<close>: \<open>None\<close> is a loop that does not return; a raise is \<open>Inl\<close>.
\<close>

type_synonym cursor = "time \<times> string"

definition row_key :: "'p row \<Rightarrow> cursor" where
  "row_key r = (r_created r, r_id r)"

definition list_page_where :: "('p row \<Rightarrow> bool) \<Rightarrow> 'p tbl \<Rightarrow> cursor option \<Rightarrow> nat \<Rightarrow> 'p row list res" where
  "list_page_where keep rows after limit =
     (if limit < 1 \<or> 1000 < limit then Inl (ValueError ''limit must be between 1 and 1000'')
      else Inr (take limit (sort_key row_key (filter (\<lambda>r. keep r \<and> (case after of None \<Rightarrow> True | Some c \<Rightarrow> c < row_key r)) rows))))"

definition list_by_statuses :: "string \<Rightarrow> string list \<Rightarrow> 'p tbl \<Rightarrow> cursor option \<Rightarrow> nat \<Rightarrow> 'p row list res" where
  "list_by_statuses table statuses rows after limit =
     (if table \<notin> set STATUS_TABLES then Inl (ValueError ''table has no status'')
      else if statuses = [] then Inl (ValueError ''statuses must not be empty'')
      else list_page_where (\<lambda>r. list_ex (\<lambda>s. r_status r = Some s) statuses) rows after limit)"

partial_function (option) paginate_all ::
  "(cursor option \<Rightarrow> nat \<Rightarrow> 'p row list res) \<Rightarrow> nat \<Rightarrow> 'p row list \<Rightarrow> cursor option \<Rightarrow> 'p row list res option" where
  "paginate_all fetch n results after =
     (case fetch after n of
        Inl e \<Rightarrow> Some (Inl e)
      | Inr batch \<Rightarrow>
          if batch = [] then Some (Inr results)
          else (let new_after = row_key (last batch)
                in if (case after of None \<Rightarrow> False | Some a \<Rightarrow> new_after \<le> a) then Some (Inl PaginationError)
                   else if length batch < n then Some (Inr (results @ batch))
                   else paginate_all fetch n (results @ batch) (Some new_after)))"

definition list_all_by_statuses :: "string \<Rightarrow> string list \<Rightarrow> 'p tbl \<Rightarrow> nat \<Rightarrow> 'p row list res option" where
  "list_all_by_statuses table statuses rows n = paginate_all (list_by_statuses table statuses rows) n [] None"

definition paginate_all_rows :: "'p tbl \<Rightarrow> nat \<Rightarrow> 'p row list res option" where
  "paginate_all_rows rows n = paginate_all (list_page_where (\<lambda>_. True) rows) n [] None"

text \<open>\<open>list_all_by_asset\<close>, \<open>list_all_by_json_field\<close>, \<open>list_all_by_json_time_range\<close>: a payload filter.\<close>

definition list_all_by_payload :: "('p \<Rightarrow> bool) \<Rightarrow> 'p tbl \<Rightarrow> nat \<Rightarrow> 'p row list res option" where
  "list_all_by_payload keep rows n = paginate_all (list_page_where (\<lambda>r. keep (r_payload r)) rows) n [] None"

text \<open>
  The law a page source must satisfy: on a good table, every page is the next \<open>limit\<close>
  rows of one strictly ordered sequence.
\<close>

locale keyset_source =
  fixes page :: "'t \<Rightarrow> cursor option \<Rightarrow> nat \<Rightarrow> 'p row list res"
    and every :: "'t \<Rightarrow> 'p row list"
    and good :: "'t \<Rightarrow> bool"
  assumes every_sorted: "good t \<Longrightarrow> sorted (map row_key (every t))"
    and every_distinct: "good t \<Longrightarrow> distinct (map row_key (every t))"
    and page_law: "good t \<Longrightarrow> 1 \<le> n \<Longrightarrow> n \<le> 1000 \<Longrightarrow>
           page t after n = Inr (take n (filter (\<lambda>r. case after of None \<Rightarrow> True | Some c \<Rightarrow> c < row_key r) (every t)))"
begin

lemma strict: "good t \<Longrightarrow> sorted_wrt (<) (map row_key (every t))"
  using every_sorted every_distinct by (simp add: strict_sorted_iff)

lemma filter_after:
  assumes "good t" and "every t = pre @ r # post"
  shows "filter (\<lambda>x. row_key r < row_key x) (every t) = post"
proof -
  have "\<forall>x\<in>set pre. row_key x < row_key r" "\<forall>x\<in>set post. row_key r < row_key x"
    using strict [OF assms(1)] by (auto simp: assms(2) sorted_wrt_append)
  then show ?thesis by (auto simp: assms(2) filter_empty_conv filter_id_conv dest: less_asym)
qed

text \<open>From a cursor inside the sequence, the loop appends exactly the rows after it.\<close>

lemma paginate_from:
  assumes "good t" "1 \<le> n" "n \<le> 1000"
    and "every t = pre @ post"
    and "after = (if pre = [] then None else Some (row_key (last pre)))"
  shows "paginate_all (page t) n results after = Some (Inr (results @ post))"
  using assms(4,5)
proof (induction "length post" arbitrary: pre post results after rule: less_induct)
  case less
  have rest: "filter (\<lambda>r. case after of None \<Rightarrow> True | Some c \<Rightarrow> c < row_key r) (every t) = post"
  proof (cases "pre = []")
    case True
    then show ?thesis using less.prems by simp
  next
    case False
    then have "every t = butlast pre @ last pre # post" using less.prems(1) by simp
    then show ?thesis using filter_after [OF assms(1)] less.prems(2) False by simp
  qed
  have batch: "page t after n = Inr (take n post)" using page_law [OF assms(1-3), of after] rest by simp
  show ?case
  proof (cases "post = []")
    case True
    then show ?thesis using batch by (simp add: paginate_all.simps)
  next
    case False
    define b where "b = take n post"
    have b: "b \<noteq> []" using False assms(2) by (simp add: b_def)
    have post: "post = b @ drop n post" by (simp add: b_def)
    have adv: "\<not> (case after of None \<Rightarrow> False | Some a \<Rightarrow> row_key (last b) \<le> a)"
    proof (cases "pre = []")
      case False
      have "last pre \<in> set pre" using False by simp
      moreover have "last b \<in> set post" using b post by (metis in_set_conv_decomp_last append_butlast_last_id append_assoc append_Cons)
      ultimately have "row_key (last pre) < row_key (last b)" using strict [OF assms(1)] less.prems(1) by (auto simp: sorted_wrt_append)
      then show ?thesis using less.prems(2) False by simp
    qed (simp add: less.prems(2))
    show ?thesis
    proof (cases "length b < n")
      case True
      then have "post = b" by (simp add: b_def)
      then show ?thesis using batch b adv True by (simp add: paginate_all.simps b_def [symmetric] Let_def)
    next
      case full: False
      have "paginate_all (page t) n (results @ b) (Some (row_key (last b))) = Some (Inr ((results @ b) @ drop n post))"
      proof (rule less.hyps)
        show "length (drop n post) < length post" using False assms(2) by simp
        show "every t = (pre @ b) @ drop n post" using less.prems(1) post by simp
      qed (use b in simp)
      then show ?thesis using batch b adv full post
        by (subst paginate_all.simps) (simp add: b_def [symmetric] Let_def)
    qed
  qed
qed

lemma paginate_complete:
  "good t \<Longrightarrow> 1 \<le> n \<Longrightarrow> n \<le> 1000 \<Longrightarrow> paginate_all (page t) n [] None = Some (Inr (every t))"
  using paginate_from [of t n "[]" "every t" None "[]"] by simp

end

interpretation pages: keyset_source "list_page_where keep" "\<lambda>rows. sort_key row_key (filter keep rows)"
    "\<lambda>rows :: 'p tbl. distinct (map r_id rows)" for keep
proof unfold_locales
  fix t :: "'p tbl"
  assume "distinct (map r_id t)"
  then have "distinct (map row_key t)" by (auto simp: distinct_map row_key_def inj_on_def)
  then show "distinct (map row_key (sort_key row_key (filter keep t)))"
    by (auto simp: distinct_map inj_on_def)
qed (auto simp: list_page_where_def filter_sort conj_commute split: option.splits)

lemmas list_all_where_complete = pages.paginate_complete

lemma list_all_by_statuses_complete:
  assumes "distinct (map r_id rows)" "1 \<le> n" "n \<le> 1000" "table \<in> set STATUS_TABLES" "statuses \<noteq> []"
  shows "list_all_by_statuses table statuses rows n =
     Some (Inr (sort_key row_key (filter (\<lambda>r. list_ex (\<lambda>s. r_status r = Some s) statuses) rows)))"
proof -
  have "list_by_statuses table statuses rows = list_page_where (\<lambda>r. list_ex (\<lambda>s. r_status r = Some s) statuses) rows"
    using assms(4,5) by (auto simp: list_by_statuses_def fun_eq_iff)
  then show ?thesis
    unfolding list_all_by_statuses_def using pages.paginate_complete [OF assms(1-3)] by metis
qed

subsection \<open>Properties\<close>

text \<open>C40: reading a whole table by keyset pages, whatever the page size from 1 to 1000, returns
  (it does not loop, and raises no pagination error) exactly the rows the filter keeps, each
  once, in \<open>(created_at, record_id)\<close> order.\<close>

theorem list_all_by_payload_complete:
  assumes "tbl_ok rows" and "1 \<le> n" and "n \<le> 1000"
  shows "\<exists>out. list_all_by_payload keep rows n = Some (Inr out) \<and> mset out = mset (filter (\<lambda>r. keep (r_payload r)) rows)
    \<and> sorted (map row_key out) \<and> distinct (map r_id out)"
proof -
  have d: "distinct (map r_id rows)" using assms(1) by (simp add: tbl_ok_def)
  let ?out = "sort_key row_key (filter (\<lambda>r. keep (r_payload r)) rows)"
  have "distinct (map r_id ?out)" using d by (auto simp: distinct_map inj_on_def)
  then show ?thesis
    unfolding list_all_by_payload_def list_all_where_complete [OF d assms(2,3)] by (intro exI [of _ ?out]) simp
qed

definition demo_row :: "string \<Rightarrow> time \<Rightarrow> nat row" where
  "demo_row i t = \<lparr>r_id = i, r_status = None, r_unique = None, r_payload = length i, r_created = t\<rparr>"

theorem list_all_by_payload_complete_witness:
  "\<exists>out. list_all_by_payload (\<lambda>n. n = 1) [demo_row ''b'' 5, demo_row ''xx'' 2, demo_row ''a'' 5] 1 = Some (Inr out)
    \<and> mset out = mset (filter (\<lambda>r. r_payload r = 1) [demo_row ''b'' 5, demo_row ''xx'' 2, demo_row ''a'' 5])
    \<and> sorted (map row_key out) \<and> distinct (map r_id out)"
  by (rule list_all_by_payload_complete) (simp_all add: tbl_ok_def demo_row_def)

text \<open>While an order is held, a guarded create, update, delete or mutate of any table raises
  and so leaves every table as it is; a guarded update also needs the caller's live lease.\<close>

theorem guarded_writes_fenced:
  assumes "holds k = Some status"
  shows "(\<exists>e. create_once table holds (Some (Some k)) r rows = Inl e)
    \<and> (\<exists>e. update_row table holds (Some (Some k)) locks now lease pre i p st rows = Inl e)
    \<and> (\<exists>e. delete_row table holds (Some (Some k)) i rows = Inl e)
    \<and> (\<exists>e. mutate table holds (Some (Some k)) i decide rows = Inl e)
    \<and> (update_row table holds' g locks now (Some (key, token)) pre i p st rows = Inr w \<longrightarrow> (\<exists>t. locks key = Some (token, t) \<and> now < t))"
proof -
  have h: "\<exists>e. check_integrity_hold holds (Some (Some k)) = Inl e"
    using assms by (simp add: check_integrity_hold_def)
  show ?thesis
  proof (intro conjI impI)
    show "\<exists>e. create_once table holds (Some (Some k)) r rows = Inl e"
      using h by (auto simp: create_once_def guardR_def)
    show "\<exists>e. update_row table holds (Some (Some k)) locks now lease pre i p st rows = Inl e"
      using h by (cases "check_lease locks now lease"; cases "check_precondition pre") (auto simp: update_row_def guardR_def)
    show "\<exists>e. delete_row table holds (Some (Some k)) i rows = Inl e"
      using h by (auto simp: delete_row_def guardR_def)
    show "\<exists>e. mutate table holds (Some (Some k)) i decide rows = Inl e"
      using h by (auto simp: mutate_def guardR_def)
  next
    assume "update_row table holds' g locks now (Some (key, token)) pre i p st rows = Inr w"
    then have "check_lease locks now (Some (key, token)) = Inr ()"
      by (auto simp: update_row_def bindR_Inr_iff split: if_splits)
    then show "\<exists>t. locks key = Some (token, t) \<and> now < t"
      by (auto simp: check_lease_def split: option.splits prod.splits if_splits)
  qed
qed

theorem guarded_writes_fenced_witness:
  "\<exists>e. update_row ''holdings'' [''o1'' \<mapsto> ''short_exposure''] (Some (Some ''o1'')) Map.empty 0 None None ''b'' 7 None [demo_row ''b'' 5] = Inl e"
proof -
  have "[''o1'' \<mapsto> ''short_exposure''] ''o1'' = Some ''short_exposure''" by simp
  then show ?thesis
    by (rule conjunct1 [OF conjunct2 [OF guarded_writes_fenced [where table = "''holdings''"]]])
qed

text \<open>A record created once is never replaced or lost by any later creates, which keep the
  identifiers and the unique values of the table distinct; creating it again changes nothing.\<close>

theorem create_once_idempotent:
  assumes "tbl_ok rows" and "create_once table holds g r rows = Inr (True, rows')"
  shows "get_row rows' (r_id r) = Some r \<and> tbl_ok rows'
    \<and> get_row (fold (\<lambda>q t. snd (insert_or_ignore q t)) qs rows') (r_id r) = Some r
    \<and> tbl_ok (fold (\<lambda>q t. snd (insert_or_ignore q t)) qs rows')
    \<and> (r_id q = r_id r \<longrightarrow> create_once table holds g' q rows' \<in> range Inl \<union> {Inr (False, rows')})"
proof -
  have ins: "insert_or_ignore r rows = (True, rows')"
    using assms(2) by (auto simp: create_once_def bindR_Inr_iff)
  have got: "get_row rows' (r_id r) = Some r" using store.insert_hit [of r rows "r_id r"] ins by simp
  have ok: "tbl_ok rows'" using store.good_insert [OF assms(1), of r] ins by simp
  have "insert_or_ignore q rows' = (False, rows')" if "r_id q = r_id r"
    using got that by (simp add: insert_or_ignore_def)
  then have "r_id q = r_id r \<longrightarrow> create_once table holds g' q rows' \<in> range Inl \<union> {Inr (False, rows')}"
    by (cases "create_once table holds g' q rows'") (auto simp: create_once_def bindR_Inr_iff)
  with got ok store.insert_all_keeps [OF got] store.insert_all_good [OF ok] show ?thesis by blast
qed

theorem create_once_idempotent_witness:
  "get_row (fold (\<lambda>q t. snd (insert_or_ignore q t)) [demo_row ''a'' 9, demo_row ''c'' 1] [demo_row ''b'' 5, demo_row ''a'' 5]) ''a''
     = Some (demo_row ''a'' 5)"
proof -
  have "create_once ''holdings'' Map.empty None (demo_row ''a'' 5) [demo_row ''b'' 5] = Inr (True, [demo_row ''b'' 5, demo_row ''a'' 5])"
    by code_simp
  moreover have "tbl_ok [demo_row ''b'' 5]" by (simp add: tbl_ok_def demo_row_def)
  ultimately show ?thesis
    using create_once_idempotent [of "[demo_row ''b'' 5]"] by (metis demo_row_def row.select_convs(1))
qed

end
