(* ===== verification/Quarantine.thy ===== *)
theory Quarantine
  imports Repository
begin

text \<open>
  Quarantined inventory: \<open>models/quarantine.py\<close> (liabilities, inventory, the executions that
  resolve them, resolutions, fee rows) and
  \<open>quarantine/__init__.py\<close> (open positions, adverse marks, the equity snapshot's blocks).
  A short liability is what an oversell left, unmanaged inventory what a cover bought in
  excess; each is valued at the mark that is adverse for it.
\<close>

datatype quarantine_kind = ShortLiability | UnmanagedLong

record short_exposure_liability =
  sl_id :: string
  sl_fill_id :: string
  sl_broker_order_id :: string
  sl_trade_intent_id :: string
  sl_asset :: asset_identity
  sl_quantity :: dec
  sl_sale_price :: dec
  sl_multiplier :: dec
  sl_proceeds :: dec
  sl_opened_at :: time

record unmanaged_inventory =
  ui_id :: string
  ui_cover_activity_id :: string
  ui_asset :: asset_identity
  ui_quantity :: dec
  ui_cost_price :: dec
  ui_multiplier :: dec
  ui_opened_at :: time

record quarantine_resolution =
  qs_record_id :: string
  qs_activity_id :: string
  qs_quantity :: dec
  qs_price :: dec
  qs_realized_pnl :: dec
  qs_resolved_at :: time

datatype execution_kind = LiabilityCover | UnmanagedSale

record quarantine_execution =
  qx_activity_id :: string
  qx_kind :: execution_kind
  qx_asset :: asset_identity
  qx_side :: side
  qx_quantity :: dec
  qx_price :: dec
  qx_executed_at :: time
  qx_digest :: string

datatype fee_pool = OpeningPool | CoverPool

record fee_allocation =
  fa_fee :: string
  fa_record :: string
  fa_pool :: fee_pool
  fa_amount :: dec

record fee_recognition =
  fr_record :: string
  fr_event :: string
  fr_pool :: fee_pool
  fr_amount :: dec
  fr_at :: time

text \<open>What is read back of an equity snapshot: its total and the marks of its two blocks.\<close>

record equity_row =
  eq_total :: dec
  eq_marks :: "(string \<times> dec) list"

text \<open>\<open>qt_orders\<close> are the rows of the legacy table \<open>orders\<close>, which nothing writes: id and broker order id.\<close>

record quarantine_tables =
  qt_inventory :: "unmanaged_inventory tbl"
  qt_resolutions :: "quarantine_resolution tbl"
  qt_allocations :: "fee_allocation tbl"
  qt_recognitions :: "fee_recognition tbl"
  qt_equity :: "equity_row tbl"
  qt_orders :: "(string \<times> string option) list"

definition no_quarantine :: quarantine_tables where
  "no_quarantine = \<lparr>qt_inventory = [], qt_resolutions = [], qt_allocations = [], qt_recognitions = [], qt_equity = [], qt_orders = []\<rparr>"

definition require_positive :: "dec \<Rightarrow> dec res" where
  "require_positive q = decimal_value (Fin q) True False"

definition liability_post_init :: "short_exposure_liability \<Rightarrow> short_exposure_liability res" where
  "liability_post_init s =
     bindR (require_text (Some (sl_id s))) (\<lambda>i.
     bindR (require_text (Some (sl_fill_id s))) (\<lambda>f.
     bindR (require_text (Some (sl_broker_order_id s))) (\<lambda>b.
     bindR (require_text (Some (sl_trade_intent_id s))) (\<lambda>t.
     bindR (require_positive (sl_quantity s)) (\<lambda>_.
     bindR (require_positive (sl_sale_price s)) (\<lambda>_.
     bindR (require_positive (sl_multiplier s)) (\<lambda>_.
     bindR (require_positive (sl_proceeds s)) (\<lambda>_.
     bindR (guardR (sl_proceeds s = dmul (dmul (sl_quantity s) (sl_sale_price s)) (sl_multiplier s))
              (ValueError ''proceeds must equal quantity x sale_price x multiplier'')) (\<lambda>_.
       Inr (s\<lparr>sl_id := i, sl_fill_id := f, sl_broker_order_id := b, sl_trade_intent_id := t\<rparr>))))))))))"

definition inventory_post_init :: "unmanaged_inventory \<Rightarrow> unmanaged_inventory res" where
  "inventory_post_init u =
     bindR (require_text (Some (ui_id u))) (\<lambda>i.
     bindR (require_text (Some (ui_cover_activity_id u))) (\<lambda>a.
     bindR (require_positive (ui_quantity u)) (\<lambda>_.
     bindR (require_positive (ui_cost_price u)) (\<lambda>_.
     bindR (require_positive (ui_multiplier u)) (\<lambda>_.
       Inr (u\<lparr>ui_id := i, ui_cover_activity_id := a\<rparr>))))))"

definition resolution_post_init :: "quarantine_resolution \<Rightarrow> quarantine_resolution res" where
  "resolution_post_init r =
     bindR (require_text (Some (qs_record_id r))) (\<lambda>i.
     bindR (require_text (Some (qs_activity_id r))) (\<lambda>a.
     bindR (require_positive (qs_quantity r)) (\<lambda>_.
     bindR (require_positive (qs_price r)) (\<lambda>_.
       Inr (r\<lparr>qs_record_id := i, qs_activity_id := a\<rparr>)))))"

record quarantined =
  qp_record_id :: string
  qp_kind :: quarantine_kind
  qp_key :: string
  qp_open :: dec
  qp_multiplier :: dec
  qp_reference :: dec
  qp_last_mark :: "dec option"
  qp_asset :: asset_identity
  qp_opened_at :: time

definition qp_sign :: "quarantined \<Rightarrow> dec" where
  "qp_sign p = (case qp_kind p of ShortLiability \<Rightarrow> -1 | UnmanagedLong \<Rightarrow> 1)"

definition qp_signed_quantity :: "quarantined \<Rightarrow> dec" where
  "qp_signed_quantity p = dmul (qp_sign p) (qp_open p)"

definition qp_marks :: "quarantined \<Rightarrow> dec \<Rightarrow> dec \<times> dec" where
  "qp_marks p current =
     (let last = (case qp_last_mark p of None \<Rightarrow> current | Some m \<Rightarrow> m) in (max last current, min last current))"

definition qp_exposure :: "quarantined \<Rightarrow> dec \<Rightarrow> dec" where
  "qp_exposure p current = dmul (dmul (qp_open p) (fst (qp_marks p current))) (qp_multiplier p)"

definition qp_equity_value :: "quarantined \<Rightarrow> dec \<Rightarrow> dec" where
  "qp_equity_value p current =
     (let (high, low) = qp_marks p current
      in dmul (if qp_sign p < 0 then dmul (dneg (qp_open p)) high else dmul (qp_open p) low) (qp_multiplier p))"

definition qp_unrealized_pnl :: "quarantined \<Rightarrow> dec \<Rightarrow> dec" where
  "qp_unrealized_pnl p current =
     (let move = (if qp_sign p < 0 then dsub (qp_reference p) current else dsub current (qp_reference p))
      in dmul (dmul (qp_open p) move) (qp_multiplier p))"

text \<open>\<open>d[k] = d.get(k, 0) + v\<close> on a dict of quantities.\<close>

definition dict_get :: "(string \<times> dec) list \<Rightarrow> string \<Rightarrow> dec" where
  "dict_get d k = (case map_of d k of None \<Rightarrow> 0 | Some v \<Rightarrow> v)"

definition dict_add :: "string \<Rightarrow> dec \<Rightarrow> (string \<times> dec) list \<Rightarrow> (string \<times> dec) list" where
  "dict_add k v d = AList.update k (dadd (dict_get d k) v) d"

lemma dict_get_add: "dict_get (dict_add k v d) j = (if j = k then dadd (dict_get d k) v else dict_get d j)"
  by (simp add: dict_get_def dict_add_def update_conv')

definition resolved_quantities :: "quarantine_resolution list \<Rightarrow> (string \<times> dec) list" where
  "resolved_quantities rs = foldl (\<lambda>d r. dict_add (qs_record_id r) (qs_quantity r) d) [] rs"

text \<open>
  The marks recorded by the latest equity snapshot, ordered by creation and identifier;
  each snapshot row carries the marks of its two blocks.
\<close>

definition last_confirmed_marks :: "(string \<times> dec) list tbl \<Rightarrow> (string \<times> dec) list" where
  "last_confirmed_marks rows = (if rows = [] then [] else r_payload (last (sort_key row_key rows)))"

text \<open>The rows of a table in pagination order.\<close>

definition rows_of :: "'p tbl \<Rightarrow> 'p list" where
  "rows_of t = map r_payload (sort_key row_key t)"

definition rows_where :: "('p row \<Rightarrow> bool) \<Rightarrow> 'p tbl \<Rightarrow> 'p row list" where
  "rows_where keep t = sort_key row_key (filter keep t)"

text \<open>\<open>paginate_all_rows\<close> reads exactly these rows.\<close>

lemma rows_of_paginated:
  assumes "distinct (map r_id t)" "1 \<le> n" "n \<le> 1000"
  shows "paginate_all_rows t n = Some (Inr (sort_key row_key t))"
  unfolding paginate_all_rows_def list_all_where_complete [OF assms] by simp

definition liability_position :: "(string \<times> dec) list \<Rightarrow> (string \<times> dec) list \<Rightarrow> short_exposure_liability \<Rightarrow> quarantined" where
  "liability_position resolved marks s =
     \<lparr>qp_record_id = sl_id s, qp_kind = ShortLiability, qp_key = asset_identity_key (sl_asset s),
      qp_open = dsub (sl_quantity s) (dict_get resolved (sl_id s)), qp_multiplier = sl_multiplier s,
      qp_reference = sl_sale_price s, qp_last_mark = map_of marks (sl_id s), qp_asset = sl_asset s, qp_opened_at = sl_opened_at s\<rparr>"

definition inventory_position :: "(string \<times> dec) list \<Rightarrow> (string \<times> dec) list \<Rightarrow> unmanaged_inventory \<Rightarrow> quarantined" where
  "inventory_position resolved marks u =
     \<lparr>qp_record_id = ui_id u, qp_kind = UnmanagedLong, qp_key = asset_identity_key (ui_asset u),
      qp_open = dsub (ui_quantity u) (dict_get resolved (ui_id u)), qp_multiplier = ui_multiplier u,
      qp_reference = ui_cost_price u, qp_last_mark = map_of marks (ui_id u), qp_asset = ui_asset u, qp_opened_at = ui_opened_at u\<rparr>"

definition quarantined_positions ::
  "quarantine_resolution tbl \<Rightarrow> (string \<times> dec) list tbl \<Rightarrow> short_exposure_liability tbl \<Rightarrow> unmanaged_inventory tbl
   \<Rightarrow> string option \<Rightarrow> quarantined list" where
  "quarantined_positions resolutions snapshots liabilities inventory asset_key =
     (let resolved = resolved_quantities (rows_of resolutions);
          marks = last_confirmed_marks snapshots;
          positions = map (liability_position resolved marks) (rows_of liabilities)
                    @ map (inventory_position resolved marks) (rows_of inventory);
          kept = filter (\<lambda>p. 0 < qp_open p \<and> (case asset_key of None \<Rightarrow> True | Some k \<Rightarrow> qp_key p = k)) positions
      in sort_key (\<lambda>p. (qp_opened_at p, qp_record_id p)) kept)"

definition signed_quantities :: "quarantined list \<Rightarrow> (string \<times> dec) list" where
  "signed_quantities ps = foldl (\<lambda>d p. dict_add (qp_key p) (qp_signed_quantity p) d) [] ps"

record snapshot_entry =
  se_record_id :: string
  se_kind :: quarantine_kind
  se_key :: string
  se_open :: dec
  se_mark :: dec
  se_equity :: dec
  se_exposure :: dec
  se_pnl :: dec

definition current_mark :: "(string \<Rightarrow> dec option) \<Rightarrow> quarantined \<Rightarrow> dec" where
  "current_mark marks p =
     (case marks (qp_key p) of Some m \<Rightarrow> m
      | None \<Rightarrow> (case qp_last_mark p of Some m \<Rightarrow> m | None \<Rightarrow> qp_reference p))"

definition snapshot_blocks :: "quarantined list \<Rightarrow> (string \<Rightarrow> dec option) \<Rightarrow> snapshot_entry list" where
  "snapshot_blocks ps marks =
     map (\<lambda>p. let c = current_mark marks p in
            \<lparr>se_record_id = qp_record_id p, se_kind = qp_kind p, se_key = qp_key p, se_open = qp_open p, se_mark = c,
             se_equity = qp_equity_value p c, se_exposure = qp_exposure p c, se_pnl = qp_unrealized_pnl p c\<rparr>) ps"

subsection \<open>Facts\<close>

lemma quarantined_positions_open: "p \<in> set (quarantined_positions rs ss ls us k) \<Longrightarrow> 0 < qp_open p"
  by (auto simp: quarantined_positions_def Let_def)

lemma qp_exposure_nonneg:
  assumes "0 \<le> qp_open p" and "0 \<le> qp_multiplier p" and "0 \<le> m"
  shows "0 \<le> qp_exposure p m"
  using assms unfolding qp_exposure_def qp_marks_def by (auto simp: Let_def max_def intro!: dmul_nonneg split: option.splits)

text \<open>quarantined inventory is valued against the account at both marks: its equity value is at
  most what it would be at the current mark or at the last confirmed one, and its exposure is
  at least the absolute value at either.\<close>

theorem quarantine_marks_adverse:
  assumes "0 \<le> qp_open p" and "0 \<le> qp_multiplier p" and "0 \<le> m" and "m = current \<or> qp_last_mark p = Some m"
  shows "qp_equity_value p current \<le> (if qp_kind p = ShortLiability then dmul (dmul (dneg (qp_open p)) m) (qp_multiplier p)
                                      else dmul (dmul (qp_open p) m) (qp_multiplier p))
    \<and> dmul (dmul (qp_open p) m) (qp_multiplier p) \<le> qp_exposure p current"
proof -
  have hi: "m \<le> fst (qp_marks p current)" and lo: "snd (qp_marks p current) \<le> m"
    using assms(4) by (auto simp: qp_marks_def Let_def split: option.splits)
  have up: "dmul (dmul (qp_open p) a) (qp_multiplier p) \<le> dmul (dmul (qp_open p) b) (qp_multiplier p)" if "a \<le> b" for a b
    unfolding dmul_def using assms(1,2) that by (intro ctx_mono mult_right_mono mult_left_mono) auto
  have down: "dmul (dmul (dneg (qp_open p)) b) (qp_multiplier p) \<le> dmul (dmul (dneg (qp_open p)) a) (qp_multiplier p)" if "a \<le> b" for a b
  proof -
    have "dneg (qp_open p) \<le> 0" using assms(1) by (simp add: dneg_def dctx.nonpos)
    then have "dneg (qp_open p) * b \<le> dneg (qp_open p) * a" using that by (rule mult_left_mono_neg [rotated])
    then show ?thesis unfolding dmul_def using assms(2) by (intro ctx_mono mult_right_mono) auto
  qed
  show ?thesis
    using up [OF hi] up [OF lo] down [OF hi]
    by (cases "qp_kind p") (auto simp: qp_equity_value_def qp_exposure_def qp_sign_def Let_def split: prod.splits)
qed

definition demo_quarantined :: quarantined where
  "demo_quarantined = \<lparr>qp_record_id = ''q1'', qp_kind = ShortLiability, qp_key = ''equity:default:alpaca:X'', qp_open = 3,
     qp_multiplier = 1, qp_reference = 10, qp_last_mark = Some 12, qp_asset = demo_asset EQUITY None ''X'', qp_opened_at = 0\<rparr>"

theorem quarantine_marks_adverse_witness:
  "qp_equity_value demo_quarantined 9 \<le> dmul (dmul (dneg 3) 9) 1 \<and> dmul (dmul 3 9) 1 \<le> qp_exposure demo_quarantined 9"
  using quarantine_marks_adverse [of demo_quarantined 9 9] by (simp add: demo_quarantined_def)

end
