(* ===== verification/Intents.thy ===== *)
theory Intents
  imports Portfolio
begin

text \<open>
  \<open>models/trade_intent.py\<close>: the order intent every order goes through, with its
  construction checks. The enum checks of the source are types here. \<open>ti_risk_snapshot\<close> is
  the metadata mapping stamped at approval; its \<open>entry_price\<close> is read back by the risk
  engine. The confidence is a float in the source, an exact number here.
\<close>

record trade_intent =
  ti_id :: string
  ti_idempotency_key :: string
  ti_correlation_id :: string
  ti_asset :: asset_identity
  ti_side :: side
  ti_mode :: execution_mode
  ti_strategy :: string
  ti_created_at :: time
  ti_requested_quantity :: "dec option"
  ti_requested_notional :: "dec option"
  ti_reference_price :: "dec option"
  ti_confidence :: "rat option"
  ti_risk_snapshot :: "string \<Rightarrow> meta_value option"
  ti_status :: intent_status
  ti_filled_quantity :: dec
  ti_filled_avg_price :: "dec option"
  ti_broker_order_id :: "string option"
  ti_client_order_id :: "string option"
  ti_reserved_cash :: "dec option"
  ti_consumed_cash :: "dec option"
  ti_realized_pnl :: "dec option"
  ti_rejection_reason :: "string option"
  ti_sector :: "string option"
  ti_stop_loss :: "dec option"
  ti_target_price :: "dec option"
  ti_order_type :: string
  ti_submitted_at :: "time option"

fun intent_status_value :: "intent_status \<Rightarrow> string" where
  "intent_status_value TI_PROPOSED = ''proposed''"
| "intent_status_value TI_RISK_APPROVED = ''risk_approved''"
| "intent_status_value TI_SUBMITTED = ''submitted''"
| "intent_status_value TI_ACCEPTED = ''accepted''"
| "intent_status_value TI_PARTIALLY_FILLED = ''partially_filled''"
| "intent_status_value TI_FILLED = ''filled''"
| "intent_status_value TI_REJECTED = ''rejected''"
| "intent_status_value TI_CANCELED = ''canceled''"
| "intent_status_value TI_EXPIRED = ''expired''"
| "intent_status_value TI_FAILED = ''failed''"
| "intent_status_value TI_SUBMISSION_UNKNOWN = ''submission_unknown''"

definition opt_nonneg :: "dec option \<Rightarrow> dec option res" where
  "opt_nonneg v = (case v of None \<Rightarrow> Inr None | Some q \<Rightarrow> bindR (decimal_value (Fin q) False True) (\<lambda>r. Inr (Some r)))"

lemma opt_nonneg_Inr_iff: "opt_nonneg v = Inr w \<longleftrightarrow> w = v \<and> (\<forall>q. v = Some q \<longrightarrow> 0 \<le> q)"
  by (auto simp: opt_nonneg_def bindR_Inr_iff decimal_value_Inr_iff split: option.splits)

definition intent_post_init :: "trade_intent \<Rightarrow> trade_intent res" where
  "intent_post_init t =
     bindR (require_text (Some (ti_id t))) (\<lambda>tid.
     bindR (require_text (Some (ti_idempotency_key t))) (\<lambda>ikey.
     bindR (require_text (Some (ti_correlation_id t))) (\<lambda>cid.
     bindR (require_text (Some (ti_strategy t))) (\<lambda>strat.
     bindR (require_text (Some (ti_order_type t))) (\<lambda>otype.
     bindR (guardR (ti_requested_quantity t \<noteq> None \<or> ti_requested_notional t \<noteq> None)
              (ValueError ''requested_quantity or requested_notional is required'')) (\<lambda>_.
     bindR (opt_positive (ti_requested_quantity t)) (\<lambda>_.
     bindR (opt_positive (ti_requested_notional t)) (\<lambda>_.
     bindR (opt_positive (ti_reference_price t)) (\<lambda>_.
     bindR (guardR (case ti_confidence t of None \<Rightarrow> True | Some c \<Rightarrow> 0 \<le> c \<and> c \<le> 100) (ValueError ''confidence must be between 0 and 100'')) (\<lambda>_.
     bindR (decimal_value (Fin (ti_filled_quantity t)) False True) (\<lambda>_.
     bindR (opt_positive (ti_filled_avg_price t)) (\<lambda>_.
     bindR (opt_nonneg (ti_reserved_cash t)) (\<lambda>_.
     bindR (opt_nonneg (ti_consumed_cash t)) (\<lambda>_.
     bindR (opt_positive (ti_stop_loss t)) (\<lambda>_.
     bindR (opt_positive (ti_target_price t)) (\<lambda>_.
       Inr (t\<lparr>ti_id := tid, ti_idempotency_key := ikey, ti_correlation_id := cid, ti_strategy := strat, ti_order_type := otype\<rparr>)))))))))))))))))"

definition intent_wf :: "trade_intent \<Rightarrow> bool" where
  "intent_wf t \<longleftrightarrow> (ti_requested_quantity t \<noteq> None \<or> ti_requested_notional t \<noteq> None)
     \<and> (\<forall>q. ti_requested_quantity t = Some q \<longrightarrow> 0 < q) \<and> (\<forall>q. ti_reference_price t = Some q \<longrightarrow> 0 < q)
     \<and> 0 \<le> ti_filled_quantity t \<and> (\<forall>q. ti_stop_loss t = Some q \<longrightarrow> 0 < q) \<and> (\<forall>q. ti_target_price t = Some q \<longrightarrow> 0 < q)"

lemma intent_post_init_wf: "intent_post_init t = Inr t' \<Longrightarrow> intent_wf t' \<and> ti_asset t' = ti_asset t \<and> ti_id t' \<noteq> []"
  by (auto simp: intent_post_init_def intent_wf_def res_iffs opt_positive_Inr_iff opt_nonneg_Inr_iff decimal_value_Inr_iff
      require_text_nonempty)

end
