(* ===== verification/Lots.thy ===== *)
theory Lots
  imports Portfolio
begin

text \<open>
  \<open>settlement/lots.py\<close>: planning a fill against an asset's lots. An opposite-direction
  fill closes open lots first-in first-out and opens a lot with what is left; what the
  same fill already did on an earlier, interrupted run is counted and not done again.
\<close>

record lot_closure =
  c_lot :: position_lot
  c_quantity :: dec
  c_pnl :: dec

record lot_plan =
  p_direction :: position_side
  p_closures :: "lot_closure list"
  p_opening :: dec
  p_realized :: dec

definition closure_pnl :: "position_side \<Rightarrow> dec \<Rightarrow> dec \<Rightarrow> dec \<Rightarrow> dec \<Rightarrow> dec" where
  "closure_pnl direction price acquisition qty multiplier =
     (if direction = Long then dmul (dmul (dsub price acquisition) qty) multiplier
      else dmul (dmul (dsub acquisition price) qty) multiplier)"

definition opening_direction :: "side \<Rightarrow> position_side" where
  "opening_direction s = (if s = BUY then Long else Short)"

definition closing_direction :: "side \<Rightarrow> position_side" where
  "closing_direction s = (if opening_direction s = Long then Short else Long)"

text \<open>What the fill has already closed: the quantity, and its realized profit.\<close>

fun already_closed :: "settlement_event \<Rightarrow> dec \<Rightarrow> dec \<Rightarrow> dec \<Rightarrow> position_lot list \<Rightarrow> dec \<times> dec" where
  "already_closed ev mult spent realized [] = (spent, realized)"
| "already_closed ev mult spent realized (l # ls) =
     (case map_of (l_closures l) (e_fill_id ev) of
        None \<Rightarrow> already_closed ev mult spent realized ls
      | Some q \<Rightarrow> already_closed ev mult (dadd spent q)
                    (dadd realized (closure_pnl (l_side l) (e_price ev) (l_acquisition_price l) q mult)) ls)"

definition already_opened :: "settlement_event \<Rightarrow> position_lot list \<Rightarrow> dec" where
  "already_opened ev ls =
     dsum (map l_opened_quantity
       (filter (\<lambda>l. l_originating_fill_id l = e_fill_id ev \<and> l_side l = opening_direction (e_side ev)) ls))"

text \<open>The closing loop over the sorted opposite lots: closures, remaining quantity, profit.\<close>

fun close_fifo :: "settlement_event \<Rightarrow> dec \<Rightarrow> dec \<Rightarrow> dec \<Rightarrow> position_lot list \<Rightarrow> lot_closure list \<times> dec \<times> dec" where
  "close_fifo ev mult remaining realized [] = ([], remaining, realized)"
| "close_fifo ev mult remaining realized (l # ls) =
     (if remaining \<le> 0 then ([], remaining, realized)
      else let q = min (l_remaining_quantity l) remaining
           in if q \<le> 0 then close_fifo ev mult remaining realized ls
              else let pnl = closure_pnl (closing_direction (e_side ev)) (e_price ev) (l_acquisition_price l) q mult;
                       (cs, r, p) = close_fifo ev mult (dsub remaining q) (dadd realized pnl) ls
                   in (\<lparr>c_lot = l, c_quantity = q, c_pnl = pnl\<rparr> # cs, r, p))"

definition opposite_lots :: "settlement_event \<Rightarrow> position_lot list \<Rightarrow> position_lot list" where
  "opposite_lots ev ls = sort_key l_opened_at (filter (\<lambda>l. l_side l = closing_direction (e_side ev) \<and> lot_is_open l) ls)"

definition plan_signed_lot_fill :: "position_lot list \<Rightarrow> settlement_event \<Rightarrow> lot_plan res" where
  "plan_signed_lot_fill lots ev =
     bindR (contract_multiplier_of (e_asset ev)) (\<lambda>multiplier.
       let (spent, realized) = already_closed ev multiplier 0 0 lots;
           opened = already_opened ev lots
       in if e_quantity ev < dadd spent opened
          then Inl (IntegrityViolation ''INTEGRITY_VIOLATION: FILL_EVENT_OVERALLOCATED'')
          else let (cs, remaining, realized') =
                     close_fifo ev multiplier (dsub (dsub (e_quantity ev) spent) opened) realized (opposite_lots ev lots)
               in Inr \<lparr>p_direction = opening_direction (e_side ev), p_closures = cs,
                       p_opening = (if 0 < remaining then remaining else 0), p_realized = realized'\<rparr>)"

subsection \<open>The closing loop\<close>

lemma close_fifo_stop: "rem \<le> 0 \<Longrightarrow> close_fifo ev mult rem pl ls = ([], rem, pl)"
  by (cases ls) simp_all

lemma close_fifo_skip:
  assumes "0 < rem" "\<not> lot_is_open l"
  shows "close_fifo ev mult rem pl (l # ls) = close_fifo ev mult rem pl ls"
proof -
  have "(min (l_remaining_quantity l) rem \<le> 0) = True" "(rem \<le> 0) = False"
    using assms by (simp_all add: lot_is_open_iff min_le_iff_disj)
  then show ?thesis by (simp only: close_fifo.simps Let_def if_True if_False)
qed

lemma close_fifo_take:
  assumes "0 < rem" "lot_is_open l" and "q = min (l_remaining_quantity l) rem"
    and "pnl = closure_pnl (closing_direction (e_side ev)) (e_price ev) (l_acquisition_price l) q mult"
  shows "close_fifo ev mult rem pl (l # ls) =
     (case close_fifo ev mult (dsub rem q) (dadd pl pnl) ls of
        (cs, r, p) \<Rightarrow> (\<lparr>c_lot = l, c_quantity = q, c_pnl = pnl\<rparr> # cs, r, p))"
proof -
  have "(q \<le> 0) = False" "(rem \<le> 0) = False" using assms(1-3) by (simp_all add: lot_is_open_iff)
  then show ?thesis by (simp only: close_fifo.simps assms(3,4) [symmetric] Let_def if_False)
qed

declare close_fifo.simps(2) [simp del]

text \<open>One case distinction for the loop: stop, skip a closed lot, or close some of the lot.\<close>

lemma close_fifo_cases:
  assumes "close_fifo ev mult rem pl (l # ls) = (cs, r, p)"
  obtains (stop) "rem \<le> 0" "cs = []" "r = rem"
  | (skip) "0 < rem" "\<not> lot_is_open l" "close_fifo ev mult rem pl ls = (cs, r, p)"
  | (take_some) q pnl cs' where "0 < rem" "lot_is_open l" "q = min (l_remaining_quantity l) rem" "0 < q"
      "cs = \<lparr>c_lot = l, c_quantity = q, c_pnl = pnl\<rparr> # cs'"
      "close_fifo ev mult (dsub rem q) (dadd pl pnl) ls = (cs', r, p)"
proof (cases "rem \<le> 0")
  case True
  then have "cs = []" "r = rem" using assms by (simp_all add: close_fifo_stop)
  with True show ?thesis by (rule stop)
next
  case pos: False
  show ?thesis
  proof (cases "lot_is_open l")
    case True
    define q where "q = min (l_remaining_quantity l) rem"
    define pnl where "pnl = closure_pnl (closing_direction (e_side ev)) (e_price ev) (l_acquisition_price l) q mult"
    obtain cs' r' p' where *: "close_fifo ev mult (dsub rem q) (dadd pl pnl) ls = (cs', r', p')"
      by (cases "close_fifo ev mult (dsub rem q) (dadd pl pnl) ls")
    have "0 < rem" using pos by simp
    from close_fifo_take [OF this True q_def pnl_def, of pl ls] assms *
    have c: "cs = \<lparr>c_lot = l, c_quantity = q, c_pnl = pnl\<rparr> # cs'" and "r' = r" "p' = p" by simp_all
    with * have **: "close_fifo ev mult (dsub rem q) (dadd pl pnl) ls = (cs', r, p)" by simp
    have "0 < q" using \<open>0 < rem\<close> True by (simp add: q_def lot_is_open_iff)
    then show ?thesis by (rule take_some [OF \<open>0 < rem\<close> True q_def _ c **])
  next
    case False
    from pos have "0 < rem" by simp
    moreover have "close_fifo ev mult rem pl ls = (cs, r, p)"
      using assms \<open>0 < rem\<close> False by (simp add: close_fifo_skip)
    ultimately show ?thesis using False by (intro skip)
  qed
qed

lemma close_fifo_lots:
  assumes "close_fifo ev mult rem pl ls = (cs, r, p)" and "c \<in> set cs"
  shows "c_lot c \<in> set ls \<and> lot_is_open (c_lot c) \<and> 0 < c_quantity c \<and> c_quantity c \<le> l_remaining_quantity (c_lot c)"
  using assms
proof (induction ls arbitrary: rem pl cs)
  case Nil
  then show ?case by simp
next
  case (Cons l ls)
  from Cons.prems(1) show ?case
    by (cases rule: close_fifo_cases) (use Cons in auto)
qed

lemma close_fifo_order:
  assumes "close_fifo ev mult rem pl ls = (cs, r, p)"
  shows "\<exists>n. map c_lot cs = take n (filter lot_is_open ls)"
  using assms
proof (induction ls arbitrary: rem pl cs)
  case Nil
  then show ?case by simp
next
  case (Cons l ls)
  from Cons.prems show ?case
  proof (cases rule: close_fifo_cases)
    case stop
    then show ?thesis by (intro exI [of _ 0]) simp
  next
    case skip
    then show ?thesis using Cons.IH by simp
  next
    case (take_some q pnl cs')
    then obtain n where "map c_lot cs' = take n (filter lot_is_open ls)" using Cons.IH by blast
    with take_some show ?thesis by (intro exI [of _ "Suc n"]) simp
  qed
qed

text \<open>
  On a grid nothing is lost: what is closed plus what remains is what there was to close,
  each lot but the last closed one is exhausted, and a remainder means every open lot was.
\<close>

lemma close_fifo_exact:
  assumes "close_fifo ev mult rem pl ls = (cs, r, p)" and "grid k rem" and "0 \<le> rem"
    and "\<forall>l\<in>set ls. grid k (l_remaining_quantity l)"
  shows "grid k r \<and> 0 \<le> r \<and> (\<Sum>c\<leftarrow>cs. c_quantity c) + r = rem
    \<and> (\<forall>c\<in>set (butlast cs). c_quantity c = l_remaining_quantity (c_lot c))
    \<and> (0 < r \<longrightarrow> (\<forall>c\<in>set cs. c_quantity c = l_remaining_quantity (c_lot c)) \<and> map c_lot cs = filter lot_is_open ls)"
  using assms
proof (induction ls arbitrary: rem pl cs)
  case Nil
  then show ?case by auto
next
  case (Cons l ls)
  from Cons.prems(1) show ?case
  proof (cases rule: close_fifo_cases)
    case stop
    then show ?thesis using Cons.prems by auto
  next
    case skip
    then show ?thesis using Cons.IH [OF skip(3) Cons.prems(2,3)] Cons.prems(4) by simp
  next
    case (take_some q pnl cs')
    have q: "grid k q" "0 \<le> q" "q \<le> rem" using Cons.prems take_some by (auto intro: grid_min)
    have sub: "dsub rem q = rem - q" by (rule dsub_grid [OF Cons.prems(2) q])
    have g: "grid k (dsub rem q)" "0 \<le> dsub rem q" unfolding sub using q Cons.prems(2) by (auto intro: grid_sub)
    have IH: "grid k r \<and> 0 \<le> r \<and> (\<Sum>c\<leftarrow>cs'. c_quantity c) + r = rem - q
        \<and> (\<forall>c\<in>set (butlast cs'). c_quantity c = l_remaining_quantity (c_lot c))
        \<and> (0 < r \<longrightarrow> (\<forall>c\<in>set cs'. c_quantity c = l_remaining_quantity (c_lot c)) \<and> map c_lot cs' = filter lot_is_open ls)"
      using Cons.IH [OF take_some(6) g] Cons.prems(4) unfolding sub by simp
    have full: "q = l_remaining_quantity l" if "cs' \<noteq> [] \<or> 0 < r"
    proof (rule ccontr)
      assume "q \<noteq> l_remaining_quantity l"
      then have "dsub rem q \<le> 0" using take_some(3) unfolding sub by (auto simp: min_def split: if_splits)
      with take_some(6) g(2) that show False by (auto simp: close_fifo_stop)
    qed
    with IH take_some show ?thesis by (auto split: if_splits)
  qed
qed

lemma close_fifo_grid:
  assumes "close_fifo ev mult rem pl ls = (cs, r, p)" and "grid k rem" and "0 \<le> rem"
    and "\<forall>l\<in>set ls. grid k (l_remaining_quantity l)"
  shows "\<forall>c\<in>set cs. grid k (c_quantity c)"
  using assms
proof (induction ls arbitrary: rem pl cs)
  case Nil
  then show ?case by auto
next
  case (Cons l ls)
  from Cons.prems(1) show ?case
  proof (cases rule: close_fifo_cases)
    case skip
    then show ?thesis using Cons.IH [OF skip(3) Cons.prems(2,3)] Cons.prems(4) by simp
  next
    case (take_some q pnl cs')
    have q: "grid k q" "0 \<le> q" "q \<le> rem" using Cons.prems take_some by (auto intro: grid_min)
    have "grid k (dsub rem q)" "0 \<le> dsub rem q"
      unfolding dsub_grid [OF Cons.prems(2) q] using q Cons.prems(2) by (auto intro: grid_sub)
    then show ?thesis using Cons.IH [OF take_some(6)] Cons.prems(4) take_some(5) q(1) by simp
  qed simp
qed

subsection \<open>The plan\<close>

text \<open>What the fill did on earlier runs, exactly.\<close>

definition fill_closures :: "settlement_event \<Rightarrow> position_lot list \<Rightarrow> dec list" where
  "fill_closures ev ls = List.map_filter (\<lambda>l. map_of (l_closures l) (e_fill_id ev)) ls"

definition fill_openings :: "settlement_event \<Rightarrow> position_lot list \<Rightarrow> dec list" where
  "fill_openings ev ls =
     map l_opened_quantity (filter (\<lambda>l. l_originating_fill_id l = e_fill_id ev \<and> l_side l = opening_direction (e_side ev)) ls)"

definition prior_quantity :: "settlement_event \<Rightarrow> position_lot list \<Rightarrow> dec" where
  "prior_quantity ev ls = sum_list (fill_closures ev ls) + sum_list (fill_openings ev ls)"

definition lots_on_grid :: "nat \<Rightarrow> settlement_event \<Rightarrow> position_lot list \<Rightarrow> bool" where
  "lots_on_grid k ev ls \<longleftrightarrow>
     (\<forall>l\<in>set ls. grid k (l_remaining_quantity l) \<and> grid k (l_opened_quantity l) \<and> 0 \<le> l_opened_quantity l
        \<and> (\<forall>q. map_of (l_closures l) (e_fill_id ev) = Some q \<longrightarrow> grid k q \<and> 0 \<le> q))"

lemma already_closed_fst: "fst (already_closed ev mult c pl ls) = dsum_from c (fill_closures ev ls)"
  by (induction ev mult c pl ls rule: already_closed.induct) (simp_all add: fill_closures_def map_filter_simps split: option.split)

lemma lots_on_grid_parts:
  assumes "lots_on_grid k ev ls"
  shows "\<forall>q\<in>set (fill_closures ev ls). grid k q \<and> 0 \<le> q"
    and "\<forall>q\<in>set (fill_openings ev ls). grid k q \<and> 0 \<le> q"
  using assms by (auto simp: lots_on_grid_def fill_closures_def fill_openings_def map_filter_def)

lemma prior_sums:
  assumes "lots_on_grid k ev ls" "grid k c" "prior_quantity ev ls \<le> c"
  shows "dsum (fill_closures ev ls) = sum_list (fill_closures ev ls)"
    and "already_opened ev ls = sum_list (fill_openings ev ls)"
    and "dadd (dsum (fill_closures ev ls)) (already_opened ev ls) = prior_quantity ev ls"
    and "grid k (sum_list (fill_closures ev ls))" "grid k (sum_list (fill_openings ev ls))"
    and "0 \<le> sum_list (fill_closures ev ls)" "0 \<le> sum_list (fill_openings ev ls)"
proof -
  note parts = lots_on_grid_parts [OF assms(1)]
  show nn: "0 \<le> sum_list (fill_closures ev ls)" "0 \<le> sum_list (fill_openings ev ls)"
    using parts by (auto intro: sum_list_nonneg)
  have le: "sum_list (fill_closures ev ls) \<le> c" "sum_list (fill_openings ev ls) \<le> c"
    using assms(3) nn by (auto simp: prior_quantity_def)
  show c: "dsum (fill_closures ev ls) = sum_list (fill_closures ev ls)" and g: "grid k (sum_list (fill_closures ev ls))"
    by (rule dsum_grid [OF parts(1) assms(2) le(1)])+
  show o: "already_opened ev ls = sum_list (fill_openings ev ls)"
    unfolding already_opened_def fill_openings_def [symmetric] by (rule dsum_grid [OF parts(2) assms(2) le(2)])
  show g': "grid k (sum_list (fill_openings ev ls))" by (rule dsum_grid [OF parts(2) assms(2) le(2)])
  show "dadd (dsum (fill_closures ev ls)) (already_opened ev ls) = prior_quantity ev ls"
    unfolding c o prior_quantity_def using assms(3) nn
    by (intro dadd_grid [OF g g' assms(2)]) (simp add: prior_quantity_def)
qed

lemma plan_unfold:
  assumes "contract_multiplier_of (e_asset ev) = Inr m"
  shows "plan_signed_lot_fill lots ev =
     (if e_quantity ev < dadd (dsum (fill_closures ev lots)) (already_opened ev lots)
      then Inl (IntegrityViolation ''INTEGRITY_VIOLATION: FILL_EVENT_OVERALLOCATED'')
      else let (cs, r, p) = close_fifo ev m (dsub (dsub (e_quantity ev) (dsum (fill_closures ev lots))) (already_opened ev lots))
                              (snd (already_closed ev m 0 0 lots)) (opposite_lots ev lots)
           in Inr \<lparr>p_direction = opening_direction (e_side ev), p_closures = cs, p_opening = (if 0 < r then r else 0), p_realized = p\<rparr>)"
  using already_closed_fst [of ev m 0 0 lots]
  by (cases "already_closed ev m 0 0 lots") (simp add: plan_signed_lot_fill_def assms dsum_def Let_def)

lemma plan_overallocated_iff:
  assumes "contract_multiplier_of (e_asset ev) = Inr m" "lots_on_grid k ev lots" "grid k c" "prior_quantity ev lots \<le> c"
  shows "(\<exists>e. plan_signed_lot_fill lots ev = Inl e) \<longleftrightarrow> e_quantity ev < prior_quantity ev lots"
  using prior_sums(3) [OF assms(2-4)] by (auto simp: plan_unfold [OF assms(1)] Let_def split: prod.splits)

text \<open>The shape of a plan over lots on one grid.\<close>

lemma plan_exact:
  assumes plan: "plan_signed_lot_fill lots ev = Inr p"
    and g: "lots_on_grid k ev lots" "grid k (e_quantity ev)" and c: "grid k c" "prior_quantity ev lots \<le> c"
  shows "prior_quantity ev lots + (\<Sum>x\<leftarrow>p_closures p. c_quantity x) + p_opening p = e_quantity ev"
    and "0 \<le> p_opening p"
    and "\<forall>x\<in>set (p_closures p). c_lot x \<in> set lots \<and> lot_is_open (c_lot x) \<and> l_side (c_lot x) = closing_direction (e_side ev)
           \<and> 0 < c_quantity x \<and> c_quantity x \<le> l_remaining_quantity (c_lot x)"
    and "\<exists>n. map c_lot (p_closures p) = take n (opposite_lots ev lots)"
    and "\<forall>x\<in>set (butlast (p_closures p)). c_quantity x = l_remaining_quantity (c_lot x)"
    and "0 < p_opening p \<Longrightarrow> map c_lot (p_closures p) = opposite_lots ev lots
           \<and> (\<forall>x\<in>set (p_closures p). c_quantity x = l_remaining_quantity (c_lot x))"
    and "(\<forall>x\<in>set (p_closures p). grid k (c_quantity x)) \<and> grid k (p_opening p)"
    and "p_direction p = opening_direction (e_side ev)"
proof -
  from plan obtain m where m: "contract_multiplier_of (e_asset ev) = Inr m"
    by (auto simp: plan_signed_lot_fill_def bindR_Inr_iff)
  note ps = prior_sums [OF g(1) c]
  let ?C = "sum_list (fill_closures ev lots)" let ?O = "sum_list (fill_openings ev lots)"
  let ?rem = "dsub (dsub (e_quantity ev) (dsum (fill_closures ev lots))) (already_opened ev lots)"
  have le: "?C + ?O \<le> e_quantity ev"
    using plan ps(3) unfolding plan_unfold [OF m] by (auto simp: prior_quantity_def split: if_splits)
  have d1: "dsub (e_quantity ev) ?C = e_quantity ev - ?C"
    using le ps(7) by (intro dsub_grid [OF g(2) ps(4) ps(6)]) linarith
  have g1: "grid k (e_quantity ev - ?C)"
    using le ps(7) by (intro grid_sub [OF g(2) ps(4) ps(6)]) linarith
  have d2: "dsub (e_quantity ev - ?C) ?O = e_quantity ev - ?C - ?O"
    using le by (intro dsub_grid [OF g1 ps(5) ps(7)]) linarith
  have g2: "grid k (e_quantity ev - ?C - ?O)"
    using le by (intro grid_sub [OF g1 ps(5) ps(7)]) linarith
  have rem: "?rem = e_quantity ev - prior_quantity ev lots" unfolding ps(1,2) d1 d2 by (simp add: prior_quantity_def)
  have rg: "grid k ?rem" "0 \<le> ?rem" using g2 le unfolding ps(1,2) d1 d2 by auto
  obtain cs r pl where cf: "close_fifo ev m ?rem (snd (already_closed ev m 0 0 lots)) (opposite_lots ev lots) = (cs, r, pl)"
    by (metis prod_cases3)
  have p: "p_closures p = cs" "p_opening p = (if 0 < r then r else 0)"
    using plan cf unfolding plan_unfold [OF m] by (auto split: if_splits)
  have og: "\<forall>l\<in>set (opposite_lots ev lots). grid k (l_remaining_quantity l)"
    using g(1) by (auto simp: opposite_lots_def lots_on_grid_def)
  have fo: "filter lot_is_open (opposite_lots ev lots) = opposite_lots ev lots"
    by (auto simp: opposite_lots_def filter_id_conv)
  note ex = close_fifo_exact [OF cf rg og, unfolded fo rem]
  show "prior_quantity ev lots + (\<Sum>x\<leftarrow>p_closures p. c_quantity x) + p_opening p = e_quantity ev"
    using ex unfolding p by auto
  show "0 \<le> p_opening p" unfolding p by simp
  show "\<forall>x\<in>set (p_closures p). c_lot x \<in> set lots \<and> lot_is_open (c_lot x) \<and> l_side (c_lot x) = closing_direction (e_side ev)
           \<and> 0 < c_quantity x \<and> c_quantity x \<le> l_remaining_quantity (c_lot x)"
    using close_fifo_lots [OF cf] unfolding p by (auto simp: opposite_lots_def)
  show "\<exists>n. map c_lot (p_closures p) = take n (opposite_lots ev lots)"
    using close_fifo_order [OF cf] unfolding p fo .
  show "\<forall>x\<in>set (butlast (p_closures p)). c_quantity x = l_remaining_quantity (c_lot x)"
    using ex unfolding p by blast
  show "map c_lot (p_closures p) = opposite_lots ev lots
           \<and> (\<forall>x\<in>set (p_closures p). c_quantity x = l_remaining_quantity (c_lot x))" if "0 < p_opening p"
    using ex that unfolding p by (auto split: if_splits)
  show "(\<forall>x\<in>set (p_closures p). grid k (c_quantity x)) \<and> grid k (p_opening p)"
    using close_fifo_grid [OF cf rg og] ex unfolding p by (auto simp: grid_def)
  show "p_direction p = opening_direction (e_side ev)"
    using plan cf unfolding plan_unfold [OF m] by (auto split: if_splits)
qed

text \<open>A fill already allocated whole is planned as nothing.\<close>

lemma plan_replay:
  assumes m: "contract_multiplier_of (e_asset ev) = Inr m"
    and g: "lots_on_grid k ev lots" "grid k (e_quantity ev)" and whole: "prior_quantity ev lots = e_quantity ev"
  shows "plan_signed_lot_fill lots ev =
     Inr \<lparr>p_direction = opening_direction (e_side ev), p_closures = [], p_opening = 0,
          p_realized = snd (already_closed ev m 0 0 lots)\<rparr>"
proof -
  have le: "prior_quantity ev lots \<le> e_quantity ev" using whole by simp
  note ps = prior_sums [OF g(1) g(2) le]
  have "dsub (e_quantity ev) (sum_list (fill_closures ev lots)) = sum_list (fill_openings ev lots)"
    using ps(6,7) whole by (subst dsub_grid [OF g(2) ps(4) ps(6)]) (auto simp: prior_quantity_def)
  then have "dsub (dsub (e_quantity ev) (dsum (fill_closures ev lots))) (already_opened ev lots) = 0"
    unfolding ps(1,2) by (simp add: dsub_def)
  then show ?thesis
    using ps(3) whole by (simp add: plan_unfold [OF m] close_fifo_stop)
qed

subsection \<open>Properties\<close>

text \<open>C39: a plan over lots whose quantities share a decimal grid conserves the fill exactly: what
  the fill did before, what the plan closes and what it opens add up to the fill's quantity;
  it closes open lots of the opposite direction only, oldest first and each one fully before
  the next, never more than a lot holds, and opens only once every one of them is exhausted.\<close>

theorem plan_fifo_conservation:
  assumes "plan_signed_lot_fill lots ev = Inr p" and "lots_on_grid k ev lots" and "grid k (e_quantity ev)"
    and "prior_quantity ev lots \<le> c" and "grid k c"
  shows "prior_quantity ev lots + (\<Sum>x\<leftarrow>p_closures p. c_quantity x) + p_opening p = e_quantity ev
    \<and> (\<exists>n. map c_lot (p_closures p) = take n (opposite_lots ev lots))
    \<and> (\<forall>x\<in>set (p_closures p). 0 < c_quantity x \<and> c_quantity x \<le> l_remaining_quantity (c_lot x)
          \<and> l_side (c_lot x) = closing_direction (e_side ev))
    \<and> (\<forall>x\<in>set (butlast (p_closures p)). c_quantity x = l_remaining_quantity (c_lot x))
    \<and> 0 \<le> p_opening p
    \<and> (0 < p_opening p \<longrightarrow> map c_lot (p_closures p) = opposite_lots ev lots)"
  using plan_exact [OF assms(1,2,3,5,4)] by blast

text \<open>a fill is refused exactly when the lots already carry more of it than its quantity, and a
  fill already carried whole is planned again as no closure and no opening.\<close>

theorem plan_overallocation_and_replay:
  assumes "contract_multiplier_of (e_asset ev) = Inr m" and "lots_on_grid k ev lots" and "grid k (e_quantity ev)"
    and "prior_quantity ev lots \<le> c" and "grid k c"
  shows "(plan_signed_lot_fill lots ev \<in> range Inl \<longleftrightarrow> e_quantity ev < prior_quantity ev lots)
    \<and> (prior_quantity ev lots = e_quantity ev \<longrightarrow>
         (\<exists>p. plan_signed_lot_fill lots ev = Inr p \<and> p_closures p = [] \<and> p_opening p = 0))"
  using plan_overallocated_iff [OF assms(1,2,5,4)] plan_replay [OF assms(1,2,3)] by auto

definition demo_lot :: "string \<Rightarrow> dec \<Rightarrow> time \<Rightarrow> position_lot" where
  "demo_lot i q t = \<lparr>l_lot_id = i, l_originating_fill_id = ''f:'' @ i, l_asset = demo_asset EQUITY None ''X'', l_side = Long,
     l_opened_quantity = q, l_remaining_quantity = q, l_acquisition_price = 10, l_opened_at = t, l_closures = [],
     l_realized_pnl = 0, l_mfe_price = None, l_mae_price = None, l_asset_fees = []\<rparr>"

definition demo_event :: "side \<Rightarrow> dec \<Rightarrow> settlement_event" where
  "demo_event sd q = \<lparr>e_id = ''s1'', e_fill_id = ''f1'', e_trade_intent_id = ''t1'', e_asset = demo_asset EQUITY None ''X'', e_side = sd,
     e_mode = PAPER, e_quantity = q, e_price = 12, e_occurred_at = 100, e_status = PENDING, e_fees = 0, e_sector = None,
     e_broker_order_id = Some ''b1'', e_broker_fill_id = Some ''x1'', e_client_order_id = None, e_flags = (\<lambda>_. False), e_realized_pnl = None, e_attempt_count = 0,
     e_error = None, e_next_retry_at = None, e_processing_owner = None, e_processing_started_at = None\<rparr>"

lemma demo_multiplier: "contract_multiplier_of (e_asset (demo_event sd q)) = Inr 1"
  by (simp add: demo_event_def demo_asset_def contract_multiplier_of_def)

lemma demo_grid: "grid 0 3" "grid 0 4" "grid 0 5" "grid 0 8" "grid 0 0"
  by (simp_all add: grid_def)

lemma demo_prior: "fill_closures (demo_event SELL q) [demo_lot ''B'' 5 20, demo_lot ''A'' 3 10] = []"
  "fill_openings (demo_event SELL q) [demo_lot ''B'' 5 20, demo_lot ''A'' 3 10] = []"
  by (simp_all add: fill_closures_def fill_openings_def demo_lot_def demo_event_def map_filter_simps)

lemma demo_lot_sel [simp]: "l_remaining_quantity (demo_lot i q t) = q" "l_opened_quantity (demo_lot i q t) = q" "l_closures (demo_lot i q t) = []"
  by (simp_all add: demo_lot_def)

lemma demo_lots_grid: "lots_on_grid 0 (demo_event SELL q) [demo_lot ''B'' 5 20, demo_lot ''A'' 3 10]"
  "prior_quantity (demo_event SELL q) [demo_lot ''B'' 5 20, demo_lot ''A'' 3 10] = 0"
  using demo_grid(1,3) unfolding lots_on_grid_def prior_quantity_def demo_prior by simp_all

lemma demo_plan:
  "plan_signed_lot_fill [demo_lot ''B'' 5 20, demo_lot ''A'' 3 10] (demo_event SELL 4) =
    Inr \<lparr>p_direction = Short, p_closures = [\<lparr>c_lot = demo_lot ''A'' 3 10, c_quantity = 3, c_pnl = 6\<rparr>,
      \<lparr>c_lot = demo_lot ''B'' 5 20, c_quantity = 1, c_pnl = 2\<rparr>], p_opening = 0, p_realized = 8\<rparr>"
  by (simp add: plan_unfold [OF demo_multiplier] demo_prior already_opened_def fill_openings_def [symmetric])
    (simp add: opposite_lots_def closing_direction_def opening_direction_def demo_lot_def demo_event_def lot_is_open_def
      lot_status_of_def close_fifo.simps closure_pnl_def dmul_def dsub_def dadd_def dsum_def)

lemma demo_event_sel: "e_quantity (demo_event SELL 4) = 4" "grid 0 (e_quantity (demo_event SELL 4))"
  by (simp_all add: demo_event_def demo_grid)

theorem plan_fifo_conservation_witness:
  "prior_quantity (demo_event SELL 4) [demo_lot ''B'' 5 20, demo_lot ''A'' 3 10] + (3 + 1) + 0 = (4 :: dec)
   \<and> (\<exists>n. [demo_lot ''A'' 3 10, demo_lot ''B'' 5 20] = take n (opposite_lots (demo_event SELL 4) [demo_lot ''B'' 5 20, demo_lot ''A'' 3 10]))"
  using plan_fifo_conservation [OF demo_plan demo_lots_grid(1) demo_event_sel(2) eq_refl [OF demo_lots_grid(2)] demo_grid(5)]
  by (simp add: demo_event_sel(1))

theorem plan_overallocation_and_replay_witness:
  "\<not> (plan_signed_lot_fill [demo_lot ''B'' 5 20, demo_lot ''A'' 3 10] (demo_event SELL 4) \<in> range Inl)"
  using plan_overallocation_and_replay [OF demo_multiplier demo_lots_grid(1) demo_event_sel(2) eq_refl [OF demo_lots_grid(2)] demo_grid(5)]
  by (simp add: demo_lots_grid(2) demo_event_sel(1))

end
