(* ===== verification/Portfolio_View.thy ===== *)
theory Portfolio_View
  imports Risk Quarantine Intents Lots
begin

text \<open>
  \<open>risk/engine.py\<close>, the portfolio figures: unmanaged excess, open risk, entries per symbol,
  pending remainders and \<open>build_portfolio_view\<close>. The tables are repository tables, read in
  pagination order. The risk day's bounds come from the time-zone library and are
  arguments, as are the keys with a pending accounting epoch.
\<close>

record broker_position =
  bp_qty :: dec
  bp_market_value :: dec

record books =
  bk_holdings :: "holding tbl"
  bk_intents :: "trade_intent tbl"
  bk_settlements :: "settlement_event tbl"
  bk_fills :: "fill tbl"
  bk_pnl :: "pnl_record tbl"

definition PENDING_STATUSES :: "string list" where
  "PENDING_STATUSES = [''risk_approved'', ''submitted'', ''accepted'', ''partially_filled'', ''submission_unknown'']"

definition UNSETTLED_STATUSES :: "string list" where
  "UNSETTLED_STATUSES = [''pending'', ''processing'', ''retryable_failed'', ''terminal_failed'', ''integrity_blocked'']"

definition with_status :: "string list \<Rightarrow> 'p tbl \<Rightarrow> 'p row list" where
  "with_status statuses t = rows_where (\<lambda>r. list_ex (\<lambda>s. r_status r = Some s) statuses) t"

definition unmanaged_excess :: "broker_position \<Rightarrow> dec \<Rightarrow> dec" where
  "unmanaged_excess p local_quantity =
     (let broker_quantity = dabs (bp_qty p); excess = dsub broker_quantity local_quantity
      in if broker_quantity = 0 \<or> excess \<le> 0 then 0
         else dmul (dquot (dabs (bp_market_value p)) broker_quantity) excess)"

definition effective_stop :: "holding \<Rightarrow> dec" where
  "effective_stop h = (case h_current_stop h of Some s \<Rightarrow> s | None \<Rightarrow> (case h_stop_loss h of Some s \<Rightarrow> s | None \<Rightarrow> 0))"

definition holding_risk :: "holding \<Rightarrow> dec res" where
  "holding_risk h =
     bindR (contract_multiplier_of (h_asset h)) (\<lambda>m.
       Inr (dmul (dmul (max (dsub (h_average_price h) (effective_stop h)) 0) (h_quantity h)) m))"

definition pending_buy_risk :: "trade_intent \<Rightarrow> dec res" where
  "pending_buy_risk t =
     (case (ti_stop_loss t, ti_risk_snapshot t ''entry_price'', ti_requested_quantity t) of
        (Some stop, Some entry, Some q) \<Rightarrow>
          if ti_side t \<noteq> BUY then Inr 0
          else (let unfilled = dsub q (ti_filled_quantity t)
                in bindR (case entry of MNum e \<Rightarrow> Inr e | _ \<Rightarrow> Inl InvalidOperation) (\<lambda>e.
                   bindR (contract_multiplier_of (ti_asset t)) (\<lambda>m.
                     Inr (dmul (dmul (max (dsub e stop) 0) (max unfilled 0)) m))))
      | _ \<Rightarrow> Inr 0)"

definition open_portfolio_risk :: "books \<Rightarrow> (string \<times> broker_position) list \<Rightarrow> dec res" where
  "open_portfolio_risk bk broker_positions =
     bindR (foldR (\<lambda>total h. if h_quantity h \<le> 0 then Inr total
                              else bindR (holding_risk h) (\<lambda>r. Inr (dadd total r)))
              0 (rows_of (bk_holdings bk))) (\<lambda>t1.
     bindR (foldR (\<lambda>total t. bindR (pending_buy_risk t) (\<lambda>r. Inr (dadd total r)))
              t1 (map r_payload (with_status PENDING_STATUSES (bk_intents bk)))) (\<lambda>t2.
       let held = fold (\<lambda>h. AList.update (asset_identity_key (h_asset h)) (dabs (h_quantity h))) (rows_of (bk_holdings bk)) []
       in Inr (foldl (\<lambda>total (k, p). dadd total (unmanaged_excess p (dict_get held k))) t2 broker_positions)))"

definition in_day :: "time \<times> time \<Rightarrow> time \<Rightarrow> bool" where
  "in_day day t = (fst day \<le> t \<and> t < snd day)"

definition fills_in_day :: "books \<Rightarrow> time \<times> time \<Rightarrow> fill list" where
  "fills_in_day bk day = map r_payload (rows_where (\<lambda>r. in_day day (f_filled_at (r_payload r))) (bk_fills bk))"

definition pending_rows :: "books \<Rightarrow> trade_intent row list" where
  "pending_rows bk = with_status PENDING_STATUSES (bk_intents bk)"

definition pending_intents :: "books \<Rightarrow> trade_intent list" where
  "pending_intents bk = map r_payload (pending_rows bk)"

definition symbol_entries_today :: "books \<Rightarrow> asset_identity \<Rightarrow> time \<times> time \<Rightarrow> string option \<Rightarrow> nat" where
  "symbol_entries_today bk asset day exclude =
     (let key = asset_identity_key asset;
          filled = map f_trade_intent_id (filter (\<lambda>f. f_side f = BUY \<and> asset_identity_key (f_asset f) = key) (fills_in_day bk day));
          pending = map ti_id (filter (\<lambda>t. ti_side t = BUY \<and> asset_identity_key (ti_asset t) = key) (pending_intents bk))
      in length (filter (\<lambda>i. exclude \<noteq> Some i) (remdups (filled @ pending))))"

record intent_remainder =
  rm_intent :: trade_intent
  rm_requested :: dec
  rm_remaining :: dec
  rm_unsettled :: "settlement_event list"
  rm_row_status :: "string option"

definition holding_projected :: "settlement_event \<Rightarrow> bool" where
  "holding_projected e = e_flags e HoldingStage"

definition events_of_intent :: "books \<Rightarrow> string \<Rightarrow> settlement_event list" where
  "events_of_intent bk tid = map r_payload (rows_where (\<lambda>r. e_trade_intent_id (r_payload r) = tid) (bk_settlements bk))"

definition intent_remainder_of :: "books \<Rightarrow> trade_intent row \<Rightarrow> intent_remainder res" where
  "intent_remainder_of bk row =
     (let t = r_payload row in
      case ti_requested_quantity t of
        None \<Rightarrow> Inl (ValueError (''PENDING_INTENT_QUANTITY_MISSING: '' @ ti_id t))
      | Some q \<Rightarrow>
          let events = events_of_intent bk (ti_id t)
          in Inr \<lparr>rm_intent = t, rm_requested = q, rm_remaining = dsub q (dsum (map e_quantity events)),
                  rm_unsettled = filter (\<lambda>e. \<not> holding_projected e) events, rm_row_status = r_status row\<rparr>)"

definition pending_intent_remainders :: "books \<Rightarrow> intent_remainder list res" where
  "pending_intent_remainders bk =
     foldR (\<lambda>rs t. bindR (intent_remainder_of bk t) (\<lambda>r. Inr (rs @ [r]))) [] (pending_rows bk)"

subsection \<open>The view\<close>

text \<open>The running totals: exposure, exposure per sector, quantity already valued per instrument.\<close>

record exposure_acc =
  ac_value :: dec
  ac_sectors :: "(string \<times> dec) list"
  ac_local :: "(string \<times> dec) list"

definition sector_or_other :: "string option \<Rightarrow> string" where
  "sector_or_other s = (case s of None \<Rightarrow> ''Other'' | Some t \<Rightarrow> if t = [] then ''Other'' else t)"

definition add_exposure :: "string \<Rightarrow> dec \<Rightarrow> exposure_acc \<Rightarrow> exposure_acc" where
  "add_exposure sector v a = a\<lparr>ac_value := dadd (ac_value a) v, ac_sectors := dict_add sector v (ac_sectors a)\<rparr>"

definition add_local :: "string \<Rightarrow> dec \<Rightarrow> exposure_acc \<Rightarrow> exposure_acc" where
  "add_local k q a = a\<lparr>ac_local := dict_add k q (ac_local a)\<rparr>"

definition view_holding :: "string list \<Rightarrow> (string \<Rightarrow> dec option) \<Rightarrow> exposure_acc \<Rightarrow> holding \<Rightarrow> exposure_acc res" where
  "view_holding pending marks a h =
     (let key = asset_identity_key (h_asset h); a1 = add_local key (dabs (h_quantity h)) a
      in if key \<in> set pending then Inr a1
         else bindR (contract_multiplier_of (h_asset h)) (\<lambda>m.
           let mark = (case marks key of Some x \<Rightarrow> x | None \<Rightarrow> h_average_price h)
           in Inr (add_exposure (sector_or_other (h_sector h)) (dmul (dmul (dabs (h_quantity h)) mark) m) a1)))"

definition view_quarantined :: "(string \<Rightarrow> dec option) \<Rightarrow> exposure_acc \<Rightarrow> quarantined \<Rightarrow> exposure_acc" where
  "view_quarantined marks a p =
     (let fallback = (case qp_last_mark p of Some m \<Rightarrow> if m = 0 then qp_reference p else m | None \<Rightarrow> qp_reference p);
          mark = (case marks (qp_key p) of Some x \<Rightarrow> x | None \<Rightarrow> fallback)
      in add_exposure ''Quarantined'' (qp_exposure p mark) a)"

definition sector_of_key :: "holding list \<Rightarrow> string \<Rightarrow> string" where
  "sector_of_key hs k = (case map_of (rev (map (\<lambda>h. (asset_identity_key (h_asset h), sector_or_other (h_sector h))) hs)) k of
     None \<Rightarrow> ''Other'' | Some s \<Rightarrow> s)"

definition view_pending_key :: "holding list \<Rightarrow> (string \<times> broker_position) list \<Rightarrow> exposure_acc \<Rightarrow> string \<Rightarrow> exposure_acc" where
  "view_pending_key hs broker a k =
     (case map_of broker k of None \<Rightarrow> a
      | Some p \<Rightarrow> add_exposure (sector_of_key hs k) (dabs (bp_market_value p)) a)"

text \<open>The notional of a filled event whose holding is not projected yet.\<close>

definition view_event :: "string list \<Rightarrow> exposure_acc \<Rightarrow> settlement_event \<Rightarrow> exposure_acc res" where
  "view_event pending a e =
     (let key = asset_identity_key (e_asset e); a1 = (if e_side e = BUY then add_local key (e_quantity e) a else a)
      in if key \<in> set pending then Inr a1
         else bindR (contract_multiplier_of (e_asset e)) (\<lambda>m.
           Inr (add_exposure (sector_or_other (e_sector e)) (dmul (dmul (e_quantity e) (e_price e)) m) a1)))"

definition view_remainder :: "string list \<Rightarrow> exposure_acc \<Rightarrow> intent_remainder \<Rightarrow> exposure_acc res" where
  "view_remainder pending a r =
     bindR (case ti_reference_price (rm_intent r) of
              Some p \<Rightarrow> if 0 < rm_remaining r
                        then bindR (contract_multiplier_of (ti_asset (rm_intent r))) (\<lambda>m.
                          Inr (add_exposure (sector_or_other (ti_sector (rm_intent r))) (dmul (dmul (rm_remaining r) p) m) a))
                        else Inr a
            | None \<Rightarrow> Inr a) (\<lambda>a1.
       foldR (view_event pending) a1 (rm_unsettled r))"

definition event_key :: "settlement_event \<Rightarrow> string" where
  "event_key e = asset_identity_key (e_asset e)"

text \<open>The events the per-intent pass has valued, by identifier.\<close>

definition counted_ids :: "string list \<Rightarrow> intent_remainder list \<Rightarrow> string list" where
  "counted_ids pending rs = map e_id (filter (\<lambda>e. event_key e \<notin> set pending) (concat (map rm_unsettled rs)))"

text \<open>The global catch-all pass: unprojected events of any non-completed settlement not valued before.\<close>

definition catch_all_events :: "books \<Rightarrow> string list \<Rightarrow> intent_remainder list \<Rightarrow> settlement_event list" where
  "catch_all_events bk pending rs =
     filter (\<lambda>e. \<not> (holding_projected e \<or> e_id e \<in> set (counted_ids pending rs)))
       (map r_payload (with_status UNSETTLED_STATUSES (bk_settlements bk)))"

definition view_broker :: "string list \<Rightarrow> string list \<Rightarrow> exposure_acc \<Rightarrow> string \<times> broker_position \<Rightarrow> exposure_acc" where
  "view_broker pending quarantine_keys a kp =
     (let (k, p) = kp in
      if bp_qty p = 0 \<or> k \<in> set pending \<or> k \<in> set quarantine_keys then a
      else let excess = unmanaged_excess p (dict_get (ac_local a) k)
           in if 0 < excess then add_exposure UNMANAGED_SECTOR excess a else a)"

record portfolio_view =
  vw_snapshot :: portfolio_snapshot
  vw_keys :: "string list"

definition exposure_totals ::
  "books \<Rightarrow> string list \<Rightarrow> quarantined list \<Rightarrow> (string \<Rightarrow> dec option) \<Rightarrow> (string \<times> broker_position) list
   \<Rightarrow> intent_remainder list \<Rightarrow> exposure_acc res" where
  "exposure_totals bk pending quarantine marks broker rs =
     (let hs = rows_of (bk_holdings bk) in
      bindR (foldR (view_holding pending marks) \<lparr>ac_value = 0, ac_sectors = [], ac_local = []\<rparr> hs) (\<lambda>a1.
      let a2 = foldl (view_quarantined marks) a1 quarantine;
          a3 = foldl (view_pending_key hs broker) a2 pending in
      bindR (foldR (view_remainder pending) a3 rs) (\<lambda>a4.
      bindR (foldR (view_event pending) a4 (catch_all_events bk pending rs)) (\<lambda>a5.
        Inr (foldl (view_broker pending (map qp_key quarantine)) a5 broker)))))"

definition pending_entries :: "intent_remainder list \<Rightarrow> trade_intent list" where
  "pending_entries rs = filter (\<lambda>t. ti_side t = BUY) (map rm_intent rs)"

text \<open>The instruments that hold a position slot.\<close>

definition position_keys ::
  "books \<Rightarrow> quarantined list \<Rightarrow> (string \<times> broker_position) list \<Rightarrow> intent_remainder list \<Rightarrow> exposure_acc \<Rightarrow> string list" where
  "position_keys bk quarantine broker rs a =
     remdups (map (\<lambda>h. asset_identity_key (h_asset h)) (rows_of (bk_holdings bk))
       @ map qp_key quarantine
       @ map fst (filter (\<lambda>(k, p). bp_qty p \<noteq> 0) broker)
       @ map (\<lambda>t. asset_identity_key (ti_asset t)) (pending_entries rs)
       @ map fst (filter (\<lambda>(k, q). 0 < q) (ac_local a)))"

definition trades_today :: "books \<Rightarrow> time \<times> time \<Rightarrow> intent_remainder list \<Rightarrow> nat" where
  "trades_today bk day rs =
     length (remdups (map f_trade_intent_id (filter (\<lambda>f. f_side f = BUY) (fills_in_day bk day)) @ map ti_id (pending_entries rs)))"

definition positive_equity :: "dec option \<Rightarrow> dec option" where
  "positive_equity v = (case v of Some q \<Rightarrow> if 0 < q then Some q else None | None \<Rightarrow> None)"

definition daily_pnl :: "books \<Rightarrow> time \<times> time \<Rightarrow> dec option \<Rightarrow> dec option \<Rightarrow> dec \<Rightarrow> dec \<times> string" where
  "daily_pnl bk day account_equity prev_close total_equity =
     (case (positive_equity prev_close, positive_equity account_equity) of
        (Some prev, Some eq) \<Rightarrow> (dmul (dquot (dsub eq prev) prev) 100, ''broker'')
      | _ \<Rightarrow>
          let realized = dsum (map pr_realized (map r_payload (rows_where (\<lambda>r. in_day day (pr_as_of (r_payload r))) (bk_pnl bk))))
          in (if 0 < total_equity then dmul (dquot realized total_equity) 100 else 0, ''holdings''))"

definition build_portfolio_view ::
  "books \<Rightarrow> string list \<Rightarrow> quarantined list \<Rightarrow> dec \<Rightarrow> dec option \<Rightarrow> dec option \<Rightarrow> (string \<Rightarrow> dec option)
   \<Rightarrow> (string \<times> broker_position) list option \<Rightarrow> time \<Rightarrow> time \<times> time \<Rightarrow> string \<Rightarrow> portfolio_view res" where
  "build_portfolio_view bk pending quarantine cash account_equity prev_close marks broker now day sid =
     bindR (guardR (pending \<noteq> [] \<longrightarrow> broker \<noteq> None \<and> account_equity \<noteq> None) (ValueError ''PENDING_CRYPTO_REQUIRES_BROKER_EXPOSURE'')) (\<lambda>_.
     bindR (pending_intent_remainders bk) (\<lambda>rs.
     let positions = (case broker of None \<Rightarrow> [] | Some ps \<Rightarrow> ps) in
     bindR (exposure_totals bk pending quarantine marks positions rs) (\<lambda>a.
     let total_equity = (case positive_equity account_equity of Some q \<Rightarrow> q | None \<Rightarrow> ac_value a);
         keys = position_keys bk quarantine positions rs a;
         (pnl, source) = daily_pnl bk day account_equity prev_close total_equity
     in bindR (snapshot_post_init
          \<lparr>sn_id = sid, sn_as_of = now, sn_total_equity = total_equity, sn_cash_balance = cash, sn_holdings_value = ac_value a,
           sn_sector_exposure = ac_sectors a, sn_open_positions = int (length keys), sn_outstanding_orders = int (length rs),
           sn_trades_today = int (trades_today bk day rs), sn_daily_pnl_pct = pnl, sn_source = source\<rparr>) (\<lambda>sn.
        Inr \<lparr>vw_snapshot = sn, vw_keys = keys\<rparr>))))"

subsection \<open>Facts\<close>

lemma foldR_collect:
  "foldR (\<lambda>rs t. bindR (f t) (\<lambda>r. Inr (rs @ [r]))) acc xs = Inr out \<Longrightarrow> \<exists>ys. out = acc @ ys \<and> list_all2 (\<lambda>t r. f t = Inr r) xs ys"
proof (induction xs arbitrary: acc)
  case Nil
  then show ?case by simp
next
  case (Cons x xs)
  then obtain r where r: "f x = Inr r" and "foldR (\<lambda>rs t. bindR (f t) (\<lambda>r. Inr (rs @ [r]))) (acc @ [r]) xs = Inr out"
    by (auto simp: bindR_Inr_iff)
  from Cons.IH [OF this(2)] obtain ys where "out = (acc @ [r]) @ ys" "list_all2 (\<lambda>t r. f t = Inr r) xs ys" by blast
  with r show ?case by (intro exI [of _ "r # ys"]) simp
qed

lemma remainders_list:
  assumes "pending_intent_remainders bk = Inr rs"
  shows "list_all2 (\<lambda>row r. rm_intent r = r_payload row
      \<and> rm_unsettled r = filter (\<lambda>e. \<not> holding_projected e) (events_of_intent bk (ti_id (r_payload row)))) (pending_rows bk) rs"
proof -
  from foldR_collect [OF assms [unfolded pending_intent_remainders_def]]
  have "list_all2 (\<lambda>row r. intent_remainder_of bk row = Inr r) (pending_rows bk) rs" by simp
  then show ?thesis
    by (rule list_all2_mono) (auto simp: intent_remainder_of_def Let_def split: option.splits)
qed

lemma remainders_unsettled:
  assumes "pending_intent_remainders bk = Inr rs"
  shows "concat (map rm_unsettled rs)
    = concat (map (\<lambda>t. filter (\<lambda>e. \<not> holding_projected e) (events_of_intent bk (ti_id t))) (pending_intents bk))"
proof -
  have "map rm_unsettled rs = map (\<lambda>row. filter (\<lambda>e. \<not> holding_projected e) (events_of_intent bk (ti_id (r_payload row)))) (pending_rows bk)"
    using remainders_list [OF assms] by (induction rule: list_all2_induct) auto
  then show ?thesis by (simp add: pending_intents_def comp_def)
qed

text \<open>Settlement rows are keyed by their event's identifier.\<close>

definition settlements_keyed :: "books \<Rightarrow> bool" where
  "settlements_keyed bk \<longleftrightarrow> distinct (map r_id (bk_settlements bk)) \<and> (\<forall>r\<in>set (bk_settlements bk). e_id (r_payload r) = r_id r)"

lemma keyed_distinct:
  assumes "settlements_keyed bk"
  shows "distinct (map (e_id \<circ> r_payload) (rows_where keep (bk_settlements bk)))"
    and "inj_on e_id (r_payload ` set (bk_settlements bk))"
proof -
  have d: "distinct (map r_id (rows_where keep (bk_settlements bk)))"
    using assms by (auto simp: settlements_keyed_def rows_where_def distinct_map inj_on_def)
  have eq: "map (e_id \<circ> r_payload) (rows_where keep (bk_settlements bk)) = map r_id (rows_where keep (bk_settlements bk))"
    using assms by (auto simp: settlements_keyed_def rows_where_def)
  show "distinct (map (e_id \<circ> r_payload) (rows_where keep (bk_settlements bk)))" unfolding eq by (rule d)
  show "inj_on e_id (r_payload ` set (bk_settlements bk))"
    using assms by (auto simp: settlements_keyed_def inj_on_def distinct_map)
qed

lemma events_of_intent_set:
  "e \<in> set (events_of_intent bk t) \<longleftrightarrow> e \<in> r_payload ` set (bk_settlements bk) \<and> e_trade_intent_id e = t"
  by (auto simp: events_of_intent_def rows_where_def)

lemma unsettled_distinct:
  assumes "settlements_keyed bk" and "distinct ids"
  shows "distinct (map e_id (concat (map (\<lambda>t. filter keep (events_of_intent bk t)) ids)))"
  using assms(2)
proof (induction ids)
  case Nil
  then show ?case by simp
next
  case (Cons t ts)
  have "distinct (map e_id (events_of_intent bk t))"
    using keyed_distinct(1) [OF assms(1)] by (simp add: events_of_intent_def comp_def)
  then have "distinct (map e_id (filter keep (events_of_intent bk t)))" by (rule distinct_map_filter)
  moreover have "e_id e \<noteq> e_id e'" if "e \<in> set (events_of_intent bk t)" "u \<in> set ts" "e' \<in> set (events_of_intent bk u)" for e e' u
    using that Cons.prems keyed_distinct(2) [OF assms(1)] unfolding events_of_intent_set by (auto dest: inj_onD)
  ultimately show ?case using Cons by force
qed

lemma risk_gate_positions:
  assumes "evaluate_risk i (Some sn) l ev = Inr d" and "rd_approved d" and "ri_side i = BUY" and "\<not> ro_protective_exit ev"
  shows "sn_open_positions sn < rl_max_open_positions l \<or> ro_holds_slot ev"
proof -
  from evaluate_entry_cases [OF assms] have "entry_reasons i sn l ev = []" by blast
  then show ?thesis by (simp add: entry_reasons_def split: if_splits) linarith
qed

lemma snapshot_post_init_Inr: "snapshot_post_init sn = Inr sn' \<Longrightarrow> \<exists>i. sn' = sn\<lparr>sn_id := i\<rparr>"
  by (auto simp: snapshot_post_init_def res_iffs)

lemma view_result:
  assumes "build_portfolio_view bk pending quarantine cash eq prev marks broker now day sid = Inr vw"
  shows "\<exists>rs a. vw_keys vw = position_keys bk quarantine (case broker of None \<Rightarrow> [] | Some ps \<Rightarrow> ps) rs a
    \<and> sn_open_positions (vw_snapshot vw) = int (length (vw_keys vw))"
proof -
  let ?ps = "case broker of None \<Rightarrow> [] | Some ps \<Rightarrow> ps"
  from assms obtain rs a sn where post: "\<exists>te pnl src. snapshot_post_init
          \<lparr>sn_id = sid, sn_as_of = now, sn_total_equity = te, sn_cash_balance = cash, sn_holdings_value = ac_value a,
           sn_sector_exposure = ac_sectors a, sn_open_positions = int (length (position_keys bk quarantine ?ps rs a)),
           sn_outstanding_orders = int (length rs), sn_trades_today = int (trades_today bk day rs), sn_daily_pnl_pct = pnl,
           sn_source = src\<rparr> = Inr sn"
    and vw: "vw = \<lparr>vw_snapshot = sn, vw_keys = position_keys bk quarantine ?ps rs a\<rparr>"
    unfolding build_portfolio_view_def bindR_Inr_iff Let_def case_prod_unfold Inl_Inr_False sum.inject by blast
  from post have "sn_open_positions sn = int (length (position_keys bk quarantine ?ps rs a))"
    by (auto dest!: snapshot_post_init_Inr)
  with vw show ?thesis by (intro exI [of _ rs] exI [of _ a]) simp
qed

subsection \<open>Properties\<close>


text \<open>C8: the slot count and the risk gate together keep the account within its position limit: an
  approved entry evaluated against a view either adds to an instrument that already holds a
  slot, or with its own slot the account still holds at most the permitted number.\<close>

theorem approved_entry_fits_position_limit:
  assumes "build_portfolio_view bk pending quarantine cash eq prev marks broker now day sid = Inr vw"
    and "evaluate_risk i (Some (vw_snapshot vw)) l ev = Inr d" and "rd_approved d" and "ri_side i = BUY" and "\<not> ro_protective_exit ev"
    and "ro_holds_slot ev \<longleftrightarrow> key \<in> set (vw_keys vw)"
  shows "key \<in> set (vw_keys vw) \<or> int (card (insert key (set (vw_keys vw)))) \<le> rl_max_open_positions l"
proof (cases "key \<in> set (vw_keys vw)")
  case False
  from view_result [OF assms(1)] obtain rs a where "vw_keys vw = position_keys bk quarantine (case broker of None \<Rightarrow> [] | Some ps \<Rightarrow> ps) rs a"
    and n: "sn_open_positions (vw_snapshot vw) = int (length (vw_keys vw))" by blast
  then have "distinct (vw_keys vw)" by (simp add: position_keys_def)
  then have "card (insert key (set (vw_keys vw))) = Suc (length (vw_keys vw))"
    using False by (simp add: distinct_card)
  moreover have "sn_open_positions (vw_snapshot vw) < rl_max_open_positions l"
    using risk_gate_positions [OF assms(2-5)] assms(6) False by blast
  ultimately show ?thesis using n by simp
qed simp

text \<open>Broker inventory counts as unmanaged exposure exactly in the part local records do not
  cover: nothing when they cover it, never negative, and at most the position's market value
  up to rounding.\<close>

theorem unmanaged_excess_bounds:
  assumes "0 \<le> local_quantity"
  shows "0 \<le> unmanaged_excess p local_quantity
    \<and> (dabs (bp_qty p) \<le> local_quantity \<longrightarrow> unmanaged_excess p local_quantity = 0)
    \<and> unmanaged_excess p local_quantity \<le> dabs (bp_market_value p) * (1 + rel_eps) * (1 + rel_eps)"
proof -
  let ?b = "dabs (bp_qty p)" let ?v = "dabs (bp_market_value p)" let ?x = "dsub ?b local_quantity"
  have v: "0 \<le> ?v" by simp
  have pos: "0 \<le> ?v * (1 + rel_eps) * (1 + rel_eps)" using v rel_eps_pos by simp
  have main: "0 \<le> dmul (dquot ?v ?b) ?x \<and> dmul (dquot ?v ?b) ?x \<le> ?v * (1 + rel_eps) * (1 + rel_eps)" if "0 < ?b" "0 < ?x"
  proof -
    have q: "0 \<le> dquot ?v ?b" using that by (intro dquot_nonneg) auto
    have "?x \<le> ?b" unfolding dsub_def by (rule dctx.sub_le_fixed [OF assms]) simp
    have "dquot ?v ?b \<le> ?v / ?b * (1 + rel_eps)" unfolding dquot_def using that by (intro ctx_upper) simp
    then have "dquot ?v ?b * ?x \<le> ?v / ?b * (1 + rel_eps) * ?b"
      using \<open>?x \<le> ?b\<close> that q rel_eps_pos v by (intro mult_mono) auto
    also have "\<dots> = ?v * (1 + rel_eps)" using that by simp
    finally have "dquot ?v ?b * ?x * (1 + rel_eps) \<le> ?v * (1 + rel_eps) * (1 + rel_eps)"
      using rel_eps_pos by (intro mult_right_mono) auto
    moreover have "dmul (dquot ?v ?b) ?x \<le> dquot ?v ?b * ?x * (1 + rel_eps)"
      unfolding dmul_def using q that by (intro ctx_upper) simp
    ultimately show ?thesis using q that by (auto intro: dmul_nonneg)
  qed
  have cov: "?x \<le> 0" if "?b \<le> local_quantity" using that by (simp add: dsub_def dctx.nonpos)
  have "0 \<le> ?b" by simp
  then show ?thesis using main pos cov unfolding unmanaged_excess_def Let_def by (auto simp: not_le less_le)
qed

text \<open>The drawdown breach is stable: it never fires at or above the recorded peak, and once an
  equity breaches, every lower one does.\<close>

theorem drawdown_breach_monotone:
  assumes "c' \<le> c" and "dc_breached (check_max_drawdown hist c l)"
  shows "dc_breached (check_max_drawdown hist c' l) \<and> (\<exists>p. hist = Some p \<and> c < p \<and> 0 < rl_max_drawdown_pct l)"
proof -
  from assms(2) have lim: "0 < rl_max_drawdown_pct l"
    by (auto simp: check_max_drawdown_def Let_def split: if_splits)
  have "\<exists>p. hist = Some p \<and> c < p"
  proof (rule ccontr)
    assume "\<not> ?thesis"
    then have "(case hist of None \<Rightarrow> c | Some p \<Rightarrow> if c < p then p else c) = c" by (auto split: option.splits)
    with assms(2) lim show False
      by (auto simp: check_max_drawdown_def Let_def dec_defs split: if_splits)
  qed
  then obtain p where p: "hist = Some p" "c < p" by blast
  have pct: "dmul (dquot (dsub p c) p) 100 \<le> dmul (dquot (dsub p c') p) 100" if "0 < p"
    using assms(1) that p by (intro dmul_mono dquot_mono dsub_mono) (auto simp: dquot_nonneg dsub_def dctx.nonneg)
  then show ?thesis
    using assms p lim by (auto simp: check_max_drawdown_def Let_def split: if_splits)
qed

subsection \<open>Witnesses\<close>

definition no_books :: books where
  "no_books = \<lparr>bk_holdings = [], bk_intents = [], bk_settlements = [], bk_fills = [], bk_pnl = []\<rparr>"

definition one_event_row :: "settlement_event row" where
  "one_event_row = \<lparr>r_id = ''s1'', r_status = Some ''pending'', r_unique = Some ''f1'', r_payload = demo_event BUY 4, r_created = 0\<rparr>"

definition one_event_books :: books where
  "one_event_books = no_books\<lparr>bk_settlements := [one_event_row]\<rparr>"

lemma demo_require_text: "require_text (Some ''s'') = Inr ''s''"
  by code_simp

lemma demo_view: "build_portfolio_view no_books [] [] 2000 (Some 2000) (Some 2000) (\<lambda>_. None) None 0 (0, 1) ''s''
    = Inr \<lparr>vw_snapshot = demo_snapshot, vw_keys = []\<rparr>"
  by (simp add: build_portfolio_view_def no_books_def pending_intent_remainders_def pending_rows_def with_status_def rows_where_def
      exposure_totals_def rows_of_def catch_all_events_def position_keys_def pending_entries_def positive_equity_def daily_pnl_def
      trades_today_def fills_in_day_def snapshot_post_init_def demo_require_text demo_snapshot_def decimal_value_def dec_defs)


theorem approved_entry_fits_position_limit_witness:
  "''k'' \<in> set [] \<or> int (card (insert ''k'' (set ([] :: string list)))) \<le> rl_max_open_positions demo_limits"
  using approved_entry_fits_position_limit [OF demo_view, of "demo_input BUY" demo_limits "demo_options False False" _ "''k''"]
    demo_decision demo_input_sel(1,2) by (simp add: demo_options_def)

theorem unmanaged_excess_bounds_witness: "unmanaged_excess \<lparr>bp_qty = 3, bp_market_value = 30\<rparr> 5 = 0"
  using unmanaged_excess_bounds [of 5 "\<lparr>bp_qty = 3, bp_market_value = 30\<rparr>"] by (simp add: dabs_def)

theorem drawdown_breach_monotone_witness: "dc_breached (check_max_drawdown (Some 1000) (- 100) demo_limits)"
proof -
  have "dc_breached (check_max_drawdown (Some 1000) 0 demo_limits)"
    by (simp add: check_max_drawdown_def demo_limits_def default_limits_def dec_defs Let_def)
  then show ?thesis using drawdown_breach_monotone [of "- 100" 0] by simp
qed

end
