(* ===== verification/Dbae.thy ===== *)
theory Dbae
  imports Risk_Limits
begin

text \<open>
  The balance-band entry policy: \<open>dbae/bands.py\<close>, \<open>dbae/policy.py\<close>, the constants of
  \<open>dbae/evidence.py\<close> and the evidence records of \<open>broker/capabilities.py\<close>. An evidence
  field is \<open>None\<close> when unknown, and an unknown field never permits anything.

  A trading increment is read with its exponent, since rounding to it quantizes to that
  exponent: \<open>(c, e)\<close> is the Decimal \<open>c * 10 powi e\<close>. Every increment has passed
  \<open>decimal_value\<close>, so it is finite.
\<close>

subsection \<open>Decimal operations of the policy\<close>

type_synonym scaled = "int \<times> int"

definition scaled_val :: "scaled \<Rightarrow> dec" where
  "scaled_val i = of_int (fst i) * 10 powi (snd i)"

definition trunc :: "dec \<Rightarrow> int" where
  "trunc q = (if 0 \<le> q then \<lfloor>q\<rfloor> else \<lceil>q\<rceil>)"

text \<open>\<open>//\<close> truncates and raises when the quotient needs more than 28 digits, as does \<open>%\<close>.\<close>

definition dfloordiv :: "dec \<Rightarrow> dec \<Rightarrow> dec res" where
  "dfloordiv a b =
     (if b = 0 then Inl (if a = 0 then InvalidOperation else DivisionByZero)
      else if \<bar>trunc (a / b)\<bar> < 10 ^ 28 then Inr (of_int (trunc (a / b))) else Inl InvalidOperation)"

definition drem :: "dec \<Rightarrow> dec \<Rightarrow> dec res" where
  "drem a b =
     (if b = 0 then Inl InvalidOperation
      else if \<bar>trunc (a / b)\<bar> < 10 ^ 28 then Inr (ctx (a - b * of_int (trunc (a / b)))) else Inl InvalidOperation)"

definition quantize_exp :: "int \<Rightarrow> dec \<Rightarrow> dec res" where
  "quantize_exp e x =
     (let n = half_even (x / 10 powi e)
      in if \<bar>n\<bar> < 10 ^ 28 then Inr (of_int n * 10 powi e) else Inl InvalidOperation)"

definition is_whole :: "dec \<Rightarrow> bool" where
  "is_whole q = (of_int (half_even q) = q)"

subsection \<open>Bands\<close>

datatype band = BELOW_MINIMUM | MICRO | MICRO_PLUS | FRACTIONAL | STANDARD | FULL

datatype equity_unlock = NoEquity | FractionableOnly | FractionableAndAffordableWhole | AllEquity

record band_unlocks =
  bu_equity :: equity_unlock
  bu_crypto :: bool
  bu_options :: bool

definition BAND_THRESHOLDS :: "(band \<times> dec) list" where
  "BAND_THRESHOLDS = [(MICRO, 20), (MICRO_PLUS, 50), (FRACTIONAL, 100), (STANDARD, 500), (FULL, 2000)]"

definition band_for :: "dec \<Rightarrow> band" where
  "band_for equity = foldl (\<lambda>b (candidate, lower_edge). if lower_edge \<le> equity then candidate else b) BELOW_MINIMUM BAND_THRESHOLDS"

fun unlocks :: "band \<Rightarrow> band_unlocks" where
  "unlocks BELOW_MINIMUM = \<lparr>bu_equity = NoEquity, bu_crypto = False, bu_options = False\<rparr>"
| "unlocks MICRO = \<lparr>bu_equity = FractionableOnly, bu_crypto = False, bu_options = False\<rparr>"
| "unlocks MICRO_PLUS = \<lparr>bu_equity = FractionableOnly, bu_crypto = False, bu_options = False\<rparr>"
| "unlocks FRACTIONAL = \<lparr>bu_equity = FractionableAndAffordableWhole, bu_crypto = True, bu_options = False\<rparr>"
| "unlocks STANDARD = \<lparr>bu_equity = AllEquity, bu_crypto = True, bu_options = False\<rparr>"
| "unlocks FULL = \<lparr>bu_equity = AllEquity, bu_crypto = True, bu_options = True\<rparr>"

definition floor_to_increment :: "dec \<Rightarrow> scaled \<Rightarrow> dec res" where
  "floor_to_increment qty inc =
     (if scaled_val inc \<le> 0 then Inl (ValueError ''increment must be a positive finite Decimal'')
      else bindR (dfloordiv qty (scaled_val inc)) (\<lambda>n. quantize_exp (snd inc) (dmul n (scaled_val inc))))"

subsection \<open>Evidence\<close>

record account_evidence =
  av_status :: "string option"
  av_trading_blocked :: "bool option"
  av_account_blocked :: "bool option"
  av_trade_suspended :: "bool option"
  av_suspend_trade :: "bool option"
  av_closing_only :: "bool option"
  av_fractional_trading :: "bool option"
  av_equity :: "dec option"
  av_cash :: "dec option"
  av_buying_power :: "dec option"
  av_non_marginable :: "dec option"
  av_multiplier :: "dec option"
  av_crypto_status :: "string option"
  av_options_level :: "int option"
  av_received_at :: time

record asset_caps =
  tc_active :: "bool option"
  tc_tradable :: "bool option"
  tc_fractionable :: "bool option"
  tc_min_order_size :: "dec option"
  tc_increment :: "scaled option"
  tc_price_increment :: "dec option"
  tc_received_at :: time

definition evidence_fresh :: "time \<Rightarrow> time \<Rightarrow> bool" where
  "evidence_fresh received now = (now - 30 * 1000000 \<le> received \<and> received \<le> now + 5 * 1000000)"

definition REQUIRED_OPTIONS_LEVEL :: int where "REQUIRED_OPTIONS_LEVEL = 2"

definition ACCEPTED_ACCOUNT_MULTIPLIERS :: "dec list" where
  "ACCEPTED_ACCOUNT_MULTIPLIERS = [2, 4]"

datatype environment = AlpacaPaper | AlpacaLive

datatype quantity_kind = FractionalQuantity | WholeQuantity

record liquidation_scope =
  ls_environment :: environment
  ls_class :: asset_class
  ls_kind :: quantity_kind
  ls_gtc :: bool
  ls_above_min_order :: bool

datatype verdict = Verified | Refused

definition SUB_MINIMUM_LIQUIDATION_EVIDENCE :: "(liquidation_scope \<times> verdict) list" where
  "SUB_MINIMUM_LIQUIDATION_EVIDENCE = []"

record entry_proposal =
  ep_asset :: asset_identity
  ep_price :: dec
  ep_stop_price :: dec
  ep_environment :: environment
  ep_now :: time

record execution_policy =
  xp_allowed :: bool
  xp_reasons :: "string list"
  xp_band :: band
  xp_band_equity :: "dec option"
  xp_fractional :: bool

datatype shaping_rule = Unchanged | WholeShares | CryptoIncrement

record shaped_quantity =
  sq_quantity :: dec
  sq_rule :: shaping_rule
  sq_refusal :: "string option"

subsection \<open>The policy\<close>

definition refused :: "string list \<Rightarrow> band \<Rightarrow> dec option \<Rightarrow> execution_policy" where
  "refused reasons b beq =
     \<lparr>xp_allowed = False, xp_reasons = reasons, xp_band = b, xp_band_equity = beq, xp_fractional = False\<rparr>"

definition add_reason :: "string \<Rightarrow> string list \<Rightarrow> string list" where
  "add_reason r rs = (if r \<in> set rs then rs else rs @ [r])"

definition add_if :: "bool \<Rightarrow> string \<Rightarrow> string list \<Rightarrow> string list" where
  "add_if c r rs = (if c then add_reason r rs else rs)"

definition core_account_reasons :: "account_evidence \<Rightarrow> time \<Rightarrow> string list" where
  "core_account_reasons a now =
     (if \<not> evidence_fresh (av_received_at a) now then [''DBAE_ACCOUNT_STATE_UNVERIFIED'']
      else let blocking = [av_trading_blocked a, av_account_blocked a, av_trade_suspended a, av_suspend_trade a];
               r1 = (case av_status a of
                       None \<Rightarrow> add_reason ''DBAE_ACCOUNT_STATE_UNVERIFIED'' []
                     | Some s \<Rightarrow> add_if (s \<noteq> ''ACTIVE'') ''DBAE_ACCOUNT_NOT_ACTIVE'' []);
               r2 = add_if (list_ex (\<lambda>f. f = Some True) blocking) ''DBAE_ACCOUNT_TRADING_BLOCKED'' r1;
               r3 = add_if (av_closing_only a = Some True) ''DBAE_ACCOUNT_CLOSING_ONLY'' r2;
               r4 = add_if (list_ex (\<lambda>f. f = None) (blocking @ [av_closing_only a])) ''DBAE_ACCOUNT_STATE_UNVERIFIED'' r3
           in if av_multiplier a = Some 1 then add_reason ''DBAE_ACCOUNT_TYPE_UNVERIFIED'' r4
              else add_if (av_multiplier a \<notin> set (map Some ACCEPTED_ACCOUNT_MULTIPLIERS)) ''DBAE_ACCOUNT_STATE_UNVERIFIED'' r4)"

definition class_permission_reason :: "account_evidence \<Rightarrow> asset_class \<Rightarrow> string option" where
  "class_permission_reason a c =
     (if c = CRYPTO then (if av_crypto_status a \<noteq> Some ''ACTIVE'' \<or> av_non_marginable a = None
                          then Some ''DBAE_CRYPTO_PERMISSION_UNVERIFIED'' else None)
      else if c = OPTION then (case av_options_level a of
             None \<Rightarrow> Some ''DBAE_OPTIONS_PERMISSION_UNVERIFIED''
           | Some n \<Rightarrow> if n < REQUIRED_OPTIONS_LEVEL then Some ''DBAE_OPTIONS_PERMISSION_UNVERIFIED'' else None)
      else None)"

definition class_unlocked :: "band \<Rightarrow> asset_class \<Rightarrow> bool" where
  "class_unlocked b c =
     (if c = EQUITY then bu_equity (unlocks b) \<noteq> NoEquity
      else if c = CRYPTO then bu_crypto (unlocks b)
      else if c = OPTION then bu_options (unlocks b)
      else False)"

definition positive_opt :: "dec option \<Rightarrow> bool" where
  "positive_opt v = (case v of None \<Rightarrow> False | Some q \<Rightarrow> 0 < q)"

definition increment_value :: "asset_caps \<Rightarrow> dec option" where
  "increment_value t = map_option scaled_val (tc_increment t)"

definition usable_caps :: "asset_caps \<Rightarrow> time \<Rightarrow> asset_caps" where
  "usable_caps t now =
     (if evidence_fresh (tc_received_at t) now then t
      else \<lparr>tc_active = None, tc_tradable = None, tc_fractionable = None, tc_min_order_size = None, tc_increment = None,
            tc_price_increment = None, tc_received_at = tc_received_at t\<rparr>)"

definition evaluate_entry_policy :: "account_evidence \<Rightarrow> dec option \<Rightarrow> asset_caps \<Rightarrow> entry_proposal \<Rightarrow> execution_policy" where
  "evaluate_entry_policy acct beq caps p =
     (let b = (case beq of None \<Rightarrow> BELOW_MINIMUM | Some e \<Rightarrow> band_for e);
          c = a_class (ep_asset p);
          core = core_account_reasons acct (ep_now p)
      in if core \<noteq> [] then refused core b beq
         else let r1 = (case class_permission_reason acct c of None \<Rightarrow> [] | Some r \<Rightarrow> [r])
         in if beq = None then refused (r1 @ [''DBAE_SESSION_BASELINE_UNVERIFIED'']) b beq
         else if b = BELOW_MINIMUM then refused (r1 @ [''DBAE_BELOW_MINIMUM_BALANCE'']) b beq
         else let t = usable_caps caps (ep_now p);
                  micro = (b = MICRO \<or> b = MICRO_PLUS);
                  r2 = add_if (\<not> class_unlocked b c) ''DBAE_ASSET_CLASS_LOCKED'' r1;
                  r3 = add_if (tc_active t \<noteq> Some True \<or> tc_tradable t \<noteq> Some True) ''DBAE_ASSET_NOT_TRADABLE'' r2;
                  r4 = (if c = EQUITY
                        then add_if (micro \<and> av_fractional_trading acct \<noteq> Some True) ''DBAE_FRACTIONAL_TRADING_UNVERIFIED''
                               (add_if (micro \<and> tc_fractionable t \<noteq> Some True) ''DBAE_WHOLE_SHARES_NOT_ALLOWED_IN_BAND'' r3)
                        else if c = CRYPTO
                        then add_if (\<not> (positive_opt (tc_min_order_size t) \<and> positive_opt (increment_value t)))
                               ''DBAE_CRYPTO_INCREMENT_UNVERIFIED'' r3
                        else r3);
                  fractional = (if c = EQUITY then av_fractional_trading acct = Some True \<and> tc_fractionable t = Some True
                                else if c = CRYPTO then r4 = [] else False)
              in if r4 \<noteq> [] then refused r4 b beq
                 else \<lparr>xp_allowed = True, xp_reasons = [], xp_band = b, xp_band_equity = beq, xp_fractional = fractional\<rparr>)"

definition require_shapable :: "execution_policy \<Rightarrow> dec \<Rightarrow> unit res" where
  "require_shapable p q =
     bindR (guardR (xp_allowed p) (ValueError ''a refused policy cannot shape or exit a quantity'')) (\<lambda>_.
       guardR (0 < q) (ValueError ''approved quantity must be positive''))"

definition shape_whole :: "dec \<Rightarrow> shaped_quantity res" where
  "shape_whole q =
     bindR (floor_to_increment q (1, 0)) (\<lambda>w.
       Inr \<lparr>sq_quantity = w, sq_rule = WholeShares, sq_refusal = (if w = 0 then Some ''WHOLE_SHARE_UNAFFORDABLE'' else None)\<rparr>)"

definition shape_crypto :: "asset_caps \<Rightarrow> dec \<Rightarrow> shaped_quantity res" where
  "shape_crypto t q =
     (case (tc_increment t, tc_min_order_size t) of
        (Some inc, Some m) \<Rightarrow>
          if \<not> (0 < scaled_val inc \<and> 0 < m)
          then Inr \<lparr>sq_quantity = 0, sq_rule = CryptoIncrement, sq_refusal = Some ''DBAE_CRYPTO_INCREMENT_UNVERIFIED''\<rparr>
          else bindR (floor_to_increment q inc) (\<lambda>f.
            Inr \<lparr>sq_quantity = f, sq_rule = CryptoIncrement,
                 sq_refusal = (if f < m then Some ''DBAE_BELOW_ASSET_MINIMUM'' else None)\<rparr>)
      | _ \<Rightarrow> Inr \<lparr>sq_quantity = 0, sq_rule = CryptoIncrement, sq_refusal = Some ''DBAE_CRYPTO_INCREMENT_UNVERIFIED''\<rparr>)"

definition shape_quantity :: "execution_policy \<Rightarrow> asset_caps \<Rightarrow> asset_class \<Rightarrow> dec \<Rightarrow> shaped_quantity res" where
  "shape_quantity p t c q =
     bindR (require_shapable p q) (\<lambda>_.
       if c = CRYPTO then shape_crypto t q
       else if c = EQUITY \<and> xp_fractional p then Inr \<lparr>sq_quantity = q, sq_rule = Unchanged, sq_refusal = None\<rparr>
       else shape_whole q)"

definition liquidation_threshold :: "asset_caps \<Rightarrow> dec \<Rightarrow> dec" where
  "liquidation_threshold t price = (case tc_min_order_size t of None \<Rightarrow> 1 | Some m \<Rightarrow> max 1 (dmul m price))"

definition on_increment :: "dec \<Rightarrow> scaled \<Rightarrow> bool res" where
  "on_increment q inc = bindR (drem q (scaled_val inc)) (\<lambda>r. Inr (r = 0))"

definition quantity_supported :: "execution_policy \<Rightarrow> asset_caps \<Rightarrow> asset_class \<Rightarrow> dec \<Rightarrow> string option res" where
  "quantity_supported p t c q =
     (if c = CRYPTO
      then (case (tc_increment t, tc_min_order_size t) of
              (Some inc, Some m) \<Rightarrow>
                if \<not> (0 < scaled_val inc \<and> 0 < m) then Inr (Some ''DBAE_CRYPTO_INCREMENT_UNVERIFIED'')
                else bindR (on_increment q inc) (\<lambda>ok.
                  Inr (if \<not> ok then Some ''DBAE_CRYPTO_INCREMENT_UNVERIFIED''
                       else if q < m then Some ''DBAE_BELOW_ASSET_MINIMUM'' else None))
            | _ \<Rightarrow> Inr (Some ''DBAE_CRYPTO_INCREMENT_UNVERIFIED''))
      else Inr (if \<not> is_whole q \<and> \<not> xp_fractional p then Some ''DBAE_FRACTIONAL_TRADING_UNVERIFIED'' else None))"

definition liquidation_scope_of :: "entry_proposal \<Rightarrow> dec \<Rightarrow> liquidation_scope" where
  "liquidation_scope_of ep q =
     (let crypto = (a_class (ep_asset ep) = CRYPTO)
      in \<lparr>ls_environment = ep_environment ep, ls_class = a_class (ep_asset ep),
          ls_kind = (if \<not> is_whole q then FractionalQuantity else WholeQuantity), ls_gtc = crypto, ls_above_min_order = crypto\<rparr>)"

definition exit_feasible :: "execution_policy \<Rightarrow> asset_caps \<Rightarrow> entry_proposal \<Rightarrow> dec \<Rightarrow> string option res" where
  "exit_feasible p t ep q =
     bindR (require_shapable p q) (\<lambda>_.
     bindR (quantity_supported p t (a_class (ep_asset ep)) q) (\<lambda>r. case r of
       Some reason \<Rightarrow> Inr (Some reason)
     | None \<Rightarrow>
         bindR (contract_multiplier_of (ep_asset ep)) (\<lambda>m.
           if liquidation_threshold t (ep_stop_price ep) \<le> dmul (dmul q (ep_stop_price ep)) m then Inr None
           else Inr (if map_of SUB_MINIMUM_LIQUIDATION_EVIDENCE (liquidation_scope_of ep q) = Some Verified then None
                     else Some ''DBAE_SUB_MINIMUM_LIQUIDATION_UNVERIFIED''))))"

definition whole_units_only :: "asset_caps option \<Rightarrow> asset_class \<Rightarrow> bool" where
  "whole_units_only caps c = (c \<noteq> CRYPTO \<and> (case caps of None \<Rightarrow> True | Some t \<Rightarrow> tc_fractionable t \<noteq> Some True))"

definition legs_on_increment :: "asset_caps option \<Rightarrow> dec \<Rightarrow> dec \<Rightarrow> bool res" where
  "legs_on_increment caps part rest =
     (case caps of
        None \<Rightarrow> Inr False
      | Some t \<Rightarrow> (case tc_increment t of
          None \<Rightarrow> Inr False
        | Some inc \<Rightarrow>
            if \<not> 0 < scaled_val inc \<or> \<not> positive_opt (tc_min_order_size t) then Inr False
            else bindR (on_increment part inc) (\<lambda>a. if \<not> a then Inr False else on_increment rest inc)))"

definition scale_out_feasible :: "asset_caps option \<Rightarrow> asset_class \<Rightarrow> dec \<Rightarrow> dec \<Rightarrow> dec \<Rightarrow> dec \<Rightarrow> bool res" where
  "scale_out_feasible caps c multiplier part rest price =
     (if part \<le> 0 \<or> rest \<le> 0 then Inr False
      else if whole_units_only caps c \<and> \<not> (is_whole part \<and> is_whole rest) then Inr False
      else bindR (if c = CRYPTO then legs_on_increment caps part rest else Inr True) (\<lambda>ok.
        if \<not> ok then Inr False
        else let threshold = (case caps of None \<Rightarrow> 1 | Some t \<Rightarrow> liquidation_threshold t price)
             in Inr (list_all (\<lambda>leg. threshold \<le> dmul (dmul leg price) multiplier) [part, rest])))"

subsection \<open>Rounding to an increment\<close>

lemma trunc_pos: "0 \<le> q \<Longrightarrow> trunc q = \<lfloor>q\<rfloor>"
  by (simp add: trunc_def)

lemma representable_scaled: "\<bar>n\<bar> \<le> 10 ^ 28 \<Longrightarrow> ctx (of_int n * 10 powi e) = of_int n * 10 powi e"
  by (rule ctx_representable) (auto simp: representable_def)

text \<open>A product on the increment's exponent that survives the quantization was exact.\<close>

lemma quantize_exp_exact:
  assumes "quantize_exp e (ctx (of_int n * 10 powi e)) = Inr v" and "0 \<le> n"
  shows "v = of_int n * 10 powi e"
proof (cases "n \<le> 10 ^ 28")
  case True
  then show ?thesis using assms by (auto simp: quantize_exp_def Let_def representable_scaled split: if_splits)
next
  case False
  let ?x = "of_int n * 10 powi e :: rat"
  have "of_int (10 ^ 28) \<le> rat_of_int n" using False by (subst of_int_le_iff) simp
  then have "of_int (10 ^ 28) * 10 powi e \<le> ?x" by (rule mult_right_mono) simp
  from ctx_mono [OF this] have "of_int (10 ^ 28) * 10 powi e \<le> ctx ?x" by (subst (asm) representable_scaled) simp_all
  then have "of_int (10 ^ 28) \<le> ctx ?x / 10 powi e" by (simp add: pos_le_divide_eq)
  then have "10 ^ 28 \<le> half_even (ctx ?x / 10 powi e)" by (rule half_even_ge_of_int)
  then show ?thesis using assms(1) by (auto simp: quantize_exp_def Let_def split: if_splits)
qed

lemma floor_to_increment_Inr:
  assumes "floor_to_increment q inc = Inr v" and "0 < q"
  shows "0 < scaled_val inc" "v = of_int \<lfloor>q / scaled_val inc\<rfloor> * scaled_val inc" "\<lfloor>q / scaled_val inc\<rfloor> < 10 ^ 28"
proof -
  let ?i = "scaled_val inc" let ?n = "\<lfloor>q / ?i\<rfloor>"
  show i: "0 < ?i" using assms(1) by (auto simp: floor_to_increment_def split: if_splits)
  have n: "0 \<le> ?n" using i assms(2) by simp
  have t: "trunc (q / ?i) = ?n" using i assms(2) by (intro trunc_pos) simp
  from assms(1) i t have qz: "\<bar>?n\<bar> < 10 ^ 28" "quantize_exp (snd inc) (dmul (of_int ?n) ?i) = Inr v"
    by (auto simp: floor_to_increment_def bindR_Inr_iff dfloordiv_def split: if_splits)
  from qz(1) show "?n < 10 ^ 28" by linarith
  have e: "of_int ?n * ?i = of_int (?n * fst inc) * 10 powi (snd inc)" by (simp add: scaled_val_def)
  have "(0::rat) < 10 powi snd inc" by simp
  then have "0 < fst inc" using i unfolding scaled_val_def by (metis mult_pos_pos of_int_0_less_iff zero_less_mult_pos2)
  then have "0 \<le> ?n * fst inc" using n by simp
  from quantize_exp_exact [OF _ this, of "snd inc" v] qz(2) show "v = of_int ?n * ?i"
    unfolding dmul_def e by blast
qed

lemma floor_to_increment_bounds:
  assumes "floor_to_increment q inc = Inr v" and "0 < q"
  shows "0 \<le> v" "v \<le> q" "q < v + scaled_val inc" "on_increment v inc = Inr True"
proof -
  let ?i = "scaled_val inc" let ?n = "\<lfloor>q / ?i\<rfloor>"
  note f = floor_to_increment_Inr [OF assms]
  have "of_int ?n * ?i \<le> q" by (metis f(1) of_int_floor_le pos_le_divide_eq)
  moreover have "q < (of_int ?n + 1) * ?i" by (metis f(1) floor_correct pos_divide_less_eq of_int_1 of_int_add)
  ultimately show "v \<le> q" "q < v + ?i" unfolding f(2) by (simp_all add: algebra_simps)
  have n: "0 \<le> ?n" using f(1) assms(2) by simp
  then show "0 \<le> v" unfolding f(2) using f(1) by simp
  have "v / ?i = of_int ?n" unfolding f(2) using f(1) by simp
  then show "on_increment v inc = Inr True"
    using f n by (simp add: on_increment_def drem_def trunc_pos)
qed

lemma scaled_one [simp]: "scaled_val (1, 0) = 1"
  by (simp add: scaled_val_def)

lemma is_whole_iff: "is_whole q \<longleftrightarrow> (\<exists>n. q = of_int n)"
  by (metis half_even_of_int is_whole_def)

lemma shape_whole_Inr:
  assumes "shape_whole q = Inr s" and "0 < q" and "sq_refusal s = None"
  shows "0 < sq_quantity s" "sq_quantity s \<le> q" "q < sq_quantity s + 1" "is_whole (sq_quantity s)"
proof -
  from assms obtain w where w: "floor_to_increment q (1, 0) = Inr w" "sq_quantity s = w" "w \<noteq> 0"
    by (auto simp: shape_whole_def bindR_Inr_iff split: if_splits)
  note b = floor_to_increment_bounds [OF w(1) assms(2)]
  show "sq_quantity s \<le> q" "q < sq_quantity s + 1" using b w(2) by simp_all
  show "0 < sq_quantity s" using b(1) w(2,3) by simp
  show "is_whole (sq_quantity s)" using floor_to_increment_Inr(2) [OF w(1) assms(2)] w(2) by (auto simp: is_whole_iff)
qed

lemma shape_crypto_Inr:
  assumes "shape_crypto t q = Inr s" and "0 < q" and "sq_refusal s = None"
  obtains inc m where "tc_increment t = Some inc" "tc_min_order_size t = Some m" "0 < scaled_val inc" "0 < m"
    "m \<le> sq_quantity s" "sq_quantity s \<le> q" "q < sq_quantity s + scaled_val inc" "on_increment (sq_quantity s) inc = Inr True"
proof -
  from assms(1,3) obtain inc m f where *: "tc_increment t = Some inc" "tc_min_order_size t = Some m" "0 < scaled_val inc" "0 < m"
    "floor_to_increment q inc = Inr f" "sq_quantity s = f" "m \<le> f"
    by (auto simp: shape_crypto_def bindR_Inr_iff split: option.splits if_splits)
  show ?thesis
    by (rule that [OF *(1-4)]) (use floor_to_increment_bounds [OF *(5) assms(2)] *(6,7) in auto)
qed

subsection \<open>Bands and reasons\<close>

lemma band_for_cases:
  "band_for e = (if 2000 \<le> e then FULL else if 500 \<le> e then STANDARD else if 100 \<le> e then FRACTIONAL
     else if 50 \<le> e then MICRO_PLUS else if 20 \<le> e then MICRO else BELOW_MINIMUM)"
  by (simp add: band_for_def BAND_THRESHOLDS_def)

lemma add_reason_not_Nil [simp]: "add_reason r rs \<noteq> []"
  by (cases rs) (auto simp: add_reason_def)

lemma add_if_Nil [simp]: "add_if c r rs = [] \<longleftrightarrow> \<not> c \<and> rs = []"
  by (simp add: add_if_def)

lemma add_if_not_Nil: "rs \<noteq> [] \<Longrightarrow> add_if c r rs \<noteq> []"
  by simp

definition account_verified :: "account_evidence \<Rightarrow> time \<Rightarrow> bool" where
  "account_verified a now \<longleftrightarrow> evidence_fresh (av_received_at a) now \<and> av_status a = Some ''ACTIVE''
     \<and> av_trading_blocked a = Some False \<and> av_account_blocked a = Some False \<and> av_trade_suspended a = Some False
     \<and> av_suspend_trade a = Some False \<and> av_closing_only a = Some False \<and> av_multiplier a \<in> {Some 2, Some 4}"

lemma opt_bool_False: "f = Some False \<longleftrightarrow> f \<noteq> None \<and> f \<noteq> Some True"
  by (cases f) auto

lemma core_account_exact: "core_account_reasons a now = [] \<longleftrightarrow> account_verified a now"
  by (auto simp: core_account_reasons_def account_verified_def Let_def ACCEPTED_ACCOUNT_MULTIPLIERS_def opt_bool_False
      split: option.splits if_splits)

subsection \<open>Properties\<close>

text \<open>
  What an allowed entry needs, as conditions on the evidence: a verified account, the class's
  permission, a band equity that unlocks the class, and fresh evidence that the asset trades
  in the form the band allows.
\<close>

definition class_equity_minimum :: "asset_class \<Rightarrow> dec option" where
  "class_equity_minimum c = (case c of EQUITY \<Rightarrow> Some 20 | CRYPTO \<Rightarrow> Some 100 | OPTION \<Rightarrow> Some 2000 | _ \<Rightarrow> None)"

definition class_verified :: "account_evidence \<Rightarrow> dec \<Rightarrow> asset_caps \<Rightarrow> asset_class \<Rightarrow> bool" where
  "class_verified a e t c \<longleftrightarrow>
     (case c of
        EQUITY \<Rightarrow> 100 \<le> e \<or> tc_fractionable t = Some True \<and> av_fractional_trading a = Some True
      | CRYPTO \<Rightarrow> av_crypto_status a = Some ''ACTIVE'' \<and> av_non_marginable a \<noteq> None
          \<and> positive_opt (tc_min_order_size t) \<and> positive_opt (increment_value t)
      | OPTION \<Rightarrow> (case av_options_level a of None \<Rightarrow> False | Some n \<Rightarrow> 2 \<le> n)
      | _ \<Rightarrow> True)"

definition entry_verified :: "account_evidence \<Rightarrow> dec option \<Rightarrow> asset_caps \<Rightarrow> entry_proposal \<Rightarrow> bool" where
  "entry_verified a beq t p \<longleftrightarrow> account_verified a (ep_now p)
     \<and> (case (beq, class_equity_minimum (a_class (ep_asset p))) of (Some e, Some m) \<Rightarrow> m \<le> e | _ \<Rightarrow> False)
     \<and> evidence_fresh (tc_received_at t) (ep_now p) \<and> tc_active t = Some True \<and> tc_tradable t = Some True
     \<and> class_verified a (the beq) t (a_class (ep_asset p))"

lemma class_unlocked_iff:
  "class_unlocked (band_for e) c \<longleftrightarrow> (case class_equity_minimum c of None \<Rightarrow> False | Some m \<Rightarrow> m \<le> e)"
  by (cases c) (auto simp: class_unlocked_def band_for_cases class_equity_minimum_def)

lemma usable_caps_active: "tc_active (usable_caps t now) = Some True \<longleftrightarrow> evidence_fresh (tc_received_at t) now \<and> tc_active t = Some True"
  by (simp add: usable_caps_def)

lemma usable_caps_fresh: "evidence_fresh (tc_received_at t) now \<Longrightarrow> usable_caps t now = t"
  by (simp add: usable_caps_def)

lemma policy_allowed_iff:
  "xp_allowed (evaluate_entry_policy a (Some e) t p) \<longleftrightarrow>
     account_verified a (ep_now p) \<and> class_permission_reason a (a_class (ep_asset p)) = None \<and> band_for e \<noteq> BELOW_MINIMUM
     \<and> class_unlocked (band_for e) (a_class (ep_asset p)) \<and> evidence_fresh (tc_received_at t) (ep_now p)
     \<and> tc_active t = Some True \<and> tc_tradable t = Some True
     \<and> (a_class (ep_asset p) = EQUITY \<longrightarrow> band_for e \<in> {MICRO, MICRO_PLUS} \<longrightarrow>
          tc_fractionable t = Some True \<and> av_fractional_trading a = Some True)
     \<and> (a_class (ep_asset p) = CRYPTO \<longrightarrow> positive_opt (tc_min_order_size t) \<and> positive_opt (increment_value t))"
proof (cases "evidence_fresh (tc_received_at t) (ep_now p)")
  case True
  then show ?thesis
    by (auto simp: evaluate_entry_policy_def Let_def refused_def core_account_exact usable_caps_fresh split: option.splits)
next
  case False
  then have "tc_active (usable_caps t (ep_now p)) \<noteq> Some True" by (simp add: usable_caps_active)
  then show ?thesis using False
    by (auto simp: evaluate_entry_policy_def Let_def refused_def core_account_exact)
qed

text \<open>The entry policy allows an entry exactly when every piece of evidence it needs is known
  and permits it (no unknown, stale or missing field is ever permissive), it allows exactly
  when it gives no reason, and the band equity it needs is the class's own minimum.\<close>

theorem dbae_policy_exact:
  "(xp_allowed (evaluate_entry_policy a beq t p) \<longleftrightarrow> entry_verified a beq t p)
    \<and> (xp_allowed (evaluate_entry_policy a beq t p) \<longleftrightarrow> xp_reasons (evaluate_entry_policy a beq t p) = [])"
proof
  show "xp_allowed (evaluate_entry_policy a beq t p) \<longleftrightarrow> entry_verified a beq t p"
  proof (cases beq)
    case None
    then show ?thesis by (simp add: evaluate_entry_policy_def Let_def refused_def entry_verified_def)
  next
    case (Some e)
    show ?thesis
      unfolding Some policy_allowed_iff
      by (cases "a_class (ep_asset p)")
        (auto simp: class_unlocked_def entry_verified_def class_verified_def class_unlocked_iff class_equity_minimum_def band_for_cases
          class_permission_reason_def REQUIRED_OPTIONS_LEVEL_def split: option.splits)
  qed
  show "xp_allowed (evaluate_entry_policy a beq t p) \<longleftrightarrow> xp_reasons (evaluate_entry_policy a beq t p) = []"
    by (auto simp: evaluate_entry_policy_def Let_def refused_def)
qed

lemma shape_bounds:
  assumes "shape_quantity p t c q = Inr s" and "sq_refusal s = None"
  shows "0 < sq_quantity s \<and> sq_quantity s \<le> q \<and> quantity_supported p t c (sq_quantity s) = Inr None
    \<and> q < sq_quantity s + (case (sq_rule s, increment_value t) of (CryptoIncrement, Some i) \<Rightarrow> i | _ \<Rightarrow> 1)"
proof -
  from assms(1) have ok: "xp_allowed p" "0 < q" and s: "Inr s = (if c = CRYPTO then shape_crypto t q
      else if c = EQUITY \<and> xp_fractional p then Inr \<lparr>sq_quantity = q, sq_rule = Unchanged, sq_refusal = None\<rparr> else shape_whole q)"
    by (auto simp: shape_quantity_def require_shapable_def res_iffs)
  show ?thesis
  proof (cases "c = CRYPTO")
    case True
    with s have sc: "shape_crypto t q = Inr s" by simp
    from sc have rule: "sq_rule s = CryptoIncrement"
      by (auto simp: shape_crypto_def bindR_Inr_iff split: option.splits if_splits)
    obtain inc m where i: "tc_increment t = Some inc" "tc_min_order_size t = Some m" "0 < scaled_val inc" "0 < m"
      "m \<le> sq_quantity s" "sq_quantity s \<le> q" "q < sq_quantity s + scaled_val inc" "on_increment (sq_quantity s) inc = Inr True"
      by (rule shape_crypto_Inr [OF sc ok(2) assms(2)])
    then show ?thesis using True rule by (simp add: quantity_supported_def increment_value_def)
  next
    case False
    show ?thesis
    proof (cases "c = EQUITY \<and> xp_fractional p")
      case True
      then show ?thesis using s ok False by (simp add: quantity_supported_def)
    next
      case whole: False
      with False s have sw: "shape_whole q = Inr s" by simp
      then have "sq_rule s = WholeShares" by (auto simp: shape_whole_def bindR_Inr_iff)
      with shape_whole_Inr [OF sw ok(2) assms(2)] False show ?thesis by (simp add: quantity_supported_def)
    qed
  qed
qed

text \<open>C15: shaping a quantity rounds down only, by less than one increment, and what it accepts is
  never refused at the exit for its shape: the protective exit of a shaped quantity is
  refused only when its value at the stop is below the liquidation threshold.\<close>

theorem shaped_quantity_can_exit:
  assumes "shape_quantity p t (a_class (ep_asset ep)) q = Inr s" and "sq_refusal s = None"
    and "contract_multiplier_of (ep_asset ep) = Inr m"
  shows "0 < sq_quantity s \<and> sq_quantity s \<le> q
    \<and> exit_feasible p t ep (sq_quantity s) =
        Inr (if liquidation_threshold t (ep_stop_price ep) \<le> dmul (dmul (sq_quantity s) (ep_stop_price ep)) m
             then None else Some ''DBAE_SUB_MINIMUM_LIQUIDATION_UNVERIFIED'')
    \<and> q < sq_quantity s + (case (sq_rule s, increment_value t) of
            (CryptoIncrement, Some i) \<Rightarrow> i | _ \<Rightarrow> 1)"
proof -
  from assms(1) have "xp_allowed p" by (auto simp: shape_quantity_def require_shapable_def res_iffs)
  with shape_bounds [OF assms(1,2)] assms(3) show ?thesis
    by (simp add: exit_feasible_def require_shapable_def SUB_MINIMUM_LIQUIDATION_EVIDENCE_def)
qed

definition demo_policy :: execution_policy where
  "demo_policy = \<lparr>xp_allowed = True, xp_reasons = [], xp_band = FRACTIONAL, xp_band_equity = Some 150, xp_fractional = True\<rparr>"

definition demo_caps :: asset_caps where
  "demo_caps = \<lparr>tc_active = Some True, tc_tradable = Some True, tc_fractionable = Some True, tc_min_order_size = Some (1 / 10),
     tc_increment = Some (5, -2), tc_price_increment = None, tc_received_at = 0\<rparr>"

definition demo_proposal :: entry_proposal where
  "demo_proposal = \<lparr>ep_asset = demo_asset CRYPTO None ''BTC'', ep_price = 30, ep_stop_price = 20, ep_environment = AlpacaPaper, ep_now = 0\<rparr>"

text \<open>2.33 units at an increment of 0.05 become 2.30; the exit at the stop is worth 46.\<close>

theorem shaped_quantity_can_exit_witness:
  "exit_feasible demo_policy demo_caps demo_proposal (23 / 10) = Inr None"
proof -
  have v: "scaled_val (5, -2) = 1 / 20" by (simp add: scaled_val_def power_int_minus)
  have f: "\<lfloor>233 / 5 :: rat\<rfloor> = 46" by (rule floor_unique) simp_all
  have "ctx (of_int 23 / 10 ^ 1) = of_int 23 / 10 ^ 1" by (rule ctx_frac) simp
  then have c: "ctx (23 / 10) = 23 / 10" by simp
  have h: "half_even 230 = 230" using half_even_of_int [of 230] by simp
  have "floor_to_increment (233 / 100) (5, -2) = Inr (23 / 10)"
    using h f by (simp add: c floor_to_increment_def v dfloordiv_def trunc_pos dmul_def quantize_exp_def power_int_minus)
  then have s: "shape_quantity demo_policy demo_caps (a_class (ep_asset demo_proposal)) (233 / 100)
      = Inr \<lparr>sq_quantity = 23 / 10, sq_rule = CryptoIncrement, sq_refusal = None\<rparr>"
    by (simp add: shape_quantity_def require_shapable_def demo_policy_def demo_proposal_def demo_asset_def shape_crypto_def demo_caps_def v)
  have m: "contract_multiplier_of (ep_asset demo_proposal) = Inr 1"
    by (simp add: demo_proposal_def demo_asset_def contract_multiplier_of_def)
  show ?thesis
    using shaped_quantity_can_exit [OF s _ m]
    by (simp add: demo_caps_def demo_proposal_def liquidation_threshold_def dmul_def)
qed

end
