(* ===== verification/Funding.thy ===== *)
theory Funding
  imports Portfolio_View Dbae
begin

text \<open>
  \<open>dbae/funding.py\<close>: the funding a buy keeps committed from its approval until a fill is
  attributed to it or its order ends, derived from durable intents and settlement events at
  every call, and the funding left for a new buy. The frozen block of an approved intent is
  the nested mapping \<open>dbae\<close> of its risk snapshot.
\<close>

record pending_funding =
  pf_total :: dec
  pf_mismatches :: "string list"
  pf_unpriced :: "string list"

definition buy_fee_pct :: "asset_class \<Rightarrow> dec" where
  "buy_fee_pct c = FEE_PCT_PER_SIDE c"

definition projected_buy_fee :: "asset_class \<Rightarrow> dec \<Rightarrow> dec" where
  "projected_buy_fee c notional = dquot (dmul notional (buy_fee_pct c)) 100"

definition funding_for :: "dec \<Rightarrow> dec \<Rightarrow> dec \<Rightarrow> dec \<Rightarrow> dec \<Rightarrow> dec" where
  "funding_for quantity price multiplier slippage_pct fee_pct =
     (let notional = dmul (dmul quantity price) multiplier
      in dadd (dmul notional (dadd 1 (dquot slippage_pct 100))) (dquot (dmul notional fee_pct) 100))"

definition max_funding :: "dec \<Rightarrow> dec \<Rightarrow> asset_identity \<Rightarrow> dec \<Rightarrow> dec res" where
  "max_funding submitted price asset slippage_pct =
     bindR (contract_multiplier_of asset) (\<lambda>m. Inr (funding_for submitted price m slippage_pct (buy_fee_pct (a_class asset))))"

definition funding_rate :: "asset_class \<Rightarrow> dec \<Rightarrow> dec" where
  "funding_rate c slippage_pct = dadd (dadd 1 (dquot slippage_pct 100)) (dquot (buy_fee_pct c) 100)"

definition fundable_notional :: "dec \<Rightarrow> asset_class \<Rightarrow> dec \<Rightarrow> dec res" where
  "fundable_notional available c slippage_pct = ddiv available (funding_rate c slippage_pct)"

subsection \<open>The frozen block\<close>

definition frozen_decimal :: "(string \<Rightarrow> meta_value option) \<Rightarrow> string \<Rightarrow> bool \<Rightarrow> dec option" where
  "frozen_decimal block key allow_zero =
     (case block key of
        Some (MNum v) \<Rightarrow> if v < 0 \<or> v = 0 \<and> \<not> allow_zero then None else Some v
      | _ \<Rightarrow> None)"

definition dbae_block :: "trade_intent \<Rightarrow> (string \<Rightarrow> meta_value option) option" where
  "dbae_block t = (case ti_risk_snapshot t ''dbae'' of Some (MMap b) \<Rightarrow> Some (map_of b) | _ \<Rightarrow> None)"

definition frozen_max_funding :: "(string \<Rightarrow> meta_value option) \<Rightarrow> dec \<Rightarrow> trade_intent \<Rightarrow> dec option res" where
  "frozen_max_funding block submitted t =
     (case (frozen_decimal block ''max_funding'' False, frozen_decimal block ''reference_price'' False,
            frozen_decimal block ''contract_multiplier'' False, frozen_decimal block ''slippage_pct'' True,
            frozen_decimal block ''fee_pct'' True) of
        (Some frozen, Some price, Some multiplier, Some slippage, Some fee) \<Rightarrow>
          if ti_reference_price t \<noteq> Some price then Inr None
          else bindR (contract_multiplier_of (ti_asset t)) (\<lambda>m.
            if multiplier \<noteq> m then Inr None
            else if funding_for submitted price multiplier slippage fee \<noteq> frozen then Inr None
            else Inr (Some frozen))
      | _ \<Rightarrow> Inr None)"

subsection \<open>The outstanding commitment\<close>

definition flag_unpriced :: "trade_intent \<Rightarrow> pending_funding \<Rightarrow> pending_funding" where
  "flag_unpriced t a = a\<lparr>pf_unpriced := pf_unpriced a @ [ti_id t]\<rparr>"

text \<open>The commitment of one buy whose unattributed quantity \<open>u\<close> of \<open>recorded\<close> units is still open.\<close>

definition committed_funding :: "risk_limits \<Rightarrow> trade_intent \<Rightarrow> dec \<Rightarrow> dec \<Rightarrow> dec \<Rightarrow> dec \<Rightarrow> dec res" where
  "committed_funding limits t frozen recorded price u =
     bindR (max_funding u price (ti_asset t) (slippage_limit_for limits (a_class (ti_asset t)))) (\<lambda>current.
       Inr (max (dquot (dmul frozen u) recorded) current))"

definition add_pending :: "risk_limits \<Rightarrow> pending_funding \<Rightarrow> intent_remainder \<Rightarrow> pending_funding res" where
  "add_pending limits a r =
     (let t = rm_intent r; field_qty = rm_requested r; attributed = dsub field_qty (rm_remaining r); block = dbae_block t;
          recorded = (case block of None \<Rightarrow> None | Some b \<Rightarrow> frozen_decimal b ''submitted_quantity'' False)
      in if ti_side t \<noteq> BUY then Inr a
         else if recorded = None \<and> ti_risk_snapshot t ''dbae'' \<noteq> None then Inr (flag_unpriced t a)
         else let differs = (recorded \<noteq> None \<and> recorded \<noteq> Some field_qty);
                  a1 = (if differs then a\<lparr>pf_mismatches := pf_mismatches a @ [ti_id t]\<rparr> else a);
                  submitted = (if differs then max field_qty (the recorded) else field_qty);
                  u = dsub submitted attributed
         in if u \<le> 0 then Inr a1
            else bindR (case (block, recorded) of
                          (Some b, Some q) \<Rightarrow> frozen_max_funding b q t
                        | _ \<Rightarrow> Inr None) (\<lambda>frozen.
              case (frozen, recorded, ti_reference_price t) of
                (Some fz, Some rq, Some price) \<Rightarrow>
                  bindR (committed_funding limits t fz rq price u) (\<lambda>cf. Inr (a1\<lparr>pf_total := dadd (pf_total a1) cf\<rparr>))
              | _ \<Rightarrow> Inr (flag_unpriced t a1)))"

definition pending_buy_funding :: "risk_limits \<Rightarrow> books \<Rightarrow> pending_funding res" where
  "pending_buy_funding limits bk =
     bindR (pending_intent_remainders bk) (foldR (add_pending limits) \<lparr>pf_total = 0, pf_mismatches = [], pf_unpriced = []\<rparr>)"

definition funding_power :: "account_evidence \<Rightarrow> asset_class \<Rightarrow> dec option" where
  "funding_power a c = (if c = CRYPTO then av_non_marginable a else av_buying_power a)"

definition funding_available :: "account_evidence \<Rightarrow> asset_class \<Rightarrow> dec \<Rightarrow> dec option" where
  "funding_available a c pending =
     (case (av_cash a, funding_power a c) of
        (Some cash, Some pw) \<Rightarrow>
          if cash < 0 \<or> pw < 0 \<or> pending < 0 then None else Some (min (dsub cash pending) (dsub pw pending))
      | _ \<Rightarrow> None)"

subsection \<open>Rounding slack\<close>

text \<open>One rounding changes a value by at most the factor \<open>slack\<close>, either way.\<close>

definition slack :: rat where "slack = 1 + 1 / 10 ^ 26"

lemma slack_ge: "1 \<le> slack"
  by (simp add: slack_def)

lemma ctx_le_slack: "0 \<le> x \<Longrightarrow> ctx x \<le> slack * x"
  using ctx_upper [of x] mult_right_mono [of "1 + rel_eps" slack x] by (simp add: slack_def rel_eps_def mult.commute)

lemma le_slack_ctx:
  assumes "0 \<le> x"
  shows "x \<le> slack * ctx x"
proof -
  have "1 \<le> slack * (1 - rel_eps)" by (simp add: slack_def rel_eps_def)
  then have "x * 1 \<le> x * (slack * (1 - rel_eps))" using assms by (rule mult_left_mono)
  also have "\<dots> = slack * (x * (1 - rel_eps))" by simp
  also have "\<dots> \<le> slack * ctx x" using ctx_lower [OF assms] slack_ge by (intro mult_left_mono) auto
  finally show ?thesis by simp
qed

lemma slack_absorbed: "slack ^ 13 * (99 / 100) \<le> 1"
proof -
  have "slack ^ 13 \<le> (10001 / 10000) ^ 13" using slack_ge by (intro power_mono) (auto simp: slack_def)
  also have "\<dots> \<le> 100 / 99" by (simp add: power_divide)
  finally show ?thesis by simp
qed

text \<open>The funding of a buy against its order notional at the fundable rate.\<close>

lemma funding_le_rate:
  assumes "0 < q" "0 < p" "0 < m" "0 \<le> s" "0 \<le> buy_fee_pct c"
  shows "funding_for q p m s (buy_fee_pct c) \<le> slack ^ 7 * (q * p * m) * funding_rate c s"
proof -
  let ?fee = "buy_fee_pct c" let ?n = "dmul (dmul q p) m"
  define a where "a = dadd 1 (dquot s 100)"
  define f where "f = dquot ?fee 100"
  have k: "0 < slack" using slack_ge by simp
  have a: "0 \<le> a" "0 \<le> f" using assms by (simp_all add: a_def f_def dadd_nonneg dquot_nonneg)
  have n0: "0 \<le> ?n" using assms by (simp add: dmul_nonneg)
  have "dmul q p \<le> slack * (q * p)" unfolding dmul_def using assms by (intro ctx_le_slack) simp
  then have "dmul q p * m \<le> slack * (q * p) * m" using assms by (intro mult_right_mono) auto
  moreover have "?n \<le> slack * (dmul q p * m)"
    using assms dmul_nonneg [of q p] unfolding dmul_def [of "dmul q p"] by (intro ctx_le_slack) simp
  ultimately have "?n \<le> slack * (slack * (q * p) * m)" using k by (meson mult_le_cancel_left_pos order_trans)
  then have n: "?n \<le> slack ^ 2 * (q * p * m)" by (simp add: power2_eq_square algebra_simps)
  have "dmul ?n a \<le> slack * (?n * a)" unfolding dmul_def [of ?n] using n0 a by (intro ctx_le_slack) simp
  also have "\<dots> \<le> slack ^ 3 * (?n * a)" using slack_ge n0 a by (intro mult_right_mono) (auto simp: power_increasing [of 1 3 slack, simplified])
  finally have 1: "dmul ?n a \<le> slack ^ 3 * (?n * a)" .
  have "dmul ?n ?fee \<le> slack * (?n * ?fee)" unfolding dmul_def [of ?n] using n0 assms by (intro ctx_le_slack) simp
  then have "dmul ?n ?fee / 100 \<le> slack * (?n * ?fee) / 100" by (rule divide_right_mono) simp
  moreover have "dquot (dmul ?n ?fee) 100 \<le> slack * (dmul ?n ?fee / 100)"
    unfolding dquot_def using n0 assms by (intro ctx_le_slack) (simp add: dmul_nonneg)
  ultimately have "dquot (dmul ?n ?fee) 100 \<le> slack * (slack * (?n * ?fee) / 100)" using k by (meson mult_le_cancel_left_pos order_trans)
  also have "\<dots> = slack ^ 2 * ?n * (?fee / 100)" by (simp add: power2_eq_square)
  also have "\<dots> \<le> slack ^ 2 * ?n * (slack * f)"
    unfolding f_def dquot_def using n0 assms by (intro mult_left_mono le_slack_ctx) auto
  also have "\<dots> = slack ^ 3 * (?n * f)" by (simp add: power_numeral_reduce)
  finally have 2: "dquot (dmul ?n ?fee) 100 \<le> slack ^ 3 * (?n * f)" .
  have af: "a + f \<le> slack * funding_rate c s"
    unfolding funding_rate_def a_def [symmetric] f_def [symmetric] dadd_def [of a] using a by (intro le_slack_ctx) simp
  have "funding_for q p m s ?fee = ctx (dmul ?n a + dquot (dmul ?n ?fee) 100)"
    unfolding funding_for_def Let_def a_def [symmetric] dadd_def [of "dmul ?n a"] by (rule refl)
  also have "\<dots> \<le> slack * (dmul ?n a + dquot (dmul ?n ?fee) 100)"
    using n0 a assms by (intro ctx_le_slack) (simp add: dmul_nonneg dquot_nonneg)
  also have "\<dots> \<le> slack * (slack ^ 3 * (?n * a) + slack ^ 3 * (?n * f))"
    by (rule mult_left_mono [OF add_mono [OF 1 2]]) (use k in simp)
  also have "\<dots> = slack * (slack ^ 3 * ?n * (a + f))" by (simp add: algebra_simps)
  also have "\<dots> \<le> slack * (slack ^ 3 * ?n * (slack * funding_rate c s))"
    using af k n0 by (intro mult_left_mono) auto
  also have "\<dots> = slack ^ 5 * funding_rate c s * ?n" by (simp add: power_numeral_reduce)
  also have "\<dots> \<le> slack ^ 5 * funding_rate c s * (slack ^ 2 * (q * p * m))"
    using n k a by (intro mult_left_mono) (auto simp: funding_rate_def dadd_nonneg a_def f_def)
  also have "\<dots> = slack ^ 7 * (q * p * m) * funding_rate c s" by (simp add: power_numeral_reduce)
  finally show ?thesis .
qed

text \<open>What the risk engine's cash cap means for the exact notional.\<close>

lemma within_cash_notional:
  assumes "within_cash cash 0 u c q" and "0 < u" and "0 < q"
  shows "0 < cash \<and> q * u \<le> slack ^ 3 * (99 / 100) * cash"
proof -
  have k: "1 \<le> slack" "0 < slack" using slack_ge by simp_all
  let ?b = "dmul cash (dsub 1 (dquot 1 100))"
  have pct: "dsub 1 (dquot 1 100) = 99 / 100"
  proof -
    have "ctx (of_int 1 / 10 ^ 2) = of_int 1 / 10 ^ 2" "ctx (of_int 99 / 10 ^ 2) = of_int 99 / 10 ^ 2"
      by (rule ctx_frac, simp)+
    then have c: "ctx (1 / 100) = 1 / 100" "ctx (99 / 100) = 99 / 100" by simp_all
    show ?thesis unfolding dsub_def dquot_def c(1) by (simp add: c(2))
  qed
  have b: "?b \<le> slack * (99 / 100 * cash)" if "0 < ?b"
  proof -
    have "0 < cash" using that unfolding pct dmul_def by (simp add: dctx.pos_iff zero_less_mult_iff)
    then show ?thesis unfolding pct dmul_def by (subst mult.commute [of "99 / 100"]) (rule ctx_le_slack, simp)
  qed
  have pos: "0 < ?b \<and> q * u \<le> slack ^ 2 * ?b"
  proof (cases "dadd (dmul q u) 0 \<le> ?b")
    case True
    have d: "dadd (dmul q u) 0 = ctx (q * u)" by (simp add: dadd_def dmul_def)
    have "0 < ctx (q * u)" using assms by (simp add: ctx_pos)
    then have p: "0 < ?b" using True d by linarith
    have "q * u \<le> slack * ctx (q * u)" using assms by (intro le_slack_ctx) simp
    also have "\<dots> \<le> slack * ?b" using True d k by (intro mult_left_mono) auto
    also have "\<dots> \<le> slack * (slack * ?b)" using k p by simp
    finally show ?thesis using p by (simp add: power2_eq_square algebra_simps)
  next
    case False
    define h where "h = max 0 (dsub ?b 0)"
    from False assms(1,2) have "q \<le> round_qty (dquot h u) c"
      unfolding within_cash_def check_cash_sufficiency_def Let_def h_def by (simp add: capped_at_def)
    also have "\<dots> \<le> max h 0 / u * (1 + rel_eps)" by (rule round_dquot_le [OF assms(2)])
    finally have *: "q * u \<le> h * (1 + rel_eps)" using assms(2) by (simp add: h_def pos_le_divide_eq max.commute field_simps)
    have "0 < q * u" using assms by simp
    with * have "0 < h * (1 + rel_eps)" by linarith
    then have h: "0 < h" using rel_eps_pos by (simp add: zero_less_mult_iff)
    then have hb: "h = ?b" by (auto simp: h_def dsub_def max_def split: if_splits)
    have "1 + rel_eps \<le> slack ^ 2" by (simp add: slack_def rel_eps_def power2_eq_square)
    then have "h * (1 + rel_eps) \<le> h * slack ^ 2" using h by (intro mult_left_mono) auto
    with * have "q * u \<le> h * slack ^ 2" by (rule order_trans)
    with h show ?thesis unfolding hb by (simp add: mult.commute)
  qed
  have "slack ^ 2 * ?b \<le> slack ^ 2 * (slack * (99 / 100 * cash))" using b pos k by (intro mult_left_mono) auto
  moreover have "0 < cash" using pos unfolding pct dmul_def by (simp add: dctx.pos_iff zero_less_mult_iff)
  ultimately show ?thesis using pos by (simp add: power_numeral_reduce)
qed

lemma fundable_pos:
  assumes "fundable_notional av c s = Inr fn" and "0 < fn" and "0 \<le> s" and "0 \<le> buy_fee_pct c"
  shows "0 < av" and "0 < funding_rate c s" and "fn * funding_rate c s \<le> slack * av"
proof -
  have a: "0 < dadd 1 (dquot s 100)"
    unfolding dadd_def using assms(3) by (intro ctx_pos add_pos_nonneg dquot_nonneg) auto
  show r: "0 < funding_rate c s"
    unfolding funding_rate_def dadd_def [of "dadd 1 (dquot s 100)"] using assms(4) a
    by (intro ctx_pos add_pos_nonneg dquot_nonneg) auto
  from assms(1) r have fn: "fn = ctx (av / funding_rate c s)"
    by (auto simp: fundable_notional_def ddiv_def dquot_def split: if_splits)
  with assms(2) r show av: "0 < av" by (simp add: dctx.pos_iff zero_less_divide_iff)
  have "fn \<le> slack * (av / funding_rate c s)" unfolding fn using av r by (intro ctx_le_slack) simp
  then show "fn * funding_rate c s \<le> slack * av" using r by (simp add: field_simps)
qed

lemma funding_fits:
  assumes "funding_available acct (ri_class i) pending = Some av"
    and "fundable_notional av (ri_class i) s = Inr fn" and "0 \<le> s"
    and "ro_available_cash ev = Some fn" and "ro_estimated_fees ev = 0"
    and "evaluate_risk i (Some sn) l ev = Inr d" and "rd_approved d" and "ri_side i = BUY" and "\<not> ro_protective_exit ev"
    and "ctx (ri_quantity i) = ri_quantity i" and "0 \<le> ri_quantity i" and "0 < ri_multiplier i"
    and "0 < sn_total_equity sn" and "0 < ri_price i"
    and "0 < q" and "q \<le> rd_quantity d"
  shows "funding_for q (ri_price i) (ri_multiplier i) s (buy_fee_pct (ri_class i)) \<le> av
    \<and> (\<exists>cash pw. av_cash acct = Some cash \<and> funding_power acct (ri_class i) = Some pw
         \<and> pending + funding_for q (ri_price i) (ri_multiplier i) s (buy_fee_pct (ri_class i)) \<le> min cash pw)"
proof -
  let ?c = "ri_class i" let ?fee = "buy_fee_pct ?c" let ?u = "unit_notional i" let ?p = "ri_price i" let ?m = "ri_multiplier i"
  let ?F = "funding_for q ?p ?m s ?fee"
  have k: "1 \<le> slack" "0 < slack" using slack_ge by simp_all
  have fee: "0 \<le> ?fee" by (simp add: buy_fee_pct_def FEE_PCT_PER_SIDE_def)
  have u: "0 < ?u" using assms(12,14) by (simp add: unit_notional_def dmul_pos)
  from evaluate_entry_cases [OF assms(6-9)] obtain q0 rs where se: "size_entry i sn l ev = Inr (q0, rs)"
    and q0: "minimum_quantity ?c \<le> q0" "rd_quantity d = max 0 q0" by blast
  have q00: "0 < q0" using q0 minimum_quantity_pos [of ?c] by linarith
  have qq: "q \<le> q0" using assms(16) q0 q00 by simp
  have "cash_bound i ev q0"
    using size_entry_bounds [OF se _ assms(13,14) u] assms(10,11) by (simp add: qty_ok_def)
  then have "within_cash fn 0 ?u ?c q0" using assms(4,5) u by (simp add: cash_bound_def)
  from within_cash_notional [OF this u q00] have fn: "0 < fn" "q0 * ?u \<le> slack ^ 3 * (99 / 100) * fn" by auto
  note fp = fundable_pos [OF assms(2) fn(1) assms(3) fee]
  have "?p * ?m \<le> slack * ?u" unfolding unit_notional_def dmul_def using assms(12,14) by (intro le_slack_ctx) simp
  then have "q * (?p * ?m) \<le> q0 * (slack * ?u)" using qq assms(12,14) q00 by (intro mult_mono [of q q0 "?p * ?m" "slack * ?u"]) simp_all
  also have "\<dots> = slack * (q0 * ?u)" by simp
  also have "\<dots> \<le> slack * (slack ^ 3 * (99 / 100) * fn)" using fn k by (intro mult_left_mono) auto
  finally have n: "q * ?p * ?m \<le> slack ^ 4 * (99 / 100) * fn" by (simp add: power_numeral_reduce mult.assoc)
  have "?F \<le> slack ^ 7 * (q * ?p * ?m) * funding_rate ?c s"
    by (rule funding_le_rate) (use assms fee in auto)
  also have "\<dots> \<le> slack ^ 7 * (slack ^ 4 * (99 / 100) * fn) * funding_rate ?c s"
    using n k fp by (intro mult_right_mono mult_left_mono) auto
  also have "\<dots> = slack ^ 11 * (99 / 100) * (fn * funding_rate ?c s)" by (simp add: power_numeral_reduce)
  also have "\<dots> \<le> slack ^ 11 * (99 / 100) * (slack * av)" using fp k by (intro mult_left_mono) auto
  finally have F: "?F \<le> slack ^ 12 * (99 / 100) * av" by (simp add: power_numeral_reduce)
  have s13: "slack ^ 12 * (99 / 100) * (slack * x) \<le> x" if "0 \<le> x" for x
  proof -
    have "slack ^ 12 * (99 / 100) * (slack * x) = slack ^ 13 * (99 / 100) * x" by (simp add: power_numeral_reduce)
    also have "\<dots> \<le> 1 * x" using slack_absorbed that by (rule mult_right_mono)
    finally show ?thesis by simp
  qed
  have "slack ^ 12 * (99 / 100) * av \<le> slack ^ 12 * (99 / 100) * (slack * av)"
    using k fp(1) by (intro mult_left_mono) auto
  with F s13 [of av] fp(1) have fav: "?F \<le> av" by linarith
  from assms(1) obtain cash pw where c: "av_cash acct = Some cash" "funding_power acct ?c = Some pw"
    and av: "av = min (dsub cash pending) (dsub pw pending)"
    by (auto simp: funding_available_def split: option.splits if_splits)
  have fits: "pending + ?F \<le> x" if "av \<le> dsub x pending" for x
  proof -
    have "0 < ctx (x - pending)" using that fp(1) by (simp add: dsub_def)
    then have x: "0 < x - pending" by (simp add: dctx.pos_iff)
    then have "av \<le> slack * (x - pending)" using that ctx_le_slack [of "x - pending"] by (simp add: dsub_def)
    then have "slack ^ 12 * (99 / 100) * av \<le> slack ^ 12 * (99 / 100) * (slack * (x - pending))"
      using k by (intro mult_left_mono) auto
    with F s13 [of "x - pending"] x show ?thesis by linarith
  qed
  show ?thesis using fav c fits [of cash] fits [of pw] av by simp
qed

subsection \<open>Properties\<close>

text \<open>C9: a buy the risk engine sizes against the fundable notional never overcommits the account:
  its own commitment, the slippage allowance and the fee included, at the approved quantity
  or at any smaller shaped one, together with the funding already committed to pending buys
  stays within the cash and within the buying power (for crypto the non-marginable one).\<close>

theorem approved_buy_fits_funding:
  assumes "funding_available acct (ri_class i) pending = Some av"
    and "fundable_notional av (ri_class i) s = Inr fn" and "0 \<le> s"
    and "ro_available_cash ev = Some fn" and "ro_estimated_fees ev = 0"
    and "evaluate_risk i (Some sn) l ev = Inr d" and "rd_approved d" and "ri_side i = BUY" and "\<not> ro_protective_exit ev"
    and "ctx (ri_quantity i) = ri_quantity i" and "0 \<le> ri_quantity i" and "0 < ri_multiplier i"
    and "0 < sn_total_equity sn" and "0 < ri_price i"
    and "0 < q" and "q \<le> rd_quantity d"
  shows "funding_for q (ri_price i) (ri_multiplier i) s (buy_fee_pct (ri_class i)) \<le> av
    \<and> (\<exists>cash pw. av_cash acct = Some cash \<and> funding_power acct (ri_class i) = Some pw
         \<and> pending + funding_for q (ri_price i) (ri_multiplier i) s (buy_fee_pct (ri_class i)) \<le> min cash pw)"
  by (rule funding_fits [OF assms])

subsection \<open>Witnesses\<close>

definition demo_account :: account_evidence where
  "demo_account = \<lparr>av_status = Some ''ACTIVE'', av_trading_blocked = Some False, av_account_blocked = Some False,
     av_trade_suspended = Some False, av_suspend_trade = Some False, av_closing_only = Some False,
     av_fractional_trading = Some True, av_equity = Some 2000, av_cash = Some 2600, av_buying_power = Some 5000,
     av_non_marginable = None, av_multiplier = Some 2, av_crypto_status = None, av_options_level = None, av_received_at = 0\<rparr>"

definition demo_funded :: risk_eval_options where
  "demo_funded = (demo_options False False)\<lparr>ro_available_cash := Some 2100\<rparr>"

lemma demo_funded_decision: "evaluate_risk (demo_input BUY) (Some demo_snapshot) demo_limits demo_funded
    = Inr \<lparr>rd_approved = True, rd_quantity = 20, rd_reasons = [CAPPED_BY_MAX_POSITION_PCT 20]\<rparr>"
proof -
  have "ctx (of_int 1 / 10 ^ 2) = of_int 1 / 10 ^ 2" "ctx (of_int 99 / 10 ^ 2) = of_int 99 / 10 ^ 2"
    by (rule ctx_frac, simp)+
  then have c: "ctx (1 / 100) = 1 / 100" "ctx (99 / 100) = 99 / 100" by simp_all
  have s: "size_entry (demo_input BUY) demo_snapshot demo_limits demo_funded = Inr (20, [CAPPED_BY_MAX_POSITION_PCT 20])"
    by (simp add: size_entry_def size_by_risk_def scaled_budget_def confidence_multiplier_def shrink_to_def round_qty_def precision_of_def
      cap_position_def position_headroom_def cap_headroom_def sector_headroom_def sector_value_def cap_exposure_def exposure_headroom_def
      cap_cash_def check_cash_sufficiency_def unit_notional_def capped_at_def ddiv_def to_integral_floor_def Let_def demo_risk_defs
      demo_funded_def dec_defs c)
  have r: "quote_reasons (demo_input BUY) demo_limits demo_funded = []" "entry_reasons (demo_input BUY) demo_snapshot demo_limits demo_funded = []"
    by (simp_all add: quote_reasons_def spread_reasons_def slippage_reasons_def drawdown_reasons_def cost_reasons_def entry_reasons_def
      Let_def demo_risk_defs demo_funded_def dneg_def)
  show ?thesis
    by (simp add: evaluate_risk_def r s) (simp add: demo_risk_defs demo_funded_def minimum_quantity_def unit_notional_def dec_defs)
qed

theorem approved_buy_fits_funding_witness:
  "500 + funding_for 20 100 1 0 0 \<le> min 2600 5000"
proof -
  have c: "ri_class (demo_input BUY) = EQUITY" "ri_price (demo_input BUY) = 100" "ri_multiplier (demo_input BUY) = 1"
    by (simp_all add: demo_input_def)
  have f: "buy_fee_pct EQUITY = 0" by (simp add: buy_fee_pct_def FEE_PCT_PER_SIDE_def)
  have a: "funding_available demo_account (ri_class (demo_input BUY)) 500 = Some 2100"
    by (simp add: funding_available_def funding_power_def demo_account_def c dsub_def)
  have n: "fundable_notional 2100 (ri_class (demo_input BUY)) 0 = Inr 2100"
    by (simp add: fundable_notional_def funding_rate_def ddiv_def c f dec_defs)
  have "av_cash demo_account = Some 2600" "funding_power demo_account EQUITY = Some 5000"
    by (simp_all add: demo_account_def funding_power_def)
  then show ?thesis
    using approved_buy_fits_funding [OF a n _ _ _ demo_funded_decision _ demo_input_sel(1) _ demo_input_sel(4,5,3,6,7), of 20]
    by (simp add: demo_funded_def demo_options_def c f)
qed

end
