(* ===== verification/Session.thy ===== *)
theory Session
  imports Repository
begin

text \<open>
  The trading session: \<open>models/session.py\<close>, \<open>risk/session.py\<close> and \<open>session_commands.py\<close>.

  Every change of the session is one transaction (\<open>transition_session\<close>) that re-reads the
  row, decides, and writes the session with its audit event. The seven decide functions of
  the source are the only callers, so a reachable session is one that a sequence of them
  produced. The interface \<open>guarded_transition\<close> is the contract each decide function keeps.

  A command's reads happen before its transaction, and another process may commit in
  between: \<open>race\<close> is what it commits, an arbitrary change of the database.
\<close>

record trading_session =
  ts_state :: session_state
  ts_active :: bool
  ts_updated_at :: time
  ts_kill_reason :: "string option"
  ts_kill_at :: "time option"
  ts_kill_reset :: bool
  ts_integrity_reason :: "string option"
  ts_integrity_reenable :: bool

fun session_state_value :: "session_state \<Rightarrow> string" where
  "session_state_value DISABLED = ''disabled''"
| "session_state_value ACTIVE = ''active''"
| "session_state_value RISK_STOPPED = ''risk_stopped''"
| "session_state_value SYSTEM_DEGRADED = ''system_degraded''"
| "session_state_value BROKER_UNAVAILABLE = ''broker_unavailable''"
| "session_state_value MARKET_CLOSED = ''market_closed''"
| "session_state_value MANUALLY_STOPPED = ''manually_stopped''"
| "session_state_value FINANCIAL_INTEGRITY_BLOCKED = ''financial_integrity_blocked''"

definition session_post_init :: "trading_session \<Rightarrow> trading_session res" where
  "session_post_init s =
     bindR (guardR (ts_state s = RISK_STOPPED \<longrightarrow> ts_kill_reset s) (ValueError ''risk_stopped session requires kill_switch_reset_required'')) (\<lambda>_.
     bindR (guardR (ts_state s = RISK_STOPPED \<longrightarrow> \<not> ts_active s) (ValueError ''risk_stopped session cannot be trading_active'')) (\<lambda>_.
     bindR (guardR (ts_state s = FINANCIAL_INTEGRITY_BLOCKED \<longrightarrow> ts_integrity_reenable s)
              (ValueError ''financial_integrity_blocked session requires manual_reenable_required'')) (\<lambda>_.
     bindR (guardR (ts_state s = FINANCIAL_INTEGRITY_BLOCKED \<longrightarrow> \<not> ts_active s)
              (ValueError ''financial_integrity_blocked session cannot be trading_active'')) (\<lambda>_.
     bindR (guardR (ts_state s = ACTIVE \<longrightarrow> \<not> ts_kill_reset s \<and> \<not> ts_integrity_reenable s)
              (ValueError ''active session cannot carry an unresolved kill-switch or integrity block'')) (\<lambda>_.
       Inr s)))))"

definition is_tradeable :: "trading_session \<Rightarrow> bool" where
  "is_tradeable s = (ts_state s = ACTIVE \<and> ts_active s)"

text \<open>The constructor call with the four latch fields left at their defaults.\<close>

definition plain_session :: "session_state \<Rightarrow> bool \<Rightarrow> time \<Rightarrow> trading_session" where
  "plain_session st active now =
     \<lparr>ts_state = st, ts_active = active, ts_updated_at = now, ts_kill_reason = None, ts_kill_at = None,
      ts_kill_reset = False, ts_integrity_reason = None, ts_integrity_reenable = False\<rparr>"

definition default_session :: "time \<Rightarrow> trading_session" where
  "default_session now = plain_session DISABLED False now"

definition load_session :: "time \<Rightarrow> trading_session option \<Rightarrow> trading_session" where
  "load_session now row = (case row of None \<Rightarrow> default_session now | Some s \<Rightarrow> s)"

subsection \<open>The execution gate\<close>

record session_decision =
  sdc_allowed :: bool
  sdc_reason :: string

definition execution_session_decision :: "trading_session \<Rightarrow> side \<Rightarrow> asset_class \<Rightarrow> bool \<Rightarrow> session_decision" where
  "execution_session_decision s sd cls protective_exit =
     (if protective_exit then \<lparr>sdc_allowed = True, sdc_reason = ''PROTECTIVE_EXIT_ALLOWED''\<rparr>
      else if ts_state s = FINANCIAL_INTEGRITY_BLOCKED \<or> ts_integrity_reenable s
        then \<lparr>sdc_allowed = False, sdc_reason = ''FINANCIAL_INTEGRITY_BLOCKED''\<rparr>
      else if ts_state s = RISK_STOPPED \<or> ts_kill_reset s
        then \<lparr>sdc_allowed = False, sdc_reason = ''KILL_SWITCH_ACTIVE''\<rparr>
      else if ts_active s \<and> ts_state s = MARKET_CLOSED \<and> is_continuous_market cls
        then \<lparr>sdc_allowed = True, sdc_reason = ''CONTINUOUS_ASSET_SESSION''\<rparr>
      else if ts_state s \<noteq> ACTIVE \<or> \<not> ts_active s
        then \<lparr>sdc_allowed = False, sdc_reason = ''TRADING_SESSION_NOT_ACTIVE ('' @ session_state_value (ts_state s) @ '')''\<rparr>
      else \<lparr>sdc_allowed = True, sdc_reason = ''ACTIVE''\<rparr>)"

subsection \<open>The database a session transaction touches\<close>

record audit_event =
  ae_id :: string
  ae_type :: string
  ae_severity :: string
  ae_message :: string
  ae_at :: time
  ae_entity_type :: string
  ae_entity_id :: string
  ae_details :: "(string \<times> string option) list"

text \<open>
  The session row, the integrity holds (broker order and status), the identifiers of the
  reconciliation records, the audit trail; the statuses of intents and orders, the
  quarantined liabilities (broker order and instrument key), and the rest of the books.
\<close>

record 'b session_db =
  sd_session :: "trading_session option"
  sd_holds :: "(string \<times> string) list"
  sd_receipts :: "string list"
  sd_audit :: "audit_event list"
  sd_intent_statuses :: "string list"
  sd_order_statuses :: "string list"
  sd_liabilities :: "(string \<times> string) list"
  sd_books :: 'b

type_synonym decide = "trading_session \<Rightarrow> (trading_session \<times> audit_event) option res"

definition transition_session ::
  "time \<Rightarrow> decide \<Rightarrow> bool \<Rightarrow> ('b session_db \<Rightarrow> 'b session_db res) \<Rightarrow> 'b session_db \<Rightarrow> (trading_session option \<times> 'b session_db) res" where
  "transition_session now decide clear_integrity_holds validate_write db =
     bindR (decide (load_session now (sd_session db))) (\<lambda>decision.
       (case decision of
          None \<Rightarrow> Inr (None, db)
        | Some (new_session, event) \<Rightarrow>
            bindR (validate_write db) (\<lambda>db1.
            let db2 = (if clear_integrity_holds then db1\<lparr>sd_holds := []\<rparr> else db1);
                db3 = db2\<lparr>sd_session := Some new_session\<rparr>
            in bindR (guardR (ae_id event \<notin> ae_id ` set (sd_audit db3)) (RuntimeErrorExc ''UNIQUE constraint failed: audit_events.record_id'')) (\<lambda>_.
                 Inr (Some new_session, db3\<lparr>sd_audit := sd_audit db3 @ [event]\<rparr>)))))"

definition transition_event :: "string \<Rightarrow> time \<Rightarrow> string \<Rightarrow> string \<Rightarrow> (string \<times> string option) list \<Rightarrow> audit_event" where
  "transition_event eid now severity message details =
     \<lparr>ae_id = eid, ae_type = ''session_transition'', ae_severity = severity, ae_message = message, ae_at = now,
      ae_entity_type = ''trading_session'', ae_entity_id = ''session'', ae_details = details\<rparr>"

definition change_details :: "string \<Rightarrow> string \<Rightarrow> string \<Rightarrow> (string \<times> string option) list" where
  "change_details action old new =
     [(''action'', Some action), (''previous_state'', Some old), (''new_state'', Some new)]"

text \<open>
  A decide function that has chosen its target: construct it, checks included, and pair it
  with its audit event.
\<close>

definition commit_to :: "trading_session \<Rightarrow> audit_event \<Rightarrow> (trading_session \<times> audit_event) option res" where
  "commit_to target event = bindR (session_post_init target) (\<lambda>s. Inr (Some (s, event)))"

subsection \<open>The decide functions\<close>

definition decide_risk_stop :: "string \<Rightarrow> time \<Rightarrow> string \<Rightarrow> decide" where
  "decide_risk_stop reason now eid s =
     (if ts_state s \<in> {RISK_STOPPED, FINANCIAL_INTEGRITY_BLOCKED} then Inr None
      else commit_to ((plain_session RISK_STOPPED False now)\<lparr>ts_kill_reason := Some reason, ts_kill_at := Some now, ts_kill_reset := True\<rparr>)
        (transition_event eid now ''critical'' (session_state_value (ts_state s) @ '' -> risk_stopped: '' @ reason)
           (change_details ''latch_risk_stop'' (session_state_value (ts_state s)) ''risk_stopped'' @ [(''reason'', Some reason)])))"

definition decide_integrity_block :: "string \<Rightarrow> time \<Rightarrow> string \<Rightarrow> decide" where
  "decide_integrity_block reason now eid s =
     (if ts_state s = FINANCIAL_INTEGRITY_BLOCKED then Inr None
      else commit_to ((plain_session FINANCIAL_INTEGRITY_BLOCKED False now)\<lparr>ts_integrity_reason := Some reason, ts_integrity_reenable := True\<rparr>)
        (transition_event eid now ''critical'' (session_state_value (ts_state s) @ '' -> financial_integrity_blocked: '' @ reason)
           (change_details ''latch_integrity_block'' (session_state_value (ts_state s)) ''financial_integrity_blocked'' @ [(''reason'', Some reason)])))"

definition decide_sync :: "bool \<Rightarrow> time \<Rightarrow> string \<Rightarrow> decide" where
  "decide_sync is_open now eid s =
     (if ts_state s = ACTIVE \<and> \<not> is_open
        then commit_to (plain_session MARKET_CLOSED (ts_active s) now)
          (transition_event eid now ''info'' (session_state_value (ts_state s) @ '' -> market_closed: Alpaca market clock'')
             (change_details ''sync_market_session'' (session_state_value (ts_state s)) ''market_closed''))
      else if ts_state s = MARKET_CLOSED \<and> is_open
        then commit_to (plain_session ACTIVE (ts_active s) now)
          (transition_event eid now ''info'' (session_state_value (ts_state s) @ '' -> active: Alpaca market clock'')
             (change_details ''sync_market_session'' (session_state_value (ts_state s)) ''active''))
      else Inr None)"

definition START_HARD_BLOCKED_STATES :: "session_state set" where
  "START_HARD_BLOCKED_STATES = {RISK_STOPPED, FINANCIAL_INTEGRITY_BLOCKED, SYSTEM_DEGRADED, MARKET_CLOSED}"

definition STOP_PRESERVED_STATES :: "session_state set" where
  "STOP_PRESERVED_STATES = {RISK_STOPPED, FINANCIAL_INTEGRITY_BLOCKED}"

definition decide_start :: "time \<Rightarrow> string \<Rightarrow> decide" where
  "decide_start now eid s =
     (if ts_state s \<in> START_HARD_BLOCKED_STATES \<or> ts_state s = ACTIVE then Inr None
      else commit_to (plain_session ACTIVE True now)
        (transition_event eid now ''info'' (session_state_value (ts_state s) @ '' -> active via start'')
           (change_details ''start'' (session_state_value (ts_state s)) ''active'')))"

definition decide_stop :: "time \<Rightarrow> string \<Rightarrow> decide" where
  "decide_stop now eid s =
     (if ts_state s \<in> STOP_PRESERVED_STATES then Inr None
      else if ts_state s \<in> {DISABLED, MANUALLY_STOPPED} \<and> \<not> ts_active s then Inr None
      else commit_to (plain_session MANUALLY_STOPPED False now)
        (transition_event eid now ''info'' (session_state_value (ts_state s) @ '' -> manually_stopped via stop'')
           (change_details ''stop'' (session_state_value (ts_state s)) ''manually_stopped'')))"

definition decide_reset_risk :: "time \<Rightarrow> string \<Rightarrow> decide" where
  "decide_reset_risk now eid s =
     (if ts_state s \<noteq> RISK_STOPPED then Inr None
      else commit_to (plain_session MANUALLY_STOPPED False now)
        (transition_event eid now ''info'' ''risk_stopped -> manually_stopped via reset-risk''
           (change_details ''reset_risk'' ''risk_stopped'' ''manually_stopped'' @ [(''reason'', ts_kill_reason s)])))"

definition decide_reset_integrity :: "(string \<times> string option) list \<Rightarrow> time \<Rightarrow> string \<Rightarrow> decide" where
  "decide_reset_integrity evidence now eid s =
     (if ts_state s \<noteq> FINANCIAL_INTEGRITY_BLOCKED then Inr None
      else commit_to (plain_session MANUALLY_STOPPED False now)
        (transition_event eid now ''info'' ''financial_integrity_blocked cleared after independently verified accounting''
           (change_details ''reset_integrity'' ''financial_integrity_blocked'' ''manually_stopped''
            @ [(''reason'', ts_integrity_reason s)] @ evidence)))"

lemmas decide_defs = decide_risk_stop_def decide_integrity_block_def decide_sync_def decide_start_def
  decide_stop_def decide_reset_risk_def decide_reset_integrity_def

subsection \<open>The commands\<close>

definition latch_risk_stop :: "string \<Rightarrow> time \<Rightarrow> string \<Rightarrow> 'b session_db \<Rightarrow> (trading_session option \<times> 'b session_db) res" where
  "latch_risk_stop reason now eid db = transition_session now (decide_risk_stop reason now eid) False Inr db"

definition latch_financial_integrity_block :: "string \<Rightarrow> time \<Rightarrow> string \<Rightarrow> 'b session_db \<Rightarrow> (trading_session option \<times> 'b session_db) res" where
  "latch_financial_integrity_block reason now eid db = transition_session now (decide_integrity_block reason now eid) False Inr db"

text \<open>
  A broker clock that fails (\<open>None\<close>) leaves the session as it is. The calendar observation
  in between only writes alert evidence; its store is \<open>observe\<close>.
\<close>

definition sync_market_session ::
  "bool option \<Rightarrow> (bool \<Rightarrow> 'b session_db \<Rightarrow> 'b session_db) \<Rightarrow> time \<Rightarrow> string \<Rightarrow> 'b session_db \<Rightarrow> (trading_session option \<times> 'b session_db) res" where
  "sync_market_session clock observe now eid db =
     (case clock of
        None \<Rightarrow> Inr (None, db)
      | Some is_open \<Rightarrow> transition_session now (decide_sync is_open now eid) False Inr (observe is_open db))"

record settings =
  st_alpaca_key :: "string option"
  st_alpaca_secret :: "string option"
  st_ai_provider :: string
  st_openai_key :: "string option"
  st_anthropic_key :: "string option"

definition missing_setting :: "string \<times> string option \<Rightarrow> bool" where
  "missing_setting c = (case snd c of None \<Rightarrow> True | Some v \<Rightarrow> v = [])"

fun join_comma :: "string list \<Rightarrow> string" where
  "join_comma [] = []"
| "join_comma [x] = x"
| "join_comma (x # xs) = x @ '', '' @ join_comma xs"

definition require_credentials :: "settings \<Rightarrow> bool \<Rightarrow> unit res" where
  "require_credentials st require_ai =
     (let checks = [(''ALPACA_API_KEY'', st_alpaca_key st), (''ALPACA_API_SECRET'', st_alpaca_secret st)]
          @ (if require_ai
             then if st_ai_provider st = ''openai'' then [(''OPENAI_API_KEY'', st_openai_key st)]
                  else [(''ANTHROPIC_API_KEY'', st_anthropic_key st)]
             else []);
          missing = map fst (filter missing_setting checks)
      in guardR (missing = []) (ValueError (''this command requires '' @ join_comma missing @ '' to be set'')))"

text \<open>The exit code of \<open>tradepulse start\<close> and the database it leaves.\<close>

definition run_start ::
  "settings \<Rightarrow> bool \<Rightarrow> ('b session_db \<Rightarrow> 'b session_db) \<Rightarrow> time \<Rightarrow> string \<Rightarrow> 'b session_db \<Rightarrow> (nat \<times> 'b session_db) res" where
  "run_start st broker_reachable race now eid db =
     bindR (require_credentials st False) (\<lambda>_.
       (let current = load_session now (sd_session db) in
        if ts_state current \<in> START_HARD_BLOCKED_STATES then Inr (1, db)
        else if ts_state current = ACTIVE then Inr (0, db)
        else if \<not> broker_reachable then Inr (1, race db)
        else bindR (transition_session now (decide_start now eid) False Inr (race db)) (\<lambda>(_, db'). Inr (0, db'))))"

definition run_stop :: "time \<Rightarrow> string \<Rightarrow> 'b session_db \<Rightarrow> (nat \<times> 'b session_db) res" where
  "run_stop now eid db = bindR (transition_session now (decide_stop now eid) False Inr db) (\<lambda>(_, db'). Inr (0, db'))"

definition run_reset_risk :: "time \<Rightarrow> string \<Rightarrow> 'b session_db \<Rightarrow> (nat \<times> 'b session_db) res" where
  "run_reset_risk now eid db = bindR (transition_session now (decide_reset_risk now eid) False Inr db) (\<lambda>(_, db'). Inr (0, db'))"

subsection \<open>The integrity reset\<close>

text \<open>
  What the reset reads of the books beside the tables above: the checkpoint verification,
  the opening cash proof with its account identity digest, whether any ledger table has a
  row, the evidence digest, and whether an instrument has open quarantined records.
\<close>

record 'b books_reader =
  bk_checkpoint_issues :: "'b session_db \<Rightarrow> string list"
  bk_opening :: "'b session_db \<Rightarrow> string option"
  bk_ledger_rows :: "'b session_db \<Rightarrow> bool"
  bk_digest :: "'b session_db \<Rightarrow> string"
  bk_open_records :: "'b session_db \<Rightarrow> string \<Rightarrow> bool"

definition released_short_exposure_holds :: "'b books_reader \<Rightarrow> 'b session_db \<Rightarrow> string list" where
  "released_short_exposure_holds rd db =
     filter (\<lambda>h. let liabilities = filter (\<lambda>l. fst l = h) (sd_liabilities db)
                 in liabilities \<noteq> [] \<and> \<not> list_ex (\<lambda>l. bk_open_records rd db (snd l)) liabilities)
       (sort (map fst (filter (\<lambda>h. snd h = ''short_exposure'') (sd_holds db))))"

definition active_hold_count :: "'b books_reader \<Rightarrow> 'b session_db \<Rightarrow> int" where
  "active_hold_count rd db = int (length (sd_holds db)) - int (length (released_short_exposure_holds rd db))"

record unlock_evidence =
  up_issues :: "string list"
  up_digest :: string
  up_account_digest :: "string option"

definition RESET_TERMINAL :: "string list" where
  "RESET_TERMINAL = [''filled'', ''canceled'', ''expired'', ''rejected'', ''failed'']"

definition unlock_proof :: "'b books_reader \<Rightarrow> 'b session_db \<Rightarrow> unlock_evidence" where
  "unlock_proof rd db =
     \<lparr>up_issues = bk_checkpoint_issues rd db
        @ (if active_hold_count rd db \<noteq> 0 then [''RESET_ACTIVE_INTEGRITY_HOLD''] else [])
        @ (if list_ex (\<lambda>s. s \<notin> set RESET_TERMINAL) (sd_intent_statuses db) then [''RESET_ORDER_NOT_TERMINAL''] else [])
        @ (if list_ex (\<lambda>s. s \<notin> set RESET_TERMINAL) (sd_order_statuses db) then [''RESET_ORDER_NOT_TERMINAL''] else [])
        @ (if bk_opening rd db = None \<and> bk_ledger_rows rd db then [''RESET_CASH_OPENING_EVIDENCE_MISSING''] else []),
      up_digest = bk_digest rd db,
      up_account_digest = bk_opening rd db\<rparr>"

definition require_unlock_proof :: "'b books_reader \<Rightarrow> string \<Rightarrow> 'b session_db \<Rightarrow> unit res" where
  "require_unlock_proof rd digest db =
     guardR (up_issues (unlock_proof rd db) = [] \<and> up_digest (unlock_proof rd db) = digest) (ValueError ''RESET_UNLOCK_PROOF_CHANGED'')"

definition reset_validate_write :: "'b books_reader \<Rightarrow> string \<Rightarrow> string \<Rightarrow> 'b session_db \<Rightarrow> 'b session_db res" where
  "reset_validate_write rd digest receipt db =
     bindR (require_unlock_proof rd digest db) (\<lambda>_.
     bindR (guardR (receipt \<notin> set (sd_receipts db)) (RuntimeErrorExc ''UNIQUE constraint failed: reconciliation_records.record_id'')) (\<lambda>_.
       (let released = released_short_exposure_holds rd db
        in Inr (db\<lparr>sd_holds := filter (\<lambda>h. \<not> (fst h \<in> set released \<and> snd h = ''short_exposure'')) (sd_holds db),
                   sd_receipts := sd_receipts db @ [receipt]\<rparr>))))"

text \<open>
  The observations of the command: unresolved broker executions, quarantine gate issues,
  the reconciliation pass (it may repair derived accounting and may fail), and the broker
  valuation taken after the proof was captured.
\<close>

record reconciliation_summary =
  rs_status :: string
  rs_drift :: bool
  rs_missed_fills :: bool

record valuation_receipt =
  va_account_digest :: string
  va_matched :: bool
  va_record_id :: string

record 'b reset_observation =
  ro_unresolved :: "'b session_db \<Rightarrow> string list"
  ro_gate_issues :: "'b session_db \<Rightarrow> string list"
  ro_reconcile :: "('b session_db, reconciliation_summary) prog"
  ro_value :: "('b session_db, valuation_receipt) prog"
  ro_record :: "'b session_db \<Rightarrow> 'b session_db"

definition run_reset_integrity ::
  "settings \<Rightarrow> bool \<Rightarrow> 'b books_reader \<Rightarrow> 'b reset_observation \<Rightarrow> ('b session_db \<Rightarrow> 'b session_db)
   \<Rightarrow> time \<Rightarrow> string \<Rightarrow> 'b session_db \<Rightarrow> nat \<times> 'b session_db" where
  "run_reset_integrity st force rd ob race now eid db =
     (if ts_state (load_session now (sd_session db)) \<noteq> FINANCIAL_INTEGRITY_BLOCKED then (0, db)
      else if force then (1, db)
      else if ro_unresolved ob db \<noteq> [] then (1, db)
      else if ro_gate_issues ob db \<noteq> [] then (1, db)
      else case require_credentials st False of Inl _ \<Rightarrow> (1, db) | Inr _ \<Rightarrow>
        (case ro_reconcile ob db of (Inl _, db1) \<Rightarrow> (1, db1) | (Inr summary, db1) \<Rightarrow>
        if rs_status summary \<noteq> ''ok'' \<or> rs_drift summary \<or> rs_missed_fills summary then (1, db1)
        else (let proof_ev = unlock_proof rd db1 in
          if up_issues proof_ev \<noteq> [] then (1, db1)
          else (case ro_value ob db1 of (Inl _, db2) \<Rightarrow> (1, db2) | (Inr v, db2) \<Rightarrow>
            if up_account_digest proof_ev \<noteq> None \<and> up_account_digest proof_ev \<noteq> Some (va_account_digest v) then (1, db2)
            else if \<not> va_matched v then (1, ro_record ob db2)
            else (case transition_session now
                         (decide_reset_integrity [(''reconciliation_status'', Some (rs_status summary)),
                            (''valuation_record_id'', Some (va_record_id v)), (''financial_evidence_sha256'', Some (up_digest proof_ev))] now eid)
                         False (reset_validate_write rd (up_digest proof_ev) (va_record_id v)) (race db2) of
                    Inl _ \<Rightarrow> (1, race db2)
                  | Inr (None, db') \<Rightarrow> (1, db')
                  | Inr (Some _, db') \<Rightarrow> (0, db'))))))"

subsection \<open>The session invariant\<close>

definition session_wf :: "trading_session \<Rightarrow> bool" where
  "session_wf s \<longleftrightarrow>
     ts_state s \<notin> {SYSTEM_DEGRADED, BROKER_UNAVAILABLE}
     \<and> (ts_active s \<longleftrightarrow> ts_state s \<in> {ACTIVE, MARKET_CLOSED})
     \<and> (ts_kill_reset s \<longleftrightarrow> ts_state s = RISK_STOPPED)
     \<and> (ts_integrity_reenable s \<longleftrightarrow> ts_state s = FINANCIAL_INTEGRITY_BLOCKED)"

lemma session_wf_plain [simp]:
  "session_wf (plain_session st a now) \<longleftrightarrow> st \<notin> {SYSTEM_DEGRADED, BROKER_UNAVAILABLE, RISK_STOPPED, FINANCIAL_INTEGRITY_BLOCKED}
     \<and> (a \<longleftrightarrow> st \<in> {ACTIVE, MARKET_CLOSED})"
  by (auto simp: session_wf_def plain_session_def)

lemma ts_state_plain [simp]: "ts_state (plain_session st a now) = st"
  by (simp add: plain_session_def)

lemma session_wf_load: "(\<forall>s. row = Some s \<longrightarrow> session_wf s) \<Longrightarrow> session_wf (load_session now row)"
  by (auto simp: load_session_def default_session_def split: option.splits)

lemma session_post_init_wf: "session_wf s \<Longrightarrow> session_post_init s = Inr s"
  by (auto simp: session_wf_def session_post_init_def guardR_def)

lemma session_post_init_Inr: "session_post_init s = Inr s' \<Longrightarrow> s' = s"
  by (auto simp: session_post_init_def res_iffs)

lemma commit_to_Inr_iff: "commit_to t e = Inr (Some (s', e')) \<longleftrightarrow> session_post_init t = Inr s' \<and> e' = e"
  by (auto simp: commit_to_def bindR_Inr_iff)

text \<open>
  The contract of a decide function: from a well-formed session it does not raise, and what
  it commits is well formed, differs from what it read, and comes with an audit event that
  names both states.
\<close>

definition event_names :: "audit_event \<Rightarrow> session_state \<Rightarrow> session_state \<Rightarrow> bool" where
  "event_names e old new \<longleftrightarrow> ae_type e = ''session_transition''
     \<and> map_of (ae_details e) ''previous_state'' = Some (Some (session_state_value old))
     \<and> map_of (ae_details e) ''new_state'' = Some (Some (session_state_value new))"

locale guarded_transition =
  fixes decide :: decide
  assumes decide_total: "session_wf s \<Longrightarrow> \<exists>d. decide s = Inr d"
    and decide_wf: "session_wf s \<Longrightarrow> decide s = Inr (Some (s', e)) \<Longrightarrow> session_wf s' \<and> ts_state s' \<noteq> ts_state s"
    and decide_event: "session_wf s \<Longrightarrow> decide s = Inr (Some (s', e)) \<Longrightarrow> event_names e (ts_state s) (ts_state s')"
begin

lemma transition_result:
  assumes "session_wf (load_session now (sd_session db))"
    and "transition_session now decide clr validate db = Inr (r, db')"
  shows "(r = None \<and> db' = db)
    \<or> (\<exists>s' e db1. r = Some s' \<and> decide (load_session now (sd_session db)) = Inr (Some (s', e)) \<and> validate db = Inr db1
        \<and> session_wf s' \<and> ts_state s' \<noteq> ts_state (load_session now (sd_session db))
        \<and> event_names e (ts_state (load_session now (sd_session db))) (ts_state s')
        \<and> sd_session db' = Some s' \<and> sd_audit db' = sd_audit db1 @ [e])"
  using assms(2) decide_wf [OF assms(1)] decide_event [OF assms(1)]
  by (auto simp: transition_session_def res_iffs Let_def split: option.splits prod.splits if_splits)

end

lemma session_state_value_inj [simp]: "session_state_value a = session_state_value b \<longleftrightarrow> a = b"
  by (cases a; cases b) auto

lemmas decide_case_simps = decide_defs commit_to_def session_post_init_wf plain_session_def
  START_HARD_BLOCKED_STATES_def STOP_PRESERVED_STATES_def transition_event_def change_details_def event_names_def

interpretation risk_stop: guarded_transition "decide_risk_stop reason now eid"
  by unfold_locales (auto simp: decide_case_simps session_wf_def split: if_splits)

interpretation integrity_block: guarded_transition "decide_integrity_block reason now eid"
  by unfold_locales (auto simp: decide_case_simps session_wf_def split: if_splits)

interpretation sync: guarded_transition "decide_sync is_open now eid"
  by unfold_locales (auto simp: decide_case_simps session_wf_def split: if_splits)

interpretation start: guarded_transition "decide_start now eid"
  by unfold_locales (auto simp: decide_case_simps session_wf_def split: if_splits)

interpretation stop: guarded_transition "decide_stop now eid"
  by unfold_locales (auto simp: decide_case_simps session_wf_def split: if_splits)

interpretation reset_risk: guarded_transition "decide_reset_risk now eid"
  by unfold_locales (auto simp: decide_case_simps session_wf_def split: if_splits)

interpretation reset_integrity: guarded_transition "decide_reset_integrity evidence now eid"
  by unfold_locales (auto simp: decide_case_simps session_wf_def split: if_splits)

subsection \<open>Reachable sessions\<close>

datatype session_command = LatchRisk | LatchIntegrity | SyncClock | StartCmd | StopCmd | ResetRisk | ResetIntegrity | OtherWrite

abbreviation current_state :: "'b session_db \<Rightarrow> session_state" where
  "current_state db \<equiv> ts_state (load_session 0 (sd_session db))"

text \<open>Every other write of the program leaves the session row and only adds audit events of other types.\<close>

definition books_change :: "'b session_db \<Rightarrow> 'b session_db \<Rightarrow> bool" where
  "books_change db db' \<longleftrightarrow> sd_session db' = sd_session db
     \<and> (\<exists>evs. sd_audit db' = sd_audit db @ evs \<and> (\<forall>e\<in>set evs. ae_type e \<noteq> ''session_transition''))"

inductive session_step :: "'b books_reader \<Rightarrow> session_command \<Rightarrow> 'b session_db \<Rightarrow> 'b session_db \<Rightarrow> bool" for rd where
  step_risk: "latch_risk_stop reason now eid db = Inr (r, db') \<Longrightarrow> session_step rd LatchRisk db db'"
| step_integrity: "latch_financial_integrity_block reason now eid db = Inr (r, db') \<Longrightarrow> session_step rd LatchIntegrity db db'"
| step_sync: "transition_session now (decide_sync is_open now eid) False Inr db = Inr (r, db') \<Longrightarrow> session_step rd SyncClock db db'"
| step_start: "transition_session now (decide_start now eid) False Inr db = Inr (r, db') \<Longrightarrow> session_step rd StartCmd db db'"
| step_stop: "transition_session now (decide_stop now eid) False Inr db = Inr (r, db') \<Longrightarrow> session_step rd StopCmd db db'"
| step_reset_risk: "transition_session now (decide_reset_risk now eid) False Inr db = Inr (r, db') \<Longrightarrow> session_step rd ResetRisk db db'"
| step_reset_integrity: "transition_session now (decide_reset_integrity evidence now eid) False (reset_validate_write rd digest receipt) db = Inr (r, db')
    \<Longrightarrow> session_step rd ResetIntegrity db db'"
| step_other: "books_change db db' \<Longrightarrow> session_step rd OtherWrite db db'"

inductive_cases reset_integrity_stepE: "session_step rd ResetIntegrity db db'"

inductive session_reachable :: "'b books_reader \<Rightarrow> 'b session_db \<Rightarrow> bool" for rd where
  init: "sd_session db = None \<Longrightarrow> \<forall>e\<in>set (sd_audit db). ae_type e \<noteq> ''session_transition'' \<Longrightarrow> session_reachable rd db"
| step: "session_reachable rd db \<Longrightarrow> session_step rd c db db' \<Longrightarrow> session_reachable rd db'"

text \<open>
  Replaying the audit trail: each session event must start in the state the previous one
  ended in.
\<close>

fun trail :: "string \<Rightarrow> audit_event list \<Rightarrow> string option" where
  "trail st [] = Some st"
| "trail st (e # es) =
     (if ae_type e \<noteq> ''session_transition'' then trail st es
      else if map_of (ae_details e) ''previous_state'' = Some (Some st)
        then (case map_of (ae_details e) ''new_state'' of Some (Some n) \<Rightarrow> trail n es | _ \<Rightarrow> None)
      else None)"

lemma trail_append: "trail st (xs @ ys) = (case trail st xs of None \<Rightarrow> None | Some t \<Rightarrow> trail t ys)"
  by (induction xs arbitrary: st) (auto split: option.splits)

lemma trail_other: "\<forall>e\<in>set es. ae_type e \<noteq> ''session_transition'' \<Longrightarrow> trail st es = Some st"
  by (induction es) auto

definition session_db_ok :: "'b session_db \<Rightarrow> bool" where
  "session_db_ok db \<longleftrightarrow> session_wf (load_session 0 (sd_session db))
     \<and> trail ''disabled'' (sd_audit db) = Some (session_state_value (current_state db))"

lemma load_session_state: "ts_state (load_session now row) = ts_state (load_session 0 row)"
  by (auto simp: load_session_def default_session_def split: option.splits)

lemma load_session_wf: "session_wf (load_session now row) = session_wf (load_session 0 row)"
  by (auto simp: load_session_def default_session_def split: option.splits)

lemma load_session_Some [simp]: "load_session now (Some s) = s"
  by (simp add: load_session_def)

lemma session_db_ok_step:
  assumes ok: "session_db_ok db" and g: "guarded_transition decide"
    and audit: "\<And>db1. validate db = Inr db1 \<Longrightarrow> sd_audit db1 = sd_audit db"
    and t: "transition_session now decide clr validate db = Inr (r, db')"
  shows "session_db_ok db'"
proof -
  have wf: "session_wf (load_session now (sd_session db))"
    using ok load_session_wf [of now "sd_session db"] by (simp add: session_db_ok_def)
  from guarded_transition.transition_result [OF g wf t] show ?thesis
  proof (elim disjE exE conjE)
    fix s' e db1
    assume s': "session_wf s'" "event_names e (ts_state (load_session now (sd_session db))) (ts_state s')"
      and db': "sd_session db' = Some s'" "sd_audit db' = sd_audit db1 @ [e]" and v: "validate db = Inr db1"
    from s'(2) have e: "event_names e (current_state db) (ts_state s')"
      by (simp add: load_session_state [of now])
    have "trail ''disabled'' (sd_audit db') = Some (session_state_value (ts_state s'))"
      using ok e by (simp add: session_db_ok_def db' audit [OF v] trail_append event_names_def)
    with s'(1) db'(1) show ?thesis by (simp add: session_db_ok_def)
  qed (use ok in simp)
qed

lemma reset_validate_audit: "reset_validate_write rd digest receipt db = Inr db1 \<Longrightarrow> sd_audit db1 = sd_audit db"
  by (auto simp: reset_validate_write_def res_iffs Let_def)

lemma reachable_ok: "session_reachable rd db \<Longrightarrow> session_db_ok db"
proof (induction rule: session_reachable.induct)
  case (init db)
  then show ?case by (simp add: session_db_ok_def load_session_def default_session_def trail_other)
next
  case (step db c db')
  from step.hyps(2) step.IH show ?case
  proof (cases rule: session_step.cases)
    case (step_risk reason now eid r)
    with step.IH show ?thesis
      by (auto simp: latch_risk_stop_def intro: session_db_ok_step [OF _ risk_stop.guarded_transition_axioms])
  next
    case (step_integrity reason now eid r)
    with step.IH show ?thesis
      by (auto simp: latch_financial_integrity_block_def intro: session_db_ok_step [OF _ integrity_block.guarded_transition_axioms])
  next
    case (step_sync now is_open eid r)
    with step.IH show ?thesis by (auto intro: session_db_ok_step [OF _ sync.guarded_transition_axioms])
  next
    case (step_start now eid r)
    with step.IH show ?thesis by (auto intro: session_db_ok_step [OF _ start.guarded_transition_axioms])
  next
    case (step_stop now eid r)
    with step.IH show ?thesis by (auto intro: session_db_ok_step [OF _ stop.guarded_transition_axioms])
  next
    case (step_reset_risk now eid r)
    with step.IH show ?thesis by (auto intro: session_db_ok_step [OF _ reset_risk.guarded_transition_axioms])
  next
    case (step_reset_integrity now evidence eid digest receipt r)
    with step.IH show ?thesis
      by (auto intro: session_db_ok_step [OF _ reset_integrity.guarded_transition_axioms] dest: reset_validate_audit)
  next
    case step_other
    with step.IH show ?thesis by (auto simp: session_db_ok_def books_change_def trail_append trail_other)
  qed
qed

subsection \<open>Leaving the integrity latch\<close>

lemma decide_at_block:
  assumes "ts_state s = FINANCIAL_INTEGRITY_BLOCKED"
  shows "decide_risk_stop reason now eid s = Inr None" "decide_integrity_block reason now eid s = Inr None"
    "decide_sync is_open now eid s = Inr None" "decide_start now eid s = Inr None" "decide_stop now eid s = Inr None"
    "decide_reset_risk now eid s = Inr None"
  using assms by (simp_all add: decide_defs START_HARD_BLOCKED_STATES_def STOP_PRESERVED_STATES_def)

lemma transition_none: "decide (load_session now (sd_session db)) = Inr None \<Longrightarrow> transition_session now decide clr validate db = Inr (None, db)"
  by (simp add: transition_session_def)

lemma released_subset: "length (released_short_exposure_holds rd db) \<le> length (filter (\<lambda>h. snd h = ''short_exposure'') (sd_holds db))"
  unfolding released_short_exposure_holds_def by (rule order_trans [OF length_filter_le]) simp

lemma filter_length_all:
  assumes "length (filter P xs) = length xs"
  shows "\<forall>x\<in>set xs. P x"
proof (rule ccontr)
  assume "\<not> ?thesis"
  then obtain x where "x \<in> set xs" "\<not> P x" by blast
  then have "length (filter P xs) < length xs" by (rule length_filter_less)
  with assms show False by simp
qed

text \<open>With no active hold, every hold is a released short-exposure hold, and the reset deletes them all.\<close>

lemma no_active_hold_released:
  assumes "active_hold_count rd db = 0" and "h \<in> set (sd_holds db)"
  shows "snd h = ''short_exposure'' \<and> fst h \<in> set (released_short_exposure_holds rd db)"
proof -
  define short where "short = filter (\<lambda>h. snd h = ''short_exposure'') (sd_holds db)"
  define ids where "ids = sort (map fst short)"
  obtain P where rel: "released_short_exposure_holds rd db = filter P ids"
    by (simp add: released_short_exposure_holds_def ids_def short_def)
  have eq: "length (filter P ids) = length (sd_holds db)"
    using assms(1) rel by (simp add: active_hold_count_def)
  have "length ids = length short" by (simp add: ids_def)
  moreover have "length short \<le> length (sd_holds db)" "length (filter P ids) \<le> length ids"
    by (simp_all add: short_def)
  ultimately have len: "length short = length (sd_holds db)" "length (filter P ids) = length ids"
    using eq by linarith+
  from filter_length_all [OF len(1) [unfolded short_def]] have all: "\<forall>h\<in>set (sd_holds db). snd h = ''short_exposure''" .
  then have "set ids = fst ` set (sd_holds db)" by (auto simp: ids_def short_def)
  with filter_length_all [OF len(2)] rel all assms(2) show ?thesis by auto
qed

lemma reset_validate_clears:
  assumes "reset_validate_write rd digest receipt db = Inr db1"
  shows "up_issues (unlock_proof rd db) = [] \<and> up_digest (unlock_proof rd db) = digest \<and> sd_holds db1 = []
     \<and> sd_receipts db1 = sd_receipts db @ [receipt]"
proof -
  from assms have p: "up_issues (unlock_proof rd db) = []" "up_digest (unlock_proof rd db) = digest"
    and db1: "sd_holds db1 = filter (\<lambda>h. \<not> (fst h \<in> set (released_short_exposure_holds rd db) \<and> snd h = ''short_exposure'')) (sd_holds db)"
      "sd_receipts db1 = sd_receipts db @ [receipt]"
    by (auto simp: reset_validate_write_def require_unlock_proof_def res_iffs Let_def)
  from p(1) have "active_hold_count rd db = 0" by (auto simp: unlock_proof_def split: if_splits)
  then have "sd_holds db1 = []" unfolding db1 filter_empty_conv using no_active_hold_released by auto
  with p db1 show ?thesis by simp
qed

lemma latched_kept:
  assumes "session_step rd c db db'" and "current_state db = FINANCIAL_INTEGRITY_BLOCKED" and "c \<noteq> ResetIntegrity"
  shows "sd_session db' = sd_session db"
proof -
  have b: "ts_state (load_session now (sd_session db)) = FINANCIAL_INTEGRITY_BLOCKED" for now
    using assms(2) load_session_state [of now "sd_session db"] by simp
  note stays = decide_at_block [OF b] transition_none
  from assms(1) show ?thesis
  proof (cases rule: session_step.cases)
    case step_risk
    then show ?thesis by (simp add: latch_risk_stop_def stays)
  next
    case step_integrity
    then show ?thesis by (simp add: latch_financial_integrity_block_def stays)
  next
    case step_reset_integrity
    then show ?thesis using assms(3) by simp
  next
    case step_other
    then show ?thesis by (simp add: books_change_def)
  qed (simp_all add: stays)
qed

subsection \<open>Properties\<close>

text \<open>C20: in every reachable database the session is trading-active exactly in ACTIVE and
  MARKET_CLOSED, carries the kill-switch requirement exactly in RISK_STOPPED and the integrity
  requirement exactly in FINANCIAL_INTEGRITY_BLOCKED, is never SYSTEM_DEGRADED or
  BROKER_UNAVAILABLE, and replaying the audit trail from \<open>disabled\<close> ends in its state.\<close>

theorem session_reachable_invariant:
  assumes "session_reachable rd db"
  shows "session_wf (load_session now (sd_session db))
    \<and> trail ''disabled'' (sd_audit db) = Some (session_state_value (ts_state (load_session now (sd_session db))))"
  using reachable_ok [OF assms] load_session_wf [of now "sd_session db"] load_session_state [of now "sd_session db"]
  by (simp add: session_db_ok_def)

text \<open>C21: the integrity latch is left only by a committed reset, which lands on MANUALLY_STOPPED,
  at a commit where the unlock proof has no issue and the digest captured before the broker
  observations, and which leaves no integrity hold behind.\<close>

theorem integrity_latch_left_by_reset:
  assumes "session_step rd c db db'" and "current_state db = FINANCIAL_INTEGRITY_BLOCKED"
    and "current_state db' \<noteq> FINANCIAL_INTEGRITY_BLOCKED"
  shows "c = ResetIntegrity \<and> current_state db' = MANUALLY_STOPPED \<and> up_issues (unlock_proof rd db) = [] \<and> sd_holds db' = []"
  using assms(1)
proof (cases rule: session_step.cases)
  case (step_reset_integrity now evidence eid digest receipt r)
  have b: "ts_state (load_session now (sd_session db)) = FINANCIAL_INTEGRITY_BLOCKED"
    using assms(2) load_session_state [of now "sd_session db"] by simp
  then obtain e where d: "decide_reset_integrity evidence now eid (load_session now (sd_session db)) = Inr (Some (plain_session MANUALLY_STOPPED False now, e))"
    by (simp add: decide_reset_integrity_def commit_to_def session_post_init_wf)
  from step_reset_integrity(2) d obtain db1 where v: "reset_validate_write rd digest receipt db = Inr db1"
    and db': "sd_session db' = Some (plain_session MANUALLY_STOPPED False now)" "sd_holds db' = sd_holds db1"
    by (auto simp: transition_session_def res_iffs Let_def)
  from reset_validate_clears [OF v] db' step_reset_integrity(1) show ?thesis by simp
qed (use latched_kept [OF assms(1,2)] assms(2,3) in simp_all)

text \<open>The execution gate on a well-formed session: a protective exit always passes; any other
  order passes exactly in ACTIVE, or in MARKET_CLOSED for crypto; whatever the side.\<close>

theorem session_gate_exact:
  assumes "session_wf s"
  shows "sdc_allowed (execution_session_decision s sd cls pe)
    \<longleftrightarrow> pe \<or> ts_state s = ACTIVE \<or> (ts_state s = MARKET_CLOSED \<and> cls = CRYPTO)"
  using assms by (auto simp: execution_session_decision_def session_wf_def is_continuous_market_def)


subsection \<open>A concrete database\<close>

definition demo_reader :: "unit books_reader" where
  "demo_reader = \<lparr>bk_checkpoint_issues = (\<lambda>_. []), bk_opening = (\<lambda>_. Some ''acct''), bk_ledger_rows = (\<lambda>_. True),
     bk_digest = (\<lambda>db. if sd_holds db = [] then ''clean'' else ''held''), bk_open_records = (\<lambda>_ _. False)\<rparr>"

definition demo_db :: "trading_session option \<Rightarrow> unit session_db" where
  "demo_db s = \<lparr>sd_session = s, sd_holds = [(''o1'', ''short_exposure'')], sd_receipts = [], sd_audit = [],
     sd_intent_statuses = [''filled''], sd_order_statuses = [''filled''], sd_liabilities = [(''o1'', ''equity:default:X'')], sd_books = ()\<rparr>"

definition demo_blocked :: trading_session where
  "demo_blocked = (plain_session FINANCIAL_INTEGRITY_BLOCKED False 0)\<lparr>ts_integrity_reason := Some ''drift'', ts_integrity_reenable := True\<rparr>"

definition demo_stopped :: trading_session where
  "demo_stopped = (plain_session RISK_STOPPED False 0)\<lparr>ts_kill_reason := Some ''loss'', ts_kill_at := Some 0, ts_kill_reset := True\<rparr>"

definition demo_observation :: "unit reset_observation" where
  "demo_observation = \<lparr>ro_unresolved = (\<lambda>_. []), ro_gate_issues = (\<lambda>_. []),
     ro_reconcile = retP \<lparr>rs_status = ''ok'', rs_drift = False, rs_missed_fills = False\<rparr>,
     ro_value = retP \<lparr>va_account_digest = ''acct'', va_matched = True, va_record_id = ''rec1''\<rparr>, ro_record = id\<rparr>"

definition demo_settings :: settings where
  "demo_settings = \<lparr>st_alpaca_key = Some ''k'', st_alpaca_secret = Some ''s'', st_ai_provider = ''openai'', st_openai_key = None, st_anthropic_key = None\<rparr>"



subsection \<open>Witnesses\<close>

theorem session_reachable_invariant_witness:
  "session_wf (load_session 5 None)
    \<and> trail ''disabled'' (sd_audit (demo_db None)) = Some (session_state_value (ts_state (load_session 5 None)))"
  using session_reachable_invariant [of demo_reader "demo_db None" 5] session_reachable.init [of "demo_db None" demo_reader]
  by (simp add: demo_db_def)

definition demo_reset :: "(trading_session option \<times> unit session_db) res" where
  "demo_reset = transition_session 2 (decide_reset_integrity [] 2 ''e2'') False (reset_validate_write demo_reader ''held'' ''rec1'') (demo_db (Some demo_blocked))"

theorem integrity_latch_left_by_reset_witness:
  "current_state (snd (projr demo_reset)) = MANUALLY_STOPPED \<and> up_issues (unlock_proof demo_reader (demo_db (Some demo_blocked))) = []
     \<and> sd_holds (snd (projr demo_reset)) = []"
proof -
  have "\<not> isl demo_reset" by code_simp
  then have "demo_reset = Inr (fst (projr demo_reset), snd (projr demo_reset))" by (rule result_of)
  from step_reset_integrity [OF this [unfolded demo_reset_def]]
  have "session_step demo_reader ResetIntegrity (demo_db (Some demo_blocked)) (snd (projr demo_reset))"
    unfolding demo_reset_def .
  moreover have "current_state (demo_db (Some demo_blocked)) = FINANCIAL_INTEGRITY_BLOCKED"
    "current_state (snd (projr demo_reset)) \<noteq> FINANCIAL_INTEGRITY_BLOCKED" by code_simp+
  ultimately show ?thesis using integrity_latch_left_by_reset by blast
qed

theorem session_gate_exact_witness:
  "sdc_allowed (execution_session_decision (plain_session MARKET_CLOSED True 0) SELL EQUITY False)
    \<longleftrightarrow> False \<or> MARKET_CLOSED = ACTIVE \<or> (MARKET_CLOSED = MARKET_CLOSED \<and> EQUITY = CRYPTO)"
  using session_gate_exact [of "plain_session MARKET_CLOSED True 0" SELL EQUITY False] by simp


end
