(* ===== verification/Reservation.thy ===== *)
theory Reservation
  imports Intents Repository
begin

text \<open>
  The advisory lock of \<open>persistence/lock.py\<close> and the reservations built on it
  (\<open>execution/idempotency.py\<close>, the portfolio-risk lock of \<open>execution/gateway.py\<close>). A lock row
  is a lease: its owner token and its expiry. Every operation is one write transaction, so a
  run of the system is a sequence of operations, each at its own time. The expiry is stored
  as a UTC ISO text; the texts order as the instants do.
\<close>

record lock_row =
  lk_owner :: string
  lk_acquired :: time
  lk_expires :: time
  lk_command :: string

type_synonym locks = "string \<Rightarrow> lock_row option"

definition ttl_of :: "nat \<Rightarrow> time" where
  "ttl_of n = int n * 1000000"

definition acquire_lock :: "string \<Rightarrow> string \<Rightarrow> string \<Rightarrow> nat \<Rightarrow> time \<Rightarrow> locks \<Rightarrow> bool \<times> locks" where
  "acquire_lock key owner command ttl now l =
     (if (case l key of Some r \<Rightarrow> now < lk_expires r | None \<Rightarrow> False) then (False, l)
      else (True, l(key \<mapsto> \<lparr>lk_owner = owner, lk_acquired = now, lk_expires = now + ttl_of ttl, lk_command = command\<rparr>)))"

definition release_lock :: "string \<Rightarrow> string \<Rightarrow> locks \<Rightarrow> locks" where
  "release_lock key owner l =
     (case l key of Some r \<Rightarrow> if lk_owner r = owner then l(key := None) else l | None \<Rightarrow> l)"

definition renew_lock :: "string \<Rightarrow> string \<Rightarrow> nat \<Rightarrow> time \<Rightarrow> locks \<Rightarrow> bool \<times> locks" where
  "renew_lock key owner ttl now l =
     (case l key of
        Some r \<Rightarrow> if lk_owner r = owner \<and> now < lk_expires r then (True, l(key \<mapsto> r\<lparr>lk_expires := now + ttl_of ttl\<rparr>)) else (False, l)
      | None \<Rightarrow> (False, l))"

subsection \<open>Reservations\<close>

definition SYMBOL_LOCK_TTL_SECONDS :: nat where "SYMBOL_LOCK_TTL_SECONDS = 45"
definition PORTFOLIO_RISK_LOCK_KEY :: string where "PORTFOLIO_RISK_LOCK_KEY = ''portfolio-risk-evaluation''"
definition PORTFOLIO_RISK_LOCK_TTL_SECONDS :: nat where "PORTFOLIO_RISK_LOCK_TTL_SECONDS = 30"

definition execution_lock_key :: "asset_identity \<Rightarrow> string" where
  "execution_lock_key a = ''execution:'' @ asset_identity_key a"

definition reserve_symbol_for_execution :: "asset_identity \<Rightarrow> string \<Rightarrow> time \<Rightarrow> locks \<Rightarrow> bool \<times> locks" where
  "reserve_symbol_for_execution a owner now l = acquire_lock (execution_lock_key a) owner ''execute_intent'' SYMBOL_LOCK_TTL_SECONDS now l"

definition release_symbol_reservation :: "asset_identity \<Rightarrow> string \<Rightarrow> locks \<Rightarrow> locks" where
  "release_symbol_reservation a owner l = release_lock (execution_lock_key a) owner l"

fun side_value :: "side \<Rightarrow> string" where
  "side_value BUY = ''buy''"
| "side_value SELL = ''sell''"

definition first_text :: "string option \<Rightarrow> string option \<Rightarrow> string" where
  "first_text a b = (case a of Some s \<Rightarrow> if s \<noteq> [] then s else (case b of Some t \<Rightarrow> t | None \<Rightarrow> []) | None \<Rightarrow> (case b of Some t \<Rightarrow> t | None \<Rightarrow> []))"

definition derive_idempotency_key :: "string \<Rightarrow> string option \<Rightarrow> string option \<Rightarrow> asset_identity \<Rightarrow> side \<Rightarrow> string option" where
  "derive_idempotency_key strategy decision_id signal_timestamp a sd =
     (let t = first_text decision_id signal_timestamp
      in if t = [] then None
         else Some (''ik-'' @ strategy @ ''-'' @ t @ ''-'' @ asset_identity_key a @ ''-'' @ side_value sd))"

definition IN_FLIGHT_STATUSES :: "intent_status list" where
  "IN_FLIGHT_STATUSES = [TI_SUBMITTED, TI_ACCEPTED, TI_PARTIALLY_FILLED, TI_RISK_APPROVED]"

definition has_in_flight_intent :: "trade_intent tbl \<Rightarrow> asset_identity \<Rightarrow> bool" where
  "has_in_flight_intent rows a =
     list_ex (\<lambda>r. list_ex (\<lambda>s. r_status r = Some (intent_status_value s)) (IN_FLIGHT_STATUSES @ [TI_SUBMISSION_UNKNOWN])
                   \<and> asset_matches_sql (ti_asset (r_payload r)) a) rows"

subsection \<open>Runs\<close>

datatype lock_op = Acquire string string string nat | Release string string | Renew string string nat

fun op_key :: "lock_op \<Rightarrow> string" where
  "op_key (Acquire k _ _ _) = k"
| "op_key (Release k _) = k"
| "op_key (Renew k _ _) = k"

fun lock_step :: "time \<times> lock_op \<Rightarrow> locks \<Rightarrow> bool \<times> locks" where
  "lock_step (t, Acquire k w c n) l = acquire_lock k w c n t l"
| "lock_step (t, Release k w) l = (True, release_lock k w l)"
| "lock_step (t, Renew k w n) l = renew_lock k w n t l"

fun lock_run :: "(time \<times> lock_op) list \<Rightarrow> locks \<Rightarrow> bool list \<times> locks" where
  "lock_run [] l = ([], l)"
| "lock_run (e # es) l = (let (ok, l1) = lock_step e l; (oks, l2) = lock_run es l1 in (ok # oks, l2))"

text \<open>What the fence of a guarded write reads (\<open>check_lease\<close>).\<close>

definition lease_view :: "locks \<Rightarrow> string \<Rightarrow> (string \<times> time) option" where
  "lease_view l k = map_option (\<lambda>r. (lk_owner r, lk_expires r)) (l k)"

text \<open>\<open>holds_until l k w u\<close>: the lease on \<open>k\<close> is \<open>w\<close>'s, until \<open>u\<close> at least.\<close>

definition holds_until :: "locks \<Rightarrow> string \<Rightarrow> string \<Rightarrow> time \<Rightarrow> bool" where
  "holds_until l k w u \<longleftrightarrow> (\<exists>r. l k = Some r \<and> lk_owner r = w \<and> u \<le> lk_expires r)"

definition is_grant :: "string \<Rightarrow> lock_op \<Rightarrow> bool" where
  "is_grant k op \<longleftrightarrow> (\<exists>w c n. op = Acquire k w c n \<or> op = Renew k w n)"

fun op_ttl :: "lock_op \<Rightarrow> time" where
  "op_ttl (Acquire _ _ _ n) = ttl_of n"
| "op_ttl (Renew _ _ n) = ttl_of n"
| "op_ttl (Release _ _) = 0"

lemma ttl_of_mono: "n \<le> m \<Longrightarrow> ttl_of n \<le> ttl_of m"
  by (simp add: ttl_of_def)

lemma lock_run_Cons:
  "lock_run (e # es) l = (fst (lock_step e l) # fst (lock_run es (snd (lock_step e l))), snd (lock_run es (snd (lock_step e l))))"
  by (auto split: prod.splits)

declare lock_run.simps(2) [simp del]

lemma grant_holds:
  assumes "fst (lock_step (t, op) l)" and "op = Acquire k w c n \<or> op = Renew k w n"
  shows "holds_until (snd (lock_step (t, op) l)) k w (t + ttl_of n)"
  using assms by (auto simp: acquire_lock_def renew_lock_def holds_until_def split: option.splits if_splits)

text \<open>What a step by anyone may do to a live lease.\<close>

definition leaves_lease :: "string \<Rightarrow> string \<Rightarrow> time \<Rightarrow> time \<times> lock_op \<Rightarrow> bool" where
  "leaves_lease k w u e \<longleftrightarrow> fst e < u \<and> snd e \<noteq> Release k w \<and> (\<forall>n. snd e = Renew k w n \<longrightarrow> u \<le> fst e + ttl_of n)"

lemma step_keeps_lease:
  assumes "holds_until l k w u" and "leaves_lease k w u e"
  shows "holds_until (snd (lock_step e l)) k w u"
    and "snd e = Acquire k w' c n \<Longrightarrow> \<not> fst (lock_step e l)"
    and "snd e = Renew k w' n \<Longrightarrow> w' \<noteq> w \<Longrightarrow> \<not> fst (lock_step e l)"
  using assms by (cases e; cases "snd e"; auto simp: holds_until_def leaves_lease_def acquire_lock_def release_lock_def renew_lock_def
      split: option.splits if_splits)+

lemma run_keeps_lease:
  assumes "holds_until l k w u" and "\<forall>e\<in>set es. leaves_lease k w u e"
  shows "holds_until (snd (lock_run es l)) k w u
    \<and> (\<forall>i<length es. (\<exists>w' c n. snd (es ! i) = Acquire k w' c n \<or> w' \<noteq> w \<and> snd (es ! i) = Renew k w' n) \<longrightarrow> \<not> fst (lock_run es l) ! i)"
  using assms
proof (induction es arbitrary: l)
  case Nil
  then show ?case by simp
next
  case (Cons e es)
  let ?l = "snd (lock_step e l)"
  have e: "leaves_lease k w u e" and es: "\<forall>x\<in>set es. leaves_lease k w u x" using Cons.prems(2) by auto
  note ih = Cons.IH [OF step_keeps_lease(1) [OF Cons.prems(1) e] es]
  show ?case unfolding lock_run_Cons
  proof (intro conjI allI impI)
    show "holds_until (snd (fst (lock_step e l) # fst (lock_run es ?l), snd (lock_run es ?l))) k w u" using ih by simp
  next
    fix i assume i: "i < length (e # es)"
      and other: "\<exists>w' c n. snd ((e # es) ! i) = Acquire k w' c n \<or> w' \<noteq> w \<and> snd ((e # es) ! i) = Renew k w' n"
    show "\<not> fst (fst (lock_step e l) # fst (lock_run es ?l), snd (lock_run es ?l)) ! i"
    proof (cases i)
      case 0
      with other step_keeps_lease(2,3) [OF Cons.prems(1) e] show ?thesis by auto
    next
      case (Suc j)
      with ih i other show ?thesis by auto
    qed
  qed
qed

subsection \<open>Properties\<close>

text \<open>C11: a granted lease is exclusive until it expires or its holder releases it: whatever sequence
  of operations follows, no acquire and no other owner's renewal of the key succeeds, and the
  fence that guards a write passes for the holder and refuses everyone else. (The holder's
  own renewals use a TTL no shorter than the grant's.)\<close>

theorem lease_exclusive:
  assumes "fst (lock_step (t0, op) l)" and "op = Acquire k w c n \<or> op = Renew k w n"
    and "\<forall>(t, p)\<in>set es. t0 \<le> t \<and> t < t0 + ttl_of n \<and> p \<noteq> Release k w \<and> (\<forall>m. p = Renew k w m \<longrightarrow> n \<le> m)"
    and "now < t0 + ttl_of n"
  shows "let (oks, l') = lock_run es (snd (lock_step (t0, op) l)) in
      (\<forall>i<length es. \<forall>w' c' m. snd (es ! i) = Acquire k w' c' m \<or> w' \<noteq> w \<and> snd (es ! i) = Renew k w' m \<longrightarrow> \<not> oks ! i)
      \<and> check_lease (lease_view l') now (Some (k, w')) = (if w' = w then Inr () else Inl (LeaseLost k))"
proof -
  let ?u = "t0 + ttl_of n" let ?l = "snd (lock_step (t0, op) l)"
  have h: "holds_until ?l k w ?u" by (rule grant_holds [OF assms(1,2)])
  have lv: "\<forall>e\<in>set es. leaves_lease k w ?u e"
    using assms(3) ttl_of_mono by (fastforce simp: leaves_lease_def intro: add_mono)
  note r = run_keeps_lease [OF h lv]
  then have "holds_until (snd (lock_run es ?l)) k w ?u" by blast
  then have "check_lease (lease_view (snd (lock_run es ?l))) now (Some (k, w')) = (if w' = w then Inr () else Inl (LeaseLost k))"
    using assms(4) by (auto simp: check_lease_def lease_view_def holds_until_def)
  with r show ?thesis by (auto simp: case_prod_beta' Let_def)
qed

lemma failed_acquire_bounded:
  assumes "\<forall>k r. l k = Some r \<longrightarrow> (\<exists>t\<in>G k. lk_expires r \<le> t + N)" and "\<forall>e\<in>set es. op_ttl (snd e) \<le> N"
    and "i < length es" and "snd (es ! i) = Acquire k w c n" and "\<not> fst (lock_run es l) ! i"
  shows "\<exists>t. fst (es ! i) < t + N \<and> (t \<in> G k \<or> (\<exists>j<i. fst (es ! j) = t \<and> is_grant k (snd (es ! j)) \<and> fst (lock_run es l) ! j))"
  using assms
proof (induction es arbitrary: l G i)
  case Nil
  then show ?case by simp
next
  case (Cons e es)
  let ?l = "snd (lock_step e l)"
  obtain te op where e: "e = (te, op)" by (cases e)
  show ?case
  proof (cases i)
    case 0
    with Cons.prems(4,5) e obtain r where r: "l k = Some r" "te < lk_expires r"
      by (auto simp: lock_run_Cons acquire_lock_def split: option.splits if_splits)
    with Cons.prems(1) obtain t where "t \<in> G k" "lk_expires r \<le> t + N" by blast
    with r 0 e show ?thesis by (intro exI [of _ t]) auto
  next
    case (Suc j)
    let ?G = "\<lambda>k. if fst (lock_step e l) \<and> is_grant k op then insert te (G k) else G k"
    have N: "op_ttl op \<le> N" using Cons.prems(2) e by simp
    have inv: "\<forall>k r. ?l k = Some r \<longrightarrow> (\<exists>t\<in>?G k. lk_expires r \<le> t + N)"
    proof (intro allI impI)
      fix k r assume "?l k = Some r"
      then show "\<exists>t\<in>?G k. lk_expires r \<le> t + N"
        using Cons.prems(1) N unfolding e
        by (cases op) (auto simp: acquire_lock_def release_lock_def renew_lock_def is_grant_def split: option.splits if_splits)
    qed
    have f: "\<not> fst (lock_run es ?l) ! j" "j < length es" "snd (es ! j) = Acquire k w c n"
      using Cons.prems(3-5) Suc by (simp_all add: lock_run_Cons)
    from Cons.IH [OF inv _ f(2,3,1)] Cons.prems(2) obtain t where t: "fst (es ! j) < t + N"
      and w: "t \<in> ?G k \<or> (\<exists>i<j. fst (es ! i) = t \<and> is_grant k (snd (es ! i)) \<and> fst (lock_run es ?l) ! i)" by auto
    have "t \<in> G k \<or> (\<exists>i<Suc j. fst ((e # es) ! i) = t \<and> is_grant k (snd ((e # es) ! i)) \<and> fst (lock_run (e # es) l) ! i)"
      using w
    proof
      assume "t \<in> ?G k"
      then show ?thesis by (auto simp: e lock_run_Cons split: if_splits intro: exI [of _ 0])
    next
      assume "\<exists>i<j. fst (es ! i) = t \<and> is_grant k (snd (es ! i)) \<and> fst (lock_run es ?l) ! i"
      then obtain i where "i < j" "fst (es ! i) = t \<and> is_grant k (snd (es ! i)) \<and> fst (lock_run es ?l) ! i" by blast
      then show ?thesis by (intro disjI2 exI [of _ "Suc i"]) (simp add: lock_run_Cons)
    qed
    with t Suc show ?thesis by (intro exI [of _ t]) simp
  qed
qed

text \<open>C12: a lock is never stuck: in any run from the empty lock table whose leases last at most \<open>N\<close>,
  an acquire that fails is one made less than \<open>N\<close> after an earlier grant of the same key; so a
  holder that died blocks the key for at most one lease, and the next attempt succeeds.\<close>

theorem lock_never_stuck:
  assumes "\<forall>e\<in>set es. op_ttl (snd e) \<le> N" and "i < length es" and "snd (es ! i) = Acquire k w c n"
    and "\<forall>j<i. is_grant k (snd (es ! j)) \<and> fst (lock_run es Map.empty) ! j \<longrightarrow> fst (es ! j) + N \<le> fst (es ! i)"
  shows "fst (lock_run es Map.empty) ! i"
proof (rule ccontr)
  assume "\<not> fst (lock_run es Map.empty) ! i"
  from failed_acquire_bounded [OF _ assms(1-3) this, of "\<lambda>_. {}"] assms(4) show False by force
qed

subsection \<open>Witnesses\<close>

text \<open>A second coordinator tries ten seconds into a 45-second reservation.\<close>

theorem lease_exclusive_witness:
  "\<not> fst (lock_run [(10000000, Acquire ''execution:x'' ''b'' ''execute_intent'' 45)]
      (snd (lock_step (0, Acquire ''execution:x'' ''a'' ''execute_intent'' 45) Map.empty))) ! 0"
proof -
  have g: "fst (lock_step (0, Acquire ''execution:x'' ''a'' ''execute_intent'' 45) Map.empty)" by (simp add: acquire_lock_def)
  show ?thesis
    using lease_exclusive [OF g disjI1 [OF refl], of "[(10000000, Acquire ''execution:x'' ''b'' ''execute_intent'' 45)]" 10000000 "''a''"]
    by (simp add: ttl_of_def case_prod_beta' Let_def)
qed

text \<open>The first holder never releases; an attempt 45 seconds later succeeds.\<close>

theorem lock_never_stuck_witness:
  "fst (lock_run [(0, Acquire ''execution:x'' ''a'' ''execute_intent'' 45), (45000000, Acquire ''execution:x'' ''b'' ''execute_intent'' 45)]
     Map.empty) ! 1"
  by (rule lock_never_stuck [of _ 45000000]) (simp_all add: ttl_of_def less_Suc_eq)

end
