(* ===== verification/Dates.thy ===== *)
theory Dates
  imports Market
begin

text \<open>
  Calendar dates as Python's \<open>datetime.date\<close> computes them: a date is its day count from
  1970-01-01 in the proleptic Gregorian calendar, \<open>date_of\<close> is \<open>datetime.date()\<close> of a UTC
  instant, and \<open>from_isoformat\<close> is \<open>date.fromisoformat\<close> with its five text forms.
\<close>

type_synonym day = int

definition is_leap :: "int \<Rightarrow> bool" where
  "is_leap y = (y mod 4 = 0 \<and> (y mod 100 \<noteq> 0 \<or> y mod 400 = 0))"

definition days_before_year :: "int \<Rightarrow> int" where
  "days_before_year y = (let p = y - 1 in p * 365 + p div 4 - p div 100 + p div 400)"

definition days_in_month :: "int \<Rightarrow> int \<Rightarrow> int" where
  "days_in_month y m = (if m = 2 then (if is_leap y then 29 else 28) else if m \<in> {4, 6, 9, 11} then 30 else 31)"

definition days_before_month :: "int \<Rightarrow> int \<Rightarrow> int" where
  "days_before_month y m = (\<Sum>k\<leftarrow>[1..m - 1]. days_in_month y k)"

definition EPOCH_ORDINAL :: int where "EPOCH_ORDINAL = 719163"

definition ymd_day :: "int \<Rightarrow> int \<Rightarrow> int \<Rightarrow> day option" where
  "ymd_day y m d =
     (if 1 \<le> y \<and> y \<le> 9999 \<and> 1 \<le> m \<and> m \<le> 12 \<and> 1 \<le> d \<and> d \<le> days_in_month y m
      then Some (days_before_year y + days_before_month y m + d - EPOCH_ORDINAL) else None)"

text \<open>The Monday of ISO week 1, as an ordinal; the week has the year's first Thursday.\<close>

definition isoweek1_monday :: "int \<Rightarrow> int" where
  "isoweek1_monday y =
     (let first = days_before_year y + 1; weekday = (first + 6) mod 7; monday = first - weekday
      in if 3 < weekday then monday + 7 else monday)"

definition isoweek_day :: "int \<Rightarrow> int \<Rightarrow> int \<Rightarrow> day option" where
  "isoweek_day y w d =
     (let weeks = (isoweek1_monday (y + 1) - isoweek1_monday y) div 7; ordinal = isoweek1_monday y + (w - 1) * 7 + (d - 1)
      in if 1 \<le> y \<and> y \<le> 9999 \<and> 1 \<le> w \<and> w \<le> weeks \<and> 1 \<le> d \<and> d \<le> 7 \<and> 1 \<le> ordinal \<and> ordinal \<le> 3652059
         then Some (ordinal - EPOCH_ORDINAL) else None)"

definition digit_value :: "char \<Rightarrow> int option" where
  "digit_value c = (let n = of_char c :: int in if 48 \<le> n \<and> n \<le> 57 then Some (n - 48) else None)"

fun digits_from :: "int \<Rightarrow> string \<Rightarrow> int option" where
  "digits_from acc [] = Some acc"
| "digits_from acc (c # cs) = (case digit_value c of None \<Rightarrow> None | Some d \<Rightarrow> digits_from (acc * 10 + d) cs)"

definition three :: "(int \<Rightarrow> int \<Rightarrow> int \<Rightarrow> day option) \<Rightarrow> string \<Rightarrow> string \<Rightarrow> string \<Rightarrow> day option" where
  "three f a b c =
     (case (digits_from 0 a, digits_from 0 b, digits_from 0 c) of (Some x, Some y, Some z) \<Rightarrow> f x y z | _ \<Rightarrow> None)"

definition from_isoformat :: "string \<Rightarrow> day option" where
  "from_isoformat s =
     (let y = take 4 s; r = drop 4 s in
      case (length s, r) of
        (_, CHR ''-'' # CHR ''W'' # t) \<Rightarrow>
          if length s = 8 then three isoweek_day y t ''1''
          else if length s = 10 \<and> t ! 2 = CHR ''-'' then three isoweek_day y (take 2 t) (drop 3 t) else None
      | (_, CHR ''W'' # t) \<Rightarrow>
          if length s = 7 then three isoweek_day y t ''1''
          else if length s = 8 then three isoweek_day y (take 2 t) (drop 2 t) else None
      | (_, CHR ''-'' # t) \<Rightarrow> if length s = 10 \<and> t ! 2 = CHR ''-'' then three ymd_day y (take 2 t) (drop 3 t) else None
      | _ \<Rightarrow> if length s = 8 then three ymd_day y (take 2 r) (drop 2 r) else None)"

definition date_of :: "time \<Rightarrow> day" where
  "date_of t = t div 86400000000"

end
