(* ===== verification/Calendar.thy ===== *)
theory Calendar
  imports Dates Repository
begin

text \<open>
  The market calendar, \<open>calendar/__init__.py\<close>, the daily cross-check of it against the brokers
  and the entry window it grants, \<open>calendar/checks.py\<close>, and the clock monitor,
  \<open>calendar/disagreement.py\<close>: the pure part, over the three calendar tables.

  The library's sessions and the New York time zone are arguments: \<open>market_cal\<close> holds the
  sessions as sorted entries of a dict, \<open>zone\<close> converts between instants and New York dates.
\<close>

datatype venue = US_EQUITY | US_OPTION | CRYPTO_MARKET

fun venue_value :: "venue \<Rightarrow> string" where
  "venue_value US_EQUITY = ''us_equity''"
| "venue_value US_OPTION = ''us_option''"
| "venue_value CRYPTO_MARKET = ''crypto''"

record cal_session =
  cs_venue :: venue
  cs_date :: day
  cs_open :: time
  cs_close :: time
  cs_early :: bool

record broker_session =
  bs_venue :: venue
  bs_date :: day
  bs_open :: time
  bs_close :: time
  bs_source :: string

record zone =
  zn_date :: "time \<Rightarrow> day"
  zn_instant :: "day \<Rightarrow> time \<Rightarrow> time"

record market_cal =
  mc_sessions :: "(day \<times> time \<times> time) list"
  mc_first :: day
  mc_last :: day
  mc_option_from_equity :: bool

definition hour_minute :: "int \<Rightarrow> int \<Rightarrow> time" where
  "hour_minute h m = (h * 60 + m) * 60000000"

definition OPTION_CLOSE :: time where "OPTION_CLOSE = hour_minute 16 0"
definition OPTION_EARLY_CLOSE :: time where "OPTION_EARLY_CLOSE = hour_minute 13 0"

definition venue_for :: "asset_identity \<Rightarrow> venue" where
  "venue_for a = (if a_class a = CRYPTO then CRYPTO_MARKET else if a_class a = OPTION then US_OPTION else US_EQUITY)"

subsection \<open>The calendar\<close>

definition new_calendar :: "(day \<times> time \<times> time) list \<Rightarrow> day \<Rightarrow> day \<Rightarrow> bool \<Rightarrow> market_cal" where
  "new_calendar sessions f l from_equity =
     \<lparr>mc_sessions = sort_key fst sessions, mc_first = f, mc_last = l, mc_option_from_equity = from_equity\<rparr>"

definition within_horizon :: "market_cal \<Rightarrow> day \<Rightarrow> bool" where
  "within_horizon c d = (mc_first c \<le> d \<and> d \<le> mc_last c)"

definition require_day :: "market_cal \<Rightarrow> day \<Rightarrow> unit res" where
  "require_day c d = guardR (\<not> (d < mc_first c \<or> mc_last c < d)) (HorizonExceeded ''CALENDAR_HORIZON_EXCEEDED'')"

definition is_session :: "market_cal \<Rightarrow> venue \<Rightarrow> day \<Rightarrow> bool res" where
  "is_session c v d =
     (if v = CRYPTO_MARKET then Inr True
      else bindR (require_day c d) (\<lambda>_. Inr (map_of (mc_sessions c) d \<noteq> None)))"

text \<open>A crypto session is the UTC day; an option session closes at 16:00, or 13:00 on an early day.\<close>

definition equity_session :: "zone \<Rightarrow> market_cal \<Rightarrow> venue \<Rightarrow> day \<Rightarrow> time \<times> time \<Rightarrow> cal_session" where
  "equity_session z c v d h =
     (let early = snd h < zn_instant z d OPTION_CLOSE;
          close = (if v = US_OPTION \<and> \<not> mc_option_from_equity c
                   then zn_instant z d (if early then OPTION_EARLY_CLOSE else OPTION_CLOSE) else snd h)
      in \<lparr>cs_venue = v, cs_date = d, cs_open = fst h, cs_close = close, cs_early = early\<rparr>)"

definition session_of :: "zone \<Rightarrow> market_cal \<Rightarrow> venue \<Rightarrow> day \<Rightarrow> cal_session option res" where
  "session_of z c v d =
     (if v = CRYPTO_MARKET
      then Inr (Some \<lparr>cs_venue = v, cs_date = d, cs_open = d * 86400000000, cs_close = (d + 1) * 86400000000, cs_early = False\<rparr>)
      else bindR (require_day c d) (\<lambda>_. Inr (map_option (equity_session z c v d) (map_of (mc_sessions c) d))))"

definition cal_dates :: "market_cal \<Rightarrow> day list" where
  "cal_dates c = map fst (mc_sessions c)"

definition bisect_left :: "day list \<Rightarrow> day \<Rightarrow> nat" where
  "bisect_left ds d = length (takeWhile (\<lambda>x. x < d) ds)"

definition bisect_right :: "day list \<Rightarrow> day \<Rightarrow> nat" where
  "bisect_right ds d = length (takeWhile (\<lambda>x. x \<le> d) ds)"

fun sessions_at :: "zone \<Rightarrow> market_cal \<Rightarrow> venue \<Rightarrow> day list \<Rightarrow> cal_session list res" where
  "sessions_at z c v [] = Inr []"
| "sessions_at z c v (d # ds) =
     bindR (session_of z c v d) (\<lambda>s. bindR (sessions_at z c v ds) (\<lambda>ss. Inr (case s of None \<Rightarrow> ss | Some s \<Rightarrow> s # ss)))"

definition sessions_between :: "zone \<Rightarrow> market_cal \<Rightarrow> venue \<Rightarrow> day \<Rightarrow> day \<Rightarrow> cal_session list res" where
  "sessions_between z c v a b =
     (if v = CRYPTO_MARKET then sessions_at z c v [a..b]
      else bindR (require_day c a) (\<lambda>_. bindR (require_day c b) (\<lambda>_.
        let lo = bisect_left (cal_dates c) a; hi = bisect_right (cal_dates c) b
        in sessions_at z c v (drop lo (take hi (cal_dates c))))))"

definition nth_session_after :: "zone \<Rightarrow> market_cal \<Rightarrow> venue \<Rightarrow> time \<Rightarrow> int \<Rightarrow> cal_session option res" where
  "nth_session_after z c v t n =
     (if n < 1 then Inl (ValueError ''n must be >= 1'')
      else let d = zn_date z t
           in if v = CRYPTO_MARKET then session_of z c v (d + n)
              else bindR (require_day c d) (\<lambda>_.
                let i = int (bisect_right (cal_dates c) d) + n - 1
                in if int (length (cal_dates c)) \<le> i then Inl (HorizonExceeded ''CALENDAR_HORIZON_EXCEEDED'')
                   else session_of z c v (cal_dates c ! nat i)))"

definition sessions_after_count :: "market_cal \<Rightarrow> day \<Rightarrow> day \<Rightarrow> int" where
  "sessions_after_count c after through = int (bisect_right (cal_dates c) through) - int (bisect_right (cal_dates c) after)"

definition in_hours :: "cal_session option \<Rightarrow> time \<Rightarrow> bool" where
  "in_hours s t = (case s of None \<Rightarrow> False | Some s \<Rightarrow> cs_open s \<le> t \<and> t < cs_close s)"

definition is_regular_hours :: "zone \<Rightarrow> market_cal \<Rightarrow> venue \<Rightarrow> time \<Rightarrow> bool res" where
  "is_regular_hours z c v t =
     (if v = CRYPTO_MARKET then Inr True else bindR (session_of z c v (zn_date z t)) (\<lambda>s. Inr (in_hours s t)))"

subsection \<open>The check tables\<close>

datatype check_event = CheckStarted | CheckFetched | CheckCompleted | CheckFailed

datatype check_result = Agreed | Contested

record check_event_row =
  ce_check :: string
  ce_event :: check_event
  ce_broker :: string
  ce_venue :: venue
  ce_range_start :: "day option"
  ce_instrument :: "string option"
  ce_reason :: "string option"
  ce_at :: time

record check_date_row =
  cd_check :: string
  cd_broker :: string
  cd_venue :: venue
  cd_date :: day
  cd_result :: check_result
  cd_checked_at :: time
  cd_record :: string

record hours_row =
  hr_check :: string
  hr_broker :: string
  hr_instrument :: string
  hr_date :: day
  hr_checked_at :: time
  hr_open :: time
  hr_close :: time

record calendar_tables =
  ct_events :: "check_event_row list"
  ct_dates :: "check_date_row list"
  ct_hours :: "hours_row list"

definition check_has :: "calendar_tables \<Rightarrow> string \<Rightarrow> check_event \<Rightarrow> bool" where
  "check_has ct i e = list_ex (\<lambda>r. ce_check r = i \<and> ce_event r = e) (ct_events ct)"

text \<open>\<open>UNIQUE(check_id, event)\<close>: a second row of the same event raises.\<close>

definition add_event :: "check_event_row \<Rightarrow> calendar_tables \<Rightarrow> calendar_tables res" where
  "add_event r ct =
     bindR (guardR (\<not> check_has ct (ce_check r) (ce_event r)) (DatabaseErr ''UNIQUE(check_id, event)''))
       (\<lambda>_. Inr (ct\<lparr>ct_events := ct_events ct @ [r]\<rparr>))"

subsection \<open>Comparing a broker's calendar\<close>

record compared_day =
  cp_date :: day
  cp_result :: check_result
  cp_broker :: "(time \<times> time) option"
  cp_calendar :: "(time \<times> time) option"

definition compare_day :: "cal_session option \<Rightarrow> broker_session option \<Rightarrow> day \<Rightarrow> compared_day" where
  "compare_day lib rep d =
     (let lt = map_option (\<lambda>s. (cs_open s, cs_close s)) lib; rt = map_option (\<lambda>s. (bs_open s, bs_close s)) rep
      in \<lparr>cp_date = d, cp_result = (if lt = rt then Agreed else Contested), cp_broker = rt, cp_calendar = lt\<rparr>)"

fun compare_from :: "zone \<Rightarrow> market_cal \<Rightarrow> venue \<Rightarrow> broker_session list \<Rightarrow> day list \<Rightarrow> compared_day list" where
  "compare_from z c v mine [] = []"
| "compare_from z c v mine (d # ds) =
     (case session_of z c v d of
        Inl _ \<Rightarrow> []
      | Inr lib \<Rightarrow> compare_day lib (find (\<lambda>s. bs_date s = d) mine) d # compare_from z c v mine ds)"

definition compare_calendar :: "zone \<Rightarrow> market_cal \<Rightarrow> venue \<Rightarrow> broker_session list \<Rightarrow> compared_day list res" where
  "compare_calendar z c v sessions =
     (let mine = sort_key bs_date (filter (\<lambda>s. bs_venue s = v) sessions)
      in if mine = [] then Inr []
         else if \<not> distinct (map bs_date mine) then Inl (ValueError (''CALENDAR_RESPONSE_DUPLICATE_DATE: '' @ venue_value v))
         else Inr (compare_from z c v mine [bs_date (hd mine)..bs_date (last mine)]))"

subsection \<open>The status of a date\<close>

datatype cal_status = Verified_Date | Contested_Date | Unverified_Date | Beyond_Horizon

fun cal_status_value :: "cal_status \<Rightarrow> string" where
  "cal_status_value Verified_Date = ''verified''"
| "cal_status_value Contested_Date = ''contested''"
| "cal_status_value Unverified_Date = ''unverified''"
| "cal_status_value Beyond_Horizon = ''beyond_horizon''"

record cal_gate =
  cg_zone :: zone
  cg_calendar :: market_cal
  cg_brokers :: "string list"

definition FRESH_SESSIONS :: int where "FRESH_SESSIONS = 3"

definition check_fresh :: "cal_gate \<Rightarrow> time \<Rightarrow> time \<Rightarrow> bool" where
  "check_fresh g checked_at now =
     (let a = zn_date (cg_zone g) checked_at; b = zn_date (cg_zone g) now
      in a \<le> b \<and> sessions_after_count (cg_calendar g) a b \<le> FRESH_SESSIONS)"

text \<open>The rows of completed checks, \<open>ORDER BY checked_at, created_at, record_id\<close> (a row's two times are one).\<close>

definition completed_dates :: "calendar_tables \<Rightarrow> venue \<Rightarrow> day \<Rightarrow> check_date_row list" where
  "completed_dates ct v d =
     sort_key (\<lambda>r. (cd_checked_at r, cd_record r))
       (filter (\<lambda>r. cd_venue r = v \<and> cd_date r = d \<and> check_has ct (cd_check r) CheckCompleted) (ct_dates ct))"

definition rows_of_broker :: "string \<Rightarrow> check_date_row list \<Rightarrow> check_date_row list" where
  "rows_of_broker b rows = filter (\<lambda>r. cd_broker r = b) rows"

definition latest_result :: "string \<Rightarrow> check_date_row list \<Rightarrow> check_result option" where
  "latest_result b rows = (if rows_of_broker b rows = [] then None else Some (cd_result (last (rows_of_broker b rows))))"

definition freshly_agreed :: "cal_gate \<Rightarrow> time \<Rightarrow> string \<Rightarrow> check_date_row list \<Rightarrow> bool" where
  "freshly_agreed g now b rows = list_ex (\<lambda>r. cd_result r = Agreed \<and> check_fresh g (cd_checked_at r) now) (rows_of_broker b rows)"

definition gate_status :: "cal_gate \<Rightarrow> calendar_tables \<Rightarrow> venue \<Rightarrow> day \<Rightarrow> time \<Rightarrow> cal_status" where
  "gate_status g ct v d now =
     (if v = CRYPTO_MARKET then Verified_Date
      else if \<not> within_horizon (cg_calendar g) d then Beyond_Horizon
      else if cg_brokers g = [] then Unverified_Date
      else let rows = completed_dates ct v d
           in if list_ex (\<lambda>b. latest_result b rows = Some Contested) (cg_brokers g) then Contested_Date
              else if list_all (\<lambda>b. freshly_agreed g now b rows \<and> latest_result b rows = Some Agreed) (cg_brokers g) then Verified_Date
              else Unverified_Date)"

subsection \<open>An instrument's own hours\<close>

text \<open>\<open>ORDER BY checked_at DESC, created_at DESC LIMIT 1\<close>: the latest row, the first stored of equals.\<close>

definition latest_hours :: "calendar_tables \<Rightarrow> string \<Rightarrow> string \<Rightarrow> day \<Rightarrow> hours_row option" where
  "latest_hours ct broker key d =
     (case filter (\<lambda>h. hr_broker h = broker \<and> hr_instrument h = key \<and> hr_date h = d \<and> check_has ct (hr_check h) CheckCompleted) (ct_hours ct) of
        [] \<Rightarrow> None
      | h # hs \<Rightarrow> Some (min_by (\<lambda>x. - hr_checked_at x) h hs))"

definition instrument_close :: "cal_gate \<Rightarrow> calendar_tables \<Rightarrow> string \<Rightarrow> asset_identity \<Rightarrow> time \<Rightarrow> time option res" where
  "instrument_close g ct broker a t =
     (let d = zn_date (cg_zone g) t
      in bindR (if within_horizon (cg_calendar g) d then session_of (cg_zone g) (cg_calendar g) US_OPTION d else Inr None) (\<lambda>s.
         case s of
           None \<Rightarrow> Inr None
         | Some s \<Rightarrow>
             if gate_status g ct US_OPTION d t \<noteq> Verified_Date then Inr None
             else (case latest_hours ct broker (asset_identity_key a) d of
                     None \<Rightarrow> Inr None
                   | Some h \<Rightarrow> Inr (if \<not> check_fresh g (hr_checked_at h) t \<or> hr_close h \<le> t \<or> hr_close h < cs_close s then None
                                   else Some (hr_close h)))))"

subsection \<open>The clock monitor\<close>

record clock_monitor =
  cm_active :: bool
  cm_episode_started_at :: "time option"
  cm_closed_since :: "time option"
  cm_episode_days :: "day list"

definition new_monitor :: clock_monitor where
  "new_monitor = \<lparr>cm_active = False, cm_episode_started_at = None, cm_closed_since = None, cm_episode_days = []\<rparr>"

definition GRACE :: time where "GRACE = hour_minute 0 5"

definition session_now :: "zone \<Rightarrow> market_cal \<Rightarrow> time \<Rightarrow> bool" where
  "session_now z c now = (case is_regular_hours z c US_EQUITY now of Inr b \<Rightarrow> b | Inl _ \<Rightarrow> False)"

definition observed_closed :: "clock_monitor \<Rightarrow> bool \<Rightarrow> bool \<Rightarrow> time \<Rightarrow> time option" where
  "observed_closed m clock_open in_session now =
     (if \<not> clock_open \<and> in_session then Some (case cm_closed_since m of None \<Rightarrow> now | Some t \<Rightarrow> t) else None)"

definition observe_clock :: "zone \<Rightarrow> market_cal \<Rightarrow> bool \<Rightarrow> time \<Rightarrow> clock_monitor \<Rightarrow> bool \<times> clock_monitor" where
  "observe_clock z c clock_open now m =
     (let ins = session_now z c now; since = observed_closed m clock_open ins now;
          disagree = (if clock_open \<and> \<not> ins then True else case since of None \<Rightarrow> False | Some t \<Rightarrow> GRACE < now - t);
          started = (disagree \<and> \<not> cm_active m)
      in (started,
          \<lparr>cm_active = disagree, cm_episode_started_at = (if started then Some now else cm_episode_started_at m),
           cm_closed_since = since,
           cm_episode_days = (if disagree then List.insert (zn_date z now) (cm_episode_days m) else cm_episode_days m)\<rparr>))"

definition episode_on :: "clock_monitor \<Rightarrow> day \<Rightarrow> bool" where
  "episode_on m d = (d \<in> set (cm_episode_days m))"

subsection \<open>The entry window\<close>

record broker_clock =
  bc_is_open :: bool
  bc_next_open :: "time option"

datatype window_basis = Regular_Session | Instrument_Hours | Continuous

record entry_window =
  ew_open :: bool
  ew_basis :: "window_basis option"
  ew_reason :: "string option"

definition open_window :: "window_basis \<Rightarrow> entry_window" where
  "open_window b = \<lparr>ew_open = True, ew_basis = Some b, ew_reason = None\<rparr>"

definition closed_window :: "string \<Rightarrow> entry_window" where
  "closed_window r = \<lparr>ew_open = False, ew_basis = None, ew_reason = Some r\<rparr>"

definition LATE_CLOSE_WINDOW :: time where "LATE_CLOSE_WINDOW = hour_minute 0 15"

fun status_reason :: "cal_status \<Rightarrow> string" where
  "status_reason Contested_Date = ''CALENDAR_DATE_CONTESTED''"
| "status_reason Unverified_Date = ''CALENDAR_UNVERIFIED''"
| "status_reason Beyond_Horizon = ''CALENDAR_HORIZON_EXCEEDED''"
| "status_reason Verified_Date = []"

definition closed_by_clock :: "venue \<Rightarrow> broker_clock \<Rightarrow> entry_window" where
  "closed_by_clock v k =
     (if \<not> bc_is_open k then closed_window (if v = US_OPTION then ''OPTION_MARKET_CLOSED'' else ''EQUITY_MARKET_CLOSED'')
      else closed_window ''CALENDAR_SESSION_CLOSED'')"

definition after_close_window ::
  "cal_gate \<Rightarrow> calendar_tables \<Rightarrow> clock_monitor \<Rightarrow> string \<Rightarrow> asset_identity \<Rightarrow> time \<Rightarrow> broker_clock \<Rightarrow> cal_session \<Rightarrow> entry_window res" where
  "after_close_window g ct m broker a t k s =
     bindR (instrument_close g ct broker a t) (\<lambda>close.
       Inr (if close \<noteq> None \<and> \<not> bc_is_open k \<and> (case bc_next_open k of None \<Rightarrow> False | Some n \<Rightarrow> t < n)
               \<and> \<not> episode_on m (zn_date (cg_zone g) t)
            then open_window Instrument_Hours
            else if t < cs_close s + LATE_CLOSE_WINDOW then closed_window ''OPTION_INSTRUMENT_HOURS_UNVERIFIED''
            else closed_by_clock US_OPTION k))"

definition entry_window_open ::
  "cal_gate \<Rightarrow> calendar_tables \<Rightarrow> clock_monitor \<Rightarrow> string \<Rightarrow> asset_identity \<Rightarrow> time \<Rightarrow> broker_clock \<Rightarrow> entry_window res" where
  "entry_window_open g ct m broker a t k =
     (let v = venue_for a; d = zn_date (cg_zone g) t; st = gate_status g ct v d t
      in if v = CRYPTO_MARKET then Inr (open_window Continuous)
         else if st \<noteq> Verified_Date then Inr (closed_window (status_reason st))
         else if cm_active m then Inr (closed_window ''CALENDAR_CLOCK_DISAGREEMENT'')
         else bindR (session_of (cg_zone g) (cg_calendar g) v d) (\<lambda>s.
           if in_hours s t \<and> bc_is_open k then Inr (open_window Regular_Session)
           else (case s of
                   Some s \<Rightarrow> if v = US_OPTION \<and> cs_close s \<le> t then after_close_window g ct m broker a t k s
                            else Inr (closed_by_clock v k)
                 | None \<Rightarrow> Inr (closed_by_clock v k))))"

end
