(* ===== verification/Evidence.thy ===== *)
theory Evidence
  imports Calendar Quarantine
begin

text \<open>
  The append-only evidence tables: the calendar checks, the session baselines of the entry
  policy (\<open>dbae/baseline.py\<close>), the fill cursor with the broker executions it left unresolved
  and their outcomes (\<open>reconciliation/unresolved.py\<close>, \<open>models/quarantine.py\<close>), and the records of
  the history proofs (\<open>reconciliation/completeness.py\<close>).
\<close>

record session_baseline =
  sb_session_date :: day
  sb_previous_date :: day
  sb_previous_close :: dec
  sb_last_equity :: dec
  sb_captured_at :: time

record unresolved_execution =
  ux_activity_id :: string
  ux_asset_key :: string
  ux_side :: side
  ux_quantity :: dec
  ux_price :: dec
  ux_time :: time
  ux_digest :: string
  ux_first_seen_at :: time
  ux_pass_id :: string

datatype execution_outcome = Matched_Fill | Quarantine_Execution | Pre_Database | Legacy_Reconciled

record unresolved_outcome =
  uo_activity_id :: string
  uo_outcome :: execution_outcome
  uo_matched_id :: string
  uo_digest :: string
  uo_resolved_at :: time

definition unresolved_post_init :: "unresolved_execution \<Rightarrow> unresolved_execution res" where
  "unresolved_post_init u =
     bindR (require_text (Some (ux_activity_id u))) (\<lambda>a.
     bindR (require_text (Some (ux_asset_key u))) (\<lambda>k.
     bindR (require_text (Some (ux_digest u))) (\<lambda>d.
     bindR (require_text (Some (ux_pass_id u))) (\<lambda>p.
     bindR (require_positive (ux_quantity u)) (\<lambda>_.
     bindR (require_positive (ux_price u)) (\<lambda>_.
       Inr (u\<lparr>ux_activity_id := a, ux_asset_key := k, ux_digest := d, ux_pass_id := p\<rparr>)))))))"

definition outcome_post_init :: "unresolved_outcome \<Rightarrow> unresolved_outcome res" where
  "outcome_post_init u =
     bindR (require_text (Some (uo_activity_id u))) (\<lambda>a.
     bindR (require_text (Some (uo_matched_id u))) (\<lambda>m.
     bindR (require_text (Some (uo_digest u))) (\<lambda>d.
       Inr (u\<lparr>uo_activity_id := a, uo_matched_id := m, uo_digest := d\<rparr>))))"

text \<open>
  The reconciliation records the history proofs read and write: one proof per pass (failures,
  full, cursor), a baseline per proven full pass, a note per late activity, and the records
  of the earlier fill reconciliation, with whether their outcome was matched or corrected.
  \<open>ev_created_at\<close> and \<open>ev_generation\<close> are the database's row of \<open>verification_identity\<close>.
\<close>

datatype history_body =
    HistoryProof "string list" bool string
  | HistoryBaseline string "(string \<times> dec) list"
  | LateActivity string bool
  | FillReconciled string bool

record history_record =
  hi_id :: string
  hi_body :: history_body
  hi_matched :: bool
  hi_at :: time

record fill_bootstrap =
  fb_account :: string
  fb_boundary :: string
  fb_count :: nat
  fb_quantities :: "(string \<times> dec) list"
  fb_cash :: "dec \<times> dec"
  fb_reason :: string
  fb_created_at :: time

record cursor_row =
  cu_cursor :: string
  cu_pass_id :: string
  cu_at :: time

text \<open>A baseline row that cannot be decoded is \<open>None\<close>.\<close>

record evidence_tables =
  ev_calendar :: calendar_tables
  ev_baselines :: "session_baseline option tbl"
  ev_cursor :: "cursor_row option"
  ev_unresolved :: "unresolved_execution tbl"
  ev_outcomes :: "unresolved_outcome tbl"
  ev_bootstrap :: "fill_bootstrap tbl"
  ev_history :: "history_record tbl"
  ev_created_at :: time
  ev_generation :: "string option"

definition no_evidence :: evidence_tables where
  "no_evidence = \<lparr>ev_calendar = \<lparr>ct_events = [], ct_dates = [], ct_hours = []\<rparr>, ev_baselines = [], ev_cursor = None, ev_unresolved = [],
     ev_outcomes = [], ev_bootstrap = [], ev_history = [], ev_created_at = 0, ev_generation = None\<rparr>"

end
