(* ===== verification/Epochs.thy ===== *)
theory Epochs
  imports Repository
begin

text \<open>
  The accounting epochs of crypto instruments, \<open>reconciliation/epochs.py\<close>: admission of an
  order before its submission and the gross fills recorded afterwards. An epoch is a
  statement about the finality of the executions it lists; it is open until it is reconciled
  to net inventory. \<open>epoch_book\<close> is the epochs in their insertion order and the immutable
  receipts that explain every change.

  The opening checkpoint is read from the verification artifacts on disk: \<open>opening\<close> is the
  result of that read. \<open>sha\<close> is the identifier digest of a canonical JSON value; the JSON
  object is a constructor of \<open>digest_input\<close>.
\<close>

datatype epoch_state = EpSubmitted | EpFilledGross | EpFeePending | EpReconciledNet | EpIntegrityBlocked

record opening_ref =
  or_generation :: string
  or_checkpoint :: string
  or_opened_at :: time
  or_cursor :: string
  or_population :: string
  or_account :: string

record opening_checkpoint =
  oc_ref :: opening_ref
  oc_quantities :: "(string \<times> dec) list"

record epoch =
  ep_key :: string
  ep_id :: string
  ep_start :: "dec option"
  ep_end :: "dec option"
  ep_gross :: dec
  ep_fee_quantity :: dec
  ep_net :: "dec option"
  ep_cash_fee :: dec
  ep_state :: epoch_state
  ep_cursor :: "string option"
  ep_window :: "string option"
  ep_fee_evidence :: "string list"
  ep_proof :: "string option"
  ep_population :: "string option"
  ep_opened :: time
  ep_reconciled :: "time option"
  ep_intents :: "string list"
  ep_fills :: "string list"
  ep_version :: nat
  ep_checkpoint :: "string option"
  ep_superseded :: "string list"
  ep_adoption :: "string option"
  ep_opening :: "opening_ref option"
  ep_reason :: "string option"

datatype receipt_body =
    EpochBody epoch
  | SupersededBody receipt_body string "epoch option"

record receipt =
  rc_id :: string
  rc_subject :: string
  rc_matched :: bool
  rc_actual :: receipt_body
  rc_at :: time

datatype digest_input =
    SupersededProof string string nat
  | CheckpointOf string nat "string option"
  | TransitionOf "epoch option" epoch

record epoch_book =
  eb_epochs :: "epoch list"
  eb_receipts :: "receipt list"

definition epochs_for :: "epoch_book \<Rightarrow> string \<Rightarrow> epoch list" where
  "epochs_for b key = filter (\<lambda>e. ep_key e = key) (eb_epochs b)"

definition epoch_with :: "epoch list \<Rightarrow> string \<Rightarrow> epoch option" where
  "epoch_with es i = find (\<lambda>e. ep_id e = i) es"

definition receipt_with :: "receipt list \<Rightarrow> string \<Rightarrow> receipt option" where
  "receipt_with rs i = find (\<lambda>r. rc_id r = i) rs"

text \<open>\<open>INSERT OR IGNORE\<close> of a receipt, and \<open>INSERT ... ON CONFLICT DO UPDATE\<close> of an epoch.\<close>

definition add_receipt_row :: "receipt \<Rightarrow> receipt list \<Rightarrow> receipt list" where
  "add_receipt_row r rs = (if receipt_with rs (rc_id r) = None then rs @ [r] else rs)"

definition put_epoch :: "epoch \<Rightarrow> epoch list \<Rightarrow> epoch list" where
  "put_epoch e es = (if epoch_with es (ep_id e) = None then es @ [e] else map (\<lambda>x. if ep_id x = ep_id e then e else x) es)"

subsection \<open>Saving an epoch\<close>

definition opening_matches :: "opening_checkpoint option \<Rightarrow> epoch \<Rightarrow> bool" where
  "opening_matches ck e = (case ck of None \<Rightarrow> True | Some c \<Rightarrow> ep_opening e = Some (oc_ref c))"

definition prior_receipt :: "epoch_book \<Rightarrow> epoch \<Rightarrow> receipt option" where
  "prior_receipt b previous = (case ep_checkpoint previous of None \<Rightarrow> None | Some c \<Rightarrow> receipt_with (eb_receipts b) c)"

definition receipt_matches :: "epoch_book \<Rightarrow> epoch \<Rightarrow> bool" where
  "receipt_matches b previous =
     (case prior_receipt b previous of None \<Rightarrow> False | Some r \<Rightarrow> rc_matched r \<and> rc_actual r = EpochBody previous)"

definition changed_checkpoint :: "epoch_book \<Rightarrow> epoch \<Rightarrow> epoch option \<Rightarrow> bool" where
  "changed_checkpoint b e prev =
     (case prev of None \<Rightarrow> False | Some p \<Rightarrow> ep_state e \<noteq> EpReconciledNet \<or> e \<noteq> p \<or> \<not> receipt_matches b p)"

definition with_superseded :: "epoch \<Rightarrow> epoch \<Rightarrow> epoch" where
  "with_superseded previous e =
     (case ep_checkpoint previous of
        None \<Rightarrow> e
      | Some c \<Rightarrow> if c \<in> set (ep_superseded e) then e else e\<lparr>ep_superseded := ep_superseded e @ [c]\<rparr>)"

definition superseded_receipt :: "(digest_input \<Rightarrow> string) \<Rightarrow> epoch_book \<Rightarrow> epoch \<Rightarrow> epoch \<Rightarrow> string \<Rightarrow> time \<Rightarrow> receipt" where
  "superseded_receipt sha b previous e proof_id now =
     \<lparr>rc_id = ''epoch_proof_superseded:'' @ sha (SupersededProof (ep_id e) proof_id (ep_version previous)),
      rc_subject = ep_id e, rc_matched = False,
      rc_actual = SupersededBody (case prior_receipt b previous of Some r \<Rightarrow> rc_actual r | None \<Rightarrow> EpochBody previous)
        (case ep_reason e of Some t \<Rightarrow> t | None \<Rightarrow> ''new_accounting_evidence'')
        (if receipt_matches b previous then None else Some previous),
      rc_at = now\<rparr>"

text \<open>A reconciled epoch whose checkpoint changes keeps its superseded proof.\<close>

definition supersede :: "(digest_input \<Rightarrow> string) \<Rightarrow> epoch_book \<Rightarrow> epoch option \<Rightarrow> time \<Rightarrow> epoch \<Rightarrow> epoch \<times> receipt list" where
  "supersede sha b prev now e =
     (case prev of
        Some p \<Rightarrow>
          (case ep_proof p of
             Some pr \<Rightarrow>
               if ep_state p = EpReconciledNet \<and> changed_checkpoint b e prev
               then (let e1 = with_superseded p e
                     in (e1, add_receipt_row (superseded_receipt sha b p e1 pr now) (eb_receipts b)))
               else (e, eb_receipts b)
           | None \<Rightarrow> (e, eb_receipts b))
      | None \<Rightarrow> (e, eb_receipts b))"

definition new_checkpoint :: "(digest_input \<Rightarrow> string) \<Rightarrow> epoch_book \<Rightarrow> epoch \<Rightarrow> epoch option \<Rightarrow> epoch \<Rightarrow> epoch" where
  "new_checkpoint sha b e prev e1 =
     (if ep_state e1 = EpReconciledNet
         \<and> ((case prev of None \<Rightarrow> True | Some p \<Rightarrow> ep_state p \<noteq> EpReconciledNet) \<or> changed_checkpoint b e prev)
      then let v = (case prev of None \<Rightarrow> 1 | Some p \<Rightarrow> ep_version p + 1)
           in e1\<lparr>ep_version := v, ep_checkpoint := Some (''epoch_checkpoint:'' @ sha (CheckpointOf (ep_id e1) v (ep_proof e1)))\<rparr>
      else e1)"

definition epoch_receipt :: "string \<Rightarrow> bool \<Rightarrow> epoch \<Rightarrow> time \<Rightarrow> receipt" where
  "epoch_receipt i matched e now = \<lparr>rc_id = i, rc_subject = ep_id e, rc_matched = matched, rc_actual = EpochBody e, rc_at = now\<rparr>"

definition checkpoint_receipts :: "epoch \<Rightarrow> time \<Rightarrow> receipt list \<Rightarrow> receipt list" where
  "checkpoint_receipts e now rs =
     (if ep_state e = EpReconciledNet
      then add_receipt_row (epoch_receipt (case ep_checkpoint e of Some c \<Rightarrow> c | None \<Rightarrow> []) True e now) rs else rs)"

text \<open>Returns the epoch as the caller's dict holds it afterwards.\<close>

definition save_epoch ::
  "opening_checkpoint option res \<Rightarrow> (digest_input \<Rightarrow> string) \<Rightarrow> epoch \<Rightarrow> time \<Rightarrow> epoch_book \<Rightarrow> (epoch \<times> epoch_book) res" where
  "save_epoch opening sha e now b =
     bindR opening (\<lambda>ck.
     bindR (guardR (opening_matches ck e) (ValueError ''EPOCH_GENERATION_OPENING_REFERENCE_INVALID'')) (\<lambda>_.
       let prev = epoch_with (eb_epochs b) (ep_id e);
           (e1, rs1) = supersede sha b prev now e;
           e2 = new_checkpoint sha b e prev e1
       in Inr (if prev = Some e2 then (e2, b\<lparr>eb_receipts := rs1\<rparr>)
               else (e2, \<lparr>eb_epochs = put_epoch e2 (eb_epochs b),
                          eb_receipts = add_receipt_row
                            (epoch_receipt (''epoch_transition:'' @ sha (TransitionOf prev e2)) (ep_state e2 = EpReconciledNet) e2 now)
                            (checkpoint_receipts e2 now rs1)\<rparr>))))"

subsection \<open>Admission and gross fills\<close>

definition new_epoch :: "opening_checkpoint option res \<Rightarrow> string \<Rightarrow> string \<Rightarrow> time \<Rightarrow> dec option \<Rightarrow> string list \<Rightarrow> epoch res" where
  "new_epoch opening key i now starting intents =
     bindR opening (\<lambda>ck. Inr
       \<lparr>ep_key = key, ep_id = i, ep_start = starting, ep_end = None, ep_gross = 0, ep_fee_quantity = 0, ep_net = None,
        ep_cash_fee = 0, ep_state = EpSubmitted, ep_cursor = None, ep_window = None, ep_fee_evidence = [], ep_proof = None,
        ep_population = None, ep_opened = now, ep_reconciled = None, ep_intents = intents, ep_fills = [], ep_version = 0,
        ep_checkpoint = None, ep_superseded = [], ep_adoption = None, ep_opening = map_option oc_ref ck, ep_reason = None\<rparr>)"

definition own_epoch :: "string \<Rightarrow> epoch list \<Rightarrow> epoch option" where
  "own_epoch intent es = find (\<lambda>e. intent \<in> set (ep_intents e)) es"

definition unresolved :: "epoch list \<Rightarrow> epoch list" where
  "unresolved es = filter (\<lambda>e. ep_state e \<noteq> EpReconciledNet) es"

definition assigned_intents :: "epoch list \<Rightarrow> string set" where
  "assigned_intents es = (\<Union>e\<in>set es. set (ep_intents e))"

definition unassigned_fill :: "string \<Rightarrow> epoch list \<Rightarrow> fill tbl \<Rightarrow> bool" where
  "unassigned_fill key es fills =
     list_ex (\<lambda>r. asset_identity_key (f_asset (r_payload r)) = key
                  \<and> \<not> list_ex (\<lambda>e. f_trade_intent_id (r_payload r) \<in> set (ep_intents e)) es) fills"

definition join_epoch :: "opening_checkpoint option res \<Rightarrow> (digest_input \<Rightarrow> string) \<Rightarrow> string \<Rightarrow> time \<Rightarrow> epoch_book \<Rightarrow> epoch
    \<Rightarrow> (string \<times> epoch_book) res" where
  "join_epoch opening sha intent now b e =
     bindR (save_epoch opening sha (e\<lparr>ep_intents := ep_intents e @ [intent]\<rparr>) now b) (\<lambda>(e', b'). Inr (ep_id e', b'))"

definition open_epoch :: "opening_checkpoint option res \<Rightarrow> (digest_input \<Rightarrow> string) \<Rightarrow> string \<Rightarrow> string \<Rightarrow> dec \<Rightarrow> time \<Rightarrow> epoch_book
    \<Rightarrow> (string \<times> epoch_book) res" where
  "open_epoch opening sha key intent broker_quantity now b =
     bindR opening (\<lambda>ck.
       let held = (case ck of None \<Rightarrow> 0 | Some c \<Rightarrow> (case map_of (rev (oc_quantities c)) key of None \<Rightarrow> 0 | Some q \<Rightarrow> q))
       in bindR (new_epoch opening key (''crypto_epoch:'' @ intent) now (Some (dsub broker_quantity held)) [intent]) (\<lambda>e.
          bindR (save_epoch opening sha e now b) (\<lambda>(e', b'). Inr (ep_id e', b'))))"

definition reserve_epoch ::
  "opening_checkpoint option res \<Rightarrow> (digest_input \<Rightarrow> string) \<Rightarrow> asset_identity \<Rightarrow> string \<Rightarrow> dec \<Rightarrow> bool \<Rightarrow> time
   \<Rightarrow> fill tbl \<Rightarrow> epoch_book \<Rightarrow> (string option \<times> epoch_book) res" where
  "reserve_epoch opening sha asset intent broker_quantity protective now fills b =
     (if a_class asset \<noteq> CRYPTO then Inr (None, b)
      else let key = asset_identity_key asset; es = epochs_for b key; adopted = filter (\<lambda>e. ep_adoption e \<noteq> None) (unresolved es)
      in case own_epoch intent es of
           Some own \<Rightarrow> Inr (Some (ep_id own), b)
         | None \<Rightarrow>
             bindR (if adopted \<noteq> []
                    then if \<not> protective then Inl (AccountingEpochPending (''CRYPTO_ADOPTED_INVENTORY_OPEN:'' @ key))
                         else join_epoch opening sha intent now b (last adopted)
                    else if unassigned_fill key es fills \<and> \<not> protective
                    then Inl (AccountingEpochPending (''CRYPTO_ACCOUNTING_HISTORY_UNVERIFIED:'' @ key))
                    else if unresolved es \<noteq> [] \<and> \<not> protective
                    then Inl (AccountingEpochPending (''CRYPTO_ACCOUNTING_EPOCH_PENDING:'' @ key))
                    else if unresolved es \<noteq> [] then join_epoch opening sha intent now b (last (unresolved es))
                    else open_epoch opening sha key intent broker_quantity now b) (\<lambda>(i, b'). Inr (Some i, b')))"

definition fill_epoch :: "opening_checkpoint option res \<Rightarrow> fill \<Rightarrow> epoch_book \<Rightarrow> epoch res" where
  "fill_epoch opening f b =
     (let key = asset_identity_key (f_asset f)
      in case own_epoch (f_trade_intent_id f) (epochs_for b key) of
           Some e \<Rightarrow> Inr e
         | None \<Rightarrow> new_epoch opening key (''crypto_epoch:'' @ f_trade_intent_id f) (f_filled_at f) None [f_trade_intent_id f])"

definition grossed :: "fill \<Rightarrow> epoch \<Rightarrow> epoch" where
  "grossed f e = e\<lparr>ep_fills := ep_fills e @ [f_id f], ep_gross := dadd (ep_gross e) (f_quantity f),
                   ep_state := EpFilledGross, ep_reconciled := None\<rparr>"

definition record_gross_fill ::
  "opening_checkpoint option res \<Rightarrow> (digest_input \<Rightarrow> string) \<Rightarrow> fill \<Rightarrow> time \<Rightarrow> fill tbl \<times> epoch_book \<Rightarrow> (fill tbl \<times> epoch_book) res" where
  "record_gross_fill opening sha f now = (\<lambda>(fills, b).
     bindR (fill_epoch opening f b) (\<lambda>e.
     bindR (guardR (case get_row fills (f_id f) of None \<Rightarrow> True | Some r \<Rightarrow> r_payload r = f)
              (ValueError ''CRYPTO_GROSS_FILL_RECEIPT_CHANGED'')) (\<lambda>_.
       let fills' = snd (insert_or_ignore \<lparr>r_id = f_id f, r_status = None, r_unique = f_broker_fill_id f, r_payload = f, r_created = now\<rparr> fills)
       in if f_id f \<in> set (ep_fills e) then Inr (fills', b)
          else bindR (save_epoch opening sha (grossed f e) now b) (\<lambda>(e1, b1).
               bindR (save_epoch opening sha (e1\<lparr>ep_state := EpFeePending\<rparr>) now b1) (\<lambda>(_, b2). Inr (fills', b2))))))"

subsection \<open>Facts about a saved epoch\<close>

definition book_ok :: "epoch_book \<Rightarrow> bool" where
  "book_ok b \<longleftrightarrow> distinct (map ep_id (eb_epochs b))"

lemma find_None_iff_all: "find P xs = None \<longleftrightarrow> (\<forall>x\<in>set xs. \<not> P x)"
  by (induction xs) auto

lemma find_SomeD: "find P xs = Some x \<Longrightarrow> x \<in> set xs \<and> P x"
  by (induction xs) (auto split: if_splits)

lemma put_epoch_ids:
  assumes "distinct (map ep_id es)"
  shows "distinct (map ep_id (put_epoch e es))"
proof (cases "epoch_with es (ep_id e)")
  case None
  with assms show ?thesis by (auto simp: put_epoch_def epoch_with_def find_None_iff_all)
next
  case (Some x)
  have "map ep_id (map (\<lambda>x. if ep_id x = ep_id e then e else x) es) = map ep_id es" by (induction es) auto
  with Some assms show ?thesis by (simp only: put_epoch_def option.distinct if_False)
qed

lemma put_epoch_in: "e \<in> set (put_epoch e es)"
proof (cases "epoch_with es (ep_id e)")
  case None
  then show ?thesis by (simp add: put_epoch_def)
next
  case (Some x)
  then have "x \<in> set es" "ep_id x = ep_id e" using find_SomeD [of _ es x] by (auto simp: epoch_with_def)
  with Some show ?thesis by (force simp: put_epoch_def image_iff)
qed

lemma put_epoch_others: "x \<in> set (put_epoch e es) \<Longrightarrow> x = e \<or> x \<in> set es"
  by (auto simp: put_epoch_def split: if_splits)

lemma put_epoch_same:
  assumes "distinct (map ep_id es)" "epoch_with es (ep_id e) = Some e"
  shows "put_epoch e es = es"
proof -
  have in_es: "e \<in> set es" using find_SomeD [OF assms(2) [unfolded epoch_with_def]] by simp
  have "map (\<lambda>x. if ep_id x = ep_id e then e else x) es = map (\<lambda>x. x) es"
    using assms(1) in_es by (intro map_cong) (auto simp: distinct_map inj_on_def)
  with assms(2) show ?thesis by (simp add: put_epoch_def)
qed

lemma supersede_sel:
  "supersede sha b prev now e = (e1, rs) \<Longrightarrow> ep_id e1 = ep_id e \<and> ep_key e1 = ep_key e \<and> ep_intents e1 = ep_intents e
    \<and> ep_fills e1 = ep_fills e \<and> ep_state e1 = ep_state e \<and> ep_gross e1 = ep_gross e \<and> ep_adoption e1 = ep_adoption e"
  by (auto simp: supersede_def with_superseded_def Let_def split: option.splits if_splits)

lemma new_checkpoint_sel:
  "ep_id (new_checkpoint sha b e prev e1) = ep_id e1 \<and> ep_key (new_checkpoint sha b e prev e1) = ep_key e1
    \<and> ep_intents (new_checkpoint sha b e prev e1) = ep_intents e1 \<and> ep_fills (new_checkpoint sha b e prev e1) = ep_fills e1
    \<and> ep_state (new_checkpoint sha b e prev e1) = ep_state e1 \<and> ep_gross (new_checkpoint sha b e prev e1) = ep_gross e1
    \<and> ep_adoption (new_checkpoint sha b e prev e1) = ep_adoption e1"
  by (simp add: new_checkpoint_def Let_def)

lemma save_epoch_result:
  assumes "save_epoch opening sha e now b = Inr (e', b')" "book_ok b"
  shows "eb_epochs b' = put_epoch e' (eb_epochs b) \<and> book_ok b' \<and> ep_id e' = ep_id e \<and> ep_key e' = ep_key e \<and> ep_intents e' = ep_intents e
    \<and> ep_fills e' = ep_fills e \<and> ep_state e' = ep_state e \<and> ep_gross e' = ep_gross e \<and> ep_adoption e' = ep_adoption e"
proof -
  let ?prev = "epoch_with (eb_epochs b) (ep_id e)"
  obtain e1 rs1 where s: "supersede sha b ?prev now e = (e1, rs1)" by (cases "supersede sha b ?prev now e")
  let ?e2 = "new_checkpoint sha b e ?prev e1"
  note sel = supersede_sel [OF s] new_checkpoint_sel [of sha b e ?prev e1]
  from assms(1) have e': "e' = ?e2" and b': "eb_epochs b' = (if ?prev = Some ?e2 then eb_epochs b else put_epoch ?e2 (eb_epochs b))"
    by (auto simp: save_epoch_def s res_iffs Let_def split: if_splits)
  have "eb_epochs b' = put_epoch e' (eb_epochs b)"
    using assms(2) e' b' sel put_epoch_same [of "eb_epochs b" ?e2] by (auto simp: book_ok_def)
  with assms(2) e' sel put_epoch_ids [of "eb_epochs b" e'] show ?thesis by (auto simp: book_ok_def)
qed

text \<open>The epoch an intent owns, after a save of that epoch.\<close>

lemma own_epoch_put:
  assumes "i \<in> set (ep_intents e)" "\<And>x. own_epoch i (filter (\<lambda>e. ep_key e = ep_key e') es) = Some x \<Longrightarrow> ep_id x = ep_id e"
    and "ep_key e = ep_key e'"
  shows "own_epoch i (filter (\<lambda>x. ep_key x = ep_key e') (put_epoch e es)) = Some e"
proof -
  let ?k = "\<lambda>xs. filter (\<lambda>x. ep_key x = ep_key e') xs" let ?r = "\<lambda>x. if ep_id x = ep_id e then e else x"
  have *: "own_epoch i (?k (map ?r xs)) = Some e"
    if "\<And>x. own_epoch i (?k xs) = Some x \<Longrightarrow> ep_id x = ep_id e" "\<exists>x\<in>set xs. ep_id x = ep_id e" for xs
    using that
  proof (induction xs)
    case Nil
    then show ?case by simp
  next
    case (Cons y ys)
    show ?case
    proof (cases "ep_id y = ep_id e")
      case True
      with assms(1,3) show ?thesis by (simp add: own_epoch_def)
    next
      case False
      with Cons.prems(1) [of y] have no: "\<not> (ep_key y = ep_key e' \<and> i \<in> set (ep_intents y))" by (auto simp: own_epoch_def)
      then have skip: "own_epoch i (?k (y # zs)) = own_epoch i (?k zs)" for zs by (auto simp: own_epoch_def)
      have "own_epoch i (?k (map ?r ys)) = Some e"
        using Cons.prems False skip [of ys] by (intro Cons.IH) auto
      with False skip show ?thesis by simp
    qed
  qed
  have **: "own_epoch i (xs @ [e]) = Some e" if "own_epoch i xs = None" for xs
    using that assms(1) by (induction xs) (auto simp: own_epoch_def split: if_splits)
  show ?thesis
  proof (cases "epoch_with es (ep_id e)")
    case None
    then have no: "\<forall>x\<in>set es. ep_id x \<noteq> ep_id e" by (simp add: epoch_with_def find_None_iff_all)
    have "own_epoch i (filter (\<lambda>x. ep_key x = ep_key e') es) = None"
    proof (rule ccontr)
      assume "own_epoch i (filter (\<lambda>x. ep_key x = ep_key e') es) \<noteq> None"
      then obtain x where x: "own_epoch i (filter (\<lambda>x. ep_key x = ep_key e') es) = Some x" by blast
      from x have "x \<in> set es" using find_SomeD unfolding own_epoch_def by fastforce
      with assms(2) [OF x] no show False by blast
    qed
    with None assms(3) ** show ?thesis by (simp add: put_epoch_def)
  next
    case (Some x)
    then have "\<exists>x\<in>set es. ep_id x = ep_id e" using find_SomeD unfolding epoch_with_def by fastforce
    with Some * [of es] assms(2) show ?thesis by (simp add: put_epoch_def)
  qed
qed

subsection \<open>Properties\<close>

text \<open>C25: after an entry of a crypto asset is admitted with a new epoch, the asset's history was
  whole (every epoch reconciled, every local fill of an assigned intent), the new epoch is
  open and lists the entry alone, and until it is reconciled every other entry on the asset
  is refused, whatever else the books hold.\<close>

theorem epoch_admission_exclusive:
  assumes "reserve_epoch opening sha a t q False now fills b = Inr (r, b')" and "a_class a = CRYPTO" and "book_ok b"
    and "own_epoch t (epochs_for b (asset_identity_key a)) = None"
    and "\<forall>e\<in>set (eb_epochs b). u \<notin> set (ep_intents e)" and "u \<noteq> t"
  shows "(\<forall>e\<in>set (epochs_for b (asset_identity_key a)). ep_state e = EpReconciledNet)
    \<and> (\<forall>f\<in>set fills. asset_identity_key (f_asset (r_payload f)) = asset_identity_key a
          \<longrightarrow> f_trade_intent_id (r_payload f) \<in> assigned_intents (epochs_for b (asset_identity_key a)))
    \<and> (\<exists>e. e \<in> set (epochs_for b' (asset_identity_key a)) \<and> r = Some (ep_id e) \<and> ep_state e = EpSubmitted \<and> ep_intents e = [t])
    \<and> (\<exists>why. reserve_epoch opening sha a u q' False now' fills' b' = Inl (AccountingEpochPending why))"
proof -
  let ?k = "asset_identity_key a" let ?es = "epochs_for b ?k"
  from assms(1,2,4) have un: "unresolved ?es = []" and fl: "\<not> unassigned_fill ?k ?es fills"
    and "bindR (open_epoch opening sha ?k t q now b) (\<lambda>(i, b'). Inr (Some i, b')) = Inr (r, b')"
    by (auto simp: reserve_epoch_def Let_def split: if_splits)
  then obtain i where oe: "open_epoch opening sha ?k t q now b = Inr (i, b')" and r: "r = Some i"
    by (auto simp: res_iffs)
  from oe obtain st e e' where ne: "new_epoch opening ?k (''crypto_epoch:'' @ t) now st [t] = Inr e"
    and sv: "save_epoch opening sha e now b = Inr (e', b')" and i: "i = ep_id e'"
    unfolding open_epoch_def Let_def bindR_Inr_iff by auto
  from ne have e: "ep_key e = ?k" "ep_state e = EpSubmitted" "ep_intents e = [t]" by (auto simp: new_epoch_def res_iffs)
  note s = save_epoch_result [OF sv assms(3)]
  have e'_in: "e' \<in> set (epochs_for b' ?k)" using s e(1) put_epoch_in [of e' "eb_epochs b"] by (simp add: epochs_for_def)
  have "u \<notin> set (ep_intents x)" if "x \<in> set (eb_epochs b')" for x
    using that s e(3) assms(5,6) put_epoch_others [of x e' "eb_epochs b"] by auto
  then have "own_epoch u (epochs_for b' ?k) = None" by (simp add: own_epoch_def find_None_iff_all epochs_for_def)
  moreover have "ep_state e' \<noteq> EpReconciledNet" using s e(2) by simp
  with e'_in have "unresolved (epochs_for b' ?k) \<noteq> []" unfolding unresolved_def filter_empty_conv by blast
  ultimately have "\<exists>why. reserve_epoch opening sha a u q' False now' fills' b' = Inl (AccountingEpochPending why)"
    using assms(2) by (auto simp: reserve_epoch_def Let_def)
  moreover have "\<forall>e\<in>set ?es. ep_state e = EpReconciledNet" using un by (auto simp: unresolved_def filter_empty_conv)
  moreover have "\<forall>f\<in>set fills. asset_identity_key (f_asset (r_payload f)) = ?k \<longrightarrow> f_trade_intent_id (r_payload f) \<in> assigned_intents ?es"
    using fl by (auto simp: unassigned_fill_def list_ex_iff assigned_intents_def)
  ultimately show ?thesis using e'_in s e r i by auto
qed

text \<open>
  What recording a fill leaves: the fill is listed in its intent's epoch, its row would not be
  inserted again, and a stored row with its identifier is the fill itself.
\<close>

definition fill_row :: "fill \<Rightarrow> time \<Rightarrow> fill row" where
  "fill_row f now = \<lparr>r_id = f_id f, r_status = None, r_unique = f_broker_fill_id f, r_payload = f, r_created = now\<rparr>"

definition ignored :: "'p row \<Rightarrow> 'p tbl \<Rightarrow> bool" where
  "ignored r rows = (\<not> fst (insert_or_ignore r rows))"

lemma ignored_same: "ignored r rows \<Longrightarrow> insert_or_ignore r rows = (False, rows)"
  by (auto simp: ignored_def insert_or_ignore_def split: if_splits)

lemma ignored_after: "r_id r = r_id r' \<Longrightarrow> r_unique r = r_unique r' \<Longrightarrow> ignored r (snd (insert_or_ignore r' rows))"
  by (auto simp: ignored_def insert_or_ignore_def get_row_None_iff find_by_unique_None_iff split: option.splits)

lemma ignored_mono: "ignored r rows \<Longrightarrow> ignored r (snd (insert_or_ignore r' rows))"
  by (auto simp: ignored_def insert_or_ignore_def get_row_None_iff find_by_unique_None_iff split: option.splits if_splits)

definition gross_recorded :: "fill \<Rightarrow> fill tbl \<times> epoch_book \<Rightarrow> bool" where
  "gross_recorded f = (\<lambda>(fills, b).
     (\<exists>e. own_epoch (f_trade_intent_id f) (epochs_for b (asset_identity_key (f_asset f))) = Some e \<and> f_id f \<in> set (ep_fills e))
     \<and> ignored (fill_row f 0) fills \<and> (case get_row fills (f_id f) of None \<Rightarrow> True | Some r \<Rightarrow> r_payload r = f))"

lemma ignored_time: "ignored (fill_row f now) fills = ignored (fill_row f now') fills"
  by (simp add: ignored_def insert_or_ignore_def fill_row_def)

lemma gross_recorded_again: "gross_recorded f (fills, b) \<Longrightarrow> record_gross_fill opening sha f now (fills, b) = Inr (fills, b)"
  using ignored_same [of "fill_row f now" fills] ignored_time [of f 0 fills now]
  by (auto simp: gross_recorded_def record_gross_fill_def fill_epoch_def Let_def fill_row_def)

text \<open>The one step that records a fill: its epoch before and after.\<close>

lemma record_gross_fill_step:
  assumes "record_gross_fill opening sha f now (fills, b) = Inr (fills', b')" and "book_ok b"
  shows "\<exists>old e. fill_epoch opening f b = Inr old \<and> fills' = snd (insert_or_ignore (fill_row f now) fills) \<and> book_ok b'
    \<and> (case get_row fills (f_id f) of None \<Rightarrow> True | Some r \<Rightarrow> r_payload r = f)
    \<and> own_epoch (f_trade_intent_id f) (epochs_for b' (asset_identity_key (f_asset f))) = Some e
    \<and> (if f_id f \<in> set (ep_fills old) then b' = b \<and> e = old
       else ep_fills e = ep_fills old @ [f_id f] \<and> ep_state e = EpFeePending \<and> ep_gross e = dadd (ep_gross old) (f_quantity f))"
proof -
  let ?k = "asset_identity_key (f_asset f)" let ?t = "f_trade_intent_id f"
  from assms(1) obtain e where fe: "fill_epoch opening f b = Inr e"
    and rc: "case get_row fills (f_id f) of None \<Rightarrow> True | Some r \<Rightarrow> r_payload r = f"
    and fs: "fills' = snd (insert_or_ignore (fill_row f now) fills)"
    and b': "if f_id f \<in> set (ep_fills e) then b' = b
      else (\<exists>e1 b1 e2. save_epoch opening sha (grossed f e) now b = Inr (e1, b1)
              \<and> save_epoch opening sha (e1\<lparr>ep_state := EpFeePending\<rparr>) now b1 = Inr (e2, b'))"
    unfolding record_gross_fill_def Let_def res_iffs prod.case fill_row_def by (auto simp: res_iffs split: if_splits)
  have key: "ep_key e = ?k" "?t \<in> set (ep_intents e)"
    using fe find_SomeD [of _ "epochs_for b ?k" e]
    by (auto simp: fill_epoch_def new_epoch_def own_epoch_def epochs_for_def res_iffs Let_def split: option.splits)
  have own: "ep_id x = ep_id e" if "own_epoch ?t (epochs_for b ?k) = Some x" for x
    using fe that by (simp add: fill_epoch_def Let_def)
  have "\<exists>e'. book_ok b' \<and> own_epoch ?t (epochs_for b' ?k) = Some e'
    \<and> (if f_id f \<in> set (ep_fills e) then b' = b \<and> e' = e
       else ep_fills e' = ep_fills e @ [f_id f] \<and> ep_state e' = EpFeePending \<and> ep_gross e' = dadd (ep_gross e) (f_quantity f))"
  proof (cases "f_id f \<in> set (ep_fills e)")
    case True
    with fe have "own_epoch ?t (epochs_for b ?k) = Some e"
      by (auto simp: fill_epoch_def new_epoch_def res_iffs Let_def split: option.splits)
    with True b' assms(2) show ?thesis by auto
  next
    case False
    with b' obtain e1 b1 e2 where 1: "save_epoch opening sha (grossed f e) now b = Inr (e1, b1)"
      and 2: "save_epoch opening sha (e1\<lparr>ep_state := EpFeePending\<rparr>) now b1 = Inr (e2, b')" by auto
    note s1 = save_epoch_result [OF 1 assms(2)]
    note s2 = save_epoch_result [OF 2] s1
    have sel: "ep_id (grossed f e) = ep_id e" "ep_key (grossed f e) = ep_key e" "ep_intents (grossed f e) = ep_intents e"
      "ep_fills (grossed f e) = ep_fills e @ [f_id f]" "ep_gross (grossed f e) = dadd (ep_gross e) (f_quantity f)"
      by (simp_all add: grossed_def)
    have o1: "own_epoch ?t (epochs_for b1 ?k) = Some e1"
      using own_epoch_put [of ?t e1 e "eb_epochs b"] own key s1 sel by (simp add: epochs_for_def)
    have "own_epoch ?t (epochs_for b' ?k) = Some e2"
      using own_epoch_put [of ?t e2 e "eb_epochs b1"] o1 key s2 sel by (simp add: epochs_for_def)
    with False s2 sel show ?thesis by auto
  qed
  with fe rc fs show ?thesis by blast
qed

lemma gross_recorded_step:
  assumes "record_gross_fill opening sha f now (fills, b) = Inr (fills', b')" and "book_ok b"
  shows "gross_recorded f (fills', b')"
proof -
  obtain old e where fs: "fills' = snd (insert_or_ignore (fill_row f now) fills)"
    and own: "own_epoch (f_trade_intent_id f) (epochs_for b' (asset_identity_key (f_asset f))) = Some e"
    and rc: "case get_row fills (f_id f) of None \<Rightarrow> True | Some r \<Rightarrow> r_payload r = f"
    and fl: "if f_id f \<in> set (ep_fills old) then b' = b \<and> e = old
       else ep_fills e = ep_fills old @ [f_id f] \<and> ep_state e = EpFeePending \<and> ep_gross e = dadd (ep_gross old) (f_quantity f)"
    using record_gross_fill_step [OF assms] by blast
  have "case get_row fills' (f_id f) of None \<Rightarrow> True | Some r \<Rightarrow> r_payload r = f"
    using rc unfolding fs by (cases "get_row fills (f_id f)") (auto simp: insert_or_ignore_def fill_row_def split: option.splits)
  moreover have "ignored (fill_row f 0) fills'" unfolding fs by (rule ignored_after) (simp_all add: fill_row_def)
  moreover have "f_id f \<in> set (ep_fills e)" using fl by (auto split: if_splits)
  ultimately show ?thesis using own by (simp add: gross_recorded_def)
qed

text \<open>Recording another fill of the same intent leaves it so.\<close>

lemma gross_recorded_mono:
  assumes "gross_recorded f (fills, b)" "record_gross_fill opening sha f' now (fills, b) = Inr (fills', b')" "book_ok b"
    and "f_trade_intent_id f' = f_trade_intent_id f" "f_asset f' = f_asset f" "f_id f' = f_id f \<Longrightarrow> f' = f"
  shows "gross_recorded f (fills', b')"
proof -
  obtain old e where fe: "fill_epoch opening f' b = Inr old" and fs: "fills' = snd (insert_or_ignore (fill_row f' now) fills)"
    and own: "own_epoch (f_trade_intent_id f') (epochs_for b' (asset_identity_key (f_asset f'))) = Some e"
    and rc: "case get_row fills (f_id f') of None \<Rightarrow> True | Some r \<Rightarrow> r_payload r = f'"
    and fl: "if f_id f' \<in> set (ep_fills old) then b' = b \<and> e = old
       else ep_fills e = ep_fills old @ [f_id f'] \<and> ep_state e = EpFeePending \<and> ep_gross e = dadd (ep_gross old) (f_quantity f')"
    using record_gross_fill_step [OF assms(2,3)] by blast
  from assms(1,4,5) fe have "f_id f \<in> set (ep_fills old)"
    by (auto simp: gross_recorded_def fill_epoch_def Let_def)
  with fl have in_e: "f_id f \<in> set (ep_fills e)" by (auto split: if_splits)
  have "case get_row fills' (f_id f) of None \<Rightarrow> True | Some r \<Rightarrow> r_payload r = f"
    using assms(1,6) unfolding fs gross_recorded_def
    by (cases "get_row fills (f_id f)") (auto simp: insert_or_ignore_def fill_row_def split: option.splits)
  moreover have "ignored (fill_row f 0) fills'" using assms(1) ignored_mono unfolding fs gross_recorded_def by auto
  ultimately show ?thesis using own in_e assms(4,5) by (simp add: gross_recorded_def)
qed

lemma record_gross_fill_ok:
  assumes "record_gross_fill opening sha f now (fills, b) = Inr (fills', b')" "book_ok b"
  shows "book_ok b' \<and> fills' = snd (insert_or_ignore (fill_row f now) fills)"
  using record_gross_fill_step [OF assms] by blast

text \<open>A gross fill is recorded once. The recorded fill is listed in the epoch of its intent,
  which is open again (fees pending), and its quantity was added exactly once: recording the
  same execution again, at any time, changes nothing.\<close>

theorem gross_fill_recorded_once:
  assumes "record_gross_fill opening sha f now (fills, b) = Inr (fills', b')" and "book_ok b"
  shows "record_gross_fill opening sha f now' (fills', b') = Inr (fills', b')
    \<and> (\<exists>old e. fill_epoch opening f b = Inr old
         \<and> own_epoch (f_trade_intent_id f) (epochs_for b' (asset_identity_key (f_asset f))) = Some e
         \<and> (if f_id f \<in> set (ep_fills old) then b' = b \<and> e = old
            else ep_fills e = ep_fills old @ [f_id f] \<and> ep_state e = EpFeePending \<and> ep_gross e = dadd (ep_gross old) (f_quantity f)))"
  using gross_recorded_again [OF gross_recorded_step [OF assms]] record_gross_fill_step [OF assms] by blast

subsection \<open>Witnesses\<close>

definition demo_coin :: asset_identity where
  "demo_coin = demo_asset CRYPTO None ''BTC/USD''"

definition demo_epochs :: epoch_book where
  "demo_epochs = \<lparr>eb_epochs = [], eb_receipts = []\<rparr>"

definition demo_coin_fill :: fill where
  "demo_coin_fill = \<lparr>f_id = ''a1'', f_trade_intent_id = ''t1'', f_order_id = ''b1'', f_asset = demo_coin, f_side = BUY, f_mode = PAPER,
     f_quantity = 2, f_price = 10, f_fees = 0, f_slippage = 0, f_filled_at = 5, f_broker_fill_id = Some ''a1'', f_reference_price = None,
     f_reference_bid = None, f_reference_ask = None, f_reference_observed_at = None, f_submitted_at = None,
     f_order_type = Some ''market'', f_fee_currency = None, f_fee_source = ''unavailable''\<rparr>"

lemma save_epoch_returns: "\<exists>e' b'. save_epoch (Inr None) sha e now b = Inr (e', b')"
  by (simp add: save_epoch_def opening_matches_def Let_def split: prod.split)

theorem epoch_admission_exclusive_witness:
  "\<exists>r b' why. reserve_epoch (Inr None) (\<lambda>_. ''h'') demo_coin ''t1'' 0 False 5 [] demo_epochs = Inr (r, b')
     \<and> reserve_epoch (Inr None) (\<lambda>_. ''h'') demo_coin ''t2'' 0 False 6 [] b' = Inl (AccountingEpochPending why)"
proof -
  have c: "a_class demo_coin = CRYPTO" by (simp add: demo_coin_def demo_asset_def)
  have none: "own_epoch ''t1'' [] = None" "unresolved [] = []" "\<not> unassigned_fill (asset_identity_key demo_coin) [] []"
    by (simp_all add: own_epoch_def unresolved_def unassigned_fill_def)
  have es: "epochs_for demo_epochs k = []" for k by (simp add: epochs_for_def demo_epochs_def)
  obtain e where ne: "new_epoch (Inr None) (asset_identity_key demo_coin) (''crypto_epoch:'' @ ''t1'') 5 (Some (dsub 0 0)) [''t1''] = Inr e"
    by (simp add: new_epoch_def)
  obtain e1 b1 where sv: "save_epoch (Inr None) (\<lambda>_. ''h'') e 5 demo_epochs = Inr (e1, b1)"
    using save_epoch_returns by blast
  have r: "reserve_epoch (Inr None) (\<lambda>_. ''h'') demo_coin ''t1'' 0 False 5 [] demo_epochs = Inr (Some (ep_id e1), b1)"
    using none ne sv by (simp add: reserve_epoch_def c es open_epoch_def Let_def)
  with epoch_admission_exclusive [OF r c, of "''t2''" 0 6 "[]"] show ?thesis
    by (simp add: book_ok_def demo_epochs_def epochs_for_def own_epoch_def)
qed

theorem gross_fill_recorded_once_witness:
  "\<exists>fills b. record_gross_fill (Inr None) (\<lambda>_. ''h'') demo_coin_fill 6 ([], demo_epochs) = Inr (fills, b)
     \<and> record_gross_fill (Inr None) (\<lambda>_. ''h'') demo_coin_fill 9 (fills, b) = Inr (fills, b)"
proof -
  obtain e where e: "fill_epoch (Inr None) demo_coin_fill demo_epochs = Inr e" "ep_fills e = []"
    by (simp add: fill_epoch_def new_epoch_def own_epoch_def epochs_for_def demo_epochs_def)
  obtain e1 b1 where 1: "save_epoch (Inr None) (\<lambda>_. ''h'') (grossed demo_coin_fill e) 6 demo_epochs = Inr (e1, b1)"
    using save_epoch_returns by blast
  obtain e2 b2 where 2: "save_epoch (Inr None) (\<lambda>_. ''h'') (e1\<lparr>ep_state := EpFeePending\<rparr>) 6 b1 = Inr (e2, b2)"
    using save_epoch_returns by blast
  obtain fills b where r: "record_gross_fill (Inr None) (\<lambda>_. ''h'') demo_coin_fill 6 ([], demo_epochs) = Inr (fills, b)"
    using e by (simp add: record_gross_fill_def 1 2)
  with gross_fill_recorded_once [OF r] show ?thesis by (auto simp: book_ok_def demo_epochs_def)
qed

end
