(* ===== verification/Ledger.thy ===== *)
theory Ledger
  imports Lots Session Reservation Evidence Epochs
begin

text \<open>
  The books settlement works on: \<open>models/attribution.py\<close>, the adoption evidence of
  \<open>adoption/__init__.py\<close>, \<open>alerts/once.py\<close>, and the tables as one record \<open>ledger\<close>. Every
  routine of settlement is a \<open>prog\<close> over the ledger; each repository call is one
  transaction, and what was committed before a raise stays.

  \<open>env\<close> carries what the routines take from outside: fresh identifiers (\<open>uuid4\<close>), the
  clocks, whether alerting is configured, whether an alert's delivery lease was free, and
  whether the alert was accepted.
\<close>

datatype exit_reason = StopLoss | TargetPrice | TimeStop | OtherExit

type_synonym metadata = "string \<Rightarrow> meta_value option"

datatype entry_context =
    AdoptionContext "string option" string string
  | IntentContext metadata "metadata option"

record trade_attribution =
  ta_id :: string
  ta_asset :: asset_identity
  ta_lot_id :: string
  ta_opening_intent :: string
  ta_closing_intent :: string
  ta_closing_fill :: string
  ta_quantity :: dec
  ta_entry_price :: dec
  ta_entry_at :: time
  ta_exit_price :: dec
  ta_exit_at :: time
  ta_realized_pnl :: dec
  ta_created_at :: time
  ta_exit_reason :: "exit_reason option"
  ta_mfe :: "dec option"
  ta_mae :: "dec option"
  ta_context :: entry_context

definition attribution_post_init :: "trade_attribution \<Rightarrow> trade_attribution res" where
  "attribution_post_init t =
     bindR (require_text (Some (ta_id t))) (\<lambda>i.
     bindR (require_text (Some (ta_lot_id t))) (\<lambda>l.
     bindR (require_text (Some (ta_opening_intent t))) (\<lambda>oi.
     bindR (require_text (Some (ta_closing_intent t))) (\<lambda>ci.
     bindR (require_text (Some (ta_closing_fill t))) (\<lambda>cf.
     bindR (decimal_value (Fin (ta_quantity t)) True False) (\<lambda>_.
     bindR (decimal_value (Fin (ta_entry_price t)) True False) (\<lambda>_.
     bindR (decimal_value (Fin (ta_exit_price t)) True False) (\<lambda>_.
     bindR (opt_positive (ta_mfe t)) (\<lambda>_.
     bindR (opt_positive (ta_mae t)) (\<lambda>_.
       Inr (t\<lparr>ta_id := i, ta_lot_id := l, ta_opening_intent := oi, ta_closing_intent := ci, ta_closing_fill := cf\<rparr>)))))))))))"

text \<open>The fields of an adoption row that settlement reads.\<close>

record adoption =
  ad_stop_loss :: dec
  ad_classification :: string
  ad_basis_provenance :: string
  ad_avg_entry_price :: dec
  ad_quantity :: dec
  ad_adopted_at :: time

fun settlement_status_value :: "settlement_status \<Rightarrow> string" where
  "settlement_status_value PENDING = ''pending''"
| "settlement_status_value PROCESSING = ''processing''"
| "settlement_status_value COMPLETED = ''completed''"
| "settlement_status_value RETRYABLE_FAILED = ''retryable_failed''"
| "settlement_status_value TERMINAL_FAILED = ''terminal_failed''"
| "settlement_status_value INTEGRITY_BLOCKED = ''integrity_blocked''"

fun hold_type_value :: "hold_type \<Rightarrow> string" where
  "hold_type_value VERIFICATION_PENDING = ''verification_pending''"
| "hold_type_value FILL_QUANTITY_DISPUTED = ''fill_quantity_disputed''"
| "hold_type_value SHORT_EXPOSURE = ''short_exposure''"
| "hold_type_value MIXED_LOT_ORIGIN = ''mixed_lot_origin''"

lemma settlement_status_value_inj: "settlement_status_value a = settlement_status_value b \<longleftrightarrow> a = b"
  by (cases a; cases b) simp_all

subsection \<open>The ledger\<close>

record ledger =
  db_lots :: "position_lot tbl"
  db_holdings :: "holding tbl"
  db_fills :: "fill tbl"
  db_intents :: "trade_intent tbl"
  db_settlements :: "settlement_event tbl"
  db_cash :: "cash_entry tbl"
  db_pnl :: "pnl_record tbl"
  db_attributions :: "trade_attribution tbl"
  db_liabilities :: "short_exposure_liability tbl"
  db_holds :: "integrity_hold tbl"
  db_adoptions :: "adoption tbl"
  db_executions :: "quarantine_execution tbl"
  db_converted :: "string list"
  db_opportunities :: "metadata tbl"
  db_receipts :: "string list"
  db_session :: "trading_session option"
  db_audit :: "audit_event list"
  db_locks :: locks
  db_epochs :: epoch_book
  db_evidence :: evidence_tables
  db_quarantine :: quarantine_tables

record env =
  en_fresh :: "ledger \<Rightarrow> string"
  en_stamp :: "ledger \<Rightarrow> time"
  en_alerts_configured :: bool
  en_alert_lease :: "ledger \<Rightarrow> bool"
  en_alert_sent :: "audit_event \<Rightarrow> bool"

type_synonym 'a routine = "(ledger, 'a) prog"

definition hold_status :: "ledger \<Rightarrow> string \<Rightarrow> string option" where
  "hold_status db k = (case get_row (db_holds db) k of None \<Rightarrow> None | Some r \<Rightarrow> r_status r)"

text \<open>A guarded insert: the guard is read and the row written in one transaction.\<close>

definition new_row :: "env \<Rightarrow> ledger \<Rightarrow> string \<Rightarrow> string option \<Rightarrow> string option \<Rightarrow> 'p \<Rightarrow> 'p row" where
  "new_row en db i st u p = \<lparr>r_id = i, r_status = st, r_unique = u, r_payload = p, r_created = en_stamp en db\<rparr>"

definition create_in ::
  "env \<Rightarrow> string \<Rightarrow> (ledger \<Rightarrow> 'p tbl) \<Rightarrow> (('p tbl \<Rightarrow> 'p tbl) \<Rightarrow> ledger \<Rightarrow> ledger)
   \<Rightarrow> string \<Rightarrow> string option \<Rightarrow> string option \<Rightarrow> guard \<Rightarrow> 'p \<Rightarrow> bool routine" where
  "create_in en table get upd i st u g p =
     writeP (\<lambda>db. bindR (create_once table (hold_status db) g (new_row en db i st u p) (get db)) (\<lambda>(b, t). Inr (b, upd (\<lambda>_. t) db)))"

definition mutate_in ::
  "string \<Rightarrow> (ledger \<Rightarrow> 'p tbl) \<Rightarrow> (('p tbl \<Rightarrow> 'p tbl) \<Rightarrow> ledger \<Rightarrow> ledger) \<Rightarrow> string \<Rightarrow> guard
   \<Rightarrow> ('p \<Rightarrow> 'p option res) \<Rightarrow> 'p option routine" where
  "mutate_in table get upd i g decide =
     writeP (\<lambda>db. bindR (mutate table (hold_status db) g i decide (get db)) (\<lambda>(p, t). Inr (p, upd (\<lambda>_. t) db)))"

definition delete_in ::
  "string \<Rightarrow> (ledger \<Rightarrow> 'p tbl) \<Rightarrow> (('p tbl \<Rightarrow> 'p tbl) \<Rightarrow> ledger \<Rightarrow> ledger) \<Rightarrow> string \<Rightarrow> guard \<Rightarrow> bool routine" where
  "delete_in table get upd i g =
     writeP (\<lambda>db. bindR (delete_row table (hold_status db) g i (get db)) (\<lambda>(b, t). Inr (b, upd (\<lambda>_. t) db)))"

subsection \<open>The session latch on the ledger\<close>

text \<open>What a session transaction sees of the ledger.\<close>

definition session_part :: "ledger \<Rightarrow> unit session_db" where
  "session_part db =
     \<lparr>sd_session = db_session db,
      sd_holds = map (\<lambda>r. (r_id r, case r_status r of None \<Rightarrow> [] | Some s \<Rightarrow> s)) (db_holds db),
      sd_receipts = db_receipts db, sd_audit = db_audit db,
      sd_intent_statuses = map (\<lambda>r. intent_status_value (ti_status (r_payload r))) (db_intents db),
      sd_order_statuses = [],
      sd_liabilities = map (\<lambda>r. (sl_broker_order_id (r_payload r), asset_identity_key (sl_asset (r_payload r)))) (db_liabilities db),
      sd_books = ()\<rparr>"

definition latch_block :: "env \<Rightarrow> string \<Rightarrow> time \<Rightarrow> unit routine" where
  "latch_block en reason now =
     writeP (\<lambda>db. bindR (latch_financial_integrity_block reason now (en_fresh en db) (session_part db))
       (\<lambda>(_, s). Inr ((), db\<lparr>db_session := sd_session s, db_audit := sd_audit s\<rparr>)))"

text \<open>A latch that returns leaves the session blocked, and touches nothing but session and audit.\<close>

definition blocked :: "ledger \<Rightarrow> bool" where
  "blocked db \<longleftrightarrow> (\<exists>s. db_session db = Some s \<and> ts_state s = FINANCIAL_INTEGRITY_BLOCKED)"

lemma latch_block_blocks: "latch_block en reason now db = (Inr u, db') \<Longrightarrow> blocked db'"
  by (auto simp: latch_block_def writeP_def blocked_def latch_financial_integrity_block_def transition_session_def
      decide_integrity_block_def commit_to_def session_post_init_def plain_session_def default_session_def
      load_session_def session_part_def res_iffs split: sum.splits option.splits if_splits prod.splits)

text \<open>With no session row and a fresh event id the latch returns.\<close>

lemma latch_block_runs: "db_session db = None \<Longrightarrow> en_fresh en db \<notin> ae_id ` set (db_audit db) \<Longrightarrow> \<exists>db2. latch_block en r now db = (Inr (), db2)"
  by (auto simp: latch_block_def writeP_def latch_financial_integrity_block_def transition_session_def session_part_def
        load_session_def default_session_def plain_session_def decide_integrity_block_def commit_to_def session_post_init_def guardR_def transition_event_def)

lemma latch_block_effect:
  "snd (latch_block en reason now db) = db\<lparr>db_session := db_session (snd (latch_block en reason now db)),
     db_audit := db_audit (snd (latch_block en reason now db))\<rparr>"
  by (auto simp: latch_block_def writeP_def bindR_def split: sum.splits prod.splits)

subsection \<open>Alerts recorded once\<close>

definition delivery_marker_id :: "string \<Rightarrow> string" where
  "delivery_marker_id event_id = event_id @ '':delivered''"

definition record_audit :: "audit_event \<Rightarrow> ledger \<Rightarrow> bool \<times> ledger" where
  "record_audit ev db =
     (if ae_id ev \<in> ae_id ` set (db_audit db) then (False, db) else (True, db\<lparr>db_audit := db_audit db @ [ev]\<rparr>))"

definition delivery_marker :: "audit_event \<Rightarrow> audit_event" where
  "delivery_marker ev = ev\<lparr>ae_id := delivery_marker_id (ae_id ev), ae_type := ''alert_delivered'', ae_severity := ''info'',
     ae_message := ''Alert delivered: '' @ ae_id ev, ae_details := [(''alert_event_id'', Some (ae_id ev))]\<rparr>"

definition alert_once :: "env \<Rightarrow> audit_event \<Rightarrow> bool routine" where
  "alert_once en ev db =
     (let (first_sighting, db1) = record_audit ev db
      in if \<not> en_alerts_configured en then (Inr first_sighting, db1)
         else if delivery_marker_id (ae_id ev) \<in> ae_id ` set (db_audit db1) then (Inr first_sighting, db1)
         else if \<not> en_alert_lease en db1 then (Inr first_sighting, db1)
         else if en_alert_sent en ev then (Inr first_sighting, snd (record_audit (delivery_marker ev) db1))
         else (Inr first_sighting, db1))"

lemma alert_once_effect: "snd (alert_once en ev db) = db\<lparr>db_audit := db_audit (snd (alert_once en ev db))\<rparr>"
  by (auto simp: alert_once_def record_audit_def Let_def)

text \<open>The evidence is recorded on the first sighting only, and at most one delivery is marked.\<close>

lemma alert_once_recorded: "ae_id ev \<in> ae_id ` set (db_audit (snd (alert_once en ev db)))"
  by (auto simp: alert_once_def record_audit_def Let_def)

lemma alert_once_distinct:
  assumes "distinct (map ae_id (db_audit db))"
  shows "distinct (map ae_id (db_audit (snd (alert_once en ev db))))"
  using assms by (auto simp: alert_once_def record_audit_def delivery_marker_def Let_def)

subsection \<open>Adoption evidence\<close>

definition adoption_for_lot :: "ledger \<Rightarrow> position_lot \<Rightarrow> adoption res" where
  "adoption_for_lot db l =
     (case adoption_id l of
        None \<Rightarrow> Inl (ValueError (''LOT_NOT_ADOPTED: '' @ l_lot_id l))
      | Some i \<Rightarrow> (case get_row (db_adoptions db) i of
          None \<Rightarrow> Inl (ValueError (''ADOPTION_MISSING: '' @ i))
        | Some r \<Rightarrow> Inr (r_payload r)))"

text \<open>A read that may raise.\<close>

definition tryP :: "(ledger \<Rightarrow> 'a res) \<Rightarrow> 'a routine" where
  "tryP f db = (f db, db)"

lemma tryP_simp [simp]: "tryP f db = (f db, db)"
  by (simp add: tryP_def)

lemma keeps_tryP [intro]: "keeps P (tryP f)"
  by (simp add: keeps_def)

lemma keeps_create_in:
  assumes "\<And>t db. P (upd t db) = P db"
  shows "keeps P (create_in en table get upd i st u g p)"
  unfolding create_in_def by (rule keeps_writeP) (auto simp: bindR_Inr_iff assms)

lemma keeps_mutate_in:
  assumes "\<And>t db. P (upd t db) = P db"
  shows "keeps P (mutate_in table get upd i g decide)"
  unfolding mutate_in_def by (rule keeps_writeP) (auto simp: bindR_Inr_iff assms)

lemma keeps_delete_in:
  assumes "\<And>t db. P (upd t db) = P db"
  shows "keeps P (delete_in table get upd i g)"
  unfolding delete_in_def by (rule keeps_writeP) (auto simp: bindR_Inr_iff assms)

lemma keeps_latch_block:
  assumes "\<And>db s a. P (db\<lparr>db_session := s, db_audit := a\<rparr>) = P db"
  shows "keeps P (latch_block en reason now)"
  by (rule keepsI) (subst latch_block_effect, simp add: assms)

lemma keeps_alert_once:
  assumes "\<And>db a. P (db\<lparr>db_audit := a\<rparr>) = P db"
  shows "keeps P (alert_once en ev)"
  by (rule keepsI) (subst alert_once_effect, simp add: assms)

subsection \<open>What a create does\<close>

lemma get_insert_kept: "get_row rows i = Some r \<Longrightarrow> get_row (snd (insert_or_ignore x rows)) i = Some r"
  by (simp add: insert_or_ignore_def)

lemma create_in_runs:
  assumes "i \<noteq> []" "table \<in> set STATUS_TABLES \<Longrightarrow> st \<noteq> None \<and> st \<noteq> Some []"
  shows "create_in en table get upd i st (Some u) None p db
    = (Inr (fst (insert_or_ignore (new_row en db i st (Some u) p) (get db))), upd (\<lambda>_. snd (insert_or_ignore (new_row en db i st (Some u) p) (get db))) db)"
  using assms by (simp add: create_in_def writeP_def create_once_def guardR_def check_integrity_hold_def split: prod.splits) (simp add: new_row_def)

lemma create_in_writes:
  "create_in en table get upd i st u g p db = (Inr b, db1) \<Longrightarrow>
     db1 = upd (\<lambda>_. snd (insert_or_ignore (new_row en db i st u p) (get db))) db
     \<and> b = fst (insert_or_ignore (new_row en db i st u p) (get db))"
  by (simp add: create_in_def writeP_Inr_iff create_once_def res_iffs split: prod.splits)

end
