(* ===== verification/Stages.thy ===== *)
theory Stages
  imports Portfolio
begin

text \<open>
  \<open>settlement/stages.py\<close>: the retry schedule, the classification of a failed attempt, the
  claim predicate, and the staged runner that checkpoints the event after every stage.

  The runner is generic in its handlers, as in the source. \<open>staged_run\<close> is the contract a
  set of handlers must satisfy for a run to be resumable: a handler's result never changes
  the stage flags. Its clients are the settlement engine's handlers.
\<close>

definition SETTLEMENT_STAGES :: "stage list" where
  "SETTLEMENT_STAGES = [LotStage, AttributionStage, CashStage, HoldingStage, TradeStage, IntegrityStage, LiabilityHoldStage]"

definition MAX_SETTLEMENT_ATTEMPTS :: nat where "MAX_SETTLEMENT_ATTEMPTS = 8"
definition RETRY_BASE_SECONDS :: nat where "RETRY_BASE_SECONDS = 15"
definition RETRY_MAX_SECONDS :: nat where "RETRY_MAX_SECONDS = 300"

text \<open>Subtraction on \<open>nat\<close> is \<open>max(0, attempt - 1)\<close>.\<close>

definition retry_delay_seconds :: "nat \<Rightarrow> nat" where
  "retry_delay_seconds attempt = min RETRY_MAX_SECONDS (RETRY_BASE_SECONDS * 2 ^ (attempt - 1))"

definition seconds :: "nat \<Rightarrow> time" where
  "seconds n = int n * 1000000"

fun exc_message :: "exc \<Rightarrow> string" where
  "exc_message (ValueError m) = m"
| "exc_message (TypeErrorExc m) = m"
| "exc_message DivisionByZero = ''[<class 'decimal.DivisionByZero'>]''"
| "exc_message InvalidOperation = ''[<class 'decimal.InvalidOperation'>]''"
| "exc_message (KeyErrorExc m) = m"
| "exc_message (RuntimeErrorExc m) = m"
| "exc_message (IntegrityViolation m) = m"
| "exc_message (ProjectionEvidence m) = m"
| "exc_message (HoldError m) = m"
| "exc_message (LeaseLost m) = ''LEASE_LOST: '' @ m"
| "exc_message (PreconditionFailed rs) = ''PRECONDITION_FAILED: '' @ concat rs"
| "exc_message PaginationError = ''pagination cursor failed to advance''"
| "exc_message (SellableEvidence m) = m"
| "exc_message (SellEvidenceDamaged m) = m"
| "exc_message (PositionEvidenceDamaged m) = m"
| "exc_message (BrokerError m) = m"
| "exc_message (ProviderErr m) = m"
| "exc_message (DatabaseErr m) = m"
| "exc_message (AccountingEpochPending m) = m"

record classified_failure =
  cf_status :: settlement_status
  cf_attempts :: nat
  cf_error :: string
  cf_next_retry :: "time option"

definition classify_settlement_failure :: "nat \<Rightarrow> exc \<Rightarrow> time \<Rightarrow> classified_failure" where
  "classify_settlement_failure attempt_count err now =
     (let attempts = attempt_count + 1;
          message = exc_message err;
          status = (if starts_with ''INTEGRITY_VIOLATION'' message then INTEGRITY_BLOCKED
                    else if MAX_SETTLEMENT_ATTEMPTS \<le> attempts then TERMINAL_FAILED
                    else RETRYABLE_FAILED)
      in \<lparr>cf_status = status, cf_attempts = attempts, cf_error = message,
          cf_next_retry = (if status = RETRYABLE_FAILED then Some (now + seconds (retry_delay_seconds attempts)) else None)\<rparr>)"

definition is_settlement_processable :: "settlement_event \<Rightarrow> time \<Rightarrow> nat \<Rightarrow> bool \<Rightarrow> bool" where
  "is_settlement_processable e now stale_lease_seconds force_retry =
     (if e_status e = PENDING then True
      else if e_status e = RETRYABLE_FAILED
        then force_retry \<or> (case e_next_retry_at e of None \<Rightarrow> True | Some t \<Rightarrow> t \<le> now)
      else e_status e = PROCESSING
        \<and> (case e_processing_started_at e of None \<Rightarrow> False | Some t \<Rightarrow> seconds stale_lease_seconds < now - t))"

subsection \<open>The staged runner\<close>

text \<open>A handler's result is the patch it asks for, an update of the event.\<close>

type_synonym patch = "settlement_event \<Rightarrow> settlement_event"

definition set_flag :: "stage \<Rightarrow> settlement_event \<Rightarrow> settlement_event" where
  "set_flag st e = e\<lparr>e_flags := (e_flags e)(st := True)\<rparr>"

fun run_stages ::
  "(stage \<Rightarrow> settlement_event \<Rightarrow> ('s, patch) prog) \<Rightarrow> (settlement_event \<Rightarrow> ('s, unit) prog)
   \<Rightarrow> (stage \<Rightarrow> settlement_event \<Rightarrow> ('s, unit) prog) \<Rightarrow> stage list \<Rightarrow> settlement_event \<Rightarrow> ('s, settlement_event) prog" where
  "run_stages handlers checkpoint before [] e = retP e"
| "run_stages handlers checkpoint before (st # sts) e =
     (if e_flags e st then run_stages handlers checkpoint before sts e
      else bindP (before st e) (\<lambda>_.
           bindP (handlers st e) (\<lambda>patch.
             let e' = patch (set_flag st e)
             in bindP (checkpoint e') (\<lambda>_. run_stages handlers checkpoint before sts e'))))"

definition run_settlement_stages ::
  "(stage \<Rightarrow> settlement_event \<Rightarrow> ('s, patch) prog) \<Rightarrow> (settlement_event \<Rightarrow> ('s, unit) prog)
   \<Rightarrow> (stage \<Rightarrow> settlement_event \<Rightarrow> ('s, unit) prog) \<Rightarrow> settlement_event \<Rightarrow> ('s, settlement_event) prog" where
  "run_settlement_stages handlers checkpoint before e = run_stages handlers checkpoint before SETTLEMENT_STAGES e"

lemma run_stages_append:
  "run_stages h c b (xs @ ys) e = bindP (run_stages h c b xs e) (run_stages h c b ys)"
  by (induction xs arbitrary: e) (auto simp: bindP_assoc Let_def)

lemma run_stages_skip: "\<forall>st\<in>set xs. e_flags e st \<Longrightarrow> run_stages h c b xs e = retP e"
  by (induction xs) auto

locale staged_run =
  fixes handlers :: "stage \<Rightarrow> settlement_event \<Rightarrow> ('s, patch) prog"
    and checkpoint :: "settlement_event \<Rightarrow> ('s, unit) prog"
    and before :: "stage \<Rightarrow> settlement_event \<Rightarrow> ('s, unit) prog"
  assumes patch_flags: "handlers st e s = (Inr patch, s') \<Longrightarrow> e_flags (patch x) = e_flags x"
    and patch_id: "handlers st e s = (Inr patch, s') \<Longrightarrow> e_id (patch x) = e_id x \<and> e_status (patch x) = e_status x"
begin

text \<open>A completed run has set the flag of every stage it was given, and no other.\<close>

lemma run_flags:
  "run_stages handlers checkpoint before xs e s = (Inr e', s') \<Longrightarrow> e_flags e' st \<longleftrightarrow> e_flags e st \<or> st \<in> set xs"
proof (induction xs arbitrary: e s)
  case Nil
  then show ?case by simp
next
  case (Cons x xs)
  show ?case
  proof (cases "e_flags e x")
    case True
    with Cons show ?thesis by auto
  next
    case False
    with Cons.prems obtain u s1 patch s2 v s3 where
      "before x e s = (Inr u, s1)" and h: "handlers x e s1 = (Inr patch, s2)"
      and "checkpoint (patch (set_flag x e)) s2 = (Inr v, s3)"
      and r: "run_stages handlers checkpoint before xs (patch (set_flag x e)) s3 = (Inr e', s')"
      by (auto simp: bindP_Inr_iff Let_def)
    from patch_flags [OF h] have "e_flags (patch (set_flag x e)) = (e_flags e)(x := True)"
      by (simp add: set_flag_def)
    with Cons.IH [OF r] show ?thesis by auto
  qed
qed

lemma run_keeps_id:
  "run_stages handlers checkpoint before xs e s = (Inr e', s') \<Longrightarrow> e_id e' = e_id e \<and> e_status e' = e_status e"
proof (induction xs arbitrary: e s)
  case Nil
  then show ?case by simp
next
  case (Cons x xs)
  show ?case
  proof (cases "e_flags e x")
    case False
    with Cons.prems obtain u s1 patch s2 v s3 where
      "before x e s = (Inr u, s1)" and h: "handlers x e s1 = (Inr patch, s2)"
      and "checkpoint (patch (set_flag x e)) s2 = (Inr v, s3)"
      and r: "run_stages handlers checkpoint before xs (patch (set_flag x e)) s3 = (Inr e', s')"
      by (auto simp: bindP_Inr_iff Let_def)
    from Cons.IH [OF r] patch_id [OF h, of "set_flag x e"] show ?thesis by (simp add: set_flag_def)
  qed (use Cons in simp)
qed

text \<open>
  A run interrupted after a prefix of the stages and started again from the last
  checkpointed event does exactly what the uninterrupted run had left to do.
\<close>

lemma run_resume:
  assumes "run_stages handlers checkpoint before xs e s = (Inr e', s')"
  shows "run_stages handlers checkpoint before (xs @ ys) e' s' = run_stages handlers checkpoint before (xs @ ys) e s"
proof -
  have "\<forall>st\<in>set xs. e_flags e' st" using run_flags [OF assms] by blast
  then have "run_stages handlers checkpoint before (xs @ ys) e' = run_stages handlers checkpoint before ys e'"
    by (simp add: run_stages_append run_stages_skip bindP_def fun_eq_iff)
  then show ?thesis using assms by (simp add: run_stages_append)
qed

end

subsection \<open>The retry schedule\<close>

lemma retry_delay_bounds: "RETRY_BASE_SECONDS \<le> retry_delay_seconds n \<and> retry_delay_seconds n \<le> RETRY_MAX_SECONDS"
  by (simp add: retry_delay_seconds_def RETRY_BASE_SECONDS_def RETRY_MAX_SECONDS_def)

lemma retry_delay_mono: "m \<le> n \<Longrightarrow> retry_delay_seconds m \<le> retry_delay_seconds n"
  unfolding retry_delay_seconds_def
  by (rule min.mono [OF order_refl mult_le_mono2]) (simp add: power_increasing)

lemma classify_status_cases:
  "cf_status (classify_settlement_failure n err now) \<in> {INTEGRITY_BLOCKED, TERMINAL_FAILED, RETRYABLE_FAILED}"
  by (simp add: classify_settlement_failure_def Let_def)

lemma classify_retryable_iff:
  "cf_status (classify_settlement_failure n err now) = RETRYABLE_FAILED
     \<longleftrightarrow> \<not> starts_with ''INTEGRITY_VIOLATION'' (exc_message err) \<and> n + 1 < MAX_SETTLEMENT_ATTEMPTS"
  by (auto simp: classify_settlement_failure_def Let_def)

subsection \<open>Properties\<close>

text \<open>A failed attempt is retried exactly while it is not an integrity violation and fewer than
  eight attempts failed; the retry is due after 15 to 300 seconds, never sooner than after an
  earlier attempt's failure, is not processable before that moment and is from it on; a
  blocked or terminal event is never picked up again, not even by a forced retry.\<close>

theorem retry_schedule:
  "let f = classify_settlement_failure n err now;
       e' = e\<lparr>e_status := cf_status f, e_next_retry_at := cf_next_retry f\<rparr>
   in cf_attempts f = n + 1
    \<and> (cf_status f = RETRYABLE_FAILED \<longleftrightarrow> \<not> starts_with ''INTEGRITY_VIOLATION'' (exc_message err) \<and> n + 1 < 8)
    \<and> (cf_status f = INTEGRITY_BLOCKED \<longleftrightarrow> starts_with ''INTEGRITY_VIOLATION'' (exc_message err))
    \<and> (if cf_status f = RETRYABLE_FAILED
       then cf_next_retry f = Some (now + seconds (retry_delay_seconds (n + 1)))
          \<and> 15 \<le> retry_delay_seconds (n + 1) \<and> retry_delay_seconds (n + 1) \<le> 300
          \<and> retry_delay_seconds n \<le> retry_delay_seconds (n + 1)
          \<and> (is_settlement_processable e' t lease False \<longleftrightarrow> now + seconds (retry_delay_seconds (n + 1)) \<le> t)
       else cf_next_retry f = None \<and> \<not> is_settlement_processable e' t lease force)"
proof -
  have "15 \<le> retry_delay_seconds (n + 1) \<and> retry_delay_seconds (n + 1) \<le> 300"
    using retry_delay_bounds [of "n + 1"] by (simp add: RETRY_BASE_SECONDS_def RETRY_MAX_SECONDS_def)
  moreover have "retry_delay_seconds n \<le> retry_delay_seconds (n + 1)" by (rule retry_delay_mono) simp
  ultimately show ?thesis
    by (auto simp: classify_settlement_failure_def Let_def is_settlement_processable_def MAX_SETTLEMENT_ATTEMPTS_def)
qed

end
