(* ===== verification/Accounting.thy ===== *)
theory Accounting
  imports Ledger Stages
begin

text \<open>
  \<open>settlement/accounting.py\<close>: the cash entry and the realized-PnL records a fill must have,
  derived from the immutable fill, the lots and the attributions, and their projection into
  the ledger. Every definition is the body of one transaction.

  \<open>project\<close> validates every expected row and optionally writes the missing ones. The
  properties: a projection is idempotent, a verified projection is one whose rows are all
  present with exactly the derived content, and a projected fill moves cash by its notional
  and fees.
\<close>

definition evidence_error :: "string \<Rightarrow> string \<Rightarrow> exc" where
  "evidence_error code subject = ProjectionEvidence (code @ '':'' @ subject)"

definition fill_matches :: "fill \<Rightarrow> settlement_event \<Rightarrow> bool" where
  "fill_matches f e \<longleftrightarrow>
     f_trade_intent_id f = e_trade_intent_id e \<and> f_side f = e_side e \<and> f_mode f = e_mode e
     \<and> f_quantity f = e_quantity e \<and> f_price f = e_price e \<and> f_fees f = e_fees e
     \<and> asset_identity_key (f_asset f) = asset_identity_key (e_asset e)
     \<and> f_filled_at f = e_occurred_at e
     \<and> (e_broker_order_id e = None \<or> e_broker_order_id e = Some (f_order_id f))
     \<and> f_broker_fill_id f = e_broker_fill_id e"

definition source_fill :: "ledger \<Rightarrow> settlement_event \<Rightarrow> fill res" where
  "source_fill db e =
     (case get_row (db_fills db) (e_fill_id e) of
        None \<Rightarrow> Inl (evidence_error ''ACCOUNTING_FILL_MISSING'' (e_fill_id e))
      | Some r \<Rightarrow> if fill_matches (r_payload r) e then Inr (r_payload r)
                  else Inl (evidence_error ''ACCOUNTING_FILL_SETTLEMENT_MISMATCH'' (e_fill_id e)))"

definition fill_cash_id :: "string \<Rightarrow> string" where
  "fill_cash_id i = ''fill:cash:'' @ i"

definition cash_evidence :: "ledger \<Rightarrow> settlement_event \<Rightarrow> cash_entry res" where
  "cash_evidence db e =
     bindR (source_fill db e) (\<lambda>f.
     bindR (contract_multiplier_of (f_asset f)) (\<lambda>m.
       let notional = dmul (dmul (f_quantity f) (f_price f)) m
       in cash_post_init \<lparr>ce_id = fill_cash_id (f_id f), ce_idempotency_key = fill_cash_id (f_id f),
            ce_amount = dsub (if f_side f = SELL then notional else dneg notional) (f_fees f),
            ce_currency = ''USD'', ce_occurred_at = f_filled_at f, ce_reason = ''immutable fill cash; accounting-v1''\<rparr>))"

subsection \<open>Realized profit\<close>

record opening_evidence_row =
  op_asset :: asset_identity
  op_price :: dec
  op_filled_at :: time
  op_side :: side
  op_quantity :: dec
  op_intent :: string

definition adopted_opening :: "ledger \<Rightarrow> position_lot \<Rightarrow> opening_evidence_row res" where
  "adopted_opening db l =
     bindR (adoption_for_lot db l) (\<lambda>a.
       if ad_avg_entry_price a \<noteq> l_acquisition_price l \<or> ad_quantity a \<noteq> l_opened_quantity l \<or> ad_adopted_at a \<noteq> l_opened_at l
       then Inl (evidence_error ''ACCOUNTING_ADOPTION_LOT_MISMATCH'' (l_lot_id l))
       else Inr \<lparr>op_asset = l_asset l, op_price = l_acquisition_price l, op_filled_at = l_opened_at l, op_side = BUY,
                 op_quantity = l_opened_quantity l, op_intent = l_originating_fill_id l\<rparr>)"

definition opening_evidence :: "ledger \<Rightarrow> position_lot \<Rightarrow> opening_evidence_row res" where
  "opening_evidence db l =
     (if lot_origin_of l = Adopted then adopted_opening db l
      else case get_row (db_fills db) (l_originating_fill_id l) of
        None \<Rightarrow> Inl (evidence_error ''ACCOUNTING_OPENING_FILL_MISSING'' (l_lot_id l))
      | Some r \<Rightarrow> (let f = r_payload r
                   in Inr \<lparr>op_asset = f_asset f, op_price = f_price f, op_filled_at = f_filled_at f, op_side = f_side f,
                           op_quantity = f_quantity f, op_intent = f_trade_intent_id f\<rparr>))"

definition opening_lot_ok :: "fill \<Rightarrow> position_lot \<Rightarrow> bool" where
  "opening_lot_ok f l \<longleftrightarrow>
     l_acquisition_price l = f_price f \<and> l_opened_at l = f_filled_at f
     \<and> l_side l = (if f_side f = BUY then Long else Short) \<and> lot_total l = l_opened_quantity l"

definition closing_source_ok :: "string \<Rightarrow> fill \<Rightarrow> position_lot \<Rightarrow> dec \<Rightarrow> opening_evidence_row \<Rightarrow> bool" where
  "closing_source_ok key f l q op \<longleftrightarrow>
     asset_identity_key (op_asset op) = key \<and> op_price op = l_acquisition_price l \<and> op_filled_at op = l_opened_at l
     \<and> op_side op \<noteq> f_side f \<and> l_opened_quantity l \<le> op_quantity op \<and> 0 < q \<and> lot_total l = l_opened_quantity l"

definition attribution_ok :: "string \<Rightarrow> fill \<Rightarrow> position_lot \<Rightarrow> dec \<Rightarrow> opening_evidence_row \<Rightarrow> dec \<Rightarrow> trade_attribution \<Rightarrow> bool" where
  "attribution_ok key f l q op gross a \<longleftrightarrow>
     ta_lot_id a = l_lot_id l \<and> ta_closing_fill a = f_id f \<and> ta_quantity a = q \<and> ta_realized_pnl a = gross
     \<and> ta_entry_price a = op_price op \<and> ta_exit_price a = f_price f
     \<and> ta_entry_at a = op_filled_at op \<and> ta_exit_at a = f_filled_at f
     \<and> ta_opening_intent a = op_intent op \<and> ta_closing_intent a = f_trade_intent_id f
     \<and> asset_identity_key (ta_asset a) = key"

record pnl_acc =
  pa_records :: "pnl_record list"
  pa_allocated :: dec
  pa_realized :: dec
  pa_expected :: "string list"

definition gross_pnl :: "fill \<Rightarrow> position_lot \<Rightarrow> dec \<Rightarrow> opening_evidence_row \<Rightarrow> dec \<Rightarrow> dec" where
  "gross_pnl f l q op m =
     (let g = dmul (dmul (dsub (f_price f) (op_price op)) q) m in if l_side l = Short then dneg g else g)"

definition pnl_of_closure :: "ledger \<Rightarrow> string \<Rightarrow> fill \<Rightarrow> position_lot \<Rightarrow> dec \<Rightarrow> pnl_acc \<Rightarrow> pnl_acc res" where
  "pnl_of_closure db key f l q acc =
     bindR (opening_evidence db l) (\<lambda>op.
     bindR (guardR (closing_source_ok key f l q op) (evidence_error ''ACCOUNTING_LOT_SOURCE_MISMATCH'' (l_lot_id l))) (\<lambda>_.
       let ident = l_lot_id l @ '':'' @ f_id f
       in (case get_row (db_attributions db) ident of
             None \<Rightarrow> Inl (evidence_error ''ACCOUNTING_ATTRIBUTION_MISSING'' ident)
           | Some r \<Rightarrow>
               bindR (contract_multiplier_of (f_asset f)) (\<lambda>m.
               let gross = gross_pnl f l q op m
               in bindR (guardR (attribution_ok key f l q op gross (r_payload r)) (evidence_error ''ACCOUNTING_ATTRIBUTION_MISMATCH'' ident)) (\<lambda>_.
                  bindR (pnl_post_init \<lparr>pr_id = ''fill:pnl:'' @ ident, pr_asset = f_asset f, pr_realized = gross, pr_unrealized = 0,
                                        pr_as_of = f_filled_at f\<rparr>) (\<lambda>rec.
                    Inr (acc\<lparr>pa_records := pa_records acc @ [rec], pa_allocated := dadd (pa_allocated acc) q,
                             pa_realized := dadd (pa_realized acc) gross, pa_expected := pa_expected acc @ [ident]\<rparr>)))))))"

definition pnl_of_lot :: "ledger \<Rightarrow> string \<Rightarrow> fill \<Rightarrow> pnl_acc \<Rightarrow> position_lot \<Rightarrow> pnl_acc res" where
  "pnl_of_lot db key f acc l =
     (if asset_identity_key (l_asset l) \<noteq> key \<or> l_lot_id l \<in> set (db_converted db) then Inr acc
      else bindR (if l_originating_fill_id l = f_id f
                  then if opening_lot_ok f l then Inr (acc\<lparr>pa_allocated := dadd (pa_allocated acc) (l_opened_quantity l)\<rparr>)
                       else Inl (evidence_error ''ACCOUNTING_OPENING_LOT_MISMATCH'' (l_lot_id l))
                  else Inr acc) (\<lambda>acc1.
           (case map_of (l_closures l) (f_id f) of
              None \<Rightarrow> Inr acc1
            | Some q \<Rightarrow> pnl_of_closure db key f l q acc1)))"

definition attributed_ids :: "ledger \<Rightarrow> string \<Rightarrow> string list" where
  "attributed_ids db fill_id = map r_id (filter (\<lambda>r. ta_closing_fill (r_payload r) = fill_id) (db_attributions db))"

definition with_liability :: "ledger \<Rightarrow> string \<Rightarrow> dec \<Rightarrow> dec" where
  "with_liability db fill_id allocated =
     (case find_by_unique (db_liabilities db) fill_id of None \<Rightarrow> allocated | Some r \<Rightarrow> dadd allocated (sl_quantity (r_payload r)))"

definition fee_records :: "fill \<Rightarrow> pnl_record list res" where
  "fee_records f =
     (if f_fees f = 0 then Inr []
      else bindR (pnl_post_init \<lparr>pr_id = ''fill:fee:'' @ f_id f, pr_asset = f_asset f, pr_realized = dneg (f_fees f), pr_unrealized = 0,
                                 pr_as_of = f_filled_at f\<rparr>) (\<lambda>r. Inr [r]))"

definition pnl_evidence :: "ledger \<Rightarrow> settlement_event \<Rightarrow> pnl_record list res" where
  "pnl_evidence db e =
     bindR (source_fill db e) (\<lambda>f.
     bindR (foldR (pnl_of_lot db (asset_identity_key (f_asset f)) f) \<lparr>pa_records = [], pa_allocated = 0, pa_realized = 0, pa_expected = []\<rparr>
              (map r_payload (db_lots db))) (\<lambda>acc.
     bindR (guardR (with_liability db (f_id f) (pa_allocated acc) = f_quantity f
                    \<and> set (attributed_ids db (f_id f)) = set (pa_expected acc) \<and> e_realized_pnl e = Some (pa_realized acc))
              (evidence_error ''ACCOUNTING_CLOSURE_CONSERVATION_FAILED'' (f_id f))) (\<lambda>_.
     bindR (fee_records f) (\<lambda>fees. Inr (pa_records acc @ fees)))))"

subsection \<open>Projection\<close>

text \<open>
  \<open>_persist\<close> for one table: an existing row must be equal, a missing one is written or is an
  error. The plain \<open>INSERT\<close> of a taken unique value raises.
\<close>

definition persist :: "string \<Rightarrow> string option \<Rightarrow> time \<Rightarrow> bool \<Rightarrow> 'p \<Rightarrow> 'p tbl \<Rightarrow> (nat \<times> 'p tbl) res" where
  "persist i u created wr p rows =
     (case get_row rows i of
        Some r \<Rightarrow> if r_payload r \<noteq> p then Inl (evidence_error ''ACCOUNTING_DURABLE_ROW_CONFLICT'' i) else Inr (0, rows)
      | None \<Rightarrow> if \<not> wr then Inl (evidence_error ''ACCOUNTING_DURABLE_ROW_MISSING'' i)
                else if (case u of None \<Rightarrow> False | Some k \<Rightarrow> find_by_unique rows k \<noteq> None)
                then Inl (RuntimeErrorExc ''UNIQUE constraint failed'')
                else Inr (1, rows @ [\<lparr>r_id = i, r_status = None, r_unique = u, r_payload = p, r_created = created\<rparr>]))"

definition persist_cash :: "bool \<Rightarrow> cash_entry \<Rightarrow> cash_entry tbl \<Rightarrow> (nat \<times> cash_entry tbl) res" where
  "persist_cash wr c rows = persist (ce_id c) (Some (ce_idempotency_key c)) (ce_occurred_at c) wr c rows"

definition persist_pnl :: "bool \<Rightarrow> pnl_record \<Rightarrow> pnl_record tbl \<Rightarrow> (nat \<times> pnl_record tbl) res" where
  "persist_pnl wr p rows = persist (pr_id p) None (pr_as_of p) wr p rows"

fun persist_list :: "('p \<Rightarrow> 'p tbl \<Rightarrow> (nat \<times> 'p tbl) res) \<Rightarrow> 'p list \<Rightarrow> 'p tbl \<Rightarrow> (nat \<times> 'p tbl) res" where
  "persist_list f [] rows = Inr (0, rows)"
| "persist_list f (p # ps) rows =
     bindR (f p rows) (\<lambda>(n, rows1). bindR (persist_list f ps rows1) (\<lambda>(m, rows2). Inr (n + m, rows2)))"

definition project_cash_part :: "settlement_event \<Rightarrow> bool \<Rightarrow> ledger \<Rightarrow> (nat \<times> ledger) res" where
  "project_cash_part e wr db =
     bindR (cash_evidence db e) (\<lambda>c.
     bindR (persist_cash wr c (db_cash db)) (\<lambda>(n, t). Inr (n, db\<lparr>db_cash := t\<rparr>)))"

definition project_trade_part :: "settlement_event \<Rightarrow> bool \<Rightarrow> ledger \<Rightarrow> (nat \<times> ledger) res" where
  "project_trade_part e wr db =
     bindR (pnl_evidence db e) (\<lambda>ps.
     bindR (persist_list (persist_pnl wr) ps (db_pnl db)) (\<lambda>(n, t).
     bindR (guardR (get_row (db_intents db) (e_trade_intent_id e) \<noteq> None)
              (evidence_error ''ACCOUNTING_TRADE_INTENT_MISSING'' (e_trade_intent_id e))) (\<lambda>_.
       Inr (n, db\<lparr>db_pnl := t\<rparr>))))"

definition project :: "settlement_event \<Rightarrow> bool \<Rightarrow> bool \<Rightarrow> bool \<Rightarrow> ledger \<Rightarrow> (nat \<times> ledger) res" where
  "project e cash trade wr db =
     bindR (if wr then check_integrity_hold (hold_status db) (Some (e_broker_order_id e)) else Inr ()) (\<lambda>_.
     bindR (if cash then project_cash_part e wr db else Inr (0, db)) (\<lambda>(n, db1).
     bindR (if trade then project_trade_part e wr db1 else Inr (0, db1)) (\<lambda>(m, db2).
       Inr (n + m, db2))))"

definition project_accounting :: "settlement_event \<Rightarrow> bool \<Rightarrow> bool \<Rightarrow> nat routine" where
  "project_accounting e cash trade = writeP (project e cash trade True)"

subsection \<open>Replay and inspection\<close>

definition CASH_NOTE :: string where "CASH_NOTE = ''quarantine execution cash; accounting-v1''"

definition execution_cash :: "quarantine_execution \<Rightarrow> cash_entry res" where
  "execution_cash x =
     bindR (contract_multiplier_of (qx_asset x)) (\<lambda>m.
       let notional = dmul (dmul (qx_quantity x) (qx_price x)) m
       in cash_post_init \<lparr>ce_id = fill_cash_id (qx_activity_id x), ce_idempotency_key = fill_cash_id (qx_activity_id x),
            ce_amount = (if qx_side x = SELL then notional else dneg notional),
            ce_currency = ''USD'', ce_occurred_at = qx_executed_at x, ce_reason = CASH_NOTE\<rparr>)"

text \<open>A loop of counted repairs over a list.\<close>

fun count_all :: "('a \<Rightarrow> ledger \<Rightarrow> (nat \<times> ledger) res) \<Rightarrow> 'a list \<Rightarrow> ledger \<Rightarrow> (nat \<times> ledger) res" where
  "count_all f [] db = Inr (0, db)"
| "count_all f (x # xs) db = bindR (f x db) (\<lambda>(n, db1). bindR (count_all f xs db1) (\<lambda>(m, db2). Inr (n + m, db2)))"

definition project_execution :: "bool \<Rightarrow> quarantine_execution \<Rightarrow> ledger \<Rightarrow> (nat \<times> ledger) res" where
  "project_execution wr x db =
     bindR (execution_cash x) (\<lambda>c. bindR (persist_cash wr c (db_cash db)) (\<lambda>(n, t). Inr (n, db\<lparr>db_cash := t\<rparr>)))"

definition project_quarantine_cash :: "bool \<Rightarrow> ledger \<Rightarrow> (nat \<times> ledger) res" where
  "project_quarantine_cash wr db = count_all (project_execution wr) (map r_payload (sort_key r_id (db_executions db))) db"

definition missing_row :: "exc \<Rightarrow> bool" where
  "missing_row x = (case x of ProjectionEvidence m \<Rightarrow> starts_with ''ACCOUNTING_DURABLE_ROW_MISSING:'' m | _ \<Rightarrow> False)"

definition replay_project :: "settlement_event \<Rightarrow> ledger \<Rightarrow> (nat \<times> ledger) res" where
  "replay_project e db =
     (case project e True True False db of
        Inr v \<Rightarrow> Inr v
      | Inl x \<Rightarrow> if missing_row x then project e True True True db else Inl x)"

definition completed_events :: "ledger \<Rightarrow> settlement_event list" where
  "completed_events db =
     map r_payload (sort_key r_id (filter (\<lambda>r. r_status r = Some (settlement_status_value COMPLETED)) (db_settlements db)))"

definition add_receipt :: "string \<Rightarrow> ledger \<Rightarrow> ledger res" where
  "add_receipt i db =
     (if i \<in> set (db_receipts db) then Inl (RuntimeErrorExc ''UNIQUE constraint failed'') else Inr (db\<lparr>db_receipts := db_receipts db @ [i]\<rparr>))"

text \<open>
  One completed settlement: its rows, and, for a payload that predates the attribution
  stage (\<open>legacy\<close> says so; the parsed event no longer shows it), the migration receipt and
  the checkpoint field. \<open>digest\<close> is the SHA-256 of what the receipt covers.
\<close>

definition migrate_event :: "(settlement_event \<Rightarrow> string) \<Rightarrow> settlement_event \<Rightarrow> ledger \<Rightarrow> ledger res" where
  "migrate_event digest e db =
     bindR (add_receipt (''accounting_stage_migration:v1:'' @ digest e) db) (\<lambda>db1.
       Inr (db1\<lparr>db_settlements := set_row (e_id e) (\<lambda>r. r\<lparr>r_payload := e\<lparr>e_flags := (e_flags e)(AttributionStage := True)\<rparr>\<rparr>) (db_settlements db1)\<rparr>))"

definition replay_event :: "(settlement_event \<Rightarrow> bool) \<Rightarrow> (settlement_event \<Rightarrow> string) \<Rightarrow> settlement_event \<Rightarrow> ledger \<Rightarrow> (nat \<times> ledger) res" where
  "replay_event legacy digest e db =
     bindR (replay_project e db) (\<lambda>(n, db1).
       if legacy e then bindR (migrate_event digest e db1) (\<lambda>db2. Inr (n, db2)) else Inr (n, db1))"

definition replay_accounting ::
  "(settlement_event \<Rightarrow> bool) \<Rightarrow> (settlement_event \<Rightarrow> string) \<Rightarrow> (ledger \<Rightarrow> string) \<Rightarrow> ledger \<Rightarrow> (nat \<times> ledger) res" where
  "replay_accounting legacy digest sources db =
     bindR (count_all (replay_event legacy digest) (completed_events db) db) (\<lambda>(n, db1).
     bindR (project_quarantine_cash True db1) (\<lambda>(m, db2).
       if n + m \<noteq> 0 then bindR (add_receipt (''accounting_replay:v1:'' @ sources db2) db2) (\<lambda>db3. Inr (n + m, db3))
       else Inr (0, db2)))"

text \<open>What \<open>accounting_issues\<close> catches and reports under the fill's identifier.\<close>

fun reported :: "exc \<Rightarrow> bool" where
  "reported (ValueError m) = True"
| "reported (ProjectionEvidence m) = True"
| "reported DivisionByZero = True"
| "reported InvalidOperation = True"
| "reported (KeyErrorExc m) = True"
| "reported _ = False"

definition all_flags :: "settlement_event \<Rightarrow> bool" where
  "all_flags e = list_all (e_flags e) SETTLEMENT_STAGES"

definition check_settlement :: "ledger \<Rightarrow> settlement_event \<Rightarrow> unit res" where
  "check_settlement db e =
     bindR (guardR (e_status e = COMPLETED \<and> all_flags e) (ProjectionEvidence ''ACCOUNTING_SETTLEMENT_INCOMPLETE'')) (\<lambda>_.
     bindR (project e True True False db) (\<lambda>_. Inr ()))"

definition report :: "string \<Rightarrow> unit res \<Rightarrow> (string \<times> string) list \<Rightarrow> (string \<times> string) list res" where
  "report subject outcome issues =
     (case outcome of Inr _ \<Rightarrow> Inr issues
      | Inl x \<Rightarrow> if reported x then Inr (AList.update subject (exc_message x) issues) else Inl x)"

definition execution_issue :: "ledger \<Rightarrow> (string \<times> string) list \<Rightarrow> quarantine_execution row \<Rightarrow> (string \<times> string) list res" where
  "execution_issue db issues r =
     (let subject = ''quarantine_execution:'' @ r_id r
      in bindR (report subject (bindR (project_execution False (r_payload r) db) (\<lambda>_. Inr ())) issues) (\<lambda>issues1.
         if list_ex (\<lambda>f. r_id f = r_id r \<or> f_broker_fill_id (r_payload f) = Some (r_id r)) (db_fills db)
         then Inr (AList.update subject ''INTEGRITY_VIOLATION: I11 activity is both a Fill and a quarantine execution'' issues1)
         else Inr issues1))"

definition unsettled_fills :: "ledger \<Rightarrow> string list" where
  "unsettled_fills db = filter (\<lambda>i. \<not> list_ex (\<lambda>r. e_fill_id (r_payload r) = i) (db_settlements db)) (map r_id (db_fills db))"

definition accounting_issues :: "ledger \<Rightarrow> (string \<times> string) list res" where
  "accounting_issues db =
     bindR (foldR (\<lambda>issues e. report (e_fill_id e) (check_settlement db e) issues) [] (map r_payload (db_settlements db))) (\<lambda>issues.
     let issues1 = fold (\<lambda>i. AList.update i ''ACCOUNTING_SETTLEMENT_MISSING'') (unsettled_fills db) issues
     in bindR (foldR (execution_issue db) [] (db_executions db)) (\<lambda>quarantine.
          Inr (fold (\<lambda>(k, v). AList.update k v) quarantine issues1)))"

subsection \<open>What evidence depends on\<close>

text \<open>
  Evidence is derived from the fills, lots, attributions, liabilities, adoptions and
  conversions; the journal rows, flags and statuses it is projected into are not part of it.
\<close>

definition same_sources :: "ledger \<Rightarrow> ledger \<Rightarrow> bool" where
  "same_sources a b \<longleftrightarrow>
     db_fills a = db_fills b \<and> db_lots a = db_lots b \<and> db_attributions a = db_attributions b
     \<and> db_liabilities a = db_liabilities b \<and> db_adoptions a = db_adoptions b \<and> db_converted a = db_converted b
     \<and> db_intents a = db_intents b \<and> db_executions a = db_executions b"

definition same_facts :: "settlement_event \<Rightarrow> settlement_event \<Rightarrow> bool" where
  "same_facts d e \<longleftrightarrow>
     e_fill_id d = e_fill_id e \<and> e_trade_intent_id d = e_trade_intent_id e \<and> e_side d = e_side e \<and> e_mode d = e_mode e
     \<and> e_quantity d = e_quantity e \<and> e_price d = e_price e \<and> e_fees d = e_fees e \<and> e_asset d = e_asset e
     \<and> e_occurred_at d = e_occurred_at e \<and> e_broker_order_id d = e_broker_order_id e
     \<and> e_broker_fill_id d = e_broker_fill_id e \<and> e_realized_pnl d = e_realized_pnl e"

lemma same_sources_refl [simp]: "same_sources a a"
  by (simp add: same_sources_def)

lemma same_sources_trans: "same_sources a b \<Longrightarrow> same_sources b c \<Longrightarrow> same_sources a c"
  by (simp add: same_sources_def)

lemma same_sources_upd [simp]:
  "same_sources (a\<lparr>db_cash := x\<rparr>) b \<longleftrightarrow> same_sources a b" "same_sources (a\<lparr>db_pnl := y\<rparr>) b \<longleftrightarrow> same_sources a b"
  "same_sources (a\<lparr>db_settlements := z\<rparr>) b \<longleftrightarrow> same_sources a b" "same_sources (a\<lparr>db_receipts := w\<rparr>) b \<longleftrightarrow> same_sources a b"
  by (simp_all add: same_sources_def)

lemma source_fill_cong: "same_sources a b \<Longrightarrow> same_facts d e \<Longrightarrow> source_fill a d = source_fill b e"
  by (auto simp: source_fill_def same_sources_def same_facts_def fill_matches_def split: option.splits)

lemma cash_evidence_cong: "same_sources a b \<Longrightarrow> same_facts d e \<Longrightarrow> cash_evidence a d = cash_evidence b e"
  by (simp add: cash_evidence_def source_fill_cong)

lemma opening_evidence_cong: "same_sources a b \<Longrightarrow> opening_evidence a = opening_evidence b"
proof -
  assume s: "same_sources a b"
  then have "adoption_for_lot a = adoption_for_lot b"
    by (intro ext) (auto simp: adoption_for_lot_def same_sources_def split: option.splits)
  then show ?thesis using s
    by (intro ext) (auto simp: opening_evidence_def adopted_opening_def same_sources_def split: option.splits)
qed

lemma pnl_of_closure_cong: "same_sources a b \<Longrightarrow> pnl_of_closure a key f l q acc = pnl_of_closure b key f l q acc"
  using opening_evidence_cong [of a b] by (simp add: pnl_of_closure_def same_sources_def)

lemma pnl_of_lot_cong: "same_sources a b \<Longrightarrow> pnl_of_lot a = pnl_of_lot b"
proof (intro ext)
  fix key f acc l
  assume s: "same_sources a b"
  have "db_converted a = db_converted b" using s by (simp add: same_sources_def)
  moreover have "pnl_of_closure a = pnl_of_closure b" by (intro ext) (rule pnl_of_closure_cong [OF s])
  ultimately show "pnl_of_lot a key f acc l = pnl_of_lot b key f acc l" by (simp only: pnl_of_lot_def)
qed

lemma pnl_evidence_cong:
  assumes "same_sources a b" "same_facts d e"
  shows "pnl_evidence a d = pnl_evidence b e"
proof -
  have "db_lots a = db_lots b" "with_liability a = with_liability b" "attributed_ids a = attributed_ids b" "e_realized_pnl d = e_realized_pnl e"
    using assms by (auto simp: same_sources_def same_facts_def with_liability_def attributed_ids_def fun_eq_iff)
  then show ?thesis by (simp add: pnl_evidence_def source_fill_cong [OF assms] pnl_of_lot_cong [OF assms(1)])
qed

subsection \<open>The journal's contract\<close>

text \<open>
  What replays rely on: a row once put is had, is not lost by later puts, and is put again
  without effect; a put that may not write changes nothing and succeeds only on a had row.
\<close>

locale journal =
  fixes put :: "bool \<Rightarrow> 'p \<Rightarrow> 'p tbl \<Rightarrow> (nat \<times> 'p tbl) res"
    and has :: "'p \<Rightarrow> 'p tbl \<Rightarrow> bool"
  assumes put_has: "put wr p t = Inr (n, t') \<Longrightarrow> has p t'"
    and put_keeps: "put wr p t = Inr (n, t') \<Longrightarrow> has q t \<Longrightarrow> has q t'"
    and put_again: "has p t \<Longrightarrow> put wr p t = Inr (0, t)"
    and put_count: "put wr p t = Inr (n, t') \<Longrightarrow> (n = 0 \<longleftrightarrow> has p t)"
    and verify_has: "put False p t = Inr r \<Longrightarrow> has p t"
begin

lemma verify: "put False p t = Inr r \<longleftrightarrow> r = (0, t) \<and> has p t"
  using verify_has [of p t r] put_again [of p t False] by auto

lemma put_list_keeps: "persist_list (put wr) ps t = Inr (n, t') \<Longrightarrow> has q t \<Longrightarrow> has q t'"
  by (induction ps arbitrary: t n) (auto simp: bindR_Inr_iff dest: put_keeps)

lemma put_list_has: "persist_list (put wr) ps t = Inr (n, t') \<Longrightarrow> p \<in> set ps \<Longrightarrow> has p t'"
proof (induction ps arbitrary: t n)
  case Nil
  then show ?case by simp
next
  case (Cons x ps)
  then obtain k t1 m where "put wr x t = Inr (k, t1)" "persist_list (put wr) ps t1 = Inr (m, t')"
    by (auto simp: bindR_Inr_iff)
  then show ?case using Cons put_has put_list_keeps by auto
qed

lemma put_list_again: "(\<And>p. p \<in> set ps \<Longrightarrow> has p t) \<Longrightarrow> persist_list (put wr) ps t = Inr (0, t)"
  by (induction ps) (auto simp: put_again)

lemma put_list_none: "persist_list (put wr) ps t = Inr (0, t') \<Longrightarrow> t' = t \<and> (\<forall>p\<in>set ps. has p t)"
proof (induction ps arbitrary: t)
  case Nil
  then show ?case by simp
next
  case (Cons x ps)
  then obtain t1 where "put wr x t = Inr (0, t1)" "persist_list (put wr) ps t1 = Inr (0, t')"
    by (auto simp: bindR_Inr_iff)
  moreover have "has x t" using \<open>put wr x t = Inr (0, t1)\<close> put_count by blast
  ultimately show ?case using Cons.IH put_again by force
qed

lemma verify_list: "persist_list (put False) ps t = Inr r \<longleftrightarrow> r = (0, t) \<and> (\<forall>p\<in>set ps. has p t)"
proof
  show "r = (0, t) \<and> (\<forall>p\<in>set ps. has p t) \<Longrightarrow> persist_list (put False) ps t = Inr r"
    using put_list_again by blast
  show "persist_list (put False) ps t = Inr r \<Longrightarrow> r = (0, t) \<and> (\<forall>p\<in>set ps. has p t)"
  proof (induction ps arbitrary: r)
    case Nil
    then show ?case by simp
  next
    case (Cons x ps)
    then obtain k t1 r' where x: "put False x t = Inr (k, t1)" and r': "persist_list (put False) ps t1 = Inr r'"
      and r: "r = (k + fst r', snd r')"
      by (auto simp: bindR_Inr_iff)
    have h: "has x t" using verify_has x by blast
    then have "k = 0" "t1 = t" using x put_again [OF h, of False] by auto
    then show ?case using Cons.IH [of r'] r' r h by auto
  qed
qed

end

definition has_cash :: "cash_entry \<Rightarrow> cash_entry tbl \<Rightarrow> bool" where
  "has_cash c rows = (map_option r_payload (get_row rows (ce_id c)) = Some c)"

definition has_pnl :: "pnl_record \<Rightarrow> pnl_record tbl \<Rightarrow> bool" where
  "has_pnl p rows = (map_option r_payload (get_row rows (pr_id p)) = Some p)"

interpretation cash_journal: journal persist_cash has_cash
  by unfold_locales (auto simp: persist_cash_def persist_def has_cash_def split: option.splits if_splits)

interpretation pnl_journal: journal persist_pnl has_pnl
  by unfold_locales (auto simp: persist_pnl_def persist_def has_pnl_def split: option.splits if_splits)

subsection \<open>Projection of one event\<close>

text \<open>Everything the event's evidence calls for is in the ledger.\<close>

definition cash_projected :: "settlement_event \<Rightarrow> ledger \<Rightarrow> bool" where
  "cash_projected e db \<longleftrightarrow> (\<exists>c. cash_evidence db e = Inr c \<and> has_cash c (db_cash db))"

definition trade_projected :: "settlement_event \<Rightarrow> ledger \<Rightarrow> bool" where
  "trade_projected e db \<longleftrightarrow> (\<exists>ps. pnl_evidence db e = Inr ps \<and> (\<forall>p\<in>set ps. has_pnl p (db_pnl db)))
     \<and> get_row (db_intents db) (e_trade_intent_id e) \<noteq> None"

lemma verify_iff:
  "project e cash trade False db = Inr r \<longleftrightarrow> r = (0, db) \<and> (cash \<longrightarrow> cash_projected e db) \<and> (trade \<longrightarrow> trade_projected e db)"
proof -
  have c: "project_cash_part e False db = Inr r1 \<longleftrightarrow> r1 = (0, db) \<and> cash_projected e db" for r1
    by (cases r1) (auto simp: project_cash_part_def cash_projected_def bindR_Inr_iff cash_journal.verify)
  have t: "project_trade_part e False db = Inr r2 \<longleftrightarrow> r2 = (0, db) \<and> trade_projected e db" for r2
    by (cases r2) (auto simp: project_trade_part_def trade_projected_def res_iffs pnl_journal.verify_list)
  show ?thesis by (cases cash; cases trade; cases r) (auto simp: project_def bindR_Inr_iff c t)
qed

lemma project_sources: "project e cash trade wr db = Inr (n, db') \<Longrightarrow> same_sources db' db \<and> db_holds db' = db_holds db"
  by (auto simp: project_def project_cash_part_def project_trade_part_def bindR_Inr_iff split: if_splits)

lemma same_facts_refl [simp]: "same_facts e e"
  by (simp add: same_facts_def)

lemma project_projected:
  assumes "project e cash trade wr db = Inr (n, db')"
  shows "(cash \<longrightarrow> cash_projected e db') \<and> (trade \<longrightarrow> trade_projected e db')"
proof -
  from assms obtain n1 db1 n2 where
    c: "(if cash then project_cash_part e wr db else Inr (0, db)) = Inr (n1, db1)" and
    t: "(if trade then project_trade_part e wr db1 else Inr (0, db1)) = Inr (n2, db')"
    by (auto simp: project_def bindR_Inr_iff)
  have "cash \<Longrightarrow> cash_projected e db1"
    using c cash_evidence_cong [of db1 db e e]
    by (auto simp: project_cash_part_def cash_projected_def bindR_Inr_iff dest: cash_journal.put_has)
  moreover have "db_cash db' = db_cash db1" "same_sources db' db1"
    using t by (auto simp: project_trade_part_def bindR_Inr_iff split: if_splits)
  then have "cash_projected e db1 \<Longrightarrow> cash_projected e db'"
    using cash_evidence_cong [of db' db1 e e] by (auto simp: cash_projected_def)
  moreover have "trade \<Longrightarrow> trade_projected e db'"
    using t pnl_evidence_cong [of db' db1 e e]
    by (auto simp: project_trade_part_def trade_projected_def res_iffs dest: pnl_journal.put_list_has)
  ultimately show ?thesis by blast
qed

lemma project_noop:
  assumes "cash \<Longrightarrow> cash_projected e db" "trade \<Longrightarrow> trade_projected e db"
    and "wr \<Longrightarrow> check_integrity_hold (hold_status db) (Some (e_broker_order_id e)) = Inr ()"
  shows "project e cash trade wr db = Inr (0, db)"
proof -
  have c: "cash \<Longrightarrow> project_cash_part e wr db = Inr (0, db)"
    using assms(1) by (auto simp: project_cash_part_def cash_projected_def cash_journal.put_again)
  have t: "trade \<Longrightarrow> project_trade_part e wr db = Inr (0, db)"
    using assms(2) by (auto simp: project_trade_part_def trade_projected_def pnl_journal.put_list_again)
  show ?thesis using assms(3) c t by (auto simp: project_def)
qed

subsection \<open>Replay\<close>

definition execution_projected :: "quarantine_execution \<Rightarrow> ledger \<Rightarrow> bool" where
  "execution_projected x db \<longleftrightarrow> (\<exists>c. execution_cash x = Inr c \<and> has_cash c (db_cash db))"

text \<open>Steps that add journal rows and receipts only, and lose none.\<close>

definition grows :: "ledger \<Rightarrow> ledger \<Rightarrow> bool" where
  "grows db db' \<longleftrightarrow> same_sources db' db \<and> db_holds db' = db_holds db
     \<and> (\<forall>c. has_cash c (db_cash db) \<longrightarrow> has_cash c (db_cash db')) \<and> (\<forall>p. has_pnl p (db_pnl db) \<longrightarrow> has_pnl p (db_pnl db'))"

lemma grows_refl [simp]: "grows db db"
  by (simp add: grows_def)

lemma grows_trans: "grows a b \<Longrightarrow> grows b c \<Longrightarrow> grows a c"
  using same_sources_trans by (auto simp: grows_def)

lemma grows_projected:
  assumes "grows db db'"
  shows "cash_projected e db \<Longrightarrow> cash_projected e db'" and "trade_projected e db \<Longrightarrow> trade_projected e db'"
    and "execution_projected x db \<Longrightarrow> execution_projected x db'"
proof -
  have s: "same_sources db' db" "db_intents db' = db_intents db" using assms by (auto simp: grows_def same_sources_def)
  show "cash_projected e db \<Longrightarrow> cash_projected e db'"
    using cash_evidence_cong [OF s(1) same_facts_refl] assms by (auto simp: cash_projected_def grows_def)
  show "trade_projected e db \<Longrightarrow> trade_projected e db'"
    using pnl_evidence_cong [OF s(1) same_facts_refl] assms s(2) by (auto simp: trade_projected_def grows_def)
  show "execution_projected x db \<Longrightarrow> execution_projected x db'"
    using assms by (auto simp: execution_projected_def grows_def)
qed

lemma cash_part_grows: "project_cash_part e wr db = Inr (n, db') \<Longrightarrow> grows db db'"
  by (auto simp: grows_def project_cash_part_def bindR_Inr_iff dest: cash_journal.put_keeps)

lemma trade_part_grows: "project_trade_part e wr db = Inr (n, db') \<Longrightarrow> grows db db'"
  by (auto simp: grows_def project_trade_part_def bindR_Inr_iff dest: pnl_journal.put_list_keeps)

lemma project_grows:
  assumes "project e cash trade wr db = Inr (n, db')"
  shows "grows db db'"
proof -
  from assms obtain n1 db1 n2 where
    "(if cash then project_cash_part e wr db else Inr (0, db)) = Inr (n1, db1)"
    "(if trade then project_trade_part e wr db1 else Inr (0, db1)) = Inr (n2, db')"
    by (auto simp: project_def bindR_Inr_iff)
  then have "grows db db1" "grows db1 db'"
    by (auto split: if_splits dest: cash_part_grows trade_part_grows)
  then show ?thesis by (rule grows_trans)
qed

lemma replay_project_cases:
  "replay_project e db = Inr (n, db') \<Longrightarrow> \<exists>wr. project e True True wr db = Inr (n, db')"
  by (auto simp: replay_project_def split: sum.splits if_splits)

lemma replay_event_step:
  assumes "replay_event legacy digest e db = Inr (n, db')"
  shows "grows db db' \<and> cash_projected e db' \<and> trade_projected e db'"
proof -
  from assms obtain db1 where r: "replay_project e db = Inr (n, db1)" and m: "db' = db1 \<or> migrate_event digest e db1 = Inr db'"
    by (auto simp: replay_event_def bindR_Inr_iff split: if_splits)
  from replay_project_cases [OF r] obtain wr where p: "project e True True wr db = Inr (n, db1)" by blast
  have "grows db1 db'" using m by (auto simp: migrate_event_def add_receipt_def bindR_Inr_iff grows_def split: if_splits)
  then show ?thesis using project_grows [OF p] project_projected [OF p] grows_trans grows_projected by blast
qed

lemma count_all_grows:
  assumes "count_all f xs db = Inr (n, db')"
    and "\<And>x db n db'. x \<in> set xs \<Longrightarrow> f x db = Inr (n, db') \<Longrightarrow> grows db db'"
  shows "grows db db'"
  using assms
proof (induction xs arbitrary: db n)
  case (Cons x xs)
  then obtain k db1 m where "f x db = Inr (k, db1)" "count_all f xs db1 = Inr (m, db')" by (auto simp: bindR_Inr_iff)
  then show ?case using Cons grows_trans by (meson list.set_intros)
qed simp

lemma count_all_each:
  assumes "count_all f xs db = Inr (n, db')" and "x \<in> set xs"
    and "\<And>x db n db'. x \<in> set xs \<Longrightarrow> f x db = Inr (n, db') \<Longrightarrow> grows db db' \<and> P x db'"
    and mono: "\<And>x a b. grows a b \<Longrightarrow> P x a \<Longrightarrow> P x b"
  shows "P x db'"
  using assms(1-3)
proof (induction xs arbitrary: db n)
  case Nil
  then show ?case by simp
next
  case (Cons y xs)
  then obtain k db1 m where y: "f y db = Inr (k, db1)" and r: "count_all f xs db1 = Inr (m, db')" by (auto simp: bindR_Inr_iff)
  have g: "grows db1 db'" by (rule count_all_grows [OF r]) (use Cons.prems(3) in auto)
  show ?case
  proof (cases "x = y")
    case True
    then show ?thesis using Cons.prems(3) [of y] y mono [OF g] by auto
  next
    case False
    then show ?thesis using Cons.IH [OF r] Cons.prems(2,3) by auto
  qed
qed

lemma count_all_noop: "(\<And>x. x \<in> set xs \<Longrightarrow> f x db = Inr (0, db)) \<Longrightarrow> count_all f xs db = Inr (0, db)"
  by (induction xs) auto

lemma project_execution_step:
  "project_execution wr x db = Inr (n, db') \<Longrightarrow> grows db db' \<and> execution_projected x db'"
  by (auto simp: project_execution_def bindR_Inr_iff grows_def execution_projected_def
      dest: cash_journal.put_has cash_journal.put_keeps)

lemma project_execution_noop: "execution_projected x db \<Longrightarrow> project_execution wr x db = Inr (0, db)"
  by (auto simp: project_execution_def execution_projected_def cash_journal.put_again)

text \<open>The books are clean for replay: every completed event and every execution is projected.\<close>

definition replayed :: "ledger \<Rightarrow> bool" where
  "replayed db \<longleftrightarrow> (\<forall>e\<in>set (completed_events db). cash_projected e db \<and> trade_projected e db)
     \<and> (\<forall>r\<in>set (db_executions db). execution_projected (r_payload r) db)"

lemma replay_noop:
  assumes "replayed db"
  shows "replay_accounting (\<lambda>_. False) digest sources db = Inr (0, db)"
proof -
  have "replay_event (\<lambda>_. False) digest e db = Inr (0, db)" if "e \<in> set (completed_events db)" for e
    using assms that by (simp add: replay_event_def replay_project_def project_noop replayed_def)
  then have "count_all (replay_event (\<lambda>_. False) digest) (completed_events db) db = Inr (0, db)"
    by (rule count_all_noop)
  moreover have "project_quarantine_cash True db = Inr (0, db)"
    unfolding project_quarantine_cash_def
    by (rule count_all_noop) (use assms in \<open>auto simp: replayed_def project_execution_noop\<close>)
  ultimately show ?thesis by (simp add: replay_accounting_def)
qed

text \<open>A replay without stage migrations leaves the settlements alone.\<close>

lemma count_all_settlements:
  "count_all (replay_event (\<lambda>_. False) digest) es db = Inr (n, db') \<Longrightarrow> db_settlements db' = db_settlements db"
proof (induction es arbitrary: db n)
  case (Cons e es)
  then obtain k db1 m where "replay_event (\<lambda>_. False) digest e db = Inr (k, db1)"
    and r: "count_all (replay_event (\<lambda>_. False) digest) es db1 = Inr (m, db')" by (auto simp: bindR_Inr_iff)
  then obtain wr where "project e True True wr db = Inr (k, db1)"
    by (auto simp: replay_event_def bindR_Inr_iff dest!: replay_project_cases)
  then have "db_settlements db1 = db_settlements db"
    by (auto simp: project_def project_cash_part_def project_trade_part_def bindR_Inr_iff split: if_splits)
  then show ?case using Cons.IH [OF r] by simp
qed simp

lemma project_quarantine_settlements:
  "project_quarantine_cash wr db = Inr (n, db') \<Longrightarrow> db_settlements db' = db_settlements db"
proof -
  have "count_all (project_execution wr) xs a = Inr (k, b) \<Longrightarrow> db_settlements b = db_settlements a" for xs a b k
    by (induction xs arbitrary: a k) (auto simp: bindR_Inr_iff project_execution_def)
  then show "project_quarantine_cash wr db = Inr (n, db') \<Longrightarrow> db_settlements db' = db_settlements db"
    unfolding project_quarantine_cash_def by blast
qed

lemma replay_establishes:
  assumes "replay_accounting (\<lambda>_. False) digest sources db = Inr (n, db')"
  shows "replayed db' \<and> grows db db' \<and> db_settlements db' = db_settlements db"
proof -
  let ?f = "replay_event (\<lambda>_. False) digest"
  from assms obtain k db1 m db2 where e: "count_all ?f (completed_events db) db = Inr (k, db1)"
    and x: "project_quarantine_cash True db1 = Inr (m, db2)"
    and f: "db' = db2 \<or> add_receipt (''accounting_replay:v1:'' @ sources db2) db2 = Inr db'"
    by (auto simp: replay_accounting_def bindR_Inr_iff split: if_splits)
  have g1: "grows db db1" by (rule count_all_grows [OF e]) (use replay_event_step in blast)
  have g2: "grows db1 db2" using x unfolding project_quarantine_cash_def
    by (rule count_all_grows) (use project_execution_step in blast)
  have g3: "grows db2 db'" and s3: "db_settlements db' = db_settlements db2"
    using f by (auto simp: add_receipt_def grows_def split: if_splits)
  have s: "db_settlements db' = db_settlements db"
    using s3 project_quarantine_settlements [OF x] count_all_settlements [OF e] by simp
  have ev: "cash_projected a db1 \<and> trade_projected a db1" if "a \<in> set (completed_events db)" for a
    by (rule count_all_each [OF e that]) (use replay_event_step grows_projected in blast)+
  have ex: "execution_projected (r_payload r) db2" if "r \<in> set (db_executions db1)" for r
    using x unfolding project_quarantine_cash_def
    by (rule count_all_each) (use that project_execution_step grows_projected in auto)
  have same: "db_executions db1 = db_executions db" "db_executions db' = db_executions db"
    using g1 grows_trans [OF g1 grows_trans [OF g2 g3]] by (auto simp: grows_def same_sources_def)
  have "completed_events db' = completed_events db" using s by (simp add: completed_events_def)
  then have "replayed db'"
    using ev ex same grows_projected [OF g3] grows_projected [OF grows_trans [OF g2 g3]] by (auto simp: replayed_def)
  then show ?thesis using s grows_trans [OF g1 grows_trans [OF g2 g3]] by blast
qed

subsection \<open>Inspection\<close>

lemma report_Nil:
  assumes "foldR (\<lambda>issues x. report (subj x) (outcome x) issues) issues xs = Inr []"
  shows "issues = [] \<and> (\<forall>x\<in>set xs. outcome x = Inr ())"
  using assms
proof (induction xs arbitrary: issues)
  case (Cons x xs)
  then obtain i where r: "report (subj x) (outcome x) issues = Inr i" and "foldR (\<lambda>issues x. report (subj x) (outcome x) issues) i xs = Inr []"
    by (auto simp: bindR_Inr_iff)
  then have "i = []" "\<forall>x\<in>set xs. outcome x = Inr ()" using Cons.IH by auto
  moreover have "outcome x = Inr () \<and> issues = []"
    using r \<open>i = []\<close> by (cases "outcome x") (auto simp: report_def update_nonempty split: if_splits)
  ultimately show ?case by simp
qed simp

lemma fold_update_Nil: "fold (\<lambda>x. AList.update (k x) (v x)) xs al = [] \<longleftrightarrow> xs = [] \<and> al = []"
  by (induction xs arbitrary: al) (auto simp: update_nonempty)

lemma execution_issue_Nil:
  assumes "foldR (execution_issue db) issues xs = Inr []"
  shows "issues = [] \<and> (\<forall>r\<in>set xs. (\<exists>v. project_execution False (r_payload r) db = Inr v)
     \<and> \<not> list_ex (\<lambda>f. r_id f = r_id r \<or> f_broker_fill_id (r_payload f) = Some (r_id r)) (db_fills db))"
  using assms
proof (induction xs arbitrary: issues)
  case (Cons x xs)
  then obtain i where r: "execution_issue db issues x = Inr i" and "foldR (execution_issue db) i xs = Inr []"
    by (auto simp: bindR_Inr_iff)
  with Cons.IH have i: "i = []" and "\<forall>r\<in>set xs. (\<exists>v. project_execution False (r_payload r) db = Inr v)
     \<and> \<not> list_ex (\<lambda>f. r_id f = r_id r \<or> f_broker_fill_id (r_payload f) = Some (r_id r)) (db_fills db)" by auto
  moreover have "issues = [] \<and> (\<exists>v. project_execution False (r_payload x) db = Inr v)
     \<and> \<not> list_ex (\<lambda>f. r_id f = r_id x \<or> f_broker_fill_id (r_payload f) = Some (r_id x)) (db_fills db)"
    using r i by (cases "project_execution False (r_payload x) db")
      (auto simp: execution_issue_def report_def update_nonempty Let_def bindR_Inr_iff split: if_splits)
  ultimately show ?case by simp
qed simp

lemma accounting_issues_Nil:
  assumes "accounting_issues db = Inr []"
  shows "\<forall>r\<in>set (db_settlements db). e_status (r_payload r) = COMPLETED \<and> all_flags (r_payload r)
          \<and> cash_projected (r_payload r) db \<and> trade_projected (r_payload r) db"
    and "unsettled_fills db = []"
    and "\<forall>r\<in>set (db_executions db). execution_projected (r_payload r) db"
proof -
  from assms obtain issues quarantine where
    i: "foldR (\<lambda>issues e. report (e_fill_id e) (check_settlement db e) issues) [] (map r_payload (db_settlements db)) = Inr issues"
    and q: "foldR (execution_issue db) [] (db_executions db) = Inr quarantine"
    and n: "fold (\<lambda>x. AList.update (fst x) (snd x)) quarantine (fold (\<lambda>i. AList.update i ''ACCOUNTING_SETTLEMENT_MISSING'') (unsettled_fills db) issues) = []"
    by (auto simp: accounting_issues_def bindR_Inr_iff Let_def case_prod_unfold)
  from n have nil: "quarantine = []" "unsettled_fills db = []" "issues = []"
    by (simp_all add: fold_update_Nil [of fst snd] fold_update_Nil [of "\<lambda>i. i" "\<lambda>_. ''ACCOUNTING_SETTLEMENT_MISSING''"])
  show "unsettled_fills db = []" by (rule nil)
  have "\<forall>e\<in>set (map r_payload (db_settlements db)). check_settlement db e = Inr ()"
    using report_Nil [OF i [unfolded nil]] by simp
  then show "\<forall>r\<in>set (db_settlements db). e_status (r_payload r) = COMPLETED \<and> all_flags (r_payload r)
          \<and> cash_projected (r_payload r) db \<and> trade_projected (r_payload r) db"
    by (auto simp: check_settlement_def res_iffs verify_iff)
  show "\<forall>r\<in>set (db_executions db). execution_projected (r_payload r) db"
    using execution_issue_Nil [OF q [unfolded nil]]
    by (auto simp: project_execution_def execution_projected_def bindR_Inr_iff cash_journal.verify)
qed

subsection \<open>Properties\<close>

text \<open>C37: projecting an event's accounting twice changes nothing the second time; after the first
  every row its evidence calls for is in the journal with exactly the derived content, rows
  already there are kept as they were, and a projection that reports no change made none.\<close>

theorem accounting_projection_idempotent:
  assumes "project_accounting e cash trade db = (Inr n, db')"
  shows "project_accounting e cash trade db' = (Inr 0, db')
    \<and> (cash \<longrightarrow> (\<exists>c. cash_evidence db e = Inr c \<and> has_cash c (db_cash db')))
    \<and> (trade \<longrightarrow> (\<exists>ps. pnl_evidence db e = Inr ps \<and> (\<forall>p\<in>set ps. has_pnl p (db_pnl db'))))
    \<and> (\<forall>c. has_cash c (db_cash db) \<longrightarrow> has_cash c (db_cash db')) \<and> (\<forall>p. has_pnl p (db_pnl db) \<longrightarrow> has_pnl p (db_pnl db'))
    \<and> (n = 0 \<longrightarrow> db' = db)"
proof -
  have p: "project e cash trade True db = Inr (n, db')"
    using assms by (auto simp: project_accounting_def writeP_def split: sum.splits)
  note src = project_sources [OF p] and prj = project_projected [OF p] and g = project_grows [OF p]
  have hold: "check_integrity_hold (hold_status db') (Some (e_broker_order_id e)) = Inr ()"
  proof -
    have "check_integrity_hold (hold_status db) (Some (e_broker_order_id e)) = Inr ()"
      using p by (auto simp: project_def bindR_Inr_iff)
    moreover have "hold_status db' = hold_status db" using src by (simp add: hold_status_def fun_eq_iff)
    ultimately show ?thesis by simp
  qed
  have "project e cash trade True db' = Inr (0, db')" by (rule project_noop) (use prj hold in auto)
  then have again: "project_accounting e cash trade db' = (Inr 0, db')" by (simp add: project_accounting_def writeP_def)
  have c: "project_cash_part e True x = Inr (0, y) \<Longrightarrow> y = x" for x y
    using cash_journal.put_count cash_journal.put_again by (fastforce simp: project_cash_part_def bindR_Inr_iff)
  have t: "project_trade_part e True x = Inr (0, y) \<Longrightarrow> y = x" for x y
    by (auto simp: project_trade_part_def res_iffs dest!: pnl_journal.put_list_none)
  have "n = 0 \<longrightarrow> db' = db"
    using p c t by (auto simp: project_def bindR_Inr_iff split: if_splits)
  then show ?thesis
    using again prj g cash_evidence_cong [OF conjunct1 [OF src] same_facts_refl] pnl_evidence_cong [OF conjunct1 [OF src] same_facts_refl]
    by (auto simp: grows_def cash_projected_def trade_projected_def)
qed


text \<open>Books without accounting issues are whole: every settlement is completed with all its
  stages done and its cash and profit rows present as derived, every fill is settled, every
  quarantine execution has its cash entry, and a replay has nothing to repair.\<close>

theorem no_issues_means_replayed:
  assumes "accounting_issues db = Inr []"
  shows "(\<forall>r\<in>set (db_settlements db). e_status (r_payload r) = COMPLETED \<and> all_flags (r_payload r)
            \<and> cash_projected (r_payload r) db \<and> trade_projected (r_payload r) db)
    \<and> (\<forall>r\<in>set (db_fills db). \<exists>s\<in>set (db_settlements db). e_fill_id (r_payload s) = r_id r)
    \<and> replay_accounting (\<lambda>_. False) digest sources db = Inr (0, db)"
proof -
  note n = accounting_issues_Nil [OF assms]
  have "replayed db" using n(1,3) by (auto simp: replayed_def completed_events_def)
  moreover have "\<exists>s\<in>set (db_settlements db). e_fill_id (r_payload s) = r_id r" if "r \<in> set (db_fills db)" for r
    using n(2) that by (auto simp: unsettled_fills_def filter_empty_conv list_ex_iff)
  ultimately show ?thesis using n(1) replay_noop by blast
qed

subsection \<open>A bought position\<close>

definition demo_buy :: settlement_event where
  "demo_buy = (demo_event BUY 4)\<lparr>e_fees := 1, e_status := COMPLETED, e_flags := (\<lambda>_. True), e_realized_pnl := Some 0\<rparr>"

definition demo_fill :: fill where
  "demo_fill = \<lparr>f_id = ''f1'', f_trade_intent_id = ''t1'', f_order_id = ''b1'', f_asset = demo_asset EQUITY None ''X'', f_side = BUY,
     f_mode = PAPER, f_quantity = 4, f_price = 12, f_fees = 1, f_slippage = 0, f_filled_at = 100, f_broker_fill_id = Some ''x1'',
     f_reference_price = None, f_reference_bid = None, f_reference_ask = None, f_reference_observed_at = None, f_submitted_at = None,
     f_order_type = None, f_fee_currency = None, f_fee_source = ''broker''\<rparr>"

definition demo_intent :: trade_intent where
  "demo_intent = \<lparr>ti_id = ''t1'', ti_idempotency_key = ''k1'', ti_correlation_id = ''o1'', ti_asset = demo_asset EQUITY None ''X'', ti_side = BUY,
     ti_mode = PAPER, ti_strategy = ''s'', ti_created_at = 90, ti_requested_quantity = Some 4, ti_requested_notional = None,
     ti_reference_price = None, ti_confidence = None, ti_risk_snapshot = Map.empty, ti_status = TI_FILLED, ti_filled_quantity = 0,
     ti_filled_avg_price = None, ti_broker_order_id = Some ''b1'', ti_client_order_id = None, ti_reserved_cash = None, ti_consumed_cash = None,
     ti_realized_pnl = None, ti_rejection_reason = None, ti_sector = None, ti_stop_loss = Some 9, ti_target_price = None,
     ti_order_type = ''market'', ti_submitted_at = None\<rparr>"

definition demo_bought_lot :: position_lot where
  "demo_bought_lot = (demo_lot ''L1'' 4 100)\<lparr>l_originating_fill_id := ''f1'', l_acquisition_price := 12\<rparr>"

definition plain_row :: "string \<Rightarrow> string option \<Rightarrow> string option \<Rightarrow> 'p \<Rightarrow> 'p row" where
  "plain_row i st u p = \<lparr>r_id = i, r_status = st, r_unique = u, r_payload = p, r_created = 100\<rparr>"

definition demo_ledger :: ledger where
  "demo_ledger = \<lparr>db_lots = [plain_row ''L1'' None (Some ''f1'') demo_bought_lot], db_holdings = [],
     db_fills = [plain_row ''f1'' None (Some ''x1'') demo_fill], db_intents = [plain_row ''t1'' (Some ''filled'') (Some ''k1'') demo_intent],
     db_settlements = [plain_row ''s1'' (Some ''completed'') (Some ''f1'') demo_buy], db_cash = [], db_pnl = [], db_attributions = [],
     db_liabilities = [], db_holds = [], db_adoptions = [], db_executions = [], db_converted = [], db_opportunities = [],
     db_receipts = [], db_session = None, db_audit = [], db_locks = Map.empty, db_epochs = \<lparr>eb_epochs = [], eb_receipts = []\<rparr>, db_evidence = no_evidence, db_quarantine = no_quarantine\<rparr>"

lemma demo_text:
  "require_text (Some ''fill:cash:f1'') = Inr ''fill:cash:f1''" "require_text (Some ''USD'') = Inr ''USD''"
  "require_text (Some ''immutable fill cash; accounting-v1'') = Inr ''immutable fill cash; accounting-v1''"
  "require_text (Some ''fill:fee:f1'') = Inr ''fill:fee:f1''"
  by code_simp+

lemmas demo_book_defs = demo_buy_def demo_fill_def demo_bought_lot_def demo_event_def demo_lot_def plain_row_def demo_ledger_def demo_intent_def

lemma demo_source: "source_fill demo_ledger demo_buy = Inr demo_fill"
  by (simp add: source_fill_def fill_matches_def demo_book_defs)

lemma demo_fill_multiplier: "contract_multiplier_of (f_asset demo_fill) = Inr 1"
  by (simp add: demo_fill_def demo_asset_def contract_multiplier_of_def)

definition demo_cash :: cash_entry where
  "demo_cash = \<lparr>ce_id = ''fill:cash:f1'', ce_idempotency_key = ''fill:cash:f1'', ce_amount = - 49, ce_currency = ''USD'', ce_occurred_at = 100,
     ce_reason = ''immutable fill cash; accounting-v1''\<rparr>"

definition demo_fee :: pnl_record where
  "demo_fee = \<lparr>pr_id = ''fill:fee:f1'', pr_asset = demo_asset EQUITY None ''X'', pr_realized = - 1, pr_unrealized = 0, pr_as_of = 100\<rparr>"

lemma demo_cash_evidence: "cash_evidence demo_ledger demo_buy = Inr demo_cash"
  by (simp add: cash_evidence_def demo_source demo_fill_multiplier cash_post_init_def demo_cash_def fill_cash_id_def Let_def)
    (simp add: demo_fill_def demo_text dmul_def dneg_def dsub_def)

lemma demo_pnl_evidence: "pnl_evidence demo_ledger demo_buy = Inr [demo_fee]"
  unfolding pnl_evidence_def demo_source
  by (simp add: pnl_of_lot_def opening_lot_ok_def with_liability_def attributed_ids_def fee_records_def
      pnl_post_init_def lot_total_def dict_sum_def dsum_def dadd_def dneg_def demo_text demo_fee_def demo_book_defs ctx_minus)

lemma demo_ledger_sel:
  "db_cash demo_ledger = []" "db_pnl demo_ledger = []" "db_holds demo_ledger = []"
  "get_row (db_intents demo_ledger) ''t1'' = Some (plain_row ''t1'' (Some ''filled'') (Some ''k1'') demo_intent)"
  by (simp_all add: demo_ledger_def plain_row_def)

lemma demo_projected: "project_accounting demo_buy True True demo_ledger
    = (Inr 2, demo_ledger\<lparr>db_cash := [plain_row ''fill:cash:f1'' None (Some ''fill:cash:f1'') demo_cash],
                         db_pnl := [plain_row ''fill:fee:f1'' None None demo_fee]\<rparr>)"
proof -
  have s: "same_sources (demo_ledger\<lparr>db_cash := t\<rparr>) demo_ledger" for t by simp
  have "e_broker_order_id demo_buy = Some ''b1''" "e_trade_intent_id demo_buy = ''t1''" by (simp_all add: demo_buy_def demo_event_def)
  then show ?thesis
    by (simp add: project_accounting_def writeP_def project_def check_integrity_hold_def hold_status_def
        project_cash_part_def project_trade_part_def demo_cash_evidence pnl_evidence_cong [OF s same_facts_refl] demo_pnl_evidence
        persist_cash_def persist_pnl_def persist_def demo_ledger_sel)
      (simp add: demo_cash_def demo_fee_def plain_row_def)
qed

theorem accounting_projection_idempotent_witness:
  "\<exists>db'. project_accounting demo_buy True True demo_ledger = (Inr 2, db') \<and> project_accounting demo_buy True True db' = (Inr 0, db')
     \<and> has_cash demo_cash (db_cash db')"
  using demo_projected accounting_projection_idempotent [OF demo_projected] demo_cash_evidence by auto

text \<open>The same purchase through the replay of the books, and the inspection after it.\<close>

definition demo_books :: ledger where
  "demo_books = snd (project_accounting demo_buy True True demo_ledger)"

lemma demo_books_projected: "cash_projected demo_buy demo_books" "trade_projected demo_buy demo_books"
  using project_projected [of demo_buy True True True demo_ledger 2 demo_books] demo_projected
  by (auto simp: demo_books_def project_accounting_def writeP_def split: sum.splits)

lemma demo_books_parts: "db_settlements demo_books = [plain_row ''s1'' (Some ''completed'') (Some ''f1'') demo_buy]"
  "db_fills demo_books = [plain_row ''f1'' None (Some ''x1'') demo_fill]" "db_executions demo_books = []"
  unfolding demo_books_def demo_projected by (simp_all add: demo_ledger_def)

lemma demo_buy_done: "e_status demo_buy = COMPLETED" "all_flags demo_buy" "e_fill_id demo_buy = ''f1''"
  by (simp_all add: demo_buy_def all_flags_def SETTLEMENT_STAGES_def demo_event_def)

lemma demo_replayed: "replayed demo_books"
  using demo_books_projected by (simp add: replayed_def completed_events_def demo_books_parts plain_row_def)


theorem no_issues_means_replayed_witness:
  "replay_accounting (\<lambda>_. False) (\<lambda>_. ''d'') (\<lambda>_. ''s'') demo_books = Inr (0, demo_books)
    \<and> list_all (\<lambda>r. all_flags (r_payload r)) (db_settlements demo_books)"
proof -
  have "accounting_issues demo_books = Inr []"
    using demo_books_projected
    by (simp add: accounting_issues_def demo_books_parts plain_row_def report_def check_settlement_def demo_buy_done project_noop unsettled_fills_def)
  from no_issues_means_replayed [OF this] show ?thesis by (simp add: list_all_iff)
qed

end
