(* ===== verification/Settlement.thy ===== *)
theory Settlement
  imports Accounting
begin

text \<open>
  \<open>settlement/engine.py\<close>: the stage handlers, the checkpoint and the batch processor, as
  programs over the ledger. Reads of an asset's rows are the complete, ordered reads of
  the paginated queries (see \<open>Repository\<close>). Each write is one transaction with its guard.
  The texts of errors that only quote quantities are shortened; their prefixes, which the
  failure classification reads, are the source's.
\<close>

definition lots_of_asset :: "ledger \<Rightarrow> asset_identity \<Rightarrow> position_lot list" where
  "lots_of_asset db a = map r_payload (rows_where (\<lambda>r. asset_matches_sql (l_asset (r_payload r)) a) (db_lots db))"

text \<open>These are the rows \<open>list_all_by_asset\<close> returns, whatever the page size.\<close>

lemma lots_of_asset_paginated:
  assumes "distinct (map r_id (db_lots db))" "1 \<le> n" "n \<le> 1000"
  shows "list_all_by_payload (\<lambda>l. asset_matches_sql (l_asset l) a) (db_lots db) n
    = Some (Inr (rows_where (\<lambda>r. asset_matches_sql (l_asset (r_payload r)) a) (db_lots db)))"
  unfolding list_all_by_payload_def rows_where_def by (rule list_all_where_complete [OF assms])

definition live_lots :: "ledger \<Rightarrow> asset_identity \<Rightarrow> position_lot list" where
  "live_lots db a = filter (\<lambda>l. l_lot_id l \<notin> set (db_converted db)) (lots_of_asset db a)"

definition open_lots :: "ledger \<Rightarrow> asset_identity \<Rightarrow> position_lot list" where
  "open_lots db a = filter lot_is_open (live_lots db a)"

subsection \<open>The lot stage\<close>

definition lot_guard :: "settlement_event \<Rightarrow> guard" where
  "lot_guard ev = Some (e_broker_order_id ev)"

text \<open>The decision of the lot update, on the row as the transaction reads it.\<close>

definition close_lot :: "settlement_event \<Rightarrow> lot_closure \<Rightarrow> position_lot \<Rightarrow> position_lot option res" where
  "close_lot ev c cur =
     (let (mfe, mae) = fold_price_extremum (l_side cur) (l_mfe_price cur) (l_mae_price cur) (e_price ev)
      in bindR (lot_post_init (cur\<lparr>l_remaining_quantity := dsub (l_remaining_quantity cur) (c_quantity c),
                                   l_closures := AList.update (e_fill_id ev) (c_quantity c) (l_closures cur),
                                   l_realized_pnl := dadd (l_realized_pnl cur) (c_pnl c),
                                   l_mfe_price := Some mfe, l_mae_price := Some mae\<rparr>)) (\<lambda>l. Inr (Some l)))"

definition apply_closure :: "settlement_event \<Rightarrow> lot_closure \<Rightarrow> unit routine" where
  "apply_closure ev c =
     bindP (mutate_in ''position_lots'' db_lots db_lots_update (l_lot_id (c_lot c)) (lot_guard ev) (close_lot ev c)) (\<lambda>_. retP ())"

definition oversell_liability :: "settlement_event \<Rightarrow> string \<Rightarrow> dec \<Rightarrow> dec \<Rightarrow> short_exposure_liability" where
  "oversell_liability ev order qty m =
     \<lparr>sl_id = ''liability:'' @ e_fill_id ev, sl_fill_id = e_fill_id ev, sl_broker_order_id = order,
      sl_trade_intent_id = e_trade_intent_id ev, sl_asset = e_asset ev, sl_quantity = qty, sl_sale_price = e_price ev,
      sl_multiplier = m, sl_proceeds = dmul (dmul qty (e_price ev)) m, sl_opened_at = e_occurred_at ev\<rparr>"

definition open_liability :: "env \<Rightarrow> settlement_event \<Rightarrow> dec \<Rightarrow> unit routine" where
  "open_liability en ev qty =
     (case e_broker_order_id ev of
        None \<Rightarrow> raiseP (IntegrityViolation ''INTEGRITY_VIOLATION: oversell without a broker order ID'')
      | Some [] \<Rightarrow> raiseP (IntegrityViolation ''INTEGRITY_VIOLATION: oversell without a broker order ID'')
      | Some order \<Rightarrow>
          bindP (liftP (contract_multiplier_of (e_asset ev))) (\<lambda>m.
          bindP (liftP (liability_post_init (oversell_liability ev order qty m))) (\<lambda>s.
          bindP (create_in en ''short_exposure_liabilities'' db_liabilities db_liabilities_update (sl_id s) None (Some (e_fill_id ev)) None s) (\<lambda>_.
            retP ()))))"

definition order_or_fill :: "settlement_event \<Rightarrow> string" where
  "order_or_fill ev = (case e_broker_order_id ev of None \<Rightarrow> e_fill_id ev | Some b \<Rightarrow> if b = [] then e_fill_id ev else b)"

definition make_hold :: "string \<Rightarrow> string \<Rightarrow> hold_type \<Rightarrow> string \<Rightarrow> time \<Rightarrow> integrity_hold" where
  "make_hold order intent ty reason now =
     \<lparr>ih_broker_order_id = order, ih_trade_intent_id = intent, ih_type = ty, ih_reason = reason, ih_created_at = now,
      ih_attempt_count = 0, ih_next_retry_at = None\<rparr>"

definition create_hold :: "env \<Rightarrow> string option \<Rightarrow> integrity_hold \<Rightarrow> unit routine" where
  "create_hold en key h =
     bindP (liftP (hold_post_init h)) (\<lambda>h'.
     bindP (create_in en ''integrity_holds'' db_holds db_holds_update
       (case key of None \<Rightarrow> ih_broker_order_id h' | Some k \<Rightarrow> k) (Some (hold_type_value (ih_type h'))) None None h') (\<lambda>_. retP ()))"

definition refuse_mixed_origin :: "env \<Rightarrow> settlement_event \<Rightarrow> unit routine" where
  "refuse_mixed_origin en ev =
     (let reason = ''MIXED_LOT_ORIGIN: '' @ a_symbol (e_asset ev) @ '' fill '' @ e_fill_id ev;
          h = make_hold (order_or_fill ev) (e_trade_intent_id ev) MIXED_LOT_ORIGIN reason (e_occurred_at ev)
      in bindP (latch_block en reason (e_occurred_at ev)) (\<lambda>_.
         bindP (create_hold en None h) (\<lambda>_.
           raiseP (IntegrityViolation ''INTEGRITY_VIOLATION: MIXED_LOT_ORIGIN''))))"

definition opened_lot :: "settlement_event \<Rightarrow> string \<Rightarrow> position_side \<Rightarrow> dec \<Rightarrow> position_lot" where
  "opened_lot ev i sd qty =
     \<lparr>l_lot_id = i, l_originating_fill_id = e_fill_id ev, l_asset = e_asset ev, l_side = sd, l_opened_quantity = qty,
      l_remaining_quantity = qty, l_acquisition_price = e_price ev, l_opened_at = e_occurred_at ev, l_closures = [],
      l_realized_pnl = 0, l_mfe_price = Some (e_price ev), l_mae_price = Some (e_price ev), l_asset_fees = []\<rparr>"

definition open_lot :: "env \<Rightarrow> settlement_event \<Rightarrow> position_side \<Rightarrow> dec \<Rightarrow> unit routine" where
  "open_lot en ev sd qty =
     bindP (readP (en_fresh en)) (\<lambda>i.
     bindP (liftP (lot_post_init (opened_lot ev i sd qty))) (\<lambda>l.
     bindP (create_in en ''position_lots'' db_lots db_lots_update (l_lot_id l) None (Some (e_fill_id ev)) (lot_guard ev) l) (\<lambda>_.
       retP ())))"

definition open_remainder :: "env \<Rightarrow> settlement_event \<Rightarrow> position_lot list \<Rightarrow> lot_plan \<Rightarrow> unit routine" where
  "open_remainder en ev lots plan =
     (if 0 < p_opening plan \<and> p_direction plan = Short then open_liability en ev (p_opening plan)
      else if 0 < p_opening plan
      then if list_ex (\<lambda>l. lot_origin_of l = Adopted \<and> lot_status_of l \<noteq> LotClosed) lots then refuse_mixed_origin en ev
           else open_lot en ev (p_direction plan) (p_opening plan)
      else retP ())"

definition project_lot :: "env \<Rightarrow> settlement_event \<Rightarrow> patch routine" where
  "project_lot en ev =
     bindP (readP (\<lambda>db. live_lots db (e_asset ev))) (\<lambda>lots.
     bindP (liftP (plan_signed_lot_fill lots ev)) (\<lambda>plan.
     bindP (liftP (guardR (\<not> list_ex (\<lambda>c. l_side (c_lot c) = Short) (p_closures plan))
              (IntegrityViolation ''INTEGRITY_VIOLATION: UNSUPPORTED_SHORT_LOT''))) (\<lambda>_.
     bindP (forP (apply_closure ev) (p_closures plan)) (\<lambda>_.
     bindP (open_remainder en ev lots plan) (\<lambda>_.
       retP (\<lambda>e. e\<lparr>e_realized_pnl := Some (p_realized plan)\<rparr>))))))"

subsection \<open>The attribution stage\<close>

text \<open>
  \<open>int(value)\<close> of a recorded risk-snapshot value. The gateway records \<open>max_hold_days\<close> as
  \<open>str(int)\<close>, so an integral number is one written without point and exponent.
\<close>

definition parse_int_or_none :: "meta_value option \<Rightarrow> int option" where
  "parse_int_or_none v =
     (case v of
        Some (MNum d) \<Rightarrow> if of_int \<lfloor>d\<rfloor> = d then Some \<lfloor>d\<rfloor> else None
      | _ \<Rightarrow> None)"

definition infer_exit_reason ::
  "position_side \<Rightarrow> dec option \<Rightarrow> dec option \<Rightarrow> dec \<Rightarrow> int option \<Rightarrow> int option \<Rightarrow> exit_reason option" where
  "infer_exit_reason sd stop_loss target_price exit_price held_days max_hold_days =
     (let time_stop_eligible = (case max_hold_days of None \<Rightarrow> False | Some m \<Rightarrow> 0 < m \<and> held_days \<noteq> None);
          is_long = (sd = Long);
          stop_hit = (case stop_loss of None \<Rightarrow> False | Some s \<Rightarrow> if is_long then exit_price \<le> s else s \<le> exit_price);
          target_hit = (case target_price of None \<Rightarrow> False | Some t \<Rightarrow> if is_long then t \<le> exit_price else exit_price \<le> t);
          time_stop_hit = (case (max_hold_days, held_days) of (Some m, Some h) \<Rightarrow> 0 < m \<and> m \<le> h | _ \<Rightarrow> False)
      in if stop_loss = None \<and> target_price = None \<and> \<not> time_stop_eligible then None
         else if stop_hit then Some StopLoss
         else if target_hit then Some TargetPrice
         else if time_stop_hit then Some TimeStop
         else Some OtherExit)"

definition day_of :: "time \<Rightarrow> int" where
  "day_of t = t div 86400000000"

definition round_trip_pnl :: "settlement_event \<Rightarrow> position_lot \<Rightarrow> dec \<Rightarrow> dec \<Rightarrow> dec" where
  "round_trip_pnl ev l q m =
     (if l_side l = Long then dmul (dmul (dsub (e_price ev) (l_acquisition_price l)) q) m
      else dmul (dmul (dsub (l_acquisition_price l) (e_price ev)) q) m)"

definition attribution_of ::
  "settlement_event \<Rightarrow> position_lot \<Rightarrow> dec \<Rightarrow> dec \<Rightarrow> string \<Rightarrow> exit_reason option \<Rightarrow> entry_context \<Rightarrow> trade_attribution" where
  "attribution_of ev l q pnl opening_intent reason context =
     \<lparr>ta_id = l_lot_id l @ '':'' @ e_fill_id ev, ta_asset = e_asset ev, ta_lot_id = l_lot_id l, ta_opening_intent = opening_intent,
      ta_closing_intent = e_trade_intent_id ev, ta_closing_fill = e_fill_id ev, ta_quantity = q, ta_entry_price = l_acquisition_price l,
      ta_entry_at = l_opened_at l, ta_exit_price = e_price ev, ta_exit_at = e_occurred_at ev, ta_realized_pnl = pnl,
      ta_created_at = e_occurred_at ev, ta_exit_reason = reason, ta_mfe = l_mfe_price l, ta_mae = l_mae_price l, ta_context = context\<rparr>"

definition create_attribution :: "env \<Rightarrow> trade_attribution \<Rightarrow> unit routine" where
  "create_attribution en t =
     bindP (liftP (attribution_post_init t)) (\<lambda>a.
     bindP (create_in en ''trade_attributions'' db_attributions db_attributions_update (ta_id a) None None None a) (\<lambda>_. retP ()))"

definition intent_of_fill :: "ledger \<Rightarrow> string \<Rightarrow> trade_intent option" where
  "intent_of_fill db fill_id =
     (case get_row (db_fills db) fill_id of
        None \<Rightarrow> None
      | Some r \<Rightarrow> map_option r_payload (get_row (db_intents db) (f_trade_intent_id (r_payload r))))"

definition attribute_adopted :: "env \<Rightarrow> settlement_event \<Rightarrow> position_lot \<Rightarrow> dec \<Rightarrow> dec \<Rightarrow> unit routine" where
  "attribute_adopted en ev l q pnl =
     bindP (tryP (\<lambda>db. adoption_for_lot db l)) (\<lambda>a.
       create_attribution en (attribution_of ev l q pnl (l_originating_fill_id l)
         (infer_exit_reason (l_side l) (Some (ad_stop_loss a)) None (e_price ev) None None)
         (AdoptionContext (adoption_id l) (ad_classification a) (ad_basis_provenance a))))"

definition attribute_strategy :: "env \<Rightarrow> settlement_event \<Rightarrow> position_lot \<Rightarrow> dec \<Rightarrow> dec \<Rightarrow> unit routine" where
  "attribute_strategy en ev l q pnl =
     bindP (readP (\<lambda>db. intent_of_fill db (l_originating_fill_id l))) (\<lambda>opening.
       (case opening of
          None \<Rightarrow> retP ()
        | Some t \<Rightarrow>
            bindP (readP (\<lambda>db. map_option r_payload (get_row (db_opportunities db) (ti_correlation_id t)))) (\<lambda>opportunity.
              create_attribution en (attribution_of ev l q pnl (ti_id t)
                (infer_exit_reason (l_side l) (ti_stop_loss t) (ti_target_price t) (e_price ev)
                   (Some (day_of (e_occurred_at ev) - day_of (l_opened_at l)))
                   (parse_int_or_none (ti_risk_snapshot t ''max_hold_days'')))
                (IntentContext (ti_risk_snapshot t) opportunity)))))"

definition attribute_lot :: "env \<Rightarrow> settlement_event \<Rightarrow> dec \<Rightarrow> position_lot \<Rightarrow> unit routine" where
  "attribute_lot en ev m l =
     (case map_of (l_closures l) (e_fill_id ev) of
        None \<Rightarrow> retP ()
      | Some q \<Rightarrow> (let pnl = round_trip_pnl ev l q m
                   in if lot_origin_of l = Adopted then attribute_adopted en ev l q pnl else attribute_strategy en ev l q pnl))"

definition project_attribution :: "env \<Rightarrow> settlement_event \<Rightarrow> unit routine" where
  "project_attribution en ev =
     bindP (readP (\<lambda>db. filter (\<lambda>l. map_of (l_closures l) (e_fill_id ev) \<noteq> None) (lots_of_asset db (e_asset ev)))) (\<lambda>closed_lots.
       if closed_lots = [] then retP ()
       else bindP (liftP (contract_multiplier_of (e_asset ev))) (\<lambda>m. forP (attribute_lot en ev m) closed_lots))"

subsection \<open>The holding stage\<close>

definition entry_protective_levels :: "position_lot \<Rightarrow> (dec option \<times> dec option) routine" where
  "entry_protective_levels l =
     (if lot_origin_of l = Adopted
      then bindP (tryP (\<lambda>db. adoption_for_lot db l)) (\<lambda>a. retP (Some (ad_stop_loss a), None))
      else readP (\<lambda>db. case intent_of_fill db (l_originating_fill_id l) of
             None \<Rightarrow> (None, None) | Some t \<Rightarrow> (ti_stop_loss t, ti_target_price t)))"

definition signed_total :: "position_lot list \<Rightarrow> dec" where
  "signed_total ls = dsum (map signed_quantity ls)"

definition average_cost :: "position_lot list \<Rightarrow> dec res" where
  "average_cost ls =
     ddiv (dsum (map (\<lambda>l. dmul (l_remaining_quantity l) (l_acquisition_price l)) ls)) (dsum (map l_remaining_quantity ls))"

definition oldest_lot :: "position_lot list \<Rightarrow> position_lot" where
  "oldest_lot ls = min_by l_opened_at (hd ls) (tl ls)"

definition projected_holding :: "settlement_event \<Rightarrow> dec \<Rightarrow> dec \<Rightarrow> dec option \<times> dec option \<Rightarrow> holding res" where
  "projected_holding ev qty avg levels =
     holding_post_init \<lparr>h_asset = e_asset ev, h_quantity = qty, h_average_price = avg, h_updated_at = e_occurred_at ev,
       h_sector = e_sector ev, h_stop_loss = fst levels, h_target_price = snd levels, h_current_stop = None, h_scaled_out = False\<rparr>"

text \<open>The ratchet stop and the scale-out flag belong to the monitor: carried over from the row as it is.\<close>

definition carry_over :: "holding \<Rightarrow> holding \<Rightarrow> holding option res" where
  "carry_over h cur =
     bindR (holding_post_init (h\<lparr>h_current_stop := h_current_stop cur, h_scaled_out := h_scaled_out cur\<rparr>)) (\<lambda>h'. Inr (Some h'))"

definition store_holding :: "env \<Rightarrow> settlement_event \<Rightarrow> holding \<Rightarrow> unit routine" where
  "store_holding en ev h =
     (let i = asset_identity_key (e_asset ev)
      in bindP (readP (\<lambda>db. get_row (db_holdings db) i)) (\<lambda>existing.
         if existing \<noteq> None
         then bindP (mutate_in ''holdings'' db_holdings db_holdings_update i (lot_guard ev) (carry_over h)) (\<lambda>_. retP ())
         else bindP (create_in en ''holdings'' db_holdings db_holdings_update i None None (lot_guard ev) h) (\<lambda>_. retP ())))"

definition drop_holding :: "settlement_event \<Rightarrow> unit routine" where
  "drop_holding ev =
     (let i = asset_identity_key (e_asset ev)
      in bindP (readP (\<lambda>db. get_row (db_holdings db) i)) (\<lambda>existing.
         if existing \<noteq> None
         then bindP (delete_in ''holdings'' db_holdings db_holdings_update i (lot_guard ev)) (\<lambda>_. retP ())
         else retP ()))"

definition project_holding :: "env \<Rightarrow> settlement_event \<Rightarrow> unit routine" where
  "project_holding en ev =
     bindP (readP (\<lambda>db. open_lots db (e_asset ev))) (\<lambda>lots.
       if lots = [] then drop_holding ev
       else bindP (liftP (average_cost lots)) (\<lambda>avg.
            bindP (entry_protective_levels (oldest_lot lots)) (\<lambda>levels.
            bindP (liftP (projected_holding ev (signed_total lots) avg levels)) (\<lambda>h.
              store_holding en ev h))))"

subsection \<open>The trade stage\<close>

definition fills_of_intent :: "ledger \<Rightarrow> string \<Rightarrow> fill list" where
  "fills_of_intent db t = map r_payload (rows_where (\<lambda>r. f_trade_intent_id (r_payload r) = t) (db_fills db))"

definition settlements_of_intent :: "ledger \<Rightarrow> string \<Rightarrow> settlement_event list" where
  "settlements_of_intent db t = map r_payload (rows_where (\<lambda>r. e_trade_intent_id (r_payload r) = t) (db_settlements db))"

definition filled_intent :: "fill list \<Rightarrow> settlement_event list \<Rightarrow> trade_intent \<Rightarrow> trade_intent res" where
  "filled_intent fills events t =
     (let qty = dsum (map f_quantity fills);
          notional = dsum (map (\<lambda>f. dmul (f_quantity f) (f_price f)) fills);
          pnl = dsum (map (\<lambda>e. case e_realized_pnl e of None \<Rightarrow> 0 | Some p \<Rightarrow> p) events)
      in intent_post_init (t\<lparr>ti_filled_quantity := qty,
           ti_filled_avg_price := (if 0 < qty then Some (dquot notional qty) else None), ti_realized_pnl := Some pnl\<rparr>))"

definition update_intent :: "settlement_event \<Rightarrow> trade_intent \<Rightarrow> unit routine" where
  "update_intent ev t =
     writeP (\<lambda>db. bindR (update_row ''trade_intents'' (hold_status db) (lot_guard ev) Map.empty 0 None None (e_trade_intent_id ev) t
                          (Some (intent_status_value (ti_status t))) (db_intents db))
                    (\<lambda>(_, rows). Inr ((), db\<lparr>db_intents := rows\<rparr>)))"

definition project_trade :: "settlement_event \<Rightarrow> unit routine" where
  "project_trade ev =
     bindP (readP (\<lambda>db. get_row (db_intents db) (e_trade_intent_id ev))) (\<lambda>row.
       (case row of
          None \<Rightarrow> retP ()
        | Some r \<Rightarrow>
            bindP (readP (\<lambda>db. fills_of_intent db (e_trade_intent_id ev))) (\<lambda>fills.
            bindP (readP (\<lambda>db. settlements_of_intent db (e_trade_intent_id ev))) (\<lambda>events.
            bindP (liftP (filled_intent fills events (r_payload r))) (\<lambda>t. update_intent ev t)))))"

subsection \<open>The integrity stage\<close>

definition held_error :: "string \<Rightarrow> string \<Rightarrow> exc" where
  "held_error status order =
     IntegrityViolation (hold_message_prefix status @ '': order-level integrity hold ('' @ status @ '') active for '' @ order)"

definition order_hold :: "ledger \<Rightarrow> settlement_event \<Rightarrow> string option" where
  "order_hold db ev = (case e_broker_order_id ev of None \<Rightarrow> None | Some b \<Rightarrow> hold_status db b)"

definition holding_quantity :: "ledger \<Rightarrow> asset_identity \<Rightarrow> dec" where
  "holding_quantity db a = (case get_row (db_holdings db) (asset_identity_key a) of None \<Rightarrow> 0 | Some r \<Rightarrow> h_quantity (r_payload r))"

definition duplicate_settlements :: "ledger \<Rightarrow> settlement_event \<Rightarrow> settlement_event row list" where
  "duplicate_settlements db ev =
     (case e_broker_fill_id ev of
        None \<Rightarrow> []
      | Some b \<Rightarrow> if b = [] then []
          else filter (\<lambda>r. e_id (r_payload r) \<noteq> e_id ev \<and> r_status r = Some (settlement_status_value COMPLETED))
                 (rows_where (\<lambda>r. e_broker_fill_id (r_payload r) = Some b) (db_settlements db)))"

definition integrity_errors :: "ledger \<Rightarrow> settlement_event \<Rightarrow> bool \<Rightarrow> string list" where
  "integrity_errors db ev check_lots =
     (if check_lots \<and> signed_total (open_lots db (e_asset ev)) \<noteq> holding_quantity db (e_asset ev)
      then [''HOLDING_LOT_MISMATCH: '' @ a_symbol (e_asset ev)] else [])
     @ (if duplicate_settlements db ev \<noteq> [] then [''DUPLICATE_BROKER_FILL''] else [])"

definition verify_integrity :: "settlement_event \<Rightarrow> bool \<Rightarrow> unit routine" where
  "verify_integrity ev check_lots =
     tryP (\<lambda>db. case order_hold db ev of
        Some status \<Rightarrow> Inl (held_error status (case e_broker_order_id ev of None \<Rightarrow> [] | Some b \<Rightarrow> b))
      | None \<Rightarrow> guardR (integrity_errors db ev check_lots = [])
                 (IntegrityViolation (''INTEGRITY_VIOLATION: '' @ concat (integrity_errors db ev check_lots))))"

subsection \<open>The liability stage\<close>

definition oversell_alert :: "short_exposure_liability \<Rightarrow> time \<Rightarrow> audit_event" where
  "oversell_alert s now =
     \<lparr>ae_id = ''unsupported_short_position:'' @ sl_id s, ae_type = ''unsupported_short_position'', ae_severity = ''critical'',
      ae_message = ''UNSUPPORTED_SHORT_POSITION: '' @ a_symbol (sl_asset s) @ '' oversold (fill '' @ sl_fill_id s @ ''); quarantined as '' @ sl_id s,
      ae_at = now, ae_entity_type = ''short_exposure_liability'', ae_entity_id = sl_id s,
      ae_details = [(''liability_id'', Some (sl_id s)), (''fill_id'', Some (sl_fill_id s))]\<rparr>"

definition project_liability_hold :: "env \<Rightarrow> settlement_event \<Rightarrow> unit routine" where
  "project_liability_hold en ev =
     bindP (readP (\<lambda>db. find_by_unique (db_liabilities db) (e_fill_id ev))) (\<lambda>row.
       (case row of
          None \<Rightarrow> retP ()
        | Some r \<Rightarrow>
            (let s = r_payload r; reason = ''UNSUPPORTED_SHORT_POSITION: '' @ sl_id s
             in bindP (latch_block en reason (e_occurred_at ev)) (\<lambda>_.
                bindP (create_hold en (Some (sl_broker_order_id s))
                        (make_hold (sl_broker_order_id s) (sl_trade_intent_id s) SHORT_EXPOSURE reason (e_occurred_at ev))) (\<lambda>_.
                bindP (alert_once en (oversell_alert s (e_occurred_at ev))) (\<lambda>_. retP ()))))))"

subsection \<open>The processor\<close>

definition no_patch :: "unit routine \<Rightarrow> patch routine" where
  "no_patch m = bindP m (\<lambda>_. retP (\<lambda>e. e))"

fun handlers :: "env \<Rightarrow> stage \<Rightarrow> settlement_event \<Rightarrow> patch routine" where
  "handlers en LotStage ev = project_lot en ev"
| "handlers en AttributionStage ev = no_patch (project_attribution en ev)"
| "handlers en CashStage ev = no_patch (bindP (project_accounting ev True False) (\<lambda>_. retP ()))"
| "handlers en HoldingStage ev = no_patch (project_holding en ev)"
| "handlers en TradeStage ev = no_patch (bindP (project_accounting ev False True) (\<lambda>_. project_trade ev))"
| "handlers en IntegrityStage ev = no_patch (verify_integrity ev True)"
| "handlers en LiabilityHoldStage ev = no_patch (project_liability_hold en ev)"

text \<open>One transaction: the evidence of the flags set so far is read again, then the event is written.\<close>

definition checkpoint :: "settlement_event \<Rightarrow> unit routine" where
  "checkpoint ev =
     writeP (\<lambda>db.
       bindR (guardR (e_status ev = COMPLETED \<longrightarrow> all_flags ev) (ValueError ''ACCOUNTING_COMPLETED_PROJECTION_FLAGS_INCOMPLETE'')) (\<lambda>_.
       bindR (project ev (e_flags ev CashStage) (e_flags ev TradeStage) False db) (\<lambda>(_, db1).
         Inr ((), db1\<lparr>db_settlements := set_row (e_id ev) (\<lambda>r. r\<lparr>r_payload := ev, r_status := Some (settlement_status_value (e_status ev))\<rparr>)
                                          (db_settlements db1)\<rparr>))))"

text \<open>The processor passes no \<open>before_stage\<close> hook.\<close>

definition no_hook :: "stage \<Rightarrow> settlement_event \<Rightarrow> unit routine" where
  "no_hook st ev = retP ()"

lemma bind_no_hook [simp]: "bindP (no_hook st ev) f = f ()"
  by (simp add: no_hook_def)

definition run_event :: "env \<Rightarrow> settlement_event \<Rightarrow> settlement_event routine" where
  "run_event en ev = run_settlement_stages (handlers en) checkpoint no_hook ev"

definition claimed_event :: "time \<Rightarrow> settlement_event \<Rightarrow> settlement_event" where
  "claimed_event now ev = ev\<lparr>e_status := PROCESSING, e_processing_owner := Some ''settle'', e_processing_started_at := Some now\<rparr>"

definition decide_claim :: "time \<Rightarrow> nat \<Rightarrow> bool \<Rightarrow> settlement_event \<Rightarrow> settlement_event option res" where
  "decide_claim now stale force_retry ev =
     (if \<not> is_settlement_processable ev now stale force_retry then Inr None
      else bindR (event_post_init (claimed_event now ev)) (\<lambda>e. Inr (Some e)))"

definition claim :: "time \<Rightarrow> nat \<Rightarrow> bool \<Rightarrow> string \<Rightarrow> settlement_event option routine" where
  "claim now stale force_retry i =
     writeP (\<lambda>db. bindR (claim_if_processable ''settlements'' (\<lambda>e. settlement_status_value (e_status e)) i (decide_claim now stale force_retry)
                          (db_settlements db))
                    (\<lambda>(e, rows). Inr (e, db\<lparr>db_settlements := rows\<rparr>)))"

definition done_event :: "settlement_event \<Rightarrow> settlement_event" where
  "done_event ev = ev\<lparr>e_status := COMPLETED, e_processing_owner := None, e_processing_started_at := None, e_error := None, e_next_retry_at := None\<rparr>"

definition failed_event :: "settlement_event \<Rightarrow> classified_failure \<Rightarrow> settlement_event" where
  "failed_event ev f =
     ev\<lparr>e_status := cf_status f, e_attempt_count := cf_attempts f, e_error := Some (take 200 (cf_error f)),
        e_next_retry_at := cf_next_retry f, e_processing_owner := None, e_processing_started_at := None\<rparr>"

datatype outcome = Skipped | Completed | Failed settlement_status

text \<open>The \<open>try\<close> block of the batch: the precheck, the stages, the final checkpoint.\<close>

definition settle_claimed :: "env \<Rightarrow> settlement_event \<Rightarrow> unit routine" where
  "settle_claimed en ev =
     bindP (verify_integrity ev False) (\<lambda>_.
     bindP (run_event en ev) (\<lambda>final.
     bindP (liftP (event_post_init (done_event final))) (\<lambda>d. checkpoint d)))"

definition failure_reason :: "classified_failure \<Rightarrow> string" where
  "failure_reason f =
     (if cf_status f = INTEGRITY_BLOCKED then ''Settlement integrity blocked: '' @ cf_error f
      else ''Settlement permanently failed for a real broker fill: '' @ cf_error f)"

definition record_failure :: "env \<Rightarrow> settlement_event \<Rightarrow> classified_failure \<Rightarrow> outcome routine" where
  "record_failure en ev f =
     bindP (liftP (event_post_init (failed_event ev f))) (\<lambda>e.
     bindP (checkpoint e) (\<lambda>_.
       if cf_status f \<in> {INTEGRITY_BLOCKED, TERMINAL_FAILED}
       then bindP (readP (en_stamp en)) (\<lambda>now. bindP (latch_block en (failure_reason f) now) (\<lambda>_. retP (Failed (cf_status f))))
       else retP (Failed (cf_status f))))"

definition process_one :: "env \<Rightarrow> time \<Rightarrow> nat \<Rightarrow> bool \<Rightarrow> settlement_event \<Rightarrow> outcome routine" where
  "process_one en now stale force_retry ev =
     bindP (claim now stale force_retry (e_id ev)) (\<lambda>claimed.
       (case claimed of
          None \<Rightarrow> retP Skipped
        | Some c \<Rightarrow> (\<lambda>db. case settle_claimed en c db of
              (Inr _, db1) \<Rightarrow> (Inr Completed, db1)
            | (Inl x, db1) \<Rightarrow> record_failure en c (classify_settlement_failure (e_attempt_count ev) x now) db1)))"

fun process_all :: "env \<Rightarrow> time \<Rightarrow> nat \<Rightarrow> bool \<Rightarrow> (settlement_event \<Rightarrow> bool) \<Rightarrow> settlement_event list \<Rightarrow> outcome list routine" where
  "process_all en now stale force_retry lease_lost [] = retP []"
| "process_all en now stale force_retry lease_lost (e # es) =
     bindP (if lease_lost e then retP Skipped else process_one en now stale force_retry e) (\<lambda>o1.
     bindP (process_all en now stale force_retry lease_lost es) (\<lambda>os. retP (o1 # os)))"

definition with_statuses :: "settlement_status list \<Rightarrow> ledger \<Rightarrow> settlement_event row list" where
  "with_statuses sts db = rows_where (\<lambda>r. list_ex (\<lambda>s. r_status r = Some (settlement_status_value s)) sts) (db_settlements db)"

definition due_events :: "time \<Rightarrow> nat \<Rightarrow> bool \<Rightarrow> nat \<Rightarrow> ledger \<Rightarrow> settlement_event list" where
  "due_events now stale force_retry limit db =
     take limit (sort_key e_occurred_at
       (filter (\<lambda>e. is_settlement_processable e now stale force_retry) (map r_payload (with_statuses [PENDING, RETRYABLE_FAILED, PROCESSING] db))))"

record batch_summary =
  bs_ok :: bool
  bs_processed :: nat
  bs_completed :: nat
  bs_failed :: nat
  bs_pending :: nat
  bs_retryable :: nat
  bs_blocked :: nat
  bs_terminal :: nat

definition summarise :: "nat \<Rightarrow> outcome list \<Rightarrow> ledger \<Rightarrow> batch_summary" where
  "summarise processed os db =
     (let unresolved = with_statuses [PENDING, PROCESSING, RETRYABLE_FAILED, INTEGRITY_BLOCKED, TERMINAL_FAILED] db
      in \<lparr>bs_ok = (unresolved = []), bs_processed = processed,
          bs_completed = length (filter (\<lambda>x. x = Completed) os),
          bs_failed = length (filter (\<lambda>x. x \<noteq> Completed \<and> x \<noteq> Skipped) os),
          bs_pending = length (filter (\<lambda>r. r_status r \<in> {Some (settlement_status_value PENDING), Some (settlement_status_value PROCESSING)}) unresolved),
          bs_retryable = length (filter (\<lambda>x. x = Failed RETRYABLE_FAILED) os),
          bs_blocked = length (filter (\<lambda>x. x = Failed INTEGRITY_BLOCKED) os),
          bs_terminal = length (filter (\<lambda>x. x = Failed TERMINAL_FAILED) os)\<rparr>)"

definition process_pending :: "env \<Rightarrow> time \<Rightarrow> nat \<Rightarrow> bool \<Rightarrow> nat \<Rightarrow> (settlement_event \<Rightarrow> bool) \<Rightarrow> batch_summary routine" where
  "process_pending en now stale force_retry limit lease_lost =
     bindP (readP (due_events now stale force_retry limit)) (\<lambda>due.
     bindP (process_all en now stale force_retry lease_lost due) (\<lambda>os.
       readP (summarise (length due) os)))"

subsection \<open>What the handlers leave alone\<close>

text \<open>No handler writes a settlement, a fill, an adoption, an execution, a conversion or a receipt.\<close>

definition untouched :: "ledger \<Rightarrow> settlement_event tbl \<times> fill tbl \<times> adoption tbl \<times> quarantine_execution tbl \<times> string list \<times> string list" where
  "untouched db = (db_settlements db, db_fills db, db_adoptions db, db_executions db, db_converted db, db_receipts db)"

lemma untouched_upd [simp]:
  "untouched (db_lots_update a db) = untouched db" "untouched (db_holdings_update b db) = untouched db"
  "untouched (db_intents_update c db) = untouched db" "untouched (db_cash_update d db) = untouched db"
  "untouched (db_pnl_update e db) = untouched db" "untouched (db_attributions_update f db) = untouched db"
  "untouched (db_liabilities_update g db) = untouched db" "untouched (db_holds_update h db) = untouched db"
  "untouched (db_session_update i db) = untouched db" "untouched (db_audit_update j db) = untouched db"
  by (simp_all add: untouched_def)

abbreviation same_rest :: "settlement_event tbl \<times> fill tbl \<times> adoption tbl \<times> quarantine_execution tbl \<times> string list \<times> string list \<Rightarrow> ledger \<Rightarrow> bool" where
  "same_rest u \<equiv> \<lambda>db. untouched db = u"

lemma keeps_if: "(b \<Longrightarrow> keeps P m) \<Longrightarrow> (\<not> b \<Longrightarrow> keeps P n) \<Longrightarrow> keeps P (if b then m else n)"
  by simp

lemma keeps_case_option: "keeps P m \<Longrightarrow> (\<And>v. keeps P (f v)) \<Longrightarrow> keeps P (case x of None \<Rightarrow> m | Some v \<Rightarrow> f v)"
  by (cases x) auto

lemma keeps_create_hold: "keeps (same_rest u) (create_hold en key h)"
  unfolding create_hold_def by (intro keeps_bindP keeps_basic keeps_create_in) simp

lemma keeps_latch: "keeps (same_rest u) (latch_block en reason now)"
  by (rule keeps_latch_block) simp

lemmas keeps_steps = keeps_bindP keeps_basic keeps_tryP keeps_if keeps_case_option keeps_forP keeps_latch keeps_create_hold

lemma keeps_open_remainder: "keeps (same_rest u) (open_remainder en ev lots plan)"
proof -
  have "keeps (same_rest u) (open_liability en ev q)" for q
    unfolding open_liability_def
    by (auto split: option.splits list.splits intro!: keeps_steps keeps_create_in)
  moreover have "keeps (same_rest u) (open_lot en ev sd q)" for sd q
    unfolding open_lot_def by (intro keeps_steps keeps_create_in) simp
  moreover have "keeps (same_rest u) (refuse_mixed_origin en ev)"
    unfolding refuse_mixed_origin_def Let_def by (intro keeps_steps)
  ultimately show ?thesis unfolding open_remainder_def by (intro keeps_steps)
qed

lemma keeps_project_lot: "keeps (same_rest u) (project_lot en ev)"
proof -
  have "keeps (same_rest u) (apply_closure ev c)" for c
    unfolding apply_closure_def by (intro keeps_steps keeps_mutate_in) simp
  then show ?thesis unfolding project_lot_def by (intro keeps_steps keeps_open_remainder)
qed

lemma keeps_project_attribution: "keeps (same_rest u) (project_attribution en ev)"
proof -
  have c: "keeps (same_rest u) (create_attribution en t)" for t
    unfolding create_attribution_def by (intro keeps_steps keeps_create_in) simp
  have "keeps (same_rest u) (attribute_lot en ev m l)" for m l
    unfolding attribute_lot_def attribute_adopted_def attribute_strategy_def Let_def by (intro keeps_steps c)
  then show ?thesis unfolding project_attribution_def by (intro keeps_steps)
qed

lemma keeps_project_accounting: "keeps (same_rest u) (project_accounting ev cash trade)"
  unfolding project_accounting_def
  by (rule keeps_writeP)
    (auto simp: project_def project_cash_part_def project_trade_part_def bindR_Inr_iff split: if_splits)

lemma keeps_project_holding: "keeps (same_rest u) (project_holding en ev)"
  unfolding project_holding_def store_holding_def drop_holding_def entry_protective_levels_def Let_def
  by (intro keeps_steps keeps_mutate_in keeps_create_in keeps_delete_in; simp)

lemma keeps_project_trade: "keeps (same_rest u) (project_trade ev)"
proof -
  have "keeps (same_rest u) (update_intent ev t)" for t
    unfolding update_intent_def by (rule keeps_writeP) (auto simp: bindR_Inr_iff)
  then show ?thesis unfolding project_trade_def by (intro keeps_steps)
qed

lemma keeps_liability_hold: "keeps (same_rest u) (project_liability_hold en ev)"
  unfolding project_liability_hold_def Let_def by (intro keeps_steps keeps_alert_once) simp

lemma keeps_handlers: "keeps (same_rest u) (handlers en st ev)"
  by (cases st)
    (auto simp: no_patch_def verify_integrity_def intro!: keeps_project_lot keeps_project_attribution keeps_project_accounting
      keeps_project_holding keeps_project_trade keeps_liability_hold keeps_steps)

subsection \<open>The handlers meet the runner's contract\<close>

lemma no_patch_result: "no_patch m s = (Inr p, s') \<Longrightarrow> p = (\<lambda>e. e)"
  by (auto simp: no_patch_def bindP_Inr_iff)

lemma project_lot_patch: "project_lot en ev s = (Inr p, s') \<Longrightarrow> \<exists>q. p = (\<lambda>e. e\<lparr>e_realized_pnl := Some q\<rparr>)"
  by (auto simp: project_lot_def bindP_Inr_iff)

lemma handler_patch:
  "handlers en st ev s = (Inr p, s') \<Longrightarrow> p = (\<lambda>e. e) \<or> (\<exists>q. p = (\<lambda>e. e\<lparr>e_realized_pnl := Some q\<rparr>))"
  by (cases st) (auto dest: no_patch_result project_lot_patch)

interpretation engine: staged_run "handlers en" checkpoint no_hook for en
  by unfold_locales (auto dest!: handler_patch)

text \<open>What a checkpoint that returns has verified and written.\<close>

lemma checkpoint_iff:
  "checkpoint ev db = (Inr u, db') \<longleftrightarrow>
     (e_status ev = COMPLETED \<longrightarrow> all_flags ev) \<and> (e_flags ev CashStage \<longrightarrow> cash_projected ev db)
     \<and> (e_flags ev TradeStage \<longrightarrow> trade_projected ev db)
     \<and> db' = db\<lparr>db_settlements := set_row (e_id ev) (\<lambda>r. r\<lparr>r_payload := ev, r_status := Some (settlement_status_value (e_status ev))\<rparr>)
                                   (db_settlements db)\<rparr>"
  by (auto simp: checkpoint_def writeP_Inr_iff res_iffs verify_iff)

lemma projected_settlements [simp]:
  "cash_projected ev (db\<lparr>db_settlements := t\<rparr>) = cash_projected ev db"
  "trade_projected ev (db\<lparr>db_settlements := t\<rparr>) = trade_projected ev db"
proof -
  have "same_sources (db\<lparr>db_settlements := t\<rparr>) db" by simp
  then show "cash_projected ev (db\<lparr>db_settlements := t\<rparr>) = cash_projected ev db"
    "trade_projected ev (db\<lparr>db_settlements := t\<rparr>) = trade_projected ev db"
    by (auto simp: cash_projected_def trade_projected_def cash_evidence_cong [OF \<open>same_sources _ _\<close> same_facts_refl]
        pnl_evidence_cong [OF \<open>same_sources _ _\<close> same_facts_refl])
qed

text \<open>The identifiers of the settlements survive every run.\<close>

definition settlement_ids :: "ledger \<Rightarrow> string list" where
  "settlement_ids db = map r_id (db_settlements db)"

lemma settlement_ids_set_row [simp]:
  "settlement_ids (db\<lparr>db_settlements := set_row i (\<lambda>r. r\<lparr>r_payload := p, r_status := s\<rparr>) (db_settlements db)\<rparr>) = settlement_ids db"
  by (simp add: settlement_ids_def map_id_set_row)

lemma checkpoint_Inl: "checkpoint ev db = (Inl x, db') \<Longrightarrow> db' = db"
  unfolding checkpoint_def by (rule writeP_Inl)

lemma keeps_ids_checkpoint: "keeps (\<lambda>db. settlement_ids db = is) (checkpoint ev)"
proof (rule keepsI)
  fix db
  assume i: "settlement_ids db = is"
  obtain r db' where c: "checkpoint ev db = (r, db')" by fastforce
  have "settlement_ids db' = is"
  proof (cases r)
    case (Inl x)
    then show ?thesis using c i checkpoint_Inl by auto
  next
    case (Inr x)
    then show ?thesis using c i by (auto simp: checkpoint_iff)
  qed
  then show "settlement_ids (snd (checkpoint ev db)) = is" using c by simp
qed

lemma keeps_ids_handlers: "keeps (\<lambda>db. settlement_ids db = is) (handlers en st ev)"
proof (rule keepsI)
  fix db
  assume "settlement_ids db = is"
  then show "settlement_ids (snd (handlers en st ev db)) = is"
    using keepsD [OF keeps_handlers, of db "untouched db"] by (simp add: settlement_ids_def untouched_def)
qed

lemma keeps_ids_run: "keeps (\<lambda>db. settlement_ids db = is) (run_event en ev)"
proof -
  have "keeps (\<lambda>db. settlement_ids db = is) (run_stages (handlers en) checkpoint no_hook sts ev)" for sts
    by (induction sts arbitrary: ev) (auto simp: Let_def no_hook_def intro!: keeps_steps keeps_ids_handlers keeps_ids_checkpoint)
  then show ?thesis by (simp add: run_event_def run_settlement_stages_def)
qed

subsection \<open>Claims\<close>

text \<open>Settlements are keyed by their event's identifier and hold events their constructor accepts as they are.\<close>

definition settlements_wf :: "ledger \<Rightarrow> bool" where
  "settlements_wf db \<longleftrightarrow> (\<forall>r\<in>set (db_settlements db). e_id (r_payload r) = r_id r \<and> event_post_init (r_payload r) = Inr (r_payload r))"

definition event_valid :: "settlement_event \<Rightarrow> bool" where
  "event_valid e \<longleftrightarrow> require_text (Some (e_id e)) = Inr (e_id e) \<and> require_text (Some (e_fill_id e)) = Inr (e_fill_id e)
     \<and> require_text (Some (e_trade_intent_id e)) = Inr (e_trade_intent_id e) \<and> 0 < e_quantity e \<and> 0 < e_price e \<and> 0 \<le> e_fees e"

lemma event_eq_iff: "(e\<lparr>e_id := i, e_fill_id := fi, e_trade_intent_id := ti, e_quantity := q, e_price := p, e_fees := fs\<rparr> = e)
    \<longleftrightarrow> i = e_id e \<and> fi = e_fill_id e \<and> ti = e_trade_intent_id e \<and> q = e_quantity e \<and> p = e_price e \<and> fs = e_fees e"
  by (cases e) auto

lemma event_post_init_self: "event_post_init e = Inr e \<longleftrightarrow> event_valid e \<and> (e_status e = COMPLETED \<longrightarrow> e_flags e IntegrityStage)"
  by (auto simp: event_post_init_def event_valid_def res_iffs decimal_value_Inr_iff event_eq_iff)

lemma event_post_init_valid:
  "event_valid e \<Longrightarrow> event_post_init e = (if e_status e = COMPLETED \<and> \<not> e_flags e IntegrityStage
      then Inl (ValueError ''completed settlement must be integrity_verified'') else Inr e)"
  using event_post_init_self [of e] by (auto simp: event_post_init_def event_valid_def decimal_value_def)

lemma event_valid_upd [simp]:
  "event_valid (claimed_event now e) = event_valid e" "event_valid (done_event e) = event_valid e"
  "event_valid (failed_event e f) = event_valid e" "event_valid (set_flag st e) = event_valid e"
  "event_valid (e\<lparr>e_realized_pnl := q\<rparr>) = event_valid e"
  by (simp_all add: event_valid_def claimed_event_def done_event_def failed_event_def set_flag_def)

lemma claim_Some:
  assumes "claim now stale force_retry i db = (Inr (Some c), db')" and "settlements_wf db"
  obtains r where "get_row (db_settlements db) i = Some r" "is_settlement_processable (r_payload r) now stale force_retry"
    "c = claimed_event now (r_payload r)" "event_valid (r_payload r)" "e_id c = i"
    "db' = db\<lparr>db_settlements := set_row i (\<lambda>r. r\<lparr>r_payload := c, r_status := Some (settlement_status_value PROCESSING)\<rparr>) (db_settlements db)\<rparr>"
proof -
  from assms(1) obtain r where r: "get_row (db_settlements db) i = Some r"
    and p: "is_settlement_processable (r_payload r) now stale force_retry" and c: "event_post_init (claimed_event now (r_payload r)) = Inr c"
    and db': "db' = db\<lparr>db_settlements := set_row i (\<lambda>r. r\<lparr>r_payload := c, r_status := Some (settlement_status_value (e_status c))\<rparr>) (db_settlements db)\<rparr>"
    by (auto simp: claim_def writeP_Inr_iff claim_if_processable_def decide_claim_def res_iffs split: option.splits if_splits)
  have v: "event_valid (r_payload r)" "e_id (r_payload r) = i"
    using assms(2) get_row_Some_in [OF r] by (auto simp: settlements_wf_def event_post_init_self)
  have "e_status (claimed_event now (r_payload r)) = PROCESSING" by (simp add: claimed_event_def)
  then have "c = claimed_event now (r_payload r)" using c v by (simp add: event_post_init_valid)
  then show thesis using that [OF r p _ v(1)] v(2) db' by (simp add: claimed_event_def)
qed

lemma handlers_valid:
  assumes "handlers en st ev s = (Inr p, s')"
  shows "event_valid (p e) = event_valid e" and "e_broker_order_id (p e) = e_broker_order_id e" and "e_fill_id (p e) = e_fill_id e"
  using handler_patch [OF assms] by (auto simp: event_valid_def)

text \<open>A finished run has every flag, is the claimed event otherwise, and its last checkpoint saw the evidence.\<close>

lemma run_stages_keeps_event:
  "run_stages (handlers en) checkpoint no_hook sts ev db = (Inr fin, db') \<Longrightarrow>
     event_valid fin = event_valid ev \<and> e_fill_id fin = e_fill_id ev"
proof (induction sts arbitrary: ev db)
  case (Cons st sts)
  show ?case
  proof (cases "e_flags ev st")
    case False
    with Cons.prems obtain p s1 s2 where h: "handlers en st ev db = (Inr p, s1)"
      and r: "run_stages (handlers en) checkpoint no_hook sts (p (set_flag st ev)) s2 = (Inr fin, db')"
      by (auto simp: bindP_Inr_iff Let_def)
    have "e_fill_id (p (set_flag st ev)) = e_fill_id ev" using handlers_valid(3) [OF h] by (simp add: set_flag_def)
    then show ?thesis using Cons.IH [OF r] handlers_valid(1) [OF h, of "set_flag st ev"] by simp
  qed (use Cons in simp)
qed simp

lemma run_event_result:
  assumes "run_event en ev db = (Inr fin, db')"
  shows "all_flags fin \<and> e_id fin = e_id ev \<and> event_valid fin = event_valid ev \<and> e_fill_id fin = e_fill_id ev"
proof -
  have r: "run_stages (handlers en) checkpoint no_hook SETTLEMENT_STAGES ev db = (Inr fin, db')"
    using assms by (simp add: run_event_def run_settlement_stages_def)
  from engine.run_flags [OF r] have "all_flags fin" by (auto simp: all_flags_def list_all_iff)
  moreover have "e_id fin = e_id ev" using engine.run_keeps_id [OF r] by simp
  ultimately show ?thesis using run_stages_keeps_event [OF r] by simp
qed

text \<open>The row a settlement leaves when its claimed event is settled, and when it fails.\<close>

definition settlement_row :: "ledger \<Rightarrow> string \<Rightarrow> settlement_event \<Rightarrow> bool" where
  "settlement_row db i e \<longleftrightarrow> (\<exists>r. get_row (db_settlements db) i = Some r \<and> r_payload r = e \<and> r_status r = Some (settlement_status_value (e_status e)))"

lemma get_row_id_iff: "(\<exists>r. get_row rows i = Some r) \<longleftrightarrow> i \<in> r_id ` set rows"
  using get_row_None_iff [of rows i] by auto

lemma checkpoint_row:
  assumes "checkpoint e db = (Inr u, db')" and "e_id e \<in> set (settlement_ids db)"
  shows "settlement_row db' (e_id e) e"
proof -
  obtain r where "get_row (db_settlements db) (e_id e) = Some r"
    using assms(2) get_row_id_iff [of "db_settlements db" "e_id e"] by (auto simp: settlement_ids_def)
  then show ?thesis using assms(1) by (auto simp: settlement_row_def checkpoint_iff get_set_row)
qed

lemma settle_claimed_ids: "keeps (\<lambda>db. settlement_ids db = is) (settle_claimed en ev)"
  unfolding settle_claimed_def verify_integrity_def by (intro keeps_steps keeps_ids_run keeps_ids_checkpoint)

lemma all_flags_iff: "all_flags e \<longleftrightarrow> (\<forall>st. e_flags e st)"
proof -
  have "st \<in> set SETTLEMENT_STAGES" for st by (cases st) (simp_all add: SETTLEMENT_STAGES_def)
  then show ?thesis by (auto simp: all_flags_def list_all_iff)
qed

lemma settle_claimed_done:
  assumes "settle_claimed en c db = (Inr u, db')" and "event_valid c" and "e_id c \<in> set (settlement_ids db)"
  shows "\<exists>e. settlement_row db' (e_id c) e \<and> e_status e = COMPLETED \<and> all_flags e \<and> e_fill_id e = e_fill_id c
     \<and> cash_projected e db' \<and> trade_projected e db'"
proof -
  from assms(1) obtain fin db1 d where r: "run_event en c db = (Inr fin, db1)"
    and d: "event_post_init (done_event fin) = Inr d" and k: "checkpoint d db1 = (Inr u, db')"
    by (auto simp: settle_claimed_def verify_integrity_def bindP_Inr_iff)
  note fin = run_event_result [OF r]
  have e: "d = done_event fin" using d fin assms(2) by (auto simp: event_post_init_valid split: if_splits)
  have id: "e_id d = e_id c" "e_fill_id d = e_fill_id c" "all_flags d" "e_status d = COMPLETED"
    using fin by (auto simp: e done_event_def all_flags_def)
  have "settlement_ids db1 = settlement_ids db" using keepsD [OF keeps_ids_run, of db "settlement_ids db" en c] r by simp
  then have row: "settlement_row db' (e_id c) d" using checkpoint_row [OF k] assms(3) id by simp
  have "cash_projected d db' \<and> trade_projected d db'"
    using k id by (auto simp: checkpoint_iff all_flags_iff)
  with row id show ?thesis by blast
qed

lemma record_failure_result:
  assumes "record_failure en c f db = (Inr x, db')" and "event_valid c" and "e_id c \<in> set (settlement_ids db)"
    and "cf_status f \<noteq> COMPLETED"
  shows "x = Failed (cf_status f) \<and> settlement_row db' (e_id c) (failed_event c f)
     \<and> (cf_status f \<in> {INTEGRITY_BLOCKED, TERMINAL_FAILED} \<longrightarrow> blocked db')"
proof -
  have status: "e_status (failed_event c f) = cf_status f" by (simp add: failed_event_def)
  have p: "event_post_init (failed_event c f) = Inr (failed_event c f)"
    using assms(2,4) event_post_init_valid [of "failed_event c f"] status by simp
  from assms(1) obtain db1 where k: "checkpoint (failed_event c f) db = (Inr (), db1)"
    and rest: "(if cf_status f \<in> {INTEGRITY_BLOCKED, TERMINAL_FAILED}
         then bindP (readP (en_stamp en)) (\<lambda>now. bindP (latch_block en (failure_reason f) now) (\<lambda>_. retP (Failed (cf_status f))))
         else retP (Failed (cf_status f))) db1 = (Inr x, db')"
    by (auto simp: record_failure_def p bindP_Inr_iff)
  have id: "e_id (failed_event c f) = e_id c" by (simp add: failed_event_def)
  have row: "settlement_row db1 (e_id c) (failed_event c f)"
    using checkpoint_row [OF k] assms(3) by (simp only: id)
  show ?thesis
  proof (cases "cf_status f \<in> {INTEGRITY_BLOCKED, TERMINAL_FAILED}")
    case True
    with rest obtain now where l: "latch_block en (failure_reason f) now db1 = (Inr (), db')" and x: "x = Failed (cf_status f)"
      by (auto simp: bindP_Inr_iff)
    have "untouched db' = untouched db1" using keepsD [OF keeps_latch, of db1 "untouched db1"] l by (metis snd_conv)
    then have "db_settlements db' = db_settlements db1" by (simp add: untouched_def)
    then have "settlement_row db' (e_id c) (failed_event c f)" using row by (simp add: settlement_row_def)
    then show ?thesis using x latch_block_blocks [OF l] by blast
  next
    case False
    then show ?thesis using rest row by auto
  qed
qed

text \<open>One event of a batch: what happened to it once it was claimed.\<close>

lemma process_one_cases:
  assumes "process_one en now stale force_retry ev db = (Inr x, db')" and "settlements_wf db"
  obtains (skipped) "x = Skipped" "db' = db"
  | (settled) c db1 where "claim now stale force_retry (e_id ev) db = (Inr (Some c), db1)" "settle_claimed en c db1 = (Inr (), db')"
      "x = Completed" "event_valid c" "e_id c = e_id ev" "e_id ev \<in> set (settlement_ids db1)"
  | (failed) c db1 err db2 where "claim now stale force_retry (e_id ev) db = (Inr (Some c), db1)" "settle_claimed en c db1 = (Inl err, db2)"
      "record_failure en c (classify_settlement_failure (e_attempt_count ev) err now) db2 = (Inr x, db')"
      "event_valid c" "e_id c = e_id ev" "e_id ev \<in> set (settlement_ids db2)"
proof -
  from assms(1) obtain cl db1 where k: "claim now stale force_retry (e_id ev) db = (Inr cl, db1)"
    and r: "(case cl of None \<Rightarrow> retP Skipped
        | Some c \<Rightarrow> (\<lambda>db. case settle_claimed en c db of
              (Inr _, db1) \<Rightarrow> (Inr Completed, db1)
            | (Inl x, db1) \<Rightarrow> record_failure en c (classify_settlement_failure (e_attempt_count ev) x now) db1)) db1 = (Inr x, db')"
    by (auto simp: process_one_def bindP_Inr_iff)
  show thesis
  proof (cases cl)
    case None
    then have "db1 = db" using k
      by (auto simp: claim_def writeP_Inr_iff claim_if_processable_def res_iffs split: option.splits)
    with None r show thesis by (intro skipped) auto
  next
    case (Some c)
    note k = k [unfolded Some]
    from claim_Some [OF k assms(2)] obtain row where row: "get_row (db_settlements db) (e_id ev) = Some row"
      and c: "c = claimed_event now (r_payload row)" "event_valid (r_payload row)" "e_id c = e_id ev"
      and db1: "db1 = db\<lparr>db_settlements := set_row (e_id ev) (\<lambda>r. r\<lparr>r_payload := c, r_status := Some (settlement_status_value PROCESSING)\<rparr>) (db_settlements db)\<rparr>"
      by metis
    have v: "event_valid c" using c(1,2) by simp
    have "e_id ev \<in> set (settlement_ids db)"
      using row get_row_id_iff [of "db_settlements db" "e_id ev"] by (auto simp: settlement_ids_def)
    then have ids: "e_id ev \<in> set (settlement_ids db1)" unfolding db1 by simp
    obtain o1 db2 where s: "settle_claimed en c db1 = (o1, db2)" by fastforce
    have ids2: "settlement_ids db2 = settlement_ids db1" using keepsD [OF settle_claimed_ids, of db1 "settlement_ids db1" en c] s by simp
    show thesis
    proof (cases o1)
      case (Inl err)
      then show thesis using failed [OF k, of err db2] r s Some v c(3) ids ids2 by simp
    next
      case (Inr u)
      then show thesis using settled [OF k] r s Some v c(3) ids by simp
    qed
  qed
qed

subsection \<open>The precheck of a held order\<close>

definition books_of :: "ledger \<Rightarrow> position_lot tbl \<times> holding tbl \<times> cash_entry tbl \<times> pnl_record tbl" where
  "books_of db = (db_lots db, db_holdings db, db_cash db, db_pnl db)"

lemma held_precheck:
  assumes "e_broker_order_id c = Some b" and "hold_status db b = Some status"
  shows "settle_claimed en c db = (Inl (held_error status b), db)"
  using assms by (simp add: settle_claimed_def verify_integrity_def order_hold_def bindP_def)

lemma keeps_books_checkpoint: "keeps (\<lambda>db. books_of db = u) (checkpoint ev)"
  unfolding checkpoint_def by (rule keeps_writeP) (auto simp: res_iffs verify_iff books_of_def)

lemma keeps_record_failure: "keeps (\<lambda>db. books_of db = u) (record_failure en c f)"
  unfolding record_failure_def
  by (intro keeps_bindP keeps_basic keeps_if keeps_books_checkpoint keeps_latch_block) (simp add: books_of_def)

subsection \<open>The holding stage follows the lots\<close>

text \<open>The holdings after the stage: one row replaced, created or removed, the monitor's fields kept.\<close>

lemma store_holding_result:
  assumes "store_holding en ev h db = (Inr (), db')" and "h_current_stop h = None" "\<not> h_scaled_out h"
  shows "\<exists>r. get_row (db_holdings db') (asset_identity_key (e_asset ev)) = Some r \<and> h_quantity (r_payload r) = h_quantity h
     \<and> (\<forall>q. get_row (db_holdings db) (asset_identity_key (e_asset ev)) = Some q \<longrightarrow>
            h_current_stop (r_payload r) = h_current_stop (r_payload q) \<and> h_scaled_out (r_payload r) = h_scaled_out (r_payload q))
     \<and> (\<forall>k. k \<noteq> asset_identity_key (e_asset ev) \<longrightarrow> get_row (db_holdings db') k = get_row (db_holdings db) k)
     \<and> (\<exists>t. db' = db\<lparr>db_holdings := t\<rparr>)"
proof (cases "get_row (db_holdings db) (asset_identity_key (e_asset ev))")
  case None
  then have "insert_or_ignore (new_row en db (asset_identity_key (e_asset ev)) None None h) (db_holdings db)
      = (True, db_holdings db @ [new_row en db (asset_identity_key (e_asset ev)) None None h])"
    by (simp add: insert_or_ignore_def new_row_def)
  then show ?thesis
    using assms None
    by (auto simp: store_holding_def Let_def bindP_Inr_iff create_in_def writeP_Inr_iff create_once_def res_iffs new_row_def
        split: option.splits)
next
  case (Some q)
  then obtain p rows where m: "mutate ''holdings'' (hold_status db) (lot_guard ev) (asset_identity_key (e_asset ev)) (carry_over h) (db_holdings db) = Inr (p, rows)"
    and db': "db' = db\<lparr>db_holdings := rows\<rparr>"
    using assms(1) by (auto simp: store_holding_def Let_def bindP_Inr_iff mutate_in_def writeP_Inr_iff bindR_Inr_iff)
  from m Some obtain h' where h': "carry_over h (r_payload q) = Inr (Some h')"
    and rows: "rows = set_row (asset_identity_key (e_asset ev)) (\<lambda>r. r\<lparr>r_payload := h'\<rparr>) (db_holdings db)"
    by (auto simp: mutate_def res_iffs carry_over_def split: option.splits)
  have "h' = h\<lparr>h_current_stop := h_current_stop (r_payload q), h_scaled_out := h_scaled_out (r_payload q)\<rparr>"
    using h' by (auto simp: carry_over_def bindR_Inr_iff holding_post_init_Inr_iff)
  then show ?thesis using Some by (auto simp: db' rows get_set_row)
qed

lemma drop_holding_result:
  assumes "drop_holding ev db = (Inr (), db')" and "distinct (map r_id (db_holdings db))"
  shows "get_row (db_holdings db') (asset_identity_key (e_asset ev)) = None
     \<and> (\<forall>k. k \<noteq> asset_identity_key (e_asset ev) \<longrightarrow> get_row (db_holdings db') k = get_row (db_holdings db) k)
     \<and> (\<exists>t. db' = db\<lparr>db_holdings := t\<rparr>)"
proof (cases "get_row (db_holdings db) (asset_identity_key (e_asset ev))")
  case None
  then show ?thesis using assms(1) by (auto simp: drop_holding_def Let_def intro!: exI [of _ "db_holdings db"])
next
  case (Some q)
  then have "db' = db\<lparr>db_holdings := remove_row (asset_identity_key (e_asset ev)) (db_holdings db)\<rparr>"
    using assms(1) by (auto simp: drop_holding_def Let_def bindP_Inr_iff delete_in_def writeP_Inr_iff delete_row_def res_iffs)
  then show ?thesis using assms(2) by (auto simp: get_remove_row)
qed

lemma open_lots_holdings [simp]: "open_lots (db\<lparr>db_holdings := t\<rparr>) a = open_lots db a"
  by (simp add: open_lots_def live_lots_def lots_of_asset_def)

lemma projected_holding_Inr:
  "projected_holding ev qty avg levels = Inr h \<Longrightarrow> h_quantity h = qty \<and> h_current_stop h = None \<and> \<not> h_scaled_out h"
  by (auto simp: projected_holding_def holding_post_init_Inr_iff)

lemma entry_levels_pure: "entry_protective_levels l db = (Inr v, db') \<Longrightarrow> db' = db"
  by (auto simp: entry_protective_levels_def bindP_Inr_iff split: if_splits)

lemma project_holding_cases:
  assumes "project_holding en ev db = (Inr (), db')"
  obtains (none) "open_lots db (e_asset ev) = []" "drop_holding ev db = (Inr (), db')"
  | (some) h where "open_lots db (e_asset ev) \<noteq> []" "store_holding en ev h db = (Inr (), db')"
      "h_quantity h = signed_total (open_lots db (e_asset ev))" "h_current_stop h = None" "\<not> h_scaled_out h"
proof (cases "open_lots db (e_asset ev) = []")
  case True
  then show thesis using assms none by (simp add: project_holding_def)
next
  case False
  from assms False obtain avg levels db1 h where "entry_protective_levels (oldest_lot (open_lots db (e_asset ev))) db = (Inr levels, db1)"
    and h: "projected_holding ev (signed_total (open_lots db (e_asset ev))) avg levels = Inr h" and s: "store_holding en ev h db1 = (Inr (), db')"
    by (auto simp: project_holding_def bindP_Inr_iff)
  then have "db1 = db" by (blast dest: entry_levels_pure)
  then show thesis using some [of h] False s projected_holding_Inr [OF h] by simp
qed

subsection \<open>Properties\<close>

text \<open>C28: an event is reported completed only when its row is durable with status completed, every
  stage flag set, and its cash entry and profit records in the journal as its evidence
  derives them: the final checkpoint reads them again, it does not trust the flags.\<close>

theorem completed_settlement_is_evidenced:
  assumes "process_one en now stale force_retry ev db = (Inr Completed, db')" and "settlements_wf db"
  shows "\<exists>e. settlement_row db' (e_id ev) e \<and> e_status e = COMPLETED \<and> all_flags e
     \<and> cash_projected e db' \<and> trade_projected e db'"
  using assms
proof (cases rule: process_one_cases)
  case (settled c db1)
  then show ?thesis using settle_claimed_done [of en c db1 "()" db'] by auto
next
  case (failed c db1 err db2)
  then show ?thesis
    using record_failure_result [of en c "classify_settlement_failure (e_attempt_count ev) err now" db2 Completed db']
      classify_status_cases [of "e_attempt_count ev" err now] by auto
qed simp


text \<open>A claimed event cannot be claimed again, by any caller and even with a forced retry, until
  its lease is older than the caller's limit.\<close>

theorem claim_exclusive:
  assumes "claim now stale force_retry i db = (Inr (Some c), db')" and "settlements_wf db"
    and "later - now \<le> seconds limit"
  shows "claim later limit force' i db' = (Inr None, db')"
proof -
  from claim_Some [OF assms(1,2)] obtain r where r: "get_row (db_settlements db) i = Some r"
    and c: "c = claimed_event now (r_payload r)"
    and db': "db' = db\<lparr>db_settlements := set_row i (\<lambda>r. r\<lparr>r_payload := c, r_status := Some (settlement_status_value PROCESSING)\<rparr>) (db_settlements db)\<rparr>"
    by metis
  have "\<not> is_settlement_processable c later limit force'"
    using assms(3) by (simp add: is_settlement_processable_def c claimed_event_def)
  then show ?thesis
    using r by (simp add: claim_def writeP_def claim_if_processable_def db' get_set_row decide_claim_def STATUS_TABLES_def)
qed

text \<open>while an order is held its events are not settled: a claimed event of the order fails its
  precheck, as an integrity block that also blocks the session when the fill quantity is
  disputed, as a retry otherwise, and none of its stages runs.\<close>

theorem held_order_never_settles:
  assumes "process_one en now stale force_retry ev db = (Inr x, db')" and "settlements_wf db"
    and "get_row (db_settlements db) (e_id ev) = Some r" and "e_broker_order_id (r_payload r) = Some b"
    and "hold_status db b = Some status"
  shows "x \<noteq> Completed \<and> db_lots db' = db_lots db \<and> db_holdings db' = db_holdings db \<and> db_cash db' = db_cash db
     \<and> db_pnl db' = db_pnl db
     \<and> (status = ''fill_quantity_disputed'' \<longrightarrow> x = Skipped \<or> x = Failed INTEGRITY_BLOCKED \<and> blocked db')"
proof -
  have pre: "settle_claimed en c db1 = (Inl (held_error status b), db1) \<and> books_of db1 = books_of db"
    if "claim now stale force_retry (e_id ev) db = (Inr (Some c), db1)" for c db1
  proof -
    from claim_Some [OF that assms(2)] assms(3) have c: "c = claimed_event now (r_payload r)"
      and db1: "\<exists>t. db1 = db\<lparr>db_settlements := t\<rparr>"
      by (metis option.inject)+
    have "e_broker_order_id c = Some b" using assms(4) by (simp add: c claimed_event_def)
    moreover have "hold_status db1 b = Some status" using assms(5) db1 by (auto simp: hold_status_def)
    ultimately show ?thesis using held_precheck db1 by (auto simp: books_of_def)
  qed
  from assms(1,2) show ?thesis
  proof (cases rule: process_one_cases)
    case skipped
    then show ?thesis by simp
  next
    case (settled c db1)
    then show ?thesis using pre by auto
  next
    case (failed c db1 err db2)
    then have e: "err = held_error status b" "db2 = db1" "books_of db1 = books_of db" using pre by auto
    let ?f = "classify_settlement_failure (e_attempt_count ev) err now"
    have "books_of db' = books_of db" using keepsD [OF keeps_record_failure, of db2 "books_of db"] failed(3) e by (metis snd_conv)
    moreover have *: "x = Failed (cf_status ?f) \<and> (cf_status ?f \<in> {INTEGRITY_BLOCKED, TERMINAL_FAILED} \<longrightarrow> blocked db')"
      using record_failure_result [OF failed(3)] failed(4-6) classify_status_cases [of "e_attempt_count ev" err now] by auto
    moreover have "status = ''fill_quantity_disputed'' \<Longrightarrow> cf_status ?f = INTEGRITY_BLOCKED"
      by (simp add: e(1) held_error_def hold_message_prefix_def classify_settlement_failure_def Let_def)
    ultimately show ?thesis by (auto simp: books_of_def)
  qed
qed

text \<open>C30: after the holding stage the asset's holding is the signed total of its open lots, and there
  is no holding row exactly when no lot is open; the lots, every other holding, and the
  ratchet stop and scale-out mark of this one are as they were, so the lot check of the
  integrity stage passes.\<close>

theorem holding_follows_lots:
  assumes "project_holding en ev db = (Inr (), db')" and "distinct (map r_id (db_holdings db))"
  shows "holding_quantity db' (e_asset ev) = signed_total (open_lots db' (e_asset ev))
     \<and> (get_row (db_holdings db') (asset_identity_key (e_asset ev)) = None \<longleftrightarrow> open_lots db' (e_asset ev) = [])
     \<and> db_lots db' = db_lots db
     \<and> (\<forall>k. k \<noteq> asset_identity_key (e_asset ev) \<longrightarrow> get_row (db_holdings db') k = get_row (db_holdings db) k)
     \<and> (\<forall>q r. get_row (db_holdings db) (asset_identity_key (e_asset ev)) = Some q
            \<and> get_row (db_holdings db') (asset_identity_key (e_asset ev)) = Some r \<longrightarrow>
            h_current_stop (r_payload r) = h_current_stop (r_payload q) \<and> h_scaled_out (r_payload r) = h_scaled_out (r_payload q))
     \<and> integrity_errors db' ev True = integrity_errors db' ev False"
  using assms(1)
proof (cases rule: project_holding_cases)
  case none
  note d = drop_holding_result [OF none(2) assms(2)]
  then have "open_lots db' (e_asset ev) = []" "holding_quantity db' (e_asset ev) = 0" "db_lots db' = db_lots db"
    using none(1) by (auto simp: holding_quantity_def)
  then show ?thesis using d by (simp add: signed_total_def dsum_def integrity_errors_def)
next
  case (some h)
  note s = store_holding_result [OF some(2,4,5)]
  then have "open_lots db' (e_asset ev) = open_lots db (e_asset ev)" "db_lots db' = db_lots db"
    "holding_quantity db' (e_asset ev) = signed_total (open_lots db (e_asset ev))"
    using some(3) by (auto simp: holding_quantity_def)
  then show ?thesis using s some(1) by (auto simp: integrity_errors_def)
qed

end
