(* ===== verification/Lot_Replay.thy ===== *)
theory Lot_Replay
  imports Settlement
begin

text \<open>
  The lot stage run again after it finished but before its checkpoint: the stored lots say
  what the fill already did, so nothing is done twice. The argument is on the multiset of an
  asset's live lots, one closure at a time.
\<close>

subsection \<open>What a fill already did, lot by lot\<close>

definition allocated_to :: "settlement_event \<Rightarrow> position_lot \<Rightarrow> dec" where
  "allocated_to ev l =
     (case map_of (l_closures l) (e_fill_id ev) of None \<Rightarrow> 0 | Some q \<Rightarrow> q)
     + (if l_originating_fill_id l = e_fill_id ev \<and> l_side l = opening_direction (e_side ev) then l_opened_quantity l else 0)"

lemma prior_quantity_sum: "prior_quantity ev ls = (\<Sum>l\<leftarrow>ls. allocated_to ev l)"
  by (induction ls) (simp_all add: prior_quantity_def fill_closures_def fill_openings_def allocated_to_def map_filter_simps split: option.split)

definition is_live :: "ledger \<Rightarrow> asset_identity \<Rightarrow> position_lot \<Rightarrow> bool" where
  "is_live db a l \<longleftrightarrow> asset_matches_sql (l_asset l) a \<and> l_lot_id l \<notin> set (db_converted db)"

definition live_payloads :: "ledger \<Rightarrow> asset_identity \<Rightarrow> position_lot list" where
  "live_payloads db a = filter (is_live db a) (map r_payload (db_lots db))"

lemma mset_live_lots: "mset (live_lots db a) = mset (live_payloads db a)"
proof -
  have "mset (lots_of_asset db a) = mset (filter (\<lambda>l. asset_matches_sql (l_asset l) a) (map r_payload (db_lots db)))"
    by (simp add: lots_of_asset_def rows_where_def filter_map comp_def)
  then have "mset (live_lots db a) = filter_mset (\<lambda>l. l_lot_id l \<notin> set (db_converted db))
      (mset (filter (\<lambda>l. asset_matches_sql (l_asset l) a) (map r_payload (db_lots db))))"
    by (simp add: live_lots_def)
  also have "\<dots> = mset (filter (\<lambda>l. asset_matches_sql (l_asset l) a \<and> l_lot_id l \<notin> set (db_converted db)) (map r_payload (db_lots db)))"
    by (simp only: mset_filter [symmetric] filter_filter conj_commute)
  also have "(\<lambda>l. asset_matches_sql (l_asset l) a \<and> l_lot_id l \<notin> set (db_converted db)) = is_live db a"
    by (simp add: is_live_def fun_eq_iff)
  finally have "mset (live_lots db a) = mset (filter (is_live db a) (map r_payload (db_lots db)))" .
  then show ?thesis by (simp only: live_payloads_def)
qed

lemma set_live_lots: "set (live_lots db a) = set (live_payloads db a)"
  using mset_live_lots by (metis set_mset_mset)

definition prior_of :: "settlement_event \<Rightarrow> ledger \<Rightarrow> dec" where
  "prior_of ev db = prior_quantity ev (live_lots db (e_asset ev))"

lemma prior_of_sum: "prior_of ev db = (\<Sum>l\<leftarrow>live_payloads db (e_asset ev). allocated_to ev l)"
proof -
  have "mset (map (allocated_to ev) (live_lots db (e_asset ev))) = mset (map (allocated_to ev) (live_payloads db (e_asset ev)))"
    by (simp add: mset_live_lots)
  then show ?thesis unfolding prior_of_def prior_quantity_sum by (metis sum_mset_sum_list)
qed

subsection \<open>One closure\<close>

text \<open>The lot table: keyed by lot, each lot accepted by its constructor as it is.\<close>

definition lots_wf :: "ledger \<Rightarrow> bool" where
  "lots_wf db \<longleftrightarrow> distinct (map r_id (db_lots db))
     \<and> (\<forall>r\<in>set (db_lots db). l_lot_id (r_payload r) = r_id r \<and> lot_post_init (r_payload r) = Inr (r_payload r))"

lemma lot_post_init_same:
  assumes "lot_post_init l = Inr l" and "lot_post_init x = Inr y"
    and "l_lot_id x = l_lot_id l" "l_originating_fill_id x = l_originating_fill_id l" "l_asset_fees x = l_asset_fees l"
  shows "y = x"
proof -
  from assms(1) have t: "require_text (Some (l_lot_id l)) = Inr (l_lot_id l)"
      "require_text (Some (l_originating_fill_id l)) = Inr (l_originating_fill_id l)" "check_fees [] (l_asset_fees l) = Inr (l_asset_fees l)"
    by (auto simp: lot_post_init_def res_iffs opt_positive_Inr_iff decimal_value_Inr_iff dest: arg_cong [of _ _ l_lot_id]
        arg_cong [of _ _ l_originating_fill_id] arg_cong [of _ _ l_asset_fees])
  then show ?thesis using assms(2-)
    by (auto simp: lot_post_init_def res_iffs opt_positive_Inr_iff decimal_value_Inr_iff)
qed

lemma close_lot_result:
  assumes "close_lot ev c l = Inr (Some l')" and "lot_post_init l = Inr l"
  shows "l_lot_id l' = l_lot_id l \<and> l_asset l' = l_asset l \<and> l_side l' = l_side l \<and> l_opened_quantity l' = l_opened_quantity l
     \<and> l_originating_fill_id l' = l_originating_fill_id l \<and> l_remaining_quantity l' = dsub (l_remaining_quantity l) (c_quantity c)
     \<and> l_closures l' = AList.update (e_fill_id ev) (c_quantity c) (l_closures l) \<and> lot_post_init l' = Inr l'"
proof -
  obtain mfe mae where f: "fold_price_extremum (l_side l) (l_mfe_price l) (l_mae_price l) (e_price ev) = (mfe, mae)" by fastforce
  let ?x = "l\<lparr>l_remaining_quantity := dsub (l_remaining_quantity l) (c_quantity c),
       l_closures := AList.update (e_fill_id ev) (c_quantity c) (l_closures l),
       l_realized_pnl := dadd (l_realized_pnl l) (c_pnl c), l_mfe_price := Some mfe, l_mae_price := Some mae\<rparr>"
  have x: "lot_post_init ?x = Inr l'" using assms(1) by (auto simp: close_lot_def f bindR_Inr_iff)
  have "l' = ?x" by (rule lot_post_init_same [OF assms(2) x]) simp_all
  then show ?thesis using x by simp
qed

lemma set_row_split:
  assumes "distinct (map r_id rows)" and "get_row rows i = Some r"
  shows "\<exists>pre post. rows = pre @ r # post \<and> set_row i f rows = pre @ f r # post"
  using assms
proof (induction rows)
  case (Cons x rows)
  show ?case
  proof (cases "r_id x = i")
    case True
    then show ?thesis using Cons.prems by (intro exI [of _ "[]"] exI [of _ rows]) auto
  next
    case False
    then obtain pre post where "rows = pre @ r # post" "set_row i f rows = pre @ f r # post" using Cons by auto
    then show ?thesis using False by (intro exI [of _ "x # pre"] exI [of _ post]) auto
  qed
qed simp

lemma apply_closure_step:
  assumes "apply_closure ev c db = (Inr u, db1)" and wf: "lots_wf db" and live: "c_lot c \<in> set (live_payloads db (e_asset ev))"
    and fresh: "map_of (l_closures (c_lot c)) (e_fill_id ev) = None"
  shows "\<exists>l' pre post. live_payloads db (e_asset ev) = pre @ c_lot c # post \<and> live_payloads db1 (e_asset ev) = pre @ l' # post
     \<and> l_lot_id l' = l_lot_id (c_lot c) \<and> l_side l' = l_side (c_lot c) \<and> l_opened_quantity l' = l_opened_quantity (c_lot c)
     \<and> l_remaining_quantity l' = dsub (l_remaining_quantity (c_lot c)) (c_quantity c)
     \<and> map_of (l_closures l') (e_fill_id ev) = Some (c_quantity c)
     \<and> allocated_to ev l' = allocated_to ev (c_lot c) + c_quantity c
     \<and> lots_wf db1 \<and> (\<exists>t. db1 = db\<lparr>db_lots := t\<rparr> \<and> map r_id t = map r_id (db_lots db) \<and> map r_unique t = map r_unique (db_lots db))"
proof -
  let ?l = "c_lot c"
  obtain r where r: "r \<in> set (db_lots db)" "r_payload r = ?l" using live by (auto simp: live_payloads_def)
  have id: "r_id r = l_lot_id ?l" and ok: "lot_post_init ?l = Inr ?l" using r wf by (auto simp: lots_wf_def)
  have d: "distinct (map r_id (db_lots db))" using wf by (simp add: lots_wf_def)
  have g: "get_row (db_lots db) (l_lot_id ?l) = Some r" using get_row_in [OF d r(1)] id by simp
  from assms(1) g obtain l' where l': "close_lot ev c ?l = Inr (Some l')"
    and db1: "db1 = db\<lparr>db_lots := set_row (l_lot_id ?l) (\<lambda>r. r\<lparr>r_payload := l'\<rparr>) (db_lots db)\<rparr>"
    using r(2) by (auto simp: apply_closure_def bindP_Inr_iff mutate_in_def writeP_Inr_iff mutate_def res_iffs close_lot_def
        split: option.splits prod.splits)
  note res = close_lot_result [OF l' ok]
  obtain pre post where split: "db_lots db = pre @ r # post"
    and new: "set_row (l_lot_id ?l) (\<lambda>r. r\<lparr>r_payload := l'\<rparr>) (db_lots db) = pre @ r\<lparr>r_payload := l'\<rparr> # post"
    using set_row_split [OF d g] by blast
  have same: "is_live db1 (e_asset ev) = is_live db (e_asset ev)" by (simp add: is_live_def fun_eq_iff db1)
  have lv: "is_live db (e_asset ev) ?l" "is_live db (e_asset ev) l'" using live res by (auto simp: live_payloads_def is_live_def)
  have "live_payloads db (e_asset ev) = filter (is_live db (e_asset ev)) (map r_payload pre) @ ?l # filter (is_live db (e_asset ev)) (map r_payload post)"
    using lv r(2) by (simp add: live_payloads_def split)
  moreover have "live_payloads db1 (e_asset ev) = filter (is_live db (e_asset ev)) (map r_payload pre) @ l' # filter (is_live db (e_asset ev)) (map r_payload post)"
    using lv by (simp add: live_payloads_def same) (simp add: db1 new)
  moreover have "map_of (l_closures l') (e_fill_id ev) = Some (c_quantity c)" using res by (simp add: update_conv')
  moreover have "allocated_to ev l' = allocated_to ev ?l + c_quantity c"
    using res fresh by (simp add: allocated_to_def update_conv')
  moreover have "lots_wf db1"
  proof -
    have t: "db_lots db1 = pre @ r\<lparr>r_payload := l'\<rparr> # post" unfolding db1 new by simp
    show ?thesis using wf res id unfolding lots_wf_def t by (simp add: split)
  qed
  moreover have "db1 = db\<lparr>db_lots := pre @ r\<lparr>r_payload := l'\<rparr> # post\<rparr>" unfolding db1 new by simp
  ultimately show ?thesis using res by (intro exI [of _ l'] exI conjI) (auto simp: split)
qed

subsection \<open>The closing loop\<close>

lemma lots_wf_live_distinct: "lots_wf db \<Longrightarrow> distinct (map l_lot_id (live_payloads db a))"
proof -
  assume wf: "lots_wf db"
  then have "map r_id (db_lots db) = map l_lot_id (map r_payload (db_lots db))" by (auto simp: lots_wf_def)
  then have "distinct (map l_lot_id (map r_payload (db_lots db)))" using wf by (metis lots_wf_def)
  then show ?thesis unfolding live_payloads_def by (rule distinct_map_filter)
qed

lemma close_all:
  assumes "forP (apply_closure ev) cs db = (Inr u, db1)" and "lots_wf db"
    and "\<forall>c\<in>set cs. c_lot c \<in> set (live_payloads db (e_asset ev)) \<and> map_of (l_closures (c_lot c)) (e_fill_id ev) = None"
    and "distinct (map (\<lambda>c. l_lot_id (c_lot c)) cs)"
  shows "lots_wf db1 \<and> prior_of ev db1 = prior_of ev db + (\<Sum>c\<leftarrow>cs. c_quantity c)
     \<and> (\<exists>t. db1 = db\<lparr>db_lots := t\<rparr> \<and> map r_id t = map r_id (db_lots db) \<and> map r_unique t = map r_unique (db_lots db))
     \<and> (\<forall>l\<in>set (live_payloads db1 (e_asset ev)). (l \<in> set (live_payloads db (e_asset ev)) \<and> l_lot_id l \<notin> (\<lambda>c. l_lot_id (c_lot c)) ` set cs)
          \<or> (\<exists>c\<in>set cs. l_lot_id l = l_lot_id (c_lot c) \<and> l_side l = l_side (c_lot c) \<and> l_opened_quantity l = l_opened_quantity (c_lot c)
                \<and> l_remaining_quantity l = dsub (l_remaining_quantity (c_lot c)) (c_quantity c)
                \<and> map_of (l_closures l) (e_fill_id ev) = Some (c_quantity c)))"
  using assms
proof (induction cs arbitrary: db)
  case Nil
  then show ?case by (auto intro: exI [of _ "db_lots db1"])
next
  case (Cons c cs)
  from Cons.prems(1) obtain v dbm where one: "apply_closure ev c db = (Inr v, dbm)" and rest: "forP (apply_closure ev) cs dbm = (Inr u, db1)"
    by (auto simp: bindP_Inr_iff)
  from apply_closure_step [OF one Cons.prems(2)] Cons.prems(3) obtain l' pre post t where
    a: "live_payloads db (e_asset ev) = pre @ c_lot c # post" and b: "live_payloads dbm (e_asset ev) = pre @ l' # post"
    and l': "l_lot_id l' = l_lot_id (c_lot c)" "l_side l' = l_side (c_lot c)" "l_opened_quantity l' = l_opened_quantity (c_lot c)"
      "l_remaining_quantity l' = dsub (l_remaining_quantity (c_lot c)) (c_quantity c)"
      "map_of (l_closures l') (e_fill_id ev) = Some (c_quantity c)" "allocated_to ev l' = allocated_to ev (c_lot c) + c_quantity c"
    and wfm: "lots_wf dbm" and t: "dbm = db\<lparr>db_lots := t\<rparr>" "map r_id t = map r_id (db_lots db)" "map r_unique t = map r_unique (db_lots db)"
    by (metis list.set_intros(1))
  have d: "distinct (map l_lot_id (pre @ c_lot c # post))" using lots_wf_live_distinct [OF Cons.prems(2)] a by metis
  have others: "c_lot x \<in> set (live_payloads dbm (e_asset ev))" if "x \<in> set cs" for x
  proof -
    have "c_lot x \<in> set (pre @ c_lot c # post)" using Cons.prems(3) that a by auto
    moreover have "l_lot_id (c_lot x) \<noteq> l_lot_id (c_lot c)" using Cons.prems(4) that by (auto simp: image_iff)
    ultimately show ?thesis using b by auto
  qed
  have IH: "lots_wf db1 \<and> prior_of ev db1 = prior_of ev dbm + (\<Sum>c\<leftarrow>cs. c_quantity c)
     \<and> (\<exists>t. db1 = dbm\<lparr>db_lots := t\<rparr> \<and> map r_id t = map r_id (db_lots dbm) \<and> map r_unique t = map r_unique (db_lots dbm))
     \<and> (\<forall>l\<in>set (live_payloads db1 (e_asset ev)). (l \<in> set (live_payloads dbm (e_asset ev)) \<and> l_lot_id l \<notin> (\<lambda>c. l_lot_id (c_lot c)) ` set cs)
          \<or> (\<exists>c\<in>set cs. l_lot_id l = l_lot_id (c_lot c) \<and> l_side l = l_side (c_lot c) \<and> l_opened_quantity l = l_opened_quantity (c_lot c)
                \<and> l_remaining_quantity l = dsub (l_remaining_quantity (c_lot c)) (c_quantity c)
                \<and> map_of (l_closures l) (e_fill_id ev) = Some (c_quantity c)))"
    using Cons.IH [OF rest wfm] others Cons.prems(3,4) by simp
  have sum: "prior_of ev dbm = prior_of ev db + c_quantity c"
    unfolding prior_of_sum a b by (simp add: l'(6))
  have kept: "l \<in> set (live_payloads db (e_asset ev)) \<and> l_lot_id l \<noteq> l_lot_id (c_lot c) \<or> l = l'" if "l \<in> set (live_payloads dbm (e_asset ev))" for l
    using that d unfolding a b by (force simp: image_iff)
  show ?case
  proof (intro conjI ballI)
    fix l assume l: "l \<in> set (live_payloads db1 (e_asset ev))"
    consider (old) "l \<in> set (live_payloads dbm (e_asset ev))" "l_lot_id l \<notin> (\<lambda>c. l_lot_id (c_lot c)) ` set cs"
      | (closed) "\<exists>x\<in>set cs. l_lot_id l = l_lot_id (c_lot x) \<and> l_side l = l_side (c_lot x) \<and> l_opened_quantity l = l_opened_quantity (c_lot x)
                \<and> l_remaining_quantity l = dsub (l_remaining_quantity (c_lot x)) (c_quantity x)
                \<and> map_of (l_closures l) (e_fill_id ev) = Some (c_quantity x)"
      using IH l by blast
    then show "(l \<in> set (live_payloads db (e_asset ev)) \<and> l_lot_id l \<notin> (\<lambda>c. l_lot_id (c_lot c)) ` set (c # cs))
          \<or> (\<exists>x\<in>set (c # cs). l_lot_id l = l_lot_id (c_lot x) \<and> l_side l = l_side (c_lot x) \<and> l_opened_quantity l = l_opened_quantity (c_lot x)
                \<and> l_remaining_quantity l = dsub (l_remaining_quantity (c_lot x)) (c_quantity x)
                \<and> map_of (l_closures l) (e_fill_id ev) = Some (c_quantity x))"
    proof cases
      case old
      then show ?thesis using kept [OF old(1)] l' by auto
    qed auto
  next
    show "lots_wf db1" using IH by blast
    show "prior_of ev db1 = prior_of ev db + (\<Sum>c\<leftarrow>c # cs. c_quantity c)" using IH sum by simp
    show "\<exists>t. db1 = db\<lparr>db_lots := t\<rparr> \<and> map r_id t = map r_id (db_lots db) \<and> map r_unique t = map r_unique (db_lots db)"
      using IH t by auto
  qed
qed

subsection \<open>Opening what is left\<close>

lemma insert_or_ignore_twice:
  assumes "r_id q = r_id r" "r_unique q = r_unique r"
  shows "insert_or_ignore q (snd (insert_or_ignore r rows)) = (False, snd (insert_or_ignore r rows))"
proof -
  have "find_by_unique (rows @ [r]) u \<noteq> None" if "r_unique r = Some u" for u
    using that by (auto simp: find_by_unique_None_iff)
  then show ?thesis using assms by (auto simp: insert_or_ignore_def split: option.splits)
qed

lemma create_in_result:
  assumes "create_in en table get upd i st u g p db = (Inr b, db')" and "\<And>t db. get (upd (\<lambda>_. t) db) = t"
  shows "db' = upd (\<lambda>_. snd (insert_or_ignore (new_row en db i st u p) (get db))) db"
    and "b = fst (insert_or_ignore (new_row en db i st u p) (get db))"
  using assms(1) by (auto simp: create_in_def writeP_Inr_iff create_once_def res_iffs split: prod.splits)

text \<open>An oversell recorded again is recorded once.\<close>

lemma open_liability_twice:
  assumes "open_liability en ev q db = (Inr u, db1)"
  shows "open_liability en' ev q db1 = (Inr (), db1) \<and> (\<exists>t. db1 = db\<lparr>db_liabilities := t\<rparr>)"
proof -
  from assms obtain order m s b where order: "e_broker_order_id ev = Some order" "order \<noteq> []"
    and m: "contract_multiplier_of (e_asset ev) = Inr m" and s: "liability_post_init (oversell_liability ev order q m) = Inr s"
    and c: "create_in en ''short_exposure_liabilities'' db_liabilities db_liabilities_update (sl_id s) None (Some (e_fill_id ev)) None s db = (Inr b, db1)"
    by (auto simp: open_liability_def bindP_Inr_iff split: option.splits list.splits)
  have db1: "db1 = db\<lparr>db_liabilities := snd (insert_or_ignore (new_row en db (sl_id s) None (Some (e_fill_id ev)) s) (db_liabilities db))\<rparr>"
    by (rule create_in_result(1) [OF c]) simp
  have ok: "sl_id s \<noteq> []" using s by (auto simp: liability_post_init_def res_iffs dest: require_text_nonempty)
  have "insert_or_ignore (new_row en' db1 (sl_id s) None (Some (e_fill_id ev)) s) (db_liabilities db1) = (False, db_liabilities db1)"
    unfolding db1 by (simp add: insert_or_ignore_twice new_row_def)
  then have "create_in en' ''short_exposure_liabilities'' db_liabilities db_liabilities_update (sl_id s) None (Some (e_fill_id ev)) None s db1 = (Inr False, db1)"
    using ok by (simp add: create_in_def writeP_def create_once_def STATUS_TABLES_def UNIQUE_FIELDS_def check_integrity_hold_def)
      (simp add: new_row_def)
  moreover obtain y ys where "order = y # ys" using order(2) by (cases order) auto
  ultimately have "open_liability en' ev q db1 = (Inr (), db1)"
    using order(1) m s by (simp add: open_liability_def bindP_def)
  then show ?thesis using db1 by blast
qed

definition fresh_ids :: "env \<Rightarrow> ledger \<Rightarrow> bool" where
  "fresh_ids en db \<longleftrightarrow> (\<forall>d. en_fresh en d \<notin> r_id ` set (db_lots db) \<and> en_fresh en d \<notin> set (db_converted db)
      \<and> require_text (Some (en_fresh en d)) = Inr (en_fresh en d))"

lemma open_lot_result:
  assumes "open_lot en ev sd q db = (Inr u, db1)" and "event_valid ev" and "fresh_ids en db" and "find_by_unique (db_lots db) (e_fill_id ev) = None"
  shows "\<exists>r. db1 = db\<lparr>db_lots := db_lots db @ [r]\<rparr> \<and> r_payload r = opened_lot ev (en_fresh en db) sd q"
proof -
  let ?i = "en_fresh en db"
  from assms(1) obtain l b where l: "lot_post_init (opened_lot ev ?i sd q) = Inr l"
    and c: "create_in en ''position_lots'' db_lots db_lots_update (l_lot_id l) None (Some (e_fill_id ev)) (lot_guard ev) l db = (Inr b, db1)"
    by (auto simp: open_lot_def bindP_Inr_iff)
  have i: "?i \<notin> r_id ` set (db_lots db)" "require_text (Some ?i) = Inr ?i" using assms(3) by (auto simp: fresh_ids_def)
  have f: "require_text (Some (e_fill_id ev)) = Inr (e_fill_id ev)" using assms(2) by (simp add: event_valid_def)
  have "l = opened_lot ev ?i sd q"
    using l i f by (auto simp: lot_post_init_def res_iffs opened_lot_def opt_positive_Inr_iff decimal_value_Inr_iff)
  then have lid: "l_lot_id l = ?i" by (simp add: opened_lot_def)
  let ?r = "new_row en db ?i None (Some (e_fill_id ev)) l"
  have "insert_or_ignore ?r (db_lots db) = (True, db_lots db @ [?r])"
    using i(1) assms(4) by (simp add: insert_or_ignore_def new_row_def get_row_None_iff)
  then have "db1 = db\<lparr>db_lots := db_lots db @ [?r]\<rparr>"
    using create_in_result(1) [OF c] lid by simp
  then show ?thesis using \<open>l = _\<close> by (intro exI [of _ ?r]) (simp add: new_row_def)
qed

subsection \<open>The second run\<close>

text \<open>Live lots on the grid that already carry the whole fill: the stage has nothing left to do.\<close>

lemma project_lot_done:
  assumes "contract_multiplier_of (e_asset ev) = Inr m" and "lots_on_grid k ev (live_lots db (e_asset ev))" "grid k (e_quantity ev)"
    and "prior_of ev db = e_quantity ev"
  shows "\<exists>p. project_lot en ev db = (Inr p, db)"
proof -
  have "plan_signed_lot_fill (live_lots db (e_asset ev)) ev =
     Inr \<lparr>p_direction = opening_direction (e_side ev), p_closures = [], p_opening = 0,
          p_realized = snd (already_closed ev m 0 0 (live_lots db (e_asset ev)))\<rparr>"
    by (rule plan_replay [OF assms(1-3)]) (use assms(4) in \<open>simp add: prior_of_def\<close>)
  then show ?thesis by (auto simp: project_lot_def open_remainder_def)
qed

text \<open>Live lots without an open one to close: the stage only records the oversell again.\<close>

lemma project_lot_oversold:
  assumes m: "contract_multiplier_of (e_asset ev) = Inr m" and g: "lots_on_grid k ev (live_lots db (e_asset ev))" "grid k (e_quantity ev)"
    and prior: "prior_of ev db = e_quantity ev - q" "0 < q" and sell: "e_side ev = SELL"
    and none: "\<forall>l\<in>set (live_lots db (e_asset ev)). l_side l = Long \<longrightarrow> \<not> lot_is_open l"
    and again: "open_liability en ev q db = (Inr (), db)"
  shows "\<exists>p. project_lot en ev db = (Inr p, db)"
proof -
  let ?lots = "live_lots db (e_asset ev)"
  have le: "prior_quantity ev ?lots \<le> e_quantity ev" using prior by (simp add: prior_of_def)
  from plan_overallocated_iff [OF m g(1,2) le] obtain p where p: "plan_signed_lot_fill ?lots ev = Inr p"
    using le by (cases "plan_signed_lot_fill ?lots ev") auto
  note ex = plan_exact [OF p g g(2) le]
  have "p_closures p = []"
  proof (rule ccontr)
    assume "p_closures p \<noteq> []"
    then obtain c where "c \<in> set (p_closures p)" by (cases "p_closures p") auto
    then have "c_lot c \<in> set ?lots" "lot_is_open (c_lot c)" "l_side (c_lot c) = closing_direction SELL" using ex(3) sell by auto
    then show False using none by (simp add: closing_direction_def opening_direction_def)
  qed
  moreover have "p_opening p = q" using ex(1) prior(1) calculation by (simp add: prior_of_def)
  moreover have "p_direction p = Short" using ex(8) sell by (simp add: opening_direction_def)
  ultimately show ?thesis using p prior(2) again by (auto simp: project_lot_def open_remainder_def)
qed

text \<open>A lot whose closing quantities stay on the grid.\<close>

lemma closed_lot_on_grid:
  assumes "grid k rem" "grid k q" "0 \<le> q" "q \<le> rem"
  shows "grid k (dsub rem q)"
  using assms by (simp add: dsub_grid grid_sub)

text \<open>After the closing loop the live lots are on the grid, and none is left to close if something remains to be opened.\<close>

lemma lots_after_closing:
  assumes plan: "plan_signed_lot_fill (live_lots db (e_asset ev)) ev = Inr p"
    and run: "forP (apply_closure ev) (p_closures p) db = (Inr u, db1)"
    and wf: "lots_wf db" and g: "lots_on_grid k ev (live_lots db (e_asset ev))" "grid k (e_quantity ev)"
    and le: "prior_of ev db \<le> e_quantity ev"
    and fresh: "\<forall>l\<in>set (live_lots db (e_asset ev)). lot_is_open l \<longrightarrow> map_of (l_closures l) (e_fill_id ev) = None"
  shows "prior_of ev db1 = e_quantity ev - p_opening p" and "lots_on_grid k ev (live_lots db1 (e_asset ev))" and "lots_wf db1"
    and "0 < p_opening p \<Longrightarrow> \<forall>l\<in>set (live_lots db1 (e_asset ev)). l_side l = closing_direction (e_side ev) \<longrightarrow> \<not> lot_is_open l"
    and "\<exists>t. db1 = db\<lparr>db_lots := t\<rparr> \<and> map r_id t = map r_id (db_lots db) \<and> map r_unique t = map r_unique (db_lots db)"
proof -
  let ?a = "e_asset ev"
  note ex = plan_exact [OF plan g g(2) le [unfolded prior_of_def]]
  have each: "c_lot c \<in> set (live_payloads db ?a) \<and> map_of (l_closures (c_lot c)) (e_fill_id ev) = None" if "c \<in> set (p_closures p)" for c
    using ex(3) that fresh set_live_lots [of db ?a] by auto
  have "distinct (map l_lot_id (live_lots db ?a))"
  proof -
    have "mset (map l_lot_id (live_lots db ?a)) = mset (map l_lot_id (live_payloads db ?a))" by (simp add: mset_live_lots)
    then show ?thesis using lots_wf_live_distinct [OF wf, of ?a] by (metis mset_eq_imp_distinct_iff)
  qed
  then have d: "distinct (map l_lot_id (opposite_lots ev (live_lots db ?a)))"
    by (auto simp: opposite_lots_def distinct_map inj_on_def)
  then have dist: "distinct (map (\<lambda>c. l_lot_id (c_lot c)) (p_closures p))"
  proof -
    obtain n where n: "map c_lot (p_closures p) = take n (opposite_lots ev (live_lots db ?a))" using ex(4) by blast
    have "map (\<lambda>c. l_lot_id (c_lot c)) (p_closures p) = map l_lot_id (map c_lot (p_closures p))" by simp
    also have "\<dots> = take n (map l_lot_id (opposite_lots ev (live_lots db ?a)))" unfolding n by (simp add: take_map)
    finally show ?thesis using d by simp
  qed
  have pre: "\<forall>c\<in>set (p_closures p). c_lot c \<in> set (live_payloads db ?a) \<and> map_of (l_closures (c_lot c)) (e_fill_id ev) = None"
    by (intro ballI each)
  note all = close_all [OF run wf pre dist]
  show "prior_of ev db1 = e_quantity ev - p_opening p"
    using conjunct1 [OF conjunct2 [OF all]] ex(1) by (simp add: prior_of_def)
  show "lots_wf db1" by (rule conjunct1 [OF all])
  show "\<exists>t. db1 = db\<lparr>db_lots := t\<rparr> \<and> map r_id t = map r_id (db_lots db) \<and> map r_unique t = map r_unique (db_lots db)"
    by (rule conjunct1 [OF conjunct2 [OF conjunct2 [OF all]]])
  note lots1 = bspec [OF conjunct2 [OF conjunct2 [OF conjunct2 [OF all]]]]
  show "lots_on_grid k ev (live_lots db1 ?a)"
    unfolding lots_on_grid_def
  proof
    fix l assume "l \<in> set (live_lots db1 ?a)"
    then have "l \<in> set (live_payloads db1 ?a)" by (simp add: set_live_lots)
    from lots1 [OF this] consider (old) "l \<in> set (live_lots db ?a)"
      | (closed) c where "c \<in> set (p_closures p)" "l_opened_quantity l = l_opened_quantity (c_lot c)"
          "l_remaining_quantity l = dsub (l_remaining_quantity (c_lot c)) (c_quantity c)" "map_of (l_closures l) (e_fill_id ev) = Some (c_quantity c)"
      unfolding set_live_lots by blast
    then show "grid k (l_remaining_quantity l) \<and> grid k (l_opened_quantity l) \<and> 0 \<le> l_opened_quantity l
        \<and> (\<forall>q. map_of (l_closures l) (e_fill_id ev) = Some q \<longrightarrow> grid k q \<and> 0 \<le> q)"
    proof cases
      case old
      then show ?thesis using g(1) by (simp add: lots_on_grid_def)
    next
      case closed
      have "c_lot c \<in> set (live_lots db ?a)" "0 < c_quantity c" "c_quantity c \<le> l_remaining_quantity (c_lot c)" "grid k (c_quantity c)"
        using ex(3,7) closed(1) by auto
      then show ?thesis using g(1) closed(2-4) closed_lot_on_grid [of k "l_remaining_quantity (c_lot c)" "c_quantity c"]
        by (auto simp: lots_on_grid_def)
    qed
  qed
  show "\<forall>l\<in>set (live_lots db1 ?a). l_side l = closing_direction (e_side ev) \<longrightarrow> \<not> lot_is_open l" if pos: "0 < p_opening p"
  proof (intro ballI impI)
    fix l assume l: "l \<in> set (live_lots db1 ?a)" "l_side l = closing_direction (e_side ev)"
    have full: "map c_lot (p_closures p) = opposite_lots ev (live_lots db ?a)" "\<forall>x\<in>set (p_closures p). c_quantity x = l_remaining_quantity (c_lot x)"
      using ex(6) pos by auto
    from lots1 [OF l(1) [unfolded set_live_lots]] consider (old) "l \<in> set (live_lots db ?a)" "l_lot_id l \<notin> (\<lambda>c. l_lot_id (c_lot c)) ` set (p_closures p)"
      | (closed) c where "c \<in> set (p_closures p)" "l_remaining_quantity l = dsub (l_remaining_quantity (c_lot c)) (c_quantity c)"
      unfolding set_live_lots by blast
    then show "\<not> lot_is_open l"
    proof cases
      case old
      show ?thesis
      proof
        assume "lot_is_open l"
        then have "l \<in> set (opposite_lots ev (live_lots db ?a))" using old(1) l(2) by (simp add: opposite_lots_def)
        then have "l \<in> c_lot ` set (p_closures p)" using full(1) by (metis set_map)
        then show False using old(2) by auto
      qed
    next
      case closed
      then show ?thesis using full(2) by (simp add: lot_is_open_iff dsub_def)
    qed
  qed
qed

subsection \<open>Properties\<close>

lemma asset_matches_self: "a_venue a \<noteq> Some [] \<Longrightarrow> asset_matches_sql a a"
  by (auto simp: asset_matches_sql_def venue_part_def split: option.splits)

text \<open>C22: the lot stage is safe to run again. Once it has returned, the lots carry the whole fill (or,
  for a sale beyond what was held, all but the oversold quantity recorded as a liability), and
  running it again returns and changes nothing, whatever identifiers and clocks it sees: a
  crash between the stage and its checkpoint closes and opens nothing twice.\<close>

theorem lot_stage_replay_safe:
  assumes "project_lot en ev db = (Inr p, db')" and "lots_wf db" and "event_valid ev" and "a_venue (e_asset ev) \<noteq> Some []"
    and "lots_on_grid k ev (live_lots db (e_asset ev))" and "grid k (e_quantity ev)"
    and "\<forall>l\<in>set (live_lots db (e_asset ev)). lot_is_open l \<longrightarrow> map_of (l_closures l) (e_fill_id ev) = None"
    and "find_by_unique (db_lots db) (e_fill_id ev) = None" and "fresh_ids en db" and "prior_of ev db \<le> e_quantity ev"
  shows "(\<exists>p'. project_lot en' ev db' = (Inr p', db'))
    \<and> (prior_of ev db' = e_quantity ev \<or> e_side ev = SELL \<and> prior_of ev db' < e_quantity ev)"
proof -
  let ?a = "e_asset ev"
  from assms(1) obtain plan db1 where plan: "plan_signed_lot_fill (live_lots db ?a) ev = Inr plan"
    and run: "forP (apply_closure ev) (p_closures plan) db = (Inr (), db1)"
    and op: "open_remainder en ev (live_lots db ?a) plan db1 = (Inr (), db')"
    by (auto simp: project_lot_def bindP_Inr_iff)
  obtain m where m: "contract_multiplier_of ?a = Inr m" using plan by (auto simp: plan_signed_lot_fill_def bindR_Inr_iff)
  note after = lots_after_closing [OF plan run assms(2,5,6,10,7)]
  note dir = plan_exact(8) [OF plan assms(5,6) assms(6) assms(10) [unfolded prior_of_def]]
  note grid_open = plan_exact(7) [OF plan assms(5,6) assms(6) assms(10) [unfolded prior_of_def]]
  consider (none) "p_opening plan \<le> 0" "db' = db1"
    | (short) "0 < p_opening plan" "p_direction plan = Short" "open_liability en ev (p_opening plan) db1 = (Inr (), db')"
    | (long) "0 < p_opening plan" "p_direction plan = Long" "open_lot en ev Long (p_opening plan) db1 = (Inr (), db')"
    using op by (cases "p_direction plan") (auto simp: open_remainder_def refuse_mixed_origin_def Let_def bindP_Inr_iff split: if_splits)
  then show ?thesis
  proof cases
    case none
    have "p_opening plan = 0" using none(1) plan_exact(2) [OF plan assms(5,6) assms(6) assms(10) [unfolded prior_of_def]] by simp
    then have "prior_of ev db' = e_quantity ev" using after(1) none(2) by simp
    then show ?thesis using project_lot_done [OF m after(2) [folded none(2)] assms(6)] none(2) by blast
  next
    case short
    note twice = open_liability_twice [OF short(3), of en']
    then have same: "live_lots db' ?a = live_lots db1 ?a" by (auto simp: live_lots_def lots_of_asset_def)
    have sell: "e_side ev = SELL" using dir short(2) by (cases "e_side ev") (auto simp: opening_direction_def)
    have prior: "prior_of ev db' = e_quantity ev - p_opening plan" using after(1) same by (simp add: prior_of_def)
    have "\<exists>p. project_lot en' ev db' = (Inr p, db')"
    proof (rule project_lot_oversold [OF m _ assms(6) prior short(1) sell])
      show "lots_on_grid k ev (live_lots db' ?a)" using after(2) same by simp
      show "\<forall>l\<in>set (live_lots db' ?a). l_side l = Long \<longrightarrow> \<not> lot_is_open l"
        using after(4) [OF short(1)] same sell by (simp add: closing_direction_def opening_direction_def)
      show "open_liability en' ev (p_opening plan) db' = (Inr (), db')" using twice by blast
    qed
    then show ?thesis using prior short(1) sell by simp
  next
    case long
    obtain t where t: "db1 = db\<lparr>db_lots := t\<rparr>" "map r_id t = map r_id (db_lots db)" "map r_unique t = map r_unique (db_lots db)"
      using after(5) by blast
    have ids: "r_id ` set t = r_id ` set (db_lots db)" "r_unique ` set t = r_unique ` set (db_lots db)" using t(2,3) by (metis list.set_map)+
    have f1: "fresh_ids en db1" using assms(9) ids by (simp add: fresh_ids_def t)
    have "Some (e_fill_id ev) \<notin> r_unique ` set t" using assms(8) ids(2) by (auto simp: find_by_unique_None_iff)
    then have f2: "find_by_unique (db_lots db1) (e_fill_id ev) = None" by (force simp: find_by_unique_None_iff t)
    obtain r where r: "db' = db1\<lparr>db_lots := db_lots db1 @ [r]\<rparr>" "r_payload r = opened_lot ev (en_fresh en db1) Long (p_opening plan)"
      using open_lot_result [OF long(3) assms(3) f1 f2] by blast
    have live: "is_live db' ?a (r_payload r)" using f1 asset_matches_self [OF assms(4)]
      by (simp add: is_live_def r opened_lot_def fresh_ids_def)
    have "is_live db' ?a = is_live db1 ?a" by (simp add: is_live_def r(1) fun_eq_iff)
    then have pay: "live_payloads db' ?a = live_payloads db1 ?a @ [r_payload r]"
      using live by (simp add: live_payloads_def) (simp add: r(1))
    have buy: "opening_direction (e_side ev) = Long" using dir long(2) by simp
    have "allocated_to ev (r_payload r) = p_opening plan" by (simp add: allocated_to_def r(2) opened_lot_def buy)
    then have prior: "prior_of ev db' = e_quantity ev" using after(1) by (simp add: prior_of_sum pay)
    have "lots_on_grid k ev (live_lots db' ?a)"
      using after(2) grid_open long(1) by (auto simp: lots_on_grid_def set_live_lots pay r(2) opened_lot_def)
    then show ?thesis using project_lot_done [OF m _ assms(6) prior] prior by blast
  qed
qed

end
