(* ===== verification/Settlement_Run.thy ===== *)
theory Settlement_Run
  imports Lot_Replay
begin

text \<open>
  A purchase settled from its pending event to the completed row, on concrete books: the
  witnesses of the settlement properties.
\<close>

definition demo_env :: env where
  "demo_env = \<lparr>en_fresh = (\<lambda>_. ''L1''), en_stamp = (\<lambda>_. 1000), en_alerts_configured = False, en_alert_lease = (\<lambda>_. True),
     en_alert_sent = (\<lambda>_. True)\<rparr>"

definition demo_pending :: settlement_event where
  "demo_pending = demo_buy\<lparr>e_status := PENDING, e_flags := (\<lambda>_. False), e_realized_pnl := None\<rparr>"

definition demo_start :: ledger where
  "demo_start = demo_ledger\<lparr>db_lots := [], db_settlements := [plain_row ''s1'' (Some ''pending'') (Some ''f1'') demo_pending]\<rparr>"

lemma run_text:
  "require_text (Some ''s1'') = Inr ''s1''" "require_text (Some ''f1'') = Inr ''f1''" "require_text (Some ''t1'') = Inr ''t1''"
  "require_text (Some ''L1'') = Inr ''L1''" "require_text (Some ''k1'') = Inr ''k1''" "require_text (Some ''o1'') = Inr ''o1''"
  "require_text (Some ''s'') = Inr ''s''" "require_text (Some ''market'') = Inr ''market''"
  "starts_with ADOPTED_LOT_PREFIX ''L1'' = False" "starts_with ADOPTION_FILL_PREFIX ''f1'' = False"
  "asset_identity_key (demo_asset EQUITY None ''X'') = ''equity:default:alpaca:X''"
  "asset_matches_sql (demo_asset EQUITY None ''X'') (demo_asset EQUITY None ''X'')"
  by code_simp+

lemmas run_defs = process_one_def claim_def writeP_def claim_if_processable_def decide_claim_def claimed_event_def event_post_init_def decimal_value_def
  is_settlement_processable_def bindP_def settle_claimed_def verify_integrity_def

lemma demo_claim: "claim 1000 120 False ''s1'' demo_start = (Inr (Some (claimed_event 1000 demo_pending)),
   demo_start\<lparr>db_settlements := [plain_row ''s1'' (Some ''processing'') (Some ''f1'') (claimed_event 1000 demo_pending)]\<rparr>)"
  by (simp add: run_defs run_text STATUS_TABLES_def demo_pending_def demo_start_def demo_book_defs)

subsection \<open>The stages\<close>

definition run_state :: "position_lot tbl \<Rightarrow> cash_entry tbl \<Rightarrow> holding tbl \<Rightarrow> pnl_record tbl \<Rightarrow> trade_intent tbl \<Rightarrow> settlement_event \<Rightarrow> string \<Rightarrow> ledger" where
  "run_state lots cash holdings pnl intents e st =
     demo_ledger\<lparr>db_lots := lots, db_cash := cash, db_holdings := holdings, db_pnl := pnl, db_intents := intents,
       db_settlements := [plain_row ''s1'' (Some st) (Some ''f1'') e]\<rparr>"

definition stage_event :: "stage set \<Rightarrow> settlement_event" where
  "stage_event S = demo_buy\<lparr>e_status := PROCESSING, e_flags := (\<lambda>st. st \<in> S), e_realized_pnl := (if S = {} then None else Some 0),
     e_processing_owner := Some ''settle'', e_processing_started_at := Some 1000\<rparr>"

definition run_row :: "string \<Rightarrow> string option \<Rightarrow> string option \<Rightarrow> 'p \<Rightarrow> 'p row" where
  "run_row i st u p = \<lparr>r_id = i, r_status = st, r_unique = u, r_payload = p, r_created = 1000\<rparr>"

definition run_lot :: position_lot where
  "run_lot = opened_lot (stage_event {}) ''L1'' Long 4"

definition run_lots :: "position_lot tbl" where
  "run_lots = [run_row ''L1'' None (Some ''f1'') run_lot]"

definition run_intents :: "trade_intent tbl" where
  "run_intents = db_intents demo_ledger"

lemma run_state_sel [simp]:
  "db_lots (run_state lots cash holdings pnl intents e st) = lots" "db_cash (run_state lots cash holdings pnl intents e st) = cash"
  "db_holdings (run_state lots cash holdings pnl intents e st) = holdings" "db_pnl (run_state lots cash holdings pnl intents e st) = pnl"
  "db_intents (run_state lots cash holdings pnl intents e st) = intents" "db_fills (run_state lots cash holdings pnl intents e st) = db_fills demo_ledger"
  "db_settlements (run_state lots cash holdings pnl intents e st) = [plain_row ''s1'' (Some st) (Some ''f1'') e]"
  "db_holds (run_state lots cash holdings pnl intents e st) = []" "db_converted (run_state lots cash holdings pnl intents e st) = []"
  "db_liabilities (run_state lots cash holdings pnl intents e st) = []" "db_attributions (run_state lots cash holdings pnl intents e st) = []"
  by (simp_all add: run_state_def demo_ledger_def)

lemma run_state_upd:
  "(run_state lots cash holdings pnl intents e st)\<lparr>db_lots := a\<rparr> = run_state a cash holdings pnl intents e st"
  "(run_state lots cash holdings pnl intents e st)\<lparr>db_cash := b\<rparr> = run_state lots b holdings pnl intents e st"
  "(run_state lots cash holdings pnl intents e st)\<lparr>db_holdings := c\<rparr> = run_state lots cash c pnl intents e st"
  "(run_state lots cash holdings pnl intents e st)\<lparr>db_pnl := d\<rparr> = run_state lots cash holdings d intents e st"
  "(run_state lots cash holdings pnl intents e st)\<lparr>db_intents := i\<rparr> = run_state lots cash holdings pnl i e st"
  "(run_state lots cash holdings pnl intents e st)\<lparr>db_settlements := [plain_row ''s1'' (Some st') (Some ''f1'') e']\<rparr>
     = run_state lots cash holdings pnl intents e' st'"
  by (simp_all add: run_state_def)

lemma stage_event_sel [simp]:
  "e_id (stage_event S) = ''s1''" "e_fill_id (stage_event S) = ''f1''" "e_trade_intent_id (stage_event S) = ''t1''"
  "e_asset (stage_event S) = demo_asset EQUITY None ''X''" "e_side (stage_event S) = BUY" "e_quantity (stage_event S) = 4"
  "e_price (stage_event S) = 12" "e_occurred_at (stage_event S) = 100" "e_status (stage_event S) = PROCESSING"
  "e_broker_order_id (stage_event S) = Some ''b1''" "e_broker_fill_id (stage_event S) = Some ''x1''" "e_flags (stage_event S) = (\<lambda>st. st \<in> S)"
  "e_realized_pnl (stage_event S) = (if S = {} then None else Some 0)" "e_fees (stage_event S) = 1" "e_sector (stage_event S) = None"
  "e_mode (stage_event S) = PAPER"
  by (simp_all add: stage_event_def demo_buy_def demo_event_def)

lemma no_hold [simp]: "hold_status (run_state lots cash holdings pnl intents e st) k = None"
  by (simp add: hold_status_def)

lemma pending_claimed: "claimed_event 1000 demo_pending = stage_event {}"
  by (rule settlement_event.equality) (simp_all add: stage_event_def demo_pending_def claimed_event_def demo_buy_def)

lemma start_state: "demo_start\<lparr>db_settlements := [plain_row ''s1'' (Some ''processing'') (Some ''f1'') (stage_event {})]\<rparr>
    = run_state [] [] [] [] run_intents (stage_event {}) ''processing''"
  by (simp add: demo_start_def run_state_def run_intents_def demo_ledger_def)

lemma run_multiplier: "contract_multiplier_of (demo_asset EQUITY None ''X'') = Inr 1"
  by (simp add: demo_asset_def contract_multiplier_of_def)

lemma run_lot_ok: "lot_post_init run_lot = Inr run_lot"
  by (simp add: run_lot_def opened_lot_def lot_post_init_def run_text decimal_value_def opt_positive_def dict_sum_def adopted_identity_ok_def Let_def)

lemma lot_stage: "project_lot demo_env (stage_event {}) (run_state [] [] [] [] run_intents (stage_event {}) ''processing'')
    = (Inr (\<lambda>e. e\<lparr>e_realized_pnl := Some 0\<rparr>), run_state run_lots [] [] [] run_intents (stage_event {}) ''processing'')"
proof -
  have plan: "plan_signed_lot_fill [] (stage_event {}) = Inr \<lparr>p_direction = Long, p_closures = [], p_opening = 4, p_realized = 0\<rparr>"
    by (simp add: plan_signed_lot_fill_def run_multiplier already_opened_def opposite_lots_def opening_direction_def dsum_def dadd_def dsub_def)
  have lots: "live_lots (run_state [] [] [] [] run_intents (stage_event {}) ''processing'') a = []" for a
    by (simp add: live_lots_def lots_of_asset_def rows_where_def)
  have "open_lot demo_env (stage_event {}) Long 4 (run_state [] [] [] [] run_intents (stage_event {}) ''processing'')
      = (Inr (), run_state run_lots [] [] [] run_intents (stage_event {}) ''processing'')"
    by (simp add: open_lot_def bindP_def run_lot_def [symmetric] run_lot_ok demo_env_def create_in_def writeP_def create_once_def lot_guard_def
        check_integrity_hold_def insert_or_ignore_def new_row_def STATUS_TABLES_def UNIQUE_FIELDS_def)
      (simp add: run_lot_def opened_lot_def run_state_upd run_lots_def run_row_def)
  then show ?thesis by (simp add: project_lot_def lots plan bindP_def open_remainder_def)
qed

text \<open>The event after each stage, and its checkpoint.\<close>

lemma stage_event_next:
  "(set_flag LotStage (stage_event {}))\<lparr>e_realized_pnl := Some 0\<rparr> = stage_event {LotStage}"
  "S \<noteq> {} \<Longrightarrow> set_flag st (stage_event S) = stage_event (insert st S)"
  by (rule settlement_event.equality; auto simp: set_flag_def stage_event_def demo_buy_def fun_eq_iff)+

lemma stage_checkpoint:
  assumes "CashStage \<in> S \<Longrightarrow> cash_projected (stage_event S) (run_state lots cash holdings pnl intents e st)"
    and "TradeStage \<in> S \<Longrightarrow> trade_projected (stage_event S) (run_state lots cash holdings pnl intents e st)"
  shows "checkpoint (stage_event S) (run_state lots cash holdings pnl intents e st)
    = (Inr (), run_state lots cash holdings pnl intents (stage_event S) ''processing'')"
proof -
  have "checkpoint (stage_event S) (run_state lots cash holdings pnl intents e st)
    = (Inr (), (run_state lots cash holdings pnl intents e st)\<lparr>db_settlements := [plain_row ''s1'' (Some ''processing'') (Some ''f1'') (stage_event S)]\<rparr>)"
    unfolding checkpoint_iff using assms by (simp add: plain_row_def)
  then show ?thesis by (simp only: run_state_upd)
qed

lemma run_source: "source_fill (run_state lots cash holdings pnl intents e st) (stage_event S) = Inr demo_fill"
  by (simp add: source_fill_def) (simp add: demo_ledger_def plain_row_def fill_matches_def demo_fill_def)

lemma run_cash_evidence: "cash_evidence (run_state lots cash holdings pnl intents e st) (stage_event S) = Inr demo_cash"
  by (simp add: cash_evidence_def run_source demo_fill_multiplier cash_post_init_def demo_cash_def fill_cash_id_def Let_def)
    (simp add: demo_fill_def demo_text dmul_def dneg_def dsub_def)

definition run_cash :: "cash_entry tbl" where
  "run_cash = [plain_row ''fill:cash:f1'' None (Some ''fill:cash:f1'') demo_cash]"

definition run_pnl :: "pnl_record tbl" where
  "run_pnl = [plain_row ''fill:fee:f1'' None None demo_fee]"

lemma run_cash_projected: "cash_projected (stage_event S) (run_state lots run_cash holdings pnl intents e st)"
  by (simp add: cash_projected_def run_cash_evidence has_cash_def run_cash_def plain_row_def demo_cash_def)

lemma run_pnl_evidence: "S \<noteq> {} \<Longrightarrow> pnl_evidence (run_state run_lots cash holdings pnl intents e st) (stage_event S) = Inr [demo_fee]"
  unfolding pnl_evidence_def run_source
  by (simp add: pnl_of_lot_def opening_lot_ok_def with_liability_def attributed_ids_def fee_records_def run_lots_def run_row_def run_lot_def opened_lot_def
      pnl_post_init_def lot_total_def dict_sum_def dsum_def dadd_def dneg_def demo_text demo_fee_def demo_fill_def ctx_minus)

lemma intents_found: "get_row run_intents ''t1'' = Some (plain_row ''t1'' (Some ''filled'') (Some ''k1'') demo_intent)"
  by (simp add: run_intents_def demo_ledger_def plain_row_def)

lemma cash_stage: "project_accounting (stage_event S) True False (run_state lots [] holdings pnl intents e st)
    = (Inr 1, run_state lots run_cash holdings pnl intents e st)"
  by (simp add: project_accounting_def writeP_def project_def check_integrity_hold_def project_cash_part_def run_cash_evidence persist_cash_def persist_def)
    (simp add: demo_cash_def run_state_upd run_cash_def plain_row_def)

lemma trade_stage_pnl: "S \<noteq> {} \<Longrightarrow> project_accounting (stage_event S) False True (run_state run_lots cash holdings [] run_intents e st)
    = (Inr 1, run_state run_lots cash holdings run_pnl run_intents e st)"
  by (simp add: project_accounting_def writeP_def project_def check_integrity_hold_def project_trade_part_def run_pnl_evidence persist_pnl_def persist_def
      intents_found)
    (simp add: demo_fee_def run_state_upd run_pnl_def plain_row_def)

lemma attribution_stage: "project_attribution demo_env (stage_event S) (run_state run_lots cash holdings pnl intents e st)
    = (Inr (), run_state run_lots cash holdings pnl intents e st)"
  by (simp add: project_attribution_def lots_of_asset_def rows_where_def run_lots_def run_row_def run_lot_def opened_lot_def)

lemma run_open_lots: "open_lots (run_state run_lots cash holdings pnl intents e st) (demo_asset EQUITY None ''X'') = [run_lot]"
  by (simp add: open_lots_def live_lots_def lots_of_asset_def rows_where_def run_lots_def run_row_def run_lot_def opened_lot_def run_text lot_is_open_iff)

definition run_holding :: holding where
  "run_holding = \<lparr>h_asset = demo_asset EQUITY None ''X'', h_quantity = 4, h_average_price = 12, h_updated_at = 100, h_sector = None,
     h_stop_loss = Some 9, h_target_price = None, h_current_stop = None, h_scaled_out = False\<rparr>"

definition run_holdings :: "holding tbl" where
  "run_holdings = [run_row ''equity:default:alpaca:X'' None None run_holding]"

lemma run_levels: "entry_protective_levels run_lot (run_state lots cash holdings pnl run_intents e st)
    = (Inr (Some 9, None), run_state lots cash holdings pnl run_intents e st)"
  by (simp add: entry_protective_levels_def lot_origin_of_def run_lot_def opened_lot_def run_text intent_of_fill_def)
    (simp add: demo_ledger_def demo_fill_def demo_intent_def plain_row_def intents_found)

lemma holding_stage: "project_holding demo_env (stage_event S) (run_state run_lots cash [] pnl run_intents e st)
    = (Inr (), run_state run_lots cash run_holdings pnl run_intents e st)"
proof -
  have c: "average_cost [run_lot] = Inr 12"
    by (simp add: average_cost_def run_lot_def opened_lot_def dsum_def dmul_def dadd_def ddiv_def dquot_def)
  have h: "projected_holding (stage_event S) (signed_total [run_lot]) 12 (Some 9, None) = Inr run_holding"
    by (simp add: projected_holding_def signed_total_def signed_quantity_def run_lot_def opened_lot_def dsum_def dadd_def holding_post_init_def
        opt_positive_def decimal_value_def run_holding_def)
  have "store_holding demo_env (stage_event S) run_holding (run_state run_lots cash [] pnl run_intents e st)
      = (Inr (), run_state run_lots cash run_holdings pnl run_intents e st)"
    by (simp add: store_holding_def Let_def run_text create_in_def writeP_def bindP_def create_once_def lot_guard_def check_integrity_hold_def
        insert_or_ignore_def new_row_def STATUS_TABLES_def UNIQUE_FIELDS_def demo_env_def)
      (simp add: run_state_upd run_holdings_def run_row_def)
  then show ?thesis by (simp add: project_holding_def run_open_lots oldest_lot_def c run_levels h bindP_def)
qed

definition run_intent :: trade_intent where
  "run_intent = demo_intent\<lparr>ti_filled_quantity := 4, ti_filled_avg_price := Some 12, ti_realized_pnl := Some 0\<rparr>"

definition run_intents_filled :: "trade_intent tbl" where
  "run_intents_filled = [plain_row ''t1'' (Some ''filled'') (Some ''k1'') run_intent]"

lemma trade_stage: "S \<noteq> {} \<Longrightarrow> project_trade (stage_event S) (run_state lots cash holdings pnl run_intents (stage_event S) st)
    = (Inr (), run_state lots cash holdings pnl run_intents_filled (stage_event S) st)"
proof -
  assume S: "S \<noteq> {}"
  have fills: "fills_of_intent (run_state lots cash holdings pnl run_intents (stage_event S) st) ''t1'' = [demo_fill]"
    by (simp add: fills_of_intent_def rows_where_def) (simp add: demo_ledger_def demo_fill_def plain_row_def)
  have events: "settlements_of_intent (run_state lots cash holdings pnl run_intents (stage_event S) st) ''t1'' = [stage_event S]"
    by (simp add: settlements_of_intent_def rows_where_def plain_row_def)
  have t: "filled_intent [demo_fill] [stage_event S] demo_intent = Inr run_intent"
    using S by (simp add: filled_intent_def dsum_def dadd_def dmul_def dquot_def Let_def demo_fill_def)
      (simp add: demo_intent_def intent_post_init_def run_text opt_positive_def opt_nonneg_def decimal_value_def run_intent_def)
  have st: "ti_status run_intent = TI_FILLED" by (simp add: run_intent_def demo_intent_def)
  have row: "run_intents = [plain_row ''t1'' (Some ''filled'') (Some ''k1'') demo_intent]" by (simp add: run_intents_def demo_ledger_def)
  have "update_intent (stage_event S) run_intent (run_state lots cash holdings pnl run_intents (stage_event S) st)
      = (Inr (), run_state lots cash holdings pnl run_intents_filled (stage_event S) st)"
    by (simp add: update_intent_def writeP_def update_row_def STATUS_TABLES_def check_lease_def check_precondition_def lot_guard_def
        check_integrity_hold_def st row)
      (simp add: run_state_upd run_intents_filled_def plain_row_def)
  then show ?thesis by (simp add: project_trade_def intents_found plain_row_def fills events t bindP_def)
qed

lemma integrity_stage: "verify_integrity (stage_event S) True (run_state run_lots cash run_holdings pnl intents (stage_event S) ''processing'')
    = (Inr (), run_state run_lots cash run_holdings pnl intents (stage_event S) ''processing'')"
  by (simp add: verify_integrity_def order_hold_def integrity_errors_def run_open_lots holding_quantity_def run_text duplicate_settlements_def
      rows_where_def plain_row_def)
    (simp add: run_holdings_def run_row_def run_holding_def signed_total_def signed_quantity_def run_lot_def opened_lot_def dsum_def dadd_def)

lemma liability_stage: "project_liability_hold demo_env (stage_event S) (run_state lots cash holdings pnl intents e st)
    = (Inr (), run_state lots cash holdings pnl intents e st)"
  by (simp add: project_liability_hold_def)

lemma run_trade_projected: "S \<noteq> {} \<Longrightarrow> trade_projected (stage_event S) (run_state run_lots cash holdings run_pnl run_intents_filled e st)"
  by (simp add: trade_projected_def run_pnl_evidence has_pnl_def run_pnl_def plain_row_def demo_fee_def run_intents_filled_def)

subsection \<open>The whole run\<close>

abbreviation run_done :: "settlement_event \<Rightarrow> string \<Rightarrow> ledger" where
  "run_done \<equiv> run_state run_lots run_cash run_holdings run_pnl run_intents_filled"

lemma run_step:
  assumes "handlers demo_env st (stage_event S) db = (Inr p, db1)" and "p (set_flag st (stage_event S)) = stage_event S'"
    and "checkpoint (stage_event S') db1 = (Inr (), db2)" and "st \<notin> S"
  shows "run_stages (handlers demo_env) checkpoint no_hook (st # sts) (stage_event S) db
    = run_stages (handlers demo_env) checkpoint no_hook sts (stage_event S') db2"
  using assms by (simp add: bindP_def Let_def no_hook_def)

abbreviation at_stage :: "stage set \<Rightarrow> position_lot tbl \<Rightarrow> cash_entry tbl \<Rightarrow> holding tbl \<Rightarrow> pnl_record tbl \<Rightarrow> trade_intent tbl \<Rightarrow> ledger" where
  "at_stage S lots cash holdings pnl intents \<equiv> run_state lots cash holdings pnl intents (stage_event S) ''processing''"

abbreviation run_from :: "stage list \<Rightarrow> stage set \<Rightarrow> settlement_event routine" where
  "run_from sts S \<equiv> run_stages (handlers demo_env) checkpoint no_hook sts (stage_event S)"

lemma run_lot_step: "run_from (LotStage # sts) {} (at_stage {} [] [] [] [] run_intents)
    = run_from sts {LotStage} (at_stage {LotStage} run_lots [] [] [] run_intents)"
proof -
  have "handlers demo_env LotStage (stage_event {}) (at_stage {} [] [] [] [] run_intents)
    = (Inr (\<lambda>e. e\<lparr>e_realized_pnl := Some 0\<rparr>), run_state run_lots [] [] [] run_intents (stage_event {}) ''processing'')"
    by (simp add: lot_stage)
  then show ?thesis by (rule run_step [OF _ _ stage_checkpoint]) (simp_all add: stage_event_next)
qed

lemma run_attribution_step: "run_from (AttributionStage # sts) {LotStage} (at_stage {LotStage} run_lots [] [] [] run_intents)
    = run_from sts {AttributionStage, LotStage} (at_stage {AttributionStage, LotStage} run_lots [] [] [] run_intents)"
  by (rule run_step [OF _ _ stage_checkpoint]) (simp_all add: no_patch_def bindP_def attribution_stage stage_event_next)

lemma run_cash_step: "run_from (CashStage # sts) {AttributionStage, LotStage} (at_stage {AttributionStage, LotStage} run_lots [] [] [] run_intents)
    = run_from sts {CashStage, AttributionStage, LotStage} (at_stage {CashStage, AttributionStage, LotStage} run_lots run_cash [] [] run_intents)"
  by (rule run_step [OF _ _ stage_checkpoint]) (simp_all add: no_patch_def bindP_def cash_stage stage_event_next run_cash_projected)

lemma run_holding_step: "run_from (HoldingStage # sts) {CashStage, AttributionStage, LotStage} (at_stage {CashStage, AttributionStage, LotStage} run_lots run_cash [] [] run_intents)
    = run_from sts {HoldingStage, CashStage, AttributionStage, LotStage} (at_stage {HoldingStage, CashStage, AttributionStage, LotStage} run_lots run_cash run_holdings [] run_intents)"
  by (rule run_step [OF _ _ stage_checkpoint]) (simp_all add: no_patch_def bindP_def holding_stage stage_event_next run_cash_projected)

lemma run_trade_step: "run_from (TradeStage # sts) {HoldingStage, CashStage, AttributionStage, LotStage}
      (at_stage {HoldingStage, CashStage, AttributionStage, LotStage} run_lots run_cash run_holdings [] run_intents)
    = run_from sts {TradeStage, HoldingStage, CashStage, AttributionStage, LotStage}
      (at_stage {TradeStage, HoldingStage, CashStage, AttributionStage, LotStage} run_lots run_cash run_holdings run_pnl run_intents_filled)"
  by (rule run_step [OF _ _ stage_checkpoint])
    (simp_all add: no_patch_def bindP_def trade_stage_pnl trade_stage stage_event_next run_cash_projected run_trade_projected)

lemma run_integrity_step: "run_from (IntegrityStage # sts) {TradeStage, HoldingStage, CashStage, AttributionStage, LotStage}
      (at_stage {TradeStage, HoldingStage, CashStage, AttributionStage, LotStage} run_lots run_cash run_holdings run_pnl run_intents_filled)
    = run_from sts {IntegrityStage, TradeStage, HoldingStage, CashStage, AttributionStage, LotStage}
      (at_stage {IntegrityStage, TradeStage, HoldingStage, CashStage, AttributionStage, LotStage} run_lots run_cash run_holdings run_pnl run_intents_filled)"
  by (rule run_step [OF _ _ stage_checkpoint])
    (simp_all add: no_patch_def bindP_def integrity_stage stage_event_next run_cash_projected run_trade_projected)

lemma run_liability_step: "run_from (LiabilityHoldStage # sts) {IntegrityStage, TradeStage, HoldingStage, CashStage, AttributionStage, LotStage}
      (at_stage {IntegrityStage, TradeStage, HoldingStage, CashStage, AttributionStage, LotStage} run_lots run_cash run_holdings run_pnl run_intents_filled)
    = run_from sts UNIV (at_stage UNIV run_lots run_cash run_holdings run_pnl run_intents_filled)"
proof -
  have all: "insert LiabilityHoldStage {IntegrityStage, TradeStage, HoldingStage, CashStage, AttributionStage, LotStage} = UNIV"
    by (auto intro: stage.exhaust)
  show ?thesis
    by (rule run_step [OF _ _ stage_checkpoint])
      (simp_all add: no_patch_def bindP_def liability_stage stage_event_next run_cash_projected run_trade_projected all)
qed

lemma run_all: "run_event demo_env (stage_event {}) (at_stage {} [] [] [] [] run_intents)
    = (Inr (stage_event UNIV), run_done (stage_event UNIV) ''processing'')"
  unfolding run_event_def run_settlement_stages_def SETTLEMENT_STAGES_def
    run_lot_step run_attribution_step run_cash_step run_holding_step run_trade_step run_integrity_step run_liability_step
  by simp

lemma stage_event_valid: "event_valid (stage_event S)"
  by (simp add: event_valid_def run_text)

lemma demo_pending_valid: "event_valid demo_pending"
  by (simp add: event_valid_def demo_pending_def demo_buy_def demo_event_def run_text)

lemma run_precheck: "verify_integrity (stage_event {}) False (run_state [] [] [] [] run_intents (stage_event {}) ''processing'')
    = (Inr (), run_state [] [] [] [] run_intents (stage_event {}) ''processing'')"
  by (simp add: verify_integrity_def order_hold_def integrity_errors_def duplicate_settlements_def rows_where_def plain_row_def)

lemma run_completed: "\<exists>db'. process_one demo_env 1000 120 False demo_pending demo_start = (Inr Completed, db')"
proof -
  let ?d = "done_event (stage_event UNIV)"
  have v: "event_valid ?d" by (simp add: stage_event_valid)
  have d: "event_post_init ?d = Inr ?d" using event_post_init_valid [OF v] by (simp add: done_event_def)
  have f: "same_facts ?d (stage_event UNIV)" by (simp add: same_facts_def done_event_def)
  have s: "same_sources db db" for db by simp
  have "cash_projected ?d (run_done (stage_event UNIV) ''processing'')" "trade_projected ?d (run_done (stage_event UNIV) ''processing'')"
    using run_cash_projected [of UNIV] run_trade_projected [of UNIV] cash_evidence_cong [OF s f] pnl_evidence_cong [OF s f]
    by (simp_all add: cash_projected_def trade_projected_def done_event_def)
  moreover have "all_flags ?d" by (simp add: all_flags_iff done_event_def)
  ultimately obtain db' where k: "checkpoint ?d (run_done (stage_event UNIV) ''processing'') = (Inr (), db')"
    unfolding checkpoint_iff by simp
  have "settle_claimed demo_env (stage_event {}) (run_state [] [] [] [] run_intents (stage_event {}) ''processing'') = (Inr (), db')"
    by (simp add: settle_claimed_def bindP_def run_precheck run_all d k)
  moreover have "e_id demo_pending = ''s1''" by (simp add: demo_pending_def demo_buy_def demo_event_def)
  ultimately show ?thesis
    by (simp add: process_one_def bindP_def demo_claim pending_claimed start_state)
qed

lemma demo_start_wf: "settlements_wf demo_start"
  by (simp add: settlements_wf_def demo_start_def plain_row_def event_post_init_self event_valid_def)
    (simp add: demo_pending_def demo_buy_def demo_event_def run_text)

subsection \<open>Witnesses\<close>

theorem completed_settlement_is_evidenced_witness:
  "\<exists>db' e. process_one demo_env 1000 120 False demo_pending demo_start = (Inr Completed, db')
     \<and> settlement_row db' ''s1'' e \<and> all_flags e \<and> cash_projected e db' \<and> trade_projected e db'"
proof -
  obtain db' where p: "process_one demo_env 1000 120 False demo_pending demo_start = (Inr Completed, db')" using run_completed by blast
  have "e_id demo_pending = ''s1''" by (simp add: demo_pending_def demo_buy_def demo_event_def)
  then show ?thesis using completed_settlement_is_evidenced [OF p demo_start_wf] p by auto
qed

theorem claim_exclusive_witness:
  "claim 1120 120 True ''s1'' (demo_start\<lparr>db_settlements := [plain_row ''s1'' (Some ''processing'') (Some ''f1'') (claimed_event 1000 demo_pending)]\<rparr>)
     = (Inr None, demo_start\<lparr>db_settlements := [plain_row ''s1'' (Some ''processing'') (Some ''f1'') (claimed_event 1000 demo_pending)]\<rparr>)"
  by (rule claim_exclusive [OF demo_claim demo_start_wf]) (simp add: seconds_def)

text \<open>The same event with its order held: the precheck fails and the session is blocked.\<close>

definition demo_hold :: integrity_hold where
  "demo_hold = make_hold ''b1'' ''t1'' FILL_QUANTITY_DISPUTED ''disputed'' 50"

definition held_start :: ledger where
  "held_start = demo_start\<lparr>db_holds := [plain_row ''b1'' (Some ''fill_quantity_disputed'') None demo_hold]\<rparr>"

lemma held_start_parts: "hold_status held_start ''b1'' = Some ''fill_quantity_disputed''" "settlements_wf held_start"
  "get_row (db_settlements held_start) ''s1'' = Some (plain_row ''s1'' (Some ''pending'') (Some ''f1'') demo_pending)"
  "e_id demo_pending = ''s1''" "e_broker_order_id demo_pending = Some ''b1''"
  using demo_start_wf
  by (simp_all add: held_start_def hold_status_def plain_row_def settlements_wf_def demo_start_def demo_pending_def demo_buy_def demo_event_def)

lemma held_claim: "claim 1000 120 False ''s1'' held_start = (Inr (Some (claimed_event 1000 demo_pending)),
   held_start\<lparr>db_settlements := [plain_row ''s1'' (Some ''processing'') (Some ''f1'') (claimed_event 1000 demo_pending)]\<rparr>)"
  by (simp add: run_defs run_text STATUS_TABLES_def demo_pending_def demo_start_def held_start_def demo_book_defs)

lemma held_fails: "\<exists>db'. process_one demo_env 1000 120 False demo_pending held_start = (Inr (Failed INTEGRITY_BLOCKED), db')"
proof -
  let ?db = "held_start\<lparr>db_settlements := [plain_row ''s1'' (Some ''processing'') (Some ''f1'') (claimed_event 1000 demo_pending)]\<rparr>"
  let ?f = "classify_settlement_failure 0 (held_error ''fill_quantity_disputed'' ''b1'') 1000"
  have h: "hold_status ?db ''b1'' = Some ''fill_quantity_disputed''" using held_start_parts(1) by (simp add: hold_status_def)
  have s: "settle_claimed demo_env (claimed_event 1000 demo_pending) ?db = (Inl (held_error ''fill_quantity_disputed'' ''b1''), ?db)"
    by (rule held_precheck [OF _ h]) (simp add: claimed_event_def held_start_parts)
  have st: "cf_status ?f = INTEGRITY_BLOCKED"
    by (simp add: held_error_def hold_message_prefix_def classify_settlement_failure_def Let_def)
  let ?e = "failed_event (claimed_event 1000 demo_pending) ?f"
  have v: "event_valid ?e" by (simp add: demo_pending_valid)
  have se: "e_status ?e = INTEGRITY_BLOCKED" by (simp add: failed_event_def st)
  have p: "event_post_init ?e = Inr ?e" using event_post_init_valid [OF v] se by simp
  have fl: "e_flags ?e = (\<lambda>_. False)" by (simp add: failed_event_def claimed_event_def demo_pending_def)
  obtain db1 where k: "checkpoint ?e ?db = (Inr (), db1)" and db1: "\<exists>t. db1 = held_start\<lparr>db_settlements := t\<rparr>"
    using fl se checkpoint_iff [of ?e ?db "()"] by auto
  have l: "\<exists>db2. latch_block demo_env r now db1 = (Inr (), db2)" for r now
    using db1 by (auto simp: latch_block_def writeP_def latch_financial_integrity_block_def transition_session_def session_part_def
        load_session_def default_session_def plain_session_def decide_integrity_block_def commit_to_def session_post_init_def
        held_start_def demo_start_def demo_ledger_def)
  have "e_attempt_count demo_pending = 0" by (simp add: demo_pending_def demo_buy_def demo_event_def)
  then have "process_one demo_env 1000 120 False demo_pending held_start = record_failure demo_env (claimed_event 1000 demo_pending) ?f ?db"
    by (simp add: process_one_def bindP_def held_start_parts held_claim s)
  moreover have "\<exists>db2. record_failure demo_env (claimed_event 1000 demo_pending) ?f ?db = (Inr (Failed INTEGRITY_BLOCKED), db2)"
    using l [of "failure_reason ?f" "en_stamp demo_env db1"] by (auto simp: record_failure_def p k st bindP_def)
  ultimately show ?thesis by simp
qed

theorem held_order_never_settles_witness:
  "\<exists>db'. process_one demo_env 1000 120 False demo_pending held_start = (Inr (Failed INTEGRITY_BLOCKED), db') \<and> db_lots db' = db_lots held_start
     \<and> blocked db'"
proof -
  obtain db' where p: "process_one demo_env 1000 120 False demo_pending held_start = (Inr (Failed INTEGRITY_BLOCKED), db')" using held_fails by blast
  have "get_row (db_settlements held_start) (e_id demo_pending) = Some (plain_row ''s1'' (Some ''pending'') (Some ''f1'') demo_pending)"
    "e_broker_order_id (r_payload (plain_row ''s1'' (Some ''pending'') (Some ''f1'') demo_pending)) = Some ''b1''"
    using held_start_parts by (simp_all add: plain_row_def)
  from held_order_never_settles [OF p held_start_parts(2) this held_start_parts(1)] p show ?thesis by auto
qed


theorem holding_follows_lots_witness:
  "holding_quantity (run_state run_lots [] run_holdings [] run_intents (stage_event {}) ''processing'') (demo_asset EQUITY None ''X'')
     = signed_total (open_lots (run_state run_lots [] run_holdings [] run_intents (stage_event {}) ''processing'') (demo_asset EQUITY None ''X''))"
  using holding_follows_lots [OF holding_stage [of "{}" "[]" "[]" "stage_event {}" "''processing''"]] by simp

theorem lot_stage_replay_safe_witness:
  "\<exists>p. project_lot demo_env (stage_event {}) (run_state run_lots [] [] [] run_intents (stage_event {}) ''processing'')
     = (Inr p, run_state run_lots [] [] [] run_intents (stage_event {}) ''processing'')"
proof -
  let ?db = "run_state [] [] [] [] run_intents (stage_event {}) ''processing''"
  have live: "live_lots ?db a = []" for a by (simp add: live_lots_def lots_of_asset_def rows_where_def)
  have "(\<exists>p'. project_lot demo_env (stage_event {}) (run_state run_lots [] [] [] run_intents (stage_event {}) ''processing'')
      = (Inr p', run_state run_lots [] [] [] run_intents (stage_event {}) ''processing''))
    \<and> (prior_of (stage_event {}) (run_state run_lots [] [] [] run_intents (stage_event {}) ''processing'') = e_quantity (stage_event {})
       \<or> e_side (stage_event {}) = SELL \<and> prior_of (stage_event {}) (run_state run_lots [] [] [] run_intents (stage_event {}) ''processing'') < e_quantity (stage_event {}))"
    by (rule lot_stage_replay_safe [OF lot_stage, where k = 0])
      (simp_all add: live lots_wf_def event_valid_def run_text demo_asset_def lots_on_grid_def demo_grid fresh_ids_def demo_env_def prior_of_def
        prior_quantity_def fill_closures_def fill_openings_def map_filter_simps)
  then show ?thesis by blast
qed

end
