(* ===== verification/Exits.thy ===== *)
theory Exits
  imports Accounting Dbae Risk Dates
begin

text \<open>
  The exit decisions of the position monitor, \<open>monitor/coordinator.py\<close>: stop and target
  breach, option expiry, the running price extremes of a lot, the ratcheting stop, the exit
  ladder and the time stop. The coordinator's cycle over all positions is in \<open>Monitor\<close>.

  \<open>num_text\<close> is the text of a numeric metadata value, which the model keeps as a number.
\<close>

record alpaca_position =
  po_symbol :: string
  po_class :: asset_class
  po_qty :: dec
  po_price :: dec

subsection \<open>Breach and expiry\<close>

definition enforced_stop :: "holding \<Rightarrow> dec option" where
  "enforced_stop h = (case h_current_stop h of Some s \<Rightarrow> Some s | None \<Rightarrow> h_stop_loss h)"

definition reached :: "bool \<Rightarrow> dec option \<Rightarrow> dec \<Rightarrow> bool" where
  "reached up level price = (case level of None \<Rightarrow> False | Some x \<Rightarrow> if up then x \<le> price else price \<le> x)"

definition breached :: "alpaca_position \<Rightarrow> holding \<Rightarrow> bool" where
  "breached p h =
     (if 0 < po_qty p then reached False (enforced_stop h) (po_price p) \<or> reached True (h_target_price h) (po_price p)
      else reached True (enforced_stop h) (po_price p) \<or> reached False (h_target_price h) (po_price p))"

definition expiry_text :: "(dec \<Rightarrow> string) \<Rightarrow> asset_identity \<Rightarrow> string option" where
  "expiry_text num_text a =
     (case a_metadata a ''expiry'' of
        None \<Rightarrow> None
      | Some (MText t) \<Rightarrow> if t = [] then None else Some t
      | Some (MNum d) \<Rightarrow> if d = 0 then None else Some (num_text d)
      | Some (MMap m) \<Rightarrow> if m = [] then None else Some ''{}'')"

definition expiry_day :: "(dec \<Rightarrow> string) \<Rightarrow> asset_identity \<Rightarrow> day option" where
  "expiry_day num_text a = (case expiry_text num_text a of None \<Rightarrow> None | Some t \<Rightarrow> from_isoformat t)"

definition option_expiry_metadata_invalid :: "(dec \<Rightarrow> string) \<Rightarrow> holding \<Rightarrow> bool" where
  "option_expiry_metadata_invalid num_text h = (a_class (h_asset h) = OPTION \<and> expiry_day num_text (h_asset h) = None)"

definition near_expiry :: "(dec \<Rightarrow> string) \<Rightarrow> holding \<Rightarrow> day \<Rightarrow> int \<Rightarrow> bool" where
  "near_expiry num_text h today min_days =
     (a_class (h_asset h) = OPTION
      \<and> (case expiry_day num_text (h_asset h) of None \<Rightarrow> False | Some e \<Rightarrow> e - today \<le> min_days))"

subsection \<open>Price extremes\<close>

definition decide_fold :: "dec \<Rightarrow> position_lot \<Rightarrow> position_lot option res" where
  "decide_fold price cur =
     (if \<not> lot_is_open cur then Inr None
      else let (mfe, mae) = fold_price_extremum (l_side cur) (l_mfe_price cur) (l_mae_price cur) price
           in if Some mfe = l_mfe_price cur \<and> Some mae = l_mae_price cur then Inr None
              else bindR (lot_post_init (cur\<lparr>l_mfe_price := Some mfe, l_mae_price := Some mae\<rparr>)) (\<lambda>l. Inr (Some l)))"

definition fold_lot_extrema :: "position_lot list \<Rightarrow> dec \<Rightarrow> unit routine" where
  "fold_lot_extrema lots price =
     forP (\<lambda>l. bindP (mutate_in ''position_lots'' db_lots db_lots_update (l_lot_id l) None (decide_fold price)) (\<lambda>_. retP ())) lots"

subsection \<open>The ratcheting stop\<close>

definition is_long :: "holding \<Rightarrow> bool" where
  "is_long h = (0 < h_quantity h)"

definition gain_pct :: "holding \<Rightarrow> dec \<Rightarrow> dec res" where
  "gain_pct h price =
     bindR (ddiv (if is_long h then dsub price (h_average_price h) else dsub (h_average_price h) price) (h_average_price h))
       (\<lambda>x. Inr (dmul x 100))"

text \<open>\<open>max(current, candidate)\<close> for a long, \<open>min\<close> for a short.\<close>

definition better_stop :: "bool \<Rightarrow> dec \<Rightarrow> dec \<Rightarrow> dec" where
  "better_stop long a b = (if long then max a b else min a b)"

fun opt_list :: "'a option list \<Rightarrow> 'a list" where
  "opt_list [] = []"
| "opt_list (None # xs) = opt_list xs"
| "opt_list (Some x # xs) = x # opt_list xs"

definition extremes :: "position_lot list \<Rightarrow> dec list" where
  "extremes lots = opt_list (map l_mfe_price lots)"

definition running_extreme :: "bool \<Rightarrow> position_lot list \<Rightarrow> dec option" where
  "running_extreme long lots =
     (case extremes lots of [] \<Rightarrow> None | x # xs \<Rightarrow> Some (foldl (better_stop long) x xs))"

definition stop_candidate :: "risk_limits \<Rightarrow> (asset_identity \<Rightarrow> dec option) \<Rightarrow> holding \<Rightarrow> position_lot list \<Rightarrow> dec" where
  "stop_candidate l atr h lots =
     (if a_class (h_asset h) = OPTION \<or> rl_trailing_atr_multiplier l \<le> 0 then h_average_price h
      else case (running_extreme (is_long h) lots, atr (h_asset h)) of
        (Some x, Some a) \<Rightarrow>
          (let distance = dmul a (rl_trailing_atr_multiplier l);
               trail = (if is_long h then dsub x distance else dadd x distance)
           in better_stop (is_long h) (h_average_price h) trail)
      | _ \<Rightarrow> h_average_price h)"

definition merged_stop :: "bool \<Rightarrow> dec \<Rightarrow> dec option \<Rightarrow> dec" where
  "merged_stop long candidate cur = (case cur of None \<Rightarrow> candidate | Some s \<Rightarrow> better_stop long s candidate)"

definition decide_ratchet :: "bool \<Rightarrow> dec \<Rightarrow> holding \<Rightarrow> holding option res" where
  "decide_ratchet long candidate cur =
     (let merged = merged_stop long candidate (h_current_stop cur)
      in if Some merged = h_current_stop cur then Inr None
         else bindR (holding_post_init (cur\<lparr>h_current_stop := Some merged\<rparr>)) (\<lambda>h. Inr (Some h)))"

text \<open>
  The write and the row it observed, in one transaction: the new holding, the unchanged one,
  or \<open>None\<close> for a row that is gone.
\<close>

definition mutate_or_observe :: "string \<Rightarrow> (holding \<Rightarrow> holding option res) \<Rightarrow> holding option routine" where
  "mutate_or_observe key decide =
     writeP (\<lambda>db. bindR (mutate ''holdings'' (hold_status db) None key decide (db_holdings db)) (\<lambda>(u, t).
       Inr (case u of Some h \<Rightarrow> Some h | None \<Rightarrow> map_option r_payload (get_row (db_holdings db) key), db\<lparr>db_holdings := t\<rparr>)))"

definition ratchet_stop ::
  "risk_limits \<Rightarrow> (asset_identity \<Rightarrow> dec option) \<Rightarrow> holding \<Rightarrow> position_lot list \<Rightarrow> dec \<Rightarrow> holding option routine" where
  "ratchet_stop l atr h lots price =
     (if h_stop_loss h = None then retP (Some h)
      else bindP (liftP (gain_pct h price)) (\<lambda>g.
        if h_current_stop h = None \<and> g < rl_break_even_trigger_pct l then retP (Some h)
        else mutate_or_observe (asset_identity_key (h_asset h)) (decide_ratchet (is_long h) (stop_candidate l atr h lots))))"

subsection \<open>The exit ladder\<close>

record ladder_exit =
  le_quantity :: dec
  le_reason :: string
  le_scale_out :: bool

definition scale_out_quantity :: "holding \<Rightarrow> dec \<Rightarrow> dec \<Rightarrow> risk_limits \<Rightarrow> asset_caps option \<Rightarrow> dec option res" where
  "scale_out_quantity h position_qty price l caps =
     (let c = a_class (h_asset h);
          part0 = round_qty (dmul position_qty (rl_scale_out_fraction l)) c;
          part = (if whole_units_only caps c then to_integral_floor part0 else part0);
          rest = dsub position_qty part
      in bindR (contract_multiplier_of (h_asset h)) (\<lambda>m.
           let unit = dmul price m
           in if part \<le> 0 \<or> rest \<le> 0 then Inr None
              else if dmul part unit < rl_min_lot_notional l \<or> dmul rest unit < rl_min_lot_notional l then Inr None
              else bindR (scale_out_feasible caps c m part rest price) (\<lambda>ok. Inr (if ok then Some part else None))))"

definition first_opened_lot :: "position_lot list \<Rightarrow> position_lot option" where
  "first_opened_lot lots = (case lots of [] \<Rightarrow> None | l # ls \<Rightarrow> Some (min_by l_opened_at l ls))"

definition lot_age :: "position_lot \<Rightarrow> day \<Rightarrow> int" where
  "lot_age lt today = today - date_of (l_opened_at lt)"

definition stalled :: "risk_limits \<Rightarrow> holding \<Rightarrow> dec \<Rightarrow> position_lot list \<Rightarrow> dec \<Rightarrow> day \<Rightarrow> bool" where
  "stalled l h risk_unit lots price today =
     (rl_stall_exit_days l \<noteq> 0
      \<and> (case first_opened_lot lots of
           None \<Rightarrow> False
         | Some lt \<Rightarrow> rl_stall_exit_days l \<le> lot_age lt today
             \<and> dquot (dsub (foldl max price (extremes lots)) (h_average_price h)) risk_unit < rl_stall_min_r l))"

definition plan_ladder_exit ::
  "holding \<Rightarrow> position_lot list \<Rightarrow> dec \<Rightarrow> dec \<Rightarrow> day \<Rightarrow> risk_limits \<Rightarrow> asset_caps option \<Rightarrow> ladder_exit option res" where
  "plan_ladder_exit h lots position_qty price today l caps =
     (case h_stop_loss h of
        None \<Rightarrow> Inr None
      | Some stop \<Rightarrow>
          if h_quantity h \<le> 0 \<or> position_qty \<le> 0 then Inr None
          else let risk_unit = dsub (h_average_price h) stop
          in if risk_unit \<le> 0 then Inr None
          else let gain_r = dquot (dsub price (h_average_price h)) risk_unit
          in if rl_final_target_r l \<noteq> 0 \<and> rl_final_target_r l \<le> gain_r
             then Inr (Some \<lparr>le_quantity = position_qty, le_reason = ''target_r'', le_scale_out = False\<rparr>)
          else if h_scaled_out h then Inr None
          else bindR (scale_out_quantity h position_qty price l caps) (\<lambda>part.
            let rest = Inr (if stalled l h risk_unit lots price today
                            then Some \<lparr>le_quantity = position_qty, le_reason = ''stall'', le_scale_out = False\<rparr> else None)
            in case part of
                 None \<Rightarrow>
                   if rl_single_unit_target_r l \<noteq> 0 \<and> rl_single_unit_target_r l \<le> gain_r
                   then Inr (Some \<lparr>le_quantity = position_qty, le_reason = ''target_r_single_unit'', le_scale_out = False\<rparr>)
                   else rest
               | Some q \<Rightarrow>
                   if rl_scale_out_r l \<noteq> 0 \<and> rl_scale_out_r l \<le> gain_r
                   then Inr (Some \<lparr>le_quantity = q, le_reason = ''scale_out'', le_scale_out = True\<rparr>)
                   else rest))"

definition time_stopped :: "position_lot list \<Rightarrow> day \<Rightarrow> int \<Rightarrow> bool" where
  "time_stopped lots today max_hold_days =
     (0 < max_hold_days \<and> (case first_opened_lot lots of None \<Rightarrow> False | Some lt \<Rightarrow> max_hold_days \<le> lot_age lt today))"

definition scale_out_possible :: "holding \<Rightarrow> dec \<Rightarrow> risk_limits \<Rightarrow> bool" where
  "scale_out_possible h price l =
     (\<not> h_scaled_out h \<and> rl_scale_out_r l \<noteq> 0
      \<and> (case h_stop_loss h of
           None \<Rightarrow> False
         | Some stop \<Rightarrow> (let risk_unit = dsub (h_average_price h) stop
             in 0 < risk_unit \<and> rl_scale_out_r l \<le> dquot (dsub price (h_average_price h)) risk_unit)))"

definition exit_reason_of :: "alpaca_position \<Rightarrow> holding \<Rightarrow> bool \<Rightarrow> bool \<Rightarrow> bool \<Rightarrow> ladder_exit option \<Rightarrow> string" where
  "exit_reason_of p h is_breached expiring is_time_stopped ladder =
     (if is_breached
      then if reached (0 < po_qty p) (h_target_price h) (po_price p) then ''target_price''
           else (case (h_current_stop h, h_stop_loss h) of
                   (Some cur, Some sl) \<Rightarrow>
                     if cur \<noteq> sl then (if cur = h_average_price h then ''break_even_stop'' else ''trailing_stop'') else ''stop_loss''
                 | _ \<Rightarrow> ''stop_loss'')
      else if expiring then ''option_expiry''
      else if is_time_stopped then ''time_stop''
      else (case ladder of Some le \<Rightarrow> le_reason le | None \<Rightarrow> ''other''))"

subsection \<open>Facts about the ladder\<close>

lemma dsub_pos_iff: "0 < dsub a b \<longleftrightarrow> b < a"
  by (simp add: dsub_def dctx.pos_iff)

lemma scale_out_quantity_Some:
  assumes "scale_out_quantity h pq price l caps = Inr (Some q)"
  obtains m where "contract_multiplier_of (h_asset h) = Inr m" "0 < q" "q < pq"
    "rl_min_lot_notional l \<le> dmul q (dmul price m)" "rl_min_lot_notional l \<le> dmul (dsub pq q) (dmul price m)"
    "scale_out_feasible caps (a_class (h_asset h)) m q (dsub pq q) price = Inr True"
  using assms by (auto simp: scale_out_quantity_def Let_def bindR_Inr_iff not_le not_less dsub_pos_iff split: if_splits)

lemma plan_ladder_cases:
  assumes "plan_ladder_exit h lots pq price today l caps = Inr (Some le)"
  obtains stop where "h_stop_loss h = Some stop" "0 < h_quantity h" "0 < pq" "stop < h_average_price h"
    "\<not> le_scale_out le \<longrightarrow> le_quantity le = pq"
    "le_scale_out le \<longrightarrow> \<not> h_scaled_out h \<and> scale_out_quantity h pq price l caps = Inr (Some (le_quantity le))
       \<and> rl_scale_out_r l \<noteq> 0 \<and> rl_scale_out_r l \<le> dquot (dsub price (h_average_price h)) (dsub (h_average_price h) stop)"
proof -
  from assms obtain stop where stop: "h_stop_loss h = Some stop" by (simp add: plan_ladder_exit_def split: option.splits)
  let ?u = "dsub (h_average_price h) stop" let ?g = "dquot (dsub price (h_average_price h)) ?u"
  let ?full = "\<lambda>why. \<lparr>le_quantity = pq, le_reason = why, le_scale_out = False\<rparr>"
  from assms stop have q: "0 < h_quantity h" "0 < pq" by (simp_all add: plan_ladder_exit_def not_le split: if_splits)
  have u: "0 < ?u" using assms stop q by (cases "0 < ?u") (simp_all add: plan_ladder_exit_def)
  have "(le_quantity le = pq \<and> \<not> le_scale_out le) \<or> (le_scale_out le \<and> \<not> h_scaled_out h
      \<and> scale_out_quantity h pq price l caps = Inr (Some (le_quantity le)) \<and> rl_scale_out_r l \<noteq> 0 \<and> rl_scale_out_r l \<le> ?g)"
  proof (cases "(rl_final_target_r l \<noteq> 0 \<and> rl_final_target_r l \<le> ?g) \<or> h_scaled_out h")
    case True
    with assms stop q u have "?full ''target_r'' = le" by (simp add: plan_ladder_exit_def Let_def split: if_splits)
    then show ?thesis by (intro disjI1) auto
  next
    case False
    then have nf: "(rl_final_target_r l \<noteq> 0 \<and> rl_final_target_r l \<le> ?g) = False" and ns: "\<not> h_scaled_out h" by simp_all
    from assms stop q u ns have E: "bindR (scale_out_quantity h pq price l caps) (\<lambda>part.
        let rest = Inr (if stalled l h ?u lots price today then Some (?full ''stall'') else None)
        in case part of
             None \<Rightarrow> if rl_single_unit_target_r l \<noteq> 0 \<and> rl_single_unit_target_r l \<le> ?g
                     then Inr (Some (?full ''target_r_single_unit'')) else rest
           | Some q \<Rightarrow> if rl_scale_out_r l \<noteq> 0 \<and> rl_scale_out_r l \<le> ?g
                       then Inr (Some \<lparr>le_quantity = q, le_reason = ''scale_out'', le_scale_out = True\<rparr>) else rest) = Inr (Some le)"
      by (simp add: plan_ladder_exit_def Let_def nf cong: if_cong)
    then obtain part where p: "scale_out_quantity h pq price l caps = Inr part" by (cases "scale_out_quantity h pq price l caps") simp_all
    show ?thesis
    proof (cases part)
      case None
      with E p show ?thesis by (auto simp: Let_def split: if_splits)
    next
      case (Some x)
      with E p ns show ?thesis by (auto simp: Let_def split: if_splits)
    qed
  qed
  with that stop q u show thesis by (simp add: dsub_pos_iff) blast
qed

lemma ladder_quantity:
  assumes "plan_ladder_exit h lots pq price today l caps = Inr (Some le)"
  shows "0 < le_quantity le \<and> le_quantity le \<le> pq \<and> (le_quantity le \<noteq> pq \<longrightarrow> le_scale_out le)"
  using assms by (elim plan_ladder_cases) (metis less_imp_le order_refl scale_out_quantity_Some)

lemma scale_out_feasible_True:
  assumes "scale_out_feasible caps c m part rest price = Inr True"
  shows "(whole_units_only caps c \<longrightarrow> is_whole part \<and> is_whole rest) \<and> 1 \<le> dmul (dmul part price) m \<and> 1 \<le> dmul (dmul rest price) m"
  using assms by (auto simp: scale_out_feasible_def Let_def bindR_Inr_iff liquidation_threshold_def split: if_splits option.splits)

subsection \<open>Properties\<close>

text \<open>an exit-ladder decision sells more than nothing and at most the position, and all of it
  unless it is a scale-out. A scale-out is taken only in profit, only once, and only when the
  part and the rest are both worth the minimum lot and a dollar, and both are whole units
  for an instrument not verified fractionable.\<close>

theorem ladder_exit_feasible:
  assumes "plan_ladder_exit h lots pq price today l caps = Inr (Some le)" and "limits_wf l"
  shows "0 < le_quantity le \<and> le_quantity le \<le> pq \<and> (le_quantity le = pq \<longleftrightarrow> \<not> le_scale_out le)
    \<and> (le_scale_out le \<longrightarrow> h_average_price h < price \<and> \<not> h_scaled_out h
         \<and> (\<exists>m. contract_multiplier_of (h_asset h) = Inr m
              \<and> (\<forall>leg\<in>{le_quantity le, dsub pq (le_quantity le)}.
                    rl_min_lot_notional l \<le> dmul leg (dmul price m) \<and> 1 \<le> dmul (dmul leg price) m
                    \<and> (whole_units_only caps (a_class (h_asset h)) \<longrightarrow> is_whole leg))))"
proof -
  from assms(1) obtain stop where st: "stop < h_average_price h" and full: "\<not> le_scale_out le \<longrightarrow> le_quantity le = pq"
    and so: "le_scale_out le \<longrightarrow> \<not> h_scaled_out h \<and> scale_out_quantity h pq price l caps = Inr (Some (le_quantity le))
       \<and> rl_scale_out_r l \<noteq> 0 \<and> rl_scale_out_r l \<le> dquot (dsub price (h_average_price h)) (dsub (h_average_price h) stop)"
    by (rule plan_ladder_cases)
  note q = ladder_quantity [OF assms(1)]
  show ?thesis
  proof (cases "le_scale_out le")
    case False
    with q full show ?thesis by blast
  next
    case True
    with so have sq: "scale_out_quantity h pq price l caps = Inr (Some (le_quantity le))" and ns: "\<not> h_scaled_out h"
      and g: "rl_scale_out_r l \<noteq> 0" "rl_scale_out_r l \<le> dquot (dsub price (h_average_price h)) (dsub (h_average_price h) stop)" by auto
    have "0 \<le> rl_scale_out_r l" using assms(2) by (simp add: limits_wf_def nonnegative_limits_def)
    with g have "0 < dquot (dsub price (h_average_price h)) (dsub (h_average_price h) stop)" by linarith
    moreover have "0 < dsub (h_average_price h) stop" using st by (simp add: dsub_pos_iff)
    ultimately have "0 < dsub price (h_average_price h)" by (simp add: dquot_def dctx.pos_iff zero_less_divide_iff)
    then have profit: "h_average_price h < price" by (simp add: dsub_pos_iff)
    obtain m where m: "contract_multiplier_of (h_asset h) = Inr m" "le_quantity le < pq"
      "rl_min_lot_notional l \<le> dmul (le_quantity le) (dmul price m)"
      "rl_min_lot_notional l \<le> dmul (dsub pq (le_quantity le)) (dmul price m)"
      "scale_out_feasible caps (a_class (h_asset h)) m (le_quantity le) (dsub pq (le_quantity le)) price = Inr True"
      by (rule scale_out_quantity_Some [OF sq])
    from m(1,3,4) scale_out_feasible_True [OF m(5)]
    have "\<exists>m. contract_multiplier_of (h_asset h) = Inr m
              \<and> (\<forall>leg\<in>{le_quantity le, dsub pq (le_quantity le)}.
                    rl_min_lot_notional l \<le> dmul leg (dmul price m) \<and> 1 \<le> dmul (dmul leg price) m
                    \<and> (whole_units_only caps (a_class (h_asset h)) \<longrightarrow> is_whole leg))" by blast
    with True q profit ns m(2) show ?thesis by simp
  qed
qed

text \<open>The stop \<open>b\<close> protects at least as much as \<open>a\<close>.\<close>

definition no_looser :: "bool \<Rightarrow> dec option \<Rightarrow> dec option \<Rightarrow> bool" where
  "no_looser long a b = (case (a, b) of
      (None, _) \<Rightarrow> True
    | (Some x, Some y) \<Rightarrow> if long then x \<le> y else y \<le> x
    | (Some _, None) \<Rightarrow> False)"

lemma no_looser_refl: "no_looser long a a"
  by (simp add: no_looser_def split: option.split)

lemma stop_candidate_ge: "is_long h \<Longrightarrow> h_average_price h \<le> stop_candidate l atr h lots"
  by (auto simp: stop_candidate_def better_stop_def Let_def split: option.splits)

lemma stop_candidate_le: "\<not> is_long h \<Longrightarrow> stop_candidate l atr h lots \<le> h_average_price h"
  by (auto simp: stop_candidate_def better_stop_def Let_def split: option.splits)

text \<open>C13: the enforced stop only tightens. A ratchet changes nothing but the current stop of its own
  holding row, moves it only in the position's favour, and what it writes is at break-even
  or better. It never loses the position: as long as the row exists, the cycle gets the
  holding back, the written one or the unchanged one, and goes on to the exit checks.\<close>

theorem ratchet_only_tightens:
  assumes "ratchet_stop l atr h lots price db = (Inr r, db')"
    and "get_row (db_holdings db) (asset_identity_key (h_asset h)) = Some row"
  shows "\<exists>cs. let old = r_payload row; new = old\<lparr>h_current_stop := cs\<rparr> in
      get_row (db_holdings db') (asset_identity_key (h_asset h)) = Some (row\<lparr>r_payload := new\<rparr>)
      \<and> (r = Some h \<or> r = Some new) \<and> no_looser (is_long h) (h_current_stop old) cs
      \<and> (cs \<noteq> h_current_stop old \<longrightarrow> no_looser (is_long h) (Some (h_average_price h)) cs)
      \<and> (\<forall>k. k \<noteq> asset_identity_key (h_asset h) \<longrightarrow> get_row (db_holdings db') k = get_row (db_holdings db) k)
      \<and> db' = db\<lparr>db_holdings := db_holdings db'\<rparr>"
proof -
  let ?k = "asset_identity_key (h_asset h)" let ?old = "r_payload row" let ?c = "stop_candidate l atr h lots"
  have same: ?thesis if "db' = db" "r = Some h \<or> r = Some ?old"
    by (rule exI [of _ "h_current_stop ?old"]) (use that assms(2) in \<open>simp add: Let_def no_looser_refl\<close>)
  from assms(1) consider "db' = db" "r = Some h"
    | "mutate_or_observe ?k (decide_ratchet (is_long h) ?c) db = (Inr r, db')"
    by (auto simp: ratchet_stop_def bindP_Inr_iff liftP_def retP_def split: if_splits)
  then show ?thesis
  proof cases
    case 1
    then show ?thesis by (intro same) auto
  next
    case 2
    from 2 assms(2) obtain u where u: "decide_ratchet (is_long h) ?c ?old = Inr u"
      and n: "u = None \<Longrightarrow> db' = db \<and> r = Some ?old"
      and y: "\<And>nh. u = Some nh \<Longrightarrow> r = Some nh \<and> db' = db\<lparr>db_holdings := set_row ?k (\<lambda>r. r\<lparr>r_payload := nh\<rparr>) (db_holdings db)\<rparr>"
      by (auto simp: mutate_or_observe_def writeP_Inr_iff mutate_def bindR_Inr_iff check_integrity_hold_def split: option.splits)
    show ?thesis
    proof (cases u)
      case None
      with n show ?thesis by (intro same) auto
    next
      case (Some nh)
      let ?cs = "Some (merged_stop (is_long h) ?c (h_current_stop ?old))"
      from u Some have nh: "nh = ?old\<lparr>h_current_stop := ?cs\<rparr>"
        by (auto simp: decide_ratchet_def Let_def bindR_Inr_iff holding_post_init_Inr_iff split: if_splits)
      have "no_looser (is_long h) (h_current_stop ?old) ?cs \<and> no_looser (is_long h) (Some (h_average_price h)) ?cs"
        using stop_candidate_ge [of h l atr lots] stop_candidate_le [of h l atr lots]
        by (auto simp: no_looser_def merged_stop_def better_stop_def split: option.splits)
      with y [OF Some] assms(2) nh show ?thesis by (intro exI [of _ ?cs]) (simp add: Let_def get_set_row)
    qed
  qed
qed

subsection \<open>Witnesses\<close>

text \<open>Ten shares at 100 with a stop at 90, under the default ladder; at 120 the position is two
  risk units up and half of it is sold.\<close>

definition demo_holding :: holding where
  "demo_holding = \<lparr>h_asset = demo_asset EQUITY None ''X'', h_quantity = 10, h_average_price = 100, h_updated_at = 0,
     h_sector = None, h_stop_loss = Some 90, h_target_price = None, h_current_stop = Some 95, h_scaled_out = False\<rparr>"

lemma demo_holding_multiplier: "contract_multiplier_of (h_asset demo_holding) = Inr 1"
  by (simp add: demo_holding_def demo_asset_def contract_multiplier_of_def)

lemma demo_scale_out: "scale_out_quantity demo_holding 10 120 demo_limits None = Inr (Some 5)"
proof -
  have p: "rl_scale_out_fraction demo_limits = 1 / 2" "rl_min_lot_notional demo_limits = 1" "a_class (h_asset demo_holding) = EQUITY"
    by (simp_all add: demo_limits_def default_limits_def demo_holding_def demo_asset_def)
  have half: "dmul 10 (1 / 2) = 5" by (simp add: dmul_def)
  have r: "round_qty 5 EQUITY = 5" by (simp add: round_qty_def precision_of_def to_integral_floor_def dec_defs)
  have w: "is_whole 5" using half_even_of_int [of 5] by (simp add: is_whole_def)
  show ?thesis
    by (simp add: scale_out_quantity_def demo_holding_multiplier p half r w Let_def whole_units_only_def
        to_integral_floor_def scale_out_feasible_def dsub_def dmul_def)
qed

lemma demo_ladder: "plan_ladder_exit demo_holding [] 10 120 0 demo_limits None
    = Inr (Some \<lparr>le_quantity = 5, le_reason = ''scale_out'', le_scale_out = True\<rparr>)"
proof -
  have "rl_final_target_r demo_limits = 3" "rl_scale_out_r demo_limits = 1" by (simp_all add: demo_limits_def default_limits_def)
  moreover have "h_stop_loss demo_holding = Some 90" "h_quantity demo_holding = 10" "h_average_price demo_holding = 100"
    "\<not> h_scaled_out demo_holding" by (simp_all add: demo_holding_def)
  ultimately show ?thesis by (simp add: plan_ladder_exit_def demo_scale_out Let_def dec_defs)
qed

theorem ladder_exit_feasible_witness: "(5::dec) < 10 \<and> h_average_price demo_holding < 120 \<and> \<not> h_scaled_out demo_holding"
  using ladder_exit_feasible [OF demo_ladder demo_limits_wf] by simp

definition demo_held :: ledger where
  "demo_held = demo_ledger\<lparr>db_holdings := [plain_row (asset_identity_key (h_asset demo_holding)) None None demo_holding]\<rparr>"

definition demo_tightened :: ledger where
  "demo_tightened = demo_ledger\<lparr>db_holdings :=
     [plain_row (asset_identity_key (h_asset demo_holding)) None None (demo_holding\<lparr>h_current_stop := Some 100\<rparr>)]\<rparr>"

lemma demo_ratchet: "ratchet_stop demo_limits (\<lambda>_. None) demo_holding [] 120 demo_held
    = (Inr (Some (demo_holding\<lparr>h_current_stop := Some 100\<rparr>)), demo_tightened)"
proof -
  have c: "stop_candidate demo_limits (\<lambda>_. None) demo_holding [] = 100" "is_long demo_holding"
    by (simp_all add: stop_candidate_def running_extreme_def extremes_def demo_holding_def is_long_def)
  have d: "decide_ratchet True 100 demo_holding = Inr (Some (demo_holding\<lparr>h_current_stop := Some 100\<rparr>))"
    by (simp add: decide_ratchet_def merged_stop_def better_stop_def Let_def holding_post_init_def opt_positive_def
        decimal_value_def demo_holding_def)
  have "ctx (of_int 2 / 10 ^ 1) = of_int 2 / 10 ^ 1" by (rule ctx_frac) simp
  then have f: "ctx (1 / 5) = 1 / 5" by simp
  have g: "gain_pct demo_holding 120 = Inr 20" using f by (simp add: gain_pct_def c(2)) (simp add: demo_holding_def ddiv_def dec_defs f)
  have "h_stop_loss demo_holding = Some 90" "h_current_stop demo_holding = Some 95" by (simp_all add: demo_holding_def)
  then show ?thesis
    by (simp add: ratchet_stop_def bindP_def liftP_def g c mutate_or_observe_def writeP_def mutate_def d demo_held_def demo_tightened_def
        demo_ledger_def plain_row_def check_integrity_hold_def)
qed

theorem ratchet_only_tightens_witness:
  "\<exists>cs. cs \<noteq> Some 95 \<and> no_looser True (Some 95) cs \<and> no_looser True (Some 100) cs"
proof -
  have h: "get_row (db_holdings demo_held) (asset_identity_key (h_asset demo_holding))
      = Some (plain_row (asset_identity_key (h_asset demo_holding)) None None demo_holding)"
    by (simp add: demo_held_def plain_row_def)
  have "get_row (db_holdings demo_tightened) (asset_identity_key (h_asset demo_holding))
      = Some (plain_row (asset_identity_key (h_asset demo_holding)) None None (demo_holding\<lparr>h_current_stop := Some 100\<rparr>))"
    by (simp add: demo_tightened_def plain_row_def)
  with ratchet_only_tightens [OF demo_ratchet h] show ?thesis
    by (intro exI [of _ "Some 100"]) (auto simp: Let_def demo_holding_def plain_row_def is_long_def)
qed

end
