(* ===== verification/Execution.thy ===== *)
theory Execution
  imports Ledger
begin

text \<open>
  The request and result of the execution gateway (\<open>execution/gateway.py\<close>), the interface
  between the callers that want an order and the one place that sends orders.
\<close>

record execution_request =
  er_asset :: asset_identity
  er_side :: side
  er_quantity :: dec
  er_strategy :: string
  er_decision_id :: "string option"
  er_exit_reason :: "string option"
  er_signal_timestamp :: "string option"
  er_confidence :: "dec option"
  er_stop_loss :: "dec option"
  er_target_price :: "dec option"
  er_sector :: "string option"
  er_order_type :: string
  er_idempotency_key :: "string option"
  er_lock_token :: "string option"
  er_regime_multiplier :: "xdec option"
  er_regime_snapshot :: "(string \<times> meta_value) list"

datatype execution_status = XFilled | XPartiallyFilled | XRejected | XSkipped | XPending

record execution_result =
  xr_status :: execution_status
  xr_intent :: "string option"
  xr_reasons :: "string list"
  xr_filled :: dec
  xr_avg_price :: "dec option"

text \<open>A request with only the fields without a default.\<close>

definition plain_request :: "asset_identity \<Rightarrow> side \<Rightarrow> dec \<Rightarrow> string \<Rightarrow> execution_request" where
  "plain_request a sd q strategy =
     \<lparr>er_asset = a, er_side = sd, er_quantity = q, er_strategy = strategy, er_decision_id = None, er_exit_reason = None,
      er_signal_timestamp = None, er_confidence = None, er_stop_loss = None, er_target_price = None, er_sector = None,
      er_order_type = ''market'', er_idempotency_key = None, er_lock_token = None, er_regime_multiplier = None,
      er_regime_snapshot = []\<rparr>"

end
