(* ===== verification/Monitor.thy ===== *)
theory Monitor
  imports Exits Execution
begin

text \<open>
  The position monitor's cycle, \<open>monitor/coordinator.py::run_position_monitor\<close>: every
  position is protected inside its own guard, an exit is placed under the asset's execution
  reservation, and a scale-out is recorded durably before it is sold.

  \<open>port\<close> carries what the cycle takes from outside: the broker's positions and clock, the
  candle and capability providers, the execution gateway (run under lock renewal), the
  adoption pass, the opening inventory, the quarantined inventory and unresolved executions,
  and which stored rows fail to hydrate. Alert messages are kept without their numbers, and
  a plain Telegram send leaves no trace here. \<open>ms_orders\<close> is a history of the requests
  handed to the gateway, each with the ledger it was handed over on.
\<close>

record port =
  mp_env :: env
  mp_positions :: "alpaca_position list res"
  mp_now :: time
  mp_market_open :: "bool option"
  mp_atr :: "asset_identity \<Rightarrow> dec option"
  mp_caps :: "asset_identity \<Rightarrow> asset_caps option"
  mp_execute :: "execution_request \<Rightarrow> execution_result routine"
  mp_adoption :: "unit routine option"
  mp_opening :: "(string \<times> dec) list"
  mp_quarantined :: "ledger \<Rightarrow> quarantined list res"
  mp_unresolved :: "ledger \<Rightarrow> string list res"
  mp_lot_fault :: "string \<Rightarrow> string option option"
  mp_holding_fault :: "string \<Rightarrow> exc option"
  mp_lease_lost :: "ledger \<Rightarrow> bool"
  mp_num_text :: "dec \<Rightarrow> string"
  mp_day_text :: "day \<Rightarrow> string"
  mp_hour_text :: "time \<Rightarrow> string"
  mp_residual_window :: string

record monitor_state =
  ms_db :: ledger
  ms_results :: "execution_result list"
  ms_triggered :: nat
  ms_deferred :: nat
  ms_orders :: "(execution_request \<times> ledger) list"

type_synonym 'a step = "(monitor_state, 'a) prog"

definition on_db :: "'a routine \<Rightarrow> 'a step" where
  "on_db m s = (case m (ms_db s) of (r, db) \<Rightarrow> (r, s\<lparr>ms_db := db\<rparr>))"

definition updP :: "(monitor_state \<Rightarrow> monitor_state) \<Rightarrow> unit step" where
  "updP f s = (Inr (), f s)"

definition finallyP :: "'a step \<Rightarrow> unit routine \<Rightarrow> 'a step" where
  "finallyP m f s =
     (case m s of (r, s1) \<Rightarrow> (case on_db f s1 of (Inl e, s2) \<Rightarrow> (Inl e, s2) | (Inr _, s2) \<Rightarrow> (r, s2)))"

text \<open>\<open>ACCOUNT_WIDE_FAILURES\<close>, and \<open>except Exception\<close> with and without letting them through.\<close>

fun account_wide :: "exc \<Rightarrow> bool" where
  "account_wide (DatabaseErr _) = True"
| "account_wide (LeaseLost _) = True"
| "account_wide _ = False"

definition swallow :: "('s, unit) prog \<Rightarrow> ('s, unit) prog" where
  "swallow m s = (case m s of (_, s1) \<Rightarrow> (Inr (), s1))"

definition log_failure :: "('s, unit) prog \<Rightarrow> ('s, unit) prog" where
  "log_failure m s =
     (case m s of
        (Inr _, s1) \<Rightarrow> (Inr (), s1)
      | (Inl e, s1) \<Rightarrow> (if account_wide e then Inl e else Inr (), s1))"

fun foldP :: "('a \<Rightarrow> 'b \<Rightarrow> ('s, 'a) prog) \<Rightarrow> 'a \<Rightarrow> 'b list \<Rightarrow> ('s, 'a) prog" where
  "foldP f a [] = retP a"
| "foldP f a (x # xs) = bindP (f a x) (\<lambda>a'. foldP f a' xs)"

definition position_key :: "alpaca_position \<Rightarrow> string res" where
  "position_key p = asset_key_from_broker_symbol (po_class p) (po_symbol p) ''alpaca''"

definition today_of :: "port \<Rightarrow> day" where
  "today_of mp = date_of (mp_now mp)"

definition monitor_alert :: "port \<Rightarrow> string \<Rightarrow> string \<Rightarrow> string \<Rightarrow> string \<Rightarrow> string \<Rightarrow> string \<Rightarrow> audit_event" where
  "monitor_alert mp i ty severity message entity_type entity_id =
     \<lparr>ae_id = i, ae_type = ty, ae_severity = severity, ae_message = message, ae_at = mp_now mp, ae_entity_type = entity_type,
      ae_entity_id = entity_id, ae_details = []\<rparr>"

definition report_once :: "port \<Rightarrow> audit_event \<Rightarrow> unit routine" where
  "report_once mp ev = bindP (alert_once (mp_env mp) ev) (\<lambda>_. retP ())"

subsection \<open>Reports\<close>

definition report_unmanaged_position :: "port \<Rightarrow> alpaca_position \<Rightarrow> unit routine" where
  "report_unmanaged_position mp p =
     bindP (liftP (position_key p)) (\<lambda>key.
       report_once mp (monitor_alert mp (''unmanaged_position:'' @ key @ '':'' @ mp_day_text mp (today_of mp)) ''unmanaged_broker_position''
         ''critical'' (''UNMANAGED_POSITION: '' @ po_symbol p) ''broker_position'' key))"

definition RESIDUAL_MINIMUM_VALUE :: dec where "RESIDUAL_MINIMUM_VALUE = 1"

definition report_residual_below_minimum :: "port \<Rightarrow> alpaca_position \<Rightarrow> holding \<Rightarrow> unit routine" where
  "report_residual_below_minimum mp p h =
     swallow (bindP (liftP (contract_multiplier_of (h_asset h))) (\<lambda>m.
       if RESIDUAL_MINIMUM_VALUE \<le> dmul (dmul (dabs (po_qty p)) (po_price p)) m then retP ()
       else let key = asset_identity_key (h_asset h)
            in report_once mp (monitor_alert mp (''DBAE_RESIDUAL_BELOW_ENTRY_MINIMUM:'' @ key @ '':'' @ mp_residual_window mp)
                 ''DBAE_RESIDUAL_BELOW_ENTRY_MINIMUM'' ''warning'' (''DBAE_RESIDUAL_BELOW_ENTRY_MINIMUM: '' @ a_symbol (h_asset h)) ''monitor'' key)))"

definition untradeable_assets :: "port \<Rightarrow> alpaca_position list \<Rightarrow> string list routine" where
  "untradeable_assets mp positions =
     bindP (tryP (mp_quarantined mp)) (\<lambda>qs.
     bindP (forP (\<lambda>q. report_once mp (monitor_alert mp (''quarantined_inventory:'' @ qp_record_id q @ '':'' @ mp_day_text mp (today_of mp))
                        ''quarantined_inventory'' ''critical'' (''QUARANTINED_INVENTORY: '' @ qp_key q) ''quarantined_inventory'' (qp_record_id q))) qs) (\<lambda>_.
     bindP (foldP (\<lambda>ks p. bindP (liftP (position_key p)) (\<lambda>k.
              if po_qty p < 0
              then bindP (report_once mp (monitor_alert mp (''unsupported_short_position:'' @ k @ '':'' @ mp_day_text mp (today_of mp))
                     ''unsupported_short_position'' ''critical'' (''UNSUPPORTED_SHORT_POSITION: '' @ po_symbol p) ''broker_position'' k))
                     (\<lambda>_. retP (ks @ [k]))
              else retP ks)) [] positions) (\<lambda>shorts.
     bindP (tryP (mp_unresolved mp)) (\<lambda>us.
       retP (map qp_key qs @ shorts @ us)))))"

definition defer_exit_outside_market_hours :: "port \<Rightarrow> alpaca_position \<Rightarrow> holding \<Rightarrow> bool routine" where
  "defer_exit_outside_market_hours mp p h =
     (if (h_stop_loss h = None \<and> h_target_price h = None) \<or> \<not> breached p h then retP False
      else let key = asset_identity_key (h_asset h)
           in bindP (report_once mp (monitor_alert mp (''exit_deferred_market_closed:'' @ key @ '':'' @ mp_day_text mp (today_of mp))
                ''exit_deferred_market_closed'' ''warning'' (''EXIT_DEFERRED_MARKET_CLOSED: '' @ po_symbol p) ''holding'' key)) (\<lambda>_.
                retP True))"

definition report_protection_failure :: "port \<Rightarrow> alpaca_position \<Rightarrow> unit routine" where
  "report_protection_failure mp p =
     (let entity = (case position_key p of Inr k \<Rightarrow> k | Inl _ \<Rightarrow> po_symbol p)
      in log_failure (report_once mp (monitor_alert mp (''monitor_position_protection_failed:'' @ entity @ '':'' @ mp_hour_text mp (mp_now mp))
           ''monitor_position_protection_failed'' ''critical'' (''POSITION_PROTECTION_FAILED: '' @ po_symbol p) ''asset'' entity)))"

definition report_unidentified_lot :: "port \<Rightarrow> string \<Rightarrow> unit routine" where
  "report_unidentified_lot mp i =
     log_failure (report_once mp (monitor_alert mp (''monitor_position_protection_failed:lot:'' @ i @ '':'' @ mp_hour_text mp (mp_now mp))
       ''monitor_position_protection_failed'' ''critical'' (''POSITION_PROTECTION_FAILED: lot '' @ i) ''position_lot'' i))"

subsection \<open>One position\<close>

record exit_plan =
  xp_breached :: bool
  xp_expiring :: bool
  xp_time_stopped :: bool
  xp_ladder :: "ladder_exit option"

definition read_asset_caps :: "port \<Rightarrow> asset_identity \<Rightarrow> asset_caps option" where
  "read_asset_caps mp a =
     (case mp_caps mp a of None \<Rightarrow> None | Some t \<Rightarrow> if evidence_fresh (tc_received_at t) (mp_now mp) then Some t else None)"

definition plan_exit :: "port \<Rightarrow> risk_limits \<Rightarrow> holding \<Rightarrow> position_lot list \<Rightarrow> alpaca_position \<Rightarrow> exit_plan res" where
  "plan_exit mp l h lots p =
     (let today = today_of mp;
          expiring = near_expiry (mp_num_text mp) h today (rl_options_forced_close_days_before_expiry l);
          stopped = time_stopped lots today (rl_max_hold_days l);
          br = ((h_stop_loss h \<noteq> None \<or> h_target_price h \<noteq> None) \<and> breached p h);
          full = (br \<or> expiring \<or> stopped);
          caps = (if full \<or> \<not> scale_out_possible h (po_price p) l then None else read_asset_caps mp (h_asset h))
      in bindR (if full then Inr None else plan_ladder_exit h lots (dabs (po_qty p)) (po_price p) today l caps) (\<lambda>ladder.
           Inr \<lparr>xp_breached = br, xp_expiring = expiring, xp_time_stopped = stopped, xp_ladder = ladder\<rparr>))"

definition exit_wanted :: "exit_plan \<Rightarrow> bool" where
  "exit_wanted x = (xp_breached x \<or> xp_expiring x \<or> xp_time_stopped x \<or> xp_ladder x \<noteq> None)"

definition scaling_out :: "exit_plan \<Rightarrow> bool" where
  "scaling_out x = (case xp_ladder x of Some le \<Rightarrow> le_scale_out le | None \<Rightarrow> False)"

definition decide_mark :: "holding \<Rightarrow> holding option res" where
  "decide_mark cur =
     (if h_scaled_out cur then Inr None
      else let floor = (case h_current_stop cur of None \<Rightarrow> h_average_price cur | Some s \<Rightarrow> max s (h_average_price cur))
           in bindR (holding_post_init (cur\<lparr>h_scaled_out := True, h_current_stop := Some floor\<rparr>)) (\<lambda>h. Inr (Some h)))"

definition decide_unmark :: "holding \<Rightarrow> holding option res" where
  "decide_unmark cur =
     (if h_scaled_out cur then bindR (holding_post_init (cur\<lparr>h_scaled_out := False\<rparr>)) (\<lambda>h. Inr (Some h)) else Inr None)"

definition mutate_holding :: "asset_identity \<Rightarrow> (holding \<Rightarrow> holding option res) \<Rightarrow> holding option routine" where
  "mutate_holding a decide = mutate_in ''holdings'' db_holdings db_holdings_update (asset_identity_key a) None decide"

text \<open>Locks the stop at break-even and records the scale-out; \<open>False\<close> when another writer already did.\<close>

definition mark_scaled_out :: "holding \<Rightarrow> exit_plan \<Rightarrow> bool routine" where
  "mark_scaled_out h x =
     (if \<not> scaling_out x then retP True
      else bindP (mutate_holding (h_asset h) decide_mark) (\<lambda>marked.
        retP (case marked of None \<Rightarrow> False | Some m \<Rightarrow> h_scaled_out m)))"

definition exit_request :: "port \<Rightarrow> holding \<Rightarrow> alpaca_position \<Rightarrow> exit_plan \<Rightarrow> string \<Rightarrow> execution_request" where
  "exit_request mp h p x token =
     (plain_request (h_asset h) (if 0 < po_qty p then SELL else BUY)
        (case xp_ladder x of Some le \<Rightarrow> le_quantity le | None \<Rightarrow> dabs (po_qty p)) ''position_monitor'')
       \<lparr>er_decision_id := Some (''monitor-'' @ (case xp_ladder x of Some le \<Rightarrow> le_reason le | None \<Rightarrow> ''exit'') @ ''-'' @ po_symbol p
            @ ''-'' @ mp_hour_text mp (mp_now mp)),
        er_lock_token := Some token,
        er_exit_reason := Some (exit_reason_of p h (xp_breached x) (xp_expiring x) (xp_time_stopped x) (xp_ladder x))\<rparr>"

definition adopted_exit_refused :: "port \<Rightarrow> holding \<Rightarrow> execution_result \<Rightarrow> position_lot list \<Rightarrow> unit routine" where
  "adopted_exit_refused mp h r lots =
     (if xr_status r = XRejected \<and> list_ex (\<lambda>lt. lot_origin_of lt = Adopted) lots
      then let key = asset_identity_key (h_asset h)
           in report_once mp (monitor_alert mp (''adopted_exit_refused:'' @ key @ '':'' @ mp_hour_text mp (mp_now mp)) ''adopted_exit_refused''
                ''critical'' (''ADOPTED_EXIT_REFUSED: '' @ a_symbol (h_asset h)) ''asset'' key)
      else retP ())"

definition nothing_sold :: "execution_result \<Rightarrow> bool" where
  "nothing_sold r = (xr_status r \<in> {XRejected, XSkipped})"

definition unmark_if_unsold :: "holding \<Rightarrow> exit_plan \<Rightarrow> execution_result \<Rightarrow> unit routine" where
  "unmark_if_unsold h x r =
     (if scaling_out x \<and> nothing_sold r \<and> xr_filled r = 0
      then bindP (mutate_holding (h_asset h) decide_unmark) (\<lambda>_. retP ()) else retP ())"

definition send_exit :: "port \<Rightarrow> execution_request \<Rightarrow> execution_result step" where
  "send_exit mp req =
     bindP (updP (\<lambda>s. s\<lparr>ms_orders := ms_orders s @ [(req, ms_db s)]\<rparr>)) (\<lambda>_.
     bindP (on_db (mp_execute mp req)) (\<lambda>r.
     bindP (updP (\<lambda>s. s\<lparr>ms_results := ms_results s @ [r]\<rparr>)) (\<lambda>_. retP r)))"

definition exit_under_reservation :: "port \<Rightarrow> holding \<Rightarrow> position_lot list \<Rightarrow> alpaca_position \<Rightarrow> exit_plan \<Rightarrow> string \<Rightarrow> unit step" where
  "exit_under_reservation mp h lots p x token =
     bindP (on_db (readP (\<lambda>db. has_in_flight_intent (db_intents db) (h_asset h)))) (\<lambda>busy.
     if busy then retP ()
     else bindP (on_db (mark_scaled_out h x)) (\<lambda>go.
       if \<not> go then retP ()
       else bindP (send_exit mp (exit_request mp h p x token)) (\<lambda>r.
         bindP (on_db (adopted_exit_refused mp h r lots)) (\<lambda>_.
         bindP (on_db (unmark_if_unsold h x r)) (\<lambda>_.
           if nothing_sold r then retP () else updP (\<lambda>s. s\<lparr>ms_triggered := ms_triggered s + 1\<rparr>))))))"

definition reserve :: "port \<Rightarrow> asset_identity \<Rightarrow> string \<Rightarrow> bool routine" where
  "reserve mp a token =
     writeP (\<lambda>db. let (ok, ls) = reserve_symbol_for_execution a token (mp_now mp) (db_locks db) in Inr (ok, db\<lparr>db_locks := ls\<rparr>))"

definition release :: "asset_identity \<Rightarrow> string \<Rightarrow> unit routine" where
  "release a token = writeP (\<lambda>db. Inr ((), db\<lparr>db_locks := release_symbol_reservation a token (db_locks db)\<rparr>))"

definition place_exit :: "port \<Rightarrow> holding \<Rightarrow> position_lot list \<Rightarrow> alpaca_position \<Rightarrow> exit_plan \<Rightarrow> unit step" where
  "place_exit mp h lots p x =
     bindP (on_db (readP (en_fresh (mp_env mp)))) (\<lambda>token.
     bindP (on_db (reserve mp (h_asset h) token)) (\<lambda>got.
       if \<not> got then retP ()
       else finallyP (exit_under_reservation mp h lots p x token) (release (h_asset h) token)))"

text \<open>The holding's lots, its ratcheted stop, the decision, and the exit if there is one.\<close>

definition protect_holding :: "port \<Rightarrow> risk_limits \<Rightarrow> (string \<times> position_lot list) list \<Rightarrow> alpaca_position \<Rightarrow> holding \<Rightarrow> unit step" where
  "protect_holding mp l open_lots p h =
     (if a_class (h_asset h) \<noteq> CRYPTO \<and> mp_market_open mp = Some False
      then bindP (on_db (defer_exit_outside_market_hours mp p h)) (\<lambda>deferred.
             if deferred then updP (\<lambda>s. s\<lparr>ms_deferred := ms_deferred s + 1\<rparr>) else retP ())
      else let lots = (case map_of open_lots (asset_identity_key (h_asset h)) of None \<Rightarrow> [] | Some ls \<Rightarrow> ls)
           in bindP (on_db (report_residual_below_minimum mp p h)) (\<lambda>_.
              bindP (on_db (fold_lot_extrema lots (po_price p))) (\<lambda>_.
              bindP (on_db (ratchet_stop l (mp_atr mp) h lots (po_price p))) (\<lambda>ratcheted.
                case ratcheted of
                  None \<Rightarrow> retP ()
                | Some h' \<Rightarrow>
                    bindP (liftP (plan_exit mp l h' lots p)) (\<lambda>x.
                      if exit_wanted x then place_exit mp h' lots p x else retP ())))))"

definition protect :: "port \<Rightarrow> risk_limits \<Rightarrow> string list \<Rightarrow> (string \<times> string) list \<Rightarrow> (string \<times> position_lot list) list
   \<Rightarrow> alpaca_position \<Rightarrow> unit step" where
  "protect mp l untradeable damaged open_lots p =
     bindP (liftP (position_key p)) (\<lambda>key.
       if key \<in> set untradeable then retP ()
       else case map_of damaged key of
         Some i \<Rightarrow> raiseP (PositionEvidenceDamaged (''lot '' @ i @ '' failed to hydrate''))
       | None \<Rightarrow>
           bindP (on_db (readP (\<lambda>db. get_row (db_holdings db) key))) (\<lambda>row. case row of
             None \<Rightarrow> retP ()
           | Some r \<Rightarrow>
               bindP (liftP (case mp_holding_fault mp key of Some e \<Rightarrow> Inl e | None \<Rightarrow> Inr (r_payload r))) (\<lambda>h.
                 protect_holding mp l open_lots p h)))"

subsection \<open>The cycle\<close>

record lot_scan =
  sc_open :: "(string \<times> position_lot list) list"
  sc_damaged :: "(string \<times> string) list"
  sc_unidentified :: "string list"

definition scan_lot :: "port \<Rightarrow> string list \<Rightarrow> lot_scan \<Rightarrow> position_lot row \<Rightarrow> lot_scan routine" where
  "scan_lot mp converted sc r =
     (case mp_lot_fault mp (r_id r) of
        Some None \<Rightarrow> bindP (report_unidentified_lot mp (r_id r)) (\<lambda>_. retP (sc\<lparr>sc_unidentified := sc_unidentified sc @ [r_id r]\<rparr>))
      | Some (Some key) \<Rightarrow>
          retP (if map_of (sc_damaged sc) key = None then sc\<lparr>sc_damaged := AList.update key (r_id r) (sc_damaged sc)\<rparr> else sc)
      | None \<Rightarrow>
          let lt = r_payload r; key = asset_identity_key (l_asset lt)
          in retP (if lot_is_open lt \<and> l_lot_id lt \<notin> set converted
                   then sc\<lparr>sc_open := AList.update key ((case map_of (sc_open sc) key of None \<Rightarrow> [] | Some ls \<Rightarrow> ls) @ [lt]) (sc_open sc)\<rparr>
                   else sc))"

definition scan_lots :: "port \<Rightarrow> lot_scan routine" where
  "scan_lots mp =
     bindP (readP (\<lambda>db. (rows_where (\<lambda>_. True) (db_lots db), db_converted db))) (\<lambda>(rows, converted).
       foldP (scan_lot mp converted) \<lparr>sc_open = [], sc_damaged = [], sc_unidentified = []\<rparr> rows)"

definition detect_one :: "port \<Rightarrow> string list \<Rightarrow> nat \<Rightarrow> alpaca_position \<Rightarrow> nat routine" where
  "detect_one mp untradeable n p =
     bindP (readP (\<lambda>db. case position_key p of
         Inl _ \<Rightarrow> False
       | Inr key \<Rightarrow> key \<notin> set untradeable \<and> get_row (db_holdings db) key = None
           \<and> (mp_adoption mp \<noteq> None \<or> map_of (mp_opening mp) key \<noteq> Some (po_qty p)))) (\<lambda>unheld.
       if unheld then bindP (swallow (report_unmanaged_position mp p)) (\<lambda>_. retP (n + 1)) else retP n)"

definition protect_guarded :: "port \<Rightarrow> risk_limits \<Rightarrow> string list \<Rightarrow> lot_scan \<Rightarrow> string list \<Rightarrow> alpaca_position \<Rightarrow> string list step" where
  "protect_guarded mp l untradeable sc failed p =
     bindP (on_db (readP (mp_lease_lost mp))) (\<lambda>lost.
     if lost then retP failed
     else (\<lambda>s. case protect mp l untradeable (sc_damaged sc) (sc_open sc) p s of
            (Inr _, s1) \<Rightarrow> (Inr failed, s1)
          | (Inl e, s1) \<Rightarrow> if account_wide e then (Inl e, s1)
                          else bindP (on_db (report_protection_failure mp p)) (\<lambda>_. retP (failed @ [po_symbol p])) s1))"

record cycle_summary =
  cy_ok :: bool
  cy_checked :: nat
  cy_unmanaged :: nat
  cy_problems :: "string list"

definition summary_of :: "alpaca_position list \<Rightarrow> nat \<Rightarrow> lot_scan \<Rightarrow> string list \<Rightarrow> cycle_summary" where
  "summary_of positions unmanaged sc failed =
     (let problems = failed @ map (\<lambda>i. ''lot:'' @ i) (sc_unidentified sc)
      in \<lparr>cy_ok = (problems = []), cy_checked = length positions, cy_unmanaged = unmanaged, cy_problems = problems\<rparr>)"

definition run_position_monitor :: "port \<Rightarrow> risk_limits \<Rightarrow> cycle_summary step" where
  "run_position_monitor mp l =
     (case mp_positions mp of
        Inl _ \<Rightarrow> retP \<lparr>cy_ok = False, cy_checked = 0, cy_unmanaged = 0, cy_problems = [''BROKER_POSITIONS_UNAVAILABLE'']\<rparr>
      | Inr positions \<Rightarrow>
          bindP (on_db (case mp_adoption mp of None \<Rightarrow> retP () | Some m \<Rightarrow> swallow m)) (\<lambda>_.
          bindP (on_db (scan_lots mp)) (\<lambda>sc.
          bindP (on_db (\<lambda>db. case untradeable_assets mp positions db of (Inr ks, d) \<Rightarrow> (Inr ks, d) | (Inl _, d) \<Rightarrow> (Inr [], d))) (\<lambda>untradeable.
          bindP (on_db (foldP (detect_one mp untradeable) 0 positions)) (\<lambda>unmanaged.
          bindP (foldP (protect_guarded mp l untradeable sc) [] positions) (\<lambda>failed.
            retP (summary_of positions unmanaged sc failed)))))))"

subsection \<open>What the history records\<close>

lemma on_db_orders [simp]: "ms_orders (snd (on_db m s)) = ms_orders s"
  by (simp add: on_db_def split: prod.split)

lemma on_db_Inr: "on_db m s = (Inr v, s1) \<longleftrightarrow> (\<exists>db. m (ms_db s) = (Inr v, db) \<and> s1 = s\<lparr>ms_db := db\<rparr>)"
  by (auto simp: on_db_def split: prod.splits)

lemma keeps_on_db: "keeps (\<lambda>s. P (ms_orders s)) (on_db m)"
  by (simp add: keeps_def)

lemma keeps_updP: "(\<And>s. ms_orders (f s) = ms_orders s) \<Longrightarrow> keeps (\<lambda>s. P (ms_orders s)) (updP f)"
  by (simp add: keeps_def updP_def)

lemma finallyP_orders: "ms_orders (snd (finallyP m f s)) = ms_orders (snd (m s))"
proof -
  obtain r s1 where "m s = (r, s1)" by (cases "m s")
  moreover obtain r2 s2 where "on_db f s1 = (r2, s2)" by (cases "on_db f s1")
  ultimately show ?thesis using on_db_orders [of f s1] by (simp add: finallyP_def split: sum.splits)
qed

lemma keeps_foldP: "(\<And>a x. x \<in> set xs \<Longrightarrow> keeps P (f a x)) \<Longrightarrow> keeps P (foldP f a xs)"
  by (induction xs arbitrary: a) auto

lemma orders_bindP:
  assumes "\<And>v s1. m s = (Inr v, s1) \<Longrightarrow> P (ms_orders (snd (f v s1)))" and "P (ms_orders (snd (m s)))"
  shows "P (ms_orders (snd (bindP m f s)))"
  using assms by (cases "m s"; cases "fst (m s)") (auto simp: bindP_def)

lemma send_exit_orders: "ms_orders (snd (send_exit mp req s)) = ms_orders s @ [(req, ms_db s)]"
proof -
  obtain r d where r: "mp_execute mp req (ms_db s) = (r, d)" by (cases "mp_execute mp req (ms_db s)")
  show ?thesis by (cases r) (simp_all add: send_exit_def bindP_def updP_def on_db_def r)
qed

text \<open>At most one order, on the ledger that the reservation, the in-flight check and the mark left.\<close>

lemma exit_under_reservation_orders:
  "ms_orders (snd (exit_under_reservation mp h lots p x token s)) = ms_orders s
   \<or> (\<not> has_in_flight_intent (db_intents (ms_db s)) (h_asset h)
      \<and> (\<exists>db. mark_scaled_out h x (ms_db s) = (Inr True, db)
           \<and> ms_orders (snd (exit_under_reservation mp h lots p x token s)) = ms_orders s @ [(exit_request mp h p x token, db)]))"
proof -
  let ?rest = "\<lambda>r. bindP (on_db (adopted_exit_refused mp h r lots)) (\<lambda>_.
         bindP (on_db (unmark_if_unsold h x r)) (\<lambda>_.
           if nothing_sold r then retP () else updP (\<lambda>s. s\<lparr>ms_triggered := ms_triggered s + 1\<rparr>)))"
  have rest: "keeps (\<lambda>s. Q (ms_orders s)) (?rest r)" for Q r
    by (intro keeps_bindP keeps_on_db) (auto intro: keeps_updP)
  show ?thesis
  proof (cases "has_in_flight_intent (db_intents (ms_db s)) (h_asset h)")
    case True
    then show ?thesis by (simp add: exit_under_reservation_def bindP_def on_db_def)
  next
    case False
    obtain m db where m: "mark_scaled_out h x (ms_db s) = (m, db)" by (cases "mark_scaled_out h x (ms_db s)")
    show ?thesis
    proof (cases "m = Inr True")
      case True
      let ?s = "s\<lparr>ms_db := db\<rparr>"
      have e: "exit_under_reservation mp h lots p x token s = bindP (send_exit mp (exit_request mp h p x token)) ?rest ?s"
        using False m True by (simp add: exit_under_reservation_def bindP_def on_db_def)
      have "ms_orders (snd (bindP (send_exit mp (exit_request mp h p x token)) ?rest ?s)) = ms_orders s @ [(exit_request mp h p x token, db)]"
      proof (rule orders_bindP)
        show "ms_orders (snd (send_exit mp (exit_request mp h p x token) ?s)) = ms_orders s @ [(exit_request mp h p x token, db)]"
          by (simp add: send_exit_orders)
        fix v s1 assume "send_exit mp (exit_request mp h p x token) ?s = (Inr v, s1)"
        then have "ms_orders s1 = ms_orders s @ [(exit_request mp h p x token, db)]"
          using send_exit_orders [of mp "exit_request mp h p x token" ?s] by simp
        with keepsD [OF rest [of "\<lambda>os. os = ms_orders s @ [(exit_request mp h p x token, db)]" v]]
        show "ms_orders (snd (?rest v s1)) = ms_orders s @ [(exit_request mp h p x token, db)]" by simp
      qed
      with e m True False show ?thesis by simp
    next
      case mF: False
      then have "ms_orders (snd (exit_under_reservation mp h lots p x token s)) = ms_orders s"
        using False m by (cases m) (auto simp: exit_under_reservation_def bindP_def on_db_def)
      then show ?thesis by blast
    qed
  qed
qed

definition lock_live :: "ledger \<Rightarrow> asset_identity \<Rightarrow> string \<Rightarrow> time \<Rightarrow> bool" where
  "lock_live db a token now \<longleftrightarrow> (\<exists>r. db_locks db (execution_lock_key a) = Some r \<and> lk_owner r = token \<and> now < lk_expires r)"

definition locked_in_profit :: "ledger \<Rightarrow> asset_identity \<Rightarrow> bool" where
  "locked_in_profit db a \<longleftrightarrow> (\<exists>row s. get_row (db_holdings db) (asset_identity_key a) = Some row
     \<and> h_scaled_out (r_payload row) \<and> h_current_stop (r_payload row) = Some s \<and> h_average_price (r_payload row) \<le> s)"

lemma mutate_in_Inr:
  assumes "mutate_in table get upd i g decide db = (Inr v, db')"
  shows "\<exists>t. db' = upd (\<lambda>_. t) db \<and> mutate table (hold_status db) g i decide (get db) = Inr (v, t)"
  using assms by (auto simp: mutate_in_def writeP_Inr_iff bindR_Inr_iff)

lemma mark_scaled_out_result:
  assumes "mark_scaled_out h x db = (Inr True, db')"
  shows "\<exists>t. db' = db\<lparr>db_holdings := t\<rparr> \<and> (scaling_out x \<longrightarrow> locked_in_profit db' (h_asset h))"
proof (cases "scaling_out x")
  case False
  then have "db' = db\<lparr>db_holdings := db_holdings db\<rparr>" using assms by (simp add: mark_scaled_out_def)
  with False show ?thesis by blast
next
  case True
  let ?k = "asset_identity_key (h_asset h)"
  from assms True obtain hm where mh: "mutate_holding (h_asset h) decide_mark db = (Inr (Some hm), db')" "h_scaled_out hm"
    by (auto simp: mark_scaled_out_def bindP_Inr_iff retP_def split: option.splits)
  from mutate_in_Inr [OF mh(1) [unfolded mutate_holding_def]] obtain t where t: "db' = db\<lparr>db_holdings := t\<rparr>"
    and mu: "mutate ''holdings'' (hold_status db) None ?k decide_mark (db_holdings db) = Inr (Some hm, t)" by auto
  from mu obtain row where row: "get_row (db_holdings db) ?k = Some row" "decide_mark (r_payload row) = Inr (Some hm)"
    "t = set_row ?k (\<lambda>r. r\<lparr>r_payload := hm\<rparr>) (db_holdings db)"
    by (auto simp: mutate_def bindR_Inr_iff split: option.splits)
  have "get_row t ?k = Some (row\<lparr>r_payload := hm\<rparr>)" using row by (simp add: get_set_row)
  moreover have "\<exists>s. h_current_stop hm = Some s \<and> h_average_price hm \<le> s"
    using row(2) by (auto simp: decide_mark_def Let_def bindR_Inr_iff holding_post_init_Inr_iff split: if_splits option.splits)
  ultimately show ?thesis using t mh(2) by (auto simp: locked_in_profit_def)
qed

lemma place_exit_orders:
  "ms_orders (snd (place_exit mp h lots p x s)) = ms_orders s
   \<or> (\<exists>token db. ms_orders (snd (place_exit mp h lots p x s)) = ms_orders s @ [(exit_request mp h p x token, db)]
        \<and> lock_live db (h_asset h) token (mp_now mp) \<and> \<not> has_in_flight_intent (db_intents db) (h_asset h)
        \<and> (scaling_out x \<longrightarrow> locked_in_profit db (h_asset h)))"
proof -
  let ?token = "en_fresh (mp_env mp) (ms_db s)" let ?a = "h_asset h"
  define ok where "ok = fst (reserve_symbol_for_execution ?a ?token (mp_now mp) (db_locks (ms_db s)))"
  define ls where "ls = snd (reserve_symbol_for_execution ?a ?token (mp_now mp) (db_locks (ms_db s)))"
  define s1 where "s1 = s\<lparr>ms_db := (ms_db s)\<lparr>db_locks := ls\<rparr>\<rparr>"
  have e: "place_exit mp h lots p x s = (if \<not> ok then (Inr (), s1)
      else finallyP (exit_under_reservation mp h lots p x ?token) (release ?a ?token) s1)"
    by (simp add: place_exit_def bindP_def on_db_def reserve_def writeP_def s1_def ok_def ls_def case_prod_beta')
  show ?thesis
  proof (cases ok)
    case False
    then show ?thesis by (simp add: e s1_def)
  next
    case True
    have live: "\<exists>r. ls (execution_lock_key ?a) = Some r \<and> lk_owner r = ?token \<and> mp_now mp < lk_expires r"
      using True unfolding ok_def ls_def
      by (auto simp: reserve_symbol_for_execution_def acquire_lock_def SYMBOL_LOCK_TTL_SECONDS_def ttl_of_def split: option.splits if_splits)
    have o: "ms_orders (snd (place_exit mp h lots p x s)) = ms_orders (snd (exit_under_reservation mp h lots p x ?token s1))"
      using True by (simp add: e finallyP_orders)
    from exit_under_reservation_orders [of mp h lots p x ?token s1]
    show ?thesis
    proof
      assume "ms_orders (snd (exit_under_reservation mp h lots p x ?token s1)) = ms_orders s1"
      then show ?thesis unfolding o by (simp add: s1_def)
    next
      assume *: "\<not> has_in_flight_intent (db_intents (ms_db s1)) ?a
        \<and> (\<exists>db. mark_scaled_out h x (ms_db s1) = (Inr True, db)
             \<and> ms_orders (snd (exit_under_reservation mp h lots p x ?token s1)) = ms_orders s1 @ [(exit_request mp h p x ?token, db)])"
      then obtain db where db: "mark_scaled_out h x (ms_db s1) = (Inr True, db)"
        "ms_orders (snd (exit_under_reservation mp h lots p x ?token s1)) = ms_orders s1 @ [(exit_request mp h p x ?token, db)]" by blast
      from mark_scaled_out_result [OF db(1)] obtain t where t: "db = (ms_db s1)\<lparr>db_holdings := t\<rparr>"
        "scaling_out x \<longrightarrow> locked_in_profit db ?a" by blast
      have "lock_live db ?a ?token (mp_now mp)" using live t(1) by (simp add: lock_live_def s1_def)
      moreover have "\<not> has_in_flight_intent (db_intents db) ?a" using * t(1) by simp
      ultimately show ?thesis using db(2) t(2) unfolding o by (auto simp: s1_def)
    qed
  qed
qed

subsection \<open>Every order is a sound exit\<close>

text \<open>
  What the cycle guarantees of an order it hands to the gateway: it closes a position whose
  key is not barred, by more than nothing and at most the position, under the asset's live
  reservation and with no order in flight; and it sells a part only once the remaining
  position's stop is recorded at break-even or better.
\<close>

definition sound_exit :: "port \<Rightarrow> string set \<Rightarrow> alpaca_position \<Rightarrow> execution_request \<times> ledger \<Rightarrow> bool" where
  "sound_exit mp barred p = (\<lambda>(req, db).
     (\<exists>key. position_key p = Inr key \<and> key \<notin> barred)
     \<and> er_side req = (if 0 < po_qty p then SELL else BUY)
     \<and> er_quantity req \<le> dabs (po_qty p) \<and> (po_qty p \<noteq> 0 \<longrightarrow> 0 < er_quantity req)
     \<and> (\<exists>token. er_lock_token req = Some token \<and> lock_live db (er_asset req) token (mp_now mp))
     \<and> \<not> has_in_flight_intent (db_intents db) (er_asset req)
     \<and> (er_quantity req \<noteq> dabs (po_qty p) \<longrightarrow> locked_in_profit db (er_asset req)))"

lemma dabs_pos_iff: "0 < dabs x \<longleftrightarrow> x \<noteq> 0"
  by (simp add: dabs_def dctx.pos_iff)

lemma exit_request_sel [simp]:
  "er_asset (exit_request mp h p x token) = h_asset h" "er_lock_token (exit_request mp h p x token) = Some token"
  "er_side (exit_request mp h p x token) = (if 0 < po_qty p then SELL else BUY)"
  "er_quantity (exit_request mp h p x token) = (case xp_ladder x of Some le \<Rightarrow> le_quantity le | None \<Rightarrow> dabs (po_qty p))"
  by (simp_all add: exit_request_def plain_request_def)

lemma plan_exit_ladder:
  assumes "plan_exit mp l h lots p = Inr x" "xp_ladder x = Some le"
  shows "\<exists>caps. plan_ladder_exit h lots (dabs (po_qty p)) (po_price p) (today_of mp) l caps = Inr (Some le)"
  using assms by (auto simp: plan_exit_def Let_def bindR_Inr_iff split: if_splits)

lemma planned_exit_quantity:
  assumes "plan_exit mp l h lots p = Inr x"
  shows "er_quantity (exit_request mp h p x token) \<le> dabs (po_qty p)
    \<and> (po_qty p \<noteq> 0 \<longrightarrow> 0 < er_quantity (exit_request mp h p x token))
    \<and> (er_quantity (exit_request mp h p x token) \<noteq> dabs (po_qty p) \<longrightarrow> scaling_out x)"
proof (cases "xp_ladder x")
  case None
  then show ?thesis by (simp add: dabs_pos_iff)
next
  case (Some le)
  from plan_exit_ladder [OF assms Some] obtain caps
    where "plan_ladder_exit h lots (dabs (po_qty p)) (po_price p) (today_of mp) l caps = Inr (Some le)" by blast
  from ladder_quantity [OF this] Some show ?thesis by (auto simp: scaling_out_def)
qed

abbreviation all_orders :: "(execution_request \<times> ledger \<Rightarrow> bool) \<Rightarrow> monitor_state \<Rightarrow> bool" where
  "all_orders P s \<equiv> list_all P (ms_orders s)"

lemma place_exit_sound:
  assumes "plan_exit mp l h lots p = Inr x" "position_key p = Inr key" "key \<notin> barred"
    and P: "\<And>o'. sound_exit mp barred p o' \<Longrightarrow> P o'"
  shows "keeps (all_orders P) (place_exit mp h lots p x)"
proof (rule keepsI)
  fix s assume s: "all_orders P s"
  from place_exit_orders [of mp h lots p x s] show "all_orders P (snd (place_exit mp h lots p x s))"
  proof
    assume "ms_orders (snd (place_exit mp h lots p x s)) = ms_orders s"
    with s show ?thesis by simp
  next
    assume "\<exists>token db. ms_orders (snd (place_exit mp h lots p x s)) = ms_orders s @ [(exit_request mp h p x token, db)]
        \<and> lock_live db (h_asset h) token (mp_now mp) \<and> \<not> has_in_flight_intent (db_intents db) (h_asset h)
        \<and> (scaling_out x \<longrightarrow> locked_in_profit db (h_asset h))"
    then obtain token db where o: "ms_orders (snd (place_exit mp h lots p x s)) = ms_orders s @ [(exit_request mp h p x token, db)]"
      and d: "lock_live db (h_asset h) token (mp_now mp)" "\<not> has_in_flight_intent (db_intents db) (h_asset h)"
        "scaling_out x \<longrightarrow> locked_in_profit db (h_asset h)" by blast
    have "sound_exit mp barred p (exit_request mp h p x token, db)"
      unfolding sound_exit_def using assms(2,3) d planned_exit_quantity [OF assms(1), of token] by simp
    with s P show ?thesis unfolding o by simp
  qed
qed

lemma keeps_bind_liftP: "(\<And>v. r = Inr v \<Longrightarrow> keeps P (f v)) \<Longrightarrow> keeps P (bindP (liftP r) f)"
  by (cases r) (auto simp: keeps_def bindP_def liftP_def)

lemma keeps_orders_on_db: "keeps (all_orders P) (on_db m)"
  by (rule keeps_on_db)

lemma keeps_orders_updP: "(\<And>s. ms_orders (f s) = ms_orders s) \<Longrightarrow> keeps (all_orders P) (updP f)"
  by (rule keeps_updP)

lemma protect_holding_sound:
  assumes "position_key p = Inr key" "key \<notin> barred" and P: "\<And>o'. sound_exit mp barred p o' \<Longrightarrow> P o'"
  shows "keeps (all_orders P) (protect_holding mp l open_lots p h)"
  unfolding protect_holding_def Let_def
  by (auto intro!: keeps_basic keeps_bindP keeps_bind_liftP keeps_orders_on_db keeps_orders_updP place_exit_sound [OF _ assms(1,2)] P split: option.split)

lemma protect_sound:
  assumes P: "\<And>o'. sound_exit mp (set untradeable) p o' \<Longrightarrow> P o'"
  shows "keeps (all_orders P) (protect mp l untradeable damaged open_lots p)"
  unfolding protect_def
  by (rule keeps_bind_liftP)
    (auto intro!: keeps_basic keeps_bindP keeps_bind_liftP keeps_orders_on_db protect_holding_sound P split: option.split)

lemma protect_guarded_sound:
  assumes "\<And>o'. sound_exit mp (set untradeable) p o' \<Longrightarrow> P o'"
  shows "keeps (all_orders P) (protect_guarded mp l untradeable sc failed p)"
proof -
  let ?m = "protect mp l untradeable (sc_damaged sc) (sc_open sc) p"
  have "keeps (all_orders P) (\<lambda>s. case ?m s of
            (Inr _, s1) \<Rightarrow> (Inr failed, s1)
          | (Inl e, s1) \<Rightarrow> if account_wide e then (Inl e, s1)
                          else bindP (on_db (report_protection_failure mp p)) (\<lambda>_. retP (failed @ [po_symbol p])) s1)"
  proof (rule keepsI)
    fix s assume s: "all_orders P s"
    obtain r s1 where m: "?m s = (r, s1)" by (cases "?m s")
    have s1: "all_orders P s1" using keepsD [OF protect_sound s, of mp untradeable p l "sc_damaged sc" "sc_open sc"] assms m by simp
    have "keeps (all_orders P) (bindP (on_db (report_protection_failure mp p)) (\<lambda>_. retP (failed @ [po_symbol p])))"
      by (intro keeps_bindP keeps_orders_on_db keeps_basic)
    from keepsD [OF this s1] s1 m show "all_orders P (snd (case ?m s of
            (Inr _, s1) \<Rightarrow> (Inr failed, s1)
          | (Inl e, s1) \<Rightarrow> if account_wide e then (Inl e, s1)
                          else bindP (on_db (report_protection_failure mp p)) (\<lambda>_. retP (failed @ [po_symbol p])) s1))"
      by (cases r) simp_all
  qed
  then show ?thesis unfolding protect_guarded_def by (intro keeps_bindP keeps_orders_on_db) auto
qed

lemma keeps_bindP_val:
  assumes "keeps P m" "\<And>s v s'. m s = (Inr v, s') \<Longrightarrow> Q v" "\<And>v. Q v \<Longrightarrow> keeps P (f v)"
  shows "keeps P (bindP m f)"
proof (rule keepsI)
  fix s assume s: "P s"
  obtain r s1 where m: "m s = (r, s1)" by (cases "m s")
  have s1: "P s1" using keepsD [OF assms(1) s] m by simp
  show "P (snd (bindP m f s))"
  proof (cases r)
    case (Inl e)
    with m s1 show ?thesis by simp
  next
    case (Inr v)
    with m keepsD [OF assms(3) s1, of v] assms(2) [of s v s1] show ?thesis by simp
  qed
qed

lemma foldP_collects:
  assumes "foldP f ks ps db = (Inr ks', d)"
    and "\<And>ks p db ks' d. f ks p db = (Inr ks', d) \<Longrightarrow> set ks \<subseteq> set ks' \<and> R p (set ks')"
    and "\<And>p A B. R p A \<Longrightarrow> A \<subseteq> B \<Longrightarrow> R p B"
  shows "set ks \<subseteq> set ks' \<and> (\<forall>p\<in>set ps. R p (set ks'))"
  using assms(1)
proof (induction ps arbitrary: ks db)
  case Nil
  then show ?case by simp
next
  case (Cons p ps)
  from Cons.prems obtain k1 d1 where 1: "f ks p db = (Inr k1, d1)" "foldP f k1 ps d1 = (Inr ks', d)"
    by (auto simp: bindP_Inr_iff)
  from Cons.IH [OF 1(2)] assms(2) [OF 1(1)] assms(3) show ?case by auto
qed

text \<open>What a completed check bars: the quarantined, the short and the unresolved assets.\<close>

lemma untradeable_bars:
  assumes "untradeable_assets mp ps db = (Inr ks, d)" "mp_quarantined mp = (\<lambda>_. Inr qs)" "mp_unresolved mp = (\<lambda>_. Inr us)"
  shows "qp_key ` set qs \<union> set us \<subseteq> set ks \<and> (\<forall>p\<in>set ps. po_qty p < 0 \<longrightarrow> (\<exists>k. position_key p = Inr k \<and> k \<in> set ks))"
proof -
  let ?f = "\<lambda>ks p. bindP (liftP (position_key p)) (\<lambda>k.
              if po_qty p < 0
              then bindP (report_once mp (monitor_alert mp (''unsupported_short_position:'' @ k @ '':'' @ mp_day_text mp (today_of mp))
                     ''unsupported_short_position'' ''critical'' (''UNSUPPORTED_SHORT_POSITION: '' @ po_symbol p) ''broker_position'' k))
                     (\<lambda>_. retP (ks @ [k]))
              else retP ks)"
  let ?R = "\<lambda>p A. po_qty p < 0 \<longrightarrow> (\<exists>k. position_key p = Inr k \<and> k \<in> A)"
  from assms(1) obtain shorts d1 d2 where sh: "foldP ?f [] ps d1 = (Inr shorts, d2)" and ks: "ks = map qp_key qs @ shorts @ us"
    unfolding untradeable_assets_def bindP_Inr_iff tryP_simp assms(2,3) retP_def by auto
  have "set [] \<subseteq> set shorts \<and> (\<forall>p\<in>set ps. ?R p (set shorts))"
    by (rule foldP_collects [OF sh, of ?R]) (auto simp: bindP_Inr_iff liftP_def retP_def split: if_splits)
  with ks show ?thesis by auto
qed

lemma sound_exit_mono: "sound_exit mp B p o' \<Longrightarrow> A \<subseteq> B \<Longrightarrow> sound_exit mp A p o'"
  by (auto simp: sound_exit_def)

text \<open>C4: when the monitor's check of untradeable assets completes, every order of the cycle
  closes a long broker position that is not quarantined, short or unresolved, by more than
  nothing and at most the position. It is sent only under the asset's live reservation and
  with no order in flight on it, and it sells a part only after the stop of the rest is on
  record at break-even or better. This holds whatever the gateway answers, whichever
  lots or holdings are damaged and whichever step raises.\<close>

theorem monitor_orders_safe:
  assumes "mp_positions mp = Inr ps" "mp_quarantined mp = (\<lambda>_. Inr qs)" "mp_unresolved mp = (\<lambda>_. Inr us)"
    and checked: "\<And>db. \<exists>ks d. untradeable_assets mp ps db = (Inr ks, d)"
    and "ms_orders s = []" "sent \<in> set (ms_orders (snd (run_position_monitor mp l s)))"
  shows "\<exists>p\<in>set ps. 0 \<le> po_qty p \<and> sound_exit mp (qp_key ` set qs \<union> set us) p sent"
proof -
  let ?P = "\<lambda>o'. \<exists>p\<in>set ps. 0 \<le> po_qty p \<and> sound_exit mp (qp_key ` set qs \<union> set us) p o'"
  let ?Q = "\<lambda>ks. qp_key ` set qs \<union> set us \<subseteq> set ks
    \<and> (\<forall>p\<in>set ps. po_qty p < 0 \<longrightarrow> (\<exists>k. position_key p = Inr k \<and> k \<in> set ks))"
  have pos: "0 \<le> po_qty p" if "?Q ks" "p \<in> set ps" "sound_exit mp (set ks) p o'" for ks p o'
    using that by (auto simp: sound_exit_def not_less [symmetric])
  have cyc: "keeps (all_orders ?P) (foldP (protect_guarded mp l ks sc) fs ps)" if "?Q ks" for ks sc fs
    using that pos by (intro keeps_foldP protect_guarded_sound) (blast intro: sound_exit_mono)
  have ut: "?Q ks" if u: "on_db (\<lambda>db. case untradeable_assets mp ps db of (Inr ks, d) \<Rightarrow> (Inr ks, d) | (Inl _, d) \<Rightarrow> (Inr [], d)) s1
      = (Inr ks, s2)" for s1 ks s2
  proof -
    from checked [of "ms_db s1"] obtain ks' d where *: "untradeable_assets mp ps (ms_db s1) = (Inr ks', d)" by blast
    with u have "ks' = ks" by (simp add: on_db_Inr)
    with untradeable_bars [OF * assms(2,3)] show ?thesis by simp
  qed
  have "keeps (all_orders ?P) (run_position_monitor mp l)"
    unfolding run_position_monitor_def assms(1) sum.case
    by (intro keeps_bindP keeps_orders_on_db keeps_bindP_val [where Q = ?Q] ut) (auto intro!: keeps_bindP keeps_orders_on_db cyc keeps_basic)
  from keepsD [OF this, of s] assms(5,6) show ?thesis by (auto simp: list_all_iff)
qed

subsection \<open>Witness\<close>

text \<open>Ten shares at 85 under a stop that the cycle ratchets to 100: the whole position is sold.\<close>

definition demo_position :: alpaca_position where
  "demo_position = \<lparr>po_symbol = ''X'', po_class = EQUITY, po_qty = 10, po_price = 85\<rparr>"

definition demo_filled :: execution_result where
  "demo_filled = \<lparr>xr_status = XFilled, xr_intent = Some ''t2'', xr_reasons = [], xr_filled = 10, xr_avg_price = Some 85\<rparr>"

definition demo_port :: port where
  "demo_port = \<lparr>mp_env = \<lparr>en_fresh = (\<lambda>_. ''tok''), en_stamp = (\<lambda>_. 100), en_alerts_configured = False,
       en_alert_lease = (\<lambda>_. True), en_alert_sent = (\<lambda>_. True)\<rparr>,
     mp_positions = Inr [demo_position], mp_now = 100, mp_market_open = Some True, mp_atr = (\<lambda>_. None), mp_caps = (\<lambda>_. None),
     mp_execute = (\<lambda>_. retP demo_filled), mp_adoption = None, mp_opening = [], mp_quarantined = (\<lambda>_. Inr []),
     mp_unresolved = (\<lambda>_. Inr []), mp_lot_fault = (\<lambda>_. None), mp_holding_fault = (\<lambda>_. None), mp_lease_lost = (\<lambda>_. False),
     mp_num_text = (\<lambda>_. []), mp_day_text = (\<lambda>_. []), mp_hour_text = (\<lambda>_. []), mp_residual_window = []\<rparr>"

definition demo_start :: monitor_state where
  "demo_start = \<lparr>ms_db = demo_held\<lparr>db_lots := []\<rparr>, ms_results = [], ms_triggered = 0, ms_deferred = 0, ms_orders = []\<rparr>"

definition demo_key :: string where
  "demo_key = asset_identity_key (h_asset demo_holding)"

definition demo_ratcheted :: holding where
  "demo_ratcheted = demo_holding\<lparr>h_current_stop := Some 100\<rparr>"

definition demo_exit :: exit_plan where
  "demo_exit = \<lparr>xp_breached = True, xp_expiring = False, xp_time_stopped = False, xp_ladder = None\<rparr>"

lemma demo_position_key: "position_key demo_position = Inr demo_key"
  unfolding demo_key_def demo_position_def demo_holding_def position_key_def by code_simp

lemma demo_sel:
  "po_qty demo_position = 10" "po_price demo_position = 85" "h_asset demo_ratcheted = h_asset demo_holding"
  "a_class (h_asset demo_holding) = EQUITY" "asset_identity_key (h_asset demo_holding) = demo_key"
  by (simp_all add: demo_position_def demo_ratcheted_def demo_key_def) (simp add: demo_holding_def demo_asset_def)

lemma demo_port_sel:
  "en_fresh (mp_env demo_port) = (\<lambda>_. ''tok'')" "mp_positions demo_port = Inr [demo_position]" "mp_now demo_port = 100"
  "mp_market_open demo_port = Some True" "mp_atr demo_port = (\<lambda>_. None)" "mp_execute demo_port = (\<lambda>_. retP demo_filled)"
  "mp_adoption demo_port = None" "mp_quarantined demo_port = (\<lambda>_. Inr [])" "mp_unresolved demo_port = (\<lambda>_. Inr [])"
  "mp_lot_fault demo_port = (\<lambda>_. None)" "mp_holding_fault demo_port = (\<lambda>_. None)" "mp_lease_lost demo_port = (\<lambda>_. False)"
  by (simp_all add: demo_port_def)

lemma demo_untradeable: "untradeable_assets demo_port [demo_position] db = (Inr [], db)"
  by (simp add: untradeable_assets_def demo_port_sel demo_position_key demo_sel)

lemma demo_plan_exit: "plan_exit demo_port demo_limits demo_ratcheted [] demo_position = Inr demo_exit"
proof -
  have "breached demo_position demo_ratcheted" "h_stop_loss demo_ratcheted \<noteq> None"
    by (simp_all add: breached_def demo_sel enforced_stop_def reached_def demo_ratcheted_def) (simp add: demo_holding_def)
  then show ?thesis
    by (simp add: plan_exit_def Let_def near_expiry_def demo_sel time_stopped_def first_opened_lot_def demo_exit_def)
qed

lemma demo_place_exit:
  assumes "has_in_flight_intent (db_intents (ms_db s)) (h_asset demo_holding) = False" "db_locks (ms_db s) = Map.empty"
  shows "\<exists>db. ms_orders (snd (place_exit demo_port demo_ratcheted [] demo_position demo_exit s))
    = ms_orders s @ [(exit_request demo_port demo_ratcheted demo_position demo_exit ''tok'', db)]"
proof -
  let ?a = "h_asset demo_holding"
  obtain ls where ls: "reserve_symbol_for_execution ?a ''tok'' 100 Map.empty = (True, ls)"
    by (simp add: reserve_symbol_for_execution_def acquire_lock_def)
  have o: "ms_orders (snd (place_exit demo_port demo_ratcheted [] demo_position demo_exit s))
      = ms_orders (snd (exit_under_reservation demo_port demo_ratcheted [] demo_position demo_exit ''tok'' (s\<lparr>ms_db := (ms_db s)\<lparr>db_locks := ls\<rparr>\<rparr>)))"
    using assms(2) ls by (simp add: place_exit_def bindP_def on_db_def reserve_def writeP_def finallyP_orders demo_sel demo_port_sel)
  show ?thesis unfolding o using assms(1)
    by (simp add: exit_under_reservation_def bindP_def on_db_def demo_sel mark_scaled_out_def scaling_out_def demo_exit_def
        send_exit_def updP_def demo_port_sel adopted_exit_refused_def unmark_if_unsold_def nothing_sold_def demo_filled_def)
qed

definition demo_after :: ledger where
  "demo_after = demo_ledger\<lparr>db_lots := [], db_holdings := [plain_row demo_key None None demo_ratcheted]\<rparr>"

lemma demo_cycle_ratchet: "ratchet_stop demo_limits (\<lambda>_. None) demo_holding [] 85 (ms_db demo_start) = (Inr (Some demo_ratcheted), demo_after)"
proof -
  have c: "stop_candidate demo_limits (\<lambda>_. None) demo_holding [] = 100" "is_long demo_holding"
    by (simp_all add: stop_candidate_def running_extreme_def extremes_def demo_holding_def is_long_def)
  have d: "decide_ratchet True 100 demo_holding = Inr (Some demo_ratcheted)"
    by (simp add: decide_ratchet_def merged_stop_def better_stop_def Let_def holding_post_init_def opt_positive_def
        decimal_value_def demo_holding_def demo_ratcheted_def)
  obtain g where g: "gain_pct demo_holding 85 = Inr g" by (simp add: gain_pct_def ddiv_def demo_holding_def)
  have "h_stop_loss demo_holding = Some 90" "h_current_stop demo_holding = Some 95" by (simp_all add: demo_holding_def)
  then show ?thesis
    by (simp add: ratchet_stop_def bindP_def liftP_def g c mutate_or_observe_def writeP_def mutate_def d demo_held_def demo_after_def
        demo_start_def demo_ledger_def plain_row_def check_integrity_hold_def demo_sel)
qed

lemma demo_residual: "report_residual_below_minimum demo_port demo_position demo_holding db = (Inr (), db)"
  by (simp add: report_residual_below_minimum_def swallow_def demo_holding_multiplier RESIDUAL_MINIMUM_VALUE_def demo_sel dec_defs dabs_def)

lemma demo_quiet: "has_in_flight_intent (db_intents demo_after) (h_asset demo_holding) = False" "db_locks demo_after = Map.empty"
  by (simp_all add: demo_after_def demo_ledger_def plain_row_def has_in_flight_intent_def IN_FLIGHT_STATUSES_def)

lemma demo_protect:
  "\<exists>db. ms_orders (snd (protect demo_port demo_limits [] [] [] demo_position demo_start))
    = [(exit_request demo_port demo_ratcheted demo_position demo_exit ''tok'', db)]"
proof -
  have row: "get_row (db_holdings (ms_db demo_start)) demo_key = Some (plain_row demo_key None None demo_holding)"
    by (simp add: demo_start_def demo_held_def plain_row_def demo_sel)
  have "protect demo_port demo_limits [] [] [] demo_position demo_start
      = place_exit demo_port demo_ratcheted [] demo_position demo_exit (demo_start\<lparr>ms_db := demo_after\<rparr>)"
    by (simp add: protect_def demo_position_key on_db_def bindP_def row protect_holding_def demo_sel demo_port_sel Let_def demo_residual
        fold_lot_extrema_def demo_cycle_ratchet demo_plan_exit exit_wanted_def plain_row_def) (simp add: demo_exit_def)
  with demo_place_exit [of "demo_start\<lparr>ms_db := demo_after\<rparr>"] demo_quiet show ?thesis by (simp add: demo_start_def)
qed

lemma orders_bind_retP: "ms_orders (snd (bindP m (\<lambda>v. retP (g v)) s)) = ms_orders (snd (m s))"
  by (auto simp: bindP_def split: prod.split sum.split)

lemma protect_guarded_orders:
  assumes "mp_lease_lost mp (ms_db s) = False"
  shows "ms_orders (snd (protect_guarded mp l ut sc failed p s)) = ms_orders (snd (protect mp l ut (sc_damaged sc) (sc_open sc) p s))"
proof -
  obtain r s1 where "protect mp l ut (sc_damaged sc) (sc_open sc) p s = (r, s1)" by (cases "protect mp l ut (sc_damaged sc) (sc_open sc) p s")
  with assms show ?thesis by (cases r) (simp_all add: protect_guarded_def on_db_def bindP_def [of "on_db m" for m] split: prod.split sum.split)
qed

lemma demo_cycle:
  "\<exists>db. ms_orders (snd (run_position_monitor demo_port demo_limits demo_start))
    = [(exit_request demo_port demo_ratcheted demo_position demo_exit ''tok'', db)]"
proof -
  let ?sc = "\<lparr>sc_open = [], sc_damaged = [], sc_unidentified = []\<rparr>"
  have scan: "scan_lots demo_port (ms_db demo_start) = (Inr ?sc, ms_db demo_start)"
    by (simp add: scan_lots_def demo_start_def rows_where_def)
  have "get_row (db_holdings (ms_db demo_start)) demo_key \<noteq> None"
    by (simp add: demo_start_def demo_held_def plain_row_def demo_sel)
  then have det: "detect_one demo_port [] 0 demo_position (ms_db demo_start) = (Inr 0, ms_db demo_start)"
    by (auto simp: detect_one_def demo_position_key)
  have same: "demo_start\<lparr>ms_db := ms_db demo_start\<rparr> = demo_start" by simp
  have "ms_orders (snd (run_position_monitor demo_port demo_limits demo_start))
      = ms_orders (snd (protect demo_port demo_limits [] [] [] demo_position demo_start))"
    using det scan demo_untradeable
    by (simp add: run_position_monitor_def demo_port_sel on_db_def bindP_def [of "\<lambda>s. case m (ms_db s) of (r, db) \<Rightarrow> (r, s\<lparr>ms_db := db\<rparr>)" for m]
       orders_bind_retP protect_guarded_orders)
  with demo_protect show ?thesis by simp
qed

theorem monitor_orders_safe_witness:
  "\<exists>db. sound_exit demo_port {} demo_position (exit_request demo_port demo_ratcheted demo_position demo_exit ''tok'', db)"
proof -
  from demo_cycle obtain db where o: "(exit_request demo_port demo_ratcheted demo_position demo_exit ''tok'', db)
      \<in> set (ms_orders (snd (run_position_monitor demo_port demo_limits demo_start)))" by auto
  have "ms_orders demo_start = []" by (simp add: demo_start_def)
  from monitor_orders_safe [OF demo_port_sel(2,8,9) _ this o] demo_untradeable show ?thesis by auto
qed

subsection \<open>One instrument's failure stays its own\<close>

definition contained :: "('s, 'a) prog \<Rightarrow> bool" where
  "contained m \<longleftrightarrow> (\<forall>s e s'. m s = (Inl e, s') \<longrightarrow> account_wide e)"

lemma contained_bindP: "contained m \<Longrightarrow> (\<And>v. contained (f v)) \<Longrightarrow> contained (bindP m f)"
  unfolding contained_def bindP_def by (auto split: prod.splits sum.splits)

lemma contained_basic: "contained (retP v)" "contained (readP g)" "contained (swallow m')" "contained (log_failure m')"
  unfolding contained_def by (auto simp: swallow_def log_failure_def split: prod.splits sum.splits if_splits)

lemma contained_on_db: "contained m \<Longrightarrow> contained (on_db m)"
  unfolding contained_def on_db_def by (auto split: prod.splits)

lemma contained_foldP: "(\<And>a x. contained (f a x)) \<Longrightarrow> contained (foldP f a xs)"
  by (induction xs arbitrary: a) (auto intro: contained_basic contained_bindP)

lemmas contained_intros = contained_basic contained_bindP contained_on_db contained_foldP

lemma contained_reports: "contained (report_protection_failure mp p)" "contained (report_unidentified_lot mp i)"
  by (simp_all add: report_protection_failure_def report_unidentified_lot_def Let_def contained_basic)

lemma contained_scan: "contained (scan_lots mp)"
proof -
  have "contained (scan_lot mp converted sc r)" for converted sc r
    by (auto simp: scan_lot_def Let_def split: option.split intro!: contained_intros contained_reports)
  then show ?thesis unfolding scan_lots_def by (auto intro!: contained_intros split: prod.split)
qed

lemma contained_detect: "contained (detect_one mp ut n p)"
  unfolding detect_one_def by (auto intro!: contained_intros)

lemma contained_protect_guarded: "contained (protect_guarded mp l ut sc failed p)"
proof -
  let ?m = "protect mp l ut (sc_damaged sc) (sc_open sc) p"
  have "contained (bindP (on_db (report_protection_failure mp p)) (\<lambda>_. retP (failed @ [po_symbol p])))"
    by (intro contained_intros contained_reports)
  then have "contained (\<lambda>s. case ?m s of
            (Inr _, s1) \<Rightarrow> (Inr failed, s1)
          | (Inl e, s1) \<Rightarrow> if account_wide e then (Inl e, s1)
                          else bindP (on_db (report_protection_failure mp p)) (\<lambda>_. retP (failed @ [po_symbol p])) s1)"
    unfolding contained_def by (auto split: prod.splits sum.splits if_splits)
  then show ?thesis unfolding protect_guarded_def by (auto intro!: contained_intros)
qed


end
