(* ===== verification/Calendar_Checks.thy ===== *)
theory Calendar_Checks
  imports Accounting
begin

text \<open>
  The daily calendar check on the ledger, \<open>calendar/checks.py\<close>: the lifecycle of a check, the
  checks of a day with their alerts, the recording of an instrument's own hours, the closing
  of interrupted checks, and the session deadline. A broker's answer and the identifier of a
  new check (\<open>uuid4\<close>) are arguments.
\<close>

subsection \<open>Dates as text\<close>

text \<open>\<open>date.isoformat\<close>, over Python's conversion of an ordinal to year, month and day.\<close>

definition ordinal_ymd :: "int \<Rightarrow> int \<times> int \<times> int" where
  "ordinal_ymd ordinal =
     (let n0 = ordinal - 1; n400 = n0 div 146097; r400 = n0 mod 146097; n100 = r400 div 36524; r100 = r400 mod 36524;
          n4 = r100 div 1461; r4 = r100 mod 1461; n1 = r4 div 365; r1 = r4 mod 365;
          y = n400 * 400 + 1 + n100 * 100 + n4 * 4 + n1
      in if n1 = 4 \<or> n100 = 4 then (y - 1, 12, 31)
         else let m = (r1 + 50) div 32; before = days_before_month y m
              in if r1 < before then (y, m - 1, r1 - days_before_month y (m - 1) + 1) else (y, m, r1 - before + 1))"

fun padded :: "nat \<Rightarrow> int \<Rightarrow> string" where
  "padded 0 n = []"
| "padded (Suc k) n = padded k (n div 10) @ [char_of (48 + nat (n mod 10))]"

definition iso_day :: "day \<Rightarrow> string" where
  "iso_day d = (let (y, m, dd) = ordinal_ymd (d + EPOCH_ORDINAL) in padded 4 y @ ''-'' @ padded 2 m @ ''-'' @ padded 2 dd)"

subsection \<open>One check\<close>

definition calendar_of :: "ledger \<Rightarrow> calendar_tables" where
  "calendar_of db = ev_calendar (db_evidence db)"

definition with_calendar :: "calendar_tables \<Rightarrow> ledger \<Rightarrow> ledger" where
  "with_calendar ct db = db\<lparr>db_evidence := (db_evidence db)\<lparr>ev_calendar := ct\<rparr>\<rparr>"

definition on_calendar :: "(calendar_tables \<Rightarrow> ('a \<times> calendar_tables) res) \<Rightarrow> 'a routine" where
  "on_calendar f = writeP (\<lambda>db. bindR (f (calendar_of db)) (\<lambda>(v, ct). Inr (v, with_calendar ct db)))"

record check_base =
  ck_id :: string
  ck_broker :: string
  ck_venue :: venue
  ck_start :: "day option"
  ck_instrument :: "string option"

definition event_row :: "check_base \<Rightarrow> check_event \<Rightarrow> string option \<Rightarrow> time \<Rightarrow> check_event_row" where
  "event_row b e reason t =
     \<lparr>ce_check = ck_id b, ce_event = e, ce_broker = ck_broker b, ce_venue = ck_venue b, ce_range_start = ck_start b,
      ce_instrument = ck_instrument b, ce_reason = reason, ce_at = t\<rparr>"

definition log_event :: "check_base \<Rightarrow> check_event \<Rightarrow> string option \<Rightarrow> time \<Rightarrow> unit routine" where
  "log_event b e reason t = on_calendar (\<lambda>ct. bindR (add_event (event_row b e reason t) ct) (\<lambda>ct. Inr ((), ct)))"

record check_outcome =
  co_id :: string
  co_completed :: bool
  co_contested :: "day list"
  co_reason :: "string option"

definition failed_check :: "check_base \<Rightarrow> string \<Rightarrow> time \<Rightarrow> check_outcome routine" where
  "failed_check b reason t =
     bindP (log_event b CheckFailed (Some reason) t)
       (\<lambda>_. retP \<lparr>co_id = ck_id b, co_completed = False, co_contested = [], co_reason = Some reason\<rparr>)"

definition date_row :: "check_base \<Rightarrow> time \<Rightarrow> compared_day \<Rightarrow> check_date_row" where
  "date_row b t r =
     \<lparr>cd_check = ck_id b, cd_broker = ck_broker b, cd_venue = ck_venue b, cd_date = cp_date r, cd_result = cp_result r,
      cd_checked_at = t, cd_record = ck_id b @ ''|'' @ ck_broker b @ ''|'' @ venue_value (ck_venue b) @ ''|'' @ iso_day (cp_date r)\<rparr>"

definition same_check_date :: "check_date_row \<Rightarrow> check_date_row \<Rightarrow> bool" where
  "same_check_date r s = (cd_check r = cd_check s \<and> cd_broker r = cd_broker s \<and> cd_venue r = cd_venue s \<and> cd_date r = cd_date s)"

definition add_date :: "check_date_row \<Rightarrow> calendar_tables \<Rightarrow> calendar_tables res" where
  "add_date r ct =
     bindR (guardR (\<not> list_ex (same_check_date r) (ct_dates ct)) (DatabaseErr ''UNIQUE(check_id, broker, venue, date)''))
       (\<lambda>_. Inr (ct\<lparr>ct_dates := ct_dates ct @ [r]\<rparr>))"

fun add_dates :: "check_date_row list \<Rightarrow> calendar_tables \<Rightarrow> calendar_tables res" where
  "add_dates [] ct = Inr ct"
| "add_dates (r # rs) ct = bindR (add_date r ct) (add_dates rs)"

definition complete_check :: "check_base \<Rightarrow> time \<Rightarrow> compared_day list \<Rightarrow> unit routine" where
  "complete_check b t rows =
     on_calendar (\<lambda>ct. bindR (add_event (event_row b CheckCompleted None t) ct) (\<lambda>ct.
       bindR (add_dates (map (date_row b t) rows) ct) (\<lambda>ct. Inr ((), ct))))"

definition calendar_alert :: "env \<Rightarrow> string \<Rightarrow> string \<Rightarrow> time \<Rightarrow> bool routine" where
  "calendar_alert en i ty t =
     alert_once en \<lparr>ae_id = i, ae_type = py_lower ty, ae_severity = ''critical'', ae_message = ty, ae_at = t,
       ae_entity_type = ''market_calendar'', ae_entity_id = i, ae_details = []\<rparr>"

definition contested_alert :: "env \<Rightarrow> check_base \<Rightarrow> time \<Rightarrow> day \<Rightarrow> unit routine" where
  "contested_alert en b t d =
     bindP (calendar_alert en (''calendar_contested:'' @ iso_day d @ '':'' @ venue_value (ck_venue b) @ '':'' @ ck_broker b)
              ''CALENDAR_CONTESTED'' t) (\<lambda>_. retP ())"

text \<open>The broker is asked for 30 days from the New York date of \<open>now\<close>; every failure is recorded.\<close>

definition run_check ::
  "env \<Rightarrow> zone \<Rightarrow> market_cal \<Rightarrow> string \<Rightarrow> venue \<Rightarrow> broker_session list res \<Rightarrow> time \<Rightarrow> time \<Rightarrow> check_outcome routine" where
  "run_check en z c broker v answer now received =
     bindP (readP (en_fresh en)) (\<lambda>i.
     let b = \<lparr>ck_id = i, ck_broker = broker, ck_venue = v, ck_start = Some (zn_date z now), ck_instrument = None\<rparr>
     in bindP (log_event b CheckStarted None now) (\<lambda>_.
        case answer of
          Inl e \<Rightarrow> failed_check b ''fetch_failed'' now
        | Inr sessions \<Rightarrow> bindP (log_event b CheckFetched None received) (\<lambda>_.
            case compare_calendar z c v sessions of
              Inl e \<Rightarrow> failed_check b ''response_invalid'' received
            | Inr rows \<Rightarrow> bindP (complete_check b received rows) (\<lambda>_.
                let contested = map cp_date (filter (\<lambda>r. cp_result r = Contested) rows)
                in bindP (forP (contested_alert en b received) contested) (\<lambda>_.
                   retP \<lparr>co_id = i, co_completed = True, co_contested = contested, co_reason = None\<rparr>)))))"

subsection \<open>An instrument's own hours\<close>

definition hours_of :: "check_base \<Rightarrow> string \<Rightarrow> time \<Rightarrow> broker_session \<Rightarrow> hours_row" where
  "hours_of b key t s =
     \<lparr>hr_check = ck_id b, hr_broker = ck_broker b, hr_instrument = key, hr_date = bs_date s, hr_checked_at = t,
      hr_open = bs_open s, hr_close = bs_close s\<rparr>"

definition same_hours :: "hours_row \<Rightarrow> hours_row \<Rightarrow> bool" where
  "same_hours r s = (hr_check r = hr_check s \<and> hr_broker r = hr_broker s \<and> hr_instrument r = hr_instrument s \<and> hr_date r = hr_date s)"

fun add_hours :: "hours_row list \<Rightarrow> calendar_tables \<Rightarrow> calendar_tables res" where
  "add_hours [] ct = Inr ct"
| "add_hours (h # hs) ct =
     bindR (guardR (\<not> list_ex (same_hours h) (ct_hours ct)) (DatabaseErr ''UNIQUE(check_id, broker, instrument_key, date)''))
       (\<lambda>_. add_hours hs (ct\<lparr>ct_hours := ct_hours ct @ [h]\<rparr>))"

definition record_instrument_hours ::
  "env \<Rightarrow> string \<Rightarrow> asset_identity \<Rightarrow> broker_session list \<Rightarrow> time \<Rightarrow> string routine" where
  "record_instrument_hours en broker a sessions now =
     bindP (readP (en_fresh en)) (\<lambda>i.
     let key = asset_identity_key a;
         b = \<lparr>ck_id = i, ck_broker = broker, ck_venue = US_OPTION, ck_start = None, ck_instrument = Some key\<rparr>
     in bindP (on_calendar (\<lambda>ct.
          bindR (add_event (event_row b CheckStarted None now) ct) (\<lambda>ct.
          bindR (add_event (event_row b CheckFetched None now) ct) (\<lambda>ct.
          bindR (add_event (event_row b CheckCompleted None now) ct) (\<lambda>ct.
          bindR (add_hours (map (hours_of b key now) sessions) ct) (\<lambda>ct. Inr ((), ct))))))) (\<lambda>_. retP i))"

subsection \<open>Interrupted checks\<close>

definition INTERRUPTED_AFTER :: time where "INTERRUPTED_AFTER = hour_minute 0 10"

definition unfinished :: "calendar_tables \<Rightarrow> check_event_row list" where
  "unfinished ct = filter (\<lambda>r. ce_event r = CheckStarted \<and> \<not> check_has ct (ce_check r) CheckCompleted \<and> \<not> check_has ct (ce_check r) CheckFailed)
     (ct_events ct)"

definition interrupted :: "time \<Rightarrow> calendar_tables \<Rightarrow> check_event_row list" where
  "interrupted now ct = filter (\<lambda>r. INTERRUPTED_AFTER < now - ce_at r) (unfinished ct)"

fun add_failures :: "time \<Rightarrow> check_event_row list \<Rightarrow> calendar_tables \<Rightarrow> calendar_tables res" where
  "add_failures now [] ct = Inr ct"
| "add_failures now (r # rs) ct =
     bindR (add_event (r\<lparr>ce_event := CheckFailed, ce_reason := Some ''interrupted'', ce_at := now\<rparr>) ct) (add_failures now rs)"

definition close_interrupted :: "time \<Rightarrow> string list routine" where
  "close_interrupted now =
     on_calendar (\<lambda>ct. bindR (add_failures now (interrupted now ct) ct) (\<lambda>ct'. Inr (map ce_check (interrupted now ct), ct')))"

subsection \<open>The checks of a day\<close>

definition CHECKED_VENUES :: "venue list" where "CHECKED_VENUES = [US_EQUITY, US_OPTION]"

definition checked_today :: "zone \<Rightarrow> string \<Rightarrow> venue \<Rightarrow> time \<Rightarrow> calendar_tables \<Rightarrow> bool" where
  "checked_today z broker v now ct =
     list_ex (\<lambda>r. ce_event r = CheckCompleted \<and> ce_broker r = broker \<and> ce_venue r = v \<and> ce_range_start r = Some (zn_date z now)
       \<and> ce_instrument r = None) (ct_events ct)"

fun check_venues ::
  "env \<Rightarrow> zone \<Rightarrow> market_cal \<Rightarrow> string \<Rightarrow> (venue \<Rightarrow> broker_session list res) \<Rightarrow> time \<Rightarrow> venue list \<Rightarrow> check_outcome list routine" where
  "check_venues en z c broker answer now [] = retP []"
| "check_venues en z c broker answer now (v # vs) =
     bindP (readP (\<lambda>db. checked_today z broker v now (calendar_of db))) (\<lambda>already.
       if already then check_venues en z c broker answer now vs
       else bindP (run_check en z c broker v (answer v) now now) (\<lambda>r.
            bindP (check_venues en z c broker answer now vs) (\<lambda>rs. retP (r # rs))))"

fun upcoming_sessions :: "zone \<Rightarrow> market_cal \<Rightarrow> time \<Rightarrow> int list \<Rightarrow> day list res" where
  "upcoming_sessions z c t [] = Inr []"
| "upcoming_sessions z c t (n # ns) =
     bindR (nth_session_after z c US_EQUITY t n) (\<lambda>s.
     bindR (upcoming_sessions z c t ns) (\<lambda>ds. Inr (case s of None \<Rightarrow> ds | Some s \<Rightarrow> cs_date s # ds)))"

definition unverified_days :: "cal_gate \<Rightarrow> calendar_tables \<Rightarrow> time \<Rightarrow> day list \<Rightarrow> day list" where
  "unverified_days g ct now days =
     concat (map (\<lambda>v. filter (\<lambda>d. gate_status g ct v d now = Unverified_Date) days) CHECKED_VENUES)"

definition run_daily_checks ::
  "env \<Rightarrow> zone \<Rightarrow> market_cal \<Rightarrow> string \<Rightarrow> (venue \<Rightarrow> broker_session list res) \<Rightarrow> time \<Rightarrow> check_outcome list routine" where
  "run_daily_checks en z c broker answer now =
     bindP (close_interrupted now) (\<lambda>_.
     bindP (check_venues en z c broker answer now CHECKED_VENUES) (\<lambda>results.
     let g = \<lparr>cg_zone = z, cg_calendar = c, cg_brokers = [broker]\<rparr>; today = iso_day (zn_date z now)
     in case upcoming_sessions z c (now - 86400000000) [1, 2, 3, 4, 5] of
          Inl (HorizonExceeded m) \<Rightarrow>
            bindP (calendar_alert en (''calendar_horizon_exceeded:'' @ today) ''CALENDAR_HORIZON_EXCEEDED'' now) (\<lambda>_. retP results)
        | Inl e \<Rightarrow> raiseP e
        | Inr days \<Rightarrow>
            bindP (readP (\<lambda>db. unverified_days g (calendar_of db) now days)) (\<lambda>bad.
              if bad = [] then retP results
              else bindP (calendar_alert en (''calendar_unverified:'' @ today) ''CALENDAR_UNVERIFIED'' now) (\<lambda>_. retP results))))"

subsection \<open>The session deadline\<close>

definition weekday :: "day \<Rightarrow> int" where
  "weekday d = (d + 3) mod 7"

definition next_weekday :: "day \<Rightarrow> day" where
  "next_weekday d = (let e = d + 1 in if weekday e = 5 then e + 2 else if weekday e = 6 then e + 1 else e)"

definition session_deadline :: "cal_gate \<Rightarrow> calendar_tables \<Rightarrow> time \<Rightarrow> nat \<Rightarrow> (time \<times> string) res" where
  "session_deadline g ct first n =
     (let d = zn_date (cg_zone g) first; bound = zn_instant (cg_zone g) ((next_weekday ^^ n) d) (hour_minute 16 0)
      in case nth_session_after (cg_zone g) (cg_calendar g) US_EQUITY first (int n) of
           Inl (HorizonExceeded m) \<Rightarrow> Inr (bound, ''weekday_bound'')
         | Inl e \<Rightarrow> Inl e
         | Inr None \<Rightarrow> Inl (TypeErrorExc ''session'')
         | Inr (Some s) \<Rightarrow>
             Inr (if list_all (\<lambda>x. gate_status g ct US_EQUITY x first = Verified_Date) [d + 1..cs_date s] \<or> cs_close s \<le> bound
                  then (cs_close s, ''market_calendar'') else (bound, ''weekday_bound'')))"
subsection \<open>What a check confers\<close>

text \<open>The evidence the gate reads: the completed checks, with their dates and hours.\<close>

definition same_evidence :: "calendar_tables \<Rightarrow> calendar_tables \<Rightarrow> bool" where
  "same_evidence ct ct' \<longleftrightarrow> (\<forall>i. check_has ct' i CheckCompleted = check_has ct i CheckCompleted) \<and> ct_dates ct' = ct_dates ct \<and> ct_hours ct' = ct_hours ct"

lemma same_evidence_refl: "same_evidence ct ct"
  by (simp add: same_evidence_def)

lemma same_evidence_trans: "same_evidence a b \<Longrightarrow> same_evidence b c \<Longrightarrow> same_evidence a c"
  by (simp add: same_evidence_def)

lemma same_evidence_status:
  assumes "same_evidence ct ct'"
  shows "gate_status g ct' v d t = gate_status g ct v d t" "instrument_close g ct' b a t = instrument_close g ct b a t"
proof -
  show s: "gate_status g ct' v d t = gate_status g ct v d t" for v d
    using assms by (simp add: same_evidence_def gate_status_def completed_dates_def)
  have h: "latest_hours ct' = latest_hours ct" using assms by (simp add: same_evidence_def latest_hours_def fun_eq_iff)
  show "instrument_close g ct' b a t = instrument_close g ct b a t"
    unfolding instrument_close_def s h ..
qed

lemma add_event_evidence: "add_event r ct = Inr ct' \<Longrightarrow> ce_event r \<noteq> CheckCompleted \<Longrightarrow> same_evidence ct ct'"
  by (auto simp: add_event_def res_iffs same_evidence_def check_has_def)

lemma calendar_with_calendar [simp]: "calendar_of (with_calendar ct db) = ct"
  by (simp add: calendar_of_def with_calendar_def)

text \<open>A routine that leaves the gate's evidence alone, whatever its outcome.\<close>

definition keeps_evidence :: "'a routine \<Rightarrow> bool" where
  "keeps_evidence m \<longleftrightarrow> (\<forall>db. same_evidence (calendar_of db) (calendar_of (snd (m db))))"

lemma keeps_evidence_bind: "keeps_evidence m \<Longrightarrow> (\<And>v. keeps_evidence (f v)) \<Longrightarrow> keeps_evidence (bindP m f)"
  unfolding keeps_evidence_def bindP_def
  by (auto split: prod.splits sum.splits) (metis same_evidence_trans snd_conv)+

lemma keeps_evidence_basic: "keeps_evidence (retP v)" "keeps_evidence (raiseP e)" "keeps_evidence (readP f)"
  by (simp_all add: keeps_evidence_def same_evidence_refl)

lemma keeps_evidence_log: "e \<noteq> CheckCompleted \<Longrightarrow> keeps_evidence (log_event b e r t)"
  by (auto simp: keeps_evidence_def log_event_def on_calendar_def writeP_def bindR_Inr_iff same_evidence_refl event_row_def
      split: sum.splits intro: add_event_evidence)

lemma keeps_evidence_failed: "keeps_evidence (failed_check b r t)"
  unfolding failed_check_def by (intro keeps_evidence_bind keeps_evidence_log keeps_evidence_basic) simp

lemma keeps_evidence_alert: "keeps_evidence (alert_once en ev)"
  unfolding keeps_evidence_def by (subst alert_once_effect) (simp add: calendar_of_def same_evidence_refl)

lemma keeps_evidence_forP: "(\<And>x. keeps_evidence (f x)) \<Longrightarrow> keeps_evidence (forP f xs)"
  by (induction xs) (auto intro: keeps_evidence_bind keeps_evidence_basic)

lemma keeps_evidence_contested: "keeps_evidence (forP (contested_alert en b t) ds)"
  unfolding contested_alert_def calendar_alert_def
  by (intro keeps_evidence_forP keeps_evidence_bind keeps_evidence_alert keeps_evidence_basic)

lemma alert_once_returns: "\<exists>x. fst (alert_once en ev db) = Inr x"
  by (auto simp: alert_once_def Let_def split: prod.splits)

lemma contested_alert_returns: "fst (contested_alert en b t d db) = Inr ()"
proof -
  let ?m = "calendar_alert en (''calendar_contested:'' @ iso_day d @ '':'' @ venue_value (ck_venue b) @ '':'' @ ck_broker b) ''CALENDAR_CONTESTED'' t"
  obtain x where "fst (?m db) = Inr x" using alert_once_returns by (fastforce simp: calendar_alert_def)
  then obtain db1 where "?m db = (Inr x, db1)" by (metis prod.collapse)
  then show ?thesis unfolding contested_alert_def by simp
qed

lemma contested_alerts_return: "fst (forP (contested_alert en b t) ds db) = Inr ()"
proof (induction ds arbitrary: db)
  case Nil
  then show ?case by simp
next
  case (Cons d ds)
  obtain db1 where "contested_alert en b t d db = (Inr (), db1)"
    using contested_alert_returns [of en b t d db] by (metis prod.collapse)
  then show ?case using Cons.IH by simp
qed
lemma keeps_evidenceD: "keeps_evidence m \<Longrightarrow> m db = (r, db1) \<Longrightarrow> same_evidence (calendar_of db) (calendar_of db1)"
  unfolding keeps_evidence_def by (metis snd_conv)

lemma add_dates_result:
  "add_dates rs ct = Inr ct' \<Longrightarrow> ct_dates ct' = ct_dates ct @ rs \<and> ct_events ct' = ct_events ct \<and> ct_hours ct' = ct_hours ct"
  by (induction rs arbitrary: ct) (auto simp: add_date_def res_iffs)

lemma complete_check_result:
  assumes "complete_check b t rows db = (Inr u, db1)"
  shows "ct_dates (calendar_of db1) = ct_dates (calendar_of db) @ map (date_row b t) rows \<and> ct_hours (calendar_of db1) = ct_hours (calendar_of db)
    \<and> (\<forall>i. check_has (calendar_of db1) i CheckCompleted = (i = ck_id b \<or> check_has (calendar_of db) i CheckCompleted))"
  using assms
  by (auto simp: complete_check_def on_calendar_def writeP_Inr_iff bindR_Inr_iff add_event_def guardR_def check_has_def event_row_def
      dest!: add_dates_result split: if_splits)

text \<open>A check that ran to completion, or one that changed nothing the gate reads.\<close>

lemma run_check_cases:
  assumes "run_check en z c broker v answer now received db = (r, db1)"
  shows "(\<exists>sessions rows d1 d2. answer = Inr sessions \<and> compare_calendar z c v sessions = Inr rows
      \<and> r = Inr \<lparr>co_id = en_fresh en db, co_completed = True,
                 co_contested = map cp_date (filter (\<lambda>r. cp_result r = Contested) rows), co_reason = None\<rparr>
      \<and> same_evidence (calendar_of db) (calendar_of d1)
      \<and> complete_check \<lparr>ck_id = en_fresh en db, ck_broker = broker, ck_venue = v, ck_start = Some (zn_date z now), ck_instrument = None\<rparr>
          received rows d1 = (Inr (), d2)
      \<and> same_evidence (calendar_of d2) (calendar_of db1))
    \<or> (same_evidence (calendar_of db) (calendar_of db1) \<and> (\<forall>o'. r = Inr o' \<longrightarrow> \<not> co_completed o'))"
proof -
  let ?b = "\<lparr>ck_id = en_fresh en db, ck_broker = broker, ck_venue = v, ck_start = Some (zn_date z now), ck_instrument = None\<rparr>"
  have failed: "same_evidence (calendar_of d) (calendar_of db1) \<and> (\<forall>o'. r = Inr o' \<longrightarrow> \<not> co_completed o')"
    if "failed_check ?b reason t d = (r, db1)" for reason t d
    using keeps_evidenceD [OF keeps_evidence_failed that] that
    by (auto simp: failed_check_def bindP_Inr_iff)
  obtain s1 d1 where 1: "log_event ?b CheckStarted None now db = (s1, d1)" by (cases "log_event ?b CheckStarted None now db")
  have e1: "same_evidence (calendar_of db) (calendar_of d1)" by (rule keeps_evidenceD [OF keeps_evidence_log 1]) simp
  show ?thesis
  proof (cases s1)
    case (Inl e)
    with assms 1 have "r = Inl e" "db1 = d1" by (simp_all add: run_check_def Let_def)
    with e1 show ?thesis by simp
  next
    case Inr1: (Inr u)
    show ?thesis
    proof (cases answer)
      case (Inl e)
      with assms 1 Inr1 have "failed_check ?b ''fetch_failed'' now d1 = (r, db1)" by (simp add: run_check_def Let_def)
      with failed e1 same_evidence_trans show ?thesis by blast
    next
      case ans: (Inr sessions)
      obtain s2 d2 where 2: "log_event ?b CheckFetched None received d1 = (s2, d2)" by (cases "log_event ?b CheckFetched None received d1")
      have "same_evidence (calendar_of d1) (calendar_of d2)" by (rule keeps_evidenceD [OF keeps_evidence_log 2]) simp
      with e1 have e2: "same_evidence (calendar_of db) (calendar_of d2)" by (rule same_evidence_trans)
      show ?thesis
      proof (cases s2)
        case (Inl e)
        with assms 1 2 Inr1 ans have "r = Inl e" "db1 = d2" by (simp_all add: run_check_def Let_def)
        with e2 show ?thesis by simp
      next
        case Inr2: (Inr u2)
        show ?thesis
        proof (cases "compare_calendar z c v sessions")
          case (Inl e)
          with assms 1 2 Inr1 Inr2 ans have "failed_check ?b ''response_invalid'' received d2 = (r, db1)" by (simp add: run_check_def Let_def)
          with failed e2 same_evidence_trans show ?thesis by blast
        next
          case cmp: (Inr rows)
          obtain s3 d3 where 3: "complete_check ?b received rows d2 = (s3, d3)" by (cases "complete_check ?b received rows d2")
          show ?thesis
          proof (cases s3)
            case (Inl e)
            with 3 have "d3 = d2" by (auto simp: complete_check_def on_calendar_def dest: writeP_Inl)
            with assms 1 2 3 Inr1 Inr2 ans cmp Inl have "r = Inl e" "db1 = d2" by (simp_all add: run_check_def Let_def)
            with e2 show ?thesis by simp
          next
            case Inr3: (Inr u3)
            let ?ds = "map cp_date (filter (\<lambda>r. cp_result r = Contested) rows)"
            obtain d4 where 4: "forP (contested_alert en ?b received) ?ds d3 = (Inr (), d4)"
              using contested_alerts_return [of en ?b received ?ds d3] by (metis prod.collapse)
            have e4: "same_evidence (calendar_of d3) (calendar_of d4)" by (rule keeps_evidenceD [OF keeps_evidence_contested 4])
            have "r = Inr \<lparr>co_id = en_fresh en db, co_completed = True, co_contested = ?ds, co_reason = None\<rparr>" "db1 = d4"
              using assms 1 2 3 4 Inr1 Inr2 Inr3 ans cmp by (simp_all add: run_check_def Let_def)
            with ans cmp e2 3 Inr3 e4 show ?thesis by auto
          qed
        qed
      qed
    qed
  qed
qed
lemma compare_from_dates: "\<exists>n. map cp_date (compare_from z c v mine ds) = take n ds"
proof (induction ds)
  case Nil
  then show ?case by simp
next
  case (Cons d ds)
  then obtain n where "map cp_date (compare_from z c v mine ds) = take n ds" by blast
  then have "map cp_date (compare_from z c v mine (d # ds)) = take (case session_of z c v d of Inl _ \<Rightarrow> 0 | Inr _ \<Rightarrow> Suc n) (d # ds)"
    by (auto simp: compare_day_def Let_def split: sum.splits)
  then show ?case by blast
qed

lemma compare_distinct: "compare_calendar z c v sessions = Inr rows \<Longrightarrow> distinct (map cp_date rows)"
  by (auto simp: compare_calendar_def Let_def split: if_splits)
    (metis compare_from_dates distinct_take distinct_upto)

lemma sorted_le_last: "sorted xs \<Longrightarrow> x \<in> set xs \<Longrightarrow> x \<le> last xs"
  by (induction xs) auto

lemma last_sort_key:
  assumes "x \<in> set ys" "\<And>y. y \<in> set ys \<Longrightarrow> y \<noteq> x \<Longrightarrow> f y < f x"
  shows "last (sort_key f ys) = x"
proof -
  have ne: "sort_key f ys \<noteq> []" using assms(1) by (metis empty_iff empty_set set_sort)
  have "last (sort_key f ys) \<in> set ys" using last_in_set [OF ne] by simp
  moreover have "f x \<le> f (last (sort_key f ys))"
    using sorted_le_last [of "map f (sort_key f ys)" "f x"] assms(1) ne by (simp add: last_map)
  ultimately show ?thesis using assms(2) by (metis leD)
qed

lemma latest_result_last: "rows_of_broker b rows \<noteq> [] \<Longrightarrow> latest_result b rows = Some (cd_result (last (rows_of_broker b rows)))"
  by (simp add: latest_result_def)

lemma new_row_later:
  assumes "distinct (map cp_date rows)" "r \<in> set rows" "\<forall>x\<in>set old. cd_checked_at x < t"
    and "y \<in> set (old @ map (date_row b t) rows)" "cd_date y = cp_date r" "y \<noteq> date_row b t r"
  shows "cd_checked_at y < t"
proof (cases "y \<in> set old")
  case True
  with assms(3) show ?thesis by blast
next
  case False
  with assms(4) obtain s where s: "s \<in> set rows" "y = date_row b t s" by auto
  with assms(5) have "cp_date s = cp_date r" by (simp add: date_row_def)
  with assms(1,2) s(1) have "s = r" by (simp add: distinct_map inj_on_def)
  with s(2) assms(6) show ?thesis by simp
qed

definition dates_key :: "check_date_row \<Rightarrow> time \<times> string" where
  "dates_key r = (cd_checked_at r, cd_record r)"

lemma rows_of_broker_completed:
  "rows_of_broker br (completed_dates ct v d) = sort_key dates_key
     (filter (\<lambda>r. cd_broker r = br) (filter (\<lambda>r. cd_venue r = v \<and> cd_date r = d \<and> check_has ct (cd_check r) CheckCompleted) (ct_dates ct)))"
  unfolding rows_of_broker_def completed_dates_def dates_key_def by (rule filter_sort)

lemma dates_key_less: "cd_checked_at y < cd_checked_at x \<Longrightarrow> dates_key y < dates_key x"
  by (simp add: dates_key_def)

text \<open>The date rows of a completed check are the latest of its broker.\<close>

lemma completed_check_latest:
  assumes rows: "distinct (map cp_date rows)" and r: "r \<in> set rows"
    and d: "ct_dates ct1 = ct_dates ct @ map (date_row b t) rows" and has: "check_has ct1 (ck_id b) CheckCompleted"
    and later: "\<forall>x\<in>set (ct_dates ct). cd_checked_at x < t"
  shows "latest_result (ck_broker b) (completed_dates ct1 (ck_venue b) (cp_date r)) = Some (cp_result r)"
proof -
  define ys where "ys = filter (\<lambda>x. cd_broker x = ck_broker b)
    (filter (\<lambda>x. cd_venue x = ck_venue b \<and> cd_date x = cp_date r \<and> check_has ct1 (cd_check x) CheckCompleted) (ct_dates ct1))"
  have eq: "rows_of_broker (ck_broker b) (completed_dates ct1 (ck_venue b) (cp_date r)) = sort_key dates_key ys"
    unfolding ys_def by (rule rows_of_broker_completed)
  have x: "date_row b t r \<in> set ys" using r d has by (simp add: ys_def date_row_def)
  have t: "cd_checked_at (date_row b t r) = t" by (simp add: date_row_def)
  have "dates_key y < dates_key (date_row b t r)" if "y \<in> set ys" "y \<noteq> date_row b t r" for y
  proof (rule dates_key_less)
    from that(1) have "y \<in> set (ct_dates ct @ map (date_row b t) rows)" "cd_date y = cp_date r" unfolding ys_def d by auto
    from new_row_later [OF rows r later this that(2)] show "cd_checked_at y < cd_checked_at (date_row b t r)" unfolding t .
  qed
  then have l: "last (sort_key dates_key ys) = date_row b t r" by (rule last_sort_key [OF x])
  have "sort_key dates_key ys \<noteq> []" using x by (metis empty_iff empty_set set_sort)
  then have "latest_result (ck_broker b) (completed_dates ct1 (ck_venue b) (cp_date r)) = Some (cd_result (date_row b t r))"
    using latest_result_last [of "ck_broker b" "completed_dates ct1 (ck_venue b) (cp_date r)"] unfolding eq l by blast
  then show ?thesis by (simp add: date_row_def)
qed

lemma status_not_verified:
  assumes "latest_result br (completed_dates ct v d) = Some Contested" "br \<in> set (cg_brokers g)" "v \<noteq> CRYPTO_MARKET"
  shows "gate_status g ct v d t \<noteq> Verified_Date"
  using assms by (auto simp: gate_status_def Let_def list_ex_iff)

lemma window_needs_verified:
  assumes "entry_window_open g ct m broker a t k = Inr w" "ew_open w" "venue_for a \<noteq> CRYPTO_MARKET"
  shows "gate_status g ct (venue_for a) (zn_date (cg_zone g) t) t = Verified_Date"
  using assms by (auto simp: entry_window_open_def Let_def closed_window_def split: if_splits)

text \<open>a calendar check that fails, is interrupted, or raises confers nothing: the status of
  every date and every instrument's close stay as they were. A completed one that found a
  date contested closes the entry window of its venue on that date, for every gate that
  the checking broker is connected to, whatever was verified before.\<close>

theorem only_completed_checks_confer:
  assumes "run_check en z c broker v answer now received db = (r, db1)" and "broker \<in> set (cg_brokers g)" and "v \<noteq> CRYPTO_MARKET"
    and "\<forall>x\<in>set (ct_dates (calendar_of db)). cd_checked_at x < received"
  shows "((\<forall>o'. r = Inr o' \<longrightarrow> \<not> co_completed o') \<longrightarrow>
      gate_status g (calendar_of db1) v' d t = gate_status g (calendar_of db) v' d t
      \<and> instrument_close g (calendar_of db1) b a t = instrument_close g (calendar_of db) b a t)
    \<and> (\<forall>o' a m k t w. r = Inr o' \<and> co_completed o' \<and> zn_date (cg_zone g) t \<in> set (co_contested o') \<and> venue_for a = v
        \<and> entry_window_open g (calendar_of db1) m broker a t k = Inr w \<longrightarrow> \<not> ew_open w)"
proof -
  let ?b = "\<lparr>ck_id = en_fresh en db, ck_broker = broker, ck_venue = v, ck_start = Some (zn_date z now), ck_instrument = None\<rparr>"
  from run_check_cases [OF assms(1)] show ?thesis
  proof (elim disjE exE conjE)
    fix sessions rows d1 d2
    assume cmp: "compare_calendar z c v sessions = Inr rows"
      and r: "r = Inr \<lparr>co_id = en_fresh en db, co_completed = True, co_contested = map cp_date (filter (\<lambda>r. cp_result r = Contested) rows), co_reason = None\<rparr>"
      and e1: "same_evidence (calendar_of db) (calendar_of d1)"
      and cc: "complete_check ?b received rows d1 = (Inr (), d2)"
      and e2: "same_evidence (calendar_of d2) (calendar_of db1)"
    note res = complete_check_result [OF cc]
    have ds: "ct_dates (calendar_of db1) = ct_dates (calendar_of db) @ map (date_row ?b received) rows"
      and has: "check_has (calendar_of db1) (ck_id ?b) CheckCompleted"
      using res e1 e2 by (simp_all add: same_evidence_def)
    have contested: "gate_status g (calendar_of db1) v x t \<noteq> Verified_Date"
      if x: "x \<in> set (map cp_date (filter (\<lambda>r. cp_result r = Contested) rows))" for x t
    proof -
      from x obtain cr where cr: "cr \<in> set rows" "cp_result cr = Contested" "cp_date cr = x" by auto
      have "latest_result broker (completed_dates (calendar_of db1) v x) = Some Contested"
        using completed_check_latest [OF compare_distinct [OF cmp] cr(1) ds has assms(4)] cr by simp
      with status_not_verified assms(2,3) show ?thesis by blast
    qed
    have "\<not> ew_open w" if "zn_date (cg_zone g) t \<in> set (map cp_date (filter (\<lambda>r. cp_result r = Contested) rows))" "venue_for a = v"
      "entry_window_open g (calendar_of db1) m broker a t k = Inr w" for a m k t w
      using window_needs_verified [OF that(3)] contested [OF that(1), of t] that(2) assms(3) by blast
    then show ?thesis unfolding r sum.inject(2) by (auto simp del: set_map set_filter)
  next
    assume "same_evidence (calendar_of db) (calendar_of db1)" and n: "\<forall>o'. r = Inr o' \<longrightarrow> \<not> co_completed o'"
    with same_evidence_status [OF this(1)] show ?thesis by auto
  qed
qed
subsection \<open>What an open entry window means\<close>

definition date_agreed :: "cal_gate \<Rightarrow> calendar_tables \<Rightarrow> venue \<Rightarrow> day \<Rightarrow> time \<Rightarrow> string \<Rightarrow> bool" where
  "date_agreed g ct v d now br \<longleftrightarrow> latest_result br (completed_dates ct v d) = Some Agreed
     \<and> (\<exists>r\<in>set (ct_dates ct). cd_broker r = br \<and> cd_venue r = v \<and> cd_date r = d \<and> cd_result r = Agreed
          \<and> check_has ct (cd_check r) CheckCompleted \<and> check_fresh g (cd_checked_at r) now)"

definition hours_cover :: "cal_gate \<Rightarrow> calendar_tables \<Rightarrow> string \<Rightarrow> asset_identity \<Rightarrow> cal_session \<Rightarrow> time \<Rightarrow> bool" where
  "hours_cover g ct broker a s t \<longleftrightarrow> (\<exists>h\<in>set (ct_hours ct). hr_broker h = broker \<and> hr_instrument h = asset_identity_key a
     \<and> hr_date h = zn_date (cg_zone g) t \<and> check_has ct (hr_check h) CheckCompleted \<and> check_fresh g (hr_checked_at h) t
     \<and> t < hr_close h \<and> cs_close s \<le> hr_close h)"

lemma status_verified:
  assumes "gate_status g ct v d t = Verified_Date" "v \<noteq> CRYPTO_MARKET" "br \<in> set (cg_brokers g)"
  shows "date_agreed g ct v d t br"
  using assms
  by (auto simp: gate_status_def Let_def date_agreed_def freshly_agreed_def rows_of_broker_def completed_dates_def list_ex_iff list_all_iff
      split: if_splits)

lemma latest_hours_in:
  assumes "latest_hours ct broker key d = Some h"
  shows "h \<in> set (ct_hours ct) \<and> hr_broker h = broker \<and> hr_instrument h = key \<and> hr_date h = d \<and> check_has ct (hr_check h) CheckCompleted"
proof -
  let ?hs = "filter (\<lambda>h. hr_broker h = broker \<and> hr_instrument h = key \<and> hr_date h = d \<and> check_has ct (hr_check h) CheckCompleted) (ct_hours ct)"
  from assms obtain x xs where hs: "?hs = x # xs" and h: "h = min_by (\<lambda>x. - hr_checked_at x) x xs"
    by (auto simp: latest_hours_def split: list.splits)
  have "h \<in> set ?hs" unfolding h hs by (rule min_by_in)
  then show ?thesis by simp
qed

lemma instrument_close_covers:
  assumes "instrument_close g ct broker a t = Inr (Some close)" "session_of (cg_zone g) (cg_calendar g) US_OPTION (zn_date (cg_zone g) t) = Inr (Some s)"
  shows "hours_cover g ct broker a s t"
proof -
  from assms obtain h where "latest_hours ct broker (asset_identity_key a) (zn_date (cg_zone g) t) = Some h"
    and "check_fresh g (hr_checked_at h) t" "t < hr_close h" "cs_close s \<le> hr_close h"
    by (auto simp: instrument_close_def Let_def bindR_Inr_iff split: if_splits option.splits)
  with latest_hours_in show ?thesis unfolding hours_cover_def by blast
qed

text \<open>C16: an entry window is open for a stock or an option only on evidence: the latest completed
  check of every connected broker agrees with the calendar on that venue and date, and is at
  most three sessions old; no clock disagreement is active; and the instant lies inside the
  calendar's regular session with the broker's clock open, or, for an option after the close,
  inside the instrument's own freshly verified hours with no disagreement that day.\<close>

theorem entry_window_sound:
  assumes "entry_window_open g ct m broker a t k = Inr w" and "ew_open w" and "a_class a \<noteq> CRYPTO"
  shows "\<not> cm_active m \<and> (\<forall>br\<in>set (cg_brokers g). date_agreed g ct (venue_for a) (zn_date (cg_zone g) t) t br)
    \<and> (\<exists>s. session_of (cg_zone g) (cg_calendar g) (venue_for a) (zn_date (cg_zone g) t) = Inr (Some s)
         \<and> (cs_open s \<le> t \<and> t < cs_close s \<and> bc_is_open k
            \<or> a_class a = OPTION \<and> cs_close s \<le> t \<and> \<not> bc_is_open k \<and> hours_cover g ct broker a s t
              \<and> \<not> episode_on m (zn_date (cg_zone g) t)))"
proof -
  have v: "venue_for a \<noteq> CRYPTO_MARKET" using assms(3) by (simp add: venue_for_def)
  have st: "gate_status g ct (venue_for a) (zn_date (cg_zone g) t) t = Verified_Date" by (rule window_needs_verified [OF assms(1,2) v])
  with assms(1,2) v have "\<not> cm_active m" by (auto simp: entry_window_open_def closed_window_def split: if_splits)
  with assms(1) v st obtain so where so: "session_of (cg_zone g) (cg_calendar g) (venue_for a) (zn_date (cg_zone g) t) = Inr so"
    and w: "(if in_hours so t \<and> bc_is_open k then Inr (open_window Regular_Session)
             else (case so of
                     Some s \<Rightarrow> if venue_for a = US_OPTION \<and> cs_close s \<le> t then after_close_window g ct m broker a t k s
                              else Inr (closed_by_clock (venue_for a) k)
                   | None \<Rightarrow> Inr (closed_by_clock (venue_for a) k))) = Inr w"
    by (auto simp: entry_window_open_def Let_def bindR_Inr_iff)
  have closed: "\<not> ew_open (closed_by_clock x k)" for x by (simp add: closed_by_clock_def closed_window_def)
  have "\<exists>s. so = Some s \<and> (cs_open s \<le> t \<and> t < cs_close s \<and> bc_is_open k
      \<or> a_class a = OPTION \<and> cs_close s \<le> t \<and> \<not> bc_is_open k \<and> hours_cover g ct broker a s t \<and> \<not> episode_on m (zn_date (cg_zone g) t))"
  proof (cases so)
    case None
    with w closed assms(2) show ?thesis by (auto simp: in_hours_def)
  next
    case (Some s)
    show ?thesis
    proof (cases "in_hours so t \<and> bc_is_open k")
      case True
      with Some show ?thesis by (auto simp: in_hours_def)
    next
      case False
      with w Some closed assms(2) have opt: "venue_for a = US_OPTION" "cs_close s \<le> t" and aw: "after_close_window g ct m broker a t k s = Inr w"
        by (auto split: if_splits)
      from aw assms(2) closed obtain close where "instrument_close g ct broker a t = Inr (Some close)" "\<not> bc_is_open k"
        "\<not> episode_on m (zn_date (cg_zone g) t)"
        by (auto simp: after_close_window_def bindR_Inr_iff closed_window_def split: if_splits)
      moreover have "a_class a = OPTION" using opt by (simp add: venue_for_def split: if_splits)
      ultimately show ?thesis using instrument_close_covers so Some opt by fastforce
    qed
  qed
  with so st v \<open>\<not> cm_active m\<close> status_verified show ?thesis by auto
qed
subsection \<open>Concrete calendars\<close>

definition utc_zone :: zone where
  "utc_zone = \<lparr>zn_date = (\<lambda>t. t div 86400000000), zn_instant = (\<lambda>d t. d * 86400000000 + t)\<rparr>"

definition demo_calendar :: market_cal where
  "demo_calendar = new_calendar [(10, 10 * 86400000000 + hour_minute 9 30, 10 * 86400000000 + hour_minute 16 0)] 0 20 False"

definition demo_gate :: cal_gate where
  "demo_gate = \<lparr>cg_zone = utc_zone, cg_calendar = demo_calendar, cg_brokers = [''alpaca'']\<rparr>"

definition demo_checks :: calendar_tables where
  "demo_checks = \<lparr>ct_events = [\<lparr>ce_check = ''c1'', ce_event = CheckCompleted, ce_broker = ''alpaca'', ce_venue = US_EQUITY, ce_range_start = Some 10,
       ce_instrument = None, ce_reason = None, ce_at = 10 * 86400000000\<rparr>],
     ct_dates = [\<lparr>cd_check = ''c1'', cd_broker = ''alpaca'', cd_venue = US_EQUITY, cd_date = 10, cd_result = Agreed, cd_checked_at = 10 * 86400000000,
       cd_record = ''c1|alpaca|us_equity|1970-01-11''\<rparr>], ct_hours = []\<rparr>"

definition demo_noon :: time where "demo_noon = 10 * 86400000000 + hour_minute 12 0"

definition demo_clock :: broker_clock where "demo_clock = \<lparr>bc_is_open = True, bc_next_open = None\<rparr>"

definition demo_check_ledger :: ledger where
  "demo_check_ledger = with_calendar demo_checks demo_ledger"

definition demo_check_env :: env where
  "demo_check_env = \<lparr>en_fresh = (\<lambda>_. ''c2''), en_stamp = (\<lambda>_. demo_noon), en_alerts_configured = False, en_alert_lease = (\<lambda>_. False),
     en_alert_sent = (\<lambda>_. False)\<rparr>"

lemma demo_status: "gate_status demo_gate demo_checks US_EQUITY 10 demo_noon = Verified_Date"
  by code_simp

lemma demo_session: "session_of utc_zone demo_calendar US_EQUITY 10
   = Inr (Some \<lparr>cs_venue = US_EQUITY, cs_date = 10, cs_open = 10 * 86400000000 + hour_minute 9 30, cs_close = 10 * 86400000000 + hour_minute 16 0, cs_early = False\<rparr>)"
  by code_simp

lemma demo_noon_date: "zn_date utc_zone demo_noon = 10"
  by code_simp

lemma demo_window: "entry_window_open demo_gate demo_checks new_monitor ''alpaca'' (demo_asset EQUITY None ''X'') demo_noon demo_clock = Inr (open_window Regular_Session)"
  by code_simp

theorem entry_window_sound_witness:
  "date_agreed demo_gate demo_checks US_EQUITY 10 demo_noon ''alpaca''
   \<and> cs_open (the (projr (session_of utc_zone demo_calendar US_EQUITY 10))) \<le> demo_noon"
proof -
  have "ew_open (open_window Regular_Session)" "a_class (demo_asset EQUITY None ''X'') \<noteq> CRYPTO" "venue_for (demo_asset EQUITY None ''X'') = US_EQUITY"
    "a_class (demo_asset EQUITY None ''X'') \<noteq> OPTION"
    by (simp_all add: open_window_def demo_asset_def venue_for_def)
  from entry_window_sound [OF demo_window this(1,2)] this(3,4) show ?thesis
    by (auto simp: demo_gate_def demo_noon_date)
qed

theorem only_completed_checks_confer_witness:
  "gate_status demo_gate (calendar_of (snd (run_check demo_check_env utc_zone demo_calendar ''alpaca'' US_EQUITY (Inl (BrokerError ''down''))
      demo_noon demo_noon demo_check_ledger))) US_EQUITY 10 demo_noon = Verified_Date"
proof -
  let ?p = "run_check demo_check_env utc_zone demo_calendar ''alpaca'' US_EQUITY (Inl (BrokerError ''down'')) demo_noon demo_noon demo_check_ledger"
  have "\<not> co_completed o'" if "fst ?p = Inr o'" for o'
    using that by (auto simp: run_check_def Let_def failed_check_def bindP_def split: prod.splits sum.splits)
  moreover have "?p = (fst ?p, snd ?p)" by simp
  moreover have "''alpaca'' \<in> set (cg_brokers demo_gate)" by (simp add: demo_gate_def)
  moreover have "\<forall>x\<in>set (ct_dates (calendar_of demo_check_ledger)). cd_checked_at x < demo_noon"
    by (simp add: demo_check_ledger_def demo_checks_def demo_noon_def hour_minute_def)
  ultimately have "gate_status demo_gate (calendar_of (snd ?p)) US_EQUITY 10 demo_noon
      = gate_status demo_gate (calendar_of demo_check_ledger) US_EQUITY 10 demo_noon"
    using only_completed_checks_confer [of demo_check_env utc_zone demo_calendar "''alpaca''" US_EQUITY "Inl (BrokerError ''down'')" demo_noon demo_noon
        demo_check_ledger "fst ?p" "snd ?p" demo_gate US_EQUITY 10 demo_noon] by blast
  then show ?thesis by (simp add: demo_check_ledger_def demo_status)
qed

end
