(* ===== verification/Baseline.thy ===== *)
theory Baseline
  imports Calendar_Checks Dbae
begin

text \<open>
  The session baseline of the entry policy, \<open>dbae/baseline.py\<close>: the account's closing equity on
  the trading date before the session, captured once per session from the broker's daily
  bars, cross-checked against \<open>last_equity\<close>, and the equity that chooses the band. The bars
  are the broker's answer; a failed read is an error value.
\<close>

record daily_bar =
  bar_date :: day
  bar_equity :: xdec

datatype baseline_result = VerifiedBaseline session_baseline | RefusedBaseline string

definition BASELINE_REASON :: string where "BASELINE_REASON = ''DBAE_SESSION_BASELINE_UNVERIFIED''"

definition AGREEMENT_TOLERANCE :: dec where "AGREEMENT_TOLERANCE = 1 / 100"

definition SESSION_SEARCH_DAYS :: int where "SESSION_SEARCH_DAYS = 14"

definition latest_session_on_or_before :: "zone \<Rightarrow> market_cal \<Rightarrow> day \<Rightarrow> day res" where
  "latest_session_on_or_before z c d =
     bindR (sessions_between z c US_EQUITY (d - SESSION_SEARCH_DAYS) d) (\<lambda>ss.
       if ss = [] then Inl (ValueError ''NO_RECENT_SESSION'') else Inr (cs_date (last ss)))"

definition session_date_for :: "zone \<Rightarrow> market_cal \<Rightarrow> time \<Rightarrow> day res" where
  "session_date_for z c now = latest_session_on_or_before z c (zn_date z now)"

definition previous_trading_date :: "zone \<Rightarrow> market_cal \<Rightarrow> day \<Rightarrow> day res" where
  "previous_trading_date z c d = latest_session_on_or_before z c (d - 1)"

definition band_equity :: "dec option \<Rightarrow> baseline_result \<Rightarrow> dec option" where
  "band_equity current b =
     (case (b, current) of (VerifiedBaseline s, Some e) \<Rightarrow> Some (min e (sb_previous_close s)) | _ \<Rightarrow> None)"

subsection \<open>Audit\<close>

definition note_event :: "audit_event \<Rightarrow> unit routine" where
  "note_event ev db = (Inr (), snd (record_audit ev db))"

definition baseline_event :: "string \<Rightarrow> string \<Rightarrow> string \<Rightarrow> string \<Rightarrow> day \<Rightarrow> time \<Rightarrow> audit_event" where
  "baseline_event i ty sev msg d t =
     \<lparr>ae_id = i, ae_type = ty, ae_severity = sev, ae_message = msg, ae_at = t, ae_entity_type = ''dbae_session_baseline'',
      ae_entity_id = iso_day d, ae_details = [(''session_date'', Some (iso_day d))]\<rparr>"

definition refuse_baseline :: "day \<Rightarrow> string \<Rightarrow> time \<Rightarrow> baseline_result routine" where
  "refuse_baseline d check now =
     bindP (note_event (baseline_event (''dbae_baseline_unverified:'' @ iso_day d @ '':'' @ check) ''dbae_session_baseline_unverified''
              ''warning'' (''DBAE_SESSION_BASELINE_UNVERIFIED: '' @ check) d now)) (\<lambda>_. retP (RefusedBaseline check))"

definition record_captured :: "session_baseline \<Rightarrow> unit routine" where
  "record_captured b =
     note_event (baseline_event (''dbae_baseline_captured:'' @ iso_day (sb_session_date b)) ''dbae_session_baseline_captured'' ''info''
       ''DBAE session baseline'' (sb_session_date b) (sb_captured_at b))"

subsection \<open>The stored baseline\<close>

definition baselines :: "ledger \<Rightarrow> session_baseline option tbl" where
  "baselines db = ev_baselines (db_evidence db)"

definition with_baselines :: "session_baseline option tbl \<Rightarrow> ledger \<Rightarrow> ledger" where
  "with_baselines t db = db\<lparr>db_evidence := (db_evidence db)\<lparr>ev_baselines := t\<rparr>\<rparr>"

text \<open>A stored row is never replaced; one that cannot be decoded, or is of another date, refuses.\<close>

definition stored_baseline :: "session_baseline option \<Rightarrow> day \<Rightarrow> time \<Rightarrow> baseline_result routine" where
  "stored_baseline row d now =
     (case row of
        None \<Rightarrow> refuse_baseline d ''baseline_corrupt'' now
      | Some b \<Rightarrow>
          if sb_session_date b \<noteq> d then refuse_baseline d ''baseline_corrupt'' now
          else bindP (record_captured b) (\<lambda>_. retP (VerifiedBaseline b)))"

definition store_baseline :: "env \<Rightarrow> session_baseline \<Rightarrow> bool routine" where
  "store_baseline en b =
     create_in en ''dbae_session_baselines'' baselines (\<lambda>f db. with_baselines (f (baselines db)) db) (iso_day (sb_session_date b))
       None None None (Some b)"

definition read_bars :: "daily_bar list res \<Rightarrow> daily_bar list option res" where
  "read_bars answer =
     (case answer of
        Inr bars \<Rightarrow> Inr (Some bars)
      | Inl (BrokerError m) \<Rightarrow> Inr None
      | Inl (ValueError m) \<Rightarrow> Inr None
      | Inl e \<Rightarrow> Inl e)"

subsection \<open>Capture\<close>

text \<open>The bar for exactly the previous trading date, or the check that failed.\<close>

definition previous_close :: "daily_bar list \<Rightarrow> day \<Rightarrow> string + dec" where
  "previous_close bars previous =
     (case filter (\<lambda>b. bar_date b = previous) bars of
        [] \<Rightarrow> Inl ''previous_bar_missing''
      | [b] \<Rightarrow> (case bar_equity b of Fin q \<Rightarrow> if q < 0 then Inl ''previous_bar_invalid'' else Inr q | _ \<Rightarrow> Inl ''previous_bar_invalid'')
      | _ \<Rightarrow> Inl ''previous_bar_ambiguous'')"

definition agreed_close :: "daily_bar list \<Rightarrow> day \<Rightarrow> dec \<Rightarrow> string + dec" where
  "agreed_close bars previous last_equity =
     (case previous_close bars previous of
        Inl check \<Rightarrow> Inl check
      | Inr close \<Rightarrow> if AGREEMENT_TOLERANCE < dabs (dsub close last_equity) then Inl ''last_equity_disagrees'' else Inr close)"

definition capture_baseline :: "env \<Rightarrow> session_baseline \<Rightarrow> time \<Rightarrow> baseline_result routine" where
  "capture_baseline en b now =
     bindP (store_baseline en b) (\<lambda>created.
       if created then bindP (record_captured b) (\<lambda>_. retP (VerifiedBaseline b))
       else bindP (readP (\<lambda>db. get_row (baselines db) (iso_day (sb_session_date b)))) (\<lambda>winner.
            case winner of
              None \<Rightarrow> raiseP (RuntimeErrorExc ''dbae_session_baselines: neither inserted nor present'')
            | Some r \<Rightarrow> stored_baseline (r_payload r) (sb_session_date b) now))"

definition capture_from ::
  "env \<Rightarrow> daily_bar list res \<Rightarrow> xdec option \<Rightarrow> day \<Rightarrow> day \<Rightarrow> time \<Rightarrow> baseline_result routine" where
  "capture_from en answer last_equity d previous now =
     (case last_equity of
        Some (Fin le) \<Rightarrow>
          bindP (liftP (read_bars answer)) (\<lambda>bars.
            case bars of
              None \<Rightarrow> refuse_baseline d ''history_unavailable'' now
            | Some bs \<Rightarrow> (case agreed_close bs previous le of
                  Inl check \<Rightarrow> refuse_baseline d check now
                | Inr close \<Rightarrow> capture_baseline en
                    \<lparr>sb_session_date = d, sb_previous_date = previous, sb_previous_close = close, sb_last_equity = le, sb_captured_at = now\<rparr> now))
      | _ \<Rightarrow> refuse_baseline d ''last_equity_unknown'' now)"

definition baseline_dates :: "zone \<Rightarrow> market_cal \<Rightarrow> time \<Rightarrow> (day \<times> day) res" where
  "baseline_dates z c now = bindR (session_date_for z c now) (\<lambda>d. bindR (previous_trading_date z c d) (\<lambda>p. Inr (d, p)))"

definition load_or_capture_baseline ::
  "env \<Rightarrow> cal_gate \<Rightarrow> daily_bar list res \<Rightarrow> xdec option \<Rightarrow> time \<Rightarrow> baseline_result routine" where
  "load_or_capture_baseline en g answer last_equity now =
     (case baseline_dates (cg_zone g) (cg_calendar g) now of
        Inl (HorizonExceeded m) \<Rightarrow> refuse_baseline (zn_date (cg_zone g) now) ''calendar_beyond_horizon'' now
      | Inl (ValueError m) \<Rightarrow> refuse_baseline (zn_date (cg_zone g) now) ''calendar_no_recent_session'' now
      | Inl e \<Rightarrow> raiseP e
      | Inr (d, previous) \<Rightarrow>
          bindP (readP (\<lambda>db. get_row (baselines db) (iso_day d))) (\<lambda>stored.
            case stored of
              Some r \<Rightarrow> stored_baseline (r_payload r) d now
            | None \<Rightarrow> bindP (readP (\<lambda>db. gate_status g (calendar_of db) US_EQUITY d now)) (\<lambda>st.
                if st \<noteq> Verified_Date then refuse_baseline d (''calendar_'' @ cal_status_value st) now
                else capture_from en answer last_equity d previous now)))"
subsection \<open>One baseline per session\<close>

lemma baselines_with [simp]: "baselines (with_baselines t db) = t"
  by (simp add: baselines_def with_baselines_def)

lemma note_event_baselines: "note_event ev db = (r, db1) \<Longrightarrow> r = Inr () \<and> baselines db1 = baselines db"
  by (auto simp: note_event_def record_audit_def baselines_def split: if_splits)

lemma refuse_baseline_result:
  "refuse_baseline d check now db = (r, db1) \<Longrightarrow> r = Inr (RefusedBaseline check) \<and> baselines db1 = baselines db"
  by (auto simp: refuse_baseline_def note_event_def bindP_def baselines_def record_audit_def split: if_splits)

lemma record_captured_result: "record_captured b db = (r, db1) \<Longrightarrow> r = Inr () \<and> baselines db1 = baselines db"
  unfolding record_captured_def by (rule note_event_baselines)

lemma stored_baseline_result:
  assumes "stored_baseline row d now db = (r, db1)"
  shows "baselines db1 = baselines db \<and> (\<forall>b. r = Inr (VerifiedBaseline b) \<longrightarrow> row = Some b \<and> sb_session_date b = d)"
  using assms
  by (auto simp: stored_baseline_def bindP_def split: option.splits if_splits prod.splits sum.splits
      dest!: refuse_baseline_result record_captured_result)

lemma stored_baseline_again: "sb_session_date b = d \<Longrightarrow> fst (stored_baseline (Some b) d now db) = Inr (VerifiedBaseline b)"
  by (auto simp: stored_baseline_def record_captured_def note_event_def bindP_def)

lemma store_baseline_result:
  "store_baseline en b db = (Inr created, db1) \<Longrightarrow>
     (\<exists>x. r_id x = iso_day (sb_session_date b) \<and> r_payload x = Some b \<and> r_unique x = None
        \<and> baselines db1 = snd (insert_or_ignore x (baselines db)) \<and> created = fst (insert_or_ignore x (baselines db)))"
  unfolding store_baseline_def
  by (drule create_in_writes, intro exI [of _ "new_row en db (iso_day (sb_session_date b)) None None (Some b)"])
    (simp add: new_row_def)

text \<open>What a call leaves of the stored rows, and what a verified answer is.\<close>

definition baseline_kept :: "ledger \<Rightarrow> ledger \<Rightarrow> bool" where
  "baseline_kept db db1 \<longleftrightarrow> (\<forall>k x. get_row (baselines db) k = Some x \<longrightarrow> get_row (baselines db1) k = Some x)"

lemma baseline_kept_same: "baselines db1 = baselines db \<Longrightarrow> baseline_kept db db1"
  by (simp add: baseline_kept_def)

lemma capture_baseline_result:
  assumes "capture_baseline en b now db = (r, db1)"
  shows "baseline_kept db db1 \<and> ((\<forall>b'. r \<noteq> Inr (VerifiedBaseline b')) \<longrightarrow> baselines db1 = baselines db)
    \<and> (\<forall>b'. r = Inr (VerifiedBaseline b') \<longrightarrow> sb_session_date b' = sb_session_date b
         \<and> (\<exists>x. get_row (baselines db1) (iso_day (sb_session_date b)) = Some x \<and> r_payload x = Some b')
         \<and> (get_row (baselines db) (iso_day (sb_session_date b)) = None \<longrightarrow> b' = b))"
proof -
  obtain s d1 where s: "store_baseline en b db = (s, d1)" by (cases "store_baseline en b db")
  show ?thesis
  proof (cases s)
    case (Inl e)
    with s have "d1 = db" by (auto simp: store_baseline_def create_in_def dest: writeP_Inl)
    with assms s Inl have "r = Inl e \<and> db1 = db" by (simp add: capture_baseline_def)
    then show ?thesis by (simp add: baseline_kept_same)
  next
    case (Inr created)
    with s have sb: "store_baseline en b db = (Inr created, d1)" by simp
    from store_baseline_result [OF this] obtain x where x: "r_id x = iso_day (sb_session_date b)" "r_payload x = Some b" "r_unique x = None"
      and d1: "baselines d1 = snd (insert_or_ignore x (baselines db))" and cr: "created = fst (insert_or_ignore x (baselines db))" by (elim exE conjE)
    have kept: "baseline_kept db d1" unfolding baseline_kept_def d1 using get_insert_kept by blast
    show ?thesis
    proof (cases created)
      case True
      obtain u d2 where rc: "record_captured b d1 = (u, d2)" by (cases "record_captured b d1")
      then have u: "u = Inr ()" "baselines d2 = baselines d1" using record_captured_result by blast+
      have "store_baseline en b db = (Inr True, d1)" using s Inr True by simp
      with assms rc u(1) have "r = Inr (VerifiedBaseline b) \<and> db1 = d2" by (auto simp: capture_baseline_def bindP_def)
      with u(2) have r: "r = Inr (VerifiedBaseline b)" "baselines db1 = baselines d1" by simp_all
      from True cr x(3) have "get_row (baselines db) (r_id x) = None" by (auto simp: insert_or_ignore_def split: if_splits)
      with d1 x have "get_row (baselines d1) (iso_day (sb_session_date b)) = Some x" by (simp add: insert_or_ignore_def)
      then have "get_row (baselines db1) (iso_day (sb_session_date b)) = Some x" by (simp add: r(2))
      moreover have "baseline_kept db db1" using kept by (simp add: baseline_kept_def r(2))
      ultimately show ?thesis using r(1) x(2) by simp
    next
      case False
      with cr d1 have same: "baselines d1 = baselines db" by (auto simp: insert_or_ignore_def split: if_splits)
      from False cr x(1,3) obtain w where w: "get_row (baselines db) (iso_day (sb_session_date b)) = Some w"
        by (auto simp: insert_or_ignore_def split: if_splits)
      have "store_baseline en b db = (Inr False, d1)" using s Inr False by simp
      moreover have "get_row (baselines d1) (iso_day (sb_session_date b)) = Some w" using w same by simp
      ultimately have "stored_baseline (r_payload w) (sb_session_date b) now d1 = (r, db1)"
        using assms by (auto simp: capture_baseline_def bindP_def)
      note st = stored_baseline_result [OF this]
      then have same1: "baselines db1 = baselines db" using same by simp
      have "sb_session_date b' = sb_session_date b \<and> (\<exists>x. get_row (baselines db1) (iso_day (sb_session_date b)) = Some x \<and> r_payload x = Some b')"
        if "r = Inr (VerifiedBaseline b')" for b'
        using st that w unfolding same1 by blast
      then show ?thesis using baseline_kept_same [OF same1] same1 w by (metis option.distinct(1))
    qed
  qed
qed

lemma agreed_close_bar:
  "agreed_close bars p le = Inr q \<Longrightarrow> (\<exists>x. filter (\<lambda>y. bar_date y = p) bars = [x] \<and> bar_equity x = Fin q) \<and> 0 \<le> q \<and> dabs (dsub q le) \<le> AGREEMENT_TOLERANCE"
  by (auto simp: agreed_close_def previous_close_def split: list.splits xdec.splits sum.splits if_splits)

text \<open>The evidence a captured baseline rests on.\<close>

definition captured_on :: "cal_gate \<Rightarrow> ledger \<Rightarrow> daily_bar list res \<Rightarrow> xdec option \<Rightarrow> time \<Rightarrow> session_baseline \<Rightarrow> bool" where
  "captured_on g db answer le now b \<longleftrightarrow> gate_status g (calendar_of db) US_EQUITY (sb_session_date b) now = Verified_Date
     \<and> le = Some (Fin (sb_last_equity b)) \<and> sb_captured_at b = now
     \<and> (\<exists>bars x. answer = Inr bars \<and> filter (\<lambda>y. bar_date y = sb_previous_date b) bars = [x] \<and> bar_equity x = Fin (sb_previous_close b))
     \<and> 0 \<le> sb_previous_close b \<and> dabs (dsub (sb_previous_close b) (sb_last_equity b)) \<le> AGREEMENT_TOLERANCE"

lemma capture_from_result:
  assumes "capture_from en answer le d p now db = (r, db1)"
  shows "baseline_kept db db1 \<and> ((\<forall>b. r \<noteq> Inr (VerifiedBaseline b)) \<longrightarrow> baselines db1 = baselines db)
    \<and> (\<forall>b. r = Inr (VerifiedBaseline b) \<longrightarrow> sb_session_date b = d \<and> (\<exists>x. get_row (baselines db1) (iso_day d) = Some x \<and> r_payload x = Some b)
         \<and> (get_row (baselines db) (iso_day d) = None \<longrightarrow> sb_previous_date b = p \<and> le = Some (Fin (sb_last_equity b)) \<and> sb_captured_at b = now
              \<and> (\<exists>bars. answer = Inr bars \<and> agreed_close bars p (sb_last_equity b) = Inr (sb_previous_close b))))"
proof -
  have refused: ?thesis if "refuse_baseline d check t db = (r, db1)" for check t
    using refuse_baseline_result [OF that] baseline_kept_same by auto
  show ?thesis
  proof (cases "\<exists>q. le = Some (Fin q)")
    case False
    then have "capture_from en answer le d p now = refuse_baseline d ''last_equity_unknown'' now"
      by (auto simp: capture_from_def split: option.splits xdec.splits)
    with assms have "refuse_baseline d ''last_equity_unknown'' now db = (r, db1)" by simp
    then show ?thesis by (rule refused)
  next
    case True
    then obtain q where q: "le = Some (Fin q)" by blast
    show ?thesis
    proof (cases "read_bars answer")
      case (Inl e)
      with assms q have "r = Inl e \<and> db1 = db" by (simp add: capture_from_def)
      then show ?thesis by (simp add: baseline_kept_same)
    next
      case (Inr bars)
      show ?thesis
      proof (cases bars)
        case None
        with assms q Inr have "refuse_baseline d ''history_unavailable'' now db = (r, db1)" by (simp add: capture_from_def)
        then show ?thesis by (rule refused)
      next
        case (Some bs)
        have ans: "answer = Inr bs" using Inr Some by (auto simp: read_bars_def split: sum.splits exc.splits)
        show ?thesis
        proof (cases "agreed_close bs p q")
          case (Inl check)
          with assms q Inr Some have "refuse_baseline d check now db = (r, db1)" by (simp add: capture_from_def)
          then show ?thesis by (rule refused)
        next
          case close: (Inr close)
          let ?b = "\<lparr>sb_session_date = d, sb_previous_date = p, sb_previous_close = close, sb_last_equity = q, sb_captured_at = now\<rparr>"
          from assms q Inr Some close have "capture_baseline en ?b now db = (r, db1)" by (simp add: capture_from_def)
          note cb = capture_baseline_result [OF this, simplified]
          have "sb_previous_date b = p \<and> le = Some (Fin (sb_last_equity b)) \<and> sb_captured_at b = now
              \<and> (\<exists>bars. answer = Inr bars \<and> agreed_close bars p (sb_last_equity b) = Inr (sb_previous_close b))"
            if "r = Inr (VerifiedBaseline b)" "get_row (baselines db) (iso_day d) = None" for b
          proof -
            from cb that have "b = ?b" by blast
            with ans q close show ?thesis by simp
          qed
          with cb show ?thesis by blast
        qed
      qed
    qed
  qed
qed
text \<open>C17: the baseline of a session is captured once. Whatever a call returns, no stored row
  changes, and a refusal stores nothing. A verified baseline is of the current session and is
  stored; when it was not stored before, the calendar date was verified, and its close is the
  equity of the only bar of the previous trading date, nonnegative and within a cent of the
  account's last equity. From then on every call in that session returns this baseline,
  whatever bars and equity it is given, so the equity that chooses the band never exceeds
  that close.\<close>

theorem baseline_fixed_for_session:
  assumes "load_or_capture_baseline en g answer le now db = (r, db1)"
  shows "baseline_kept db db1 \<and> ((\<forall>b. r \<noteq> Inr (VerifiedBaseline b)) \<longrightarrow> baselines db1 = baselines db)
    \<and> (\<forall>b. r = Inr (VerifiedBaseline b) \<longrightarrow>
         session_date_for (cg_zone g) (cg_calendar g) now = Inr (sb_session_date b)
         \<and> (get_row (baselines db) (iso_day (sb_session_date b)) = None \<longrightarrow>
              previous_trading_date (cg_zone g) (cg_calendar g) (sb_session_date b) = Inr (sb_previous_date b) \<and> captured_on g db answer le now b)
         \<and> (\<forall>en' answer' le' now' p'. baseline_dates (cg_zone g) (cg_calendar g) now' = Inr (sb_session_date b, p') \<longrightarrow>
              fst (load_or_capture_baseline en' g answer' le' now' db1) = Inr (VerifiedBaseline b))
         \<and> (\<forall>e q. band_equity (Some e) (VerifiedBaseline b) = Some q \<longrightarrow> q \<le> e \<and> q \<le> sb_previous_close b))"
proof -
  have refused: ?thesis if "refuse_baseline d check t db = (r, db1)" for d check t
    using refuse_baseline_result [OF that] baseline_kept_same by auto
  show ?thesis
  proof (cases "baseline_dates (cg_zone g) (cg_calendar g) now")
    case (Inl e)
    show ?thesis
    proof (cases e)
      case (ValueError m)
      with assms Inl have "refuse_baseline (zn_date (cg_zone g) now) ''calendar_no_recent_session'' now db = (r, db1)"
        by (simp add: load_or_capture_baseline_def)
      then show ?thesis by (rule refused)
    next
      case (HorizonExceeded m)
      with assms Inl have "refuse_baseline (zn_date (cg_zone g) now) ''calendar_beyond_horizon'' now db = (r, db1)"
        by (simp add: load_or_capture_baseline_def)
      then show ?thesis by (rule refused)
    qed (use assms Inl in \<open>auto simp: load_or_capture_baseline_def baseline_kept_same\<close>)
  next
    case (Inr dp)
    then obtain d p where dp: "baseline_dates (cg_zone g) (cg_calendar g) now = Inr (d, p)" by (cases dp) auto
    then have dates: "session_date_for (cg_zone g) (cg_calendar g) now = Inr d" "previous_trading_date (cg_zone g) (cg_calendar g) d = Inr p"
      by (auto simp: baseline_dates_def bindR_Inr_iff)
    have again: "fst (load_or_capture_baseline en' g answer' le' now' db1) = Inr (VerifiedBaseline b)"
      if "get_row (baselines db1) (iso_day d) = Some x" "r_payload x = Some b" "sb_session_date b = d"
        "baseline_dates (cg_zone g) (cg_calendar g) now' = Inr (sb_session_date b, p')" for x b en' answer' le' now' p'
      using that stored_baseline_again [of b d now' db1] by (simp add: load_or_capture_baseline_def)
    have band: "band_equity (Some e) (VerifiedBaseline b) = Some q \<Longrightarrow> q \<le> e \<and> q \<le> sb_previous_close b" for e b q
      by (auto simp: band_equity_def)
    show ?thesis
    proof (cases "get_row (baselines db) (iso_day d)")
      case (Some x)
      with assms dp have "stored_baseline (r_payload x) d now db = (r, db1)" by (simp add: load_or_capture_baseline_def)
      note st = stored_baseline_result [OF this]
      then have "baselines db1 = baselines db" by simp
      with Some st again band dates show ?thesis by (auto simp: baseline_kept_same)
    next
      case None
      show ?thesis
      proof (cases "gate_status g (calendar_of db) US_EQUITY d now = Verified_Date")
        case False
        with assms dp None have "refuse_baseline d (''calendar_'' @ cal_status_value (gate_status g (calendar_of db) US_EQUITY d now)) now db = (r, db1)"
          by (simp add: load_or_capture_baseline_def)
        then show ?thesis by (rule refused)
      next
        case True
        with assms dp None have c: "capture_from en answer le d p now db = (r, db1)" by (simp add: load_or_capture_baseline_def)
        note res = capture_from_result [OF c]
        have "captured_on g db answer le now b" if "r = Inr (VerifiedBaseline b)" for b
        proof -
          from res that None obtain bars where b: "sb_session_date b = d" "sb_previous_date b = p" "le = Some (Fin (sb_last_equity b))"
            "sb_captured_at b = now" "answer = Inr bars" "agreed_close bars p (sb_last_equity b) = Inr (sb_previous_close b)" by blast
          from agreed_close_bar [OF b(6)] b True show ?thesis by (auto simp: captured_on_def)
        qed
        with res again band dates None show ?thesis by (auto simp del: fst_conv)
      qed
    qed
  qed
qed
subsection \<open>A concrete session\<close>

definition week_calendar :: market_cal where
  "week_calendar = new_calendar
     [(9, 9 * 86400000000 + hour_minute 9 30, 9 * 86400000000 + hour_minute 16 0),
      (10, 10 * 86400000000 + hour_minute 9 30, 10 * 86400000000 + hour_minute 16 0)] (- 30) 30 False"

definition week_gate :: cal_gate where
  "week_gate = \<lparr>cg_zone = utc_zone, cg_calendar = week_calendar, cg_brokers = [''alpaca'']\<rparr>"

definition demo_baseline :: session_baseline where
  "demo_baseline = \<lparr>sb_session_date = 10, sb_previous_date = 9, sb_previous_close = 5000, sb_last_equity = 5000, sb_captured_at = demo_noon\<rparr>"

lemma week_dates: "baseline_dates utc_zone week_calendar demo_noon = Inr (10, 9)"
  "baseline_dates utc_zone week_calendar (demo_noon + 60000000) = Inr (10, 9)"
  by code_simp+

lemma week_status: "gate_status week_gate demo_checks US_EQUITY 10 demo_noon = Verified_Date"
  by code_simp

lemma week_day: "iso_day 10 = ''1970-01-11''"
  by code_simp

lemma demo_captured: "fst (load_or_capture_baseline demo_check_env week_gate (Inr [\<lparr>bar_date = 9, bar_equity = Fin 5000\<rparr>]) (Some (Fin 5000)) demo_noon
    demo_check_ledger) = Inr (VerifiedBaseline demo_baseline)"
proof -
  have "agreed_close [\<lparr>bar_date = 9, bar_equity = Fin 5000\<rparr>] 9 5000 = Inr 5000"
    by (simp add: agreed_close_def previous_close_def AGREEMENT_TOLERANCE_def dsub_def dabs_def)
  then have c: "capture_from demo_check_env (Inr [\<lparr>bar_date = 9, bar_equity = Fin 5000\<rparr>]) (Some (Fin 5000)) 10 9 demo_noon
      = capture_baseline demo_check_env demo_baseline demo_noon"
    by (simp add: capture_from_def read_bars_def demo_baseline_def fun_eq_iff)
  have e: "baselines demo_check_ledger = []"
    by (simp add: baselines_def demo_check_ledger_def with_calendar_def demo_ledger_def no_evidence_def)
  have "store_baseline demo_check_env demo_baseline demo_check_ledger
      = (Inr True, with_baselines [new_row demo_check_env demo_check_ledger ''1970-01-11'' None None (Some demo_baseline)] demo_check_ledger)"
    using e by (simp add: store_baseline_def create_in_def writeP_def create_once_def guardR_def check_integrity_hold_def STATUS_TABLES_def
        UNIQUE_FIELDS_def insert_or_ignore_def new_row_def demo_baseline_def week_day)
  then have "fst (capture_baseline demo_check_env demo_baseline demo_noon demo_check_ledger) = Inr (VerifiedBaseline demo_baseline)"
    by (auto simp: capture_baseline_def bindP_def record_captured_def note_event_def)
  then show ?thesis
    by (simp add: load_or_capture_baseline_def week_gate_def week_dates e) (simp add: week_gate_def [symmetric] c demo_check_ledger_def week_status)
qed

theorem baseline_fixed_for_session_witness:
  "fst (load_or_capture_baseline demo_check_env week_gate (Inr []) None (demo_noon + 60000000)
     (snd (load_or_capture_baseline demo_check_env week_gate (Inr [\<lparr>bar_date = 9, bar_equity = Fin 5000\<rparr>]) (Some (Fin 5000)) demo_noon demo_check_ledger)))
   = Inr (VerifiedBaseline demo_baseline)"
proof -
  let ?p = "load_or_capture_baseline demo_check_env week_gate (Inr [\<lparr>bar_date = 9, bar_equity = Fin 5000\<rparr>]) (Some (Fin 5000)) demo_noon demo_check_ledger"
  have "?p = (Inr (VerifiedBaseline demo_baseline), snd ?p)" using demo_captured by (simp add: prod_eq_iff)
  from baseline_fixed_for_session [OF this] week_dates(2) show ?thesis
    by (simp add: week_gate_def demo_baseline_def)
qed

end
