(* ===== verification/Sellable.thy ===== *)
theory Sellable
  imports Intents "HOL-Library.AList" "HOL-Library.List_Lexorder" "HOL-Library.Char_ord"
begin

text \<open>
  The conservative sellable bound, \<open>execution/sellable.py\<close>, over the order states of
  \<open>broker/types.py\<close> and the symbol classification of \<open>broker/symbols.py\<close>. Two bounds are
  computed, one from the local lots and one from the broker's position, each less the
  pending sells; the smaller is what may be sold.

  A raw JSON value of an order is \<open>RawDecimal x\<close> when it is an integer or a text that
  \<open>Decimal(str(v))\<close> reads as \<open>x\<close>, \<open>RawOther\<close> when \<open>Decimal\<close> refuses it.
\<close>

subsection \<open>Broker symbols\<close>

definition CRYPTO_QUOTE_CURRENCIES :: "string list" where
  "CRYPTO_QUOTE_CURRENCIES = [''USDT'', ''USDC'', ''USD'', ''BTC'']"

definition CRYPTO_BASES :: "string list" where
  "CRYPTO_BASES = [''BTC'', ''ETH'', ''SOL'', ''DOGE'', ''AVAX'', ''LINK'', ''LTC'', ''BCH'', ''UNI'', ''AAVE'', ''DOT'', ''SHIB'']"

definition slash_for_dash :: "string \<Rightarrow> string" where
  "slash_for_dash s = map (\<lambda>c. if c = CHR ''-'' then CHR ''/'' else c) s"

definition ends_with :: "string \<Rightarrow> string \<Rightarrow> bool" where
  "ends_with suffix s = starts_with (rev suffix) (rev s)"

fun split_quote :: "string list \<Rightarrow> string \<Rightarrow> string" where
  "split_quote [] raw = raw"
| "split_quote (q # qs) raw =
     (if length q < length raw \<and> ends_with q raw then take (length raw - length q) raw @ ''/'' @ q else split_quote qs raw)"

definition normalize_alpaca_symbol :: "string \<Rightarrow> asset_class \<Rightarrow> string" where
  "normalize_alpaca_symbol symbol c =
     (let raw = slash_for_dash (py_upper (py_strip symbol))
      in if c \<noteq> CRYPTO \<or> CHR ''/'' \<in> set raw then raw else split_quote CRYPTO_QUOTE_CURRENCIES raw)"

text \<open>\<open>$\<close> matches at the end, or before a final line break.\<close>

definition at_end :: "string \<Rightarrow> bool" where
  "at_end s = (s = [] \<or> s = [char_of (10::nat)])"

definition crypto_ticker :: "string \<Rightarrow> bool" where
  "crypto_ticker s = list_ex (\<lambda>b. list_ex (\<lambda>q. starts_with (b @ q) s \<and> at_end (drop (length (b @ q)) s))
     [''USD'', ''USDT'', ''USDC'', ''BTC'']) CRYPTO_BASES"

definition infer_alpaca_asset_class :: "string \<Rightarrow> asset_class option \<Rightarrow> asset_class" where
  "infer_alpaca_asset_class symbol declared =
     (if declared = Some CRYPTO then CRYPTO
      else let raw = py_upper symbol
           in if CHR ''/'' \<in> set raw \<or> CHR ''-'' \<in> set raw then CRYPTO
              else if crypto_ticker raw then CRYPTO else EQUITY)"

definition is_upper_char :: "char \<Rightarrow> bool" where
  "is_upper_char c = (let n = of_char c :: nat in 65 \<le> n \<and> n \<le> 90)"

definition is_digit_char :: "char \<Rightarrow> bool" where
  "is_digit_char c = (let n = of_char c :: nat in 48 \<le> n \<and> n \<le> 57)"

definition occ_option_symbol :: "string \<Rightarrow> bool" where
  "occ_option_symbol s =
     (let root = takeWhile is_upper_char s; rest = dropWhile is_upper_char s
      in 1 \<le> length root \<and> length root \<le> 6 \<and> 15 \<le> length rest
         \<and> list_all is_digit_char (take 6 rest) \<and> rest ! 6 \<in> {CHR ''C'', CHR ''P''}
         \<and> list_all is_digit_char (take 8 (drop 7 rest)) \<and> at_end (drop 15 rest))"

definition broker_symbol_asset_class :: "string \<Rightarrow> asset_class" where
  "broker_symbol_asset_class symbol =
     (let raw = py_upper (py_strip symbol) in if occ_option_symbol raw then OPTION else infer_alpaca_asset_class raw None)"

definition broker_symbol_asset_key :: "string \<Rightarrow> string res" where
  "broker_symbol_asset_key symbol = asset_key_from_broker_symbol (broker_symbol_asset_class symbol) symbol ''alpaca''"

definition default_time_in_force :: "asset_class \<Rightarrow> string" where
  "default_time_in_force c = (if c = CRYPTO then ''gtc'' else ''day'')"

subsection \<open>Orders and pending sells\<close>

datatype raw_value = RawMissing | RawBool bool | RawFloat xdec | RawDecimal xdec | RawOther

record order_state =
  os_id :: string
  os_status :: string
  os_symbol :: string
  os_side :: "side option"
  os_filled :: dec
  os_avg_price :: "dec option"
  os_submitted_at :: "time option"
  os_qty :: raw_value
  os_notional :: raw_value
  os_raw_id :: "string option"
  os_client_id :: "string option"
  os_tif :: "string option"
  os_type :: "string option"

record pending_sell =
  ps_key :: string
  ps_original :: dec
  ps_intent :: "string option"
  ps_approved :: "dec option"
  ps_settled :: dec

record sellable_inputs =
  si_broker :: dec
  si_local :: dec
  si_pending :: "pending_sell list"

record sellable_decision =
  sd_sellable :: dec
  sd_local_bound :: dec
  sd_broker_bound :: dec

definition INVALID :: exc where "INVALID = SellableEvidence ''INVENTORY_EVIDENCE_INVALID''"

definition order_quantity :: "order_state \<Rightarrow> dec res" where
  "order_quantity ord =
     (case os_qty ord of
        RawDecimal (Fin q) \<Rightarrow> if q \<le> 0 \<or> q < os_filled ord \<or> os_filled ord < 0 then Inl INVALID else Inr q
      | _ \<Rightarrow> Inl INVALID)"

text \<open>The dict of the asset's open sells by order identifier; a repeated identifier keeps its last order.\<close>

definition sells_of :: "string \<Rightarrow> order_state list \<Rightarrow> (string \<times> order_state) list res" where
  "sells_of key orders =
     foldR (\<lambda>d ord. if os_side ord \<noteq> Some SELL then Inr d
                    else bindR (broker_symbol_asset_key (os_symbol ord)) (\<lambda>k.
                      Inr (if k = key then AList.update (os_id ord) ord d else d)))
       [] orders"

definition quantities_of :: "(string \<times> order_state) list \<Rightarrow> (string \<times> dec) list res" where
  "quantities_of d = foldR (\<lambda>qs (i, ord). bindR (order_quantity ord) (\<lambda>q. Inr (AList.update i q qs))) [] d"

definition text_or_empty :: "string option \<Rightarrow> string" where
  "text_or_empty v = (case v of None \<Rightarrow> [] | Some s \<Rightarrow> s)"

definition client_ids :: "(string \<times> order_state) list \<Rightarrow> (string \<times> string) list" where
  "client_ids d = fold (\<lambda>(i, ord). AList.update (text_or_empty (os_client_id ord)) i) d []"

definition same_snapshot :: "(string \<times> order_state) list \<Rightarrow> (string \<times> order_state) list \<Rightarrow> bool" where
  "same_snapshot d1 d2 = (set (map fst d1) = set (map fst d2)
     \<and> list_all (\<lambda>(i, ord). map_option (\<lambda>x. (os_status x, os_filled x)) (map_of d2 i) = Some (os_status ord, os_filled ord)) d1)"

definition TERMINAL_INTENTS :: "intent_status list" where
  "TERMINAL_INTENTS = [TI_FILLED, TI_CANCELED, TI_EXPIRED, TI_REJECTED, TI_FAILED]"

definition settled_of :: "(string \<Rightarrow> dec option) \<Rightarrow> trade_intent \<Rightarrow> dec" where
  "settled_of settled t = (case settled (ti_id t) of None \<Rightarrow> 0 | Some q \<Rightarrow> q)"

definition sell_pending :: "string \<Rightarrow> (string \<Rightarrow> dec option) \<Rightarrow> trade_intent \<Rightarrow> bool" where
  "sell_pending key settled t = (ti_side t = SELL \<and> asset_identity_key (ti_asset t) = key
     \<and> \<not> (ti_status t \<in> set TERMINAL_INTENTS \<and> ti_filled_quantity t \<le> settled_of settled t))"

text \<open>\<open>intent.broker_order_id or by_client_id.get(intent.client_order_id or "")\<close>: the empty text stands for none.\<close>

definition order_of_intent :: "(string \<times> string) list \<Rightarrow> trade_intent \<Rightarrow> string" where
  "order_of_intent by_client t =
     (let b = text_or_empty (ti_broker_order_id t)
      in if b \<noteq> [] then b else text_or_empty (map_of by_client (text_or_empty (ti_client_order_id t))))"

definition add_member ::
  "string \<Rightarrow> (string \<Rightarrow> dec option) \<Rightarrow> (string \<times> dec) list \<Rightarrow> (string \<times> string) list
   \<Rightarrow> pending_sell list \<times> string list \<Rightarrow> trade_intent \<Rightarrow> (pending_sell list \<times> string list) res" where
  "add_member key settled quantities by_client acc t =
     (if \<not> sell_pending key settled t then Inr acc
      else case ti_requested_quantity t of
             None \<Rightarrow> Inl INVALID
           | Some rq \<Rightarrow>
               if rq \<le> 0 then Inl INVALID
               else let oid = order_of_intent by_client t
                    in Inr (fst acc @ [\<lparr>ps_key = (if oid \<noteq> [] then oid else ''intent:'' @ ti_id t),
                                        ps_original = (case map_of quantities oid of None \<Rightarrow> rq | Some q \<Rightarrow> q),
                                        ps_intent = Some (ti_id t), ps_approved = Some rq, ps_settled = settled_of settled t\<rparr>],
                            oid # snd acc))"

definition external_member :: "(string \<times> dec) list \<Rightarrow> string \<Rightarrow> pending_sell" where
  "external_member quantities i =
     \<lparr>ps_key = i, ps_original = (case map_of quantities i of None \<Rightarrow> 0 | Some q \<Rightarrow> q), ps_intent = None, ps_approved = None, ps_settled = 0\<rparr>"

definition build_pending_set ::
  "string \<Rightarrow> order_state list \<Rightarrow> order_state list \<Rightarrow> trade_intent list \<Rightarrow> (string \<Rightarrow> dec option) \<Rightarrow> pending_sell list res" where
  "build_pending_set key orders1 orders2 intents settled =
     bindR (sells_of key orders1) (\<lambda>d1.
     bindR (sells_of key orders2) (\<lambda>d2.
     bindR (guardR (same_snapshot d1 d2) (SellableEvidence ''SELLABLE_SNAPSHOT_UNSTABLE'')) (\<lambda>_.
     bindR (quantities_of d1) (\<lambda>quantities.
     bindR (foldR (add_member key settled quantities (client_ids d1)) ([], []) intents) (\<lambda>(members, claimed).
       Inr (members @ map (external_member quantities) (sort (filter (\<lambda>i. i \<notin> set claimed) (map fst d1)))))))))"

definition unsettled_part :: "pending_sell \<Rightarrow> dec" where
  "unsettled_part m = (case (ps_intent m, ps_approved m) of (Some _, Some a) \<Rightarrow> dsub a (ps_settled m) | _ \<Rightarrow> ps_original m)"

definition compute_sellable :: "sellable_inputs \<Rightarrow> sellable_decision res" where
  "compute_sellable inputs =
     (if si_broker inputs < 0 \<or> si_local inputs < 0 then Inl INVALID
      else let local_bound = dsub (si_local inputs) (dsum (map unsettled_part (si_pending inputs)));
               broker_bound = dsub (si_broker inputs) (dsum (map ps_original (si_pending inputs)))
           in Inr \<lparr>sd_sellable = max 0 (min local_bound broker_bound), sd_local_bound = local_bound, sd_broker_bound = broker_bound\<rparr>)"

definition size_sell :: "sellable_decision \<Rightarrow> dec \<Rightarrow> bool \<Rightarrow> dec \<times> string option" where
  "size_sell d requested protective =
     (if sd_sellable d \<le> 0 then (0, Some ''INSUFFICIENT_SELLABLE_QUANTITY'')
      else if requested \<le> sd_sellable d then (requested, None)
      else if protective then (sd_sellable d, Some ''SELLABLE_BELOW_REQUESTED'')
      else (0, Some ''INSUFFICIENT_SELLABLE_QUANTITY''))"

subsection \<open>The pending set covers every open sell\<close>

lemma quantities_foldR:
  assumes "foldR (\<lambda>qs (i, ord). bindR (order_quantity ord) (\<lambda>q. Inr (AList.update i q qs))) acc d = Inr qs"
    and "distinct (map fst d)"
  shows "map_of qs i = (case map_of d i of Some ord \<Rightarrow> Some (projr (order_quantity ord)) | None \<Rightarrow> map_of acc i)
    \<and> (\<forall>ord. map_of d i = Some ord \<longrightarrow> order_quantity ord \<in> range Inr)"
  using assms
proof (induction d arbitrary: acc)
  case Nil
  then show ?case by simp
next
  case (Cons p d)
  obtain j ord where p: "p = (j, ord)" by (cases p)
  from Cons.prems(1) p obtain q where q: "order_quantity ord = Inr q"
    and f: "foldR (\<lambda>qs (i, ord). bindR (order_quantity ord) (\<lambda>q. Inr (AList.update i q qs))) (AList.update j q acc) d = Inr qs"
    by (auto simp: bindR_Inr_iff)
  have "map_of d j = None" using Cons.prems(2) p by (auto simp: map_of_eq_None_iff)
  then show ?case using Cons.IH [OF f] Cons.prems(2) p q by (auto simp: update_conv' split: option.splits)
qed

lemma quantities_lookup:
  assumes "quantities_of d = Inr qs" and "distinct (map fst d)" and "map_of d i = Some ord"
  shows "\<exists>q. order_quantity ord = Inr q \<and> map_of qs i = Some q \<and> 0 < q"
  using quantities_foldR [OF assms(1) [unfolded quantities_of_def] assms(2), of i] assms(3)
  by (auto simp: order_quantity_def split: raw_value.splits xdec.splits if_splits)

lemma quantities_only:
  assumes "quantities_of d = Inr qs" and "distinct (map fst d)" and "map_of qs i = Some q"
  shows "\<exists>ord. map_of d i = Some ord"
  using quantities_foldR [OF assms(1) [unfolded quantities_of_def] assms(2), of i] assms(3) by (auto split: option.splits)

lemma sells_of_distinct: "sells_of key orders = Inr d \<Longrightarrow> distinct (map fst d)"
proof -
  assume *: "sells_of key orders = Inr d"
  show ?thesis
    by (rule foldR_invariant [OF * [unfolded sells_of_def], where P = "\<lambda>d. distinct (map fst d)"])
      (auto simp: bindR_Inr_iff distinct_update split: if_splits)
qed

lemma fst_in_update: "(a, b) \<in> set (AList.update k v s) \<Longrightarrow> a = k \<or> a \<in> fst ` set s"
  using dom_update [of k v s] by (metis (no_types, lifting) Un_iff fst_conv image_eqI singletonD)

lemma sells_of_ids: "sells_of key orders = Inr d \<Longrightarrow> (i, ord) \<in> set d \<Longrightarrow> i \<in> os_id ` set orders"
proof -
  assume *: "sells_of key orders = Inr d" and i: "(i, ord) \<in> set d"
  have "\<forall>p\<in>set d. fst p \<in> os_id ` set orders"
  proof (rule foldR_invariant [OF * [unfolded sells_of_def], where P = "\<lambda>d. \<forall>p\<in>set d. fst p \<in> os_id ` set orders"])
    fix s x s'
    assume x: "x \<in> set orders" and s: "\<forall>p\<in>set s. fst p \<in> os_id ` set orders"
      and st: "(if os_side x \<noteq> Some SELL then Inr s
                else bindR (broker_symbol_asset_key (os_symbol x)) (\<lambda>k. Inr (if k = key then AList.update (os_id x) x s else s))) = Inr s'"
    have "fst p \<in> os_id ` set orders" if "p \<in> set (AList.update (os_id x) x s)" for p
      using fst_in_update [of "fst p" "snd p"] that x s by force
    with st s show "\<forall>p\<in>set s'. fst p \<in> os_id ` set orders" by (auto simp: bindR_Inr_iff split: if_splits)
  qed simp
  with i show ?thesis by force
qed

text \<open>One member per pending sell intent, in order.\<close>

definition member_of :: "(string \<Rightarrow> dec option) \<Rightarrow> (string \<times> dec) list \<Rightarrow> (string \<times> string) list \<Rightarrow> trade_intent \<Rightarrow> pending_sell" where
  "member_of settled quantities by_client t =
     (let oid = order_of_intent by_client t; rq = the (ti_requested_quantity t)
      in \<lparr>ps_key = (if oid \<noteq> [] then oid else ''intent:'' @ ti_id t),
          ps_original = (case map_of quantities oid of None \<Rightarrow> rq | Some q \<Rightarrow> q),
          ps_intent = Some (ti_id t), ps_approved = Some rq, ps_settled = settled_of settled t\<rparr>)"

lemma members_foldR:
  assumes "foldR (add_member key settled quantities by_client) acc intents = Inr acc'"
  shows "fst acc' = fst acc @ map (member_of settled quantities by_client) (filter (sell_pending key settled) intents)
    \<and> set (snd acc') = order_of_intent by_client ` set (filter (sell_pending key settled) intents) \<union> set (snd acc)
    \<and> (\<forall>t\<in>set intents. sell_pending key settled t \<longrightarrow> (\<exists>q. ti_requested_quantity t = Some q \<and> 0 < q))"
  using assms
proof (induction intents arbitrary: acc)
  case Nil
  then show ?case by simp
next
  case (Cons t ts)
  show ?case
  proof (cases "sell_pending key settled t")
    case False
    then show ?thesis using Cons by (simp add: add_member_def)
  next
    case True
    from Cons.prems obtain s' where s': "add_member key settled quantities by_client acc t = Inr s'"
      and f: "foldR (add_member key settled quantities by_client) s' ts = Inr acc'"
      by (auto simp: bindR_Inr_iff)
    from s' True obtain q where q: "ti_requested_quantity t = Some q" "0 < q"
      by (auto simp: add_member_def split: option.splits if_splits)
    have "s' = (fst acc @ [member_of settled quantities by_client t], order_of_intent by_client t # snd acc)"
      using s' True q by (simp add: add_member_def member_of_def Let_def)
    with Cons.IH [OF f] q True show ?thesis by simp
  qed
qed

lemma build_pending_cases:
  assumes "build_pending_set key orders1 orders2 intents settled = Inr pending"
  obtains d qs where "sells_of key orders1 = Inr d" "distinct (map fst d)" "quantities_of d = Inr qs"
    "pending = map (member_of settled qs (client_ids d)) (filter (sell_pending key settled) intents)
       @ map (external_member qs) (sort (filter (\<lambda>i. i \<notin> order_of_intent (client_ids d) ` set (filter (sell_pending key settled) intents)) (map fst d)))"
    "\<forall>t\<in>set intents. sell_pending key settled t \<longrightarrow> (\<exists>q. ti_requested_quantity t = Some q \<and> 0 < q)"
proof -
  from assms obtain d qs members claimed where *: "sells_of key orders1 = Inr d" "quantities_of d = Inr qs"
    "foldR (add_member key settled qs (client_ids d)) ([], []) intents = Inr (members, claimed)"
    "pending = members @ map (external_member qs) (sort (filter (\<lambda>i. i \<notin> set claimed) (map fst d)))"
    by (auto simp: build_pending_set_def bindR_Inr_iff)
  from members_foldR [OF *(3)] *(4) show ?thesis
    by (intro that [OF *(1) sells_of_distinct [OF *(1)] *(2)]) simp_all
qed

lemma sum_by_key:
  fixes f :: "'a \<Rightarrow> dec"
  assumes "finite I" and "\<And>x. x \<in> set xs \<Longrightarrow> 0 \<le> f x"
  shows "(\<Sum>i\<in>I. \<Sum>x\<leftarrow>filter (\<lambda>x. k x = i) xs. f x) \<le> (\<Sum>x\<leftarrow>xs. f x)"
  using assms(2)
proof (induction xs)
  case Nil
  then show ?case by simp
next
  case (Cons x xs)
  have "(\<Sum>i\<in>I. \<Sum>x\<leftarrow>filter (\<lambda>x. k x = i) (x # xs). f x)
      = (\<Sum>i\<in>I. (if k x = i then f x else 0) + (\<Sum>x\<leftarrow>filter (\<lambda>x. k x = i) xs. f x))"
    by (rule sum.cong) auto
  also have "\<dots> = (if k x \<in> I then f x else 0) + (\<Sum>i\<in>I. \<Sum>x\<leftarrow>filter (\<lambda>x. k x = i) xs. f x)"
    using assms(1) by (simp add: sum.distrib)
  also have "\<dots> \<le> f x + (\<Sum>x\<leftarrow>xs. f x)" using Cons by (intro add_mono) auto
  finally show ?case by simp
qed

text \<open>Every open sell order of the asset is in the pending set at its original quantity.\<close>

lemma pending_covers_orders:
  assumes "build_pending_set key orders1 orders2 intents settled = Inr pending" and "[] \<notin> os_id ` set orders1"
  shows "\<exists>d. sells_of key orders1 = Inr d \<and> (\<Sum>(i, ord)\<leftarrow>d. projr (order_quantity ord)) \<le> (\<Sum>m\<leftarrow>pending. ps_original m)
    \<and> (\<forall>m\<in>set pending. 0 \<le> ps_original m)"
proof -
  from assms(1) obtain d qs where d: "sells_of key orders1 = Inr d" "distinct (map fst d)" and qs: "quantities_of d = Inr qs"
    and pd: "pending = map (member_of settled qs (client_ids d)) (filter (sell_pending key settled) intents)
       @ map (external_member qs) (sort (filter (\<lambda>i. i \<notin> order_of_intent (client_ids d) ` set (filter (sell_pending key settled) intents)) (map fst d)))"
    and rq: "\<forall>t\<in>set intents. sell_pending key settled t \<longrightarrow> (\<exists>q. ti_requested_quantity t = Some q \<and> 0 < q)"
    by (rule build_pending_cases)
  have qpos: "0 < q" if "map_of qs i = Some q" for i q
    using quantities_only [OF qs d(2) that] quantities_lookup [OF qs d(2), of i] that by auto
  have nn: "0 \<le> ps_original m" if "m \<in> set pending" for m
    using that rq qpos unfolding pd
    by (auto simp: member_of_def external_member_def Let_def less_imp_le split: option.splits)
  have cover: "\<exists>m\<in>set pending. ps_key m = i \<and> ps_original m = projr (order_quantity ord)" if io: "(i, ord) \<in> set d" for i ord
  proof -
    have mo: "map_of d i = Some ord" using d(2) io by simp
    from quantities_lookup [OF qs d(2) mo] obtain q where q: "order_quantity ord = Inr q" "map_of qs i = Some q" by blast
    have ne: "i \<noteq> []" using sells_of_ids [OF d(1) io] assms(2) by blast
    show ?thesis
    proof (cases "i \<in> order_of_intent (client_ids d) ` set (filter (sell_pending key settled) intents)")
      case True
      then obtain t where "t \<in> set (filter (sell_pending key settled) intents)" "order_of_intent (client_ids d) t = i" by auto
      then have "member_of settled qs (client_ids d) t \<in> set pending"
        "ps_key (member_of settled qs (client_ids d) t) = i" "ps_original (member_of settled qs (client_ids d) t) = q"
        unfolding pd using ne q(2) by (auto simp: member_of_def Let_def)
      with q(1) show ?thesis by force
    next
      case False
      have "i \<in> set (map fst d)" using io by force
      with False have "external_member qs i \<in> set pending" unfolding pd by auto
      with q show ?thesis by (force simp: external_member_def)
    qed
  qed
  have ge: "projr (order_quantity ord) \<le> (\<Sum>m\<leftarrow>filter (\<lambda>m. ps_key m = i) pending. ps_original m)" if "(i, ord) \<in> set d" for i ord
  proof -
    from cover [OF that] obtain m where m: "m \<in> set (filter (\<lambda>m. ps_key m = i) pending)" "ps_original m = projr (order_quantity ord)" by auto
    show ?thesis using sum_list_nonneg_le_member [OF m(1), of ps_original] nn m(2) by simp
  qed
  have "(\<Sum>(i, ord)\<leftarrow>d. projr (order_quantity ord)) \<le> (\<Sum>(i, ord)\<leftarrow>d. \<Sum>m\<leftarrow>filter (\<lambda>m. ps_key m = i) pending. ps_original m)"
    using ge by (intro sum_list_mono) auto
  also have "\<dots> = (\<Sum>i\<leftarrow>map fst d. \<Sum>m\<leftarrow>filter (\<lambda>m. ps_key m = i) pending. ps_original m)"
    by (simp add: comp_def case_prod_beta')
  also have "\<dots> = (\<Sum>i\<in>set (map fst d). \<Sum>m\<leftarrow>filter (\<lambda>m. ps_key m = i) pending. ps_original m)"
    by (rule sum_list_distinct_conv_sum_set [OF d(2)])
  also have "\<dots> \<le> (\<Sum>m\<leftarrow>pending. ps_original m)" by (rule sum_by_key) (use nn in auto)
  finally show ?thesis using d(1) nn by blast
qed

subsection \<open>Properties\<close>

lemma dsub_sum_exact:
  assumes "grid k x" and "\<forall>y\<in>set ys. grid k y \<and> 0 \<le> y" and "grid k (sum_list ys)" and "0 < dsub x (dsum ys)"
  shows "dsub x (dsum ys) = x - sum_list ys"
proof -
  have s: "dsum ys = sum_list ys" by (rule dsum_grid(1) [OF assms(2,3)]) simp
  have n: "0 \<le> sum_list ys" using assms(2) by (intro sum_list_nonneg) auto
  have "0 < ctx (x - sum_list ys)" using assms(4) by (simp add: s dsub_def)
  then have "sum_list ys \<le> x" by (simp add: dctx.pos_iff)
  then show ?thesis unfolding s by (rule dsub_grid [OF assms(1,3) n])
qed

text \<open>C10: an authorized sell is covered. What it sells, together with every open sell order of the
  asset at its original quantity, is at most the broker position, and together with what is
  still unsettled of every pending sell (each TradePulse sell intent counted exactly once) at
  most the local lots; it is never more than requested, and less only when reported. The
  quantities are on one decimal grid, so that their sums are exact.\<close>

theorem authorized_sell_covered:
  assumes "build_pending_set key orders1 orders2 intents settled = Inr pending"
    and "compute_sellable \<lparr>si_broker = P, si_local = L, si_pending = pending\<rparr> = Inr d"
    and "size_sell d requested protective = (q, note)" and "0 < q" and "[] \<notin> os_id ` set orders1"
    and "grid k P" and "grid k L" and "\<forall>m\<in>set pending. grid k (ps_original m) \<and> grid k (unsettled_part m) \<and> 0 \<le> unsettled_part m"
    and "grid k (\<Sum>m\<leftarrow>pending. ps_original m)" and "grid k (\<Sum>m\<leftarrow>pending. unsettled_part m)"
  shows "q \<le> requested \<and> (note = None \<longleftrightarrow> q = requested)
    \<and> (\<exists>sells. sells_of key orders1 = Inr sells \<and> q + (\<Sum>(i, ord)\<leftarrow>sells. projr (order_quantity ord)) \<le> P)
    \<and> q + (\<Sum>m\<leftarrow>pending. unsettled_part m) \<le> L
    \<and> map ps_intent (filter (\<lambda>m. ps_intent m \<noteq> None) pending) = map (\<lambda>t. Some (ti_id t)) (filter (sell_pending key settled) intents)"
proof -
  from pending_covers_orders [OF assms(1,5)] obtain sells where sells: "sells_of key orders1 = Inr sells"
    "(\<Sum>(i, ord)\<leftarrow>sells. projr (order_quantity ord)) \<le> (\<Sum>m\<leftarrow>pending. ps_original m)" "\<forall>m\<in>set pending. 0 \<le> ps_original m" by blast
  let ?lb = "dsub L (dsum (map unsettled_part pending))" let ?bb = "dsub P (dsum (map ps_original pending))"
  have d: "sd_sellable d = max 0 (min ?lb ?bb)"
    using assms(2) by (auto simp: compute_sellable_def Let_def split: if_splits)
  have q: "q \<le> requested" "q \<le> sd_sellable d" "0 < sd_sellable d" "note = None \<longleftrightarrow> q = requested"
    using assms(3,4) by (auto simp: size_sell_def split: if_splits)
  then have m: "q \<le> ?lb" "q \<le> ?bb" "0 < ?lb" "0 < ?bb" by (auto simp: d)
  have "?lb = L - (\<Sum>m\<leftarrow>pending. unsettled_part m)"
    by (rule dsub_sum_exact [OF assms(7)]) (use assms(8,10) m in auto)
  moreover have "?bb = P - (\<Sum>m\<leftarrow>pending. ps_original m)"
    by (rule dsub_sum_exact [OF assms(6)]) (use assms(8,9) sells(3) m in auto)
  moreover have "map ps_intent (filter (\<lambda>m. ps_intent m \<noteq> None) pending) = map (\<lambda>t. Some (ti_id t)) (filter (sell_pending key settled) intents)"
    by (rule build_pending_cases [OF assms(1)]) (simp add: filter_map comp_def member_of_def external_member_def Let_def)
  ultimately show ?thesis using q m sells(1,2) by force
qed

text \<open>
  An intent that has no client order identifier yet is matched with an open order that
  carries none: both are looked up under the empty text. The order is then taken for the
  intent's own, and its quantity is missing from the local bound.
\<close>

lemma unset_client_ids_match:
  assumes "ti_broker_order_id t = None" and "ti_client_order_id t = None" and "os_client_id ord = None"
  shows "order_of_intent (client_ids [(i, ord)]) t = i"
  using assms by (simp add: order_of_intent_def client_ids_def text_or_empty_def)

subsection \<open>Witness\<close>

definition demo_order :: order_state where
  "demo_order = \<lparr>os_id = ''b1'', os_status = ''new'', os_symbol = ''AAPL'', os_side = Some SELL, os_filled = 0, os_avg_price = None,
     os_submitted_at = None, os_qty = RawDecimal (Fin 3), os_notional = RawMissing, os_raw_id = Some ''b1'', os_client_id = Some ''x'',
     os_tif = Some ''day'', os_type = Some ''market''\<rparr>"

lemma demo_order_key: "broker_symbol_asset_key ''AAPL'' = Inr ''equity:default:alpaca:AAPL''"
  by code_simp

text \<open>Ten shares held, three of them in someone else's open sell order: a protective exit of ten sells seven.\<close>

theorem authorized_sell_covered_witness:
  "\<exists>sells. sells_of ''equity:default:alpaca:AAPL'' [demo_order] = Inr sells \<and> 7 + (\<Sum>(i, ord)\<leftarrow>sells. projr (order_quantity ord)) \<le> 10"
proof -
  let ?k = "''equity:default:alpaca:AAPL''" let ?m = "\<lparr>ps_key = ''b1'', ps_original = 3, ps_intent = None, ps_approved = None, ps_settled = 0\<rparr>"
  have q: "order_quantity demo_order = Inr 3" by (simp add: order_quantity_def demo_order_def)
  have s: "sells_of ?k [demo_order] = Inr [(''b1'', demo_order)]"
    by (simp add: sells_of_def demo_order_key) (simp add: demo_order_def demo_order_key)
  have b: "build_pending_set ?k [demo_order] [demo_order] [] Map.empty = Inr [?m]"
    by (simp add: build_pending_set_def s same_snapshot_def quantities_of_def q external_member_def)
  have u: "unsettled_part ?m = 3" by (simp add: unsettled_part_def)
  have c: "compute_sellable \<lparr>si_broker = 10, si_local = 10, si_pending = [?m]\<rparr>
      = Inr \<lparr>sd_sellable = 7, sd_local_bound = 7, sd_broker_bound = 7\<rparr>"
    by (simp add: compute_sellable_def u dsum_def dsub_def dadd_def)
  have z: "size_sell \<lparr>sd_sellable = 7, sd_local_bound = 7, sd_broker_bound = 7\<rparr> 10 True = (7, Some ''SELLABLE_BELOW_REQUESTED'')"
    by (simp add: size_sell_def)
  have "grid 0 10" "grid 0 3" using gridI [of 10 0 10] gridI [of 3 0 3] by simp_all
  then show ?thesis
    using authorized_sell_covered [OF b c z, of 0] by (simp add: u) (simp add: demo_order_def)
qed

end
