(* ===== verification/Fill_Attribution.thy ===== *)
theory Fill_Attribution
  imports Settlement Sellable
begin

text \<open>
  Turning broker fill activities into local fills and settlement events,
  \<open>execution/fill_attribution.py\<close>: the validation of an activity, the order-level quantity
  check with its holds, the records of a fill, and the finalization of an order.

  \<open>fill_port\<close> carries what the code takes from outside; the broker's answers are arguments,
  one per request: \<open>Inl (BrokerError _)\<close> is an \<open>AlpacaError\<close>. A numeric text is kept as its
  number, as in the metadata elsewhere.
\<close>

record activity =
  ac_id :: string
  ac_symbol :: string
  ac_side :: "side option"
  ac_qty :: "dec option"
  ac_price :: "dec option"
  ac_time :: "time option"
  ac_order :: string
  ac_fees :: "raw_value list"
  ac_currencies :: "string option list"
  ac_type :: string
  ac_digest :: string
  ac_day :: "day option"

record fill_port =
  fp_env :: env
  fp_now :: time
  fp_opening :: "opening_checkpoint option res"
  fp_sha :: "digest_input \<Rightarrow> string"
  fp_iso_time :: "string \<Rightarrow> time res"

subsection \<open>Order statuses\<close>

definition TERMINAL_FAILURE_ORDER_STATUSES :: "string list" where
  "TERMINAL_FAILURE_ORDER_STATUSES = [''rejected'', ''canceled'', ''expired'', ''replaced'']"

definition TERMINAL_ORDER_STATUSES :: "string list" where
  "TERMINAL_ORDER_STATUSES = [''filled'', ''done_for_day''] @ TERMINAL_FAILURE_ORDER_STATUSES"

definition FAILURE_TERMINAL_STATUS :: "(string \<times> intent_status) list" where
  "FAILURE_TERMINAL_STATUS =
     [(''rejected'', TI_REJECTED), (''canceled'', TI_CANCELED), (''expired'', TI_EXPIRED), (''replaced'', TI_CANCELED)]"

definition terminal_status_for_order :: "string \<Rightarrow> dec \<Rightarrow> dec option \<Rightarrow> intent_status option" where
  "terminal_status_for_order status attributed requested =
     (if (case requested of None \<Rightarrow> False | Some q \<Rightarrow> 0 < q \<and> q \<le> attributed) then Some TI_FILLED
      else if status \<in> set TERMINAL_FAILURE_ORDER_STATUSES
      then Some (case map_of FAILURE_TERMINAL_STATUS status of None \<Rightarrow> TI_REJECTED | Some t \<Rightarrow> t)
      else if status = ''done_for_day'' then (if 0 < attributed then Some TI_PARTIALLY_FILLED else None)
      else None)"

subsection \<open>One activity\<close>

record valid_fill =
  vf_activity :: activity
  vf_qty :: dec
  vf_price :: dec
  vf_time :: time

definition validated_fill :: "trade_intent \<Rightarrow> activity \<Rightarrow> valid_fill option" where
  "validated_fill t a =
     (if ac_id a = [] \<or> ac_symbol a \<noteq> a_symbol (ti_asset t) \<or> ac_side a \<noteq> Some (ti_side t) then None
      else case (ac_qty a, ac_price a, ac_time a) of
        (Some q, Some p, Some tm) \<Rightarrow>
          if q \<le> 0 \<or> p \<le> 0 then None else Some \<lparr>vf_activity = a, vf_qty = q, vf_price = p, vf_time = tm\<rparr>
      | _ \<Rightarrow> None)"

fun first_present :: "raw_value list \<Rightarrow> raw_value option" where
  "first_present [] = None"
| "first_present (RawMissing # vs) = first_present vs"
| "first_present (v # vs) = Some v"

fun first_truthy :: "string option list \<Rightarrow> string option" where
  "first_truthy [] = None"
| "first_truthy (Some (c # cs) # vs) = Some (c # cs)"
| "first_truthy (_ # vs) = first_truthy vs"

text \<open>A NaN fee raises in the comparison; an infinite one is refused by the fill's constructor.\<close>

definition fee_number :: "activity \<Rightarrow> xdec \<Rightarrow> (dec \<times> string option \<times> string) res" where
  "fee_number a x =
     (case x of
        Fin fee \<Rightarrow> Inr (if fee < 0 then (0, None, ''invalid'')
                       else (fee, map_option py_upper (first_truthy (ac_currencies a)), ''broker_activity''))
      | NegInf \<Rightarrow> Inr (0, None, ''invalid'')
      | PosInf \<Rightarrow> Inl (ValueError ''value must be finite'')
      | NaN \<Rightarrow> Inl InvalidOperation)"

definition activity_costs :: "activity \<Rightarrow> (dec \<times> string option \<times> string) res" where
  "activity_costs a =
     (case first_present (ac_fees a) of
        None \<Rightarrow> Inr (0, None, ''unavailable'')
      | Some (RawDecimal x) \<Rightarrow> fee_number a x
      | Some (RawFloat x) \<Rightarrow> fee_number a x
      | Some _ \<Rightarrow> Inr (0, None, ''invalid''))"

definition snapshot_decimal :: "trade_intent \<Rightarrow> string \<Rightarrow> dec option res" where
  "snapshot_decimal t key =
     (case ti_risk_snapshot t key of None \<Rightarrow> Inr None | Some (MNum d) \<Rightarrow> Inr (Some d) | Some _ \<Rightarrow> Inl InvalidOperation)"

definition observed_time :: "fill_port \<Rightarrow> trade_intent \<Rightarrow> time option res" where
  "observed_time fp t =
     (case ti_risk_snapshot t ''reference_observed_at'' of
        None \<Rightarrow> Inr None
      | Some (MText s) \<Rightarrow> if s = [] then Inr None else bindR (fp_iso_time fp s) (\<lambda>tm. Inr (Some tm))
      | Some (MNum d) \<Rightarrow> if d = 0 then Inr None else Inl (ValueError ''reference_observed_at: mandatory aware timestamp invalid'')
      | Some (MMap m) \<Rightarrow> if m = [] then Inr None else Inl (ValueError ''reference_observed_at: mandatory aware timestamp invalid''))"

definition reference_evidence :: "fill_port \<Rightarrow> trade_intent \<Rightarrow> (dec option \<times> dec option \<times> dec option \<times> time option) res" where
  "reference_evidence fp t =
     bindR (observed_time fp t) (\<lambda>obs.
     bindR (snapshot_decimal t ''entry_price'') (\<lambda>p.
     bindR (snapshot_decimal t ''reference_bid'') (\<lambda>b.
     bindR (snapshot_decimal t ''reference_ask'') (\<lambda>a. Inr (p, b, a, obs)))))"

definition attributed_fill :: "fill_port \<Rightarrow> trade_intent \<Rightarrow> string \<Rightarrow> valid_fill \<Rightarrow> fill res" where
  "attributed_fill fp t order v =
     bindR (reference_evidence fp t) (\<lambda>(rp, rb, ra, obs).
     bindR (activity_costs (vf_activity v)) (\<lambda>(fees, currency, src).
       fill_post_init
         \<lparr>f_id = ac_id (vf_activity v), f_trade_intent_id = ti_id t, f_order_id = order, f_asset = ti_asset t, f_side = ti_side t,
          f_mode = ti_mode t, f_quantity = vf_qty v, f_price = vf_price v, f_fees = fees,
          f_slippage = (case rp of None \<Rightarrow> 0 | Some p \<Rightarrow> dabs (dsub (vf_price v) p)), f_filled_at = vf_time v,
          f_broker_fill_id = Some (ac_id (vf_activity v)), f_reference_price = rp, f_reference_bid = rb, f_reference_ask = ra,
          f_reference_observed_at = obs, f_submitted_at = ti_submitted_at t, f_order_type = Some (ti_order_type t),
          f_fee_currency = currency, f_fee_source = src\<rparr>))"

definition attributed_event :: "trade_intent \<Rightarrow> string \<Rightarrow> valid_fill \<Rightarrow> fill \<Rightarrow> settlement_event res" where
  "attributed_event t order v f =
     event_post_init
       \<lparr>e_id = f_id f, e_fill_id = f_id f, e_trade_intent_id = ti_id t, e_asset = ti_asset t, e_side = ti_side t, e_mode = ti_mode t,
        e_quantity = f_quantity f, e_price = f_price f, e_occurred_at = vf_time v, e_status = PENDING, e_fees = f_fees f,
        e_sector = ti_sector t, e_broker_order_id = Some order, e_broker_fill_id = Some (ac_id (vf_activity v)),
        e_client_order_id = ti_client_order_id t, e_flags = (\<lambda>_. False), e_realized_pnl = None, e_attempt_count = 0, e_error = None,
        e_next_retry_at = None, e_processing_owner = None, e_processing_started_at = None\<rparr>"

definition store_fill :: "fill_port \<Rightarrow> fill \<Rightarrow> unit routine" where
  "store_fill fp f =
     (if a_class (f_asset f) = CRYPTO
      then writeP (\<lambda>db. bindR (record_gross_fill (fp_opening fp) (fp_sha fp) f (fp_now fp) (db_fills db, db_epochs db))
             (\<lambda>(fs, b). Inr ((), db\<lparr>db_fills := fs, db_epochs := b\<rparr>)))
      else bindP (create_in (fp_env fp) ''fills'' db_fills db_fills_update (f_id f) None (Some (f_id f)) None f) (\<lambda>_. retP ()))"

definition store_event :: "fill_port \<Rightarrow> string \<Rightarrow> settlement_event \<Rightarrow> unit routine" where
  "store_event fp i ev =
     bindP (create_in (fp_env fp) ''settlements'' db_settlements db_settlements_update i
              (Some (settlement_status_value (e_status ev))) (Some i) None ev) (\<lambda>_. retP ())"

text \<open>The event is created whether or not the fill was new: a crash between the two is repaired.\<close>

definition record_fill :: "fill_port \<Rightarrow> trade_intent \<Rightarrow> string \<Rightarrow> valid_fill \<Rightarrow> unit routine" where
  "record_fill fp t order v =
     bindP (liftP (attributed_fill fp t order v)) (\<lambda>f.
     bindP (store_fill fp f) (\<lambda>_.
     bindP (liftP (attributed_event t order v f)) (\<lambda>ev. store_event fp (f_id f) ev)))"

subsection \<open>The order-level quantity check\<close>

definition update_in ::
  "string \<Rightarrow> (ledger \<Rightarrow> 'p tbl) \<Rightarrow> (('p tbl \<Rightarrow> 'p tbl) \<Rightarrow> ledger \<Rightarrow> ledger) \<Rightarrow> (string \<times> string) option \<Rightarrow> time
   \<Rightarrow> string list option \<Rightarrow> string \<Rightarrow> string \<Rightarrow> 'p \<Rightarrow> bool routine" where
  "update_in table get upd lease now pre i st p =
     writeP (\<lambda>db. bindR (update_row table (hold_status db) None (lease_view (db_locks db)) now lease pre i p (Some st) (get db))
       (\<lambda>(b, t). Inr (b, upd (\<lambda>_. t) db)))"

definition clear_pending_hold :: "string \<Rightarrow> unit routine" where
  "clear_pending_hold order =
     bindP (readP (\<lambda>db. hold_status db order)) (\<lambda>st.
       if st = Some (hold_type_value VERIFICATION_PENDING)
       then bindP (delete_in ''integrity_holds'' db_holds db_holds_update order None) (\<lambda>_. retP ()) else retP ())"

definition attribution_hold :: "fill_port \<Rightarrow> trade_intent \<Rightarrow> string \<Rightarrow> hold_type \<Rightarrow> string \<Rightarrow> integrity_hold res" where
  "attribution_hold fp t order ty reason =
     hold_post_init \<lparr>ih_broker_order_id = order, ih_trade_intent_id = ti_id t, ih_type = ty, ih_reason = reason,
       ih_created_at = fp_now fp, ih_attempt_count = 0, ih_next_retry_at = None\<rparr>"

definition create_order_hold :: "fill_port \<Rightarrow> string \<Rightarrow> integrity_hold \<Rightarrow> bool routine" where
  "create_order_hold fp order h =
     create_in (fp_env fp) ''integrity_holds'' db_holds db_holds_update order (Some (hold_type_value (ih_type h))) None None h"

definition hold_unverified :: "fill_port \<Rightarrow> trade_intent \<Rightarrow> string \<Rightarrow> unit routine" where
  "hold_unverified fp t order =
     bindP (readP (\<lambda>db. get_row (db_holds db) order)) (\<lambda>row.
       if row \<noteq> None then retP ()
       else bindP (liftP (attribution_hold fp t order VERIFICATION_PENDING ''Could not verify order-level fill-quantity consistency'')) (\<lambda>h.
            bindP (create_order_hold fp order h) (\<lambda>_. retP ())))"

definition verify_quantity :: "fill_port \<Rightarrow> trade_intent \<Rightarrow> string \<Rightarrow> order_state res \<Rightarrow> dec \<Rightarrow> bool routine" where
  "verify_quantity fp t order answer tot =
     (case answer of
        Inr o' \<Rightarrow> if os_filled o' < tot then retP True else bindP (clear_pending_hold order) (\<lambda>_. retP False)
      | Inl (BrokerError m) \<Rightarrow> bindP (hold_unverified fp t order) (\<lambda>_. retP False)
      | Inl e \<Rightarrow> raiseP e)"

definition decide_quarantine :: "settlement_event \<Rightarrow> settlement_event option res" where
  "decide_quarantine ev =
     (if e_status ev \<noteq> PENDING \<and> e_status ev \<noteq> RETRYABLE_FAILED then Inr None
      else bindR (event_post_init (ev\<lparr>e_status := INTEGRITY_BLOCKED,
             e_error := Some ''INTEGRITY_VIOLATION: order fill quantity disputed'', e_next_retry_at := None,
             e_processing_owner := None, e_processing_started_at := None\<rparr>)) (\<lambda>e. Inr (Some e)))"

definition quarantine_event :: "string \<Rightarrow> unit routine" where
  "quarantine_event i =
     writeP (\<lambda>db. bindR (claim_if_processable ''settlements'' (\<lambda>e. settlement_status_value (e_status e)) i decide_quarantine (db_settlements db))
       (\<lambda>(_, rows). Inr ((), db\<lparr>db_settlements := rows\<rparr>)))"

definition disputed_reason :: string where
  "disputed_reason = ''INTEGRITY_VIOLATION: attributed fill quantity exceeds broker order.filled_qty''"

definition dispute_order :: "fill_port \<Rightarrow> trade_intent \<Rightarrow> string \<Rightarrow> unit routine" where
  "dispute_order fp t order =
     bindP (readP (\<lambda>db. map (\<lambda>r. e_id (r_payload r)) (rows_where (\<lambda>r. e_trade_intent_id (r_payload r) = ti_id t) (db_settlements db)))) (\<lambda>ids.
     bindP (forP quarantine_event ids) (\<lambda>_.
     bindP (liftP (attribution_hold fp t order FILL_QUANTITY_DISPUTED disputed_reason)) (\<lambda>h.
     bindP (create_order_hold fp order h) (\<lambda>created.
     bindP (if created then retP True
            else update_in ''integrity_holds'' db_holds db_holds_update None (fp_now fp) None order (hold_type_value (ih_type h)) h) (\<lambda>_.
       latch_block (fp_env fp) disputed_reason (fp_now fp))))))"

subsection \<open>Attribution\<close>

record attributed_fills =
  at_quantity :: dec
  at_avg_price :: "dec option"

definition validated_fills :: "trade_intent \<Rightarrow> string \<Rightarrow> activity list \<Rightarrow> valid_fill list" where
  "validated_fills t order acts =
     sort_key (\<lambda>v. (vf_time v, ac_id (vf_activity v))) (List.map_filter (validated_fill t) (filter (\<lambda>a. ac_order a = order) acts))"

definition total_of :: "valid_fill list \<Rightarrow> attributed_fills" where
  "total_of vs =
     (let tot = dsum (map vf_qty vs)
      in \<lparr>at_quantity = tot,
          at_avg_price = (if 0 < tot then Some (dquot (dsum (map (\<lambda>v. dmul (vf_qty v) (vf_price v)) vs)) tot) else None)\<rparr>)"

definition attribute_order_fills ::
  "fill_port \<Rightarrow> bool \<Rightarrow> activity list res \<Rightarrow> order_state res \<Rightarrow> trade_intent \<Rightarrow> attributed_fills routine" where
  "attribute_order_fills fp verify activities answer t =
     (case ti_broker_order_id t of
        None \<Rightarrow> raiseP (ValueError ''FILL_ATTRIBUTION_REQUIRES_BROKER_ORDER_ID'')
      | Some order \<Rightarrow>
          bindP (liftP activities) (\<lambda>acts.
            let vs = validated_fills t order acts; tot = total_of vs
            in bindP (if verify then verify_quantity fp t order answer (at_quantity tot) else retP False) (\<lambda>disputed.
               bindP (if disputed then dispute_order fp t order else retP ()) (\<lambda>_.
               bindP (forP (record_fill fp t order) vs) (\<lambda>_. retP tot)))))"

subsection \<open>Finalizing an order\<close>

definition store_intent :: "fill_port \<Rightarrow> trade_intent \<Rightarrow> unit routine" where
  "store_intent fp t =
     bindP (liftP (intent_post_init t)) (\<lambda>u.
     bindP (update_in ''trade_intents'' db_intents db_intents_update None (fp_now fp) None (ti_id u) (intent_status_value (ti_status u)) u)
       (\<lambda>_. retP ()))"

definition with_fills :: "attributed_fills \<Rightarrow> trade_intent \<Rightarrow> trade_intent" where
  "with_fills af t = t\<lparr>ti_filled_quantity := at_quantity af,
     ti_filled_avg_price := (case at_avg_price af of Some p \<Rightarrow> if p \<noteq> 0 then Some p else ti_filled_avg_price t | None \<Rightarrow> ti_filled_avg_price t)\<rparr>"

definition settle_now :: "fill_port \<Rightarrow> unit routine" where
  "settle_now fp = bindP (process_pending (fp_env fp) (fp_now fp) 120 False 100 (\<lambda>_. False)) (\<lambda>_. retP ())"

definition is_terminal :: "trade_intent \<Rightarrow> bool" where
  "is_terminal t = (ti_status t \<in> set TERMINAL_INTENTS)"

definition finalize_order :: "fill_port \<Rightarrow> trade_intent \<Rightarrow> order_state \<Rightarrow> attributed_fills \<Rightarrow> unit routine" where
  "finalize_order fp t o' af =
     (if os_filled o' < at_quantity af then retP ()
      else if os_status o' \<in> set TERMINAL_ORDER_STATUSES \<and> os_filled o' \<le> at_quantity af
      then (case terminal_status_for_order (os_status o') (at_quantity af) (ti_requested_quantity t) of
              None \<Rightarrow> retP ()
            | Some st \<Rightarrow> bindP (store_intent fp ((with_fills af t)\<lparr>ti_status := st\<rparr>)) (\<lambda>_. settle_now fp))
      else if at_quantity af \<noteq> ti_filled_quantity t
      then store_intent fp ((with_fills af t)\<lparr>ti_status := (if 0 < at_quantity af then TI_PARTIALLY_FILLED else ti_status t)\<rparr>)
      else retP ())"

definition resolve_order_from_broker ::
  "fill_port \<Rightarrow> activity list res \<Rightarrow> order_state res \<Rightarrow> order_state res \<Rightarrow> trade_intent \<Rightarrow> attributed_fills routine" where
  "resolve_order_from_broker fp activities answer later t =
     (if ti_broker_order_id t = None then retP \<lparr>at_quantity = 0, at_avg_price = None\<rparr>
      else bindP (attribute_order_fills fp True activities answer t) (\<lambda>af.
        if is_terminal t then retP af
        else case later of
          Inl (BrokerError m) \<Rightarrow> retP af
        | Inl e \<Rightarrow> raiseP e
        | Inr o' \<Rightarrow> bindP (finalize_order fp t o' af) (\<lambda>_. retP af)))"

definition raw_equals :: "raw_value \<Rightarrow> dec \<Rightarrow> bool" where
  "raw_equals v q = (case v of RawDecimal x \<Rightarrow> x = Fin q | RawFloat x \<Rightarrow> x = Fin q | _ \<Rightarrow> False)"

definition order_matches_intent :: "order_state \<Rightarrow> trade_intent \<Rightarrow> bool" where
  "order_matches_intent o' t =
     ((case os_raw_id o' of None \<Rightarrow> False | Some i \<Rightarrow> py_strip i \<noteq> [] \<and> os_id o' = py_strip i)
      \<and> py_lower (text_or_empty (os_tif o')) = default_time_in_force (a_class (ti_asset t))
      \<and> os_client_id o' = Some (ti_id t) \<and> os_symbol o' = a_symbol (ti_asset t) \<and> os_side o' = Some (ti_side t)
      \<and> py_lower (text_or_empty (os_type o')) = py_lower (ti_order_type t)
      \<and> (case (ti_requested_quantity t, ti_requested_notional t) of
            (Some q, _) \<Rightarrow> raw_equals (os_qty o') q
          | (None, Some n) \<Rightarrow> raw_equals (os_notional o') n
          | (None, None) \<Rightarrow> False))"

subsection \<open>A recorded fill\<close>

definition taken :: "string \<Rightarrow> 'p tbl \<Rightarrow> bool" where
  "taken i rows \<longleftrightarrow> get_row rows i \<noteq> None \<or> find_by_unique rows i \<noteq> None"

lemma taken_ignored: "r_id r = i \<Longrightarrow> r_unique r = Some i \<Longrightarrow> taken i rows \<longleftrightarrow> ignored r rows"
  by (simp add: taken_def ignored_def insert_or_ignore_def)

lemma taken_mono: "taken i rows \<Longrightarrow> taken i (snd (insert_or_ignore r rows))"
  by (auto simp: taken_def insert_or_ignore_def get_row_None_iff find_by_unique_None_iff split: option.splits)

lemma create_in_Inr:
  assumes "create_in en table get upd i st (Some i) None p db = (Inr b, db1)"
  shows "\<exists>r. r_id r = i \<and> r_unique r = Some i \<and> r_payload r = p \<and> db1 = upd (\<lambda>_. snd (insert_or_ignore r (get db))) db"
  using assms
  by (intro exI [of _ "new_row en db i st (Some i) p"])
    (auto simp: create_in_def writeP_Inr_iff create_once_def res_iffs new_row_def check_integrity_hold_def split: prod.splits)

lemma create_in_taken:
  assumes "taken i (get db)" "i \<noteq> []" "table \<in> set STATUS_TABLES \<Longrightarrow> st \<noteq> None \<and> st \<noteq> Some []" "upd (\<lambda>_. get db) db = db"
  shows "create_in en table get upd i st (Some i) None p db = (Inr False, db)"
proof -
  have "ignored (new_row en db i st (Some i) p) (get db)"
    using assms(1) taken_ignored [of "new_row en db i st (Some i) p" i "get db"] by (simp add: new_row_def)
  note ig = ignored_same [OF this]
  show ?thesis
    using assms(2-4) by (simp add: create_in_def writeP_def create_once_def guardR_def check_integrity_hold_def ig) (simp add: new_row_def)
qed

definition fill_stored :: "fill \<Rightarrow> ledger \<Rightarrow> bool" where
  "fill_stored f db = (if a_class (f_asset f) = CRYPTO then gross_recorded f (db_fills db, db_epochs db) else taken (f_id f) (db_fills db))"

definition recorded :: "fill_port \<Rightarrow> trade_intent \<Rightarrow> string \<Rightarrow> valid_fill \<Rightarrow> ledger \<Rightarrow> bool" where
  "recorded fp t order v db \<longleftrightarrow> (\<exists>f ev. attributed_fill fp t order v = Inr f \<and> attributed_event t order v f = Inr ev
     \<and> fill_stored f db \<and> taken (f_id f) (db_settlements db))"

lemma attributed_fill_sel:
  assumes "attributed_fill fp t order v = Inr f"
  shows "f_id f = py_strip (ac_id (vf_activity v)) \<and> f_id f \<noteq> [] \<and> f_trade_intent_id f = py_strip (ti_id t) \<and> f_asset f = ti_asset t
    \<and> f_quantity f = vf_qty v \<and> f_price f = vf_price v \<and> f_side f = ti_side t \<and> 0 < vf_qty v \<and> 0 < vf_price v"
  using assms unfolding attributed_fill_def bindR_Inr_iff
  by (auto simp: fill_post_init_def res_iffs require_text_def decimal_value_Inr_iff Let_def split: if_splits)

lemma attributed_event_sel:
  assumes "attributed_event t order v f = Inr ev"
  shows "e_status ev = PENDING \<and> e_quantity ev = f_quantity f \<and> e_price ev = f_price f \<and> e_broker_order_id ev = Some order"
  using assms by (auto simp: attributed_event_def event_post_init_def res_iffs decimal_value_Inr_iff)

lemma store_fill_step:
  assumes "store_fill fp f db = (Inr u, db1)" "book_ok (db_epochs db)"
  shows "fill_stored f db1 \<and> book_ok (db_epochs db1) \<and> (\<exists>r. db_fills db1 = snd (insert_or_ignore r (db_fills db)))
    \<and> db1 = db\<lparr>db_fills := db_fills db1, db_epochs := db_epochs db1\<rparr>"
proof (cases "a_class (f_asset f) = CRYPTO")
  case True
  with assms(1) obtain fs b where r: "record_gross_fill (fp_opening fp) (fp_sha fp) f (fp_now fp) (db_fills db, db_epochs db) = Inr (fs, b)"
    and db1: "db1 = db\<lparr>db_fills := fs, db_epochs := b\<rparr>"
    by (auto simp: store_fill_def writeP_Inr_iff bindR_Inr_iff)
  from gross_recorded_step [OF r assms(2)] record_gross_fill_ok [OF r assms(2)] True db1
  show ?thesis by (auto simp: fill_stored_def)
next
  case False
  with assms(1) obtain bo where c: "create_in (fp_env fp) ''fills'' db_fills db_fills_update (f_id f) None (Some (f_id f)) None f db = (Inr bo, db1)"
    by (auto simp: store_fill_def bindP_Inr_iff)
  from create_in_Inr [OF c] obtain r where r: "r_id r = f_id f" "r_unique r = Some (f_id f)"
    "db1 = db\<lparr>db_fills := snd (insert_or_ignore r (db_fills db))\<rparr>" by auto
  have "taken (f_id f) (db_fills db1)"
    using r taken_ignored [OF r(1,2)] ignored_after [of r r "db_fills db"] by simp
  with False r(3) assms(2) show ?thesis by (auto simp: fill_stored_def)
qed

lemma record_fill_step:
  assumes "record_fill fp t order v db = (Inr u, db1)" "book_ok (db_epochs db)"
  shows "recorded fp t order v db1 \<and> book_ok (db_epochs db1) \<and> (\<exists>r. db_fills db1 = snd (insert_or_ignore r (db_fills db)))
    \<and> (\<exists>r. db_settlements db1 = snd (insert_or_ignore r (db_settlements db)))
    \<and> db1 = db\<lparr>db_fills := db_fills db1, db_epochs := db_epochs db1, db_settlements := db_settlements db1\<rparr>"
proof -
  from assms(1) obtain f d1 ev bo where f: "attributed_fill fp t order v = Inr f" and s: "store_fill fp f db = (Inr (), d1)"
    and ev: "attributed_event t order v f = Inr ev"
    and c: "create_in (fp_env fp) ''settlements'' db_settlements db_settlements_update (f_id f)
              (Some (settlement_status_value (e_status ev))) (Some (f_id f)) None ev d1 = (Inr bo, db1)"
    by (auto simp: record_fill_def store_event_def bindP_Inr_iff liftP_def)
  note s1 = store_fill_step [OF s assms(2)]
  from create_in_Inr [OF c] obtain r where r: "r_id r = f_id f" "r_unique r = Some (f_id f)"
    "db1 = d1\<lparr>db_settlements := snd (insert_or_ignore r (db_settlements d1))\<rparr>" by auto
  have tk: "taken (f_id f) (db_settlements db1)"
    using r taken_ignored [OF r(1,2)] ignored_after [of r r "db_settlements d1"] by simp
  have "fill_stored f db1" using s1 r(3) by (simp add: fill_stored_def)
  with f ev tk have "recorded fp t order v db1" by (auto simp: recorded_def)
  moreover have d1: "d1 = db\<lparr>db_fills := db_fills d1, db_epochs := db_epochs d1\<rparr>" using s1 by blast
  moreover have "db_settlements d1 = db_settlements db" by (subst d1) simp
  moreover have "db1 = db\<lparr>db_fills := db_fills db1, db_epochs := db_epochs db1, db_settlements := db_settlements db1\<rparr>"
    unfolding r(3) by (subst d1) simp
  ultimately show ?thesis using s1 r(3) by auto
qed

lemma recorded_again:
  assumes "recorded fp t order v db"
  shows "record_fill fp t order v db = (Inr (), db)"
proof -
  from assms obtain f ev where f: "attributed_fill fp t order v = Inr f" and ev: "attributed_event t order v f = Inr ev"
    and fs: "fill_stored f db" and tk: "taken (f_id f) (db_settlements db)" by (auto simp: recorded_def)
  have i: "f_id f \<noteq> []" using attributed_fill_sel [OF f] by blast
  have "store_fill fp f db = (Inr (), db)"
  proof (cases "a_class (f_asset f) = CRYPTO")
    case True
    with fs gross_recorded_again [of f "db_fills db" "db_epochs db" "fp_opening fp" "fp_sha fp" "fp_now fp"] show ?thesis
      by (simp add: store_fill_def writeP_def fill_stored_def)
  next
    case False
    with fs create_in_taken [of "f_id f" db_fills db "''fills''" None db_fills_update "fp_env fp" f] i show ?thesis
      by (simp add: store_fill_def fill_stored_def STATUS_TABLES_def)
  qed
  moreover have "store_event fp (f_id f) ev db = (Inr (), db)"
    using tk create_in_taken [of "f_id f" db_settlements db "''settlements''" "Some (settlement_status_value (e_status ev))"
        db_settlements_update "fp_env fp" ev] i attributed_event_sel [OF ev]
    by (simp add: store_event_def)
  ultimately show ?thesis using f ev by (simp add: record_fill_def)
qed

definition fill_key :: "valid_fill \<Rightarrow> string" where
  "fill_key v = py_strip (ac_id (vf_activity v))"

lemma recorded_mono:
  assumes "recorded fp t order v db" "record_fill fp t order v' db = (Inr u, db1)" "book_ok (db_epochs db)" "fill_key v' = fill_key v \<Longrightarrow> v' = v"
  shows "recorded fp t order v db1"
proof -
  from assms(1) obtain f ev where f: "attributed_fill fp t order v = Inr f" and ev: "attributed_event t order v f = Inr ev"
    and fs: "fill_stored f db" and tk: "taken (f_id f) (db_settlements db)" by (auto simp: recorded_def)
  from assms(2) obtain f' d1 ev' where f': "attributed_fill fp t order v' = Inr f'" and s: "store_fill fp f' db = (Inr (), d1)"
    and se: "store_event fp (f_id f') ev' d1 = (Inr (), db1)"
    by (auto simp: record_fill_def bindP_Inr_iff liftP_def)
  note sel = attributed_fill_sel [OF f] attributed_fill_sel [OF f']
  note st = record_fill_step [OF assms(2,3)]
  have same: "f_id f' = f_id f \<Longrightarrow> f' = f" using sel assms(4) f f' by (auto simp: fill_key_def)
  from se obtain r where "db1 = d1\<lparr>db_settlements := snd (insert_or_ignore r (db_settlements d1))\<rparr>"
    unfolding store_event_def bindP_Inr_iff using create_in_Inr by fastforce
  then have d1: "db_fills db1 = db_fills d1" "db_epochs db1 = db_epochs d1" by simp_all
  have "fill_stored f db1"
  proof (cases "a_class (f_asset f) = CRYPTO")
    case True
    with sel s have "record_gross_fill (fp_opening fp) (fp_sha fp) f' (fp_now fp) (db_fills db, db_epochs db) = Inr (db_fills d1, db_epochs d1)"
      by (auto simp: store_fill_def writeP_Inr_iff bindR_Inr_iff)
    from gross_recorded_mono [OF _ this assms(3)] True fs sel same d1 show ?thesis by (auto simp: fill_stored_def)
  next
    case False
    with fs st taken_mono show ?thesis by (auto simp: fill_stored_def)
  qed
  moreover have "taken (f_id f) (db_settlements db1)" using tk st taken_mono by auto
  ultimately show ?thesis using f ev by (auto simp: recorded_def)
qed

lemma record_all:
  assumes "forP (record_fill fp t order) vs db = (Inr u, db1)" "book_ok (db_epochs db)" "distinct (map fill_key (ws @ vs))"
    and "\<forall>v\<in>set ws. recorded fp t order v db"
  shows "(\<forall>v\<in>set (ws @ vs). recorded fp t order v db1) \<and> book_ok (db_epochs db1) \<and> (\<exists>new. db_fills db1 = db_fills db @ new)
    \<and> (\<exists>new. db_settlements db1 = db_settlements db @ new)
    \<and> db1 = db\<lparr>db_fills := db_fills db1, db_epochs := db_epochs db1, db_settlements := db_settlements db1\<rparr>"
  using assms
proof (induction vs arbitrary: db ws)
  case Nil
  then show ?case by simp
next
  case (Cons v vs)
  from Cons.prems(1) obtain d where 1: "record_fill fp t order v db = (Inr (), d)" and 2: "forP (record_fill fp t order) vs d = (Inr u, db1)"
    by (auto simp: bindP_Inr_iff)
  note st = record_fill_step [OF 1 Cons.prems(2)]
  have "\<forall>w\<in>set (ws @ [v]). recorded fp t order w d"
  proof
    fix w assume "w \<in> set (ws @ [v])"
    then show "recorded fp t order w d"
    proof (cases "w = v")
      case True
      with st show ?thesis by simp
    next
      case False
      with \<open>w \<in> set (ws @ [v])\<close> have "w \<in> set ws" by simp
      moreover have "fill_key v = fill_key w \<Longrightarrow> v = w" using Cons.prems(3) \<open>w \<in> set ws\<close> by force
      ultimately show ?thesis using recorded_mono [OF _ 1 Cons.prems(2)] Cons.prems(4) by blast
    qed
  qed
  moreover have "distinct (map fill_key ((ws @ [v]) @ vs))" using Cons.prems(3) by simp
  ultimately have ih: "(\<forall>v\<in>set ((ws @ [v]) @ vs). recorded fp t order v db1) \<and> book_ok (db_epochs db1)
    \<and> (\<exists>new. db_fills db1 = db_fills d @ new) \<and> (\<exists>new. db_settlements db1 = db_settlements d @ new)
    \<and> db1 = d\<lparr>db_fills := db_fills db1, db_epochs := db_epochs db1, db_settlements := db_settlements db1\<rparr>"
    using Cons.IH [OF 2] st by blast
  have ext: "\<exists>new. rows' = rows @ new" if "\<exists>r. rows' = snd (insert_or_ignore r rows)" for rows' rows :: "'p row list"
    using that by (auto simp: insert_or_ignore_def split: if_splits)
  have app: "\<exists>new. db_fills d = db_fills db @ new" using st ext by blast
  have app2: "\<exists>new. db_settlements d = db_settlements db @ new" using st ext by blast
  have d_eq: "d = db\<lparr>db_fills := db_fills d, db_epochs := db_epochs d, db_settlements := db_settlements d\<rparr>" using st by blast
  have "db1 = d\<lparr>db_fills := db_fills db1, db_epochs := db_epochs db1, db_settlements := db_settlements db1\<rparr>" using ih by blast
  also have "\<dots> = db\<lparr>db_fills := db_fills db1, db_epochs := db_epochs db1, db_settlements := db_settlements db1\<rparr>"
    by (subst d_eq) simp
  finally have eq: "db1 = db\<lparr>db_fills := db_fills db1, db_epochs := db_epochs db1, db_settlements := db_settlements db1\<rparr>" .
  have f: "\<exists>new. db_fills db1 = db_fills db @ new" using ih app by (metis append_assoc)
  have g: "\<exists>new. db_settlements db1 = db_settlements db @ new" using ih app2 by (metis append_assoc)
  have r: "\<forall>v\<in>set (ws @ v # vs). recorded fp t order v db1" using ih by simp
  from ih eq f g r show ?case by blast
qed

lemma record_all_again:
  assumes "\<forall>v\<in>set vs. recorded fp t order v db"
  shows "forP (record_fill fp t order) vs db = (Inr (), db)"
  using assms by (induction vs) (simp_all add: recorded_again)

subsection \<open>The holds an attribution leaves\<close>

lemma get_remove_other: "i \<noteq> j \<Longrightarrow> get_row (remove_row i rows) j = get_row rows j"
  by (induction rows) auto

definition holds_only :: "ledger \<Rightarrow> ledger \<Rightarrow> bool" where
  "holds_only db db1 \<longleftrightarrow> (\<exists>h. db1 = db\<lparr>db_holds := h\<rparr>)"

lemma holds_only_refl: "holds_only db db"
  unfolding holds_only_def by (rule exI [of _ "db_holds db"]) simp

text \<open>The check is settled: asking again with the same answer changes nothing.\<close>

definition settled_hold :: "string \<Rightarrow> order_state res \<Rightarrow> ledger \<Rightarrow> bool" where
  "settled_hold order answer db =
     (case answer of
        Inr o' \<Rightarrow> hold_status db order \<noteq> Some (hold_type_value VERIFICATION_PENDING)
      | Inl e \<Rightarrow> get_row (db_holds db) order \<noteq> None)"

lemma verify_quantity_settles:
  assumes "verify_quantity fp t order answer q db = (Inr disputed, db1)" "distinct (map r_id (db_holds db))" "\<not> disputed"
  shows "holds_only db db1 \<and> settled_hold order answer db1"
proof (cases answer)
  case (Inr o')
  with assms(1,3) have c: "clear_pending_hold order db = (Inr (), db1)"
    by (auto simp: verify_quantity_def bindP_Inr_iff split: if_splits)
  show ?thesis
  proof (cases "hold_status db order = Some (hold_type_value VERIFICATION_PENDING)")
    case True
    with c have db1: "db1 = db\<lparr>db_holds := remove_row order (db_holds db)\<rparr>"
      by (auto simp: clear_pending_hold_def bindP_Inr_iff delete_in_def writeP_Inr_iff delete_row_def res_iffs)
    then have "hold_status db1 order = None" using assms(2) by (simp add: hold_status_def get_remove_row)
    with db1 Inr show ?thesis by (auto simp: holds_only_def settled_hold_def)
  next
    case False
    with c have "db1 = db" by (simp add: clear_pending_hold_def)
    with False Inr holds_only_refl show ?thesis by (simp add: settled_hold_def)
  qed
next
  case (Inl e)
  with assms(1) obtain m where e: "e = BrokerError m" by (cases e) (auto simp: verify_quantity_def)
  with Inl assms(1) have c: "hold_unverified fp t order db = (Inr (), db1)" by (auto simp: verify_quantity_def bindP_Inr_iff)
  show ?thesis
  proof (cases "get_row (db_holds db) order")
    case (Some r)
    with c have "db1 = db" by (simp add: hold_unverified_def)
    with Some Inl holds_only_refl show ?thesis by (simp add: settled_hold_def)
  next
    case None
    with c obtain h b where "create_order_hold fp order h db = (Inr b, db1)"
      by (auto simp: hold_unverified_def bindP_Inr_iff)
    then have "\<exists>x. db1 = db\<lparr>db_holds := snd (insert_or_ignore x (db_holds db))\<rparr> \<and> r_id x = order \<and> r_unique x = None"
      by (intro exI [of _ "new_row (fp_env fp) db order (Some (hold_type_value (ih_type h))) None h"])
        (auto simp: create_order_hold_def create_in_def writeP_Inr_iff create_once_def res_iffs new_row_def split: prod.splits)
    then obtain x where x: "db1 = db\<lparr>db_holds := snd (insert_or_ignore x (db_holds db))\<rparr>" "r_id x = order" "r_unique x = None" by blast
    with None have "get_row (db_holds db1) order \<noteq> None" by (simp add: insert_or_ignore_def)
    with x(1) Inl show ?thesis by (auto simp: holds_only_def settled_hold_def)
  qed
qed

text \<open>What an attribution of an order reports as disputed.\<close>

definition is_disputed :: "bool \<Rightarrow> order_state res \<Rightarrow> dec \<Rightarrow> bool" where
  "is_disputed verify answer q \<longleftrightarrow> verify \<and> (case answer of Inr o' \<Rightarrow> os_filled o' < q | Inl _ \<Rightarrow> False)"

lemma verify_quantity_answer:
  "verify_quantity fp t order answer q db = (Inr d, db1) \<Longrightarrow>
     d = is_disputed True answer q \<and> (d \<longrightarrow> db1 = db) \<and> (case answer of Inr _ \<Rightarrow> True | Inl e \<Rightarrow> \<exists>m. e = BrokerError m)"
  by (auto simp: verify_quantity_def is_disputed_def bindP_Inr_iff split: sum.splits exc.splits if_splits)

lemma verify_quantity_again:
  assumes "settled_hold order answer db" "\<not> is_disputed True answer q" "case answer of Inr _ \<Rightarrow> True | Inl e \<Rightarrow> \<exists>m. e = BrokerError m"
  shows "verify_quantity fp t order answer q db = (Inr False, db)"
  using assms
  by (cases answer)
    (auto simp: verify_quantity_def settled_hold_def is_disputed_def clear_pending_hold_def hold_unverified_def)

text \<open>C23: an attribution of an undisputed order returns exactly the quantity and average of the
  order's validated activities, and leaves for each of them one fill and one settlement
  event: no stored fill or event changes, and attributing the same activities again, from
  the live poll or from late recovery, changes nothing at all.\<close>

theorem fills_attributed_once:
  assumes "attribute_order_fills fp verify (Inr acts) answer t db = (Inr af, db1)" and "ti_broker_order_id t = Some order"
    and "\<not> is_disputed verify answer (at_quantity af)"
    and "book_ok (db_epochs db)" and "distinct (map r_id (db_holds db))"
    and "distinct (map fill_key (validated_fills t order acts))"
  shows "af = total_of (validated_fills t order acts)
    \<and> (\<forall>v\<in>set (validated_fills t order acts). recorded fp t order v db1)
    \<and> (\<exists>new. db_fills db1 = db_fills db @ new) \<and> (\<exists>new. db_settlements db1 = db_settlements db @ new)
    \<and> attribute_order_fills fp verify (Inr acts) answer t db1 = (Inr af, db1)"
proof -
  let ?vs = "validated_fills t order acts" let ?q = "at_quantity (total_of ?vs)"
  from assms(1,2) obtain d d1 d2 where ver: "(if verify then verify_quantity fp t order answer ?q else retP False) db = (Inr d, d1)"
    and dis: "(if d then dispute_order fp t order else retP ()) d1 = (Inr (), d2)"
    and rec: "forP (record_fill fp t order) ?vs d2 = (Inr (), db1)" and af: "af = total_of ?vs"
    by (auto simp: attribute_order_fills_def Let_def bindP_Inr_iff)
  have nd: "\<not> d"
    using assms(3) ver verify_quantity_answer [of fp t order answer ?q db d d1] by (auto simp: is_disputed_def af split: if_splits)
  with dis have d2: "d2 = d1" by simp
  have hv: "holds_only db d1 \<and> (verify \<longrightarrow> settled_hold order answer d1)"
    using ver nd verify_quantity_settles [OF _ assms(5), of fp t order answer ?q d d1] holds_only_refl by (auto split: if_splits)
  then obtain h where h: "d1 = db\<lparr>db_holds := h\<rparr>" by (auto simp: holds_only_def)
  have r: "(\<forall>v\<in>set ?vs. recorded fp t order v db1) \<and> (\<exists>new. db_fills db1 = db_fills db @ new)
    \<and> (\<exists>new. db_settlements db1 = db_settlements db @ new)
    \<and> db1 = d1\<lparr>db_fills := db_fills db1, db_epochs := db_epochs db1, db_settlements := db_settlements db1\<rparr>"
    using record_all [OF rec, of "[]"] assms(4,6) d2 h by simp
  then have "db1 = d1\<lparr>db_fills := db_fills db1, db_epochs := db_epochs db1, db_settlements := db_settlements db1\<rparr>" by blast
  then have "db_holds db1 = db_holds d1" by (rule ssubst) simp
  then have st: "verify \<Longrightarrow> settled_hold order answer db1"
    using hv by (cases answer) (simp_all add: settled_hold_def hold_status_def)
  have same: "(if verify then verify_quantity fp t order answer ?q else retP False) db1 = (Inr False, db1)"
  proof (cases verify)
    case True
    with ver verify_quantity_answer [of fp t order answer ?q db d d1]
    have "case answer of Inr _ \<Rightarrow> True | Inl e \<Rightarrow> \<exists>m. e = BrokerError m" by simp
    moreover have "\<not> is_disputed True answer ?q" using True assms(3) by (simp add: af)
    ultimately show ?thesis using True st verify_quantity_again by simp
  qed simp
  have rec1: "forP (record_fill fp t order) ?vs db1 = (Inr (), db1)" using r record_all_again by blast
  have "attribute_order_fills fp verify (Inr acts) answer t db1 = (Inr af, db1)"
    using same rec1 assms(2) by (cases verify) (auto simp: attribute_order_fills_def Let_def af bindP_Inr_iff)
  with r af show ?thesis by blast
qed
subsection \<open>A disputed order\<close>

definition disputed_hold :: "string \<Rightarrow> ledger \<Rightarrow> bool" where
  "disputed_hold order db \<longleftrightarrow> hold_status db order = Some (hold_type_value FILL_QUANTITY_DISPUTED)"

definition quiet_event :: "string \<Rightarrow> ledger \<Rightarrow> bool" where
  "quiet_event i db \<longleftrightarrow> (\<exists>r. get_row (db_settlements db) i = Some r \<and> e_status (r_payload r) \<noteq> PENDING \<and> e_status (r_payload r) \<noteq> RETRYABLE_FAILED)"

lemma disputed_hold_iff:
  "disputed_hold k db \<longleftrightarrow> (\<exists>r. get_row (db_holds db) k = Some r \<and> r_status r = Some (hold_type_value FILL_QUANTITY_DISPUTED))"
  by (auto simp: disputed_hold_def hold_status_def split: option.splits)

lemma keeps_disputed_create: "keeps (disputed_hold k) (create_order_hold fp order h)"
proof (rule keepsI)
  fix db assume d: "disputed_hold k db"
  obtain r db1 where c: "create_order_hold fp order h db = (r, db1)" by (cases "create_order_hold fp order h db")
  show "disputed_hold k (snd (create_order_hold fp order h db))"
  proof (cases r)
    case (Inl e)
    with c have "db1 = db" by (auto simp: create_order_hold_def create_in_def dest: writeP_Inl)
    with c d show ?thesis by simp
  next
    case (Inr b)
    with c have "create_order_hold fp order h db = (Inr b, db1)" by simp
    from create_in_writes [OF this [unfolded create_order_hold_def]] c d show ?thesis
      by (auto simp: disputed_hold_iff dest: get_insert_kept)
  qed
qed

lemma keeps_disputed_clear: "keeps (disputed_hold k) (clear_pending_hold order)"
proof (rule keepsI)
  fix db assume d: "disputed_hold k db"
  show "disputed_hold k (snd (clear_pending_hold order db))"
  proof (cases "hold_status db order = Some (hold_type_value VERIFICATION_PENDING)")
    case True
    with d have "order \<noteq> k" by (auto simp: disputed_hold_def)
    then have "get_row (remove_row order (db_holds db)) k = get_row (db_holds db) k" by (rule get_remove_other)
    with True d show ?thesis
      by (simp add: clear_pending_hold_def bindP_def delete_in_def writeP_def delete_row_def guardR_def check_integrity_hold_def
          disputed_hold_iff)
  next
    case False
    with d show ?thesis by (simp add: clear_pending_hold_def)
  qed
qed
lemma keeps_create_append:
  assumes "\<And>d x. P d \<Longrightarrow> P (upd (\<lambda>_. snd (insert_or_ignore x (get d))) d)"
  shows "keeps P (create_in en table get upd i st u g p)"
proof (rule keepsI)
  fix d assume d: "P d"
  obtain r d1 where c: "create_in en table get upd i st u g p d = (r, d1)" by (cases "create_in en table get upd i st u g p d")
  show "P (snd (create_in en table get upd i st u g p d))"
  proof (cases r)
    case (Inl e)
    with c d show ?thesis by (auto simp: create_in_def dest: writeP_Inl)
  next
    case (Inr b)
    with c create_in_writes [of en table get upd i st u g p d b d1] d assms show ?thesis by simp
  qed
qed

lemma keeps_record_fill:
  assumes "\<And>db f b. P db \<Longrightarrow> P (db\<lparr>db_fills := f, db_epochs := b\<rparr>)"
    and "\<And>db f. P db \<Longrightarrow> P (db\<lparr>db_fills := f\<rparr>)"
    and "\<And>db x. P db \<Longrightarrow> P (db\<lparr>db_settlements := snd (insert_or_ignore x (db_settlements db))\<rparr>)"
  shows "keeps P (record_fill fp t order v)"
proof -
  have "keeps P (store_fill fp f)" for f
  proof (cases "a_class (f_asset f) = CRYPTO")
    case True
    then show ?thesis
      by (auto simp: store_fill_def bindR_Inr_iff intro!: keeps_writeP assms(1))
  next
    case False
    then show ?thesis unfolding store_fill_def if_not_P [OF False]
      by (intro keeps_bindP keeps_basic keeps_create_append assms(2))
  qed
  moreover have "keeps P (store_event fp i ev)" for i ev
    unfolding store_event_def by (intro keeps_bindP keeps_basic keeps_create_append assms(3))
  ultimately show ?thesis unfolding record_fill_def by (intro keeps_bindP keeps_basic)
qed

lemma keeps_quarantine:
  assumes "\<And>db i f. P db \<Longrightarrow> (\<And>r. r_id (f r) = r_id r \<and> e_status (r_payload (f r)) = INTEGRITY_BLOCKED)
    \<Longrightarrow> P (db\<lparr>db_settlements := set_row i f (db_settlements db)\<rparr>)"
  shows "keeps P (quarantine_event i)"
  unfolding quarantine_event_def
proof (rule keeps_writeP)
  fix db v db1
  assume p: "P db" and r: "bindR (claim_if_processable ''settlements'' (\<lambda>e. settlement_status_value (e_status e)) i decide_quarantine (db_settlements db))
    (\<lambda>(_, rows). Inr ((), db\<lparr>db_settlements := rows\<rparr>)) = Inr (v, db1)"
  show "P db1"
  proof (cases "get_row (db_settlements db) i")
    case None
    with r p show ?thesis by (auto simp: claim_if_processable_def res_iffs)
  next
    case (Some x)
    with r obtain q where q: "decide_quarantine (r_payload x) = Inr q"
      and db1: "db1 = (case q of None \<Rightarrow> db | Some e \<Rightarrow>
        db\<lparr>db_settlements := set_row i (\<lambda>r. r\<lparr>r_payload := e, r_status := Some (settlement_status_value (e_status e))\<rparr>) (db_settlements db)\<rparr>)"
      by (auto simp: claim_if_processable_def res_iffs split: option.splits)
    show ?thesis
    proof (cases q)
      case None
      with db1 p show ?thesis by simp
    next
      case (Some e)
      with q have "e_status e = INTEGRITY_BLOCKED"
        by (auto simp: decide_quarantine_def event_post_init_def res_iffs split: if_splits)
      with p Some db1 assms show ?thesis by simp
    qed
  qed
qed
lemma keeps_quiet_quarantine: "keeps (quiet_event j) (quarantine_event i)"
proof (rule keeps_quarantine)
  fix db k and f :: "settlement_event row \<Rightarrow> settlement_event row"
  assume q: "quiet_event j db" and f: "\<And>r. r_id (f r) = r_id r \<and> e_status (r_payload (f r)) = INTEGRITY_BLOCKED"
  from q obtain r where r: "get_row (db_settlements db) j = Some r"
    "e_status (r_payload r) \<noteq> PENDING" "e_status (r_payload r) \<noteq> RETRYABLE_FAILED" by (auto simp: quiet_event_def)
  have "get_row (set_row k f (db_settlements db)) j = (if k = j then Some (f r) else Some r)"
    using r(1) f by (simp add: get_set_row)
  then show "quiet_event j (db\<lparr>db_settlements := set_row k f (db_settlements db)\<rparr>)"
    using r f get_row_Some_in [OF r(1)] by (auto simp: quiet_event_def)
qed

lemma quarantine_quiets:
  assumes "quarantine_event i db = (Inr u, db1)" "get_row (db_settlements db) i \<noteq> None"
  shows "quiet_event i db1"
proof -
  from assms obtain x q where x: "get_row (db_settlements db) i = Some x" and q: "decide_quarantine (r_payload x) = Inr q"
    and db1: "db1 = (case q of None \<Rightarrow> db | Some e \<Rightarrow>
      db\<lparr>db_settlements := set_row i (\<lambda>r. r\<lparr>r_payload := e, r_status := Some (settlement_status_value (e_status e))\<rparr>) (db_settlements db)\<rparr>)"
    by (auto simp: quarantine_event_def writeP_Inr_iff claim_if_processable_def res_iffs split: option.splits)
  show ?thesis
  proof (cases q)
    case None
    with q have "e_status (r_payload x) \<noteq> PENDING \<and> e_status (r_payload x) \<noteq> RETRYABLE_FAILED"
      by (auto simp: decide_quarantine_def res_iffs split: if_splits)
    with None db1 x show ?thesis by (simp add: quiet_event_def)
  next
    case (Some e)
    with q have "e_status e = INTEGRITY_BLOCKED"
      by (auto simp: decide_quarantine_def event_post_init_def res_iffs split: if_splits)
    with Some db1 x show ?thesis by (simp add: quiet_event_def get_set_row)
  qed
qed

lemma keeps_event_quarantine: "keeps (\<lambda>db. get_row (db_settlements db) j \<noteq> None) (quarantine_event i)"
  by (rule keeps_quarantine) (auto simp: get_set_row)

lemma quarantine_all_quiets:
  assumes "forP quarantine_event ids db = (Inr u, db1)" "i \<in> set ids" "get_row (db_settlements db) i \<noteq> None"
  shows "quiet_event i db1"
  using assms
proof (induction ids arbitrary: db)
  case Nil
  then show ?case by simp
next
  case (Cons j ids)
  from Cons.prems(1) obtain d where 1: "quarantine_event j db = (Inr (), d)" and 2: "forP quarantine_event ids d = (Inr u, db1)"
    by (auto simp: bindP_Inr_iff)
  show ?case
  proof (cases "i = j")
    case True
    have "quiet_event i d" by (rule quarantine_quiets [OF 1 [folded True] Cons.prems(3)])
    have k: "keeps (quiet_event i) (forP quarantine_event ids)" by (rule keeps_forP) (rule keeps_quiet_quarantine)
    from keepsD [OF k \<open>quiet_event i d\<close>] show ?thesis by (simp only: 2 snd_conv)
  next
    case False
    have "get_row (db_settlements (snd (quarantine_event j db))) i \<noteq> None"
      by (rule keepsD [OF keeps_event_quarantine Cons.prems(3)])
    then have g: "get_row (db_settlements d) i \<noteq> None" unfolding 1 snd_conv .
    from False Cons.prems(2) have "i \<in> set ids" by simp
    from Cons.IH [OF 2 this g] show ?thesis .
  qed
qed

lemma dispute_order_effect:
  assumes "dispute_order fp t order db = (Inr u, db1)"
  shows "disputed_hold order db1 \<and> blocked db1
    \<and> (\<forall>r\<in>set (db_settlements db). e_id (r_payload r) = r_id r \<and> e_trade_intent_id (r_payload r) = ti_id t \<longrightarrow> quiet_event (r_id r) db1)"
proof -
  let ?ids = "map (\<lambda>r. e_id (r_payload r)) (rows_where (\<lambda>r. e_trade_intent_id (r_payload r) = ti_id t) (db_settlements db))"
  from assms obtain d1 h created d2 w d3 where q: "forP quarantine_event ?ids db = (Inr (), d1)"
    and oh: "attribution_hold fp t order FILL_QUANTITY_DISPUTED disputed_reason = Inr h"
    and c: "create_order_hold fp order h d1 = (Inr created, d2)"
    and up: "(if created then retP True else update_in ''integrity_holds'' db_holds db_holds_update None (fp_now fp) None order
               (hold_type_value (ih_type h)) h) d2 = (Inr w, d3)"
    and l: "latch_block (fp_env fp) disputed_reason (fp_now fp) d3 = (Inr (), db1)"
    by (auto simp: dispute_order_def bindP_Inr_iff liftP_def)
  have ty: "ih_type h = FILL_QUANTITY_DISPUTED" using oh by (auto simp: attribution_hold_def hold_post_init_def res_iffs)
  note cw = create_in_writes [OF c [unfolded create_order_hold_def]]
  have d3: "disputed_hold order d3 \<and> db_settlements d3 = db_settlements d1"
  proof (cases created)
    case True
    with up cw ty show ?thesis by (auto simp: disputed_hold_iff insert_or_ignore_def new_row_def split: option.splits if_splits)
  next
    case False
    with cw have "get_row (db_holds d2) order \<noteq> None" by (auto simp: insert_or_ignore_def new_row_def split: if_splits)
    with False up cw ty show ?thesis
      by (auto simp: update_in_def writeP_Inr_iff update_row_def res_iffs disputed_hold_iff get_set_row STATUS_TABLES_def)
  qed
  have le: "db1 = d3\<lparr>db_session := db_session db1, db_audit := db_audit db1\<rparr>"
    using latch_block_effect [of "fp_env fp" disputed_reason "fp_now fp" d3] l by simp
  have same: "db_holds db1 = db_holds d3" "db_settlements db1 = db_settlements d1" by (subst le, simp add: d3)+
  have "quiet_event (r_id r) db1"
    if r: "r \<in> set (db_settlements db)" "e_id (r_payload r) = r_id r" "e_trade_intent_id (r_payload r) = ti_id t" for r
  proof -
    have "r_id r \<in> set ?ids" using r by (force simp: rows_where_def)
    moreover have "get_row (db_settlements db) (r_id r) \<noteq> None" using r(1) by (simp add: get_row_None_iff)
    ultimately show ?thesis using quarantine_all_quiets [OF q] same by (simp add: quiet_event_def)
  qed
  with d3 same latch_block_blocks [OF l] show ?thesis by (simp add: disputed_hold_iff)
qed
lemma keeps_disputed_update:
  "keeps (disputed_hold k) (update_in ''integrity_holds'' db_holds db_holds_update None now None order (hold_type_value FILL_QUANTITY_DISPUTED) h)"
  unfolding update_in_def
  by (rule keeps_writeP) (auto simp: update_row_def res_iffs disputed_hold_iff get_set_row STATUS_TABLES_def)

lemma keeps_disputed_dispute: "keeps (disputed_hold k) (dispute_order fp t order)"
proof -
  have q: "keeps (disputed_hold k) (quarantine_event i)" for i
    by (rule keeps_quarantine) (simp add: disputed_hold_iff)
  have l: "keeps (disputed_hold k) (latch_block en m now)" for en m now
    by (rule keeps_latch_block) (simp add: disputed_hold_iff)
  have u: "keeps (disputed_hold k) (if created then retP True
      else update_in ''integrity_holds'' db_holds db_holds_update None (fp_now fp) None order (hold_type_value (ih_type h)) h)"
    if "attribution_hold fp t order FILL_QUANTITY_DISPUTED disputed_reason = Inr h" for created h
  proof -
    from that have "ih_type h = FILL_QUANTITY_DISPUTED" by (auto simp: attribution_hold_def hold_post_init_def res_iffs)
    with keeps_disputed_update [of k "fp_now fp" order h] show ?thesis by auto
  qed
  show ?thesis
  proof (cases "attribution_hold fp t order FILL_QUANTITY_DISPUTED disputed_reason")
    case (Inl e)
    then have "bindP (liftP (Inl e :: integrity_hold res)) f = (raiseP e :: unit routine)" for f by (simp add: fun_eq_iff)
    with Inl show ?thesis unfolding dispute_order_def
      by simp (intro keeps_bindP keeps_forP keeps_basic q)
  next
    case (Inr h)
    then have b: "bindP (liftP (Inr h :: integrity_hold res)) f = (f h :: unit routine)" for f by (simp add: fun_eq_iff)
    show ?thesis unfolding dispute_order_def Inr b
      by (intro keeps_bindP keeps_forP keeps_basic q keeps_disputed_create l u [OF Inr])
  qed
qed

lemma keeps_disputed_attribution: "keeps (disputed_hold k) (attribute_order_fills fp verify acts answer t)"
proof (cases "ti_broker_order_id t")
  case None
  then show ?thesis by (simp add: attribute_order_fills_def keeps_basic)
next
  case (Some order)
  have hu: "keeps (disputed_hold k) (hold_unverified fp t order)"
    unfolding hold_unverified_def
    by (intro keeps_bindP keeps_basic) (auto intro!: keeps_bindP keeps_disputed_create)
  have v: "keeps (disputed_hold k) (verify_quantity fp t order answer q)" for q
    unfolding verify_quantity_def
    by (cases answer rule: sum.exhaust [case_names Inl Inr], rename_tac e, case_tac e)
      (auto intro!: keeps_bindP hu keeps_disputed_clear)
  have r: "keeps (disputed_hold k) (record_fill fp t order x)" for x
    by (rule keeps_record_fill) (simp_all add: disputed_hold_iff)
  show ?thesis unfolding attribute_order_fills_def Some option.case Let_def
    by (intro keeps_bindP keeps_basic) (auto intro!: keeps_bindP keeps_forP r v keeps_disputed_dispute)
qed

text \<open>C24: when the fills attributed to an order exceed what the broker says was filled, the
  attribution that reports it leaves the order held and the session blocked, every write
  guarded by the order is refused, and no pending or retryable event that the intent
  already had stays processable. No later attribution, of any intent and with any
  answers, releases the hold.\<close>

theorem disputed_order_held:
  assumes "attribute_order_fills fp True acts (Inr o') t db = (Inr af, db1)" and "ti_broker_order_id t = Some order"
    and "os_filled o' < at_quantity af"
  shows "hold_status db1 order = Some (hold_type_value FILL_QUANTITY_DISPUTED) \<and> blocked db1
    \<and> (\<exists>e. check_integrity_hold (hold_status db1) (Some (Some order)) = Inl e)
    \<and> (\<forall>r\<in>set (db_settlements db). e_id (r_payload r) = r_id r \<and> e_trade_intent_id (r_payload r) = ti_id t \<longrightarrow> quiet_event (r_id r) db1)
    \<and> hold_status (snd (attribute_order_fills fp' verify' acts' answer' t' db1)) order = Some (hold_type_value FILL_QUANTITY_DISPUTED)"
proof -
  from assms(1,2) obtain as d d1 d2 where ver: "verify_quantity fp t order (Inr o') (at_quantity af) db = (Inr d, d1)"
    and dis: "(if d then dispute_order fp t order else retP ()) d1 = (Inr (), d2)"
    and rec: "forP (record_fill fp t order) (validated_fills t order as) d2 = (Inr (), db1)"
    by (auto simp: attribute_order_fills_def Let_def bindP_Inr_iff liftP_def)
  have "d \<and> d1 = db" using verify_quantity_answer [OF ver] assms(3) by (simp add: is_disputed_def)
  with dis have "dispute_order fp t order db = (Inr (), d2)" by simp
  note eff = dispute_order_effect [OF this]
  have rk: "keeps P (forP (record_fill fp t order) vs)"
    if "\<And>x. keeps P (record_fill fp t order x)" for P vs
    by (rule keeps_forP) (rule that)
  have h: "disputed_hold order db1"
    using keepsD [OF rk [of "disputed_hold order"], OF keeps_record_fill, of d2 "validated_fills t order as"] eff rec
    by (simp add: disputed_hold_iff)
  have b: "blocked db1"
    using keepsD [OF rk [of blocked], OF keeps_record_fill, of d2 "validated_fills t order as"] eff rec by (simp add: blocked_def)
  have q: "quiet_event i db1" if "quiet_event i d2" for i
    using keepsD [OF rk [of "quiet_event i"], OF keeps_record_fill, of d2 "validated_fills t order as"] that rec get_insert_kept
    by (fastforce simp: quiet_event_def)
  have l: "disputed_hold order (snd (attribute_order_fills fp' verify' acts' answer' t' db1))"
    by (rule keepsD [OF keeps_disputed_attribution h])
  have g: "\<exists>e. check_integrity_hold (hold_status db1) (Some (Some order)) = Inl e"
    using h by (simp add: disputed_hold_def check_integrity_hold_def)
  from h b g l q eff show ?thesis by (simp add: disputed_hold_def)
qed
subsection \<open>Concrete attributions\<close>

definition demo_fill_port :: fill_port where
  "demo_fill_port = \<lparr>fp_env = \<lparr>en_fresh = \<lambda>_. ''n1'', en_stamp = \<lambda>_. 100, en_alerts_configured = False, en_alert_lease = \<lambda>_. False,
     en_alert_sent = \<lambda>_. False\<rparr>, fp_now = 100, fp_opening = Inr None, fp_sha = \<lambda>_. ''h'', fp_iso_time = \<lambda>_. Inr 100\<rparr>"

definition demo_activity :: activity where
  "demo_activity = \<lparr>ac_id = ''f2'', ac_symbol = ''X'', ac_side = Some BUY, ac_qty = Some 4, ac_price = Some 12, ac_time = Some 100,
     ac_order = ''b1'', ac_fees = [], ac_currencies = [], ac_type = ''FILL'', ac_digest = ''d'', ac_day = None\<rparr>"

definition demo_valid :: valid_fill where
  "demo_valid = \<lparr>vf_activity = demo_activity, vf_qty = 4, vf_price = 12, vf_time = 100\<rparr>"

definition demo_waiting :: ledger where
  "demo_waiting = demo_ledger\<lparr>db_settlements := [plain_row ''s1'' (Some ''pending'') (Some ''f1'') (demo_buy\<lparr>e_id := ''s1'', e_status := PENDING\<rparr>)]\<rparr>"

lemma demo_validated: "validated_fills demo_intent ''b1'' [demo_activity] = [demo_valid]"
  by (simp add: validated_fills_def validated_fill_def demo_activity_def demo_intent_def demo_asset_def demo_valid_def
      List.map_filter_def)

lemma demo_total: "at_quantity (total_of [demo_valid]) = 4"
  by (simp add: total_of_def demo_valid_def dsum_def dadd_def Let_def)
lemma demo_attribution_text:
  "require_text (Some ''f2'') = Inr ''f2''" "require_text (Some ''t1'') = Inr ''t1''" "require_text (Some ''b1'') = Inr ''b1''"
  "require_text (Some ''market'') = Inr ''market''" "require_text (Some ''unavailable'') = Inr ''unavailable''"
  "require_text (Some ''s1'') = Inr ''s1''" "require_text (Some ''f1'') = Inr ''f1''" "require_text (Some disputed_reason) = Inr disputed_reason"
  by code_simp+

lemmas demo_attribution_defs = demo_fill_port_def demo_activity_def demo_valid_def demo_intent_def demo_asset_def demo_waiting_def
  plain_row_def demo_ledger_def demo_buy_def demo_event_def

definition demo_attributed :: fill where
  "demo_attributed = demo_fill\<lparr>f_id := ''f2'', f_fees := 0, f_broker_fill_id := Some ''f2'', f_order_type := Some ''market'',
     f_fee_source := ''unavailable''\<rparr>"

lemma demo_attributed_fill: "attributed_fill demo_fill_port demo_intent ''b1'' demo_valid = Inr demo_attributed"
  by (simp add: attributed_fill_def reference_evidence_def observed_time_def snapshot_decimal_def activity_costs_def fill_post_init_def
      decimal_value_def opt_positive_def opt_text_def guardR_def demo_attribution_text demo_attribution_defs demo_attributed_def demo_fill_def)

lemma demo_record: "\<exists>ev. record_fill demo_fill_port demo_intent ''b1'' demo_valid db
     = (Inr (), db\<lparr>db_fills := snd (insert_or_ignore (new_row (fp_env demo_fill_port) db ''f2'' None (Some ''f2'') demo_attributed) (db_fills db)),
          db_settlements := snd (insert_or_ignore (new_row (fp_env demo_fill_port) db ''f2'' (Some ''pending'') (Some ''f2'') ev) (db_settlements db))\<rparr>)"
proof -
  obtain ev where ev: "attributed_event demo_intent ''b1'' demo_valid demo_attributed = Inr ev" "e_status ev = PENDING"
    by (simp add: attributed_event_def event_post_init_def decimal_value_def guardR_def demo_attribution_text demo_attribution_defs
        demo_attributed_def demo_fill_def)
  have a: "f_id demo_attributed = ''f2''" "a_class (f_asset demo_attributed) = EQUITY"
    by (simp_all add: demo_attributed_def demo_fill_def demo_asset_def)
  have st: "en_stamp (fp_env demo_fill_port) d = 100" for d by (simp add: demo_fill_port_def)
  have not_status: "''fills'' \<in> set STATUS_TABLES \<Longrightarrow> st \<noteq> None \<and> st \<noteq> Some []" for st :: "string option"
    by (simp add: STATUS_TABLES_def)
  have f: "store_fill demo_fill_port demo_attributed db
     = (Inr (), db\<lparr>db_fills := snd (insert_or_ignore (new_row (fp_env demo_fill_port) db ''f2'' None (Some ''f2'') demo_attributed) (db_fills db))\<rparr>)" for db
    by (simp add: store_fill_def a create_in_runs [OF _ not_status] bindP_def)
  have e: "store_event demo_fill_port ''f2'' ev db
     = (Inr (), db\<lparr>db_settlements := snd (insert_or_ignore (new_row (fp_env demo_fill_port) db ''f2'' (Some ''pending'') (Some ''f2'') ev) (db_settlements db))\<rparr>)" for db
    by (simp add: store_event_def ev create_in_runs bindP_def)
  show ?thesis
    by (rule exI [of _ ev]) (simp add: record_fill_def demo_attributed_fill ev a f e new_row_def st)
qed

lemma demo_order_b1: "ti_broker_order_id demo_intent = Some ''b1''"
  by (simp add: demo_intent_def)

theorem fills_attributed_once_witness:
  "\<exists>db1. attribute_order_fills demo_fill_port True (Inr [demo_activity]) (Inr (demo_order\<lparr>os_filled := 4\<rparr>)) demo_intent demo_ledger
       = (Inr (total_of [demo_valid]), db1) \<and> recorded demo_fill_port demo_intent ''b1'' demo_valid db1
     \<and> attribute_order_fills demo_fill_port True (Inr [demo_activity]) (Inr (demo_order\<lparr>os_filled := 4\<rparr>)) demo_intent db1
       = (Inr (total_of [demo_valid]), db1)"
proof -
  obtain db1 where rec: "record_fill demo_fill_port demo_intent ''b1'' demo_valid demo_ledger = (Inr (), db1)"
    using demo_record by blast
  have v: "verify_quantity demo_fill_port demo_intent ''b1'' (Inr (demo_order\<lparr>os_filled := 4\<rparr>)) 4 demo_ledger = (Inr False, demo_ledger)"
    by (simp add: verify_quantity_def clear_pending_hold_def hold_status_def demo_ledger_def)
  have a: "attribute_order_fills demo_fill_port True (Inr [demo_activity]) (Inr (demo_order\<lparr>os_filled := 4\<rparr>)) demo_intent demo_ledger
       = (Inr (total_of [demo_valid]), db1)"
    using v rec by (auto simp: attribute_order_fills_def demo_order_b1 demo_validated demo_total Let_def bindP_Inr_iff)
  have n: "\<not> is_disputed True (Inr (demo_order\<lparr>os_filled := 4\<rparr>)) (at_quantity (total_of [demo_valid]))"
    by (simp add: is_disputed_def demo_total)
  have b: "book_ok (db_epochs demo_ledger)" "distinct (map r_id (db_holds demo_ledger))" by (simp_all add: demo_ledger_def book_ok_def)
  from fills_attributed_once [OF a demo_order_b1 n b] a show ?thesis by (simp add: demo_validated)
qed

theorem disputed_order_held_witness:
  "\<exists>db1. attribute_order_fills demo_fill_port True (Inr [demo_activity]) (Inr demo_order) demo_intent demo_waiting
       = (Inr (total_of [demo_valid]), db1) \<and> hold_status db1 ''b1'' = Some ''fill_quantity_disputed'' \<and> blocked db1 \<and> quiet_event ''s1'' db1"
proof -
  let ?h = "\<lparr>ih_broker_order_id = ''b1'', ih_trade_intent_id = ''t1'', ih_type = FILL_QUANTITY_DISPUTED, ih_reason = disputed_reason,
     ih_created_at = 100, ih_attempt_count = 0, ih_next_retry_at = None\<rparr>"
  have h: "attribution_hold demo_fill_port demo_intent ''b1'' FILL_QUANTITY_DISPUTED disputed_reason = Inr ?h"
    by (simp add: attribution_hold_def hold_post_init_def demo_attribution_text demo_attribution_defs)
  obtain d1 where q: "quarantine_event ''s1'' demo_waiting = (Inr (), d1)" and d1: "\<exists>t. d1 = demo_waiting\<lparr>db_settlements := t\<rparr>"
    by (simp add: quarantine_event_def writeP_def claim_if_processable_def decide_quarantine_def event_post_init_def decimal_value_def guardR_def
        STATUS_TABLES_def demo_attribution_text demo_attribution_defs)
  obtain d2 where c: "create_order_hold demo_fill_port ''b1'' ?h d1 = (Inr True, d2)" and d2: "\<exists>s t. d2 = demo_waiting\<lparr>db_settlements := s, db_holds := t\<rparr>"
    using d1 by (auto simp: create_order_hold_def create_in_def writeP_def create_once_def guardR_def STATUS_TABLES_def UNIQUE_FIELDS_def
        check_integrity_hold_def insert_or_ignore_def new_row_def demo_waiting_def demo_ledger_def)
  obtain d3 where l: "latch_block (fp_env demo_fill_port) disputed_reason (fp_now demo_fill_port) d2 = (Inr (), d3)"
    using d2 by (auto simp: latch_block_def writeP_def latch_financial_integrity_block_def transition_session_def session_part_def
        load_session_def default_session_def plain_session_def decide_integrity_block_def commit_to_def session_post_init_def
        demo_waiting_def demo_ledger_def)
  have ids: "map (\<lambda>r. e_id (r_payload r)) (rows_where (\<lambda>r. e_trade_intent_id (r_payload r) = ti_id demo_intent) (db_settlements demo_waiting)) = [''s1'']"
    by (simp add: rows_where_def demo_attribution_defs)
  have d: "dispute_order demo_fill_port demo_intent ''b1'' demo_waiting = (Inr (), d3)"
    unfolding dispute_order_def using q c l h ids by (simp add: bindP_Inr_iff)
  obtain db1 where rec: "record_fill demo_fill_port demo_intent ''b1'' demo_valid d3 = (Inr (), db1)" using demo_record by blast
  have v: "verify_quantity demo_fill_port demo_intent ''b1'' (Inr demo_order) 4 demo_waiting = (Inr True, demo_waiting)"
    by (simp add: verify_quantity_def demo_order_def)
  have a: "attribute_order_fills demo_fill_port True (Inr [demo_activity]) (Inr demo_order) demo_intent demo_waiting = (Inr (total_of [demo_valid]), db1)"
    using v d rec by (auto simp: attribute_order_fills_def demo_order_b1 demo_validated demo_total Let_def bindP_Inr_iff)
  have lt: "os_filled demo_order < at_quantity (total_of [demo_valid])" by (simp add: demo_total demo_order_def)
  have r: "plain_row ''s1'' (Some ''pending'') (Some ''f1'') (demo_buy\<lparr>e_id := ''s1'', e_status := PENDING\<rparr>) \<in> set (db_settlements demo_waiting)"
    by (simp add: demo_waiting_def)
  have "quiet_event ''s1'' db1"
    using disputed_order_held [OF a demo_order_b1 lt] r by (force simp: demo_attribution_defs)
  with a disputed_order_held [OF a demo_order_b1 lt] show ?thesis by auto
qed

end
