(* ===== verification/Activity_History.thy ===== *)
theory Activity_History
  imports Fill_Attribution Dbae
begin

text \<open>
  The broker's raw activities and what they do to quantities and cash: the pure part of
  \<open>reconciliation/bootstrap.py\<close> and of \<open>reconciliation/completeness.py\<close>. A raw activity keeps
  the fields the history proofs read; a number in JSON is missing, empty, a boolean, a binary
  float (by its printed value), a decimal text or integer, or a text that is no number. A null
  field is a missing one, and a number text is finite.
\<close>

datatype raw_number = NoNumber | EmptyText | BoolNumber bool | FloatNumber dec | DecimalText dec | BadText

record raw_activity =
  ra_id :: string
  ra_type :: string
  ra_symbol :: "string option"
  ra_bought :: bool
  ra_qty :: raw_number
  ra_price :: raw_number
  ra_net :: raw_number
  ra_time :: "time option"
  ra_created :: "time option"
  ra_date :: "day option"
  ra_digest :: string

definition CASH_ONLY_TYPES :: "string list" where
  "CASH_ONLY_TYPES =
     [''CSD'', ''CSW'', ''JNLC'', ''JNLD'', ''INT'', ''INTNRA'', ''INTTW'', ''FEE'', ''PTC'', ''PTR'', ''REB'', ''CIL'', ''MEM'', ''WH'',
      ''DIV'', ''DIVCGL'', ''DIVCGS'', ''DIVFEE'', ''DIVFT'', ''DIVNRA'', ''DIVROC'', ''DIVTW'', ''DIVTXEX'']"

definition FUNDING_TYPES :: "string list" where "FUNDING_TYPES = [''CSD'', ''JNLC'']"

text \<open>\<open>raw["symbol"]\<close>, \<open>_decimal\<close>, and \<open>Decimal(str(x or 0))\<close>.\<close>

definition raw_symbol :: "raw_activity \<Rightarrow> string res" where
  "raw_symbol r = (case ra_symbol r of None \<Rightarrow> Inl (KeyErrorExc ''symbol'') | Some s \<Rightarrow> Inr s)"

definition raw_time :: "raw_activity \<Rightarrow> time res" where
  "raw_time r = (case ra_time r of None \<Rightarrow> Inl (KeyErrorExc ''transaction_time'') | Some t \<Rightarrow> Inr t)"

definition raw_decimal :: "raw_activity \<Rightarrow> raw_number \<Rightarrow> dec res" where
  "raw_decimal r n =
     (case n of
        DecimalText d \<Rightarrow> Inr d
      | EmptyText \<Rightarrow> Inl InvalidOperation
      | BadText \<Rightarrow> Inl InvalidOperation
      | _ \<Rightarrow> Inl (HistoryIncomplete (''INVENTORY_EVIDENCE_INVALID: '' @ ra_id r)))"

definition number_or_zero :: "raw_number \<Rightarrow> dec res" where
  "number_or_zero n =
     (case n of
        DecimalText d \<Rightarrow> Inr d
      | FloatNumber d \<Rightarrow> Inr d
      | BoolNumber b \<Rightarrow> if b then Inl InvalidOperation else Inr 0
      | BadText \<Rightarrow> Inl InvalidOperation
      | _ \<Rightarrow> Inr 0)"

definition raw_side :: "raw_activity \<Rightarrow> side" where
  "raw_side r = (if ra_bought r then BUY else SELL)"

definition multiplier_of :: "string \<Rightarrow> dec" where
  "multiplier_of symbol = (if broker_symbol_asset_class symbol = OPTION then 100 else 1)"

definition quantity_effect :: "raw_activity \<Rightarrow> (string \<times> dec) option res" where
  "quantity_effect r =
     (if ra_type r = ''FILL''
      then bindR (raw_decimal r (ra_qty r)) (\<lambda>q.
           bindR (raw_symbol r) (\<lambda>s.
           bindR (broker_symbol_asset_key s) (\<lambda>k. Inr (Some (k, if ra_bought r then q else dneg q)))))
      else if ra_type r = ''CFEE''
      then bindR (number_or_zero (ra_qty r)) (\<lambda>q.
             if q = 0 then Inr None
             else bindR (raw_symbol r) (\<lambda>s. bindR (broker_symbol_asset_key s) (\<lambda>k. Inr (Some (k, q)))))
      else if ra_type r \<in> set CASH_ONLY_TYPES \<or> ra_symbol r = None \<or> ra_symbol r = Some [] then Inr None
      else Inl (HistoryIncomplete (''FILL_HISTORY_INCOMPLETE: unmodelled '' @ ra_type r)))"

text \<open>\<open>quantize\<close> to the cent, half up.\<close>

definition cent_half_up :: "dec \<Rightarrow> dec res" where
  "cent_half_up q =
     (let n = (if 0 \<le> q then \<lfloor>q * 100 + 1 / 2\<rfloor> else - \<lfloor>(- q) * 100 + 1 / 2\<rfloor>)
      in if \<bar>n\<bar> < 10 ^ 28 then Inr (of_int n / 100) else Inl InvalidOperation)"

definition cash_effect :: "raw_activity \<Rightarrow> dec res" where
  "cash_effect r =
     (if ra_type r = ''FILL''
      then bindR (raw_decimal r (ra_qty r)) (\<lambda>q.
           bindR (raw_decimal r (ra_price r)) (\<lambda>p.
           bindR (raw_symbol r) (\<lambda>s.
           let notional = dmul (dmul q p) (multiplier_of s)
           in bindR (drem (dmul notional 100) 1) (\<lambda>part.
              if part = 1 / 2 then Inl (HistoryIncomplete ''FILL_HISTORY_INCOMPLETE: rounding tie'')
              else bindR (cent_half_up notional) (\<lambda>c. Inr (if ra_bought r then dneg c else c))))))
      else number_or_zero (ra_net r))"

definition activity_date :: "raw_activity \<Rightarrow> day res" where
  "activity_date r =
     (case (ra_time r, ra_created r, ra_date r) of
        (Some t, _, _) \<Rightarrow> Inr (date_of t)
      | (None, Some t, _) \<Rightarrow> Inr (date_of t)
      | (None, None, Some d) \<Rightarrow> Inr d
      | (None, None, None) \<Rightarrow> Inl (KeyErrorExc ''date''))"

subsection \<open>Conservation of quantities\<close>

definition add_effect :: "(string \<times> dec) list \<Rightarrow> raw_activity \<Rightarrow> (string \<times> dec) list res" where
  "add_effect totals r =
     bindR (quantity_effect r) (\<lambda>e. case e of None \<Rightarrow> Inr totals | Some (k, q) \<Rightarrow> Inr (dict_add k q totals))"

definition history_quantities :: "raw_activity list \<Rightarrow> (string \<times> dec) list res" where
  "history_quantities raws = foldR add_effect [] raws"

definition mismatched :: "(string \<times> dec) list \<Rightarrow> (string \<times> dec) list \<Rightarrow> string list" where
  "mismatched totals positions =
     filter (\<lambda>k. dict_get totals k \<noteq> dict_get positions k) (remdups (map fst totals @ map fst positions))"

definition check_conservation :: "raw_activity list \<Rightarrow> (string \<times> dec) list \<Rightarrow> string list res" where
  "check_conservation raws positions =
     bindR (history_quantities raws) (\<lambda>h. Inr (sort (mismatched (foldl (\<lambda>t (k, q). dict_add k q t) [] h) positions)))"

text \<open>A quantity effect that is not modelled makes its own asset unproven.\<close>

definition conserve_step :: "(string \<times> dec) list \<times> string list \<Rightarrow> raw_activity \<Rightarrow> ((string \<times> dec) list \<times> string list) res" where
  "conserve_step s r =
     (case quantity_effect r of
        Inr None \<Rightarrow> Inr s
      | Inr (Some (k, q)) \<Rightarrow> Inr (dict_add k q (fst s), snd s)
      | Inl (HistoryIncomplete _) \<Rightarrow>
          bindR (broker_symbol_asset_key (text_or_empty (ra_symbol r))) (\<lambda>k. Inr (fst s, snd s @ [k]))
      | Inl e \<Rightarrow> Inl e)"

definition conservation_failures ::
  "raw_activity list \<Rightarrow> (string \<times> dec) list \<Rightarrow> (string \<times> dec) list \<Rightarrow> string list res" where
  "conservation_failures raws positions baseline =
     bindR (foldR conserve_step (baseline, []) raws) (\<lambda>(totals, unmodelled).
       Inr (sort (remdups (mismatched totals positions @ unmodelled))))"

text \<open>\<open>{broker_symbol_asset_key(p.symbol): p.qty for p in positions}\<close>\<close>

definition position_quantities :: "(string \<times> dec) list \<Rightarrow> (string \<times> dec) list res" where
  "position_quantities ps =
     foldR (\<lambda>d (symbol, q). bindR (broker_symbol_asset_key symbol) (\<lambda>k. Inr (AList.update k q d))) [] ps"

definition cash_total :: "raw_activity list \<Rightarrow> dec res" where
  "cash_total raws = foldR (\<lambda>total r. bindR (cash_effect r) (\<lambda>c. Inr (dadd total c))) 0 raws"

subsection \<open>Inception\<close>

fun first_cash :: "raw_activity list \<Rightarrow> (raw_activity \<times> dec) option res" where
  "first_cash [] = Inr None"
| "first_cash (r # rs) = bindR (cash_effect r) (\<lambda>c. if c \<noteq> 0 then Inr (Some (r, c)) else first_cash rs)"

definition check_inception :: "raw_activity list \<Rightarrow> day option \<Rightarrow> unit res" where
  "check_inception raws account_created =
     (case (raws, account_created) of
        (r # rs, Some created) \<Rightarrow>
          bindR (first_cash raws) (\<lambda>fc.
          bindR (activity_date r) (\<lambda>d.
            guardR (created \<le> d \<and> (case fc of None \<Rightarrow> False | Some (f, c) \<Rightarrow> ra_type f \<in> set FUNDING_TYPES \<and> 0 < c))
              (HistoryIncomplete ''FILL_HISTORY_INCOMPLETE: inception'')))
      | _ \<Rightarrow> Inl (HistoryIncomplete ''FILL_HISTORY_INCOMPLETE: inception''))"

end
