(* ===== verification/Unresolved.thy ===== *)
theory Unresolved
  imports Activity_History
begin

text \<open>
  \<open>reconciliation/unresolved.py\<close> and the bootstrap of the fill cursor,
  \<open>reconciliation/bootstrap.py\<close>: the durable cursor, the broker executions it passed that
  nothing accounts for, and their outcomes. The cursor advances only in the transaction that
  records every unaccounted fill it passes. Digests are an argument: \<open>sha evidence raw\<close>.
\<close>

datatype outcome_evidence =
    FillEvidence fill
  | FillCashEvidence fill cash_entry
  | ExecutionEvidence quarantine_execution
  | DatabaseEvidence time
  | RecordEvidence history_record

type_synonym evidence_sha = "outcome_evidence \<Rightarrow> string \<Rightarrow> string"

definition on_evidence :: "(evidence_tables \<Rightarrow> evidence_tables) \<Rightarrow> ledger \<Rightarrow> ledger" where
  "on_evidence f db = db\<lparr>db_evidence := f (db_evidence db)\<rparr>"

definition stored_row :: "string \<Rightarrow> string option \<Rightarrow> time \<Rightarrow> 'p \<Rightarrow> 'p row" where
  "stored_row i u now p = \<lparr>r_id = i, r_status = None, r_unique = u, r_payload = p, r_created = now\<rparr>"

text \<open>A plain \<open>INSERT\<close>: a taken key raises.\<close>

definition insert_new :: "'p row \<Rightarrow> 'p tbl \<Rightarrow> 'p tbl res" where
  "insert_new r rows = (case insert_or_ignore r rows of (True, t) \<Rightarrow> Inr t | (False, _) \<Rightarrow> Inl (DatabaseErr ''UNIQUE constraint failed''))"

subsection \<open>The cursor\<close>

text \<open>The row of \<open>fills\<close> whose record id or broker fill id is the activity's, the first stored.\<close>

definition fill_row_of :: "ledger \<Rightarrow> string \<Rightarrow> fill option" where
  "fill_row_of db i = map_option r_payload (find (\<lambda>r. r_id r = i \<or> r_unique r = Some i) (db_fills db))"

definition accounted :: "ledger \<Rightarrow> string \<Rightarrow> bool" where
  "accounted db i \<longleftrightarrow> fill_row_of db i \<noteq> None \<or> get_row (db_executions db) i \<noteq> None"

definition fill_cursor :: "ledger \<Rightarrow> string option" where
  "fill_cursor db = map_option cu_cursor (ev_cursor (db_evidence db))"

definition advance_cursor :: "string \<Rightarrow> string \<Rightarrow> time \<Rightarrow> ledger \<Rightarrow> ledger res" where
  "advance_cursor c pass now db =
     bindR (guardR (case fill_cursor db of None \<Rightarrow> True | Some previous \<Rightarrow> previous \<le> c) (ValueError ''FILL_CURSOR_REGRESSION'')) (\<lambda>_.
       Inr (on_evidence (\<lambda>e. e\<lparr>ev_cursor := Some \<lparr>cu_cursor = c, cu_pass_id = pass, cu_at = now\<rparr>\<rparr>) db))"

subsection \<open>Recording a pass\<close>

definition unresolved_of :: "activity \<Rightarrow> string \<Rightarrow> time \<Rightarrow> unresolved_execution res" where
  "unresolved_of a pass now =
     (case (ac_side a, ac_qty a, ac_price a, ac_time a) of
        (Some sd, Some q, Some p, Some t) \<Rightarrow>
          bindR (broker_symbol_asset_key (ac_symbol a)) (\<lambda>k.
            unresolved_post_init \<lparr>ux_activity_id = ac_id a, ux_asset_key = k, ux_side = sd, ux_quantity = q, ux_price = p, ux_time = t,
              ux_digest = ac_digest a, ux_first_seen_at = now, ux_pass_id = pass\<rparr>)
      | _ \<Rightarrow> Inl (ValueError (''INVENTORY_EVIDENCE_INVALID: unparsable FILL '' @ ac_id a)))"

definition add_unresolved :: "unresolved_execution row \<Rightarrow> ledger \<Rightarrow> bool \<times> ledger" where
  "add_unresolved r db =
     (let (fresh, t) = insert_or_ignore r (ev_unresolved (db_evidence db)) in (fresh, on_evidence (\<lambda>e. e\<lparr>ev_unresolved := t\<rparr>) db))"

definition record_activity :: "string \<Rightarrow> time \<Rightarrow> string list \<times> ledger \<Rightarrow> activity \<Rightarrow> (string list \<times> ledger) res" where
  "record_activity pass now s a =
     (if ac_type a \<noteq> ''FILL'' \<or> accounted (snd s) (ac_id a) then Inr s
      else bindR (unresolved_of a pass now) (\<lambda>u.
        let (fresh, db) = add_unresolved (stored_row (ux_activity_id u) None now u) (snd s)
        in Inr (if fresh then fst s @ [ux_activity_id u] else fst s, db)))"

definition record_pass :: "activity list \<Rightarrow> bool \<Rightarrow> string \<Rightarrow> time \<Rightarrow> (string option \<times> string list) routine" where
  "record_pass as proven pass now =
     (if \<not> proven then retP (None, [])
      else writeP (\<lambda>db.
        bindR (foldR (record_activity pass now) ([], db) as) (\<lambda>(ids, db1).
        bindR (if as = [] then Inr db1 else advance_cursor (ac_id (last as)) pass now db1) (\<lambda>db2.
          Inr ((fill_cursor db2, ids), db2)))))"

subsection \<open>Open executions and their outcomes\<close>

definition open_unresolved :: "ledger \<Rightarrow> string option \<Rightarrow> unresolved_execution list" where
  "open_unresolved db key =
     filter (\<lambda>u. get_row (ev_outcomes (db_evidence db)) (ux_activity_id u) = None \<and> (case key of None \<Rightarrow> True | Some k \<Rightarrow> ux_asset_key u = k))
       (rows_of (ev_unresolved (db_evidence db)))"

definition add_outcome :: "unresolved_outcome \<Rightarrow> time \<Rightarrow> string \<Rightarrow> ledger \<Rightarrow> ledger res" where
  "add_outcome o' now i db =
     bindR (insert_new (stored_row i None now o') (ev_outcomes (db_evidence db))) (\<lambda>t. Inr (on_evidence (\<lambda>e. e\<lparr>ev_outcomes := t\<rparr>) db))"

definition execution_facts :: "unresolved_execution \<Rightarrow> side \<times> dec \<times> dec \<times> time" where
  "execution_facts u = (ux_side u, ux_quantity u, ux_price u, ux_time u)"

definition cash_rows :: "(cash_entry row \<Rightarrow> bool) \<Rightarrow> ledger \<Rightarrow> cash_entry list" where
  "cash_rows keep db = map r_payload (filter keep (db_cash db))"

text \<open>A local fill with the same facts and exactly one cash entry.\<close>

definition fill_proof :: "ledger \<Rightarrow> unresolved_execution \<Rightarrow> fill \<Rightarrow> (execution_outcome \<times> string \<times> outcome_evidence) option" where
  "fill_proof db u f =
     (if (f_side f, f_quantity f, f_price f, f_filled_at f) \<noteq> execution_facts u then None
      else (case cash_rows (\<lambda>r. r_unique r = Some (fill_cash_id (f_id f))) db of
              [c] \<Rightarrow> Some (Matched_Fill, f_id f, FillCashEvidence f c)
            | _ \<Rightarrow> None))"

definition cash_issue :: "ledger \<Rightarrow> quarantine_execution \<Rightarrow> string option res" where
  "cash_issue db x =
     (let k = fill_cash_id (qx_activity_id x) in
      case cash_rows (\<lambda>r. r_id r = k \<or> r_unique r = Some k) db of
        [c] \<Rightarrow> bindR (execution_cash x) (\<lambda>e. Inr (if c = e then None else Some (''ACCOUNTING_DURABLE_ROW_CONFLICT:'' @ k)))
      | _ \<Rightarrow> Inr (Some ''QUARANTINE_EXECUTION_CASH_COUNT''))"

definition execution_proof ::
  "ledger \<Rightarrow> unresolved_execution \<Rightarrow> quarantine_execution \<Rightarrow> (execution_outcome \<times> string \<times> outcome_evidence) option res" where
  "execution_proof db u x =
     (if (qx_side x, qx_quantity x, qx_price x, qx_executed_at x) \<noteq> execution_facts u \<or> qx_digest x \<noteq> ux_digest u then Inr None
      else bindR (cash_issue db x) (\<lambda>issue.
        Inr (if issue \<noteq> None then None else Some (Quarantine_Execution, qx_activity_id x, ExecutionEvidence x))))"

definition outcome_proof ::
  "ledger \<Rightarrow> unresolved_execution \<Rightarrow> string \<Rightarrow> (execution_outcome \<times> string \<times> outcome_evidence) option res" where
  "outcome_proof db u i =
     (case fill_row_of db i of
        Some f \<Rightarrow> Inr (fill_proof db u f)
      | None \<Rightarrow> (case get_row (db_executions db) i of
          None \<Rightarrow> Inr None
        | Some r \<Rightarrow> execution_proof db u (r_payload r)))"

definition outcome_of ::
  "evidence_sha \<Rightarrow> string \<Rightarrow> string \<Rightarrow> time \<Rightarrow> execution_outcome \<times> string \<times> outcome_evidence \<Rightarrow> unresolved_outcome res" where
  "outcome_of sha i raw now p =
     (case p of (kind, matched, ev) \<Rightarrow>
        outcome_post_init \<lparr>uo_activity_id = i, uo_outcome = kind, uo_matched_id = matched, uo_digest = sha ev raw, uo_resolved_at = now\<rparr>)"

definition write_outcome_if_proven :: "evidence_sha \<Rightarrow> activity \<Rightarrow> time \<Rightarrow> bool routine" where
  "write_outcome_if_proven sha a now =
     writeP (\<lambda>db.
       case get_row (ev_unresolved (db_evidence db)) (ac_id a) of
         None \<Rightarrow> Inr (False, db)
       | Some r \<Rightarrow>
           let u = r_payload r in
           if get_row (ev_outcomes (db_evidence db)) (ac_id a) \<noteq> None \<or> ac_digest a \<noteq> ux_digest u then Inr (False, db)
           else bindR (outcome_proof db u (ac_id a)) (\<lambda>p. case p of
                  None \<Rightarrow> Inr (False, db)
                | Some proof \<Rightarrow>
                    bindR (outcome_of sha (ac_id a) (ux_digest u) now proof) (\<lambda>o'.
                    bindR (add_outcome o' now (ac_id a) db) (\<lambda>db1. Inr (True, db1)))))"

fun join_ids :: "string list \<Rightarrow> string" where
  "join_ids [] = []"
| "join_ids [x] = x"
| "join_ids (x # xs) = x @ '', '' @ join_ids xs"

definition relatch_if_open_unresolved :: "env \<Rightarrow> time \<Rightarrow> bool routine" where
  "relatch_if_open_unresolved en now =
     bindP (readP (\<lambda>db. open_unresolved db None)) (\<lambda>rows.
       if rows = [] then retP False
       else bindP (latch_block en (''UNRESOLVED_BROKER_EXECUTION: '' @ join_ids (sort (map ux_activity_id rows))) now) (\<lambda>_. retP True))"

subsection \<open>Bootstrap\<close>

text \<open>A fill TradePulse can account for; \<open>None\<close> is one to record as unresolved.\<close>

definition reconciled_record :: "ledger \<Rightarrow> string \<Rightarrow> history_record option" where
  "reconciled_record db i =
     (case rows_where (\<lambda>r. hi_body (r_payload r) = FillReconciled i True) (ev_history (db_evidence db)) of
        [] \<Rightarrow> None | r # _ \<Rightarrow> Some (r_payload r))"

definition classify_fill :: "ledger \<Rightarrow> raw_activity \<Rightarrow> (execution_outcome \<times> string \<times> outcome_evidence) option res" where
  "classify_fill db r =
     bindR (raw_time r) (\<lambda>t.
       case fill_row_of db (ra_id r) of
         Some f \<Rightarrow>
           bindR (raw_decimal r (ra_qty r)) (\<lambda>q. bindR (raw_decimal r (ra_price r)) (\<lambda>p.
             Inr (if (f_side f, f_quantity f, f_price f, f_filled_at f) = (raw_side r, q, p, t)
                  then Some (Matched_Fill, f_id f, FillEvidence f) else None)))
       | None \<Rightarrow>
           let created = ev_created_at (db_evidence db) in
           if t < created then Inr (Some (Pre_Database, ''verification_identity'', DatabaseEvidence created))
           else Inr (map_option (\<lambda>h. (Legacy_Reconciled, hi_id h, RecordEvidence h)) (reconciled_record db (ra_id r))))"

definition raw_unresolved :: "raw_activity \<Rightarrow> string \<Rightarrow> time \<Rightarrow> unresolved_execution res" where
  "raw_unresolved r pass now =
     bindR (raw_symbol r) (\<lambda>s. bindR (broker_symbol_asset_key s) (\<lambda>k.
     bindR (raw_decimal r (ra_qty r)) (\<lambda>q. bindR (raw_decimal r (ra_price r)) (\<lambda>p.
     bindR (raw_time r) (\<lambda>t.
       unresolved_post_init \<lparr>ux_activity_id = ra_id r, ux_asset_key = k, ux_side = raw_side r, ux_quantity = q, ux_price = p, ux_time = t,
         ux_digest = ra_digest r, ux_first_seen_at = now, ux_pass_id = pass\<rparr>)))))"

text \<open>The row a raw fill gets: an unresolved execution, or the outcome that explains it.\<close>

definition place_fill :: "evidence_sha \<Rightarrow> string \<Rightarrow> time \<Rightarrow> raw_activity \<Rightarrow> ledger \<Rightarrow> (bool \<times> ledger) res" where
  "place_fill sha pass now r db =
     bindR (classify_fill db r) (\<lambda>c. case c of
       None \<Rightarrow>
         bindR (raw_unresolved r pass now) (\<lambda>u.
         bindR (insert_new (stored_row (ra_id r) None now u) (ev_unresolved (db_evidence db))) (\<lambda>t.
           Inr (True, on_evidence (\<lambda>e. e\<lparr>ev_unresolved := t\<rparr>) db)))
     | Some p \<Rightarrow>
         bindR (outcome_of sha (ra_id r) (ra_digest r) now p) (\<lambda>o'. bindR (add_outcome o' now (ra_id r) db) (\<lambda>db1. Inr (False, db1))))"

definition bootstrap_fill :: "evidence_sha \<Rightarrow> time \<Rightarrow> ledger \<Rightarrow> raw_activity \<Rightarrow> ledger res" where
  "bootstrap_fill sha now db r =
     (if ra_type r \<noteq> ''FILL'' then Inr db else bindR (place_fill sha ''bootstrap'' now r db) (\<lambda>(_, db1). Inr db1))"

text \<open>What the bootstrap reads: the lease, the account and the broker's complete answers.\<close>

record history_port =
  hy_sha :: evidence_sha
  hy_now :: time
  hy_lease :: bool
  hy_account_key :: string
  hy_account_known :: bool
  hy_account :: "(dec \<times> day option) res"
  hy_positions :: "(string \<times> dec) list res"
  hy_history :: "(raw_activity list \<times> bool) res"

definition write_bootstrap :: "history_port \<Rightarrow> string \<Rightarrow> raw_activity list \<Rightarrow> dec \<Rightarrow> dec \<Rightarrow> fill_bootstrap routine" where
  "write_bootstrap hp reason raws broker_cash history_cash =
     writeP (\<lambda>db.
       bindR (foldR (bootstrap_fill (hy_sha hp) (hy_now hp)) db raws) (\<lambda>db1.
       bindR (history_quantities raws) (\<lambda>qs.
       let b = \<lparr>fb_account = hy_account_key hp, fb_boundary = ra_id (last raws), fb_count = length raws, fb_quantities = qs,
                fb_cash = (broker_cash, history_cash), fb_reason = reason, fb_created_at = hy_now hp\<rparr>
       in bindR (insert_new (stored_row (hy_account_key hp) (Some (hy_account_key hp)) (hy_now hp) b) (ev_bootstrap (db_evidence db1))) (\<lambda>t.
          bindR (advance_cursor (ra_id (last raws)) ''bootstrap'' (hy_now hp) (on_evidence (\<lambda>e. e\<lparr>ev_bootstrap := t\<rparr>) db1)) (\<lambda>db2.
            Inr (b, db2))))))"

definition refuse_unless :: "bool \<Rightarrow> string \<Rightarrow> unit routine" where
  "refuse_unless ok reason = liftP (guardR ok (HistoryIncomplete reason))"

definition bootstrap_fill_cursor :: "history_port \<Rightarrow> string \<Rightarrow> fill_bootstrap routine" where
  "bootstrap_fill_cursor hp reason =
     bindP (refuse_unless (py_strip reason \<noteq> []) ''BOOTSTRAP_REASON_REQUIRED'') (\<lambda>_.
     bindP (refuse_unless (hy_lease hp) ''ACCOUNT_LEASE_NOT_HELD'') (\<lambda>_.
     bindP (tryP (\<lambda>db. guardR (ev_generation (db_evidence db) = None) (HistoryIncomplete ''BOOTSTRAP_REFUSED_EVIDENCE_DATABASE''))) (\<lambda>_.
     bindP (tryP (\<lambda>db. guardR (find_by_unique (ev_bootstrap (db_evidence db)) (hy_account_key hp) = None)
                        (HistoryIncomplete ''FILL_CURSOR_ALREADY_BOOTSTRAPPED''))) (\<lambda>_.
     bindP (liftP (hy_account hp)) (\<lambda>(cash, created).
     bindP (refuse_unless (hy_account_known hp) ''BOOTSTRAP_ACCOUNT_MISMATCH'') (\<lambda>_.
     bindP (liftP (hy_positions hp)) (\<lambda>ps.
     bindP (liftP (hy_history hp)) (\<lambda>(raws, proven).
     bindP (refuse_unless proven ''ACTIVITY_PAGE_UNPROVEN'') (\<lambda>_.
     bindP (liftP (check_inception raws created)) (\<lambda>_.
     bindP (liftP (position_quantities ps)) (\<lambda>positions.
     bindP (liftP (check_conservation raws positions)) (\<lambda>failures.
     bindP (refuse_unless (failures = []) (''FILL_HISTORY_INCOMPLETE:'' @ concat (take 1 failures))) (\<lambda>_.
     bindP (liftP (cash_total raws)) (\<lambda>history_cash.
     bindP (refuse_unless (history_cash = cash) ''FILL_HISTORY_INCOMPLETE:cash'') (\<lambda>_.
       write_bootstrap hp (py_strip reason) raws cash history_cash)))))))))))))))"

definition require_bootstrapped :: "ledger \<Rightarrow> string \<Rightarrow> unit res" where
  "require_bootstrapped db account =
     guardR (find_by_unique (ev_bootstrap (db_evidence db)) account \<noteq> None \<and> ev_cursor (db_evidence db) \<noteq> None)
       (HistoryIncomplete ''FILL_CURSOR_NOT_BOOTSTRAPPED'')"

end
