(* ===== verification/Completeness.thy ===== *)
theory Completeness
  imports Unresolved Calendar_Checks
begin

text \<open>
  \<open>reconciliation/completeness.py\<close>, the proof that the activity history is complete, and the
  step of \<open>reconciliation/coordinator.py\<close> that advances the fill cursor. A full pass reads the
  whole history and proves quantities and cash; the others read since the latest proven
  baseline and an overlap before the cursor. What the broker answers is the port, with the
  proof of the pages as a flag.
\<close>

definition UNPROVEN_ALL :: string where "UNPROVEN_ALL = ''*''"

definition history_records :: "ledger \<Rightarrow> history_record list" where
  "history_records db = rows_of (ev_history (db_evidence db))"

definition proof_of :: "history_record \<Rightarrow> (string list \<times> bool) option" where
  "proof_of h = (case hi_body h of HistoryProof fs full _ \<Rightarrow> Some (fs, full) | _ \<Rightarrow> None)"

definition p1_proofs :: "ledger \<Rightarrow> (string list \<times> bool) list" where
  "p1_proofs db = List.map_filter proof_of (history_records db)"

definition last_failures :: "ledger \<Rightarrow> string list" where
  "last_failures db = (if p1_proofs db = [] then [] else fst (last (p1_proofs db)))"

definition history_unproven :: "ledger \<Rightarrow> string \<Rightarrow> bool" where
  "history_unproven db key \<longleftrightarrow> key \<in> set (last_failures db) \<or> UNPROVEN_ALL \<in> set (last_failures db)"

definition baseline_of :: "history_record \<Rightarrow> (string \<times> (string \<times> dec) list) option" where
  "baseline_of h = (case hi_body h of HistoryBaseline i qs \<Rightarrow> Some (i, qs) | _ \<Rightarrow> None)"

definition history_baseline :: "ledger \<Rightarrow> (string \<times> (string \<times> dec) list) option" where
  "history_baseline db =
     (let bs = List.map_filter baseline_of (history_records db)
      in if bs \<noteq> [] then Some (last bs)
         else (case rows_of (ev_bootstrap (db_evidence db)) of [] \<Rightarrow> None | b # _ \<Rightarrow> Some (fb_boundary b, fb_quantities b)))"

definition full_pass_due :: "zone \<Rightarrow> time \<Rightarrow> time option \<Rightarrow> bool" where
  "full_pass_due z now last_full =
     (let d = zn_date z now
      in weekday d < 5 \<and> zn_instant z d (hour_minute 16 5) \<le> now
         \<and> (case last_full of None \<Rightarrow> True | Some t \<Rightarrow> zn_date z t \<noteq> d))"

definition last_full_pass :: "ledger \<Rightarrow> time option" where
  "last_full_pass db =
     (let hs = filter (\<lambda>h. case proof_of h of Some (_, full) \<Rightarrow> full | None \<Rightarrow> False) (history_records db)
      in if hs = [] then None else Some (hi_at (last hs)))"

subsection \<open>Late activities\<close>

definition known_activity :: "ledger \<Rightarrow> string \<Rightarrow> bool" where
  "known_activity db i \<longleftrightarrow> accounted db i \<or> get_row (ev_outcomes (db_evidence db)) i \<noteq> None \<or> get_row (ev_unresolved (db_evidence db)) i \<noteq> None"

definition late_note :: "string \<Rightarrow> bool \<Rightarrow> time \<Rightarrow> history_record row" where
  "late_note i unexplained now =
     stored_row (''late_activity:'' @ i) None now \<lparr>hi_id = ''late_activity:'' @ i, hi_body = LateActivity i unexplained, hi_matched = False, hi_at = now\<rparr>"

definition classify_late_one ::
  "evidence_sha \<Rightarrow> string \<Rightarrow> string \<Rightarrow> time \<Rightarrow> (string \<times> bool) list \<times> ledger \<Rightarrow> raw_activity \<Rightarrow> ((string \<times> bool) list \<times> ledger) res" where
  "classify_late_one sha cursor pass now s r =
     (if ra_type r \<noteq> ''FILL'' \<or> cursor < ra_id r \<or> known_activity (snd s) (ra_id r) then Inr s
      else bindR (place_fill sha pass now r (snd s)) (\<lambda>(unexplained, db).
        Inr (fst s @ [(ra_id r, unexplained)],
             on_evidence (\<lambda>e. e\<lparr>ev_history := snd (insert_or_ignore (late_note (ra_id r) unexplained now) (ev_history e))\<rparr>) db)))"

definition classify_late ::
  "evidence_sha \<Rightarrow> raw_activity list \<Rightarrow> string \<Rightarrow> string \<Rightarrow> time \<Rightarrow> (string \<times> bool) list routine" where
  "classify_late sha raws cursor pass now =
     writeP (\<lambda>db. foldR (classify_late_one sha cursor pass now) ([], db) raws)"

subsection \<open>The pass\<close>

record completeness_port =
  cp_env :: env
  cp_sha :: evidence_sha
  cp_now :: time
  cp_day :: string
  cp_pass_id :: string
  cp_history :: "(raw_activity list \<times> bool) res"
  cp_since :: "(raw_activity list \<times> bool) res"
  cp_overlap :: "(raw_activity list \<times> bool) res"
  cp_positions :: "(string \<times> dec) list res"
  cp_cash :: "dec res"

definition proven_read :: "(raw_activity list \<times> bool) res \<Rightarrow> raw_activity list res" where
  "proven_read answer = bindR answer (\<lambda>(raws, proven). bindR (guardR proven (HistoryIncomplete ''ACTIVITY_PAGE_UNPROVEN'')) (\<lambda>_. Inr raws))"

text \<open>The history of a full pass, or the activities since the baseline; and everything read, one per id.\<close>

definition unique_reads :: "raw_activity list \<Rightarrow> raw_activity list" where
  "unique_reads raws = map snd (fold (\<lambda>r. AList.update (ra_id r) r) raws [])"

definition pass_reads :: "completeness_port \<Rightarrow> bool \<Rightarrow> string \<Rightarrow> (raw_activity list \<times> raw_activity list) res" where
  "pass_reads cp full boundary =
     (if full then bindR (proven_read (cp_history cp)) (\<lambda>h. Inr (h, h))
      else bindR (proven_read (cp_since cp)) (\<lambda>s.
           bindR (proven_read (cp_overlap cp)) (\<lambda>ov.
             let since = filter (\<lambda>r. boundary < ra_id r) s in Inr (since, unique_reads (ov @ since)))))"

definition window_alert :: "env \<Rightarrow> string \<Rightarrow> string \<Rightarrow> string \<Rightarrow> string \<Rightarrow> string \<Rightarrow> time \<Rightarrow> unit routine" where
  "window_alert en ty subject window message entity now =
     bindP (alert_once en \<lparr>ae_id = ty @ '':'' @ subject @ '':'' @ window, ae_type = ty, ae_severity = ''critical'', ae_message = message,
       ae_at = now, ae_entity_type = entity, ae_entity_id = subject, ae_details = []\<rparr>) (\<lambda>_. retP ())"

definition report_late :: "completeness_port \<Rightarrow> string \<times> bool \<Rightarrow> unit routine" where
  "report_late cp l =
     bindP (window_alert (cp_env cp) ''late_activity'' (fst l) (cp_day cp) (''Reconciliation: LATE ACTIVITY -- '' @ fst l) ''reconciliation'' (cp_now cp)) (\<lambda>_.
       if snd l then latch_block (cp_env cp) (''UNRESOLVED_BROKER_EXECUTION: '' @ fst l) (cp_now cp) else retP ())"

definition put_history :: "env \<Rightarrow> history_record \<Rightarrow> bool routine" where
  "put_history en h =
     create_in en ''reconciliation_records'' (\<lambda>db. ev_history (db_evidence db)) (\<lambda>f. on_evidence (\<lambda>e. e\<lparr>ev_history := f (ev_history e)\<rparr>))
       (hi_id h) None None None h"

definition p1_record :: "completeness_port \<Rightarrow> string list \<Rightarrow> bool \<Rightarrow> string \<Rightarrow> history_record" where
  "p1_record cp failures full cursor =
     \<lparr>hi_id = ''activity_history:p1:'' @ cp_pass_id cp, hi_body = HistoryProof failures full cursor, hi_matched = (failures = []), hi_at = cp_now cp\<rparr>"

text \<open>\<open>"cash"\<close> fails when the history's cash is not the account's or cannot be computed.\<close>

definition cash_failure :: "raw_activity list \<Rightarrow> dec \<Rightarrow> string list res" where
  "cash_failure raws cash =
     (case cash_total raws of
        Inr c \<Rightarrow> Inr (if c = cash then [] else [''cash''])
      | Inl (HistoryIncomplete _) \<Rightarrow> Inr [''cash'']
      | Inl e \<Rightarrow> Inl e)"

definition pass_failures :: "completeness_port \<Rightarrow> bool \<Rightarrow> raw_activity list \<Rightarrow> (string \<times> dec) list \<Rightarrow> string list res" where
  "pass_failures cp full raws base =
     bindR (cp_positions cp) (\<lambda>ps.
     bindR (position_quantities ps) (\<lambda>positions.
       if full
       then bindR (conservation_failures raws positions []) (\<lambda>fs.
            bindR (cp_cash cp) (\<lambda>cash. bindR (cash_failure raws cash) (\<lambda>c. Inr (fs @ c))))
       else conservation_failures raws positions base))"

definition latch_repeated :: "completeness_port \<Rightarrow> string list \<Rightarrow> string \<Rightarrow> unit routine" where
  "latch_repeated cp previous key =
     (if key \<in> set previous then latch_block (cp_env cp) (''FILL_HISTORY_INCOMPLETE:'' @ key) (cp_now cp) else retP ())"

definition put_baseline :: "completeness_port \<Rightarrow> raw_activity list \<Rightarrow> unit routine" where
  "put_baseline cp raws =
     bindP (liftP (history_quantities raws)) (\<lambda>qs.
     bindP (put_history (cp_env cp)
       \<lparr>hi_id = ''activity_history:baseline:'' @ ra_id (last raws), hi_body = HistoryBaseline (ra_id (last raws)) qs,
        hi_matched = True, hi_at = cp_now cp\<rparr>) (\<lambda>_. retP ()))"

definition prove_history ::
  "completeness_port \<Rightarrow> bool \<Rightarrow> string \<Rightarrow> raw_activity list \<Rightarrow> (string \<times> dec) list \<Rightarrow> string list routine" where
  "prove_history cp full cursor raws base =
     bindP (liftP (pass_failures cp full raws base)) (\<lambda>failures.
     bindP (readP last_failures) (\<lambda>previous.
     bindP (put_history (cp_env cp) (p1_record cp failures full cursor)) (\<lambda>_.
     bindP (forP (latch_repeated cp (filter (\<lambda>k. k \<noteq> UNPROVEN_ALL) previous)) failures) (\<lambda>_.
     bindP (if full \<and> failures = [] \<and> raws \<noteq> [] then put_baseline cp raws else retP ()) (\<lambda>_.
       retP failures)))))"

definition completeness_pass :: "completeness_port \<Rightarrow> bool \<Rightarrow> (string list \<times> string list) routine" where
  "completeness_pass cp full =
     bindP (readP (\<lambda>db. (fill_cursor db, history_baseline db))) (\<lambda>start.
       case start of
         (Some cursor, Some (boundary, base)) \<Rightarrow>
           (case pass_reads cp full boundary of
              Inl (HistoryIncomplete _) \<Rightarrow>
                bindP (put_history (cp_env cp) ((p1_record cp [UNPROVEN_ALL] False cursor)\<lparr>hi_matched := False\<rparr>)) (\<lambda>_. retP ([], [UNPROVEN_ALL]))
            | Inl e \<Rightarrow> raiseP e
            | Inr (raws, reads) \<Rightarrow>
                bindP (classify_late (cp_sha cp) reads cursor (cp_pass_id cp) (cp_now cp)) (\<lambda>late.
                bindP (forP (report_late cp) late) (\<lambda>_.
                bindP (prove_history cp full cursor raws base) (\<lambda>failures. retP (map fst late, failures)))))
       | _ \<Rightarrow> retP ([], []))"

subsection \<open>Advancing the cursor\<close>

record cursor_port =
  cu_env :: env
  cu_sha :: evidence_sha
  cu_now :: time
  cu_day :: string
  cu_pass :: string
  cu_after :: "(activity list \<times> bool) res"

definition report_unresolved :: "cursor_port \<Rightarrow> string list \<Rightarrow> unit routine" where
  "report_unresolved cu ids =
     (case ids of
        [] \<Rightarrow> retP ()
      | i # _ \<Rightarrow>
          bindP (window_alert (cu_env cu) ''unresolved_broker_execution'' i (cu_day cu) (''Reconciliation: UNRESOLVED BROKER EXECUTION -- '' @ join_ids ids)
                  ''reconciliation'' (cu_now cu)) (\<lambda>_.
            latch_block (cu_env cu) (''UNRESOLVED_BROKER_EXECUTION: '' @ join_ids ids) (cu_now cu)))"

definition write_outcomes :: "cursor_port \<Rightarrow> string list \<Rightarrow> activity list \<Rightarrow> unit routine" where
  "write_outcomes cu ids as =
     forP (\<lambda>a. if ac_id a \<in> set ids then bindP (write_outcome_if_proven (cu_sha cu) a (cu_now cu)) (\<lambda>_. retP ()) else retP ()) as"

definition advance_fill_cursor :: "cursor_port \<Rightarrow> activity list \<Rightarrow> unit routine" where
  "advance_fill_cursor cu lookback =
     bindP (readP fill_cursor) (\<lambda>cursor. case cursor of
       None \<Rightarrow> retP ()
     | Some c \<Rightarrow>
         bindP (liftP (cu_after cu)) (\<lambda>(answer, proven).
         let after = filter (\<lambda>a. c < ac_id a) answer in
         bindP (record_pass after proven (cu_pass cu) (cu_now cu)) (\<lambda>(_, ids).
         bindP (report_unresolved cu ids) (\<lambda>_.
         bindP (readP (\<lambda>db. map ux_activity_id (open_unresolved db None))) (\<lambda>open_ids.
           write_outcomes cu open_ids (lookback @ after))))))"

end
