(* ===== verification/Fill_Cursor.thy ===== *)
theory Fill_Cursor
  imports Completeness
begin

text \<open>
  The invariant of the fill cursor (\<open>reconciliation/unresolved.py\<close>: K1) over every writer of its
  tables: the bootstrap, the recording of a pass, the classification of late activities, the
  writing of outcomes, and the rest of the program, which only adds fills and executions.
\<close>

definition unresolved_rows :: "ledger \<Rightarrow> unresolved_execution tbl" where
  "unresolved_rows db = ev_unresolved (db_evidence db)"

definition outcome_rows :: "ledger \<Rightarrow> unresolved_outcome tbl" where
  "outcome_rows db = ev_outcomes (db_evidence db)"

text \<open>A broker fill is explained by an exact match, an outcome or an unresolved row; a validated row strips its id.\<close>

definition explained :: "ledger \<Rightarrow> string \<Rightarrow> bool" where
  "explained db i \<longleftrightarrow> accounted db i \<or> get_row (outcome_rows db) i \<noteq> None
     \<or> get_row (unresolved_rows db) i \<noteq> None \<or> get_row (unresolved_rows db) (py_strip i) \<noteq> None"

definition table_grows :: "'p tbl \<Rightarrow> 'p tbl \<Rightarrow> bool" where
  "table_grows t t' \<longleftrightarrow> (\<forall>i r. get_row t i = Some r \<longrightarrow> get_row t' i = Some r)"

definition cursor_grows :: "string option \<Rightarrow> string option \<Rightarrow> bool" where
  "cursor_grows c c' \<longleftrightarrow> (\<forall>x. c = Some x \<longrightarrow> (\<exists>y. c' = Some y \<and> x \<le> y))"

text \<open>Append only: rows stay as they are, and the cursor never moves back.\<close>

definition evidence_grows :: "ledger \<Rightarrow> ledger \<Rightarrow> bool" where
  "evidence_grows db db' \<longleftrightarrow> (\<forall>i. accounted db i \<longrightarrow> accounted db' i) \<and> table_grows (unresolved_rows db) (unresolved_rows db')
     \<and> table_grows (outcome_rows db) (outcome_rows db') \<and> cursor_grows (fill_cursor db) (fill_cursor db')"

lemma table_grows_refl [simp]: "table_grows t t"
  by (simp add: table_grows_def)

lemma table_grows_trans: "table_grows a b \<Longrightarrow> table_grows b c \<Longrightarrow> table_grows a c"
  by (simp add: table_grows_def)

lemma table_grows_insert: "table_grows t (snd (insert_or_ignore r t))"
  by (simp add: table_grows_def get_insert_kept)

lemma table_grows_row: "table_grows t t' \<Longrightarrow> get_row t i \<noteq> None \<Longrightarrow> get_row t' i \<noteq> None"
  unfolding table_grows_def by blast

lemma cursor_grows_refl [simp]: "cursor_grows c c"
  by (auto simp: cursor_grows_def)

lemma cursor_grows_trans: "cursor_grows a b \<Longrightarrow> cursor_grows b c \<Longrightarrow> cursor_grows a c"
  unfolding cursor_grows_def by (metis order_trans)

lemma evidence_grows_refl [simp]: "evidence_grows db db"
  by (simp add: evidence_grows_def)

lemma evidence_grows_trans: "evidence_grows a b \<Longrightarrow> evidence_grows b c \<Longrightarrow> evidence_grows a c"
  unfolding evidence_grows_def by (elim conjE, intro conjI allI impI) (blast intro: table_grows_trans cursor_grows_trans)+

lemma explained_grows: "evidence_grows db db' \<Longrightarrow> explained db i \<Longrightarrow> explained db' i"
  unfolding evidence_grows_def explained_def by (elim conjE disjE) (auto dest: table_grows_row)

subsection \<open>Inserting rows\<close>

lemma insert_row_present: "get_row (snd (insert_or_ignore r t)) (r_id r) \<noteq> None" if "r_unique r = None"
  using that by (auto simp: insert_or_ignore_def get_row_None_iff)

lemma insert_new_grows: "insert_new r t = Inr t' \<Longrightarrow> table_grows t t'"
  using table_grows_insert [of t r] by (auto simp: insert_new_def split: prod.splits bool.splits)

lemma insert_new_present: "insert_new r t = Inr t' \<Longrightarrow> r_unique r = None \<Longrightarrow> get_row t' (r_id r) \<noteq> None"
  using insert_row_present [of r t] by (auto simp: insert_new_def split: prod.splits bool.splits)

lemma evidence_parts [simp]:
  "accounted (on_evidence f db) = accounted db"
  "unresolved_rows (on_evidence f db) = ev_unresolved (f (db_evidence db))"
  "outcome_rows (on_evidence f db) = ev_outcomes (f (db_evidence db))"
  "fill_cursor (on_evidence f db) = map_option cu_cursor (ev_cursor (f (db_evidence db)))"
  by (simp_all add: on_evidence_def accounted_def fill_row_of_def unresolved_rows_def outcome_rows_def fill_cursor_def fun_eq_iff)

lemma evidence_grows_on:
  assumes "table_grows (unresolved_rows db) (ev_unresolved (f (db_evidence db)))"
    and "table_grows (outcome_rows db) (ev_outcomes (f (db_evidence db)))"
    and "cursor_grows (fill_cursor db) (map_option cu_cursor (ev_cursor (f (db_evidence db))))"
  shows "evidence_grows db (on_evidence f db)"
  using assms by (simp add: evidence_grows_def)

lemma evidence_grows_same:
  assumes "\<And>e. ev_unresolved (f e) = ev_unresolved e" "\<And>e. ev_outcomes (f e) = ev_outcomes e" "\<And>e. ev_cursor (f e) = ev_cursor e"
  shows "evidence_grows db (on_evidence f db)"
  by (rule evidence_grows_on) (simp_all add: assms unresolved_rows_def outcome_rows_def fill_cursor_def)

lemma advance_cursor_grows: "advance_cursor c pass now db = Inr db' \<Longrightarrow> evidence_grows db db' \<and> fill_cursor db' = Some c"
  by (auto simp: advance_cursor_def res_iffs cursor_grows_def unresolved_rows_def outcome_rows_def intro!: evidence_grows_on split: option.splits)

lemma add_outcome_grows:
  assumes "add_outcome p now i db = Inr db'"
  shows "evidence_grows db db' \<and> explained db' i"
proof -
  from assms obtain t where t: "insert_new (stored_row i None now p) (outcome_rows db) = Inr t"
    and db': "db' = on_evidence (\<lambda>e. e\<lparr>ev_outcomes := t\<rparr>) db"
    by (auto simp: add_outcome_def outcome_rows_def bindR_Inr_iff)
  have "evidence_grows db db'" unfolding db'
    by (rule evidence_grows_on) (simp_all add: insert_new_grows [OF t] unresolved_rows_def fill_cursor_def)
  moreover have "get_row t i \<noteq> None" using insert_new_present [OF t] by (simp add: stored_row_def)
  ultimately show ?thesis by (simp add: db' explained_def)
qed

lemma stripped_id: "require_text (Some i) = Inr j \<Longrightarrow> j = py_strip i"
  by (auto simp: require_text_def Let_def split: if_splits)

lemma unresolved_post_init_id: "unresolved_post_init u = Inr u' \<Longrightarrow> ux_activity_id u' = py_strip (ux_activity_id u)"
  unfolding unresolved_post_init_def bindR_Inr_iff
  by (elim exE conjE, drule sum.inject(2) [THEN iffD1], drule sym, hypsubst, simp) (rule stripped_id)

lemma unresolved_of_id: "unresolved_of a pass now = Inr u \<Longrightarrow> ux_activity_id u = py_strip (ac_id a)"
  unfolding unresolved_of_def
  apply (cases "ac_side a"; cases "ac_qty a"; cases "ac_price a"; cases "ac_time a"; simp only: option.case prod.case sum.distinct)
  unfolding bindR_Inr_iff
  apply (elim exE conjE)
  apply (drule unresolved_post_init_id)
  apply simp
  done

lemma add_unresolved_grows:
  assumes "add_unresolved r db = (fresh, db')" "r_unique r = None"
  shows "evidence_grows db db' \<and> get_row (unresolved_rows db') (r_id r) \<noteq> None"
proof -
  from assms(1) have db': "db' = on_evidence (\<lambda>e. e\<lparr>ev_unresolved := snd (insert_or_ignore r (unresolved_rows db))\<rparr>) db"
    by (auto simp: add_unresolved_def unresolved_rows_def split: prod.splits)
  have "evidence_grows db db'" unfolding db'
    by (rule evidence_grows_on) (simp_all add: table_grows_insert outcome_rows_def fill_cursor_def)
  then show ?thesis using insert_row_present [OF assms(2)] by (simp add: db')
qed

lemma record_activity_grows:
  assumes "record_activity pass now s a = Inr s'"
  shows "evidence_grows (snd s) (snd s') \<and> (ac_type a = ''FILL'' \<longrightarrow> explained (snd s') (ac_id a))"
proof (cases "ac_type a \<noteq> ''FILL'' \<or> accounted (snd s) (ac_id a)")
  case True
  with assms show ?thesis by (auto simp: record_activity_def explained_def)
next
  case False
  then have "bindR (unresolved_of a pass now) (\<lambda>u. let (fresh, db) = add_unresolved (stored_row (ux_activity_id u) None now u) (snd s)
        in Inr (if fresh then fst s @ [ux_activity_id u] else fst s, db)) = Inr s'"
    using assms unfolding record_activity_def by (simp only: if_False)
  then obtain u where u: "unresolved_of a pass now = Inr u"
    and rest: "(let (fresh, db) = add_unresolved (stored_row (ux_activity_id u) None now u) (snd s)
        in Inr (if fresh then fst s @ [ux_activity_id u] else fst s, db)) = (Inr s' :: (string list \<times> ledger) res)"
    by (rule bindRE) (rule that)
  obtain fresh db where ad: "add_unresolved (stored_row (ux_activity_id u) None now u) (snd s) = (fresh, db)" by fastforce
  have s': "snd s' = db" using rest unfolding ad by (auto simp: Let_def)
  have "ux_activity_id u = py_strip (ac_id a)"
    by (rule unresolved_of_id [OF u])
  then show ?thesis using add_unresolved_grows [OF ad] by (simp add: s' stored_row_def explained_def)
qed

text \<open>A loop whose steps grow the evidence and explain their own item.\<close>

lemma foldR_explains:
  assumes "foldR f s xs = Inr s'"
    and step: "\<And>s x s'. f s x = Inr s' \<Longrightarrow> evidence_grows (led s) (led s') \<and> (P x \<longrightarrow> explained (led s') (i x))"
  shows "evidence_grows (led s) (led s') \<and> (\<forall>x\<in>set xs. P x \<longrightarrow> explained (led s') (i x))"
  using assms(1)
proof (induction xs arbitrary: s)
  case Nil
  then show ?case by simp
next
  case (Cons x xs)
  then obtain t where t: "f s x = Inr t" "foldR f t xs = Inr s'" by (auto simp: bindR_Inr_iff)
  have a: "evidence_grows (led t) (led s') \<and> (\<forall>x\<in>set xs. P x \<longrightarrow> explained (led s') (i x))" by (rule Cons.IH [OF t(2)])
  have b: "evidence_grows (led s) (led t) \<and> (P x \<longrightarrow> explained (led t) (i x))" by (rule step [OF t(1)])
  show ?case using evidence_grows_trans [of "led s" "led t" "led s'"] explained_grows [of "led t" "led s'" "i x"] a b by simp
qed

subsection \<open>The writers\<close>

definition fills_of :: "raw_activity list \<Rightarrow> string set" where
  "fills_of raws = {ra_id r |r. r \<in> set raws \<and> ra_type r = ''FILL''}"

lemma record_pass_grows:
  assumes "record_pass as proven pass now db = (res, db')"
  shows "evidence_grows db db' \<and> (proven \<longrightarrow> \<not> isl res \<longrightarrow> (\<forall>a\<in>set as. ac_type a = ''FILL'' \<longrightarrow> explained db' (ac_id a))
           \<and> (as \<noteq> [] \<longrightarrow> fill_cursor db' = Some (ac_id (last as))) \<and> (as = [] \<longrightarrow> fill_cursor db' = fill_cursor db))
    \<and> (isl res \<or> \<not> proven \<longrightarrow> db' = db)"
proof (cases "proven \<and> \<not> isl res")
  case False
  have "db' = db"
  proof (cases proven)
    case True
    with False obtain e where "res = Inl e" by (cases res) auto
    with assms True show ?thesis unfolding record_pass_def by (simp only: not_True_eq_False if_False) (rule writeP_Inl)
  next
    case False
    with assms show ?thesis by (simp add: record_pass_def)
  qed
  with False show ?thesis by auto
next
  case True
  then obtain v where "res = Inr v" by (cases res) auto
  with assms True have w: "bindR (foldR (record_activity pass now) ([], db) as) (\<lambda>(ids, db1).
        bindR (if as = [] then Inr db1 else advance_cursor (ac_id (last as)) pass now db1) (\<lambda>db2.
          Inr ((fill_cursor db2, ids), db2))) = Inr (v, db')"
    by (simp add: record_pass_def writeP_Inr_iff)
  from w obtain s where f: "foldR (record_activity pass now) ([], db) as = Inr s"
    and r: "bindR (if as = [] then Inr (snd s) else advance_cursor (ac_id (last as)) pass now (snd s)) (\<lambda>db2.
          Inr ((fill_cursor db2, fst s), db2)) = Inr (v, db')"
    by (rule bindRE) (simp add: case_prod_unfold)
  have g: "evidence_grows (snd ([]::string list, db)) (snd s) \<and> (\<forall>a\<in>set as. ac_type a = ''FILL'' \<longrightarrow> explained (snd s) (ac_id a))"
    by (rule foldR_explains [OF f record_activity_grows])
  show ?thesis
  proof (cases "as = []")
    case True
    with f have "snd s = db" by (simp add: prod_eq_iff)
    with r True have "db' = db" by simp
    with True show ?thesis by simp
  next
    case False
    with r obtain d2 where "advance_cursor (ac_id (last as)) pass now (snd s) = Inr d2" and "d2 = db'" by (auto simp: bindR_Inr_iff)
    then have "evidence_grows (snd s) db' \<and> fill_cursor db' = Some (ac_id (last as))" using advance_cursor_grows by simp
    then have a: "evidence_grows (snd s) db'" "fill_cursor db' = Some (ac_id (last as))" by blast+
    have g1: "evidence_grows db (snd s)" using g by simp
    have "\<forall>a\<in>set as. ac_type a = ''FILL'' \<longrightarrow> explained db' (ac_id a)" using g explained_grows [OF a(1)] by blast
    with evidence_grows_trans [OF g1 a(1)] a(2) False True \<open>res = Inr v\<close> show ?thesis by simp
  qed
qed

lemma place_fill_grows:
  assumes "place_fill sha pass now r db = Inr (opened, db')"
  shows "evidence_grows db db' \<and> explained db' (ra_id r)"
proof -
  from assms obtain c where "classify_fill db r = Inr c"
    and c: "(case c of
       None \<Rightarrow> bindR (raw_unresolved r pass now) (\<lambda>u.
         bindR (insert_new (stored_row (ra_id r) None now u) (ev_unresolved (db_evidence db))) (\<lambda>t.
           Inr (True, on_evidence (\<lambda>e. e\<lparr>ev_unresolved := t\<rparr>) db)))
     | Some p \<Rightarrow> bindR (outcome_of sha (ra_id r) (ra_digest r) now p) (\<lambda>o'. bindR (add_outcome o' now (ra_id r) db) (\<lambda>db1. Inr (False, db1))))
      = Inr (opened, db')"
    unfolding place_fill_def by (rule bindRE) (rule that)
  show ?thesis
  proof (cases c)
    case None
    with c obtain u t where t: "insert_new (stored_row (ra_id r) None now u) (unresolved_rows db) = Inr t"
      and db': "db' = on_evidence (\<lambda>e. e\<lparr>ev_unresolved := t\<rparr>) db"
      by (auto simp: unresolved_rows_def elim!: bindRE)
    have "evidence_grows db db'" unfolding db'
      by (rule evidence_grows_on) (simp_all add: insert_new_grows [OF t] outcome_rows_def fill_cursor_def)
    moreover have "get_row t (ra_id r) \<noteq> None" using insert_new_present [OF t] by (simp add: stored_row_def)
    ultimately show ?thesis by (simp add: db' explained_def)
  next
    case (Some p)
    with c obtain o' where "add_outcome o' now (ra_id r) db = Inr db'" by (auto elim!: bindRE)
    then show ?thesis by (rule add_outcome_grows)
  qed
qed

lemma classify_late_one_grows:
  assumes "classify_late_one sha cursor pass now s r = Inr s'"
  shows "evidence_grows (snd s) (snd s') \<and> (ra_type r = ''FILL'' \<and> ra_id r \<le> cursor \<longrightarrow> explained (snd s') (ra_id r))"
proof (cases "ra_type r \<noteq> ''FILL'' \<or> cursor < ra_id r \<or> known_activity (snd s) (ra_id r)")
  case True
  with assms show ?thesis by (auto simp: classify_late_one_def known_activity_def explained_def unresolved_rows_def outcome_rows_def)
next
  case False
  then have "bindR (place_fill sha pass now r (snd s)) (\<lambda>(u, db).
        Inr (fst s @ [(ra_id r, u)],
             on_evidence (\<lambda>e. e\<lparr>ev_history := snd (insert_or_ignore (late_note (ra_id r) u now) (ev_history e))\<rparr>) db)) = Inr s'"
    using assms unfolding classify_late_one_def by (simp only: if_False)
  then obtain v where p: "place_fill sha pass now r (snd s) = Inr v"
    and s': "(case v of (u, db) \<Rightarrow> Inr (fst s @ [(ra_id r, u)],
             on_evidence (\<lambda>e. e\<lparr>ev_history := snd (insert_or_ignore (late_note (ra_id r) u now) (ev_history e))\<rparr>) db)) = (Inr s' :: ((string \<times> bool) list \<times> ledger) res)"
    by (rule bindRE) (rule that)
  obtain u d where v: "v = (u, d)" by fastforce
  have "snd s' = on_evidence (\<lambda>e. e\<lparr>ev_history := snd (insert_or_ignore (late_note (ra_id r) u now) (ev_history e))\<rparr>) d"
    using s' by (auto simp: v)
  moreover have "evidence_grows d (on_evidence (\<lambda>e. e\<lparr>ev_history := snd (insert_or_ignore (late_note (ra_id r) u now) (ev_history e))\<rparr>) d)"
    by (rule evidence_grows_same) simp_all
  ultimately have "evidence_grows d (snd s')" by simp
  then show ?thesis using place_fill_grows [OF p [unfolded v]] evidence_grows_trans explained_grows by blast
qed

lemma classify_late_grows:
  assumes "classify_late sha raws cursor pass now db = (res, db')"
  shows "evidence_grows db db' \<and> (\<not> isl res \<longrightarrow> (\<forall>i\<in>fills_of raws. i \<le> cursor \<longrightarrow> explained db' i)) \<and> (isl res \<longrightarrow> db' = db)"
proof (cases res)
  case (Inl e)
  with assms show ?thesis by (auto simp: classify_late_def dest: writeP_Inl)
next
  case (Inr v)
  with assms have f: "foldR (classify_late_one sha cursor pass now) ([], db) raws = Inr (v, db')"
    by (simp add: classify_late_def writeP_Inr_iff)
  have "evidence_grows (snd ([]::(string \<times> bool) list, db)) (snd (v, db'))
      \<and> (\<forall>r\<in>set raws. ra_type r = ''FILL'' \<and> ra_id r \<le> cursor \<longrightarrow> explained (snd (v, db')) (ra_id r))"
    by (rule foldR_explains [OF f classify_late_one_grows])
  then show ?thesis by (auto simp: Inr fills_of_def)
qed

lemma bootstrap_fill_grows:
  assumes "bootstrap_fill sha now db r = Inr db'"
  shows "evidence_grows db db' \<and> (ra_type r = ''FILL'' \<longrightarrow> explained db' (ra_id r))"
proof (cases "ra_type r = ''FILL''")
  case False
  with assms show ?thesis by (simp add: bootstrap_fill_def)
next
  case True
  with assms obtain b where "place_fill sha ''bootstrap'' now r db = Inr (b, db')" by (auto simp: bootstrap_fill_def elim!: bindRE)
  then show ?thesis using place_fill_grows by blast
qed

lemma foldR_bootstrap:
  assumes "foldR (bootstrap_fill sha now) db raws = Inr db'"
  shows "evidence_grows db db' \<and> (\<forall>i\<in>fills_of raws. explained db' i)"
proof -
  have "evidence_grows (id db) (id db') \<and> (\<forall>r\<in>set raws. ra_type r = ''FILL'' \<longrightarrow> explained (id db') (ra_id r))"
    by (rule foldR_explains [OF assms]) (simp add: bootstrap_fill_grows)
  then show ?thesis by (auto simp: fills_of_def)
qed

lemma write_bootstrap_grows:
  assumes "write_bootstrap hp reason raws bc hc db = (res, db')"
  shows "evidence_grows db db' \<and> (\<not> isl res \<longrightarrow> (\<forall>i\<in>fills_of raws. explained db' i) \<and> fill_cursor db' = Some (ra_id (last raws)))"
proof (cases res)
  case (Inl e)
  with assms have "db' = db" unfolding write_bootstrap_def by (blast dest: writeP_Inl)
  with Inl show ?thesis by simp
next
  case (Inr b)
  note w = assms [unfolded Inr write_bootstrap_def writeP_Inr_iff]
  from w obtain d1 where f: "foldR (bootstrap_fill (hy_sha hp) (hy_now hp)) db raws = Inr d1" by (rule bindRE) (rule that)
  have g1: "evidence_grows db d1" "\<forall>i\<in>fills_of raws. explained d1 i" using foldR_bootstrap [OF f] by blast+
  from w obtain t where a: "advance_cursor (ra_id (last raws)) ''bootstrap'' (hy_now hp) (on_evidence (\<lambda>e. e\<lparr>ev_bootstrap := t\<rparr>) d1) = Inr db'"
    by (auto simp: f Let_def elim!: bindRE)
  have g2: "evidence_grows d1 (on_evidence (\<lambda>e. e\<lparr>ev_bootstrap := t\<rparr>) d1)" by (rule evidence_grows_same) simp_all
  have g3: "evidence_grows d1 db'" "fill_cursor db' = Some (ra_id (last raws))"
    using evidence_grows_trans [OF g2] advance_cursor_grows [OF a] by blast+
  then show ?thesis using evidence_grows_trans [OF g1(1) g3(1)] g1(2) explained_grows [OF g3(1)] by simp
qed

text \<open>Steps that touch none of the four tables.\<close>

lemma grows_same:
  assumes "db_fills db' = db_fills db" "db_executions db' = db_executions db" "db_evidence db' = db_evidence db"
  shows "evidence_grows d db' = evidence_grows d db"
  using assms by (simp add: evidence_grows_def accounted_def fill_row_of_def unresolved_rows_def outcome_rows_def fill_cursor_def)

lemma keeps_grows_alert [intro]: "keeps (evidence_grows d) (alert_once en ev)"
  by (rule keeps_alert_once) (rule grows_same, simp_all)

lemma keeps_grows_latch [intro]: "keeps (evidence_grows d) (latch_block en reason now)"
  by (rule keeps_latch_block) (rule grows_same, simp_all)

lemma keeps_grows_window [intro]: "keeps (evidence_grows d) (window_alert en ty subject w m ent now)"
  unfolding window_alert_def by (intro keeps_bindP keeps_grows_alert keeps_basic)

lemma keeps_grows_history [intro]: "keeps (evidence_grows d) (put_history en h)"
  unfolding put_history_def
  by (rule keeps_create_in)
    (simp add: evidence_grows_def unresolved_rows_def outcome_rows_def fill_cursor_def accounted_def fill_row_of_def on_evidence_def)

lemma keeps_by_result:
  assumes "\<And>db r db'. m db = (r, db') \<Longrightarrow> evidence_grows db db'"
  shows "keeps (evidence_grows d) m"
  by (rule keepsI) (metis assms evidence_grows_trans prod.collapse)

lemma write_outcome_grows: "write_outcome_if_proven sha a now db = (r, db') \<Longrightarrow> evidence_grows db db'"
  unfolding write_outcome_if_proven_def
  by (cases r)
    (auto simp: writeP_Inr_iff Let_def dest!: writeP_Inl add_outcome_grows elim!: bindRE split: option.splits if_splits)

lemma keeps_grows_outcome [intro]: "keeps (evidence_grows d) (write_outcome_if_proven sha a now)"
  by (rule keeps_by_result) (rule write_outcome_grows)

lemma keeps_grows_pass [intro]: "keeps (evidence_grows d) (record_pass as proven pass now)"
  by (rule keeps_by_result) (blast dest: record_pass_grows)

lemma keeps_grows_late [intro]: "keeps (evidence_grows d) (classify_late sha raws cursor pass now)"
  by (rule keeps_by_result) (blast dest: classify_late_grows)

lemma keeps_grows_outcomes [intro]: "keeps (evidence_grows d) (write_outcomes cu ids as)"
  unfolding write_outcomes_def by (rule keeps_forP) auto

lemma keeps_grows_report [intro]: "keeps (evidence_grows d) (report_unresolved cu ids)"
  unfolding report_unresolved_def by (cases ids) auto

lemma keeps_grows_advance [intro]: "keeps (evidence_grows d) (advance_fill_cursor cu lookback)"
  unfolding advance_fill_cursor_def by (auto intro!: keeps_bindP keeps_basic simp: Let_def split: option.splits prod.splits)

lemma keeps_grows_prove [intro]: "keeps (evidence_grows d) (prove_history cp full cursor raws base)"
  unfolding prove_history_def latch_repeated_def put_baseline_def by (auto intro!: keeps_bindP keeps_forP)

lemma keeps_grows_completeness [intro]: "keeps (evidence_grows d) (completeness_pass cp full)"
  unfolding completeness_pass_def report_late_def
  by (auto intro!: keeps_bindP keeps_forP keeps_basic keeps_grows_history keeps_grows_late keeps_grows_window keeps_grows_latch keeps_grows_prove
      split: option.splits prod.splits sum.splits exc.splits)

subsection \<open>The invariant\<close>

text \<open>
  The writers as steps, with the ids of every fill the broker has reported to one of them so
  far. \<open>Elsewhere\<close> is any other write of the program: fills and executions are only added.
\<close>

inductive cursor_step :: "ledger \<times> string set \<Rightarrow> ledger \<times> string set \<Rightarrow> bool" where
  Bootstrap: "write_bootstrap hp reason raws bc hc db = (r, db') \<Longrightarrow> cursor_step (db, S) (db', if isl r then S else S \<union> fills_of raws)"
| Pass: "record_pass as proven pass now db = (r, db') \<Longrightarrow>
    cursor_step (db, S) (db', if isl r \<or> \<not> proven then S else S \<union> {ac_id a |a. a \<in> set as \<and> ac_type a = ''FILL''})"
| Late: "classify_late sha raws cursor pass now db = (r, db') \<Longrightarrow>
    cursor_step (db, S) (db', if isl r then S else S \<union> {i \<in> fills_of raws. i \<le> cursor})"
| Outcome: "write_outcome_if_proven sha a now db = (r, db') \<Longrightarrow> cursor_step (db, S) (db', S)"
| Elsewhere: "(\<forall>i. accounted db i \<longrightarrow> accounted db' i) \<Longrightarrow> unresolved_rows db' = unresolved_rows db \<Longrightarrow> outcome_rows db' = outcome_rows db \<Longrightarrow>
    fill_cursor db' = fill_cursor db \<Longrightarrow> cursor_step (db, S) (db', S)"

inductive cursor_run :: "ledger \<times> string set \<Rightarrow> ledger \<times> string set \<Rightarrow> bool" where
  Start: "cursor_run s s"
| Step: "cursor_run s t \<Longrightarrow> cursor_step t u \<Longrightarrow> cursor_run s u"

inductive_cases cursor_stepE: "cursor_step s t"

lemma cursor_step_grows:
  assumes "cursor_step (db, S) (db', S')"
  shows "evidence_grows db db' \<and> S \<subseteq> S' \<and> (\<forall>i\<in>S' - S. explained db' i)"
  using assms
proof cases
  case (Bootstrap hp reason raws bc hc r)
  then show ?thesis using write_bootstrap_grows [OF Bootstrap(2)] by (auto split: if_splits)
next
  case (Pass as proven pass now r)
  then show ?thesis using record_pass_grows [OF Pass(2)] by (auto split: if_splits)
next
  case (Late sha raws cursor pass now r)
  then show ?thesis using classify_late_grows [OF Late(2)] by (auto split: if_splits)
next
  case (Outcome sha a now r)
  then show ?thesis using write_outcome_grows [OF Outcome(2)] by simp
next
  case Elsewhere
  then show ?thesis by (simp add: evidence_grows_def)
qed


subsection \<open>What an advance leaves\<close>

lemma record_activity_ids:
  assumes "record_activity pass now s a = Inr s'"
  shows "length (fst s) \<le> length (fst s') \<and> (fst s' = fst s \<longrightarrow> unresolved_rows (snd s') = unresolved_rows (snd s))"
proof (cases "ac_type a \<noteq> ''FILL'' \<or> accounted (snd s) (ac_id a)")
  case True
  with assms show ?thesis by (auto simp: record_activity_def)
next
  case False
  then have "bindR (unresolved_of a pass now) (\<lambda>u. let (fresh, db) = add_unresolved (stored_row (ux_activity_id u) None now u) (snd s)
        in Inr (if fresh then fst s @ [ux_activity_id u] else fst s, db)) = Inr s'"
    using assms unfolding record_activity_def by (simp only: if_False)
  then obtain u where "(let (fresh, db) = add_unresolved (stored_row (ux_activity_id u) None now u) (snd s)
        in Inr (if fresh then fst s @ [ux_activity_id u] else fst s, db)) = (Inr s' :: (string list \<times> ledger) res)"
    by (rule bindRE) (rule that)
  then show ?thesis
    by (auto simp: add_unresolved_def insert_or_ignore_def unresolved_rows_def on_evidence_def Let_def split: if_splits)
qed

lemma fold_record_ids:
  assumes "foldR (record_activity pass now) s as = Inr s'"
  shows "length (fst s) \<le> length (fst s') \<and> (length (fst s') = length (fst s) \<longrightarrow> unresolved_rows (snd s') = unresolved_rows (snd s))"
  using assms
proof (induction as arbitrary: s)
  case Nil
  then show ?case by simp
next
  case (Cons a as)
  then obtain t where t: "record_activity pass now s a = Inr t" "foldR (record_activity pass now) t as = Inr s'"
    by (auto elim: bindRE)
  have ih: "length (fst t) \<le> length (fst s')" "length (fst s') = length (fst t) \<longrightarrow> unresolved_rows (snd s') = unresolved_rows (snd t)"
    using Cons.IH [OF t(2)] by blast+
  have st: "length (fst s) \<le> length (fst t)" "fst t = fst s \<longrightarrow> unresolved_rows (snd t) = unresolved_rows (snd s)"
    using record_activity_ids [OF t(1)] by blast+
  have grow: "\<exists>l. fst t = fst s @ l"
    using t(1) by (auto simp: record_activity_def Let_def split: if_splits prod.splits elim!: bindRE)
  show ?case
  proof (intro conjI impI)
    show "length (fst s) \<le> length (fst s')" using ih(1) st(1) by simp
    assume eq: "length (fst s') = length (fst s)"
    then have "length (fst t) = length (fst s)" using ih(1) st(1) by simp
    with grow have "fst t = fst s" by auto
    with ih(2) st(2) eq \<open>length (fst t) = length (fst s)\<close> show "unresolved_rows (snd s') = unresolved_rows (snd s)" by simp
  qed
qed

lemma record_pass_quiet:
  assumes "record_pass as proven pass now db = (Inr (c, []), db')"
  shows "unresolved_rows db' = unresolved_rows db"
proof (cases proven)
  case False
  with assms show ?thesis by (simp add: record_pass_def)
next
  case True
  with assms have w: "bindR (foldR (record_activity pass now) ([], db) as) (\<lambda>(ids, db1).
        bindR (if as = [] then Inr db1 else advance_cursor (ac_id (last as)) pass now db1) (\<lambda>db2.
          Inr ((fill_cursor db2, ids), db2))) = Inr ((c, []), db')"
    by (simp add: record_pass_def writeP_Inr_iff)
  from w obtain s where f: "foldR (record_activity pass now) ([], db) as = Inr s"
    and r: "bindR (if as = [] then Inr (snd s) else advance_cursor (ac_id (last as)) pass now (snd s)) (\<lambda>db2.
          Inr ((fill_cursor db2, fst s), db2)) = Inr ((c, []), db')"
    by (rule bindRE) (simp add: case_prod_unfold)
  have "fst s = []" using r by (auto elim!: bindRE)
  then have "unresolved_rows (snd s) = unresolved_rows db" using fold_record_ids [OF f] by simp
  moreover have "unresolved_rows db' = unresolved_rows (snd s)"
    using r by (auto simp: advance_cursor_def guardR_def unresolved_rows_def on_evidence_def elim!: bindRE split: if_splits)
  ultimately show ?thesis by simp
qed

lemma keeps_blocked_outcomes: "keeps blocked (write_outcomes cu ids as)"
proof -
  have one: "keeps blocked (write_outcome_if_proven sha a now)" for sha a now
    unfolding write_outcome_if_proven_def
    by (rule keeps_writeP)
      (auto simp: Let_def add_outcome_def blocked_def on_evidence_def elim!: bindRE split: option.splits if_splits)
  show ?thesis unfolding write_outcomes_def by (rule keeps_forP) (auto intro: one)
qed

lemma report_unresolved_blocks:
  assumes "report_unresolved cu ids db = (Inr (), db')" "ids \<noteq> []"
  shows "blocked db'"
  using assms by (cases ids) (auto simp: report_unresolved_def bindP_Inr_iff dest: latch_block_blocks)

lemma report_keeps_rows: "unresolved_rows (snd (report_unresolved cu ids db)) = unresolved_rows db"
proof -
  have k: "keeps (\<lambda>d. unresolved_rows d = unresolved_rows db) (report_unresolved cu ids)"
    unfolding report_unresolved_def window_alert_def
    by (cases ids) (auto intro!: keeps_bindP keeps_basic keeps_alert_once keeps_latch_block simp: unresolved_rows_def)
  show ?thesis by (rule keepsD [OF k]) simp
qed

lemma outcomes_keep_rows: "unresolved_rows (snd (write_outcomes cu ids as db)) = unresolved_rows db"
proof -
  have one: "keeps (\<lambda>d. unresolved_rows d = unresolved_rows db) (write_outcome_if_proven sha a now)" for sha a now
    unfolding write_outcome_if_proven_def
    by (rule keeps_writeP)
      (auto simp: Let_def add_outcome_def unresolved_rows_def on_evidence_def elim!: bindRE split: option.splits if_splits)
  have k: "keeps (\<lambda>d. unresolved_rows d = unresolved_rows db) (write_outcomes cu ids as)"
    unfolding write_outcomes_def by (rule keeps_forP) (auto intro: one)
  show ?thesis by (rule keepsD [OF k]) simp
qed

lemma outcomes_keep_cursor: "fill_cursor (snd (write_outcomes cu ids as db)) = fill_cursor db"
proof -
  have one: "keeps (\<lambda>d. fill_cursor d = fill_cursor db) (write_outcome_if_proven sha a now)" for sha a now
    unfolding write_outcome_if_proven_def
    by (rule keeps_writeP) (auto simp: Let_def add_outcome_def fill_cursor_def on_evidence_def elim!: bindRE split: option.splits if_splits)
  have k: "keeps (\<lambda>d. fill_cursor d = fill_cursor db) (write_outcomes cu ids as)"
    unfolding write_outcomes_def by (rule keeps_forP) (auto intro: one)
  show ?thesis by (rule keepsD [OF k]) simp
qed

text \<open>The advance after the cursor is read and the page is there.\<close>

definition advance_with :: "cursor_port \<Rightarrow> activity list \<Rightarrow> activity list \<Rightarrow> bool \<Rightarrow> unit routine" where
  "advance_with cu lookback after proven =
     bindP (record_pass after proven (cu_pass cu) (cu_now cu)) (\<lambda>(_, ids).
     bindP (report_unresolved cu ids) (\<lambda>_.
     bindP (readP (\<lambda>db. map ux_activity_id (open_unresolved db None))) (\<lambda>open_ids.
       write_outcomes cu open_ids (lookback @ after))))"

lemma advance_is:
  assumes "fill_cursor db = Some c" "cu_after cu = Inr (answer, proven)"
  shows "advance_fill_cursor cu lookback db = advance_with cu lookback (filter (\<lambda>a. c < ac_id a) answer) proven db"
  using assms by (simp add: advance_fill_cursor_def advance_with_def Let_def)

text \<open>an advance of the fill cursor over a proven page that returns leaves every fill the broker
  reported after the cursor explained, and the session blocked when one of them had to be
  recorded as unresolved. An advance that fails, or whose page is not proven, moves the cursor
  only together with the rows of the fills it passes.\<close>

theorem cursor_advance_explains:
  assumes "advance_fill_cursor cu lookback db = (r, db')" and "fill_cursor db = Some c" and "cu_after cu = Inr (answer, proven)"
  shows "evidence_grows db db'
    \<and> (fill_cursor db' = Some c \<or> (\<forall>a\<in>set answer. c < ac_id a \<and> ac_type a = ''FILL'' \<longrightarrow> explained db' (ac_id a)))
    \<and> (r = Inr () \<and> proven \<longrightarrow> (\<forall>a\<in>set answer. c < ac_id a \<and> ac_type a = ''FILL'' \<longrightarrow> explained db' (ac_id a))
         \<and> (unresolved_rows db' \<noteq> unresolved_rows db \<longrightarrow> blocked db'))"
proof -
  let ?after = "filter (\<lambda>a. c < ac_id a) answer"
  note run = assms(1) [unfolded advance_is [OF assms(2,3)] advance_with_def]
  obtain p d1 where p: "record_pass ?after proven (cu_pass cu) (cu_now cu) db = (p, d1)" by fastforce
  note pass = record_pass_grows [OF p]
  have all: "evidence_grows db db'" using keepsD [OF keeps_grows_advance, of db db cu lookback] assms(1) by simp
  show ?thesis
  proof (cases p)
    case (Inl e)
    with run p have "db' = d1" "r = Inl e" by simp_all
    with Inl pass assms(2) all show ?thesis by simp
  next
    case (Inr q)
    obtain cur ids where q: "p = Inr (cur, ids)" using Inr by (cases q) simp
    obtain r2 d2 where rep: "report_unresolved cu ids d1 = (r2, d2)" by fastforce
    define d3 where "d3 = snd (write_outcomes cu (map ux_activity_id (open_unresolved d2 None)) (lookback @ ?after) d2)"
    have db': "db' = (case r2 of Inl _ \<Rightarrow> d2 | Inr _ \<Rightarrow> d3)" and ok: "r = Inr () \<Longrightarrow> \<exists>u. r2 = Inr u"
      using run p q rep by (auto simp: bindP_def d3_def split: sum.splits prod.splits)
    have g2: "evidence_grows d1 d2" using keepsD [OF keeps_grows_report, of d1 d1 cu ids] rep by simp
    have g3: "evidence_grows d2 d3" unfolding d3_def by (rule keepsD [OF keeps_grows_outcomes]) simp
    have g: "evidence_grows d1 db'" using g2 evidence_grows_trans [OF g2 g3] by (simp add: db' split: sum.splits)
    show ?thesis
    proof (cases proven)
      case False
      then have "d1 = db" using pass by simp
      have "fill_cursor d2 = fill_cursor d1"
      proof -
        have "ids = []" using p q False by (simp add: record_pass_def)
        then show ?thesis using rep by (simp add: report_unresolved_def)
      qed
      moreover have "fill_cursor d3 = fill_cursor d2" unfolding d3_def by (rule outcomes_keep_cursor)
      ultimately have "fill_cursor db' = Some c" using \<open>d1 = db\<close> assms(2) by (simp add: db' split: sum.splits)
      with False all show ?thesis by simp
    next
      case True
      then have ex: "\<forall>a\<in>set ?after. ac_type a = ''FILL'' \<longrightarrow> explained d1 (ac_id a)" using pass q by simp
      have ex': "\<forall>a\<in>set answer. c < ac_id a \<and> ac_type a = ''FILL'' \<longrightarrow> explained db' (ac_id a)"
        using ex explained_grows [OF g] by simp
      have "blocked db'" if "r = Inr ()" "unresolved_rows db' \<noteq> unresolved_rows db"
      proof -
        from ok [OF that(1)] obtain u where u: "r2 = Inr u" by blast
        have rows: "unresolved_rows db' = unresolved_rows d1"
          using report_keeps_rows [of cu ids d1] outcomes_keep_rows rep u by (simp add: db' d3_def)
        have "ids \<noteq> []" using record_pass_quiet [of ?after proven "cu_pass cu" "cu_now cu" db cur d1] p q rows that(2) by auto
        with rep u have "blocked d2" using report_unresolved_blocks by simp
        then show ?thesis using keepsD [OF keeps_blocked_outcomes] u by (simp add: db' d3_def)
      qed
      with ex' all show ?thesis by blast
    qed
  qed
qed

text \<open>C27: an unresolved execution is closed only by exact evidence: its outcome is written when the
  broker's activity is unchanged since it was recorded and a local fill of the same side,
  quantity, price and time has exactly one cash entry, or an equal quarantine execution has
  exactly one cash entry, the one derived from it. Nothing else changes.\<close>

theorem unresolved_closed_by_evidence:
  assumes "write_outcome_if_proven sha a now db = (r, db')"
  shows "unresolved_rows db' = unresolved_rows db \<and> (\<forall>i. i \<noteq> ac_id a \<longrightarrow> get_row (outcome_rows db') i = get_row (outcome_rows db) i)
    \<and> (r = Inr True \<longrightarrow> (\<exists>u. map_option r_payload (get_row (unresolved_rows db) (ac_id a)) = Some u \<and> ac_digest a = ux_digest u
         \<and> get_row (outcome_rows db) (ac_id a) = None \<and> get_row (outcome_rows db') (ac_id a) \<noteq> None
         \<and> ((\<exists>f c. fill_row_of db (ac_id a) = Some f \<and> (f_side f, f_quantity f, f_price f, f_filled_at f) = execution_facts u
                \<and> cash_rows (\<lambda>r. r_unique r = Some (fill_cash_id (f_id f))) db = [c])
            \<or> (\<exists>x c. map_option r_payload (get_row (db_executions db) (ac_id a)) = Some x
                \<and> (qx_side x, qx_quantity x, qx_price x, qx_executed_at x) = execution_facts u \<and> qx_digest x = ux_digest u
                \<and> execution_cash x = Inr c
                \<and> cash_rows (\<lambda>r. r_id r = fill_cash_id (qx_activity_id x) \<or> r_unique r = Some (fill_cash_id (qx_activity_id x))) db = [c]))))
    \<and> (r \<noteq> Inr True \<longrightarrow> db' = db)"
proof (cases "r = Inr True")
  case False
  then have "db' = db"
    using assms by (cases r) (auto simp: write_outcome_if_proven_def writeP_Inr_iff Let_def dest!: writeP_Inl elim!: bindRE split: option.splits if_splits)
  with False show ?thesis by simp
next
  case True
  from assms [unfolded True write_outcome_if_proven_def writeP_Inr_iff] obtain row where
    row: "get_row (unresolved_rows db) (ac_id a) = Some row" by (auto simp: unresolved_rows_def split: option.splits)
  define u where "u = r_payload row"
  from assms [unfolded True write_outcome_if_proven_def writeP_Inr_iff] row have
    none: "get_row (outcome_rows db) (ac_id a) = None" "ac_digest a = ux_digest u"
    and rest: "bindR (outcome_proof db u (ac_id a)) (\<lambda>p. case p of
                  None \<Rightarrow> Inr (False, db)
                | Some proof \<Rightarrow>
                    bindR (outcome_of sha (ac_id a) (ux_digest u) now proof) (\<lambda>o'.
                    bindR (add_outcome o' now (ac_id a) db) (\<lambda>db1. Inr (True, db1)))) = (Inr (True, db') :: (bool \<times> ledger) res)"
    unfolding u_def by (auto simp: unresolved_rows_def outcome_rows_def Let_def split: if_splits)
  from rest obtain q where q: "outcome_proof db u (ac_id a) = Inr q"
    and q2: "(case q of
                  None \<Rightarrow> Inr (False, db)
                | Some proof \<Rightarrow>
                    bindR (outcome_of sha (ac_id a) (ux_digest u) now proof) (\<lambda>o'.
                    bindR (add_outcome o' now (ac_id a) db) (\<lambda>db1. Inr (True, db1)))) = (Inr (True, db') :: (bool \<times> ledger) res)"
    by (rule bindRE) (rule that)
  from q2 obtain proof' o' where p: "q = Some proof'" and ao: "add_outcome o' now (ac_id a) db = Inr db'"
    by (auto split: option.splits elim!: bindRE)
  from ao obtain t where t: "insert_new (stored_row (ac_id a) None now o') (outcome_rows db) = Inr t"
    and db': "db' = on_evidence (\<lambda>e. e\<lparr>ev_outcomes := t\<rparr>) db"
    by (auto simp: add_outcome_def outcome_rows_def bindR_Inr_iff)
  have tt: "t = outcome_rows db @ [stored_row (ac_id a) None now o']"
    using t by (auto simp: insert_new_def insert_or_ignore_def stored_row_def split: if_splits)
  have other: "get_row t i = get_row (outcome_rows db) i" if "i \<noteq> ac_id a" for i
    using that by (simp add: tt get_row_append stored_row_def split: option.splits)
  have pres: "get_row t (ac_id a) \<noteq> None" using insert_new_present [OF t] by (simp add: stored_row_def)
  have proof_facts: "(\<exists>f c. fill_row_of db (ac_id a) = Some f \<and> (f_side f, f_quantity f, f_price f, f_filled_at f) = execution_facts u
                \<and> cash_rows (\<lambda>r. r_unique r = Some (fill_cash_id (f_id f))) db = [c])
            \<or> (\<exists>x c. map_option r_payload (get_row (db_executions db) (ac_id a)) = Some x
                \<and> (qx_side x, qx_quantity x, qx_price x, qx_executed_at x) = execution_facts u \<and> qx_digest x = ux_digest u
                \<and> execution_cash x = Inr c
                \<and> cash_rows (\<lambda>r. r_id r = fill_cash_id (qx_activity_id x) \<or> r_unique r = Some (fill_cash_id (qx_activity_id x))) db = [c])"
    using q p by (auto simp: outcome_proof_def fill_proof_def execution_proof_def cash_issue_def Let_def elim!: bindRE
        split: option.splits if_splits list.splits)
  show ?thesis
    using other pres proof_facts none row by (auto simp: True db' u_def) (simp_all add: unresolved_rows_def)
qed


subsection \<open>A concrete advance\<close>

definition cursor_start :: ledger where
  "cursor_start = on_evidence (\<lambda>e. e\<lparr>ev_cursor := Some \<lparr>cu_cursor = ''a'', cu_pass_id = ''p0'', cu_at = 0\<rparr>\<rparr>) demo_ledger"

definition demo_cursor_port :: cursor_port where
  "demo_cursor_port = \<lparr>cu_env = demo_check_env, cu_sha = (\<lambda>_ _. ''d''), cu_now = 200, cu_day = ''1970-01-01'', cu_pass = ''p1'',
     cu_after = Inr ([demo_activity], True)\<rparr>"

definition demo_open :: unresolved_execution where
  "demo_open = \<lparr>ux_activity_id = ''f2'', ux_asset_key = ''equity:default:alpaca:X'', ux_side = BUY, ux_quantity = 4, ux_price = 12, ux_time = 100,
     ux_digest = ''d'', ux_first_seen_at = 200, ux_pass_id = ''p1''\<rparr>"

definition demo_recorded :: ledger where
  "demo_recorded = on_evidence (\<lambda>e. e\<lparr>ev_unresolved := [stored_row ''f2'' None 200 demo_open],
     ev_cursor := Some \<lparr>cu_cursor = ''f2'', cu_pass_id = ''p1'', cu_at = 200\<rparr>\<rparr>) demo_ledger"

lemma demo_unresolved: "unresolved_of demo_activity ''p1'' 200 = Inr demo_open"
proof -
  have k: "broker_symbol_asset_key ''X'' = Inr ''equity:default:alpaca:X''" by code_simp
  have t: "require_text (Some ''f2'') = Inr ''f2''" "require_text (Some ''equity:default:alpaca:X'') = Inr ''equity:default:alpaca:X''"
    "require_text (Some ''d'') = Inr ''d''" "require_text (Some ''p1'') = Inr ''p1''" by code_simp+
  show ?thesis
    by (simp add: unresolved_of_def demo_activity_def demo_open_def unresolved_post_init_def k t require_positive_def decimal_value_def)
qed

lemma demo_pass: "record_pass [demo_activity] True ''p1'' 200 cursor_start = (Inr (Some ''f2'', [''f2'']), demo_recorded)"
proof -
  have r: "record_activity ''p1'' 200 ([], cursor_start) demo_activity = Inr ([''f2''],
      on_evidence (\<lambda>e. e\<lparr>ev_unresolved := [stored_row ''f2'' None 200 demo_open]\<rparr>) cursor_start)"
    by (simp add: record_activity_def demo_unresolved)
      (simp add: demo_activity_def accounted_def fill_row_of_def cursor_start_def on_evidence_def demo_ledger_def plain_row_def demo_open_def
        add_unresolved_def no_evidence_def insert_or_ignore_def stored_row_def)
  have i: "ac_id demo_activity = ''f2''" by (simp add: demo_activity_def)
  show ?thesis
    by (simp add: record_pass_def writeP_def r i advance_cursor_def guardR_def)
      (simp add: cursor_start_def demo_recorded_def on_evidence_def fill_cursor_def)
qed


lemma demo_report: "\<exists>d. report_unresolved demo_cursor_port [''f2''] demo_recorded = (Inr (), d)"
proof -
  let ?ev = "\<lparr>ae_id = ''unresolved_broker_execution'' @ '':'' @ ''f2'' @ '':'' @ cu_day demo_cursor_port, ae_type = ''unresolved_broker_execution'',
    ae_severity = ''critical'', ae_message = ''Reconciliation: UNRESOLVED BROKER EXECUTION -- '' @ join_ids [''f2''],
    ae_at = cu_now demo_cursor_port, ae_entity_type = ''reconciliation'', ae_entity_id = ''f2'', ae_details = []\<rparr>"
  have a: "alert_once (cu_env demo_cursor_port) ?ev demo_recorded = (Inr True, snd (record_audit ?ev demo_recorded))"
    by (simp add: alert_once_def demo_cursor_port_def demo_check_env_def record_audit_def demo_recorded_def on_evidence_def demo_ledger_def)
  have "db_session (snd (record_audit ?ev demo_recorded)) = None"
    by (simp add: record_audit_def demo_recorded_def on_evidence_def demo_ledger_def)
  moreover have "en_fresh (cu_env demo_cursor_port) (snd (record_audit ?ev demo_recorded)) \<notin> ae_id ` set (db_audit (snd (record_audit ?ev demo_recorded)))"
    by (simp add: record_audit_def demo_recorded_def on_evidence_def demo_ledger_def demo_cursor_port_def demo_check_env_def)
  ultimately obtain d where
    "latch_block (cu_env demo_cursor_port) (''UNRESOLVED_BROKER_EXECUTION: '' @ join_ids [''f2'']) (cu_now demo_cursor_port) (snd (record_audit ?ev demo_recorded)) = (Inr (), d)"
    using latch_block_runs by blast
  with a show ?thesis by (auto simp: report_unresolved_def window_alert_def)
qed

lemma outcome_unaccounted:
  assumes "\<not> accounted db (ac_id a)"
  shows "write_outcome_if_proven sha a now db = (Inr False, db)"
  using assms by (auto simp: write_outcome_if_proven_def writeP_def accounted_def outcome_proof_def Let_def split: option.splits)

lemma demo_advance: "fst (advance_fill_cursor demo_cursor_port [] cursor_start) = Inr ()"
proof -
  obtain d where d: "report_unresolved demo_cursor_port [''f2''] demo_recorded = (Inr (), d)" using demo_report by blast
  have rep: "keeps (\<lambda>x. \<not> accounted x ''f2'') (report_unresolved demo_cursor_port [''f2''])"
    unfolding report_unresolved_def window_alert_def
    by (auto intro!: keeps_bindP keeps_basic keeps_alert_once keeps_latch_block simp: accounted_def fill_row_of_def)
  have "\<not> accounted demo_recorded ''f2''"
    by (simp add: accounted_def fill_row_of_def demo_recorded_def on_evidence_def demo_ledger_def plain_row_def)
  then have "\<not> accounted d ''f2''" using keepsD [OF rep, of demo_recorded] d by simp
  then have w: "fst (write_outcomes demo_cursor_port ids [demo_activity] d) = Inr ()" for ids
    using outcome_unaccounted [of d demo_activity "cu_sha demo_cursor_port" "cu_now demo_cursor_port"]
    by (simp add: write_outcomes_def demo_activity_def bindP_def)
  have c: "fill_cursor cursor_start = Some ''a''" by (simp add: cursor_start_def)
  have p: "cu_after demo_cursor_port = Inr ([demo_activity], True)" "cu_pass demo_cursor_port = ''p1''" "cu_now demo_cursor_port = 200"
    by (simp_all add: demo_cursor_port_def)
  have "''a'' < ac_id demo_activity" by code_simp
  then show ?thesis
    using demo_pass d w [of "map ux_activity_id (open_unresolved d None)"]
    by (simp add: advance_is [OF c p(1)] advance_with_def p)
qed
theorem cursor_advance_explains_witness:
  "explained (snd (advance_fill_cursor demo_cursor_port [] cursor_start)) ''f2''"
proof -
  let ?db = "snd (advance_fill_cursor demo_cursor_port [] cursor_start)"
  have run: "advance_fill_cursor demo_cursor_port [] cursor_start = (Inr (), ?db)" using demo_advance by (metis prod.collapse)
  have c: "fill_cursor cursor_start = Some ''a''" by (simp add: cursor_start_def)
  have p: "cu_after demo_cursor_port = Inr ([demo_activity], True)" by (simp add: demo_cursor_port_def)
  have "''a'' < ac_id demo_activity" by code_simp
  moreover have "ac_type demo_activity = ''FILL''" "ac_id demo_activity = ''f2''" by (simp_all add: demo_activity_def)
  ultimately show ?thesis using cursor_advance_explains [OF run c p] by simp
qed


definition demo_closable :: ledger where
  "demo_closable = demo_recorded\<lparr>db_fills := [plain_row ''f2'' None (Some ''f2'') demo_attributed],
     db_cash := [plain_row ''fill:cash:f2'' None (Some ''fill:cash:f2'')
       \<lparr>ce_id = ''fill:cash:f2'', ce_idempotency_key = ''fill:cash:f2'', ce_amount = -48, ce_currency = ''USD'', ce_occurred_at = 100, ce_reason = ''cash''\<rparr>]\<rparr>"

lemma demo_close: "fst (write_outcome_if_proven (\<lambda>_ _. ''d'') demo_activity 300 demo_closable) = Inr True"
proof -
  have t: "require_text (Some ''f2'') = Inr ''f2''" "require_text (Some ''d'') = Inr ''d''" by code_simp+
  show ?thesis
    by (simp add: write_outcome_if_proven_def writeP_def demo_closable_def demo_recorded_def demo_activity_def demo_open_def on_evidence_def
        stored_row_def plain_row_def outcome_proof_def fill_row_of_def fill_proof_def execution_facts_def demo_attributed_def demo_fill_def cash_rows_def
        fill_cash_id_def demo_ledger_def no_evidence_def outcome_of_def outcome_post_init_def t add_outcome_def insert_new_def insert_or_ignore_def)
qed

theorem unresolved_closed_by_evidence_witness:
  "get_row (outcome_rows (snd (write_outcome_if_proven (\<lambda>_ _. ''d'') demo_activity 300 demo_closable))) ''f2'' \<noteq> None"
proof -
  have "write_outcome_if_proven (\<lambda>_ _. ''d'') demo_activity 300 demo_closable
      = (Inr True, snd (write_outcome_if_proven (\<lambda>_ _. ''d'') demo_activity 300 demo_closable))"
    using demo_close by (metis prod.collapse)
  from unresolved_closed_by_evidence [OF this] show ?thesis by (auto simp: demo_activity_def)
qed

end
