(* ===== verification/Quotes.thy ===== *)
theory Quotes
  imports Risk
begin

text \<open>
  \<open>execution/quotes.py\<close>: the age of a quote, measured when it is used, and the reference price
  the gateway takes from it. The provider's answer is an argument; the texts of the problems
  are kept without their numbers.
\<close>

record market_quote =
  mq_bid :: "dec option"
  mq_ask :: "dec option"
  mq_observed_at :: time

record authoritative_quote =
  aq_price :: dec
  aq_bid :: dec
  aq_ask :: dec
  aq_observed_at :: time
  aq_slippage_pct :: dec

definition max_quote_age :: "asset_class \<Rightarrow> time" where
  "max_quote_age c = (if c = CRYPTO then 60 * 1000000 else 30 * 1000000)"

definition QUOTE_CLOCK_SKEW :: time where "QUOTE_CLOCK_SKEW = 2 * 1000000"

definition quote_age_problem :: "asset_class \<Rightarrow> time \<Rightarrow> time \<Rightarrow> string option" where
  "quote_age_problem c observed now =
     (let age = now - observed
      in if age < - QUOTE_CLOCK_SKEW then Some ''quote timestamp ahead of the local clock exceeds the skew allowance''
         else if max_quote_age c < age then Some ''quote age exceeds the limit''
         else None)"

definition quote_refused :: "string \<Rightarrow> exc" where
  "quote_refused problem = ProviderErr problem"

definition price_quote :: "side \<Rightarrow> dec \<Rightarrow> dec \<Rightarrow> time \<Rightarrow> authoritative_quote" where
  "price_quote sd bid ask observed =
     (let mid = dquot (dadd bid ask) 2
      in \<lparr>aq_price = (if sd = BUY then ask else bid), aq_bid = bid, aq_ask = ask, aq_observed_at = observed,
          aq_slippage_pct = (if 0 < mid then dmul (dquot (dquot (dsub ask bid) 2) mid) 100 else 0)\<rparr>)"

definition authoritative :: "market_quote \<Rightarrow> asset_class \<Rightarrow> side \<Rightarrow> time \<Rightarrow> authoritative_quote res" where
  "authoritative q c sd now =
     (case quote_age_problem c (mq_observed_at q) now of
        Some problem \<Rightarrow> Inl (quote_refused problem)
      | None \<Rightarrow> (case (mq_bid q, mq_ask q) of
          (Some bid, Some ask) \<Rightarrow> Inr (price_quote sd bid ask (mq_observed_at q))
        | _ \<Rightarrow> Inl (quote_refused ''invalid bid/ask'')))"

lemma quote_fresh_iff:
  "quote_age_problem c observed now = None \<longleftrightarrow> observed \<le> now + QUOTE_CLOCK_SKEW \<and> now \<le> observed + max_quote_age c"
  by (auto simp: quote_age_problem_def Let_def)

lemma authoritative_fresh:
  "authoritative q c sd now = Inr a \<Longrightarrow> quote_age_problem c (aq_observed_at a) now = None \<and> aq_price a = (if sd = BUY then aq_ask a else aq_bid a)"
  by (auto simp: authoritative_def price_quote_def Let_def split: option.splits)

end
