(* ===== verification/Gateway.thy ===== *)
theory Gateway
  imports Exits Execution Quotes Funding Completeness Baseline
begin

text \<open>
  The execution gateway, \<open>execution/gateway.py\<close>: its state and its steps. \<open>Gateway_Entry\<close> and
  \<open>Gateway_Sell\<close> decide on an order, \<open>Gateway_Run\<close> sends it and follows it.

  A step that awaits (a database transaction, a call to the broker) first lets the other
  coroutines run: \<open>gp_other gp n\<close> is what they have done to the ledger when the \<open>n\<close>-th step
  starts, an arbitrary function. Reading the clock or the account lease awaits nothing. The
  answers of the broker, the providers and \<open>uuid4\<close> are indexed by the same counter. The
  trace is a history of the checks before a dispatch and of the orders sent.
\<close>

datatype broker_failure = AlpacaFailure int string | DataFailure string | HttpFailure string | OtherFailure exc

type_synonym 'a answer = "broker_failure + 'a"

fun raised :: "broker_failure \<Rightarrow> exc" where
  "raised (AlpacaFailure c m) = BrokerError m"
| "raised (DataFailure m) = RuntimeErrorExc m"
| "raised (HttpFailure m) = RuntimeErrorExc m"
| "raised (OtherFailure e) = e"

fun failure_text :: "broker_failure \<Rightarrow> string" where
  "failure_text (AlpacaFailure c m) = m"
| "failure_text (DataFailure m) = m"
| "failure_text (HttpFailure m) = m"
| "failure_text (OtherFailure e) = ''''"

definition res_of :: "'a answer \<Rightarrow> 'a res" where
  "res_of a = (case a of Inl f \<Rightarrow> Inl (raised f) | Inr v \<Rightarrow> Inr v)"

fun is_definitive_rejection :: "broker_failure \<Rightarrow> bool" where
  "is_definitive_rejection (AlpacaFailure c m) = (400 \<le> c \<and> c < 500 \<and> c \<noteq> 429)"
| "is_definitive_rejection _ = False"

text \<open>\<open>except (AlpacaError, AlpacaDataIntegrityError, httpx.HTTPError)\<close>, and with \<open>ValueError\<close>.\<close>

fun transport_failure :: "broker_failure \<Rightarrow> bool" where
  "transport_failure (OtherFailure e) = False"
| "transport_failure _ = True"

fun evidence_failure :: "broker_failure \<Rightarrow> bool" where
  "evidence_failure (OtherFailure (ValueError m)) = True"
| "evidence_failure (OtherFailure e) = False"
| "evidence_failure _ = True"

subsection \<open>The broker's records\<close>

record valued_position = alpaca_position +
  vp_market_value :: dec

record account_info =
  ai_equity :: dec
  ai_last_equity :: dec
  ai_cash :: dec
  ai_number :: "string option"

record order_request =
  oq_symbol :: string
  oq_qty :: dec
  oq_side :: side
  oq_type :: string
  oq_tif :: string
  oq_client_id :: string

record placed_order =
  pl_order_id :: string
  pl_submitted_at :: "time option"

datatype row_fault = UnreadableAsset | UnreadableRow

subsection \<open>Port and state\<close>

record gateway_port =
  gp_env :: env
  gp_limits :: risk_limits
  gp_mode :: execution_mode
  gp_account :: string
  gp_venue :: string
  gp_zone :: zone
  gp_calendar :: "time \<Rightarrow> market_cal"
  gp_polls :: nat
  gp_other :: "nat \<Rightarrow> ledger \<Rightarrow> ledger"
  gp_clock :: "nat \<Rightarrow> time"
  gp_wall :: "nat \<Rightarrow> time"
  gp_uuid :: "nat \<Rightarrow> string"
  gp_lease :: "nat \<Rightarrow> bool"
  gp_reentry :: "ledger \<Rightarrow> string \<Rightarrow> bool"
  gp_faults :: "string \<Rightarrow> row_fault option"
  gp_positions :: "nat \<Rightarrow> valued_position list answer"
  gp_quote :: "nat \<Rightarrow> market_quote res"
  gp_account_info :: "nat \<Rightarrow> account_info answer"
  gp_account_evidence :: "nat \<Rightarrow> account_evidence answer"
  gp_asset_caps :: "nat \<Rightarrow> asset_caps answer"
  gp_bars :: "nat \<Rightarrow> daily_bar list res"
  gp_sessions :: "nat \<Rightarrow> venue \<Rightarrow> broker_session list res"
  gp_market_clock :: "nat \<Rightarrow> broker_clock answer"
  gp_clock_monitor :: "nat \<Rightarrow> clock_monitor"
  gp_risk_day :: "time \<Rightarrow> time \<times> time"
  gp_open_orders :: "nat \<Rightarrow> order_state list answer"
  gp_activities :: "nat \<Rightarrow> (activity list \<times> bool) answer"
  gp_place :: "nat \<Rightarrow> order_request \<Rightarrow> placed_order answer"
  gp_order :: "nat \<Rightarrow> string \<Rightarrow> order_state answer"
  gp_lookup :: "nat \<Rightarrow> string \<Rightarrow> order_state option answer"
  gp_order_fills :: "nat \<Rightarrow> activity list answer"
  gp_opening :: "opening_checkpoint option res"
  gp_sha :: "digest_input \<Rightarrow> string"
  gp_iso_time :: "string \<Rightarrow> time res"
  gp_time_text :: "time \<Rightarrow> string"
  gp_hour_text :: "time \<Rightarrow> string"

datatype gateway_event =
    SessionChecked session_decision
  | WindowChecked entry_window
  | LeaseChecked bool
  | ReservationRenewed bool
  | EpochReserved
  | QuoteChecked "string option"
  | IntentWritten trade_intent bool
  | OrderSent order_request

record gateway_state =
  gs_db :: ledger
  gs_tick :: nat
  gs_trace :: "gateway_event list"

type_synonym 'a gstep = "(gateway_state, 'a) prog"
type_synonym 'a step_outcome = "execution_result + 'a"

definition store :: "gateway_port \<Rightarrow> (nat \<Rightarrow> 'a routine) \<Rightarrow> 'a gstep" where
  "store gp m s =
     (case m (gs_tick s) (gp_other gp (gs_tick s) (gs_db s)) of
        (r, db) \<Rightarrow> (r, s\<lparr>gs_db := db, gs_tick := Suc (gs_tick s)\<rparr>))"

definition await :: "gateway_port \<Rightarrow> (nat \<Rightarrow> 'a) \<Rightarrow> 'a gstep" where
  "await gp f = store gp (\<lambda>n. retP (f n))"

definition instant :: "(nat \<Rightarrow> 'a) \<Rightarrow> 'a gstep" where
  "instant f s = (Inr (f (gs_tick s)), s\<lparr>gs_tick := Suc (gs_tick s)\<rparr>)"

definition log_step :: "gateway_event \<Rightarrow> unit gstep" where
  "log_step e s = (Inr (), s\<lparr>gs_trace := gs_trace s @ [e]\<rparr>)"

definition query :: "gateway_port \<Rightarrow> (ledger \<Rightarrow> 'a) \<Rightarrow> 'a gstep" where
  "query gp f = store gp (\<lambda>_. readP f)"

text \<open>\<open>except E\<close>: the handler runs on the store the failed step left.\<close>

definition catchP :: "('s, 'a) prog \<Rightarrow> (exc \<Rightarrow> ('s, 'a) prog option) \<Rightarrow> ('s, 'a) prog" where
  "catchP m h s =
     (case m s of
        (Inl e, s1) \<Rightarrow> (case h e of None \<Rightarrow> (Inl e, s1) | Some k \<Rightarrow> k s1)
      | (Inr v, s1) \<Rightarrow> (Inr v, s1))"

definition ensureP :: "('s, 'a) prog \<Rightarrow> ('s, unit) prog \<Rightarrow> ('s, 'a) prog" where
  "ensureP m f s = (case m s of (r, s1) \<Rightarrow> (case f s1 of (Inl e, s2) \<Rightarrow> (Inl e, s2) | (Inr _, s2) \<Rightarrow> (r, s2)))"

text \<open>An early \<open>return\<close> ends the handler with that result.\<close>

definition returnX :: "execution_result \<Rightarrow> 'a step_outcome gstep" where
  "returnX r = retP (Inl r)"

definition goX :: "'a \<Rightarrow> 'a step_outcome gstep" where
  "goX v = retP (Inr v)"

definition thenX :: "'a step_outcome gstep \<Rightarrow> ('a \<Rightarrow> 'b step_outcome gstep) \<Rightarrow> 'b step_outcome gstep" where
  "thenX m f = bindP m (\<lambda>x. case x of Inl r \<Rightarrow> returnX r | Inr v \<Rightarrow> f v)"

definition finalX :: "execution_result gstep \<Rightarrow> 'a step_outcome gstep" where
  "finalX m = bindP m returnX"

definition plain_result :: "execution_status \<Rightarrow> string option \<Rightarrow> string list \<Rightarrow> execution_result" where
  "plain_result st i reasons = \<lparr>xr_status = st, xr_intent = i, xr_reasons = reasons, xr_filled = 0, xr_avg_price = None\<rparr>"

definition denyX :: "string \<Rightarrow> 'a step_outcome gstep" where
  "denyX reason = returnX (plain_result XRejected None [reason])"

definition skipX :: "string \<Rightarrow> 'a step_outcome gstep" where
  "skipX reason = returnX (plain_result XSkipped None [reason])"

subsection \<open>Writing an intent\<close>

definition with_status_of :: "intent_status \<Rightarrow> string option \<Rightarrow> trade_intent \<Rightarrow> trade_intent" where
  "with_status_of st reason t = t\<lparr>ti_status := st, ti_rejection_reason := reason\<rparr>"

definition fenced_update ::
  "gateway_port \<Rightarrow> (string \<times> string) option \<Rightarrow> (nat \<Rightarrow> string list option) \<Rightarrow> trade_intent \<Rightarrow> bool gstep" where
  "fenced_update gp lease pre t =
     bindP (liftP (intent_post_init t)) (\<lambda>u.
       store gp (\<lambda>n. update_in ''trade_intents'' db_intents db_intents_update lease (gp_wall gp n) (pre n) (ti_id t)
                       (intent_status_value (ti_status u)) u))"

definition write_intent :: "gateway_port \<Rightarrow> trade_intent \<Rightarrow> bool gstep" where
  "write_intent gp t = fenced_update gp None (\<lambda>_. None) t"

definition close_intent :: "gateway_port \<Rightarrow> execution_status \<Rightarrow> trade_intent \<Rightarrow> string \<Rightarrow> 'a step_outcome gstep" where
  "close_intent gp st t reason =
     bindP (write_intent gp (with_status_of TI_REJECTED (Some reason) t)) (\<lambda>_. returnX (plain_result st (Some (ti_id t)) [reason]))"

text \<open>\<open>_reject_before_submission\<close>, and the same steps written out where the session or the window refuses.\<close>

definition reject_before_submission :: "gateway_port \<Rightarrow> trade_intent \<Rightarrow> string \<Rightarrow> 'a step_outcome gstep" where
  "reject_before_submission gp t reason = close_intent gp XRejected t reason"

fun result_status :: "intent_status \<Rightarrow> execution_status" where
  "result_status TI_FILLED = XFilled"
| "result_status _ = XRejected"

definition result_from_intent :: "trade_intent \<Rightarrow> execution_result" where
  "result_from_intent t =
     \<lparr>xr_status = result_status (ti_status t), xr_intent = Some (ti_id t),
      xr_reasons = (case ti_rejection_reason t of None \<Rightarrow> [] | Some r \<Rightarrow> if r = [] then [] else [r]),
      xr_filled = ti_filled_quantity t, xr_avg_price = ti_filled_avg_price t\<rparr>"

subsection \<open>What the ledger holds\<close>

definition ledger_books :: "ledger \<Rightarrow> books" where
  "ledger_books db = \<lparr>bk_holdings = db_holdings db, bk_intents = db_intents db, bk_settlements = db_settlements db,
     bk_fills = db_fills db, bk_pnl = db_pnl db\<rparr>"

definition equity_marks :: "ledger \<Rightarrow> (string \<times> dec) list tbl" where
  "equity_marks db = map (\<lambda>r. \<lparr>r_id = r_id r, r_status = r_status r, r_unique = r_unique r, r_payload = eq_marks (r_payload r),
     r_created = r_created r\<rparr>) (qt_equity (db_quarantine db))"

definition ledger_quarantined :: "string option \<Rightarrow> ledger \<Rightarrow> quarantined list" where
  "ledger_quarantined key db =
     quarantined_positions (qt_resolutions (db_quarantine db)) (equity_marks db) (db_liabilities db) (qt_inventory (db_quarantine db)) key"

definition equity_peak :: "ledger \<Rightarrow> dec option" where
  "equity_peak db = (case map eq_total (rows_of (qt_equity (db_quarantine db))) of [] \<Rightarrow> None | x # xs \<Rightarrow> Some (foldl max x xs))"

definition pending_assets :: "ledger \<Rightarrow> string list" where
  "pending_assets db = remdups (map ep_key (unresolved (eb_epochs (db_epochs db))))"

definition position_identity :: "valued_position \<Rightarrow> string res" where
  "position_identity p = asset_key_from_broker_symbol (po_class p) (po_symbol p) ''alpaca''"

end
