(* ===== verification/Gateway_Entry.thy ===== *)
theory Gateway_Entry
  imports Gateway
begin

text \<open>
  The entry decisions of \<open>execution/gateway.py\<close>: the account and asset evidence of a new buy,
  its authorization by the balance-band policy, the shaping of the approved quantity, the
  freshness re-judged when the approval commits, and the refusal with its audit record.
\<close>

text \<open>A rejection reason as the text the intent stores, without its numbers.\<close>

fun reason_text :: "reason \<Rightarrow> string" where
  "reason_text KILL_SWITCH_ACTIVE = ''KILL_SWITCH_ACTIVE''"
| "reason_text NO_QUOTE_DATA_FOR_SPREAD_CHECK = ''NO_QUOTE_DATA_FOR_SPREAD_CHECK''"
| "reason_text (SPREAD_EXCEEDS_LIMIT _ _) = ''SPREAD_EXCEEDS_LIMIT''"
| "reason_text NO_SLIPPAGE_ESTIMATE = ''NO_SLIPPAGE_ESTIMATE''"
| "reason_text (SLIPPAGE_EXCEEDS_LIMIT _ _) = ''SLIPPAGE_EXCEEDS_LIMIT''"
| "reason_text MAX_DRAWDOWN_BREACHED = ''MAX_DRAWDOWN_BREACHED''"
| "reason_text (COST_EXCEEDS_RISK_FRACTION _ _ _) = ''COST_EXCEEDS_RISK_FRACTION''"
| "reason_text PROTECTIVE_EXIT = ''PROTECTIVE_EXIT''"
| "reason_text (INSUFFICIENT_POSITION_TO_SELL _ _) = ''INSUFFICIENT_POSITION_TO_SELL''"
| "reason_text REASON_OK = ''OK''"
| "reason_text (CONFIDENCE_BELOW_MIN _ _) = ''CONFIDENCE_BELOW_MIN''"
| "reason_text (INVALID_REGIME_MULTIPLIER _) = ''INVALID_REGIME_MULTIPLIER''"
| "reason_text (MAX_DAILY_TRADES_REACHED _ _) = ''MAX_DAILY_TRADES_REACHED''"
| "reason_text (MAX_OPEN_POSITIONS_REACHED _ _) = ''MAX_OPEN_POSITIONS_REACHED''"
| "reason_text (MAX_DAILY_LOSS_EXCEEDED _ _) = ''MAX_DAILY_LOSS_EXCEEDED''"
| "reason_text (MAX_ENTRIES_PER_SYMBOL_REACHED _ _) = ''MAX_ENTRIES_PER_SYMBOL_REACHED''"
| "reason_text (MAX_SIMULTANEOUS_ORDERS_REACHED _ _) = ''MAX_SIMULTANEOUS_ORDERS_REACHED''"
| "reason_text (RISK_BUDGET_SCALED_BY_CONFIDENCE _) = ''RISK_BUDGET_SCALED_BY_CONFIDENCE''"
| "reason_text (RISK_BUDGET_SCALED_BY_REGIME _) = ''RISK_BUDGET_SCALED_BY_REGIME''"
| "reason_text (CAPPED_BY_RISK_BASED_SIZING _) = ''POSITION_CAPPED_BY_RISK_BASED_SIZING''"
| "reason_text (CAPPED_BY_MAX_OPEN_RISK _) = ''POSITION_CAPPED_BY_MAX_OPEN_RISK''"
| "reason_text (CAPPED_BY_MAX_POSITION_PCT _) = ''POSITION_CAPPED_BY_MAX_POSITION_PCT''"
| "reason_text (CAPPED_BY_MAX_SECTOR_PCT _) = ''POSITION_CAPPED_BY_MAX_SECTOR_PCT''"
| "reason_text (CAPPED_BY_MAX_TOTAL_EXPOSURE _) = ''POSITION_CAPPED_BY_MAX_TOTAL_EXPOSURE''"
| "reason_text (CAPPED_BY_AVAILABLE_CASH _) = ''POSITION_CAPPED_BY_AVAILABLE_CASH''"
| "reason_text INSUFFICIENT_CAPACITY_FOR_MINIMUM_LOT = ''INSUFFICIENT_CAPACITY_FOR_MINIMUM_LOT''"

fun join_reasons :: "string list \<Rightarrow> string" where
  "join_reasons [] = ''''"
| "join_reasons [r] = r"
| "join_reasons (r # rs) = r @ ''; '' @ join_reasons rs"

fun band_value :: "band \<Rightarrow> string" where
  "band_value BELOW_MINIMUM = ''below_minimum''"
| "band_value MICRO = ''micro''"
| "band_value MICRO_PLUS = ''micro_plus''"
| "band_value FRACTIONAL = ''fractional''"
| "band_value STANDARD = ''standard''"
| "band_value FULL = ''full''"

subsection \<open>The kill switch\<close>

definition is_kill_switch :: "reason \<Rightarrow> bool" where
  "is_kill_switch r = (starts_with ''MAX_DAILY_LOSS_EXCEEDED'' (reason_text r) \<or> reason_text r = ''MAX_DRAWDOWN_BREACHED'')"

definition latch_stop :: "gateway_port \<Rightarrow> string \<Rightarrow> time \<Rightarrow> unit routine" where
  "latch_stop gp reason now =
     writeP (\<lambda>db. bindR (latch_risk_stop reason now (en_fresh (gp_env gp) db) (session_part db))
       (\<lambda>(_, s). Inr ((), db\<lparr>db_session := sd_session s, db_audit := sd_audit s\<rparr>)))"

definition latch_kill_switch :: "gateway_port \<Rightarrow> risk_decision \<Rightarrow> unit gstep" where
  "latch_kill_switch gp d =
     (case find is_kill_switch (rd_reasons d) of
        None \<Rightarrow> retP ()
      | Some r \<Rightarrow> store gp (\<lambda>n. latch_stop gp (reason_text r) (gp_clock gp n)))"

subsection \<open>Evidence\<close>

record entry_evidence =
  ee_account :: "account_evidence option"
  ee_asset :: "asset_caps option"

definition unknown_on_failure :: "'a answer \<Rightarrow> 'a option gstep" where
  "unknown_on_failure a =
     (case a of Inr v \<Rightarrow> retP (Some v) | Inl f \<Rightarrow> if evidence_failure f then retP None else raiseP (raised f))"

definition read_entry_evidence :: "gateway_port \<Rightarrow> entry_evidence gstep" where
  "read_entry_evidence gp =
     bindP (bindP (await gp (gp_account_evidence gp)) unknown_on_failure) (\<lambda>account.
     bindP (bindP (await gp (gp_asset_caps gp)) unknown_on_failure) (\<lambda>asset.
       retP \<lparr>ee_account = account, ee_asset = asset\<rparr>))"

definition gate_at :: "gateway_port \<Rightarrow> time \<Rightarrow> cal_gate" where
  "gate_at gp now = \<lparr>cg_zone = gp_zone gp, cg_calendar = gp_calendar gp now, cg_brokers = [gp_venue gp]\<rparr>"

definition run_daily_checks_if_due :: "gateway_port \<Rightarrow> cal_gate \<Rightarrow> time \<Rightarrow> bool gstep" where
  "run_daily_checks_if_due gp g now =
     bindP (query gp (\<lambda>db. list_all (\<lambda>v. checked_today (cg_zone g) (gp_venue gp) v now (calendar_of db)) CHECKED_VENUES)) (\<lambda>checked.
       if checked then retP False
       else bindP (store gp (\<lambda>n. run_daily_checks (gp_env gp) (cg_zone g) (cg_calendar g) (gp_venue gp) (gp_sessions gp n) now)) (\<lambda>_. retP True))"

definition entry_window_of :: "gateway_port \<Rightarrow> asset_identity \<Rightarrow> broker_clock \<Rightarrow> entry_window gstep" where
  "entry_window_of gp a k =
     bindP (instant (gp_clock gp)) (\<lambda>now.
     let g = gate_at gp now;
         look = store gp (\<lambda>n. tryP (\<lambda>db. entry_window_open g (calendar_of db) (gp_clock_monitor gp n) (gp_venue gp) a now k))
     in bindP look (\<lambda>w.
        if ew_reason w \<noteq> Some ''CALENDAR_UNVERIFIED'' then retP w
        else bindP (run_daily_checks_if_due gp g now) (\<lambda>ran. if ran then look else retP w)))"

definition baseline_capture_due :: "gateway_port \<Rightarrow> cal_gate \<Rightarrow> time \<Rightarrow> bool gstep" where
  "baseline_capture_due gp g now =
     (case session_date_for (cg_zone g) (cg_calendar g) now of
        Inl (HorizonExceeded m) \<Rightarrow> retP False
      | Inl (ValueError m) \<Rightarrow> retP False
      | Inl e \<Rightarrow> raiseP e
      | Inr d \<Rightarrow> query gp (\<lambda>db. get_row (baselines db) (iso_day d) = None))"

definition stop_price_of :: "risk_limits \<Rightarrow> dec \<Rightarrow> dec option \<Rightarrow> dec" where
  "stop_price_of l price sizing_stop =
     (case sizing_stop of
        Some s \<Rightarrow> if 0 < s \<and> s < price then s else dmul price (dsub 1 (dquot (rl_stop_loss_pct l) 100))
      | None \<Rightarrow> dmul price (dsub 1 (dquot (rl_stop_loss_pct l) 100)))"

definition proposal_of :: "gateway_port \<Rightarrow> execution_request \<Rightarrow> authoritative_quote \<Rightarrow> dec option \<Rightarrow> time \<Rightarrow> entry_proposal" where
  "proposal_of gp req q sizing_stop now =
     \<lparr>ep_asset = er_asset req, ep_price = aq_price q, ep_stop_price = stop_price_of (gp_limits gp) (aq_price q) sizing_stop,
      ep_environment = (if gp_mode gp = PAPER then AlpacaPaper else AlpacaLive), ep_now = now\<rparr>"

subsection \<open>Refusal and audit\<close>

definition opt_text :: "string \<Rightarrow> band option \<Rightarrow> string \<times> string option" where
  "opt_text k b = (k, map_option band_value b)"

definition refusal_event :: "trade_intent \<Rightarrow> string list \<Rightarrow> band option \<Rightarrow> time \<Rightarrow> audit_event" where
  "refusal_event t reasons b now =
     \<lparr>ae_id = ''dbae_entry_refused:'' @ ti_id t, ae_type = ''dbae_entry_refused'', ae_severity = ''warning'',
      ae_message = ''DBAE refused a '' @ a_symbol (ti_asset t) @ '' entry: '' @ join_reasons reasons, ae_at = now,
      ae_entity_type = ''trade_intent'', ae_entity_id = ti_id t,
      ae_details = [(''reasons'', Some (join_reasons reasons)), opt_text ''band'' b,
                    (''asset_class'', Some (asset_class_value (a_class (ti_asset t)))), (''symbol'', Some (a_symbol (ti_asset t)))]\<rparr>"

definition refuse_entry :: "gateway_port \<Rightarrow> trade_intent \<Rightarrow> string list \<Rightarrow> band option \<Rightarrow> time \<Rightarrow> 'a step_outcome gstep" where
  "refuse_entry gp t reasons b now =
     bindP (write_intent gp (with_status_of TI_REJECTED (Some (join_reasons reasons)) t)) (\<lambda>_.
     bindP (store gp (\<lambda>_. note_event (refusal_event t reasons b now))) (\<lambda>_.
       returnX (plain_result XRejected (Some (ti_id t)) reasons)))"

definition BAND_CHANGE_ID_PREFIX :: string where "BAND_CHANGE_ID_PREFIX = ''dbae_band_changed:''"

definition last_by_id_prefix :: "string \<Rightarrow> audit_event list \<Rightarrow> audit_event option" where
  "last_by_id_prefix p evs =
     (case filter (\<lambda>e. starts_with p (ae_id e)) evs of
        [] \<Rightarrow> None
      | e # es \<Rightarrow> Some (foldl (\<lambda>m x. if ae_id m < ae_id x then x else m) e es))"

definition detail :: "audit_event \<Rightarrow> string \<Rightarrow> string option" where
  "detail e k = (case map_of (ae_details e) k of Some v \<Rightarrow> v | None \<Rightarrow> None)"

definition unlocked_classes :: "band \<Rightarrow> string" where
  "unlocked_classes b =
     (let u = unlocks b
      in (if bu_equity u \<noteq> NoEquity then ''equity '' else '''') @ (if bu_crypto u then ''crypto '' else '''')
         @ (if bu_options u then ''option'' else ''''))"

definition next_sequence :: "audit_event option \<Rightarrow> int res" where
  "next_sequence latest =
     (case latest of
        None \<Rightarrow> Inr 1
      | Some e \<Rightarrow> (case digits_from 0 (drop (length BAND_CHANGE_ID_PREFIX) (ae_id e)) of
          None \<Rightarrow> Inl (ValueError ''invalid literal for int()'') | Some n \<Rightarrow> Inr (n + 1)))"

definition band_event :: "trade_intent \<Rightarrow> band \<Rightarrow> string option \<Rightarrow> int \<Rightarrow> session_baseline \<Rightarrow> time \<Rightarrow> audit_event" where
  "band_event t b previous seq base now =
     \<lparr>ae_id = BAND_CHANGE_ID_PREFIX @ padded 12 seq, ae_type = ''dbae_band_changed'', ae_severity = ''info'',
      ae_message = ''DBAE band '' @ (case previous of None \<Rightarrow> ''none'' | Some p \<Rightarrow> p) @ '' -> '' @ band_value b, ae_at = now,
      ae_entity_type = ''dbae_band'', ae_entity_id = iso_day (sb_session_date base),
      ae_details = [(''old_band'', previous), (''new_band'', Some (band_value b)), (''session_date'', Some (iso_day (sb_session_date base))),
                    (''unlocked_classes'', Some (unlocked_classes b)), (''trade_intent_id'', Some (ti_id t))]\<rparr>"

definition write_band_change :: "gateway_port \<Rightarrow> trade_intent \<Rightarrow> band \<Rightarrow> session_baseline \<Rightarrow> time \<Rightarrow> unit gstep" where
  "write_band_change gp t b base now =
     bindP (query gp (\<lambda>db. last_by_id_prefix BAND_CHANGE_ID_PREFIX (db_audit db))) (\<lambda>latest.
     let previous = (case latest of None \<Rightarrow> None | Some e \<Rightarrow> detail e ''new_band'')
     in if previous = Some (band_value b) then retP ()
        else bindP (liftP (next_sequence latest)) (\<lambda>seq. store gp (\<lambda>_. note_event (band_event t b previous seq base now))))"

definition on_database_error :: "'a gstep \<Rightarrow> exc \<Rightarrow> 'a gstep option" where
  "on_database_error m e = (case e of DatabaseErr _ \<Rightarrow> Some m | _ \<Rightarrow> None)"

definition record_band :: "gateway_port \<Rightarrow> trade_intent \<Rightarrow> band \<Rightarrow> session_baseline \<Rightarrow> time \<Rightarrow> unit gstep" where
  "record_band gp t b base now = catchP (write_band_change gp t b base now) (on_database_error (retP ()))"

definition mismatch_event :: "string \<Rightarrow> time \<Rightarrow> audit_event" where
  "mismatch_event i now =
     \<lparr>ae_id = ''dbae_quantity_identity_mismatch:'' @ i, ae_type = ''dbae_quantity_identity_mismatch'', ae_severity = ''critical'',
      ae_message = ''DBAE_QUANTITY_IDENTITY_MISMATCH: pending buy '' @ i, ae_at = now, ae_entity_type = ''trade_intent'',
      ae_entity_id = i, ae_details = [(''trade_intent_id'', Some i)]\<rparr>"

definition alert_quantity_identity_mismatch :: "gateway_port \<Rightarrow> time \<Rightarrow> string \<Rightarrow> unit gstep" where
  "alert_quantity_identity_mismatch gp now i =
     catchP (bindP (store gp (\<lambda>_. alert_once (gp_env gp) (mismatch_event i now))) (\<lambda>_. retP ())) (on_database_error (retP ()))"
subsection \<open>Authorization\<close>

record authorized_entry =
  ae_policy :: execution_policy
  ae_proposal :: entry_proposal
  ae_account :: account_evidence
  ae_asset :: asset_caps
  ae_baseline :: session_baseline
  ae_band_equity :: dec
  ae_pending :: pending_funding
  ae_available :: dec
  ae_decided_at :: time

definition unknown_caps :: "time \<Rightarrow> asset_caps" where
  "unknown_caps now = \<lparr>tc_active = None, tc_tradable = None, tc_fractionable = None, tc_min_order_size = None, tc_increment = None,
     tc_price_increment = None, tc_received_at = now\<rparr>"

text \<open>The baseline of the session; a store that cannot be read leaves it unverified.\<close>

definition entry_baseline :: "gateway_port \<Rightarrow> cal_gate \<Rightarrow> dec \<Rightarrow> time \<Rightarrow> baseline_result gstep" where
  "entry_baseline gp g last_equity now =
     catchP (bindP (baseline_capture_due gp g now) (\<lambda>due.
             bindP (if due then run_daily_checks_if_due gp g now else retP False) (\<lambda>_.
               store gp (\<lambda>n. load_or_capture_baseline (gp_env gp) g (gp_bars gp n) (Some (Fin last_equity)) now))))
       (on_database_error (retP (RefusedBaseline ''baseline_store_unavailable'')))"

text \<open>What is committed to the pending buys; an unreadable intent or store is \<open>None\<close>.\<close>

definition entry_funding :: "gateway_port \<Rightarrow> pending_funding option gstep" where
  "entry_funding gp =
     catchP (bindP (store gp (\<lambda>_. tryP (\<lambda>db. pending_buy_funding (gp_limits gp) (ledger_books db)))) (\<lambda>p. retP (Some p)))
       (\<lambda>e. case e of ValueError m \<Rightarrow> Some (retP None) | DatabaseErr m \<Rightarrow> Some (retP None) | _ \<Rightarrow> None)"

definition fund_entry ::
  "gateway_port \<Rightarrow> trade_intent \<Rightarrow> account_evidence \<Rightarrow> asset_class \<Rightarrow> band \<Rightarrow> time \<Rightarrow> (pending_funding \<times> dec) step_outcome gstep" where
  "fund_entry gp t account c b now =
     bindP (entry_funding gp) (\<lambda>pending. case pending of
       None \<Rightarrow> refuse_entry gp t [''DBAE_FUNDING_UNVERIFIED''] (Some b) now
     | Some p \<Rightarrow>
         bindP (forP (alert_quantity_identity_mismatch gp now) (pf_mismatches p)) (\<lambda>_.
         let available = (if pf_unpriced p \<noteq> [] then None else funding_available account c (pf_total p));
             reasons = (if pf_mismatches p \<noteq> [] then [''DBAE_QUANTITY_IDENTITY_MISMATCH''] else [])
                       @ (if available = None then [''DBAE_FUNDING_UNVERIFIED''] else [])
         in (case available of
               Some a \<Rightarrow> if reasons = [] then goX (p, a) else refuse_entry gp t reasons (Some b) now
             | None \<Rightarrow> refuse_entry gp t reasons (Some b) now)))"

definition authorize_entry ::
  "gateway_port \<Rightarrow> execution_request \<Rightarrow> trade_intent \<Rightarrow> entry_evidence \<Rightarrow> dec \<Rightarrow> authoritative_quote \<Rightarrow> dec option \<Rightarrow> authorized_entry step_outcome gstep" where
  "authorize_entry gp req t ev last_equity q sizing_stop =
     bindP (instant (gp_clock gp)) (\<lambda>now.
     let proposal = proposal_of gp req q sizing_stop now
     in (case ee_account ev of
           None \<Rightarrow> refuse_entry gp t [''DBAE_ACCOUNT_STATE_UNVERIFIED''] None now
         | Some account \<Rightarrow>
             let asset = (case ee_asset ev of None \<Rightarrow> unknown_caps now | Some a \<Rightarrow> a);
                 core = core_account_reasons account now; g = gate_at gp now
             in if core \<noteq> [] then refuse_entry gp t core None now
                else bindP (entry_baseline gp g last_equity now) (\<lambda>baseline.
                let beq = band_equity (av_equity account) baseline;
                    policy = evaluate_entry_policy account beq asset proposal
                in bindP (case (beq, baseline) of
                            (Some e, VerifiedBaseline sb) \<Rightarrow>
                              if evidence_fresh (av_received_at account) now then record_band gp t (xp_band policy) sb now else retP ()
                          | _ \<Rightarrow> retP ()) (\<lambda>_.
                   if \<not> xp_allowed policy then refuse_entry gp t (xp_reasons policy) (Some (xp_band policy)) now
                   else (case (beq, baseline) of
                           (Some e, VerifiedBaseline sb) \<Rightarrow>
                             thenX (fund_entry gp t account (a_class (er_asset req)) (xp_band policy) now) (\<lambda>(p, available).
                               goX \<lparr>ae_policy = policy, ae_proposal = proposal, ae_account = account, ae_asset = asset,
                                    ae_baseline = sb, ae_band_equity = e, ae_pending = p, ae_available = available, ae_decided_at = now\<rparr>)
                         | _ \<Rightarrow> refuse_entry gp t [BASELINE_REASON] (Some (xp_band policy)) now)))))"

subsection \<open>Freshness at commit\<close>

definition evidence_still_fresh :: "authorized_entry \<Rightarrow> time \<Rightarrow> string list" where
  "evidence_still_fresh en now =
     (if \<not> evidence_fresh (av_received_at (ae_account en)) now then [''DBAE_ACCOUNT_STATE_UNVERIFIED'']
      else if evidence_fresh (tc_received_at (ae_asset en)) now then []
      else let policy = evaluate_entry_policy (ae_account en) (Some (ae_band_equity en)) (ae_asset en) ((ae_proposal en)\<lparr>ep_now := now\<rparr>)
           in if xp_reasons policy = [] then [''DBAE_ASSET_NOT_TRADABLE''] else xp_reasons policy)"

subsection \<open>Shaping\<close>

fun shaping_rule_value :: "shaping_rule \<Rightarrow> string" where
  "shaping_rule_value Unchanged = ''unchanged''"
| "shaping_rule_value WholeShares = ''whole_shares''"
| "shaping_rule_value CryptoIncrement = ''crypto_increment''"

definition num_or_none :: "dec option \<Rightarrow> meta_value" where
  "num_or_none v = (case v of None \<Rightarrow> MText ''None'' | Some q \<Rightarrow> MNum q)"

text \<open>The frozen block \<open>risk_snapshot.dbae\<close>.\<close>

definition dbae_record ::
  "gateway_port \<Rightarrow> authorized_entry \<Rightarrow> execution_request \<Rightarrow> dec \<Rightarrow> shaped_quantity \<Rightarrow> dec \<Rightarrow> (string \<times> meta_value) list" where
  "dbae_record gp en req approved sh multiplier =
     (let c = a_class (er_asset req); price = ep_price (ae_proposal en); slippage = slippage_limit_for (gp_limits gp) c;
          fee = buy_fee_pct c; account = ae_account en; day = iso_day (sb_session_date (ae_baseline en))
      in [(''original_requested_quantity'', MNum (er_quantity req)), (''risk_approved_quantity'', MNum approved),
          (''shaped_quantity'', MNum (sq_quantity sh)), (''submitted_quantity'', MNum (sq_quantity sh)),
          (''band'', MText (band_value (xp_band (ae_policy en)))), (''band_equity'', MNum (ae_band_equity en)),
          (''session_date'', MText day), (''baseline_id'', MText day),
          (''funding_available'', MNum (ae_available en)), (''pending_buy_funding'', MNum (pf_total (ae_pending en))),
          (''max_funding'', MNum (funding_for (sq_quantity sh) price multiplier slippage fee)),
          (''reference_price'', MNum price), (''contract_multiplier'', MNum multiplier), (''slippage_pct'', MNum slippage),
          (''fee_pct'', MNum fee),
          (''broker_funding_figures'',
             MMap [(''cash'', num_or_none (av_cash account)),
                   (if c = CRYPTO then ''non_marginable_buying_power'' else ''buying_power'', num_or_none (funding_power account c)),
                   (''received_at'', MText (gp_time_text gp (av_received_at account)))]),
          (''shaping_rule'', MText (shaping_rule_value (sq_rule sh))), (''reapproved'', MText ''True''),
          (''exit_feasibility'', MText ''feasible''),
          (''evidence_received_at'',
             MMap [(''account'', MText (gp_time_text gp (av_received_at account))),
                   (''asset'', MText (gp_time_text gp (tc_received_at (ae_asset en))))])])"

definition reapproved :: "risk_check_input \<Rightarrow> portfolio_snapshot option \<Rightarrow> risk_limits \<Rightarrow> risk_eval_options \<Rightarrow> dec \<Rightarrow> dec \<Rightarrow> bool res" where
  "reapproved i sn l ev approved q =
     (if q = approved then Inr True
      else bindR (evaluate_risk (i\<lparr>ri_quantity := q\<rparr>) sn l ev) (\<lambda>d. Inr (rd_approved d \<and> rd_quantity d = q)))"

definition shape_entry ::
  "gateway_port \<Rightarrow> authorized_entry \<Rightarrow> execution_request \<Rightarrow> trade_intent \<Rightarrow> dec \<Rightarrow> risk_check_input \<Rightarrow> portfolio_snapshot option
   \<Rightarrow> risk_eval_options \<Rightarrow> (dec \<times> (string \<times> meta_value) list) step_outcome gstep" where
  "shape_entry gp en req t approved i sn ev =
     (let refuse = (\<lambda>reason. refuse_entry gp t [reason] (Some (xp_band (ae_policy en))) (ae_decided_at en)) in
      bindP (liftP (shape_quantity (ae_policy en) (ae_asset en) (a_class (er_asset req)) approved)) (\<lambda>sh.
      case sq_refusal sh of
        Some r \<Rightarrow> refuse r
      | None \<Rightarrow>
          bindP (liftP (reapproved i sn (gp_limits gp) ev approved (sq_quantity sh))) (\<lambda>again.
          if \<not> again then refuse ''DBAE_SHAPED_QUANTITY_NOT_REAPPROVED''
          else bindP (liftP (exit_feasible (ae_policy en) (ae_asset en) (ae_proposal en) (sq_quantity sh))) (\<lambda>infeasible.
               case infeasible of
                 Some r \<Rightarrow> refuse r
               | None \<Rightarrow> bindP (liftP (contract_multiplier_of (er_asset req))) (\<lambda>m.
                   goX (sq_quantity sh, dbae_record gp en req approved sh m))))))"

end
