(* ===== verification/Gateway_Decide.thy ===== *)
theory Gateway_Decide
  imports Gateway_Entry
begin

text \<open>
  The decision of \<open>execution/gateway.py\<close> under the portfolio-risk lock: session, quote, account,
  the stored intent, the risk inputs, entry authorization, the risk engine, shaping, and the
  fenced write of the approval.
\<close>

subsection \<open>The lock\<close>

definition with_portfolio_lock ::
  "gateway_port \<Rightarrow> bool \<Rightarrow> ((string \<times> string) option \<Rightarrow> 'a step_outcome gstep) \<Rightarrow> 'a step_outcome gstep" where
  "with_portfolio_lock gp needed body =
     (if \<not> needed then body None
      else bindP (instant (gp_uuid gp)) (\<lambda>owner.
           bindP (store gp (\<lambda>n. writeP (\<lambda>db.
             let (ok, l) = acquire_lock PORTFOLIO_RISK_LOCK_KEY owner ''execute_intent'' PORTFOLIO_RISK_LOCK_TTL_SECONDS (gp_wall gp n) (db_locks db)
             in Inr (ok, db\<lparr>db_locks := l\<rparr>)))) (\<lambda>acquired.
             if \<not> acquired then skipX ''PORTFOLIO_RISK_EVALUATION_LOCKED''
             else ensureP (body (Some (PORTFOLIO_RISK_LOCK_KEY, owner)))
                    (store gp (\<lambda>_. writeP (\<lambda>db. Inr ((), db\<lparr>db_locks := release_lock PORTFOLIO_RISK_LOCK_KEY owner (db_locks db)\<rparr>)))))))"

subsection \<open>Reads\<close>

definition session_gate :: "gateway_port \<Rightarrow> execution_request \<Rightarrow> bool \<Rightarrow> session_decision gstep" where
  "session_gate gp req protective =
     store gp (\<lambda>n. readP (\<lambda>db. execution_session_decision (load_session (gp_wall gp n) (db_session db)) (er_side req)
                                  (a_class (er_asset req)) protective))"

definition read_quote :: "gateway_port \<Rightarrow> execution_request \<Rightarrow> authoritative_quote step_outcome gstep" where
  "read_quote gp req =
     bindP (await gp (gp_quote gp)) (\<lambda>a.
     bindP (case a of Inl e \<Rightarrow> retP (Inl e)
            | Inr q \<Rightarrow> bindP (instant (gp_clock gp)) (\<lambda>now. retP (authoritative q (a_class (er_asset req)) (er_side req) now))) (\<lambda>r.
       case r of
         Inr q \<Rightarrow> goX q
       | Inl (ProviderErr m) \<Rightarrow> skipX (''NO_EXECUTABLE_QUOTE: '' @ m)
       | Inl e \<Rightarrow> raiseP e))"

definition read_account :: "gateway_port \<Rightarrow> account_info step_outcome gstep" where
  "read_account gp =
     bindP (await gp (gp_account_info gp)) (\<lambda>a. case a of
       Inr i \<Rightarrow> if ai_equity i \<le> 0 then skipX ''BROKER_ACCOUNT_INVALID'' else goX i
     | Inl (AlpacaFailure c m) \<Rightarrow> skipX (''BROKER_UNAVAILABLE: '' @ m)
     | Inl f \<Rightarrow> raiseP (raised f))"

subsection \<open>The intent\<close>

definition proposed_intent ::
  "gateway_port \<Rightarrow> execution_request \<Rightarrow> trade_intent option \<Rightarrow> time \<Rightarrow> string \<Rightarrow> string \<Rightarrow> dec \<Rightarrow> trade_intent" where
  "proposed_intent gp req existing now i key price =
     \<lparr>ti_id = i, ti_idempotency_key = key,
      ti_correlation_id = (if text_or_empty (er_decision_id req) \<noteq> [] then text_or_empty (er_decision_id req) else i),
      ti_asset = er_asset req, ti_side = er_side req, ti_mode = gp_mode gp, ti_strategy = er_strategy req,
      ti_created_at = (case existing of Some t \<Rightarrow> ti_created_at t | None \<Rightarrow> now),
      ti_requested_quantity = Some (er_quantity req), ti_requested_notional = None, ti_reference_price = Some price,
      ti_confidence = er_confidence req, ti_risk_snapshot = (\<lambda>_. None), ti_status = TI_PROPOSED, ti_filled_quantity = 0,
      ti_filled_avg_price = None, ti_broker_order_id = None, ti_client_order_id = None, ti_reserved_cash = None,
      ti_consumed_cash = None, ti_realized_pnl = None, ti_rejection_reason = None, ti_sector = er_sector req,
      ti_stop_loss = er_stop_loss req, ti_target_price = er_target_price req, ti_order_type = er_order_type req,
      ti_submitted_at = None\<rparr>"

text \<open>The result of \<open>create_once\<close> is not looked at.\<close>

definition store_proposed :: "gateway_port \<Rightarrow> trade_intent option \<Rightarrow> trade_intent \<Rightarrow> trade_intent gstep" where
  "store_proposed gp existing t =
     bindP (liftP (intent_post_init t)) (\<lambda>u.
     bindP (case existing of
              None \<Rightarrow> store gp (\<lambda>_. create_in (gp_env gp) ''trade_intents'' db_intents db_intents_update (ti_id t)
                                (Some (intent_status_value (ti_status u))) (Some (ti_idempotency_key u)) None u)
            | Some _ \<Rightarrow> write_intent gp t) (\<lambda>_. retP u))"

definition record_intent ::
  "gateway_port \<Rightarrow> execution_request \<Rightarrow> trade_intent option \<Rightarrow> string option \<Rightarrow> time \<Rightarrow> dec \<Rightarrow> trade_intent gstep" where
  "record_intent gp req existing key now price =
     bindP (case existing of Some t \<Rightarrow> retP (ti_id t) | None \<Rightarrow> instant (gp_uuid gp)) (\<lambda>i.
     bindP (case key of Some k \<Rightarrow> retP k | None \<Rightarrow> instant (gp_uuid gp)) (\<lambda>k.
       store_proposed gp existing (proposed_intent gp req existing now i k price)))"

subsection \<open>Risk inputs\<close>

definition marks_of :: "(string \<times> valued_position) list \<Rightarrow> string \<Rightarrow> dec option" where
  "marks_of positions k = map_option po_price (map_of positions k)"

definition broker_view :: "(string \<times> valued_position) list \<Rightarrow> (string \<times> broker_position) list" where
  "broker_view positions = map (\<lambda>(k, p). (k, \<lparr>bp_qty = po_qty p, bp_market_value = vp_market_value p\<rparr>)) positions"

definition entry_view :: "gateway_port \<Rightarrow> account_info \<Rightarrow> (string \<times> valued_position) list \<Rightarrow> time \<Rightarrow> portfolio_view gstep" where
  "entry_view gp account positions now =
     store gp (\<lambda>n. tryP (\<lambda>db.
       build_portfolio_view (ledger_books db) (pending_assets db) (ledger_quarantined None db) (ai_cash account) (Some (ai_equity account))
         (Some (ai_last_equity account)) (marks_of positions) (Some (broker_view positions)) now (gp_risk_day gp now) (gp_uuid gp n)))"

definition drawdown_breached :: "gateway_port \<Rightarrow> portfolio_view \<Rightarrow> bool gstep" where
  "drawdown_breached gp v =
     (if 0 < rl_max_drawdown_pct (gp_limits gp)
      then query gp (\<lambda>db. dc_breached (check_max_drawdown (equity_peak db) (sn_total_equity (vw_snapshot v)) (gp_limits gp)))
      else retP False)"

definition looser_stop :: "dec option \<Rightarrow> dec option \<Rightarrow> dec option" where
  "looser_stop requested enforced =
     (case (requested, enforced) of (Some r, Some e) \<Rightarrow> if e < r then Some e else Some r | _ \<Rightarrow> requested)"

definition sizing_stop :: "gateway_port \<Rightarrow> execution_request \<Rightarrow> dec \<Rightarrow> dec option gstep" where
  "sizing_stop gp req held =
     (if er_side req = BUY \<and> 0 < held \<and> er_stop_loss req \<noteq> None
      then query gp (\<lambda>db. looser_stop (er_stop_loss req)
             (case get_row (db_holdings db) (asset_identity_key (er_asset req)) of None \<Rightarrow> None | Some r \<Rightarrow> h_stop_loss (r_payload r)))
      else retP (er_stop_loss req))"

definition held_quantity :: "(string \<times> valued_position) list \<Rightarrow> asset_identity \<Rightarrow> dec" where
  "held_quantity positions a = (case map_of positions (asset_identity_key a) of None \<Rightarrow> 0 | Some p \<Rightarrow> po_qty p)"

definition risk_input_of :: "execution_request \<Rightarrow> authoritative_quote \<Rightarrow> dec option \<Rightarrow> dec \<Rightarrow> risk_check_input" where
  "risk_input_of req q stop multiplier =
     \<lparr>ri_symbol = a_symbol (er_asset req), ri_class = a_class (er_asset req), ri_side = er_side req, ri_quantity = er_quantity req,
      ri_price = aq_price q, ri_confidence = er_confidence req, ri_stop_loss = stop,
      ri_sector = sector_or_other (er_sector req), ri_multiplier = multiplier, ri_regime = er_regime_multiplier req\<rparr>"

definition held_notional :: "(string \<times> valued_position) list \<Rightarrow> execution_request \<Rightarrow> dec" where
  "held_notional positions req =
     (case map_of positions (asset_identity_key (er_asset req)) of
        Some p \<Rightarrow> if er_side req = BUY then dabs (vp_market_value p) else 0
      | None \<Rightarrow> 0)"

definition risk_options_of ::
  "execution_request \<Rightarrow> authoritative_quote \<Rightarrow> account_info \<Rightarrow> (string \<times> valued_position) list \<Rightarrow> bool \<Rightarrow> bool \<Rightarrow> string list \<Rightarrow> dec \<Rightarrow> nat
   \<Rightarrow> risk_eval_options" where
  "risk_options_of req q account positions protective drawdown keys open_risk entries =
     \<lparr>ro_kill_switch = False, ro_protective_exit = protective, ro_bid = Some (aq_bid q), ro_ask = Some (aq_ask q),
      ro_slippage_pct = Some (aq_slippage_pct q), ro_drawdown_breached = drawdown, ro_skip_market_data = False,
      ro_held_quantity = dabs (held_quantity positions (er_asset req)), ro_held_notional = held_notional positions req,
      ro_available_cash = Some (ai_cash account), ro_estimated_fees = 0, ro_open_risk = open_risk, ro_symbol_entries = int entries,
      ro_holds_slot = (asset_identity_key (er_asset req) \<in> set keys)\<rparr>"
record risk_inputs =
  rk_snapshot :: "portfolio_snapshot option"
  rk_stop :: "dec option"
  rk_input :: risk_check_input
  rk_options :: risk_eval_options

text \<open>Only new exposure reads the portfolio; a sell builds no snapshot.\<close>

definition buy_view ::
  "gateway_port \<Rightarrow> execution_request \<Rightarrow> account_info \<Rightarrow> (string \<times> valued_position) list \<Rightarrow> time
   \<Rightarrow> (portfolio_view option \<times> bool) gstep" where
  "buy_view gp req account positions now =
     (if er_side req \<noteq> BUY then retP (None, False)
      else bindP (entry_view gp account positions now) (\<lambda>v. bindP (drawdown_breached gp v) (\<lambda>b. retP (Some v, b))))"

definition open_risk_of ::
  "gateway_port \<Rightarrow> execution_request \<Rightarrow> (string \<times> valued_position) list \<Rightarrow> time \<Rightarrow> string \<Rightarrow> (dec \<times> nat) gstep" where
  "open_risk_of gp req positions now i =
     (if er_side req \<noteq> BUY then retP (0, 0)
      else bindP (store gp (\<lambda>_. tryP (\<lambda>db. open_portfolio_risk (ledger_books db) (broker_view positions)))) (\<lambda>r.
           bindP (query gp (\<lambda>db. symbol_entries_today (ledger_books db) (er_asset req) (gp_risk_day gp now) (Some i))) (\<lambda>n. retP (r, n))))"

definition gather_risk ::
  "gateway_port \<Rightarrow> execution_request \<Rightarrow> authoritative_quote \<Rightarrow> account_info \<Rightarrow> (string \<times> valued_position) list \<Rightarrow> bool \<Rightarrow> time \<Rightarrow> string
   \<Rightarrow> risk_inputs gstep" where
  "gather_risk gp req q account positions protective now i =
     bindP (buy_view gp req account positions now) (\<lambda>(view, dd).
     bindP (sizing_stop gp req (held_quantity positions (er_asset req))) (\<lambda>stop.
     bindP (liftP (contract_multiplier_of (er_asset req))) (\<lambda>m.
     bindP (open_risk_of gp req positions now i) (\<lambda>(open_risk, entries).
       retP \<lparr>rk_snapshot = map_option vw_snapshot view, rk_stop = stop, rk_input = risk_input_of req q stop m,
             rk_options = risk_options_of req q account positions protective dd
                            (case view of None \<Rightarrow> [] | Some v \<Rightarrow> vw_keys v) open_risk entries\<rparr>))))"

subsection \<open>Approval\<close>

definition judge_risk :: "gateway_port \<Rightarrow> risk_inputs \<Rightarrow> risk_eval_options \<Rightarrow> risk_decision gstep" where
  "judge_risk gp k ev = liftP (evaluate_risk (rk_input k) (rk_snapshot k) (gp_limits gp) ev)"

text \<open>Steps 1 to 4 of an entry; a refusal still latches the kill switch the engine sees on the same inputs.\<close>

definition entry_step ::
  "gateway_port \<Rightarrow> execution_request \<Rightarrow> trade_intent \<Rightarrow> entry_evidence option \<Rightarrow> account_info \<Rightarrow> authoritative_quote \<Rightarrow> risk_inputs
   \<Rightarrow> (authorized_entry option \<times> risk_eval_options) step_outcome gstep" where
  "entry_step gp req t evidence account q k =
     (case evidence of
        None \<Rightarrow> goX (None, rk_options k)
      | Some ev \<Rightarrow>
          bindP (authorize_entry gp req t ev (ai_last_equity account) q (rk_stop k)) (\<lambda>x. case x of
            Inl refusal \<Rightarrow> bindP (judge_risk gp k (rk_options k)) (\<lambda>d. bindP (latch_kill_switch gp d) (\<lambda>_. returnX refusal))
          | Inr en \<Rightarrow>
              bindP (liftP (fundable_notional (ae_available en) (a_class (er_asset req)) (slippage_limit_for (gp_limits gp) (a_class (er_asset req)))))
                (\<lambda>f. goX (Some en, (rk_options k)\<lparr>ro_available_cash := Some f\<rparr>))))"

definition reject_by_risk :: "gateway_port \<Rightarrow> trade_intent \<Rightarrow> risk_decision \<Rightarrow> 'a step_outcome gstep" where
  "reject_by_risk gp t d =
     (let reasons = map reason_text (rd_reasons d) in
      bindP (latch_kill_switch gp d) (\<lambda>_.
      bindP (write_intent gp (with_status_of TI_REJECTED (Some (join_reasons reasons)) t)) (\<lambda>_.
        returnX (plain_result XRejected (Some (ti_id t)) reasons))))"

definition shape_step ::
  "gateway_port \<Rightarrow> execution_request \<Rightarrow> trade_intent \<Rightarrow> authorized_entry option \<Rightarrow> risk_inputs \<Rightarrow> risk_eval_options \<Rightarrow> dec
   \<Rightarrow> (dec \<times> (string \<times> meta_value) list option) step_outcome gstep" where
  "shape_step gp req t entry k ev approved =
     (case entry of
        None \<Rightarrow> goX (approved, None)
      | Some en \<Rightarrow> thenX (shape_entry gp en req t approved (rk_input k) (rk_snapshot k) ev) (\<lambda>(q, block). goX (q, Some block)))"

definition opt_meta :: "string \<Rightarrow> meta_value option \<Rightarrow> (string \<times> meta_value) list" where
  "opt_meta k v = (case v of None \<Rightarrow> [] | Some x \<Rightarrow> [(k, x)])"

text \<open>The record of the decision; a regime key never replaces one of these.\<close>

definition risk_snapshot_of ::
  "gateway_port \<Rightarrow> execution_request \<Rightarrow> authoritative_quote \<Rightarrow> account_info \<Rightarrow> risk_decision \<Rightarrow> dec
   \<Rightarrow> (string \<times> meta_value) list option \<Rightarrow> string \<Rightarrow> meta_value option" where
  "risk_snapshot_of gp req q account d multiplier block =
     map_of
       ([(''reasons'', MText (join_reasons (map reason_text (rd_reasons d))))]
        @ opt_meta ''confidence'' (map_option MNum (er_confidence req))
        @ [(''entry_price'', MNum (aq_price q)), (''reference_bid'', MNum (aq_bid q)), (''reference_ask'', MNum (aq_ask q)),
           (''reference_observed_at'', MText (gp_time_text gp (aq_observed_at q))),
           (''estimated_slippage_pct'', MNum (aq_slippage_pct q)), (''order_type'', MText (er_order_type req))]
        @ opt_meta ''signal_timestamp'' (map_option MText (er_signal_timestamp req))
        @ opt_meta ''stop_loss'' (map_option MNum (er_stop_loss req))
        @ [(''contract_multiplier'', MNum multiplier), (''requested_quantity'', MNum (er_quantity req)),
           (''approved_quantity'', MNum (rd_quantity d)), (''risk_profile'', MText (rl_profile_id (gp_limits gp))),
           (''max_hold_days'', MNum (of_int (rl_max_hold_days (gp_limits gp))))]
        @ opt_meta ''broker_account_number'' (map_option MText (ai_number account))
        @ opt_meta ''exit_reason'' (map_option MText (er_exit_reason req))
        @ opt_meta ''dbae'' (map_option MMap block)
        @ filter (\<lambda>(n, v). n \<notin> {''confidence'', ''signal_timestamp'', ''stop_loss'', ''broker_account_number''}) (er_regime_snapshot req))"

record approval =
  ap_intent :: trade_intent
  ap_quote :: authoritative_quote
  ap_quantity :: dec

definition commit_approval ::
  "gateway_port \<Rightarrow> trade_intent \<Rightarrow> trade_intent \<Rightarrow> authorized_entry option \<Rightarrow> (string \<times> string) option \<Rightarrow> unit step_outcome gstep" where
  "commit_approval gp t approved entry lease =
     catchP (bindP (fenced_update gp lease (\<lambda>n. map_option (\<lambda>en. evidence_still_fresh en (gp_clock gp n)) entry) approved) (\<lambda>_. goX ()))
       (\<lambda>e. case e of
          PreconditionFailed reasons \<Rightarrow>
            (case entry of
               None \<Rightarrow> None
             | Some en \<Rightarrow> Some (bindP (instant (gp_clock gp)) (\<lambda>now. refuse_entry gp t reasons (Some (xp_band (ae_policy en))) now)))
        | LeaseLost m \<Rightarrow> Some (close_intent gp XSkipped t ''PORTFOLIO_RISK_LOCK_LOST'')
        | _ \<Rightarrow> None)"

definition approve ::
  "gateway_port \<Rightarrow> execution_request \<Rightarrow> trade_intent \<Rightarrow> entry_evidence option \<Rightarrow> account_info \<Rightarrow> authoritative_quote \<Rightarrow> risk_inputs
   \<Rightarrow> (string \<times> string) option \<Rightarrow> approval step_outcome gstep" where
  "approve gp req t evidence account q k lease =
     thenX (entry_step gp req t evidence account q k) (\<lambda>(entry, ev).
     bindP (judge_risk gp k ev) (\<lambda>d.
     if \<not> rd_approved d then reject_by_risk gp t d
     else thenX (shape_step gp req t entry k ev (rd_quantity d)) (\<lambda>(quantity, block).
          let approved = t\<lparr>ti_status := TI_RISK_APPROVED, ti_requested_quantity := Some quantity,
                           ti_risk_snapshot := risk_snapshot_of gp req q account d (ri_multiplier (rk_input k)) block\<rparr>
          in thenX (commit_approval gp t approved entry lease) (\<lambda>_.
               goX \<lparr>ap_intent = approved, ap_quote = q, ap_quantity = quantity\<rparr>))))"

definition decide_order ::
  "gateway_port \<Rightarrow> execution_request \<Rightarrow> trade_intent option \<Rightarrow> string option \<Rightarrow> time \<Rightarrow> (string \<times> valued_position) list \<Rightarrow> bool
   \<Rightarrow> (string \<times> string) option \<Rightarrow> approval step_outcome gstep" where
  "decide_order gp req existing key now positions protective lease =
     bindP (session_gate gp req protective) (\<lambda>sd.
     if \<not> sdc_allowed sd then returnX (plain_result XRejected (map_option ti_id existing) [sdc_reason sd])
     else thenX (read_quote gp req) (\<lambda>q.
          thenX (read_account gp) (\<lambda>account.
          bindP (if er_side req = BUY then bindP (read_entry_evidence gp) (\<lambda>ev. retP (Some ev)) else retP None) (\<lambda>evidence.
          bindP (record_intent gp req existing key now (aq_price q)) (\<lambda>t.
          bindP (gather_risk gp req q account positions protective now (ti_id t)) (\<lambda>k.
            approve gp req t evidence account q k lease))))))"

end
