(* ===== verification/Gateway_Sell.thy ===== *)
theory Gateway_Sell
  imports Gateway
begin

text \<open>
  The sell authorization of \<open>execution/gateway.py\<close> (\<open>sell_evidence\<close>, \<open>_authorize_sell\<close>): the
  quantity the evidence supports under the caller's reservation, from two reads of the open
  orders around the positions, the fills after the cursor and the local lots.
\<close>

text \<open>
  The stored sells of the asset. A buy is never evidence; another row whose asset or payload
  cannot be read (\<open>gp_faults\<close>) refuses the sell.
\<close>

definition sell_row :: "gateway_port \<Rightarrow> string \<Rightarrow> trade_intent list \<Rightarrow> trade_intent row \<Rightarrow> trade_intent list res" where
  "sell_row gp key acc r =
     (let t = r_payload r in
      if ti_side t = BUY then Inr acc
      else if gp_faults gp (r_id r) = Some UnreadableAsset then Inl (SellEvidenceDamaged (''SELL_EVIDENCE_UNIDENTIFIABLE: intent '' @ r_id r))
      else if asset_identity_key (ti_asset t) \<noteq> key then Inr acc
      else if gp_faults gp (r_id r) = Some UnreadableRow then Inl (SellEvidenceDamaged (''SELL_EVIDENCE_DAMAGED: intent '' @ r_id r))
      else Inr (acc @ [t]))"

definition sell_evidence :: "gateway_port \<Rightarrow> string \<Rightarrow> trade_intent tbl \<Rightarrow> trade_intent list res" where
  "sell_evidence gp key rows = foldR (sell_row gp key) [] rows"

definition settled_quantity :: "ledger \<Rightarrow> string \<Rightarrow> dec" where
  "settled_quantity db i =
     dsum (map e_quantity (filter (\<lambda>e. e_status e = COMPLETED)
       (map r_payload (rows_where (\<lambda>r. e_trade_intent_id (r_payload r) = i) (db_settlements db)))))"

definition settled_by :: "ledger \<Rightarrow> trade_intent list \<Rightarrow> string \<Rightarrow> dec option" where
  "settled_by db ts i = (if i \<in> ti_id ` set ts then Some (settled_quantity db i) else None)"

definition open_long_lot :: "position_lot \<Rightarrow> bool" where
  "open_long_lot l = (l_side l = Long \<and> lot_is_open l)"

definition local_long :: "ledger \<Rightarrow> asset_identity \<Rightarrow> dec" where
  "local_long db a = dsum (map l_remaining_quantity (filter open_long_lot (lots_of_asset db a)))"

definition known_fill :: "ledger \<Rightarrow> string \<Rightarrow> bool" where
  "known_fill db i \<longleftrightarrow> get_row (db_fills db) i \<noteq> None \<or> find_by_unique (db_fills db) i \<noteq> None \<or> get_row (db_executions db) i \<noteq> None"

text \<open>Every fill of the asset after the cursor must be known locally.\<close>

fun unreconciled :: "gateway_port \<Rightarrow> string \<Rightarrow> activity list \<Rightarrow> bool gstep" where
  "unreconciled gp key [] = retP False"
| "unreconciled gp key (a # as) =
     bindP (liftP (broker_symbol_asset_key (ac_symbol a))) (\<lambda>k.
       if k \<noteq> key then unreconciled gp key as
       else bindP (query gp (\<lambda>db. known_fill db (ac_id a))) (\<lambda>known. if known then unreconciled gp key as else retP True))"

definition or_deny :: "gateway_port \<Rightarrow> string \<Rightarrow> (nat \<Rightarrow> 'a answer) \<Rightarrow> 'a step_outcome gstep" where
  "or_deny gp reason ask =
     bindP (await gp ask) (\<lambda>a. case a of
       Inr v \<Rightarrow> goX v
     | Inl f \<Rightarrow> if transport_failure f then denyX reason else raiseP (raised f))"

fun held_of :: "string \<Rightarrow> valued_position list \<Rightarrow> dec res" where
  "held_of key [] = Inr 0"
| "held_of key (p # ps) = bindR (position_identity p) (\<lambda>k. if k = key then Inr (po_qty p) else held_of key ps)"

record sell_inputs =
  sl_first :: "order_state list"
  sl_second :: "order_state list"
  sl_held :: dec

text \<open>One reading of the broker's side: orders, positions, orders again, then the fills after the cursor.\<close>

definition sell_snapshot :: "gateway_port \<Rightarrow> string \<Rightarrow> string \<Rightarrow> sell_inputs step_outcome gstep" where
  "sell_snapshot gp key cursor =
     thenX (or_deny gp ''BROKER_OPEN_ORDERS_UNAVAILABLE'' (gp_open_orders gp)) (\<lambda>first.
     thenX (or_deny gp ''BROKER_POSITIONS_UNAVAILABLE'' (gp_positions gp)) (\<lambda>positions.
     thenX (or_deny gp ''BROKER_OPEN_ORDERS_UNAVAILABLE'' (gp_open_orders gp)) (\<lambda>second.
     thenX (or_deny gp ''BROKER_ACTIVITIES_UNAVAILABLE'' (gp_activities gp)) (\<lambda>(activities, proven).
       if \<not> proven then denyX ''ACTIVITY_PAGE_UNPROVEN''
       else bindP (unreconciled gp key (filter (\<lambda>a. cursor < ac_id a) activities)) (\<lambda>late.
            if late then denyX ''UNRECONCILED_BROKER_ACTIVITY''
            else bindP (liftP (held_of key positions)) (\<lambda>held.
                 if held < 0 then denyX ''UNSUPPORTED_SHORT_POSITION''
                 else goX \<lparr>sl_first = first, sl_second = second, sl_held = held\<rparr>))))))"

definition sell_decision ::
  "string \<Rightarrow> sell_inputs \<Rightarrow> trade_intent list \<Rightarrow> (string \<Rightarrow> dec option) \<Rightarrow> dec \<Rightarrow> sellable_decision res" where
  "sell_decision key si intents settled local =
     bindR (build_pending_set key (sl_first si) (sl_second si) intents settled) (\<lambda>pending.
       compute_sellable \<lparr>si_broker = sl_held si, si_local = local, si_pending = pending\<rparr>)"

definition sized_sell :: "execution_request \<Rightarrow> sell_inputs \<Rightarrow> sellable_decision \<Rightarrow> dec step_outcome gstep" where
  "sized_sell req si d =
     (let protective = (0 < sl_held si \<and> (er_exit_reason req \<noteq> None \<or> er_quantity req \<le> sl_held si));
          (q, note) = size_sell d (er_quantity req) protective
      in if q \<le> 0 then denyX (text_or_empty note) else goX q)"

text \<open>An unstable snapshot is read at most three times.\<close>

fun sell_attempts ::
  "nat \<Rightarrow> gateway_port \<Rightarrow> execution_request \<Rightarrow> string \<Rightarrow> string \<Rightarrow> trade_intent list \<Rightarrow> (string \<Rightarrow> dec option) \<Rightarrow> dec \<Rightarrow> dec step_outcome gstep" where
  "sell_attempts 0 gp req key cursor intents settled local = denyX ''SELLABLE_SNAPSHOT_UNSTABLE''"
| "sell_attempts (Suc n) gp req key cursor intents settled local =
     thenX (sell_snapshot gp key cursor) (\<lambda>si.
       case sell_decision key si intents settled local of
         Inr d \<Rightarrow> sized_sell req si d
       | Inl (SellableEvidence reason) \<Rightarrow>
           if reason = ''SELLABLE_SNAPSHOT_UNSTABLE'' \<and> n \<noteq> 0 then sell_attempts n gp req key cursor intents settled local
           else denyX reason
       | Inl e \<Rightarrow> raiseP e)"

definition renew_reservation :: "gateway_port \<Rightarrow> asset_identity \<Rightarrow> string \<Rightarrow> bool gstep" where
  "renew_reservation gp a owner =
     store gp (\<lambda>n. writeP (\<lambda>db. let (ok, l) = renew_lock (execution_lock_key a) owner SYMBOL_LOCK_TTL_SECONDS (gp_wall gp n) (db_locks db)
                                in Inr (ok, db\<lparr>db_locks := l\<rparr>)))"

definition authorize_sell :: "gateway_port \<Rightarrow> execution_request \<Rightarrow> string \<Rightarrow> string option \<Rightarrow> dec step_outcome gstep" where
  "authorize_sell gp req owner current =
     (let key = asset_identity_key (er_asset req) in
      bindP (renew_reservation gp (er_asset req) owner) (\<lambda>held.
      if \<not> held then denyX ''EXECUTION_RESERVATION_LOST'' else
      bindP (query gp (\<lambda>db. open_unresolved db (Some key))) (\<lambda>unres.
      if unres \<noteq> [] then denyX ''UNRESOLVED_BROKER_EXECUTION'' else
      bindP (query gp (\<lambda>db. history_unproven db key)) (\<lambda>unproven.
      if unproven then denyX ''ACTIVITY_HISTORY_UNPROVEN'' else
      bindP (store gp (\<lambda>_. tryP (\<lambda>db. sell_evidence gp key (db_intents db)))) (\<lambda>rows.
      let intents = filter (\<lambda>t. Some (ti_id t) \<noteq> current) rows in
      if list_ex (\<lambda>t. ti_status t \<in> {TI_SUBMITTED, TI_SUBMISSION_UNKNOWN}) intents then denyX ''PRIOR_SUBMISSION_UNRESOLVED'' else
      bindP (query gp fill_cursor) (\<lambda>cursor. case cursor of
        None \<Rightarrow> denyX ''FILL_CURSOR_NOT_BOOTSTRAPPED''
      | Some c \<Rightarrow>
          bindP (query gp (\<lambda>db. settled_by db intents)) (\<lambda>settled.
          bindP (query gp (\<lambda>db. local_long db (er_asset req))) (\<lambda>local.
            sell_attempts 3 gp req key c intents settled local))))))))"

end
