(* ===== verification/Gateway_Poll.thy ===== *)
theory Gateway_Poll
  imports Gateway
begin

text \<open>
  What \<open>execution/gateway.py\<close> does with an order that may exist: the poll loop that attributes
  its fills and settles, the recovery of a submission whose outcome is unknown, and a request
  already known by its idempotency key. The loop's deadline is the budget \<open>gp_polls\<close>, one unit
  per round.
\<close>

subsection \<open>Following an order\<close>

definition fill_port_at :: "gateway_port \<Rightarrow> nat \<Rightarrow> fill_port" where
  "fill_port_at gp n = \<lparr>fp_env = gp_env gp, fp_now = gp_clock gp n, fp_opening = gp_opening gp, fp_sha = gp_sha gp, fp_iso_time = gp_iso_time gp\<rparr>"

definition pending_result :: "trade_intent \<Rightarrow> string list \<Rightarrow> dec \<Rightarrow> dec option \<Rightarrow> execution_result" where
  "pending_result t reasons q p = \<lparr>xr_status = XPending, xr_intent = Some (ti_id t), xr_reasons = reasons, xr_filled = q, xr_avg_price = p\<rparr>"

definition poll_timeout :: "gateway_port \<Rightarrow> trade_intent \<Rightarrow> dec \<Rightarrow> execution_result gstep" where
  "poll_timeout gp t last_filled =
     (let u = t\<lparr>ti_status := if 0 < last_filled then TI_PARTIALLY_FILLED else TI_ACCEPTED\<rparr>
      in bindP (write_intent gp u) (\<lambda>_. retP (pending_result u [] last_filled (ti_filled_avg_price u))))"

definition poll_finish :: "gateway_port \<Rightarrow> trade_intent \<Rightarrow> intent_status \<Rightarrow> dec \<Rightarrow> execution_result gstep" where
  "poll_finish gp t st attributed =
     (let u = t\<lparr>ti_status := st\<rparr>
      in bindP (write_intent gp u) (\<lambda>_.
         bindP (store gp (\<lambda>n. settle_now (fill_port_at gp n))) (\<lambda>_.
           retP \<lparr>xr_status = (if st = TI_FILLED then XFilled else if 0 < attributed then XPartiallyFilled else XRejected),
                 xr_intent = Some (ti_id u), xr_reasons = [], xr_filled = attributed, xr_avg_price = ti_filled_avg_price u\<rparr>)))"

text \<open>The fills of the order attributed so far: the intent with them, the total last seen and the total now.\<close>

definition poll_fills :: "gateway_port \<Rightarrow> string \<Rightarrow> trade_intent \<Rightarrow> dec \<Rightarrow> order_state \<Rightarrow> (trade_intent \<times> dec \<times> dec) step_outcome gstep" where
  "poll_fills gp order t last_filled o' =
     (if os_filled o' \<le> 0 then goX (t, last_filled, last_filled)
      else bindP (store gp (\<lambda>n. attribute_order_fills (fill_port_at gp n) True (res_of (gp_order_fills gp n)) (res_of (gp_order gp n order)) t)) (\<lambda>af.
        if os_filled o' < at_quantity af
        then returnX (pending_result t [''BROKER_FILL_INTEGRITY_MISMATCH''] (at_quantity af) (at_avg_price af))
        else if at_quantity af \<noteq> last_filled
        then bindP (liftP (intent_post_init (with_fills af t))) (\<lambda>u. goX (u, at_quantity af, at_quantity af))
        else goX (t, last_filled, at_quantity af)))"

fun poll :: "gateway_port \<Rightarrow> string \<Rightarrow> nat \<Rightarrow> trade_intent \<Rightarrow> dec \<Rightarrow> execution_result gstep" where
  "poll gp order 0 t last_filled = poll_timeout gp t last_filled"
| "poll gp order (Suc k) t last_filled =
     bindP (await gp (\<lambda>n. gp_order gp n order)) (\<lambda>answer. case answer of
       Inl (AlpacaFailure c m) \<Rightarrow> poll gp order k t last_filled
     | Inl f \<Rightarrow> raiseP (raised f)
     | Inr o' \<Rightarrow>
         bindP (poll_fills gp order t last_filled o') (\<lambda>x. case x of
           Inl r \<Rightarrow> retP r
         | Inr (u, seen, attributed) \<Rightarrow>
             if os_status o' \<in> set TERMINAL_ORDER_STATUSES
             then if 0 < os_filled o' \<and> attributed < os_filled o' then poll gp order k u seen
                  else (case terminal_status_for_order (os_status o') attributed (ti_requested_quantity u) of
                          None \<Rightarrow> if os_status o' = ''filled''
                                  then retP (pending_result u [''BROKER_ORDER_INTEGRITY_MISMATCH''] attributed (ti_filled_avg_price u))
                                  else poll_timeout gp u seen
                        | Some st \<Rightarrow> poll_finish gp u st attributed)
             else if os_status o' = ''partially_filled'' \<and> ti_status u \<noteq> TI_PARTIALLY_FILLED
             then bindP (write_intent gp (u\<lparr>ti_status := TI_PARTIALLY_FILLED\<rparr>)) (\<lambda>_.
                    poll gp order k (u\<lparr>ti_status := TI_PARTIALLY_FILLED\<rparr>) seen)
             else poll gp order k u seen))"

definition poll_and_settle :: "gateway_port \<Rightarrow> trade_intent \<Rightarrow> execution_result gstep" where
  "poll_and_settle gp t =
     (case ti_broker_order_id t of
        None \<Rightarrow> raiseP (ValueError ''POLL_REQUIRES_BROKER_ORDER_ID'')
      | Some order \<Rightarrow> poll gp order (gp_polls gp) t (ti_filled_quantity t))"

subsection \<open>A submission whose outcome is unknown\<close>

text \<open>The order found under the client id, if it is the one this intent would have submitted; and the cause.\<close>

definition recovered_order :: "trade_intent \<Rightarrow> string \<Rightarrow> order_state option answer \<Rightarrow> order_state option \<times> string" where
  "recovered_order t cause a =
     (case a of
        Inr (Some o') \<Rightarrow> if order_matches_intent o' t then (Some o', cause)
                         else (None, ''BROKER_ORDER_IDENTITY_MISMATCH: order '' @ os_id o')
      | _ \<Rightarrow> (None, cause))"

definition accept_order :: "gateway_port \<Rightarrow> trade_intent \<Rightarrow> execution_result gstep" where
  "accept_order gp t = bindP (write_intent gp t) (\<lambda>_. poll_and_settle gp t)"

definition recover_unknown_submission :: "gateway_port \<Rightarrow> trade_intent \<Rightarrow> string \<Rightarrow> execution_result gstep" where
  "recover_unknown_submission gp t cause =
     bindP (await gp (\<lambda>n. gp_lookup gp n (ti_id t))) (\<lambda>a.
       case recovered_order t cause a of
         (Some o', _) \<Rightarrow>
           accept_order gp (t\<lparr>ti_status := TI_ACCEPTED, ti_broker_order_id := Some (os_id o'), ti_client_order_id := Some (ti_id t)\<rparr>)
       | (None, why) \<Rightarrow>
           let reason = ''SUBMISSION_UNKNOWN: '' @ why
           in bindP (write_intent gp (with_status_of TI_SUBMISSION_UNKNOWN (Some reason) t)) (\<lambda>_.
                retP (plain_result XPending (Some (ti_id t)) [reason])))"

subsection \<open>A request already known\<close>

definition request_key :: "execution_request \<Rightarrow> string option" where
  "request_key req =
     (case er_idempotency_key req of
        Some k \<Rightarrow> if k \<noteq> [] then Some k
                  else derive_idempotency_key (er_strategy req) (er_decision_id req) (er_signal_timestamp req) (er_asset req) (er_side req)
      | None \<Rightarrow> derive_idempotency_key (er_strategy req) (er_decision_id req) (er_signal_timestamp req) (er_asset req) (er_side req))"

definition resume_existing :: "gateway_port \<Rightarrow> string option \<Rightarrow> trade_intent option step_outcome gstep" where
  "resume_existing gp key =
     (case key of
        None \<Rightarrow> goX None
      | Some k \<Rightarrow>
          bindP (query gp (\<lambda>db. find_by_unique (db_intents db) k)) (\<lambda>row. case row of
            None \<Rightarrow> goX None
          | Some r \<Rightarrow>
              let t = r_payload r
              in if ti_status t \<in> set TERMINAL_INTENTS then returnX (result_from_intent t)
                 else if ti_status t \<in> set IN_FLIGHT_STATUSES \<and> text_or_empty (ti_broker_order_id t) \<noteq> []
                 then finalX (poll_and_settle gp t)
                 else if ti_status t = TI_SUBMISSION_UNKNOWN
                 then finalX (recover_unknown_submission gp t ''retry after prior SUBMISSION_UNKNOWN'')
                 else goX (Some t)))"

end
