(* ===== verification/Gateway_Run.thy ===== *)
theory Gateway_Run
  imports Gateway_Decide Gateway_Sell Gateway_Poll
begin

text \<open>
  \<open>ExecutionGateway.execute_intent\<close>: the checks before the portfolio-risk lock, the decision
  under it, the checks at the submission boundary and the one dispatch.
\<close>

subsection \<open>Before the lock\<close>

definition inventory_checks :: "gateway_port \<Rightarrow> execution_request \<Rightarrow> trade_intent option \<Rightarrow> execution_request step_outcome gstep" where
  "inventory_checks gp req existing =
     (let key = asset_identity_key (er_asset req) in
      bindP (query gp (\<lambda>db. ledger_quarantined (Some key) db)) (\<lambda>quarantined.
      if (er_side req = SELL \<or> quarantined \<noteq> []) \<and> er_lock_token req = None then denyX ''EXECUTION_RESERVATION_REQUIRED''
      else if quarantined \<noteq> [] then denyX ''UNSUPPORTED_SHORT_POSITION''
      else if er_side req = BUY
      then bindP (query gp (\<lambda>db. gp_reentry gp db key)) (\<lambda>excluded.
             if excluded then denyX ''ADOPTED_ASSET_REENTRY_BLOCKED'' else goX req)
      else thenX (authorize_sell gp req (text_or_empty (er_lock_token req)) (map_option ti_id existing)) (\<lambda>q.
             goX (req\<lparr>er_quantity := q\<rparr>))))"

fun key_positions :: "valued_position list \<Rightarrow> (string \<times> valued_position) list \<Rightarrow> (string \<times> valued_position) list step_outcome gstep" where
  "key_positions [] acc = goX acc"
| "key_positions (p # ps) acc =
     bindP (liftP (position_identity p)) (\<lambda>k.
       if map_of acc k \<noteq> None then skipX (''DUPLICATE_BROKER_POSITION_KEY: '' @ k) else key_positions ps (acc @ [(k, p)]))"

definition read_positions :: "gateway_port \<Rightarrow> (string \<times> valued_position) list step_outcome gstep" where
  "read_positions gp =
     bindP (await gp (gp_positions gp)) (\<lambda>a. case a of
       Inr ps \<Rightarrow> key_positions ps []
     | Inl f \<Rightarrow> if transport_failure f then skipX (''BROKER_POSITIONS_UNAVAILABLE: '' @ failure_text f) else raiseP (raised f))"

definition is_protective :: "execution_request \<Rightarrow> dec \<Rightarrow> bool" where
  "is_protective req held = (er_side req = SELL \<and> 0 < held \<and> er_quantity req \<le> held)"
subsection \<open>The submission boundary\<close>

definition recheck_session :: "gateway_port \<Rightarrow> execution_request \<Rightarrow> bool \<Rightarrow> trade_intent \<Rightarrow> unit step_outcome gstep" where
  "recheck_session gp req protective t =
     bindP (session_gate gp req protective) (\<lambda>sd.
     bindP (log_step (SessionChecked sd)) (\<lambda>_.
       if sdc_allowed sd then goX () else close_intent gp XRejected t (sdc_reason sd)))"

fun clock_failure :: "broker_failure \<Rightarrow> bool" where
  "clock_failure (AlpacaFailure c m) = True"
| "clock_failure (HttpFailure m) = True"
| "clock_failure _ = False"

definition check_window :: "gateway_port \<Rightarrow> execution_request \<Rightarrow> bool \<Rightarrow> trade_intent \<Rightarrow> unit step_outcome gstep" where
  "check_window gp req protective t =
     (if is_continuous_market (a_class (er_asset req)) \<or> protective then goX ()
      else bindP (await gp (gp_market_clock gp)) (\<lambda>a. case a of
             Inl f \<Rightarrow> if clock_failure f then close_intent gp XRejected t (''MARKET_CLOCK_UNAVAILABLE: '' @ failure_text f)
                      else raiseP (raised f)
           | Inr k \<Rightarrow>
               bindP (entry_window_of gp (er_asset req) k) (\<lambda>w.
               bindP (log_step (WindowChecked w)) (\<lambda>_.
                 if ew_open w then goX ()
                 else close_intent gp XRejected t (case ew_reason w of None \<Rightarrow> ''CALENDAR_SESSION_CLOSED'' | Some r \<Rightarrow> r)))))"

definition verify_lease :: "gateway_port \<Rightarrow> trade_intent \<Rightarrow> unit step_outcome gstep" where
  "verify_lease gp t =
     bindP (instant (gp_lease gp)) (\<lambda>ok.
     bindP (log_step (LeaseChecked ok)) (\<lambda>_.
       if ok then goX () else reject_before_submission gp t ''ACCOUNT_LEASE_NOT_HELD''))"

definition renew_before_submission :: "gateway_port \<Rightarrow> execution_request \<Rightarrow> trade_intent \<Rightarrow> unit step_outcome gstep" where
  "renew_before_submission gp req t =
     (case er_lock_token req of
        None \<Rightarrow> goX ()
      | Some owner \<Rightarrow>
          bindP (renew_reservation gp (er_asset req) owner) (\<lambda>ok.
          bindP (log_step (ReservationRenewed ok)) (\<lambda>_.
            if ok then goX () else close_intent gp XRejected t ''EXECUTION_RESERVATION_LOST'')))"

definition positions_of_asset :: "string \<Rightarrow> valued_position list \<Rightarrow> valued_position list res" where
  "positions_of_asset key ps =
     foldR (\<lambda>acc p. bindR (position_identity p) (\<lambda>k. Inr (if k = key then acc @ [p] else acc))) [] ps"

text \<open>A crypto exit is checked against the broker's position again; it must be the only one and cover the quantity.\<close>

definition recheck_exit :: "gateway_port \<Rightarrow> execution_request \<Rightarrow> dec \<Rightarrow> trade_intent \<Rightarrow> dec step_outcome gstep" where
  "recheck_exit gp req quantity t =
     bindP (await gp (gp_positions gp)) (\<lambda>a. case a of
       Inl f \<Rightarrow> if transport_failure f then reject_before_submission gp t (''BROKER_POSITIONS_UNAVAILABLE: '' @ failure_text f)
                else raiseP (raised f)
     | Inr ps \<Rightarrow>
         bindP (liftP (positions_of_asset (asset_identity_key (er_asset req)) ps)) (\<lambda>matched. case matched of
           [p] \<Rightarrow> if dabs (po_qty p) < quantity then reject_before_submission gp t ''BROKER_EXIT_QUANTITY_CHANGED'' else goX (po_qty p)
         | _ \<Rightarrow> reject_before_submission gp t ''BROKER_EXIT_QUANTITY_CHANGED''))"

definition join_accounting_epoch :: "gateway_port \<Rightarrow> execution_request \<Rightarrow> trade_intent \<Rightarrow> dec \<Rightarrow> bool \<Rightarrow> time \<Rightarrow> unit step_outcome gstep" where
  "join_accounting_epoch gp req t held protective now =
     catchP (bindP (store gp (\<lambda>_. writeP (\<lambda>db.
               bindR (reserve_epoch (gp_opening gp) (gp_sha gp) (ti_asset t) (ti_id t) held protective now (db_fills db) (db_epochs db))
                 (\<lambda>(_, b). Inr ((), db\<lparr>db_epochs := b\<rparr>))))) (\<lambda>_.
             bindP (log_step EpochReserved) (\<lambda>_. goX ())))
       (\<lambda>e. case e of AccountingEpochPending m \<Rightarrow> Some (reject_before_submission gp t m) | _ \<Rightarrow> None)"

definition reserve_accounting :: "gateway_port \<Rightarrow> execution_request \<Rightarrow> approval \<Rightarrow> dec \<Rightarrow> bool \<Rightarrow> time \<Rightarrow> unit step_outcome gstep" where
  "reserve_accounting gp req ap held protective now =
     (if a_class (er_asset req) \<noteq> CRYPTO then goX ()
      else thenX (if protective then recheck_exit gp req (ap_quantity ap) (ap_intent ap) else goX held) (\<lambda>h.
             join_accounting_epoch gp req (ap_intent ap) h protective now))"

definition check_quote :: "gateway_port \<Rightarrow> execution_request \<Rightarrow> authoritative_quote \<Rightarrow> trade_intent \<Rightarrow> unit step_outcome gstep" where
  "check_quote gp req q t =
     bindP (instant (gp_clock gp)) (\<lambda>now.
     let problem = quote_age_problem (a_class (er_asset req)) (aq_observed_at q) now
     in bindP (log_step (QuoteChecked problem)) (\<lambda>_. case problem of
          None \<Rightarrow> goX ()
        | Some p \<Rightarrow> reject_before_submission gp t (''STALE_EXECUTABLE_QUOTE_AT_DISPATCH: '' @ p)))"

definition order_of :: "execution_request \<Rightarrow> approval \<Rightarrow> order_request" where
  "order_of req ap = \<lparr>oq_symbol = a_symbol (er_asset req), oq_qty = ap_quantity ap, oq_side = er_side req, oq_type = er_order_type req,
     oq_tif = default_time_in_force (a_class (er_asset req)), oq_client_id = ti_id (ap_intent ap)\<rparr>"

definition submitted_intent :: "approval \<Rightarrow> trade_intent" where
  "submitted_intent ap = (ap_intent ap)\<lparr>ti_status := TI_SUBMITTED\<rparr>"

definition write_submitted :: "gateway_port \<Rightarrow> approval \<Rightarrow> unit step_outcome gstep" where
  "write_submitted gp ap =
     bindP (write_intent gp (submitted_intent ap)) (\<lambda>stored. bindP (log_step (IntentWritten (submitted_intent ap) stored)) (\<lambda>_. goX ()))"

text \<open>Everything between the approval and the call of the broker, in the code's order.\<close>

definition pre_dispatch :: "gateway_port \<Rightarrow> execution_request \<Rightarrow> approval \<Rightarrow> dec \<Rightarrow> bool \<Rightarrow> time \<Rightarrow> unit step_outcome gstep" where
  "pre_dispatch gp req ap held protective now =
     thenX (recheck_session gp req protective (ap_intent ap)) (\<lambda>_.
     thenX (check_window gp req protective (ap_intent ap)) (\<lambda>_.
     thenX (verify_lease gp (ap_intent ap)) (\<lambda>_.
     thenX (renew_before_submission gp req (ap_intent ap)) (\<lambda>_.
     thenX (reserve_accounting gp req ap held protective now) (\<lambda>_.
     thenX (check_quote gp req (ap_quote ap) (ap_intent ap)) (\<lambda>_.
     thenX (write_submitted gp ap) (\<lambda>_.
       check_quote gp req (ap_quote ap) (submitted_intent ap))))))))"

subsection \<open>The dispatch\<close>

definition alert_protective_exit_rejected :: "gateway_port \<Rightarrow> trade_intent \<Rightarrow> unit gstep" where
  "alert_protective_exit_rejected gp t =
     bindP (instant (gp_clock gp)) (\<lambda>now.
       store gp (\<lambda>_. window_alert (gp_env gp) ''PROTECTIVE_EXIT_REJECTED'' (asset_identity_key (ti_asset t)) (gp_hour_text gp now)
                       (''PROTECTIVE_EXIT_REJECTED: '' @ a_symbol (ti_asset t)) ''execution'' now))"

definition reject_submitted :: "gateway_port \<Rightarrow> trade_intent \<Rightarrow> bool \<Rightarrow> broker_failure \<Rightarrow> execution_result gstep" where
  "reject_submitted gp t protective f =
     (let reason = ''BROKER_SUBMIT_ERROR: '' @ failure_text f; rejected = with_status_of TI_REJECTED (Some reason) t in
      bindP (write_intent gp rejected) (\<lambda>_.
      bindP (if protective then catchP (alert_protective_exit_rejected gp rejected) (\<lambda>_. Some (retP ())) else retP ()) (\<lambda>_.
        retP (plain_result XRejected (Some (ti_id t)) [reason]))))"

definition accepted_intent :: "trade_intent \<Rightarrow> placed_order \<Rightarrow> time \<Rightarrow> trade_intent" where
  "accepted_intent t pl now = t\<lparr>ti_status := TI_ACCEPTED, ti_broker_order_id := Some (pl_order_id pl), ti_client_order_id := Some (ti_id t),
     ti_submitted_at := Some (case pl_submitted_at pl of Some x \<Rightarrow> x | None \<Rightarrow> now)\<rparr>"

definition after_place :: "gateway_port \<Rightarrow> trade_intent \<Rightarrow> bool \<Rightarrow> placed_order answer \<Rightarrow> execution_result gstep" where
  "after_place gp t protective a =
     (case a of
        Inl f \<Rightarrow> if is_definitive_rejection f then reject_submitted gp t protective f
                 else recover_unknown_submission gp t (failure_text f)
      | Inr pl \<Rightarrow>
          if pl_order_id pl = [] then recover_unknown_submission gp t ''BROKER_ORDER_ID_MISSING''
          else bindP (instant (gp_clock gp)) (\<lambda>now. accept_order gp (accepted_intent t pl now)))"

definition dispatch :: "gateway_port \<Rightarrow> execution_request \<Rightarrow> approval \<Rightarrow> bool \<Rightarrow> execution_result gstep" where
  "dispatch gp req ap protective =
     bindP (log_step (OrderSent (order_of req ap))) (\<lambda>_.
     bindP (await gp (\<lambda>n. gp_place gp n (order_of req ap))) (\<lambda>a.
       after_place gp (submitted_intent ap) protective a))"

definition submit :: "gateway_port \<Rightarrow> execution_request \<Rightarrow> approval \<Rightarrow> dec \<Rightarrow> bool \<Rightarrow> time \<Rightarrow> execution_result step_outcome gstep" where
  "submit gp req ap held protective now =
     thenX (pre_dispatch gp req ap held protective now) (\<lambda>_. bindP (dispatch gp req ap protective) goX)"

subsection \<open>The handler\<close>

definition execute_request ::
  "gateway_port \<Rightarrow> execution_request \<Rightarrow> trade_intent option \<Rightarrow> string option \<Rightarrow> time \<Rightarrow> execution_result step_outcome gstep" where
  "execute_request gp req existing key now =
     thenX (inventory_checks gp req existing) (\<lambda>req1.
     thenX (read_positions gp) (\<lambda>positions.
     let held = held_quantity positions (er_asset req1); protective = is_protective req1 held
     in if er_side req1 = BUY \<and> held < 0 then denyX ''UNSUPPORTED_SHORT_POSITION''
        else thenX (with_portfolio_lock gp (er_side req1 = BUY) (decide_order gp req1 existing key now positions protective)) (\<lambda>ap.
               submit gp req1 ap held protective now)))"

definition execute_intent :: "gateway_port \<Rightarrow> execution_request \<Rightarrow> execution_result gstep" where
  "execute_intent gp req =
     bindP (instant (gp_clock gp)) (\<lambda>now.
     let key = request_key req
     in bindP (thenX (resume_existing gp key) (\<lambda>existing. execute_request gp req existing key now)) (\<lambda>x. case x of
          Inl r \<Rightarrow> retP r
        | Inr r \<Rightarrow> retP r))"

end
