(* ===== verification/Gateway_Trace.thy ===== *)
theory Gateway_Trace
  imports Gateway_Run
begin

text \<open>
  The reasoning about the gateway's steps: the steps that leave its trace alone, what each check
  of the submission boundary adds to it, and that a submission adds the cleared checks and one
  order, or no order.
\<close>

named_theorems quiets \<open>steps that leave the trace alone\<close>

definition quiet :: "'a gstep \<Rightarrow> bool" where
  "quiet m \<longleftrightarrow> (\<forall>s. gs_trace (snd (m s)) = gs_trace s)"

lemma quietI: "(\<And>s. gs_trace (snd (m s)) = gs_trace s) \<Longrightarrow> quiet m"
  by (simp add: quiet_def)

lemma quietD: "quiet m \<Longrightarrow> m s = (r, t) \<Longrightarrow> gs_trace t = gs_trace s"
  by (metis quiet_def snd_conv)

lemma quiet_store [quiets]: "quiet (store gp m)"
  by (rule quietI) (simp add: store_def split: prod.splits)

lemma quiet_basic [quiets]:
  "quiet (retP v)" "quiet (raiseP e)" "quiet (liftP r)" "quiet (instant f)" "quiet (returnX x)" "quiet (goX y)"
  by (simp_all add: quiet_def instant_def returnX_def goX_def)

lemma quiet_await [quiets]: "quiet (await gp f)" "quiet (query gp h)"
  by (simp_all add: await_def query_def quiet_store)

lemma quiet_bindP [quiets]: "quiet m \<Longrightarrow> (\<And>v. quiet (f v)) \<Longrightarrow> quiet (bindP m f)"
  by (rule quietI) (auto simp: quiet_def bindP_def split: prod.splits sum.splits, (metis snd_conv)+)

lemma quiet_thenX [quiets]: "quiet m \<Longrightarrow> (\<And>v. quiet (f v)) \<Longrightarrow> quiet (thenX m f)"
  unfolding thenX_def by (rule quiet_bindP) (auto intro: quiets split: sum.splits)

lemma quiet_finalX [quiets]: "quiet m \<Longrightarrow> quiet (finalX m)"
  unfolding finalX_def by (rule quiet_bindP) (auto intro: quiets)

lemma quiet_catchP [quiets]:
  assumes "quiet m" "\<And>e k. h e = Some k \<Longrightarrow> quiet k"
  shows "quiet (catchP m h)"
proof (rule quietI)
  fix s
  obtain r t where m: "m s = (r, t)" by (cases "m s")
  have t: "gs_trace t = gs_trace s" by (rule quietD [OF assms(1) m])
  show "gs_trace (snd (catchP m h s)) = gs_trace s"
  proof (cases r)
    case (Inl e)
    then show ?thesis using t m assms(2) [of e]
      by (auto simp: catchP_def quiet_def split: option.splits)
  qed (simp add: catchP_def m t)
qed

lemma quiet_ensureP [quiets]: "quiet m \<Longrightarrow> quiet f \<Longrightarrow> quiet (ensureP m f)"
  by (rule quietI) (auto simp: quiet_def ensureP_def split: prod.splits sum.splits, (metis snd_conv)+)

lemma quiet_forP [quiets]: "(\<And>x. quiet (f x)) \<Longrightarrow> quiet (forP f xs)"
  by (induction xs) (auto intro: quiets)

lemma quiet_deny [quiets]: "quiet (denyX r)" "quiet (skipX r)"
  by (simp_all add: denyX_def skipX_def quiets)

lemma quiet_if [quiets]: "quiet a \<Longrightarrow> quiet b \<Longrightarrow> quiet (if c then a else b)"
  by simp

lemma quiet_option [quiets]: "quiet a \<Longrightarrow> (\<And>x. quiet (f x)) \<Longrightarrow> quiet (case v of None \<Rightarrow> a | Some x \<Rightarrow> f x)"
  by (cases v) auto

lemma quiet_sum [quiets]: "(\<And>x. quiet (g x)) \<Longrightarrow> (\<And>x. quiet (f x)) \<Longrightarrow> quiet (case v of Inl x \<Rightarrow> g x | Inr x \<Rightarrow> f x)"
  by (cases v) auto

lemma quiet_prod [quiets]: "(\<And>x y. quiet (f x y)) \<Longrightarrow> quiet (case v of (x, y) \<Rightarrow> f x y)"
  by (cases v) auto

lemma quiet_Let [quiets]: "(\<And>x. quiet (f x)) \<Longrightarrow> quiet (let x = v in f x)"
  by (simp add: Let_def)

subsection \<open>Quiet steps\<close>

lemma quiet_writes [quiets]:
  "quiet (fenced_update gp lease pre t)" "quiet (write_intent gp t)" "quiet (close_intent gp st t reason)"
  "quiet (reject_before_submission gp t reason)"
  unfolding fenced_update_def write_intent_def close_intent_def reject_before_submission_def by (intro quiets)+
lemma quiet_failure [quiets]:
  "(\<And>c m. quiet (f c m)) \<Longrightarrow> (\<And>x. quiet (g x)) \<Longrightarrow> (\<And>x. quiet (h x)) \<Longrightarrow> (\<And>x. quiet (k x))
   \<Longrightarrow> quiet (case v of AlpacaFailure c m \<Rightarrow> f c m | DataFailure m \<Rightarrow> g m | HttpFailure m \<Rightarrow> h m | OtherFailure e \<Rightarrow> k e)"
  by (cases v) auto

lemma quiet_poll: "quiet (poll gp order k t last_filled)"
proof (induction k arbitrary: t last_filled)
  case 0
  show ?case unfolding poll.simps poll_timeout_def by (intro quiets)
next
  case (Suc k)
  have f: "quiet (poll_fills gp order t last_filled o')" for o'
    unfolding poll_fills_def by (intro quiets)
  have e: "quiet (poll_finish gp u st q)" "quiet (poll_timeout gp u q)" for u st q
    unfolding poll_finish_def poll_timeout_def by (intro quiets)+
  show ?case unfolding poll.simps by (intro quiets f e Suc.IH)
qed

lemma quiet_follow [quiets]:
  "quiet (poll_and_settle gp t)" "quiet (accept_order gp t)" "quiet (recover_unknown_submission gp t cause)"
proof -
  show p: "quiet (poll_and_settle gp t)" for t
    unfolding poll_and_settle_def by (intro quiets quiet_poll)
  show a: "quiet (accept_order gp t)" for t
    unfolding accept_order_def by (intro quiets p)
  show "quiet (recover_unknown_submission gp t cause)"
    unfolding recover_unknown_submission_def by (intro quiets a)
qed

lemma quiet_resume [quiets]: "quiet (resume_existing gp key)"
  unfolding resume_existing_def by (intro quiets)

lemma quiet_unreconciled [quiets]: "quiet (unreconciled gp key as)"
  by (induction as) (unfold unreconciled.simps, (intro quiets | assumption)+)

lemma quiet_attempts [quiets]: "quiet (sell_attempts n gp req key cursor intents settled local)"
proof (induction n)
  case 0
  show ?case by (simp add: quiets)
next
  case (Suc n)
  have s: "quiet (sell_snapshot gp key cursor)" unfolding sell_snapshot_def or_deny_def by (intro quiets)
  have z: "quiet (sized_sell req si d)" for si d unfolding sized_sell_def by (intro quiets)
  show ?case unfolding sell_attempts.simps by (rule quiet_thenX [OF s]) (auto intro!: quiets z Suc.IH split: sum.split exc.split)
qed

lemma quiet_authorize_sell [quiets]: "quiet (authorize_sell gp req owner current)"
  unfolding authorize_sell_def renew_reservation_def by (intro quiets)

lemma quiet_checks [quiets]: "quiet (inventory_checks gp req existing)"
  unfolding inventory_checks_def by (intro quiets)

lemma quiet_key_positions [quiets]: "quiet (key_positions ps acc)"
  by (induction ps arbitrary: acc) (unfold key_positions.simps, (intro quiets | assumption)+)

lemma quiet_read_positions [quiets]: "quiet (read_positions gp)"
  unfolding read_positions_def by (intro quiets)
lemma quiet_refuse [quiets]: "quiet (refuse_entry gp t reasons b now)"
  unfolding refuse_entry_def by (intro quiets)

lemma quiet_latch [quiets]: "quiet (latch_kill_switch gp d)"
  unfolding latch_kill_switch_def by (intro quiets)

lemma quiet_unknown [quiets]: "quiet (unknown_on_failure a)"
  unfolding unknown_on_failure_def by (intro quiets)

lemma quiet_daily [quiets]: "quiet (run_daily_checks_if_due gp g now)"
  unfolding run_daily_checks_if_due_def by (intro quiets)

lemma quiet_window [quiets]: "quiet (entry_window_of gp a k)"
  unfolding entry_window_of_def Let_def by (intro quiets)

lemma quiet_baseline [quiets]:
  "(\<And>b. quiet (f b)) \<Longrightarrow> (\<And>x. quiet (g x)) \<Longrightarrow> quiet (case v of VerifiedBaseline b \<Rightarrow> f b | RefusedBaseline x \<Rightarrow> g x)"
  by (cases v) auto

text \<open>A handler for database errors.\<close>

lemma on_database_errorD: "on_database_error m e = Some k \<Longrightarrow> k = m"
  by (auto simp: on_database_error_def split: exc.splits)

lemma quiet_on_database_error [quiets]: "quiet m \<Longrightarrow> quiet n \<Longrightarrow> quiet (catchP m (on_database_error n))"
  by (rule quiet_catchP) (auto dest: on_database_errorD)

lemma quiet_exc [quiets]:
  "quiet m \<Longrightarrow> quiet n \<Longrightarrow> quiet k \<Longrightarrow> quiet (case e of HorizonExceeded x \<Rightarrow> m | ValueError y \<Rightarrow> n | _ \<Rightarrow> k)"
  by (cases e) auto

lemma quiet_authorize [quiets]: "quiet (authorize_entry gp req t ev last_equity q stop)"
proof -
  have d: "quiet (baseline_capture_due gp g now)" for g now
    unfolding baseline_capture_due_def by (auto intro!: quiets split: sum.split exc.split)
  have b: "quiet (entry_baseline gp g last_equity now)" for g now
    unfolding entry_baseline_def by (intro quiets d)
  have r: "quiet (record_band gp t b sb now)" for b sb now
    unfolding record_band_def write_band_change_def by (intro quiets)
  have m: "quiet (alert_quantity_identity_mismatch gp now i)" for now i
    unfolding alert_quantity_identity_mismatch_def by (intro quiets)
  have e: "quiet (entry_funding gp)"
    unfolding entry_funding_def by (rule quiet_catchP) (auto intro!: quiets split: exc.splits)
  have f: "quiet (fund_entry gp t account c b now)" for account c b now
    unfolding fund_entry_def by (intro quiets m e)
  show ?thesis unfolding authorize_entry_def by (intro quiets b r f)
qed

lemma quiet_shape [quiets]: "quiet (shape_step gp req t entry k ev approved)"
  unfolding shape_step_def shape_entry_def Let_def by (intro quiets)

lemma quiet_commit [quiets]: "quiet (commit_approval gp t approved entry lease)"
  unfolding commit_approval_def
  by (rule quiet_catchP) (auto intro!: quiets split: exc.splits option.splits)

lemma quiet_approve [quiets]: "quiet (approve gp req t evidence account q k lease)"
  unfolding approve_def entry_step_def judge_risk_def reject_by_risk_def by (intro quiets)

lemma quiet_gather [quiets]: "quiet (gather_risk gp req q account positions protective now i)"
  unfolding gather_risk_def buy_view_def open_risk_of_def sizing_stop_def entry_view_def drawdown_breached_def by (intro quiets)

lemma quiet_record [quiets]: "quiet (record_intent gp req existing key now price)"
  unfolding record_intent_def store_proposed_def by (intro quiets)

lemma quiet_quote [quiets]: "quiet (read_quote gp req)"
  unfolding read_quote_def by (auto intro!: quiets split: exc.split)

lemma quiet_decide [quiets]: "quiet (decide_order gp req existing key now positions protective lease)"
  unfolding decide_order_def session_gate_def read_account_def read_entry_evidence_def by (intro quiets)

lemma quiet_lock [quiets]: "(\<And>l. quiet (body l)) \<Longrightarrow> quiet (with_portfolio_lock gp needed body)"
  unfolding with_portfolio_lock_def by (intro quiets)

subsection \<open>The trace of the boundary\<close>

text \<open>What a step adds to the trace when it lets the handler go on.\<close>

definition adds :: "'a step_outcome gstep \<Rightarrow> ('a \<Rightarrow> gateway_event list \<Rightarrow> bool) \<Rightarrow> bool" where
  "adds m Q \<longleftrightarrow> (\<forall>s r t. m s = (r, t) \<longrightarrow> (\<exists>new. gs_trace t = gs_trace s @ new \<and> (\<forall>o'. OrderSent o' \<notin> set new)
     \<and> (\<forall>v. r = Inr (Inr v) \<longrightarrow> Q v new)))"

lemma addsD:
  assumes "adds m Q" "m s = (r, t)"
  shows "\<exists>new. gs_trace t = gs_trace s @ new \<and> (\<forall>o'. OrderSent o' \<notin> set new) \<and> (\<forall>v. r = Inr (Inr v) \<longrightarrow> Q v new)"
  by (rule assms(1) [unfolded adds_def, THEN spec, THEN spec, THEN spec, THEN mp, OF assms(2)])

lemma adds_quiet: "quiet m \<Longrightarrow> (\<And>v. Q v []) \<Longrightarrow> adds m Q"
  by (auto simp: adds_def dest: quietD)

text \<open>A step with a logged event in the middle.\<close>

lemma adds_log:
  assumes "\<And>o'. e \<noteq> OrderSent o'" "quiet m" "\<And>s v t. m s = (Inr (Inr v), t) \<Longrightarrow> Q v [e]"
  shows "adds (bindP (log_step e) (\<lambda>_. m)) Q"
  unfolding adds_def
proof (intro allI impI)
  fix s r t assume "bindP (log_step e) (\<lambda>_. m) s = (r, t)"
  then have m: "m (s\<lparr>gs_trace := gs_trace s @ [e]\<rparr>) = (r, t)" by (simp add: bindP_def log_step_def)
  have t: "gs_trace t = gs_trace s @ [e]" using quietD [OF assms(2) m] by simp
  have q: "r = Inr (Inr v) \<longrightarrow> Q v [e]" for v using m by (intro impI) (rule assms(3), simp)
  show "\<exists>new. gs_trace t = gs_trace s @ new \<and> (\<forall>o'. OrderSent o' \<notin> set new) \<and> (\<forall>v. r = Inr (Inr v) \<longrightarrow> Q v new)"
    by (rule exI [of _ "[e]"]) (use t q assms(1) in auto)
qed

lemma adds_bindP:
  assumes "quiet m" "\<And>v. adds (f v) Q"
  shows "adds (bindP m f) Q"
  unfolding adds_def
proof (intro allI impI)
  fix s r t assume b: "bindP m f s = (r, t)"
  obtain x u where m: "m s = (x, u)" by (cases "m s")
  have u: "gs_trace u = gs_trace s" by (rule quietD [OF assms(1) m])
  show "\<exists>new. gs_trace t = gs_trace s @ new \<and> (\<forall>o'. OrderSent o' \<notin> set new) \<and> (\<forall>v. r = Inr (Inr v) \<longrightarrow> Q v new)"
  proof (cases x)
    case (Inl e)
    then show ?thesis using b m u by auto
  next
    case (Inr v)
    then have "f v u = (r, t)" using b m by simp
    from addsD [OF assms(2) this] show ?thesis unfolding u .
  qed
qed

lemma adds_thenX:
  assumes "adds m P" "\<And>v. adds (f v) (Q v)"
  shows "adds (thenX m f) (\<lambda>w new. \<exists>v a b. new = a @ b \<and> P v a \<and> Q v w b)"
  unfolding adds_def
proof (intro allI impI)
  fix s r t assume b: "thenX m f s = (r, t)"
  obtain x u where m: "m s = (x, u)" by (cases "m s")
  from addsD [OF assms(1) m] obtain a where a: "gs_trace u = gs_trace s @ a" "\<forall>o'. OrderSent o' \<notin> set a"
    "\<forall>v. x = Inr (Inr v) \<longrightarrow> P v a" by blast
  show "\<exists>new. gs_trace t = gs_trace s @ new \<and> (\<forall>o'. OrderSent o' \<notin> set new)
      \<and> (\<forall>w. r = Inr (Inr w) \<longrightarrow> (\<exists>v a b. new = a @ b \<and> P v a \<and> Q v w b))"
  proof (cases "\<exists>v. x = Inr (Inr v)")
    case True
    then obtain v where v: "x = Inr (Inr v)" by blast
    then have "f v u = (r, t)" using b m by (simp add: thenX_def)
    from addsD [OF assms(2) this] obtain c where c: "gs_trace t = gs_trace u @ c" "\<forall>o'. OrderSent o' \<notin> set c"
      "\<forall>w. r = Inr (Inr w) \<longrightarrow> Q v w c" by blast
    have "\<forall>w. r = Inr (Inr w) \<longrightarrow> (\<exists>v a' b. a @ c = a' @ b \<and> P v a' \<and> Q v w b)" using a(3) c(3) v by blast
    then show ?thesis using a c by (intro exI [of _ "a @ c"]) simp
  next
    case False
    then have "gs_trace t = gs_trace u \<and> (\<forall>w. r \<noteq> Inr (Inr w))"
      using b m by (cases x) (auto simp: thenX_def bindP_def returnX_def split: sum.splits)
    then show ?thesis using a by (intro exI [of _ a]) auto
  qed
qed
lemma adds_mono: "adds m P \<Longrightarrow> (\<And>v new. P v new \<Longrightarrow> Q v new) \<Longrightarrow> adds m Q"
  unfolding adds_def by meson

text \<open>A step that never lets the handler go on.\<close>

definition stops :: "'a step_outcome gstep \<Rightarrow> bool" where
  "stops m \<longleftrightarrow> (\<forall>s v. fst (m s) \<noteq> Inr (Inr v))"

lemma adds_stop: "quiet m \<Longrightarrow> stops m \<Longrightarrow> adds m Q"
  unfolding adds_def
proof (intro allI impI)
  fix s r t assume q: "quiet m" "stops m" and m: "m s = (r, t)"
  have "r \<noteq> Inr (Inr v)" for v using q(2) [unfolded stops_def, rule_format, of s v] m by simp
  then show "\<exists>new. gs_trace t = gs_trace s @ new \<and> (\<forall>o'. OrderSent o' \<notin> set new) \<and> (\<forall>v. r = Inr (Inr v) \<longrightarrow> Q v new)"
    using quietD [OF q(1) m] by (intro exI [of _ "[]"]) simp
qed

lemma stops_bindP: "stops (bindP m (\<lambda>_. returnX x))"
  by (auto simp: stops_def bindP_def returnX_def split: prod.splits sum.splits)

lemma stops_close: "stops (close_intent gp st t reason)" "stops (reject_before_submission gp t reason)" "stops (raiseP e)"
  by (simp_all add: close_intent_def reject_before_submission_def stops_bindP) (simp add: stops_def)

lemma adds_close: "adds (close_intent gp st t reason) Q" "adds (reject_before_submission gp t reason) Q" "adds (raiseP e) Q"
  by (rule adds_stop; intro quiets stops_close)+

lemma adds_go: "Q v [] \<Longrightarrow> adds (goX v) Q"
  by (auto simp: adds_def goX_def)

lemma adds_if: "(c \<Longrightarrow> adds a Q) \<Longrightarrow> (\<not> c \<Longrightarrow> adds b Q) \<Longrightarrow> adds (if c then a else b) Q"
  by simp

lemma adds_catchP:
  assumes "adds m Q" "\<And>e k. h e = Some k \<Longrightarrow> quiet k \<and> stops k"
  shows "adds (catchP m h) Q"
  unfolding adds_def
proof (intro allI impI)
  fix s r t assume b: "catchP m h s = (r, t)"
  obtain x u where m: "m s = (x, u)" by (cases "m s")
  obtain a where a: "gs_trace u = gs_trace s @ a" "\<forall>o'. OrderSent o' \<notin> set a" "\<forall>v. x = Inr (Inr v) \<longrightarrow> Q v a"
    using addsD [OF assms(1) m] by blast
  show "\<exists>new. gs_trace t = gs_trace s @ new \<and> (\<forall>o'. OrderSent o' \<notin> set new) \<and> (\<forall>v. r = Inr (Inr v) \<longrightarrow> Q v new)"
  proof (cases "\<exists>e k. x = Inl e \<and> h e = Some k")
    case True
    then obtain e k where k: "x = Inl e" "h e = Some k" by blast
    with b m have kt: "k u = (r, t)" by (simp add: catchP_def)
    have "gs_trace t = gs_trace u" using assms(2) [OF k(2)] kt quietD by blast
    moreover have "r \<noteq> Inr (Inr v)" for v
      using assms(2) [OF k(2), THEN conjunct2, unfolded stops_def, rule_format, of u v] kt by simp
    ultimately show ?thesis using a by (intro exI [of _ a]) simp
  next
    case False
    then have "r = x \<and> t = u" using b m by (cases x) (auto simp: catchP_def split: option.splits)
    then show ?thesis using a by blast
  qed
qed

subsection \<open>The checks, one by one\<close>

lemma stopsD: "stops m \<Longrightarrow> m s \<noteq> (Inr (Inr v), t)"
  by (metis stops_def fst_conv)

lemma adds_gate:
  assumes "\<And>o'. e \<noteq> OrderSent o'" "quiet m" "stops m" "c \<Longrightarrow> Q v [e]"
  shows "adds (bindP (log_step e) (\<lambda>_. if c then goX v else m)) Q"
proof (rule adds_log [OF assms(1)])
  show "quiet (if c then goX v else m)" by (intro quiets assms(2))
  show "(if c then goX v else m) s = (Inr (Inr w), t) \<Longrightarrow> Q w [e]" for s w t
    using assms(4) stopsD [OF assms(3)] by (cases c) (auto simp: goX_def)
qed

lemma adds_session: "adds (recheck_session gp req protective t) (\<lambda>_ new. \<exists>sd. new = [SessionChecked sd] \<and> sdc_allowed sd)"
  unfolding recheck_session_def session_gate_def
  by (rule adds_bindP, rule quiets, rule adds_gate) (auto intro: quiets stops_close)

definition exempt :: "execution_request \<Rightarrow> bool \<Rightarrow> bool" where
  "exempt req protective = (is_continuous_market (a_class (er_asset req)) \<or> protective)"

lemma adds_window: "adds (check_window gp req protective t)
   (\<lambda>_ new. if exempt req protective then new = [] else \<exists>w. new = [WindowChecked w] \<and> ew_open w)"
proof (cases "exempt req protective")
  case True
  then show ?thesis by (simp add: check_window_def exempt_def adds_go)
next
  case False
  have w: "adds (bindP (log_step (WindowChecked w)) (\<lambda>_. if ew_open w then goX () else close_intent gp XRejected t r))
      (\<lambda>_ new. \<exists>w. new = [WindowChecked w] \<and> ew_open w)" for w r
    by (rule adds_gate) (auto intro: quiets stops_close)
  show ?thesis using False unfolding check_window_def exempt_def
    by (simp, intro adds_bindP quiets) (auto split: sum.split intro!: adds_close adds_bindP quiets w)
qed

lemma adds_lease: "adds (verify_lease gp t) (\<lambda>_ new. new = [LeaseChecked True])"
  unfolding verify_lease_def by (rule adds_bindP, rule quiets, rule adds_gate) (auto intro: quiets stops_close)

lemma adds_renewal: "adds (renew_before_submission gp req t)
   (\<lambda>_ new. new = (if er_lock_token req = None then [] else [ReservationRenewed True]))"
proof (cases "er_lock_token req")
  case None
  then show ?thesis by (simp add: renew_before_submission_def adds_go)
next
  case (Some owner)
  have g: "adds (bindP (log_step (ReservationRenewed ok)) (\<lambda>_. if ok then goX () else close_intent gp XRejected t r))
      (\<lambda>_ new. new = [ReservationRenewed True])" for ok r
    by (rule adds_gate) (auto intro: quiets stops_close)
  show ?thesis unfolding renew_before_submission_def renew_reservation_def Some
    by (simp, rule adds_bindP, rule quiets, rule g)
qed

lemma adds_recheck_exit: "adds (recheck_exit gp req quantity t) (\<lambda>_ new. new = [])"
  unfolding recheck_exit_def
  by (rule adds_bindP, rule quiets) (auto split: sum.split list.split intro!: adds_close adds_bindP quiets adds_go)

lemma adds_epoch: "adds (join_accounting_epoch gp req t held protective now) (\<lambda>_ new. new = [EpochReserved])"
  unfolding join_accounting_epoch_def
  by (rule adds_catchP, rule adds_bindP, rule quiets, rule adds_log)
    (auto intro: quiets stops_close simp: goX_def split: exc.splits)

lemma adds_accounting: "adds (reserve_accounting gp req ap held protective now)
   (\<lambda>_ new. new = (if a_class (er_asset req) = CRYPTO then [EpochReserved] else []))"
proof -
  have "adds (if protective then recheck_exit gp req (ap_quantity ap) (ap_intent ap) else goX held) (\<lambda>_ new. new = [])"
    by (intro adds_if adds_recheck_exit adds_go) simp
  from adds_thenX [OF this adds_epoch] show ?thesis
    unfolding reserve_accounting_def by (auto intro!: adds_go elim!: adds_mono)
qed

lemma adds_quote: "adds (check_quote gp req q t) (\<lambda>_ new. new = [QuoteChecked None])"
proof -
  have "adds (bindP (log_step (QuoteChecked problem)) (\<lambda>_. case problem of None \<Rightarrow> goX () | Some p \<Rightarrow> reject_before_submission gp t (r p)))
      (\<lambda>_ new. new = [QuoteChecked None])" for problem r
    by (rule adds_log) (auto intro!: quiets simp: stopsD [OF stops_close(2)] split: option.splits)
  from this show ?thesis unfolding check_quote_def Let_def by (intro adds_bindP [OF quiet_basic(4)])
qed

lemma adds_submitted: "adds (write_submitted gp ap) (\<lambda>_ new. \<exists>stored. new = [IntentWritten (submitted_intent ap) stored])"
  unfolding write_submitted_def by (rule adds_bindP, rule quiets, rule adds_log) (auto intro: quiets)

text \<open>The checks a sent order has passed, in their order: session, market window (unless exempt), account lease,
  reservation (if the caller holds one), accounting epoch (crypto), quote, the stored intent, the quote again.\<close>

definition clearance :: "execution_request \<Rightarrow> bool \<Rightarrow> trade_intent \<Rightarrow> session_decision \<Rightarrow> entry_window \<Rightarrow> bool \<Rightarrow> gateway_event list" where
  "clearance req protective t sd w stored =
     [SessionChecked sd] @ (if exempt req protective then [] else [WindowChecked w]) @ [LeaseChecked True]
     @ (if er_lock_token req = None then [] else [ReservationRenewed True])
     @ (if a_class (er_asset req) = CRYPTO then [EpochReserved] else [])
     @ [QuoteChecked None] @ [IntentWritten t stored] @ [QuoteChecked None]"

lemma adds_pre_dispatch: "adds (pre_dispatch gp req ap held protective now) (\<lambda>_ new. \<exists>sd w stored.
   sdc_allowed sd \<and> (exempt req protective \<or> ew_open w) \<and> new = clearance req protective (submitted_intent ap) sd w stored)"
  unfolding pre_dispatch_def
  apply (rule adds_mono)
   apply (rule adds_thenX [OF adds_session adds_thenX [OF adds_window adds_thenX [OF adds_lease adds_thenX [OF adds_renewal
     adds_thenX [OF adds_accounting adds_thenX [OF adds_quote adds_thenX [OF adds_submitted adds_quote]]]]]]])
  apply (elim exE conjE)
  apply (cases "exempt req protective")
   apply (simp_all add: clearance_def)
   apply (elim exE conjE, simp)+
  done

subsection \<open>One order\<close>

definition sends :: "execution_request \<Rightarrow> approval \<Rightarrow> bool \<Rightarrow> gateway_event list \<Rightarrow> bool" where
  "sends req ap protective new \<longleftrightarrow> (\<exists>sd w stored. sdc_allowed sd \<and> (exempt req protective \<or> ew_open w)
     \<and> new = clearance req protective (submitted_intent ap) sd w stored @ [OrderSent (order_of req ap)])"

lemma dispatch_trace:
  assumes "dispatch gp req ap protective s = (r, t)"
  shows "gs_trace t = gs_trace s @ [OrderSent (order_of req ap)]"
proof -
  have q: "quiet (bindP (await gp (\<lambda>n. gp_place gp n (order_of req ap))) (after_place gp (submitted_intent ap) protective))"
    unfolding after_place_def reject_submitted_def alert_protective_exit_rejected_def Let_def
    by (intro quiets quiet_catchP) (auto intro!: quiets)
  have "bindP (await gp (\<lambda>n. gp_place gp n (order_of req ap))) (after_place gp (submitted_intent ap) protective)
      (s\<lparr>gs_trace := gs_trace s @ [OrderSent (order_of req ap)]\<rparr>) = (r, t)"
    using assms by (simp add: dispatch_def bindP_def [of "log_step e" for e] log_step_def)
  from quietD [OF q this] show ?thesis by simp
qed

lemma submit_trace:
  assumes "submit gp req ap held protective now s = (r, t)"
  shows "\<exists>new. gs_trace t = gs_trace s @ new \<and> ((\<forall>o'. OrderSent o' \<notin> set new) \<or> sends req ap protective new)"
proof -
  obtain x u where m: "pre_dispatch gp req ap held protective now s = (x, u)" by (cases "pre_dispatch gp req ap held protective now s")
  from addsD [OF adds_pre_dispatch m] obtain new where new: "gs_trace u = gs_trace s @ new" "\<forall>o'. OrderSent o' \<notin> set new"
    and cl: "\<forall>v. x = Inr (Inr v) \<longrightarrow> (\<exists>sd w stored. sdc_allowed sd \<and> (exempt req protective \<or> ew_open w)
      \<and> new = clearance req protective (submitted_intent ap) sd w stored)" by blast
  show ?thesis
  proof (cases "\<exists>v. x = Inr (Inr v)")
    case True
    then obtain v where v: "x = Inr (Inr v)" by blast
    obtain y w where d: "dispatch gp req ap protective u = (y, w)" by (cases "dispatch gp req ap protective u")
    have "gs_trace t = gs_trace w"
      using assms m v d by (cases y) (auto simp: submit_def thenX_def bindP_def goX_def)
    then have "gs_trace t = gs_trace s @ new @ [OrderSent (order_of req ap)]"
      using dispatch_trace [OF d] new(1) by simp
    moreover have "sends req ap protective (new @ [OrderSent (order_of req ap)])"
      using cl v unfolding sends_def by blast
    ultimately show ?thesis by blast
  next
    case False
    then have "gs_trace t = gs_trace u"
      using assms m by (cases x) (auto simp: submit_def thenX_def bindP_def returnX_def split: sum.splits)
    then show ?thesis using new by (intro exI [of _ new]) simp
  qed
qed

lemma thenX_Inr_iff: "thenX m f s = (Inr (Inr w), t) \<longleftrightarrow> (\<exists>v u. m s = (Inr (Inr v), u) \<and> f v u = (Inr (Inr w), t))"
proof -
  obtain x u where m: "m s = (x, u)" by (cases "m s")
  show ?thesis unfolding thenX_def bindP_def m by (cases x) (auto simp: returnX_def split: sum.splits)
qed

lemma thenX_Inl_iff: "thenX m f s = (Inr (Inl r), t) \<longleftrightarrow>
   m s = (Inr (Inl r), t) \<or> (\<exists>v u. m s = (Inr (Inr v), u) \<and> f v u = (Inr (Inl r), t))"
proof -
  obtain x u where m: "m s = (x, u)" by (cases "m s")
  show ?thesis unfolding thenX_def bindP_def m by (cases x) (auto simp: returnX_def split: sum.splits)
qed

lemma stop_simps [simp]:
  "denyX reason s = (Inr (Inl (plain_result XRejected None [reason])), s)"
  "skipX reason s = (Inr (Inl (plain_result XSkipped None [reason])), s)"
  "returnX x s = (Inr (Inl x), s)" "goX v s = (Inr (Inr v), s)"
  by (simp_all add: denyX_def skipX_def returnX_def goX_def)

lemma inventory_checks_request:
  assumes "inventory_checks gp req existing s = (Inr (Inr req1), t)"
  shows "\<exists>q. req1 = req\<lparr>er_quantity := q\<rparr>"
proof -
  have same: "\<exists>q. r = r\<lparr>er_quantity := q\<rparr>" for r by (rule exI [of _ "er_quantity r"]) simp
  show ?thesis using assms
    by (auto simp: inventory_checks_def Let_def bindP_Inr_iff thenX_Inr_iff same split: if_splits)
qed

lemma thenX_trace:
  assumes "thenX m f s = (r, t)" "quiet m"
  obtains (Stopped) "gs_trace t = gs_trace s" | (Goes) v u where "m s = (Inr (Inr v), u)" "gs_trace u = gs_trace s" "f v u = (r, t)"
proof -
  obtain x u where m: "m s = (x, u)" by (cases "m s")
  have u: "gs_trace u = gs_trace s" by (rule quietD [OF assms(2) m])
  show thesis
  proof (cases "\<exists>v. x = Inr (Inr v)")
    case True
    then show thesis using assms(1) m u by (auto simp: thenX_def intro: Goes)
  next
    case False
    then have "gs_trace t = gs_trace s"
      using assms(1) m u by (cases x) (auto simp: thenX_def bindP_def returnX_def split: sum.splits)
    then show thesis by (rule Stopped)
  qed
qed

end
