(* ===== verification/Gateway_Demo.thy ===== *)
theory Gateway_Demo
  imports Gateway_Trace
begin

text \<open>
  One concrete run of the execution gateway: a protective exit of two of the four shares of X
  held, whose intent is stored as SUBMITTED without a broker order id.
\<close>

definition sell_exit :: trade_intent where
  "sell_exit = demo_intent\<lparr>ti_id := ''t2'', ti_idempotency_key := ''k2'', ti_correlation_id := ''t2'', ti_side := SELL,
     ti_requested_quantity := Some 2, ti_reference_price := Some 10, ti_status := TI_SUBMITTED, ti_broker_order_id := None, ti_stop_loss := None\<rparr>"

definition sell_request :: execution_request where
  "sell_request = (plain_request (demo_asset EQUITY None ''X'') SELL 2 ''s'')\<lparr>er_idempotency_key := Some ''k2'', er_lock_token := Some ''w''\<rparr>"

definition sell_position :: valued_position where
  "sell_position = \<lparr>po_symbol = ''X'', po_class = EQUITY, po_qty = 4, po_price = 10, vp_market_value = 40\<rparr>"

definition sell_lock :: lock_row where
  "sell_lock = \<lparr>lk_owner = ''w'', lk_acquired = 0, lk_expires = 45000000, lk_command = ''execute_intent''\<rparr>"

definition exit_ledger :: "trade_intent \<Rightarrow> ledger" where
  "exit_ledger t = demo_ledger\<lparr>db_intents := [plain_row ''t1'' (Some ''filled'') (Some ''k1'') demo_intent,
       plain_row ''t2'' (Some (intent_status_value (ti_status t))) (Some ''k2'') t],
     db_locks := [execution_lock_key (demo_asset EQUITY None ''X'') \<mapsto> sell_lock],
     db_evidence := no_evidence\<lparr>ev_cursor := Some \<lparr>cu_cursor = ''a'', cu_pass_id = ''p0'', cu_at = 0\<rparr>\<rparr>\<rparr>"

text \<open>Nobody else writes, the clocks stand still, the broker is flat but for the position.\<close>

definition sell_port :: gateway_port where
  "sell_port = \<lparr>gp_env = demo_check_env, gp_limits = demo_limits, gp_mode = PAPER, gp_account = ''paper'', gp_venue = ''alpaca'', gp_zone = utc_zone,
     gp_calendar = (\<lambda>_. demo_calendar), gp_polls = 0, gp_other = (\<lambda>_ db. db), gp_clock = (\<lambda>_. 0), gp_wall = (\<lambda>_. 0), gp_uuid = (\<lambda>_. ''u''),
     gp_lease = (\<lambda>_. True), gp_reentry = (\<lambda>_ _. False), gp_faults = Map.empty, gp_positions = (\<lambda>_. Inr [sell_position]),
     gp_quote = (\<lambda>_. Inr \<lparr>mq_bid = Some 10, mq_ask = Some 10, mq_observed_at = 0\<rparr>),
     gp_account_info = (\<lambda>_. Inr \<lparr>ai_equity = 100, ai_last_equity = 100, ai_cash = 60, ai_number = None\<rparr>),
     gp_account_evidence = (\<lambda>_. Inl (HttpFailure [])), gp_asset_caps = (\<lambda>_. Inl (HttpFailure [])), gp_bars = (\<lambda>_. Inr []),
     gp_sessions = (\<lambda>_ _. Inr []), gp_market_clock = (\<lambda>_. Inl (HttpFailure [])), gp_clock_monitor = (\<lambda>_. new_monitor),
     gp_risk_day = (\<lambda>t. (t, t)), gp_open_orders = (\<lambda>_. Inr []), gp_activities = (\<lambda>_. Inr ([], True)),
     gp_place = (\<lambda>_ _. Inr \<lparr>pl_order_id = ''b9'', pl_submitted_at = None\<rparr>), gp_order = (\<lambda>_ _. Inl (HttpFailure [])),
     gp_lookup = (\<lambda>_ _. Inr None), gp_order_fills = (\<lambda>_. Inr []), gp_opening = Inr None, gp_sha = (\<lambda>_. []),
     gp_iso_time = (\<lambda>_. Inr 0), gp_time_text = (\<lambda>_. []), gp_hour_text = (\<lambda>_. [])\<rparr>"

definition exit_state :: "trade_intent \<Rightarrow> nat \<Rightarrow> gateway_event list \<Rightarrow> gateway_state" where
  "exit_state t n tr = \<lparr>gs_db = exit_ledger t, gs_tick = n, gs_trace = tr\<rparr>"

subsection \<open>The steps of the run\<close>

lemma run_steps:
  "instant f (exit_state t n tr) = (Inr (f n), exit_state t (Suc n) tr)"
  "await sell_port a (exit_state t n tr) = (Inr (a n), exit_state t (Suc n) tr)"
  "query sell_port h (exit_state t n tr) = (Inr (h (exit_ledger t)), exit_state t (Suc n) tr)"
  "store sell_port (\<lambda>k. readP (g k)) (exit_state t n tr) = (Inr (g n (exit_ledger t)), exit_state t (Suc n) tr)"
  "store sell_port (\<lambda>_. tryP r) (exit_state t n tr) = (r (exit_ledger t), exit_state t (Suc n) tr)"
  "log_step e (exit_state t n tr) = (Inr (), exit_state t n (tr @ [e]))"
  by (simp_all add: instant_def await_def query_def store_def log_step_def exit_state_def sell_port_def tryP_def)

text \<open>\<open>runs m t tr v t' tr'\<close>: from the stored intent \<open>t\<close> and the trace \<open>tr\<close>, at any step count, \<open>m\<close> ends in \<open>v\<close>, \<open>t'\<close> and \<open>tr'\<close>.\<close>

definition runs :: "'a gstep \<Rightarrow> trade_intent \<Rightarrow> gateway_event list \<Rightarrow> exc + 'a \<Rightarrow> trade_intent \<Rightarrow> gateway_event list \<Rightarrow> bool" where
  "runs m t tr v t' tr' \<longleftrightarrow> (\<forall>n. \<exists>k. m (exit_state t n tr) = (v, exit_state t' k tr'))"

lemma runs_step:
  "runs (retP v) t tr (Inr v) t tr" "runs (goX w) t tr (Inr (Inr w)) t tr" "runs (liftP (Inr v)) t tr (Inr v) t tr"
  "(\<And>n. f n = x) \<Longrightarrow> runs (instant f) t tr (Inr x) t tr"
  "(\<And>n. a n = y) \<Longrightarrow> runs (await sell_port a) t tr (Inr y) t tr"
  "h (exit_ledger t) = z \<Longrightarrow> runs (query sell_port h) t tr (Inr z) t tr"
  "(\<And>n. g n (exit_ledger t) = u) \<Longrightarrow> runs (store sell_port (\<lambda>k. readP (g k))) t tr (Inr u) t tr"
  "r (exit_ledger t) = q \<Longrightarrow> runs (store sell_port (\<lambda>_. tryP r)) t tr q t tr"
  "runs (log_step e) t tr (Inr ()) t (tr @ [e])"
  by (auto simp: runs_def run_steps)

lemma runs_bindP: "runs m t tr (Inr a) t1 tr1 \<Longrightarrow> runs (f a) t1 tr1 v t2 tr2 \<Longrightarrow> runs (bindP m f) t tr v t2 tr2"
  by (auto simp: runs_def bindP_def) (metis (mono_tags, lifting) prod.case sum.case(2))

lemma runs_thenX: "runs m t tr (Inr (Inr a)) t1 tr1 \<Longrightarrow> runs (f a) t1 tr1 v t2 tr2 \<Longrightarrow> runs (thenX m f) t tr v t2 tr2"
  unfolding thenX_def by (rule runs_bindP) auto

lemma runs_write:
  assumes "intent_post_init u = Inr u" and "ti_id u = ''t2''"
  shows "runs (write_intent sell_port u) t tr (Inr True) u tr"
  using assms
  by (simp add: runs_def write_intent_def fenced_update_def bindP_def store_def exit_state_def sell_port_def update_in_def writeP_def update_row_def
      exit_ledger_def demo_ledger_def plain_row_def STATUS_TABLES_def guardR_def check_lease_def check_precondition_def check_integrity_hold_def)

lemma runs_renew: "runs (renew_reservation sell_port (demo_asset EQUITY None ''X'') ''w'') t tr (Inr True) t tr"
  by (simp add: runs_def renew_reservation_def store_def exit_state_def sell_port_def writeP_def renew_lock_def exit_ledger_def sell_lock_def
      SYMBOL_LOCK_TTL_SECONDS_def ttl_of_def)

subsection \<open>The checks of a sell\<close>

lemma sell_key: "asset_identity_key (demo_asset EQUITY None ''X'') = ''equity:default:alpaca:X''"
  "position_identity sell_position = Inr ''equity:default:alpaca:X''"
  by code_simp+

lemma sell_request_sel: "er_side sell_request = SELL" "er_asset sell_request = demo_asset EQUITY None ''X''" "er_quantity sell_request = 2"
  "er_lock_token sell_request = Some ''w''" "request_key sell_request = Some ''k2''" "er_exit_reason sell_request = None"
  by (simp_all add: sell_request_def plain_request_def request_key_def)

lemma sell_exit_sel: "ti_side sell_exit = SELL" "ti_asset sell_exit = demo_asset EQUITY None ''X''" "ti_id sell_exit = ''t2''" "ti_side demo_intent = BUY"
  "ti_status sell_exit = TI_SUBMITTED" "ti_broker_order_id sell_exit = None" "ti_created_at sell_exit = 90"
  by (simp_all add: sell_exit_def demo_intent_def)

lemma exit_ledger_sel: "db_intents (exit_ledger t) = [plain_row ''t1'' (Some ''filled'') (Some ''k1'') demo_intent,
     plain_row ''t2'' (Some (intent_status_value (ti_status t))) (Some ''k2'') t]"
  "db_lots (exit_ledger t) = [plain_row ''L1'' None (Some ''f1'') demo_bought_lot]" "db_liabilities (exit_ledger t) = []"
  "db_quarantine (exit_ledger t) = no_quarantine" "db_holdings (exit_ledger t) = []" "db_session (exit_ledger t) = None"
  "db_evidence (exit_ledger t) = no_evidence\<lparr>ev_cursor := Some \<lparr>cu_cursor = ''a'', cu_pass_id = ''p0'', cu_at = 0\<rparr>\<rparr>"
  by (simp_all add: exit_ledger_def demo_ledger_def)

lemma sell_lot: "local_long (exit_ledger t) (demo_asset EQUITY None ''X'') = 4"
proof -
  have m: "asset_matches_sql (demo_asset EQUITY None ''X'') (demo_asset EQUITY None ''X'')" by code_simp
  have l: "l_asset demo_bought_lot = demo_asset EQUITY None ''X''" "open_long_lot demo_bought_lot" "l_remaining_quantity demo_bought_lot = 4"
    by (simp_all add: demo_bought_lot_def demo_lot_def open_long_lot_def lot_is_open_def lot_status_of_def)
  have "lots_of_asset (exit_ledger t) (demo_asset EQUITY None ''X'') = [demo_bought_lot]"
    by (simp add: lots_of_asset_def exit_ledger_sel plain_row_def rows_where_def l(1) m)
  then show ?thesis by (simp add: local_long_def l dsum_def dadd_def)
qed

lemma exit_ledger_rows: "find_by_unique (db_intents (exit_ledger t)) ''k2'' = Some (plain_row ''t2'' (Some (intent_status_value (ti_status t))) (Some ''k2'') t)"
  "open_unresolved (exit_ledger t) k = []" "history_unproven (exit_ledger t) j = False" "fill_cursor (exit_ledger t) = Some ''a''"
  "sell_evidence sell_port ''equity:default:alpaca:X'' (db_intents (exit_ledger sell_exit)) = Inr [sell_exit]"
  "ledger_quarantined (Some ''equity:default:alpaca:X'') (exit_ledger t) = []"
       apply (simp add: exit_ledger_sel plain_row_def)
      apply (simp add: open_unresolved_def exit_ledger_sel no_evidence_def rows_of_def)
     apply (simp add: history_unproven_def last_failures_def p1_proofs_def history_records_def exit_ledger_sel no_evidence_def rows_of_def List.map_filter_def)
    apply (simp add: fill_cursor_def exit_ledger_sel no_evidence_def)
   apply (simp add: sell_evidence_def exit_ledger_sel plain_row_def sell_row_def sell_exit_sel sell_key sell_port_def)
  apply (simp add: ledger_quarantined_def exit_ledger_sel no_quarantine_def rows_of_def quarantined_positions_def equity_marks_def)
  done

lemma runs_resume: "runs (resume_existing sell_port (Some ''k2'')) sell_exit [] (Inr (Inr (Some sell_exit))) sell_exit []"
  unfolding resume_existing_def option.case
  by (rule runs_bindP, rule runs_step(6), rule exit_ledger_rows)
    (simp add: plain_row_def sell_exit_def TERMINAL_INTENTS_def text_or_empty_def IN_FLIGHT_STATUSES_def runs_step)

text \<open>One reading of the broker supports selling two.\<close>

definition sell_reading :: sell_inputs where
  "sell_reading = \<lparr>sl_first = [], sl_second = [], sl_held = 4\<rparr>"

lemma runs_snapshot: "runs (sell_snapshot sell_port ''equity:default:alpaca:X'' ''a'') t tr (Inr (Inr sell_reading)) t tr"
proof -
  have o: "runs (or_deny sell_port r ask) t tr (Inr (Inr v)) t tr" if "\<And>n. ask n = Inr v" for r v and ask :: "nat \<Rightarrow> 'b answer"
    unfolding or_deny_def by (rule runs_bindP, rule runs_step(5), rule that) (simp add: runs_step)
  have h: "held_of ''equity:default:alpaca:X'' [sell_position] = Inr 4" by (simp add: sell_key) (simp add: sell_position_def)
  have u: "runs (unreconciled sell_port ''equity:default:alpaca:X'' []) t tr (Inr False) t tr" by (simp add: runs_step)
  have l: "runs (liftP (held_of ''equity:default:alpaca:X'' [sell_position])) t tr (Inr 4) t tr" by (simp only: h runs_step)
  have a: "gp_open_orders sell_port n = Inr []" "gp_positions sell_port n = Inr [sell_position]" "gp_activities sell_port n = Inr ([], True)" for n
    by (simp_all add: sell_port_def)
  show ?thesis unfolding sell_snapshot_def
    by (rule runs_thenX [OF o [OF a(1)]], rule runs_thenX [OF o [OF a(2)]], rule runs_thenX [OF o [OF a(1)]], rule runs_thenX [OF o [OF a(3)]])
      (simp only: prod.case not_True_eq_False if_False filter.simps, rule runs_bindP [OF u], simp only: if_False, rule runs_bindP [OF l],
       simp add: sell_reading_def runs_step)
qed

lemma sell_supported: "sell_decision ''equity:default:alpaca:X'' sell_reading [] u 4 = Inr \<lparr>sd_sellable = 4, sd_local_bound = 4, sd_broker_bound = 4\<rparr>"
  by (simp add: sell_decision_def sell_reading_def build_pending_set_def sells_of_def same_snapshot_def quantities_of_def client_ids_def
      compute_sellable_def dsum_def dsub_def)

lemma runs_authorize: "runs (authorize_sell sell_port sell_request ''w'' (Some ''t2'')) sell_exit tr (Inr (Inr 2)) sell_exit tr"
proof -
  have a: "runs (sell_attempts 3 sell_port sell_request ''equity:default:alpaca:X'' ''a'' [] u 4) sell_exit tr (Inr (Inr 2)) sell_exit tr" for u
    unfolding numeral_3_eq_3 sell_attempts.simps
    by (rule runs_thenX [OF runs_snapshot], simp add: sell_supported)
      (simp add: sized_sell_def size_sell_def sell_request_sel sell_reading_def runs_step)
  have q: "runs (query sell_port h) sell_exit tr (Inr (h (exit_ledger sell_exit))) sell_exit tr" for h :: "ledger \<Rightarrow> 'b"
    by (rule runs_step(6)) simp
  show ?thesis unfolding authorize_sell_def Let_def sell_request_sel sell_key
    apply (rule runs_bindP [OF runs_renew], simp)
    apply (rule runs_bindP [OF q], simp add: exit_ledger_rows)
    apply (rule runs_bindP [OF q], simp add: exit_ledger_rows)
    apply (rule runs_bindP, rule runs_step(8), rule exit_ledger_rows(5), simp add: sell_exit_sel)
    apply (rule runs_bindP [OF q], simp add: exit_ledger_rows)
    apply (rule runs_bindP [OF q], rule runs_bindP [OF q])
    apply (simp add: sell_lot a)
    done
qed

lemma runs_inventory: "runs (inventory_checks sell_port sell_request (Some sell_exit)) sell_exit tr (Inr (Inr sell_request)) sell_exit tr"
proof -
  have r: "sell_request\<lparr>er_quantity := 2\<rparr> = sell_request" by (simp add: sell_request_def plain_request_def)
  show ?thesis unfolding inventory_checks_def Let_def sell_request_sel sell_key
    by (rule runs_bindP, rule runs_step(6), rule exit_ledger_rows(6), simp add: text_or_empty_def sell_exit_sel)
      (rule runs_thenX [OF runs_authorize], simp add: r runs_step)
qed

lemma runs_positions: "runs (read_positions sell_port) t tr (Inr (Inr [(''equity:default:alpaca:X'', sell_position)])) t tr"
  unfolding read_positions_def
  by (rule runs_bindP, rule runs_step(5) [where y = "Inr [sell_position]"], simp add: sell_port_def)
    (auto simp: sell_key intro!: runs_bindP runs_step)

subsection \<open>The decision\<close>

definition exit_positions :: "(string \<times> valued_position) list" where
  "exit_positions = [(''equity:default:alpaca:X'', sell_position)]"

definition exit_quote :: authoritative_quote where
  "exit_quote = \<lparr>aq_price = 10, aq_bid = 10, aq_ask = 10, aq_observed_at = 0, aq_slippage_pct = 0\<rparr>"

definition exit_account :: account_info where
  "exit_account = \<lparr>ai_equity = 100, ai_last_equity = 100, ai_cash = 60, ai_number = None\<rparr>"

definition exit_proposed :: trade_intent where
  "exit_proposed = proposed_intent sell_port sell_request (Some sell_exit) 0 ''t2'' ''k2'' 10"

lemma exit_protective: "held_quantity exit_positions (demo_asset EQUITY None ''X'') = 4" "is_protective sell_request 4"
  by (simp_all add: held_quantity_def exit_positions_def sell_key is_protective_def sell_request_sel) (simp add: sell_position_def)

lemma exit_texts: "require_text (Some ''t2'') = Inr ''t2''" "require_text (Some ''k2'') = Inr ''k2''" "require_text (Some ''s'') = Inr ''s''"
  "require_text (Some ''market'') = Inr ''market''"
  by code_simp+

lemma exit_proposed_ok: "intent_post_init exit_proposed = Inr exit_proposed" "ti_id exit_proposed = ''t2''"
  by (simp_all add: exit_proposed_def proposed_intent_def sell_request_def plain_request_def text_or_empty_def intent_post_init_def exit_texts
      guardR_def opt_positive_def opt_nonneg_def decimal_value_def)

lemma runs_session: "runs (session_gate sell_port sell_request True) t tr (Inr \<lparr>sdc_allowed = True, sdc_reason = ''PROTECTIVE_EXIT_ALLOWED''\<rparr>) t tr"
  unfolding session_gate_def by (rule runs_step(7)) (simp add: execution_session_decision_def)

lemma runs_quote: "runs (read_quote sell_port sell_request) t tr (Inr (Inr exit_quote)) t tr"
proof -
  have a: "authoritative \<lparr>mq_bid = Some 10, mq_ask = Some 10, mq_observed_at = 0\<rparr> EQUITY SELL 0 = Inr exit_quote"
    by (simp add: authoritative_def quote_age_problem_def QUOTE_CLOCK_SKEW_def max_quote_age_def price_quote_def exit_quote_def dec_defs dquot_def)
  show ?thesis unfolding read_quote_def
    apply (rule runs_bindP, rule runs_step(5) [where y = "Inr \<lparr>mq_bid = Some 10, mq_ask = Some 10, mq_observed_at = 0\<rparr>"], simp add: sell_port_def)
    apply (simp add: sell_request_sel demo_asset_def)
    apply (rule runs_bindP, rule runs_bindP, rule runs_step(4) [where x = 0], simp add: sell_port_def, rule runs_step(1))
    apply (simp add: a runs_step)
    done
qed

lemma runs_account: "runs (read_account sell_port) t tr (Inr (Inr exit_account)) t tr"
  unfolding read_account_def
  by (rule runs_bindP, rule runs_step(5) [where y = "Inr exit_account"]) (simp_all add: sell_port_def exit_account_def runs_step)

lemma runs_record: "runs (record_intent sell_port sell_request (Some sell_exit) (Some ''k2'') 0 10) sell_exit tr (Inr exit_proposed) exit_proposed tr"
  unfolding record_intent_def store_proposed_def option.case
  apply (rule runs_bindP, rule runs_step(1), rule runs_bindP, rule runs_step(1))
  apply (simp only: sell_exit_sel exit_proposed_def [symmetric] exit_proposed_ok)
  apply (rule runs_bindP, rule runs_step(3), rule runs_bindP [OF runs_write [OF exit_proposed_ok]], rule runs_step(1))
  done

definition exit_risk :: risk_inputs where
  "exit_risk = \<lparr>rk_snapshot = None, rk_stop = None, rk_input = risk_input_of sell_request exit_quote None 1,
     rk_options = risk_options_of sell_request exit_quote exit_account exit_positions True False [] 0 0\<rparr>"

lemma runs_gather: "runs (gather_risk sell_port sell_request exit_quote exit_account exit_positions True 0 ''t2'') t tr (Inr exit_risk) t tr"
proof -
  have m: "contract_multiplier_of (demo_asset EQUITY None ''X'') = Inr 1" by (simp add: contract_multiplier_of_def demo_asset_def)
  have "er_stop_loss sell_request = None" by (simp add: sell_request_def plain_request_def)
  then show ?thesis
    unfolding gather_risk_def buy_view_def sizing_stop_def open_risk_of_def exit_risk_def
    by (simp add: sell_request_sel m runs_def) auto
qed

subsection \<open>The approval and the order\<close>

definition exit_decision :: risk_decision where
  "exit_decision = \<lparr>rd_approved = True, rd_quantity = 2, rd_reasons = [PROTECTIVE_EXIT]\<rparr>"

definition exit_approved :: trade_intent where
  "exit_approved = exit_proposed\<lparr>ti_status := TI_RISK_APPROVED, ti_requested_quantity := Some 2,
     ti_risk_snapshot := risk_snapshot_of sell_port sell_request exit_quote exit_account exit_decision 1 None\<rparr>"

definition exit_approval :: approval where
  "exit_approval = \<lparr>ap_intent = exit_approved, ap_quote = exit_quote, ap_quantity = 2\<rparr>"

lemma exit_writes: "ti_id exit_approved = ''t2''" "intent_post_init exit_approved = Inr exit_approved"
  "intent_post_init (submitted_intent exit_approval) = Inr (submitted_intent exit_approval)" "ti_id (submitted_intent exit_approval) = ''t2''"
  by (simp_all add: exit_approved_def submitted_intent_def exit_approval_def exit_proposed_def proposed_intent_def sell_request_def
      plain_request_def text_or_empty_def intent_post_init_def exit_texts guardR_def opt_positive_def opt_nonneg_def decimal_value_def)

lemma exit_judged: "evaluate_risk (rk_input exit_risk) None (gp_limits sell_port) (rk_options exit_risk) = Inr exit_decision"
  by (simp add: evaluate_risk_def exit_risk_def risk_input_of_def risk_options_of_def quote_reasons_def spread_reasons_def slippage_reasons_def
      drawdown_reasons_def cost_reasons_def sell_request_sel exit_decision_def)

lemma runs_catchP: "runs m t tr (Inr v) t1 tr1 \<Longrightarrow> runs (catchP m h) t tr (Inr v) t1 tr1"
  by (auto simp: runs_def catchP_def) (metis (mono_tags, lifting) prod.case sum.case(2))

lemma runs_approve: "runs (approve sell_port sell_request exit_proposed None exit_account exit_quote exit_risk None)
   exit_proposed tr (Inr (Inr exit_approval)) exit_approved tr"
proof -
  have w: "runs (fenced_update sell_port None (\<lambda>n. None) exit_approved) t tr (Inr True) exit_approved tr" for t
    using runs_write [OF exit_writes(2,1)] by (simp add: write_intent_def)
  have c: "runs (commit_approval sell_port exit_proposed exit_approved None None) exit_proposed tr (Inr (Inr ())) exit_approved tr"
    unfolding commit_approval_def by (rule runs_catchP, simp, rule runs_bindP [OF w], rule runs_step(2))
  have k: "rk_snapshot exit_risk = None" "ri_multiplier (rk_input exit_risk) = 1" by (simp_all add: exit_risk_def risk_input_of_def)
  have d: "rd_approved exit_decision" "rd_quantity exit_decision = 2" by (simp_all add: exit_decision_def)
  show ?thesis unfolding approve_def entry_step_def option.case judge_risk_def
    apply (rule runs_thenX, rule runs_step(2))
    apply (simp only: prod.case k exit_judged)
    apply (rule runs_bindP, rule runs_step(3))
    apply (simp only: d not_True_eq_False if_False shape_step_def option.case)
    apply (rule runs_thenX, rule runs_step(2))
    apply (simp only: prod.case Let_def exit_approved_def [symmetric])
    apply (rule runs_thenX [OF c])
    apply (simp only: exit_approval_def [symmetric] runs_step)
    done
qed

lemma runs_decide: "runs (decide_order sell_port sell_request (Some sell_exit) (Some ''k2'') 0 exit_positions True None)
   sell_exit tr (Inr (Inr exit_approval)) exit_approved tr"
proof -
  have p: "aq_price exit_quote = 10" by (simp add: exit_quote_def)
  show ?thesis unfolding decide_order_def
    apply (rule runs_bindP [OF runs_session], simp only: session_decision.simps not_True_eq_False if_False)
    apply (rule runs_thenX [OF runs_quote], rule runs_thenX [OF runs_account])
    apply (simp only: sell_request_sel side.distinct if_False p)
    apply (rule runs_bindP, rule runs_step(1), rule runs_bindP [OF runs_record])
    apply (simp only: exit_proposed_ok)
    apply (rule runs_bindP [OF runs_gather], rule runs_approve)
    done
qed

definition exit_clearance :: "gateway_event list" where
  "exit_clearance = clearance sell_request True (submitted_intent exit_approval) \<lparr>sdc_allowed = True, sdc_reason = ''PROTECTIVE_EXIT_ALLOWED''\<rparr>
     (\<lparr>ew_open = False, ew_basis = None, ew_reason = None\<rparr>) True"

lemma exit_clearance_is: "exit_clearance = [SessionChecked \<lparr>sdc_allowed = True, sdc_reason = ''PROTECTIVE_EXIT_ALLOWED''\<rparr>, LeaseChecked True,
     ReservationRenewed True, QuoteChecked None, IntentWritten (submitted_intent exit_approval) True, QuoteChecked None]"
  by (simp add: exit_clearance_def clearance_def exempt_def sell_request_sel demo_asset_def)

lemma runs_check_quote: "runs (check_quote sell_port sell_request exit_quote t) u tr (Inr (Inr ())) u (tr @ [QuoteChecked None])"
proof -
  have q: "quote_age_problem c (aq_observed_at exit_quote) 0 = None" for c
    by (simp add: exit_quote_def quote_age_problem_def QUOTE_CLOCK_SKEW_def max_quote_age_def)
  show ?thesis unfolding check_quote_def
    by (rule runs_bindP, rule runs_step(4) [where x = 0], simp add: sell_port_def, simp only: q Let_def)
      (rule runs_bindP, rule runs_step(9), simp add: runs_step)
qed

lemma runs_pre_dispatch: "runs (pre_dispatch sell_port sell_request exit_approval 4 True 0) exit_approved [] (Inr (Inr ()))
   (submitted_intent exit_approval) exit_clearance"
proof -
  have a: "ap_intent exit_approval = exit_approved" "ap_quote exit_approval = exit_quote" by (simp_all add: exit_approval_def)
  have l: "gp_lease sell_port n = True" for n by (simp add: sell_port_def)
  show ?thesis unfolding pre_dispatch_def exit_clearance_is a
    apply (rule runs_thenX, unfold recheck_session_def, rule runs_bindP [OF runs_session], rule runs_bindP, rule runs_step(9), simp, rule runs_step(2))
    apply (rule runs_thenX, simp add: check_window_def, rule runs_step(2))
    apply (rule runs_thenX, unfold verify_lease_def, rule runs_bindP, rule runs_step(4), rule l, rule runs_bindP, rule runs_step(9), simp, rule runs_step(2))
    apply (rule runs_thenX, unfold renew_before_submission_def sell_request_sel option.case, rule runs_bindP [OF runs_renew], rule runs_bindP,
        rule runs_step(9), simp, rule runs_step(2))
    apply (rule runs_thenX, simp add: reserve_accounting_def sell_request_sel demo_asset_def, rule runs_step(2))
    apply (rule runs_thenX [OF runs_check_quote])
    apply (rule runs_thenX, unfold write_submitted_def, rule runs_bindP [OF runs_write [OF exit_writes(3,4)]], rule runs_bindP, rule runs_step(9),
        rule runs_step(2))
    apply (insert runs_check_quote [of "submitted_intent exit_approval" "submitted_intent exit_approval"
        "[SessionChecked \<lparr>sdc_allowed = True, sdc_reason = ''PROTECTIVE_EXIT_ALLOWED''\<rparr>, LeaseChecked True, ReservationRenewed True,
          QuoteChecked None, IntentWritten (submitted_intent exit_approval) True]"])
    apply simp
    done
qed

definition exit_accepted :: trade_intent where
  "exit_accepted = accepted_intent (submitted_intent exit_approval) \<lparr>pl_order_id = ''b9'', pl_submitted_at = None\<rparr> 0"

lemma exit_accepted_ok: "intent_post_init exit_accepted = Inr exit_accepted" "ti_id exit_accepted = ''t2''" "ti_broker_order_id exit_accepted = Some ''b9''"
  "exit_accepted\<lparr>ti_status := TI_ACCEPTED\<rparr> = exit_accepted" "ti_filled_quantity exit_accepted = 0"
  by (simp_all add: exit_accepted_def accepted_intent_def exit_approved_def submitted_intent_def exit_approval_def exit_proposed_def
      proposed_intent_def sell_request_def plain_request_def text_or_empty_def intent_post_init_def exit_texts guardR_def opt_positive_def
      opt_nonneg_def decimal_value_def)

lemma runs_dispatch: "runs (dispatch sell_port sell_request exit_approval True) (submitted_intent exit_approval) tr
   (Inr (pending_result exit_accepted [] 0 None)) exit_accepted (tr @ [OrderSent (order_of sell_request exit_approval)])"
proof -
  have p: "runs (poll_and_settle sell_port exit_accepted) exit_accepted tr (Inr (pending_result exit_accepted [] 0 None)) exit_accepted tr" for tr
  proof -
    have "ti_filled_avg_price exit_accepted = None"
      by (simp add: exit_accepted_def accepted_intent_def submitted_intent_def exit_approval_def exit_approved_def exit_proposed_def proposed_intent_def)
    moreover have "gp_polls sell_port = 0" by (simp add: sell_port_def)
    ultimately show ?thesis
      unfolding poll_and_settle_def by (simp add: exit_accepted_ok poll_timeout_def)
        (rule runs_bindP [OF runs_write [OF exit_accepted_ok(1,2)]], simp add: runs_step)
  qed
  show ?thesis unfolding dispatch_def
    apply (rule runs_bindP, rule runs_step(9))
    apply (rule runs_bindP, rule runs_step(5) [where y = "Inr \<lparr>pl_order_id = ''b9'', pl_submitted_at = None\<rparr>"], simp add: sell_port_def)
    apply (simp add: after_place_def)
    apply (rule runs_bindP, rule runs_step(4) [where x = 0], simp add: sell_port_def)
    apply (simp only: exit_accepted_def [symmetric] accept_order_def)
    apply (rule runs_bindP [OF runs_write [OF exit_accepted_ok(1,2)]], rule p)
    done
qed

text \<open>The stored intent is submitted again, under the same client order id.\<close>

lemma runs_exit: "runs (execute_intent sell_port sell_request) sell_exit [] (Inr (pending_result exit_accepted [] 0 None)) exit_accepted
   (exit_clearance @ [OrderSent (order_of sell_request exit_approval)])"
proof -
  have s: "runs (submit sell_port sell_request exit_approval 4 True 0) exit_approved [] (Inr (Inr (pending_result exit_accepted [] 0 None)))
      exit_accepted (exit_clearance @ [OrderSent (order_of sell_request exit_approval)])"
    unfolding submit_def by (rule runs_thenX [OF runs_pre_dispatch], rule runs_bindP [OF runs_dispatch], rule runs_step(2))
  have h: "held_quantity exit_positions (er_asset sell_request) = 4" by (simp add: exit_protective sell_request_sel)
  have e: "runs (execute_request sell_port sell_request (Some sell_exit) (Some ''k2'') 0) sell_exit []
      (Inr (Inr (pending_result exit_accepted [] 0 None))) exit_accepted (exit_clearance @ [OrderSent (order_of sell_request exit_approval)])"
    unfolding execute_request_def
    apply (rule runs_thenX [OF runs_inventory], rule runs_thenX [OF runs_positions])
    apply (simp only: exit_positions_def [symmetric] h exit_protective Let_def sell_request_sel side.distinct simp_thms if_False
        with_portfolio_lock_def not_False_eq_True if_True)
    apply (rule runs_thenX [OF runs_decide], rule s)
    done
  show ?thesis unfolding execute_intent_def sell_request_sel Let_def
    apply (rule runs_bindP, rule runs_step(4) [where x = 0], simp add: sell_port_def)
    apply (rule runs_bindP, rule runs_thenX [OF runs_resume], rule e, simp only: sum.case)
    apply (rule runs_step(1))
    done
qed

end
