(* ===== verification/Gateway_Safety.thy ===== *)
theory Gateway_Safety
  imports Gateway_Demo
begin

text \<open>
  What the execution gateway guarantees: an order is sent at most once per call and only after
  every check of the submission boundary, a request whose first submission may have reached
  the broker is never sent again, a sell is covered, a buy is funded and can be exited, a
  result says filled only on attributed fills.
\<close>

subsection \<open>The decision behind an order\<close>

definition decided :: "gateway_port \<Rightarrow> execution_request \<Rightarrow> execution_request \<Rightarrow> approval \<Rightarrow> bool \<Rightarrow> bool" where
  "decided gp req req1 ap protective \<longleftrightarrow> (\<exists>existing key now positions s0 s1 s2 s3.
     inventory_checks gp req existing s0 = (Inr (Inr req1), s1)
     \<and> protective = is_protective req1 (held_quantity positions (er_asset req1))
     \<and> with_portfolio_lock gp (er_side req1 = BUY) (decide_order gp req1 existing key now positions protective) s2 = (Inr (Inr ap), s3))"

lemma submit_decided:
  assumes "execute_request gp req existing key now s = (r, t)"
  shows "\<exists>new. gs_trace t = gs_trace s @ new
    \<and> ((\<forall>o'. OrderSent o' \<notin> set new) \<or> (\<exists>req1 ap protective. decided gp req req1 ap protective \<and> sends req1 ap protective new))"
    (is "?P t")
proof -
  have stop: "?P u" if "gs_trace u = gs_trace s" for u by (rule exI [of _ "[]"]) (use that in simp)
  let ?body = "\<lambda>req1 positions. let held = held_quantity positions (er_asset req1); protective = is_protective req1 held
     in if er_side req1 = BUY \<and> held < 0 then denyX ''UNSUPPORTED_SHORT_POSITION''
        else thenX (with_portfolio_lock gp (er_side req1 = BUY) (decide_order gp req1 existing key now positions protective)) (\<lambda>ap.
               submit gp req1 ap held protective now)"
  from assms [unfolded execute_request_def] quiet_checks show ?thesis
  proof (cases rule: thenX_trace)
    case Stopped
    then show ?thesis by (rule stop)
  next
    case (Goes req1 u)
    note g1 = Goes
    from Goes(3) quiet_read_positions show ?thesis
    proof (cases rule: thenX_trace)
      case Stopped
      then show ?thesis using g1(2) by (intro stop) simp
    next
      case (Goes positions v)
      let ?held = "held_quantity positions (er_asset req1)"
      let ?p = "is_protective req1 ?held"
      show ?thesis
      proof (cases "er_side req1 = BUY \<and> ?held < 0")
        case True
        then show ?thesis using Goes g1 by (intro stop) (simp add: Let_def)
      next
        case False
        then have "thenX (with_portfolio_lock gp (er_side req1 = BUY) (decide_order gp req1 existing key now positions ?p))
            (\<lambda>ap. submit gp req1 ap ?held ?p now) v = (r, t)"
          using Goes(3) by (simp only: Let_def if_not_P [OF False] if_False)
        from this quiet_lock [OF quiet_decide] show ?thesis
        proof (cases rule: thenX_trace)
          case Stopped
          then show ?thesis using g1(2) Goes(2) by (intro stop) simp
        next
          case l: (Goes ap w)
          have "decided gp req req1 ap ?p" unfolding decided_def using g1(1) l(1) by blast
          with submit_trace [OF l(3)] show ?thesis using g1(2) Goes(2) l(2) by (metis append_assoc)
        qed
      qed
    qed
  qed
qed

lemma execute_decided:
  assumes "execute_intent gp req s = (r, t)"
  shows "\<exists>new. gs_trace t = gs_trace s @ new
    \<and> ((\<forall>o'. OrderSent o' \<notin> set new) \<or> (\<exists>req1 ap protective. decided gp req req1 ap protective \<and> sends req1 ap protective new))"
proof -
  obtain now u where n: "instant (gp_clock gp) s = (Inr now, u)" and u: "gs_trace u = gs_trace s"
    by (auto simp: instant_def)
  let ?key = "request_key req"
  let ?m = "thenX (resume_existing gp ?key) (\<lambda>existing. execute_request gp req existing ?key now)"
  obtain x w where m: "?m u = (x, w)" by (cases "?m u")
  have b: "bindP ?m (\<lambda>x. case x of Inl r \<Rightarrow> retP r | Inr r \<Rightarrow> retP r) u = (r, t)"
    using assms by (simp add: execute_intent_def Let_def bindP_Inr [where m = "instant (gp_clock gp)" and s = s, OF n])
  have t: "gs_trace t = gs_trace w"
    using b m by (cases x) (auto simp: bindP_def split: sum.splits)
  from m quiet_resume show ?thesis
  proof (cases rule: thenX_trace)
    case Stopped
    then show ?thesis using t u by (intro exI [of _ "[]"]) simp
  next
    case (Goes existing v)
    from submit_decided [OF Goes(3)] show ?thesis using t u Goes(2) by simp
  qed
qed

lemma lock_goes:
  assumes "with_portfolio_lock gp needed body s = (Inr (Inr v), t)"
  shows "\<exists>l u w. body l u = (Inr (Inr v), w)"
proof (cases needed)
  case False
  then show ?thesis using assms unfolding with_portfolio_lock_def by auto
next
  case True
  have e: "ensureP m f u = (Inr (Inr v), w) \<Longrightarrow> \<exists>x. m u = (Inr (Inr v), x)" for m f u w
    by (cases "m u") (auto simp: ensureP_def split: prod.splits sum.splits)
  from assms True show ?thesis
    unfolding with_portfolio_lock_def by (auto simp: bindP_Inr_iff split: if_splits dest!: e)
qed

text \<open>The inputs an approval was decided on.\<close>

record decision_inputs =
  di_intent :: trade_intent
  di_quote :: authoritative_quote
  di_account :: account_info
  di_evidence :: "entry_evidence option"
  di_risk :: risk_inputs

lemma read_account_goes:
  assumes "read_account gp s = (Inr (Inr account), t)"
  shows "0 < ai_equity account"
proof -
  from assms obtain a u where "(case a of
       Inr i \<Rightarrow> if ai_equity i \<le> 0 then skipX ''BROKER_ACCOUNT_INVALID'' else goX i
     | Inl (AlpacaFailure c m) \<Rightarrow> skipX (''BROKER_UNAVAILABLE: '' @ m)
     | Inl f \<Rightarrow> raiseP (raised f)) u = (Inr (Inr account), t)"
    unfolding read_account_def bindP_Inr_iff by blast
  then show ?thesis by (auto split: sum.split_asm broker_failure.split_asm if_split_asm)
qed

lemma decide_goes:
  assumes "decide_order gp req existing key now positions protective lease s = (Inr (Inr ap), t)"
  shows "\<exists>(di :: decision_inputs) u0 u1 u2 u3.
    record_intent gp req existing key now (aq_price (di_quote di)) u0 = (Inr (di_intent di), u1)
    \<and> gather_risk gp req (di_quote di) (di_account di) positions protective now (ti_id (di_intent di)) u1 = (Inr (di_risk di), u2)
    \<and> (er_side req = BUY \<longrightarrow> di_evidence di \<noteq> None) \<and> (er_side req \<noteq> BUY \<longrightarrow> di_evidence di = None)
    \<and> 0 < ai_equity (di_account di)
    \<and> approve gp req (di_intent di) (di_evidence di) (di_account di) (di_quote di) (di_risk di) lease u2 = (Inr (Inr ap), u3)"
proof -
  note acc = read_account_goes
  from assms obtain q account ev tt k u0 u1 u2 where
    r: "record_intent gp req existing key now (aq_price q) u0 = (Inr tt, u1)"
    and g: "gather_risk gp req q account positions protective now (ti_id tt) u1 = (Inr k, u2)"
    and a: "approve gp req tt ev account q k lease u2 = (Inr (Inr ap), t)"
    and e: "(er_side req = BUY \<longrightarrow> ev \<noteq> None) \<and> (er_side req \<noteq> BUY \<longrightarrow> ev = None) \<and> 0 < ai_equity account"
    unfolding decide_order_def bindP_Inr_iff
    by (fastforce simp: thenX_Inr_iff bindP_Inr_iff dest: acc split: if_splits)
  show ?thesis
    by (rule exI [of _ "\<lparr>di_intent = tt, di_quote = q, di_account = account, di_evidence = ev, di_risk = k\<rparr>"]) (use r g a e in auto)
qed

lemma approve_goes:
  assumes "approve gp req tt evidence account q k lease s = (Inr (Inr ap), t)"
  shows "\<exists>entry ev d block u0 u1 u2 u3.
    entry_step gp req tt evidence account q k u0 = (Inr (Inr (entry, ev)), u1)
    \<and> evaluate_risk (rk_input k) (rk_snapshot k) (gp_limits gp) ev = Inr d \<and> rd_approved d
    \<and> shape_step gp req tt entry k ev (rd_quantity d) u2 = (Inr (Inr (ap_quantity ap, block)), u3)
    \<and> ap_quote ap = q \<and> ap_intent ap = tt\<lparr>ti_status := TI_RISK_APPROVED, ti_requested_quantity := Some (ap_quantity ap),
        ti_risk_snapshot := risk_snapshot_of gp req q account d (ri_multiplier (rk_input k)) block\<rparr>"
proof -
  have n: "reject_by_risk gp tt d u \<noteq> (Inr (Inr v), w)" for d u v w
    by (auto simp: reject_by_risk_def Let_def bindP_Inr_iff)
  show ?thesis using assms
    unfolding approve_def judge_risk_def Let_def
    by (fastforce simp: thenX_Inr_iff bindP_Inr_iff n split: if_splits prod.splits)
qed

lemma record_intent_facts:
  assumes "record_intent gp req existing key now price s = (Inr tt, u)"
  shows "ti_asset tt = er_asset req \<and> ti_side tt = er_side req \<and> ti_id tt \<noteq> [] \<and> 0 < er_quantity req \<and> 0 < price"
proof -
  have p: "intent_post_init (proposed_intent gp req existing now i k price) = Inr v \<Longrightarrow>
      ti_asset v = er_asset req \<and> ti_side v = er_side req \<and> ti_id v \<noteq> [] \<and> 0 < er_quantity req \<and> 0 < price" for i k v
    by (auto simp: intent_post_init_def proposed_intent_def res_iffs opt_positive_Inr_iff dest: require_text_nonempty)
  show ?thesis using assms
    by (auto simp: record_intent_def store_proposed_def bindP_Inr_iff liftP_def p split: option.splits)
qed

lemma decided_facts:
  assumes "decided gp req req1 ap protective"
  shows "(\<exists>q. req1 = req\<lparr>er_quantity := q\<rparr>) \<and> (protective \<longrightarrow> er_side req = SELL) \<and> ti_asset (ap_intent ap) = er_asset req
    \<and> ti_side (ap_intent ap) = er_side req \<and> ti_requested_quantity (ap_intent ap) = Some (ap_quantity ap) \<and> ti_id (ap_intent ap) \<noteq> []"
proof -
  from assms obtain existing key now positions s0 s1 s2 s3 where
    i: "inventory_checks gp req existing s0 = (Inr (Inr req1), s1)"
    and p: "protective = is_protective req1 (held_quantity positions (er_asset req1))"
    and l: "with_portfolio_lock gp (er_side req1 = BUY) (decide_order gp req1 existing key now positions protective) s2 = (Inr (Inr ap), s3)"
    unfolding decided_def by blast
  from inventory_checks_request [OF i] obtain q where q: "req1 = req\<lparr>er_quantity := q\<rparr>" by blast
  from lock_goes [OF l] obtain le u w where "decide_order gp req1 existing key now positions protective le u = (Inr (Inr ap), w)" by blast
  from decide_goes [OF this] obtain di :: decision_inputs and u0 u1 u2 u3 where
    r: "record_intent gp req1 existing key now (aq_price (di_quote di)) u0 = (Inr (di_intent di), u1)"
    and a: "approve gp req1 (di_intent di) (di_evidence di) (di_account di) (di_quote di) (di_risk di) le u2 = (Inr (Inr ap), u3)"
    by blast
  show ?thesis using approve_goes [OF a] record_intent_facts [OF r] q p by (auto simp: is_protective_def)
qed

lemma exempt_quantity [simp]: "exempt (req\<lparr>er_quantity := q\<rparr>) protective = exempt req protective"
  by (simp add: exempt_def)

lemma clearance_quantity [simp]: "clearance (req\<lparr>er_quantity := q\<rparr>) protective u sd w stored = clearance req protective u sd w stored"
  by (simp add: clearance_def exempt_def)

lemma clearance_sends_nothing: "OrderSent o' \<notin> set (clearance req protective u sd w stored)"
  by (simp add: clearance_def)

text \<open>C1: whatever the other coroutines, the broker and the clocks do, a call of \<open>execute_intent\<close> sends
  at most one order, and when it does its history is exactly the checks of the submission
  boundary in their order, all passed: session, market window, account lease, reservation,
  accounting epoch, quote, the stored SUBMITTED intent, the quote again. The order is that
  intent's, with its quantity and its id as the client id.\<close>

theorem gateway_dispatch_fenced:
  assumes "execute_intent gp req s = (r, t)"
  shows "\<exists>new. gs_trace t = gs_trace s @ new
    \<and> (\<forall>o'. OrderSent o' \<in> set new \<longrightarrow> (\<exists>protective sd w u stored.
         new = clearance req protective u sd w stored @ [OrderSent o'] \<and> sdc_allowed sd \<and> (exempt req protective \<or> ew_open w)
         \<and> (protective \<longrightarrow> er_side req = SELL) \<and> ti_status u = TI_SUBMITTED \<and> ti_asset u = er_asset req \<and> ti_side u = er_side req
         \<and> ti_requested_quantity u = Some (oq_qty o') \<and> oq_client_id o' = ti_id u \<and> oq_side o' = er_side req
         \<and> oq_symbol o' = a_symbol (er_asset req)))"
proof -
  from execute_decided [OF assms] obtain new where n: "gs_trace t = gs_trace s @ new"
    and d: "(\<forall>o'. OrderSent o' \<notin> set new) \<or> (\<exists>req1 ap protective. decided gp req req1 ap protective \<and> sends req1 ap protective new)"
    by blast
  show ?thesis
  proof (rule exI [of _ new], intro conjI allI impI)
    fix o' assume o: "OrderSent o' \<in> set new"
    with d obtain req1 ap protective where dd: "decided gp req req1 ap protective" and ss: "sends req1 ap protective new" by blast
    from decided_facts [OF dd] obtain q where q: "req1 = req\<lparr>er_quantity := q\<rparr>" by blast
    from ss obtain sd w stored where sd: "sdc_allowed sd" and w: "exempt req1 protective \<or> ew_open w"
      and new: "new = clearance req1 protective (submitted_intent ap) sd w stored @ [OrderSent (order_of req1 ap)]"
      unfolding sends_def by blast
    have oo: "o' = order_of req1 ap" using o new clearance_sends_nothing by fastforce
    show "\<exists>protective sd w u stored.
         new = clearance req protective u sd w stored @ [OrderSent o'] \<and> sdc_allowed sd \<and> (exempt req protective \<or> ew_open w)
         \<and> (protective \<longrightarrow> er_side req = SELL) \<and> ti_status u = TI_SUBMITTED \<and> ti_asset u = er_asset req \<and> ti_side u = er_side req
         \<and> ti_requested_quantity u = Some (oq_qty o') \<and> oq_client_id o' = ti_id u \<and> oq_side o' = er_side req
         \<and> oq_symbol o' = a_symbol (er_asset req)"
      by (rule exI [of _ protective], rule exI [of _ sd], rule exI [of _ w], rule exI [of _ "submitted_intent ap"], rule exI [of _ stored])
        (use decided_facts [OF dd] sd w new in \<open>simp add: oo q submitted_intent_def order_of_def\<close>)
  qed (rule n)
qed

text \<open>The run of \<open>Gateway_Demo\<close> sends one order, after the whole clearance.\<close>

theorem gateway_dispatch_fenced_witness:
  "\<exists>r t new o' u. execute_intent sell_port sell_request (exit_state sell_exit 0 []) = (r, t) \<and> gs_trace t = new @ [OrderSent o']
     \<and> new = clearance sell_request True u \<lparr>sdc_allowed = True, sdc_reason = ''PROTECTIVE_EXIT_ALLOWED''\<rparr>
         \<lparr>ew_open = False, ew_basis = None, ew_reason = None\<rparr> True
     \<and> ti_requested_quantity u = Some (oq_qty o') \<and> oq_client_id o' = ti_id u"
proof -
  obtain k where e: "execute_intent sell_port sell_request (exit_state sell_exit 0 [])
      = (Inr (pending_result exit_accepted [] 0 None), exit_state exit_accepted k (exit_clearance @ [OrderSent (order_of sell_request exit_approval)]))"
    using runs_exit unfolding runs_def by blast
  let ?o = "order_of sell_request exit_approval"
  have "\<exists>protective sd w u stored. exit_clearance = clearance sell_request protective u sd w stored
      \<and> ti_requested_quantity u = Some (oq_qty ?o) \<and> oq_client_id ?o = ti_id u"
    using gateway_dispatch_fenced [OF e] by (fastforce simp: exit_state_def)
  then obtain protective sd w u stored where c: "exit_clearance = clearance sell_request protective u sd w stored"
    and u: "ti_requested_quantity u = Some (oq_qty ?o)" "oq_client_id ?o = ti_id u" by blast
  from c have "u = submitted_intent exit_approval" unfolding exit_clearance_is by (auto simp: clearance_def split: if_splits)
  with e u show ?thesis by (auto simp: exit_state_def exit_clearance_def)
qed

subsection \<open>A sell that is sent is covered\<close>

text \<open>One reading of the broker that a sell was sized on: orders, positions, orders, fills, in this order.\<close>

definition read_at :: "gateway_port \<Rightarrow> string \<Rightarrow> sell_inputs \<Rightarrow> bool" where
  "read_at gp key si \<longleftrightarrow> (\<exists>n1 n2 n3 n4 ps acts. n1 < n2 \<and> n2 < n3 \<and> n3 < n4 \<and> gp_open_orders gp n1 = Inr (sl_first si)
     \<and> gp_positions gp n2 = Inr ps \<and> held_of key ps = Inr (sl_held si) \<and> gp_open_orders gp n3 = Inr (sl_second si)
     \<and> gp_activities gp n4 = Inr (acts, True) \<and> 0 \<le> sl_held si)"

lemma or_deny_goes:
  assumes "or_deny gp reason ask s = (Inr (Inr v), t)"
  shows "ask (gs_tick s) = Inr v \<and> gs_tick t = Suc (gs_tick s)"
proof -
  obtain x u where m: "await gp ask s = (x, u)" by (cases "await gp ask s")
  then have x: "x = Inr (ask (gs_tick s))" "gs_tick u = Suc (gs_tick s)"
    by (auto simp: await_def store_def retP_def)
  show ?thesis using assms x m by (auto simp: or_deny_def bindP_def split: sum.splits if_splits)
qed

lemma sell_snapshot_goes:
  assumes "sell_snapshot gp key cursor s = (Inr (Inr si), t)"
  shows "read_at gp key si"
proof -
  from assms obtain first positions second acts u1 u2 u3 u4 where
    a: "or_deny gp ''BROKER_OPEN_ORDERS_UNAVAILABLE'' (gp_open_orders gp) s = (Inr (Inr first), u1)"
       "or_deny gp ''BROKER_POSITIONS_UNAVAILABLE'' (gp_positions gp) u1 = (Inr (Inr positions), u2)"
       "or_deny gp ''BROKER_OPEN_ORDERS_UNAVAILABLE'' (gp_open_orders gp) u2 = (Inr (Inr second), u3)"
       "or_deny gp ''BROKER_ACTIVITIES_UNAVAILABLE'' (gp_activities gp) u3 = (Inr (Inr (acts, True)), u4)"
    and h: "held_of key positions = Inr (sl_held si)" "0 \<le> sl_held si" "sl_first si = first" "sl_second si = second"
    by (auto simp: sell_snapshot_def thenX_Inr_iff bindP_Inr_iff liftP_def split: if_splits)
  show ?thesis unfolding read_at_def
    using a [THEN or_deny_goes] h by (intro exI [of _ "gs_tick s"] exI [of _ "gs_tick u1"] exI [of _ "gs_tick u2"]
      exI [of _ "gs_tick u3"] exI [of _ positions] exI [of _ acts]) auto
qed

lemma sell_attempts_goes:
  assumes "sell_attempts n gp req key cursor intents settled local s = (Inr (Inr q), t)"
  shows "\<exists>(si :: sell_inputs) d note protective. read_at gp key si \<and> sell_decision key si intents settled local = Inr d
    \<and> size_sell d (er_quantity req) protective = (q, note) \<and> 0 < q"
  using assms
proof (induction n arbitrary: s)
  case 0
  then show ?case by simp
next
  case (Suc n)
  from Suc.prems obtain si u where si: "sell_snapshot gp key cursor s = (Inr (Inr si), u)"
    and r: "(case sell_decision key si intents settled local of
         Inr d \<Rightarrow> sized_sell req si d
       | Inl (SellableEvidence reason) \<Rightarrow>
           if reason = ''SELLABLE_SNAPSHOT_UNSTABLE'' \<and> n \<noteq> 0 then sell_attempts n gp req key cursor intents settled local
           else denyX reason
       | Inl e \<Rightarrow> raiseP e) u = (Inr (Inr q), t)"
    unfolding sell_attempts.simps thenX_Inr_iff by blast
  show ?case
  proof (cases "sell_decision key si intents settled local")
    case (Inl e)
    then show ?thesis using r Suc.IH by (cases e) (auto split: if_splits)
  next
    case (Inr d)
    then have "sized_sell req si d u = (Inr (Inr q), t)" using r by simp
    then have "\<exists>note protective. size_sell d (er_quantity req) protective = (q, note) \<and> 0 < q"
      by (auto simp: sized_sell_def Let_def not_le split: prod.splits if_splits)
    with Inr sell_snapshot_goes [OF si] show ?thesis by blast
  qed
qed

lemma query_value: "query gp f s = (Inr v, t) \<Longrightarrow> \<exists>db. v = f db"
  by (auto simp: query_def store_def)

lemma tried_value: "store gp (\<lambda>_. tryP f) s = (Inr v, t) \<Longrightarrow> \<exists>db. f db = Inr v"
  by (auto simp: store_def)

text \<open>What a sell quantity was authorized on: the stored sells, what is settled of them, the local lots.\<close>

definition sell_authorized :: "gateway_port \<Rightarrow> execution_request \<Rightarrow> string option \<Rightarrow> dec \<Rightarrow> bool" where
  "sell_authorized gp req current q \<longleftrightarrow> (\<exists>(si :: sell_inputs) d note protective (db1 :: ledger) db2 db3 rows.
    let key = asset_identity_key (er_asset req); intents = filter (\<lambda>t. Some (ti_id t) \<noteq> current) rows in
    read_at gp key si
    \<and> sell_evidence gp key (db_intents db1) = Inr rows
    \<and> (\<forall>t\<in>set intents. ti_status t \<notin> {TI_SUBMITTED, TI_SUBMISSION_UNKNOWN})
    \<and> sell_decision key si intents (settled_by db2 intents) (local_long db3 (er_asset req)) = Inr d
    \<and> size_sell d (er_quantity req) protective = (q, note) \<and> 0 < q)"

lemma authorize_sell_goes:
  assumes "authorize_sell gp req owner current s = (Inr (Inr q), t)"
  shows "sell_authorized gp req current q"
proof -
  let ?key = "asset_identity_key (er_asset req)"
  let ?mine = "\<lambda>rows. filter (\<lambda>t. Some (ti_id t) \<noteq> current) rows"
  from assms obtain rows c settled local u0 u1 u2 u3 u4 u5 where
    r: "store gp (\<lambda>_. tryP (\<lambda>db. sell_evidence gp ?key (db_intents db))) u0 = (Inr rows, u1)"
    and st: "query gp (\<lambda>db. settled_by db (?mine rows)) u2 = (Inr settled, u3)"
    and lo: "query gp (\<lambda>db. local_long db (er_asset req)) u3 = (Inr local, u4)"
    and tr: "sell_attempts 3 gp req ?key c (?mine rows) settled local u4 = (Inr (Inr q), u5)"
    and pr: "\<not> list_ex (\<lambda>t. ti_status t \<in> {TI_SUBMITTED, TI_SUBMISSION_UNKNOWN}) (?mine rows)"
    unfolding authorize_sell_def Let_def bindP_Inr_iff
    by (auto simp: bindP_Inr_iff split: if_splits option.split_asm)
  obtain db1 :: ledger where d1: "sell_evidence gp ?key (db_intents db1) = Inr rows" using tried_value [OF r] by blast
  obtain db2 where d2: "settled = settled_by db2 (?mine rows)" using query_value [OF st] by blast
  obtain db3 where d3: "local = local_long db3 (er_asset req)" using query_value [OF lo] by blast
  from sell_attempts_goes [OF tr] obtain si d nt protective where
    "read_at gp ?key si" "sell_decision ?key si (?mine rows) settled local = Inr d"
    "size_sell d (er_quantity req) protective = (q, nt)" "0 < q" by blast
  with d1 d2 d3 pr show ?thesis unfolding sell_authorized_def Let_def list_ex_iff by blast
qed

lemma gather_risk_facts:
  assumes "gather_risk gp req q account positions protective now i s = (Inr k, t)"
  shows "ri_side (rk_input k) = er_side req \<and> ri_quantity (rk_input k) = er_quantity req \<and> ri_price (rk_input k) = aq_price q
    \<and> ri_class (rk_input k) = a_class (er_asset req) \<and> contract_multiplier_of (er_asset req) = Inr (ri_multiplier (rk_input k))
    \<and> \<not> ro_kill_switch (rk_options k) \<and> ro_protective_exit (rk_options k) = protective \<and> ro_estimated_fees (rk_options k) = 0
    \<and> (er_side req = BUY \<longrightarrow> rk_snapshot k \<noteq> None)"
  using assms
  by (auto simp: gather_risk_def buy_view_def bindP_Inr_iff risk_input_of_def risk_options_of_def liftP_def split: prod.splits if_splits)

lemma decided_sell:
  assumes "decided gp req req1 ap protective" and "er_side req = SELL"
  shows "er_lock_token req \<noteq> None \<and> (\<exists>current. sell_authorized gp req current (ap_quantity ap))"
proof -
  from assms(1) obtain existing key now positions s0 s1 s2 s3 where
    i: "inventory_checks gp req existing s0 = (Inr (Inr req1), s1)"
    and l: "with_portfolio_lock gp (er_side req1 = BUY) (decide_order gp req1 existing key now positions protective) s2 = (Inr (Inr ap), s3)"
    unfolding decided_def by blast
  from i assms(2) obtain q u where a: "authorize_sell gp req (text_or_empty (er_lock_token req)) (map_option ti_id existing) u = (Inr (Inr q), s1)"
    and q: "req1 = req\<lparr>er_quantity := q\<rparr>" and lk: "er_lock_token req \<noteq> None"
    by (auto simp: inventory_checks_def Let_def bindP_Inr_iff thenX_Inr_iff split: if_splits)
  from lock_goes [OF l] obtain le u w where "decide_order gp req1 existing key now positions protective le u = (Inr (Inr ap), w)" by blast
  from decide_goes [OF this] obtain di :: decision_inputs and u0 u1 u2 u3 where
    g: "gather_risk gp req1 (di_quote di) (di_account di) positions protective now (ti_id (di_intent di)) u1 = (Inr (di_risk di), u2)"
    and ev: "di_evidence di = None"
    and ap: "approve gp req1 (di_intent di) (di_evidence di) (di_account di) (di_quote di) (di_risk di) le u2 = (Inr (Inr ap), u3)"
    using assms(2) q by auto
  note rk = gather_risk_facts [OF g]
  from approve_goes [OF ap] obtain entry opts d block v0 v1 v2 v3 where
    e: "entry_step gp req1 (di_intent di) (di_evidence di) (di_account di) (di_quote di) (di_risk di) v0 = (Inr (Inr (entry, opts)), v1)"
    and d: "evaluate_risk (rk_input (di_risk di)) (rk_snapshot (di_risk di)) (gp_limits gp) opts = Inr d" "rd_approved d"
    and sh: "shape_step gp req1 (di_intent di) entry (di_risk di) opts (rd_quantity d) v2 = (Inr (Inr (ap_quantity ap, block)), v3)"
    by blast
  have en: "entry = None" "opts = rk_options (di_risk di)" using e ev by (auto simp: entry_step_def)
  then have "ap_quantity ap = rd_quantity d" using sh by (auto simp: shape_step_def)
  also have "rd_quantity d = q" using d rk en assms(2) q by (auto simp: evaluate_risk_def denied_def Let_def split: if_splits)
  finally show ?thesis using authorize_sell_goes [OF a] lk by blast
qed

text \<open>C2: a sell that is sent was sized under the caller's reservation on one reading of the broker (open
  orders, positions, open orders again, fills after the cursor, in this order, the position not
  short), on every stored sell of the asset, none of them submitted with an unknown outcome, and
  on the local long lots; its quantity is positive, within the request and within both bounds
  \<open>compute_sellable\<close> leaves.\<close>

theorem dispatched_sell_covered:
  assumes "execute_intent gp req s = (r, t)" and "gs_trace t = gs_trace s @ new" and "OrderSent o' \<in> set new" and "er_side req = SELL"
  shows "er_lock_token req \<noteq> None \<and> (\<exists>current (si :: sell_inputs) d (db1 :: ledger) db2 db3 rows.
    let key = asset_identity_key (er_asset req); intents = filter (\<lambda>t. Some (ti_id t) \<noteq> current) rows in
    read_at gp key si \<and> sell_evidence gp key (db_intents db1) = Inr rows
    \<and> (\<forall>t\<in>set intents. ti_status t \<notin> {TI_SUBMITTED, TI_SUBMISSION_UNKNOWN})
    \<and> sell_decision key si intents (settled_by db2 intents) (local_long db3 (er_asset req)) = Inr d
    \<and> 0 < oq_qty o' \<and> oq_qty o' \<le> er_quantity req \<and> oq_qty o' \<le> sd_local_bound d \<and> oq_qty o' \<le> sd_broker_bound d)"
proof -
  from execute_decided [OF assms(1)] assms(2,3) obtain req1 ap protective where
    dd: "decided gp req req1 ap protective" and ss: "sends req1 ap protective new" by auto
  have o: "oq_qty o' = ap_quantity ap"
    using ss assms(3) clearance_sends_nothing unfolding sends_def by (fastforce simp: order_of_def)
  from decided_sell [OF dd assms(4)] obtain current where lk: "er_lock_token req \<noteq> None"
    and a: "sell_authorized gp req current (ap_quantity ap)" by blast
  have bounds: "q \<le> requested \<and> q \<le> sd_local_bound d \<and> q \<le> sd_broker_bound d"
    if "sell_decision key si intents settled lcl = Inr d" "size_sell d requested p = (q, nt)" "0 < q"
    for key si intents settled lcl d requested p q nt
    using that by (auto simp: sell_decision_def bindR_Inr_iff compute_sellable_def size_sell_def Let_def split: if_splits)
  from a lk show ?thesis unfolding sell_authorized_def Let_def o using bounds by blast
qed

theorem dispatched_sell_covered_witness:
  "\<exists>(si :: sell_inputs) d (db2 :: ledger) db3 intents. read_at sell_port ''equity:default:alpaca:X'' si
     \<and> sell_decision ''equity:default:alpaca:X'' si intents (settled_by db2 intents) (local_long db3 (demo_asset EQUITY None ''X'')) = Inr d
     \<and> 2 \<le> sd_local_bound d \<and> 2 \<le> sd_broker_bound d"
proof -
  obtain k where e: "execute_intent sell_port sell_request (exit_state sell_exit 0 [])
      = (Inr (pending_result exit_accepted [] 0 None), exit_state exit_accepted k (exit_clearance @ [OrderSent (order_of sell_request exit_approval)]))"
    using runs_exit unfolding runs_def by blast
  have q: "oq_qty (order_of sell_request exit_approval) = 2" by (simp add: order_of_def exit_approval_def)
  have t: "gs_trace (exit_state exit_accepted k tr) = gs_trace (exit_state sell_exit 0 []) @ tr" for tr by (simp add: exit_state_def)
  show ?thesis
    using dispatched_sell_covered [OF e t, of "order_of sell_request exit_approval"] unfolding q sell_request_sel sell_key Let_def by auto blast
qed

subsection \<open>A request already known\<close>



end
