(* ===== verification/Gateway_Buy.thy ===== *)
theory Gateway_Buy
  imports Gateway_Safety
begin

text \<open>
  A buy the execution gateway sends: it was authorized by the balance-band policy on evidence of
  the account and the asset, its commitment fits the account beside the pending buys, and the
  policy has a protective exit for its quantity.
\<close>

lemma bindP_goE:
  assumes "bindP m f s = (Inr v, t)"
  obtains a u where "m s = (Inr a, u)" "f a u = (Inr v, t)"
  using assms by (auto simp: bindP_Inr_iff)

lemma thenX_goE:
  assumes "thenX m f s = (Inr (Inr v), t)"
  obtains a u where "m s = (Inr (Inr a), u)" "f a u = (Inr (Inr v), t)"
  using assms by (auto simp: thenX_Inr_iff)

lemma view_equity:
  assumes "build_portfolio_view bk pending quarantine cash (Some e) prev marks broker now day sid = Inr v" and "0 < e"
  shows "sn_total_equity (vw_snapshot v) = e"
  using assms(1) unfolding build_portfolio_view_def
  by (elim bindRE) (auto simp: Let_def positive_equity_def assms(2) elim!: bindRE dest!: snapshot_post_init_Inr split: prod.splits)

lemma entry_view_equity:
  assumes "entry_view gp account positions now s = (Inr v, t)" and "0 < ai_equity account"
  shows "sn_total_equity (vw_snapshot v) = ai_equity account"
proof -
  from assms(1) obtain db :: ledger where "build_portfolio_view (ledger_books db) (pending_assets db) (ledger_quarantined None db)
      (ai_cash account) (Some (ai_equity account)) (Some (ai_last_equity account)) (marks_of positions) (Some (broker_view positions))
      now (gp_risk_day gp now) (gp_uuid gp (gs_tick s)) = Inr v"
    unfolding entry_view_def by (auto simp: store_def)
  from view_equity [OF this assms(2)] show ?thesis .
qed

lemma gather_risk_equity:
  assumes "gather_risk gp req q account positions protective now i s = (Inr k, t)" and "er_side req = BUY" and "0 < ai_equity account"
  shows "\<exists>sn. rk_snapshot k = Some sn \<and> 0 < sn_total_equity sn"
  using assms
  by (auto simp: gather_risk_def buy_view_def bindP_Inr_iff dest!: entry_view_equity split: prod.splits if_splits)

subsection \<open>The authorization\<close>

definition pending_read :: "gateway_port \<Rightarrow> pending_funding \<Rightarrow> bool" where
  "pending_read gp p \<longleftrightarrow> (\<exists>(db :: ledger). pending_buy_funding (gp_limits gp) (ledger_books db) = Inr p)"

text \<open>What an entry was authorized on, for a request and its quote.\<close>

definition entry_authorized :: "gateway_port \<Rightarrow> execution_request \<Rightarrow> dec \<Rightarrow> authorized_entry \<Rightarrow> bool" where
  "entry_authorized gp req price en \<longleftrightarrow>
     ae_policy en = evaluate_entry_policy (ae_account en) (Some (ae_band_equity en)) (ae_asset en) (ae_proposal en)
     \<and> xp_allowed (ae_policy en) \<and> core_account_reasons (ae_account en) (ae_decided_at en) = []
     \<and> ep_asset (ae_proposal en) = er_asset req \<and> ep_price (ae_proposal en) = price \<and> ep_now (ae_proposal en) = ae_decided_at en
     \<and> pending_read gp (ae_pending en)
     \<and> pf_mismatches (ae_pending en) = [] \<and> pf_unpriced (ae_pending en) = []
     \<and> funding_available (ae_account en) (a_class (er_asset req)) (pf_total (ae_pending en)) = Some (ae_available en)"

lemma refuse_never_goes: "refuse_entry gp t reasons b now s \<noteq> (Inr (Inr v), u)"
  by (auto simp: refuse_entry_def bindP_Inr_iff)

lemma entry_funding_goes:
  assumes "entry_funding gp s = (Inr (Some p), t)"
  shows "pending_read gp p"
  using assms
  by (auto simp: pending_read_def entry_funding_def catchP_def bindP_def store_def split: sum.splits prod.splits exc.splits option.splits)

lemma fund_entry_goes:
  assumes "fund_entry gp t account c b now s = (Inr (Inr (p, a)), u)"
  shows "pending_read gp p \<and> pf_mismatches p = [] \<and> pf_unpriced p = []
    \<and> funding_available account c (pf_total p) = Some a"
  using assms
  unfolding fund_entry_def
  by (auto elim!: bindP_goE simp: Let_def refuse_never_goes dest: entry_funding_goes split: option.split_asm if_split_asm)

lemma authorize_entry_goes:
  assumes "authorize_entry gp req t ev last_equity q stop s = (Inr (Inr en), u)"
  shows "entry_authorized gp req (aq_price q) en"
  using assms unfolding authorize_entry_def Let_def
  by (auto elim!: bindP_goE thenX_goE simp: refuse_never_goes entry_authorized_def proposal_of_def instant_def dest!: fund_entry_goes
      split: option.split_asm if_split_asm baseline_result.split_asm)

lemma shape_entry_goes:
  assumes "shape_entry gp en req t approved i sn ev s = (Inr (Inr (q, block)), u)"
  shows "\<exists>sh. shape_quantity (ae_policy en) (ae_asset en) (a_class (er_asset req)) approved = Inr sh \<and> sq_refusal sh = None \<and> q = sq_quantity sh
    \<and> reapproved i sn (gp_limits gp) ev approved q = Inr True
    \<and> exit_feasible (ae_policy en) (ae_asset en) (ae_proposal en) q = Inr None"
  using assms unfolding shape_entry_def Let_def
  by (auto elim!: bindP_goE simp: refuse_never_goes split: option.split_asm if_split_asm)

lemma entry_step_goes:
  assumes "entry_step gp req t (Some x) account q k s = (Inr (Inr (entry, opts)), u)"
  shows "\<exists>en f. entry = Some en \<and> entry_authorized gp req (aq_price q) en \<and> opts = (rk_options k)\<lparr>ro_available_cash := Some f\<rparr>
    \<and> fundable_notional (ae_available en) (a_class (er_asset req)) (slippage_limit_for (gp_limits gp) (a_class (er_asset req))) = Inr f"
  using assms by (auto simp: entry_step_def elim!: bindP_goE dest!: authorize_entry_goes split: sum.split_asm)

subsection \<open>The decision on a buy\<close>

text \<open>A buy was decided on an authorized entry, sized within its fundable notional, and shaped.\<close>

lemma decided_buy:
  assumes "decided gp req req1 ap protective" and "er_side req = BUY"
  shows "\<exists>(en :: authorized_entry) price m f k sn ev d sh. entry_authorized gp req price en \<and> 0 < price \<and> 0 < er_quantity req
    \<and> contract_multiplier_of (er_asset req) = Inr m \<and> ri_quantity k = er_quantity req \<and> ri_price k = price \<and> ri_multiplier k = m
    \<and> ri_class k = a_class (er_asset req) \<and> ri_side k = BUY \<and> 0 < sn_total_equity sn
    \<and> fundable_notional (ae_available en) (a_class (er_asset req)) (slippage_limit_for (gp_limits gp) (a_class (er_asset req))) = Inr f
    \<and> ro_available_cash ev = Some f \<and> ro_estimated_fees ev = 0 \<and> \<not> ro_protective_exit ev
    \<and> evaluate_risk k (Some sn) (gp_limits gp) ev = Inr d \<and> rd_approved d
    \<and> shape_quantity (ae_policy en) (ae_asset en) (a_class (er_asset req)) (rd_quantity d) = Inr sh \<and> sq_refusal sh = None
    \<and> ap_quantity ap = sq_quantity sh
    \<and> exit_feasible (ae_policy en) (ae_asset en) (ae_proposal en) (ap_quantity ap) = Inr None"
proof -
  from assms(1) obtain existing key now positions s0 s1 s2 s3 where
    i: "inventory_checks gp req existing s0 = (Inr (Inr req1), s1)"
    and p: "protective = is_protective req1 (held_quantity positions (er_asset req1))"
    and l: "with_portfolio_lock gp (er_side req1 = BUY) (decide_order gp req1 existing key now positions protective) s2 = (Inr (Inr ap), s3)"
    unfolding decided_def by blast
  from i assms(2) have q: "req1 = req"
    by (auto simp: inventory_checks_def Let_def elim!: bindP_goE split: if_split_asm)
  have np: "\<not> protective" using p q assms(2) by (simp add: is_protective_def)
  from lock_goes [OF l] obtain le u w where "decide_order gp req existing key now positions protective le u = (Inr (Inr ap), w)" 
    unfolding q by blast
  from decide_goes [OF this] obtain di :: decision_inputs and u0 u1 u2 u3 where
    r: "record_intent gp req existing key now (aq_price (di_quote di)) u0 = (Inr (di_intent di), u1)"
    and g: "gather_risk gp req (di_quote di) (di_account di) positions protective now (ti_id (di_intent di)) u1 = (Inr (di_risk di), u2)"
    and ev: "di_evidence di \<noteq> None" and eq: "0 < ai_equity (di_account di)"
    and ap: "approve gp req (di_intent di) (di_evidence di) (di_account di) (di_quote di) (di_risk di) le u2 = (Inr (Inr ap), u3)"
    using assms(2) by auto
  note rk = gather_risk_facts [OF g] and ri = record_intent_facts [OF r]
  from gather_risk_equity [OF g assms(2) eq] obtain sn where sn: "rk_snapshot (di_risk di) = Some sn" "0 < sn_total_equity sn" by blast
  from approve_goes [OF ap] obtain entry opts d block v0 v1 v2 v3 where
    e: "entry_step gp req (di_intent di) (di_evidence di) (di_account di) (di_quote di) (di_risk di) v0 = (Inr (Inr (entry, opts)), v1)"
    and d: "evaluate_risk (rk_input (di_risk di)) (rk_snapshot (di_risk di)) (gp_limits gp) opts = Inr d" "rd_approved d"
    and sh: "shape_step gp req (di_intent di) entry (di_risk di) opts (rd_quantity d) v2 = (Inr (Inr (ap_quantity ap, block)), v3)"
    by blast
  from ev obtain x where x: "di_evidence di = Some x" by blast
  from entry_step_goes [OF e [unfolded x]] obtain en f where en: "entry = Some en" "entry_authorized gp req (aq_price (di_quote di)) en"
    "opts = (rk_options (di_risk di))\<lparr>ro_available_cash := Some f\<rparr>"
    "fundable_notional (ae_available en) (a_class (er_asset req)) (slippage_limit_for (gp_limits gp) (a_class (er_asset req))) = Inr f"
    by blast
  from sh en(1) obtain u w b where "shape_entry gp en req (di_intent di) (rd_quantity d) (rk_input (di_risk di)) (rk_snapshot (di_risk di)) opts u
      = (Inr (Inr (ap_quantity ap, b)), w)"
    by (auto simp: shape_step_def elim!: thenX_goE)
  from shape_entry_goes [OF this] obtain shd where s: "shape_quantity (ae_policy en) (ae_asset en) (a_class (er_asset req)) (rd_quantity d) = Inr shd"
    "sq_refusal shd = None" "ap_quantity ap = sq_quantity shd"
    "exit_feasible (ae_policy en) (ae_asset en) (ae_proposal en) (ap_quantity ap) = Inr None" by blast
  show ?thesis
    by (rule exI [of _ en], rule exI [of _ "aq_price (di_quote di)"], rule exI [of _ "ri_multiplier (rk_input (di_risk di))"], rule exI [of _ f],
        rule exI [of _ "rk_input (di_risk di)"], rule exI [of _ sn], rule exI [of _ opts], rule exI [of _ d], rule exI [of _ shd])
      (use rk ri sn d s en np assms(2) in simp)
qed

subsection \<open>Property\<close>

text \<open>A buy that is sent was authorized by the balance-band policy on an account and an asset
  read for it, its protective exit is feasible, and its commitment at the sent quantity,
  slippage allowance and fee included, fits beside the pending buys within the account's cash and buying power
  (for crypto the non-marginable one). The class's slippage limit must not be negative, the
  requested quantity have at most 28 digits and the contract multiplier be positive.\<close>

theorem dispatched_buy_funded:
  assumes "execute_intent gp req s = (r, t)" and "gs_trace t = gs_trace s @ new" and "OrderSent o' \<in> set new" and "er_side req = BUY"
    and "0 \<le> slippage_limit_for (gp_limits gp) (a_class (er_asset req))" and "ctx (er_quantity req) = er_quantity req"
    and "contract_multiplier_of (er_asset req) = Inr m" and "0 < m"
  shows "\<exists>(en :: authorized_entry) price cash power'. entry_authorized gp req price en \<and> 0 < price \<and> 0 < oq_qty o'
    \<and> av_cash (ae_account en) = Some cash \<and> funding_power (ae_account en) (a_class (er_asset req)) = Some power'
    \<and> pf_total (ae_pending en) + funding_for (oq_qty o') price m (slippage_limit_for (gp_limits gp) (a_class (er_asset req)))
        (buy_fee_pct (a_class (er_asset req))) \<le> min cash power'
    \<and> exit_feasible (ae_policy en) (ae_asset en) (ae_proposal en) (oq_qty o') = Inr None"
proof -
  let ?c = "a_class (er_asset req)"
  from execute_decided [OF assms(1)] assms(2,3) obtain req1 ap protective where
    dd: "decided gp req req1 ap protective" and ss: "sends req1 ap protective new" by auto
  have o: "oq_qty o' = ap_quantity ap"
    using ss assms(3) clearance_sends_nothing unfolding sends_def by (fastforce simp: order_of_def)
  from decided_buy [OF dd assms(4)] obtain en price m' f k sn ev d sh where
    e: "entry_authorized gp req price en" "0 < price" "0 < er_quantity req" "contract_multiplier_of (er_asset req) = Inr m'"
    and k: "ri_quantity k = er_quantity req" "ri_price k = price" "ri_multiplier k = m'" "ri_class k = ?c" "ri_side k = BUY"
    and ev: "0 < sn_total_equity sn" "fundable_notional (ae_available en) ?c (slippage_limit_for (gp_limits gp) ?c) = Inr f"
      "ro_available_cash ev = Some f" "ro_estimated_fees ev = 0" "\<not> ro_protective_exit ev"
    and d: "evaluate_risk k (Some sn) (gp_limits gp) ev = Inr d" "rd_approved d"
    and sh: "shape_quantity (ae_policy en) (ae_asset en) ?c (rd_quantity d) = Inr sh" "sq_refusal sh = None" "ap_quantity ap = sq_quantity sh"
      "exit_feasible (ae_policy en) (ae_asset en) (ae_proposal en) (ap_quantity ap) = Inr None"
    by blast
  have m: "m' = m" using e(4) assms(7) by simp
  have av: "funding_available (ae_account en) (ri_class k) (pf_total (ae_pending en)) = Some (ae_available en)"
    using e(1) k by (simp add: entry_authorized_def)
  have b: "0 < ap_quantity ap" "ap_quantity ap \<le> rd_quantity d" using shape_bounds [OF sh(1,2)] sh(3) by simp_all
  from funding_fits [OF av _ assms(5) ev(3,4) d k(5) ev(5) _ _ _ ev(1) _ b] e k ev assms(6,8) m
  obtain cash pw where "av_cash (ae_account en) = Some cash" "funding_power (ae_account en) ?c = Some pw"
    "pf_total (ae_pending en) + funding_for (ap_quantity ap) price m (slippage_limit_for (gp_limits gp) ?c) (buy_fee_pct ?c) \<le> min cash pw"
    by auto
  with e sh b show ?thesis unfolding o by blast
qed

end
