(* ===== verification/Texts.thy ===== *)
theory Texts
  imports Dates
begin

text \<open>
  The two texts every stored payload is made of: \<open>str(Decimal)\<close> with \<open>Decimal(text)\<close>, and
  \<open>datetime.isoformat()\<close> of a UTC instant with \<open>aware_utc\<close> (\<open>time.py\<close>).

  A Decimal is written from its coefficient and exponent, which its value does not fix (1.0
  and 1.00 are equal): \<open>print_decimal\<close> is \<open>Decimal.__str__\<close> on the pair, \<open>read_decimal\<close> is the
  constructor on a text. An instant is read in the extended form with seconds and an offset,
  as \<open>isoformat\<close> writes it; the compact forms of \<open>datetime.fromisoformat\<close> are refused here.
\<close>

subsection \<open>Digits\<close>

definition digit_char :: "int \<Rightarrow> char" where
  "digit_char d = char_of (d + 48)"

text \<open>The last \<open>w\<close> digits of a number.\<close>

fun pad :: "nat \<Rightarrow> int \<Rightarrow> string" where
  "pad 0 n = []"
| "pad (Suc w) n = pad w (n div 10) @ [digit_char (n mod 10)]"

text \<open>The digits of a natural number, without leading zeros.\<close>

fun digits_of :: "nat \<Rightarrow> string" where
  "digits_of n = (if n < 10 then [digit_char (int n)] else digits_of (n div 10) @ [digit_char (int (n mod 10))])"

declare digits_of.simps [simp del]

lemma digit_value_char: "0 \<le> d \<Longrightarrow> d \<le> 9 \<Longrightarrow> digit_value (digit_char d) = Some d"
proof -
  assume d: "0 \<le> d" "d \<le> 9"
  then have "of_char (digit_char d) = (d + 48) mod 256" by (simp add: digit_char_def)
  then show ?thesis using d by (simp add: digit_value_def)
qed

lemma digits_from_append: "digits_from acc (xs @ ys) = (case digits_from acc xs of None \<Rightarrow> None | Some a \<Rightarrow> digits_from a ys)"
  by (induction acc xs rule: digits_from.induct) (auto split: option.splits)

lemma length_pad [simp]: "length (pad w n) = w"
  by (induction w arbitrary: n) auto

lemma digits_from_pad: "0 \<le> n \<Longrightarrow> n < 10 ^ w \<Longrightarrow> digits_from 0 (pad w n) = Some n"
proof (induction w arbitrary: n)
  case (Suc w)
  then have "digits_from 0 (pad w (n div 10)) = Some (n div 10)" by (intro Suc.IH) auto
  then show ?case by (simp add: digits_from_append digit_value_char)
qed simp

lemma digits_from_digits_of: "digits_from 0 (digits_of n) = Some (int n)"
proof (induction n rule: digits_of.induct)
  case (1 n)
  show ?case
  proof (cases "n < 10")
    case True
    then show ?thesis by (subst digits_of.simps) (simp add: digit_value_char)
  next
    case False
    then have "digits_from 0 (digits_of (n div 10)) = Some (int (n div 10))" by (rule 1)
    with False show ?thesis
      by (subst digits_of.simps) (simp add: digits_from_append digit_value_char zdiv_int zmod_int)
  qed
qed

subsection \<open>Decimals\<close>

definition is_digit :: "char \<Rightarrow> bool" where
  "is_digit c = (digit_value c \<noteq> None)"

definition print_exponent :: "int \<Rightarrow> string" where
  "print_exponent e = ''E'' @ (if e < 0 then ''-'' else ''+'') @ digits_of (nat \<bar>e\<bar>)"

definition print_decimal :: "int \<times> int \<Rightarrow> string" where
  "print_decimal p =
     (let (n, e) = p; ds = digits_of (nat \<bar>n\<bar>); left = e + int (length ds);
          dot = (if e \<le> 0 \<and> - 6 < left then left else 1);
          body = (if dot \<le> 0 then ''0.'' @ replicate (nat (- dot)) (CHR ''0'') @ ds
                  else if int (length ds) \<le> dot then ds @ replicate (nat (dot - int (length ds))) (CHR ''0'')
                  else take (nat dot) ds @ ''.'' @ drop (nat dot) ds)
      in (if n < 0 then ''-'' else []) @ body @ (if left = dot then [] else print_exponent (left - dot)))"

definition decimal_value_of :: "int \<times> int \<Rightarrow> dec" where
  "decimal_value_of p = of_int (fst p) * 10 powi (snd p)"

text \<open>A sign in front of a text.\<close>

fun split_sign :: "string \<Rightarrow> int \<times> string" where
  "split_sign [] = (1, [])"
| "split_sign (c # cs) = (if c = CHR ''-'' then (- 1, cs) else if c = CHR ''+'' then (1, cs) else (1, c # cs))"

definition read_exponent :: "string \<Rightarrow> int option" where
  "read_exponent t =
     (case t of
        [] \<Rightarrow> Some 0
      | c # cs \<Rightarrow>
          if c \<in> {CHR ''e'', CHR ''E''} \<and> snd (split_sign cs) \<noteq> []
          then map_option (\<lambda>v. fst (split_sign cs) * v) (digits_from 0 (snd (split_sign cs))) else None)"

definition read_unsigned :: "string \<Rightarrow> (int \<times> int) option" where
  "read_unsigned t =
     (let whole = takeWhile is_digit t; r1 = dropWhile is_digit t;
          frac = (case r1 of c # cs \<Rightarrow> if c = CHR ''.'' then takeWhile is_digit cs else [] | [] \<Rightarrow> []);
          r2 = (case r1 of c # cs \<Rightarrow> if c = CHR ''.'' then dropWhile is_digit cs else r1 | [] \<Rightarrow> [])
      in if whole @ frac = [] then None
         else case (digits_from 0 (whole @ frac), read_exponent r2) of
                (Some n, Some e) \<Rightarrow> Some (n, e - int (length frac))
              | _ \<Rightarrow> None)"

definition special_value :: "int \<Rightarrow> string \<Rightarrow> xdec option" where
  "special_value sg t =
     (let l = py_lower t in
      if l \<in> {''inf'', ''infinity''} then Some (if sg < 0 then NegInf else PosInf)
      else if starts_with ''nan'' l \<and> list_all is_digit (drop 3 l) \<or> starts_with ''snan'' l \<and> list_all is_digit (drop 4 l) then Some NaN
      else None)"

text \<open>\<open>Decimal(text)\<close>: blanks around are stripped and underscores dropped.\<close>

definition read_decimal :: "string \<Rightarrow> xdec option" where
  "read_decimal s =
     (let (sg, t) = split_sign (filter (\<lambda>c. c \<noteq> CHR ''_'') (py_strip s)) in
      case read_unsigned t of
        Some (n, e) \<Rightarrow> Some (Fin (decimal_value_of (sg * n, e)))
      | None \<Rightarrow> special_value sg t)"

text \<open>What \<open>print_decimal\<close> writes is made of digits, a point, a sign and an exponent.\<close>

lemma is_digit_char: "0 \<le> d \<Longrightarrow> d \<le> 9 \<Longrightarrow> is_digit (digit_char d)"
  by (simp add: is_digit_def digit_value_char)

lemma digits_of_digits: "list_all is_digit (digits_of n) \<and> digits_of n \<noteq> []"
proof (induction n rule: digits_of.induct)
  case (1 n)
  then show ?case by (subst (1 2) digits_of.simps) (auto simp: is_digit_char)
qed

lemma is_digit_zero: "is_digit (CHR ''0'')"
  by (simp add: is_digit_def digit_value_def)

lemma not_digits: "\<not> is_digit (CHR ''.'')" "\<not> is_digit (CHR ''E'')" "\<not> is_digit (CHR ''-'')" "\<not> is_digit (CHR ''+'')" "\<not> is_digit (CHR ''_'')"
  by (simp_all add: is_digit_def digit_value_def)

lemma digits_only: "list_all is_digit xs \<Longrightarrow> takeWhile is_digit xs = xs \<and> dropWhile is_digit xs = []"
  by (induction xs) auto

lemma digits_then: "list_all is_digit xs \<Longrightarrow> \<not> is_digit c \<Longrightarrow>
    takeWhile is_digit (xs @ c # r) = xs \<and> dropWhile is_digit (xs @ c # r) = c # r"
  by (induction xs) auto

text \<open>A text of digits, possibly a point with digits, possibly an exponent, is read as its parts say.\<close>

definition exponent_text :: "string \<Rightarrow> bool" where
  "exponent_text x \<longleftrightarrow> x = [] \<or> (\<exists>r. x = CHR ''E'' # r)"

lemma read_unsigned_whole:
  assumes "list_all is_digit w" "w \<noteq> []" "exponent_text x"
  shows "read_unsigned (w @ x) = (case (digits_from 0 w, read_exponent x) of (Some n, Some e) \<Rightarrow> Some (n, e) | _ \<Rightarrow> None)"
  using assms digits_only [OF assms(1)] digits_then [OF assms(1) not_digits(2)]
  by (auto simp: read_unsigned_def exponent_text_def Let_def split: option.splits)

lemma read_unsigned_point:
  assumes "list_all is_digit w" "w \<noteq> []" "list_all is_digit f" "exponent_text x"
  shows "read_unsigned (w @ CHR ''.'' # f @ x)
    = (case (digits_from 0 (w @ f), read_exponent x) of (Some n, Some e) \<Rightarrow> Some (n, e - int (length f)) | _ \<Rightarrow> None)"
  using assms digits_then [OF assms(1) not_digits(1)] digits_only [OF assms(3)] digits_then [OF assms(3) not_digits(2)]
  by (auto simp: read_unsigned_def exponent_text_def Let_def split: option.splits)

lemma read_print_exponent: "read_exponent (print_exponent e) = Some e" "exponent_text (print_exponent e)"
proof -
  obtain c cs where d: "digits_of (nat \<bar>e\<bar>) = c # cs" using digits_of_digits [of "nat \<bar>e\<bar>"] by (cases "digits_of (nat \<bar>e\<bar>)") auto
  have "digits_from 0 (c # cs) = Some \<bar>e\<bar>" using digits_from_digits_of [of "nat \<bar>e\<bar>"] d by simp
  then show "read_exponent (print_exponent e) = Some e" by (auto simp: read_exponent_def print_exponent_def d)
  show "exponent_text (print_exponent e)" by (simp add: exponent_text_def print_exponent_def)
qed


definition plain_char :: "char \<Rightarrow> bool" where
  "plain_char c \<longleftrightarrow> \<not> is_blank c \<and> c \<noteq> CHR ''_''"

lemma digit_plain: "is_digit c \<Longrightarrow> plain_char c"
proof -
  assume "is_digit c"
  then have n: "48 \<le> (of_char c :: int)" "(of_char c :: int) \<le> 57" by (auto simp: is_digit_def digit_value_def Let_def split: if_splits)
  then have "48 \<le> (of_char c :: nat)" "(of_char c :: nat) \<le> 57" using nat_of_char [of c] by linarith+
  moreover have "c \<noteq> CHR ''_''" using n by auto
  ultimately show ?thesis by (auto simp: plain_char_def is_blank_def Let_def)
qed

lemma plain_strip: "list_all plain_char s \<Longrightarrow> filter (\<lambda>c. c \<noteq> CHR ''_'') (py_strip s) = s"
proof -
  assume s: "list_all plain_char s"
  have d: "list_all plain_char xs \<Longrightarrow> dropWhile is_blank xs = xs" for xs by (cases xs) (auto simp: plain_char_def)
  have "list_all plain_char (rev s)" using s by (simp add: list_all_iff)
  then have "py_strip s = s" using d s by (simp add: py_strip_def)
  then show ?thesis using s by (simp add: filter_id_conv list_all_iff plain_char_def)
qed

lemma plain_chars: "plain_char (CHR ''.'')" "plain_char (CHR ''E'')" "plain_char (CHR ''-'')" "plain_char (CHR ''+'')" "plain_char (CHR ''0'')"
  by (simp_all add: plain_char_def is_blank_def)

lemma digits_plain: "list_all is_digit xs \<Longrightarrow> list_all plain_char xs"
  by (auto simp: list_all_iff digit_plain)


lemma print_body:
  assumes "p = (n, e)" and "ds = digits_of (nat \<bar>n\<bar>)" and "left = e + int (length ds)" and "dot = (if e \<le> 0 \<and> - 6 < left then left else 1)"
    and "x = (if left = dot then [] else print_exponent (left - dot))"
  shows "\<exists>body. print_decimal p = (if n < 0 then ''-'' else []) @ body @ x \<and> read_unsigned (body @ x) = Some (\<bar>n\<bar>, e)
    \<and> list_all plain_char (body @ x) \<and> (\<exists>c cs. body = c # cs \<and> is_digit c)"
proof -
  have ds: "list_all is_digit ds" "ds \<noteq> []" "digits_from 0 ds = Some \<bar>n\<bar>"
    using digits_of_digits [of "nat \<bar>n\<bar>"] digits_from_digits_of [of "nat \<bar>n\<bar>"] assms(2) by simp_all
  have x: "exponent_text x" "read_exponent x = Some (left - dot)" "list_all plain_char x"
  proof -
    show "exponent_text x" "read_exponent x = Some (left - dot)"
      using read_print_exponent [of "left - dot"] by (simp_all add: assms(5) exponent_text_def read_exponent_def)
    show "list_all plain_char x"
      using digits_plain digits_of_digits by (simp add: assms(5) print_exponent_def plain_chars)
  qed
  obtain c cs where d: "ds = c # cs" "is_digit c" using ds by (cases ds) auto
  have plain: "list_all plain_char ds" using digits_plain ds(1) by blast
  have pr: "print_decimal p = (if n < 0 then ''-'' else []) @ (if dot \<le> 0 then ''0.'' @ replicate (nat (- dot)) (CHR ''0'') @ ds
      else if int (length ds) \<le> dot then ds @ replicate (nat (dot - int (length ds))) (CHR ''0'')
      else take (nat dot) ds @ ''.'' @ drop (nat dot) ds) @ x"
    unfolding print_decimal_def Let_def assms prod.case ..
  consider (low) "dot \<le> 0" | (whole) "0 < dot" "int (length ds) \<le> dot" | (mid) "0 < dot" "dot < int (length ds)" by linarith
  then show ?thesis
  proof cases
    case low
    let ?z = "replicate (nat (- dot)) (CHR ''0'')"
    let ?body = "''0.'' @ ?z @ ds"
    have zs: "digits_from 0 (replicate j (CHR ''0'') @ ds) = digits_from 0 ds" for j by (induction j) (auto simp: digit_value_def)
    have z: "list_all is_digit (?z @ ds)" using ds(1) is_digit_zero by (auto simp: list_all_iff)
    have left: "left = dot" using low assms(4) by (simp split: if_splits)
    have "read_unsigned (''0'' @ CHR ''.'' # (?z @ ds) @ x) = Some (\<bar>n\<bar>, e)"
      using read_unsigned_point [of "''0''" "?z @ ds" x] z x(1,2) ds(3) zs low left assms(3)
      by (simp add: is_digit_zero digit_value_def)
    moreover have "print_decimal p = (if n < 0 then ''-'' else []) @ ?body @ x"
      unfolding pr using low by simp
    moreover have "list_all plain_char (?body @ x)" using plain x(3) plain_chars by (auto simp: list_all_iff)
    ultimately show ?thesis using is_digit_zero by (intro exI [of _ ?body]) simp
  next
    case whole
    have e: "dot = int (length ds) \<and> left - dot = e" using whole ds(2) assms(3,4) by (cases ds) (auto split: if_splits)
    have "print_decimal p = (if n < 0 then ''-'' else []) @ ds @ x"
      unfolding pr using whole e ds(2) by simp
    then show ?thesis
      using read_unsigned_whole [OF ds(1,2) x(1)] ds(3) x(2) e plain x(3) d by (intro exI [of _ ds]) simp
  next
    case mid
    let ?w = "take (nat dot) ds" let ?f = "drop (nat dot) ds"
    have w: "list_all is_digit ?w" "?w \<noteq> []" "list_all is_digit ?f"
      using ds(1,2) mid by (auto simp: list_all_iff dest: in_set_takeD in_set_dropD)
    have "read_unsigned (?w @ CHR ''.'' # ?f @ x) = Some (\<bar>n\<bar>, left - dot - int (length ?f))"
      using read_unsigned_point [OF w x(1)] ds(3) x(2) by simp
    moreover have "left - dot - int (length ?f) = e" using mid assms(3) by simp
    moreover have "print_decimal p = (if n < 0 then ''-'' else []) @ (?w @ ''.'' @ ?f) @ x"
      unfolding pr using mid by simp
    moreover have "list_all plain_char ((?w @ ''.'' @ ?f) @ x)" using w x(3) digits_plain by (simp add: plain_chars)
    moreover obtain a as where "?w = a # as" "is_digit a" using w by (cases ?w) auto
    ultimately show ?thesis by (intro exI [of _ "?w @ ''.'' @ ?f"]) simp
  qed
qed

text \<open>The round trip of a Decimal: the text reads back as the value it was written from.\<close>

lemma read_print_decimal: "read_decimal (print_decimal (n, e)) = Some (Fin (decimal_value_of (n, e)))"
proof -
  obtain body x where b: "print_decimal (n, e) = (if n < 0 then ''-'' else []) @ body @ x" "read_unsigned (body @ x) = Some (\<bar>n\<bar>, e)"
    "list_all plain_char (body @ x)" "\<exists>c cs. body = c # cs \<and> is_digit c"
    using print_body [OF refl refl refl refl refl, of n e] by blast
  have sign: "split_sign (print_decimal (n, e)) = (if n < 0 then - 1 else 1, body @ x)"
    using b(1,4) not_digits by auto
  have "list_all plain_char (print_decimal (n, e))" using b(1,3) by (simp add: plain_chars)
  then have "read_decimal (print_decimal (n, e)) = Some (Fin (decimal_value_of ((if n < 0 then - 1 else 1) * \<bar>n\<bar>, e)))"
    by (simp add: read_decimal_def plain_strip sign b(2))
  then show ?thesis by (simp split: if_splits)
qed


subsection \<open>Civil dates\<close>

text \<open>\<open>date.fromordinal\<close>: the year of a proleptic ordinal, its month and its day.\<close>

function year_from :: "int \<Rightarrow> int \<Rightarrow> int" where
  "year_from y ordinal = (if y \<le> 1 \<or> days_before_year y < ordinal then y else year_from (y - 1) ordinal)"
  by auto
termination by (relation "measure (\<lambda>(y, _). nat y)") auto

declare year_from.simps [simp del]

fun month_from :: "int \<Rightarrow> int list \<Rightarrow> int \<Rightarrow> int \<times> int" where
  "month_from y [] r = (12, r)"
| "month_from y (m # ms) r = (if r \<le> days_in_month y m then (m, r) else month_from y ms (r - days_in_month y m))"

definition civil_of :: "day \<Rightarrow> int \<times> int \<times> int" where
  "civil_of d =
     (let ordinal = d + EPOCH_ORDINAL; y = year_from (ordinal div 365 + 1) ordinal; r = ordinal - days_before_year y;
          (m, k) = month_from y [1..12] r
      in (y, m, k))"

definition year_days :: "int \<Rightarrow> int" where
  "year_days y = (if is_leap y then 366 else 365)"

lemma div_step:
  assumes "0 < (c :: int)"
  shows "(a + 1) div c = a div c + (if (a + 1) mod c = 0 then 1 else 0)"
proof -
  have r: "0 \<le> a mod c" "a mod c < c" using assms by simp_all
  have a: "a + 1 = c * (a div c) + (a mod c + 1)" by simp
  show ?thesis
  proof (cases "a mod c + 1 = c")
    case True
    then have "a + 1 = c * (a div c + 1)" using a by (simp add: distrib_left)
    then show ?thesis using assms by (metis mod_mult_self1_is_0 nonzero_mult_div_cancel_left less_irrefl)
  next
    case False
    then have "a mod c + 1 < c" using r by simp
    then have "(a + 1) div c = a div c" "(a + 1) mod c = a mod c + 1"
      using int_div_pos_eq [OF a] int_mod_pos_eq [OF a] r by simp_all
    then show ?thesis using r by simp
  qed
qed

lemma leap_count:
  assumes "p400 \<longrightarrow> p100" and "p100 \<longrightarrow> p4"
  shows "(y :: int) * 365 + (a + (if p4 then 1 else 0)) - (b + (if p100 then 1 else 0)) + (c + (if p400 then 1 else 0))
    = (y - 1) * 365 + a - b + c + (if p4 \<and> (\<not> p100 \<or> p400) then 366 else 365)"
  using assms by (cases p400; cases p100; cases p4) (simp_all add: algebra_simps)

lemma days_before_next: "days_before_year (y + 1) = days_before_year y + year_days y"
proof -
  have step: "y div c = (y - 1) div c + (if y mod c = 0 then 1 else 0)" if "0 < c" for c :: int
    using div_step [OF that, of "y - 1"] by (simp only: diff_add_cancel)
  define a b c where "a = (y - 1) div 4" and "b = (y - 1) div 100" and "c = (y - 1) div 400"
  have d: "y div 4 = a + (if y mod 4 = 0 then 1 else 0)" "y div 100 = b + (if y mod 100 = 0 then 1 else 0)" "y div 400 = c + (if y mod 400 = 0 then 1 else 0)"
    unfolding a_def b_def c_def by (rule step, simp)+
  have "400 dvd y \<Longrightarrow> 100 dvd y" "100 dvd y \<Longrightarrow> 4 dvd y"
    by (rule dvd_trans [of 100 400 y], simp_all) (rule dvd_trans [of 4 100 y], simp_all)
  then have m: "y mod 400 = 0 \<longrightarrow> y mod 100 = 0" "y mod 100 = 0 \<longrightarrow> y mod 4 = 0" unfolding dvd_eq_mod_eq_0 by blast+
  show ?thesis
    unfolding days_before_year_def Let_def year_days_def is_leap_def a_def [symmetric] b_def [symmetric] c_def [symmetric] add_diff_cancel_right' d
    by (rule leap_count [OF m])
qed

lemma days_before_ge: "1 \<le> y \<Longrightarrow> 365 * (y - 1) \<le> days_before_year y"
proof -
  assume "1 \<le> y"
  then have "(y - 1) div 100 \<le> (y - 1) div 4" "0 \<le> (y - 1) div 400" by (auto intro: zdiv_mono2 simp: pos_imp_zdiv_nonneg_iff)
  then show ?thesis by (simp add: days_before_year_def Let_def)
qed

lemma year_from_range:
  assumes "1 \<le> y" and "0 < ordinal" and "ordinal \<le> days_before_year (y + 1)"
  shows "1 \<le> year_from y ordinal \<and> days_before_year (year_from y ordinal) < ordinal \<and> ordinal \<le> days_before_year (year_from y ordinal + 1)
    \<and> year_from y ordinal \<le> y"
  using assms
proof (induction y ordinal rule: year_from.induct)
  case (1 y ordinal)
  show ?case
  proof (cases "y \<le> 1 \<or> days_before_year y < ordinal")
    case True
    then show ?thesis using 1(2-4) by (subst (1 2 3 4) year_from.simps) (auto simp: days_before_year_def)
  next
    case False
    then show ?thesis using 1(1) 1(2-4) by (subst (1 2 3 4) year_from.simps) auto
  qed
qed


lemma month_from_upto:
  assumes "month_from y [j..12] r = (m, k)" and "1 \<le> r" and "r \<le> (\<Sum>i\<leftarrow>[j..12]. days_in_month y i)"
  shows "j \<le> m \<and> m \<le> 12 \<and> 1 \<le> k \<and> k \<le> days_in_month y m \<and> r = (\<Sum>i\<leftarrow>[j..m - 1]. days_in_month y i) + k"
  using assms
proof (induction "nat (13 - j)" arbitrary: j r)
  case 0
  then show ?case by simp
next
  case (Suc n)
  then have j: "j \<le> 12" by simp
  then have list: "[j..12] = j # [j + 1..12]" by (rule upto_rec1)
  show ?case
  proof (cases "r \<le> days_in_month y j")
    case True
    then show ?thesis using Suc.prems j by (simp add: list)
  next
    case False
    have IH: "j + 1 \<le> m \<and> m \<le> 12 \<and> 1 \<le> k \<and> k \<le> days_in_month y m
        \<and> r - days_in_month y j = (\<Sum>i\<leftarrow>[j + 1..m - 1]. days_in_month y i) + k"
      using Suc.prems False by (intro Suc.hyps(1)) (use Suc.hyps(2) j in \<open>simp_all add: list\<close>)
    then have "[j..m - 1] = j # [j + 1..m - 1]" by (intro upto_rec1) simp
    then show ?thesis using IH by simp
  qed
qed

lemma months_of_year: "(\<Sum>i\<leftarrow>[1..12]. days_in_month y i) = year_days y"
proof -
  have "[1..12] = [1, 2, 3, 4, 5, 6, 7, 8, 9, 10, 11, 12 :: int]" by (simp add: upto_rec1)
  then show ?thesis by (simp add: days_in_month_def year_days_def)
qed

lemma days_before_mono: "y \<le> y' \<Longrightarrow> days_before_year y \<le> days_before_year y'"
proof (induction y' rule: int_ge_induct)
  case (step i)
  then show ?case using days_before_next [of i] by (simp add: year_days_def split: if_splits)
qed simp

lemma civil_of_day:
  assumes "- EPOCH_ORDINAL < d" and "d \<le> 3652059 - EPOCH_ORDINAL" and "civil_of d = (y, m, k)"
  shows "ymd_day y m k = Some d \<and> 1 \<le> y \<and> y \<le> 9999 \<and> 1 \<le> m \<and> m \<le> 12 \<and> 1 \<le> k \<and> k \<le> 31"
proof -
  define ord y0 where "ord = d + EPOCH_ORDINAL" and "y0 = ord div 365 + 1"
  have o: "0 < ord" "ord \<le> 3652059" using assms(1,2) by (simp_all add: ord_def)
  define q w where "q = ord div 365" and "w = ord mod 365"
  have "ord = 365 * q + w" "w < 365" "0 \<le> q" using o by (simp_all add: q_def w_def pos_imp_zdiv_nonneg_iff)
  then have "ord \<le> 365 * y0 \<and> 1 \<le> y0" unfolding y0_def q_def [symmetric] by auto
  then have "ord \<le> 365 * y0" "1 \<le> y0" by simp_all
  moreover have "365 * y0 \<le> days_before_year (y0 + 1)" using days_before_ge [of "y0 + 1"] \<open>1 \<le> y0\<close> by simp
  ultimately have r: "1 \<le> year_from y0 ord \<and> days_before_year (year_from y0 ord) < ord \<and> ord \<le> days_before_year (year_from y0 ord + 1)"
    using year_from_range [of y0 ord] o(1) by linarith
  have y: "y = year_from y0 ord" and mm: "month_from y [1..12] (ord - days_before_year y) = (m, k)"
    using assms(3) unfolding civil_of_def Let_def ord_def [symmetric] y0_def [symmetric] by (auto split: prod.splits)
  have "1 \<le> ord - days_before_year y" "ord - days_before_year y \<le> (\<Sum>i\<leftarrow>[1..12]. days_in_month y i)"
    using r days_before_next [of y] unfolding months_of_year y [symmetric] by linarith+
  from month_from_upto [OF mm this] have m: "1 \<le> m" "m \<le> 12" "1 \<le> k" "k \<le> days_in_month y m" "ord - days_before_year y = days_before_month y m + k"
    unfolding days_before_month_def by blast+
  have "days_before_year 10000 = 3652059" by (simp add: days_before_year_def)
  moreover have "days_before_year 10000 \<le> days_before_year y" if "10000 \<le> y" using days_before_mono that by blast
  ultimately have "y < 10000" using r o(2) unfolding y by linarith
  moreover have "days_in_month y m \<le> 31" by (simp add: days_in_month_def)
  moreover have "1 \<le> y" using r y by simp
  moreover have "days_before_year y + days_before_month y m + k - EPOCH_ORDINAL = d" using m(5) unfolding ord_def by linarith
  ultimately show ?thesis using m unfolding ymd_day_def by simp
qed

subsection \<open>Instants\<close>

definition DAY_MICROS :: int where "DAY_MICROS = 86400000000"

text \<open>\<open>isoformat()\<close> of an aware UTC instant.\<close>

definition print_date :: "day \<Rightarrow> string" where
  "print_date d = (let (y, m, k) = civil_of d in pad 4 y @ ''-'' @ pad 2 m @ ''-'' @ pad 2 k)"

definition print_clock :: "int \<Rightarrow> string" where
  "print_clock us =
     (let sec = us div 1000000
      in pad 2 (sec div 3600) @ '':'' @ pad 2 (sec div 60 mod 60) @ '':'' @ pad 2 (sec mod 60)
         @ (if us mod 1000000 = 0 then [] else ''.'' @ pad 6 (us mod 1000000)))"

definition print_instant :: "time \<Rightarrow> string" where
  "print_instant t = print_date (date_of t) @ ''T'' @ print_clock (t mod DAY_MICROS) @ ''+00:00''"

definition clock_seconds :: "int \<Rightarrow> int \<Rightarrow> int \<Rightarrow> int option" where
  "clock_seconds h m sec = (if h < 24 \<and> m < 60 \<and> sec < 60 then Some ((h * 60 + m) * 60 + sec) else None)"

text \<open>\<open>HH:MM:SS\<close>, a fraction of any length cut to microseconds, and the offset, in microseconds.\<close>

definition read_clock :: "string \<Rightarrow> (int \<times> string) option" where
  "read_clock s =
     (if 8 \<le> length s \<and> s ! 2 = CHR '':'' \<and> s ! 5 = CHR '':''
      then map_option (\<lambda>v. (v * 1000000, drop 8 s)) (three clock_seconds (take 2 s) (take 2 (drop 3 s)) (take 2 (drop 6 s))) else None)"

definition read_fraction :: "string \<Rightarrow> (int \<times> string) option" where
  "read_fraction t =
     (case t of
        c # cs \<Rightarrow>
          if c = CHR ''.''
          then if takeWhile is_digit cs = [] then None
               else map_option (\<lambda>v. (v, dropWhile is_digit cs)) (digits_from 0 (take 6 (takeWhile is_digit cs @ ''000000'')))
          else Some (0, t)
      | [] \<Rightarrow> Some (0, t))"

definition offset_seconds :: "int \<Rightarrow> int \<Rightarrow> int \<Rightarrow> int option" where
  "offset_seconds h m z = (if h < 24 \<and> m < 60 then Some ((h * 60 + m) * 60) else None)"

definition read_offset :: "string \<Rightarrow> int option" where
  "read_offset s =
     (if s = ''Z'' then Some 0
      else if length s = 6 \<and> hd s \<in> {CHR ''+'', CHR ''-''} \<and> s ! 3 = CHR '':''
      then map_option (\<lambda>v. (if hd s = CHR ''-'' then - v else v) * 1000000) (three offset_seconds (take 2 (drop 1 s)) (drop 4 s) ''0'')
      else None)"

definition in_calendar :: "time \<Rightarrow> bool" where
  "in_calendar t \<longleftrightarrow> - EPOCH_ORDINAL < date_of t \<and> date_of t \<le> 3652059 - EPOCH_ORDINAL"

text \<open>\<open>datetime.fromisoformat(text).astimezone(UTC)\<close>; a text without an offset is naive and refused.\<close>

definition read_instant :: "string \<Rightarrow> time option" where
  "read_instant s =
     (case (from_isoformat (take 10 s), read_clock (drop 11 s)) of
        (Some d, Some (us, r1)) \<Rightarrow>
          if length s \<le> 10 then None
          else (case read_fraction r1 of
                  Some (fr, r2) \<Rightarrow> (case read_offset r2 of
                      Some off \<Rightarrow> (let t = d * DAY_MICROS + us + fr - off in if in_calendar t then Some t else None)
                    | None \<Rightarrow> None)
                | None \<Rightarrow> None)
      | _ \<Rightarrow> None)"

definition aware_utc :: "string \<Rightarrow> time res" where
  "aware_utc s = (case read_instant s of None \<Rightarrow> Inl (ValueError ''timestamp: mandatory aware timestamp invalid'') | Some t \<Rightarrow> Inr t)"


lemma digit_char_01: "digit_char 0 = CHR ''0''" "digit_char 1 = CHR ''1''"
  by code_simp+

lemma print_date_read:
  assumes "- EPOCH_ORDINAL < d" and "d \<le> 3652059 - EPOCH_ORDINAL"
  shows "from_isoformat (print_date d) = Some d \<and> length (print_date d) = 10"
proof -
  obtain y m k where c: "civil_of d = (y, m, k)" by (cases "civil_of d")
  from civil_of_day [OF assms c] have v: "ymd_day y m k = Some d" "0 \<le> y" "y < 10000" "1 \<le> m" "m \<le> 12" "0 \<le> k" "k < 100" by auto
  have p: "digits_from 0 (pad 4 y) = Some y" "digits_from 0 (pad 2 m) = Some m" "digits_from 0 (pad 2 k) = Some k"
    using v by (simp_all add: digits_from_pad)
  have "m div 10 = 0 \<or> m div 10 = 1" using v(4,5) by (cases "m < 10") (simp_all add: div_pos_pos_trivial, auto simp: int_div_pos_eq)
  then obtain a1 a2 where m: "pad 2 m = [a1, a2]" "a1 = CHR ''0'' \<or> a1 = CHR ''1''"
    using digit_char_01 by (auto simp: numeral_2_eq_2)
  have "from_isoformat (print_date d) = three ymd_day (pad 4 y) (pad 2 m) (pad 2 k)"
    using m(2) by (auto simp: from_isoformat_def print_date_def c Let_def m(1))
  then show ?thesis using p v(1) by (simp add: three_def print_date_def c)
qed

lemma read_print_clock:
  assumes "0 \<le> us" and "us < DAY_MICROS"
  shows "read_clock (print_clock us @ r)
    = Some (us div 1000000 * 1000000, (if us mod 1000000 = 0 then [] else ''.'' @ pad 6 (us mod 1000000)) @ r)"
proof -
  define s h m z where "s = us div 1000000" and "h = s div 3600" and "m = s div 60 mod 60" and "z = s mod 60"
  have s: "0 \<le> s" "s < 86400" using assms by (auto simp: s_def DAY_MICROS_def pos_imp_zdiv_nonneg_iff div_less_iff_less_mult)
  then have b: "0 \<le> h" "h < 24" "0 \<le> m" "m < 60" "0 \<le> z" "z < 60" by (auto simp: h_def m_def z_def pos_imp_zdiv_nonneg_iff div_less_iff_less_mult)
  have "s = (h * 60 + m) * 60 + z"
  proof -
    have "h = s div 60 div 60" by (simp add: h_def zdiv_zmult2_eq [symmetric])
    then have "s div 60 = h * 60 + m" by (simp add: m_def)
    then show ?thesis by (metis div_mult_mod_eq z_def)
  qed
  then have c: "three clock_seconds (pad 2 h) (pad 2 m) (pad 2 z) = Some s"
    using b by (simp add: three_def digits_from_pad clock_seconds_def)
  obtain h1 h2 where h: "pad 2 h = [h1, h2]" using length_pad [of 2 h] by (auto simp: numeral_2_eq_2 length_Suc_conv simp del: length_pad)
  obtain m1 m2 where m: "pad 2 m = [m1, m2]" using length_pad [of 2 m] by (auto simp: numeral_2_eq_2 length_Suc_conv simp del: length_pad)
  obtain z1 z2 where z: "pad 2 z = [z1, z2]" using length_pad [of 2 z] by (auto simp: numeral_2_eq_2 length_Suc_conv simp del: length_pad)
  have "print_clock us @ r = [h1, h2, CHR '':'', m1, m2, CHR '':'', z1, z2] @ (if us mod 1000000 = 0 then [] else ''.'' @ pad 6 (us mod 1000000)) @ r"
    by (simp add: print_clock_def Let_def s_def [symmetric] h_def [symmetric] m_def [symmetric] z_def [symmetric] h m z)
  then show ?thesis using c by (simp add: read_clock_def h m z s_def)
qed

lemma pad_digits: "0 \<le> n \<Longrightarrow> list_all is_digit (pad w n)"
  by (induction w arbitrary: n) (auto simp: is_digit_char)

lemma read_print_fraction:
  assumes "0 \<le> f" "f < 1000000"
  shows "read_fraction ((if f = 0 then [] else ''.'' @ pad 6 f) @ ''+00:00'') = Some (f, ''+00:00'')"
proof (cases "f = 0")
  case False
  have "takeWhile is_digit (pad 6 f @ CHR ''+'' # ''00:00'') = pad 6 f \<and> dropWhile is_digit (pad 6 f @ CHR ''+'' # ''00:00'') = CHR ''+'' # ''00:00''"
    by (rule digits_then [OF pad_digits [OF assms(1)] not_digits(4)])
  moreover have "take 6 (pad 6 f @ ''000000'') = pad 6 f" "pad 6 f \<noteq> []" using length_pad [of 6 f] by (simp_all, auto simp del: length_pad)
  ultimately show ?thesis using False digits_from_pad [of f 6] assms by (simp add: read_fraction_def)
qed (simp add: read_fraction_def)

text \<open>The round trip of an instant.\<close>

lemma read_print_instant:
  assumes "in_calendar t"
  shows "aware_utc (print_instant t) = Inr t"
proof -
  let ?us = "t mod DAY_MICROS"
  have us: "0 \<le> ?us" "?us < DAY_MICROS" by (simp_all add: DAY_MICROS_def)
  note date = print_date_read [of "date_of t"]
  have d: "from_isoformat (print_date (date_of t)) = Some (date_of t)" "length (print_date (date_of t)) = 10"
    using date assms by (simp_all add: in_calendar_def)
  have t: "print_instant t = print_date (date_of t) @ CHR ''T'' # print_clock ?us @ ''+00:00''" by (simp add: print_instant_def)
  have o': "read_offset ''+00:00'' = Some 0" by code_simp
  have "date_of t * DAY_MICROS + ?us = t" "?us + date_of t * DAY_MICROS = t"
    by (simp_all add: date_of_def DAY_MICROS_def)
  then have "read_instant (print_instant t) = Some t"
    using d read_print_clock [OF us, of "''+00:00''"] read_print_fraction [of "?us mod 1000000"] assms
    by (simp add: read_instant_def t o' Let_def)
  then show ?thesis by (simp add: aware_utc_def)
qed

end
