(* ===== verification/Codec.thy ===== *)
theory Codec
  imports Texts Repository
begin

text \<open>
  \<open>persistence/codec.py\<close> and the field readers of \<open>persistence/hydration.py\<close>, on parsed JSON:
  \<open>encode_payload\<close> writes a dataclass as an object of its fields, a Decimal as its text, a
  datetime as its ISO text, an enumeration as its value, keys sorted; \<open>json.loads\<close> returns the
  same value. A metadata object, which no decoder looks into, is one leaf. A number in JSON
  is an integer or a float by its printed value.

  A text field that holds neither a text nor null, and a flag that holds no boolean, are
  outside the model and raise \<open>TypeErrorExc\<close> here.
\<close>

datatype json =
    JNull
  | JBool bool
  | JInt int
  | JFloat rat
  | JText string
  | JMeta "string \<Rightarrow> meta_value option"
  | JDict "(string \<times> json) list"

type_synonym payload = "(string \<times> json) list"

text \<open>How a Decimal is written: its coefficient and exponent.\<close>

type_synonym writing = "dec \<Rightarrow> int \<times> int"

subsection \<open>Writing\<close>

definition sorted_keys :: "payload \<Rightarrow> payload" where
  "sorted_keys d = sort_key fst d"

definition enc_dec :: "writing \<Rightarrow> dec \<Rightarrow> json" where "enc_dec w q = JText (print_decimal (w q))"
definition enc_time :: "time \<Rightarrow> json" where "enc_time t = JText (print_instant t)"
definition enc_opt :: "('a \<Rightarrow> json) \<Rightarrow> 'a option \<Rightarrow> json" where "enc_opt f v = (case v of None \<Rightarrow> JNull | Some x \<Rightarrow> f x)"
definition enc_dict :: "writing \<Rightarrow> (string \<times> dec) list \<Rightarrow> json" where
  "enc_dict w d = JDict (sorted_keys (map (\<lambda>(k, v). (k, enc_dec w v)) d))"

text \<open>\<open>decode_payload\<close>: the stored text must be an object.\<close>

definition decode_payload :: "json \<Rightarrow> payload res" where
  "decode_payload v = (case v of JDict d \<Rightarrow> Inr d | _ \<Rightarrow> Inl (ValueError ''persisted payload must decode to an object''))"

subsection \<open>Reading a field\<close>

text \<open>\<open>d[k]\<close>, \<open>d.get(k)\<close> and \<open>d.get(k, default)\<close>.\<close>

definition jfield :: "payload \<Rightarrow> string \<Rightarrow> json res" where
  "jfield d k = (case map_of d k of None \<Rightarrow> Inl (KeyErrorExc k) | Some v \<Rightarrow> Inr v)"

definition jget :: "payload \<Rightarrow> string \<Rightarrow> json" where
  "jget d k = (case map_of d k of None \<Rightarrow> JNull | Some v \<Rightarrow> v)"

definition jget_or :: "payload \<Rightarrow> string \<Rightarrow> json \<Rightarrow> json" where
  "jget_or d k v = (case map_of d k of None \<Rightarrow> v | Some x \<Rightarrow> x)"

definition as_text :: "json \<Rightarrow> string res" where
  "as_text v = (case v of JText s \<Rightarrow> Inr s | JNull \<Rightarrow> Inr [] | _ \<Rightarrow> Inl (TypeErrorExc ''text field''))"

definition as_opt_text :: "json \<Rightarrow> string option res" where
  "as_opt_text v = (case v of JText s \<Rightarrow> Inr (Some s) | JNull \<Rightarrow> Inr None | _ \<Rightarrow> Inl (TypeErrorExc ''text field''))"

definition as_bool :: "json \<Rightarrow> bool res" where
  "as_bool v = (case v of JBool b \<Rightarrow> Inr b | _ \<Rightarrow> Inl (TypeErrorExc ''flag''))"

definition truthy :: "json \<Rightarrow> bool" where
  "truthy v = (case v of JNull \<Rightarrow> False | JBool b \<Rightarrow> b | JInt n \<Rightarrow> n \<noteq> 0 | JFloat r \<Rightarrow> r \<noteq> 0 | JText s \<Rightarrow> s \<noteq> []
     | JMeta m \<Rightarrow> m \<noteq> Map.empty | JDict d \<Rightarrow> d \<noteq> [])"

definition as_nat :: "json \<Rightarrow> nat res" where
  "as_nat v = (case v of JInt n \<Rightarrow> if n < 0 then Inl (ValueError ''must be nonnegative'') else Inr (nat n) | _ \<Rightarrow> Inl (TypeErrorExc ''count''))"

text \<open>\<open>Decimal(str(value))\<close>, then refused when it is not finite.\<close>

definition json_decimal :: "json \<Rightarrow> xdec res" where
  "json_decimal v =
     (case v of
        JText s \<Rightarrow> (case read_decimal s of None \<Rightarrow> Inl InvalidOperation | Some x \<Rightarrow> Inr x)
      | JInt n \<Rightarrow> Inr (Fin (of_int n))
      | JFloat r \<Rightarrow> Inr (Fin r)
      | _ \<Rightarrow> Inl InvalidOperation)"

definition as_dec :: "json \<Rightarrow> dec res" where
  "as_dec v = bindR (json_decimal v) (\<lambda>x. decimal_value x False False)"

definition as_opt_dec :: "json \<Rightarrow> dec option res" where
  "as_opt_dec v = (if v = JNull then Inr None else bindR (as_dec v) (\<lambda>q. Inr (Some q)))"

definition as_time :: "json \<Rightarrow> time res" where
  "as_time v = (case v of JText s \<Rightarrow> aware_utc s | _ \<Rightarrow> Inl (ValueError ''timestamp: mandatory aware timestamp invalid''))"

definition as_opt_time :: "json \<Rightarrow> time option res" where
  "as_opt_time v = (if v = JNull then Inr None else bindR (as_time v) (\<lambda>t. Inr (Some t)))"

text \<open>\<open>confidence\<close> is stored as a JSON number.\<close>

definition as_opt_number :: "json \<Rightarrow> rat option res" where
  "as_opt_number v = (case v of JNull \<Rightarrow> Inr None | JFloat r \<Rightarrow> Inr (Some r) | JInt n \<Rightarrow> Inr (Some (of_int n)) | _ \<Rightarrow> Inl (TypeErrorExc ''number''))"

text \<open>An enumeration's constructor on a stored value.\<close>

definition as_enum :: "('a \<Rightarrow> string) \<Rightarrow> 'a list \<Rightarrow> json \<Rightarrow> 'a res" where
  "as_enum value members v =
     (case v of JText s \<Rightarrow> (case find (\<lambda>m. value m = s) members of None \<Rightarrow> Inl (ValueError ''not a valid value'') | Some m \<Rightarrow> Inr m)
      | _ \<Rightarrow> Inl (ValueError ''not a valid value''))"

definition as_meta :: "json \<Rightarrow> (string \<Rightarrow> meta_value option) res" where
  "as_meta v = (case v of JMeta m \<Rightarrow> Inr m | JNull \<Rightarrow> Inr Map.empty | _ \<Rightarrow> Inl (TypeErrorExc ''mapping''))"

definition as_object :: "json \<Rightarrow> payload res" where
  "as_object v = (case v of JDict d \<Rightarrow> Inr d | _ \<Rightarrow> Inl (TypeErrorExc ''mapping''))"

text \<open>\<open>{k: _decimal(v) for k, v in d.items()}\<close>.\<close>

fun decimal_items :: "payload \<Rightarrow> (string \<times> dec) list res" where
  "decimal_items [] = Inr []"
| "decimal_items ((k, v) # kvs) = bindR (as_dec v) (\<lambda>q. bindR (decimal_items kvs) (\<lambda>rest. Inr ((k, q) # rest)))"

definition as_dict :: "json \<Rightarrow> (string \<times> dec) list res" where
  "as_dict v = bindR (as_object v) decimal_items"

subsection \<open>What is written is read back\<close>

named_theorems read_back \<open>a field read from what was written for it\<close>

definition writes :: "writing \<Rightarrow> dec \<Rightarrow> bool" where
  "writes w q \<longleftrightarrow> decimal_value_of (w q) = q"

definition writes_opt :: "writing \<Rightarrow> dec option \<Rightarrow> bool" where
  "writes_opt w v \<longleftrightarrow> (\<forall>q. v = Some q \<longrightarrow> writes w q)"

definition calendar_opt :: "time option \<Rightarrow> bool" where
  "calendar_opt v \<longleftrightarrow> (\<forall>t. v = Some t \<longrightarrow> in_calendar t)"

lemma as_dec_back [read_back]: "writes w q \<Longrightarrow> as_dec (enc_dec w q) = Inr q"
  using read_print_decimal [of "fst (w q)" "snd (w q)"]
  by (simp add: as_dec_def json_decimal_def enc_dec_def writes_def decimal_value_def)

lemma as_opt_dec_back [read_back]: "writes_opt w v \<Longrightarrow> as_opt_dec (enc_opt (enc_dec w) v) = Inr v"
  by (cases v) (simp_all add: as_opt_dec_def enc_opt_def writes_opt_def as_dec_back, simp add: enc_dec_def)

lemma as_time_back [read_back]: "in_calendar t \<Longrightarrow> as_time (enc_time t) = Inr t"
  by (simp add: as_time_def enc_time_def read_print_instant)

lemma as_opt_time_back [read_back]: "calendar_opt v \<Longrightarrow> as_opt_time (enc_opt enc_time v) = Inr v"
  by (cases v) (simp_all add: as_opt_time_def enc_opt_def calendar_opt_def as_time_back, simp add: enc_time_def)

lemma texts_back [read_back]: "as_text (JText s) = Inr s" "as_opt_text (enc_opt JText v) = Inr v" "as_bool (JBool b) = Inr b"
  "as_nat (JInt (int n)) = Inr n" "as_meta (JMeta m) = Inr m" "as_object (JDict d) = Inr d" "truthy (JBool b) = b"
  "as_opt_number (enc_opt JFloat c) = Inr c"
  by (simp_all add: as_text_def as_opt_text_def enc_opt_def as_bool_def as_nat_def as_meta_def as_object_def truthy_def as_opt_number_def split: option.splits)

lemma as_enum_back:
  assumes "\<And>a b. value a = value b \<Longrightarrow> a = b" and "x \<in> set members"
  shows "as_enum value members (JText (value x)) = Inr x"
proof -
  have "find (\<lambda>m. value m = value x) members \<noteq> None" using assms(2) by (auto simp: find_None_iff)
  then obtain m where m: "find (\<lambda>m. value m = value x) members = Some m" by blast
  then have "value m = value x" by (auto simp: find_Some_iff)
  then show ?thesis using assms(1) m by (simp add: as_enum_def)
qed

text \<open>Sorting by key does not change a lookup.\<close>

lemma map_of_filter: "map_of d k = (case filter (\<lambda>p. fst p = k) d of [] \<Rightarrow> None | p # _ \<Rightarrow> Some (snd p))"
  by (induction d) auto

lemma map_of_sorted [simp]: "map_of (sorted_keys d) = map_of d"
  by (rule ext) (simp add: map_of_filter sorted_keys_def sort_key_stable)

lemma sorted_lookup [read_back]: "jfield (sorted_keys d) k = jfield d k" "jget (sorted_keys d) k = jget d k" "jget_or (sorted_keys d) k v = jget_or d k v"
  by (simp_all add: jfield_def jget_def jget_or_def)

lemma field_lookup [read_back]:
  "jfield ((k, v) # d) k' = (if k = k' then Inr v else jfield d k')" "jget ((k, v) # d) k' = (if k = k' then v else jget d k')"
  "jget_or ((k, v) # d) k' u = (if k = k' then v else jget_or d k' u)"
  by (simp_all add: jfield_def jget_def jget_or_def)

lemma decimal_items_back: "\<forall>p\<in>set d. writes w (snd p) \<Longrightarrow> decimal_items (map (\<lambda>(k, v). (k, enc_dec w v)) d) = Inr d"
  by (induction d) (auto simp: as_dec_back)

text \<open>A dict of decimals comes back sorted by key.\<close>

lemma sort_key_map: "sort_key fst (map (\<lambda>(k, v). (k, f v)) d) = map (\<lambda>(k, v). (k, f v)) (sort_key (fst :: 'a::linorder \<times> 'b \<Rightarrow> 'a) d)"
proof -
  have "insort_key fst ((\<lambda>(k, v). (k, f v)) p) (map (\<lambda>(k, v). (k, f v)) xs) = map (\<lambda>(k, v). (k, f v)) (insort_key (fst :: 'a \<times> 'b \<Rightarrow> 'a) p xs)" for p xs
    by (induction xs) (auto split: prod.splits)
  then have "foldr (insort_key fst) (map (\<lambda>(k, v). (k, f v)) d) [] = map (\<lambda>(k, v). (k, f v)) (foldr (insort_key (fst :: 'a \<times> 'b \<Rightarrow> 'a)) d [])"
    by (induction d) auto
  then show ?thesis by (simp add: sort_key_def)
qed

lemma as_dict_back [read_back]: "\<forall>p\<in>set d. writes w (snd p) \<Longrightarrow> as_dict (enc_dict w d) = Inr (sort_key fst d)"
  using decimal_items_back [of "sort_key fst d" w] by (simp add: as_dict_def enc_dict_def sorted_keys_def sort_key_map texts_back)

end
