(* ===== verification/Fee_Shares.thy ===== *)
theory Fee_Shares
  imports Unresolved
begin

text \<open>
  \<open>quarantine/fees.py\<close>: how a posted fee is split over the closures and the quarantined
  records of an order, how much of a record's balance a resolution recognises, the
  append-only rows of both, and the conservation check C1.

  The quantum of a share is the number of decimal places its amount is written with, at
  least two. A value does not show how it is written, so the number of places is an argument.
\<close>

subsection \<open>Rows\<close>

definition allocation_post_init :: "fee_allocation \<Rightarrow> fee_allocation res" where
  "allocation_post_init a =
     bindR (require_text (Some (fa_fee a))) (\<lambda>f.
     bindR (require_text (Some (fa_record a))) (\<lambda>r.
       Inr (a\<lparr>fa_fee := f, fa_record := r\<rparr>)))"

definition recognition_post_init :: "fee_recognition \<Rightarrow> fee_recognition res" where
  "recognition_post_init a =
     bindR (require_text (Some (fr_record a))) (\<lambda>r.
     bindR (require_text (Some (fr_event a))) (\<lambda>e.
       Inr (a\<lparr>fr_record := r, fr_event := e\<rparr>)))"

fun pool_value :: "fee_pool \<Rightarrow> string" where
  "pool_value OpeningPool = ''opening''"
| "pool_value CoverPool = ''cover''"

subsection \<open>Shares\<close>

text \<open>\<open>quantize(Decimal(1).scaleb(-k), rounding=ROUND_DOWN)\<close>.\<close>

definition toward_zero :: "dec \<Rightarrow> int" where
  "toward_zero x = (if 0 \<le> x then \<lfloor>x\<rfloor> else - \<lfloor>- x\<rfloor>)"

definition quantize_down :: "nat \<Rightarrow> dec \<Rightarrow> dec res" where
  "quantize_down k x =
     (let n = toward_zero (x * 10 ^ k)
      in if \<bar>n\<bar> < 10 ^ 28 then Inr (of_int n / 10 ^ k) else Inl InvalidOperation)"

fun fee_shares :: "string \<Rightarrow> nat \<Rightarrow> dec \<Rightarrow> dec \<Rightarrow> dec \<Rightarrow> (string \<times> dec \<times> fee_pool) list \<Rightarrow> fee_allocation list res" where
  "fee_shares fee k signed total_proceeds remaining [] = Inr []"
| "fee_shares fee k signed total_proceeds remaining ((rid, proceeds, pool) # rest) =
     bindR (if rest = [] then Inr remaining else quantize_down k (dquot (dmul signed proceeds) total_proceeds)) (\<lambda>amount.
     bindR (allocation_post_init \<lparr>fa_fee = fee, fa_record = rid, fa_pool = pool, fa_amount = amount\<rparr>) (\<lambda>share.
     bindR (fee_shares fee k signed total_proceeds (dsub remaining amount) rest) (\<lambda>shares.
       Inr (share # shares))))"

definition fee_order :: "(string \<times> dec) list \<Rightarrow> (string \<times> dec \<times> fee_pool) list \<Rightarrow> (string \<times> dec \<times> fee_pool) list" where
  "fee_order targets quarantined = map (\<lambda>(rid, proceeds). (rid, proceeds, OpeningPool)) targets @ quarantined"

definition proceeds_of :: "string \<times> dec \<times> fee_pool \<Rightarrow> dec" where
  "proceeds_of x = fst (snd x)"

definition allocate_fee ::
  "string \<Rightarrow> nat \<Rightarrow> dec \<Rightarrow> (string \<times> dec) list \<Rightarrow> (string \<times> dec \<times> fee_pool) list \<Rightarrow> fee_allocation list res" where
  "allocate_fee fee k signed targets quarantined =
     (let ordered = fee_order targets quarantined; total_proceeds = dsum (map proceeds_of ordered)
      in bindR (guardR (ordered \<noteq> [] \<and> 0 < total_proceeds \<and> \<not> list_ex (\<lambda>x. proceeds_of x < 0) ordered)
                  (ValueError ''QUARANTINE_FEE_ALLOCATION_INVALID'')) (\<lambda>_.
           fee_shares fee k signed total_proceeds signed ordered))"

definition recognize_at_resolution ::
  "nat \<Rightarrow> string \<Rightarrow> fee_pool \<Rightarrow> dec \<Rightarrow> dec \<Rightarrow> dec \<Rightarrow> string \<Rightarrow> time \<Rightarrow> fee_recognition res" where
  "recognize_at_resolution k rid pool open_before covered unrecognized event now =
     bindR (guardR (0 < covered \<and> covered \<le> open_before) (ValueError ''QUARANTINE_RESOLUTION_QUANTITY_INVALID'')) (\<lambda>_.
     bindR (if covered = open_before then Inr unrecognized
            else quantize_down k (dquot (dmul unrecognized covered) open_before)) (\<lambda>amount.
       recognition_post_init \<lparr>fr_record = rid, fr_event = event, fr_pool = pool, fr_amount = amount, fr_at = now\<rparr>))"

definition recognize_adjustment :: "string \<Rightarrow> fee_pool \<Rightarrow> dec \<Rightarrow> string \<Rightarrow> time \<Rightarrow> fee_recognition res" where
  "recognize_adjustment rid pool amount event posted_at =
     recognition_post_init \<lparr>fr_record = rid, fr_event = event, fr_pool = pool, fr_amount = amount, fr_at = posted_at\<rparr>"

subsection \<open>The stored rows\<close>

definition on_quarantine :: "(quarantine_tables \<Rightarrow> quarantine_tables) \<Rightarrow> ledger \<Rightarrow> ledger" where
  "on_quarantine f db = db\<lparr>db_quarantine := f (db_quarantine db)\<rparr>"

definition ATTRIBUTION_PREFIX :: string where "ATTRIBUTION_PREFIX = ''attribution:''"

definition allocation_key :: "fee_allocation \<Rightarrow> string" where
  "allocation_key a = fa_fee a @ ''|'' @ fa_record a"

definition insert_allocation :: "time \<Rightarrow> fee_allocation tbl \<Rightarrow> fee_allocation \<Rightarrow> fee_allocation tbl res" where
  "insert_allocation created rows share =
     (if starts_with ATTRIBUTION_PREFIX (fa_record share) then Inr rows
      else case find_by_unique rows (allocation_key share) of
             Some r \<Rightarrow> if fa_amount (r_payload r) \<noteq> fa_amount share
                       then Inl (EvidenceChanged (''BROKER_EVIDENCE_CHANGED: '' @ allocation_key share)) else Inr rows
           | None \<Rightarrow> insert_new (stored_row (allocation_key share) (Some (allocation_key share)) created share) rows)"

definition insert_allocations :: "fee_allocation list \<Rightarrow> time \<Rightarrow> ledger \<Rightarrow> ledger res" where
  "insert_allocations shares created db =
     bindR (foldR (insert_allocation created) (qt_allocations (db_quarantine db)) shares) (\<lambda>t.
       Inr (on_quarantine (\<lambda>q. q\<lparr>qt_allocations := t\<rparr>) db))"

definition record_allocations :: "fee_allocation list \<Rightarrow> time \<Rightarrow> unit routine" where
  "record_allocations shares now = writeP (\<lambda>db. bindR (insert_allocations shares now db) (\<lambda>db1. Inr ((), db1)))"

definition recognition_key :: "fee_recognition \<Rightarrow> string" where
  "recognition_key r = fr_record r @ ''|'' @ fr_event r @ ''|'' @ pool_value (fr_pool r)"

definition record_recognition :: "env \<Rightarrow> fee_recognition \<Rightarrow> bool routine" where
  "record_recognition en r =
     create_in en ''quarantine_fee_recognitions'' (\<lambda>db. qt_recognitions (db_quarantine db))
       (\<lambda>f. on_quarantine (\<lambda>q. q\<lparr>qt_recognitions := f (qt_recognitions q)\<rparr>))
       (recognition_key r) None (Some (recognition_key r)) None r"

subsection \<open>Conservation\<close>

definition allocated_amount :: "fee_allocation list \<Rightarrow> string \<Rightarrow> fee_pool \<Rightarrow> dec" where
  "allocated_amount shares rid pool = dsum (map fa_amount (filter (\<lambda>s. fa_record s = rid \<and> fa_pool s = pool) shares))"

definition recognized_amount :: "fee_recognition list \<Rightarrow> string \<Rightarrow> fee_pool \<Rightarrow> dec" where
  "recognized_amount items rid pool = dsum (map fr_amount (filter (\<lambda>s. fr_record s = rid \<and> fr_pool s = pool) items))"

definition conservation :: "ledger \<Rightarrow> string \<Rightarrow> fee_pool \<Rightarrow> dec \<times> dec \<times> dec" where
  "conservation db rid pool =
     (let a = allocated_amount (rows_of (qt_allocations (db_quarantine db))) rid pool;
          r = recognized_amount (rows_of (qt_recognitions (db_quarantine db))) rid pool
      in (a, r, dsub a r))"

text \<open>The open records are \<open>quarantined_positions\<close> of the ledger.\<close>

definition open_positions :: "ledger \<Rightarrow> quarantined list" where
  "open_positions db =
     quarantined_positions (qt_resolutions (db_quarantine db)) [] (db_liabilities db) (qt_inventory (db_quarantine db)) None"

definition fee_pools :: "ledger \<Rightarrow> (string \<times> fee_pool) list" where
  "fee_pools db =
     sort_key (\<lambda>(rid, pool). (rid, pool_value pool))
       (remdups (map (\<lambda>s. (fa_record s, fa_pool s)) (rows_of (qt_allocations (db_quarantine db)))))"

definition check_c1 :: "ledger \<Rightarrow> string list" where
  "check_c1 db =
     (let open_ids = map qp_record_id (open_positions db)
      in map (\<lambda>(rid, pool). rid @ ''|'' @ pool_value pool)
           (filter (\<lambda>(rid, pool). snd (snd (conservation db rid pool)) \<noteq> 0 \<and> (rid \<notin> set open_ids \<or> pool = CoverPool)) (fee_pools db)))"

subsection \<open>Facts about shares\<close>

lemma toward_zero_bounds: "0 \<le> x \<Longrightarrow> 0 \<le> toward_zero x \<and> of_int (toward_zero x) \<le> x"
  by (simp add: toward_zero_def)

lemma toward_zero_minus: "toward_zero (- x) = - toward_zero x"
  by (auto simp: toward_zero_def)

lemma quantize_down_nonneg: "quantize_down k x = Inr y \<Longrightarrow> 0 \<le> x \<Longrightarrow> 0 \<le> y \<and> y \<le> x"
  using toward_zero_bounds [of "x * 10 ^ k"] by (auto simp: quantize_down_def Let_def divide_le_eq split: if_splits)

lemma quantize_down_minus: "quantize_down k x = Inr y \<Longrightarrow> quantize_down k (- x) = Inr (- y)"
  by (auto simp: quantize_down_def Let_def toward_zero_minus split: if_splits)

lemma quantize_down_grid: "quantize_down k x = Inr y \<Longrightarrow> grid k y"
  by (auto simp: quantize_down_def grid_def Let_def less_imp_le split: if_splits)

text \<open>A proportional part of \<open>s\<close> lies between zero and \<open>s\<close> when \<open>s\<close> times the whole is exact.\<close>

lemma part_nonneg:
  assumes "quantize_down k (dquot (dmul s p) w) = Inr y" and "0 \<le> s" "0 \<le> p" "p \<le> w" "0 < w" and "ctx s = s" "ctx (s * w) = s * w"
  shows "0 \<le> y \<and> y \<le> s"
proof -
  have "dmul s p \<le> s * w" unfolding dmul_def using assms(2-4,7) by (metis ctx_mono mult_left_mono)
  then have "dmul s p / w \<le> s" using assms(5) by (simp add: field_simps)
  then have "dquot (dmul s p) w \<le> s" unfolding dquot_def using assms(6) by (metis ctx_mono)
  moreover have "0 \<le> dquot (dmul s p) w" using assms(2,3,5) by (simp add: dquot_nonneg dmul_nonneg)
  ultimately show ?thesis using quantize_down_nonneg [OF assms(1)] by linarith
qed

lemma dquot_dmul_minus: "dquot (dmul (- s) p) w = - dquot (dmul s p) w"
  by (simp add: dquot_def dmul_def ctx_minus)

lemma part_between:
  assumes "quantize_down k (dquot (dmul s p) w) = Inr y" and "0 \<le> p" "p \<le> w" "0 < w" and "ctx s = s" "ctx (s * w) = s * w"
  shows "\<bar>y\<bar> \<le> \<bar>s\<bar> \<and> 0 \<le> y * s"
proof (cases "0 \<le> s")
  case True
  then show ?thesis using part_nonneg [OF assms(1) True assms(2-6)] by simp
next
  case False
  have "quantize_down k (dquot (dmul (- s) p) w) = Inr (- y)"
    unfolding dquot_dmul_minus by (rule quantize_down_minus [OF assms(1)])
  moreover have "ctx (- s * w) = - s * w" using assms(6) by (simp add: ctx_minus)
  ultimately have "0 \<le> - y \<and> - y \<le> - s"
    using part_nonneg [of k "- s" p w "- y"] False assms(2-5) by (simp add: ctx_minus)
  then show ?thesis using False by (simp add: mult_nonpos_nonpos)
qed

lemma dsum_from_ge:
  assumes "\<forall>x\<in>set xs. 0 \<le> x \<and> ctx x = x" and "0 \<le> acc" and "ctx acc = acc"
  shows "acc \<le> dsum_from acc xs \<and> (\<forall>x\<in>set xs. x \<le> dsum_from acc xs)"
  using assms
proof (induction xs arbitrary: acc)
  case Nil
  then show ?case by simp
next
  case (Cons x xs)
  have le: "acc \<le> dadd acc x" "x \<le> dadd acc x"
    unfolding dadd_def using Cons.prems by (auto intro: dctx.ge_fixed)
  have "dadd acc x \<le> dsum_from (dadd acc x) xs \<and> (\<forall>y\<in>set xs. y \<le> dsum_from (dadd acc x) xs)"
    using Cons.prems by (intro Cons.IH) (auto simp: dadd_nonneg)
  then show ?case using le by auto
qed

lemma allocation_post_init_amount: "allocation_post_init a = Inr b \<Longrightarrow> fa_amount b = fa_amount a \<and> fa_pool b = fa_pool a"
  by (auto simp: allocation_post_init_def bindR_Inr_iff)

text \<open>The shares add up to what remained, when no partial remainder leaves the grid.\<close>

lemma fee_shares_sum:
  assumes "fee_shares fee k s w remaining xs = Inr shares" and "xs \<noteq> []"
    and "\<forall>x\<in>set xs. 0 \<le> proceeds_of x \<and> proceeds_of x \<le> w" and "0 < w" and "ctx s = s" "ctx (s * w) = s * w"
    and "grid k remaining" and "\<bar>remaining\<bar> + of_nat (length xs) * \<bar>s\<bar> \<le> c" and "grid k c"
  shows "(\<Sum>a\<leftarrow>shares. fa_amount a) = remaining \<and> length shares = length xs
     \<and> (\<forall>a\<in>set (butlast shares). \<bar>fa_amount a\<bar> \<le> \<bar>s\<bar> \<and> 0 \<le> fa_amount a * s)"
  using assms
proof (induction xs arbitrary: remaining shares)
  case Nil
  then show ?case by simp
next
  case (Cons x rest)
  obtain rid p pool where x: "x = (rid, p, pool)" by (cases x) auto
  from Cons.prems(1) obtain amount share ss where
    am: "(if rest = [] then Inr remaining else quantize_down k (dquot (dmul s p) w)) = Inr amount"
    and sh: "allocation_post_init \<lparr>fa_fee = fee, fa_record = rid, fa_pool = pool, fa_amount = amount\<rparr> = Inr share"
    and ss: "fee_shares fee k s w (dsub remaining amount) rest = Inr ss" and shares: "shares = share # ss"
    unfolding x by (auto simp: bindR_Inr_iff)
  have fa: "fa_amount share = amount" using allocation_post_init_amount [OF sh] by simp
  show ?case
  proof (cases "rest = []")
    case True
    then show ?thesis using am ss shares fa by simp
  next
    case False
    then have q: "quantize_down k (dquot (dmul s p) w) = Inr amount" using am by simp
    have part: "\<bar>amount\<bar> \<le> \<bar>s\<bar> \<and> 0 \<le> amount * s"
      using part_between [OF q] Cons.prems(3-6) by (simp add: x proceeds_of_def)
    have le: "\<bar>remaining - amount\<bar> + of_nat (length rest) * \<bar>s\<bar> \<le> c"
      using part Cons.prems(8) by (auto simp: algebra_simps)
    have "0 \<le> of_nat (length rest) * \<bar>s\<bar>" by simp
    then have "\<bar>remaining + - amount\<bar> \<le> \<bar>c\<bar>" using le by linarith
    then have g: "grid k (remaining - amount)"
      using grid_add [OF Cons.prems(7) grid_minus [OF quantize_down_grid [OF q]] Cons.prems(9)] by simp
    have d: "dsub remaining amount = remaining - amount" by (simp add: dsub_def grid_ctx [OF g])
    have "(\<Sum>a\<leftarrow>ss. fa_amount a) = remaining - amount \<and> length ss = length rest
       \<and> (\<forall>a\<in>set (butlast ss). \<bar>fa_amount a\<bar> \<le> \<bar>s\<bar> \<and> 0 \<le> fa_amount a * s)"
      using Cons.IH [OF _ False _ Cons.prems(4-6) g le Cons.prems(9), of ss] ss Cons.prems(3) by (simp add: d)
    then show ?thesis using False part by (auto simp: shares fa)
  qed
qed

lemma allocate_fee_sum:
  assumes "allocate_fee fee k s targets quarantined = Inr shares"
    and "\<forall>x\<in>set (fee_order targets quarantined). ctx (proceeds_of x) = proceeds_of x"
    and "ctx (s * dsum (map proceeds_of (fee_order targets quarantined))) = s * dsum (map proceeds_of (fee_order targets quarantined))"
    and "grid k s" and "of_nat (length (fee_order targets quarantined) + 1) * \<bar>s\<bar> \<le> c" and "grid k c"
  shows "(\<Sum>a\<leftarrow>shares. fa_amount a) = s \<and> length shares = length (fee_order targets quarantined)
     \<and> (\<forall>a\<in>set (butlast shares). \<bar>fa_amount a\<bar> \<le> \<bar>s\<bar> \<and> 0 \<le> fa_amount a * s)"
proof -
  let ?xs = "fee_order targets quarantined" let ?w = "dsum (map proceeds_of ?xs)"
  from assms(1) have ne: "?xs \<noteq> []" and w: "0 < ?w" and nn: "\<forall>x\<in>set ?xs. 0 \<le> proceeds_of x"
    and run: "fee_shares fee k s ?w s ?xs = Inr shares"
    by (auto simp: allocate_fee_def Let_def res_iffs list_ex_iff not_less)
  have "\<forall>x\<in>set ?xs. proceeds_of x \<le> ?w"
    using dsum_from_ge [of "map proceeds_of ?xs" 0] nn assms(2) by (auto simp: dsum_def)
  then show ?thesis
    using fee_shares_sum [OF run ne _ w grid_ctx [OF assms(4)] assms(3,4) _ assms(6)] nn assms(5) by (auto simp: algebra_simps)
qed

lemma recognition_post_init_amount:
  "recognition_post_init a = Inr b \<Longrightarrow> fr_amount b = fr_amount a \<and> fr_pool b = fr_pool a \<and> fr_at b = fr_at a"
  by (auto simp: recognition_post_init_def bindR_Inr_iff)

lemma recognize_between:
  assumes "recognize_at_resolution k rid pool q0 q u event now = Inr r" and "ctx u = u" and "ctx (u * q0) = u * q0"
  shows "\<bar>fr_amount r\<bar> \<le> \<bar>u\<bar> \<and> 0 \<le> fr_amount r * u \<and> (q = q0 \<longrightarrow> fr_amount r = u) \<and> fr_pool r = pool"
proof -
  from assms(1) obtain amount where q: "0 < q" "q \<le> q0"
    and am: "(if q = q0 then Inr u else quantize_down k (dquot (dmul u q) q0)) = Inr amount"
    and r: "recognition_post_init \<lparr>fr_record = rid, fr_event = event, fr_pool = pool, fr_amount = amount, fr_at = now\<rparr> = Inr r"
    by (auto simp: recognize_at_resolution_def res_iffs)
  show ?thesis
    using recognition_post_init_amount [OF r] am q part_between [of k u q q0 amount] assms(2,3)
    by (auto split: if_splits)
qed

subsection \<open>Facts about the rows\<close>

lemma find_append_new: "find_by_unique rows u \<noteq> None \<Longrightarrow> find_by_unique (rows @ [r]) u = find_by_unique rows u"
  by (induction rows) auto

lemma find_append_last: "find_by_unique rows u = None \<Longrightarrow> r_unique r = Some u \<Longrightarrow> find_by_unique (rows @ [r]) u = Some r"
  by (induction rows) auto

lemma insert_new_Inr: "insert_new r rows = Inr t \<longleftrightarrow> insert_or_ignore r rows = (True, t)"
  by (auto simp: insert_new_def split: prod.splits bool.splits)

lemma insert_new_append: "insert_new r rows = Inr t \<Longrightarrow> t = rows @ [r] \<and> get_row rows (r_id r) = None
    \<and> (\<forall>u. r_unique r = Some u \<longrightarrow> find_by_unique rows u = None)"
  by (auto simp: insert_new_Inr insert_or_ignore_def split: if_splits option.splits)

definition allocation_in :: "fee_allocation tbl \<Rightarrow> fee_allocation \<Rightarrow> bool" where
  "allocation_in rows a \<longleftrightarrow> starts_with ATTRIBUTION_PREFIX (fa_record a)
     \<or> (\<exists>r. find_by_unique rows (allocation_key a) = Some r \<and> fa_amount (r_payload r) = fa_amount a)"

lemma insert_allocation_in: "insert_allocation now rows a = Inr t \<Longrightarrow> allocation_in t a \<and> (\<exists>new. t = rows @ new)"
  by (auto simp: insert_allocation_def allocation_in_def stored_row_def find_append_last split: if_splits option.splits dest!: insert_new_append)

lemma find_append_some: "find_by_unique rows u = Some r \<Longrightarrow> find_by_unique (rows @ new) u = Some r"
  by (induction rows) (auto split: if_splits)

lemma allocation_in_append: "allocation_in rows a \<Longrightarrow> allocation_in (rows @ new) a"
  by (auto simp: allocation_in_def dest: find_append_some)

lemma insert_allocation_again: "allocation_in rows a \<Longrightarrow> insert_allocation now rows a = Inr rows"
  by (auto simp: allocation_in_def insert_allocation_def)

lemma insert_all_in: "foldR (insert_allocation now) rows shares = Inr t \<Longrightarrow> (\<exists>new. t = rows @ new) \<and> (\<forall>a\<in>set shares. allocation_in t a)"
proof (induction shares arbitrary: rows)
  case Nil
  then show ?case by simp
next
  case (Cons a shares)
  then obtain u where u: "insert_allocation now rows a = Inr u" "foldR (insert_allocation now) u shares = Inr t"
    by (auto simp: bindR_Inr_iff)
  from insert_allocation_in [OF u(1)] Cons.IH [OF u(2)] show ?case
    using allocation_in_append [of u a] by fastforce
qed

lemma insert_all_again: "\<forall>a\<in>set shares. allocation_in rows a \<Longrightarrow> foldR (insert_allocation now) rows shares = Inr rows"
  by (induction shares) (auto simp: insert_allocation_again)


subsection \<open>Properties\<close>

text \<open>C36: The shares of a fee add up to the fee, one for each closure and quarantined record; every
  share but the last, which takes the remainder, has the fee's sign and is no larger. The
  stored shares are append-only: storing the same shares again changes nothing.\<close>

theorem fee_split_conserves:
  assumes "allocate_fee fee k s targets quarantined = Inr shares"
    and "\<forall>x\<in>set (fee_order targets quarantined). ctx (proceeds_of x) = proceeds_of x"
    and "ctx (s * dsum (map proceeds_of (fee_order targets quarantined))) = s * dsum (map proceeds_of (fee_order targets quarantined))"
    and "grid k s" and "of_nat (length (fee_order targets quarantined) + 1) * \<bar>s\<bar> \<le> c" and "grid k c"
    and "insert_allocations shares now db = Inr db'"
  shows "(\<Sum>a\<leftarrow>shares. fa_amount a) = s \<and> length shares = length (fee_order targets quarantined)
     \<and> (\<forall>a\<in>set (butlast shares). \<bar>fa_amount a\<bar> \<le> \<bar>s\<bar> \<and> 0 \<le> fa_amount a * s)
     \<and> insert_allocations shares later db' = Inr db'"
proof -
  obtain t where t: "foldR (insert_allocation now) (qt_allocations (db_quarantine db)) shares = Inr t"
    and db': "db' = on_quarantine (\<lambda>q. q\<lparr>qt_allocations := t\<rparr>) db"
    using assms(7) by (auto simp: insert_allocations_def bindR_Inr_iff)
  have "foldR (insert_allocation later) t shares = Inr t" using insert_all_in [OF t] insert_all_again by blast
  then have "insert_allocations shares later db' = Inr db'" by (simp add: insert_allocations_def db' on_quarantine_def)
  then show ?thesis using allocate_fee_sum [OF assms(1-6)] by blast
qed

lemma demo_fee_shares:
  "allocate_fee ''fee'' 2 1 [] [(''A'', 1, OpeningPool), (''B'', 3, CoverPool)] = Inr [\<lparr>fa_fee = ''fee'', fa_record = ''A'', fa_pool = OpeningPool, fa_amount = 1 / 4\<rparr>,
     \<lparr>fa_fee = ''fee'', fa_record = ''B'', fa_pool = CoverPool, fa_amount = 3 / 4\<rparr>]"
proof -
  have t: "require_text (Some ''fee'') = Inr ''fee''" "require_text (Some ''A'') = Inr ''A''" "require_text (Some ''B'') = Inr ''B''" by code_simp+
  have c: "ctx (1 / 4) = 1 / 4" "ctx (3 / 4) = 3 / 4" using ctx_frac [of 25 2] ctx_frac [of 75 2] by simp_all
  show ?thesis
    by (simp add: allocate_fee_def fee_order_def proceeds_of_def dsum_def dadd_def dmul_def dquot_def dsub_def c t quantize_down_def toward_zero_def
        allocation_post_init_def Let_def)
qed

theorem fee_split_conserves_witness:
  "(1 / 4 + 3 / 4 :: dec) = 1 \<and> (\<exists>db'. insert_allocations [\<lparr>fa_fee = ''fee'', fa_record = ''A'', fa_pool = OpeningPool, fa_amount = 1 / 4\<rparr>,
     \<lparr>fa_fee = ''fee'', fa_record = ''B'', fa_pool = CoverPool, fa_amount = 3 / 4\<rparr>] 9 db' = Inr (db' :: ledger))"
proof -
  let ?shares = "[\<lparr>fa_fee = ''fee'', fa_record = ''A'', fa_pool = OpeningPool, fa_amount = 1 / 4\<rparr>, \<lparr>fa_fee = ''fee'', fa_record = ''B'', fa_pool = CoverPool, fa_amount = 3 / 4\<rparr>]"
  have p: "starts_with ATTRIBUTION_PREFIX ''A'' = False" "starts_with ATTRIBUTION_PREFIX ''B'' = False" by code_simp+
  have "qt_allocations (db_quarantine demo_ledger) = []" by (simp add: demo_ledger_def no_quarantine_def)
  then have "\<not> isl (insert_allocations ?shares 1 demo_ledger)"
    by (simp add: insert_allocations_def insert_allocation_def p allocation_key_def insert_new_def insert_or_ignore_def stored_row_def)
  then obtain db' where ins: "insert_allocations ?shares 1 demo_ledger = Inr db'" by (cases "insert_allocations ?shares 1 demo_ledger") auto
  have o': "fee_order [] [(''A'', 1, OpeningPool), (''B'', 3, CoverPool)] = [(''A'', 1, OpeningPool), (''B'', 3, CoverPool)]" by (simp add: fee_order_def)
  have g: "grid 2 (1 :: dec)" "grid 2 (3 :: dec)" by (rule gridI [of _ _ 100], simp_all) (rule gridI [of _ _ 300], simp_all)
  show ?thesis
    using fee_split_conserves [OF demo_fee_shares _ _ g(1) _ g(2) ins, of 9]
    by (auto simp: o' proceeds_of_def dsum_def dadd_def)
qed

end
