(* ===== verification/Resolution.thy ===== *)
theory Resolution
  imports Fee_Shares
begin

text \<open>
  \<open>quarantine/resolve.py\<close>, \<open>quarantine/corporate_actions.py\<close> and \<open>quarantine/release.py\<close>: one
  verified broker execution closes the open quarantined records of its instrument, oldest
  first. The checks run once on a read and once more inside the write transaction; between
  the two other tasks may write (\<open>rp_between\<close>). The port carries the broker's answers, the
  account lease, the printed form of a Decimal, the places a fee balance is written with, and
  the evidence digest.
\<close>

record open_record =
  or_id :: string
  or_short :: bool
  or_quantity :: dec
  or_price :: dec
  or_multiplier :: dec
  or_opened_at :: time
  or_asset :: asset_identity

record resolve_port =
  rp_fills :: "activity list res"
  rp_since :: "time \<Rightarrow> activity list res"
  rp_lease :: "nat \<Rightarrow> unit res"
  rp_between :: "ledger \<Rightarrow> ledger"
  rp_text :: "dec \<Rightarrow> string"
  rp_places :: "string \<Rightarrow> nat"
  rp_sha :: evidence_sha

subsection \<open>Open records\<close>

definition payloads :: "'p tbl \<Rightarrow> 'p list" where
  "payloads t = map r_payload t"

definition resolved_totals :: "ledger \<Rightarrow> (string \<times> dec) list" where
  "resolved_totals db = resolved_quantities (payloads (qt_resolutions (db_quarantine db)))"

definition liability_record :: "(string \<times> dec) list \<Rightarrow> short_exposure_liability \<Rightarrow> open_record" where
  "liability_record resolved s =
     \<lparr>or_id = sl_id s, or_short = True, or_quantity = dsub (sl_quantity s) (dict_get resolved (sl_id s)), or_price = sl_sale_price s,
      or_multiplier = sl_multiplier s, or_opened_at = sl_opened_at s, or_asset = sl_asset s\<rparr>"

definition inventory_record :: "(string \<times> dec) list \<Rightarrow> unmanaged_inventory \<Rightarrow> open_record" where
  "inventory_record resolved u =
     \<lparr>or_id = ui_id u, or_short = False, or_quantity = dsub (ui_quantity u) (dict_get resolved (ui_id u)), or_price = ui_cost_price u,
      or_multiplier = ui_multiplier u, or_opened_at = ui_opened_at u, or_asset = ui_asset u\<rparr>"

definition all_records :: "ledger \<Rightarrow> open_record list" where
  "all_records db =
     map (liability_record (resolved_totals db)) (payloads (db_liabilities db))
     @ map (inventory_record (resolved_totals db)) (payloads (qt_inventory (db_quarantine db)))"

definition open_records :: "ledger \<Rightarrow> string \<Rightarrow> open_record list" where
  "open_records db key =
     sort_key (\<lambda>r. (or_opened_at r, or_id r))
       (filter (\<lambda>r. asset_identity_key (or_asset r) = key \<and> 0 < or_quantity r) (all_records db))"

definition unrecognized :: "ledger \<Rightarrow> string \<Rightarrow> dec" where
  "unrecognized db rid =
     dsub (allocated_amount (payloads (qt_allocations (db_quarantine db))) rid OpeningPool)
          (recognized_amount (payloads (qt_recognitions (db_quarantine db))) rid OpeningPool)"

subsection \<open>Corporate actions\<close>

definition CORPORATE_ACTION_ACTIVITY_TYPES :: "string list" where
  "CORPORATE_ACTION_ACTIVITY_TYPES =
     [''MA'', ''NC'', ''SC'', ''SSO'', ''SSP'', ''REORG'', ''ACATS'', ''JNLS'', ''FOPT'', ''OPASN'', ''OPEXP'', ''OPXRC'']"

definition HARMLESS_ACTIVITY_TYPES :: "string list" where
  "HARMLESS_ACTIVITY_TYPES =
     [''FILL'', ''FEE'', ''CFEE'', ''PTC'', ''PTR'', ''JNLC'', ''ACATC'', ''CSD'', ''CSW'', ''TRANS'', ''INT'', ''INTNRA'', ''INTTW'']"

text \<open>\<open>ac_day\<close> is the day of the raw \<open>date\<close> or \<open>created_at\<close>, \<open>None\<close> when it is not a date.\<close>

definition corporate_date :: "activity \<Rightarrow> day option" where
  "corporate_date a = (case ac_time a of Some t \<Rightarrow> Some (date_of t) | None \<Rightarrow> ac_day a)"

fun corporate_action_blocks :: "activity list \<Rightarrow> string \<Rightarrow> time \<Rightarrow> string option res" where
  "corporate_action_blocks [] key since = Inr None"
| "corporate_action_blocks (a # rest) key since =
     (if ac_symbol a = [] then corporate_action_blocks rest key since
      else bindR (broker_symbol_asset_key (ac_symbol a)) (\<lambda>k.
        if k \<noteq> key \<or> ac_type a \<in> set HARMLESS_ACTIVITY_TYPES
           \<or> (case corporate_date a of None \<Rightarrow> False | Some d \<Rightarrow> d < date_of since)
        then corporate_action_blocks rest key since
        else Inr (Some (ac_type a @ '' '' @ ac_id a))))"

subsection \<open>Checks\<close>

definition refuse :: "string \<Rightarrow> 'a res" where
  "refuse reason = Inl (QuarantineRefused reason)"

definition require :: "bool \<Rightarrow> string \<Rightarrow> unit res" where
  "require ok reason = (if ok then Inr () else refuse reason)"

definition find_activity :: "activity list \<Rightarrow> string \<Rightarrow> activity res" where
  "find_activity acts i =
     (case filter (\<lambda>a. ac_id a = i) acts of
        [] \<Rightarrow> refuse ''ACTIVITY_NOT_FOUND''
      | [a] \<Rightarrow> Inr a
      | _ \<Rightarrow> refuse ''ACTIVITY_AMBIGUOUS'')"

text \<open>The facts of a parsed execution: side, quantity, price and time.\<close>

definition execution_terms :: "activity \<Rightarrow> (side \<times> dec \<times> dec \<times> time) res" where
  "execution_terms a =
     bindR (require (ac_type a = ''FILL'') ''ACTIVITY_NOT_FILL'') (\<lambda>_.
       case (ac_side a, ac_qty a, ac_price a, ac_time a) of
         (Some sd, Some q, Some p, Some t) \<Rightarrow> if q \<le> 0 \<or> p \<le> 0 then refuse ''ACTIVITY_UNPARSABLE'' else Inr (sd, q, p, t)
       | _ \<Rightarrow> refuse ''ACTIVITY_UNPARSABLE'')"

definition activity_used :: "ledger \<Rightarrow> string \<Rightarrow> bool" where
  "activity_used db i \<longleftrightarrow>
     get_row (db_executions db) i \<noteq> None
     \<or> list_ex (\<lambda>r. qs_activity_id r = i) (payloads (qt_resolutions (db_quarantine db)))"

definition evidence_changed :: "ledger \<Rightarrow> activity \<Rightarrow> bool" where
  "evidence_changed db a =
     (case get_row (ev_unresolved (db_evidence db)) (ac_id a) of
        None \<Rightarrow> False | Some r \<Rightarrow> ux_digest (r_payload r) \<noteq> ac_digest a)"

definition own_activity :: "ledger \<Rightarrow> activity \<Rightarrow> bool" where
  "own_activity db a \<longleftrightarrow>
     fill_row_of db (ac_id a) \<noteq> None
     \<or> ac_order a \<noteq> []
       \<and> (list_ex (\<lambda>t. ti_broker_order_id t = Some (ac_order a)) (payloads (db_intents db))
          \<or> list_ex (\<lambda>(i, b). i = ac_order a \<or> b = Some (ac_order a)) (qt_orders (db_quarantine db)))"

definition record_checks :: "open_record list \<Rightarrow> side \<times> dec \<times> dec \<times> time \<Rightarrow> (open_record list \<times> time) res" where
  "record_checks records terms =
     (case (records, terms) of
        ([], _) \<Rightarrow> refuse ''NO_OPEN_QUARANTINED_RECORD''
      | (first # _, (sd, q, p, t)) \<Rightarrow>
          bindR (require (list_all (\<lambda>r. or_short r = or_short first) records) ''QUARANTINE_MIXED_RECORDS'') (\<lambda>_.
          bindR (require (or_short first = (sd = BUY)) ''WRONG_SIDE'') (\<lambda>_.
          bindR (require (or_opened_at first < t) ''ACTIVITY_BEFORE_RECORD'') (\<lambda>_.
          bindR (require (or_short first \<or> q \<le> dsum (map or_quantity records)) ''SALE_EXCEEDS_UNMANAGED_INVENTORY'') (\<lambda>_.
            Inr (records, or_opened_at first))))))"

definition resolve_preflight :: "activity \<Rightarrow> string \<Rightarrow> side \<times> dec \<times> dec \<times> time \<Rightarrow> ledger \<Rightarrow> (open_record list \<times> time) res" where
  "resolve_preflight a key terms db =
     bindR (require (\<not> activity_used db (ac_id a)) ''ACTIVITY_ALREADY_USED'') (\<lambda>_.
     bindR (require (\<not> evidence_changed db a) ''BROKER_EVIDENCE_CHANGED'') (\<lambda>_.
     bindR (require (\<not> own_activity db a) ''ACTIVITY_HAS_TRADEPULSE_INTENT'') (\<lambda>_.
       record_checks (open_records db key) terms)))"

subsection \<open>The write\<close>

definition execution_post_init :: "quarantine_execution \<Rightarrow> quarantine_execution res" where
  "execution_post_init x =
     bindR (require_text (Some (qx_activity_id x))) (\<lambda>i.
     bindR (require_text (Some (qx_digest x))) (\<lambda>d.
     bindR (require_positive (qx_quantity x)) (\<lambda>_.
     bindR (require_positive (qx_price x)) (\<lambda>_.
       Inr (x\<lparr>qx_activity_id := i, qx_digest := d\<rparr>)))))"

definition execution_of :: "activity \<Rightarrow> side \<times> dec \<times> dec \<times> time \<Rightarrow> open_record \<Rightarrow> quarantine_execution res" where
  "execution_of a terms first =
     (case terms of (sd, q, p, t) \<Rightarrow>
        execution_post_init \<lparr>qx_activity_id = ac_id a, qx_kind = (if or_short first then LiabilityCover else UnmanagedSale),
          qx_asset = or_asset first, qx_side = sd, qx_quantity = q, qx_price = p, qx_executed_at = t, qx_digest = ac_digest a\<rparr>)"

definition add_execution :: "string \<Rightarrow> time \<Rightarrow> quarantine_execution \<Rightarrow> ledger \<Rightarrow> ledger res" where
  "add_execution i now x db =
     bindR (insert_new (stored_row i None now x) (db_executions db)) (\<lambda>t. Inr (db\<lparr>db_executions := t\<rparr>))"

definition add_cash :: "cash_entry \<Rightarrow> ledger \<Rightarrow> ledger res" where
  "add_cash c db =
     bindR (insert_new (stored_row (ce_id c) (Some (ce_idempotency_key c)) (ce_occurred_at c) c) (db_cash db)) (\<lambda>t. Inr (db\<lparr>db_cash := t\<rparr>))"

definition add_resolution :: "string \<Rightarrow> time \<Rightarrow> quarantine_resolution \<Rightarrow> ledger \<Rightarrow> ledger res" where
  "add_resolution k now r db =
     bindR (insert_new (stored_row k (Some k) now r) (qt_resolutions (db_quarantine db))) (\<lambda>t.
       Inr (on_quarantine (\<lambda>q. q\<lparr>qt_resolutions := t\<rparr>) db))"

definition add_recognition :: "time \<Rightarrow> fee_recognition \<Rightarrow> ledger \<Rightarrow> ledger res" where
  "add_recognition now r db =
     bindR (insert_new (stored_row (recognition_key r) (Some (recognition_key r)) now r) (qt_recognitions (db_quarantine db))) (\<lambda>t.
       Inr (on_quarantine (\<lambda>q. q\<lparr>qt_recognitions := t\<rparr>) db))"

definition add_inventory :: "string \<Rightarrow> time \<Rightarrow> unmanaged_inventory \<Rightarrow> ledger \<Rightarrow> ledger res" where
  "add_inventory i now u db =
     bindR (insert_new (stored_row (ui_id u) (Some i) now u) (qt_inventory (db_quarantine db))) (\<lambda>t.
       Inr (on_quarantine (\<lambda>q. q\<lparr>qt_inventory := t\<rparr>) db))"

definition add_audit :: "audit_event \<Rightarrow> ledger \<Rightarrow> ledger res" where
  "add_audit ev db =
     (if ae_id ev \<in> ae_id ` set (db_audit db) then Inl (DatabaseErr ''UNIQUE constraint failed'')
      else Inr (db\<lparr>db_audit := db_audit db @ [ev]\<rparr>))"

definition resolution_of :: "string \<Rightarrow> quarantine_execution \<Rightarrow> time \<Rightarrow> open_record \<Rightarrow> dec \<Rightarrow> quarantine_resolution res" where
  "resolution_of i x now r covered =
     (let move = (if or_short r then dsub (or_price r) (qx_price x) else dsub (qx_price x) (or_price r))
      in resolution_post_init \<lparr>qs_record_id = or_id r, qs_activity_id = i, qs_quantity = covered, qs_price = qx_price x,
           qs_realized_pnl = dmul (dmul covered move) (or_multiplier r), qs_resolved_at = now\<rparr>)"

definition recognize_open :: "resolve_port \<Rightarrow> string \<Rightarrow> time \<Rightarrow> open_record \<Rightarrow> dec \<Rightarrow> ledger \<Rightarrow> ledger res" where
  "recognize_open rp i now r covered db =
     (let u = unrecognized db (or_id r)
      in if u = 0 then Inr db
         else bindR (recognize_at_resolution (rp_places rp (or_id r)) (or_id r) OpeningPool (or_quantity r) covered u i now)
                (\<lambda>f. add_recognition now f db))"

fun resolve_loop ::
  "resolve_port \<Rightarrow> string \<Rightarrow> quarantine_execution \<Rightarrow> time \<Rightarrow> open_record list \<Rightarrow> dec \<Rightarrow> ledger
   \<Rightarrow> ((quarantine_resolution list \<times> dec) \<times> ledger) res" where
  "resolve_loop rp i x now [] remaining db = Inr (([], remaining), db)"
| "resolve_loop rp i x now (r # rs) remaining db =
     (if remaining \<le> 0 then Inr (([], remaining), db)
      else let covered = min remaining (or_quantity r)
           in bindR (resolution_of i x now r covered) (\<lambda>resolution.
              bindR (add_resolution (or_id r @ ''|'' @ i) now resolution db) (\<lambda>db1.
              bindR (recognize_open rp i now r covered db1) (\<lambda>db2.
              bindR (resolve_loop rp i x now rs (dsub remaining covered) db2) (\<lambda>((more, left), db3).
                Inr ((resolution # more, left), db3))))))"

definition surplus_of :: "string \<Rightarrow> quarantine_execution \<Rightarrow> dec \<Rightarrow> dec \<Rightarrow> unmanaged_inventory res" where
  "surplus_of i x multiplier left =
     inventory_post_init \<lparr>ui_id = ''unmanaged:'' @ i, ui_cover_activity_id = i, ui_asset = qx_asset x, ui_quantity = left,
       ui_cost_price = qx_price x, ui_multiplier = multiplier, ui_opened_at = qx_executed_at x\<rparr>"

definition add_surplus ::
  "string \<Rightarrow> quarantine_execution \<Rightarrow> time \<Rightarrow> dec \<Rightarrow> dec \<Rightarrow> ledger \<Rightarrow> (unmanaged_inventory option \<times> ledger) res" where
  "add_surplus i x now multiplier left db =
     (if 0 < left
      then bindR (surplus_of i x multiplier left) (\<lambda>u. bindR (add_inventory i now u db) (\<lambda>db1. Inr (Some u, db1)))
      else Inr (None, db))"

definition close_unresolved :: "resolve_port \<Rightarrow> string \<Rightarrow> string \<Rightarrow> quarantine_execution \<Rightarrow> time \<Rightarrow> ledger \<Rightarrow> ledger res" where
  "close_unresolved rp i digest x now db =
     (if get_row (ev_unresolved (db_evidence db)) i \<noteq> None \<and> get_row (ev_outcomes (db_evidence db)) i = None
      then bindR (outcome_of (rp_sha rp) i digest now (Quarantine_Execution, i, ExecutionEvidence x)) (\<lambda>o'. add_outcome o' now i db)
      else Inr db)"

fun execution_kind_value :: "execution_kind \<Rightarrow> string" where
  "execution_kind_value LiabilityCover = ''liability_cover''"
| "execution_kind_value UnmanagedSale = ''unmanaged_sale''"

definition resolve_event ::
  "resolve_port \<Rightarrow> activity \<Rightarrow> string \<Rightarrow> quarantine_execution \<Rightarrow> quarantine_resolution list \<Rightarrow> unmanaged_inventory option \<Rightarrow> time \<Rightarrow> audit_event" where
  "resolve_event rp a reason x resolved surplus now =
     \<lparr>ae_id = ''quarantine_resolve:'' @ ac_id a, ae_type = ''quarantine_resolve'', ae_severity = ''warning'',
      ae_message = ''quarantine resolve: '' @ execution_kind_value (qx_kind x) @ '' '' @ rp_text rp (qx_quantity x) @ '' '' @ ac_symbol a
        @ '' at '' @ rp_text rp (qx_price x),
      ae_at = now, ae_entity_type = ''quarantine_execution'', ae_entity_id = ac_id a,
      ae_details = [(''reason'', Some reason), (''kind'', Some (execution_kind_value (qx_kind x))),
        (''resolved'', Some (join_ids (map qs_record_id resolved))), (''surplus'', map_option ui_id surplus), (''raw_sha256'', Some (ac_digest a))]\<rparr>"

type_synonym resolve_result = "quarantine_resolution list \<times> unmanaged_inventory option"

definition resolve_write ::
  "resolve_port \<Rightarrow> activity \<Rightarrow> string \<Rightarrow> string \<Rightarrow> side \<times> dec \<times> dec \<times> time \<Rightarrow> quarantine_execution \<Rightarrow> time \<Rightarrow> ledger
   \<Rightarrow> (resolve_result \<times> ledger) res" where
  "resolve_write rp a key reason terms x now db =
     bindR (resolve_preflight a key terms db) (\<lambda>(current, _).
     bindR (execution_cash x) (\<lambda>cash.
     bindR (add_execution (ac_id a) now x db) (\<lambda>db1.
     bindR (add_cash cash db1) (\<lambda>db2.
     bindR (resolve_loop rp (ac_id a) x now current (qx_quantity x) db2) (\<lambda>((resolved, left), db3).
     bindR (add_surplus (ac_id a) x now (or_multiplier (hd current)) left db3) (\<lambda>(surplus, db4).
     bindR (close_unresolved rp (ac_id a) (ac_digest a) x now db4) (\<lambda>db5.
     bindR (add_audit (resolve_event rp a reason x resolved surplus now) db5) (\<lambda>db6.
       Inr ((resolved, surplus), db6)))))))))"

subsection \<open>The command\<close>

definition others :: "(ledger \<Rightarrow> ledger) \<Rightarrow> unit routine" where
  "others f db = (Inr (), f db)"

definition resolve_from_activity :: "resolve_port \<Rightarrow> string \<Rightarrow> string \<Rightarrow> time \<Rightarrow> resolve_result routine" where
  "resolve_from_activity rp activity_id reason now =
     bindP (liftP (require (py_strip reason \<noteq> []) ''REASON_REQUIRED'')) (\<lambda>_.
     bindP (liftP (rp_lease rp 0)) (\<lambda>_.
     bindP (liftP (bindR (rp_fills rp) (\<lambda>acts. find_activity acts activity_id))) (\<lambda>a.
     bindP (liftP (execution_terms a)) (\<lambda>terms.
     bindP (liftP (broker_symbol_asset_key (ac_symbol a))) (\<lambda>key.
     bindP (tryP (resolve_preflight a key terms)) (\<lambda>(records, oldest).
     bindP (liftP (bindR (rp_since rp oldest) (\<lambda>acts. corporate_action_blocks acts key oldest))) (\<lambda>blocked.
     bindP (liftP (case blocked of None \<Rightarrow> Inr () | Some b \<Rightarrow> refuse (''CORPORATE_ACTION: '' @ b))) (\<lambda>_.
     bindP (liftP (rp_lease rp 1)) (\<lambda>_.
     bindP (liftP (execution_of a terms (hd records))) (\<lambda>x.
     bindP (others (rp_between rp)) (\<lambda>_.
       writeP (resolve_write rp a key reason terms x now))))))))))))"

text \<open>Whether an activity is exactly the stored execution, with its one cash entry.\<close>

definition activity_execution_issue :: "ledger \<Rightarrow> activity \<Rightarrow> string option res" where
  "activity_execution_issue db a =
     (case get_row (db_executions db) (ac_id a) of
        None \<Rightarrow> Inr (Some ''QUARANTINE_EXECUTION_MISSING'')
      | Some r \<Rightarrow>
          let x = r_payload r in
          if (Some (qx_side x), Some (qx_quantity x), Some (qx_price x), Some (qx_executed_at x)) \<noteq> (ac_side a, ac_qty a, ac_price a, ac_time a)
          then Inr (Some ''QUARANTINE_EXECUTION_FACTS_CHANGED'')
          else if qx_digest x \<noteq> ac_digest a then Inr (Some ''BROKER_EVIDENCE_CHANGED'')
          else cash_issue db x)"

subsection \<open>The reset's gates\<close>

definition record_wholes :: "ledger \<Rightarrow> (string \<times> dec) list" where
  "record_wholes db =
     map (\<lambda>s. (sl_id s, sl_quantity s)) (payloads (db_liabilities db))
     @ map (\<lambda>u. (ui_id u, ui_quantity u)) (payloads (qt_inventory (db_quarantine db)))"

definition record_quantities :: "ledger \<Rightarrow> (string \<times> dec) list" where
  "record_quantities db = foldl (\<lambda>d (k, q). AList.update k q d) [] (record_wholes db)"

definition over_resolved :: "ledger \<Rightarrow> string list" where
  "over_resolved db =
     map fst (filter (\<lambda>(k, q). case map_of (record_quantities db) k of None \<Rightarrow> True | Some whole \<Rightarrow> whole < q)
       (sort_key fst (resolved_totals db)))"

definition quarantine_cash_issues :: "ledger \<Rightarrow> (string \<times> string) list res" where
  "quarantine_cash_issues db = foldR (execution_issue db) [] (db_executions db)"

definition reset_gate_issues :: "ledger \<Rightarrow> string list res" where
  "reset_gate_issues db =
     bindR (quarantine_cash_issues db) (\<lambda>cash.
       Inr (map (\<lambda>p. ''QUARANTINE_OPEN: '' @ qp_record_id p) (open_positions db)
            @ map (\<lambda>k. ''INTEGRITY_VIOLATION: I5 '' @ k) (over_resolved db)
            @ map (\<lambda>(k, v). k @ '': '' @ v) (sort_key fst cash)
            @ map (\<lambda>i. ''INTEGRITY_VIOLATION: C1 '' @ i) (check_c1 db)))"


subsection \<open>What each write does\<close>

lemma payloads_append [simp]: "payloads (a @ b) = payloads a @ payloads b" "payloads [] = []" "payloads (r # a) = r_payload r # payloads a"
  by (simp_all add: payloads_def)

lemma stored_payload [simp]: "r_payload (stored_row i u now p) = p" "r_id (stored_row i u now p) = i" "r_unique (stored_row i u now p) = u"
  by (simp_all add: stored_row_def)

lemma on_quarantine_simps [simp]:
  "db_quarantine (on_quarantine f db) = f (db_quarantine db)" "db_liabilities (on_quarantine f db) = db_liabilities db"
  "db_executions (on_quarantine f db) = db_executions db" "db_cash (on_quarantine f db) = db_cash db"
  "db_evidence (on_quarantine f db) = db_evidence db" "db_audit (on_quarantine f db) = db_audit db"
  "on_quarantine f (on_quarantine g db) = on_quarantine (\<lambda>q. f (g q)) db"
  by (simp_all add: on_quarantine_def)

text \<open>A run of the loop only appends resolutions and recognitions.\<close>

definition appended :: "quarantine_resolution row list \<Rightarrow> fee_recognition row list \<Rightarrow> ledger \<Rightarrow> ledger" where
  "appended rows news = on_quarantine (\<lambda>q. q\<lparr>qt_resolutions := qt_resolutions q @ rows, qt_recognitions := qt_recognitions q @ news\<rparr>)"

lemma appended_simps [simp]:
  "qt_resolutions (db_quarantine (appended rows news db)) = qt_resolutions (db_quarantine db) @ rows"
  "qt_recognitions (db_quarantine (appended rows news db)) = qt_recognitions (db_quarantine db) @ news"
  "qt_allocations (db_quarantine (appended rows news db)) = qt_allocations (db_quarantine db)"
  "qt_inventory (db_quarantine (appended rows news db)) = qt_inventory (db_quarantine db)"
  "db_liabilities (appended rows news db) = db_liabilities db" "db_executions (appended rows news db) = db_executions db"
  "db_cash (appended rows news db) = db_cash db" "db_evidence (appended rows news db) = db_evidence db"
  "appended rows2 news2 (appended rows news db) = appended (rows @ rows2) (news @ news2) db"
  by (simp_all add: appended_def)

lemma appended_nothing: "appended [] [] db = db"
  by (simp add: appended_def on_quarantine_def)

lemma add_resolution_effect:
  "add_resolution k now r db = Inr db' \<Longrightarrow> db' = appended [stored_row k (Some k) now r] [] db"
  by (auto simp: add_resolution_def appended_def on_quarantine_def bindR_Inr_iff dest!: insert_new_append)

lemma add_recognition_effect:
  "add_recognition now r db = Inr db' \<Longrightarrow> db' = appended [] [stored_row (recognition_key r) (Some (recognition_key r)) now r] db"
  by (auto simp: add_recognition_def appended_def on_quarantine_def bindR_Inr_iff dest!: insert_new_append)

lemma py_strip_require: "require_text (Some s) = Inr t \<Longrightarrow> t = py_strip s"
  by (auto simp: require_text_def Let_def split: if_splits)

lemma resolution_of_fields:
  "resolution_of i x now r covered = Inr q \<Longrightarrow> qs_record_id q = py_strip (or_id r) \<and> qs_quantity q = covered \<and> 0 < covered
     \<and> qs_price q = qx_price x \<and> qs_activity_id q = py_strip i"
  by (auto simp: resolution_of_def resolution_post_init_def require_positive_def decimal_value_Inr_iff Let_def bindR_Inr_iff dest!: py_strip_require)

lemma recognize_open_effect:
  assumes "recognize_open rp i now r covered db = Inr db'"
  shows "\<exists>news. db' = appended [] news db \<and> (\<forall>n\<in>set (payloads news). fr_record n = py_strip (or_id r))"
proof (cases "unrecognized db (or_id r) = 0")
  case True
  then show ?thesis using assms by (intro exI [of _ "[]"]) (simp add: recognize_open_def appended_nothing)
next
  case False
  then obtain f where "recognize_at_resolution (rp_places rp (or_id r)) (or_id r) OpeningPool (or_quantity r) covered (unrecognized db (or_id r)) i now = Inr f"
    and w: "add_recognition now f db = Inr db'"
    using assms by (auto simp: recognize_open_def Let_def bindR_Inr_iff)
  then have "fr_record f = py_strip (or_id r)"
    by (auto simp: recognize_at_resolution_def recognition_post_init_def bindR_Inr_iff dest!: py_strip_require)
  then show ?thesis using add_recognition_effect [OF w] by auto
qed

definition ids_ok :: "open_record list \<Rightarrow> bool" where
  "ids_ok rs \<longleftrightarrow> distinct (map or_id rs) \<and> (\<forall>r\<in>set rs. py_strip (or_id r) = or_id r)"

text \<open>A balance whose difference is exact, so that recognising all of it leaves none.\<close>

definition exact_balance :: "ledger \<Rightarrow> string \<Rightarrow> bool" where
  "exact_balance db rid \<longleftrightarrow>
     unrecognized db rid = allocated_amount (payloads (qt_allocations (db_quarantine db))) rid OpeningPool
                         - recognized_amount (payloads (qt_recognitions (db_quarantine db))) rid OpeningPool"

lemma dsum_append_one: "dsum (xs @ [y]) = dadd (dsum xs) y"
proof -
  have "dsum_from acc (xs @ [y]) = dadd (dsum_from acc xs) y" for acc by (induction xs arbitrary: acc) auto
  then show ?thesis by (simp add: dsum_def)
qed

lemma dsum_fixed [simp]: "ctx (dsum xs) = dsum xs"
proof -
  have "ctx acc = acc \<Longrightarrow> ctx (dsum_from acc xs) = dsum_from acc xs" for acc by (induction xs arbitrary: acc) auto
  then show ?thesis by (simp add: dsum_def)
qed

lemma unrecognized_other:
  "\<forall>n\<in>set (payloads news). fr_record n \<noteq> rid \<Longrightarrow> unrecognized (appended rows news db) rid = unrecognized db rid"
  by (simp add: unrecognized_def recognized_amount_def filter_empty_conv cong: filter_cong)

lemma exact_balance_other:
  "\<forall>n\<in>set (payloads news). fr_record n \<noteq> rid \<Longrightarrow> exact_balance (appended rows news db) rid = exact_balance db rid"
  using unrecognized_other [of news rid rows db]
  by (simp add: exact_balance_def recognized_amount_def)

lemma recognize_all:
  assumes "recognize_open rp i now r (or_quantity r) db = Inr db'" and "exact_balance db (or_id r)" and "py_strip (or_id r) = or_id r"
  shows "unrecognized db' (or_id r) = 0"
proof (cases "unrecognized db (or_id r) = 0")
  case True
  then show ?thesis using assms(1) by (simp add: recognize_open_def)
next
  case False
  let ?u = "unrecognized db (or_id r)"
  from False assms(1) obtain f where f: "recognize_at_resolution (rp_places rp (or_id r)) (or_id r) OpeningPool (or_quantity r) (or_quantity r) ?u i now = Inr f"
    and w: "add_recognition now f db = Inr db'"
    by (auto simp: recognize_open_def Let_def bindR_Inr_iff)
  have "fr_record f = or_id r" "fr_amount f = ?u" "fr_pool f = OpeningPool"
    using f assms(3) by (auto simp: recognize_at_resolution_def recognition_post_init_def bindR_Inr_iff dest!: py_strip_require)
  then show ?thesis
    using assms(2) unfolding add_recognition_effect [OF w]
    by (simp add: unrecognized_def exact_balance_def recognized_amount_def allocated_amount_def dsum_append_one)
      (simp add: dsub_def dadd_def)
qed


subsection \<open>The loop\<close>

definition fits :: "quarantine_resolution \<times> open_record \<Rightarrow> bool" where
  "fits p \<longleftrightarrow> qs_record_id (fst p) = or_id (snd p) \<and> 0 < qs_quantity (fst p) \<and> qs_quantity (fst p) \<le> or_quantity (snd p)"

definition fully :: "quarantine_resolution \<times> open_record \<Rightarrow> bool" where
  "fully p \<longleftrightarrow> qs_quantity (fst p) = or_quantity (snd p)"

definition records_on_grid :: "nat \<Rightarrow> open_record list \<Rightarrow> bool" where
  "records_on_grid k rs \<longleftrightarrow> (\<forall>r\<in>set rs. grid k (or_quantity r) \<and> 0 < or_quantity r)"

lemma resolve_step:
  assumes "resolve_loop rp i x now (r # rs) remaining db = Inr ((ress, left), db')" and "0 < remaining"
  obtains q db1 db2 more where "resolution_of i x now r (min remaining (or_quantity r)) = Inr q"
    and "db1 = appended [stored_row (or_id r @ ''|'' @ i) (Some (or_id r @ ''|'' @ i)) now q] [] db"
    and "recognize_open rp i now r (min remaining (or_quantity r)) db1 = Inr db2"
    and "resolve_loop rp i x now rs (dsub remaining (min remaining (or_quantity r))) db2 = Inr ((more, left), db')" and "ress = q # more"
  using assms by (auto simp: Let_def bindR_Inr_iff not_le dest!: add_resolution_effect)

lemma resolve_loop_effect:
  assumes "resolve_loop rp i x now rs remaining db = Inr ((ress, left), db')" and "\<forall>r\<in>set rs. py_strip (or_id r) = or_id r"
  shows "\<exists>rows news. db' = appended rows news db \<and> payloads rows = ress \<and> (\<forall>n\<in>set (payloads news). fr_record n \<in> or_id ` set rs)"
  using assms
proof (induction rs arbitrary: remaining db ress)
  case Nil
  then show ?case using appended_nothing [of db] by (intro exI [of _ "[]"]) auto
next
  case (Cons r rs)
  show ?case
  proof (cases "remaining \<le> 0")
    case True
    then show ?thesis using Cons.prems(1) appended_nothing [of db] by (intro exI [of _ "[]"]) auto
  next
    case False
    then have "0 < remaining" by simp
    from resolve_step [OF Cons.prems(1) this] obtain q db1 db2 more where
      db1: "db1 = appended [stored_row (or_id r @ ''|'' @ i) (Some (or_id r @ ''|'' @ i)) now q] [] db"
      and rec: "recognize_open rp i now r (min remaining (or_quantity r)) db1 = Inr db2"
      and run: "resolve_loop rp i x now rs (dsub remaining (min remaining (or_quantity r))) db2 = Inr ((more, left), db')"
      and ress: "ress = q # more" by metis
    from recognize_open_effect [OF rec] Cons.prems(2) obtain ns where
      db2: "db2 = appended [] ns db1" "\<forall>n\<in>set (payloads ns). fr_record n = or_id r" by auto
    from Cons.IH [OF run] Cons.prems(2) obtain rows news where
      db': "db' = appended rows news db2" "payloads rows = more" "\<forall>n\<in>set (payloads news). fr_record n \<in> or_id ` set rs" by auto
    have "db' = appended (stored_row (or_id r @ ''|'' @ i) (Some (or_id r @ ''|'' @ i)) now q # rows) (ns @ news) db"
      by (simp add: db'(1) db2(1) db1)
    then show ?thesis using db' db2 ress by (intro exI conjI) auto
  qed
qed

lemma resolve_loop_plan:
  assumes "resolve_loop rp i x now rs remaining db = Inr ((ress, left), db')" and "\<forall>r\<in>set rs. py_strip (or_id r) = or_id r"
    and "records_on_grid k rs" and "grid k remaining" and "0 \<le> remaining"
  shows "(\<Sum>q\<leftarrow>ress. qs_quantity q) = min remaining (\<Sum>r\<leftarrow>rs. or_quantity r)
    \<and> left = remaining - (\<Sum>q\<leftarrow>ress. qs_quantity q) \<and> length ress \<le> length rs
    \<and> (\<forall>p\<in>set (zip ress rs). fits p) \<and> (\<forall>p\<in>set (butlast (zip ress rs)). fully p)"
  using assms
proof (induction rs arbitrary: remaining db ress)
  case Nil
  then show ?case by simp
next
  case (Cons r rs)
  have tail: "0 \<le> (\<Sum>r\<leftarrow>rs. or_quantity r)" using Cons.prems(3) by (intro sum_list_nonneg) (auto simp: records_on_grid_def)
  have rq: "grid k (or_quantity r)" "0 < or_quantity r" and rest: "records_on_grid k rs" using Cons.prems(3) by (auto simp: records_on_grid_def)
  show ?case
  proof (cases "remaining \<le> 0")
    case True
    then have "remaining = 0" using Cons.prems(5) by simp
    then show ?thesis using Cons.prems(1) tail rq by simp
  next
    case False
    let ?c = "min remaining (or_quantity r)"
    from False have "0 < remaining" by simp
    from resolve_step [OF Cons.prems(1) this] obtain q db1 db2 more where
      q: "resolution_of i x now r ?c = Inr q"
      and run: "resolve_loop rp i x now rs (dsub remaining ?c) db2 = Inr ((more, left), db')" and ress: "ress = q # more" by metis
    have d: "dsub remaining ?c = remaining - ?c" "grid k (remaining - ?c)"
      using Cons.prems(4) rq False by (auto intro!: dsub_grid grid_sub grid_min)
    have q': "qs_record_id q = or_id r" "qs_quantity q = ?c" using resolution_of_fields [OF q] Cons.prems(2) by simp_all
    have IH: "(\<Sum>q\<leftarrow>more. qs_quantity q) = min (remaining - ?c) (\<Sum>r\<leftarrow>rs. or_quantity r)
      \<and> left = remaining - ?c - (\<Sum>q\<leftarrow>more. qs_quantity q) \<and> length more \<le> length rs
      \<and> (\<forall>p\<in>set (zip more rs). fits p) \<and> (\<forall>p\<in>set (butlast (zip more rs)). fully p)"
      using Cons.IH [OF run [unfolded d(1)] _ rest d(2)] Cons.prems(2) by auto
    have head: "fits (q, r)" using q' False rq by (simp add: fits_def)
    have full: "fully (q, r)" if "more \<noteq> []"
    proof (rule ccontr)
      assume "\<not> fully (q, r)"
      then have "remaining \<le> or_quantity r" by (auto simp: fully_def q'(2))
      then have "dsub remaining ?c = 0" by (simp add: dsub_def)
      then have "more = []" using run by (cases rs) auto
      with that show False by simp
    qed
    have "?c + min (remaining - ?c) (\<Sum>r\<leftarrow>rs. or_quantity r) = min remaining (or_quantity r + (\<Sum>r\<leftarrow>rs. or_quantity r))"
      using False tail by (simp add: min_def)
    then show ?thesis using IH head full q'(2) by (auto simp: ress)
  qed
qed

lemma resolve_loop_recognizes:
  assumes "resolve_loop rp i x now rs remaining db = Inr ((ress, left), db')" and "ids_ok rs"
    and "p \<in> set (zip ress rs)" and "fully p" and "exact_balance db (or_id (snd p))"
  shows "unrecognized db' (or_id (snd p)) = 0"
  using assms
proof (induction rs arbitrary: remaining db ress)
  case Nil
  then show ?case by simp
next
  case (Cons r rs)
  have strip: "py_strip (or_id r) = or_id r" "\<forall>r\<in>set rs. py_strip (or_id r) = or_id r" and fresh: "or_id r \<notin> or_id ` set rs" and ok: "ids_ok rs"
    using Cons.prems(2) by (auto simp: ids_ok_def)
  have "0 < remaining" using Cons.prems(1,3) by (auto split: if_splits)
  from resolve_step [OF Cons.prems(1) this] obtain q db1 db2 more where
    q: "resolution_of i x now r (min remaining (or_quantity r)) = Inr q"
    and db1: "db1 = appended [stored_row (or_id r @ ''|'' @ i) (Some (or_id r @ ''|'' @ i)) now q] [] db"
    and rec: "recognize_open rp i now r (min remaining (or_quantity r)) db1 = Inr db2"
    and run: "resolve_loop rp i x now rs (dsub remaining (min remaining (or_quantity r))) db2 = Inr ((more, left), db')"
    and ress: "ress = q # more" by metis
  show ?case
  proof (cases "p = (q, r)")
    case True
    then have "or_quantity r = min remaining (or_quantity r)" using Cons.prems(4) resolution_of_fields [OF q] by (simp add: fully_def)
    then have rec': "recognize_open rp i now r (or_quantity r) db1 = Inr db2" using rec by simp
    have "exact_balance db1 (or_id r)" using Cons.prems(5) True by (simp add: db1 exact_balance_other)
    then have "unrecognized db2 (or_id r) = 0" by (rule recognize_all [OF rec' _ strip(1)])
    moreover obtain rows news where "db' = appended rows news db2" and news: "\<forall>n\<in>set (payloads news). fr_record n \<in> or_id ` set rs"
      using resolve_loop_effect [OF run strip(2)] by blast
    moreover have "\<forall>n\<in>set (payloads news). fr_record n \<noteq> or_id r" using news fresh by metis
    ultimately show ?thesis using True by (simp add: unrecognized_other)
  next
    case False
    then have mem: "p \<in> set (zip more rs)" using Cons.prems(3) ress by simp
    then have ne: "or_id (snd p) \<noteq> or_id r" using fresh by (metis in_set_zipE prod.collapse image_eqI)
    obtain ns where db2: "db2 = appended [] ns db1" "\<forall>n\<in>set (payloads ns). fr_record n = or_id r"
      using recognize_open_effect [OF rec] strip(1) by auto
    have "exact_balance db2 (or_id (snd p))" using Cons.prems(5) ne db2 by (simp add: db1 exact_balance_other)
    then show ?thesis using Cons.IH [OF run ok mem Cons.prems(4)] by simp
  qed
qed


subsection \<open>The command\<close>

lemma bindP_liftP: "bindP (liftP r) f s = (case r of Inl e \<Rightarrow> (Inl e, s) | Inr v \<Rightarrow> f v s)"
  by (simp add: bindP_def split: sum.splits)

lemma bindP_tryP: "bindP (tryP r) f s = (case r s of Inl e \<Rightarrow> (Inl e, s) | Inr v \<Rightarrow> f v s)"
  by (simp add: bindP_def split: sum.splits)

lemma bindP_others: "bindP (others g) f s = f () (g s)"
  by (simp add: bindP_def others_def)

lemmas command_steps = bindP_liftP bindP_tryP bindP_others

lemma refuse_simps [simp]: "refuse r \<noteq> Inr v" "require b r = Inr () \<longleftrightarrow> b" "require True r = Inr ()" "require False r = refuse r"
  by (simp_all add: refuse_def require_def)

lemma require_Inr: "require b r = Inr u \<longleftrightarrow> b"
  by (simp add: require_def refuse_def)

lemma find_activity_id: "find_activity acts i = Inr a \<Longrightarrow> ac_id a = i \<and> a \<in> set acts"
proof -
  assume "find_activity acts i = Inr a"
  then have "filter (\<lambda>a. ac_id a = i) acts = [a]" by (auto simp: find_activity_def split: list.splits)
  then have "a \<in> set (filter (\<lambda>a. ac_id a = i) acts)" by simp
  then show ?thesis by simp
qed

lemma resolve_from_activity_Inr:
  assumes "resolve_from_activity rp i reason now db = (Inr v, db')"
  obtains acts a terms key records oldest x where "rp_fills rp = Inr acts" "find_activity acts i = Inr a" "execution_terms a = Inr terms"
    "broker_symbol_asset_key (ac_symbol a) = Inr key" "resolve_preflight a key terms db = Inr (records, oldest)"
    "execution_of a terms (hd records) = Inr x" "resolve_write rp a key reason terms x now (rp_between rp db) = Inr (v, db')"
  using assms
  by (auto simp: resolve_from_activity_def command_steps require_Inr bindR_Inr_iff writeP_Inr_iff split: sum.splits)

lemma resolve_from_activity_Inl:
  assumes "resolve_from_activity rp i reason now db = (Inl e, db')"
  shows "db' = db \<or> db' = rp_between rp db"
  using assms by (auto simp: resolve_from_activity_def command_steps dest: writeP_Inl split: sum.splits prod.splits)

lemma used_refused:
  assumes "activity_used db i"
  shows "\<exists>e. resolve_from_activity rp i reason now db = (Inl e, db)"
proof -
  have "resolve_preflight a key terms db = refuse ''ACTIVITY_ALREADY_USED''" if "ac_id a = i" for a key terms
    using assms that by (simp add: resolve_preflight_def) (simp add: refuse_def)
  then show ?thesis
    by (auto simp: resolve_from_activity_def command_steps bindR_Inr_iff refuse_def dest!: find_activity_id split: sum.splits)
qed

lemma execution_terms_Inr:
  "execution_terms a = Inr (sd, q, p, t) \<longleftrightarrow> ac_type a = ''FILL'' \<and> ac_side a = Some sd \<and> ac_qty a = Some q \<and> ac_price a = Some p
     \<and> ac_time a = Some t \<and> 0 < q \<and> 0 < p"
  by (auto simp: execution_terms_def bindR_Inr_iff require_Inr split: option.splits if_splits)

lemma execution_of_fields:
  "execution_of a (sd, q, p, t) r = Inr x \<Longrightarrow> qx_activity_id x = py_strip (ac_id a) \<and> qx_side x = sd \<and> qx_quantity x = q \<and> qx_price x = p
     \<and> qx_executed_at x = t \<and> qx_digest x = py_strip (ac_digest a)"
  by (auto simp: execution_of_def execution_post_init_def bindR_Inr_iff dest!: py_strip_require)

lemma record_checks_Inr:
  "record_checks records (sd, q, p, t) = Inr (current, oldest) \<Longrightarrow>
     current = records \<and> records \<noteq> [] \<and> (\<forall>r\<in>set records. or_short r = (sd = BUY))
     \<and> (sd \<noteq> BUY \<longrightarrow> q \<le> dsum (map or_quantity records))"
  by (auto simp: record_checks_def bindR_Inr_iff require_Inr list_all_iff split: list.splits)

lemma preflight_records:
  "resolve_preflight a key (sd, q, p, t) db = Inr (current, oldest) \<Longrightarrow>
     current = open_records db key \<and> current \<noteq> [] \<and> (sd \<noteq> BUY \<longrightarrow> q \<le> dsum (map or_quantity current)) \<and> \<not> activity_used db (ac_id a)"
  by (auto simp: resolve_preflight_def bindR_Inr_iff require_Inr dest!: record_checks_Inr)

text \<open>The steps of a successful write.\<close>

lemma resolve_write_Inr:
  assumes "resolve_write rp a key reason (sd, q, p, t) x now db = Inr ((ress, surplus), db')"
  obtains cash db1 db2 left db3 db4 db5 where "execution_cash x = Inr cash"
    "add_execution (ac_id a) now x db = Inr db1" "add_cash cash db1 = Inr db2"
    "resolve_loop rp (ac_id a) x now (open_records db key) (qx_quantity x) db2 = Inr ((ress, left), db3)"
    "add_surplus (ac_id a) x now (or_multiplier (hd (open_records db key))) left db3 = Inr (surplus, db4)"
    "close_unresolved rp (ac_id a) (ac_digest a) x now db4 = Inr db5"
    "add_audit (resolve_event rp a reason x ress surplus now) db5 = Inr db'"
    "sd \<noteq> BUY \<longrightarrow> q \<le> dsum (map or_quantity (open_records db key))"
proof -
  show thesis
    using assms by (auto simp: resolve_write_def bindR_Inr_iff dest!: preflight_records intro!: that)
qed

lemma add_surplus_effect:
  "add_surplus i x now m left db = Inr (surplus, db') \<Longrightarrow>
     (if 0 < left then (\<exists>u. surplus = Some u \<and> ui_quantity u = left
         \<and> db' = on_quarantine (\<lambda>q. q\<lparr>qt_inventory := qt_inventory q @ [stored_row (ui_id u) (Some i) now u]\<rparr>) db)
      else surplus = None \<and> db' = db)"
  by (auto simp: add_surplus_def surplus_of_def inventory_post_init_def add_inventory_def on_quarantine_def bindR_Inr_iff dest!: insert_new_append
      split: if_splits)

lemma close_unresolved_effect: "close_unresolved rp i d x now db = Inr db' \<Longrightarrow> \<exists>ev. db' = db\<lparr>db_evidence := ev\<rparr>"
  by (auto simp: close_unresolved_def add_outcome_def on_evidence_def bindR_Inr_iff split: if_splits intro: exI [of _ "db_evidence db"])

lemma add_audit_effect: "add_audit ev db = Inr db' \<Longrightarrow> db' = db\<lparr>db_audit := db_audit db @ [ev]\<rparr>"
  by (auto simp: add_audit_def split: if_splits)

text \<open>The tables after the last step, in terms of those after the loop.\<close>

lemma write_tail:
  assumes "add_surplus i x now m left db3 = Inr (surplus, db4)" and "close_unresolved rp i' d x now db4 = Inr db5" and "add_audit ev db5 = Inr db'"
  shows "qt_resolutions (db_quarantine db') = qt_resolutions (db_quarantine db3)" "qt_recognitions (db_quarantine db') = qt_recognitions (db_quarantine db3)"
    "qt_allocations (db_quarantine db') = qt_allocations (db_quarantine db3)" "db_executions db' = db_executions db3" "db_cash db' = db_cash db3"
    "db_liabilities db' = db_liabilities db3"
  using add_surplus_effect [OF assms(1)] close_unresolved_effect [OF assms(2)] add_audit_effect [OF assms(3)] by (auto split: if_splits)

lemma add_execution_effect: "add_execution i now x db = Inr db' \<Longrightarrow>
    db' = db\<lparr>db_executions := db_executions db @ [stored_row i None now x]\<rparr> \<and> get_row (db_executions db) i = None"
  by (auto simp: add_execution_def bindR_Inr_iff dest!: insert_new_append)

lemma add_cash_effect: "add_cash c db = Inr db' \<Longrightarrow>
    db' = db\<lparr>db_cash := db_cash db @ [stored_row (ce_id c) (Some (ce_idempotency_key c)) (ce_occurred_at c) c]\<rparr>
    \<and> get_row (db_cash db) (ce_id c) = None \<and> find_by_unique (db_cash db) (ce_idempotency_key c) = None"
  by (auto simp: add_cash_def bindR_Inr_iff dest!: insert_new_append)


text \<open>What a returning command did to the books, for the activity it read.\<close>

lemma command_run:
  assumes "resolve_from_activity rp i reason now db = (Inr (ress, surplus), db')"
    and "rp_fills rp = Inr acts" "find_activity acts i = Inr a" "broker_symbol_asset_key (ac_symbol a) = Inr key"
  obtains sd q p t x cash db2 left db3 db4 db5 where "execution_terms a = Inr (sd, q, p, t)" "execution_cash x = Inr cash"
    "qx_activity_id x = py_strip i" "qx_side x = sd" "qx_quantity x = q" "qx_price x = p" "qx_executed_at x = t" "qx_digest x = py_strip (ac_digest a)"
    "db2 = (rp_between rp db)\<lparr>db_executions := db_executions (rp_between rp db) @ [stored_row i None now x],
       db_cash := db_cash (rp_between rp db) @ [stored_row (ce_id cash) (Some (ce_idempotency_key cash)) (ce_occurred_at cash) cash]\<rparr>"
    "get_row (db_executions (rp_between rp db)) i = None"
    "get_row (db_cash (rp_between rp db)) (ce_id cash) = None" "find_by_unique (db_cash (rp_between rp db)) (ce_idempotency_key cash) = None"
    "resolve_loop rp i x now (open_records (rp_between rp db) key) q db2 = Inr ((ress, left), db3)"
    "add_surplus i x now (or_multiplier (hd (open_records (rp_between rp db) key))) left db3 = Inr (surplus, db4)"
    "close_unresolved rp i (ac_digest a) x now db4 = Inr db5"
    "add_audit (resolve_event rp a reason x ress surplus now) db5 = Inr db'"
    "sd \<noteq> BUY \<longrightarrow> q \<le> dsum (map or_quantity (open_records (rp_between rp db) key))"
proof -
  let ?b = "rp_between rp db"
  from resolve_from_activity_Inr [OF assms(1)] assms(2-4) obtain terms records oldest x where
    terms: "execution_terms a = Inr terms" and x: "execution_of a terms (hd records) = Inr x"
    and w: "resolve_write rp a key reason terms x now ?b = Inr ((ress, surplus), db')" by (metis sum.inject(2))
  obtain sd q p t where t: "terms = (sd, q, p, t)" by (cases terms) auto
  have i: "ac_id a = i" using find_activity_id [OF assms(3)] by simp
  from resolve_write_Inr [OF w [unfolded t]] obtain cash db1 db2 left db3 db4 db5 where parts:
    "execution_cash x = Inr cash" "add_execution i now x ?b = Inr db1" "add_cash cash db1 = Inr db2"
    "resolve_loop rp i x now (open_records ?b key) (qx_quantity x) db2 = Inr ((ress, left), db3)"
    "add_surplus i x now (or_multiplier (hd (open_records ?b key))) left db3 = Inr (surplus, db4)"
    "close_unresolved rp i (ac_digest a) x now db4 = Inr db5" "add_audit (resolve_event rp a reason x ress surplus now) db5 = Inr db'"
    "sd \<noteq> BUY \<longrightarrow> q \<le> dsum (map or_quantity (open_records ?b key))" unfolding i by metis
  have f: "qx_activity_id x = py_strip i" "qx_side x = sd" "qx_quantity x = q" "qx_price x = p" "qx_executed_at x = t" "qx_digest x = py_strip (ac_digest a)"
    using execution_of_fields [OF x [unfolded t]] i by simp_all
  have db1: "db1 = ?b\<lparr>db_executions := db_executions ?b @ [stored_row i None now x]\<rparr>" "get_row (db_executions ?b) i = None"
    using add_execution_effect [OF parts(2)] by simp_all
  have db2: "db2 = ?b\<lparr>db_executions := db_executions ?b @ [stored_row i None now x],
       db_cash := db_cash ?b @ [stored_row (ce_id cash) (Some (ce_idempotency_key cash)) (ce_occurred_at cash) cash]\<rparr>"
    "get_row (db_cash ?b) (ce_id cash) = None" "find_by_unique (db_cash ?b) (ce_idempotency_key cash) = None"
    using add_cash_effect [OF parts(3)] by (simp_all add: db1(1))
  show thesis
    by (rule that [OF terms [unfolded t] parts(1) f db2(1) db1(2) db2(2,3) parts(4) [unfolded f(3)] parts(5-8)])
qed

lemma open_records_positive: "r \<in> set (open_records db key) \<Longrightarrow> 0 < or_quantity r \<and> asset_identity_key (or_asset r) = key"
  by (auto simp: open_records_def)

lemma command_plan:
  assumes "resolve_from_activity rp i reason now db = (Inr (ress, surplus), db')"
    and "rp_fills rp = Inr acts" "find_activity acts i = Inr a" "broker_symbol_asset_key (ac_symbol a) = Inr key" "ac_qty a = Some q"
    and "\<forall>r\<in>set (open_records (rp_between rp db) key). grid k (or_quantity r) \<and> py_strip (or_id r) = or_id r" and "grid k q"
  shows "(\<Sum>x\<leftarrow>ress. qs_quantity x) = min q (\<Sum>r\<leftarrow>open_records (rp_between rp db) key. or_quantity r)
    \<and> (case surplus of None \<Rightarrow> (\<Sum>x\<leftarrow>ress. qs_quantity x) = q
       | Some u \<Rightarrow> (\<Sum>x\<leftarrow>ress. qs_quantity x) + ui_quantity u = q \<and> 0 < ui_quantity u \<and> ac_side a = Some BUY)
    \<and> (\<forall>p\<in>set (zip ress (open_records (rp_between rp db) key)). fits p)
    \<and> (\<forall>p\<in>set (butlast (zip ress (open_records (rp_between rp db) key))). fully p)
    \<and> length ress \<le> length (open_records (rp_between rp db) key)"
proof -
  let ?rs = "open_records (rp_between rp db) key"
  from command_run [OF assms(1-4)] obtain sd q' p t x db2 left db3 db4 where
    terms: "execution_terms a = Inr (sd, q', p, t)" and run: "resolve_loop rp i x now ?rs q' db2 = Inr ((ress, left), db3)"
    and surplus: "add_surplus i x now (or_multiplier (hd ?rs)) left db3 = Inr (surplus, db4)"
    and sale: "sd \<noteq> BUY \<longrightarrow> q' \<le> dsum (map or_quantity ?rs)" by metis
  have q: "q' = q" "0 < q" "ac_side a = Some sd" using terms assms(5) by (auto simp: execution_terms_Inr)
  have g: "records_on_grid k ?rs" using assms(6) open_records_positive by (auto simp: records_on_grid_def)
  note plan = resolve_loop_plan [OF run [unfolded q(1)] _ g assms(7)]
  have total: "sd = BUY" if "0 < left"
  proof (rule ccontr)
    assume "sd \<noteq> BUY"
    then have le: "q \<le> dsum (map or_quantity ?rs)" using sale q(1) by simp
    have less: "(\<Sum>r\<leftarrow>?rs. or_quantity r) < q" using that plan assms(6) q(2) by (auto simp: min_def split: if_splits)
    then have "dsum (map or_quantity ?rs) = (\<Sum>r\<leftarrow>?rs. or_quantity r)"
      using g by (intro dsum_grid [OF _ assms(7)]) (auto simp: records_on_grid_def less_imp_le)
    then show False using le less by simp
  qed
  show ?thesis
    using plan assms(6) q add_surplus_effect [OF surplus] total by (auto split: if_splits option.splits)
qed

text \<open>The tables the command leaves.\<close>

lemma command_tables:
  assumes "resolve_from_activity rp i reason now db = (Inr (ress, surplus), db')"
    and "rp_fills rp = Inr acts" "find_activity acts i = Inr a" "broker_symbol_asset_key (ac_symbol a) = Inr key"
    and "\<forall>r\<in>set (open_records (rp_between rp db) key). py_strip (or_id r) = or_id r"
  shows "payloads (qt_resolutions (db_quarantine db')) = payloads (qt_resolutions (db_quarantine (rp_between rp db))) @ ress
    \<and> db_liabilities db' = db_liabilities (rp_between rp db)
    \<and> qt_allocations (db_quarantine db') = qt_allocations (db_quarantine (rp_between rp db))
    \<and> (\<exists>x cash. db_executions db' = db_executions (rp_between rp db) @ [stored_row i None now x] \<and> execution_cash x = Inr cash
        \<and> db_cash db' = db_cash (rp_between rp db) @ [stored_row (ce_id cash) (Some (ce_idempotency_key cash)) (ce_occurred_at cash) cash])"
proof -
  let ?b = "rp_between rp db"
  from command_run [OF assms(1-4)] obtain sd q p t x cash db2 left db3 db4 db5 where parts: "execution_cash x = Inr cash"
    "db2 = ?b\<lparr>db_executions := db_executions ?b @ [stored_row i None now x],
       db_cash := db_cash ?b @ [stored_row (ce_id cash) (Some (ce_idempotency_key cash)) (ce_occurred_at cash) cash]\<rparr>"
    "resolve_loop rp i x now (open_records ?b key) q db2 = Inr ((ress, left), db3)"
    "add_surplus i x now (or_multiplier (hd (open_records ?b key))) left db3 = Inr (surplus, db4)"
    "close_unresolved rp i (ac_digest a) x now db4 = Inr db5" "add_audit (resolve_event rp a reason x ress surplus now) db5 = Inr db'" by metis
  obtain rows news where eff: "db3 = appended rows news db2" "payloads rows = ress"
    using resolve_loop_effect [OF parts(3) assms(5)] by blast
  show ?thesis using write_tail [OF parts(4-6)] parts(1,2) eff by auto
qed


subsection \<open>Totals resolved\<close>

lemma resolved_append: "resolved_quantities (old @ new @ [r]) = dict_add (qs_record_id r) (qs_quantity r) (resolved_quantities (old @ new))"
  by (simp add: resolved_quantities_def)

lemma resolved_untouched:
  "\<forall>r\<in>set new. qs_record_id r \<noteq> k \<Longrightarrow> dict_get (resolved_quantities (old @ new)) k = dict_get (resolved_quantities old) k"
proof (induction new rule: rev_induct)
  case (snoc r new)
  then show ?case by (auto simp: resolved_append dict_get_add)
qed simp

lemma resolved_one:
  assumes "distinct (map qs_record_id new)" and "r \<in> set new"
  shows "dict_get (resolved_quantities (old @ new)) (qs_record_id r) = dadd (dict_get (resolved_quantities old) (qs_record_id r)) (qs_quantity r)"
  using assms
proof (induction new rule: rev_induct)
  case (snoc x new)
  show ?case
  proof (cases "r = x")
    case True
    then have "\<forall>y\<in>set new. qs_record_id y \<noteq> qs_record_id r" using snoc.prems(1) by (auto simp: image_iff)
    then show ?thesis using True resolved_untouched [of new] by (simp add: resolved_append dict_get_add)
  next
    case False
    then have "r \<in> set new" "qs_record_id x \<noteq> qs_record_id r" using snoc.prems by (auto simp: image_iff)
    then show ?thesis using snoc by (simp add: resolved_append dict_get_add)
  qed
qed simp

lemma fits_ids: "\<forall>p\<in>set (zip ress rs). fits p \<Longrightarrow> length ress \<le> length rs \<Longrightarrow> map qs_record_id ress = take (length ress) (map or_id rs)"
  by (induction ress rs rule: list_induct2') (auto simp: fits_def)

lemma zip_mem: "x \<in> set xs \<Longrightarrow> length xs \<le> length ys \<Longrightarrow> \<exists>y. (x, y) \<in> set (zip xs ys)"
  by (induction xs ys rule: list_induct2') auto

text \<open>The quantity of an open record is what is left of its whole.\<close>

lemma all_records_whole: "r \<in> set (all_records db) \<Longrightarrow> \<exists>whole. (or_id r, whole) \<in> set (record_wholes db)
    \<and> or_quantity r = dsub whole (dict_get (resolved_totals db) (or_id r))"
  unfolding all_records_def record_wholes_def liability_record_def inventory_record_def by fastforce

lemma within_record:
  assumes fit: "\<forall>p\<in>set (zip ress rs). fits p" and len: "length ress \<le> length rs" and ids: "distinct (map or_id rs)" and sub: "set rs \<subseteq> set (all_records db)"
    and tab: "payloads (qt_resolutions (db_quarantine db')) = payloads (qt_resolutions (db_quarantine db)) @ ress"
    and wholes: "distinct (map fst (record_wholes db))" and mem: "(k, whole) \<in> set (record_wholes db)"
    and exact: "dsub whole (dict_get (resolved_totals db) k) = whole - dict_get (resolved_totals db) k" "ctx whole = whole"
    and before: "dict_get (resolved_totals db) k \<le> whole"
  shows "dict_get (resolved_totals db') k \<le> whole"
proof -
  let ?old = "payloads (qt_resolutions (db_quarantine db))"
  have after: "resolved_totals db' = resolved_quantities (?old @ ress)" by (simp add: resolved_totals_def tab)
  have dist: "distinct (map qs_record_id ress)" unfolding fits_ids [OF fit len] using ids by simp
  show ?thesis
  proof (cases "\<exists>x\<in>set ress. qs_record_id x = k")
    case False
    then have "\<forall>x\<in>set ress. qs_record_id x \<noteq> k" by blast
    from resolved_untouched [OF this, of ?old] show ?thesis unfolding after using before by (simp add: resolved_totals_def)
  next
    case True
    then obtain x where x: "x \<in> set ress" "qs_record_id x = k" by blast
    from zip_mem [OF x(1) len] obtain r where r: "(x, r) \<in> set (zip ress rs)" by blast
    then have f: "or_id r = k" "qs_quantity x \<le> or_quantity r" using fit x(2) by (fastforce simp: fits_def)+
    have "r \<in> set (all_records db)" using r sub by (auto dest: set_zip_rightD)
    then obtain w where w: "(k, w) \<in> set (record_wholes db)" "or_quantity r = dsub w (dict_get (resolved_totals db) k)"
      using all_records_whole f(1) by blast
    have "w = whole" using w(1) mem wholes by (metis map_of_eq_Some_iff option.inject)
    then have le: "dict_get (resolved_totals db) k + qs_quantity x \<le> whole" using f(2) w(2) exact(1) by simp
    have "dict_get (resolved_totals db') k = dadd (dict_get (resolved_totals db) k) (qs_quantity x)"
      unfolding after using resolved_one [OF dist x(1), of ?old] x(2) by (simp add: resolved_totals_def)
    also have "\<dots> \<le> whole" unfolding dadd_def using le exact(2) by (metis ctx_mono)
    finally show ?thesis .
  qed
qed

subsection \<open>The cash of the recorded execution\<close>

lemma get_row_None_filter: "get_row rows i = None \<Longrightarrow> filter (\<lambda>r. r_id r = i) rows = []"
  by (induction rows) (auto split: if_splits)

lemma absent_key: "get_row rows i = None \<Longrightarrow> find_by_unique rows i = None \<Longrightarrow> filter (\<lambda>r. r_id r = i \<or> r_unique r = Some i) rows = []"
  by (induction rows) (auto split: if_splits)

lemma execution_cash_key: "execution_cash x = Inr c \<Longrightarrow>
    ce_id c = py_strip (fill_cash_id (qx_activity_id x)) \<and> ce_idempotency_key c = py_strip (fill_cash_id (qx_activity_id x))"
  by (auto simp: execution_cash_def cash_post_init_def bindR_Inr_iff Let_def dest!: py_strip_require)

lemma recorded_cash:
  assumes "execution_cash x = Inr c" and "py_strip (fill_cash_id (qx_activity_id x)) = fill_cash_id (qx_activity_id x)"
    and "get_row rows (ce_id c) = None" "find_by_unique rows (ce_idempotency_key c) = None"
    and "db_cash db = rows @ [stored_row (ce_id c) (Some (ce_idempotency_key c)) now c]"
  shows "cash_issue db x = Inr None"
  using assms absent_key [of rows "fill_cash_id (qx_activity_id x)"] execution_cash_key [OF assms(1)]
  by (simp add: cash_issue_def cash_rows_def Let_def)

lemma get_append_last: "get_row rows i = None \<Longrightarrow> get_row (rows @ [stored_row i u now p]) i = Some (stored_row i u now p)"
  by (induction rows) (auto split: if_splits)


subsection \<open>Properties\<close>

text \<open>C31: What one broker execution resolves and what it leaves over add up to its quantity: the open
  records of the instrument, as they stand when the write begins, are resolved oldest first,
  each fully before the next and none beyond what is open, up to the smaller of the execution
  and their total; only a cover can leave a surplus, which becomes unmanaged inventory.\<close>

theorem resolution_conserves:
  assumes "resolve_from_activity rp i reason now db = (Inr (resolved, surplus), db')"
    and "rp_fills rp = Inr acts" "find_activity acts i = Inr a" "broker_symbol_asset_key (ac_symbol a) = Inr key" "ac_qty a = Some q"
    and "\<forall>r\<in>set (open_records (rp_between rp db) key). grid k (or_quantity r) \<and> py_strip (or_id r) = or_id r" and "grid k q"
  shows "(\<Sum>x\<leftarrow>resolved. qs_quantity x) = min q (\<Sum>r\<leftarrow>open_records (rp_between rp db) key. or_quantity r)
    \<and> (case surplus of None \<Rightarrow> (\<Sum>x\<leftarrow>resolved. qs_quantity x) = q
       | Some u \<Rightarrow> (\<Sum>x\<leftarrow>resolved. qs_quantity x) + ui_quantity u = q \<and> 0 < ui_quantity u \<and> ac_side a = Some BUY)
    \<and> (\<forall>p\<in>set (zip resolved (open_records (rp_between rp db) key)). fits p)
    \<and> (\<forall>p\<in>set (butlast (zip resolved (open_records (rp_between rp db) key))). fully p)"
  using command_plan [OF assms] by blast

text \<open>C32: A returning command leaves exactly one cash entry for its execution, equal to its
  derivation, so the activity verifies against the books; any later command on the same
  activity is refused and writes nothing. A refused command never writes.\<close>

theorem resolution_recorded_once:
  assumes "resolve_from_activity rp i reason now db = (r, db')"
    and "rp_fills rp = Inr acts" "find_activity acts i = Inr a" "broker_symbol_asset_key (ac_symbol a) = Inr key"
    and "py_strip i = i" "py_strip (fill_cash_id i) = fill_cash_id i" "py_strip (ac_digest a) = ac_digest a"
    and "\<forall>o'\<in>set (open_records (rp_between rp db) key). py_strip (or_id o') = or_id o'"
  shows "case r of Inl e \<Rightarrow> db' = db \<or> db' = rp_between rp db
    | Inr v \<Rightarrow> activity_execution_issue db' a = Inr None
        \<and> (\<exists>e. resolve_from_activity again i reason2 now2 db' = (Inl e, db'))"
proof (cases r)
  case (Inl e)
  then show ?thesis using resolve_from_activity_Inl assms(1) by fastforce
next
  case (Inr v)
  obtain resolved surplus where v: "v = (resolved, surplus)" by (cases v)
  from command_run [OF assms(1) [unfolded Inr v] assms(2-4)] obtain sd q p t x cash db2 left db3 db4 db5 where
    terms: "execution_terms a = Inr (sd, q, p, t)" and cash: "execution_cash x = Inr cash"
    and x: "qx_activity_id x = py_strip i" "qx_side x = sd" "qx_quantity x = q" "qx_price x = p" "qx_executed_at x = t" "qx_digest x = py_strip (ac_digest a)"
    and db2: "db2 = (rp_between rp db)\<lparr>db_executions := db_executions (rp_between rp db) @ [stored_row i None now x],
       db_cash := db_cash (rp_between rp db) @ [stored_row (ce_id cash) (Some (ce_idempotency_key cash)) (ce_occurred_at cash) cash]\<rparr>"
    and fresh: "get_row (db_executions (rp_between rp db)) i = None" "get_row (db_cash (rp_between rp db)) (ce_id cash) = None"
      "find_by_unique (db_cash (rp_between rp db)) (ce_idempotency_key cash) = None"
    and run: "resolve_loop rp i x now (open_records (rp_between rp db) key) q db2 = Inr ((resolved, left), db3)"
    and tail: "add_surplus i x now (or_multiplier (hd (open_records (rp_between rp db) key))) left db3 = Inr (surplus, db4)"
      "close_unresolved rp i (ac_digest a) x now db4 = Inr db5" "add_audit (resolve_event rp a reason x resolved surplus now) db5 = Inr db'" by metis
  obtain rows news where db3: "db3 = appended rows news db2" using resolve_loop_effect [OF run assms(8)] by blast
  have ex: "get_row (db_executions db') i = Some (stored_row i None now x)"
    and ca: "db_cash db' = db_cash (rp_between rp db) @ [stored_row (ce_id cash) (Some (ce_idempotency_key cash)) (ce_occurred_at cash) cash]"
    using write_tail [OF tail] db3 db2 get_append_last [OF fresh(1)] by simp_all
  have "cash_issue db' x = Inr None" using recorded_cash [OF cash _ fresh(2,3) ca] assms(5,6) x(1) by simp
  then have "activity_execution_issue db' a = Inr None"
    using ex terms x assms(7) find_activity_id [OF assms(3)] by (simp add: activity_execution_issue_def execution_terms_Inr)
  moreover have "activity_used db' i" by (simp add: activity_used_def ex)
  ultimately show ?thesis using Inr used_refused by simp
qed

text \<open>C33: The command keeps every record resolved within its quantity: a record whose resolved total
  was at most its whole when the write began is so afterwards (the reset's gate I5).\<close>

theorem resolution_within_record:
  assumes "resolve_from_activity rp i reason now db = (Inr (resolved, surplus), db')"
    and "rp_fills rp = Inr acts" "find_activity acts i = Inr a" "broker_symbol_asset_key (ac_symbol a) = Inr key" "ac_qty a = Some q" "grid j q"
    and "\<forall>r\<in>set (open_records (rp_between rp db) key). grid j (or_quantity r)" and "ids_ok (open_records (rp_between rp db) key)"
    and "distinct (map fst (record_wholes (rp_between rp db)))" and "(k, whole) \<in> set (record_wholes (rp_between rp db))"
    and "dsub whole (dict_get (resolved_totals (rp_between rp db)) k) = whole - dict_get (resolved_totals (rp_between rp db)) k" "ctx whole = whole"
    and "dict_get (resolved_totals (rp_between rp db)) k \<le> whole"
  shows "dict_get (resolved_totals db') k \<le> whole"
proof -
  let ?rs = "open_records (rp_between rp db) key"
  have strip: "\<forall>r\<in>set ?rs. py_strip (or_id r) = or_id r" "distinct (map or_id ?rs)" using assms(8) by (simp_all add: ids_ok_def)
  then have "\<forall>r\<in>set ?rs. grid j (or_quantity r) \<and> py_strip (or_id r) = or_id r" using assms(7) by blast
  note plan = command_plan [OF assms(1-5) this assms(6)]
  have "set ?rs \<subseteq> set (all_records (rp_between rp db))" by (auto simp: open_records_def)
  then show ?thesis
    using plan command_tables [OF assms(1-4) strip(1)] by (intro within_record [OF _ _ strip(2) _ _ assms(9-13)]) blast+
qed

text \<open>C34: A record the execution closes has nothing left to recognise: the fee balance allocated to it
  before is recognised whole, when the balance is exact (the conservation C1).\<close>

theorem closed_record_recognised:
  assumes "resolve_from_activity rp i reason now db = (Inr (resolved, surplus), db')"
    and "rp_fills rp = Inr acts" "find_activity acts i = Inr a" "broker_symbol_asset_key (ac_symbol a) = Inr key"
    and "ids_ok (open_records (rp_between rp db) key)"
    and "(x, r) \<in> set (zip resolved (open_records (rp_between rp db) key))" and "qs_quantity x = or_quantity r"
    and "exact_balance (rp_between rp db) (or_id r)"
  shows "unrecognized db' (or_id r) = 0"
proof -
  let ?b = "rp_between rp db"
  from command_run [OF assms(1-4)] obtain sd q p t y cash db2 left db3 db4 db5 where
    db2: "db2 = ?b\<lparr>db_executions := db_executions ?b @ [stored_row i None now y],
       db_cash := db_cash ?b @ [stored_row (ce_id cash) (Some (ce_idempotency_key cash)) (ce_occurred_at cash) cash]\<rparr>"
    and run: "resolve_loop rp i y now (open_records ?b key) q db2 = Inr ((resolved, left), db3)"
    and tail: "add_surplus i y now (or_multiplier (hd (open_records ?b key))) left db3 = Inr (surplus, db4)"
      "close_unresolved rp i (ac_digest a) y now db4 = Inr db5" "add_audit (resolve_event rp a reason y resolved surplus now) db5 = Inr db'" by metis
  have "exact_balance db2 (or_id r)" using assms(8) by (simp add: db2 exact_balance_def unrecognized_def)
  then have "unrecognized db3 (or_id r) = 0"
    using resolve_loop_recognizes [OF run assms(5,6)] assms(7) by (simp add: fully_def)
  then show ?thesis using write_tail [OF tail] by (simp add: unrecognized_def)
qed

subsection \<open>Example: a cover larger than the liability\<close>

definition demo_liability :: short_exposure_liability where
  "demo_liability = \<lparr>sl_id = ''L'', sl_fill_id = ''f7'', sl_broker_order_id = ''b7'', sl_trade_intent_id = ''t7'', sl_asset = demo_asset EQUITY None ''X'',
     sl_quantity = 3, sl_sale_price = 12, sl_multiplier = 1, sl_proceeds = 36, sl_opened_at = 50\<rparr>"

definition demo_short_ledger :: ledger where
  "demo_short_ledger = demo_ledger\<lparr>db_liabilities := [plain_row ''L'' None (Some ''f7'') demo_liability],
     db_quarantine := no_quarantine\<lparr>qt_allocations := [plain_row ''fee|L'' None (Some ''fee|L'')
       \<lparr>fa_fee = ''fee'', fa_record = ''L'', fa_pool = OpeningPool, fa_amount = 2\<rparr>]\<rparr>\<rparr>"

definition demo_cover :: activity where
  "demo_cover = \<lparr>ac_id = ''x9'', ac_symbol = ''X'', ac_side = Some BUY, ac_qty = Some 5, ac_price = Some 11, ac_time = Some 90,
     ac_order = [], ac_fees = [], ac_currencies = [], ac_type = ''FILL'', ac_digest = ''d'', ac_day = None\<rparr>"

definition demo_resolve_port :: resolve_port where
  "demo_resolve_port = \<lparr>rp_fills = Inr [demo_cover], rp_since = (\<lambda>_. Inr []), rp_lease = (\<lambda>_. Inr ()), rp_between = (\<lambda>db. db),
     rp_text = (\<lambda>_. ''?''), rp_places = (\<lambda>_. 2), rp_sha = (\<lambda>_ _. ''s'')\<rparr>"

definition demo_resolved :: quarantine_resolution where
  "demo_resolved = \<lparr>qs_record_id = ''L'', qs_activity_id = ''x9'', qs_quantity = 3, qs_price = 11, qs_realized_pnl = 3, qs_resolved_at = 200\<rparr>"

definition demo_surplus :: unmanaged_inventory where
  "demo_surplus = \<lparr>ui_id = ''unmanaged:x9'', ui_cover_activity_id = ''x9'', ui_asset = demo_asset EQUITY None ''X'', ui_quantity = 2, ui_cost_price = 11,
     ui_multiplier = 1, ui_opened_at = 90\<rparr>"

definition demo_open :: open_record where
  "demo_open = \<lparr>or_id = ''L'', or_short = True, or_quantity = 3, or_price = 12, or_multiplier = 1, or_opened_at = 50, or_asset = demo_asset EQUITY None ''X''\<rparr>"

lemma demo_key: "broker_symbol_asset_key ''X'' = Inr ''equity:default:alpaca:X''" "asset_identity_key (demo_asset EQUITY None ''X'') = ''equity:default:alpaca:X''"
  by code_simp+

lemma demo_open_records: "open_records demo_short_ledger ''equity:default:alpaca:X'' = [demo_open]"
  by (simp add: open_records_def all_records_def resolved_totals_def resolved_quantities_def dict_get_def demo_short_ledger_def demo_ledger_def
      no_quarantine_def plain_row_def liability_record_def demo_liability_def demo_open_def demo_key dsub_def)


lemma demo_texts:
  "require_text (Some ''x9'') = Inr ''x9''" "require_text (Some ''L'') = Inr ''L''" "require_text (Some ''d'') = Inr ''d''"
  "require_text (Some ''unmanaged:x9'') = Inr ''unmanaged:x9''" "require_text (Some ''fill:cash:x9'') = Inr ''fill:cash:x9''"
  "require_text (Some ''USD'') = Inr ''USD''" "require_text (Some CASH_NOTE) = Inr CASH_NOTE" "fill_cash_id ''x9'' = ''fill:cash:x9''"
  "py_strip ''x9'' = ''x9''" "py_strip ''fill:cash:x9'' = ''fill:cash:x9''" "py_strip ''d'' = ''d''" "py_strip ''L'' = ''L''" "py_strip ''cover'' \<noteq> []"
  by code_simp+

definition demo_execution :: quarantine_execution where
  "demo_execution = \<lparr>qx_activity_id = ''x9'', qx_kind = LiabilityCover, qx_asset = demo_asset EQUITY None ''X'', qx_side = BUY,
     qx_quantity = 5, qx_price = 11, qx_executed_at = 90, qx_digest = ''d''\<rparr>"

lemma demo_terms: "execution_terms demo_cover = Inr (BUY, 5, 11, 90)"
  by (simp add: execution_terms_Inr demo_cover_def)

lemma demo_short_tables:
  "qt_resolutions (db_quarantine demo_short_ledger) = []" "qt_recognitions (db_quarantine demo_short_ledger) = []"
  "qt_inventory (db_quarantine demo_short_ledger) = []" "db_executions demo_short_ledger = []" "db_cash demo_short_ledger = []"
  "payloads (qt_allocations (db_quarantine demo_short_ledger)) = [\<lparr>fa_fee = ''fee'', fa_record = ''L'', fa_pool = OpeningPool, fa_amount = 2\<rparr>]"
  "db_evidence demo_short_ledger = no_evidence" "db_audit demo_short_ledger = []"
  by (simp_all add: demo_short_ledger_def demo_ledger_def no_quarantine_def plain_row_def)

lemma demo_unused: "\<not> activity_used demo_short_ledger ''x9''" "\<not> evidence_changed demo_short_ledger demo_cover" "\<not> own_activity demo_short_ledger demo_cover"
  by (simp_all add: activity_used_def evidence_changed_def own_activity_def demo_short_tables no_evidence_def demo_cover_def)
    (simp add: fill_row_of_def demo_short_ledger_def demo_ledger_def plain_row_def)

lemma demo_preflight: "resolve_preflight demo_cover ''equity:default:alpaca:X'' (BUY, 5, 11, 90) demo_short_ledger = Inr ([demo_open], 50)"
proof -
  have i: "ac_id demo_cover = ''x9''" by (simp add: demo_cover_def)
  show ?thesis by (simp add: resolve_preflight_def demo_open_records demo_unused i) (simp add: record_checks_def demo_open_def)
qed

lemma demo_execution_of: "execution_of demo_cover (BUY, 5, 11, 90) demo_open = Inr demo_execution"
  by (simp add: execution_of_def execution_post_init_def demo_cover_def demo_open_def demo_texts require_positive_def decimal_value_def demo_execution_def)

lemma demo_execution_cash: "execution_cash demo_execution = Inr \<lparr>ce_id = ''fill:cash:x9'', ce_idempotency_key = ''fill:cash:x9'', ce_amount = - 55,
    ce_currency = ''USD'', ce_occurred_at = 90, ce_reason = CASH_NOTE\<rparr>"
  by (simp add: execution_cash_def demo_execution_def contract_multiplier_of_def demo_asset_def demo_texts cash_post_init_def dmul_def dneg_def)

lemma demo_loop:
  assumes "db_quarantine db = db_quarantine demo_short_ledger"
  shows "\<exists>rows news. resolve_loop demo_resolve_port ''x9'' demo_execution 200 [demo_open] 5 db = Inr (([demo_resolved], 2), appended rows news db)"
proof -
  let ?db1 = "appended [stored_row ''L|x9'' (Some ''L|x9'') 200 demo_resolved] [] db"
  have u: "unrecognized ?db1 ''L'' = 2"
    by (simp add: unrecognized_def allocated_amount_def recognized_amount_def assms demo_short_tables dsub_def dsum_def dadd_def)
  have o': "or_id demo_open = ''L''" "or_quantity demo_open = 3" by (simp_all add: demo_open_def)
  have one: "resolution_of ''x9'' demo_execution 200 demo_open 3 = Inr demo_resolved"
    by (simp add: resolution_of_def demo_open_def demo_execution_def resolution_post_init_def demo_texts require_positive_def decimal_value_def
        demo_resolved_def dsub_def dmul_def)
  have two: "add_resolution (''L'' @ ''|'' @ ''x9'') 200 demo_resolved db = Inr ?db1"
    by (simp add: add_resolution_def insert_new_def insert_or_ignore_def assms demo_short_tables)
      (simp add: appended_def on_quarantine_def assms demo_short_tables)
  have "\<exists>f. recognize_open demo_resolve_port ''x9'' 200 demo_open 3 ?db1 = add_recognition 200 f ?db1"
    by (simp add: recognize_open_def u o' recognize_at_resolution_def recognition_post_init_def demo_texts) blast
  then obtain f where f: "recognize_open demo_resolve_port ''x9'' 200 demo_open 3 ?db1 = add_recognition 200 f ?db1" ..
  have "\<not> isl (add_recognition 200 f ?db1)"
    by (simp add: add_recognition_def insert_new_def insert_or_ignore_def assms demo_short_tables)
  then obtain db2 where db2: "add_recognition 200 f ?db1 = Inr db2" by (cases "add_recognition 200 f ?db1") auto
  have m: "min 5 (3::dec) = 3" "dsub 5 3 = 2" "\<not> (5::dec) \<le> 0" by (simp_all add: dsub_def)
  have "resolve_loop demo_resolve_port ''x9'' demo_execution 200 [demo_open] 5 db = Inr (([demo_resolved], 2), db2)"
    by (simp only: resolve_loop.simps m o' Let_def if_False one two f db2 bindR_simps prod.case)
  then show ?thesis using add_recognition_effect [OF db2] by auto
qed

lemma demo_run: "\<exists>db'. resolve_from_activity demo_resolve_port ''x9'' ''cover'' 200 demo_short_ledger = (Inr ([demo_resolved], Some demo_surplus), db')"
proof -
  let ?db1 = "demo_short_ledger\<lparr>db_executions := [stored_row ''x9'' None 200 demo_execution]\<rparr>"
  let ?cash = "\<lparr>ce_id = ''fill:cash:x9'', ce_idempotency_key = ''fill:cash:x9'', ce_amount = - 55, ce_currency = ''USD'', ce_occurred_at = 90, ce_reason = CASH_NOTE\<rparr>"
  let ?db2 = "?db1\<lparr>db_cash := [stored_row ''fill:cash:x9'' (Some ''fill:cash:x9'') 90 ?cash]\<rparr>"
  have e: "add_execution ''x9'' 200 demo_execution demo_short_ledger = Inr ?db1"
    by (simp add: add_execution_def insert_new_def insert_or_ignore_def demo_short_tables)
  have c: "add_cash ?cash ?db1 = Inr ?db2"
    by (simp add: add_cash_def insert_new_def insert_or_ignore_def demo_short_tables)
  obtain rows news where l: "resolve_loop demo_resolve_port ''x9'' demo_execution 200 [demo_open] 5 ?db2 = Inr (([demo_resolved], 2), appended rows news ?db2)"
    using demo_loop [of ?db2] by auto
  have x: "qx_asset demo_execution = demo_asset EQUITY None ''X''" "qx_price demo_execution = 11" "qx_executed_at demo_execution = 90"
    by (simp_all add: demo_execution_def)
  have so: "surplus_of ''x9'' demo_execution 1 2 = Inr demo_surplus"
    by (simp add: surplus_of_def inventory_post_init_def demo_texts require_positive_def decimal_value_def x demo_surplus_def)
  have "\<exists>row. add_inventory ''x9'' 200 demo_surplus (appended rows news ?db2) = Inr (on_quarantine (\<lambda>q. q\<lparr>qt_inventory := [row]\<rparr>) (appended rows news ?db2))"
    by (rule exI [of _ "stored_row (ui_id demo_surplus) (Some ''x9'') 200 demo_surplus"])
      (simp add: add_inventory_def insert_new_def insert_or_ignore_def demo_short_tables)
  then have "\<exists>row. add_surplus ''x9'' demo_execution 200 1 2 (appended rows news ?db2)
      = Inr (Some demo_surplus, on_quarantine (\<lambda>q. q\<lparr>qt_inventory := [row]\<rparr>) (appended rows news ?db2))"
    by (auto simp: add_surplus_def so)
  then obtain row where s: "add_surplus ''x9'' demo_execution 200 1 2 (appended rows news ?db2)
      = Inr (Some demo_surplus, on_quarantine (\<lambda>q. q\<lparr>qt_inventory := [row]\<rparr>) (appended rows news ?db2))" by blast
  let ?db4 = "on_quarantine (\<lambda>q. q\<lparr>qt_inventory := [row]\<rparr>) (appended rows news ?db2)"
  have u: "close_unresolved demo_resolve_port ''x9'' ''d'' demo_execution 200 ?db4 = Inr ?db4"
    by (simp add: close_unresolved_def demo_short_tables no_evidence_def)
  have "db_audit ?db4 = []" by (simp add: appended_def demo_short_tables)
  then obtain db' where a: "add_audit (resolve_event demo_resolve_port demo_cover ''cover'' demo_execution [demo_resolved] (Some demo_surplus) 200) ?db4 = Inr db'"
    by (simp add: add_audit_def)
  have cover: "ac_id demo_cover = ''x9''" "ac_symbol demo_cover = ''X''" "ac_digest demo_cover = ''d''" "qx_quantity demo_execution = 5" "or_multiplier demo_open = 1"
    by (simp_all add: demo_cover_def demo_execution_def demo_open_def)
  have w: "resolve_write demo_resolve_port demo_cover ''equity:default:alpaca:X'' ''cover'' (BUY, 5, 11, 90) demo_execution 200 demo_short_ledger
      = Inr (([demo_resolved], Some demo_surplus), db')"
    by (simp only: resolve_write_def demo_preflight bindR_simps prod.case cover demo_execution_cash e c l list.sel s u a)
  show ?thesis
    by (rule exI [of _ db'])
      (simp add: resolve_from_activity_def command_steps demo_resolve_port_def demo_texts find_activity_def cover(1,2) demo_terms demo_key demo_preflight
        demo_execution_of writeP_def w [unfolded demo_resolve_port_def])
qed


lemma demo_inputs: "rp_fills demo_resolve_port = Inr [demo_cover]" "find_activity [demo_cover] ''x9'' = Inr demo_cover" "ac_qty demo_cover = Some 5"
  "broker_symbol_asset_key (ac_symbol demo_cover) = Inr ''equity:default:alpaca:X''" "rp_between demo_resolve_port demo_short_ledger = demo_short_ledger"
  by (simp_all add: demo_resolve_port_def find_activity_def demo_cover_def demo_key)

lemma demo_grids: "grid 0 (3 :: dec)" "grid 0 (5 :: dec)"
  by (rule gridI [of _ _ 3], simp_all) (rule gridI [of _ _ 5], simp_all)

lemma demo_open_ok: "ids_ok [demo_open]" "\<forall>r\<in>set [demo_open]. grid 0 (or_quantity r)" "\<forall>r\<in>set [demo_open]. py_strip (or_id r) = or_id r"
  "\<forall>r\<in>set [demo_open]. grid 0 (or_quantity r) \<and> py_strip (or_id r) = or_id r"
  by (simp_all add: ids_ok_def demo_open_def demo_texts demo_grids)

lemma demo_open_now: "open_records (rp_between demo_resolve_port demo_short_ledger) ''equity:default:alpaca:X'' = [demo_open]"
  by (simp add: demo_inputs demo_open_records)

lemmas demo_records = demo_open_ok [folded demo_open_now]

theorem resolution_conserves_witness:
  "qs_quantity demo_resolved = min 5 (or_quantity demo_open) \<and> qs_quantity demo_resolved + ui_quantity demo_surplus = 5"
proof -
  from demo_run obtain db' where run: "resolve_from_activity demo_resolve_port ''x9'' ''cover'' 200 demo_short_ledger = (Inr ([demo_resolved], Some demo_surplus), db')" ..
  show ?thesis using resolution_conserves [OF run demo_inputs(1,2,4,3) demo_records(4) demo_grids(2)] by (simp add: demo_open_now)
qed

theorem resolution_recorded_once_witness:
  "\<exists>db' e. activity_execution_issue db' demo_cover = Inr None
     \<and> resolve_from_activity demo_resolve_port ''x9'' ''again'' 300 db' = (Inl e, db')"
proof -
  from demo_run obtain db' where run: "resolve_from_activity demo_resolve_port ''x9'' ''cover'' 200 demo_short_ledger = (Inr ([demo_resolved], Some demo_surplus), db')" ..
  have t: "py_strip (fill_cash_id ''x9'') = fill_cash_id ''x9''" "py_strip (ac_digest demo_cover) = ac_digest demo_cover"
    by (simp_all add: demo_texts demo_cover_def)
  show ?thesis
    using resolution_recorded_once [OF run demo_inputs(1,2,4) demo_texts(9) t demo_records(3), where again = demo_resolve_port and ?reason2.0 = "''again''" and ?now2.0 = 300]
    by auto
qed

theorem resolution_within_record_witness:
  "\<exists>db'. fst (resolve_from_activity demo_resolve_port ''x9'' ''cover'' 200 demo_short_ledger) = Inr ([demo_resolved], Some demo_surplus)
     \<and> snd (resolve_from_activity demo_resolve_port ''x9'' ''cover'' 200 demo_short_ledger) = db' \<and> dict_get (resolved_totals db') ''L'' \<le> 3"
proof -
  from demo_run obtain db' where run: "resolve_from_activity demo_resolve_port ''x9'' ''cover'' 200 demo_short_ledger = (Inr ([demo_resolved], Some demo_surplus), db')" ..
  have w: "record_wholes (rp_between demo_resolve_port demo_short_ledger) = [(''L'', 3)]"
    by (simp add: demo_inputs record_wholes_def demo_short_tables) (simp add: demo_short_ledger_def plain_row_def demo_liability_def)
  have t: "dict_get (resolved_totals (rp_between demo_resolve_port demo_short_ledger)) ''L'' = 0"
    by (simp add: demo_inputs resolved_totals_def demo_short_tables resolved_quantities_def dict_get_def)
  have "dict_get (resolved_totals db') ''L'' \<le> 3"
    using resolution_within_record [OF run demo_inputs(1,2,4,3) demo_grids(2) demo_records(2,1), of "''L''" 3] w t by (simp add: dsub_def)
  then show ?thesis by (simp add: run)
qed

theorem closed_record_recognised_witness:
  "unrecognized demo_short_ledger ''L'' = 2
   \<and> unrecognized (snd (resolve_from_activity demo_resolve_port ''x9'' ''cover'' 200 demo_short_ledger)) ''L'' = 0"
proof -
  from demo_run obtain db' where run: "resolve_from_activity demo_resolve_port ''x9'' ''cover'' 200 demo_short_ledger = (Inr ([demo_resolved], Some demo_surplus), db')" ..
  have u: "unrecognized demo_short_ledger ''L'' = 2"
    by (simp add: unrecognized_def allocated_amount_def recognized_amount_def demo_short_tables dsub_def dsum_def dadd_def)
  then have e: "exact_balance (rp_between demo_resolve_port demo_short_ledger) ''L''"
    by (simp add: exact_balance_def demo_inputs allocated_amount_def recognized_amount_def demo_short_tables dsum_def dadd_def)
  have z: "(demo_resolved, demo_open) \<in> set (zip [demo_resolved] (open_records (rp_between demo_resolve_port demo_short_ledger) ''equity:default:alpaca:X''))"
    by (simp add: demo_open_now)
  have o': "or_id demo_open = ''L''" "qs_quantity demo_resolved = or_quantity demo_open" by (simp_all add: demo_open_def demo_resolved_def)
  show ?thesis
    using closed_record_recognised [OF run demo_inputs(1,2,4) demo_records(1) z o'(2)] e u by (simp add: o'(1) run)
qed

end
