(* ===== verification/Legacy.thy ===== *)
theory Legacy
  imports Resolution Settlement
begin

text \<open>
  \<open>quarantine/legacy.py\<close>: an open short lot, which only code before the liabilities existed
  could book, latches the session until the operator converts it into a liability. The lot
  and its fill are never rewritten; a converted lot is named in \<open>db_converted\<close> and every lot
  read leaves it out. A refused conversion raises \<open>AdoptRefused\<close>, here \<open>AdoptionGate\<close>.

  The port carries the broker's fills, the account lease, what other tasks write between the
  check and the write, the digest of a stored lot payload, and whether the database file is a
  preserved soak.
\<close>

record legacy_port =
  lg_fills :: "activity list res"
  lg_lease :: "nat \<Rightarrow> unit res"
  lg_between :: "ledger \<Rightarrow> ledger"
  lg_sha :: "position_lot \<Rightarrow> string"
  lg_soak :: bool
  lg_text :: "dec \<Rightarrow> string"

subsection \<open>Open short lots and the latch\<close>

definition open_short_lots :: "ledger \<Rightarrow> position_lot list" where
  "open_short_lots db =
     sort_key (\<lambda>l. (l_opened_at l, l_lot_id l))
       (filter (\<lambda>l. l_side l = Short \<and> lot_is_open l \<and> l_lot_id l \<notin> set (db_converted db)) (payloads (db_lots db)))"

definition latch_legacy_short_lots :: "env \<Rightarrow> time \<Rightarrow> bool routine" where
  "latch_legacy_short_lots en now =
     bindP (readP open_short_lots) (\<lambda>lots.
       if lots \<noteq> []
       then bindP (latch_block en (''LEGACY_SHORT_LOT: '' @ join_ids (map l_lot_id lots)) now) (\<lambda>_. retP True)
       else bindP (readP open_positions) (\<lambda>records.
              if records \<noteq> []
              then bindP (latch_block en (''QUARANTINED_INVENTORY_OPEN: '' @ join_ids (map qp_record_id records)) now) (\<lambda>_. retP True)
              else retP False))"

subsection \<open>The preconditions\<close>

definition adopt_refuse :: "string \<Rightarrow> 'a res" where
  "adopt_refuse reason = Inl (AdoptionGate reason)"

definition adopt_require :: "bool \<Rightarrow> string \<Rightarrow> unit res" where
  "adopt_require ok reason = (if ok then Inr () else adopt_refuse reason)"

definition adopt_some :: "'a option \<Rightarrow> string \<Rightarrow> 'a res" where
  "adopt_some v reason = (case v of None \<Rightarrow> adopt_refuse reason | Some x \<Rightarrow> Inr x)"

definition evidence_database :: "legacy_port \<Rightarrow> ledger \<Rightarrow> bool" where
  "evidence_database lg db \<longleftrightarrow> ev_generation (db_evidence db) \<noteq> None \<or> lg_soak lg"

text \<open>What the long lots closed against a fill.\<close>

definition closed_by_fill :: "ledger \<Rightarrow> string \<Rightarrow> dec" where
  "closed_by_fill db fid =
     foldl (\<lambda>closed l. if l_side l = Long then dadd closed (dict_get (l_closures l) fid) else closed) 0 (payloads (db_lots db))"

definition lot_convertible :: "ledger \<Rightarrow> position_lot \<Rightarrow> unit res" where
  "lot_convertible db l =
     bindR (adopt_require (l_lot_id l \<notin> set (db_converted db)) ''LOT_ALREADY_CONVERTED'') (\<lambda>_.
     bindR (adopt_require (l_side l = Short) ''LOT_NOT_SHORT'') (\<lambda>_.
       adopt_require (l_closures l = [] \<and> l_asset_fees l = [] \<and> l_remaining_quantity l = l_opened_quantity l) ''LOT_HAS_CLOSURES''))"

definition fill_matches_lot :: "ledger \<Rightarrow> position_lot \<Rightarrow> fill \<Rightarrow> unit res" where
  "fill_matches_lot db l f =
     bindR (adopt_require (f_side f = SELL) ''FILL_NOT_SELL'') (\<lambda>_.
     bindR (adopt_require (l_opened_quantity l = dsub (f_quantity f) (closed_by_fill db (f_id f))) ''LOT_QUANTITY_MISMATCH'') (\<lambda>_.
       adopt_require (find_by_unique (db_liabilities db) (f_id f) = None) ''LIABILITY_EXISTS''))"

definition adopt_load :: "legacy_port \<Rightarrow> string \<Rightarrow> ledger \<Rightarrow> (position_lot \<times> fill) res" where
  "adopt_load lg lot_id db =
     bindR (adopt_require (\<not> evidence_database lg db) ''EVIDENCE_DATABASE'') (\<lambda>_.
     bindR (adopt_some (get_row (db_lots db) lot_id) ''LOT_NOT_FOUND'') (\<lambda>row.
     let l = r_payload row in
     bindR (lot_convertible db l) (\<lambda>_.
     bindR (adopt_some (get_row (db_fills db) (l_originating_fill_id l)) ''FILL_NOT_FOUND'') (\<lambda>frow.
     bindR (fill_matches_lot db l (r_payload frow)) (\<lambda>_. Inr (l, r_payload frow))))))"

text \<open>The broker's own record of the fill, exactly one, with the fill's facts.\<close>

definition adopt_activity :: "fill \<Rightarrow> activity list \<Rightarrow> activity res" where
  "adopt_activity f acts =
     (case filter (\<lambda>a. Some (ac_id a) = f_broker_fill_id f) acts of
        [a] \<Rightarrow> bindR (adopt_require ((ac_side a, ac_qty a, ac_price a) = (Some (f_side f), Some (f_quantity f), Some (f_price f)))
                        ''BROKER_EVIDENCE_CHANGED'') (\<lambda>_. Inr a)
      | _ \<Rightarrow> adopt_refuse ''FILL_ACTIVITY_MISSING'')"

subsection \<open>The conversion\<close>

record lot_conversion =
  lc_lot_id :: string
  lc_liability_id :: string
  lc_digest :: string
  lc_at :: time
  lc_reason :: string

definition conversion_post_init :: "lot_conversion \<Rightarrow> lot_conversion res" where
  "conversion_post_init c =
     bindR (require_text (Some (lc_lot_id c))) (\<lambda>l.
     bindR (require_text (Some (lc_liability_id c))) (\<lambda>i.
     bindR (require_text (Some (lc_digest c))) (\<lambda>d.
     bindR (require_text (Some (lc_reason c))) (\<lambda>r.
       Inr (c\<lparr>lc_lot_id := l, lc_liability_id := i, lc_digest := d, lc_reason := r\<rparr>)))))"

definition liability_of_lot :: "position_lot \<Rightarrow> fill \<Rightarrow> short_exposure_liability res" where
  "liability_of_lot l f =
     bindR (contract_multiplier_of (l_asset l)) (\<lambda>m.
       liability_post_init \<lparr>sl_id = ''liability:'' @ f_id f, sl_fill_id = f_id f, sl_broker_order_id = f_order_id f,
         sl_trade_intent_id = f_trade_intent_id f, sl_asset = l_asset l, sl_quantity = l_opened_quantity l, sl_sale_price = f_price f,
         sl_multiplier = m, sl_proceeds = dmul (dmul (l_opened_quantity l) (f_price f)) m, sl_opened_at = f_filled_at f\<rparr>)"

definition conversion_of :: "legacy_port \<Rightarrow> position_lot \<Rightarrow> short_exposure_liability \<Rightarrow> string \<Rightarrow> time \<Rightarrow> lot_conversion res" where
  "conversion_of lg l s reason now =
     conversion_post_init \<lparr>lc_lot_id = l_lot_id l, lc_liability_id = sl_id s, lc_digest = lg_sha lg l, lc_at = now, lc_reason = reason\<rparr>"

definition add_liability :: "time \<Rightarrow> short_exposure_liability \<Rightarrow> ledger \<Rightarrow> ledger res" where
  "add_liability now s db =
     bindR (insert_new (stored_row (sl_id s) (Some (sl_fill_id s)) now s) (db_liabilities db)) (\<lambda>t. Inr (db\<lparr>db_liabilities := t\<rparr>))"

definition add_conversion :: "lot_conversion \<Rightarrow> ledger \<Rightarrow> ledger res" where
  "add_conversion c db =
     (if lc_lot_id c \<in> set (db_converted db) then Inl (DatabaseErr ''UNIQUE constraint failed'')
      else Inr (db\<lparr>db_converted := db_converted db @ [lc_lot_id c]\<rparr>))"

definition add_short_hold :: "string \<Rightarrow> short_exposure_liability \<Rightarrow> time \<Rightarrow> ledger \<Rightarrow> ledger res" where
  "add_short_hold order s now db =
     bindR (hold_post_init \<lparr>ih_broker_order_id = order, ih_trade_intent_id = sl_trade_intent_id s, ih_type = SHORT_EXPOSURE,
              ih_reason = ''UNSUPPORTED_SHORT_POSITION: '' @ sl_id s, ih_created_at = now, ih_attempt_count = 0, ih_next_retry_at = None\<rparr>) (\<lambda>h.
       Inr (db\<lparr>db_holds := snd (insert_or_ignore \<lparr>r_id = order, r_status = Some (hold_type_value (ih_type h)), r_unique = None,
         r_payload = h, r_created = now\<rparr> (db_holds db))\<rparr>))"

text \<open>The holding goes with the instrument's last open, unconverted lot.\<close>

definition drop_converted_holding :: "asset_identity \<Rightarrow> ledger \<Rightarrow> ledger" where
  "drop_converted_holding a db =
     (if filter (\<lambda>l. asset_identity_key (l_asset l) = asset_identity_key a \<and> lot_is_open l \<and> l_lot_id l \<notin> set (db_converted db)) (payloads (db_lots db)) = []
      then db\<lparr>db_holdings := remove_row (asset_identity_key a) (db_holdings db)\<rparr> else db)"

definition conversion_event :: "legacy_port \<Rightarrow> position_lot \<Rightarrow> short_exposure_liability \<Rightarrow> lot_conversion \<Rightarrow> activity \<Rightarrow> string \<Rightarrow> time \<Rightarrow> audit_event" where
  "conversion_event lg l s c a reason now =
     \<lparr>ae_id = ''legacy_lot_conversion:'' @ l_lot_id l, ae_type = ''legacy_lot_conversion'', ae_severity = ''warning'',
      ae_message = ''legacy short lot '' @ l_lot_id l @ '' converted to '' @ sl_id s, ae_at = now,
      ae_entity_type = ''legacy_lot_conversion'', ae_entity_id = l_lot_id l,
      ae_details = [(''reason'', Some reason), (''liability_id'', Some (sl_id s)), (''lot_digest'', Some (lc_digest c)),
        (''raw_sha256'', Some (ac_digest a)), (''quantity'', Some (lg_text lg (sl_quantity s)))]\<rparr>"

definition adopt_write ::
  "legacy_port \<Rightarrow> string \<Rightarrow> position_lot \<Rightarrow> fill \<Rightarrow> activity \<Rightarrow> short_exposure_liability \<Rightarrow> lot_conversion \<Rightarrow> string \<Rightarrow> time \<Rightarrow> ledger
   \<Rightarrow> (lot_conversion \<times> ledger) res" where
  "adopt_write lg lot_id l f a s c reason now db =
     bindR (adopt_load lg lot_id db) (\<lambda>(current, _).
     bindR (adopt_require (current = l) ''LOT_CHANGED'') (\<lambda>_.
     bindR (adopt_require (\<not> evidence_changed db a) ''BROKER_EVIDENCE_CHANGED'') (\<lambda>_.
     bindR (add_liability now s db) (\<lambda>db1.
     bindR (add_conversion c db1) (\<lambda>db2.
     bindR (add_short_hold (f_order_id f) s now db2) (\<lambda>db3.
     bindR (add_audit (conversion_event lg l s c a reason now) (drop_converted_holding (l_asset current) db3)) (\<lambda>db4.
       Inr (c, db4))))))))"

definition adopt_legacy_lot :: "legacy_port \<Rightarrow> string \<Rightarrow> string \<Rightarrow> time \<Rightarrow> lot_conversion routine" where
  "adopt_legacy_lot lg lot_id reason now =
     bindP (liftP (adopt_require (py_strip reason \<noteq> []) ''REASON_REQUIRED'')) (\<lambda>_.
     bindP (liftP (lg_lease lg 0)) (\<lambda>_.
     bindP (tryP (adopt_load lg lot_id)) (\<lambda>(l, f).
     bindP (liftP (adopt_require (f_broker_fill_id f \<noteq> None \<and> f_broker_fill_id f \<noteq> Some []) ''FILL_ACTIVITY_MISSING'')) (\<lambda>_.
     bindP (liftP (bindR (lg_fills lg) (adopt_activity f))) (\<lambda>a.
     bindP (liftP (lg_lease lg 1)) (\<lambda>_.
     bindP (liftP (liability_of_lot l f)) (\<lambda>s.
     bindP (liftP (conversion_of lg l s reason now)) (\<lambda>c.
     bindP (others (lg_between lg)) (\<lambda>_.
       writeP (adopt_write lg lot_id l f a s c reason now))))))))))"


subsection \<open>Facts\<close>

lemma adopt_simps [simp]: "adopt_refuse r \<noteq> Inr v" "adopt_require b r = Inr u \<longleftrightarrow> b" "adopt_some v r = Inr x \<longleftrightarrow> v = Some x"
  by (auto simp: adopt_refuse_def adopt_require_def adopt_some_def split: option.splits)

lemma adopt_load_Inr:
  "adopt_load lg lot_id db = Inr (l, f) \<Longrightarrow> (\<exists>row. get_row (db_lots db) lot_id = Some row \<and> r_payload row = l) \<and> l_lot_id l \<notin> set (db_converted db)
     \<and> l_side l = Short \<and> l_remaining_quantity l = l_opened_quantity l \<and> f_side f = SELL
     \<and> l_opened_quantity l = dsub (f_quantity f) (closed_by_fill db (f_id f)) \<and> ev_generation (db_evidence db) = None \<and> \<not> lg_soak lg"
  by (auto simp: adopt_load_def lot_convertible_def fill_matches_lot_def evidence_database_def bindR_Inr_iff Let_def)

lemma get_row_mem: "get_row rows i = Some r \<Longrightarrow> r \<in> set rows"
  by (induction rows) (auto split: if_splits)

lemma adopt_load_converted:
  assumes "get_row (db_lots db) lot_id = Some row" and "l_lot_id (r_payload row) \<in> set (db_converted db)"
  shows "\<exists>e. adopt_load lg lot_id db = Inl e"
  using assms by (cases "adopt_load lg lot_id db") (auto dest!: adopt_load_Inr)

lemma adopt_legacy_lot_Inl: "adopt_legacy_lot lg lot_id reason now db = (Inl e, db') \<Longrightarrow> db' = db \<or> db' = lg_between lg db"
  by (auto simp: adopt_legacy_lot_def command_steps dest: writeP_Inl split: sum.splits prod.splits)

lemma adopt_load_refuses: "adopt_load lg lot_id db = Inl e \<Longrightarrow> \<exists>e'. adopt_legacy_lot lg lot_id reason now db = (Inl e', db)"
  by (auto simp: adopt_legacy_lot_def command_steps split: sum.splits)

lemma adopt_legacy_lot_Inr:
  assumes "adopt_legacy_lot lg lot_id reason now db = (Inr c, db')"
  shows "\<exists>l f a s c'. adopt_load lg lot_id db = Inr (l, f) \<and> liability_of_lot l f = Inr s \<and> conversion_of lg l s reason now = Inr c'
    \<and> adopt_write lg lot_id l f a s c' reason now (lg_between lg db) = Inr (c, db')"
  using assms by (auto simp: adopt_legacy_lot_def command_steps bindR_Inr_iff writeP_Inr_iff split: sum.splits)

lemma add_liability_effect: "add_liability now s db = Inr db' \<Longrightarrow> db' = db\<lparr>db_liabilities := db_liabilities db @ [stored_row (sl_id s) (Some (sl_fill_id s)) now s]\<rparr>"
  by (auto simp: add_liability_def bindR_Inr_iff dest!: insert_new_append)

lemma add_conversion_effect: "add_conversion c db = Inr db' \<Longrightarrow> db' = db\<lparr>db_converted := db_converted db @ [lc_lot_id c]\<rparr>"
  by (auto simp: add_conversion_def split: if_splits)

lemma insert_or_ignore_present: "get_row (snd (insert_or_ignore r rows)) (r_id r) \<noteq> None \<or> r_unique r \<noteq> None"
proof -
  have "get_row rows (r_id r) = None \<Longrightarrow> get_row (rows @ [r]) (r_id r) = Some r" by (induction rows) (auto split: if_splits)
  then show ?thesis by (auto simp: insert_or_ignore_def)
qed

lemma add_short_hold_effect: "add_short_hold order s now db = Inr db' \<Longrightarrow> \<exists>hs. db' = db\<lparr>db_holds := hs\<rparr> \<and> get_row hs order \<noteq> None"
  using insert_or_ignore_present [where r = "\<lparr>r_id = order, r_status = st, r_unique = None, r_payload = h, r_created = now\<rparr>" for st h]
  by (fastforce simp: add_short_hold_def bindR_Inr_iff)

lemma drop_converted_holding_effect: "\<exists>hs. drop_converted_holding a db = db\<lparr>db_holdings := hs\<rparr>"
  by (auto simp: drop_converted_holding_def intro: exI [of _ "db_holdings db"])

lemma adopt_write_effect:
  assumes "adopt_write lg lot_id l f a s c reason now db = Inr (c', db')"
  shows "c' = c \<and> (\<exists>f'. adopt_load lg lot_id db = Inr (l, f')) \<and> db_lots db' = db_lots db \<and> db_fills db' = db_fills db
    \<and> db_liabilities db' = db_liabilities db @ [stored_row (sl_id s) (Some (sl_fill_id s)) now s]
    \<and> db_converted db' = db_converted db @ [lc_lot_id c] \<and> db_quarantine db' = db_quarantine db \<and> get_row (db_holds db') (f_order_id f) \<noteq> None"
proof -
  from assms obtain f' db1 db2 db3 where load: "adopt_load lg lot_id db = Inr (l, f')" and w: "add_liability now s db = Inr db1" "add_conversion c db1 = Inr db2"
    "add_short_hold (f_order_id f) s now db2 = Inr db3" "add_audit (conversion_event lg l s c a reason now) (drop_converted_holding (l_asset l) db3) = Inr db'" and "c' = c"
    by (auto simp: adopt_write_def bindR_Inr_iff)
  obtain hs where hs: "drop_converted_holding (l_asset l) db3 = db3\<lparr>db_holdings := hs\<rparr>" using drop_converted_holding_effect by blast
  show ?thesis
    using load \<open>c' = c\<close> add_liability_effect [OF w(1)] add_conversion_effect [OF w(2)] add_short_hold_effect [OF w(3)] add_audit_effect [OF w(4)] hs
    by auto
qed

lemma liability_of_lot_fields:
  "liability_of_lot l f = Inr s \<Longrightarrow> sl_quantity s = l_opened_quantity l \<and> sl_asset s = l_asset l \<and> sl_sale_price s = f_price f \<and> 0 < sl_quantity s"
  by (auto simp: liability_of_lot_def liability_post_init_def require_positive_def decimal_value_Inr_iff bindR_Inr_iff)

lemma conversion_of_lot: "conversion_of lg l s reason now = Inr c \<Longrightarrow> lc_lot_id c = py_strip (l_lot_id l)"
  by (auto simp: conversion_of_def conversion_post_init_def bindR_Inr_iff dest!: py_strip_require)

lemma open_short_lots_converted:
  assumes "db_lots db' = db_lots db" and "db_converted db' = db_converted db @ [i]"
  shows "open_short_lots db' = filter (\<lambda>l. l_lot_id l \<noteq> i) (open_short_lots db)"
  using assms by (simp add: open_short_lots_def filter_sort conj_ac)

lemma resolved_nothing: "\<forall>r\<in>set rs. qs_record_id r \<noteq> i \<Longrightarrow> dict_get (resolved_quantities rs) i = 0"
  using resolved_untouched [of rs i "[]"] by (simp add: resolved_quantities_def dict_get_def)

lemma liability_open:
  assumes "s \<in> set (payloads (db_liabilities db))" and "0 < sl_quantity s" and "\<forall>r\<in>set (payloads (qt_resolutions (db_quarantine db))). qs_record_id r \<noteq> sl_id s"
  shows "sl_id s \<in> qp_record_id ` set (open_positions db)"
proof -
  have "\<forall>r\<in>set (rows_of (qt_resolutions (db_quarantine db))). qs_record_id r \<noteq> sl_id s" using assms(3) by (simp add: rows_of_def payloads_def)
  then have "dict_get (resolved_quantities (rows_of (qt_resolutions (db_quarantine db)))) (sl_id s) = 0" by (rule resolved_nothing)
  moreover have "0 < dsub (sl_quantity s) 0" using assms(2) by (simp add: dsub_def dctx.pos_iff)
  moreover have "s \<in> set (rows_of (db_liabilities db))" using assms(1) by (simp add: rows_of_def payloads_def)
  ultimately show ?thesis
    by (force simp: open_positions_def quarantined_positions_def Let_def liability_position_def last_confirmed_marks_def)
qed


subsection \<open>Properties\<close>

text \<open>C35: A conversion moves the exposure and never loses it: it appends a liability with the lot's
  whole open quantity, sale price of the fill and instrument, and the order's hold; the lot,
  kept as it is, is no longer an open short lot while every other one stays; the liability is
  an open quarantined record until something resolves it; and a second conversion is refused
  without writing. A refused conversion writes nothing.\<close>

theorem conversion_keeps_exposure:
  assumes "adopt_legacy_lot lg lot_id reason now db = (r, db')"
  shows "case r of Inl e \<Rightarrow> db' = db \<or> db' = lg_between lg db
    | Inr c \<Rightarrow> (\<exists>row s. get_row (db_lots (lg_between lg db)) lot_id = Some row \<and> r_payload row \<in> set (payloads (db_lots (lg_between lg db)))
        \<and> payloads (db_liabilities db') = payloads (db_liabilities (lg_between lg db)) @ [s]
        \<and> sl_quantity s = l_remaining_quantity (r_payload row) \<and> sl_asset s = l_asset (r_payload row)
        \<and> lc_lot_id c = py_strip (l_lot_id (r_payload row))
        \<and> db_lots db' = db_lots (lg_between lg db)
        \<and> open_short_lots db' = filter (\<lambda>l. l_lot_id l \<noteq> lc_lot_id c) (open_short_lots (lg_between lg db))
        \<and> ((\<forall>x\<in>set (payloads (qt_resolutions (db_quarantine (lg_between lg db)))). qs_record_id x \<noteq> sl_id s)
             \<longrightarrow> sl_id s \<in> qp_record_id ` set (open_positions db'))
        \<and> (py_strip (l_lot_id (r_payload row)) = l_lot_id (r_payload row) \<longrightarrow> (\<exists>e. adopt_legacy_lot again lot_id reason2 now2 db' = (Inl e, db'))))"
proof (cases r)
  case (Inl e)
  then show ?thesis using adopt_legacy_lot_Inl assms by fastforce
next
  case (Inr c)
  let ?b = "lg_between lg db"
  from adopt_legacy_lot_Inr assms Inr obtain l f a s c' where s: "liability_of_lot l f = Inr s" and c': "conversion_of lg l s reason now = Inr c'"
    and w: "adopt_write lg lot_id l f a s c' reason now ?b = Inr (c, db')" by blast
  note eff = adopt_write_effect [OF w]
  then obtain row where row: "get_row (db_lots ?b) lot_id = Some row" "r_payload row = l" "l_remaining_quantity l = l_opened_quantity l"
    by (auto dest: adopt_load_Inr)
  have c: "lc_lot_id c = py_strip (l_lot_id l)" using eff conversion_of_lot [OF c'] by simp
  have mem: "l \<in> set (payloads (db_lots ?b))" using row(1,2) by (auto simp: payloads_def dest: get_row_mem)
  have "s \<in> set (payloads (db_liabilities db'))" using eff by simp
  then have pos: "(\<forall>x\<in>set (payloads (qt_resolutions (db_quarantine ?b))). qs_record_id x \<noteq> sl_id s) \<longrightarrow> sl_id s \<in> qp_record_id ` set (open_positions db')"
    using liability_open [of s db'] liability_of_lot_fields [OF s] eff by simp
  have again: "py_strip (l_lot_id l) = l_lot_id l \<longrightarrow> (\<exists>e. adopt_legacy_lot again lot_id reason2 now2 db' = (Inl e, db'))"
    using adopt_load_converted [of db' lot_id row again] adopt_load_refuses eff row(1,2) c by auto
  show ?thesis
    unfolding Inr sum.case
    using eff row c mem pos again liability_of_lot_fields [OF s] open_short_lots_converted [of db' ?b "lc_lot_id c"]
    by (intro exI [of _ row] exI [of _ s]) simp
qed

text \<open>The pass latches the session exactly when an open short lot or an open quarantined record
  exists; with neither it returns and changes nothing.\<close>

theorem legacy_exposure_latched:
  assumes "latch_legacy_short_lots en now db = (Inr v, db')"
  shows "(v \<longleftrightarrow> open_short_lots db \<noteq> [] \<or> open_positions db \<noteq> []) \<and> (if v then blocked db' else db' = db)"
  using assms by (auto simp: latch_legacy_short_lots_def bindP_Inr_iff dest!: latch_block_blocks split: if_splits)


subsection \<open>Example\<close>

definition demo_sell_fill :: fill where
  "demo_sell_fill = demo_fill\<lparr>f_id := ''f9'', f_side := SELL, f_quantity := 3, f_broker_fill_id := Some ''x9''\<rparr>"

definition demo_short_lot :: position_lot where
  "demo_short_lot = (demo_lot ''S1'' 3 100)\<lparr>l_originating_fill_id := ''f9'', l_side := Short, l_acquisition_price := 12\<rparr>"

definition demo_legacy_ledger :: ledger where
  "demo_legacy_ledger = demo_ledger\<lparr>db_lots := [plain_row ''S1'' None (Some ''f9'') demo_short_lot],
     db_fills := [plain_row ''f9'' None (Some ''x9'') demo_sell_fill]\<rparr>"

definition demo_sale :: activity where
  "demo_sale = demo_cover\<lparr>ac_side := Some SELL, ac_qty := Some 3, ac_price := Some 12\<rparr>"

definition demo_legacy_port :: legacy_port where
  "demo_legacy_port = \<lparr>lg_fills = Inr [demo_sale], lg_lease = (\<lambda>_. Inr ()), lg_between = (\<lambda>db. db), lg_sha = (\<lambda>_. ''d''), lg_soak = False, lg_text = (\<lambda>_. ''?'')\<rparr>"

definition demo_legacy_liability :: short_exposure_liability where
  "demo_legacy_liability = \<lparr>sl_id = ''liability:f9'', sl_fill_id = ''f9'', sl_broker_order_id = ''b1'', sl_trade_intent_id = ''t1'',
     sl_asset = demo_asset EQUITY None ''X'', sl_quantity = 3, sl_sale_price = 12, sl_multiplier = 1, sl_proceeds = 36, sl_opened_at = 100\<rparr>"

definition demo_conversion :: lot_conversion where
  "demo_conversion = \<lparr>lc_lot_id = ''S1'', lc_liability_id = ''liability:f9'', lc_digest = ''d'', lc_at = 200, lc_reason = ''legacy''\<rparr>"

lemma demo_legacy_texts:
  "require_text (Some ''liability:f9'') = Inr ''liability:f9''" "require_text (Some ''f9'') = Inr ''f9''" "require_text (Some ''b1'') = Inr ''b1''"
  "require_text (Some ''t1'') = Inr ''t1''" "require_text (Some ''S1'') = Inr ''S1''" "require_text (Some ''d'') = Inr ''d''"
  "require_text (Some ''legacy'') = Inr ''legacy''" "py_strip ''legacy'' \<noteq> []" "py_strip ''S1'' = ''S1''"
  "require_text (Some ''UNSUPPORTED_SHORT_POSITION: liability:f9'') = Inr ''UNSUPPORTED_SHORT_POSITION: liability:f9''"
  by code_simp+

lemma demo_short_lot_sel: "l_lot_id demo_short_lot = ''S1''" "l_side demo_short_lot = Short" "l_closures demo_short_lot = []" "l_asset_fees demo_short_lot = []"
  "l_remaining_quantity demo_short_lot = 3" "l_opened_quantity demo_short_lot = 3" "l_originating_fill_id demo_short_lot = ''f9''"
  "l_asset demo_short_lot = demo_asset EQUITY None ''X''"
  by (simp_all add: demo_short_lot_def demo_lot_def)

lemma demo_sell_fill_sel: "f_id demo_sell_fill = ''f9''" "f_side demo_sell_fill = SELL" "f_quantity demo_sell_fill = 3" "f_price demo_sell_fill = 12"
  "f_broker_fill_id demo_sell_fill = Some ''x9''" "f_order_id demo_sell_fill = ''b1''" "f_trade_intent_id demo_sell_fill = ''t1''" "f_filled_at demo_sell_fill = 100"
  by (simp_all add: demo_sell_fill_def demo_fill_def)

lemma demo_legacy_tables:
  "db_lots demo_legacy_ledger = [plain_row ''S1'' None (Some ''f9'') demo_short_lot]" "db_fills demo_legacy_ledger = [plain_row ''f9'' None (Some ''x9'') demo_sell_fill]"
  "db_liabilities demo_legacy_ledger = []" "db_converted demo_legacy_ledger = []" "db_evidence demo_legacy_ledger = no_evidence" "db_holds demo_legacy_ledger = []"
  "db_audit demo_legacy_ledger = []" "db_quarantine demo_legacy_ledger = no_quarantine" "db_session demo_legacy_ledger = None"
  by (simp_all add: demo_legacy_ledger_def demo_ledger_def)

lemma demo_adopt_load: "adopt_load demo_legacy_port ''S1'' demo_legacy_ledger = Inr (demo_short_lot, demo_sell_fill)"
  by (simp add: adopt_load_def evidence_database_def lot_convertible_def fill_matches_lot_def closed_by_fill_def demo_legacy_tables plain_row_def
      demo_short_lot_sel demo_sell_fill_sel no_evidence_def demo_legacy_port_def adopt_require_def adopt_some_def dsub_def)

lemma demo_liability_of: "liability_of_lot demo_short_lot demo_sell_fill = Inr demo_legacy_liability"
  by (simp add: liability_of_lot_def liability_post_init_def demo_short_lot_sel demo_sell_fill_sel contract_multiplier_of_def demo_asset_def
      demo_legacy_texts require_positive_def decimal_value_def demo_legacy_liability_def dmul_def)

lemma demo_conversion_of: "conversion_of demo_legacy_port demo_short_lot demo_legacy_liability ''legacy'' 200 = Inr demo_conversion"
  by (simp add: conversion_of_def conversion_post_init_def demo_short_lot_sel demo_legacy_liability_def demo_legacy_port_def demo_legacy_texts demo_conversion_def)

lemma demo_adopt_run: "\<exists>db'. adopt_legacy_lot demo_legacy_port ''S1'' ''legacy'' 200 demo_legacy_ledger = (Inr demo_conversion, db')"
proof -
  have "\<not> isl (adopt_write demo_legacy_port ''S1'' demo_short_lot demo_sell_fill demo_sale demo_legacy_liability demo_conversion ''legacy'' 200 demo_legacy_ledger)"
    by (simp add: adopt_write_def demo_adopt_load adopt_require_def evidence_changed_def demo_legacy_tables no_evidence_def add_liability_def insert_new_def
        insert_or_ignore_def add_conversion_def add_short_hold_def hold_post_init_def demo_sell_fill_sel demo_legacy_liability_def demo_legacy_texts add_audit_def
        drop_converted_holding_def split: prod.splits)
  then obtain c db' where w: "adopt_write demo_legacy_port ''S1'' demo_short_lot demo_sell_fill demo_sale demo_legacy_liability demo_conversion ''legacy'' 200
      demo_legacy_ledger = Inr (c, db')"
    using result_of by blast
  have "c = demo_conversion" using adopt_write_effect [OF w] by simp
  moreover have a: "adopt_activity demo_sell_fill [demo_sale] = Inr demo_sale"
    by (simp add: adopt_activity_def demo_sell_fill_sel demo_sale_def demo_cover_def adopt_require_def)
  moreover have "lg_fills demo_legacy_port = Inr [demo_sale]" "lg_lease demo_legacy_port i = Inr ()" "lg_between demo_legacy_port db = db" for i db
    by (simp_all add: demo_legacy_port_def)
  ultimately show ?thesis
    by (intro exI [of _ db'])
      (simp add: adopt_legacy_lot_def command_steps adopt_require_def demo_legacy_texts demo_adopt_load demo_sell_fill_sel demo_liability_of demo_conversion_of
        writeP_def w)
qed

theorem conversion_keeps_exposure_witness:
  "\<exists>db'. adopt_legacy_lot demo_legacy_port ''S1'' ''legacy'' 200 demo_legacy_ledger = (Inr demo_conversion, db')
     \<and> open_short_lots db' = [] \<and> open_positions db' \<noteq> []"
proof -
  from demo_adopt_run obtain db' where run: "adopt_legacy_lot demo_legacy_port ''S1'' ''legacy'' 200 demo_legacy_ledger = (Inr demo_conversion, db')" ..
  have b: "lg_between demo_legacy_port demo_legacy_ledger = demo_legacy_ledger" by (simp add: demo_legacy_port_def)
  have "open_short_lots demo_legacy_ledger = [demo_short_lot]"
    by (simp add: open_short_lots_def demo_legacy_tables plain_row_def demo_short_lot_sel lot_is_open_iff)
  then show ?thesis
    using conversion_keeps_exposure [OF run] run
    by (auto simp: b demo_legacy_tables no_quarantine_def demo_conversion_def demo_short_lot_sel)
qed

theorem legacy_exposure_latched_witness:
  "\<exists>en db'. latch_legacy_short_lots en 200 demo_legacy_ledger = (Inr True, db') \<and> blocked db'"
proof -
  let ?en = "\<lparr>en_fresh = (\<lambda>_. ''e1''), en_stamp = (\<lambda>_. 0), en_alerts_configured = False, en_alert_lease = (\<lambda>_. False), en_alert_sent = (\<lambda>_. False)\<rparr>"
  have o': "open_short_lots demo_legacy_ledger = [demo_short_lot]"
    by (simp add: open_short_lots_def demo_legacy_tables plain_row_def demo_short_lot_sel lot_is_open_iff)
  obtain db' where "latch_block ?en (''LEGACY_SHORT_LOT: '' @ join_ids (map l_lot_id [demo_short_lot])) 200 demo_legacy_ledger = (Inr (), db')"
    using latch_block_runs [of demo_legacy_ledger ?en] by (auto simp: demo_legacy_tables)
  then have run: "latch_legacy_short_lots ?en 200 demo_legacy_ledger = (Inr True, db')"
    by (simp add: latch_legacy_short_lots_def o')
  show ?thesis using legacy_exposure_latched [OF run] run by auto
qed

end
