(* ===== verification/Hydration.thy ===== *)
theory Hydration
  imports Codec Legacy
begin

text \<open>
  \<open>persistence/hydration.py\<close>: one decoder per table, the registry that picks it, and the
  payloads \<open>encode_payload\<close> writes for the models. A decoder reads each field with its
  default and ends in the model's constructor, so what it returns has passed the checks.
  The tables whose models the development has are covered; scans, snapshots, AI responses,
  orders, opportunities and audit events are not.
\<close>

subsection \<open>Enumerations\<close>

definition SIDES :: "side list" where "SIDES = [BUY, SELL]"
definition MODES :: "execution_mode list" where "MODES = [PAPER, LIVE]"
definition ASSET_CLASSES :: "asset_class list" where "ASSET_CLASSES = [EQUITY, CRYPTO, OPTION, FOREX, COMMODITY, FIXED_INCOME]"
definition SETTLEMENT_STATUSES :: "settlement_status list" where
  "SETTLEMENT_STATUSES = [PENDING, PROCESSING, COMPLETED, RETRYABLE_FAILED, TERMINAL_FAILED, INTEGRITY_BLOCKED]"
definition HOLD_TYPES :: "hold_type list" where "HOLD_TYPES = [VERIFICATION_PENDING, FILL_QUANTITY_DISPUTED, SHORT_EXPOSURE, MIXED_LOT_ORIGIN]"
definition INTENT_STATUSES :: "intent_status list" where
  "INTENT_STATUSES = [TI_PROPOSED, TI_RISK_APPROVED, TI_SUBMITTED, TI_ACCEPTED, TI_PARTIALLY_FILLED, TI_FILLED, TI_REJECTED, TI_CANCELED, TI_EXPIRED,
     TI_FAILED, TI_SUBMISSION_UNKNOWN]"
definition SESSION_STATES :: "session_state list" where
  "SESSION_STATES = [DISABLED, ACTIVE, RISK_STOPPED, SYSTEM_DEGRADED, BROKER_UNAVAILABLE, MARKET_CLOSED, MANUALLY_STOPPED, FINANCIAL_INTEGRITY_BLOCKED]"

fun mode_value :: "execution_mode \<Rightarrow> string" where
  "mode_value PAPER = ''paper''"
| "mode_value LIVE = ''live''"

fun position_side_value :: "position_side \<Rightarrow> string" where
  "position_side_value Long = ''long''"
| "position_side_value Short = ''short''"

fun execution_outcome_value :: "execution_outcome \<Rightarrow> string" where
  "execution_outcome_value Matched_Fill = ''matched_fill''"
| "execution_outcome_value Quarantine_Execution = ''quarantine_execution''"
| "execution_outcome_value Pre_Database = ''pre_database''"
| "execution_outcome_value Legacy_Reconciled = ''legacy_reconciled''"

definition as_side :: "json \<Rightarrow> side res" where "as_side = as_enum side_value SIDES"
definition as_mode :: "json \<Rightarrow> execution_mode res" where "as_mode = as_enum mode_value MODES"

lemma as_side_back [read_back]: "as_side (JText (side_value x)) = Inr x"
  unfolding as_side_def by (rule as_enum_back) (auto simp: SIDES_def elim: side_value.elims, cases x, auto)

lemma as_mode_back [read_back]: "as_mode (JText (mode_value x)) = Inr x"
  unfolding as_mode_def by (rule as_enum_back) (auto simp: MODES_def elim: mode_value.elims, cases x, auto)

subsection \<open>Instruments\<close>

text \<open>
  The constructor's \<open>contract_multiplier\<close> argument is a field of the source too, written and
  never read back: the record keeps it in the metadata only, and so does the payload here.
\<close>

definition encode_asset :: "asset_identity \<Rightarrow> json" where
  "encode_asset a = JDict (sorted_keys
     [(''symbol'', JText (a_symbol a)), (''asset_class'', JText (asset_class_value (a_class a))), (''native_asset_id'', JText (a_native_id a)),
      (''venue'', enc_opt JText (a_venue a)), (''metadata'', JMeta (a_metadata a))])"

definition decode_asset_identity :: "payload \<Rightarrow> asset_identity res" where
  "decode_asset_identity d =
     bindR (bindR (jfield d ''symbol'') as_text) (\<lambda>sym.
     bindR (bindR (jfield d ''asset_class'') (as_enum asset_class_value ASSET_CLASSES)) (\<lambda>cls.
     bindR (bindR (jfield d ''native_asset_id'') as_text) (\<lambda>native.
     bindR (as_opt_text (jget d ''venue'')) (\<lambda>venue.
     bindR (as_meta (jget d ''metadata'')) (\<lambda>md.
       make_asset (Some sym) cls (Some native) venue md None)))))"

definition as_asset :: "payload \<Rightarrow> asset_identity res" where
  "as_asset d = bindR (bindR (jfield d ''asset'') as_object) decode_asset_identity"

subsection \<open>Fields\<close>

definition text_at :: "payload \<Rightarrow> string \<Rightarrow> string res" where "text_at d k = bindR (jfield d k) as_text"
definition dec_at :: "payload \<Rightarrow> string \<Rightarrow> dec res" where "dec_at d k = bindR (jfield d k) as_dec"
definition time_at :: "payload \<Rightarrow> string \<Rightarrow> time res" where "time_at d k = bindR (jfield d k) as_time"
definition opt_text_at :: "payload \<Rightarrow> string \<Rightarrow> string option res" where "opt_text_at d k = as_opt_text (jget d k)"
definition opt_dec_at :: "payload \<Rightarrow> string \<Rightarrow> dec option res" where "opt_dec_at d k = as_opt_dec (jget d k)"
definition opt_time_at :: "payload \<Rightarrow> string \<Rightarrow> time option res" where "opt_time_at d k = as_opt_time (jget d k)"
definition flag_at :: "payload \<Rightarrow> string \<Rightarrow> bool res" where "flag_at d k = as_bool (jget_or d k (JBool False))"
definition side_at :: "payload \<Rightarrow> string \<Rightarrow> side res" where "side_at d k = bindR (jfield d k) as_side"
definition mode_at :: "payload \<Rightarrow> string \<Rightarrow> execution_mode res" where "mode_at d k = bindR (jfield d k) as_mode"
definition count_at :: "payload \<Rightarrow> string \<Rightarrow> nat res" where "count_at d k = as_nat (jget_or d k (JInt 0))"

text \<open>\<open>exact_decimal\<close> of the quarantine records refuses a boolean and a float.\<close>

definition as_exact :: "json \<Rightarrow> dec res" where
  "as_exact v =
     (case v of
        JText s \<Rightarrow> (case read_decimal s of None \<Rightarrow> Inl (ValueError ''must be a decimal'') | Some x \<Rightarrow> decimal_value x False False)
      | JInt n \<Rightarrow> Inr (of_int n)
      | _ \<Rightarrow> Inl (ValueError ''must be an exact Decimal''))"

definition exact_at :: "payload \<Rightarrow> string \<Rightarrow> dec res" where "exact_at d k = bindR (jfield d k) as_exact"

lemmas field_defs = text_at_def dec_at_def time_at_def opt_text_at_def opt_dec_at_def opt_time_at_def flag_at_def side_at_def mode_at_def count_at_def
  exact_at_def

lemma as_exact_back [read_back]: "writes w q \<Longrightarrow> as_exact (enc_dec w q) = Inr q"
  using read_print_decimal [of "fst (w q)" "snd (w q)"] by (simp add: as_exact_def enc_dec_def writes_def decimal_value_def)

subsection \<open>Fills and settlements\<close>

definition encode_fill :: "writing \<Rightarrow> fill \<Rightarrow> payload" where
  "encode_fill w f = sorted_keys
     [(''fill_id'', JText (f_id f)), (''trade_intent_id'', JText (f_trade_intent_id f)), (''order_id'', JText (f_order_id f)),
      (''asset'', encode_asset (f_asset f)), (''side'', JText (side_value (f_side f))), (''execution_mode'', JText (mode_value (f_mode f))),
      (''quantity'', enc_dec w (f_quantity f)), (''price'', enc_dec w (f_price f)), (''fees'', enc_dec w (f_fees f)), (''slippage'', enc_dec w (f_slippage f)),
      (''filled_at'', enc_time (f_filled_at f)), (''broker_fill_id'', enc_opt JText (f_broker_fill_id f)),
      (''reference_price'', enc_opt (enc_dec w) (f_reference_price f)), (''reference_bid'', enc_opt (enc_dec w) (f_reference_bid f)),
      (''reference_ask'', enc_opt (enc_dec w) (f_reference_ask f)), (''reference_observed_at'', enc_opt enc_time (f_reference_observed_at f)),
      (''submitted_at'', enc_opt enc_time (f_submitted_at f)), (''order_type'', enc_opt JText (f_order_type f)),
      (''fee_currency'', enc_opt JText (f_fee_currency f)), (''fee_source'', JText (f_fee_source f))]"

definition decode_fill :: "payload \<Rightarrow> fill res" where
  "decode_fill d =
     bindR (text_at d ''fill_id'') (\<lambda>i. bindR (text_at d ''trade_intent_id'') (\<lambda>ti. bindR (text_at d ''order_id'') (\<lambda>oi.
     bindR (as_asset d) (\<lambda>a. bindR (side_at d ''side'') (\<lambda>sd. bindR (mode_at d ''execution_mode'') (\<lambda>md.
     bindR (dec_at d ''quantity'') (\<lambda>q. bindR (dec_at d ''price'') (\<lambda>p. bindR (dec_at d ''fees'') (\<lambda>fs. bindR (dec_at d ''slippage'') (\<lambda>sl.
     bindR (time_at d ''filled_at'') (\<lambda>fa. bindR (opt_text_at d ''broker_fill_id'') (\<lambda>bf.
     bindR (opt_dec_at d ''reference_price'') (\<lambda>rp. bindR (opt_dec_at d ''reference_bid'') (\<lambda>rb. bindR (opt_dec_at d ''reference_ask'') (\<lambda>ra.
     bindR (opt_time_at d ''reference_observed_at'') (\<lambda>ro. bindR (opt_time_at d ''submitted_at'') (\<lambda>sa.
     bindR (opt_text_at d ''order_type'') (\<lambda>ot. bindR (opt_text_at d ''fee_currency'') (\<lambda>fc.
     bindR (as_text (jget_or d ''fee_source'' (JText ''unavailable''))) (\<lambda>src.
       fill_post_init \<lparr>f_id = i, f_trade_intent_id = ti, f_order_id = oi, f_asset = a, f_side = sd, f_mode = md, f_quantity = q, f_price = p, f_fees = fs,
         f_slippage = sl, f_filled_at = fa, f_broker_fill_id = bf, f_reference_price = rp, f_reference_bid = rb, f_reference_ask = ra,
         f_reference_observed_at = ro, f_submitted_at = sa, f_order_type = ot, f_fee_currency = fc, f_fee_source = src\<rparr>))))))))))))))))))))"

text \<open>The stage flags of a settlement, in the order of the record.\<close>

fun flag_name :: "stage \<Rightarrow> string" where
  "flag_name LotStage = ''lot_projected''"
| "flag_name AttributionStage = ''attribution_projected''"
| "flag_name CashStage = ''cash_projected''"
| "flag_name HoldingStage = ''holding_projected''"
| "flag_name TradeStage = ''trade_projected''"
| "flag_name IntegrityStage = ''integrity_verified''"
| "flag_name LiabilityHoldStage = ''liability_hold_projected''"

definition encode_flags :: "(stage \<Rightarrow> bool) \<Rightarrow> payload" where
  "encode_flags fl = map (\<lambda>st. (flag_name st, JBool (fl st)))
     [LotStage, AttributionStage, CashStage, HoldingStage, TradeStage, IntegrityStage, LiabilityHoldStage]"

text \<open>
  The last flag defaults to whether the stored status is completed: a settlement that
  completed before the stage existed has none to run.
\<close>

definition liability_flag :: "payload \<Rightarrow> bool res" where
  "liability_flag d = as_bool (jget_or d ''liability_hold_projected'' (JBool (jget d ''status'' = JText (settlement_status_value COMPLETED))))"

definition decode_flags :: "payload \<Rightarrow> (stage \<Rightarrow> bool) res" where
  "decode_flags d =
     bindR (flag_at d ''lot_projected'') (\<lambda>l. bindR (flag_at d ''attribution_projected'') (\<lambda>a. bindR (flag_at d ''cash_projected'') (\<lambda>c.
     bindR (flag_at d ''holding_projected'') (\<lambda>h. bindR (flag_at d ''trade_projected'') (\<lambda>t. bindR (flag_at d ''integrity_verified'') (\<lambda>i.
     bindR (liability_flag d) (\<lambda>x.
       Inr (\<lambda>st. case st of LotStage \<Rightarrow> l | AttributionStage \<Rightarrow> a | CashStage \<Rightarrow> c | HoldingStage \<Rightarrow> h | TradeStage \<Rightarrow> t
              | IntegrityStage \<Rightarrow> i | LiabilityHoldStage \<Rightarrow> x))))))))"

definition encode_settlement :: "writing \<Rightarrow> settlement_event \<Rightarrow> payload" where
  "encode_settlement w e = sorted_keys
     ([(''settlement_event_id'', JText (e_id e)), (''fill_id'', JText (e_fill_id e)), (''trade_intent_id'', JText (e_trade_intent_id e)),
       (''asset'', encode_asset (e_asset e)), (''side'', JText (side_value (e_side e))), (''execution_mode'', JText (mode_value (e_mode e))),
       (''quantity'', enc_dec w (e_quantity e)), (''price'', enc_dec w (e_price e)), (''occurred_at'', enc_time (e_occurred_at e)),
       (''status'', JText (settlement_status_value (e_status e))), (''fees'', enc_dec w (e_fees e)), (''sector'', enc_opt JText (e_sector e)),
       (''broker_order_id'', enc_opt JText (e_broker_order_id e)), (''broker_fill_id'', enc_opt JText (e_broker_fill_id e)),
       (''client_order_id'', enc_opt JText (e_client_order_id e))]
      @ encode_flags (e_flags e)
      @ [(''realized_pnl'', enc_opt (enc_dec w) (e_realized_pnl e)), (''attempt_count'', JInt (int (e_attempt_count e))),
       (''error_code'', enc_opt JText (e_error e)), (''next_retry_at'', enc_opt enc_time (e_next_retry_at e)),
       (''processing_owner'', enc_opt JText (e_processing_owner e)), (''processing_started_at'', enc_opt enc_time (e_processing_started_at e))])"

definition decode_settlement :: "payload \<Rightarrow> settlement_event res" where
  "decode_settlement d =
     bindR (text_at d ''settlement_event_id'') (\<lambda>i. bindR (text_at d ''fill_id'') (\<lambda>fi. bindR (text_at d ''trade_intent_id'') (\<lambda>ti.
     bindR (as_asset d) (\<lambda>a. bindR (side_at d ''side'') (\<lambda>sd. bindR (mode_at d ''execution_mode'') (\<lambda>md.
     bindR (dec_at d ''quantity'') (\<lambda>q. bindR (dec_at d ''price'') (\<lambda>p. bindR (time_at d ''occurred_at'') (\<lambda>oa.
     bindR (as_enum settlement_status_value SETTLEMENT_STATUSES (jget_or d ''status'' (JText ''pending''))) (\<lambda>st.
     bindR (as_dec (jget_or d ''fees'' (JText ''0''))) (\<lambda>fs. bindR (opt_text_at d ''sector'') (\<lambda>sec.
     bindR (opt_text_at d ''broker_order_id'') (\<lambda>bo. bindR (opt_text_at d ''broker_fill_id'') (\<lambda>bf. bindR (opt_text_at d ''client_order_id'') (\<lambda>co.
     bindR (decode_flags d) (\<lambda>fl. bindR (opt_dec_at d ''realized_pnl'') (\<lambda>rp. bindR (count_at d ''attempt_count'') (\<lambda>ac.
     bindR (opt_text_at d ''error_code'') (\<lambda>er. bindR (opt_time_at d ''next_retry_at'') (\<lambda>nr.
     bindR (opt_text_at d ''processing_owner'') (\<lambda>po. bindR (opt_time_at d ''processing_started_at'') (\<lambda>ps.
       event_post_init \<lparr>e_id = i, e_fill_id = fi, e_trade_intent_id = ti, e_asset = a, e_side = sd, e_mode = md, e_quantity = q, e_price = p, e_occurred_at = oa,
         e_status = st, e_fees = fs, e_sector = sec, e_broker_order_id = bo, e_broker_fill_id = bf, e_client_order_id = co, e_flags = fl, e_realized_pnl = rp,
         e_attempt_count = ac, e_error = er, e_next_retry_at = nr, e_processing_owner = po, e_processing_started_at = ps\<rparr>))))))))))))))))))))))"

definition encode_hold :: "integrity_hold \<Rightarrow> payload" where
  "encode_hold h = sorted_keys
     [(''broker_order_id'', JText (ih_broker_order_id h)), (''trade_intent_id'', JText (ih_trade_intent_id h)), (''hold_type'', JText (hold_type_value (ih_type h))),
      (''reason'', JText (ih_reason h)), (''created_at'', enc_time (ih_created_at h)), (''attempt_count'', JInt (int (ih_attempt_count h))),
      (''next_retry_at'', enc_opt enc_time (ih_next_retry_at h))]"

definition decode_integrity_hold :: "payload \<Rightarrow> integrity_hold res" where
  "decode_integrity_hold d =
     bindR (text_at d ''broker_order_id'') (\<lambda>b. bindR (text_at d ''trade_intent_id'') (\<lambda>t.
     bindR (bindR (jfield d ''hold_type'') (as_enum hold_type_value HOLD_TYPES)) (\<lambda>ty. bindR (text_at d ''reason'') (\<lambda>r.
     bindR (time_at d ''created_at'') (\<lambda>ca. bindR (count_at d ''attempt_count'') (\<lambda>ac. bindR (opt_time_at d ''next_retry_at'') (\<lambda>nr.
       hold_post_init \<lparr>ih_broker_order_id = b, ih_trade_intent_id = t, ih_type = ty, ih_reason = r, ih_created_at = ca, ih_attempt_count = ac,
         ih_next_retry_at = nr\<rparr>)))))))"


subsection \<open>Portfolio records\<close>

definition encode_holding :: "writing \<Rightarrow> holding \<Rightarrow> payload" where
  "encode_holding w h = sorted_keys
     [(''asset'', encode_asset (h_asset h)), (''quantity'', enc_dec w (h_quantity h)), (''average_price'', enc_dec w (h_average_price h)),
      (''updated_at'', enc_time (h_updated_at h)), (''sector'', enc_opt JText (h_sector h)), (''stop_loss'', enc_opt (enc_dec w) (h_stop_loss h)),
      (''target_price'', enc_opt (enc_dec w) (h_target_price h)), (''current_stop'', enc_opt (enc_dec w) (h_current_stop h)),
      (''scaled_out'', JBool (h_scaled_out h))]"

definition decode_holding :: "payload \<Rightarrow> holding res" where
  "decode_holding d =
     bindR (as_asset d) (\<lambda>a. bindR (dec_at d ''quantity'') (\<lambda>q. bindR (dec_at d ''average_price'') (\<lambda>ap. bindR (time_at d ''updated_at'') (\<lambda>ua.
     bindR (opt_text_at d ''sector'') (\<lambda>sec. bindR (opt_dec_at d ''stop_loss'') (\<lambda>sl. bindR (opt_dec_at d ''target_price'') (\<lambda>tp.
     bindR (opt_dec_at d ''current_stop'') (\<lambda>cs.
       holding_post_init \<lparr>h_asset = a, h_quantity = q, h_average_price = ap, h_updated_at = ua, h_sector = sec, h_stop_loss = sl,
         h_target_price = tp, h_current_stop = cs, h_scaled_out = truthy (jget_or d ''scaled_out'' (JBool False))\<rparr>))))))))"

definition as_position_side :: "json \<Rightarrow> position_side res" where
  "as_position_side = as_enum position_side_value [Long, Short]"

text \<open>\<open>d.get("closures") or {}\<close> and \<open>d.get("asset_fee_quantities", {})\<close>.\<close>

definition closures_at :: "payload \<Rightarrow> (string \<times> dec) list res" where
  "closures_at d = (let v = jget d ''closures'' in if truthy v then as_dict v else Inr [])"

definition asset_fees_at :: "payload \<Rightarrow> (string \<times> dec) list res" where
  "asset_fees_at d = as_dict (jget_or d ''asset_fee_quantities'' (JDict []))"

definition encode_lot :: "writing \<Rightarrow> position_lot \<Rightarrow> payload" where
  "encode_lot w l = sorted_keys
     [(''lot_id'', JText (l_lot_id l)), (''originating_fill_id'', JText (l_originating_fill_id l)), (''asset'', encode_asset (l_asset l)),
      (''position_side'', JText (position_side_value (l_side l))), (''opened_quantity'', enc_dec w (l_opened_quantity l)),
      (''remaining_quantity'', enc_dec w (l_remaining_quantity l)), (''acquisition_price'', enc_dec w (l_acquisition_price l)),
      (''opened_at'', enc_time (l_opened_at l)), (''closures'', enc_dict w (l_closures l)), (''realized_pnl'', enc_dec w (l_realized_pnl l)),
      (''mfe_price'', enc_opt (enc_dec w) (l_mfe_price l)), (''mae_price'', enc_opt (enc_dec w) (l_mae_price l)),
      (''asset_fee_quantities'', enc_dict w (l_asset_fees l))]"

definition decode_position_lot :: "payload \<Rightarrow> position_lot res" where
  "decode_position_lot d =
     bindR (text_at d ''lot_id'') (\<lambda>i. bindR (text_at d ''originating_fill_id'') (\<lambda>fi. bindR (as_asset d) (\<lambda>a.
     bindR (bindR (jfield d ''position_side'') as_position_side) (\<lambda>sd. bindR (dec_at d ''opened_quantity'') (\<lambda>oq.
     bindR (dec_at d ''remaining_quantity'') (\<lambda>rq. bindR (dec_at d ''acquisition_price'') (\<lambda>ap. bindR (time_at d ''opened_at'') (\<lambda>oa.
     bindR (closures_at d) (\<lambda>cl. bindR (asset_fees_at d) (\<lambda>af. bindR (as_dec (jget_or d ''realized_pnl'' (JText ''0''))) (\<lambda>rp.
     bindR (opt_dec_at d ''mfe_price'') (\<lambda>mfe. bindR (opt_dec_at d ''mae_price'') (\<lambda>mae.
       lot_post_init \<lparr>l_lot_id = i, l_originating_fill_id = fi, l_asset = a, l_side = sd, l_opened_quantity = oq, l_remaining_quantity = rq,
         l_acquisition_price = ap, l_opened_at = oa, l_closures = cl, l_realized_pnl = rp, l_mfe_price = mfe, l_mae_price = mae,
         l_asset_fees = af\<rparr>)))))))))))))"

definition encode_cash :: "writing \<Rightarrow> cash_entry \<Rightarrow> payload" where
  "encode_cash w c = sorted_keys
     [(''entry_id'', JText (cash_entry.ce_id c)), (''idempotency_key'', JText (ce_idempotency_key c)), (''amount'', enc_dec w (ce_amount c)),
      (''currency'', JText (ce_currency c)), (''occurred_at'', enc_time (cash_entry.ce_occurred_at c)), (''reason'', JText (cash_entry.ce_reason c))]"

definition decode_cash_ledger_entry :: "payload \<Rightarrow> cash_entry res" where
  "decode_cash_ledger_entry d =
     bindR (text_at d ''entry_id'') (\<lambda>i. bindR (text_at d ''idempotency_key'') (\<lambda>k. bindR (dec_at d ''amount'') (\<lambda>am.
     bindR (text_at d ''currency'') (\<lambda>cu. bindR (time_at d ''occurred_at'') (\<lambda>oa. bindR (text_at d ''reason'') (\<lambda>rs.
       cash_post_init \<lparr>ce_id = i, ce_idempotency_key = k, ce_amount = am, ce_currency = cu, ce_occurred_at = oa, ce_reason = rs\<rparr>))))))"

definition encode_pnl :: "writing \<Rightarrow> pnl_record \<Rightarrow> payload" where
  "encode_pnl w p = sorted_keys
     [(''record_id'', JText (pr_id p)), (''asset'', encode_asset (pr_asset p)), (''realized'', enc_dec w (pr_realized p)),
      (''unrealized'', enc_dec w (pr_unrealized p)), (''as_of'', enc_time (pr_as_of p))]"

definition decode_pnl_record :: "payload \<Rightarrow> pnl_record res" where
  "decode_pnl_record d =
     bindR (text_at d ''record_id'') (\<lambda>i. bindR (as_asset d) (\<lambda>a. bindR (dec_at d ''realized'') (\<lambda>r. bindR (dec_at d ''unrealized'') (\<lambda>u.
     bindR (time_at d ''as_of'') (\<lambda>ao. pnl_post_init \<lparr>pr_id = i, pr_asset = a, pr_realized = r, pr_unrealized = u, pr_as_of = ao\<rparr>)))))"

subsection \<open>Intents and the session\<close>

text \<open>\<open>signal_timestamp\<close>, a text no operation reads, is not in the record.\<close>

definition encode_intent :: "writing \<Rightarrow> trade_intent \<Rightarrow> payload" where
  "encode_intent w t = sorted_keys
     [(''trade_intent_id'', JText (ti_id t)), (''idempotency_key'', JText (ti_idempotency_key t)), (''correlation_id'', JText (ti_correlation_id t)),
      (''asset'', encode_asset (ti_asset t)), (''side'', JText (side_value (ti_side t))), (''execution_mode'', JText (mode_value (ti_mode t))),
      (''strategy'', JText (ti_strategy t)), (''created_at'', enc_time (ti_created_at t)),
      (''requested_quantity'', enc_opt (enc_dec w) (ti_requested_quantity t)), (''requested_notional'', enc_opt (enc_dec w) (ti_requested_notional t)),
      (''reference_price'', enc_opt (enc_dec w) (ti_reference_price t)), (''confidence'', enc_opt JFloat (ti_confidence t)),
      (''risk_snapshot'', JMeta (ti_risk_snapshot t)), (''status'', JText (intent_status_value (ti_status t))),
      (''filled_quantity'', enc_dec w (ti_filled_quantity t)), (''filled_avg_price'', enc_opt (enc_dec w) (ti_filled_avg_price t)),
      (''broker_order_id'', enc_opt JText (ti_broker_order_id t)), (''client_order_id'', enc_opt JText (ti_client_order_id t)),
      (''reserved_cash'', enc_opt (enc_dec w) (ti_reserved_cash t)), (''consumed_cash'', enc_opt (enc_dec w) (ti_consumed_cash t)),
      (''realized_pnl'', enc_opt (enc_dec w) (ti_realized_pnl t)), (''rejection_reason'', enc_opt JText (ti_rejection_reason t)),
      (''sector'', enc_opt JText (ti_sector t)), (''stop_loss'', enc_opt (enc_dec w) (ti_stop_loss t)),
      (''target_price'', enc_opt (enc_dec w) (ti_target_price t)), (''order_type'', JText (ti_order_type t)),
      (''submitted_at'', enc_opt enc_time (ti_submitted_at t))]"

definition decode_trade_intent :: "payload \<Rightarrow> trade_intent res" where
  "decode_trade_intent d =
     bindR (text_at d ''trade_intent_id'') (\<lambda>i. bindR (text_at d ''idempotency_key'') (\<lambda>k. bindR (text_at d ''correlation_id'') (\<lambda>co.
     bindR (as_asset d) (\<lambda>a. bindR (side_at d ''side'') (\<lambda>sd. bindR (mode_at d ''execution_mode'') (\<lambda>md.
     bindR (text_at d ''strategy'') (\<lambda>sg. bindR (time_at d ''created_at'') (\<lambda>ca.
     bindR (opt_dec_at d ''requested_quantity'') (\<lambda>rq. bindR (opt_dec_at d ''requested_notional'') (\<lambda>rn. bindR (opt_dec_at d ''reference_price'') (\<lambda>rp.
     bindR (as_opt_number (jget d ''confidence'')) (\<lambda>cf. bindR (as_meta (jget d ''risk_snapshot'')) (\<lambda>rs.
     bindR (as_enum intent_status_value INTENT_STATUSES (jget_or d ''status'' (JText ''proposed''))) (\<lambda>st.
     bindR (as_dec (jget_or d ''filled_quantity'' (JText ''0''))) (\<lambda>fq. bindR (opt_dec_at d ''filled_avg_price'') (\<lambda>fp.
     bindR (opt_text_at d ''broker_order_id'') (\<lambda>bo. bindR (opt_text_at d ''client_order_id'') (\<lambda>cl.
     bindR (opt_dec_at d ''reserved_cash'') (\<lambda>rc. bindR (opt_dec_at d ''consumed_cash'') (\<lambda>cc. bindR (opt_dec_at d ''realized_pnl'') (\<lambda>pl.
     bindR (opt_text_at d ''rejection_reason'') (\<lambda>rr. bindR (opt_text_at d ''sector'') (\<lambda>sec.
     bindR (opt_dec_at d ''stop_loss'') (\<lambda>sl. bindR (opt_dec_at d ''target_price'') (\<lambda>tp.
     bindR (as_text (jget_or d ''order_type'' (JText ''market''))) (\<lambda>ot. bindR (opt_time_at d ''submitted_at'') (\<lambda>sa.
       intent_post_init \<lparr>ti_id = i, ti_idempotency_key = k, ti_correlation_id = co, ti_asset = a, ti_side = sd, ti_mode = md, ti_strategy = sg,
         ti_created_at = ca, ti_requested_quantity = rq, ti_requested_notional = rn, ti_reference_price = rp, ti_confidence = cf,
         ti_risk_snapshot = rs, ti_status = st, ti_filled_quantity = fq, ti_filled_avg_price = fp, ti_broker_order_id = bo,
         ti_client_order_id = cl, ti_reserved_cash = rc, ti_consumed_cash = cc, ti_realized_pnl = pl, ti_rejection_reason = rr,
         ti_sector = sec, ti_stop_loss = sl, ti_target_price = tp, ti_order_type = ot, ti_submitted_at = sa\<rparr>)))))))))))))))))))))))))))"

text \<open>The session's id is a constant of the callers and not in the record: it is passed to the encoder.\<close>

definition encode_session :: "string \<Rightarrow> trading_session \<Rightarrow> payload" where
  "encode_session sid s = sorted_keys
     [(''session_id'', JText sid), (''state'', JText (session_state_value (ts_state s))), (''trading_active'', JBool (ts_active s)),
      (''updated_at'', enc_time (ts_updated_at s)), (''kill_switch_reason'', enc_opt JText (ts_kill_reason s)),
      (''kill_switch_at'', enc_opt enc_time (ts_kill_at s)), (''kill_switch_reset_required'', JBool (ts_kill_reset s)),
      (''financial_integrity_reason'', enc_opt JText (ts_integrity_reason s)),
      (''financial_integrity_manual_reenable_required'', JBool (ts_integrity_reenable s))]"

definition decode_trading_session :: "payload \<Rightarrow> trading_session res" where
  "decode_trading_session d =
     bindR (text_at d ''session_id'') (\<lambda>i. bindR (bindR (jfield d ''state'') (as_enum session_state_value SESSION_STATES)) (\<lambda>st.
     bindR (bindR (jfield d ''trading_active'') as_bool) (\<lambda>ac. bindR (time_at d ''updated_at'') (\<lambda>ua.
     bindR (opt_text_at d ''kill_switch_reason'') (\<lambda>kr. bindR (opt_time_at d ''kill_switch_at'') (\<lambda>ka. bindR (flag_at d ''kill_switch_reset_required'') (\<lambda>kx.
     bindR (opt_text_at d ''financial_integrity_reason'') (\<lambda>ir. bindR (flag_at d ''financial_integrity_manual_reenable_required'') (\<lambda>ix.
     bindR (require_text (Some i)) (\<lambda>_.
       session_post_init \<lparr>ts_state = st, ts_active = ac, ts_updated_at = ua, ts_kill_reason = kr, ts_kill_at = ka, ts_kill_reset = kx,
         ts_integrity_reason = ir, ts_integrity_reenable = ix\<rparr>))))))))))"


subsection \<open>Quarantine and unresolved records\<close>

text \<open>
  Their constructors convert the decimals themselves (\<open>exact_decimal\<close>). The conversion is
  placed before the constructor here, so a payload with several faults may report another one.
\<close>

definition encode_liability :: "writing \<Rightarrow> short_exposure_liability \<Rightarrow> payload" where
  "encode_liability w s = sorted_keys
     [(''liability_id'', JText (sl_id s)), (''fill_id'', JText (sl_fill_id s)), (''broker_order_id'', JText (sl_broker_order_id s)),
      (''trade_intent_id'', JText (sl_trade_intent_id s)), (''asset'', encode_asset (sl_asset s)), (''quantity'', enc_dec w (sl_quantity s)),
      (''sale_price'', enc_dec w (sl_sale_price s)), (''multiplier'', enc_dec w (sl_multiplier s)), (''proceeds'', enc_dec w (sl_proceeds s)),
      (''opened_at'', enc_time (sl_opened_at s))]"

definition decode_liability :: "payload \<Rightarrow> short_exposure_liability res" where
  "decode_liability d =
     bindR (text_at d ''liability_id'') (\<lambda>i. bindR (text_at d ''fill_id'') (\<lambda>f. bindR (text_at d ''broker_order_id'') (\<lambda>b.
     bindR (text_at d ''trade_intent_id'') (\<lambda>t. bindR (as_asset d) (\<lambda>a. bindR (exact_at d ''quantity'') (\<lambda>q. bindR (exact_at d ''sale_price'') (\<lambda>p.
     bindR (exact_at d ''multiplier'') (\<lambda>m. bindR (exact_at d ''proceeds'') (\<lambda>pr. bindR (time_at d ''opened_at'') (\<lambda>oa.
       liability_post_init \<lparr>sl_id = i, sl_fill_id = f, sl_broker_order_id = b, sl_trade_intent_id = t, sl_asset = a, sl_quantity = q,
         sl_sale_price = p, sl_multiplier = m, sl_proceeds = pr, sl_opened_at = oa\<rparr>))))))))))"

definition encode_inventory :: "writing \<Rightarrow> unmanaged_inventory \<Rightarrow> payload" where
  "encode_inventory w u = sorted_keys
     [(''record_id'', JText (ui_id u)), (''cover_activity_id'', JText (ui_cover_activity_id u)), (''asset'', encode_asset (ui_asset u)),
      (''quantity'', enc_dec w (ui_quantity u)), (''cost_price'', enc_dec w (ui_cost_price u)), (''multiplier'', enc_dec w (ui_multiplier u)),
      (''opened_at'', enc_time (ui_opened_at u))]"

definition decode_inventory :: "payload \<Rightarrow> unmanaged_inventory res" where
  "decode_inventory d =
     bindR (text_at d ''record_id'') (\<lambda>i. bindR (text_at d ''cover_activity_id'') (\<lambda>c. bindR (as_asset d) (\<lambda>a.
     bindR (exact_at d ''quantity'') (\<lambda>q. bindR (exact_at d ''cost_price'') (\<lambda>p. bindR (exact_at d ''multiplier'') (\<lambda>m.
     bindR (time_at d ''opened_at'') (\<lambda>oa.
       inventory_post_init \<lparr>ui_id = i, ui_cover_activity_id = c, ui_asset = a, ui_quantity = q, ui_cost_price = p, ui_multiplier = m,
         ui_opened_at = oa\<rparr>)))))))"

definition as_execution_kind :: "json \<Rightarrow> execution_kind res" where
  "as_execution_kind = as_enum execution_kind_value [LiabilityCover, UnmanagedSale]"

definition encode_execution :: "writing \<Rightarrow> quarantine_execution \<Rightarrow> payload" where
  "encode_execution w x = sorted_keys
     [(''activity_id'', JText (qx_activity_id x)), (''kind'', JText (execution_kind_value (qx_kind x))), (''asset'', encode_asset (qx_asset x)),
      (''side'', JText (side_value (qx_side x))), (''quantity'', enc_dec w (qx_quantity x)), (''price'', enc_dec w (qx_price x)),
      (''executed_at'', enc_time (qx_executed_at x)), (''raw_sha256'', JText (qx_digest x))]"

definition decode_quarantine_execution :: "payload \<Rightarrow> quarantine_execution res" where
  "decode_quarantine_execution d =
     bindR (text_at d ''activity_id'') (\<lambda>i. bindR (bindR (jfield d ''kind'') as_execution_kind) (\<lambda>k. bindR (as_asset d) (\<lambda>a.
     bindR (side_at d ''side'') (\<lambda>sd. bindR (exact_at d ''quantity'') (\<lambda>q. bindR (exact_at d ''price'') (\<lambda>p.
     bindR (time_at d ''executed_at'') (\<lambda>ea. bindR (text_at d ''raw_sha256'') (\<lambda>dg.
       execution_post_init \<lparr>qx_activity_id = i, qx_kind = k, qx_asset = a, qx_side = sd, qx_quantity = q, qx_price = p, qx_executed_at = ea,
         qx_digest = dg\<rparr>))))))))"

definition encode_resolution :: "writing \<Rightarrow> quarantine_resolution \<Rightarrow> payload" where
  "encode_resolution w r = sorted_keys
     [(''record_id'', JText (qs_record_id r)), (''activity_id'', JText (qs_activity_id r)), (''quantity'', enc_dec w (qs_quantity r)),
      (''price'', enc_dec w (qs_price r)), (''realized_pnl'', enc_dec w (qs_realized_pnl r)), (''resolved_at'', enc_time (qs_resolved_at r))]"

definition decode_resolution :: "payload \<Rightarrow> quarantine_resolution res" where
  "decode_resolution d =
     bindR (text_at d ''record_id'') (\<lambda>i. bindR (text_at d ''activity_id'') (\<lambda>a. bindR (exact_at d ''quantity'') (\<lambda>q.
     bindR (exact_at d ''price'') (\<lambda>p. bindR (exact_at d ''realized_pnl'') (\<lambda>r. bindR (time_at d ''resolved_at'') (\<lambda>ra.
       resolution_post_init \<lparr>qs_record_id = i, qs_activity_id = a, qs_quantity = q, qs_price = p, qs_realized_pnl = r, qs_resolved_at = ra\<rparr>))))))"

definition as_pool :: "json \<Rightarrow> fee_pool res" where
  "as_pool = as_enum pool_value [OpeningPool, CoverPool]"

definition encode_allocation :: "writing \<Rightarrow> fee_allocation \<Rightarrow> payload" where
  "encode_allocation w a = sorted_keys
     [(''fee_canonical_id'', JText (fa_fee a)), (''record_id'', JText (fa_record a)), (''pool'', JText (pool_value (fa_pool a))),
      (''amount'', enc_dec w (fa_amount a))]"

definition decode_allocation :: "payload \<Rightarrow> fee_allocation res" where
  "decode_allocation d =
     bindR (text_at d ''fee_canonical_id'') (\<lambda>f. bindR (text_at d ''record_id'') (\<lambda>r. bindR (bindR (jfield d ''pool'') as_pool) (\<lambda>p.
     bindR (exact_at d ''amount'') (\<lambda>am. allocation_post_init \<lparr>fa_fee = f, fa_record = r, fa_pool = p, fa_amount = am\<rparr>))))"

definition encode_recognition :: "writing \<Rightarrow> fee_recognition \<Rightarrow> payload" where
  "encode_recognition w a = sorted_keys
     [(''record_id'', JText (fr_record a)), (''event_id'', JText (fr_event a)), (''pool'', JText (pool_value (fr_pool a))),
      (''amount'', enc_dec w (fr_amount a)), (''recognized_at'', enc_time (fr_at a))]"

definition decode_recognition :: "payload \<Rightarrow> fee_recognition res" where
  "decode_recognition d =
     bindR (text_at d ''record_id'') (\<lambda>r. bindR (text_at d ''event_id'') (\<lambda>e. bindR (bindR (jfield d ''pool'') as_pool) (\<lambda>p.
     bindR (exact_at d ''amount'') (\<lambda>am. bindR (time_at d ''recognized_at'') (\<lambda>ra.
       recognition_post_init \<lparr>fr_record = r, fr_event = e, fr_pool = p, fr_amount = am, fr_at = ra\<rparr>)))))"

definition encode_conversion :: "lot_conversion \<Rightarrow> payload" where
  "encode_conversion c = sorted_keys
     [(''lot_id'', JText (lc_lot_id c)), (''liability_id'', JText (lc_liability_id c)), (''lot_digest'', JText (lc_digest c)),
      (''converted_at'', enc_time (lc_at c)), (''reason'', JText (lc_reason c))]"

definition decode_conversion :: "payload \<Rightarrow> lot_conversion res" where
  "decode_conversion d =
     bindR (text_at d ''lot_id'') (\<lambda>l. bindR (text_at d ''liability_id'') (\<lambda>i. bindR (text_at d ''lot_digest'') (\<lambda>dg.
     bindR (time_at d ''converted_at'') (\<lambda>ca. bindR (text_at d ''reason'') (\<lambda>rs.
       conversion_post_init \<lparr>lc_lot_id = l, lc_liability_id = i, lc_digest = dg, lc_at = ca, lc_reason = rs\<rparr>)))))"

definition encode_unresolved :: "writing \<Rightarrow> unresolved_execution \<Rightarrow> payload" where
  "encode_unresolved w u = sorted_keys
     [(''activity_id'', JText (ux_activity_id u)), (''asset_key'', JText (ux_asset_key u)), (''side'', JText (side_value (ux_side u))),
      (''quantity'', enc_dec w (ux_quantity u)), (''price'', enc_dec w (ux_price u)), (''transaction_time'', enc_time (ux_time u)),
      (''raw_sha256'', JText (ux_digest u)), (''first_seen_at'', enc_time (ux_first_seen_at u)), (''pass_id'', JText (ux_pass_id u))]"

definition decode_unresolved :: "payload \<Rightarrow> unresolved_execution res" where
  "decode_unresolved d =
     bindR (text_at d ''activity_id'') (\<lambda>i. bindR (text_at d ''asset_key'') (\<lambda>k. bindR (side_at d ''side'') (\<lambda>sd.
     bindR (exact_at d ''quantity'') (\<lambda>q. bindR (exact_at d ''price'') (\<lambda>p. bindR (time_at d ''transaction_time'') (\<lambda>tt.
     bindR (text_at d ''raw_sha256'') (\<lambda>dg. bindR (time_at d ''first_seen_at'') (\<lambda>fs. bindR (text_at d ''pass_id'') (\<lambda>pi.
       unresolved_post_init \<lparr>ux_activity_id = i, ux_asset_key = k, ux_side = sd, ux_quantity = q, ux_price = p, ux_time = tt, ux_digest = dg,
         ux_first_seen_at = fs, ux_pass_id = pi\<rparr>)))))))))"

definition as_execution_outcome :: "json \<Rightarrow> execution_outcome res" where
  "as_execution_outcome = as_enum execution_outcome_value [Matched_Fill, Quarantine_Execution, Pre_Database, Legacy_Reconciled]"

definition encode_outcome :: "unresolved_outcome \<Rightarrow> payload" where
  "encode_outcome u = sorted_keys
     [(''activity_id'', JText (uo_activity_id u)), (''outcome'', JText (execution_outcome_value (uo_outcome u))),
      (''matched_record_id'', JText (uo_matched_id u)), (''evidence_sha256'', JText (uo_digest u)), (''resolved_at'', enc_time (uo_resolved_at u))]"

definition decode_outcome :: "payload \<Rightarrow> unresolved_outcome res" where
  "decode_outcome d =
     bindR (text_at d ''activity_id'') (\<lambda>i. bindR (bindR (jfield d ''outcome'') as_execution_outcome) (\<lambda>oc. bindR (text_at d ''matched_record_id'') (\<lambda>m.
     bindR (text_at d ''evidence_sha256'') (\<lambda>dg. bindR (time_at d ''resolved_at'') (\<lambda>ra.
       outcome_post_init \<lparr>uo_activity_id = i, uo_outcome = oc, uo_matched_id = m, uo_digest = dg, uo_resolved_at = ra\<rparr>)))))"

subsection \<open>The registry\<close>

datatype stored_model =
    StoredIntent trade_intent
  | StoredFill fill
  | StoredSettlement settlement_event
  | StoredHolding holding
  | StoredLot position_lot
  | StoredCash cash_entry
  | StoredPnl pnl_record
  | StoredSession trading_session
  | StoredHold integrity_hold
  | StoredLiability short_exposure_liability
  | StoredInventory unmanaged_inventory
  | StoredExecution quarantine_execution
  | StoredResolution quarantine_resolution
  | StoredAllocation fee_allocation
  | StoredRecognition fee_recognition
  | StoredConversion lot_conversion
  | StoredUnresolved unresolved_execution
  | StoredOutcome unresolved_outcome

definition mapR :: "('a \<Rightarrow> 'b) \<Rightarrow> 'a res \<Rightarrow> 'b res" where
  "mapR f r = bindR r (\<lambda>x. Inr (f x))"

text \<open>\<open>register\<close> assigns into the dict of decoders; \<open>hydrate\<close> picks from it.\<close>

type_synonym 'm registry = "(string \<times> (payload \<Rightarrow> 'm res)) list"

definition register :: "string \<Rightarrow> (payload \<Rightarrow> 'm res) \<Rightarrow> 'm registry \<Rightarrow> 'm registry" where
  "register table f reg = AList.update table f reg"

definition hydrate :: "'m registry \<Rightarrow> string \<Rightarrow> payload \<Rightarrow> 'm res" where
  "hydrate reg table d = (case map_of reg table of None \<Rightarrow> Inl (ValueError ''no hydrator registered for table'') | Some f \<Rightarrow> f d)"

definition HYDRATORS :: "stored_model registry" where
  "HYDRATORS =
     [(''trade_intents'', \<lambda>d. mapR StoredIntent (decode_trade_intent d)),
      (''fills'', \<lambda>d. mapR StoredFill (decode_fill d)),
      (''settlements'', \<lambda>d. mapR StoredSettlement (decode_settlement d)),
      (''holdings'', \<lambda>d. mapR StoredHolding (decode_holding d)),
      (''position_lots'', \<lambda>d. mapR StoredLot (decode_position_lot d)),
      (''cash_ledger'', \<lambda>d. mapR StoredCash (decode_cash_ledger_entry d)),
      (''pnl_records'', \<lambda>d. mapR StoredPnl (decode_pnl_record d)),
      (''trading_sessions'', \<lambda>d. mapR StoredSession (decode_trading_session d)),
      (''integrity_holds'', \<lambda>d. mapR StoredHold (decode_integrity_hold d)),
      (''short_exposure_liabilities'', \<lambda>d. mapR StoredLiability (decode_liability d)),
      (''unmanaged_long_inventory'', \<lambda>d. mapR StoredInventory (decode_inventory d)),
      (''quarantine_executions'', \<lambda>d. mapR StoredExecution (decode_quarantine_execution d)),
      (''quarantine_resolutions'', \<lambda>d. mapR StoredResolution (decode_resolution d)),
      (''quarantine_fee_allocations'', \<lambda>d. mapR StoredAllocation (decode_allocation d)),
      (''quarantine_fee_recognitions'', \<lambda>d. mapR StoredRecognition (decode_recognition d)),
      (''legacy_lot_conversions'', \<lambda>d. mapR StoredConversion (decode_conversion d)),
      (''unresolved_broker_executions'', \<lambda>d. mapR StoredUnresolved (decode_unresolved d)),
      (''unresolved_execution_outcomes'', \<lambda>d. mapR StoredOutcome (decode_outcome d))]"

fun table_of :: "stored_model \<Rightarrow> string" where
  "table_of (StoredIntent _) = ''trade_intents''"
| "table_of (StoredFill _) = ''fills''"
| "table_of (StoredSettlement _) = ''settlements''"
| "table_of (StoredHolding _) = ''holdings''"
| "table_of (StoredLot _) = ''position_lots''"
| "table_of (StoredCash _) = ''cash_ledger''"
| "table_of (StoredPnl _) = ''pnl_records''"
| "table_of (StoredSession _) = ''trading_sessions''"
| "table_of (StoredHold _) = ''integrity_holds''"
| "table_of (StoredLiability _) = ''short_exposure_liabilities''"
| "table_of (StoredInventory _) = ''unmanaged_long_inventory''"
| "table_of (StoredExecution _) = ''quarantine_executions''"
| "table_of (StoredResolution _) = ''quarantine_resolutions''"
| "table_of (StoredAllocation _) = ''quarantine_fee_allocations''"
| "table_of (StoredRecognition _) = ''quarantine_fee_recognitions''"
| "table_of (StoredConversion _) = ''legacy_lot_conversions''"
| "table_of (StoredUnresolved _) = ''unresolved_broker_executions''"
| "table_of (StoredOutcome _) = ''unresolved_execution_outcomes''"

text \<open>\<open>encode_payload\<close>, by the class of the model.\<close>

fun encode_payload :: "writing \<Rightarrow> string \<Rightarrow> stored_model \<Rightarrow> payload" where
  "encode_payload w sid (StoredIntent x) = encode_intent w x"
| "encode_payload w sid (StoredFill x) = encode_fill w x"
| "encode_payload w sid (StoredSettlement x) = encode_settlement w x"
| "encode_payload w sid (StoredHolding x) = encode_holding w x"
| "encode_payload w sid (StoredLot x) = encode_lot w x"
| "encode_payload w sid (StoredCash x) = encode_cash w x"
| "encode_payload w sid (StoredPnl x) = encode_pnl w x"
| "encode_payload w sid (StoredSession x) = encode_session sid x"
| "encode_payload w sid (StoredHold x) = encode_hold x"
| "encode_payload w sid (StoredLiability x) = encode_liability w x"
| "encode_payload w sid (StoredInventory x) = encode_inventory w x"
| "encode_payload w sid (StoredExecution x) = encode_execution w x"
| "encode_payload w sid (StoredResolution x) = encode_resolution w x"
| "encode_payload w sid (StoredAllocation x) = encode_allocation w x"
| "encode_payload w sid (StoredRecognition x) = encode_recognition w x"
| "encode_payload w sid (StoredConversion x) = encode_conversion x"
| "encode_payload w sid (StoredUnresolved x) = encode_unresolved w x"
| "encode_payload w sid (StoredOutcome x) = encode_outcome x"

text \<open>The constructor each model is built with.\<close>

fun construct :: "stored_model \<Rightarrow> stored_model res" where
  "construct (StoredIntent x) = mapR StoredIntent (intent_post_init x)"
| "construct (StoredFill x) = mapR StoredFill (fill_post_init x)"
| "construct (StoredSettlement x) = mapR StoredSettlement (event_post_init x)"
| "construct (StoredHolding x) = mapR StoredHolding (holding_post_init x)"
| "construct (StoredLot x) = mapR StoredLot (lot_post_init x)"
| "construct (StoredCash x) = mapR StoredCash (cash_post_init x)"
| "construct (StoredPnl x) = mapR StoredPnl (pnl_post_init x)"
| "construct (StoredSession x) = mapR StoredSession (session_post_init x)"
| "construct (StoredHold x) = mapR StoredHold (hold_post_init x)"
| "construct (StoredLiability x) = mapR StoredLiability (liability_post_init x)"
| "construct (StoredInventory x) = mapR StoredInventory (inventory_post_init x)"
| "construct (StoredExecution x) = mapR StoredExecution (execution_post_init x)"
| "construct (StoredResolution x) = mapR StoredResolution (resolution_post_init x)"
| "construct (StoredAllocation x) = mapR StoredAllocation (allocation_post_init x)"
| "construct (StoredRecognition x) = mapR StoredRecognition (recognition_post_init x)"
| "construct (StoredConversion x) = mapR StoredConversion (conversion_post_init x)"
| "construct (StoredUnresolved x) = mapR StoredUnresolved (unresolved_post_init x)"
| "construct (StoredOutcome x) = mapR StoredOutcome (outcome_post_init x)"

end
