(* ===== verification/Round_Trip.thy ===== *)
theory Round_Trip
  imports Hydration
begin

text \<open>
  Storing and reloading (\<open>persistence/codec.py\<close> with \<open>persistence/hydration.py\<close>): what
  \<open>encode_payload\<close> writes for a constructed model, \<open>hydrate\<close> reads back as that model, and
  what \<open>hydrate\<close> returns for any payload has passed the checks of its table's model.
\<close>

subsection \<open>Texts that a constructor keeps\<close>

definition proper :: "string \<Rightarrow> bool" where
  "proper s \<longleftrightarrow> s \<noteq> [] \<and> \<not> is_blank (hd s) \<and> \<not> is_blank (last s)"

lemma keep_unblank: "s \<noteq> [] \<Longrightarrow> \<not> is_blank (hd s) \<Longrightarrow> dropWhile is_blank s = s"
  by (cases s) auto

lemma strip_proper: "proper s \<Longrightarrow> py_strip s = s"
  by (simp add: proper_def py_strip_def keep_unblank hd_rev)

lemma proper_strip: "py_strip s \<noteq> [] \<Longrightarrow> proper (py_strip s)"
proof -
  let ?u = "dropWhile is_blank s" and ?v = "dropWhile is_blank (rev (dropWhile is_blank s))"
  assume "py_strip s \<noteq> []"
  then have v: "?v \<noteq> []" by (simp add: py_strip_def)
  then have u: "?u \<noteq> []" by (metis dropWhile.simps(1) rev.simps(1))
  have l: "\<not> is_blank (hd ?v)" using v by (rule hd_dropWhile)
  have h: "\<not> is_blank (hd ?u)" using u by (rule hd_dropWhile)
  have "?v = drop (length (takeWhile is_blank (rev ?u))) (rev ?u)" by (rule dropWhile_eq_drop)
  then have "last ?v = last (rev ?u)" using v by (metis drop_eq_Nil last_drop linorder_not_le)
  then have "last ?v = hd ?u" using u by (simp add: last_rev)
  then show ?thesis using v l h by (simp add: proper_def py_strip_def hd_rev last_rev)
qed

lemma require_text_proper: "require_text (Some s) = Inr t \<Longrightarrow> proper t"
  by (auto simp: require_text_def Let_def proper_strip split: if_splits)

lemma require_proper: "proper s \<Longrightarrow> require_text (Some s) = Inr s"
  by (simp add: require_text_def strip_proper Let_def) (simp add: proper_def)

lemma require_text_again: "require_text (Some s) = Inr t \<Longrightarrow> require_text (Some t) = Inr t"
  by (intro require_proper require_text_proper)

lemma blank_upper: "is_blank (py_upper_char c) = is_blank c"
proof (cases "97 \<le> (of_char c :: nat) \<and> (of_char c :: nat) \<le> 122")
  case True
  then have "(of_char c - 32 :: nat) < 256" by linarith
  then have "(of_char (char_of (of_char c - 32 :: nat)) :: nat) = of_char c - 32" by simp
  then show ?thesis using True by (auto simp: py_upper_char_def is_blank_def Let_def)
qed (auto simp: py_upper_char_def Let_def)

lemma upper_upper: "py_upper_char (py_upper_char c) = py_upper_char c"
proof (cases "97 \<le> (of_char c :: nat) \<and> (of_char c :: nat) \<le> 122")
  case True
  then have "(of_char c - 32 :: nat) < 256" by linarith
  then have "(of_char (char_of (of_char c - 32 :: nat)) :: nat) = of_char c - 32" by simp
  then show ?thesis using True by (auto simp: py_upper_char_def Let_def)
qed (auto simp: py_upper_char_def Let_def)

lemma py_upper_again: "py_upper (py_upper s) = py_upper s"
  by (simp add: py_upper_def upper_upper)

lemma proper_upper: "proper s \<Longrightarrow> proper (py_upper s)"
  by (cases s) (auto simp: proper_def py_upper_def blank_upper last_map)

subsection \<open>Constructors accept what they return\<close>

definition asset_ok :: "asset_identity \<Rightarrow> bool" where
  "asset_ok a \<longleftrightarrow> proper (a_symbol a) \<and> py_upper (a_symbol a) = a_symbol a \<and> proper (a_native_id a)"

lemma make_asset_ok: "make_asset s c n v m x = Inr a \<Longrightarrow> s \<noteq> None \<Longrightarrow> n \<noteq> None \<Longrightarrow> asset_ok a"
  by (auto simp: make_asset_def bindR_Inr_iff asset_ok_def py_upper_again proper_upper dest!: require_text_proper)

lemma asset_again: "asset_ok a \<Longrightarrow> make_asset (Some (a_symbol a)) (a_class a) (Some (a_native_id a)) (a_venue a) (a_metadata a) None = Inr a"
  by (simp add: make_asset_def asset_ok_def require_proper)

lemma intent_again: "intent_post_init x0 = Inr x \<Longrightarrow> intent_post_init x = Inr x"
  by (auto simp: intent_post_init_def res_iffs opt_positive_Inr_iff opt_nonneg_Inr_iff decimal_value_Inr_iff require_proper dest!: require_text_proper)

lemma event_again: "event_post_init x0 = Inr x \<Longrightarrow> event_post_init x = Inr x"
  by (auto simp: event_post_init_def res_iffs decimal_value_Inr_iff require_proper dest!: require_text_proper)

lemma opt_text_proper: "opt_text v = Inr u \<Longrightarrow> \<forall>t. u = Some t \<longrightarrow> proper t"
  by (auto simp: opt_text_def bindR_Inr_iff dest!: require_text_proper split: option.splits)

lemma opt_text_keeps: "\<forall>t. v = Some t \<longrightarrow> proper t \<Longrightarrow> opt_text v = Inr v"
  by (cases v) (auto simp: opt_text_def require_proper)

lemma opt_text_upper: "\<forall>t. v = Some t \<longrightarrow> proper t \<Longrightarrow> opt_text (map_option py_upper v) = Inr (map_option py_upper v)"
  by (cases v) (auto simp: opt_text_def require_proper proper_upper)

lemma map_upper_again: "map_option py_upper (map_option py_upper v) = map_option py_upper v"
  by (cases v) (auto simp: py_upper_again)

lemma fill_again: "fill_post_init x0 = Inr x \<Longrightarrow> fill_post_init x = Inr x"
  by (auto simp: fill_post_init_def res_iffs opt_positive_Inr_iff decimal_value_Inr_iff require_proper opt_text_keeps opt_text_upper map_upper_again
      dest!: require_text_proper opt_text_proper simp del: option.map_comp split: option.splits)

lemma cash_again: "cash_post_init x0 = Inr x \<Longrightarrow> cash_post_init x = Inr x"
  by (auto simp: cash_post_init_def res_iffs require_proper dest!: require_text_proper)

lemma pnl_again: "pnl_post_init x0 = Inr x \<Longrightarrow> pnl_post_init x = Inr x"
  by (auto simp: pnl_post_init_def res_iffs require_proper dest!: require_text_proper)

lemma hold_again: "hold_post_init x0 = Inr x \<Longrightarrow> hold_post_init x = Inr x"
  by (auto simp: hold_post_init_def res_iffs require_proper dest!: require_text_proper)

lemma session_again: "session_post_init x0 = Inr x \<Longrightarrow> x = x0"
  by (auto simp: session_post_init_def res_iffs)

lemmas quarantine_inits = liability_post_init_def inventory_post_init_def execution_post_init_def resolution_post_init_def allocation_post_init_def
  recognition_post_init_def conversion_post_init_def unresolved_post_init_def outcome_post_init_def require_positive_def

lemma quarantine_again:
  "liability_post_init l0 = Inr l \<Longrightarrow> liability_post_init l = Inr l"
  "inventory_post_init i0 = Inr i \<Longrightarrow> inventory_post_init i = Inr i"
  "execution_post_init e0 = Inr e \<Longrightarrow> execution_post_init e = Inr e"
  "resolution_post_init r0 = Inr r \<Longrightarrow> resolution_post_init r = Inr r"
  "allocation_post_init a0 = Inr a \<Longrightarrow> allocation_post_init a = Inr a"
  "recognition_post_init f0 = Inr f \<Longrightarrow> recognition_post_init f = Inr f"
  "conversion_post_init c0 = Inr c \<Longrightarrow> conversion_post_init c = Inr c"
  "unresolved_post_init u0 = Inr u \<Longrightarrow> unresolved_post_init u = Inr u"
  "outcome_post_init o0 = Inr v \<Longrightarrow> outcome_post_init v = Inr v"
  by (auto simp: quarantine_inits res_iffs decimal_value_Inr_iff require_proper dest!: require_text_proper)

text \<open>The fee dict a lot's constructor builds has one entry a key and is rebuilt as it is.\<close>

definition fees_ok :: "(string \<times> dec) list \<Rightarrow> bool" where
  "fees_ok xs \<longleftrightarrow> distinct (map fst xs) \<and> (\<forall>p\<in>set xs. proper (fst p) \<and> 0 < snd p)"

lemma no_fees_ok: "fees_ok []"
  by (simp add: fees_ok_def)

lemma update_values: "p \<in> set (AList.update k v xs) \<Longrightarrow> p = (k, v) \<or> p \<in> set xs"
  by (induction xs) (auto split: if_splits)

lemma check_fees_ok: "check_fees acc xs = Inr ys \<Longrightarrow> fees_ok acc \<Longrightarrow> fees_ok ys"
proof (induction acc xs rule: check_fees.induct)
  case (2 acc k v kvs)
  then obtain k' where k': "require_text (Some k) = Inr k'" "0 < v" "check_fees (AList.update k' v acc) kvs = Inr ys"
    by (auto simp: bindR_Inr_iff decimal_value_Inr_iff)
  have "fees_ok (AList.update k' v acc)"
    using 2(3) k'(2) require_text_proper [OF k'(1)] by (auto simp: fees_ok_def distinct_update dest!: update_values)
  then show ?case using 2(1) k' by (auto simp: decimal_value_Inr_iff)
qed simp

lemma update_new: "k \<notin> fst ` set xs \<Longrightarrow> AList.update k v xs = xs @ [(k, v)]"
  by (induction xs) auto

lemma check_fees_again: "fees_ok (acc @ xs) \<Longrightarrow> check_fees acc xs = Inr (acc @ xs)"
proof (induction acc xs rule: check_fees.induct)
  case (2 acc k v kvs)
  then have p: "require_text (Some k) = Inr k" "0 < v" "k \<notin> fst ` set acc" by (auto simp: fees_ok_def require_proper)
  then have d: "decimal_value (Fin v) True False = Inr v" by (simp add: decimal_value_Inr_iff)
  have u: "AList.update k v acc = acc @ [(k, v)]" using p(3) by (rule update_new)
  have "check_fees (acc @ [(k, v)]) kvs = Inr ((acc @ [(k, v)]) @ kvs)" using 2(1) [of k v] 2(2) unfolding u by simp
  then show ?case using p(1) d u by simp
qed simp

lemma lot_fees_ok: "lot_post_init x0 = Inr x \<Longrightarrow> fees_ok (l_asset_fees x)"
  by (auto simp: lot_post_init_def res_iffs dest!: check_fees_ok [OF _ no_fees_ok])

lemma lot_again: "lot_post_init x0 = Inr x \<Longrightarrow> lot_post_init x = Inr x"
  using check_fees_again [of "[]" "l_asset_fees x", simplified, OF lot_fees_ok [of x0 x]]
  by (auto simp: lot_post_init_def res_iffs opt_positive_Inr_iff decimal_value_Inr_iff require_proper dest!: require_text_proper)


subsection \<open>What a model writes\<close>

definition opt_list :: "'a option \<Rightarrow> 'a list" where
  "opt_list v = (case v of None \<Rightarrow> [] | Some x \<Rightarrow> [x])"

text \<open>The decimals, the times and the instrument of a model.\<close>

fun model_decimals :: "stored_model \<Rightarrow> dec list" where
  "model_decimals (StoredIntent t) = ti_filled_quantity t # opt_list (ti_requested_quantity t) @ opt_list (ti_requested_notional t)
     @ opt_list (ti_reference_price t) @ opt_list (ti_filled_avg_price t) @ opt_list (ti_reserved_cash t) @ opt_list (ti_consumed_cash t)
     @ opt_list (ti_realized_pnl t) @ opt_list (ti_stop_loss t) @ opt_list (ti_target_price t)"
| "model_decimals (StoredFill f) = [f_quantity f, f_price f, f_fees f, f_slippage f] @ opt_list (f_reference_price f) @ opt_list (f_reference_bid f)
     @ opt_list (f_reference_ask f)"
| "model_decimals (StoredSettlement e) = [e_quantity e, e_price e, e_fees e] @ opt_list (e_realized_pnl e)"
| "model_decimals (StoredHolding h) = [h_quantity h, h_average_price h] @ opt_list (h_stop_loss h) @ opt_list (h_target_price h) @ opt_list (h_current_stop h)"
| "model_decimals (StoredLot l) = [l_opened_quantity l, l_remaining_quantity l, l_acquisition_price l, l_realized_pnl l]
     @ opt_list (l_mfe_price l) @ opt_list (l_mae_price l) @ map snd (l_closures l) @ map snd (l_asset_fees l)"
| "model_decimals (StoredCash c) = [ce_amount c]"
| "model_decimals (StoredPnl p) = [pr_realized p, pr_unrealized p]"
| "model_decimals (StoredLiability s) = [sl_quantity s, sl_sale_price s, sl_multiplier s, sl_proceeds s]"
| "model_decimals (StoredInventory u) = [ui_quantity u, ui_cost_price u, ui_multiplier u]"
| "model_decimals (StoredExecution x) = [qx_quantity x, qx_price x]"
| "model_decimals (StoredResolution r) = [qs_quantity r, qs_price r, qs_realized_pnl r]"
| "model_decimals (StoredAllocation a) = [fa_amount a]"
| "model_decimals (StoredRecognition a) = [fr_amount a]"
| "model_decimals (StoredUnresolved u) = [ux_quantity u, ux_price u]"
| "model_decimals (StoredSession _) = []"
| "model_decimals (StoredHold _) = []"
| "model_decimals (StoredConversion _) = []"
| "model_decimals (StoredOutcome _) = []"

fun model_times :: "stored_model \<Rightarrow> time list" where
  "model_times (StoredIntent t) = ti_created_at t # opt_list (ti_submitted_at t)"
| "model_times (StoredFill f) = f_filled_at f # opt_list (f_reference_observed_at f) @ opt_list (f_submitted_at f)"
| "model_times (StoredSettlement e) = e_occurred_at e # opt_list (e_next_retry_at e) @ opt_list (e_processing_started_at e)"
| "model_times (StoredHolding h) = [h_updated_at h]"
| "model_times (StoredLot l) = [l_opened_at l]"
| "model_times (StoredCash c) = [cash_entry.ce_occurred_at c]"
| "model_times (StoredPnl p) = [pr_as_of p]"
| "model_times (StoredSession s) = ts_updated_at s # opt_list (ts_kill_at s)"
| "model_times (StoredHold h) = ih_created_at h # opt_list (ih_next_retry_at h)"
| "model_times (StoredLiability s) = [sl_opened_at s]"
| "model_times (StoredInventory u) = [ui_opened_at u]"
| "model_times (StoredExecution x) = [qx_executed_at x]"
| "model_times (StoredResolution r) = [qs_resolved_at r]"
| "model_times (StoredRecognition a) = [fr_at a]"
| "model_times (StoredConversion c) = [lc_at c]"
| "model_times (StoredUnresolved u) = [ux_time u, ux_first_seen_at u]"
| "model_times (StoredOutcome u) = [uo_resolved_at u]"
| "model_times (StoredAllocation _) = []"

fun model_asset :: "stored_model \<Rightarrow> asset_identity option" where
  "model_asset (StoredIntent t) = Some (ti_asset t)"
| "model_asset (StoredFill f) = Some (f_asset f)"
| "model_asset (StoredSettlement e) = Some (e_asset e)"
| "model_asset (StoredHolding h) = Some (h_asset h)"
| "model_asset (StoredLot l) = Some (l_asset l)"
| "model_asset (StoredPnl p) = Some (pr_asset p)"
| "model_asset (StoredLiability s) = Some (sl_asset s)"
| "model_asset (StoredInventory u) = Some (ui_asset u)"
| "model_asset (StoredExecution x) = Some (qx_asset x)"
| "model_asset _ = None"

text \<open>A lot's two dicts come back in the order of their keys: this is the order they have.\<close>

fun dicts_sorted :: "stored_model \<Rightarrow> bool" where
  "dicts_sorted (StoredLot l) = (sorted (map fst (l_closures l)) \<and> sorted (map fst (l_asset_fees l)))"
| "dicts_sorted _ = True"

definition storable :: "writing \<Rightarrow> stored_model \<Rightarrow> bool" where
  "storable w m \<longleftrightarrow> list_all (writes w) (model_decimals m) \<and> list_all in_calendar (model_times m)
     \<and> (case model_asset m of None \<Rightarrow> True | Some a \<Rightarrow> asset_ok a) \<and> dicts_sorted m"

lemma opt_list_all: "list_all (writes w) (opt_list v) = writes_opt w v" "list_all in_calendar (opt_list u) = calendar_opt u"
  by (simp_all add: opt_list_def writes_opt_def calendar_opt_def split: option.splits)

lemmas storable_simps = storable_def opt_list_all list_all_append

subsection \<open>Reading back, by model\<close>

lemma as_asset_back: "asset_ok a \<Longrightarrow> jfield d ''asset'' = Inr (encode_asset a) \<Longrightarrow> as_asset d = Inr a"
proof -
  assume a: "asset_ok a" and d: "jfield d ''asset'' = Inr (encode_asset a)"
  have c: "as_enum asset_class_value ASSET_CLASSES (JText (asset_class_value (a_class a))) = Inr (a_class a)"
    by (rule as_enum_back) (auto simp: ASSET_CLASSES_def elim: asset_class_value.elims, cases "a_class a", auto)
  show ?thesis
    using asset_again [OF a] by (simp add: as_asset_def d encode_asset_def decode_asset_identity_def read_back c)
qed

lemma enum_back [read_back]:
  "as_enum settlement_status_value SETTLEMENT_STATUSES (JText (settlement_status_value st)) = Inr st"
  "as_enum hold_type_value HOLD_TYPES (JText (hold_type_value ht)) = Inr ht"
  "as_enum intent_status_value INTENT_STATUSES (JText (intent_status_value is)) = Inr is"
  "as_enum session_state_value SESSION_STATES (JText (session_state_value ss)) = Inr ss"
  "as_position_side (JText (position_side_value ps)) = Inr ps"
  "as_execution_kind (JText (execution_kind_value k)) = Inr k"
  "as_pool (JText (pool_value p)) = Inr p"
  "as_execution_outcome (JText (execution_outcome_value oc)) = Inr oc"
  subgoal by (cases st) (simp_all add: as_enum_def SETTLEMENT_STATUSES_def)
  subgoal by (cases ht) (simp_all add: as_enum_def HOLD_TYPES_def)
  subgoal by (cases "is") (simp_all add: as_enum_def INTENT_STATUSES_def)
  subgoal by (cases ss) (simp_all add: as_enum_def SESSION_STATES_def)
  subgoal by (cases ps) (simp_all add: as_enum_def as_position_side_def)
  subgoal by (cases k) (simp_all add: as_enum_def as_execution_kind_def)
  subgoal by (cases p) (simp_all add: as_enum_def as_pool_def)
  subgoal by (cases oc) (simp_all add: as_enum_def as_execution_outcome_def)
  done

lemma flags_again:
  "(\<lambda>st. case st of LotStage \<Rightarrow> fl LotStage | AttributionStage \<Rightarrow> fl AttributionStage | CashStage \<Rightarrow> fl CashStage | HoldingStage \<Rightarrow> fl HoldingStage
      | TradeStage \<Rightarrow> fl TradeStage | IntegrityStage \<Rightarrow> fl IntegrityStage | LiabilityHoldStage \<Rightarrow> fl LiabilityHoldStage) = fl"
  by (rule ext) (simp split: stage.split)

lemma dict_back: "list_all (writes w) (map snd d) \<Longrightarrow> sorted (map fst d) \<Longrightarrow> as_dict (enc_dict w d) = Inr d"
  by (simp add: as_dict_back list_all_iff sort_key_id_if_sorted)

lemma truthy_dict: "truthy (enc_dict w d) = (d \<noteq> [])"
  by (simp add: truthy_def enc_dict_def sorted_keys_def) (metis length_0_conv length_map length_sort)

lemma some_dict: "(if d = [] then Inr [] else Inr d) = Inr d"
  by simp

lemma fill_back:
  assumes "storable w (StoredFill x)"
  shows "decode_fill (encode_fill w x) = fill_post_init x"
proof -
  let ?d = "encode_fill w x"
  have a: "as_asset ?d = Inr (f_asset x)" using assms by (intro as_asset_back) (simp_all add: storable_simps encode_fill_def read_back)
  show ?thesis
    using assms unfolding decode_fill_def a
    by (cases x) (simp add: storable_simps field_defs encode_fill_def read_back)
qed

lemma settlement_back:
  assumes "storable w (StoredSettlement x)"
  shows "decode_settlement (encode_settlement w x) = event_post_init x"
proof -
  let ?d = "encode_settlement w x"
  have a: "as_asset ?d = Inr (e_asset x)" using assms by (intro as_asset_back) (simp_all add: storable_simps encode_settlement_def read_back)
  show ?thesis
    using assms unfolding decode_settlement_def a
    by (cases x) (simp add: storable_simps field_defs encode_settlement_def read_back decode_flags_def liability_flag_def encode_flags_def flags_again)
qed

lemma intent_back:
  assumes "storable w (StoredIntent x)"
  shows "decode_trade_intent (encode_intent w x) = intent_post_init x"
proof -
  let ?d = "encode_intent w x"
  have a: "as_asset ?d = Inr (ti_asset x)" using assms by (intro as_asset_back) (simp_all add: storable_simps encode_intent_def read_back)
  show ?thesis
    using assms unfolding decode_trade_intent_def a
    by (cases x) (simp add: storable_simps field_defs encode_intent_def read_back)
qed

lemma holding_back:
  assumes "storable w (StoredHolding x)"
  shows "decode_holding (encode_holding w x) = holding_post_init x"
proof -
  let ?d = "encode_holding w x"
  have a: "as_asset ?d = Inr (h_asset x)" using assms by (intro as_asset_back) (simp_all add: storable_simps encode_holding_def read_back)
  show ?thesis
    using assms unfolding decode_holding_def a
    by (cases x) (simp add: storable_simps field_defs encode_holding_def read_back)
qed

lemma lot_back:
  assumes "storable w (StoredLot x)"
  shows "decode_position_lot (encode_lot w x) = lot_post_init x"
proof -
  let ?d = "encode_lot w x"
  have a: "as_asset ?d = Inr (l_asset x)" using assms by (intro as_asset_back) (simp_all add: storable_simps encode_lot_def read_back)
  show ?thesis
    using assms unfolding decode_position_lot_def a
    by (cases x) (simp add: storable_simps field_defs encode_lot_def read_back closures_at_def asset_fees_at_def truthy_dict dict_back some_dict)
qed

lemma cash_back:
  assumes "storable w (StoredCash x)"
  shows "decode_cash_ledger_entry (encode_cash w x) = cash_post_init x"
  using assms by (cases x) (simp add: decode_cash_ledger_entry_def storable_simps field_defs encode_cash_def read_back)

lemma pnl_back:
  assumes "storable w (StoredPnl x)"
  shows "decode_pnl_record (encode_pnl w x) = pnl_post_init x"
proof -
  let ?d = "encode_pnl w x"
  have a: "as_asset ?d = Inr (pr_asset x)" using assms by (intro as_asset_back) (simp_all add: storable_simps encode_pnl_def read_back)
  show ?thesis
    using assms unfolding decode_pnl_record_def a
    by (cases x) (simp add: storable_simps field_defs encode_pnl_def read_back)
qed

lemma hold_back:
  assumes "storable w (StoredHold x)"
  shows "decode_integrity_hold (encode_hold x) = hold_post_init x"
  using assms by (cases x) (simp add: decode_integrity_hold_def storable_simps field_defs encode_hold_def read_back)

lemma liability_back:
  assumes "storable w (StoredLiability x)"
  shows "decode_liability (encode_liability w x) = liability_post_init x"
proof -
  let ?d = "encode_liability w x"
  have a: "as_asset ?d = Inr (sl_asset x)" using assms by (intro as_asset_back) (simp_all add: storable_simps encode_liability_def read_back)
  show ?thesis
    using assms unfolding decode_liability_def a
    by (cases x) (simp add: storable_simps field_defs encode_liability_def read_back)
qed

lemma inventory_back:
  assumes "storable w (StoredInventory x)"
  shows "decode_inventory (encode_inventory w x) = inventory_post_init x"
proof -
  let ?d = "encode_inventory w x"
  have a: "as_asset ?d = Inr (ui_asset x)" using assms by (intro as_asset_back) (simp_all add: storable_simps encode_inventory_def read_back)
  show ?thesis
    using assms unfolding decode_inventory_def a
    by (cases x) (simp add: storable_simps field_defs encode_inventory_def read_back)
qed

lemma execution_back:
  assumes "storable w (StoredExecution x)"
  shows "decode_quarantine_execution (encode_execution w x) = execution_post_init x"
proof -
  let ?d = "encode_execution w x"
  have a: "as_asset ?d = Inr (qx_asset x)" using assms by (intro as_asset_back) (simp_all add: storable_simps encode_execution_def read_back)
  show ?thesis
    using assms unfolding decode_quarantine_execution_def a
    by (cases x) (simp add: storable_simps field_defs encode_execution_def read_back)
qed

lemma resolution_back:
  assumes "storable w (StoredResolution x)"
  shows "decode_resolution (encode_resolution w x) = resolution_post_init x"
  using assms by (cases x) (simp add: decode_resolution_def storable_simps field_defs encode_resolution_def read_back)

lemma allocation_back:
  assumes "storable w (StoredAllocation x)"
  shows "decode_allocation (encode_allocation w x) = allocation_post_init x"
  using assms by (cases x) (simp add: decode_allocation_def storable_simps field_defs encode_allocation_def read_back)

lemma recognition_back:
  assumes "storable w (StoredRecognition x)"
  shows "decode_recognition (encode_recognition w x) = recognition_post_init x"
  using assms by (cases x) (simp add: decode_recognition_def storable_simps field_defs encode_recognition_def read_back)

lemma conversion_back:
  assumes "storable w (StoredConversion x)"
  shows "decode_conversion (encode_conversion x) = conversion_post_init x"
  using assms by (cases x) (simp add: decode_conversion_def storable_simps field_defs encode_conversion_def read_back)

lemma unresolved_back:
  assumes "storable w (StoredUnresolved x)"
  shows "decode_unresolved (encode_unresolved w x) = unresolved_post_init x"
  using assms by (cases x) (simp add: decode_unresolved_def storable_simps field_defs encode_unresolved_def read_back)

lemma outcome_back:
  assumes "storable w (StoredOutcome x)"
  shows "decode_outcome (encode_outcome x) = outcome_post_init x"
  using assms by (cases x) (simp add: decode_outcome_def storable_simps field_defs encode_outcome_def read_back)

lemma session_back:
  assumes "storable w (StoredSession x)" and "proper sid"
  shows "decode_trading_session (encode_session sid x) = session_post_init x"
  using assms by (cases x) (simp add: decode_trading_session_def storable_simps field_defs encode_session_def read_back require_proper)

subsection \<open>Every table\<close>

lemma construct_again: "construct m0 = Inr m \<Longrightarrow> construct m = Inr m"
proof -
  have holding: "holding_post_init x0 = Inr x \<Longrightarrow> holding_post_init x = Inr x" for x0 x by (simp add: holding_post_init_Inr_iff)
  have session: "session_post_init x0 = Inr x \<Longrightarrow> session_post_init x = Inr x" for x0 x using session_again by metis
  assume "construct m0 = Inr m"
  then show ?thesis
    by (cases m0) (auto simp: mapR_def bindR_Inr_iff dest: holding session intent_again event_again fill_again lot_again cash_again pnl_again hold_again
        quarantine_again)
qed

lemma hydrate_decodes:
  "hydrate HYDRATORS ''trade_intents'' d = mapR StoredIntent (decode_trade_intent d)"
  "hydrate HYDRATORS ''fills'' d = mapR StoredFill (decode_fill d)"
  "hydrate HYDRATORS ''settlements'' d = mapR StoredSettlement (decode_settlement d)"
  "hydrate HYDRATORS ''holdings'' d = mapR StoredHolding (decode_holding d)"
  "hydrate HYDRATORS ''position_lots'' d = mapR StoredLot (decode_position_lot d)"
  "hydrate HYDRATORS ''cash_ledger'' d = mapR StoredCash (decode_cash_ledger_entry d)"
  "hydrate HYDRATORS ''pnl_records'' d = mapR StoredPnl (decode_pnl_record d)"
  "hydrate HYDRATORS ''trading_sessions'' d = mapR StoredSession (decode_trading_session d)"
  "hydrate HYDRATORS ''integrity_holds'' d = mapR StoredHold (decode_integrity_hold d)"
  "hydrate HYDRATORS ''short_exposure_liabilities'' d = mapR StoredLiability (decode_liability d)"
  "hydrate HYDRATORS ''unmanaged_long_inventory'' d = mapR StoredInventory (decode_inventory d)"
  "hydrate HYDRATORS ''quarantine_executions'' d = mapR StoredExecution (decode_quarantine_execution d)"
  "hydrate HYDRATORS ''quarantine_resolutions'' d = mapR StoredResolution (decode_resolution d)"
  "hydrate HYDRATORS ''quarantine_fee_allocations'' d = mapR StoredAllocation (decode_allocation d)"
  "hydrate HYDRATORS ''quarantine_fee_recognitions'' d = mapR StoredRecognition (decode_recognition d)"
  "hydrate HYDRATORS ''legacy_lot_conversions'' d = mapR StoredConversion (decode_conversion d)"
  "hydrate HYDRATORS ''unresolved_broker_executions'' d = mapR StoredUnresolved (decode_unresolved d)"
  "hydrate HYDRATORS ''unresolved_execution_outcomes'' d = mapR StoredOutcome (decode_outcome d)"
  by (simp_all add: hydrate_def HYDRATORS_def)

lemma hydrate_constructs: "storable w m \<Longrightarrow> proper sid \<Longrightarrow> hydrate HYDRATORS (table_of m) (encode_payload w sid m) = construct m"
  by (cases m) (simp_all add: hydrate_decodes fill_back settlement_back intent_back holding_back lot_back cash_back pnl_back hold_back liability_back
      inventory_back execution_back resolution_back allocation_back recognition_back conversion_back unresolved_back outcome_back session_back)

text \<open>C18: A model its constructor returned, written to its table and hydrated again, is the same
  model: no field is lost, defaulted or changed, for any of the eighteen tables. Each decimal
  is written in any form that denotes it; the times lie in the calendar's range; a lot's
  dicts are in key order, the order the stored text has.
\<close>

theorem stored_model_reloads:
  assumes "construct m0 = Inr m" and "storable w m" and "proper sid"
  shows "hydrate HYDRATORS (table_of m) (encode_payload w sid m) = Inr m"
  using hydrate_constructs [OF assms(2,3)] construct_again [OF assms(1)] by simp

definition cents :: writing where "cents q = (\<lfloor>q * 100\<rfloor>, - 2)"

definition demo_stored_lot :: position_lot where
  "demo_stored_lot =
     \<lparr>l_lot_id = ''lot-1'', l_originating_fill_id = ''fill-1'', l_asset = demo_asset CRYPTO None ''BTC/USD'', l_side = Long, l_opened_quantity = 10,
      l_remaining_quantity = 2, l_acquisition_price = 101 / 4, l_opened_at = 0, l_closures = [(''a'', 4), (''b'', 3)], l_realized_pnl = -1,
      l_mfe_price = Some 30, l_mae_price = None, l_asset_fees = [(''fee-1'', 1)]\<rparr>"

lemma cents_writes: "q * 100 = of_int n \<Longrightarrow> writes cents q"
  by (simp add: writes_def cents_def decimal_value_of_def power_int_def power2_eq_square)

lemma demo_lot_storable: "storable cents (StoredLot demo_stored_lot)" "construct (StoredLot demo_stored_lot) = Inr (StoredLot demo_stored_lot)"
proof -
  have d: "list_all (writes cents) (model_decimals (StoredLot demo_stored_lot))"
    by (simp add: demo_stored_lot_def opt_list_def cents_writes [of _ 1000] cents_writes [of _ 200] cents_writes [of _ 2525] cents_writes [of _ "-100"]
        cents_writes [of _ 3000] cents_writes [of _ 400] cents_writes [of _ 300] cents_writes [of _ 100])
  have a: "asset_ok (l_asset demo_stored_lot)" by (simp add: demo_stored_lot_def demo_asset_def asset_ok_def proper_def is_blank_def py_upper_def py_upper_char_def)
  show "storable cents (StoredLot demo_stored_lot)"
    using d a by (simp add: storable_def) (simp add: demo_stored_lot_def in_calendar_def date_of_def EPOCH_ORDINAL_def)
  show "construct (StoredLot demo_stored_lot) = Inr (StoredLot demo_stored_lot)"
    by (simp add: demo_stored_lot_def mapR_def lot_post_init_def require_text_def py_strip_def is_blank_def decimal_value_def opt_positive_def dict_sum_def
        dsum_def dadd_def adopted_identity_ok_def ADOPTED_LOT_PREFIX_def ADOPTION_FILL_PREFIX_def Let_def)
qed

theorem stored_model_reloads_witness:
  "hydrate HYDRATORS ''position_lots'' (encode_payload cents ''session'' (StoredLot demo_stored_lot)) = Inr (StoredLot demo_stored_lot)"
  using stored_model_reloads [OF demo_lot_storable(2) demo_lot_storable(1), of "''session''"] by (simp add: proper_def is_blank_def)

subsection \<open>Whatever hydrates has passed the checks\<close>

text \<open>The conditions the constructors check, by model.\<close>

fun model_wf :: "stored_model \<Rightarrow> bool" where
  "model_wf (StoredIntent t) = intent_wf t"
| "model_wf (StoredFill f) = (0 < f_quantity f \<and> 0 < f_price f \<and> 0 \<le> f_fees f \<and> 0 \<le> f_slippage f
     \<and> (\<forall>b a. f_reference_bid f = Some b \<longrightarrow> f_reference_ask f = Some a \<longrightarrow> 0 < b \<and> b \<le> a))"
| "model_wf (StoredSettlement e) = (0 < e_quantity e \<and> 0 < e_price e \<and> 0 \<le> e_fees e \<and> (e_status e = COMPLETED \<longrightarrow> e_flags e IntegrityStage))"
| "model_wf (StoredHolding h) = holding_wf h"
| "model_wf (StoredLot l) = (lot_wf l \<and> fees_ok (l_asset_fees l))"
| "model_wf (StoredSession s) =
     ((ts_state s = RISK_STOPPED \<longrightarrow> ts_kill_reset s \<and> \<not> ts_active s)
      \<and> (ts_state s = FINANCIAL_INTEGRITY_BLOCKED \<longrightarrow> ts_integrity_reenable s \<and> \<not> ts_active s)
      \<and> (ts_state s = ACTIVE \<longrightarrow> \<not> ts_kill_reset s \<and> \<not> ts_integrity_reenable s))"
| "model_wf (StoredLiability s) = (0 < sl_quantity s \<and> 0 < sl_sale_price s \<and> 0 < sl_multiplier s
     \<and> sl_proceeds s = dmul (dmul (sl_quantity s) (sl_sale_price s)) (sl_multiplier s))"
| "model_wf (StoredInventory u) = (0 < ui_quantity u \<and> 0 < ui_cost_price u \<and> 0 < ui_multiplier u)"
| "model_wf (StoredExecution x) = (0 < qx_quantity x \<and> 0 < qx_price x)"
| "model_wf (StoredResolution r) = (0 < qs_quantity r \<and> 0 < qs_price r)"
| "model_wf (StoredUnresolved u) = (0 < ux_quantity u \<and> 0 < ux_price u)"
| "model_wf (StoredCash _) = True"
| "model_wf (StoredPnl _) = True"
| "model_wf (StoredHold _) = True"
| "model_wf (StoredAllocation _) = True"
| "model_wf (StoredRecognition _) = True"
| "model_wf (StoredConversion _) = True"
| "model_wf (StoredOutcome _) = True"

text \<open>The texts a model is identified by.\<close>

fun model_ids :: "stored_model \<Rightarrow> string list" where
  "model_ids (StoredIntent t) = [ti_id t, ti_idempotency_key t, ti_correlation_id t, ti_strategy t, ti_order_type t]"
| "model_ids (StoredFill f) = [f_id f, f_trade_intent_id f, f_order_id f, f_fee_source f]"
| "model_ids (StoredSettlement e) = [e_id e, e_fill_id e, e_trade_intent_id e]"
| "model_ids (StoredLot l) = [l_lot_id l, l_originating_fill_id l]"
| "model_ids (StoredCash c) = [cash_entry.ce_id c, ce_idempotency_key c, ce_currency c, cash_entry.ce_reason c]"
| "model_ids (StoredPnl p) = [pr_id p]"
| "model_ids (StoredHold h) = [ih_broker_order_id h, ih_trade_intent_id h, ih_reason h]"
| "model_ids (StoredLiability s) = [sl_id s, sl_fill_id s, sl_broker_order_id s, sl_trade_intent_id s]"
| "model_ids (StoredInventory u) = [ui_id u, ui_cover_activity_id u]"
| "model_ids (StoredExecution x) = [qx_activity_id x, qx_digest x]"
| "model_ids (StoredResolution r) = [qs_record_id r, qs_activity_id r]"
| "model_ids (StoredAllocation a) = [fa_fee a, fa_record a]"
| "model_ids (StoredRecognition a) = [fr_record a, fr_event a]"
| "model_ids (StoredConversion c) = [lc_lot_id c, lc_liability_id c, lc_digest c, lc_reason c]"
| "model_ids (StoredUnresolved u) = [ux_activity_id u, ux_asset_key u, ux_digest u, ux_pass_id u]"
| "model_ids (StoredOutcome u) = [uo_activity_id u, uo_matched_id u, uo_digest u]"
| "model_ids (StoredHolding _) = []"
| "model_ids (StoredSession _) = []"

lemma construct_ids: "construct m = Inr m' \<Longrightarrow> list_all proper (model_ids m')"
  by (cases m) (auto simp: mapR_def bindR_Inr_iff intent_post_init_def fill_post_init_def event_post_init_def lot_post_init_def cash_post_init_def
      pnl_post_init_def hold_post_init_def session_post_init_def holding_post_init_Inr_iff quarantine_inits guardR_Inr_iff dest!: require_text_proper)

lemma quarantine_wf:
  "liability_post_init s0 = Inr s \<Longrightarrow> model_wf (StoredLiability s)"
  "inventory_post_init u0 = Inr u \<Longrightarrow> model_wf (StoredInventory u)"
  "execution_post_init x0 = Inr x \<Longrightarrow> model_wf (StoredExecution x)"
  "resolution_post_init r0 = Inr r \<Longrightarrow> model_wf (StoredResolution r)"
  "unresolved_post_init v0 = Inr v \<Longrightarrow> model_wf (StoredUnresolved v)"
  by (auto simp: quarantine_inits res_iffs decimal_value_Inr_iff)

lemma settled_wf:
  "fill_post_init f0 = Inr f \<Longrightarrow> model_wf (StoredFill f)"
  "event_post_init e0 = Inr e \<Longrightarrow> model_wf (StoredSettlement e)"
  "session_post_init s0 = Inr s \<Longrightarrow> model_wf (StoredSession s)"
  by (auto simp: fill_post_init_def event_post_init_def session_post_init_def res_iffs decimal_value_Inr_iff opt_positive_Inr_iff split: option.splits)

lemma construct_wf: "construct m = Inr m' \<Longrightarrow> model_wf m'"
  by (cases m) (auto simp del: model_wf.simps(2,3,6-11) simp: mapR_def bindR_Inr_iff holding_post_init_Inr_iff
      dest: quarantine_wf settled_wf lot_post_init_wf lot_fees_ok intent_post_init_wf)

lemma construct_table: "construct m = Inr m' \<Longrightarrow> table_of m' = table_of m"
  by (cases m) (auto simp: mapR_def bindR_Inr_iff)

lemma construct_asset: "construct m = Inr m' \<Longrightarrow> model_asset m' = model_asset m"
  by (cases m) (auto simp: mapR_def bindR_Inr_iff intent_post_init_def fill_post_init_def event_post_init_def lot_post_init_def cash_post_init_def
      pnl_post_init_def hold_post_init_def session_post_init_def holding_post_init_Inr_iff quarantine_inits guardR_Inr_iff)

lemma as_asset_ok: "as_asset d = Inr a \<Longrightarrow> asset_ok a"
  unfolding as_asset_def decode_asset_identity_def by (elim bindRE) (auto dest: make_asset_ok)

text \<open>A decoder ends in its model's constructor.\<close>

definition built :: "stored_model \<Rightarrow> bool" where
  "built m \<longleftrightarrow> (\<exists>m0. construct m0 = Inr m \<and> (\<forall>a. model_asset m0 = Some a \<longrightarrow> asset_ok a))"

lemma builtI: "construct m0 = Inr m \<Longrightarrow> (\<And>a. model_asset m0 = Some a \<Longrightarrow> asset_ok a) \<Longrightarrow> built m"
  by (auto simp: built_def)

lemma built_intros:
  "intent_post_init t0 = Inr t \<Longrightarrow> asset_ok (ti_asset t0) \<Longrightarrow> built (StoredIntent t)"
  "fill_post_init f0 = Inr f \<Longrightarrow> asset_ok (f_asset f0) \<Longrightarrow> built (StoredFill f)"
  "event_post_init e0 = Inr e \<Longrightarrow> asset_ok (e_asset e0) \<Longrightarrow> built (StoredSettlement e)"
  "holding_post_init h0 = Inr h \<Longrightarrow> asset_ok (h_asset h0) \<Longrightarrow> built (StoredHolding h)"
  "lot_post_init l0 = Inr l \<Longrightarrow> asset_ok (l_asset l0) \<Longrightarrow> built (StoredLot l)"
  "pnl_post_init p0 = Inr p \<Longrightarrow> asset_ok (pr_asset p0) \<Longrightarrow> built (StoredPnl p)"
  "liability_post_init s0 = Inr s \<Longrightarrow> asset_ok (sl_asset s0) \<Longrightarrow> built (StoredLiability s)"
  "inventory_post_init u0 = Inr u \<Longrightarrow> asset_ok (ui_asset u0) \<Longrightarrow> built (StoredInventory u)"
  "execution_post_init x0 = Inr x \<Longrightarrow> asset_ok (qx_asset x0) \<Longrightarrow> built (StoredExecution x)"
  subgoal by (rule builtI [of "StoredIntent t0"]) (simp_all add: mapR_def)
  subgoal by (rule builtI [of "StoredFill f0"]) (simp_all add: mapR_def)
  subgoal by (rule builtI [of "StoredSettlement e0"]) (simp_all add: mapR_def)
  subgoal by (rule builtI [of "StoredHolding h0"]) (simp_all add: mapR_def)
  subgoal by (rule builtI [of "StoredLot l0"]) (simp_all add: mapR_def)
  subgoal by (rule builtI [of "StoredPnl p0"]) (simp_all add: mapR_def)
  subgoal by (rule builtI [of "StoredLiability s0"]) (simp_all add: mapR_def)
  subgoal by (rule builtI [of "StoredInventory u0"]) (simp_all add: mapR_def)
  subgoal by (rule builtI [of "StoredExecution x0"]) (simp_all add: mapR_def)
  done

lemma built_without_asset:
  "cash_post_init c0 = Inr c \<Longrightarrow> built (StoredCash c)"
  "session_post_init s0 = Inr s \<Longrightarrow> built (StoredSession s)"
  "hold_post_init h0 = Inr h \<Longrightarrow> built (StoredHold h)"
  "resolution_post_init r0 = Inr r \<Longrightarrow> built (StoredResolution r)"
  "allocation_post_init a0 = Inr a \<Longrightarrow> built (StoredAllocation a)"
  "recognition_post_init g0 = Inr g \<Longrightarrow> built (StoredRecognition g)"
  "conversion_post_init l0 = Inr l \<Longrightarrow> built (StoredConversion l)"
  "unresolved_post_init u0 = Inr u \<Longrightarrow> built (StoredUnresolved u)"
  "outcome_post_init v0 = Inr v \<Longrightarrow> built (StoredOutcome v)"
  subgoal by (rule builtI [of "StoredCash c0"]) (simp_all add: mapR_def)
  subgoal by (rule builtI [of "StoredSession s0"]) (simp_all add: mapR_def)
  subgoal by (rule builtI [of "StoredHold h0"]) (simp_all add: mapR_def)
  subgoal by (rule builtI [of "StoredResolution r0"]) (simp_all add: mapR_def)
  subgoal by (rule builtI [of "StoredAllocation a0"]) (simp_all add: mapR_def)
  subgoal by (rule builtI [of "StoredRecognition g0"]) (simp_all add: mapR_def)
  subgoal by (rule builtI [of "StoredConversion l0"]) (simp_all add: mapR_def)
  subgoal by (rule builtI [of "StoredUnresolved u0"]) (simp_all add: mapR_def)
  subgoal by (rule builtI [of "StoredOutcome v0"]) (simp_all add: mapR_def)
  done

lemma decoded_built:
  "decode_trade_intent d = Inr t \<Longrightarrow> built (StoredIntent t)"
  "decode_fill d = Inr f \<Longrightarrow> built (StoredFill f)"
  "decode_settlement d = Inr e \<Longrightarrow> built (StoredSettlement e)"
  "decode_holding d = Inr h \<Longrightarrow> built (StoredHolding h)"
  "decode_position_lot d = Inr l \<Longrightarrow> built (StoredLot l)"
  "decode_pnl_record d = Inr p \<Longrightarrow> built (StoredPnl p)"
  "decode_liability d = Inr s \<Longrightarrow> built (StoredLiability s)"
  "decode_inventory d = Inr u \<Longrightarrow> built (StoredInventory u)"
  "decode_quarantine_execution d = Inr x \<Longrightarrow> built (StoredExecution x)"
  unfolding decode_trade_intent_def decode_fill_def decode_settlement_def decode_holding_def decode_position_lot_def decode_pnl_record_def
    decode_liability_def decode_inventory_def decode_quarantine_execution_def
  by (elim bindRE; erule built_intros; simp; erule as_asset_ok)+

lemma decoded_without_asset:
  "decode_cash_ledger_entry d = Inr c \<Longrightarrow> built (StoredCash c)"
  "decode_trading_session d = Inr s \<Longrightarrow> built (StoredSession s)"
  "decode_integrity_hold d = Inr h \<Longrightarrow> built (StoredHold h)"
  "decode_resolution d = Inr r \<Longrightarrow> built (StoredResolution r)"
  "decode_allocation d = Inr a \<Longrightarrow> built (StoredAllocation a)"
  "decode_recognition d = Inr g \<Longrightarrow> built (StoredRecognition g)"
  "decode_conversion d = Inr l \<Longrightarrow> built (StoredConversion l)"
  "decode_unresolved d = Inr u \<Longrightarrow> built (StoredUnresolved u)"
  "decode_outcome d = Inr v \<Longrightarrow> built (StoredOutcome v)"
  unfolding decode_cash_ledger_entry_def decode_trading_session_def decode_integrity_hold_def decode_resolution_def decode_allocation_def
    decode_recognition_def decode_conversion_def decode_unresolved_def decode_outcome_def
  by (elim bindRE; erule built_without_asset)+

definition TABLES :: "string list" where
  "TABLES = map fst HYDRATORS"

lemma hydrate_unknown: "table \<notin> set TABLES \<Longrightarrow> hydrate HYDRATORS table d = Inl (ValueError ''no hydrator registered for table'')"
  by (simp add: hydrate_def TABLES_def map_of_eq_None_iff [symmetric])

lemma hydrate_built: "hydrate HYDRATORS table d = Inr m \<Longrightarrow> built m \<and> table_of m = table"
  by (auto simp: hydrate_def HYDRATORS_def mapR_def bindR_Inr_iff split: option.splits if_splits dest: decoded_built decoded_without_asset)

text \<open>C19: What \<open>hydrate\<close> returns for any stored payload, however it was written, is a model of that
  table whose amounts, statuses, texts and instrument have passed its constructor's checks.
  A table without a decoder is refused.
\<close>

theorem hydrated_model_checked:
  "case hydrate HYDRATORS table d of
     Inl e \<Rightarrow> table \<in> set TABLES \<or> e = ValueError ''no hydrator registered for table''
   | Inr m \<Rightarrow> table_of m = table \<and> model_wf m \<and> list_all proper (model_ids m)
       \<and> (case model_asset m of None \<Rightarrow> True | Some a \<Rightarrow> asset_ok a)"
proof (cases "hydrate HYDRATORS table d")
  case (Inl e)
  then show ?thesis using hydrate_unknown [of table d] by auto
next
  case (Inr m)
  then have b: "built m" "table_of m = table" by (simp_all add: hydrate_built)
  then obtain m0 where m0: "construct m0 = Inr m" "\<And>a. model_asset m0 = Some a \<Longrightarrow> asset_ok a" by (auto simp: built_def)
  then show ?thesis
    using Inr b(2) construct_wf [OF m0(1)] construct_ids [OF m0(1)] construct_asset [OF m0(1)] by (simp split: option.splits)
qed

end
