(* ===== verification/Spec2Isabelle.thy ===== *)
theory Spec2Isabelle
  imports Portfolio_View Funding Settlement_Run Monitor Baseline Fill_Cursor Gateway_Buy Round_Trip
begin

text \<open>
  Verification library of TradePulse, an automated trading program (Python, \<open>src/tradepulse\<close>).

  \<^bold>\<open>The program.\<close> A scanner proposes entries and a position monitor proposes exits; both
  hand an \<open>ExecutionRequest\<close> to the execution gateway, which asks the session gate, the risk
  engine, the balance-band entry policy and the sellable bound before it sends an order, under
  a reservation of the asset. Fills become settlement events; the settlement engine turns
  each event into lots, a holding, cash and profit journal rows and an attribution, exactly
  once, and raises a hold and a session block when the books do not agree. Operators move the
  session with commands. Everything is kept in SQLite tables of JSON payloads.

  \<^bold>\<open>Conventions.\<close> A raised exception is \<open>Inl e\<close>, a returned value \<open>Inr v\<close> (\<open>Prelude\<close>: \<open>res\<close>,
  \<open>bindR\<close>). A routine with effects is a \<open>prog\<close>: it returns its result with the store it left,
  so writes committed before a raise stay; \<open>writeP\<close> is one transaction, which a raise rolls
  back. Python's \<open>Decimal\<close> is a rational with every operation rounded to the 28 significant
  digits of the default context, half to even (\<open>Decimals\<close>: \<open>ctx\<close>, \<open>dadd\<close>, \<open>dsub\<close>, \<open>dmul\<close>,
  \<open>ddiv\<close>); infinities and NaN occur only where input is validated (\<open>xdec\<close>). The exponent
  range of a Decimal is taken to be unbounded, and trailing zeros are not kept. Times are
  microseconds, calendar days are day numbers. What the program gets from outside (the broker,
  providers, clocks, \<open>uuid4\<close>, digests, the time-zone library) is an argument: the records \<open>env\<close>
  and \<open>port\<close> and plain parameters. Coroutines are modelled as the sequence of their database
  transactions; where a claim is about concurrent coordinators (locks, claims, creates) it is
  stated over arbitrary interleavings of those transactions.

  \<^bold>\<open>Theories, in the order of their imports.\<close>
  \<^item> \<open>Prelude\<close>: results, routines, \<open>keeps\<close> (what every step of a routine preserves).
  \<^item> \<open>Decimals\<close>: context rounding. The locale \<open>rounding\<close> states its laws (monotone, idempotent,
    exact on representable numbers) and is interpreted on \<open>ctx\<close> as \<open>dctx\<close>; decimal grids, on
    which sums are exact.
  \<^item> \<open>Market\<close>: \<open>models/market.py\<close>, \<open>models/base.py\<close>, the enums: asset identity and its key.
  \<^item> \<open>Portfolio\<close>: \<open>models/portfolio.py\<close>, \<open>models/fill.py\<close>, \<open>models/settlement.py\<close>: the records with
    their construction checks. \<open>Intents\<close>: \<open>models/trade_intent.py\<close>.
  \<^item> \<open>Repository\<close>: \<open>persistence/repositories.py\<close> over a table as a list of rows: create-once,
    guarded update, delete and mutate, claims, keyset pagination. Locales \<open>record_store\<close> and
    \<open>keyset_source\<close>, interpreted on the table operations.
  \<^item> \<open>Reservation\<close>: \<open>persistence/lock.py\<close>, \<open>execution/idempotency.py\<close>: leases, symbol
    reservations, idempotency keys; runs of lock operations.
  \<^item> \<open>Lots\<close>, \<open>Stages\<close>: \<open>settlement/lots.py\<close> and \<open>settlement/stages.py\<close>: the FIFO plan of a fill,
    the resumable stages (locale \<open>staged_run\<close>), retry classification.
  \<^item> \<open>Session\<close>: \<open>risk/session.py\<close>, \<open>session_commands.py\<close>: the session state machine as an
    inductive step relation, its reachable states; locale \<open>guarded_transition\<close>, interpreted on
    all seven decisions.
  \<^item> \<open>Epochs\<close>: \<open>reconciliation/epochs.py\<close>: the accounting epochs of crypto fills, which guard new
    entries until the fees of earlier ones are reconciled.
  \<^item> \<open>Quarantine\<close>, \<open>Ledger\<close>: quarantined inventory, attribution, adoption, deliver-once alerts, and
    the tables as one record \<open>ledger\<close>.
  \<^item> \<open>Accounting\<close>: \<open>settlement/accounting.py\<close> (locale \<open>journal\<close>, interpreted on the cash and the
    profit journal). \<open>Settlement\<close>: \<open>settlement/engine.py\<close>; \<open>Lot_Replay\<close>: its lot stage run again;
    \<open>Settlement_Run\<close>: a whole settlement.
  \<^item> \<open>Risk_Limits\<close>, \<open>Risk\<close>: \<open>models/risk.py\<close>, \<open>risk/engine.py::evaluate_risk\<close> (locale \<open>sizing_cap\<close>,
    interpreted on the four caps). \<open>Portfolio_View\<close>: \<open>build_portfolio_view\<close> and its parts.
  \<^item> \<open>Dbae\<close>, \<open>Funding\<close>: \<open>dbae/bands.py\<close>, \<open>dbae/policy.py\<close>, \<open>dbae/funding.py\<close>: the entry policy by
    account balance, quantity shaping, the funding committed to pending buys.
  \<^item> \<open>Sellable\<close>: \<open>execution/sellable.py\<close>, \<open>broker/symbols.py\<close>: how much of a position may be sold.
  \<^item> \<open>Fill_Attribution\<close>: \<open>execution/fill_attribution.py\<close>: broker activities into fills and settlement
    events, the order-level quantity check and its holds, the finalization of an order.
  \<^item> \<open>Calendar\<close>, \<open>Calendar_Checks\<close>: \<open>calendar/__init__.py\<close>, \<open>calendar/checks.py\<close>,
    \<open>calendar/disagreement.py\<close>: sessions, the daily cross-check against the broker, the status it
    confers on a date and the entry window. \<open>Evidence\<close>: the append-only evidence tables.
    \<open>Baseline\<close>: \<open>dbae/baseline.py\<close>: the session baseline that chooses the balance band.
  \<^item> \<open>Activity_History\<close>, \<open>Unresolved\<close>, \<open>Completeness\<close>: \<open>reconciliation/bootstrap.py\<close>, \<open>unresolved.py\<close>,
    \<open>completeness.py\<close>: what an activity of the broker does to quantities and cash, the durable
    fill cursor, unresolved executions and their outcomes, the proofs of the history.
    \<open>Fill_Cursor\<close>: the runs of these operations and what every fill the cursor passed has.
  \<^item> \<open>Fee_Shares\<close>, \<open>Resolution\<close>, \<open>Legacy\<close>: \<open>quarantine/fees.py\<close>, \<open>resolve.py\<close>, \<open>corporate_actions.py\<close>,
    \<open>release.py\<close>, \<open>legacy.py\<close>: the shares of a fee, the command that records a broker execution of
    quarantined inventory, the conversion of an old short lot into a liability.
  \<^item> \<open>Texts\<close>, \<open>Codec\<close>, \<open>Hydration\<close>, \<open>Round_Trip\<close>: \<open>time.py\<close>, \<open>persistence/codec.py\<close>,
    \<open>persistence/hydration.py\<close>: the text of decimals and times, JSON payloads, the decoder of every
    modelled table, and that storing and hydrating gives the model back.
  \<^item> \<open>Quotes\<close>: \<open>execution/quotes.py\<close>. \<open>Execution\<close>, \<open>Gateway\<close>: the request, the result, the state and
    the steps of \<open>execution/gateway.py\<close>; every step that awaits lets an arbitrary function of the other
    coroutines change the ledger first. \<open>Gateway_Entry\<close> and \<open>Gateway_Sell\<close>: the authorization of a buy
    and of a sell; \<open>Gateway_Decide\<close>: the decision under the portfolio-risk lock; \<open>Gateway_Poll\<close>: an
    order that may exist; \<open>Gateway_Run\<close>: \<open>execute_intent\<close>. \<open>Gateway_Trace\<close>, \<open>Gateway_Demo\<close>,
    \<open>Gateway_Safety\<close>, \<open>Gateway_Buy\<close>: what a call adds to the history of checks and orders, one
    concrete run, and what a sent order has passed.
  \<^item> \<open>Dates\<close>, \<open>Exits\<close>, \<open>Monitor\<close>: \<open>monitor/coordinator.py\<close>: ISO dates, the exit decisions, the cycle.

  \<^bold>\<open>What is shown.\<close> Entries: an approved entry respects every cap and gate, a decision is always
  reached, view and gate together keep the position limit, funding is never overcommitted,
  the entry policy permits on complete evidence only. Orders: one call of the gateway sends at
  most one order, after every check of the submission boundary in its order; a sent sell is
  covered, a sent buy is authorized, funded and can be exited; a request whose first order may
  exist is looked up, not sent again. Exits: sells are approved in full and
  covered by inventory, every order of the monitor is a sound exit, the stop only tightens,
  one instrument's failure stays its own. Session: every reachable session is well formed and
  explained by its audit trail; which operation leaves which block. Settlement: FIFO
  conservation, replay safety of every stage, exactly-once journals, a completed settlement
  is evidenced and durable, a failed one is recorded, a held order never settles. Fills: a
  broker fill enters the books once, a contradicted order is held and its events quarantined,
  a crypto entry waits for the accounting of the previous one, every broker fill the cursor
  has passed is explained. Quarantine: an execution resolves the open records in full and
  once, no record beyond its whole, fees are split and recognised exactly. Storage: a stored
  model is read back as it was, whatever is read back has passed its checks,
  guarded writes are fenced, creates are idempotent, pagination is complete, leases are
  exclusive and never stuck.

  \<^bold>\<open>Bounds.\<close> Pagination is a \<open>partial_function (option)\<close>; \<open>list_all_by_payload_complete\<close> proves
  that it returns for every finite table and page size of at least one, so no fuel is chosen.
  The gateway's poll loop runs until a deadline; its model takes the number of rounds,
  \<open>gp_polls\<close>, and the properties hold for every number. Everything else recurses on its data. The retry schedule's bounds are the source's (base 5 s,
  maximum 900 s, five attempts); lock lifetimes are the source's TTLs.

  \<^bold>\<open>Not modelled.\<close> Inventory adoption and the reconciliation pass other than its fill cursor; the
  scanner and strategies (binary floating point signals, whose orders pass the modelled gates);
  HTTP clients, providers, the simulated broker, the web and command-line front ends, process
  supervision and configuration parsing (I/O); the exchange-calendar
  library and the time-zone data, which are arguments of the calendar; evidence
  artifacts of the verification package; the SQLite layer; the decoders of tables whose models are not here. Telegram sends
  leave no trace in the model; alert texts are kept without their numbers.
\<close>

end
